(* ===== verification/Dedalus_Prelude.thy ===== *)
theory Dedalus_Prelude
  imports Complex_Main "HOL-Library.Word"
begin

text \<open>
  Shared vocabulary of the development: the model of C++ floating-point values, the
  standard-library functions the sources call on them (\<open>std::min\<close>, \<open>std::max\<close>,
  \<open>std::clamp\<close>, \<open>std::isfinite\<close>, \<open>std::sqrt\<close>, \<open>std::exp\<close>, the
  cast of a floored value to \<open>int\<close>), the machine integers, and the plain structs of
  \<open>include/dedalus/core/types.hpp\<close> used by several components.

  A \<open>double\<close> (and a \<open>float\<close>) is a real number, an infinity or NaN.  Arithmetic on
  finite values is exact: rounding, overflow of finite values to an infinity and the sign of
  zero are not modelled.  Everything the sources do with non-finite values is: comparisons
  with NaN are false, \<open>std::min\<close> and \<open>std::max\<close> depend on the order of their
  arguments when one of them is NaN, \<open>inf - inf\<close> is NaN.
\<close>

named_theorems dbl_simps \<open>unfolding rules of the floating-point helpers\<close>

section \<open>Floating-point values\<close>

datatype double = Fin real | PInf | NInf | NaN

instantiation double :: "{zero, one, plus, minus, uminus, times, inverse, ord}"
begin

definition zero_double :: double where "zero_double = Fin 0"
definition one_double :: double where "one_double = Fin 1"

fun uminus_double :: "double \<Rightarrow> double" where
  "uminus_double (Fin x) = Fin (- x)"
| "uminus_double PInf = NInf"
| "uminus_double NInf = PInf"
| "uminus_double NaN = NaN"

fun plus_double :: "double \<Rightarrow> double \<Rightarrow> double" where
  "plus_double (Fin x) (Fin y) = Fin (x + y)"
| "plus_double NaN _ = NaN"
| "plus_double _ NaN = NaN"
| "plus_double PInf NInf = NaN"
| "plus_double NInf PInf = NaN"
| "plus_double PInf _ = PInf"
| "plus_double _ PInf = PInf"
| "plus_double NInf _ = NInf"
| "plus_double _ NInf = NInf"

definition minus_double :: "double \<Rightarrow> double \<Rightarrow> double" where
  "minus_double a b = a + - b"

fun times_double :: "double \<Rightarrow> double \<Rightarrow> double" where
  "times_double (Fin x) (Fin y) = Fin (x * y)"
| "times_double NaN _ = NaN"
| "times_double _ NaN = NaN"
| "times_double PInf PInf = PInf"
| "times_double NInf NInf = PInf"
| "times_double PInf NInf = NInf"
| "times_double NInf PInf = NInf"
| "times_double (Fin x) PInf = (if x = 0 then NaN else if 0 < x then PInf else NInf)"
| "times_double (Fin x) NInf = (if x = 0 then NaN else if 0 < x then NInf else PInf)"
| "times_double PInf (Fin x) = (if x = 0 then NaN else if 0 < x then PInf else NInf)"
| "times_double NInf (Fin x) = (if x = 0 then NaN else if 0 < x then NInf else PInf)"

fun divide_double :: "double \<Rightarrow> double \<Rightarrow> double" where
  "divide_double (Fin x) (Fin y) =
     (if y \<noteq> 0 then Fin (x / y) else if x = 0 then NaN else if 0 < x then PInf else NInf)"
| "divide_double NaN _ = NaN"
| "divide_double _ NaN = NaN"
| "divide_double (Fin x) _ = Fin 0"
| "divide_double PInf (Fin y) = (if 0 \<le> y then PInf else NInf)"
| "divide_double NInf (Fin y) = (if 0 \<le> y then NInf else PInf)"
| "divide_double _ _ = NaN"

definition inverse_double :: "double \<Rightarrow> double" where
  "inverse_double x = divide (Fin 1) x"

fun less_double :: "double \<Rightarrow> double \<Rightarrow> bool" where
  "less_double (Fin x) (Fin y) = (x < y)"
| "less_double (Fin _) PInf = True"
| "less_double NInf PInf = True"
| "less_double NInf (Fin _) = True"
| "less_double _ _ = False"

fun less_eq_double :: "double \<Rightarrow> double \<Rightarrow> bool" where
  "less_eq_double (Fin x) (Fin y) = (x \<le> y)"
| "less_eq_double NaN _ = False"
| "less_eq_double _ NaN = False"
| "less_eq_double NInf _ = True"
| "less_eq_double _ PInf = True"
| "less_eq_double _ _ = False"

instance ..

end

instance double :: semigroup_add
proof
  fix a b c :: double
  show "a + b + c = a + (b + c)"
    by (cases a; cases b; cases c) simp_all
qed

instance double :: numeral ..

lemma double_zero [simp]: "(0::double) = Fin 0"
  by (simp add: zero_double_def)

lemma double_one [simp]: "(1::double) = Fin 1"
  by (simp add: one_double_def)

lemma numeral_double [simp]: "(numeral n :: double) = Fin (numeral n)"
proof (induction n)
  case One
  show ?case by simp
next
  case (Bit0 n)
  then show ?case by (simp only: numeral_Bit0 plus_double.simps)
next
  case (Bit1 n)
  then show ?case by (simp only: numeral_Bit1 plus_double.simps double_one)
qed

lemma minus_double_simps [simp]:
  "Fin x - Fin y = Fin (x - y)" "NaN - a = NaN" "a - NaN = NaN"
  "PInf - Fin x = PInf" "NInf - Fin x = NInf" "Fin x - PInf = NInf" "Fin x - NInf = PInf"
  "PInf - PInf = NaN" "NInf - NInf = NaN" "PInf - NInf = PInf" "NInf - PInf = NInf"
  by (cases a; simp add: minus_double_def)+

text \<open>\<open>std::isfinite\<close>, and C++'s \<open>==\<close>, which NaN does not satisfy even with itself.\<close>

fun isfinite :: "double \<Rightarrow> bool" where
  "isfinite (Fin _) = True"
| "isfinite _ = False"

definition is_nan :: "double \<Rightarrow> bool" where
  "is_nan x \<longleftrightarrow> x = NaN"

definition deq :: "double \<Rightarrow> double \<Rightarrow> bool" where
  "deq a b \<longleftrightarrow> a = b \<and> a \<noteq> NaN"

fun real_of_double :: "double \<Rightarrow> real" where
  "real_of_double (Fin x) = x"
| "real_of_double _ = 0"

text \<open>\<open>std::min(a, b)\<close> is \<open>b < a ? b : a\<close> and \<open>std::max(a, b)\<close> is \<open>a < b ? b : a\<close>.\<close>

definition std_min :: "double \<Rightarrow> double \<Rightarrow> double" where
  "std_min a b = (if b < a then b else a)"

definition std_max :: "double \<Rightarrow> double \<Rightarrow> double" where
  "std_max a b = (if a < b then b else a)"

definition std_clamp :: "double \<Rightarrow> double \<Rightarrow> double \<Rightarrow> double" where
  "std_clamp v lo hi = (if v < lo then lo else if hi < v then hi else v)"

fun std_sqrt :: "double \<Rightarrow> double" where
  "std_sqrt (Fin x) = (if x < 0 then NaN else Fin (sqrt x))"
| "std_sqrt PInf = PInf"
| "std_sqrt _ = NaN"

fun std_exp :: "double \<Rightarrow> double" where
  "std_exp (Fin x) = Fin (exp x)"
| "std_exp PInf = PInf"
| "std_exp NInf = Fin 0"
| "std_exp NaN = NaN"

fun std_abs :: "double \<Rightarrow> double" where
  "std_abs (Fin x) = Fin \<bar>x\<bar>"
| "std_abs NInf = PInf"
| "std_abs x = x"

text \<open>
  \<open>static_cast<int>(std::floor(x))\<close>.  C++ leaves the cast of a value outside the range of
  \<open>int\<close> undefined; the model returns \<open>INT_MIN\<close>, the x86-64 result, there, and every
  theorem about keys names the range it needs.
\<close>

definition int_min :: int where "int_min = - 2147483648"
definition int_max :: int where "int_max = 2147483647"

definition in_int_range :: "int \<Rightarrow> bool" where
  "in_int_range i \<longleftrightarrow> int_min \<le> i \<and> i \<le> int_max"

fun floor_to_int :: "double \<Rightarrow> int" where
  "floor_to_int (Fin x) = (if in_int_range \<lfloor>x\<rfloor> then \<lfloor>x\<rfloor> else int_min)"
| "floor_to_int _ = int_min"

text \<open>\<open>static_cast<int>(std::ceil(x))\<close>, with the x86-64 result outside the range of \<open>int\<close>.\<close>

fun ceil_to_int :: "double \<Rightarrow> int" where
  "ceil_to_int (Fin x) = (if in_int_range \<lceil>x\<rceil> then \<lceil>x\<rceil> else int_min)"
| "ceil_to_int _ = int_min"

text \<open>Two helpers with the same text in several translation units.\<close>

definition clamp01 :: "double \<Rightarrow> double" where
  "clamp01 v = std_max 0 (std_min v 1)"

definition clamp_score :: "double \<Rightarrow> double \<Rightarrow> double" where
  "clamp_score v max_score = std_max 0 (std_min v max_score)"

definition sigmoid :: "double \<Rightarrow> double" where
  "sigmoid x = 1 / (1 + std_exp (- x))"

lemmas [dbl_simps] = std_min_def std_max_def std_clamp_def deq_def is_nan_def

section \<open>Facts about floating-point values\<close>

lemma double_less_irrefl [simp]: "\<not> (a::double) < a"
  by (cases a) simp_all

lemma double_less_le: "(a::double) < b \<Longrightarrow> a \<le> b"
  by (cases a; cases b) simp_all

lemma double_le_refl [simp]: "(a::double) \<le> a \<longleftrightarrow> a \<noteq> NaN"
  by (cases a) simp_all

lemma double_less_trans: "(a::double) < b \<Longrightarrow> b < c \<Longrightarrow> a < c"
  by (cases a; cases b; cases c) simp_all

lemma double_le_trans: "(a::double) \<le> b \<Longrightarrow> b \<le> c \<Longrightarrow> a \<le> c"
  by (cases a; cases b; cases c) simp_all

lemma double_not_less: "a \<noteq> NaN \<Longrightarrow> b \<noteq> NaN \<Longrightarrow> \<not> (a::double) < b \<longleftrightarrow> b \<le> a"
  by (cases a; cases b) auto

lemma isfinite_iff: "isfinite a \<longleftrightarrow> (\<exists>x. a = Fin x)"
  by (cases a) auto

lemma isfinite_arith [simp]:
  "isfinite a \<Longrightarrow> isfinite b \<Longrightarrow> isfinite (a + b)"
  "isfinite a \<Longrightarrow> isfinite b \<Longrightarrow> isfinite (a - b)"
  "isfinite a \<Longrightarrow> isfinite b \<Longrightarrow> isfinite (a * b)"
  "isfinite (- a) = isfinite a"
  by (cases a; cases b; simp)+

lemma clamp01_range: "0 \<le> clamp01 v \<and> clamp01 v \<le> 1"
  by (cases v) (auto simp: clamp01_def dbl_simps)

lemma clamp01_isfinite [simp]: "isfinite (clamp01 v)"
  by (cases v) (auto simp: clamp01_def dbl_simps)

lemma clamp01_Fin: "clamp01 (Fin x) = Fin (max 0 (min x 1))"
  by (auto simp: clamp01_def dbl_simps)

lemma clamp_score_range: "0 \<le> m \<Longrightarrow> 0 \<le> clamp_score v m \<and> clamp_score v m \<le> m"
  by (cases v; cases m) (auto simp: clamp_score_def dbl_simps)

lemma std_clamp_not_outside:
  assumes "lo \<le> hi"
  shows "\<not> std_clamp v lo hi < lo \<and> \<not> hi < std_clamp v lo hi"
  using assms by (cases v; cases lo; cases hi) (auto simp: dbl_simps)

lemma std_clamp_isfinite:
  "isfinite v \<Longrightarrow> isfinite lo \<Longrightarrow> isfinite hi \<Longrightarrow> isfinite (std_clamp v lo hi)"
  by (simp add: std_clamp_def)

lemma sigmoid_Fin: "sigmoid (Fin x) = Fin (1 / (1 + exp (- x)))"
proof -
  have "1 + exp (- x) \<noteq> 0"
    using exp_gt_zero [of "- x"] by linarith
  then show ?thesis by (simp add: sigmoid_def)
qed

lemma sigmoid_range: "x \<noteq> NaN \<Longrightarrow> 0 \<le> sigmoid x \<and> sigmoid x \<le> 1"
proof (cases x)
  case (Fin r)
  then show ?thesis by (simp add: sigmoid_Fin divide_le_eq_1 add_pos_pos)
qed (simp_all add: sigmoid_def)

lemma sigmoid_pos: "isfinite x \<Longrightarrow> 0 < sigmoid x"
  by (cases x) (simp_all add: sigmoid_Fin add_pos_pos)

lemma sigmoid_ge_half: "isfinite x \<Longrightarrow> Fin (1/2) \<le> sigmoid x \<longleftrightarrow> 0 \<le> x"
proof (cases x)
  case (Fin r)
  have "0 < 1 + exp (- r)" using exp_gt_zero [of "- r"] by linarith
  with Fin show ?thesis by (simp add: sigmoid_Fin field_simps)
qed simp_all

section \<open>Machine integers and the structs of core/types.hpp\<close>

type_synonym u32 = "32 word"
type_synonym u64 = "64 word"

text \<open>\<open>Nanoseconds\<close> is a signed 64-bit integer; a \<open>TimePoint\<close> holds one.\<close>

record TimePoint =
  timestamp_ns :: int

record Vec3 =
  vx :: double
  vy :: double
  vz :: double

abbreviation vec3 :: "double \<Rightarrow> double \<Rightarrow> double \<Rightarrow> Vec3" where
  "vec3 x y z \<equiv> \<lparr>vx = x, vy = y, vz = z\<rparr>"

abbreviation vec3_zero :: Vec3 where
  "vec3_zero \<equiv> vec3 0 0 0"

record Bounds3 =
  bmin :: Vec3
  bmax :: Vec3

definition finite_point :: "Vec3 \<Rightarrow> bool" where
  "finite_point p \<longleftrightarrow> isfinite (vx p) \<and> isfinite (vy p) \<and> isfinite (vz p)"

lemma finite_point_vec3 [simp]:
  "finite_point (vec3 x y z) \<longleftrightarrow> isfinite x \<and> isfinite y \<and> isfinite z"
  by (simp add: finite_point_def)

section \<open>Sets and lists\<close>

text \<open>
  An \<open>std::unordered_set\<close> is a duplicate-free list: \<open>insert\<close> leaves a set that already
  has the element unchanged.  The order of the list stands for the unspecified iteration
  order; the components prove that their results do not depend on it.
\<close>

definition set_insert :: "'a \<Rightarrow> 'a list \<Rightarrow> 'a list" where
  "set_insert x xs = (if x \<in> set xs then xs else xs @ [x])"

lemma set_set_insert [simp]: "set (set_insert x xs) = insert x (set xs)"
  by (auto simp: set_insert_def)

lemma distinct_set_insert [simp]: "distinct xs \<Longrightarrow> distinct (set_insert x xs)"
  by (simp add: set_insert_def)

lemma set_fold_set_insert: "set (fold set_insert ys xs) = set ys \<union> set xs"
  by (induction ys arbitrary: xs) auto

lemma distinct_fold_set_insert: "distinct xs \<Longrightarrow> distinct (fold set_insert ys xs)"
  by (induction ys arbitrary: xs) auto

text \<open>An invariant kept by every step of a fold holds at its end.\<close>

lemma fold_invariant_step:
  assumes "P s" and "\<And>x s. x \<in> set xs \<Longrightarrow> P s \<Longrightarrow> P (f x s)"
  shows "P (fold f xs s)"
  using assms by (induction xs arbitrary: s) auto

end
