(* ===== verification/Voxel_Store.thy ===== *)
theory Voxel_Store
  imports Dedalus_Prelude
begin

text \<open>
  What the three voxel maps share: the integer grid (\<open>CellKey\<close>, \<open>key_for_point\<close>,
  \<open>center_for_key\<close>) and the storage scheme, a vector of stored cells with a hash index from
  the key of a cell to its position.  \<open>idx_ok\<close> is the invariant that ties the two together;
  the lemmas say how appending, updating in place and removing by swapping with the last
  element keep it, and that looking a key up through the index is looking it up in the
  abstract map of the cells.

  The locale \<open>voxel_grid\<close> states what a map needs of its grid, and \<open>delta_stream\<close> the
  contract of a map that hands its changes on by draining the set of touched keys; the map
  theories interpret both.
\<close>

section \<open>The grid\<close>

record CellKey =
  kx :: int
  ky :: int
  kz :: int

abbreviation cell_key :: "int \<Rightarrow> int \<Rightarrow> int \<Rightarrow> CellKey" where
  "cell_key x y z \<equiv> \<lparr>kx = x, ky = y, kz = z\<rparr>"

definition grid_key :: "double \<Rightarrow> double \<Rightarrow> Vec3 \<Rightarrow> CellKey" where
  "grid_key cell_size vertical_size p =
     cell_key (floor_to_int (vx p / cell_size))
              (floor_to_int (vy p / cell_size))
              (floor_to_int (vz p / vertical_size))"

definition grid_center :: "double \<Rightarrow> double \<Rightarrow> CellKey \<Rightarrow> Vec3" where
  "grid_center cell_size vertical_size k =
     vec3 ((Fin (of_int (kx k)) + Fin (1/2)) * cell_size)
          ((Fin (of_int (ky k)) + Fin (1/2)) * cell_size)
          ((Fin (of_int (kz k)) + Fin (1/2)) * vertical_size)"

definition key_in_range :: "CellKey \<Rightarrow> bool" where
  "key_in_range k \<longleftrightarrow> in_int_range (kx k) \<and> in_int_range (ky k) \<and> in_int_range (kz k)"

lemma floor_half: "\<lfloor>of_int i + 1 / 2 :: real\<rfloor> = i"
  by linarith

lemma grid_axis_roundtrip:
  assumes "0 < s" and "in_int_range i"
  shows "floor_to_int ((Fin (of_int i) + Fin (1/2)) * Fin s / Fin s) = i"
  using assms by (simp add: floor_half)

lemma grid_key_center:
  assumes "cell_size = Fin s" "0 < s" "vertical_size = Fin v" "0 < v" "key_in_range k"
  shows "grid_key cell_size vertical_size (grid_center cell_size vertical_size k) = k"
  using assms grid_axis_roundtrip [of s "kx k"] grid_axis_roundtrip [of s "ky k"]
    grid_axis_roundtrip [of v "kz k"]
  by (simp add: grid_key_def grid_center_def key_in_range_def del: plus_double.simps times_double.simps)

lemma floor_to_int_in_range [simp]: "in_int_range (floor_to_int d)"
  by (cases d) (auto simp: in_int_range_def int_min_def int_max_def)

lemma key_in_range_grid_key [simp]: "key_in_range (grid_key s v p)"
  by (simp add: key_in_range_def grid_key_def)

text \<open>A point lies in the half-open voxel of its key.\<close>

lemma floor_axis_bounds:
  assumes "0 < s" and "in_int_range \<lfloor>x / s\<rfloor>"
  shows "of_int (floor_to_int (Fin x / Fin s)) * s \<le> x"
    and "x < (of_int (floor_to_int (Fin x / Fin s)) + 1) * s"
proof -
  have eq: "floor_to_int (Fin x / Fin s) = \<lfloor>x / s\<rfloor>"
    using assms by simp
  have "of_int \<lfloor>x / s\<rfloor> \<le> x / s" by linarith
  with \<open>0 < s\<close> show "of_int (floor_to_int (Fin x / Fin s)) * s \<le> x"
    unfolding eq by (rule pos_le_divide_eq [THEN iffD1])
  have "x / s < of_int \<lfloor>x / s\<rfloor> + 1" by linarith
  with \<open>0 < s\<close> show "x < (of_int (floor_to_int (Fin x / Fin s)) + 1) * s"
    unfolding eq by (rule pos_divide_less_eq [THEN iffD1])
qed

locale voxel_grid =
  fixes key_of :: "'cfg \<Rightarrow> Vec3 \<Rightarrow> CellKey"
    and center_of :: "'cfg \<Rightarrow> CellKey \<Rightarrow> Vec3"
    and good :: "'cfg \<Rightarrow> bool"
  assumes key_center: "good c \<Longrightarrow> key_in_range k \<Longrightarrow> key_of c (center_of c k) = k"
    and key_range: "key_in_range (key_of c p)"
begin

lemma center_inj:
  assumes "good c" "key_in_range k" "key_in_range l" "center_of c k = center_of c l"
  shows "k = l"
  using key_center [OF assms(1,2)] key_center [OF assms(1,3)] assms(4) by metis

lemma resnap_idem:
  "good c \<Longrightarrow> key_of c (center_of c (key_of c p)) = key_of c p"
  by (simp add: key_center key_range)

end

section \<open>A vector of cells and the index into it\<close>

definition idx_ok :: "('r \<Rightarrow> 'k) \<Rightarrow> 'r list \<Rightarrow> ('k \<rightharpoonup> nat) \<Rightarrow> bool" where
  "idx_ok key cells index \<longleftrightarrow>
     (\<forall>k i. index k = Some i \<longleftrightarrow> i < length cells \<and> key (cells ! i) = k)"

definition store_get :: "'r list \<Rightarrow> ('k \<rightharpoonup> nat) \<Rightarrow> 'k \<Rightarrow> 'r option" where
  "store_get cells index k = (case index k of None \<Rightarrow> None | Some i \<Rightarrow> Some (cells ! i))"

lemma idx_okD: "idx_ok key cells index \<Longrightarrow> index k = Some i \<Longrightarrow> i < length cells \<and> key (cells ! i) = k"
  by (simp add: idx_ok_def)

lemma idx_ok_nth: "idx_ok key cells index \<Longrightarrow> i < length cells \<Longrightarrow> index (key (cells ! i)) = Some i"
  by (simp add: idx_ok_def)

lemma idx_ok_Nil [simp]: "idx_ok key [] Map.empty"
  by (simp add: idx_ok_def)

lemma idx_ok_dom: "idx_ok key cells index \<Longrightarrow> dom index = key ` set cells"
  by (force simp: idx_ok_def dom_def in_set_conv_nth)

lemma idx_ok_None: "idx_ok key cells index \<Longrightarrow> index k = None \<longleftrightarrow> k \<notin> key ` set cells"
  using idx_ok_dom by blast

lemma idx_ok_distinct: "idx_ok key cells index \<Longrightarrow> distinct (map key cells)"
  unfolding distinct_conv_nth by (metis idx_ok_nth length_map nth_map option.inject)

lemma idx_ok_push:
  assumes "idx_ok key cells index" and "index (key r) = None"
  shows "idx_ok key (cells @ [r]) (index(key r \<mapsto> length cells))"
  using assms unfolding idx_ok_def
  by (auto simp: nth_append less_Suc_eq) (metis option.distinct(1))+

lemma idx_ok_update:
  assumes "idx_ok key cells index" and "key r = key (cells ! i)"
  shows "idx_ok key (cells[i := r]) index"
  using assms unfolding idx_ok_def by (metis length_list_update nth_list_update_eq nth_list_update_neq)

lemma store_get_Some_key: "idx_ok key cells index \<Longrightarrow> store_get cells index k = Some r \<Longrightarrow> key r = k"
  by (auto simp: store_get_def idx_ok_def split: option.splits)

lemma store_get_Some_set: "idx_ok key cells index \<Longrightarrow> store_get cells index k = Some r \<Longrightarrow> r \<in> set cells"
  by (auto simp: store_get_def idx_ok_def split: option.splits)

lemma store_get_of_set: "idx_ok key cells index \<Longrightarrow> r \<in> set cells \<Longrightarrow> store_get cells index (key r) = Some r"
proof -
  assume ok: "idx_ok key cells index" and "r \<in> set cells"
  then obtain i where "i < length cells" "r = cells ! i" by (auto simp: in_set_conv_nth)
  with idx_ok_nth [OF ok, of i] show ?thesis by (simp add: store_get_def)
qed

lemma store_get_iff: "idx_ok key cells index \<Longrightarrow>
   store_get cells index k = Some r \<longleftrightarrow> r \<in> set cells \<and> key r = k"
  using store_get_Some_key [of key cells index k r] store_get_Some_set [of key cells index k r]
    store_get_of_set [of key cells index r] by blast

lemma store_get_None [simp]: "store_get cells index k = None \<longleftrightarrow> index k = None"
  by (auto simp: store_get_def split: option.splits)

text \<open>The index refines the finite map of the cells.\<close>

lemma store_get_map_of:
  assumes "idx_ok key cells index"
  shows "store_get cells index k = map_of (map (\<lambda>r. (key r, r)) cells) k"
proof (cases "store_get cells index k")
  case None
  with assms have "k \<notin> key ` set cells" by (simp add: idx_ok_None)
  then have "k \<notin> fst ` set (map (\<lambda>r. (key r, r)) cells)" by force
  then have "map_of (map (\<lambda>r. (key r, r)) cells) k = None" by (simp only: map_of_eq_None_iff not_False_eq_True)
  with None show ?thesis by simp
next
  case (Some r)
  with assms have r: "r \<in> set cells" "key r = k" by (simp_all add: store_get_iff)
  have "distinct (map fst (map (\<lambda>r. (key r, r)) cells))"
    using idx_ok_distinct [OF assms] by (simp add: comp_def)
  moreover have "(k, r) \<in> set (map (\<lambda>r. (key r, r)) cells)"
    using r by auto
  ultimately show ?thesis using Some by (metis map_of_is_SomeI)
qed

lemma store_get_push:
  assumes "idx_ok key cells index" and "index (key r) = None"
  shows "store_get (cells @ [r]) (index(key r \<mapsto> length cells)) =
         (store_get cells index)(key r \<mapsto> r)"
proof
  fix k
  show "store_get (cells @ [r]) (index(key r \<mapsto> length cells)) k =
        ((store_get cells index)(key r \<mapsto> r)) k"
    using idx_okD [OF assms(1), of k]
    by (cases "index k") (simp_all add: store_get_def nth_append)
qed

lemma store_get_update:
  assumes "idx_ok key cells index" and "i < length cells" and "key r = key (cells ! i)"
  shows "store_get (cells[i := r]) index = (store_get cells index)(key r \<mapsto> r)"
proof
  fix k
  have i: "index (key r) = Some i" using assms by (simp add: idx_ok_nth)
  show "store_get (cells[i := r]) index k = ((store_get cells index)(key r \<mapsto> r)) k"
  proof (cases "k = key r")
    case True
    with i assms(2) show ?thesis by (simp add: store_get_def)
  next
    case False
    then have "index k \<noteq> Some i" using idx_okD [OF assms(1), of k i] assms(3) by auto
    with False show ?thesis by (cases "index k") (auto simp: store_get_def)
  qed
qed

subsection \<open>Removal by swapping with the last element\<close>

definition swap_remove :: "nat \<Rightarrow> 'r list \<Rightarrow> 'r list" where
  "swap_remove i cells =
     (let last_i = length cells - 1
      in butlast (if i \<noteq> last_i then cells[i := cells ! last_i] else cells))"

lemma length_swap_remove [simp]: "length (swap_remove i cells) = length cells - 1"
  by (simp add: swap_remove_def Let_def)

lemma nth_swap_remove:
  assumes "i < length cells" and "j < length cells - 1"
  shows "swap_remove i cells ! j = (if j = i then cells ! (length cells - 1) else cells ! j)"
  using assms by (simp add: swap_remove_def Let_def nth_butlast nth_list_update)

lemma idx_ok_swap_remove:
  assumes ok: "idx_ok key cells index" and k: "index k = Some i"
    and idx': "index' = (let last_i = length cells - 1
        in (if i \<noteq> last_i then index(key (cells ! last_i) \<mapsto> i) else index)(k := None))"
  shows "idx_ok key (swap_remove i cells) index'"
proof -
  let ?n = "length cells - 1"
  from ok k have i: "i < length cells" and ki: "key (cells ! i) = k" by (auto dest: idx_okD)
  then have n: "?n < length cells" by simp
  have uniq: "key (cells ! a) = key (cells ! b) \<Longrightarrow> a = b"
    if "a < length cells" "b < length cells" for a b
    by (metis idx_ok_nth [OF ok that(1)] idx_ok_nth [OF ok that(2)] option.inject)
  have idx'': "index' l = (if l = k then None
      else if i \<noteq> ?n \<and> l = key (cells ! ?n) then Some i else index l)" for l
    by (simp add: idx' Let_def)
  have "index' l = Some j \<longleftrightarrow>
      j < ?n \<and> key (if j = i then cells ! ?n else cells ! j) = l" for l j
  proof -
    consider "l = k" | "l \<noteq> k" "i \<noteq> ?n" "l = key (cells ! ?n)"
      | "l \<noteq> k" "i = ?n \<or> l \<noteq> key (cells ! ?n)" by blast
    then show ?thesis
    proof cases
      case 1
      have "\<not> (j < ?n \<and> key (if j = i then cells ! ?n else cells ! j) = k)"
        using ki uniq [of ?n i] uniq [of j i] i n by (cases "j = i") auto
      with 1 show ?thesis by (simp add: idx'')
    next
      case 2
      have "j < ?n \<and> key (if j = i then cells ! ?n else cells ! j) = l \<longleftrightarrow> i = j"
        using 2 uniq [of j ?n] i n by (cases "j = i") auto
      with 2 show ?thesis by (simp add: idx'')
    next
      case 3
      have "index' l = index l" using 3 idx'' [of l] by auto
      moreover have "index l = Some j \<longleftrightarrow> j < length cells \<and> key (cells ! j) = l"
        using ok by (simp add: idx_ok_def)
      moreover have "j < length cells \<Longrightarrow> key (cells ! j) = l \<Longrightarrow> j < ?n \<and> j \<noteq> i"
        using 3 ki by (cases "j = ?n") auto
      ultimately show ?thesis using 3 i by auto
    qed
  qed
  then show ?thesis
    by (simp add: idx_ok_def nth_swap_remove [OF i] cong: conj_cong)
qed

lemma set_swap_remove:
  assumes "i < length cells" and "distinct cells"
  shows "set (swap_remove i cells) = set cells - {cells ! i}"
proof -
  let ?n = "length cells - 1"
  have "x \<in> set (swap_remove i cells) \<longleftrightarrow> x \<in> set cells \<and> x \<noteq> cells ! i" for x
  proof
    assume "x \<in> set (swap_remove i cells)"
    then obtain j where j: "j < ?n" "x = swap_remove i cells ! j"
      by (auto simp: in_set_conv_nth)
    with assms show "x \<in> set cells \<and> x \<noteq> cells ! i"
      by (auto simp: nth_swap_remove nth_eq_iff_index_eq)
  next
    assume "x \<in> set cells \<and> x \<noteq> cells ! i"
    then obtain j where j: "j < length cells" "x = cells ! j" "j \<noteq> i"
      by (auto simp: in_set_conv_nth)
    show "x \<in> set (swap_remove i cells)"
    proof (cases "j = ?n")
      case True
      with j assms(1) have "swap_remove i cells ! i = x" "i < ?n"
        by (auto simp: nth_swap_remove)
      then show ?thesis by (metis length_swap_remove nth_mem)
    next
      case False
      with j assms(1) have "swap_remove i cells ! j = x" "j < ?n"
        by (auto simp: nth_swap_remove)
      then show ?thesis by (metis length_swap_remove nth_mem)
    qed
  qed
  then show ?thesis by auto
qed

lemma store_get_swap_remove:
  assumes ok: "idx_ok key cells index" and k: "index k = Some i"
    and ok': "idx_ok key (swap_remove i cells) index'"
  shows "store_get (swap_remove i cells) index' = (store_get cells index)(k := None)"
proof
  fix l
  from ok k have i: "i < length cells" and ki: "key (cells ! i) = k" by (auto dest: idx_okD)
  have "distinct cells" using idx_ok_distinct [OF ok] by (simp add: distinct_map)
  with i have set': "set (swap_remove i cells) = set cells - {cells ! i}"
    by (rule set_swap_remove)
  have iff: "store_get (swap_remove i cells) index' l = Some r \<longleftrightarrow>
      ((store_get cells index)(k := None)) l = Some r" for r
  proof -
    have "r \<in> set cells \<Longrightarrow> r = cells ! i \<longleftrightarrow> key r = k"
      using ok ki i k by (metis idx_ok_nth in_set_conv_nth option.inject)
    then show ?thesis by (auto simp: store_get_iff [OF ok'] store_get_iff [OF ok] set')
  qed
  then show "store_get (swap_remove i cells) index' l = ((store_get cells index)(k := None)) l"
    by (metis option.exhaust)
qed

section \<open>Maps that hand on their changes\<close>

text \<open>
  A map with a set of touched keys.  \<open>step s s'\<close> is one update; \<open>drained s\<close> is the list
  of cells a drain returns in state \<open>s\<close> and \<open>after s\<close> the state it leaves.  \<open>view\<close> is
  the part of a cell the consumer mirrors, and \<open>keep\<close> the cells that are handed on at all.
\<close>

locale delta_stream =
  fixes inv :: "'s \<Rightarrow> bool"
    and cell_at :: "'s \<Rightarrow> 'k \<Rightarrow> 'c option"
    and touched :: "'s \<Rightarrow> 'k list"
    and step :: "'s \<Rightarrow> 's \<Rightarrow> bool"
    and drained :: "'s \<Rightarrow> 'c list"
    and after :: "'s \<Rightarrow> 's"
    and view :: "'c \<Rightarrow> 'v"
    and keep :: "'c \<Rightarrow> bool"
  assumes inv_step: "inv s \<Longrightarrow> step s s' \<Longrightarrow> inv s'"
    and touched_step: "inv s \<Longrightarrow> step s s' \<Longrightarrow> set (touched s) \<subseteq> set (touched s')"
    and frame_step: "inv s \<Longrightarrow> step s s' \<Longrightarrow> k \<notin> set (touched s') \<Longrightarrow>
        map_option view (cell_at s' k) = map_option view (cell_at s k)"
    and keep_view: "view c = view c' \<Longrightarrow> keep c = keep c'"
    and inv_after: "inv s \<Longrightarrow> inv (after s)"
    and drained_set: "inv s \<Longrightarrow>
        set (drained s) = {c. \<exists>k \<in> set (touched s). cell_at s k = Some c \<and> keep c}"
    and after_touched: "touched (after s) = []"
    and after_cell: "cell_at (after s) k = cell_at s k"
begin

lemma steps_frame:
  assumes "step\<^sup>*\<^sup>* s t" and "inv s"
  shows "inv t \<and> set (touched s) \<subseteq> set (touched t) \<and>
     (\<forall>k. k \<notin> set (touched t) \<longrightarrow> map_option view (cell_at t k) = map_option view (cell_at s k))"
  using assms
proof (induction rule: rtranclp_induct)
  case base
  then show ?case by simp
next
  case (step t u)
  with inv_step touched_step frame_step show ?case
    by (metis (no_types, lifting) subset_iff)
qed

text \<open>A second drain with no update in between hands on nothing.\<close>

lemma drain_idempotent: "inv s \<Longrightarrow> drained (after s) = []"
  using drained_set [of "after s"] inv_after [of s] after_touched [of s] by simp

text \<open>
  No change is lost: after any run of updates that starts just after a drain, every handed-on
  cell whose mirrored part differs from what it was at that drain is in the next drain.
\<close>

lemma no_change_lost:
  assumes "inv s" and "step\<^sup>*\<^sup>* (after s) t" and "cell_at t k = Some c" and "keep c"
    and "map_option view (cell_at s k) \<noteq> Some (view c)"
  shows "c \<in> set (drained t)"
proof -
  from assms(1) have "inv (after s)" by (rule inv_after)
  with assms(2) have "inv t" and fr: "k \<notin> set (touched t) \<Longrightarrow>
      map_option view (cell_at t k) = map_option view (cell_at (after s) k)"
    by (auto dest: steps_frame)
  moreover have "k \<in> set (touched t)"
    using fr assms(3,5) by (auto simp: after_cell)
  ultimately show ?thesis using assms(3,4) by (auto simp: drained_set)
qed

end

end
