(* ===== verification/Occupancy_Types.thy ===== *)
theory Occupancy_Types
  imports Dedalus_Prelude
begin

text \<open>
  The obstacle-evidence types of \<open>include/dedalus/occupancy/occupancy_types.hpp\<close> and the
  map-frame helpers the map components share.  Field names carry a prefix that names their
  struct (\<open>ev_\<close> for \<open>ObstacleEvidence\<close>); identifier structs with one string member are
  strings.
\<close>

type_synonym MapFrameId = string

datatype OccupancySourceKind =
    SyntheticFixture | AirSimGroundTruth | AirSimGroundTruthVisualEmulation
  | VisualObstacleDetector | DepthProvider | Fused

datatype ObstacleEvidenceState = EvUnknown | EvFree | EvOccupied | EvThinStructureRisk

datatype ObstacleEvidenceShape =
    Voxel | FrustumBin | RaySegment | SurfacePatch | LineSegment | Capsule

record ObstacleEvidence =
  ev_timestamp :: TimePoint
  ev_source_frame_id :: string
  ev_has_source_frame :: bool
  ev_sensor_name :: string
  ev_source_provider :: string
  ev_source_kind :: OccupancySourceKind
  ev_map_frame_id :: MapFrameId
  ev_state :: ObstacleEvidenceState
  ev_shape :: ObstacleEvidenceShape
  ev_center_local :: Vec3
  ev_size_m :: Vec3
  ev_endpoint_a_local :: Vec3
  ev_endpoint_b_local :: Vec3
  ev_radius_m :: double
  ev_has_surface_normal :: bool
  ev_surface_normal_local :: Vec3
  ev_normal_confidence :: double
  ev_occupancy_probability :: double
  ev_free_probability :: double
  ev_confidence :: double
  ev_range_m :: double
  ev_bearing_rad :: double
  ev_elevation_rad :: double
  ev_inside_sensing_volume :: bool
  ev_inside_swept_volume :: bool
  ev_is_static_hint :: bool
  ev_is_thin_structure_hint :: bool
  ev_is_surface_hint :: bool

definition ObstacleEvidence_default :: ObstacleEvidence where
  "ObstacleEvidence_default =
    \<lparr>ev_timestamp = \<lparr>timestamp_ns = 0\<rparr>, ev_source_frame_id = [], ev_has_source_frame = False,
     ev_sensor_name = ''front_center'', ev_source_provider = ''none'',
     ev_source_kind = SyntheticFixture, ev_map_frame_id = ''map_unknown'',
     ev_state = EvUnknown, ev_shape = Voxel, ev_center_local = vec3_zero, ev_size_m = vec3_zero,
     ev_endpoint_a_local = vec3_zero, ev_endpoint_b_local = vec3_zero, ev_radius_m = 0,
     ev_has_surface_normal = False, ev_surface_normal_local = vec3_zero,
     ev_normal_confidence = 0, ev_occupancy_probability = 0, ev_free_probability = 0,
     ev_confidence = 0, ev_range_m = 0, ev_bearing_rad = 0, ev_elevation_rad = 0,
     ev_inside_sensing_volume = False, ev_inside_swept_volume = False,
     ev_is_static_hint = False, ev_is_thin_structure_hint = False, ev_is_surface_hint = False\<rparr>"

definition frame_empty :: "MapFrameId \<Rightarrow> bool" where
  "frame_empty f \<longleftrightarrow> f = []"

definition frame_equal :: "MapFrameId \<Rightarrow> MapFrameId \<Rightarrow> bool" where
  "frame_equal a b \<longleftrightarrow> a = b"

end
