(* ===== verification/Obstacle_Map.thy ===== *)
theory Obstacle_Map
  imports Voxel_Store Occupancy_Types
begin

text \<open>
  \<open>MissionLocalObstacleMap\<close> (\<open>mission_local_obstacle_map.hpp/.cpp\<close>): the raw
  evidence map.  \<open>update\<close> is modelled as the source runs it: decay, choice of the map
  frame, compaction of the evidence to one update per voxel, application of those updates,
  and the summary.
\<close>

section \<open>Data\<close>

record ObstacleMapConfig =
  omc_cell_size_m :: double
  omc_vertical_cell_size_m :: double
  omc_occupied_hit_score :: double
  omc_free_hit_score :: double
  omc_occupied_threshold :: double
  omc_free_threshold :: double
  omc_score_decay_per_second :: double
  omc_max_score :: double
  omc_max_evidence_per_update :: nat

definition ObstacleMapConfig_default :: ObstacleMapConfig where
  "ObstacleMapConfig_default =
    \<lparr>omc_cell_size_m = Fin (1/2), omc_vertical_cell_size_m = Fin (1/2),
     omc_occupied_hit_score = 1, omc_free_hit_score = 1,
     omc_occupied_threshold = 1, omc_free_threshold = 1,
     omc_score_decay_per_second = 0, omc_max_score = 20,
     omc_max_evidence_per_update = 4096\<rparr>"

record ObstacleCell =
  oc_center_map :: Vec3
  oc_size_m :: Vec3
  oc_occupied_score :: double
  oc_free_score :: double
  oc_risk_score :: double
  oc_confidence :: double
  oc_first_observed_timestamp_ns :: u64
  oc_last_observed_timestamp_ns :: u64
  oc_min_z_m :: double
  oc_max_z_m :: double
  oc_observed :: bool
  oc_occupied :: bool
  oc_free :: bool
  oc_positive_observation_count :: u32
  oc_negative_observation_count :: u32
  oc_same_update_duplicate_count :: u32
  oc_last_confirmed_occupied_timestamp_ns :: u64
  oc_last_observed_free_timestamp_ns :: u64
  oc_last_source_kind :: OccupancySourceKind
  oc_last_source_provider :: string

definition ObstacleCell_default :: ObstacleCell where
  "ObstacleCell_default =
    \<lparr>oc_center_map = vec3_zero, oc_size_m = vec3_zero, oc_occupied_score = 0, oc_free_score = 0,
     oc_risk_score = 0, oc_confidence = 0, oc_first_observed_timestamp_ns = 0,
     oc_last_observed_timestamp_ns = 0, oc_min_z_m = 0, oc_max_z_m = 0, oc_observed = False,
     oc_occupied = False, oc_free = False, oc_positive_observation_count = 0,
     oc_negative_observation_count = 0, oc_same_update_duplicate_count = 0,
     oc_last_confirmed_occupied_timestamp_ns = 0, oc_last_observed_free_timestamp_ns = 0,
     oc_last_source_kind = SyntheticFixture, oc_last_source_provider = []\<rparr>"

record ObstacleMapSummary =
  oms_map_frame_id :: MapFrameId
  oms_observed_cell_count :: nat
  oms_occupied_cell_count :: nat
  oms_free_cell_count :: nat
  oms_update_count :: u64
  oms_last_update_timestamp_ns :: u64
  oms_raw_evidence_count :: nat
  oms_accepted_evidence_count :: nat
  oms_compacted_evidence_count :: nat
  oms_duplicate_evidence_count :: nat
  oms_dropped_evidence_count :: nat
  oms_new_cell_count :: nat
  oms_updated_cell_count :: nat

definition ObstacleMapSummary_default :: ObstacleMapSummary where
  "ObstacleMapSummary_default =
    \<lparr>oms_map_frame_id = [], oms_observed_cell_count = 0, oms_occupied_cell_count = 0,
     oms_free_cell_count = 0, oms_update_count = 0, oms_last_update_timestamp_ns = 0,
     oms_raw_evidence_count = 0, oms_accepted_evidence_count = 0,
     oms_compacted_evidence_count = 0, oms_duplicate_evidence_count = 0,
     oms_dropped_evidence_count = 0, oms_new_cell_count = 0, oms_updated_cell_count = 0\<rparr>"

record ObstacleMapSnapshot =
  omp_config :: ObstacleMapConfig
  omp_summary :: ObstacleMapSummary
  omp_cells :: "ObstacleCell list"
  omp_sensor_origin_map :: Vec3
  omp_sensor_origin_valid :: bool

record ObstacleMap =
  om_config :: ObstacleMapConfig
  om_summary :: ObstacleMapSummary
  om_cells :: "(CellKey \<times> ObstacleCell) list"
  om_cell_index :: "CellKey \<rightharpoonup> nat"
  om_has_last_update :: bool
  om_last_update :: TimePoint
  om_touched :: "CellKey list"

section \<open>Operations\<close>

text \<open>The file-local \<open>timestamp_ns\<close> casts the signed nanoseconds to \<open>uint64_t\<close>.\<close>

definition om_timestamp_ns :: "TimePoint \<Rightarrow> u64" where
  "om_timestamp_ns t = word_of_int (timestamp_ns t)"

definition elapsed_seconds :: "TimePoint \<Rightarrow> TimePoint \<Rightarrow> double" where
  "elapsed_seconds from to =
     (let from_ns = om_timestamp_ns from; to_ns = om_timestamp_ns to
      in if to_ns \<le> from_ns then 0
         else Fin (real (unat (to_ns - from_ns))) * Fin (1 / 1000000000))"

definition is_occupied_evidence :: "ObstacleEvidence \<Rightarrow> bool" where
  "is_occupied_evidence e \<longleftrightarrow> ev_state e = EvOccupied"

definition confidence_or_default :: "ObstacleEvidence \<Rightarrow> double" where
  "confidence_or_default e =
     (if isfinite (ev_confidence e) \<and> 0 < ev_confidence e then ev_confidence e else 1)"

definition ObstacleMap_init :: "ObstacleMapConfig \<Rightarrow> ObstacleMap" where
  "ObstacleMap_init config =
     (let c = (if \<not> 0 < omc_cell_size_m config then config\<lparr>omc_cell_size_m := Fin (1/2)\<rparr> else config);
          c = (if \<not> 0 < omc_vertical_cell_size_m c
               then c\<lparr>omc_vertical_cell_size_m := omc_cell_size_m c\<rparr> else c)
      in \<lparr>om_config = c, om_summary = ObstacleMapSummary_default, om_cells = [],
          om_cell_index = Map.empty, om_has_last_update = False,
          om_last_update = \<lparr>timestamp_ns = 0\<rparr>, om_touched = []\<rparr>)"

definition om_key_for_point :: "ObstacleMapConfig \<Rightarrow> Vec3 \<Rightarrow> CellKey" where
  "om_key_for_point c p = grid_key (omc_cell_size_m c) (omc_vertical_cell_size_m c) p"

definition om_center_for_key :: "ObstacleMapConfig \<Rightarrow> CellKey \<Rightarrow> Vec3" where
  "om_center_for_key c k = grid_center (omc_cell_size_m c) (omc_vertical_cell_size_m c) k"

definition decay_cell :: "ObstacleMapConfig \<Rightarrow> double \<Rightarrow> ObstacleCell \<Rightarrow> ObstacleCell" where
  "decay_cell c decay cell =
     (let occ = clamp_score (oc_occupied_score cell - decay) (omc_max_score c);
          fre = clamp_score (oc_free_score cell - decay) (omc_max_score c);
          rsk = clamp_score (oc_risk_score cell - decay) (omc_max_score c)
      in cell\<lparr>oc_occupied_score := occ, oc_free_score := fre, oc_risk_score := rsk,
              oc_occupied := omc_occupied_threshold c \<le> occ,
              oc_free := omc_free_threshold c \<le> fre\<rparr>)"

definition decay_to :: "TimePoint \<Rightarrow> ObstacleMap \<Rightarrow> ObstacleMap" where
  "decay_to now m =
     (let c = om_config m
      in if \<not> om_has_last_update m \<or> omc_score_decay_per_second c \<le> 0 then m
         else let decay = omc_score_decay_per_second c * elapsed_seconds (om_last_update m) now
              in if decay \<le> 0 then m
                 else m\<lparr>om_cells := map (\<lambda>(k, cell). (k, decay_cell c decay cell)) (om_cells m)\<rparr>)"

definition om_refresh_summary :: "ObstacleMap \<Rightarrow> ObstacleMap" where
  "om_refresh_summary m =
     m\<lparr>om_summary := (om_summary m)
        \<lparr>oms_observed_cell_count := length (filter (\<lambda>(k, c). oc_observed c) (om_cells m)),
         oms_occupied_cell_count := length (filter (\<lambda>(k, c). oc_occupied c) (om_cells m)),
         oms_free_cell_count := length (filter (\<lambda>(k, c). oc_free c) (om_cells m))\<rparr>\<rparr>"

definition om_snapshot :: "nat \<Rightarrow> ObstacleMap \<Rightarrow> ObstacleMapSnapshot" where
  "om_snapshot max_cells m =
     (let cs = map snd (om_cells m)
      in \<lparr>omp_config = om_config m, omp_summary = om_summary m,
          omp_cells = (if 0 < max_cells \<and> max_cells < length cs then take max_cells cs else cs),
          omp_sensor_origin_map = vec3_zero, omp_sensor_origin_valid = False\<rparr>)"

subsection \<open>Compaction: one update per voxel\<close>

record EvidenceCellUpdate =
  eu_key :: CellKey
  eu_representative :: ObstacleEvidence
  eu_occupied_confidence :: double
  eu_free_confidence :: double
  eu_positive_count :: u32
  eu_negative_count :: u32
  eu_min_z_m :: double
  eu_max_z_m :: double

record Compaction =
  cp_summary :: ObstacleMapSummary
  cp_updates :: "EvidenceCellUpdate list"
  cp_index :: "CellKey \<rightharpoonup> nat"

definition merge_evidence :: "ObstacleEvidence \<Rightarrow> double \<Rightarrow> EvidenceCellUpdate \<Rightarrow> EvidenceCellUpdate" where
  "merge_evidence item confidence u =
     (let z = vz (ev_center_local item);
          u = u\<lparr>eu_representative := item, eu_min_z_m := std_min (eu_min_z_m u) z,
                eu_max_z_m := std_max (eu_max_z_m u) z\<rparr>
      in if is_occupied_evidence item
         then u\<lparr>eu_occupied_confidence := std_max (eu_occupied_confidence u) confidence,
                eu_positive_count := eu_positive_count u + 1\<rparr>
         else u\<lparr>eu_free_confidence := std_max (eu_free_confidence u) confidence,
                eu_negative_count := eu_negative_count u + 1\<rparr>)"

definition new_evidence_update :: "CellKey \<Rightarrow> ObstacleEvidence \<Rightarrow> EvidenceCellUpdate" where
  "new_evidence_update key item =
     \<lparr>eu_key = key, eu_representative = item, eu_occupied_confidence = 0,
      eu_free_confidence = 0, eu_positive_count = 0, eu_negative_count = 0,
      eu_min_z_m = vz (ev_center_local item), eu_max_z_m = vz (ev_center_local item)\<rparr>"

text \<open>The map takes the frame of the first framed evidence; evidence of another frame is skipped.\<close>

definition adopt_frame :: "ObstacleEvidence \<Rightarrow> ObstacleMapSummary \<Rightarrow> ObstacleMapSummary" where
  "adopt_frame item sm =
     (if frame_empty (oms_map_frame_id sm) \<and> \<not> frame_empty (ev_map_frame_id item)
      then sm\<lparr>oms_map_frame_id := ev_map_frame_id item\<rparr> else sm)"

definition frame_mismatch :: "ObstacleEvidence \<Rightarrow> ObstacleMapSummary \<Rightarrow> bool" where
  "frame_mismatch item sm \<longleftrightarrow>
     \<not> frame_empty (ev_map_frame_id item) \<and> \<not> frame_empty (oms_map_frame_id sm)
     \<and> \<not> frame_equal (ev_map_frame_id item) (oms_map_frame_id sm)"

definition compact_accepted :: "ObstacleMapConfig \<Rightarrow> ObstacleEvidence \<Rightarrow> Compaction \<Rightarrow> Compaction" where
  "compact_accepted c item s =
     (let sm = cp_summary s;
          key = om_key_for_point c (ev_center_local item);
          confidence = confidence_or_default item;
          s = s\<lparr>cp_summary := sm\<lparr>oms_accepted_evidence_count := oms_accepted_evidence_count sm + 1\<rparr>\<rparr>;
          s = (case cp_index s key of
                 None \<Rightarrow> s\<lparr>cp_index := (cp_index s)(key \<mapsto> length (cp_updates s)),
                          cp_updates := cp_updates s @ [new_evidence_update key item]\<rparr>
               | Some _ \<Rightarrow> s)
      in (case cp_index s key of
            None \<Rightarrow> s
          | Some i \<Rightarrow> s\<lparr>cp_updates :=
              (cp_updates s)[i := merge_evidence item confidence (cp_updates s ! i)]\<rparr>))"

definition compact_item :: "ObstacleMapConfig \<Rightarrow> ObstacleEvidence \<Rightarrow> Compaction \<Rightarrow> Compaction" where
  "compact_item c item s =
     (if \<not> finite_point (ev_center_local item) then s
      else let sm = adopt_frame item (cp_summary s); s = s\<lparr>cp_summary := sm\<rparr>
           in if frame_mismatch item sm then s else compact_accepted c item s)"

subsection \<open>Application of one compacted update\<close>

definition update_obstacle_cell ::
    "ObstacleMapConfig \<Rightarrow> u64 \<Rightarrow> EvidenceCellUpdate \<Rightarrow> ObstacleCell \<Rightarrow> ObstacleCell" where
  "update_obstacle_cell c now_ns u cell =
     (let item = eu_representative u;
          confidence = std_max (eu_occupied_confidence u) (eu_free_confidence u);
          total_count = eu_positive_count u + eu_negative_count u;
          cell = cell\<lparr>oc_observed := True, oc_last_observed_timestamp_ns := now_ns,
                   oc_confidence := std_max (oc_confidence cell) confidence,
                   oc_min_z_m := std_min (oc_min_z_m cell) (eu_min_z_m u),
                   oc_max_z_m := std_max (oc_max_z_m cell) (eu_max_z_m u),
                   oc_last_source_kind := ev_source_kind item,
                   oc_last_source_provider := ev_source_provider item,
                   oc_positive_observation_count := oc_positive_observation_count cell + eu_positive_count u,
                   oc_negative_observation_count := oc_negative_observation_count cell + eu_negative_count u\<rparr>;
          cell = (if 1 < total_count
                  then cell\<lparr>oc_same_update_duplicate_count :=
                              oc_same_update_duplicate_count cell + (total_count - 1)\<rparr> else cell);
          cell = (if 0 < eu_positive_count u
                  then cell\<lparr>oc_last_confirmed_occupied_timestamp_ns := now_ns,
                            oc_occupied_score := clamp_score (oc_occupied_score cell
                              + omc_occupied_hit_score c * eu_occupied_confidence u) (omc_max_score c)\<rparr>
                  else cell);
          cell = (if 0 < eu_negative_count u
                  then cell\<lparr>oc_last_observed_free_timestamp_ns := now_ns,
                            oc_free_score := clamp_score (oc_free_score cell
                              + omc_free_hit_score c * eu_free_confidence u) (omc_max_score c)\<rparr>
                  else cell)
      in cell\<lparr>oc_occupied := omc_occupied_threshold c \<le> oc_occupied_score cell,
              oc_free := omc_free_threshold c \<le> oc_free_score cell\<rparr>)"

definition new_obstacle_cell :: "ObstacleMapConfig \<Rightarrow> u64 \<Rightarrow> EvidenceCellUpdate \<Rightarrow> ObstacleCell" where
  "new_obstacle_cell c now_ns u =
     ObstacleCell_default
       \<lparr>oc_center_map := om_center_for_key c (eu_key u),
        oc_size_m := vec3 (omc_cell_size_m c) (omc_cell_size_m c) (omc_vertical_cell_size_m c),
        oc_first_observed_timestamp_ns := now_ns,
        oc_min_z_m := eu_min_z_m u, oc_max_z_m := eu_max_z_m u\<rparr>"

definition apply_update :: "u64 \<Rightarrow> EvidenceCellUpdate \<Rightarrow> ObstacleMap \<Rightarrow> ObstacleMap" where
  "apply_update now_ns u m =
     (let c = om_config m; k = eu_key u; sm = om_summary m;
          m = m\<lparr>om_touched := set_insert k (om_touched m)\<rparr>;
          m = (case om_cell_index m k of
                 None \<Rightarrow> m\<lparr>om_cells := om_cells m @ [(k, new_obstacle_cell c now_ns u)],
                          om_cell_index := (om_cell_index m)(k \<mapsto> length (om_cells m)),
                          om_summary := sm\<lparr>oms_new_cell_count := oms_new_cell_count sm + 1\<rparr>\<rparr>
               | Some _ \<Rightarrow> m\<lparr>om_summary := sm\<lparr>oms_updated_cell_count := oms_updated_cell_count sm + 1\<rparr>\<rparr>)
      in (case om_cell_index m k of
            None \<Rightarrow> m
          | Some i \<Rightarrow> m\<lparr>om_cells := (om_cells m)
              [i := (fst (om_cells m ! i), update_obstacle_cell c now_ns u (snd (om_cells m ! i)))]\<rparr>))"

definition om_begin_update :: "ObstacleEvidence list \<Rightarrow> MapFrameId \<Rightarrow> ObstacleMap \<Rightarrow> ObstacleMap" where
  "om_begin_update evidence fallback m =
     (let sm = om_summary m; limit = min (length evidence) (omc_max_evidence_per_update (om_config m));
          sm = (if frame_empty (oms_map_frame_id sm) \<and> \<not> frame_empty fallback
                then sm\<lparr>oms_map_frame_id := fallback\<rparr> else sm)
      in m\<lparr>om_summary := sm
            \<lparr>oms_raw_evidence_count := length evidence, oms_accepted_evidence_count := 0,
             oms_compacted_evidence_count := 0, oms_duplicate_evidence_count := 0,
             oms_dropped_evidence_count :=
               (if limit < length evidence then length evidence - limit else 0),
             oms_new_cell_count := 0, oms_updated_cell_count := 0\<rparr>\<rparr>)"

definition compact_evidence :: "ObstacleEvidence list \<Rightarrow> ObstacleMap \<Rightarrow> Compaction" where
  "compact_evidence evidence m =
     fold (compact_item (om_config m))
       (take (min (length evidence) (omc_max_evidence_per_update (om_config m))) evidence)
       \<lparr>cp_summary = om_summary m, cp_updates = [], cp_index = Map.empty\<rparr>"

definition note_compaction :: "Compaction \<Rightarrow> ObstacleMapSummary" where
  "note_compaction s =
     (let sm = (cp_summary s)\<lparr>oms_compacted_evidence_count := length (cp_updates s)\<rparr>
      in if oms_compacted_evidence_count sm < oms_accepted_evidence_count sm
         then sm\<lparr>oms_duplicate_evidence_count :=
                   oms_accepted_evidence_count sm - oms_compacted_evidence_count sm\<rparr> else sm)"

definition om_finish_update :: "TimePoint \<Rightarrow> ObstacleMap \<Rightarrow> ObstacleMap" where
  "om_finish_update now m =
     (let sm = om_summary m
      in om_refresh_summary
           (m\<lparr>om_summary := sm\<lparr>oms_update_count := oms_update_count sm + 1,
                              oms_last_update_timestamp_ns := om_timestamp_ns now\<rparr>,
              om_last_update := now, om_has_last_update := True\<rparr>))"

definition om_update ::
    "ObstacleEvidence list \<Rightarrow> TimePoint \<Rightarrow> MapFrameId \<Rightarrow> ObstacleMap \<Rightarrow> ObstacleMap" where
  "om_update evidence now fallback m =
     (let m = om_begin_update evidence fallback (decay_to now m);
          s = compact_evidence evidence m
      in om_finish_update now
           (fold (apply_update (om_timestamp_ns now)) (cp_updates s)
             (m\<lparr>om_summary := note_compaction s\<rparr>)))"

definition om_drain_delta :: "ObstacleMap \<Rightarrow> ObstacleMapSnapshot \<times> ObstacleMap" where
  "om_drain_delta m =
     (\<lparr>omp_config = om_config m, omp_summary = om_summary m,
       omp_cells = map snd (List.map_filter (store_get (om_cells m) (om_cell_index m)) (om_touched m)),
       omp_sensor_origin_map = vec3_zero, omp_sensor_origin_valid = False\<rparr>,
      m\<lparr>om_touched := []\<rparr>)"

definition om_reset :: "ObstacleMap \<Rightarrow> ObstacleMap" where
  "om_reset m =
     m\<lparr>om_cells := [], om_cell_index := Map.empty, om_summary := ObstacleMapSummary_default,
       om_has_last_update := False, om_last_update := \<lparr>timestamp_ns = 0\<rparr>, om_touched := []\<rparr>"

section \<open>The store as a partial function\<close>

definition om_lookup :: "ObstacleMap \<Rightarrow> CellKey \<Rightarrow> ObstacleCell option" where
  "om_lookup m k = map_option snd (store_get (om_cells m) (om_cell_index m) k)"

text \<open>What applying one compacted update means for a map from keys to cells.\<close>

definition spec_apply ::
    "ObstacleMapConfig \<Rightarrow> u64 \<Rightarrow> EvidenceCellUpdate \<Rightarrow> (CellKey \<rightharpoonup> ObstacleCell) \<Rightarrow> (CellKey \<rightharpoonup> ObstacleCell)" where
  "spec_apply c now_ns u f =
     f(eu_key u \<mapsto> update_obstacle_cell c now_ns u
        (case f (eu_key u) of None \<Rightarrow> new_obstacle_cell c now_ns u | Some cell \<Rightarrow> cell))"

abbreviation om_idx_ok :: "ObstacleMap \<Rightarrow> bool" where
  "om_idx_ok m \<equiv> idx_ok fst (om_cells m) (om_cell_index m)"

lemma apply_update_frame [simp]:
  "om_config (apply_update ns u m) = om_config m"
  "om_touched (apply_update ns u m) = set_insert (eu_key u) (om_touched m)"
  "om_has_last_update (apply_update ns u m) = om_has_last_update m"
  by (simp_all add: apply_update_def Let_def split: option.split)

text \<open>Both branches of \<open>apply_update\<close>, with the second lookup resolved.\<close>

lemma apply_update_new:
  "om_cell_index m (eu_key u) = None \<Longrightarrow>
     om_cells (apply_update ns u m) = om_cells m @
       [(eu_key u, update_obstacle_cell (om_config m) ns u (new_obstacle_cell (om_config m) ns u))] \<and>
     om_cell_index (apply_update ns u m) = (om_cell_index m)(eu_key u \<mapsto> length (om_cells m)) \<and>
     om_summary (apply_update ns u m) =
       (om_summary m)\<lparr>oms_new_cell_count := oms_new_cell_count (om_summary m) + 1\<rparr>"
  by (simp add: apply_update_def Let_def)

lemma apply_update_old:
  "om_cell_index m (eu_key u) = Some i \<Longrightarrow>
     om_cells (apply_update ns u m) = (om_cells m)
       [i := (fst (om_cells m ! i), update_obstacle_cell (om_config m) ns u (snd (om_cells m ! i)))] \<and>
     om_cell_index (apply_update ns u m) = om_cell_index m \<and>
     om_summary (apply_update ns u m) =
       (om_summary m)\<lparr>oms_updated_cell_count := oms_updated_cell_count (om_summary m) + 1\<rparr>"
  by (simp add: apply_update_def Let_def)

lemma apply_update_idx_ok: "om_idx_ok m \<Longrightarrow> om_idx_ok (apply_update ns u m)"
proof (cases "om_cell_index m (eu_key u)")
  case None
  assume "om_idx_ok m"
  then show ?thesis
    using None idx_ok_push [of fst "om_cells m" "om_cell_index m" "(eu_key u, _)"]
    by (simp add: apply_update_new)
next
  case (Some i)
  assume "om_idx_ok m"
  then show ?thesis
    using Some by (simp add: apply_update_old idx_ok_update)
qed

lemma om_lookup_apply_update:
  assumes "om_idx_ok m"
  shows "om_lookup (apply_update ns u m) = spec_apply (om_config m) ns u (om_lookup m)"
proof (cases "om_cell_index m (eu_key u)")
  case None
  then show ?thesis
    using store_get_push [OF assms, of "(eu_key u, _)"]
    by (simp add: apply_update_new om_lookup_def spec_apply_def fun_eq_iff store_get_def)
next
  case (Some i)
  with assms have i: "i < length (om_cells m)" "fst (om_cells m ! i) = eu_key u"
    by (auto dest: idx_okD)
  have l: "om_lookup m (eu_key u) = Some (snd (om_cells m ! i))"
    using Some by (simp add: om_lookup_def store_get_def)
  show ?thesis
    using store_get_update [OF assms i(1), of "(eu_key u, _)"] i Some l
    by (auto simp: apply_update_old om_lookup_def spec_apply_def fun_eq_iff)
qed

lemma apply_updates_refine:
  assumes "om_idx_ok m"
  shows "om_idx_ok (fold (apply_update ns) us m) \<and>
         om_config (fold (apply_update ns) us m) = om_config m \<and>
         om_touched (fold (apply_update ns) us m) = fold set_insert (map eu_key us) (om_touched m) \<and>
         om_lookup (fold (apply_update ns) us m) = fold (spec_apply (om_config m) ns) us (om_lookup m)"
  using assms
proof (induction us arbitrary: m)
  case Nil
  then show ?case by simp
next
  case (Cons u us)
  from Cons.prems have "om_idx_ok (apply_update ns u m)" by (rule apply_update_idx_ok)
  from Cons.IH [OF this] show ?case
    by (simp add: om_lookup_apply_update [OF Cons.prems])
qed

lemma fold_spec_apply_other:
  "k \<notin> eu_key ` set us \<Longrightarrow> fold (spec_apply c ns) us f k = f k"
  by (induction us arbitrary: f) (auto simp: spec_apply_def)

lemma fold_spec_apply_dom:
  "dom (fold (spec_apply c ns) us f) = dom f \<union> eu_key ` set us"
  by (induction us arbitrary: f) (auto simp: spec_apply_def)

section \<open>Compaction\<close>

lemma merge_evidence_key [simp]: "eu_key (merge_evidence item conf u) = eu_key u"
  by (simp add: merge_evidence_def Let_def)

lemma new_evidence_update_key [simp]: "eu_key (new_evidence_update k item) = k"
  by (simp add: new_evidence_update_def)

definition compaction_ok :: "Compaction \<Rightarrow> bool" where
  "compaction_ok s \<longleftrightarrow> idx_ok eu_key (cp_updates s) (cp_index s) \<and>
     length (cp_updates s) \<le> oms_accepted_evidence_count (cp_summary s)"

text \<open>The counters that compaction leaves alone.\<close>

definition same_counters :: "ObstacleMapSummary \<Rightarrow> ObstacleMapSummary \<Rightarrow> bool" where
  "same_counters a b \<longleftrightarrow>
     oms_raw_evidence_count a = oms_raw_evidence_count b \<and>
     oms_dropped_evidence_count a = oms_dropped_evidence_count b \<and>
     oms_duplicate_evidence_count a = oms_duplicate_evidence_count b \<and>
     oms_new_cell_count a = oms_new_cell_count b \<and>
     oms_updated_cell_count a = oms_updated_cell_count b"

lemma adopt_frame_counters [simp]:
  "same_counters (adopt_frame item sm) sm"
  "oms_accepted_evidence_count (adopt_frame item sm) = oms_accepted_evidence_count sm"
  by (simp_all add: adopt_frame_def same_counters_def)

lemma compact_accepted_ok:
  assumes "compaction_ok s"
  shows "compaction_ok (compact_accepted c item s)"
proof (cases "cp_index s (om_key_for_point c (ev_center_local item))")
  case None
  with assms show ?thesis
    using idx_ok_push [of eu_key "cp_updates s" "cp_index s"
        "merge_evidence item (confidence_or_default item)
          (new_evidence_update (om_key_for_point c (ev_center_local item)) item)"]
    by (simp add: compaction_ok_def compact_accepted_def Let_def)
next
  case (Some i)
  with assms show ?thesis
    by (simp add: compaction_ok_def compact_accepted_def Let_def idx_ok_update)
qed

lemma compact_accepted_summary [simp]:
  "cp_summary (compact_accepted c item s) = (cp_summary s)
     \<lparr>oms_accepted_evidence_count := oms_accepted_evidence_count (cp_summary s) + 1\<rparr>"
  by (simp add: compact_accepted_def Let_def split: option.split)

lemma compact_item_ok: "compaction_ok s \<Longrightarrow> compaction_ok (compact_item c item s)"
  unfolding compact_item_def Let_def
  by (auto intro!: compact_accepted_ok) (simp_all add: compaction_ok_def)

lemma compact_item_counters:
  "same_counters (cp_summary (compact_item c item s)) (cp_summary s)"
  "oms_accepted_evidence_count (cp_summary (compact_item c item s))
     \<le> oms_accepted_evidence_count (cp_summary s) + 1"
  using adopt_frame_counters(1) [of item "cp_summary s"]
  by (simp_all add: compact_item_def Let_def same_counters_def)

lemma compact_items_ok:
  assumes "compaction_ok s"
  shows "compaction_ok (fold (compact_item c) items s) \<and>
     same_counters (cp_summary (fold (compact_item c) items s)) (cp_summary s) \<and>
     oms_accepted_evidence_count (cp_summary (fold (compact_item c) items s))
       \<le> oms_accepted_evidence_count (cp_summary s) + length items"
  using assms
proof (induction items arbitrary: s)
  case Nil
  then show ?case by (simp add: same_counters_def)
next
  case (Cons e es)
  from Cons.prems have "compaction_ok (compact_item c e s)" by (rule compact_item_ok)
  from Cons.IH [OF this] compact_item_counters [of c e s] show ?case
    by (simp add: same_counters_def)
qed

section \<open>The invariant\<close>

definition obstacle_cell_ok :: "ObstacleMapConfig \<Rightarrow> CellKey \<Rightarrow> ObstacleCell \<Rightarrow> bool" where
  "obstacle_cell_ok c k cell \<longleftrightarrow>
     oc_center_map cell = om_center_for_key c k \<and> oc_observed cell \<and>
     oc_occupied cell = (omc_occupied_threshold c \<le> oc_occupied_score cell) \<and>
     oc_free cell = (omc_free_threshold c \<le> oc_free_score cell) \<and>
     0 \<le> oc_occupied_score cell \<and> oc_occupied_score cell \<le> omc_max_score c \<and>
     0 \<le> oc_free_score cell \<and> oc_free_score cell \<le> omc_max_score c"

definition om_ok :: "ObstacleMap \<Rightarrow> bool" where
  "om_ok m \<longleftrightarrow> om_idx_ok m \<and> distinct (om_touched m) \<and>
     set (om_touched m) \<subseteq> dom (om_cell_index m) \<and>
     (\<forall>k cell. om_lookup m k = Some cell \<longrightarrow> obstacle_cell_ok (om_config m) k cell)"

lemma update_obstacle_cell_ok:
  assumes "0 \<le> omc_max_score c" and "oc_center_map cell = om_center_for_key c k"
    and "0 \<le> oc_occupied_score cell" "oc_occupied_score cell \<le> omc_max_score c"
    and "0 \<le> oc_free_score cell" "oc_free_score cell \<le> omc_max_score c"
  shows "obstacle_cell_ok c k (update_obstacle_cell c ns u cell)"
  using assms clamp_score_range [OF assms(1)]
  by (simp add: obstacle_cell_ok_def update_obstacle_cell_def Let_def)

lemma new_obstacle_cell_fields [simp]:
  "oc_center_map (new_obstacle_cell c ns u) = om_center_for_key c (eu_key u)"
  "oc_occupied_score (new_obstacle_cell c ns u) = 0"
  "oc_free_score (new_obstacle_cell c ns u) = 0"
  by (simp_all add: new_obstacle_cell_def ObstacleCell_default_def)

lemma spec_apply_cells_ok:
  assumes "0 \<le> omc_max_score c"
    and "\<forall>k cell. f k = Some cell \<longrightarrow> obstacle_cell_ok c k cell"
  shows "\<forall>k cell. spec_apply c ns u f k = Some cell \<longrightarrow> obstacle_cell_ok c k cell"
proof (intro allI impI)
  fix k cell
  assume get: "spec_apply c ns u f k = Some cell"
  show "obstacle_cell_ok c k cell"
  proof (cases "k = eu_key u")
    case True
    let ?old = "case f k of None \<Rightarrow> new_obstacle_cell c ns u | Some cell \<Rightarrow> cell"
    have "cell = update_obstacle_cell c ns u ?old"
      using get True by (simp add: spec_apply_def)
    moreover have "oc_center_map ?old = om_center_for_key c k"
      "0 \<le> oc_occupied_score ?old" "oc_occupied_score ?old \<le> omc_max_score c"
      "0 \<le> oc_free_score ?old" "oc_free_score ?old \<le> omc_max_score c"
      using assms(1) spec [OF assms(2), of k] True
      by (simp_all add: obstacle_cell_ok_def split: option.split)
    ultimately show ?thesis
      using update_obstacle_cell_ok [OF assms(1)] by blast
  next
    case False
    with get have "f k = Some cell" by (simp add: spec_apply_def)
    with assms(2) show ?thesis by blast
  qed
qed

section \<open>Decay\<close>

lemma store_get_map:
  assumes "idx_ok key cells index"
  shows "store_get (map f cells) index k = map_option f (store_get cells index k)"
  using idx_okD [OF assms, of k] by (auto simp: store_get_def split: option.split)

lemma decay_to_noop: "omc_score_decay_per_second (om_config m) \<le> 0 \<Longrightarrow> decay_to now m = m"
  by (simp add: decay_to_def Let_def)

lemma decay_to_frame [simp]:
  "om_config (decay_to now m) = om_config m"
  "om_touched (decay_to now m) = om_touched m"
  "om_cell_index (decay_to now m) = om_cell_index m"
  "om_summary (decay_to now m) = om_summary m"
  "length (om_cells (decay_to now m)) = length (om_cells m)"
  by (simp_all add: decay_to_def Let_def)

lemma decay_to_idx_ok: "om_idx_ok m \<Longrightarrow> om_idx_ok (decay_to now m)"
  by (auto simp: decay_to_def Let_def idx_ok_def split_beta)

lemma decay_cell_ok:
  "0 \<le> omc_max_score c \<Longrightarrow> obstacle_cell_ok c k cell \<Longrightarrow> obstacle_cell_ok c k (decay_cell c d cell)"
  using clamp_score_range [of "omc_max_score c"]
  by (simp add: obstacle_cell_ok_def decay_cell_def Let_def)

lemma om_lookup_decay_to:
  assumes "om_idx_ok m"
  shows "om_lookup (decay_to now m) = om_lookup m \<or>
         (\<exists>d. om_lookup (decay_to now m) = (\<lambda>k. map_option (decay_cell (om_config m) d) (om_lookup m k)))"
proof -
  have "om_lookup (m\<lparr>om_cells := map (\<lambda>(k, cell). (k, decay_cell c d cell)) (om_cells m)\<rparr>)
      = (\<lambda>k. map_option (decay_cell c d) (om_lookup m k))" for c d
    by (simp add: fun_eq_iff om_lookup_def store_get_map [OF assms] option.map_comp comp_def split_beta)
  then show ?thesis by (auto simp: decay_to_def Let_def)
qed

lemma decay_to_ok:
  assumes "om_ok m" and "0 \<le> omc_max_score (om_config m)"
  shows "om_ok (decay_to now m)"
proof -
  have "obstacle_cell_ok (om_config m) k cell" if "om_lookup (decay_to now m) k = Some cell" for k cell
    using om_lookup_decay_to [of m now] that assms by (auto simp: om_ok_def intro!: decay_cell_ok)
  moreover have "om_idx_ok (decay_to now m)"
    using assms(1) by (simp only: om_ok_def decay_to_idx_ok)
  ultimately show ?thesis using assms(1) by (simp add: om_ok_def)
qed

section \<open>The whole update\<close>

lemma om_begin_update_frame [simp]:
  "om_config (om_begin_update ev fb m) = om_config m"
  "om_touched (om_begin_update ev fb m) = om_touched m"
  "om_cell_index (om_begin_update ev fb m) = om_cell_index m"
  "om_cells (om_begin_update ev fb m) = om_cells m"
  by (simp_all add: om_begin_update_def Let_def)

lemma om_refresh_summary_frame [simp]:
  "om_config (om_refresh_summary m) = om_config m"
  "om_touched (om_refresh_summary m) = om_touched m"
  "om_cell_index (om_refresh_summary m) = om_cell_index m"
  "om_cells (om_refresh_summary m) = om_cells m"
  by (simp_all add: om_refresh_summary_def Let_def)

lemma om_finish_update_frame [simp]:
  "om_config (om_finish_update now m) = om_config m"
  "om_touched (om_finish_update now m) = om_touched m"
  "om_cell_index (om_finish_update now m) = om_cell_index m"
  "om_cells (om_finish_update now m) = om_cells m"
  by (simp_all add: om_finish_update_def Let_def)

lemma om_lookup_cong:
  "om_cells m = om_cells m' \<Longrightarrow> om_cell_index m = om_cell_index m' \<Longrightarrow> om_lookup m = om_lookup m'"
  by (simp add: om_lookup_def [abs_def])

definition om_updates :: "ObstacleEvidence list \<Rightarrow> TimePoint \<Rightarrow> MapFrameId \<Rightarrow> ObstacleMap \<Rightarrow> EvidenceCellUpdate list" where
  "om_updates ev now fb m = cp_updates (compact_evidence ev (om_begin_update ev fb (decay_to now m)))"

text \<open>
  The update as an operation on the abstract map: decay every cell, then apply the compacted
  updates one after another.
\<close>

lemma om_update_refines:
  assumes "om_idx_ok m"
  shows "om_idx_ok (om_update ev now fb m)"
    and "om_config (om_update ev now fb m) = om_config m"
    and "om_touched (om_update ev now fb m) =
           fold set_insert (map eu_key (om_updates ev now fb m)) (om_touched m)"
    and "om_lookup (om_update ev now fb m) =
           fold (spec_apply (om_config m) (om_timestamp_ns now)) (om_updates ev now fb m)
             (om_lookup (decay_to now m))"
proof -
  let ?m1 = "om_begin_update ev fb (decay_to now m)"
  have "om_idx_ok (?m1\<lparr>om_summary := sm\<rparr>)" for sm
    using decay_to_idx_ok [OF assms] by simp
  note folded = apply_updates_refine [OF this, of "om_timestamp_ns now" "om_updates ev now fb m"]
  have look: "om_lookup (?m1\<lparr>om_summary := sm\<rparr>) = om_lookup (decay_to now m)" for sm
    by (rule om_lookup_cong) simp_all
  have upd: "om_lookup (om_finish_update now m') = om_lookup m'" for m'
    by (rule om_lookup_cong) simp_all
  show "om_idx_ok (om_update ev now fb m)"
    and "om_config (om_update ev now fb m) = om_config m"
    and "om_touched (om_update ev now fb m) =
           fold set_insert (map eu_key (om_updates ev now fb m)) (om_touched m)"
    and "om_lookup (om_update ev now fb m) =
           fold (spec_apply (om_config m) (om_timestamp_ns now)) (om_updates ev now fb m)
             (om_lookup (decay_to now m))"
    using folded
    by (simp_all add: om_update_def Let_def om_updates_def look upd)
qed

lemma om_lookup_dom: "dom (om_lookup m) = dom (om_cell_index m)"
  by (auto simp: om_lookup_def store_get_def dom_def split: option.splits)

lemma om_lookup_decay_dom: "dom (om_lookup (decay_to now m)) = dom (om_cell_index m)"
  by (simp add: om_lookup_dom)

lemma om_update_keeps_ok:
  assumes "om_ok m" and "0 \<le> omc_max_score (om_config m)"
  shows "om_ok (om_update ev now fb m)"
proof -
  let ?us = "om_updates ev now fb m" and ?m' = "om_update ev now fb m"
  from assms have idx: "om_idx_ok m" by (simp add: om_ok_def)
  note r = om_update_refines [OF idx, of ev now fb]
  have cells: "\<forall>k cell. om_lookup ?m' k = Some cell \<longrightarrow> obstacle_cell_ok (om_config m) k cell"
    unfolding r(4)
    by (rule fold_invariant_step [where P = "\<lambda>f. \<forall>k cell. f k = Some cell \<longrightarrow> obstacle_cell_ok _ k cell"])
      (use decay_to_ok [OF assms] spec_apply_cells_ok [OF assms(2)] in \<open>auto simp: om_ok_def\<close>)
  have "dom (om_cell_index ?m') = dom (om_cell_index m) \<union> eu_key ` set ?us"
    using r(4) by (metis fold_spec_apply_dom om_lookup_decay_dom om_lookup_dom)
  with assms(1) cells r show ?thesis
    by (auto simp: om_ok_def set_fold_set_insert distinct_fold_set_insert)
qed

subsection \<open>The summary counters\<close>

lemma apply_updates_counters:
  "length (om_cells (fold (apply_update ns) us m)) + oms_new_cell_count (om_summary m) =
     length (om_cells m) + oms_new_cell_count (om_summary (fold (apply_update ns) us m)) \<and>
   oms_new_cell_count (om_summary (fold (apply_update ns) us m))
     + oms_updated_cell_count (om_summary (fold (apply_update ns) us m)) =
   oms_new_cell_count (om_summary m) + oms_updated_cell_count (om_summary m) + length us \<and>
   oms_accepted_evidence_count (om_summary (fold (apply_update ns) us m)) = oms_accepted_evidence_count (om_summary m) \<and>
   oms_compacted_evidence_count (om_summary (fold (apply_update ns) us m)) = oms_compacted_evidence_count (om_summary m) \<and>
   oms_duplicate_evidence_count (om_summary (fold (apply_update ns) us m)) = oms_duplicate_evidence_count (om_summary m) \<and>
   oms_dropped_evidence_count (om_summary (fold (apply_update ns) us m)) = oms_dropped_evidence_count (om_summary m) \<and>
   oms_raw_evidence_count (om_summary (fold (apply_update ns) us m)) = oms_raw_evidence_count (om_summary m)"
proof (induction us arbitrary: m)
  case Nil
  show ?case by simp
next
  case (Cons u us)
  show ?case
  proof (cases "om_cell_index m (eu_key u)")
    case None
    with Cons [of "apply_update ns u m"] show ?thesis by (simp add: apply_update_new)
  next
    case (Some i)
    with Cons [of "apply_update ns u m"] show ?thesis by (simp add: apply_update_old)
  qed
qed

lemma om_begin_update_counters:
  "oms_raw_evidence_count (om_summary (om_begin_update ev fb m)) = length ev"
  "oms_dropped_evidence_count (om_summary (om_begin_update ev fb m)) =
     length ev - min (length ev) (omc_max_evidence_per_update (om_config m))"
  "oms_accepted_evidence_count (om_summary (om_begin_update ev fb m)) = 0"
  "oms_duplicate_evidence_count (om_summary (om_begin_update ev fb m)) = 0"
  "oms_new_cell_count (om_summary (om_begin_update ev fb m)) = 0"
  "oms_updated_cell_count (om_summary (om_begin_update ev fb m)) = 0"
  by (simp_all add: om_begin_update_def Let_def)

lemma note_compaction_counters:
  assumes "compaction_ok s" and "oms_duplicate_evidence_count (cp_summary s) = 0"
  shows "oms_accepted_evidence_count (note_compaction s) =
           oms_compacted_evidence_count (note_compaction s) + oms_duplicate_evidence_count (note_compaction s)"
    and "oms_compacted_evidence_count (note_compaction s) = length (cp_updates s)"
  using assms by (simp_all add: note_compaction_def Let_def compaction_ok_def)

lemma note_compaction_frame [simp]:
  "oms_accepted_evidence_count (note_compaction s) = oms_accepted_evidence_count (cp_summary s)"
  "oms_raw_evidence_count (note_compaction s) = oms_raw_evidence_count (cp_summary s)"
  "oms_dropped_evidence_count (note_compaction s) = oms_dropped_evidence_count (cp_summary s)"
  "oms_new_cell_count (note_compaction s) = oms_new_cell_count (cp_summary s)"
  "oms_updated_cell_count (note_compaction s) = oms_updated_cell_count (cp_summary s)"
  by (simp_all add: note_compaction_def Let_def)

lemma om_finish_update_counters [simp]:
  "oms_raw_evidence_count (om_summary (om_finish_update now m)) = oms_raw_evidence_count (om_summary m)"
  "oms_dropped_evidence_count (om_summary (om_finish_update now m)) = oms_dropped_evidence_count (om_summary m)"
  "oms_accepted_evidence_count (om_summary (om_finish_update now m)) = oms_accepted_evidence_count (om_summary m)"
  "oms_compacted_evidence_count (om_summary (om_finish_update now m)) = oms_compacted_evidence_count (om_summary m)"
  "oms_duplicate_evidence_count (om_summary (om_finish_update now m)) = oms_duplicate_evidence_count (om_summary m)"
  "oms_new_cell_count (om_summary (om_finish_update now m)) = oms_new_cell_count (om_summary m)"
  "oms_updated_cell_count (om_summary (om_finish_update now m)) = oms_updated_cell_count (om_summary m)"
  by (simp_all add: om_finish_update_def om_refresh_summary_def Let_def)

lemma compact_evidence_ok:
  assumes "oms_accepted_evidence_count (om_summary m) = 0"
  shows "compaction_ok (compact_evidence ev m)"
    and "same_counters (cp_summary (compact_evidence ev m)) (om_summary m)"
    and "oms_accepted_evidence_count (cp_summary (compact_evidence ev m))
           \<le> min (length ev) (omc_max_evidence_per_update (om_config m))"
  using assms compact_items_ok
    [of "\<lparr>cp_summary = om_summary m, cp_updates = [], cp_index = Map.empty\<rparr>" "om_config m"
        "take (min (length ev) (omc_max_evidence_per_update (om_config m))) ev"]
  by (auto simp: compact_evidence_def compaction_ok_def)

lemma om_update_counters:
  fixes ev now fb m
  defines "sm \<equiv> om_summary (om_update ev now fb m)"
    and "limit \<equiv> min (length ev) (omc_max_evidence_per_update (om_config m))"
  shows "oms_raw_evidence_count sm = length ev"
    and "oms_dropped_evidence_count sm = length ev - limit"
    and "oms_accepted_evidence_count sm \<le> limit"
    and "oms_accepted_evidence_count sm =
           oms_compacted_evidence_count sm + oms_duplicate_evidence_count sm"
    and "oms_compacted_evidence_count sm = oms_new_cell_count sm + oms_updated_cell_count sm"
    and "length (om_cells (om_update ev now fb m)) = length (om_cells m) + oms_new_cell_count sm"
proof -
  define m1 where "m1 = om_begin_update ev fb (decay_to now m)"
  define s where "s = compact_evidence ev m1"
  define m2 where "m2 = fold (apply_update (om_timestamp_ns now)) (cp_updates s)
      (m1\<lparr>om_summary := note_compaction s\<rparr>)"
  have upd: "om_update ev now fb m = om_finish_update now m2"
    by (simp add: om_update_def m1_def s_def m2_def Let_def)
  have m1: "om_config m1 = om_config m" "length (om_cells m1) = length (om_cells m)"
    by (simp_all add: m1_def)
  note b = om_begin_update_counters [of ev fb "decay_to now m", folded m1_def, simplified]
  note c = compact_evidence_ok [OF b(3), of ev, folded s_def, unfolded m1]
  have dup: "oms_duplicate_evidence_count (cp_summary s) = 0"
    using b c(2) by (simp add: same_counters_def)
  note n = note_compaction_counters [OF c(1) dup]
  note a = apply_updates_counters [of "om_timestamp_ns now" "cp_updates s"
      "m1\<lparr>om_summary := note_compaction s\<rparr>", folded m2_def, simplified]
  show "oms_raw_evidence_count sm = length ev"
    and "oms_dropped_evidence_count sm = length ev - limit"
    and "oms_accepted_evidence_count sm \<le> limit"
    and "oms_accepted_evidence_count sm =
           oms_compacted_evidence_count sm + oms_duplicate_evidence_count sm"
    and "oms_compacted_evidence_count sm = oms_new_cell_count sm + oms_updated_cell_count sm"
    and "length (om_cells (om_update ev now fb m)) = length (om_cells m) + oms_new_cell_count sm"
    using a b c n m1 unfolding sm_def upd limit_def same_counters_def by simp_all
qed

section \<open>Handing changes on\<close>

lemma set_map_filter: "set (List.map_filter f xs) = {y. \<exists>x \<in> set xs. f x = Some y}"
  by (induction xs) (auto simp: List.map_filter_simps split: option.splits)

definition om_step :: "ObstacleMap \<Rightarrow> ObstacleMap \<Rightarrow> bool" where
  "om_step m m' \<longleftrightarrow> (\<exists>ev now fb. m' = om_update ev now fb m)"

definition om_stream_inv :: "ObstacleMap \<Rightarrow> bool" where
  "om_stream_inv m \<longleftrightarrow> om_idx_ok m \<and> omc_score_decay_per_second (om_config m) \<le> 0"

interpretation om_grid: voxel_grid om_key_for_point om_center_for_key
  "\<lambda>c. \<exists>s v. omc_cell_size_m c = Fin s \<and> 0 < s \<and> omc_vertical_cell_size_m c = Fin v \<and> 0 < v"
  by unfold_locales
    (auto simp: om_key_for_point_def om_center_for_key_def intro: grid_key_center)

interpretation om_delta: delta_stream om_stream_inv om_lookup om_touched om_step
  "\<lambda>m. omp_cells (fst (om_drain_delta m))" "\<lambda>m. snd (om_drain_delta m)" "\<lambda>c. c" "\<lambda>_. True"
proof unfold_locales
  fix m m' :: ObstacleMap and k
  assume inv: "om_stream_inv m" and "om_step m m'"
  then obtain ev now fb where m': "m' = om_update ev now fb m" by (auto simp: om_step_def)
  from inv have idx: "om_idx_ok m" and nodecay: "decay_to now m = m"
    by (auto simp: om_stream_inv_def decay_to_noop)
  note r = om_update_refines [OF idx, of ev now fb]
  show "om_stream_inv m'" using inv r by (simp add: om_stream_inv_def m')
  show "set (om_touched m) \<subseteq> set (om_touched m')" by (auto simp: m' r set_fold_set_insert)
  assume "k \<notin> set (om_touched m')"
  then show "map_option (\<lambda>c. c) (om_lookup m' k) = map_option (\<lambda>c. c) (om_lookup m k)"
    by (simp add: m' r set_fold_set_insert nodecay fold_spec_apply_other)
next
  fix m assume "om_stream_inv m"
  then show "om_stream_inv (snd (om_drain_delta m))"
    by (simp add: om_stream_inv_def om_drain_delta_def)
next
  fix m
  show "set (omp_cells (fst (om_drain_delta m))) =
      {c. \<exists>k \<in> set (om_touched m). om_lookup m k = Some c \<and> True}"
    by (auto simp: om_drain_delta_def set_map_filter om_lookup_def image_iff) (force, blast)
next
  fix m k
  show "om_lookup (snd (om_drain_delta m)) k = om_lookup m k"
    by (simp add: om_drain_delta_def om_lookup_def)
qed (simp_all add: om_drain_delta_def)

section \<open>Properties\<close>

text \<open>The states a map can reach from its construction.\<close>

inductive om_reachable :: "ObstacleMapConfig \<Rightarrow> ObstacleMap \<Rightarrow> bool" for c where
  om_init: "om_reachable c (ObstacleMap_init c)"
| om_upd: "om_reachable c m \<Longrightarrow> om_reachable c (om_update ev now fb m)"
| om_drn: "om_reachable c m \<Longrightarrow> om_reachable c (snd (om_drain_delta m))"
| om_rst: "om_reachable c m \<Longrightarrow> om_reachable c (om_reset m)"

lemma ObstacleMap_init_max_score [simp]:
  "omc_max_score (om_config (ObstacleMap_init c)) = omc_max_score c"
  by (simp add: ObstacleMap_init_def Let_def)

lemma om_ok_empty: "om_cells m = [] \<Longrightarrow> om_cell_index m = Map.empty \<Longrightarrow> om_touched m = [] \<Longrightarrow> om_ok m"
  by (simp add: om_ok_def om_lookup_def store_get_def)

lemma om_drain_keeps_ok: "om_ok m \<Longrightarrow> om_ok (snd (om_drain_delta m))"
  by (simp add: om_ok_def om_drain_delta_def om_lookup_def)

lemma om_reachable_inv:
  assumes "om_reachable c m" and "0 \<le> omc_max_score c"
  shows "om_ok m \<and> omc_max_score (om_config m) = omc_max_score c"
  using assms
proof (induction rule: om_reachable.induct)
  case om_init
  show ?case by (simp add: om_ok_empty ObstacleMap_init_def Let_def)
next
  case (om_upd m ev now fb)
  then have "om_idx_ok m" by (simp add: om_ok_def)
  with om_upd show ?case using om_update_keeps_ok om_update_refines(2) by metis
next
  case (om_drn m)
  then show ?case using om_drain_keeps_ok by (simp add: om_drain_delta_def)
next
  case (om_rst m)
  then show ?case by (simp add: om_reset_def om_ok_empty)
qed

text \<open>
  in every state the obstacle map can reach by updates, drains and resets, the hash
  index and the cell vector agree, the touched keys are stored, and every cell is observed,
  sits at the centre of its voxel, has both scores in \<open>[0, max_score]\<close> and flags that agree
  with the thresholds.
\<close>

lemma om_reachable_ok:
  assumes "om_reachable c m" and "0 \<le> omc_max_score c"
  shows "om_ok m"
  using om_reachable_inv [OF assms] by simp

lemma om_reachable_ok_witness:
  "om_ok (om_update [ObstacleEvidence_default\<lparr>ev_state := EvOccupied\<rparr>] \<lparr>timestamp_ns = 5\<rparr> []
            (ObstacleMap_init ObstacleMapConfig_default))"
  by (rule om_reachable_ok [where c = ObstacleMapConfig_default])
    (rule om_reachable.om_upd, rule om_reachable.om_init, simp add: ObstacleMapConfig_default_def)

text \<open>
  the summary accounts for every piece of evidence of an update: it is either over the
  per-update limit (dropped) or looked at; accepted evidence is split into compacted updates
  and duplicates, compacted updates into new and updated cells, and the vector grows by
  exactly the new ones.
\<close>

lemma om_update_accounting:
  fixes ev :: "ObstacleEvidence list"
  defines "limit c \<equiv> min (length ev) (omc_max_evidence_per_update c)"
  shows "let m' = om_update ev now fb m; sm = om_summary m'
    in oms_raw_evidence_count sm = limit (om_config m) + oms_dropped_evidence_count sm \<and>
       oms_accepted_evidence_count sm \<le> limit (om_config m) \<and>
       oms_accepted_evidence_count sm = oms_compacted_evidence_count sm + oms_duplicate_evidence_count sm \<and>
       oms_compacted_evidence_count sm = oms_new_cell_count sm + oms_updated_cell_count sm \<and>
       length (om_cells m') = length (om_cells m) + oms_new_cell_count sm"
  using om_update_counters [where ev = ev and now = now and fb = fb and m = m]
  unfolding Let_def limit_def by linarith

text \<open>
  no change is lost between two drains of a map that does not decay: after any number of
  updates, every cell that differs from its value at the previous drain is in the next one.
\<close>

lemma om_no_change_lost:
  assumes "om_ok m" and "omc_score_decay_per_second (om_config m) \<le> 0"
    and "om_step\<^sup>*\<^sup>* (snd (om_drain_delta m)) m'"
    and "om_lookup m' k = Some c" and "om_lookup m k \<noteq> Some c"
  shows "c \<in> set (omp_cells (fst (om_drain_delta m')))"
  using assms om_delta.no_change_lost [of m m' k c] by (simp add: om_ok_def om_stream_inv_def)

lemma om_no_change_lost_witness:
  "\<exists>k c. om_lookup (om_update [ObstacleEvidence_default] \<lparr>timestamp_ns = 5\<rparr> []
            (ObstacleMap_init ObstacleMapConfig_default)) k = Some c \<and>
     c \<in> set (omp_cells (fst (om_drain_delta (om_update [ObstacleEvidence_default] \<lparr>timestamp_ns = 5\<rparr> []
            (ObstacleMap_init ObstacleMapConfig_default)))))"
proof -
  let ?m = "ObstacleMap_init ObstacleMapConfig_default"
  let ?m' = "om_update [ObstacleEvidence_default] \<lparr>timestamp_ns = 5\<rparr> [] ?m"
  have ok: "om_ok ?m" by (simp add: om_ok_empty ObstacleMap_init_def Let_def)
  have nd: "omc_score_decay_per_second (om_config ?m) \<le> 0"
    by (simp add: ObstacleMap_init_def ObstacleMapConfig_default_def Let_def)
  have "snd (om_drain_delta ?m) = ?m" by (simp add: om_drain_delta_def ObstacleMap_init_def Let_def)
  moreover have "om_step ?m ?m'" by (auto simp: om_step_def)
  ultimately have st: "om_step\<^sup>*\<^sup>* (snd (om_drain_delta ?m)) ?m'" by (simp add: r_into_rtranclp)
  have "length (om_cells ?m') = 1"
    by (simp add: om_update_def Let_def om_finish_update_def om_refresh_summary_def compact_evidence_def
        om_begin_update_def decay_to_def ObstacleMap_init_def ObstacleMapConfig_default_def
        compact_item_def adopt_frame_def frame_mismatch_def frame_empty_def frame_equal_def
        compact_accepted_def ObstacleEvidence_default_def ObstacleMapSummary_default_def apply_update_new
        note_compaction_def)
  then have mem: "om_cells ?m' ! 0 \<in> set (om_cells ?m')" by simp
  have idx: "om_idx_ok ?m'"
    using om_update_refines(1) ok by (simp add: om_ok_def)
  from store_get_of_set [OF idx mem]
  have "om_lookup ?m' (fst (om_cells ?m' ! 0)) = Some (snd (om_cells ?m' ! 0))"
    by (simp add: om_lookup_def)
  then obtain k c where kc: "om_lookup ?m' k = Some c" by blast
  have "om_lookup ?m k \<noteq> Some c"
    by (simp add: om_lookup_def store_get_def ObstacleMap_init_def Let_def)
  from om_no_change_lost [OF ok nd st kc this] kc show ?thesis by blast
qed

lemma confidence_or_default_pos: "\<exists>x > 0. confidence_or_default item = Fin x"
  by (cases "ev_confidence item") (auto simp: confidence_or_default_def)

text \<open>One piece of evidence that is not \<open>Occupied\<close>, merged into a fresh cell.\<close>

lemma free_evidence_cell:
  assumes "ev_state item \<noteq> EvOccupied"
  shows "let u = merge_evidence item (confidence_or_default item) (new_evidence_update k item);
             cell = update_obstacle_cell c ns u (new_obstacle_cell c ns u)
         in oc_free_score cell = clamp_score (omc_free_hit_score c * confidence_or_default item + 0) (omc_max_score c) \<and>
            oc_occupied_score cell = 0 \<and> oc_positive_observation_count cell = 0"
proof -
  obtain x where "0 < x" "confidence_or_default item = Fin x" using confidence_or_default_pos by blast
  with assms show ?thesis
    by (cases "omc_free_hit_score c * Fin x")
      (simp_all add: Let_def update_obstacle_cell_def merge_evidence_def is_occupied_evidence_def
        new_evidence_update_def new_obstacle_cell_def ObstacleCell_default_def dbl_simps)
qed

text \<open>
  evidence of any state but \<open>Occupied\<close>, the thin-structure risk included, is free-space
  evidence: on an empty map with the default configuration it raises the free score of its
  voxel by its confidence and leaves the occupied score at zero.
\<close>

lemma non_occupied_evidence_counts_as_free:
  assumes "ev_state item \<noteq> EvOccupied" and "finite_point (ev_center_local item)"
  shows "\<exists>cell. om_lookup (om_update [item] now [] (ObstacleMap_init ObstacleMapConfig_default))
             (om_key_for_point ObstacleMapConfig_default (ev_center_local item)) = Some cell \<and>
           oc_free_score cell = clamp_score (confidence_or_default item) 20 \<and>
           oc_occupied_score cell = 0 \<and> oc_positive_observation_count cell = 0"
proof -
  let ?m = "ObstacleMap_init ObstacleMapConfig_default"
  have cfg: "om_config ?m = ObstacleMapConfig_default"
    by (simp add: ObstacleMap_init_def ObstacleMapConfig_default_def Let_def)
  have idx: "om_idx_ok ?m" by (simp add: ObstacleMap_init_def Let_def)
  have "om_updates [item] now [] ?m = [merge_evidence item (confidence_or_default item)
      (new_evidence_update (om_key_for_point ObstacleMapConfig_default (ev_center_local item)) item)]"
    using assms(2)
    by (simp add: om_updates_def compact_evidence_def compact_item_def adopt_frame_def frame_mismatch_def
        frame_empty_def frame_equal_def compact_accepted_def Let_def decay_to_def cfg om_begin_update_def
        ObstacleMap_init_def ObstacleMapSummary_default_def ObstacleMapConfig_default_def)
  moreover have "om_lookup (decay_to now ?m) = Map.empty"
    by (simp add: om_lookup_def [abs_def] store_get_def decay_to_def ObstacleMap_init_def Let_def)
  moreover obtain x where "confidence_or_default item = Fin x" using confidence_or_default_pos by blast
  ultimately show ?thesis
    using free_evidence_cell [OF assms(1), of "om_key_for_point ObstacleMapConfig_default (ev_center_local item)"
        ObstacleMapConfig_default "om_timestamp_ns now"]
    by (simp add: om_update_refines(4) [OF idx] cfg spec_apply_def Let_def)
      (simp add: ObstacleMapConfig_default_def)
qed

lemma non_occupied_evidence_counts_as_free_witness:
  "\<exists>cell. om_lookup (om_update [ObstacleEvidence_default\<lparr>ev_state := EvThinStructureRisk, ev_confidence := 1\<rparr>]
             \<lparr>timestamp_ns = 5\<rparr> [] (ObstacleMap_init ObstacleMapConfig_default))
             (om_key_for_point ObstacleMapConfig_default vec3_zero) = Some cell \<and>
           oc_free_score cell = 1 \<and> oc_occupied_score cell = 0"
  using non_occupied_evidence_counts_as_free
      [of "ObstacleEvidence_default\<lparr>ev_state := EvThinStructureRisk, ev_confidence := 1\<rparr>" "\<lparr>timestamp_ns = 5\<rparr>"]
  by (auto simp: ObstacleEvidence_default_def confidence_or_default_def clamp_score_def dbl_simps)

end
