(* ===== verification/Traversability_Map.thy ===== *)
theory Traversability_Map
  imports Obstacle_Map
begin

text \<open>
  \<open>MissionLocalTraversabilityMap\<close> (\<open>mission_local_traversability_map.hpp/.cpp\<close>), level 1
  of the obstacle maps: the definitions.  One update runs the merge loop, the endpoint spread
  (stage 3), free-space ray casting (stage 2), the cross-check of existing cells (stage 2b),
  the incremental recomputation of derived fields and the summary.

  A ray is marched by a loop over a floating-point parameter; it is a partial function into
  \<open>option\<close>, whose \<open>None\<close> stands for a march that never ends (an infinite ray), so an
  update returns an option as well.  The march is one of exact reals: what rounding adds to the code, a squared
  distance that overflows to infinity (coordinates from about 1e154) or a step too small to move the parameter,
  is not modelled, and in those cases the code marches on where this model ends.  Wall-clock sub-timings of the statistics are left out.
\<close>

section \<open>Data\<close>

datatype TraversabilityCellState =
  TUnknown | ObservedFree | TOccupied | Mixed | Stale

record TraversabilityConfig =
  tmc_cell_size_m :: double
  tmc_vertical_cell_size_m :: double
  tmc_enable_log_odds :: bool
  tmc_occupied_threshold :: double
  tmc_free_threshold :: double
  tmc_max_score :: double
  tmc_log_odds_occupied_increment :: double
  tmc_log_odds_free_decrement :: double
  tmc_log_odds_max :: double
  tmc_endpoint_spread_voxels :: nat
  tmc_endpoint_spread_decay :: double
  tmc_raycast_cross_check_per_frame :: nat
  tmc_stale_after_seconds :: double
  tmc_derived_fields_sweep_per_frame :: nat
  tmc_required_clearance_m :: double
  tmc_soft_clearance_m :: double
  tmc_clearance_search_radius_m :: double
  tmc_occupied_weight :: double
  tmc_proximity_weight :: double
  tmc_unknown_weight :: double
  tmc_stale_weight :: double
  tmc_overhead_weight :: double
  tmc_thin_structure_weight :: double
  tmc_max_evidence_count :: u32

definition TraversabilityConfig_default :: TraversabilityConfig where
  "TraversabilityConfig_default =
    \<lparr>tmc_cell_size_m = Fin (1/2), tmc_vertical_cell_size_m = Fin (1/2),
     tmc_enable_log_odds = True, tmc_occupied_threshold = Fin (1/2), tmc_free_threshold = 1,
     tmc_max_score = 20, tmc_log_odds_occupied_increment = Fin (8473/10000),
     tmc_log_odds_free_decrement = Fin (2197/1000), tmc_log_odds_max = 4,
     tmc_endpoint_spread_voxels = 1, tmc_endpoint_spread_decay = Fin (1/2),
     tmc_raycast_cross_check_per_frame = 0, tmc_stale_after_seconds = 300,
     tmc_derived_fields_sweep_per_frame = 2000, tmc_required_clearance_m = Fin (3/2),
     tmc_soft_clearance_m = 3, tmc_clearance_search_radius_m = 6, tmc_occupied_weight = 1,
     tmc_proximity_weight = Fin (7/10), tmc_unknown_weight = Fin (35/100),
     tmc_stale_weight = Fin (1/4), tmc_overhead_weight = Fin (1/2),
     tmc_thin_structure_weight = Fin (4/10), tmc_max_evidence_count = 65535\<rparr>"

record TraversabilityCell =
  tc_center_map :: Vec3
  tc_size_m :: Vec3
  tc_state :: TraversabilityCellState
  tc_log_odds :: double
  tc_occupied_score :: double
  tc_free_score :: double
  tc_confidence :: double
  tc_unknown_score :: double
  tc_occupied_hits_capped :: u32
  tc_free_rays_capped :: u32
  tc_conflict_count_capped :: u32
  tc_refresh_count_capped :: u32
  tc_first_observed_timestamp_ns :: u64
  tc_last_observed_timestamp_ns :: u64
  tc_age_score :: double
  tc_stability_score :: double
  tc_volatility_score :: double
  tc_nearest_obstacle_distance_m :: double
  tc_clearance_margin_m :: double
  tc_vertical_clearance_up_m :: double
  tc_vertical_clearance_down_m :: double
  tc_occupied_cost :: double
  tc_proximity_cost :: double
  tc_unknown_cost :: double
  tc_stale_cost :: double
  tc_overhead_cost :: double
  tc_thin_structure_cost :: double
  tc_total_traversability_cost :: double
  tc_stale :: bool

definition TraversabilityCell_default :: TraversabilityCell where
  "TraversabilityCell_default =
    \<lparr>tc_center_map = vec3_zero, tc_size_m = vec3_zero, tc_state = TUnknown, tc_log_odds = 0,
     tc_occupied_score = 0, tc_free_score = 0, tc_confidence = 0, tc_unknown_score = 1,
     tc_occupied_hits_capped = 0, tc_free_rays_capped = 0, tc_conflict_count_capped = 0,
     tc_refresh_count_capped = 0, tc_first_observed_timestamp_ns = 0,
     tc_last_observed_timestamp_ns = 0, tc_age_score = 0, tc_stability_score = 0,
     tc_volatility_score = 0, tc_nearest_obstacle_distance_m = PInf,
     tc_clearance_margin_m = PInf, tc_vertical_clearance_up_m = PInf,
     tc_vertical_clearance_down_m = PInf, tc_occupied_cost = 0, tc_proximity_cost = 0,
     tc_unknown_cost = 0, tc_stale_cost = 0, tc_overhead_cost = 0, tc_thin_structure_cost = 0,
     tc_total_traversability_cost = 0, tc_stale = False\<rparr>"

record TraversabilitySummary =
  tms_map_frame_id :: MapFrameId
  tms_update_count :: u64
  tms_last_update_timestamp_ns :: u64
  tms_source_obstacle_cell_count :: nat
  tms_accepted_source_cell_count :: nat
  tms_new_cell_count :: nat
  tms_updated_cell_count :: nat
  tms_cell_count :: nat
  tms_occupied_cell_count :: nat
  tms_free_cell_count :: nat
  tms_mixed_cell_count :: nat
  tms_stale_cell_count :: nat
  tms_low_clearance_cell_count :: nat
  tms_overhead_risk_cell_count :: nat
  tms_volatile_cell_count :: nat
  tms_minimum_clearance_m :: double
  tms_minimum_vertical_clearance_up_m :: double

definition TraversabilitySummary_default :: TraversabilitySummary where
  "TraversabilitySummary_default =
    \<lparr>tms_map_frame_id = [], tms_update_count = 0, tms_last_update_timestamp_ns = 0,
     tms_source_obstacle_cell_count = 0, tms_accepted_source_cell_count = 0,
     tms_new_cell_count = 0, tms_updated_cell_count = 0, tms_cell_count = 0,
     tms_occupied_cell_count = 0, tms_free_cell_count = 0, tms_mixed_cell_count = 0,
     tms_stale_cell_count = 0, tms_low_clearance_cell_count = 0,
     tms_overhead_risk_cell_count = 0, tms_volatile_cell_count = 0,
     tms_minimum_clearance_m = PInf, tms_minimum_vertical_clearance_up_m = PInf\<rparr>"

record TraversabilityStats =
  tst_spread_created_cell_count :: nat
  tst_recompute_set_size :: nat

record TraversabilitySnapshot =
  tmp_config :: TraversabilityConfig
  tmp_summary :: TraversabilitySummary
  tmp_cells :: "TraversabilityCell list"
  tmp_is_delta :: bool

record TraversabilityQueryResult =
  tq_known :: bool
  tq_occupied :: bool
  tq_observed_free :: bool
  tq_stale :: bool
  tq_nearest_obstacle_distance_m :: double
  tq_clearance_margin_m :: double
  tq_occupied_fraction :: double
  tq_unknown_fraction :: double
  tq_total_cost :: double

record TraversabilityMap =
  tm_config :: TraversabilityConfig
  tm_summary :: TraversabilitySummary
  tm_last_update_stats :: TraversabilityStats
  tm_cells :: "(CellKey \<times> TraversabilityCell) list"
  tm_cell_index :: "CellKey \<rightharpoonup> nat"
  tm_cross_check_cursor :: nat
  tm_sweep_cursor :: nat
  tm_occupied_indices :: "nat list"
  tm_touched :: "CellKey list"

section \<open>Helpers\<close>

text \<open>Unlike the raw map's cast, this file-local \<open>timestamp_ns\<close> sends negative times to 0.\<close>

definition tm_timestamp_ns :: "TimePoint \<Rightarrow> u64" where
  "tm_timestamp_ns t = (if 0 < timestamp_ns t then word_of_int (timestamp_ns t) else 0)"

definition normalize_score :: "double \<Rightarrow> double \<Rightarrow> double" where
  "normalize_score v threshold =
     (if \<not> 0 < threshold then (if 0 < v then 1 else 0) else clamp01 (v / threshold))"

definition distance :: "Vec3 \<Rightarrow> Vec3 \<Rightarrow> double" where
  "distance a b =
     (let dx = vx a - vx b; dy = vy a - vy b; dz = vz a - vz b
      in std_sqrt (dx * dx + dy * dy + dz * dz))"

definition capped_max_count :: "u32 \<Rightarrow> u32 \<Rightarrow> u32 \<Rightarrow> u32" where
  "capped_max_count existing observed cap = max existing (min observed cap)"

definition TraversabilityMap_init :: "TraversabilityConfig \<Rightarrow> TraversabilityMap" where
  "TraversabilityMap_init config =
     (let c = config;
          c = (if \<not> 0 < tmc_cell_size_m c then c\<lparr>tmc_cell_size_m := Fin (1/2)\<rparr> else c);
          c = (if \<not> 0 < tmc_vertical_cell_size_m c
               then c\<lparr>tmc_vertical_cell_size_m := tmc_cell_size_m c\<rparr> else c);
          c = (if \<not> 0 < tmc_required_clearance_m c
               then c\<lparr>tmc_required_clearance_m := Fin (3/2)\<rparr> else c);
          c = (if \<not> tmc_required_clearance_m c \<le> tmc_soft_clearance_m c
               then c\<lparr>tmc_soft_clearance_m := tmc_required_clearance_m c\<rparr> else c);
          c = (if \<not> 0 < tmc_clearance_search_radius_m c
               then c\<lparr>tmc_clearance_search_radius_m :=
                        std_max (2 * tmc_soft_clearance_m c) (tmc_cell_size_m c)\<rparr> else c)
      in \<lparr>tm_config = c, tm_summary = TraversabilitySummary_default,
          tm_last_update_stats = \<lparr>tst_spread_created_cell_count = 0, tst_recompute_set_size = 0\<rparr>,
          tm_cells = [], tm_cell_index = Map.empty, tm_cross_check_cursor = 0,
          tm_sweep_cursor = 0, tm_occupied_indices = [], tm_touched = []\<rparr>)"

definition tm_key_for_point :: "TraversabilityConfig \<Rightarrow> Vec3 \<Rightarrow> CellKey" where
  "tm_key_for_point c p = grid_key (tmc_cell_size_m c) (tmc_vertical_cell_size_m c) p"

definition tm_center_for_key :: "TraversabilityConfig \<Rightarrow> CellKey \<Rightarrow> Vec3" where
  "tm_center_for_key c k = grid_center (tmc_cell_size_m c) (tmc_vertical_cell_size_m c) k"

definition tm_voxel_size :: "TraversabilityConfig \<Rightarrow> Vec3" where
  "tm_voxel_size c = vec3 (tmc_cell_size_m c) (tmc_cell_size_m c) (tmc_vertical_cell_size_m c)"

definition fresh_cell :: "TraversabilityConfig \<Rightarrow> CellKey \<Rightarrow> TraversabilityCell" where
  "fresh_cell c key = TraversabilityCell_default
     \<lparr>tc_center_map := tm_center_for_key c key, tc_size_m := tm_voxel_size c\<rparr>"

definition ensure_cell :: "CellKey \<Rightarrow> TraversabilityMap \<Rightarrow> TraversabilityMap" where
  "ensure_cell key m =
     (case tm_cell_index m key of
        Some _ \<Rightarrow> m
      | None \<Rightarrow>
          m\<lparr>tm_cells := tm_cells m @ [(key, fresh_cell (tm_config m) key)],
               tm_cell_index := (tm_cell_index m)(key \<mapsto> length (tm_cells m)),
               tm_summary := (tm_summary m)\<lparr>tms_new_cell_count := tms_new_cell_count (tm_summary m) + 1\<rparr>\<rparr>)"

definition cell_at_key :: "TraversabilityMap \<Rightarrow> CellKey \<Rightarrow> TraversabilityCell option" where
  "cell_at_key m key = map_option snd (store_get (tm_cells m) (tm_cell_index m) key)"

text \<open>Writing through the reference that \<open>ensure_cell\<close> or a lookup returned.\<close>

definition modify_cell ::
    "CellKey \<Rightarrow> (TraversabilityCell \<Rightarrow> TraversabilityCell) \<Rightarrow> TraversabilityMap \<Rightarrow> TraversabilityMap" where
  "modify_cell key f m =
     (case tm_cell_index m key of
        None \<Rightarrow> m
      | Some i \<Rightarrow> m\<lparr>tm_cells := (tm_cells m)[i := (fst (tm_cells m ! i), f (snd (tm_cells m ! i)))]\<rparr>)"

text \<open>The state of one tick: the map, the keys touched this tick, the indices of new source cells.\<close>

record Tick =
  tk_map :: TraversabilityMap
  tk_touched :: "CellKey list"
  tk_new :: "nat list"

definition touch :: "CellKey \<Rightarrow> Tick \<Rightarrow> Tick" where
  "touch key t =
     t\<lparr>tk_map := (tk_map t)\<lparr>tm_touched := set_insert key (tm_touched (tk_map t))\<rparr>,
       tk_touched := set_insert key (tk_touched t)\<rparr>"

section \<open>The merge loop\<close>

definition merge_source ::
    "TraversabilityConfig \<Rightarrow> u64 \<Rightarrow> CellKey \<Rightarrow> ObstacleCell \<Rightarrow> TraversabilityCell \<Rightarrow> TraversabilityCell" where
  "merge_source c now_ns key source cell =
     (let source_time = (if oc_last_observed_timestamp_ns source \<noteq> 0
                         then oc_last_observed_timestamp_ns source else now_ns);
          cell = cell\<lparr>tc_center_map := tm_center_for_key c key, tc_size_m := tm_voxel_size c\<rparr>;
          cell = (if tc_first_observed_timestamp_ns cell = 0
                  then cell\<lparr>tc_first_observed_timestamp_ns :=
                         (if oc_first_observed_timestamp_ns source \<noteq> 0
                          then oc_first_observed_timestamp_ns source else source_time)\<rparr> else cell);
          cell = cell\<lparr>tc_last_observed_timestamp_ns := max (tc_last_observed_timestamp_ns cell) source_time\<rparr>;
          cell = (if tmc_enable_log_odds c
                  then cell\<lparr>tc_log_odds := std_clamp
                         (tc_log_odds cell + oc_confidence source * tmc_log_odds_occupied_increment c)
                         (- tmc_log_odds_max c) (tmc_log_odds_max c)\<rparr>
                  else cell\<lparr>tc_occupied_score := clamp_score
                         (std_max (tc_occupied_score cell) (oc_occupied_score source)) (tmc_max_score c)\<rparr>);
          cap = tmc_max_evidence_count c;
          cell = cell\<lparr>tc_free_score := clamp_score
                         (std_max (tc_free_score cell) (oc_free_score source)) (tmc_max_score c),
                      tc_confidence := clamp01 (std_max (tc_confidence cell) (oc_confidence source)),
                      tc_occupied_hits_capped := capped_max_count (tc_occupied_hits_capped cell)
                         (oc_positive_observation_count source) cap,
                      tc_free_rays_capped := capped_max_count (tc_free_rays_capped cell)
                         (oc_negative_observation_count source) cap,
                      tc_conflict_count_capped := capped_max_count (tc_conflict_count_capped cell)
                         (oc_same_update_duplicate_count source) cap\<rparr>
      in if tc_refresh_count_capped cell < cap
         then cell\<lparr>tc_refresh_count_capped := tc_refresh_count_capped cell + 1\<rparr> else cell)"

definition source_skipped :: "ObstacleMapSnapshot \<Rightarrow> TraversabilitySummary \<Rightarrow> ObstacleCell \<Rightarrow> bool" where
  "source_skipped om sm source \<longleftrightarrow>
     \<not> oc_observed source \<or> \<not> finite_point (oc_center_map source) \<or>
     (\<not> frame_empty (oms_map_frame_id (omp_summary om)) \<and> \<not> frame_empty (tms_map_frame_id sm) \<and>
      \<not> frame_equal (oms_map_frame_id (omp_summary om)) (tms_map_frame_id sm))"

definition merge_step :: "ObstacleMapSnapshot \<Rightarrow> u64 \<Rightarrow> nat \<times> ObstacleCell \<Rightarrow> Tick \<Rightarrow> Tick" where
  "merge_step om now_ns ci_source t =
     (let (ci, source) = ci_source; m = tk_map t; c = tm_config m; sm = tm_summary m
      in if source_skipped om sm source then t
         else let m = m\<lparr>tm_summary := sm\<lparr>tms_accepted_source_cell_count := tms_accepted_source_cell_count sm + 1\<rparr>\<rparr>;
                  key = tm_key_for_point c (oc_center_map source);
                  existed = (tm_cell_index m key \<noteq> None);
                  m = ensure_cell key m;
                  t = touch key (t\<lparr>tk_map := m\<rparr>);
                  m = tk_map t;
                  t = (if existed
                       then t\<lparr>tk_map := m\<lparr>tm_summary := (tm_summary m)
                                 \<lparr>tms_updated_cell_count := tms_updated_cell_count (tm_summary m) + 1\<rparr>\<rparr>\<rparr>
                       else t\<lparr>tk_new := tk_new t @ [ci]\<rparr>)
              in t\<lparr>tk_map := modify_cell key (merge_source c now_ns key source) (tk_map t)\<rparr>)"

section \<open>Stage 3: endpoint spread\<close>

definition stamp_evidence ::
    "TraversabilityConfig \<Rightarrow> u64 \<Rightarrow> double \<Rightarrow> TraversabilityCell \<Rightarrow> TraversabilityCell" where
  "stamp_evidence c now_ns lo cell =
     cell\<lparr>tc_log_odds := std_clamp lo (- tmc_log_odds_max c) (tmc_log_odds_max c),
          tc_last_observed_timestamp_ns := max (tc_last_observed_timestamp_ns cell) now_ns\<rparr>"

definition point_along :: "Vec3 \<Rightarrow> Vec3 \<Rightarrow> double \<Rightarrow> Vec3" where
  "point_along p n t = vec3 (vx p + vx n * t) (vy p + vy n * t) (vz p + vz n * t)"

fun spread_loop ::
    "TraversabilityConfig \<Rightarrow> u64 \<Rightarrow> ObstacleCell \<Rightarrow> Vec3 \<Rightarrow> nat \<Rightarrow> double \<Rightarrow> nat \<Rightarrow> Tick \<Rightarrow> Tick" where
  "spread_loop c now_ns source n s weight 0 t = t"
| "spread_loop c now_ns source n s weight (Suc left) t =
     (let step = Fin (real s) * tmc_cell_size_m c;
          key = tm_key_for_point c (point_along (oc_center_map source) n step);
          t = touch key (t\<lparr>tk_map := ensure_cell key (tk_map t)\<rparr>);
          t = t\<lparr>tk_map := modify_cell key (\<lambda>cell. stamp_evidence c now_ns
                 (tc_log_odds cell + oc_confidence source * weight * tmc_log_odds_occupied_increment c) cell)
                 (tk_map t)\<rparr>
      in spread_loop c now_ns source n (Suc s) (weight * tmc_endpoint_spread_decay c) left t)"

text \<open>Direction and length of the ray from the sensor to an endpoint.\<close>

definition ray_dist :: "Vec3 \<Rightarrow> Vec3 \<Rightarrow> double" where
  "ray_dist origin endpoint = distance endpoint origin"

definition ray_dir :: "Vec3 \<Rightarrow> Vec3 \<Rightarrow> Vec3" where
  "ray_dir origin endpoint =
     (let d = ray_dist origin endpoint
      in vec3 ((vx endpoint - vx origin) / d) ((vy endpoint - vy origin) / d) ((vz endpoint - vz origin) / d))"

definition half_cell :: "TraversabilityConfig \<Rightarrow> double" where
  "half_cell c = tmc_cell_size_m c * Fin (1/2)"

definition spread_source :: "ObstacleMapSnapshot \<Rightarrow> u64 \<Rightarrow> nat \<Rightarrow> Tick \<Rightarrow> Tick" where
  "spread_source om now_ns ci t =
     (let c = tm_config (tk_map t); source = omp_cells om ! ci; origin = omp_sensor_origin_map om
      in if \<not> oc_observed source \<or> \<not> finite_point (oc_center_map source) then t
         else if ray_dist origin (oc_center_map source) \<le> half_cell c then t
         else spread_loop c now_ns source (ray_dir origin (oc_center_map source)) 1
                (tmc_endpoint_spread_decay c) (tmc_endpoint_spread_voxels c) t)"

section \<open>Stages 2 and 2b: free-space ray casting\<close>

definition free_hit ::
    "TraversabilityConfig \<Rightarrow> u64 \<Rightarrow> double \<Rightarrow> CellKey \<Rightarrow> Tick \<Rightarrow> Tick" where
  "free_hit c now_ns confidence key t =
     (case tm_cell_index (tk_map t) key of
        None \<Rightarrow> t
      | Some _ \<Rightarrow>
          (let t = touch key t
           in t\<lparr>tk_map := modify_cell key (\<lambda>cell. stamp_evidence c now_ns
                  (tc_log_odds cell - confidence * tmc_log_odds_free_decrement c) cell) (tk_map t)\<rparr>))"

partial_function (option) cast_ray ::
    "TraversabilityConfig \<Rightarrow> u64 \<Rightarrow> double \<Rightarrow> Vec3 \<Rightarrow> Vec3 \<Rightarrow> CellKey \<Rightarrow> double \<Rightarrow> double \<Rightarrow> double \<Rightarrow> Tick \<Rightarrow> Tick option" where
  "cast_ray c now_ns confidence origin n endpoint_key step len t tick =
     (if t < len
      then let key = tm_key_for_point c (point_along origin n t)
           in if key = endpoint_key then Some tick
              else cast_ray c now_ns confidence origin n endpoint_key step len (t + step)
                     (free_hit c now_ns confidence key tick)
      else Some tick)"

definition cast_to ::
    "TraversabilityConfig \<Rightarrow> u64 \<Rightarrow> double \<Rightarrow> Vec3 \<Rightarrow> Vec3 \<Rightarrow> Tick \<Rightarrow> Tick option" where
  "cast_to c now_ns confidence origin endpoint tick =
     (let step = half_cell c; len = ray_dist origin endpoint
      in if len \<le> step then Some tick
         else cast_ray c now_ns confidence origin (ray_dir origin endpoint)
                (tm_key_for_point c endpoint) step len step tick)"

fun ofold :: "('a \<Rightarrow> 's \<Rightarrow> 's option) \<Rightarrow> 'a list \<Rightarrow> 's \<Rightarrow> 's option" where
  "ofold f [] s = Some s"
| "ofold f (x # xs) s = (case f x s of None \<Rightarrow> None | Some s' \<Rightarrow> ofold f xs s')"

definition free_cast_source :: "ObstacleMapSnapshot \<Rightarrow> u64 \<Rightarrow> nat \<Rightarrow> Tick \<Rightarrow> Tick option" where
  "free_cast_source om now_ns ci t =
     (let c = tm_config (tk_map t); source = omp_cells om ! ci
      in if \<not> oc_observed source \<or> \<not> finite_point (oc_center_map source) then Some t
         else cast_to c now_ns (oc_confidence source) (omp_sensor_origin_map om) (oc_center_map source) t)"

definition next_cursor :: "nat \<Rightarrow> nat \<Rightarrow> nat" where
  "next_cursor total_n cursor = (if cursor + 1 < total_n then cursor + 1 else 0)"

function cross_check ::
    "u64 \<Rightarrow> Vec3 \<Rightarrow> nat \<Rightarrow> nat \<Rightarrow> nat \<Rightarrow> nat \<Rightarrow> Tick \<Rightarrow> Tick option" where
  "cross_check now_ns origin k total_n checked scanned t =
     (if checked < k \<and> scanned < total_n
      then let m = tk_map t; c = tm_config m; ci = tm_cross_check_cursor m;
               t = t\<lparr>tk_map := m\<lparr>tm_cross_check_cursor := next_cursor total_n ci\<rparr>\<rparr>;
               cell = snd (tm_cells m ! ci)
           in if tc_log_odds cell \<le> 0
              then cross_check now_ns origin k total_n checked (Suc scanned) t
              else (case cast_to c now_ns (tc_confidence cell) origin (tc_center_map cell) t of
                      None \<Rightarrow> None
                    | Some t' \<Rightarrow> cross_check now_ns origin k total_n (Suc checked) (Suc scanned) t')
      else Some t)"
  by pat_completeness auto
termination
  by (relation "measure (\<lambda>(now_ns, origin, k, total_n, checked, scanned, t). total_n - scanned)") auto

section \<open>Derived fields\<close>

fun sweep_loop :: "nat \<Rightarrow> nat \<Rightarrow> nat \<Rightarrow> nat list \<Rightarrow> nat list \<times> nat" where
  "sweep_loop total_n 0 cursor inds = (inds, cursor)"
| "sweep_loop total_n (Suc left) cursor inds =
     sweep_loop total_n left (next_cursor total_n cursor) (set_insert cursor inds)"

definition recompute_indices :: "CellKey list \<Rightarrow> TraversabilityMap \<Rightarrow> nat list \<times> nat" where
  "recompute_indices touched m =
     (let inds = fold set_insert (List.map_filter (tm_cell_index m) touched) [];
          total_n = length (tm_cells m)
      in if 0 < total_n
         then let cursor = (if total_n \<le> tm_sweep_cursor m then 0 else tm_sweep_cursor m)
              in sweep_loop total_n (min (tmc_derived_fields_sweep_per_frame (tm_config m)) total_n) cursor inds
         else (inds, tm_sweep_cursor m))"

definition occupied_strength :: "TraversabilityConfig \<Rightarrow> TraversabilityCell \<Rightarrow> double" where
  "occupied_strength c cell = normalize_score (tc_occupied_score cell) (tmc_occupied_threshold c)"

definition free_strength :: "TraversabilityConfig \<Rightarrow> TraversabilityCell \<Rightarrow> double" where
  "free_strength c cell = normalize_score (tc_free_score cell) (tmc_free_threshold c)"

definition cell_age_seconds :: "u64 \<Rightarrow> TraversabilityCell \<Rightarrow> double" where
  "cell_age_seconds now_ns cell =
     (if tc_last_observed_timestamp_ns cell = 0 \<or> now_ns \<le> tc_last_observed_timestamp_ns cell then 0
      else Fin (real (unat (now_ns - tc_last_observed_timestamp_ns cell))) * Fin (1 / 1000000000))"

definition derive_cell :: "TraversabilityConfig \<Rightarrow> u64 \<Rightarrow> TraversabilityCell \<Rightarrow> TraversabilityCell" where
  "derive_cell c now_ns cell =
     (let cell = (if tmc_enable_log_odds c then cell\<lparr>tc_occupied_score := sigmoid (tc_log_odds cell)\<rparr> else cell);
          occ_s = occupied_strength c cell;
          free_s = free_strength c cell;
          unknown = clamp01 (1 - std_max occ_s free_s);
          age = cell_age_seconds now_ns cell;
          age_score = (if 0 < tmc_stale_after_seconds c then clamp01 (age / tmc_stale_after_seconds c) else 0);
          stale = (0 < tmc_stale_after_seconds c \<and> tmc_stale_after_seconds c < age);
          occupied = (1 \<le> occ_s);
          observed_free = (if tmc_enable_log_odds c then tc_log_odds cell < 0 \<and> \<not> occupied else 1 \<le> free_s);
          state = (if occupied \<and> observed_free then Mixed
                   else if occupied then TOccupied
                   else if observed_free then (if stale then Stale else ObservedFree)
                   else (if stale then Stale else TUnknown));
          volatility = clamp01 (std_min occ_s free_s + Fin (1/4) * unknown);
          stability = clamp01 (std_max occ_s free_s - volatility)
      in cell\<lparr>tc_unknown_score := unknown, tc_age_score := age_score, tc_stale := stale,
              tc_state := state, tc_volatility_score := volatility, tc_stability_score := stability\<rparr>)"

definition pass1 :: "TraversabilityConfig \<Rightarrow> u64 \<Rightarrow> nat \<Rightarrow> TraversabilityMap \<Rightarrow> TraversabilityMap" where
  "pass1 c now_ns ci m =
     (let (k, cell) = tm_cells m ! ci; cell = derive_cell c now_ns cell
      in m\<lparr>tm_cells := (tm_cells m)[ci := (k, cell)],
           tm_occupied_indices := (if 1 \<le> occupied_strength c cell
                                   then set_insert ci (tm_occupied_indices m)
                                   else removeAll ci (tm_occupied_indices m))\<rparr>)"

definition clearance_step ::
    "TraversabilityConfig \<Rightarrow> bool \<Rightarrow> CellKey \<Rightarrow> CellKey \<times> Vec3 \<Rightarrow> TraversabilityCell \<Rightarrow> TraversabilityCell" where
  "clearance_step c occupied key other cell =
     (let (okey, ocenter) = other; d = distance (tc_center_map cell) ocenter;
          cell = (if d \<le> tmc_clearance_search_radius_m c
                  then cell\<lparr>tc_nearest_obstacle_distance_m := std_min (tc_nearest_obstacle_distance_m cell) d\<rparr>
                  else cell)
      in if kx okey = kx key \<and> ky okey = ky key
         then let dz = vz ocenter - vz (tc_center_map cell)
              in if 0 < dz then cell\<lparr>tc_vertical_clearance_up_m := std_min (tc_vertical_clearance_up_m cell) dz\<rparr>
                 else if dz < 0
                 then cell\<lparr>tc_vertical_clearance_down_m := std_min (tc_vertical_clearance_down_m cell) (- dz)\<rparr>
                 else if occupied
                 then cell\<lparr>tc_vertical_clearance_up_m := 0, tc_vertical_clearance_down_m := 0\<rparr>
                 else cell
         else cell)"

definition clearance_cell ::
    "TraversabilityConfig \<Rightarrow> bool \<Rightarrow> CellKey \<Rightarrow> (CellKey \<times> Vec3) list \<Rightarrow> TraversabilityCell \<Rightarrow> TraversabilityCell" where
  "clearance_cell c occupied key others cell =
     (let cell = fold (clearance_step c occupied key) others
            (cell\<lparr>tc_nearest_obstacle_distance_m := PInf, tc_vertical_clearance_up_m := PInf,
                  tc_vertical_clearance_down_m := PInf\<rparr>);
          req = tmc_required_clearance_m c; soft = tmc_soft_clearance_m c;
          cell = (if occupied then cell\<lparr>tc_nearest_obstacle_distance_m := 0, tc_clearance_margin_m := - req\<rparr>
                  else if isfinite (tc_nearest_obstacle_distance_m cell)
                  then cell\<lparr>tc_clearance_margin_m := tc_nearest_obstacle_distance_m cell - req\<rparr>
                  else cell\<lparr>tc_clearance_margin_m := PInf\<rparr>);
          near = tc_nearest_obstacle_distance_m cell;
          up = tc_vertical_clearance_up_m cell
      in cell\<lparr>tc_proximity_cost := (if occupied then 1
                 else if isfinite near \<and> near < soft then clamp01 ((soft - near) / soft) else 0),
              tc_overhead_cost := (if isfinite up \<and> up < 2 * req
                 then clamp01 ((2 * req - up) / (2 * req)) else 0)\<rparr>)"

definition cost_cell :: "TraversabilityConfig \<Rightarrow> bool \<Rightarrow> TraversabilityCell \<Rightarrow> TraversabilityCell" where
  "cost_cell c occupied cell =
     (let cell = cell\<lparr>tc_occupied_cost := (if occupied then 1 else 0),
                      tc_unknown_cost := tc_unknown_score cell,
                      tc_stale_cost := (if tc_stale cell then tc_age_score cell else 0),
                      tc_thin_structure_cost := tc_volatility_score cell\<rparr>;
          weighted = tmc_occupied_weight c * tc_occupied_cost cell
                   + tmc_proximity_weight c * tc_proximity_cost cell
                   + tmc_unknown_weight c * tc_unknown_cost cell
                   + tmc_stale_weight c * tc_stale_cost cell
                   + tmc_overhead_weight c * tc_overhead_cost cell
                   + tmc_thin_structure_weight c * tc_thin_structure_cost cell;
          total_weight = tmc_occupied_weight c + tmc_proximity_weight c + tmc_unknown_weight c
                   + tmc_stale_weight c + tmc_overhead_weight c + tmc_thin_structure_weight c
      in cell\<lparr>tc_total_traversability_cost :=
                (if 0 < total_weight then clamp01 (weighted / total_weight) else clamp01 weighted)\<rparr>)"

definition pass2_cell ::
    "TraversabilityConfig \<Rightarrow> bool \<Rightarrow> (CellKey \<times> Vec3) list \<Rightarrow> CellKey \<Rightarrow> TraversabilityCell \<Rightarrow> TraversabilityCell" where
  "pass2_cell c include_clearance others key cell =
     (let occupied = (tmc_occupied_threshold c \<le> tc_occupied_score cell)
      in cost_cell c occupied
           (if include_clearance then clearance_cell c occupied key others cell else cell))"

definition pass2 ::
    "TraversabilityConfig \<Rightarrow> bool \<Rightarrow> (CellKey \<times> Vec3) list \<Rightarrow> nat \<Rightarrow> TraversabilityMap \<Rightarrow> TraversabilityMap" where
  "pass2 c include_clearance others ci m =
     (let (k, cell) = tm_cells m ! ci
      in m\<lparr>tm_cells := (tm_cells m)[ci := (k, pass2_cell c include_clearance others k cell)]\<rparr>)"

definition occupied_cells :: "TraversabilityMap \<Rightarrow> (CellKey \<times> Vec3) list" where
  "occupied_cells m = map (\<lambda>i. (fst (tm_cells m ! i), tc_center_map (snd (tm_cells m ! i)))) (tm_occupied_indices m)"

text \<open>The two passes for a given iteration order of \<open>recompute_indices\<close>.\<close>

definition recompute_passes :: "u64 \<Rightarrow> bool \<Rightarrow> nat list \<Rightarrow> TraversabilityMap \<Rightarrow> TraversabilityMap" where
  "recompute_passes now_ns include_clearance inds m =
     (let c = tm_config m; m1 = fold (pass1 c now_ns) inds m;
          others = (if include_clearance then occupied_cells m1 else [])
      in fold (pass2 c include_clearance others) inds m1)"

definition recompute_derived_fields ::
    "TimePoint \<Rightarrow> bool \<Rightarrow> CellKey list \<Rightarrow> TraversabilityMap \<Rightarrow> nat \<times> TraversabilityMap" where
  "recompute_derived_fields now include_clearance touched m =
     (let (inds, cursor) = recompute_indices touched m
      in (length inds, recompute_passes (tm_timestamp_ns now) include_clearance inds
                         (m\<lparr>tm_sweep_cursor := cursor\<rparr>)))"

section \<open>Summary, update, queries\<close>

definition summary_cell :: "TraversabilityCell \<Rightarrow> TraversabilitySummary \<Rightarrow> TraversabilitySummary" where
  "summary_cell cell sm =
     (let sm = (case tc_state cell of
                  TOccupied \<Rightarrow> sm\<lparr>tms_occupied_cell_count := tms_occupied_cell_count sm + 1\<rparr>
                | ObservedFree \<Rightarrow> sm\<lparr>tms_free_cell_count := tms_free_cell_count sm + 1\<rparr>
                | Mixed \<Rightarrow> sm\<lparr>tms_mixed_cell_count := tms_mixed_cell_count sm + 1,
                             tms_occupied_cell_count := tms_occupied_cell_count sm + 1,
                             tms_free_cell_count := tms_free_cell_count sm + 1\<rparr>
                | _ \<Rightarrow> sm);
          sm = (if tc_stale cell \<or> tc_state cell = Stale
                then sm\<lparr>tms_stale_cell_count := tms_stale_cell_count sm + 1\<rparr> else sm);
          sm = (if isfinite (tc_clearance_margin_m cell) \<and> tc_clearance_margin_m cell < 0
                then sm\<lparr>tms_low_clearance_cell_count := tms_low_clearance_cell_count sm + 1\<rparr> else sm);
          sm = (if 0 < tc_overhead_cost cell
                then sm\<lparr>tms_overhead_risk_cell_count := tms_overhead_risk_cell_count sm + 1\<rparr> else sm);
          sm = (if Fin (1/4) < tc_volatility_score cell
                then sm\<lparr>tms_volatile_cell_count := tms_volatile_cell_count sm + 1\<rparr> else sm);
          sm = (if isfinite (tc_nearest_obstacle_distance_m cell)
                then sm\<lparr>tms_minimum_clearance_m :=
                          std_min (tms_minimum_clearance_m sm) (tc_nearest_obstacle_distance_m cell)\<rparr> else sm)
      in if isfinite (tc_vertical_clearance_up_m cell)
         then sm\<lparr>tms_minimum_vertical_clearance_up_m :=
                   std_min (tms_minimum_vertical_clearance_up_m sm) (tc_vertical_clearance_up_m cell)\<rparr> else sm)"

definition tm_refresh_summary :: "TraversabilityMap \<Rightarrow> TraversabilityMap" where
  "tm_refresh_summary m =
     m\<lparr>tm_summary := fold (summary_cell \<circ> snd) (tm_cells m)
        ((tm_summary m)\<lparr>tms_cell_count := length (tm_cells m), tms_occupied_cell_count := 0,
           tms_free_cell_count := 0, tms_mixed_cell_count := 0, tms_stale_cell_count := 0,
           tms_low_clearance_cell_count := 0, tms_overhead_risk_cell_count := 0,
           tms_volatile_cell_count := 0, tms_minimum_clearance_m := PInf,
           tms_minimum_vertical_clearance_up_m := PInf\<rparr>)\<rparr>"

definition tm_begin_update :: "ObstacleMapSnapshot \<Rightarrow> TraversabilityMap \<Rightarrow> TraversabilityMap" where
  "tm_begin_update om m =
     (let sm = tm_summary m; f = oms_map_frame_id (omp_summary om);
          sm = (if frame_empty (tms_map_frame_id sm) \<and> \<not> frame_empty f
                then sm\<lparr>tms_map_frame_id := f\<rparr> else sm)
      in m\<lparr>tm_summary := sm\<lparr>tms_source_obstacle_cell_count := length (omp_cells om),
              tms_accepted_source_cell_count := 0, tms_new_cell_count := 0, tms_updated_cell_count := 0\<rparr>\<rparr>)"

definition merge_loop :: "ObstacleMapSnapshot \<Rightarrow> u64 \<Rightarrow> TraversabilityMap \<Rightarrow> Tick" where
  "merge_loop om now_ns m =
     fold (merge_step om now_ns) (enumerate 0 (omp_cells om)) \<lparr>tk_map = m, tk_touched = [], tk_new = []\<rparr>"

definition stage3 :: "ObstacleMapSnapshot \<Rightarrow> u64 \<Rightarrow> Tick \<Rightarrow> Tick" where
  "stage3 om now_ns t =
     (let c = tm_config (tk_map t)
      in if tmc_enable_log_odds c \<and> omp_sensor_origin_valid om \<and> 0 < tmc_endpoint_spread_voxels c
         then fold (spread_source om now_ns) (tk_new t) t else t)"

definition stage2 :: "ObstacleMapSnapshot \<Rightarrow> u64 \<Rightarrow> Tick \<Rightarrow> Tick option" where
  "stage2 om now_ns t =
     (if tmc_enable_log_odds (tm_config (tk_map t)) \<and> omp_sensor_origin_valid om
      then ofold (free_cast_source om now_ns) (tk_new t) t else Some t)"

definition stage2b :: "ObstacleMapSnapshot \<Rightarrow> u64 \<Rightarrow> Tick \<Rightarrow> Tick option" where
  "stage2b om now_ns t =
     (let m = tk_map t; c = tm_config m; total_n = length (tm_cells m)
      in if tmc_enable_log_odds c \<and> omp_sensor_origin_valid om \<and>
            0 < tmc_raycast_cross_check_per_frame c \<and> tm_cells m \<noteq> []
         then cross_check now_ns (omp_sensor_origin_map om) (tmc_raycast_cross_check_per_frame c) total_n 0 0
                (if total_n \<le> tm_cross_check_cursor m then t\<lparr>tk_map := m\<lparr>tm_cross_check_cursor := 0\<rparr>\<rparr> else t)
         else Some t)"

definition tm_finish_update :: "TimePoint \<Rightarrow> bool \<Rightarrow> nat \<Rightarrow> Tick \<Rightarrow> TraversabilityMap" where
  "tm_finish_update now include_clearance spread_created t =
     (let (n, m) = recompute_derived_fields now include_clearance (tk_touched t) (tk_map t);
          sm = tm_summary m
      in tm_refresh_summary
           (m\<lparr>tm_last_update_stats := \<lparr>tst_spread_created_cell_count = spread_created, tst_recompute_set_size = n\<rparr>,
              tm_summary := sm\<lparr>tms_update_count := tms_update_count sm + 1,
                               tms_last_update_timestamp_ns := tm_timestamp_ns now\<rparr>\<rparr>))"

definition tm_update ::
    "ObstacleMapSnapshot \<Rightarrow> TimePoint \<Rightarrow> bool \<Rightarrow> TraversabilityMap \<Rightarrow> TraversabilityMap option" where
  "tm_update om now include_clearance m =
     (let now_ns = tm_timestamp_ns now;
          t1 = merge_loop om now_ns (tm_begin_update om m);
          t2 = stage3 om now_ns t1;
          spread_created = length (tm_cells (tk_map t2)) - length (tm_cells (tk_map t1))
      in case stage2 om now_ns t2 of
           None \<Rightarrow> None
         | Some t3 \<Rightarrow> (case stage2b om now_ns t3 of
             None \<Rightarrow> None
           | Some t4 \<Rightarrow> Some (tm_finish_update now include_clearance spread_created t4)))"

definition cost_before :: "TraversabilityCell \<Rightarrow> TraversabilityCell \<Rightarrow> bool" where
  "cost_before l r =
     (if deq (tc_total_traversability_cost l) (tc_total_traversability_cost r)
      then if deq (vx (tc_center_map l)) (vx (tc_center_map r))
           then if deq (vy (tc_center_map l)) (vy (tc_center_map r))
                then vz (tc_center_map l) < vz (tc_center_map r)
                else vy (tc_center_map l) < vy (tc_center_map r)
           else vx (tc_center_map l) < vx (tc_center_map r)
      else tc_total_traversability_cost r < tc_total_traversability_cost l)"

fun insert_by :: "('a \<Rightarrow> 'a \<Rightarrow> bool) \<Rightarrow> 'a \<Rightarrow> 'a list \<Rightarrow> 'a list" where
  "insert_by lt x [] = [x]"
| "insert_by lt x (y # ys) = (if lt y x then y # insert_by lt x ys else x # y # ys)"

definition std_sort :: "('a \<Rightarrow> 'a \<Rightarrow> bool) \<Rightarrow> 'a list \<Rightarrow> 'a list" where
  "std_sort lt xs = foldr (insert_by lt) xs []"

definition tm_snapshot :: "nat \<Rightarrow> bool \<Rightarrow> TraversabilityMap \<Rightarrow> TraversabilitySnapshot" where
  "tm_snapshot max_cells sort_by_cost m =
     (let cs = map snd (tm_cells m); cs = (if sort_by_cost then std_sort cost_before cs else cs)
      in \<lparr>tmp_config = tm_config m, tmp_summary = tm_summary m,
          tmp_cells = (if 0 < max_cells \<and> max_cells < length cs then take max_cells cs else cs),
          tmp_is_delta = False\<rparr>)"

definition tm_drain_delta :: "TraversabilityMap \<Rightarrow> TraversabilitySnapshot \<times> TraversabilityMap" where
  "tm_drain_delta m =
     (\<lparr>tmp_config = tm_config m, tmp_summary = tm_summary m,
       tmp_cells = filter (\<lambda>c. tc_occupied_hits_capped c \<noteq> 0) (List.map_filter (cell_at_key m) (tm_touched m)),
       tmp_is_delta = False\<rparr>,
      m\<lparr>tm_touched := []\<rparr>)"

definition query_sphere :: "TraversabilityMap \<Rightarrow> Vec3 \<Rightarrow> double \<Rightarrow> TraversabilityQueryResult" where
  "query_sphere m center radius =
     (let default = \<lparr>tq_known = False, tq_occupied = False, tq_observed_free = False, tq_stale = False,
                     tq_nearest_obstacle_distance_m = PInf, tq_clearance_margin_m = PInf,
                     tq_occupied_fraction = 0, tq_unknown_fraction = 1, tq_total_cost = 1\<rparr>
      in if \<not> finite_point center \<or> \<not> 0 \<le> radius then default
         else (case cell_at_key m (tm_key_for_point (tm_config m) center) of
                 None \<Rightarrow> default
               | Some cell \<Rightarrow>
                   let near = tc_nearest_obstacle_distance_m cell;
                       occ = (tc_state cell = TOccupied \<or> tc_state cell = Mixed \<or>
                              (isfinite near \<and> near \<le> radius))
                   in \<lparr>tq_known = (tc_state cell \<noteq> TUnknown), tq_occupied = occ,
                       tq_observed_free = (tc_state cell = ObservedFree \<or> tc_state cell = Mixed),
                       tq_stale = tc_stale cell, tq_nearest_obstacle_distance_m = near,
                       tq_clearance_margin_m = (if isfinite near then near - radius else PInf),
                       tq_occupied_fraction = (if occ then 1 else 0),
                       tq_unknown_fraction = tc_unknown_score cell,
                       tq_total_cost = tc_total_traversability_cost cell\<rparr>))"

definition tm_reset :: "TraversabilityMap \<Rightarrow> TraversabilityMap" where
  "tm_reset m =
     m\<lparr>tm_cells := [], tm_cell_index := Map.empty, tm_summary := TraversabilitySummary_default,
       tm_last_update_stats := \<lparr>tst_spread_created_cell_count = 0, tst_recompute_set_size = 0\<rparr>,
       tm_cross_check_cursor := 0, tm_sweep_cursor := 0, tm_occupied_indices := [], tm_touched := []\<rparr>"

end
