(* ===== verification/Planning_Map.thy ===== *)
theory Planning_Map
  imports Traversability_Map "HOL-Library.Signed_Division" "HOL-Library.AList"
begin

text \<open>
  The persistent planning map, \<open>MissionLocalPlanningMap\<close> (level 2):
  \<open>avoidance/mission_local_planning_map.{hpp,cpp}\<close> and its query, sliding-window and SQLite
  files.  The state is a record; every member function that changes it is one definition.

  The \<open>unordered_map\<close> of dirty cells is an association list with distinct keys and the
  \<open>unordered_set\<close>s (evicted keys, bucket members) are lists without duplicates.  \<open>float\<close>
  fields are exact like \<open>double\<close>.  The wall clock is an argument (\<open>now_ns\<close>).  The mutex
  guards the two persistence sets only; each definition is one critical section.

  SQLite is not part of the sources: its statements are the fields of a record of operations
  (\<open>Sqlite\<close>) on a database state of any type, one field per SQL statement of the code, and a
  query that fails to prepare is \<open>None\<close>.
\<close>

section \<open>Data\<close>

record PlanningConfig =
  pmc_cell_size_m :: double
  pmc_vertical_cell_size_m :: double
  pmc_min_occupied_score :: double
  pmc_log_odds_occupied_increment :: double
  pmc_log_odds_free_decrement :: double
  pmc_log_odds_max :: double
  pmc_log_odds_eviction_threshold :: double
  pmc_horizon_m :: double

definition PlanningConfig_default :: PlanningConfig where
  "PlanningConfig_default =
    \<lparr>pmc_cell_size_m = 1, pmc_vertical_cell_size_m = 2, pmc_min_occupied_score = Fin (1/2),
     pmc_log_odds_occupied_increment = Fin (8473/10000), pmc_log_odds_free_decrement = Fin (2197/1000),
     pmc_log_odds_max = 8, pmc_log_odds_eviction_threshold = 0, pmc_horizon_m = 150\<rparr>"

record PlanningCell =
  pc_center_map :: Vec3
  pc_log_odds :: double
  pc_occupied_score :: double
  pc_confidence :: double
  pc_source_cell_count :: u32
  pc_last_updated_ns :: int

definition PlanningCell_default :: PlanningCell where
  "PlanningCell_default = \<lparr>pc_center_map = vec3_zero, pc_log_odds = 0, pc_occupied_score = 0,
     pc_confidence = 0, pc_source_cell_count = 0, pc_last_updated_ns = 0\<rparr>"

record PlanningExtent =
  pe_min :: Vec3
  pe_max :: Vec3

record PlanningStats =
  pst_l1_input_cells :: nat
  pst_l1_occupied_merged :: nat
  pst_l1_free_applied :: nat
  pst_cells_evicted :: nat

definition PlanningStats_default :: PlanningStats where
  "PlanningStats_default = \<lparr>pst_l1_input_cells = 0, pst_l1_occupied_merged = 0,
     pst_l1_free_applied = 0, pst_cells_evicted = 0\<rparr>"

record SlideWindowResult =
  swr_slid :: bool
  swr_newly_loaded_positions :: "Vec3 list"

record PlanningSnapshot =
  pmp_config :: PlanningConfig
  pmp_cell_count :: nat
  pmp_last_update_stats :: PlanningStats
  pmp_cells :: "PlanningCell list"
  pmp_seq :: u64
  pmp_is_delta :: bool

record BucketKey =
  bkx :: int
  bky :: int
  bkz :: int

record StoredCell =
  sc_key :: CellKey
  sc_cell :: PlanningCell
  sc_write_seq :: u64

record PlanningMap =
  pm_config :: PlanningConfig
  pm_last_update_stats :: PlanningStats
  pm_cells :: "StoredCell list"
  pm_cell_index :: "CellKey \<rightharpoonup> nat"
  pm_spatial_buckets :: "BucketKey \<rightharpoonup> CellKey list"
  pm_db_open :: bool
  pm_dirty_cells :: "(CellKey \<times> PlanningCell) list"
  pm_evicted_keys :: "CellKey list"
  pm_last_slide_pos :: Vec3
  pm_slide_initialized :: bool
  pm_map_seq :: u64
  pm_mission_id :: string
  pm_method :: string
  pm_method_id :: int

section \<open>Buckets and cells\<close>

definition kBucketSpanCellsXY :: int where "kBucketSpanCellsXY = 10"
definition kBucketSpanCellsZ :: int where "kBucketSpanCellsZ = 5"

text \<open>C++ division truncates toward zero.\<close>

definition floor_div_pos :: "int \<Rightarrow> int \<Rightarrow> int" where
  "floor_div_pos a b =
     (let q = a sdiv b; r = a smod b in if r \<noteq> 0 \<and> r < 0 then q - 1 else q)"

definition bucket_for_cell_key :: "CellKey \<Rightarrow> BucketKey" where
  "bucket_for_cell_key k =
     \<lparr>bkx = floor_div_pos (kx k) kBucketSpanCellsXY, bky = floor_div_pos (ky k) kBucketSpanCellsXY,
      bkz = floor_div_pos (kz k) kBucketSpanCellsZ\<rparr>"

definition PlanningMap_init :: "PlanningConfig \<Rightarrow> PlanningMap" where
  "PlanningMap_init config =
     (let c = config;
          c = (if \<not> 0 < pmc_cell_size_m c then c\<lparr>pmc_cell_size_m := 1\<rparr> else c);
          c = (if \<not> 0 < pmc_vertical_cell_size_m c then c\<lparr>pmc_vertical_cell_size_m := 2\<rparr> else c);
          c = (if \<not> 0 < pmc_min_occupied_score c then c\<lparr>pmc_min_occupied_score := Fin (1/2)\<rparr> else c);
          c = (if \<not> 0 < pmc_log_odds_max c then c\<lparr>pmc_log_odds_max := 8\<rparr> else c)
      in \<lparr>pm_config = c, pm_last_update_stats = PlanningStats_default, pm_cells = [],
          pm_cell_index = Map.empty, pm_spatial_buckets = Map.empty, pm_db_open = False,
          pm_dirty_cells = [], pm_evicted_keys = [], pm_last_slide_pos = vec3_zero,
          pm_slide_initialized = False, pm_map_seq = 0, pm_mission_id = ''unknown_mission'',
          pm_method = ''unknown_method'', pm_method_id = -1\<rparr>)"

definition bucket_insert :: "CellKey \<Rightarrow> PlanningMap \<Rightarrow> PlanningMap" where
  "bucket_insert key m =
     (let b = bucket_for_cell_key key;
          members = (case pm_spatial_buckets m b of None \<Rightarrow> [] | Some ks \<Rightarrow> ks)
      in m\<lparr>pm_spatial_buckets := (pm_spatial_buckets m)(b \<mapsto> set_insert key members)\<rparr>)"

definition bucket_remove :: "CellKey \<Rightarrow> PlanningMap \<Rightarrow> PlanningMap" where
  "bucket_remove key m =
     (let b = bucket_for_cell_key key
      in case pm_spatial_buckets m b of
           None \<Rightarrow> m
         | Some ks \<Rightarrow>
             (let ks = removeAll key ks
              in m\<lparr>pm_spatial_buckets :=
                     (pm_spatial_buckets m)(b := if ks = [] then None else Some ks)\<rparr>))"

definition pm_key_for_point :: "PlanningConfig \<Rightarrow> Vec3 \<Rightarrow> CellKey" where
  "pm_key_for_point c p = grid_key (pmc_cell_size_m c) (pmc_vertical_cell_size_m c) p"

definition pm_center_for_key :: "PlanningConfig \<Rightarrow> CellKey \<Rightarrow> Vec3" where
  "pm_center_for_key c k = grid_center (pmc_cell_size_m c) (pmc_vertical_cell_size_m c) k"

definition pm_lookup :: "PlanningMap \<Rightarrow> CellKey \<Rightarrow> StoredCell option" where
  "pm_lookup m k = store_get (pm_cells m) (pm_cell_index m) k"

text \<open>\<open>cells_.push_back(..); cell_index_.emplace(key, cells_.size() - 1); bucket_insert(key)\<close>\<close>

definition push_stored :: "StoredCell \<Rightarrow> PlanningMap \<Rightarrow> PlanningMap" where
  "push_stored sc m = bucket_insert (sc_key sc)
     (m\<lparr>pm_cells := pm_cells m @ [sc], pm_cell_index := (pm_cell_index m)(sc_key sc \<mapsto> length (pm_cells m))\<rparr>)"

definition modify_stored :: "nat \<Rightarrow> (StoredCell \<Rightarrow> StoredCell) \<Rightarrow> PlanningMap \<Rightarrow> PlanningMap" where
  "modify_stored i f m = m\<lparr>pm_cells := (pm_cells m)[i := f (pm_cells m ! i)]\<rparr>"

definition remove_cell_by_key :: "CellKey \<Rightarrow> PlanningMap \<Rightarrow> PlanningMap" where
  "remove_cell_by_key key m =
     (case pm_cell_index m key of
        None \<Rightarrow> m
      | Some idx \<Rightarrow>
          (let last_i = length (pm_cells m) - 1;
               index = (if idx \<noteq> last_i
                        then (pm_cell_index m)(sc_key (pm_cells m ! last_i) \<mapsto> idx) else pm_cell_index m)
           in bucket_remove key
                (m\<lparr>pm_cells := swap_remove idx (pm_cells m), pm_cell_index := index(key := None)\<rparr>)))"

section \<open>Updates from level 1\<close>

text \<open>The locals of \<open>update_from_traversability\<close>.\<close>

record PlanTick =
  pt_map :: PlanningMap
  pt_dirty :: "(CellKey \<times> PlanningCell) list"
  pt_evicted :: "CellKey list"

definition reinforce_cell :: "PlanningConfig \<Rightarrow> int \<Rightarrow> u64 \<Rightarrow> TraversabilityCell \<Rightarrow> StoredCell \<Rightarrow> StoredCell" where
  "reinforce_cell c now_ns seq l1 sc =
     (let increment = tc_confidence l1 * pmc_log_odds_occupied_increment c;
          cell = sc_cell sc;
          lo = std_min (pc_log_odds cell + increment) (pmc_log_odds_max c)
      in sc\<lparr>sc_cell := cell\<lparr>pc_log_odds := lo, pc_occupied_score := sigmoid lo,
              pc_confidence := std_max (pc_confidence cell) (tc_confidence l1),
              pc_source_cell_count := pc_source_cell_count cell + 1,
              pc_last_updated_ns := now_ns\<rparr>,
            sc_write_seq := seq\<rparr>)"

definition new_planning_cell :: "PlanningConfig \<Rightarrow> int \<Rightarrow> u64 \<Rightarrow> CellKey \<Rightarrow> TraversabilityCell \<Rightarrow> StoredCell" where
  "new_planning_cell c now_ns seq key l1 =
     (let increment = tc_confidence l1 * pmc_log_odds_occupied_increment c;
          lo = std_min increment (pmc_log_odds_max c)
      in \<lparr>sc_key = key,
          sc_cell = \<lparr>pc_center_map = pm_center_for_key c key, pc_log_odds = lo,
                     pc_occupied_score = sigmoid lo, pc_confidence = tc_confidence l1,
                     pc_source_cell_count = 1, pc_last_updated_ns = now_ns\<rparr>,
          sc_write_seq = seq\<rparr>)"

definition occupied_hit :: "int \<Rightarrow> TraversabilityCell \<Rightarrow> CellKey \<Rightarrow> PlanTick \<Rightarrow> PlanTick" where
  "occupied_hit now_ns l1 key t =
     (let m = pt_map t; c = pm_config m; st = pm_last_update_stats m;
          m = m\<lparr>pm_last_update_stats := st\<lparr>pst_l1_occupied_merged := pst_l1_occupied_merged st + 1\<rparr>\<rparr>;
          m = (case pm_cell_index m key of
                 Some i \<Rightarrow> modify_stored i (reinforce_cell c now_ns (pm_map_seq m) l1) m
               | None \<Rightarrow> push_stored (new_planning_cell c now_ns (pm_map_seq m) key l1) m)
      in t\<lparr>pt_map := m,
           pt_dirty := pt_dirty t @ [(key, sc_cell (pm_cells m ! the (pm_cell_index m key)))]\<rparr>)"

definition clear_cell :: "PlanningConfig \<Rightarrow> TraversabilityCell \<Rightarrow> PlanningCell \<Rightarrow> PlanningCell" where
  "clear_cell c l1 cell =
     (let decrement = tc_confidence l1 * pmc_log_odds_free_decrement c;
          lo = std_max (pc_log_odds cell - decrement) (- pmc_log_odds_max c)
      in cell\<lparr>pc_log_odds := lo, pc_occupied_score := sigmoid lo\<rparr>)"

definition free_hit_l2 :: "TraversabilityCell \<Rightarrow> CellKey \<Rightarrow> PlanTick \<Rightarrow> PlanTick" where
  "free_hit_l2 l1 key t =
     (let m = pt_map t; c = pm_config m; st = pm_last_update_stats m;
          st = st\<lparr>pst_l1_free_applied := pst_l1_free_applied st + 1\<rparr>;
          m = m\<lparr>pm_last_update_stats := st\<rparr>;
          t = t\<lparr>pt_map := m\<rparr>
      in case pm_cell_index m key of
           None \<Rightarrow> t
         | Some i \<Rightarrow>
             (let cell = clear_cell c l1 (sc_cell (pm_cells m ! i))
              in if pc_log_odds cell < pmc_log_odds_eviction_threshold c
                 then t\<lparr>pt_map := (modify_stored i (\<lambda>sc. sc\<lparr>sc_cell := cell\<lparr>pc_occupied_score := 0\<rparr>\<rparr>) m)
                                    \<lparr>pm_last_update_stats := st\<lparr>pst_cells_evicted := pst_cells_evicted st + 1\<rparr>\<rparr>,
                        pt_evicted := pt_evicted t @ [key]\<rparr>
                 else t\<lparr>pt_map := modify_stored i (\<lambda>sc. sc\<lparr>sc_cell := cell, sc_write_seq := pm_map_seq m\<rparr>) m,
                        pt_dirty := pt_dirty t @ [(key, cell)]\<rparr>))"

definition l1_occupied :: "TraversabilityCell \<Rightarrow> bool" where
  "l1_occupied l1 \<longleftrightarrow> tc_state l1 = TOccupied \<or> tc_state l1 = Mixed"

definition l1_free :: "TraversabilityCell \<Rightarrow> bool" where
  "l1_free l1 \<longleftrightarrow> tc_state l1 = ObservedFree"

definition merge_l1 :: "int \<Rightarrow> TraversabilityCell \<Rightarrow> PlanTick \<Rightarrow> PlanTick" where
  "merge_l1 now_ns l1 t =
     (let c = pm_config (pt_map t)
      in if \<not> l1_occupied l1 \<and> \<not> l1_free l1 then t
         else let key = pm_key_for_point c (tc_center_map l1)
              in if l1_occupied l1 \<and> pmc_min_occupied_score c \<le> tc_occupied_score l1
                 then occupied_hit now_ns l1 key t
                 else if l1_free l1 then free_hit_l2 l1 key t
                 else t)"

definition evict_cleared_step :: "CellKey \<Rightarrow> PlanningMap \<Rightarrow> PlanningMap" where
  "evict_cleared_step key m =
     (case pm_cell_index m key of
        None \<Rightarrow> m
      | Some i \<Rightarrow> if 0 < pc_occupied_score (sc_cell (pm_cells m ! i)) then m else remove_cell_by_key key m)"

definition evict_cleared_cells :: "CellKey list \<Rightarrow> PlanningMap \<Rightarrow> PlanningMap" where
  "evict_cleared_cells candidate_keys m = fold evict_cleared_step candidate_keys m"

definition mark_dirty :: "(CellKey \<times> PlanningCell) list \<Rightarrow> CellKey list \<Rightarrow> PlanningMap \<Rightarrow> PlanningMap" where
  "mark_dirty local_dirty local_evicted m =
     (let m = m\<lparr>pm_dirty_cells := fold (\<lambda>(k, cell). AList.update k cell) local_dirty (pm_dirty_cells m)\<rparr>
      in fold (\<lambda>k m. m\<lparr>pm_dirty_cells := AList.delete k (pm_dirty_cells m),
                       pm_evicted_keys := set_insert k (pm_evicted_keys m)\<rparr>) local_evicted m)"

definition pm_begin_update :: "TraversabilitySnapshot \<Rightarrow> PlanningMap \<Rightarrow> PlanningMap" where
  "pm_begin_update source m = m\<lparr>pm_map_seq := pm_map_seq m + 1,
     pm_last_update_stats := PlanningStats_default\<lparr>pst_l1_input_cells := length (tmp_cells source)\<rparr>\<rparr>"

definition merge_l1_loop :: "int \<Rightarrow> TraversabilitySnapshot \<Rightarrow> PlanningMap \<Rightarrow> PlanTick" where
  "merge_l1_loop now_ns source m =
     fold (merge_l1 now_ns) (tmp_cells source) \<lparr>pt_map = m, pt_dirty = [], pt_evicted = []\<rparr>"

definition update_from_traversability ::
    "int \<Rightarrow> TraversabilitySnapshot \<Rightarrow> PlanningMap \<Rightarrow> PlanningMap" where
  "update_from_traversability now_ns source m =
     (let t = merge_l1_loop now_ns source (pm_begin_update source m);
          m = pt_map t;
          m = (if pt_evicted t \<noteq> [] then evict_cleared_cells (pt_evicted t) m else m)
      in if pt_dirty t \<noteq> [] \<or> pt_evicted t \<noteq> [] then mark_dirty (pt_dirty t) (pt_evicted t) m else m)"

definition pm_snapshot :: "u64 \<Rightarrow> PlanningMap \<Rightarrow> PlanningSnapshot" where
  "pm_snapshot since_seq m =
     \<lparr>pmp_config = pm_config m, pmp_cell_count = length (pm_cells m),
      pmp_last_update_stats = pm_last_update_stats m,
      pmp_cells = map sc_cell (filter (\<lambda>sc. since_seq < sc_write_seq sc) (pm_cells m)),
      pmp_seq = pm_map_seq m, pmp_is_delta = (0 < since_seq)\<rparr>"

definition pm_reset :: "PlanningMap \<Rightarrow> PlanningMap" where
  "pm_reset m = m\<lparr>pm_cells := [], pm_cell_index := Map.empty, pm_spatial_buckets := Map.empty,
     pm_last_update_stats := PlanningStats_default, pm_map_seq := 0\<rparr>"

definition extent_step :: "Vec3 \<Rightarrow> PlanningExtent \<Rightarrow> PlanningExtent" where
  "extent_step c e =
     (let mn = pe_min e; mx = pe_max e;
          (mn, mx) = (if vx c < vx mn then (mn\<lparr>vx := vx c\<rparr>, mx)
                      else if vx mx < vx c then (mn, mx\<lparr>vx := vx c\<rparr>) else (mn, mx));
          (mn, mx) = (if vy c < vy mn then (mn\<lparr>vy := vy c\<rparr>, mx)
                      else if vy mx < vy c then (mn, mx\<lparr>vy := vy c\<rparr>) else (mn, mx));
          (mn, mx) = (if vz c < vz mn then (mn\<lparr>vz := vz c\<rparr>, mx)
                      else if vz mx < vz c then (mn, mx\<lparr>vz := vz c\<rparr>) else (mn, mx))
      in \<lparr>pe_min = mn, pe_max = mx\<rparr>)"

definition pm_extent :: "PlanningMap \<Rightarrow> PlanningExtent option" where
  "pm_extent m =
     (case pm_cells m of
        [] \<Rightarrow> None
      | sc # _ \<Rightarrow>
          (let c0 = pc_center_map (sc_cell sc)
           in Some (fold (extent_step \<circ> pc_center_map \<circ> sc_cell) (pm_cells m) \<lparr>pe_min = c0, pe_max = c0\<rparr>)))"

section \<open>The legacy text file\<close>

text \<open>
  \<open>extract\<close> is the stream extraction \<open>ss >> cx >> cy >> cz >> lo >> conf >> count\<close> of one
  line, \<open>None\<close> when it fails; a file is its list of lines, \<open>None\<close> when it cannot be opened.
\<close>

definition file_header :: string where
  "file_header = ''planning_map_v2''"

definition load_line ::
    "(string \<Rightarrow> (Vec3 \<times> double \<times> double \<times> u32) option) \<Rightarrow> string \<Rightarrow> PlanningMap \<Rightarrow> PlanningMap" where
  "load_line extract line m =
     (if line = [] \<or> hd line = CHR ''#'' then m
      else case extract line of
             None \<Rightarrow> m
           | Some (center, lo, conf, count) \<Rightarrow>
               if lo < pmc_log_odds_eviction_threshold (pm_config m) then m
               else let key = pm_key_for_point (pm_config m) center
                    in if pm_cell_index m key \<noteq> None then m
                       else push_stored
                         \<lparr>sc_key = key,
                          sc_cell = PlanningCell_default
                            \<lparr>pc_center_map := pm_center_for_key (pm_config m) key, pc_log_odds := lo,
                             pc_occupied_score := sigmoid lo, pc_confidence := conf,
                             pc_source_cell_count := count\<rparr>,
                          sc_write_seq = 0\<rparr> m)"

definition load_from_file ::
    "(string \<Rightarrow> (Vec3 \<times> double \<times> double \<times> u32) option) \<Rightarrow> string list option \<Rightarrow> PlanningMap \<Rightarrow> bool \<times> PlanningMap" where
  "load_from_file extract file m =
     (case file of
        None \<Rightarrow> (False, m)
      | Some [] \<Rightarrow> (False, m)
      | Some (header # lines) \<Rightarrow>
          if take (length file_header) header \<noteq> file_header then (False, m)
          else (True, fold (load_line extract) lines (pm_reset m)))"

end
