(* ===== verification/Planning_Invariant.thy ===== *)
theory Planning_Invariant
  imports Planning_Map
begin

text \<open>
  What the operations of the planning map do to the map from keys to stored cells, and the
  invariant of the map: the key index describes the vector, every cell sits at the centre of
  its voxel, and the coarse spatial buckets hold exactly the keys of the index.
\<close>

abbreviation pm_idx_ok :: "PlanningMap \<Rightarrow> bool" where
  "pm_idx_ok m \<equiv> idx_ok sc_key (pm_cells m) (pm_cell_index m)"

definition bucket_members :: "PlanningMap \<Rightarrow> BucketKey \<Rightarrow> CellKey set" where
  "bucket_members m b = (case pm_spatial_buckets m b of None \<Rightarrow> {} | Some ks \<Rightarrow> set ks)"

text \<open>Every key of the index is in exactly its own bucket, and no bucket is empty.\<close>

definition buckets_ok :: "PlanningMap \<Rightarrow> bool" where
  "buckets_ok m \<longleftrightarrow>
     (\<forall>b. bucket_members m b = {k \<in> dom (pm_cell_index m). bucket_for_cell_key k = b}) \<and>
     (\<forall>b ks. pm_spatial_buckets m b = Some ks \<longrightarrow> ks \<noteq> [] \<and> distinct ks)"

section \<open>Floor division\<close>

lemma floor_div_pos_div: "0 < b \<Longrightarrow> floor_div_pos a b = a div b"
proof -
  assume b: "0 < b"
  show ?thesis
  proof (cases "0 \<le> a")
    case True
    with b show ?thesis
      by (simp add: floor_div_pos_def Let_def signed_divide_int_def signed_modulo_int_def sgn_if)
        (metis pos_mod_sign div_mult_mod_eq add_diff_cancel_left' not_less mult.commute)
  next
    case False
    define c where "c = - a"
    have c: "a = - c" "0 < c" using False by (simp_all add: c_def)
    have "a sdiv b = - (c div b)" "a smod b = - (c mod b)"
      using b c by (simp_all add: signed_divide_int_def signed_modulo_int_def sgn_if)
    moreover have "0 < c mod b \<longleftrightarrow> c mod b \<noteq> 0" using pos_mod_sign [OF b, of c] by linarith
    ultimately show ?thesis
      using b c(1) by (simp add: floor_div_pos_def Let_def zdiv_zminus1_eq_if)
  qed
qed

lemma bucket_for_cell_key_div:
  "bucket_for_cell_key k = \<lparr>bkx = kx k div 10, bky = ky k div 10, bkz = kz k div 5\<rparr>"
  by (simp add: bucket_for_cell_key_def floor_div_pos_div kBucketSpanCellsXY_def kBucketSpanCellsZ_def)

section \<open>The three operations on stored cells\<close>

definition pm_core :: "PlanningMap \<Rightarrow> bool" where
  "pm_core m \<longleftrightarrow> pm_idx_ok m \<and> buckets_ok m \<and>
     (\<forall>k sc. pm_lookup m k = Some sc \<longrightarrow>
        key_in_range k \<and> pc_center_map (sc_cell sc) = pm_center_for_key (pm_config m) k)"

definition pm_ok :: "PlanningMap \<Rightarrow> bool" where
  "pm_ok m \<longleftrightarrow> pm_core m \<and> distinct (map fst (pm_dirty_cells m)) \<and> distinct (pm_evicted_keys m)"

lemma bucket_insert_frame [simp]:
  "pm_cells (bucket_insert k m) = pm_cells m" "pm_cell_index (bucket_insert k m) = pm_cell_index m"
  "pm_config (bucket_insert k m) = pm_config m" "pm_dirty_cells (bucket_insert k m) = pm_dirty_cells m"
  "pm_evicted_keys (bucket_insert k m) = pm_evicted_keys m" "pm_map_seq (bucket_insert k m) = pm_map_seq m"
  "pm_last_update_stats (bucket_insert k m) = pm_last_update_stats m"
  by (simp_all add: bucket_insert_def Let_def)

lemma bucket_remove_frame [simp]:
  "pm_cells (bucket_remove k m) = pm_cells m" "pm_cell_index (bucket_remove k m) = pm_cell_index m"
  "pm_config (bucket_remove k m) = pm_config m" "pm_dirty_cells (bucket_remove k m) = pm_dirty_cells m"
  "pm_evicted_keys (bucket_remove k m) = pm_evicted_keys m" "pm_map_seq (bucket_remove k m) = pm_map_seq m"
  "pm_last_update_stats (bucket_remove k m) = pm_last_update_stats m"
  by (simp_all add: bucket_remove_def Let_def split: option.split)

lemma push_stored_frame [simp]:
  "pm_cells (push_stored sc m) = pm_cells m @ [sc]"
  "pm_cell_index (push_stored sc m) = (pm_cell_index m)(sc_key sc \<mapsto> length (pm_cells m))"
  "pm_config (push_stored sc m) = pm_config m" "pm_dirty_cells (push_stored sc m) = pm_dirty_cells m"
  "pm_evicted_keys (push_stored sc m) = pm_evicted_keys m" "pm_map_seq (push_stored sc m) = pm_map_seq m"
  by (simp_all add: push_stored_def)

lemma modify_stored_frame [simp]:
  "pm_cell_index (modify_stored i f m) = pm_cell_index m"
  "pm_config (modify_stored i f m) = pm_config m" "pm_dirty_cells (modify_stored i f m) = pm_dirty_cells m"
  "pm_evicted_keys (modify_stored i f m) = pm_evicted_keys m" "pm_map_seq (modify_stored i f m) = pm_map_seq m"
  "pm_spatial_buckets (modify_stored i f m) = pm_spatial_buckets m"
  by (simp_all add: modify_stored_def)

lemma remove_cell_frame [simp]:
  "pm_config (remove_cell_by_key k m) = pm_config m" "pm_dirty_cells (remove_cell_by_key k m) = pm_dirty_cells m"
  "pm_evicted_keys (remove_cell_by_key k m) = pm_evicted_keys m" "pm_map_seq (remove_cell_by_key k m) = pm_map_seq m"
  by (simp_all add: remove_cell_by_key_def Let_def split: option.split)

lemma bucket_members_insert:
  "bucket_members (bucket_insert k m) b =
     (if b = bucket_for_cell_key k then insert k (bucket_members m b) else bucket_members m b)"
  by (auto simp: bucket_members_def bucket_insert_def Let_def split: option.splits)

lemma bucket_members_remove:
  "bucket_members (bucket_remove k m) b =
     (if b = bucket_for_cell_key k then bucket_members m b - {k} else bucket_members m b)"
  by (auto simp: bucket_members_def bucket_remove_def Let_def removeAll_id split: option.splits)
    (metis Diff_eq_empty_iff insertE insert_absorb set_empty set_removeAll singletonD subsetD)+

lemma bucket_lists_insert:
  "(\<And>b ks. pm_spatial_buckets m b = Some ks \<Longrightarrow> ks \<noteq> [] \<and> distinct ks) \<Longrightarrow>
     pm_spatial_buckets (bucket_insert k m) b = Some ks \<Longrightarrow> ks \<noteq> [] \<and> distinct ks"
  by (auto simp: bucket_insert_def Let_def set_insert_def split: option.splits if_splits)

lemma bucket_lists_remove:
  "(\<And>b ks. pm_spatial_buckets m b = Some ks \<Longrightarrow> ks \<noteq> [] \<and> distinct ks) \<Longrightarrow>
     pm_spatial_buckets (bucket_remove k m) b = Some ks \<Longrightarrow> ks \<noteq> [] \<and> distinct ks"
  by (auto simp: bucket_remove_def Let_def distinct_removeAll split: option.splits if_splits)

lemma pm_lookup_cong:
  "pm_cells m = pm_cells m' \<Longrightarrow> pm_cell_index m = pm_cell_index m' \<Longrightarrow> pm_lookup m = pm_lookup m'"
  by (simp add: pm_lookup_def [abs_def])

lemma pm_core_cong:
  assumes "pm_core m" "pm_cells m' = pm_cells m" "pm_cell_index m' = pm_cell_index m"
    "pm_spatial_buckets m' = pm_spatial_buckets m" "pm_config m' = pm_config m"
  shows "pm_core m'"
  using assms pm_lookup_cong [OF assms(2,3)] by (simp add: pm_core_def buckets_ok_def bucket_members_def)

lemma pm_lookup_None: "pm_lookup m k = None \<longleftrightarrow> pm_cell_index m k = None"
  by (simp add: pm_lookup_def)

lemma pm_lookup_push:
  "pm_idx_ok m \<Longrightarrow> pm_cell_index m (sc_key sc) = None \<Longrightarrow>
     pm_lookup (push_stored sc m) = (pm_lookup m)(sc_key sc \<mapsto> sc)"
  using store_get_push [of sc_key "pm_cells m" "pm_cell_index m" sc] by (simp add: pm_lookup_def [abs_def])

lemma pm_core_push:
  assumes "pm_core m" and "pm_cell_index m (sc_key sc) = None"
    and "pc_center_map (sc_cell sc) = pm_center_for_key (pm_config m) (sc_key sc)" and "key_in_range (sc_key sc)"
  shows "pm_core (push_stored sc m)"
proof -
  have ok: "pm_idx_ok m" "buckets_ok m" using assms(1) by (simp_all add: pm_core_def)
  let ?m1 = "m\<lparr>pm_cells := pm_cells m @ [sc], pm_cell_index := (pm_cell_index m)(sc_key sc \<mapsto> length (pm_cells m))\<rparr>"
  have mem: "bucket_members ?m1 b = {k \<in> dom (pm_cell_index m). bucket_for_cell_key k = b}" for b
    using ok(2) by (simp add: buckets_ok_def bucket_members_def)
  have "buckets_ok (push_stored sc m)"
    unfolding buckets_ok_def
  proof (intro conjI allI impI)
    show "bucket_members (push_stored sc m) b =
        {k \<in> dom (pm_cell_index (push_stored sc m)). bucket_for_cell_key k = b}" for b
      by (auto simp: push_stored_def bucket_members_insert mem)
    show "ks \<noteq> []" "distinct ks" if "pm_spatial_buckets (push_stored sc m) b = Some ks" for b ks
      using bucket_lists_insert [of ?m1 "sc_key sc" b ks] that ok(2)
      by (auto simp: push_stored_def buckets_ok_def)
  qed
  then show ?thesis
    using assms ok idx_ok_push [OF ok(1) assms(2)] by (simp add: pm_core_def pm_lookup_push)
qed

lemma pm_lookup_modify:
  assumes "pm_idx_ok m" and "pm_cell_index m k = Some i" and "sc_key (f (pm_cells m ! i)) = k"
  shows "pm_lookup (modify_stored i f m) = (pm_lookup m)(k \<mapsto> f (pm_cells m ! i))"
  using assms idx_okD [OF assms(1,2)] store_get_update [of sc_key "pm_cells m" "pm_cell_index m" i "f (pm_cells m ! i)"]
  by (simp add: pm_lookup_def [abs_def] modify_stored_def)

lemma pm_lookup_nth: "pm_cell_index m k = Some i \<Longrightarrow> pm_lookup m k = Some (pm_cells m ! i)"
  by (simp add: pm_lookup_def store_get_def)

lemma pm_core_modify:
  assumes "pm_core m" and i: "pm_cell_index m k = Some i" and key: "\<And>sc. sc_key (f sc) = sc_key sc"
    and "pc_center_map (sc_cell (f (pm_cells m ! i))) = pc_center_map (sc_cell (pm_cells m ! i))"
  shows "pm_core (modify_stored i f m)"
proof -
  have ok: "pm_idx_ok m" "buckets_ok m"
    and c: "\<And>k sc. pm_lookup m k = Some sc \<Longrightarrow>
      key_in_range k \<and> pc_center_map (sc_cell sc) = pm_center_for_key (pm_config m) k"
    using assms(1) by (simp_all add: pm_core_def)
  have k: "sc_key (f (pm_cells m ! i)) = k" using idx_okD [OF ok(1) i] key by simp
  have "pm_idx_ok (modify_stored i f m)"
    using idx_ok_update [OF ok(1)] key by (simp add: modify_stored_def)
  moreover have "buckets_ok (modify_stored i f m)"
    using ok(2) by (simp add: buckets_ok_def bucket_members_def)
  ultimately show ?thesis
    using c assms(4) c [OF pm_lookup_nth [OF i]] by (auto simp: pm_core_def pm_lookup_modify [where f = f, OF ok(1) i k])
qed

lemma remove_cell_cells:
  assumes "pm_cell_index m k = Some i"
  defines "idx \<equiv> (let last_i = length (pm_cells m) - 1
        in (if i \<noteq> last_i then (pm_cell_index m)(sc_key (pm_cells m ! last_i) \<mapsto> i) else pm_cell_index m)(k := None))"
  shows "pm_cells (remove_cell_by_key k m) = swap_remove i (pm_cells m)"
    "pm_cell_index (remove_cell_by_key k m) = idx"
  using assms by (simp_all add: remove_cell_by_key_def Let_def)

lemma remove_cell_props:
  assumes "pm_idx_ok m"
  shows "pm_idx_ok (remove_cell_by_key k m)"
    and "pm_lookup (remove_cell_by_key k m) = (pm_lookup m)(k := None)"
proof -
  have "pm_idx_ok (remove_cell_by_key k m) \<and> pm_lookup (remove_cell_by_key k m) = (pm_lookup m)(k := None)"
  proof (cases "pm_cell_index m k")
    case None
    then have "pm_lookup m k = None" by (simp add: pm_lookup_None)
    with None assms show ?thesis by (auto simp: remove_cell_by_key_def fun_eq_iff)
  next
    case (Some i)
    note idx = idx_ok_swap_remove [OF assms Some refl]
    with store_get_swap_remove [OF assms Some idx] show ?thesis
      unfolding pm_lookup_def [abs_def] by (simp add: remove_cell_cells [OF Some])
  qed
  then show "pm_idx_ok (remove_cell_by_key k m)"
    and "pm_lookup (remove_cell_by_key k m) = (pm_lookup m)(k := None)" by simp_all
qed

lemma pm_dom_lookup: "dom (pm_cell_index m) = dom (pm_lookup m)"
  by (auto simp: pm_lookup_def store_get_def split: option.splits)

lemma pm_core_remove:
  assumes "pm_core m"
  shows "pm_core (remove_cell_by_key k m)"
proof (cases "pm_cell_index m k")
  case None
  with assms show ?thesis by (simp add: remove_cell_by_key_def)
next
  case (Some i)
  have ok: "pm_idx_ok m" "buckets_ok m" using assms by (simp_all add: pm_core_def)
  note r = remove_cell_props [OF ok(1), of k]
  define m1 where "m1 = m\<lparr>pm_cells := swap_remove i (pm_cells m), pm_cell_index := pm_cell_index (remove_cell_by_key k m)\<rparr>"
  have eq: "remove_cell_by_key k m = bucket_remove k m1"
    using Some by (simp add: m1_def remove_cell_by_key_def Let_def)
  have dom: "dom (pm_cell_index (remove_cell_by_key k m)) = dom (pm_cell_index m) - {k}"
    by (simp add: pm_dom_lookup r)
  have mem: "bucket_members m1 b = {k \<in> dom (pm_cell_index m). bucket_for_cell_key k = b}" for b
    using ok(2) by (simp add: buckets_ok_def bucket_members_def m1_def)
  have "buckets_ok (remove_cell_by_key k m)"
    unfolding buckets_ok_def
  proof (intro conjI allI impI)
    show "bucket_members (remove_cell_by_key k m) b =
        {j \<in> dom (pm_cell_index (remove_cell_by_key k m)). bucket_for_cell_key j = b}" for b
      unfolding dom by (auto simp: eq bucket_members_remove mem)
    show "ks \<noteq> []" "distinct ks" if "pm_spatial_buckets (remove_cell_by_key k m) b = Some ks" for b ks
      using bucket_lists_remove [of m1 k b ks] that ok(2) unfolding eq by (simp_all add: buckets_ok_def m1_def)
  qed
  moreover have "pm_lookup m j = Some sc" if "pm_lookup (remove_cell_by_key k m) j = Some sc" for j sc
    using that unfolding r(2) by (simp split: if_splits)
  ultimately show ?thesis using r(1) assms by (simp add: pm_core_def)
qed

end
