(* ===== verification/Planning_Update.thy ===== *)
theory Planning_Update
  imports Planning_Invariant
begin

text \<open>
  \<open>update_from_traversability\<close> as a function on the map from keys to stored cells: every
  level-1 cell is one step on that map, the eviction by candidate keys removes exactly what a
  full scan would, and the persistence sets cover every change.
\<close>

section \<open>One level-1 cell\<close>

definition l2_step ::
    "PlanningConfig \<Rightarrow> int \<Rightarrow> u64 \<Rightarrow> TraversabilityCell \<Rightarrow> (CellKey \<rightharpoonup> StoredCell) \<Rightarrow> (CellKey \<rightharpoonup> StoredCell)" where
  "l2_step c now_ns seq l1 M =
     (let k = pm_key_for_point c (tc_center_map l1)
      in if l1_occupied l1 \<and> pmc_min_occupied_score c \<le> tc_occupied_score l1
         then M(k \<mapsto> case M k of Some sc \<Rightarrow> reinforce_cell c now_ns seq l1 sc
                            | None \<Rightarrow> new_planning_cell c now_ns seq k l1)
         else if l1_free l1
         then (case M k of None \<Rightarrow> M
               | Some sc \<Rightarrow>
                   let cell = clear_cell c l1 (sc_cell sc)
                   in M(k \<mapsto> if pc_log_odds cell < pmc_log_odds_eviction_threshold c
                             then sc\<lparr>sc_cell := cell\<lparr>pc_occupied_score := 0\<rparr>\<rparr>
                             else sc\<lparr>sc_cell := cell, sc_write_seq := seq\<rparr>))
         else M)"

text \<open>What is recorded for persistence, key by key.\<close>

definition tick_marks :: "PlanningMap \<Rightarrow> PlanTick \<Rightarrow> bool" where
  "tick_marks m0 t \<longleftrightarrow>
     (\<forall>k. pm_lookup (pt_map t) k \<noteq> pm_lookup m0 k \<longrightarrow> k \<in> fst ` set (pt_dirty t) \<union> set (pt_evicted t)) \<and>
     (\<forall>k \<in> fst ` set (pt_dirty t) - set (pt_evicted t).
        map_of (rev (pt_dirty t)) k = map_option sc_cell (pm_lookup (pt_map t) k) \<and> pm_lookup (pt_map t) k \<noteq> None) \<and>
     (\<forall>k \<in> set (pt_evicted t). pm_lookup (pt_map t) k \<noteq> None)"

definition tick_ok :: "PlanningMap \<Rightarrow> PlanTick \<Rightarrow> bool" where
  "tick_ok m0 t \<longleftrightarrow> pm_core (pt_map t) \<and> pm_config (pt_map t) = pm_config m0 \<and>
     pm_map_seq (pt_map t) = pm_map_seq m0 \<and> pm_dirty_cells (pt_map t) = pm_dirty_cells m0 \<and>
     pm_evicted_keys (pt_map t) = pm_evicted_keys m0 \<and> tick_marks m0 t"

lemma reinforce_cell_frame [simp]:
  "sc_key (reinforce_cell c ns seq l1 sc) = sc_key sc"
  "pc_center_map (sc_cell (reinforce_cell c ns seq l1 sc)) = pc_center_map (sc_cell sc)"
  by (simp_all add: reinforce_cell_def Let_def)

lemma new_planning_cell_frame [simp]:
  "sc_key (new_planning_cell c ns seq k l1) = k"
  "pc_center_map (sc_cell (new_planning_cell c ns seq k l1)) = pm_center_for_key c k"
  by (simp_all add: new_planning_cell_def Let_def)

lemma clear_cell_frame [simp]: "pc_center_map (clear_cell c l1 cell) = pc_center_map cell"
  by (simp add: clear_cell_def Let_def)

lemma pm_key_in_range [simp]: "key_in_range (pm_key_for_point c p)"
  by (simp add: pm_key_for_point_def)

lemma pm_core_stats [simp]: "pm_core (m\<lparr>pm_last_update_stats := st\<rparr>) \<longleftrightarrow> pm_core m"
  by (auto elim!: pm_core_cong)

lemma pm_lookup_stats [simp]: "pm_lookup (m\<lparr>pm_last_update_stats := st\<rparr>) = pm_lookup m"
  by (rule pm_lookup_cong) simp_all

lemma occupied_hit_ok:
  assumes inv: "tick_ok m0 t" and rng: "key_in_range k"
  shows "tick_ok m0 (occupied_hit ns l1 k t)" (is ?ok)
    and "pm_lookup (pt_map (occupied_hit ns l1 k t)) = (pm_lookup (pt_map t))
       (k \<mapsto> case pm_lookup (pt_map t) k of Some sc \<Rightarrow> reinforce_cell (pm_config m0) ns (pm_map_seq m0) l1 sc
           | None \<Rightarrow> new_planning_cell (pm_config m0) ns (pm_map_seq m0) k l1)" (is ?look)
proof -
  define st where "st = pm_last_update_stats (pt_map t)"
  define m where "m = (pt_map t)\<lparr>pm_last_update_stats := st\<lparr>pst_l1_occupied_merged := pst_l1_occupied_merged st + 1\<rparr>\<rparr>"
  define c where "c = pm_config m0"
  define m' where "m' = (case pm_cell_index m k of
       Some i \<Rightarrow> modify_stored i (reinforce_cell c ns (pm_map_seq m) l1) m
     | None \<Rightarrow> push_stored (new_planning_cell c ns (pm_map_seq m) k l1) m)"
  have core0: "pm_core m" using inv by (simp add: tick_ok_def m_def)
  have t: "pm_core m" "pm_idx_ok m" "pm_config m = c" "pm_map_seq m = pm_map_seq m0" "pm_lookup m = pm_lookup (pt_map t)"
    "pm_dirty_cells m = pm_dirty_cells m0" "pm_evicted_keys m = pm_evicted_keys m0"
    using inv core0 by (simp_all add: tick_ok_def m_def c_def) (simp add: pm_core_def)
  have hit: "occupied_hit ns l1 k t =
      t\<lparr>pt_map := m', pt_dirty := pt_dirty t @ [(k, sc_cell (pm_cells m' ! the (pm_cell_index m' k)))]\<rparr>"
    using inv by (simp add: occupied_hit_def Let_def m'_def m_def st_def c_def tick_ok_def cong: option.case_cong)
  have look: "pm_lookup m' = (pm_lookup m)(k \<mapsto> case pm_lookup m k of Some sc \<Rightarrow> reinforce_cell c ns (pm_map_seq m0) l1 sc
           | None \<Rightarrow> new_planning_cell c ns (pm_map_seq m0) k l1)"
    and core: "pm_core m'"
  proof -
    have "pm_lookup m' = (pm_lookup m)(k \<mapsto> case pm_lookup m k of Some sc \<Rightarrow> reinforce_cell c ns (pm_map_seq m0) l1 sc
           | None \<Rightarrow> new_planning_cell c ns (pm_map_seq m0) k l1) \<and> pm_core m'"
    proof (cases "pm_cell_index m k")
      case None
      then have "pm_lookup m k = None" by (simp add: pm_lookup_None)
      with None t show ?thesis
        by (simp add: m'_def pm_core_push pm_lookup_push rng)
    next
      case (Some i)
      then have "sc_key (pm_cells m ! i) = k" using idx_okD [OF t(2) Some] by simp
      with Some t pm_lookup_nth [OF Some] show ?thesis
        by (simp add: m'_def pm_core_modify pm_lookup_modify [where f = "reinforce_cell c ns (pm_map_seq m0) l1"])
    qed
    then show "pm_lookup m' = (pm_lookup m)(k \<mapsto> case pm_lookup m k of Some sc \<Rightarrow> reinforce_cell c ns (pm_map_seq m0) l1 sc
           | None \<Rightarrow> new_planning_cell c ns (pm_map_seq m0) k l1)" and "pm_core m'" by simp_all
  qed
  have fr: "pm_config m' = c" "pm_map_seq m' = pm_map_seq m0"
    "pm_dirty_cells m' = pm_dirty_cells m0" "pm_evicted_keys m' = pm_evicted_keys m0"
    using t by (simp_all add: m'_def split: option.split)
  show ?look using look [unfolded c_def] t(5) by (simp add: hit)
  have val: "pm_lookup m' k = Some (pm_cells m' ! the (pm_cell_index m' k))"
  proof -
    have "pm_lookup m' k \<noteq> None" by (simp add: look)
    then obtain i where "pm_cell_index m' k = Some i" by (auto simp: pm_lookup_None)
    then show ?thesis by (simp add: pm_lookup_nth)
  qed
  have "tick_marks m0 t" using inv by (simp add: tick_ok_def)
  then have "tick_marks m0 (occupied_hit ns l1 k t)"
    unfolding tick_marks_def hit using val by (auto simp: look t(5))
  with core fr show ?ok by (simp add: tick_ok_def hit c_def)
qed

lemma free_hit_ok:
  assumes inv: "tick_ok m0 t"
  shows "tick_ok m0 (free_hit_l2 l1 k t)" (is ?ok)
    and "pm_lookup (pt_map (free_hit_l2 l1 k t)) =
      (case pm_lookup (pt_map t) k of None \<Rightarrow> pm_lookup (pt_map t)
       | Some sc \<Rightarrow> let cell = clear_cell (pm_config m0) l1 (sc_cell sc)
           in (pm_lookup (pt_map t))(k \<mapsto>
                if pc_log_odds cell < pmc_log_odds_eviction_threshold (pm_config m0)
                then sc\<lparr>sc_cell := cell\<lparr>pc_occupied_score := 0\<rparr>\<rparr>
                else sc\<lparr>sc_cell := cell, sc_write_seq := pm_map_seq m0\<rparr>))" (is ?look)
proof -
  define st where "st = (pm_last_update_stats (pt_map t))\<lparr>pst_l1_free_applied := pst_l1_free_applied (pm_last_update_stats (pt_map t)) + 1\<rparr>"
  define m where "m = (pt_map t)\<lparr>pm_last_update_stats := st\<rparr>"
  define c where "c = pm_config m0"
  have core0: "pm_core m" using inv by (simp add: tick_ok_def m_def)
  have t: "pm_core m" "pm_idx_ok m" "pm_config m = c" "pm_map_seq m = pm_map_seq m0" "pm_lookup m = pm_lookup (pt_map t)"
    "pm_dirty_cells m = pm_dirty_cells m0" "pm_evicted_keys m = pm_evicted_keys m0" and marks: "tick_marks m0 t"
    using inv core0 by (simp_all add: tick_ok_def m_def c_def) (simp add: pm_core_def)
  have "?ok \<and> ?look"
  proof (cases "pm_cell_index m k")
    case None
    then have f: "free_hit_l2 l1 k t = t\<lparr>pt_map := m\<rparr>"
      by (simp add: free_hit_l2_def Let_def m_def st_def)
    have "pm_lookup (pt_map t) k = None" using None t(5) by (metis pm_lookup_None)
    with t marks show ?thesis by (simp add: f tick_ok_def tick_marks_def c_def)
  next
    case (Some i)
    define cell where "cell = clear_cell c l1 (sc_cell (pm_cells m ! i))"
    define ev where "ev \<longleftrightarrow> pc_log_odds cell < pmc_log_odds_eviction_threshold c"
    define g where "g = (if ev then (\<lambda>sc :: StoredCell. sc\<lparr>sc_cell := cell\<lparr>pc_occupied_score := 0\<rparr>\<rparr>)
       else (\<lambda>sc. sc\<lparr>sc_cell := cell, sc_write_seq := pm_map_seq m0\<rparr>))"
    define st' where "st' = (if ev then st\<lparr>pst_cells_evicted := pst_cells_evicted st + 1\<rparr> else st)"
    define m' where "m' = (modify_stored i g m)\<lparr>pm_last_update_stats := st'\<rparr>"
    have f: "free_hit_l2 l1 k t = t\<lparr>pt_map := m', pt_dirty := pt_dirty t @ (if ev then [] else [(k, cell)]),
        pt_evicted := pt_evicted t @ (if ev then [k] else [])\<rparr>"
      using Some inv unfolding m'_def st'_def g_def ev_def cell_def m_def st_def c_def
      by (simp add: free_hit_l2_def Let_def tick_ok_def modify_stored_def)
    have look0: "pm_lookup (pt_map t) k = Some (pm_cells m ! i)" using pm_lookup_nth [OF Some] t(5) by simp
    have key: "\<And>sc. sc_key (g sc) = sc_key sc"
      and center: "pc_center_map (sc_cell (g (pm_cells m ! i))) = pc_center_map (sc_cell (pm_cells m ! i))"
      by (simp_all add: g_def cell_def)
    have core: "pm_core m'" unfolding m'_def by (simp add: pm_core_modify [OF t(1) Some key center])
    have look: "pm_lookup m' = (pm_lookup (pt_map t))(k \<mapsto> g (pm_cells m ! i))"
      using idx_okD [OF t(2) Some] key
      by (simp add: m'_def pm_lookup_modify [where f = g, OF t(2) Some] t(5))
    have fr: "pm_config m' = c" "pm_map_seq m' = pm_map_seq m0"
      "pm_dirty_cells m' = pm_dirty_cells m0" "pm_evicted_keys m' = pm_evicted_keys m0"
      using t by (simp_all add: m'_def)
    have "tick_marks m0 (free_hit_l2 l1 k t)"
      using marks unfolding tick_marks_def f by (auto simp: look g_def)
    then have ?ok using core fr by (simp add: tick_ok_def f c_def)
    moreover have ?look
      by (simp add: f look look0 g_def ev_def cell_def c_def Let_def)
    ultimately show ?thesis ..
  qed
  then show ?ok ?look by blast+
qed

lemma merge_l1_ok:
  assumes inv: "tick_ok m0 t"
  shows "tick_ok m0 (merge_l1 ns l1 t)"
    and "pm_lookup (pt_map (merge_l1 ns l1 t)) =
      l2_step (pm_config m0) ns (pm_map_seq m0) l1 (pm_lookup (pt_map t))"
proof -
  have "pm_config (pt_map t) = pm_config m0" using inv by (simp add: tick_ok_def)
  then show "tick_ok m0 (merge_l1 ns l1 t)" and "pm_lookup (pt_map (merge_l1 ns l1 t)) =
      l2_step (pm_config m0) ns (pm_map_seq m0) l1 (pm_lookup (pt_map t))"
    using occupied_hit_ok [OF inv] free_hit_ok [OF inv] inv
    by (simp_all add: merge_l1_def l2_step_def Let_def)
qed

lemma merge_fold_ok:
  assumes "tick_ok m0 t"
  shows "tick_ok m0 (fold (merge_l1 ns) l1s t) \<and>
    pm_lookup (pt_map (fold (merge_l1 ns) l1s t)) =
      fold (l2_step (pm_config m0) ns (pm_map_seq m0)) l1s (pm_lookup (pt_map t))"
  using assms
proof (induction l1s arbitrary: t)
  case Nil
  then show ?case by simp
next
  case (Cons l1 l1s)
  from Cons.IH [OF merge_l1_ok(1) [OF Cons.prems]] merge_l1_ok(2) [OF Cons.prems]
  show ?case by simp
qed

section \<open>Eviction\<close>

definition live :: "StoredCell \<Rightarrow> bool" where
  "live sc \<longleftrightarrow> 0 < pc_occupied_score (sc_cell sc)"

definition sweep :: "(CellKey \<rightharpoonup> StoredCell) \<Rightarrow> CellKey \<rightharpoonup> StoredCell" where
  "sweep M k = (case M k of Some sc \<Rightarrow> if live sc then Some sc else None | None \<Rightarrow> None)"

lemma evict_step_props:
  assumes "pm_core m"
  shows "pm_core (evict_cleared_step k m)"
    and "pm_lookup (evict_cleared_step k m) = (pm_lookup m)(k := sweep (pm_lookup m) k)"
proof -
  have idx: "pm_idx_ok m" using assms by (simp add: pm_core_def)
  show "pm_core (evict_cleared_step k m)"
    using assms by (simp add: evict_cleared_step_def pm_core_remove split: option.split)
  show "pm_lookup (evict_cleared_step k m) = (pm_lookup m)(k := sweep (pm_lookup m) k)"
  proof (cases "pm_cell_index m k")
    case None
    then have "pm_lookup m k = None" by (simp add: pm_lookup_None)
    with None show ?thesis by (auto simp: evict_cleared_step_def sweep_def fun_eq_iff)
  next
    case (Some i)
    from pm_lookup_nth [OF Some] Some show ?thesis
      by (auto simp: evict_cleared_step_def sweep_def live_def fun_eq_iff remove_cell_props(2) [OF idx])
  qed
qed

lemma evict_frame [simp]:
  "pm_config (evict_cleared_step k m) = pm_config m"
  "pm_map_seq (evict_cleared_step k m) = pm_map_seq m"
  "pm_dirty_cells (evict_cleared_step k m) = pm_dirty_cells m"
  "pm_evicted_keys (evict_cleared_step k m) = pm_evicted_keys m"
  by (simp_all add: evict_cleared_step_def split: option.split)

lemma evict_cleared_props:
  assumes "pm_core m"
  shows "pm_core (evict_cleared_cells ks m)"
    and "pm_lookup (evict_cleared_cells ks m) k = (if k \<in> set ks then sweep (pm_lookup m) k else pm_lookup m k)"
    and "pm_config (evict_cleared_cells ks m) = pm_config m"
    and "pm_map_seq (evict_cleared_cells ks m) = pm_map_seq m"
    and "pm_dirty_cells (evict_cleared_cells ks m) = pm_dirty_cells m"
    and "pm_evicted_keys (evict_cleared_cells ks m) = pm_evicted_keys m"
proof -
  have "pm_core (fold evict_cleared_step ks m) \<and>
      pm_lookup (fold evict_cleared_step ks m) k = (if k \<in> set ks then sweep (pm_lookup m) k else pm_lookup m k) \<and>
      pm_config (fold evict_cleared_step ks m) = pm_config m \<and>
      pm_map_seq (fold evict_cleared_step ks m) = pm_map_seq m \<and>
      pm_dirty_cells (fold evict_cleared_step ks m) = pm_dirty_cells m \<and>
      pm_evicted_keys (fold evict_cleared_step ks m) = pm_evicted_keys m"
    using assms
  proof (induction ks arbitrary: m)
    case Nil
    then show ?case by simp
  next
    case (Cons j ks)
    from Cons.IH [OF evict_step_props(1) [OF Cons.prems, of j]] show ?case
      by (auto simp: evict_step_props(2) [OF Cons.prems] sweep_def split: option.splits if_splits)
  qed
  then show "pm_core (evict_cleared_cells ks m)"
    and "pm_lookup (evict_cleared_cells ks m) k = (if k \<in> set ks then sweep (pm_lookup m) k else pm_lookup m k)"
    and "pm_config (evict_cleared_cells ks m) = pm_config m"
    and "pm_map_seq (evict_cleared_cells ks m) = pm_map_seq m"
    and "pm_dirty_cells (evict_cleared_cells ks m) = pm_dirty_cells m"
    and "pm_evicted_keys (evict_cleared_cells ks m) = pm_evicted_keys m"
    by (simp_all add: evict_cleared_cells_def)
qed

section \<open>Persistence marks\<close>

lemma fold_dirty_update:
  "map_of (fold (\<lambda>(k, cell). AList.update k cell) ds al) k =
     (case map_of (rev ds) k of Some cell \<Rightarrow> Some cell | None \<Rightarrow> map_of al k)"
proof (induction ds arbitrary: al)
  case Nil
  then show ?case by simp
next
  case (Cons d ds)
  then show ?case
    by (cases d) (auto simp: update_conv' map_add_def split: option.splits)
qed

lemma fold_dirty_distinct:
  "distinct (map fst al) \<Longrightarrow> distinct (map fst (fold (\<lambda>(k, cell). AList.update k cell) ds al))"
  by (induction ds arbitrary: al) (auto simp: distinct_update)

lemma mark_evicted:
  fixes ks :: "CellKey list" and m :: PlanningMap
  defines "m' \<equiv> fold (\<lambda>k m. m\<lparr>pm_dirty_cells := AList.delete k (pm_dirty_cells m),
                       pm_evicted_keys := set_insert k (pm_evicted_keys m)\<rparr>) ks m"
  shows "map_of (pm_dirty_cells m') k = (if k \<in> set ks then None else map_of (pm_dirty_cells m) k)"
    "set (pm_evicted_keys m') = set ks \<union> set (pm_evicted_keys m)"
    "distinct (map fst (pm_dirty_cells m)) \<Longrightarrow> distinct (map fst (pm_dirty_cells m'))"
    "distinct (pm_evicted_keys m) \<Longrightarrow> distinct (pm_evicted_keys m')"
    "pm_cells m' = pm_cells m" "pm_cell_index m' = pm_cell_index m" "pm_config m' = pm_config m"
    "pm_spatial_buckets m' = pm_spatial_buckets m" "pm_map_seq m' = pm_map_seq m"
  unfolding m'_def
  by (induction ks arbitrary: m) (auto simp: delete_conv' distinct_delete)

lemma mark_dirty_props:
  "map_of (pm_dirty_cells (mark_dirty ds ks m)) k =
     (if k \<in> set ks then None
      else case map_of (rev ds) k of Some cell \<Rightarrow> Some cell | None \<Rightarrow> map_of (pm_dirty_cells m) k)"
  "set (pm_evicted_keys (mark_dirty ds ks m)) = set ks \<union> set (pm_evicted_keys m)"
  "distinct (map fst (pm_dirty_cells m)) \<Longrightarrow> distinct (map fst (pm_dirty_cells (mark_dirty ds ks m)))"
  "distinct (pm_evicted_keys m) \<Longrightarrow> distinct (pm_evicted_keys (mark_dirty ds ks m))"
  "pm_cells (mark_dirty ds ks m) = pm_cells m" "pm_cell_index (mark_dirty ds ks m) = pm_cell_index m"
  "pm_config (mark_dirty ds ks m) = pm_config m" "pm_spatial_buckets (mark_dirty ds ks m) = pm_spatial_buckets m"
  "pm_map_seq (mark_dirty ds ks m) = pm_map_seq m"
  by (simp_all add: mark_dirty_def mark_evicted fold_dirty_update fold_dirty_distinct)

lemma mark_dirty_empty: "mark_dirty [] [] m = m"
  by (simp add: mark_dirty_def)

section \<open>The whole update\<close>

lemma update_unfold:
  fixes m :: PlanningMap and source :: TraversabilitySnapshot and ns :: int
  defines "m1 \<equiv> pm_begin_update source m"
  defines "t \<equiv> merge_l1_loop ns source m1"
  shows "update_from_traversability ns source m =
    mark_dirty (pt_dirty t) (pt_evicted t) (evict_cleared_cells (pt_evicted t) (pt_map t))"
  by (auto simp: update_from_traversability_def Let_def m1_def t_def mark_dirty_empty evict_cleared_cells_def)

lemma begin_tick_ok:
  assumes "pm_core m"
  shows "tick_ok (pm_begin_update source m) \<lparr>pt_map = pm_begin_update source m, pt_dirty = [], pt_evicted = []\<rparr>"
  using assms pm_core_cong [OF assms, of "pm_begin_update source m"]
  by (simp add: tick_ok_def tick_marks_def pm_begin_update_def)

lemma begin_lookup [simp]:
  "pm_lookup (pm_begin_update source m) = pm_lookup m"
  "pm_config (pm_begin_update source m) = pm_config m"
  "pm_map_seq (pm_begin_update source m) = pm_map_seq m + 1"
  "pm_dirty_cells (pm_begin_update source m) = pm_dirty_cells m"
  "pm_evicted_keys (pm_begin_update source m) = pm_evicted_keys m"
  by (simp_all add: pm_begin_update_def pm_lookup_def [abs_def])

lemma update_props:
  fixes m :: PlanningMap and ns :: int and source :: TraversabilitySnapshot
  assumes core: "pm_core m"
  defines "t \<equiv> merge_l1_loop ns source (pm_begin_update source m)"
  defines "m' \<equiv> update_from_traversability ns source m"
  shows "tick_ok (pm_begin_update source m) t"
    and "pm_lookup (pt_map t) = fold (l2_step (pm_config m) ns (pm_map_seq m + 1)) (tmp_cells source) (pm_lookup m)"
    and "pm_core m'"
    and "pm_lookup m' k = (if k \<in> set (pt_evicted t) then sweep (pm_lookup (pt_map t)) k else pm_lookup (pt_map t) k)"
    and "pm_config m' = pm_config m" and "pm_map_seq m' = pm_map_seq m + 1"
    and "map_of (pm_dirty_cells m') k =
      (if k \<in> set (pt_evicted t) then None
       else case map_of (rev (pt_dirty t)) k of Some cell \<Rightarrow> Some cell | None \<Rightarrow> map_of (pm_dirty_cells m) k)"
    and "set (pm_evicted_keys m') = set (pt_evicted t) \<union> set (pm_evicted_keys m)"
    and "distinct (map fst (pm_dirty_cells m)) \<Longrightarrow> distinct (map fst (pm_dirty_cells m'))"
    and "distinct (pm_evicted_keys m) \<Longrightarrow> distinct (pm_evicted_keys m')"
proof -
  note f = merge_fold_ok [OF begin_tick_ok [OF core, of source], of ns "tmp_cells source"]
  show ok: "tick_ok (pm_begin_update source m) t" using f by (simp add: t_def merge_l1_loop_def)
  show "pm_lookup (pt_map t) = fold (l2_step (pm_config m) ns (pm_map_seq m + 1)) (tmp_cells source) (pm_lookup m)"
    using f by (simp add: t_def merge_l1_loop_def)
  have c: "pm_core (pt_map t)" "pm_config (pt_map t) = pm_config m" "pm_map_seq (pt_map t) = pm_map_seq m + 1"
    "pm_dirty_cells (pt_map t) = pm_dirty_cells m" "pm_evicted_keys (pt_map t) = pm_evicted_keys m"
    using ok by (simp_all add: tick_ok_def)
  note e = evict_cleared_props [OF c(1), where ks = "pt_evicted t"]
  have m': "m' = mark_dirty (pt_dirty t) (pt_evicted t) (evict_cleared_cells (pt_evicted t) (pt_map t))"
    unfolding m'_def t_def by (rule update_unfold)
  show "pm_core m'" by (rule pm_core_cong [OF e(1)]) (simp_all add: m' mark_dirty_props)
  show "pm_lookup m' k = (if k \<in> set (pt_evicted t) then sweep (pm_lookup (pt_map t)) k else pm_lookup (pt_map t) k)"
    using e(2) [of k] pm_lookup_cong [of m' "evict_cleared_cells (pt_evicted t) (pt_map t)"]
    by (simp add: m' mark_dirty_props)
  show "pm_config m' = pm_config m" "pm_map_seq m' = pm_map_seq m + 1"
    "map_of (pm_dirty_cells m') k =
      (if k \<in> set (pt_evicted t) then None
       else case map_of (rev (pt_dirty t)) k of Some cell \<Rightarrow> Some cell | None \<Rightarrow> map_of (pm_dirty_cells m) k)"
    "set (pm_evicted_keys m') = set (pt_evicted t) \<union> set (pm_evicted_keys m)"
    "distinct (map fst (pm_dirty_cells m)) \<Longrightarrow> distinct (map fst (pm_dirty_cells m'))"
    "distinct (pm_evicted_keys m) \<Longrightarrow> distinct (pm_evicted_keys m')"
    by (simp_all add: m' mark_dirty_props e c cong: option.case_cong)
qed

section \<open>Candidate keys suffice\<close>

definition finite_evidence :: "PlanningConfig \<Rightarrow> TraversabilitySnapshot \<Rightarrow> bool" where
  "finite_evidence c source \<longleftrightarrow> isfinite (pmc_log_odds_occupied_increment c) \<and>
     isfinite (pmc_log_odds_free_decrement c) \<and> isfinite (pmc_log_odds_max c) \<and>
     list_all (\<lambda>l1. isfinite (tc_confidence l1)) (tmp_cells source)"

definition pm_live :: "PlanningMap \<Rightarrow> bool" where
  "pm_live m \<longleftrightarrow> (\<forall>k sc. pm_lookup m k = Some sc \<longrightarrow> isfinite (pc_log_odds (sc_cell sc)) \<and> live sc)"

definition tick_live :: "PlanTick \<Rightarrow> bool" where
  "tick_live t \<longleftrightarrow> (\<forall>k sc. pm_lookup (pt_map t) k = Some sc \<longrightarrow>
     isfinite (pc_log_odds (sc_cell sc)) \<and> (live sc \<or> k \<in> set (pt_evicted t)))"

lemma isfinite_ops [simp]:
  "isfinite a \<Longrightarrow> isfinite b \<Longrightarrow> isfinite (a + b)" "isfinite a \<Longrightarrow> isfinite b \<Longrightarrow> isfinite (a * b)"
  "isfinite a \<Longrightarrow> isfinite b \<Longrightarrow> isfinite (a - b)" "isfinite a \<Longrightarrow> isfinite (- a)"
  "isfinite a \<Longrightarrow> isfinite b \<Longrightarrow> isfinite (std_min a b)" "isfinite a \<Longrightarrow> isfinite b \<Longrightarrow> isfinite (std_max a b)"
  by (cases a; cases b; simp add: std_min_def std_max_def)+

lemma occupied_hit_evicted [simp]: "pt_evicted (occupied_hit ns l1 k t) = pt_evicted t"
  by (simp add: occupied_hit_def Let_def)

lemma free_hit_evicted:
  "set (pt_evicted t) \<subseteq> set (pt_evicted (free_hit_l2 l1 k t))"
  "pm_lookup (pt_map t) k = Some sc \<Longrightarrow>
     pc_log_odds (clear_cell (pm_config (pt_map t)) l1 (sc_cell sc)) < pmc_log_odds_eviction_threshold (pm_config (pt_map t)) \<Longrightarrow>
     k \<in> set (pt_evicted (free_hit_l2 l1 k t))"
  by (auto simp: free_hit_l2_def Let_def pm_lookup_def store_get_def split: option.splits)

lemma merge_l1_live:
  assumes "tick_ok m0 t" and live: "tick_live t"
    and fin: "isfinite (pmc_log_odds_occupied_increment (pm_config m0))" "isfinite (pmc_log_odds_free_decrement (pm_config m0))"
      "isfinite (pmc_log_odds_max (pm_config m0))" "isfinite (tc_confidence l1)"
  shows "tick_live (merge_l1 ns l1 t)"
proof -
  let ?c = "pm_config m0" and ?k = "pm_key_for_point (pm_config m0) (tc_center_map l1)"
  have cfg: "pm_config (pt_map t) = ?c" using assms(1) by (simp add: tick_ok_def)
  have old: "isfinite (pc_log_odds (sc_cell sc))" "live sc \<or> k \<in> set (pt_evicted t)"
    if "pm_lookup (pt_map t) k = Some sc" for k sc
    using live that by (auto simp: tick_live_def)
  have occ: "isfinite (pc_log_odds (sc_cell (reinforce_cell ?c ns q l1 sc))) \<and> live (reinforce_cell ?c ns q l1 sc)"
    if "isfinite (pc_log_odds (sc_cell sc))" for q sc
    using that fin by (simp add: reinforce_cell_def Let_def live_def sigmoid_pos [simplified])
  have new: "isfinite (pc_log_odds (sc_cell (new_planning_cell ?c ns q k l1))) \<and> live (new_planning_cell ?c ns q k l1)" for q k
    using fin by (simp add: new_planning_cell_def Let_def live_def sigmoid_pos [simplified])
  have clr: "isfinite (pc_log_odds (clear_cell ?c l1 cell)) \<and> 0 < pc_occupied_score (clear_cell ?c l1 cell)"
    if "isfinite (pc_log_odds cell)" for cell
    using that fin by (simp add: clear_cell_def Let_def sigmoid_pos [simplified])
  have "tick_live (occupied_hit ns l1 ?k t)"
    using occ new old by (auto simp: tick_live_def occupied_hit_ok(2) [OF assms(1) pm_key_in_range] split: option.splits if_splits)
  moreover have "tick_live (free_hit_l2 l1 ?k t)"
    unfolding tick_live_def free_hit_ok(2) [OF assms(1)]
  proof (intro allI impI)
    fix j sc
    assume a: "(case pm_lookup (pt_map t) ?k of None \<Rightarrow> pm_lookup (pt_map t)
       | Some sc \<Rightarrow> let cell = clear_cell ?c l1 (sc_cell sc)
           in (pm_lookup (pt_map t))(?k \<mapsto>
                if pc_log_odds cell < pmc_log_odds_eviction_threshold ?c
                then sc\<lparr>sc_cell := cell\<lparr>pc_occupied_score := 0\<rparr>\<rparr>
                else sc\<lparr>sc_cell := cell, sc_write_seq := pm_map_seq m0\<rparr>)) j = Some sc"
    show "isfinite (pc_log_odds (sc_cell sc)) \<and> (live sc \<or> j \<in> set (pt_evicted (free_hit_l2 l1 ?k t)))"
    proof (cases "pm_lookup (pt_map t) ?k")
      case None
      with a old [of j sc] free_hit_evicted(1) [of t l1 ?k] show ?thesis by auto
    next
      case (Some sc0)
      show ?thesis
      proof (cases "j = ?k")
        case True
        with a Some old(1) [OF Some] clr [of "sc_cell sc0"] free_hit_evicted(2) [OF Some, of l1] show ?thesis
          by (auto simp: Let_def cfg live_def split: if_splits)
      next
        case False
        with a Some old [of j sc] free_hit_evicted(1) [of t l1 ?k] show ?thesis by (auto simp: Let_def)
      qed
    qed
  qed
  ultimately show ?thesis using live by (simp add: merge_l1_def Let_def cfg)
qed

lemma merge_fold_live:
  assumes "tick_ok m0 t" and "tick_live t"
    and "isfinite (pmc_log_odds_occupied_increment (pm_config m0))" "isfinite (pmc_log_odds_free_decrement (pm_config m0))"
      "isfinite (pmc_log_odds_max (pm_config m0))" "list_all (\<lambda>l1. isfinite (tc_confidence l1)) l1s"
  shows "tick_live (fold (merge_l1 ns) l1s t)"
  using assms(1,2,6)
proof (induction l1s arbitrary: t)
  case Nil
  then show ?case by simp
next
  case (Cons l1 l1s)
  with merge_l1_ok(1) [OF Cons.prems(1), of ns l1]
    merge_l1_live [OF Cons.prems(1,2) assms(3-5), of l1 ns] show ?case by simp
qed

lemma update_full_scan:
  assumes "pm_core m" and "pm_live m" and fe: "finite_evidence (pm_config m) source"
  shows "pm_lookup (update_from_traversability ns source m) =
     sweep (fold (l2_step (pm_config m) ns (pm_map_seq m + 1)) (tmp_cells source) (pm_lookup m))"
    and "pm_live (update_from_traversability ns source m)"
proof -
  define t where "t = merge_l1_loop ns source (pm_begin_update source m)"
  note u = update_props [where ns = ns and source = source, OF assms(1), folded t_def]
  have "tick_live \<lparr>pt_map = pm_begin_update source m, pt_dirty = [], pt_evicted = []\<rparr>"
    using assms(2) by (simp add: tick_live_def pm_live_def)
  then have live: "tick_live t"
    using fe merge_fold_live [OF begin_tick_ok [OF assms(1)], of source "tmp_cells source" ns]
    by (simp add: t_def merge_l1_loop_def finite_evidence_def)
  have look: "pm_lookup (update_from_traversability ns source m) k = sweep (pm_lookup (pt_map t)) k" for k
    using u(4) [of k] live by (auto simp: tick_live_def sweep_def split: option.splits)
  then show "pm_lookup (update_from_traversability ns source m) =
     sweep (fold (l2_step (pm_config m) ns (pm_map_seq m + 1)) (tmp_cells source) (pm_lookup m))"
    by (simp add: u(2) [symmetric] fun_eq_iff)
  show "pm_live (update_from_traversability ns source m)"
    using live by (auto simp: pm_live_def look sweep_def tick_live_def split: option.splits if_splits)
qed

text \<open>Every change of an update is marked for persistence.\<close>

lemma update_marks:
  assumes "pm_core m" and "pm_lookup (update_from_traversability ns source m) k \<noteq> pm_lookup m k"
    and "k \<notin> set (pm_evicted_keys (update_from_traversability ns source m))"
  shows "map_of (pm_dirty_cells (update_from_traversability ns source m)) k =
      map_option sc_cell (pm_lookup (update_from_traversability ns source m) k) \<and>
    pm_lookup (update_from_traversability ns source m) k \<noteq> None"
proof -
  define t where "t = merge_l1_loop ns source (pm_begin_update source m)"
  note u = update_props [where ns = ns and source = source, OF assms(1), folded t_def]
  have marks: "tick_marks (pm_begin_update source m) t" using u(1) by (simp add: tick_ok_def)
  have k: "k \<notin> set (pt_evicted t)" using assms(3) u(8) by simp
  then have look: "pm_lookup (update_from_traversability ns source m) k = pm_lookup (pt_map t) k"
    by (simp add: u(4))
  then have "pm_lookup (pt_map t) k \<noteq> pm_lookup (pm_begin_update source m) k" using assms(2) by simp
  then have "k \<in> fst ` set (pt_dirty t)" using marks k by (auto simp: tick_marks_def)
  with marks k have "map_of (rev (pt_dirty t)) k = map_option sc_cell (pm_lookup (pt_map t) k)"
    "pm_lookup (pt_map t) k \<noteq> None" by (auto simp: tick_marks_def)
  with look k show ?thesis by (auto simp: u(7))
qed

end
