(* ===== verification/Planning_Persistence.thy ===== *)
theory Planning_Persistence
  imports Planning_Update
begin

text \<open>
  The sliding window and the SQLite persistence of the planning map:
  \<open>avoidance/mission_local_planning_map_spatial.cpp\<close> and \<open>..._sqlite.cpp\<close>.

  SQLite is a record of operations, one per SQL statement of the code; \<open>sqlite_laws\<close> states
  what the documentation of the statements promises of the table of cells.  A transaction
  (\<open>BEGIN\<close>/\<open>COMMIT\<close>) changes nothing in a sequential model, and statements with ignored result
  codes are taken to succeed.
\<close>

section \<open>The database\<close>

record DbRow =
  dr_key :: CellKey
  dr_score :: double
  dr_confidence :: double
  dr_log_odds :: double
  dr_count :: int
  dr_updated_ns :: int

record ESDFCellRecord =
  er_center :: Vec3
  er_dist_m :: double
  er_grad :: Vec3
  er_smooth_grad :: Vec3

record 'db Sqlite =
  sq_prepare_schema :: "'db \<Rightarrow> 'db"
  sq_upsert_param :: "string \<Rightarrow> double \<Rightarrow> 'db \<Rightarrow> 'db"
  sq_insert_method :: "string \<Rightarrow> 'db \<Rightarrow> 'db"
  sq_method_id :: "string \<Rightarrow> 'db \<Rightarrow> int option"
  sq_select_all :: "double \<Rightarrow> 'db \<Rightarrow> DbRow list option"
  sq_select_box :: "CellKey \<Rightarrow> CellKey \<Rightarrow> double \<Rightarrow> 'db \<Rightarrow> DbRow list option"
  sq_upsert_cell :: "DbRow \<Rightarrow> 'db \<Rightarrow> 'db"
  sq_upsert_vote :: "CellKey \<Rightarrow> string \<Rightarrow> int \<Rightarrow> int \<Rightarrow> 'db \<Rightarrow> 'db"
  sq_delete_cell :: "CellKey \<Rightarrow> 'db \<Rightarrow> 'db"
  sq_prune_votes :: "'db \<Rightarrow> 'db"
  sq_count_cells :: "'db \<Rightarrow> int"
  sq_delete_votes :: "string \<Rightarrow> 'db \<Rightarrow> 'db"
  sq_delete_unvoted :: "'db \<Rightarrow> 'db"
  sq_clear_esdf :: "'db \<Rightarrow> 'db"
  sq_insert_esdf :: "ESDFCellRecord \<Rightarrow> 'db \<Rightarrow> 'db"

section \<open>Sliding window\<close>

definition dist3_sq :: "Vec3 \<Rightarrow> Vec3 \<Rightarrow> double" where
  "dist3_sq a b =
     (let dx = vx a - vx b; dy = vy a - vy b; dz = vz a - vz b in dx * dx + dy * dy + dz * dz)"

definition evict_far_cells :: "Vec3 \<Rightarrow> double \<Rightarrow> PlanningMap \<Rightarrow> PlanningMap" where
  "evict_far_cells centre evict_radius_m m =
     (let r2 = evict_radius_m * evict_radius_m;
          to_remove = map sc_key (filter (\<lambda>sc. r2 < dist3_sq (pc_center_map (sc_cell sc)) centre) (pm_cells m))
      in fold remove_cell_by_key to_remove m)"

definition window_cell :: "PlanningConfig \<Rightarrow> (CellKey \<times> PlanningCell) list \<Rightarrow> DbRow \<Rightarrow> PlanningCell" where
  "window_cell c dirty_snap row =
     (let cell = PlanningCell_default
            \<lparr>pc_center_map := pm_center_for_key c (dr_key row), pc_occupied_score := dr_score row,
             pc_confidence := dr_confidence row, pc_source_cell_count := word_of_int (dr_count row)\<rparr>
      in case map_of dirty_snap (dr_key row) of Some dirty \<Rightarrow> dirty | None \<Rightarrow> cell)"

definition load_window_row ::
    "(CellKey \<times> PlanningCell) list \<Rightarrow> DbRow \<Rightarrow> Vec3 list \<times> PlanningMap \<Rightarrow> Vec3 list \<times> PlanningMap" where
  "load_window_row dirty_snap row st =
     (let (newly_loaded, m) = st; key = dr_key row
      in if pm_cell_index m key \<noteq> None then st
         else let cell = window_cell (pm_config m) dirty_snap row
              in (newly_loaded @ [pc_center_map cell],
                  push_stored \<lparr>sc_key = key, sc_cell = cell, sc_write_seq = 0\<rparr> m))"

definition window_low :: "PlanningConfig \<Rightarrow> Vec3 \<Rightarrow> CellKey" where
  "window_low c centre = pm_key_for_point c
     (vec3 (vx centre - pmc_horizon_m c) (vy centre - pmc_horizon_m c) (vz centre - pmc_horizon_m c))"

definition window_high :: "PlanningConfig \<Rightarrow> Vec3 \<Rightarrow> CellKey" where
  "window_high c centre = pm_key_for_point c
     (vec3 (vx centre + pmc_horizon_m c) (vy centre + pmc_horizon_m c) (vz centre + pmc_horizon_m c))"

definition load_window_from_db ::
    "'db Sqlite \<Rightarrow> 'db \<Rightarrow> Vec3 \<Rightarrow> PlanningMap \<Rightarrow> Vec3 list \<times> PlanningMap" where
  "load_window_from_db sq db centre m =
     (if \<not> pm_db_open m then ([], m)
      else let c = pm_config m
           in case sq_select_box sq (window_low c centre) (window_high c centre) (pmc_min_occupied_score c) db of
                None \<Rightarrow> ([], m)
              | Some rows \<Rightarrow> fold (load_window_row (pm_dirty_cells m)) rows ([], m))"

definition slide_window ::
    "'db Sqlite \<Rightarrow> 'db \<Rightarrow> Vec3 \<Rightarrow> PlanningMap \<Rightarrow> SlideWindowResult \<times> PlanningMap" where
  "slide_window sq db drone_pos m =
     (let c = pm_config m; none = \<lparr>swr_slid = False, swr_newly_loaded_positions = []\<rparr>
      in if \<not> pm_db_open m then (none, m)
         else if pm_slide_initialized m \<and>
                 std_sqrt (dist3_sq drone_pos (pm_last_slide_pos m)) < pmc_horizon_m c / 4
         then (none, m)
         else let m = m\<lparr>pm_last_slide_pos := drone_pos, pm_slide_initialized := True\<rparr>;
                  m = evict_far_cells drone_pos (2 * pmc_horizon_m c) m;
                  (newly_loaded, m) = load_window_from_db sq db drone_pos m
              in (\<lparr>swr_slid = True, swr_newly_loaded_positions = newly_loaded\<rparr>, m))"

section \<open>SQLite persistence\<close>

definition set_mission_context :: "string \<Rightarrow> string \<Rightarrow> PlanningMap \<Rightarrow> PlanningMap" where
  "set_mission_context mission_id method m = m\<lparr>pm_mission_id := mission_id, pm_method := method\<rparr>"

definition row_of_cell :: "int \<Rightarrow> CellKey \<Rightarrow> PlanningCell \<Rightarrow> DbRow" where
  "row_of_cell now_ns key cell =
     \<lparr>dr_key = key, dr_score = pc_occupied_score cell, dr_confidence = pc_confidence cell,
      dr_log_odds = pc_log_odds cell, dr_count = uint (pc_source_cell_count cell), dr_updated_ns = now_ns\<rparr>"

definition flush_dirty_to_db :: "'db Sqlite \<Rightarrow> int \<Rightarrow> PlanningMap \<Rightarrow> 'db \<Rightarrow> bool \<times> PlanningMap \<times> 'db" where
  "flush_dirty_to_db sq now_ns m db =
     (if \<not> pm_db_open m then (True, m, db)
      else let to_upsert = pm_dirty_cells m; to_delete = pm_evicted_keys m;
               m = m\<lparr>pm_dirty_cells := [], pm_evicted_keys := []\<rparr>
           in if to_upsert = [] \<and> to_delete = [] then (True, m, db)
              else let db = fold (\<lambda>(key, cell). sq_upsert_cell sq (row_of_cell now_ns key cell)) to_upsert db;
                       db = (if 0 \<le> pm_method_id m \<and> pm_mission_id m \<noteq> []
                             then fold (\<lambda>(key, cell). sq_upsert_vote sq key (pm_mission_id m) (pm_method_id m) now_ns) to_upsert db
                             else db);
                       db = fold (sq_delete_cell sq) to_delete db;
                       db = (if to_delete \<noteq> [] then sq_prune_votes sq db else db)
                   in (True, m, db))"

definition close_db :: "'db Sqlite \<Rightarrow> int \<Rightarrow> PlanningMap \<Rightarrow> 'db \<Rightarrow> bool \<times> PlanningMap \<times> 'db" where
  "close_db sq now_ns m db =
     (if \<not> pm_db_open m then (True, m, db)
      else let (ok, m, db) = flush_dirty_to_db sq now_ns m db
           in (ok, m\<lparr>pm_db_open := False, pm_method_id := -1\<rparr>, db))"

definition load_row :: "DbRow \<Rightarrow> PlanningMap \<Rightarrow> PlanningMap" where
  "load_row row m =
     (let key = dr_key row
      in if pm_cell_index m key \<noteq> None then m
         else push_stored
           \<lparr>sc_key = key,
            sc_cell = \<lparr>pc_center_map = pm_center_for_key (pm_config m) key, pc_log_odds = dr_log_odds row,
                       pc_occupied_score = sigmoid (dr_log_odds row), pc_confidence = dr_confidence row,
                       pc_source_cell_count = word_of_int (dr_count row), pc_last_updated_ns = dr_updated_ns row\<rparr>,
            sc_write_seq = 0\<rparr> m)"

text \<open>\<open>opened\<close> is the result of \<open>sqlite3_open\<close> after the previous connection is closed.\<close>

definition open_db ::
    "'db Sqlite \<Rightarrow> int \<Rightarrow> ('db \<Rightarrow> 'db option) \<Rightarrow> PlanningMap \<Rightarrow> 'db \<Rightarrow> bool \<times> PlanningMap \<times> 'db" where
  "open_db sq now_ns opened m db =
     (let (_, m, db) = (if pm_db_open m then close_db sq now_ns m db else (True, m, db))
      in case opened db of
           None \<Rightarrow> (False, m, db)
         | Some db \<Rightarrow>
             (let m = m\<lparr>pm_db_open := True\<rparr>; c = pm_config m;
                  db = sq_prepare_schema sq db;
                  db = sq_upsert_param sq ''cell_size_m'' (pmc_cell_size_m c) db;
                  db = sq_upsert_param sq ''vertical_cell_size_m'' (pmc_vertical_cell_size_m c) db;
                  db = sq_insert_method sq (pm_method m) db;
                  m = (case sq_method_id sq (pm_method m) db of
                         Some i \<Rightarrow> m\<lparr>pm_method_id := i\<rparr> | None \<Rightarrow> m);
                  m = pm_reset m
              in case sq_select_all sq (pmc_min_occupied_score c) db of
                   None \<Rightarrow> (False, m, db)
                 | Some rows \<Rightarrow> (True, fold load_row rows m, db)))"

definition remove_mission :: "'db Sqlite \<Rightarrow> string \<Rightarrow> PlanningMap \<Rightarrow> 'db \<Rightarrow> nat \<times> 'db" where
  "remove_mission sq mission_id m db =
     (if \<not> pm_db_open m then (0, db)
      else let cells_before = sq_count_cells sq db;
               db = sq_delete_votes sq mission_id db;
               db = sq_delete_unvoted sq db;
               cells_after = sq_count_cells sq db
           in (nat ((cells_before - cells_after) mod 2 ^ 64), db))"

definition flush_esdf_to_db ::
    "'db Sqlite \<Rightarrow> ESDFCellRecord list \<Rightarrow> double \<Rightarrow> PlanningMap \<Rightarrow> 'db \<Rightarrow> bool \<times> 'db" where
  "flush_esdf_to_db sq cells d0_m m db =
     (if \<not> pm_db_open m then (True, db)
      else let db = sq_upsert_param sq ''esdf_d0_m'' d0_m db;
               db = sq_clear_esdf sq db
           in (True, fold (sq_insert_esdf sq) cells db))"

section \<open>What the statements promise\<close>

definition sqlite_laws :: "'db Sqlite \<Rightarrow> ('db \<Rightarrow> CellKey \<Rightarrow> DbRow option) \<Rightarrow> bool" where
  "sqlite_laws sq rows \<longleftrightarrow>
     (\<forall>r db. rows (sq_upsert_cell sq r db) = (rows db)(dr_key r \<mapsto> r)) \<and>
     (\<forall>k db. rows (sq_delete_cell sq k db) = (rows db)(k := None)) \<and>
     (\<forall>k mid i ns db. rows (sq_upsert_vote sq k mid i ns db) = rows db) \<and>
     (\<forall>db. rows (sq_prune_votes sq db) = rows db) \<and>
     (\<forall>db. rows (sq_prepare_schema sq db) = rows db) \<and>
     (\<forall>p v db. rows (sq_upsert_param sq p v db) = rows db) \<and>
     (\<forall>n db. rows (sq_insert_method sq n db) = rows db) \<and>
     (\<forall>s db. \<exists>rs. sq_select_all sq s db = Some rs \<and> distinct (map dr_key rs) \<and>
        set rs = {r. rows db (dr_key r) = Some r \<and> s \<le> dr_score r}) \<and>
     (\<forall>lo hi s db. \<exists>rs. sq_select_box sq lo hi s db = Some rs \<and> distinct (map dr_key rs) \<and>
        set rs = {r. rows db (dr_key r) = Some r \<and> s \<le> dr_score r \<and>
          kx lo \<le> kx (dr_key r) \<and> kx (dr_key r) \<le> kx hi \<and> ky lo \<le> ky (dr_key r) \<and> ky (dr_key r) \<le> ky hi \<and>
          kz lo \<le> kz (dr_key r) \<and> kz (dr_key r) \<le> kz hi})"

section \<open>The window\<close>

lemma fold_remove_props:
  assumes "pm_core m"
  shows "pm_core (fold remove_cell_by_key ks m)"
    and "pm_lookup (fold remove_cell_by_key ks m) k = (if k \<in> set ks then None else pm_lookup m k)"
    and "pm_config (fold remove_cell_by_key ks m) = pm_config m"
    and "pm_dirty_cells (fold remove_cell_by_key ks m) = pm_dirty_cells m"
    and "pm_evicted_keys (fold remove_cell_by_key ks m) = pm_evicted_keys m"
proof -
  have "pm_core (fold remove_cell_by_key ks m) \<and>
      pm_lookup (fold remove_cell_by_key ks m) k = (if k \<in> set ks then None else pm_lookup m k) \<and>
      pm_config (fold remove_cell_by_key ks m) = pm_config m \<and>
      pm_dirty_cells (fold remove_cell_by_key ks m) = pm_dirty_cells m \<and>
      pm_evicted_keys (fold remove_cell_by_key ks m) = pm_evicted_keys m"
    using assms
  proof (induction ks arbitrary: m)
    case Nil
    then show ?case by simp
  next
    case (Cons j ks)
    have idx: "pm_idx_ok m" using Cons.prems by (simp add: pm_core_def)
    from Cons.IH [OF pm_core_remove [OF Cons.prems, of j]] show ?case
      by (simp add: remove_cell_props(2) [OF idx])
  qed
  then show "pm_core (fold remove_cell_by_key ks m)"
    "pm_lookup (fold remove_cell_by_key ks m) k = (if k \<in> set ks then None else pm_lookup m k)"
    "pm_config (fold remove_cell_by_key ks m) = pm_config m"
    "pm_dirty_cells (fold remove_cell_by_key ks m) = pm_dirty_cells m"
    "pm_evicted_keys (fold remove_cell_by_key ks m) = pm_evicted_keys m" by simp_all
qed

lemma pm_lookup_iff: "pm_core m \<Longrightarrow> pm_lookup m k = Some sc \<longleftrightarrow> sc \<in> set (pm_cells m) \<and> sc_key sc = k"
  by (simp add: pm_core_def pm_lookup_def store_get_iff)

definition far_from :: "Vec3 \<Rightarrow> double \<Rightarrow> StoredCell \<Rightarrow> bool" where
  "far_from centre radius sc \<longleftrightarrow> radius * radius < dist3_sq (pc_center_map (sc_cell sc)) centre"

lemma evict_far_props:
  assumes "pm_core m"
  shows "pm_core (evict_far_cells centre radius m)"
    and "pm_lookup (evict_far_cells centre radius m) k =
      (case pm_lookup m k of Some sc \<Rightarrow> if far_from centre radius sc then None else Some sc | None \<Rightarrow> None)"
    and "pm_config (evict_far_cells centre radius m) = pm_config m"
    and "pm_dirty_cells (evict_far_cells centre radius m) = pm_dirty_cells m"
    and "pm_evicted_keys (evict_far_cells centre radius m) = pm_evicted_keys m"
proof -
  define ks where "ks = map sc_key (filter (far_from centre radius) (pm_cells m))"
  have e: "evict_far_cells centre radius m = fold remove_cell_by_key ks m"
    by (simp add: evict_far_cells_def Let_def ks_def far_from_def [abs_def])
  note f = fold_remove_props [OF assms, where ks = ks]
  show "pm_core (evict_far_cells centre radius m)" "pm_config (evict_far_cells centre radius m) = pm_config m"
    "pm_dirty_cells (evict_far_cells centre radius m) = pm_dirty_cells m"
    "pm_evicted_keys (evict_far_cells centre radius m) = pm_evicted_keys m" using f by (simp_all add: e)
  have "k \<in> set ks \<longleftrightarrow> (\<exists>sc. pm_lookup m k = Some sc \<and> far_from centre radius sc)"
    unfolding pm_lookup_iff [OF assms] by (auto simp: ks_def)
  then show "pm_lookup (evict_far_cells centre radius m) k =
      (case pm_lookup m k of Some sc \<Rightarrow> if far_from centre radius sc then None else Some sc | None \<Rightarrow> None)"
    using f(2) [of k] by (auto simp: e split: option.splits)
qed

text \<open>Loading rows, for both loaders: a row whose key is present is skipped, any other is pushed.\<close>

lemma load_rows_props:
  assumes core: "pm_core m" and rng: "\<forall>r \<in> set rs. key_in_range (dr_key r)"
    and step: "\<And>r m'. f r m' = (if pm_cell_index m' (dr_key r) \<noteq> None then m' else push_stored (g (pm_config m') r) m')"
    and g: "\<And>c r. sc_key (g c r) = dr_key r"
    and ctr: "\<And>r. r \<in> set rs \<Longrightarrow> pc_center_map (sc_cell (g (pm_config m) r)) = pm_center_for_key (pm_config m) (dr_key r)"
  shows "pm_core (fold f rs m)" and "pm_config (fold f rs m) = pm_config m"
    and "pm_dirty_cells (fold f rs m) = pm_dirty_cells m" and "pm_evicted_keys (fold f rs m) = pm_evicted_keys m"
    and "pm_lookup (fold f rs m) k = (case pm_lookup m k of Some sc \<Rightarrow> Some sc
       | None \<Rightarrow> map_option (g (pm_config m)) (find (\<lambda>r. dr_key r = k) rs))"
proof -
  have "pm_core (fold f rs m) \<and> pm_config (fold f rs m) = pm_config m \<and>
      pm_dirty_cells (fold f rs m) = pm_dirty_cells m \<and> pm_evicted_keys (fold f rs m) = pm_evicted_keys m \<and>
      pm_lookup (fold f rs m) k = (case pm_lookup m k of Some sc \<Rightarrow> Some sc
       | None \<Rightarrow> map_option (g (pm_config m)) (find (\<lambda>r. dr_key r = k) rs))"
    using core rng ctr
  proof (induction rs arbitrary: m)
    case Nil
    then show ?case by (simp split: option.split)
  next
    case (Cons r rs)
    show ?case
    proof (cases "pm_cell_index m (dr_key r)")
      case None
      let ?sc = "g (pm_config m) r" and ?m = "push_stored (g (pm_config m) r) m"
      have f: "f r m = ?m" using None by (simp add: step)
      have idx: "pm_idx_ok m" using Cons.prems(1) by (simp add: pm_core_def)
      have core1: "pm_core ?m"
        using Cons.prems None g by (intro pm_core_push) simp_all
      have look: "pm_lookup ?m = (pm_lookup m)(dr_key r \<mapsto> ?sc)"
        using pm_lookup_push [OF idx, of ?sc] None g by simp
      have n: "pm_lookup m (dr_key r) = None" using None by (simp add: pm_lookup_None)
      from Cons.IH [OF core1] Cons.prems show ?thesis
        using n by (auto simp: f look split: option.splits)
    next
      case (Some i)
      then have f: "f r m = m" by (simp add: step)
      have "pm_lookup m (dr_key r) \<noteq> None" using Some by (simp add: pm_lookup_None)
      with Cons.IH [OF Cons.prems(1)] Cons.prems show ?thesis by (auto simp: f split: option.splits)
    qed
  qed
  then show "pm_core (fold f rs m)" "pm_config (fold f rs m) = pm_config m"
    "pm_dirty_cells (fold f rs m) = pm_dirty_cells m" "pm_evicted_keys (fold f rs m) = pm_evicted_keys m"
    "pm_lookup (fold f rs m) k = (case pm_lookup m k of Some sc \<Rightarrow> Some sc
       | None \<Rightarrow> map_option (g (pm_config m)) (find (\<lambda>r. dr_key r = k) rs))" by simp_all
qed

lemma option_eq_Some: "(\<And>r. a = Some r \<longleftrightarrow> b = Some r) \<Longrightarrow> a = b"
  by (cases a; cases b) auto

lemma select_find:
  assumes "distinct (map dr_key rs)"
  shows "find (\<lambda>r. dr_key r = k) rs = Some r \<longleftrightarrow> r \<in> set rs \<and> dr_key r = k"
  using assms by (induction rs) (auto simp: image_iff)

definition rows_in_range :: "('db \<Rightarrow> CellKey \<Rightarrow> DbRow option) \<Rightarrow> 'db \<Rightarrow> bool" where
  "rows_in_range rows db \<longleftrightarrow> (\<forall>k r. rows db k = Some r \<longrightarrow> key_in_range k)"

definition dirty_ok :: "PlanningMap \<Rightarrow> bool" where
  "dirty_ok m \<longleftrightarrow> (\<forall>k cell. map_of (pm_dirty_cells m) k = Some cell \<longrightarrow>
     key_in_range k \<and> pc_center_map cell = pm_center_for_key (pm_config m) k)"

definition window_stored :: "PlanningConfig \<Rightarrow> (CellKey \<times> PlanningCell) list \<Rightarrow> DbRow \<Rightarrow> StoredCell" where
  "window_stored c dirty row = \<lparr>sc_key = dr_key row, sc_cell = window_cell c dirty row, sc_write_seq = 0\<rparr>"

lemma snd_fold_window:
  "snd (fold (load_window_row dirty) rs st) =
     fold (\<lambda>r m. if pm_cell_index m (dr_key r) \<noteq> None then m else push_stored (window_stored (pm_config m) dirty r) m) rs (snd st)"
  by (induction rs arbitrary: st) (simp_all add: load_window_row_def Let_def split_beta window_stored_def)

lemma window_center:
  "dirty_ok m \<Longrightarrow> pc_center_map (window_cell (pm_config m) (pm_dirty_cells m) r) = pm_center_for_key (pm_config m) (dr_key r)"
  by (auto simp: dirty_ok_def window_cell_def Let_def split: option.split)

definition in_window :: "PlanningConfig \<Rightarrow> Vec3 \<Rightarrow> CellKey \<Rightarrow> bool" where
  "in_window c centre k \<longleftrightarrow>
     (let lo = window_low c centre; hi = window_high c centre
      in kx lo \<le> kx k \<and> kx k \<le> kx hi \<and> ky lo \<le> ky k \<and> ky k \<le> ky hi \<and> kz lo \<le> kz k \<and> kz k \<le> kz hi)"

lemma load_window_props:
  fixes centre :: Vec3
  assumes core: "pm_core m" and laws: "sqlite_laws sq rows" and rr: "rows_in_range rows db"
    and d: "dirty_ok m" and db: "pm_db_open m"
  defines "m' \<equiv> snd (load_window_from_db sq db centre m)"
  shows "pm_core m'" and "pm_config m' = pm_config m" and "pm_dirty_cells m' = pm_dirty_cells m"
    and "pm_evicted_keys m' = pm_evicted_keys m"
    and "pm_lookup m' k = (case pm_lookup m k of Some sc \<Rightarrow> Some sc
       | None \<Rightarrow> (case rows db k of None \<Rightarrow> None
           | Some r \<Rightarrow> if dr_key r = k \<and> in_window (pm_config m) centre k \<and> pmc_min_occupied_score (pm_config m) \<le> dr_score r
               then Some (window_stored (pm_config m) (pm_dirty_cells m) r) else None))"
proof -
  let ?c = "pm_config m"
  obtain rs where rs: "sq_select_box sq (window_low ?c centre) (window_high ?c centre) (pmc_min_occupied_score ?c) db = Some rs"
    "distinct (map dr_key rs)"
    "set rs = {r. rows db (dr_key r) = Some r \<and> pmc_min_occupied_score ?c \<le> dr_score r \<and> in_window ?c centre (dr_key r)}"
    using laws unfolding sqlite_laws_def in_window_def Let_def by metis
  have m': "m' = fold (\<lambda>r m1. if pm_cell_index m1 (dr_key r) \<noteq> None then m1
      else push_stored (window_stored (pm_config m1) (pm_dirty_cells m) r) m1) rs m"
    using db rs(1) by (simp add: m'_def load_window_from_db_def Let_def snd_fold_window)
  have rng: "\<forall>r \<in> set rs. key_in_range (dr_key r)" using rr by (auto simp: rs(3) rows_in_range_def)
  note L = load_rows_props [OF core rng, where g = "\<lambda>c. window_stored c (pm_dirty_cells m)"
    and f = "\<lambda>r m1. if pm_cell_index m1 (dr_key r) \<noteq> None then m1
      else push_stored (window_stored (pm_config m1) (pm_dirty_cells m) r) m1", folded m', OF refl]
  have c: "\<And>r. pc_center_map (sc_cell (window_stored (pm_config m) (pm_dirty_cells m) r)) = pm_center_for_key (pm_config m) (dr_key r)"
    using window_center [OF d] by (simp add: window_stored_def)
  have k: "\<And>c r. sc_key (window_stored c (pm_dirty_cells m) r) = dr_key r" by (simp add: window_stored_def)
  show "pm_core m'" "pm_config m' = pm_config m" "pm_dirty_cells m' = pm_dirty_cells m" "pm_evicted_keys m' = pm_evicted_keys m"
    using L(1-4) [OF k c] by simp_all
  have fnd: "find (\<lambda>r. dr_key r = k) rs = (case rows db k of None \<Rightarrow> None
      | Some r \<Rightarrow> if dr_key r = k \<and> in_window ?c centre k \<and> pmc_min_occupied_score ?c \<le> dr_score r then Some r else None)"
  proof (rule option_eq_Some)
    fix r
    show "find (\<lambda>r. dr_key r = k) rs = Some r \<longleftrightarrow> (case rows db k of None \<Rightarrow> None
      | Some r \<Rightarrow> if dr_key r = k \<and> in_window ?c centre k \<and> pmc_min_occupied_score ?c \<le> dr_score r then Some r else None) = Some r"
    proof (cases "dr_key r = k")
      case True
      then show ?thesis unfolding select_find [OF rs(2)] rs(3) by (cases "rows db k") auto
    next
      case False
      then show ?thesis unfolding select_find [OF rs(2)] by (cases "rows db k") auto
    qed
  qed
  show "pm_lookup m' k = (case pm_lookup m k of Some sc \<Rightarrow> Some sc
       | None \<Rightarrow> (case rows db k of None \<Rightarrow> None
           | Some r \<Rightarrow> if dr_key r = k \<and> in_window (pm_config m) centre k \<and> pmc_min_occupied_score (pm_config m) \<le> dr_score r
               then Some (window_stored (pm_config m) (pm_dirty_cells m) r) else None))"
    unfolding L(5) [OF k c, of k] fnd by (simp split: option.split)
qed

section \<open>Flushing and opening\<close>

lemma sqlite_lawsD:
  assumes "sqlite_laws sq rows"
  shows "rows (sq_upsert_cell sq r db) = (rows db)(dr_key r \<mapsto> r)"
    "rows (sq_delete_cell sq k db) = (rows db)(k := None)"
    "rows (sq_upsert_vote sq k mid i ns db) = rows db" "rows (sq_prune_votes sq db) = rows db"
    "rows (sq_prepare_schema sq db) = rows db" "rows (sq_upsert_param sq p v db) = rows db"
    "rows (sq_insert_method sq n db) = rows db"
  using assms by (simp_all add: sqlite_laws_def)

lemma fold_upserts:
  assumes "sqlite_laws sq rows"
  shows "distinct (map fst ds) \<Longrightarrow> rows (fold (\<lambda>(key, cell). sq_upsert_cell sq (row_of_cell ns key cell)) ds db) k =
    (case map_of ds k of Some cell \<Rightarrow> Some (row_of_cell ns k cell) | None \<Rightarrow> rows db k)"
proof (induction ds arbitrary: db)
  case Nil
  then show ?case by simp
next
  case (Cons d ds)
  then have "map_of ds (fst d) = None" by (simp add: map_of_eq_None_iff)
  with Cons show ?case
    by (cases d) (auto simp: sqlite_lawsD [OF assms] row_of_cell_def split: option.split)
qed

lemma fold_votes:
  "sqlite_laws sq rows \<Longrightarrow> rows (fold (\<lambda>(key, cell). sq_upsert_vote sq key mid i ns) ds db) = rows db"
  by (induction ds arbitrary: db) (auto simp: sqlite_lawsD)

lemma fold_deletes:
  "sqlite_laws sq rows \<Longrightarrow> rows (fold (sq_delete_cell sq) ks db) k = (if k \<in> set ks then None else rows db k)"
  by (induction ks arbitrary: db) (auto simp: sqlite_lawsD)

lemma flush_props:
  assumes laws: "sqlite_laws sq rows" and "pm_db_open m" and "distinct (map fst (pm_dirty_cells m))"
    and f: "flush_dirty_to_db sq ns m db = (ok, m', db')"
  shows "ok" and "m' = m\<lparr>pm_dirty_cells := [], pm_evicted_keys := []\<rparr>"
    and "rows db' k = (if k \<in> set (pm_evicted_keys m) then None
       else case map_of (pm_dirty_cells m) k of Some cell \<Rightarrow> Some (row_of_cell ns k cell) | None \<Rightarrow> rows db k)"
  using f assms(2,3)
  by (auto simp: flush_dirty_to_db_def Let_def sqlite_lawsD [OF laws] fold_upserts [OF laws]
      fold_votes [OF laws] fold_deletes [OF laws] split: if_splits)

definition loaded_cell :: "PlanningConfig \<Rightarrow> DbRow \<Rightarrow> StoredCell" where
  "loaded_cell c row = \<lparr>sc_key = dr_key row,
     sc_cell = \<lparr>pc_center_map = pm_center_for_key c (dr_key row), pc_log_odds = dr_log_odds row,
                pc_occupied_score = sigmoid (dr_log_odds row), pc_confidence = dr_confidence row,
                pc_source_cell_count = word_of_int (dr_count row), pc_last_updated_ns = dr_updated_ns row\<rparr>,
     sc_write_seq = 0\<rparr>"

lemma pm_reset_core: "pm_core (pm_reset m)"
  by (simp add: pm_core_def pm_reset_def buckets_ok_def bucket_members_def pm_lookup_def store_get_def)

lemma pm_reset_lookup [simp]: "pm_lookup (pm_reset m) k = None"
  by (simp add: pm_reset_def pm_lookup_def store_get_def)

lemma open_closed_props:
  assumes laws: "sqlite_laws sq rows" and "\<not> pm_db_open m" and op: "opened db = Some db1"
    and rr: "rows_in_range rows db1" and o: "open_db sq ns opened m db = (ok, m', db')"
  shows "ok" and "rows db' = rows db1" and "pm_core m'" and "pm_db_open m'" and "pm_config m' = pm_config m"
    and "pm_lookup m' k = (case rows db1 k of None \<Rightarrow> None
       | Some r \<Rightarrow> if dr_key r = k \<and> pmc_min_occupied_score (pm_config m) \<le> dr_score r
           then Some (loaded_cell (pm_config m) r) else None)"
proof -
  define db2 where "db2 = sq_insert_method sq (pm_method m) (sq_upsert_param sq ''vertical_cell_size_m''
      (pmc_vertical_cell_size_m (pm_config m)) (sq_upsert_param sq ''cell_size_m'' (pmc_cell_size_m (pm_config m))
      (sq_prepare_schema sq db1)))"
  have rows2: "rows db2 = rows db1" by (simp add: db2_def sqlite_lawsD [OF laws])
  let ?s = "pmc_min_occupied_score (pm_config m)"
  obtain rs where rs: "sq_select_all sq ?s db2 = Some rs" "distinct (map dr_key rs)"
    "set rs = {r. rows db1 (dr_key r) = Some r \<and> ?s \<le> dr_score r}"
    using laws unfolding sqlite_laws_def rows2 [symmetric] by metis
  define m1 where "m1 = pm_reset (case sq_method_id sq (pm_method m) db2 of
      Some i \<Rightarrow> m\<lparr>pm_db_open := True, pm_method_id := i\<rparr> | None \<Rightarrow> m\<lparr>pm_db_open := True\<rparr>)"
  have res: "ok = True" "m' = fold load_row rs m1" "db' = db2"
    using o assms(2) op rs(1)
    by (auto simp: open_db_def Let_def db2_def [symmetric] m1_def cong: option.case_cong)
  have cfg: "pm_config m1 = pm_config m" "pm_db_open m1" by (simp_all add: m1_def pm_reset_def split: option.split)
  have core1: "pm_core m1" unfolding m1_def by (rule pm_reset_core)
  have rng: "\<forall>r \<in> set rs. key_in_range (dr_key r)" using rr by (auto simp: rs(3) rows_in_range_def)
  have step: "load_row r m2 = (if pm_cell_index m2 (dr_key r) \<noteq> None then m2 else push_stored (loaded_cell (pm_config m2) r) m2)" for r m2
    by (simp add: load_row_def loaded_cell_def Let_def)
  note L = load_rows_props [OF core1 rng step]
  have "pm_db_open (fold load_row rs m1) = pm_db_open m1" for rs
    by (induction rs arbitrary: m1) (simp_all add: load_row_def push_stored_def bucket_insert_def Let_def)
  then show "pm_db_open m'" using cfg by (simp add: res)
  show "ok" "rows db' = rows db1" using res rows2 by simp_all
  show "pm_core m'" "pm_config m' = pm_config m" using L(1,2) cfg by (simp_all add: res loaded_cell_def)
  have fnd: "find (\<lambda>r. dr_key r = k) rs = (case rows db1 k of None \<Rightarrow> None
      | Some r \<Rightarrow> if dr_key r = k \<and> ?s \<le> dr_score r then Some r else None)"
  proof (rule option_eq_Some)
    fix r
    show "find (\<lambda>r. dr_key r = k) rs = Some r \<longleftrightarrow> (case rows db1 k of None \<Rightarrow> None
      | Some r \<Rightarrow> if dr_key r = k \<and> ?s \<le> dr_score r then Some r else None) = Some r"
    proof (cases "dr_key r = k")
      case True
      then show ?thesis unfolding select_find [OF rs(2)] rs(3) by (cases "rows db1 k") auto
    next
      case False
      then show ?thesis unfolding select_find [OF rs(2)] by (cases "rows db1 k") auto
    qed
  qed
  have "pm_lookup m1 k = None" by (simp add: m1_def)
  with L(5) [of k] show "pm_lookup m' k = (case rows db1 k of None \<Rightarrow> None
       | Some r \<Rightarrow> if dr_key r = k \<and> pmc_min_occupied_score (pm_config m) \<le> dr_score r
           then Some (loaded_cell (pm_config m) r) else None)"
    by (simp add: res cfg fnd loaded_cell_def split: option.split)
qed

end
