(* ===== verification/Planning_Raycast.thy ===== *)
theory Planning_Raycast
  imports Planning_Query
begin

text \<open>
  The voxel march of \<open>ray_cast\<close> in exact arithmetic.  Along each axis the march keeps the
  time of the next boundary; the invariant is that between the time of the last crossing and
  the earliest next one the ray stays in the current voxel.
\<close>

section \<open>One axis\<close>

definition axis_inv :: "real \<Rightarrow> real \<Rightarrow> real \<Rightarrow> int \<Rightarrow> double \<Rightarrow> real \<Rightarrow> bool" where
  "axis_inv p0 d s i next_t u \<longleftrightarrow>
     of_int i * s \<le> p0 + u * d \<and> p0 + u * d \<le> (of_int i + 1) * s \<and>
     next_t = (if d = 0 then PInf
               else if 0 < d then Fin (((of_int i + 1) * s - p0) / d)
               else Fin ((of_int i * s - p0) / d))"

lemma axis_contains:
  assumes "axis_inv p0 d s i next_t u" and "u \<le> t" and "Fin t \<le> next_t"
  shows "of_int i * s \<le> p0 + t * d \<and> p0 + t * d \<le> (of_int i + 1) * s"
proof -
  consider "d = 0" | "0 < d" | "d < 0" by linarith
  then show ?thesis
  proof cases
    case 1
    with assms show ?thesis by (simp add: axis_inv_def)
  next
    case 2
    then have "t * d \<le> (of_int i + 1) * s - p0" using assms by (simp add: axis_inv_def pos_le_divide_eq)
    moreover have "u * d \<le> t * d" using 2 assms(2) by (simp add: mult_right_mono)
    ultimately show ?thesis using assms(1) by (simp add: axis_inv_def)
  next
    case 3
    then have "of_int i * s - p0 \<le> t * d" using assms by (simp add: axis_inv_def neg_le_divide_eq)
    moreover have "t * d \<le> u * d" using 3 assms(2) by (simp add: mult_right_mono_neg)
    ultimately show ?thesis using assms(1) by (simp add: axis_inv_def)
  qed
qed

lemma axis_later: "axis_inv p0 d s i next_t u \<Longrightarrow> u \<le> t \<Longrightarrow> Fin t \<le> next_t \<Longrightarrow> axis_inv p0 d s i next_t t"
  using axis_contains [of p0 d s i next_t u t] by (simp add: axis_inv_def)

lemma axis_le:
  assumes "axis_inv p0 d s i next_t u"
  shows "Fin u \<le> next_t"
  using assms by (auto simp: axis_inv_def pos_le_divide_eq neg_le_divide_eq)

lemma axis_step:
  assumes "axis_inv p0 d s i (Fin t) u" and "0 < s"
  shows "axis_inv p0 d s (i + dir_step (Fin d)) (Fin t + dir_dt (Fin s) (Fin d)) t"
proof -
  consider "d = 0" | "0 < d" | "d < 0" by linarith
  then show ?thesis
  proof cases
    case 1
    with assms(1) show ?thesis by (simp add: axis_inv_def)
  next
    case 2
    then have "t = ((of_int i + 1) * s - p0) / d" using assms(1) by (simp add: axis_inv_def)
    then have "p0 + t * d = (of_int i + 1) * s" and "t + s / d = ((of_int i + 2) * s - p0) / d"
      using 2 by (simp_all add: field_simps)
    with 2 assms(2) show ?thesis by (simp add: axis_inv_def dir_step_def dir_dt_def deq_def algebra_simps)
  next
    case 3
    then have "t = (of_int i * s - p0) / d" using assms(1) by (simp add: axis_inv_def)
    then have "p0 + t * d = of_int i * s" and "t - s / d = ((of_int i - 1) * s - p0) / d"
      using 3 by (simp_all add: field_simps)
    with 3 assms(2) show ?thesis by (simp add: axis_inv_def dir_step_def dir_dt_def deq_def algebra_simps)
  qed
qed

lemma axis_next_cases:
  assumes "axis_inv p0 d s i next_t u"
  obtains "d = 0" "next_t = PInf" | t where "d \<noteq> 0" "next_t = Fin t" "u \<le> t"
  using assms axis_le [OF assms] that by (auto simp: axis_inv_def split: if_splits)

definition steps_left :: "real \<Rightarrow> real \<Rightarrow> real \<Rightarrow> double \<Rightarrow> nat" where
  "steps_left R d s next_t = (case next_t of Fin x \<Rightarrow> nat (\<lceil>(R - x) / (s / \<bar>d\<bar>)\<rceil> + 1) | _ \<Rightarrow> 0)"

lemma steps_left_step:
  assumes "d \<noteq> 0" "0 < s" "t \<le> R"
  shows "steps_left R d s (Fin t + dir_dt (Fin s) (Fin d)) < steps_left R d s (Fin t)"
proof -
  have dt: "dir_dt (Fin s) (Fin d) = Fin (s / \<bar>d\<bar>)" using assms(1) by (simp add: dir_dt_def deq_def)
  have pos: "0 < s / \<bar>d\<bar>" using assms by simp
  have "(R - (t + q)) / q = (R - t) / q - 1" if "0 < q" for q :: real
    using that by (simp add: field_simps)
  then have "(R - (t + s / \<bar>d\<bar>)) / (s / \<bar>d\<bar>) = (R - t) / (s / \<bar>d\<bar>) - 1" using pos .
  moreover have "0 \<le> (R - t) / (s / \<bar>d\<bar>)" by (rule divide_nonneg_pos) (use pos assms(3) in simp_all)
  ultimately show ?thesis unfolding steps_left_def dt by simp
qed

lemma voxel_unique:
  assumes "0 < s" and "of_int i * s \<le> p" "p \<le> (of_int i + 1) * s" and "of_int j * s < p" "p < (of_int j + 1) * (s::real)"
  shows "i = j"
proof -
  have "of_int i * s < (of_int j + 1) * s" "of_int j * s < (of_int i + 1) * s" using assms by linarith+
  then have "of_int i < (of_int j + 1 :: real)" "of_int j < (of_int i + 1 :: real)" using assms(1) by simp_all
  then show ?thesis by linarith
qed

section \<open>Three axes\<close>

record Ray =
  ry_o :: "real \<times> real \<times> real"
  ry_d :: "real \<times> real \<times> real"
  ry_s :: real
  ry_v :: real

abbreviation "ry_ox r \<equiv> fst (ry_o r)"
abbreviation "ry_oy r \<equiv> fst (snd (ry_o r))"
abbreviation "ry_oz r \<equiv> snd (snd (ry_o r))"
abbreviation "ry_dx r \<equiv> fst (ry_d r)"
abbreviation "ry_dy r \<equiv> fst (snd (ry_d r))"
abbreviation "ry_dz r \<equiv> snd (snd (ry_d r))"

text \<open>The ray at time \<open>t\<close> is in the open, or in the closed, voxel \<open>k\<close>.\<close>

definition ray_inside :: "Ray \<Rightarrow> CellKey \<Rightarrow> real \<Rightarrow> bool" where
  "ray_inside r k t \<longleftrightarrow>
     of_int (kx k) * ry_s r < ry_ox r + t * ry_dx r \<and> ry_ox r + t * ry_dx r < (of_int (kx k) + 1) * ry_s r \<and>
     of_int (ky k) * ry_s r < ry_oy r + t * ry_dy r \<and> ry_oy r + t * ry_dy r < (of_int (ky k) + 1) * ry_s r \<and>
     of_int (kz k) * ry_v r < ry_oz r + t * ry_dz r \<and> ry_oz r + t * ry_dz r < (of_int (kz k) + 1) * ry_v r"

definition ray_touches :: "Ray \<Rightarrow> CellKey \<Rightarrow> real \<Rightarrow> bool" where
  "ray_touches r k t \<longleftrightarrow>
     of_int (kx k) * ry_s r \<le> ry_ox r + t * ry_dx r \<and> ry_ox r + t * ry_dx r \<le> (of_int (kx k) + 1) * ry_s r \<and>
     of_int (ky k) * ry_s r \<le> ry_oy r + t * ry_dy r \<and> ry_oy r + t * ry_dy r \<le> (of_int (ky k) + 1) * ry_s r \<and>
     of_int (kz k) * ry_v r \<le> ry_oz r + t * ry_dz r \<and> ry_oz r + t * ry_dz r \<le> (of_int (kz k) + 1) * ry_v r"

definition ray_ok :: "Ray \<Rightarrow> bool" where
  "ray_ok r \<longleftrightarrow> 0 < ry_s r \<and> 0 < ry_v r \<and> (ry_dx r \<noteq> 0 \<or> ry_dy r \<noteq> 0 \<or> ry_dz r \<noteq> 0)"

definition ray_inv :: "Ray \<Rightarrow> CellKey \<Rightarrow> double \<Rightarrow> double \<Rightarrow> double \<Rightarrow> real \<Rightarrow> bool" where
  "ray_inv r cur tx ty tz u \<longleftrightarrow>
     axis_inv (ry_ox r) (ry_dx r) (ry_s r) (kx cur) tx u \<and>
     axis_inv (ry_oy r) (ry_dy r) (ry_s r) (ky cur) ty u \<and>
     axis_inv (ry_oz r) (ry_dz r) (ry_v r) (kz cur) tz u"

definition ray_dda :: "Ray \<Rightarrow> Dda" where
  "ray_dda r =
     \<lparr>dd_step = cell_key (dir_step (Fin (ry_dx r))) (dir_step (Fin (ry_dy r))) (dir_step (Fin (ry_dz r))),
      dd_dt = vec3 (dir_dt (Fin (ry_s r)) (Fin (ry_dx r))) (dir_dt (Fin (ry_s r)) (Fin (ry_dy r)))
                   (dir_dt (Fin (ry_v r)) (Fin (ry_dz r)))\<rparr>"

definition dda_choice :: "Dda \<Rightarrow> CellKey \<Rightarrow> double \<Rightarrow> double \<Rightarrow> double \<Rightarrow> double \<times> CellKey \<times> double \<times> double \<times> double" where
  "dda_choice a cur tx ty tz =
     (if tx \<le> ty \<and> tx \<le> tz then (tx, cur\<lparr>kx := kx cur + kx (dd_step a)\<rparr>, tx + vx (dd_dt a), ty, tz)
      else if ty \<le> tz then (ty, cur\<lparr>ky := ky cur + ky (dd_step a)\<rparr>, tx, ty + vy (dd_dt a), tz)
      else (tz, cur\<lparr>kz := kz cur + kz (dd_step a)\<rparr>, tx, ty, tz + vz (dd_dt a)))"

definition ray_measure :: "Ray \<Rightarrow> real \<Rightarrow> double \<Rightarrow> double \<Rightarrow> double \<Rightarrow> nat" where
  "ray_measure r R tx ty tz = steps_left R (ry_dx r) (ry_s r) tx + steps_left R (ry_dy r) (ry_s r) ty +
     steps_left R (ry_dz r) (ry_v r) tz"

lemma ray_inv_touches:
  "ray_inv r cur tx ty tz u \<Longrightarrow> u \<le> t \<Longrightarrow> Fin t \<le> tx \<Longrightarrow> Fin t \<le> ty \<Longrightarrow> Fin t \<le> tz \<Longrightarrow> ray_touches r cur t"
  unfolding ray_inv_def ray_touches_def by (meson axis_contains)

lemma ray_touches_inside:
  assumes "ray_ok r" "ray_touches r k t" "ray_inside r l t"
  shows "k = l"
proof -
  have "kx k = kx l"
    by (rule voxel_unique [of "ry_s r" _ "ry_ox r + t * ry_dx r"]) (use assms in \<open>simp_all add: ray_ok_def ray_touches_def ray_inside_def\<close>)
  moreover have "ky k = ky l"
    by (rule voxel_unique [of "ry_s r" _ "ry_oy r + t * ry_dy r"]) (use assms in \<open>simp_all add: ray_ok_def ray_touches_def ray_inside_def\<close>)
  moreover have "kz k = kz l"
    by (rule voxel_unique [of "ry_v r" _ "ry_oz r + t * ry_dz r"]) (use assms in \<open>simp_all add: ray_ok_def ray_touches_def ray_inside_def\<close>)
  ultimately show ?thesis by (cases k; cases l) simp
qed

lemma dda_choice_ok:
  assumes ok: "ray_ok r" and inv: "ray_inv r cur tx ty tz u"
  obtains t cur' tx' ty' tz' where
    "dda_choice (ray_dda r) cur tx ty tz = (Fin t, cur', tx', ty', tz')"
    "u \<le> t" "Fin t \<le> tx" "Fin t \<le> ty" "Fin t \<le> tz" "ray_inv r cur' tx' ty' tz' t"
    "t \<le> R \<Longrightarrow> ray_measure r R tx' ty' tz' < ray_measure r R tx ty tz"
proof -
  have s: "0 < ry_s r" "0 < ry_v r" using ok by (simp_all add: ray_ok_def)
  have X: "axis_inv (ry_ox r) (ry_dx r) (ry_s r) (kx cur) tx u"
    and Y: "axis_inv (ry_oy r) (ry_dy r) (ry_s r) (ky cur) ty u"
    and Z: "axis_inv (ry_oz r) (ry_dz r) (ry_v r) (kz cur) tz u" using inv by (simp_all add: ray_inv_def)
  have nan: "tx \<noteq> NaN" "ty \<noteq> NaN" "tz \<noteq> NaN" "tx \<noteq> NInf" "ty \<noteq> NInf" "tz \<noteq> NInf"
    using X Y Z by (auto simp: axis_inv_def)
  have some: "tx \<noteq> PInf \<or> ty \<noteq> PInf \<or> tz \<noteq> PInf"
    using X Y Z ok by (auto simp: axis_inv_def ray_ok_def)
  consider (x) "tx \<le> ty \<and> tx \<le> tz" | (y) "\<not> (tx \<le> ty \<and> tx \<le> tz)" "ty \<le> tz" | (z) "\<not> (tx \<le> ty \<and> tx \<le> tz)" "\<not> ty \<le> tz"
    by blast
  then show ?thesis
  proof cases
    case x
    then obtain t where t: "tx = Fin t" using some nan by (cases tx; cases ty; cases tz) auto
    then have u: "u \<le> t" and d: "ry_dx r \<noteq> 0" using axis_next_cases [OF X] by auto
    show ?thesis
    proof (rule that)
      show "dda_choice (ray_dda r) cur tx ty tz = (Fin t, cur\<lparr>kx := kx cur + dir_step (Fin (ry_dx r))\<rparr>,
          Fin t + dir_dt (Fin (ry_s r)) (Fin (ry_dx r)), ty, tz)"
        using x t by (simp add: dda_choice_def ray_dda_def)
      show "ray_inv r (cur\<lparr>kx := kx cur + dir_step (Fin (ry_dx r))\<rparr>) (Fin t + dir_dt (Fin (ry_s r)) (Fin (ry_dx r))) ty tz t"
        using axis_step [OF X [unfolded t] s(1)] axis_later [OF Y u] axis_later [OF Z u] x t by (simp add: ray_inv_def)
      show "t \<le> R \<Longrightarrow> ray_measure r R (Fin t + dir_dt (Fin (ry_s r)) (Fin (ry_dx r))) ty tz < ray_measure r R tx ty tz"
        using steps_left_step [OF d s(1)] t by (simp add: ray_measure_def)
    qed (use u x t in simp_all)
  next
    case y
    then obtain t where t: "ty = Fin t" using some nan by (cases tx; cases ty; cases tz) auto
    then have u: "u \<le> t" and d: "ry_dy r \<noteq> 0" using axis_next_cases [OF Y] by auto
    have tx: "Fin t \<le> tx" using y t nan by (cases tx; cases tz) auto
    show ?thesis
    proof (rule that)
      show "dda_choice (ray_dda r) cur tx ty tz = (Fin t, cur\<lparr>ky := ky cur + dir_step (Fin (ry_dy r))\<rparr>,
          tx, Fin t + dir_dt (Fin (ry_s r)) (Fin (ry_dy r)), tz)"
        using y t by (auto simp: dda_choice_def ray_dda_def)
      show "ray_inv r (cur\<lparr>ky := ky cur + dir_step (Fin (ry_dy r))\<rparr>) tx (Fin t + dir_dt (Fin (ry_s r)) (Fin (ry_dy r))) tz t"
        using axis_step [OF Y [unfolded t] s(1)] axis_later [OF X u tx] axis_later [OF Z u] y t by (simp add: ray_inv_def)
      show "t \<le> R \<Longrightarrow> ray_measure r R tx (Fin t + dir_dt (Fin (ry_s r)) (Fin (ry_dy r))) tz < ray_measure r R tx ty tz"
        using steps_left_step [OF d s(1)] t by (simp add: ray_measure_def)
    qed (use u y t tx in simp_all)
  next
    case z
    then obtain t where t: "tz = Fin t" using some nan by (cases tx; cases ty; cases tz) auto
    then have u: "u \<le> t" and d: "ry_dz r \<noteq> 0" using axis_next_cases [OF Z] by auto
    have ty: "Fin t \<le> ty" using z t nan by (cases ty) auto
    have tx: "Fin t \<le> tx" using z t nan by (cases tx; cases ty) auto
    show ?thesis
    proof (rule that)
      show "dda_choice (ray_dda r) cur tx ty tz = (Fin t, cur\<lparr>kz := kz cur + dir_step (Fin (ry_dz r))\<rparr>,
          tx, ty, Fin t + dir_dt (Fin (ry_v r)) (Fin (ry_dz r)))"
        using z t by (auto simp: dda_choice_def ray_dda_def)
      show "ray_inv r (cur\<lparr>kz := kz cur + dir_step (Fin (ry_dz r))\<rparr>) tx ty (Fin t + dir_dt (Fin (ry_v r)) (Fin (ry_dz r))) t"
        using axis_step [OF Z [unfolded t] s(2)] axis_later [OF X u tx] axis_later [OF Y u ty] t by (simp add: ray_inv_def)
      show "t \<le> R \<Longrightarrow> ray_measure r R tx ty (Fin t + dir_dt (Fin (ry_v r)) (Fin (ry_dz r))) < ray_measure r R tx ty tz"
        using steps_left_step [OF d s(2)] t by (simp add: ray_measure_def)
    qed (use u t tx ty in simp_all)
  qed
qed

section \<open>The march\<close>

text \<open>
  What the march reports from time \<open>u\<close> on: the voxel of a hit is occupied, is entered within
  range, and no occupied voxel is passed through before; without a hit no occupied voxel is
  passed through within range.
\<close>

definition ray_result :: "PlanningMap \<Rightarrow> Ray \<Rightarrow> real \<Rightarrow> real \<Rightarrow> Vec3 option \<Rightarrow> bool" where
  "ray_result m r R u res \<longleftrightarrow>
     (case res of
        None \<Rightarrow> \<forall>t k. u \<le> t \<and> t \<le> R \<and> ray_inside r k t \<longrightarrow> \<not> cell_occupied m k
      | Some p \<Rightarrow> \<exists>k t. p = pm_center_for_key (pm_config m) k \<and> cell_occupied m k \<and> u \<le> t \<and> t \<le> R \<and>
          ray_touches r k t \<and> (\<forall>t' k'. u \<le> t' \<and> t' < t \<and> ray_inside r k' t' \<longrightarrow> \<not> cell_occupied m k'))"

lemma ray_result_SomeI:
  assumes "cell_occupied m k" "u \<le> t" "t \<le> R" "ray_touches r k t"
    and "\<And>t' k'. u \<le> t' \<Longrightarrow> t' < t \<Longrightarrow> ray_inside r k' t' \<Longrightarrow> \<not> cell_occupied m k'"
  shows "ray_result m r R u (Some (pm_center_for_key (pm_config m) k))"
  unfolding ray_result_def option.case using assms by blast

lemma ray_result_extend:
  assumes "ray_result m r R t res" and "u \<le> t"
    and "\<And>t' k. u \<le> t' \<Longrightarrow> t' \<le> t \<Longrightarrow> ray_inside r k t' \<Longrightarrow> \<not> cell_occupied m k"
  shows "ray_result m r R u res"
proof (cases res)
  case None
  with assms show ?thesis by (auto simp: ray_result_def) (meson linear)
next
  case (Some p)
  with assms(1) obtain k t1 where h: "p = pm_center_for_key (pm_config m) k" "cell_occupied m k" "t \<le> t1" "t1 \<le> R"
    "ray_touches r k t1" "\<forall>t' k'. t \<le> t' \<and> t' < t1 \<and> ray_inside r k' t' \<longrightarrow> \<not> cell_occupied m k'"
    by (auto simp: ray_result_def)
  have "\<not> cell_occupied m k'" if "u \<le> t'" "t' < t1" "ray_inside r k' t'" for t' k'
    using that h(6) assms(3) by (meson linear)
  then show ?thesis
    unfolding Some h(1) using h assms(2) by (intro ray_result_SomeI [where t = t1]) auto
qed

lemma dda_loop_choice:
  "dda_loop m R a cur tx ty tz =
     (case dda_choice a cur tx ty tz of (t, cur', tx', ty', tz') \<Rightarrow>
        if R < t then Some None
        else if cell_occupied m cur' then Some (Some (pm_center_for_key (pm_config m) cur'))
        else dda_loop m R a cur' tx' ty' tz')"
  by (subst dda_loop.simps) (simp add: dda_choice_def Let_def)

lemma dda_loop_spec:
  assumes ok: "ray_ok r" and "ray_inv r cur tx ty tz u" and "\<not> cell_occupied m cur"
  shows "\<exists>res. dda_loop m (Fin R) (ray_dda r) cur tx ty tz = Some res \<and> ray_result m r R u res"
  using assms(2,3)
proof (induction "ray_measure r R tx ty tz" arbitrary: cur tx ty tz u rule: less_induct)
  case less
  obtain t cur' tx' ty' tz' where c:
    "dda_choice (ray_dda r) cur tx ty tz = (Fin t, cur', tx', ty', tz')"
    "u \<le> t" "Fin t \<le> tx" "Fin t \<le> ty" "Fin t \<le> tz" "ray_inv r cur' tx' ty' tz' t"
    "t \<le> R \<Longrightarrow> ray_measure r R tx' ty' tz' < ray_measure r R tx ty tz"
    using dda_choice_ok [OF ok less.prems(1), of R] by metis
  have clear: "\<not> cell_occupied m k" if "u \<le> t'" "t' \<le> t" "ray_inside r k t'" for t' k
  proof -
    have "ray_touches r cur t'"
      using that c(3-5) by (intro ray_inv_touches [OF less.prems(1)]) (cases tx; cases ty; cases tz; simp)+
    then have "cur = k" using ok that(3) by (rule_tac ray_touches_inside)
    with less.prems(2) show ?thesis by simp
  qed
  show ?case
  proof (cases "R < t")
    case True
    then have "ray_result m r R u None" using clear by (auto simp: ray_result_def)
    with True show ?thesis by (simp add: dda_loop_choice [of m _ _ cur] c(1))
  next
    case in_range: False
    show ?thesis
    proof (cases "cell_occupied m cur'")
      case True
      have "ray_touches r cur' t"
        using axis_le c(6) by (intro ray_inv_touches [OF c(6) order_refl]) (auto simp: ray_inv_def)
      then have "ray_result m r R u (Some (pm_center_for_key (pm_config m) cur'))"
        using True in_range c(2) clear by (intro ray_result_SomeI [where t = t]) auto
      with True in_range show ?thesis by (simp add: dda_loop_choice [of m _ _ cur] c(1))
    next
      case False
      from in_range have "t \<le> R" by simp
      from less.hyps [OF c(7) [OF this] c(6) False] obtain res where
        res: "dda_loop m (Fin R) (ray_dda r) cur' tx' ty' tz' = Some res" "ray_result m r R t res" by blast
      have "ray_result m r R u res" by (rule ray_result_extend [OF res(2) c(2) clear])
      with res False in_range show ?thesis by (simp add: dda_loop_choice [of m _ _ cur] c(1))
    qed
  qed
qed

section \<open>The whole cast\<close>

text \<open>The ray of a call: its origin, its unit direction and the voxel sizes.\<close>

definition ray_of :: "real \<times> real \<times> real \<Rightarrow> real \<times> real \<times> real \<Rightarrow> real \<Rightarrow> real \<Rightarrow> Ray" where
  "ray_of p dir s v =
     (let len = sqrt (fst dir * fst dir + fst (snd dir) * fst (snd dir) + snd (snd dir) * snd (snd dir))
      in \<lparr>ry_o = p, ry_d = (fst dir * (1 / len), fst (snd dir) * (1 / len), snd (snd dir) * (1 / len)), ry_s = s, ry_v = v\<rparr>)"

lemma axis_start:
  assumes "0 < s" and "in_int_range \<lfloor>p / s\<rfloor>"
  shows "axis_inv p d s \<lfloor>p / s\<rfloor> (dir_first (Fin p) \<lfloor>p / s\<rfloor> (Fin s) (Fin d)) 0"
proof -
  have "of_int \<lfloor>p / s\<rfloor> * s \<le> p" "p \<le> (of_int \<lfloor>p / s\<rfloor> + 1) * s"
    using floor_axis_bounds [OF assms] assms by simp_all
  then show ?thesis by (auto simp: axis_inv_def dir_first_def t_first_def dir_step_def deq_def)
qed

lemma ray_cast_spec:
  fixes p dir :: "real \<times> real \<times> real"
  defines "o' \<equiv> vec3 (Fin (fst p)) (Fin (fst (snd p))) (Fin (snd (snd p)))"
    and "d' \<equiv> vec3 (Fin (fst dir)) (Fin (fst (snd dir))) (Fin (snd (snd dir)))"
  assumes c: "pmc_cell_size_m (pm_config m) = Fin s" "0 < s" "pmc_vertical_cell_size_m (pm_config m) = Fin v" "0 < v"
    and rng: "in_int_range \<lfloor>fst p / s\<rfloor>" "in_int_range \<lfloor>fst (snd p) / s\<rfloor>" "in_int_range \<lfloor>snd (snd p) / v\<rfloor>"
    and dir: "dir \<noteq> (0, 0, 0)" and R: "0 \<le> R"
  shows "\<exists>res. ray_cast m o' d' (Fin R) = Some res \<and> ray_result m (ray_of p dir s v) R 0 res"
proof -
  obtain px py pz where p: "p = (px, py, pz)" by (cases p) blast
  obtain ex ey ez where e: "dir = (ex, ey, ez)" by (cases dir) blast
  define q where "q = ex * ex + ey * ey + ez * ez"
  have sq: "0 \<le> ex * ex" "0 \<le> ey * ey" "0 \<le> ez * ez" by simp_all
  have nz: "ex \<noteq> 0 \<or> ey \<noteq> 0 \<or> ez \<noteq> 0" using dir e by auto
  have "0 < q"
  proof -
    from nz have "0 < ex * ex \<or> 0 < ey * ey \<or> 0 < ez * ez" by (auto simp: zero_less_mult_iff linorder_neq_iff)
    with sq show ?thesis unfolding q_def by linarith
  qed
  define len where "len = sqrt q"
  have len: "0 < len" using \<open>0 < q\<close> by (simp add: len_def)
  let ?r = "ray_of p dir s v"
  let ?cur = "cell_key \<lfloor>px / s\<rfloor> \<lfloor>py / s\<rfloor> \<lfloor>pz / v\<rfloor>"
  have r: "?r = \<lparr>ry_o = (px, py, pz), ry_d = (ex * (1 / len), ey * (1 / len), ez * (1 / len)), ry_s = s, ry_v = v\<rparr>"
    by (simp add: ray_of_def p e Let_def len_def q_def)
  have ok: "ray_ok ?r" using c(2,4) len nz unfolding r by (simp add: ray_ok_def)
  have cur: "pm_key_for_point (pm_config m) o' = ?cur"
    using c rng by (simp add: pm_key_for_point_def grid_key_def o'_def p)
  have sqr: "std_sqrt (vx d' * vx d' + vy d' * vy d' + vz d' * vz d') = Fin len"
    using \<open>0 < q\<close> by (simp add: d'_def e len_def q_def)
  have inv: "ray_inv ?r ?cur (dir_first (Fin px) \<lfloor>px / s\<rfloor> (Fin s) (Fin (ex * (1 / len))))
      (dir_first (Fin py) \<lfloor>py / s\<rfloor> (Fin s) (Fin (ey * (1 / len))))
      (dir_first (Fin pz) \<lfloor>pz / v\<rfloor> (Fin v) (Fin (ez * (1 / len)))) 0"
    unfolding r using axis_start [OF c(2)] axis_start [OF c(4)] rng [unfolded p]
    by (simp add: ray_inv_def)
  show ?thesis
  proof (cases "cell_occupied m ?cur")
    case True
    have "ray_touches ?r ?cur 0" using inv by (auto simp: ray_inv_def ray_touches_def axis_inv_def)
    then have "ray_result m ?r R 0 (Some (pm_center_for_key (pm_config m) ?cur))"
      using True R by (intro ray_result_SomeI [where t = 0]) auto
    with True len show ?thesis by (simp add: ray_cast_def Let_def sqr cur)
  next
    case False
    from dda_loop_spec [OF ok inv False, of R] obtain res where
      res: "dda_loop m (Fin R) (ray_dda ?r) ?cur (dir_first (Fin px) \<lfloor>px / s\<rfloor> (Fin s) (Fin (ex * (1 / len))))
        (dir_first (Fin py) \<lfloor>py / s\<rfloor> (Fin s) (Fin (ey * (1 / len))))
        (dir_first (Fin pz) \<lfloor>pz / v\<rfloor> (Fin v) (Fin (ez * (1 / len)))) = Some res" "ray_result m ?r R 0 res" by blast
    have "ray_cast m o' d' (Fin R) = Some res"
      using False len res(1) c by (simp add: ray_cast_def Let_def sqr cur ray_dda_def r) (simp add: o'_def d'_def p e)
    with res(2) show ?thesis by blast
  qed
qed

end
