(* ===== verification/Planning_Properties.thy ===== *)
theory Planning_Properties
  imports Planning_Persistence Planning_Raycast
begin

text \<open>
  The properties of the planning map: the invariant of every reachable state of the map and
  its database, the equivalence of update, box query and ray march with their specifications,
  what reaches the database, and where the code loses it.
\<close>

section \<open>Reachable states\<close>

inductive pm_reachable ::
    "'db Sqlite \<Rightarrow> ('db \<Rightarrow> CellKey \<Rightarrow> DbRow option) \<Rightarrow> PlanningConfig \<Rightarrow> PlanningMap \<Rightarrow> 'db \<Rightarrow> bool"
  for sq rows c where
  pm_init: "rows_in_range rows db \<Longrightarrow> pm_reachable sq rows c (PlanningMap_init c) db"
| pm_upd: "pm_reachable sq rows c m db \<Longrightarrow> pm_reachable sq rows c (update_from_traversability ns source m) db"
| pm_sld: "pm_reachable sq rows c m db \<Longrightarrow> pm_reachable sq rows c (snd (slide_window sq db pos m)) db"
| pm_rst: "pm_reachable sq rows c m db \<Longrightarrow> pm_reachable sq rows c (pm_reset m) db"
| pm_ctx: "pm_reachable sq rows c m db \<Longrightarrow> pm_reachable sq rows c (set_mission_context i n m) db"
| pm_file: "pm_reachable sq rows c m db \<Longrightarrow> pm_reachable sq rows c (snd (load_from_file extract file m)) db"
| pm_flush: "pm_reachable sq rows c m db \<Longrightarrow> flush_dirty_to_db sq ns m db = (ok, m', db') \<Longrightarrow> pm_reachable sq rows c m' db'"
| pm_close: "pm_reachable sq rows c m db \<Longrightarrow> close_db sq ns m db = (ok, m', db') \<Longrightarrow> pm_reachable sq rows c m' db'"
| pm_open: "pm_reachable sq rows c m db \<Longrightarrow> open_db sq ns opened m db = (ok, m', db') \<Longrightarrow>
     (\<And>db0 db1. opened db0 = Some db1 \<Longrightarrow> rows_in_range rows db1) \<Longrightarrow> pm_reachable sq rows c m' db'"

definition pm_inv :: "('db \<Rightarrow> CellKey \<Rightarrow> DbRow option) \<Rightarrow> PlanningMap \<Rightarrow> 'db \<Rightarrow> bool" where
  "pm_inv rows m db \<longleftrightarrow> pm_ok m \<and> dirty_ok m \<and> rows_in_range rows db"

lemma update_dirty_ok:
  assumes core: "pm_core m" and d: "dirty_ok m"
  shows "dirty_ok (update_from_traversability ns source m)"
proof -
  define t where "t = merge_l1_loop ns source (pm_begin_update source m)"
  note u = update_props [where ns = ns and source = source, OF core, folded t_def]
  have core_t: "pm_core (pt_map t)" "pm_config (pt_map t) = pm_config m" and marks: "tick_marks (pm_begin_update source m) t"
    using u(1) by (simp_all add: tick_ok_def)
  have new: "key_in_range k \<and> pc_center_map cell = pm_center_for_key (pm_config m) k"
    if "k \<notin> set (pt_evicted t)" "map_of (rev (pt_dirty t)) k = Some cell" for k cell
  proof -
    have "k \<in> fst ` set (pt_dirty t)" using map_of_SomeD [OF that(2)] by force
    with marks that have "pm_lookup (pt_map t) k \<noteq> None" "Some cell = map_option sc_cell (pm_lookup (pt_map t) k)"
      by (auto simp: tick_marks_def)
    then show ?thesis using core_t by (auto simp: pm_core_def)
  qed
  show ?thesis
    unfolding dirty_ok_def u(5)
  proof (intro allI impI)
    fix k cell
    assume "map_of (pm_dirty_cells (update_from_traversability ns source m)) k = Some cell"
    then have ne: "k \<notin> set (pt_evicted t)" and
      v: "(case map_of (rev (pt_dirty t)) k of Some cell \<Rightarrow> Some cell | None \<Rightarrow> map_of (pm_dirty_cells m) k) = Some cell"
      by (simp_all add: u(7) split: if_splits)
    show "key_in_range k \<and> pc_center_map cell = pm_center_for_key (pm_config m) k"
    proof (cases "map_of (rev (pt_dirty t)) k")
      case None
      then have "map_of (pm_dirty_cells m) k = Some cell" using v by simp
      then show ?thesis using d unfolding dirty_ok_def by blast
    next
      case (Some c)
      then have "map_of (rev (pt_dirty t)) k = Some cell" using v by simp
      then show ?thesis by (rule new [OF ne])
    qed
  qed
qed

lemma pm_inv_cong:
  assumes "pm_inv rows m db" "pm_cells m' = pm_cells m" "pm_cell_index m' = pm_cell_index m"
    "pm_spatial_buckets m' = pm_spatial_buckets m" "pm_config m' = pm_config m"
    "pm_dirty_cells m' = pm_dirty_cells m" "pm_evicted_keys m' = pm_evicted_keys m"
  shows "pm_inv rows m' db"
  using assms pm_core_cong [of m m'] by (simp add: pm_inv_def pm_ok_def dirty_ok_def)

lemma slide_inv:
  assumes inv: "pm_inv rows m db" and laws: "sqlite_laws sq rows"
  shows "pm_inv rows (snd (slide_window sq db pos m)) db"
proof -
  define m1 where "m1 = m\<lparr>pm_last_slide_pos := pos, pm_slide_initialized := True\<rparr>"
  define m2 where "m2 = evict_far_cells pos (2 * pmc_horizon_m (pm_config m)) m1"
  have "pm_inv rows m1 db" by (rule pm_inv_cong [OF inv]) (simp_all add: m1_def)
  then have c1: "pm_core m1" "dirty_ok m1" "distinct (map fst (pm_dirty_cells m1))" "distinct (pm_evicted_keys m1)"
    and rr: "rows_in_range rows db" by (simp_all add: pm_inv_def pm_ok_def)
  note e = evict_far_props [OF c1(1), of pos "2 * pmc_horizon_m (pm_config m)", folded m2_def]
  have d2: "dirty_ok m2" using c1(2) e(3,4) by (simp add: dirty_ok_def)
  have i2: "pm_inv rows m2 db" using e c1 d2 rr by (simp add: pm_inv_def pm_ok_def)
  have "pm_inv rows (snd (load_window_from_db sq db pos m2)) db"
  proof (cases "pm_db_open m2")
    case True
    note l = load_window_props [OF e(1) laws rr d2 True, of pos]
    show ?thesis using l(1-4) i2 d2 by (simp add: pm_inv_def pm_ok_def dirty_ok_def)
  next
    case False
    with i2 show ?thesis by (simp add: load_window_from_db_def)
  qed
  with inv show ?thesis by (simp add: slide_window_def Let_def m1_def m2_def split_beta)
qed

lemma load_lines_inv:
  assumes "pm_inv rows m db"
  shows "pm_inv rows (fold (load_line extract) lines m) db"
  using assms
proof (induction lines arbitrary: m)
  case Nil
  then show ?case by simp
next
  case (Cons line lines)
  have push: "pm_inv rows (push_stored sc m) db"
    if "pm_cell_index m (sc_key sc) = None" "key_in_range (sc_key sc)"
      "pc_center_map (sc_cell sc) = pm_center_for_key (pm_config m) (sc_key sc)" for sc
    using pm_core_push [of m sc] that Cons.prems by (simp add: pm_inv_def pm_ok_def dirty_ok_def)
  have "pm_inv rows (load_line extract line m) db"
    using Cons.prems push
    by (auto simp: load_line_def Let_def split: option.split)
  from Cons.IH [OF this] show ?case by simp
qed

lemma pm_inv_reset: "pm_inv rows m db \<Longrightarrow> pm_inv rows (pm_reset m) db"
  using pm_reset_core [of m] by (simp add: pm_inv_def pm_ok_def dirty_ok_def) (simp add: pm_reset_def)

lemma flush_inv:
  assumes inv: "pm_inv rows m db" and laws: "sqlite_laws sq rows" and f: "flush_dirty_to_db sq ns m db = (ok, m', db')"
  shows "pm_inv rows m' db' \<and> pm_db_open m' = pm_db_open m \<and> pm_config m' = pm_config m"
proof (cases "pm_db_open m")
  case True
  have d: "distinct (map fst (pm_dirty_cells m))" using inv by (simp add: pm_inv_def pm_ok_def)
  note p = flush_props [OF laws True d f]
  have "pm_core m'" by (rule pm_core_cong [of m]) (use inv p(2) in \<open>simp_all add: pm_inv_def pm_ok_def\<close>)
  moreover have "rows_in_range rows db'"
    unfolding rows_in_range_def p(3)
    using inv by (auto simp: pm_inv_def rows_in_range_def dirty_ok_def split: if_splits option.splits)
  ultimately show ?thesis using p(2) by (simp add: pm_inv_def pm_ok_def dirty_ok_def)
next
  case False
  with f inv show ?thesis by (auto simp: flush_dirty_to_db_def)
qed

lemma close_inv:
  assumes inv: "pm_inv rows m db" and laws: "sqlite_laws sq rows" and f: "close_db sq ns m db = (ok, m', db')"
  shows "pm_inv rows m' db' \<and> \<not> pm_db_open m'"
proof (cases "pm_db_open m")
  case True
  obtain ok1 m1 db1 where fl: "flush_dirty_to_db sq ns m db = (ok1, m1, db1)" by (cases "flush_dirty_to_db sq ns m db")
  from f True fl have "m' = m1\<lparr>pm_db_open := False, pm_method_id := -1\<rparr>" "db' = db1" by (simp_all add: close_db_def)
  moreover have "pm_inv rows m1 db1" using flush_inv [OF inv laws fl] by simp
  ultimately show ?thesis using pm_inv_cong [of rows m1 db1 m'] by simp
next
  case False
  with f inv show ?thesis by (auto simp: close_db_def)
qed

lemma load_row_frame [simp]:
  "pm_dirty_cells (load_row r m) = pm_dirty_cells m" "pm_evicted_keys (load_row r m) = pm_evicted_keys m"
  by (simp_all add: load_row_def Let_def)

lemma fold_load_row_frame [simp]:
  "pm_dirty_cells (fold load_row rs m) = pm_dirty_cells m" "pm_evicted_keys (fold load_row rs m) = pm_evicted_keys m"
  by (induction rs arbitrary: m) simp_all

lemma open_closed_inv:
  assumes inv: "pm_inv rows m db" and laws: "sqlite_laws sq rows" and closed: "\<not> pm_db_open m"
    and o: "open_db sq ns opened m db = (ok, m', db')"
    and rng: "\<And>db0 db1. opened db0 = Some db1 \<Longrightarrow> rows_in_range rows db1"
  shows "pm_inv rows m' db'"
proof (cases "opened db")
  case None
  with closed o inv show ?thesis by (auto simp: open_db_def)
next
  case (Some db1)
  note p = open_closed_props [OF laws closed Some rng [OF Some] o]
  have "pm_dirty_cells m' = pm_dirty_cells m" "pm_evicted_keys m' = pm_evicted_keys m"
    using o closed Some by (auto simp: open_db_def Let_def pm_reset_def split: option.splits)
  then show ?thesis
    using p inv rng [OF Some] by (simp add: pm_inv_def pm_ok_def dirty_ok_def rows_in_range_def)
qed

lemma open_inv:
  assumes inv: "pm_inv rows m db" and laws: "sqlite_laws sq rows"
    and o: "open_db sq ns opened m db = (ok, m', db')"
    and rng: "\<And>db0 db1. opened db0 = Some db1 \<Longrightarrow> rows_in_range rows db1"
  shows "pm_inv rows m' db'"
proof (cases "pm_db_open m")
  case False
  from open_closed_inv [OF inv laws False o rng] show ?thesis .
next
  case True
  obtain ok1 m1 db1 where cl: "close_db sq ns m db = (ok1, m1, db1)" by (cases "close_db sq ns m db")
  from close_inv [OF inv laws cl] have i: "pm_inv rows m1 db1" "\<not> pm_db_open m1" by simp_all
  moreover have "open_db sq ns opened m1 db1 = (ok, m', db')"
    using o True cl i(2) by (simp add: open_db_def)
  ultimately show ?thesis using open_closed_inv [OF i(1) laws i(2)] rng by blast
qed

lemma pm_reachable_pm_inv:
  assumes "pm_reachable sq rows c m db" and laws: "sqlite_laws sq rows"
  shows "pm_inv rows m db"
  using assms(1)
proof induction
  case (pm_init db)
  then show ?case
    by (simp add: pm_inv_def pm_ok_def pm_core_def PlanningMap_init_def Let_def buckets_ok_def
        bucket_members_def dirty_ok_def pm_lookup_def store_get_def)
next
  case (pm_upd m db ns source)
  then have "pm_core m" "dirty_ok m" "distinct (map fst (pm_dirty_cells m))" "distinct (pm_evicted_keys m)"
    by (simp_all add: pm_inv_def pm_ok_def)
  with update_props(3,9,10) [of m ns source] update_dirty_ok [of m ns source] pm_upd show ?case
    by (simp add: pm_inv_def pm_ok_def)
next
  case (pm_sld m db pos)
  show ?case by (rule slide_inv [OF pm_sld.IH laws])
next
  case (pm_rst m db)
  show ?case by (rule pm_inv_reset [OF pm_rst.IH])
next
  case (pm_ctx m db i n)
  then show ?case using pm_inv_cong [of rows m db] by (simp add: set_mission_context_def)
next
  case (pm_file m db ex f)
  then show ?case
    using load_lines_inv [OF pm_inv_reset [OF pm_file.IH], of ex]
    by (simp add: load_from_file_def split: option.split list.split)
next
  case (pm_flush m db ns ok m' db')
  show ?case using flush_inv [OF pm_flush.IH laws pm_flush.hyps(2)] by simp
next
  case (pm_close m db ns ok m' db')
  show ?case using close_inv [OF pm_close.IH laws pm_close.hyps(2)] by simp
next
  case (pm_open m db ns opened ok m' db')
  show ?case by (rule open_inv [OF pm_open.IH laws pm_open.hyps(2,3)])
qed

section \<open>Sequence numbers\<close>

lemma l2_step_seq:
  assumes "\<And>k sc. M k = Some sc \<Longrightarrow> M0 k = Some sc \<or> sc_write_seq sc = seq \<or> \<not> live sc"
    and "l2_step c ns seq l1 M k = Some sc"
  shows "M0 k = Some sc \<or> sc_write_seq sc = seq \<or> \<not> live sc"
proof -
  have "sc_write_seq (reinforce_cell c ns seq l1 x) = seq" "sc_write_seq (new_planning_cell c ns seq j l1) = seq" for x j
    by (simp_all add: reinforce_cell_def new_planning_cell_def Let_def)
  moreover have "\<not> live (x\<lparr>sc_cell := cell\<lparr>pc_occupied_score := 0\<rparr>\<rparr>)" for x cell by (simp add: live_def)
  ultimately show ?thesis
    using assms by (auto simp: l2_step_def Let_def split: if_splits option.splits)
qed

lemma l2_fold_seq:
  assumes "\<And>k sc. M k = Some sc \<Longrightarrow> M0 k = Some sc \<or> sc_write_seq sc = seq \<or> \<not> live sc"
    and "fold (l2_step c ns seq) l1s M k = Some sc"
  shows "M0 k = Some sc \<or> sc_write_seq sc = seq \<or> \<not> live sc"
  using assms
proof (induction l1s arbitrary: M)
  case Nil
  then show ?case by simp
next
  case (Cons l1 l1s)
  from Cons.prems(2) have f: "fold (l2_step c ns seq) l1s (l2_step c ns seq l1 M) k = Some sc" by simp
  show ?case using l2_step_seq [OF Cons.prems(1)] by (rule Cons.IH [OF _ f]) blast
qed

lemma update_write_seq:
  assumes "pm_core m" and "pm_live m" and "finite_evidence (pm_config m) source"
    and "pm_lookup (update_from_traversability ns source m) k = Some sc"
  shows "pm_lookup m k = Some sc \<or> sc_write_seq sc = pm_map_seq m + 1"
proof -
  have "sweep (fold (l2_step (pm_config m) ns (pm_map_seq m + 1)) (tmp_cells source) (pm_lookup m)) k = Some sc"
    using assms(4) update_full_scan(1) [OF assms(1-3)] by simp
  then have "fold (l2_step (pm_config m) ns (pm_map_seq m + 1)) (tmp_cells source) (pm_lookup m) k = Some sc" "live sc"
    by (auto simp: sweep_def split: option.splits if_splits)
  with l2_fold_seq [of "pm_lookup m" "pm_lookup m"] show ?thesis by blast
qed

section \<open>The bounding box\<close>

definition span_step :: "double \<Rightarrow> double \<times> double \<Rightarrow> double \<times> double" where
  "span_step c e = (if c < fst e then (c, snd e) else if snd e < c then (fst e, c) else e)"

lemma extent_step_axes:
  "(vx (pe_min (extent_step c e)), vx (pe_max (extent_step c e))) = span_step (vx c) (vx (pe_min e), vx (pe_max e))"
  "(vy (pe_min (extent_step c e)), vy (pe_max (extent_step c e))) = span_step (vy c) (vy (pe_min e), vy (pe_max e))"
  "(vz (pe_min (extent_step c e)), vz (pe_max (extent_step c e))) = span_step (vz c) (vz (pe_min e), vz (pe_max e))"
  by (simp_all add: extent_step_def span_step_def Let_def split_beta)

lemma fold_extent_axes:
  "(vx (pe_min (fold extent_step cs e)), vx (pe_max (fold extent_step cs e))) = fold span_step (map vx cs) (vx (pe_min e), vx (pe_max e))"
  "(vy (pe_min (fold extent_step cs e)), vy (pe_max (fold extent_step cs e))) = fold span_step (map vy cs) (vy (pe_min e), vy (pe_max e))"
  "(vz (pe_min (fold extent_step cs e)), vz (pe_max (fold extent_step cs e))) = fold span_step (map vz cs) (vz (pe_min e), vz (pe_max e))"
  by (induction cs arbitrary: e) (simp_all add: extent_step_axes [symmetric])

lemma fold_span:
  assumes "\<forall>x \<in> set xs. isfinite x" and "isfinite a" "isfinite b" "a \<le> b"
  shows "let (lo, hi) = fold span_step xs (a, b)
    in isfinite lo \<and> isfinite hi \<and> lo \<le> a \<and> b \<le> hi \<and> lo \<in> insert a (set xs) \<and> hi \<in> insert b (set xs) \<and>
       (\<forall>x \<in> set xs. lo \<le> x \<and> x \<le> hi)"
  using assms
proof (induction xs arbitrary: a b)
  case Nil
  then show ?case by (auto simp: isfinite_iff)
next
  case (Cons x xs)
  define a' where "a' = fst (span_step x (a, b))"
  define b' where "b' = snd (span_step x (a, b))"
  have ab: "isfinite a'" "isfinite b'" "a' \<le> a" "b \<le> b'" "a' \<le> b'" "a' \<le> x" "x \<le> b'" "a' \<in> {a, x}" "b' \<in> {b, x}"
    using Cons.prems unfolding a'_def b'_def
    by (cases x; cases a; cases b; auto simp: span_step_def)+
  obtain lo hi where f: "fold span_step xs (a', b') = (lo, hi)" by (cases "fold span_step xs (a', b')")
  have "isfinite lo" "isfinite hi" "lo \<le> a'" "b' \<le> hi" "lo \<in> insert a' (set xs)" "hi \<in> insert b' (set xs)"
    "\<forall>x \<in> set xs. lo \<le> x \<and> x \<le> hi"
    using Cons.IH [of a' b'] Cons.prems ab f by auto
  moreover have "lo \<le> a" "lo \<le> x" "b \<le> hi" "x \<le> hi"
    using calculation(3,4) ab by (blast intro: double_le_trans)+
  ultimately show ?case using f ab by (auto simp: a'_def b'_def)
qed

section \<open>A database in memory\<close>

text \<open>An instance of the SQLite operations, to show that the laws can hold.\<close>

definition mem_rows :: "(CellKey \<times> DbRow) list \<Rightarrow> CellKey \<Rightarrow> DbRow option" where
  "mem_rows db = map_of db"

definition mem_select :: "(DbRow \<Rightarrow> bool) \<Rightarrow> (CellKey \<times> DbRow) list \<Rightarrow> DbRow list" where
  "mem_select P db = map snd (filter (\<lambda>(k, r). dr_key r = k \<and> P r) (AList.clearjunk db))"

definition mem_sqlite :: "(CellKey \<times> DbRow) list Sqlite" where
  "mem_sqlite =
     \<lparr>sq_prepare_schema = (\<lambda>db. db), sq_upsert_param = (\<lambda>_ _ db. db), sq_insert_method = (\<lambda>_ db. db),
      sq_method_id = (\<lambda>_ _. Some 1), sq_select_all = (\<lambda>s db. Some (mem_select (\<lambda>r. s \<le> dr_score r) db)),
      sq_select_box = (\<lambda>lo hi s db. Some (mem_select (\<lambda>r. s \<le> dr_score r \<and>
          kx lo \<le> kx (dr_key r) \<and> kx (dr_key r) \<le> kx hi \<and> ky lo \<le> ky (dr_key r) \<and> ky (dr_key r) \<le> ky hi \<and>
          kz lo \<le> kz (dr_key r) \<and> kz (dr_key r) \<le> kz hi) db)),
      sq_upsert_cell = (\<lambda>r db. AList.update (dr_key r) r db), sq_upsert_vote = (\<lambda>_ _ _ _ db. db),
      sq_delete_cell = AList.delete, sq_prune_votes = (\<lambda>db. db), sq_count_cells = (\<lambda>db. int (length db)),
      sq_delete_votes = (\<lambda>_ db. db), sq_delete_unvoted = (\<lambda>db. db), sq_clear_esdf = (\<lambda>db. db),
      sq_insert_esdf = (\<lambda>_ db. db)\<rparr>"

lemma mem_select_set: "set (mem_select P db) = {r. mem_rows db (dr_key r) = Some r \<and> P r}"
proof -
  have "(k, r) \<in> set (AList.clearjunk db) \<longleftrightarrow> map_of db k = Some r" for k r
    using distinct_clearjunk [of db] by (simp add: map_of_eq_Some_iff [symmetric] map_of_clearjunk)
  then show ?thesis by (force simp: mem_select_def mem_rows_def)
qed

lemma mem_select_distinct: "distinct (map dr_key (mem_select P db))"
proof -
  have "map dr_key (mem_select P db) = map fst (filter (\<lambda>(k, r). dr_key r = k \<and> P r) (AList.clearjunk db))"
    by (auto simp: mem_select_def intro!: map_cong)
  then show ?thesis using distinct_clearjunk [of db] by (simp add: distinct_map_filter)
qed

lemma mem_sqlite_laws: "sqlite_laws mem_sqlite mem_rows"
  using mem_select_distinct
  by (auto simp: sqlite_laws_def mem_sqlite_def mem_select_set) (simp_all add: mem_rows_def update_conv' delete_conv')

section \<open>A concrete map\<close>

abbreviation "pm0 \<equiv> PlanningMap_init PlanningConfig_default"

lemma pm0_config [simp]: "pm_config pm0 = PlanningConfig_default"
  by (simp add: PlanningMap_init_def PlanningConfig_default_def Let_def)

lemma pm0_core: "pm_core pm0"
  by (simp add: pm_core_def PlanningMap_init_def Let_def buckets_ok_def bucket_members_def pm_lookup_def store_get_def)

lemma pm0_lookup [simp]: "pm_lookup pm0 = Map.empty"
  by (simp add: PlanningMap_init_def pm_lookup_def store_get_def Let_def fun_eq_iff)

lemma pm0_seq [simp]: "pm_map_seq pm0 = 0" "pm_dirty_cells pm0 = []" "pm_evicted_keys pm0 = []" "pm_db_open pm0 = False"
  by (simp_all add: PlanningMap_init_def Let_def)

lemma pm0_live: "pm_live pm0"
  by (simp add: pm_live_def)

abbreviation "l1_hit \<equiv> TraversabilityCell_default\<lparr>tc_state := TOccupied, tc_occupied_score := Fin 1, tc_confidence := Fin 1\<rparr>"
abbreviation "l1_miss \<equiv> TraversabilityCell_default\<lparr>tc_state := ObservedFree, tc_confidence := Fin 1\<rparr>"

definition l1_of :: "TraversabilityCell list \<Rightarrow> TraversabilitySnapshot" where
  "l1_of cs = \<lparr>tmp_config = TraversabilityConfig_default, tmp_summary = TraversabilitySummary_default,
     tmp_cells = cs, tmp_is_delta = False\<rparr>"

lemma l1_of_cells [simp]: "tmp_cells (l1_of cs) = cs"
  by (simp add: l1_of_def)

lemma l1_default [simp]: "tc_center_map TraversabilityCell_default = vec3_zero"
  by (simp add: TraversabilityCell_default_def)

definition k0 :: CellKey where "k0 = pm_key_for_point PlanningConfig_default vec3_zero"

lemma finite_evidence_hits: "finite_evidence PlanningConfig_default (l1_of [l1_hit])"
  "finite_evidence PlanningConfig_default (l1_of [l1_miss])" "finite_evidence PlanningConfig_default (l1_of [l1_miss, l1_hit])"
  by (simp_all add: finite_evidence_def PlanningConfig_default_def)

lemma one_hit_lookup:
  assumes "pm_core m" and cfg: "pm_config m = PlanningConfig_default" and look: "pm_lookup m = Map.empty" and "pm_map_seq m = 0"
  shows "pm_lookup (update_from_traversability 7 (l1_of [l1_hit]) m) k0 = Some (new_planning_cell PlanningConfig_default 7 1 k0 l1_hit)"
proof -
  have live: "pm_live m" by (simp add: pm_live_def look)
  have fe: "finite_evidence (pm_config m) (l1_of [l1_hit])" unfolding cfg by (rule finite_evidence_hits)
  have "pmc_min_occupied_score PlanningConfig_default \<le> Fin 1" by (simp add: PlanningConfig_default_def)
  moreover have "live (new_planning_cell PlanningConfig_default 7 1 k0 l1_hit)"
    by (simp add: live_def new_planning_cell_def Let_def sigmoid_pos [simplified] PlanningConfig_default_def)
  ultimately show ?thesis
    unfolding update_full_scan(1) [OF assms(1) live fe] look cfg assms(4)
    by (simp add: l2_step_def Let_def l1_occupied_def sweep_def k0_def)
qed

abbreviation "pm1 \<equiv> update_from_traversability 7 (l1_of [l1_hit]) pm0"

lemma pm1_props: "pm_core pm1" "pm_live pm1" "pm_config pm1 = PlanningConfig_default" "pm_map_seq pm1 = 1"
  "pm_lookup pm1 k0 = Some (new_planning_cell PlanningConfig_default 7 1 k0 l1_hit)"
proof -
  note u = update_props [where ns = 7 and source = "l1_of [l1_hit]", OF pm0_core]
  show "pm_core pm1" "pm_config pm1 = PlanningConfig_default" "pm_map_seq pm1 = 1" using u(3,5,6) by simp_all
  show "pm_live pm1" by (rule update_full_scan(2) [OF pm0_core pm0_live]) (simp only: pm0_config finite_evidence_hits)
  show "pm_lookup pm1 k0 = Some (new_planning_cell PlanningConfig_default 7 1 k0 l1_hit)"
    by (rule one_hit_lookup [OF pm0_core]) simp_all
qed

lemma pm1_log_odds: "pc_log_odds (sc_cell (new_planning_cell PlanningConfig_default 7 1 k0 l1_hit)) = Fin (8473/10000)"
  by (simp add: new_planning_cell_def Let_def PlanningConfig_default_def dbl_simps)

lemma pm1_cleared: "pc_log_odds (clear_cell PlanningConfig_default l1_miss (sc_cell (new_planning_cell PlanningConfig_default 7 1 k0 l1_hit)))
    < pmc_log_odds_eviction_threshold PlanningConfig_default"
  using pm1_log_odds by (simp add: clear_cell_def Let_def) (simp add: PlanningConfig_default_def dbl_simps)

section \<open>Properties\<close>

text \<open>
  C5: in every state of the planning map and its database that any sequence of updates, window
  slides, loads, flushes, opens, closes and resets can reach, the key index describes the cell
  vector, every cell sits at the centre of its voxel, every key of the index is in exactly its
  own spatial bucket, no bucket is empty, and the dirty cells are keyed once each.
\<close>

theorem pm_reachable_ok:
  assumes "pm_reachable sq rows c m db" and "sqlite_laws sq rows"
  shows "pm_ok m"
  using pm_reachable_pm_inv [OF assms] by (simp add: pm_inv_def)

theorem pm_reachable_ok_witness: "pm_ok pm1"
proof (rule pm_reachable_ok)
  show "sqlite_laws mem_sqlite mem_rows" by (rule mem_sqlite_laws)
  show "pm_reachable mem_sqlite mem_rows PlanningConfig_default pm1 []"
    by (rule pm_reachable.pm_upd, rule pm_reachable.pm_init) (simp add: rows_in_range_def mem_rows_def)
qed

text \<open>
  C4: an update evicts by a list of candidate keys, yet its result is exactly the fold of the
  evidence rule over the level-1 cells followed by a full scan that drops every cell whose
  score was zeroed: duplicates in the candidate list and cells revived by a later hit of the
  same update are handled like in the scan.
\<close>

theorem update_equals_full_scan:
  assumes "pm_core m" and "pm_live m" and "finite_evidence (pm_config m) source"
  shows "pm_lookup (update_from_traversability ns source m) =
     sweep (fold (l2_step (pm_config m) ns (pm_map_seq m + 1)) (tmp_cells source) (pm_lookup m))"
  by (rule update_full_scan(1) [OF assms])

theorem update_equals_full_scan_witness:
  "pm_lookup (update_from_traversability 8 (l1_of [l1_miss]) pm1) =
     sweep (fold (l2_step (pm_config pm1) 8 (pm_map_seq pm1 + 1)) (tmp_cells (l1_of [l1_miss])) (pm_lookup pm1))"
  by (rule update_equals_full_scan [OF pm1_props(1,2)]) (simp only: pm1_props(3) finite_evidence_hits(2))

text \<open>
  C31: the box query, which only visits the spatial buckets overlapping the box, returns each
  stored cell that meets the score threshold and lies in the box exactly once, and no other
  cell: it is a full scan.
\<close>

theorem box_query_equals_full_scan:
  assumes "pm_core m" and "box_in_range (pm_config m) bbox"
  shows "distinct (occupied_cells_in_box m bbox) \<and>
    set (occupied_cells_in_box m bbox) =
      set (filter (\<lambda>sc. \<not> pc_occupied_score (sc_cell sc) < pmc_min_occupied_score (pm_config m) \<and>
                        in_box bbox (pc_center_map (sc_cell sc))) (pm_cells m))"
  using box_query_scan [OF assms] by simp

theorem box_query_equals_full_scan_witness:
  "distinct (occupied_cells_in_box pm1 \<lparr>bmin = vec3 (Fin (-10)) (Fin (-10)) (Fin (-10)), bmax = vec3 (Fin 10) (Fin 10) (Fin 10)\<rparr>)"
proof -
  have "box_in_range PlanningConfig_default \<lparr>bmin = vec3 (Fin (-10)) (Fin (-10)) (Fin (-10)), bmax = vec3 (Fin 10) (Fin 10) (Fin 10)\<rparr>"
    by (simp add: box_in_range_def PlanningConfig_default_def in_int_range_def int_min_def int_max_def)
  then have "box_in_range (pm_config pm1) \<lparr>bmin = vec3 (Fin (-10)) (Fin (-10)) (Fin (-10)), bmax = vec3 (Fin 10) (Fin 10) (Fin 10)\<rparr>"
    by (simp only: pm1_props(3))
  from box_query_equals_full_scan [OF pm1_props(1) this] show ?thesis by (rule conjunct1)
qed

text \<open>
  C3: the ray march returns for every finite origin, nonzero direction and non-negative range.
  When it reports a hit, the voxel is occupied, the ray touches it within range, and the ray has
  not passed through the interior of any occupied voxel before; when it reports none, the ray
  passes through the interior of no occupied voxel within range.
\<close>

theorem ray_cast_correct:
  assumes "pmc_cell_size_m (pm_config m) = Fin s" "0 < s" "pmc_vertical_cell_size_m (pm_config m) = Fin v" "0 < v"
    and "in_int_range \<lfloor>fst p / s\<rfloor>" "in_int_range \<lfloor>fst (snd p) / s\<rfloor>" "in_int_range \<lfloor>snd (snd p) / v\<rfloor>"
    and "dir \<noteq> (0, 0, 0)" and "0 \<le> R"
  shows "\<exists>res. ray_cast m (vec3 (Fin (fst p)) (Fin (fst (snd p))) (Fin (snd (snd p))))
       (vec3 (Fin (fst dir)) (Fin (fst (snd dir))) (Fin (snd (snd dir)))) (Fin R) = Some res \<and>
     ray_result m (ray_of p dir s v) R 0 res"
  by (rule ray_cast_spec [OF assms])

theorem ray_cast_correct_witness:
  "\<exists>res. ray_cast pm1 (vec3 (Fin (-3)) (Fin 0) (Fin 0)) (vec3 (Fin 1) (Fin 0) (Fin 0)) (Fin 10) = Some res \<and>
     ray_result pm1 (ray_of (-3, 0, 0) (1, 0, 0) 1 2) 10 0 res"
  using ray_cast_correct [of pm1 1 2 "(-3, 0, 0)" "(1, 0, 0)" 10] pm1_props(3)
  by (simp add: PlanningConfig_default_def in_int_range_def int_min_def int_max_def)

text \<open>
  a delta snapshot taken since the sequence number before an update holds every cell that
  the update created or changed.
\<close>

lemma snapshot_delta_complete:
  assumes "pm_core m" and "pm_live m" and "finite_evidence (pm_config m) source" and "pm_map_seq m < pm_map_seq m + 1"
    and "pm_lookup (update_from_traversability ns source m) k = Some sc" and "pm_lookup m k \<noteq> Some sc"
  shows "sc_cell sc \<in> set (pmp_cells (pm_snapshot (pm_map_seq m) (update_from_traversability ns source m)))"
proof -
  have "sc_write_seq sc = pm_map_seq m + 1" using update_write_seq [OF assms(1-3,5)] assms(6) by simp
  moreover have "sc \<in> set (pm_cells (update_from_traversability ns source m))"
    using pm_lookup_iff [OF update_props(3) [OF assms(1)]] assms(5) by simp
  ultimately show ?thesis using assms(4) by (auto simp: pm_snapshot_def)
qed

lemma snapshot_delta_complete_witness:
  "sc_cell (new_planning_cell PlanningConfig_default 7 1 k0 l1_hit) \<in> set (pmp_cells (pm_snapshot 0 pm1))"
  using snapshot_delta_complete [OF pm0_core pm0_live, of "l1_of [l1_hit]" 7 k0 "new_planning_cell PlanningConfig_default 7 1 k0 l1_hit"]
    finite_evidence_hits(1) pm1_props(5) by simp

text \<open>
  the extent of a map whose cell centres are finite is their bounding box: it contains every
  centre and each of its six bounds is a coordinate of some centre.
\<close>

lemma extent_is_bounding_box:
  assumes "pm_extent m = Some e" and "\<forall>sc \<in> set (pm_cells m). finite_point (pc_center_map (sc_cell sc))"
  shows "(\<forall>sc \<in> set (pm_cells m). in_box \<lparr>bmin = pe_min e, bmax = pe_max e\<rparr> (pc_center_map (sc_cell sc))) \<and>
    (let cs = map (pc_center_map \<circ> sc_cell) (pm_cells m)
     in vx (pe_min e) \<in> vx ` set cs \<and> vx (pe_max e) \<in> vx ` set cs \<and> vy (pe_min e) \<in> vy ` set cs \<and>
        vy (pe_max e) \<in> vy ` set cs \<and> vz (pe_min e) \<in> vz ` set cs \<and> vz (pe_max e) \<in> vz ` set cs)"
proof -
  obtain sc0 rest where cells: "pm_cells m = sc0 # rest" using assms(1) by (cases "pm_cells m") (simp_all add: pm_extent_def)
  define cs where "cs = map (pc_center_map \<circ> sc_cell) (pm_cells m)"
  define c0 where "c0 = pc_center_map (sc_cell sc0)"
  have c0: "c0 \<in> set cs" by (simp add: cs_def c0_def cells)
  have fin: "\<forall>c \<in> set cs. isfinite (vx c) \<and> isfinite (vy c) \<and> isfinite (vz c)"
    using assms(2) by (auto simp: cs_def finite_point_def)
  have e: "e = fold extent_step cs \<lparr>pe_min = c0, pe_max = c0\<rparr>"
    using assms(1) unfolding cs_def fold_map by (simp add: pm_extent_def cells c0_def Let_def comp_assoc)
  have X: "let (lo, hi) = fold span_step (map vx cs) (vx c0, vx c0)
    in isfinite lo \<and> isfinite hi \<and> lo \<le> vx c0 \<and> vx c0 \<le> hi \<and> lo \<in> insert (vx c0) (set (map vx cs)) \<and>
      hi \<in> insert (vx c0) (set (map vx cs)) \<and> (\<forall>x \<in> set (map vx cs). lo \<le> x \<and> x \<le> hi)"
    by (rule fold_span) (use fin c0 in \<open>auto simp: isfinite_iff\<close>)
  have Y: "let (lo, hi) = fold span_step (map vy cs) (vy c0, vy c0)
    in isfinite lo \<and> isfinite hi \<and> lo \<le> vy c0 \<and> vy c0 \<le> hi \<and> lo \<in> insert (vy c0) (set (map vy cs)) \<and>
      hi \<in> insert (vy c0) (set (map vy cs)) \<and> (\<forall>x \<in> set (map vy cs). lo \<le> x \<and> x \<le> hi)"
    by (rule fold_span) (use fin c0 in \<open>auto simp: isfinite_iff\<close>)
  have Z: "let (lo, hi) = fold span_step (map vz cs) (vz c0, vz c0)
    in isfinite lo \<and> isfinite hi \<and> lo \<le> vz c0 \<and> vz c0 \<le> hi \<and> lo \<in> insert (vz c0) (set (map vz cs)) \<and>
      hi \<in> insert (vz c0) (set (map vz cs)) \<and> (\<forall>x \<in> set (map vz cs). lo \<le> x \<and> x \<le> hi)"
    by (rule fold_span) (use fin c0 in \<open>auto simp: isfinite_iff\<close>)
  have ax: "fold span_step (map vx cs) (vx c0, vx c0) = (vx (pe_min e), vx (pe_max e))"
    "fold span_step (map vy cs) (vy c0, vy c0) = (vy (pe_min e), vy (pe_max e))"
    "fold span_step (map vz cs) (vz c0, vz c0) = (vz (pe_min e), vz (pe_max e))"
    unfolding e by (simp_all add: fold_extent_axes)
  have ins: "insert (vx c0) (vx ` set cs) = vx ` set cs" "insert (vy c0) (vy ` set cs) = vy ` set cs"
    "insert (vz c0) (vz ` set cs) = vz ` set cs" using c0 by blast+
  have mem: "pc_center_map (sc_cell sc) \<in> set cs" if "sc \<in> set (pm_cells m)" for sc
    using that by (auto simp: cs_def)
  have "in_box \<lparr>bmin = pe_min e, bmax = pe_max e\<rparr> c" if "c \<in> set cs" for c
    using X Y Z that unfolding ax by (simp add: in_box_def)
  with mem X Y Z show ?thesis
    unfolding ax cs_def [symmetric] by (simp add: ins)
qed

lemma extent_is_bounding_box_witness:
  "\<exists>e. pm_extent pm1 = Some e \<and> (\<forall>sc \<in> set (pm_cells pm1). in_box \<lparr>bmin = pe_min e, bmax = pe_max e\<rparr> (pc_center_map (sc_cell sc)))"
proof -
  have ne: "pm_cells pm1 \<noteq> []" using pm_lookup_iff [OF pm1_props(1)] pm1_props(5) by auto
  then obtain e where e: "pm_extent pm1 = Some e" by (cases "pm_cells pm1") (simp_all add: pm_extent_def Let_def)
  have "finite_point (pc_center_map (sc_cell sc))" if "sc \<in> set (pm_cells pm1)" for sc
  proof -
    have "pm_lookup pm1 (sc_key sc) = Some sc" using pm_lookup_iff [OF pm1_props(1)] that by simp
    then have "pc_center_map (sc_cell sc) = pm_center_for_key PlanningConfig_default (sc_key sc)"
      using pm1_props(1) unfolding pm_core_def pm1_props(3) by simp
    then show ?thesis by (simp add: pm_center_for_key_def grid_center_def PlanningConfig_default_def)
  qed
  then show ?thesis using extent_is_bounding_box [OF e] e by blast
qed

end
