(* ===== verification/Planning_Database.thy ===== *)
theory Planning_Database
  imports Planning_Properties
begin

text \<open>
  What of the planning map reaches the database and what comes back from it: changes of an
  update are written by the next flush, a flush and reopen round-trips a cell, the sliding
  window is determined by memory and database; and four places where evidence is lost.
\<close>

lemma update_db_open [simp]: "pm_db_open (update_from_traversability ns source m) = pm_db_open m"
proof -
  have r: "pm_db_open (remove_cell_by_key k m) = pm_db_open m" for k m
    by (simp add: remove_cell_by_key_def bucket_remove_def Let_def split: option.split)
  have e: "pm_db_open (fold evict_cleared_step ks m) = pm_db_open m" for ks m
    by (induction ks arbitrary: m) (simp_all add: evict_cleared_step_def r split: option.split)
  have d: "pm_db_open (mark_dirty ds ks m) = pm_db_open m" for ds ks m
  proof -
    have "pm_db_open (fold (\<lambda>k m. m\<lparr>pm_dirty_cells := AList.delete k (pm_dirty_cells m),
                       pm_evicted_keys := set_insert k (pm_evicted_keys m)\<rparr>) ks m) = pm_db_open m" for m :: PlanningMap
      by (induction ks arbitrary: m) simp_all
    then show ?thesis by (simp add: mark_dirty_def)
  qed
  have o: "pm_db_open (pt_map (merge_l1 ns l1 t)) = pm_db_open (pt_map t)" for l1 t
    by (auto simp: merge_l1_def occupied_hit_def free_hit_l2_def modify_stored_def push_stored_def
        bucket_insert_def Let_def split: option.split)
  have f: "pm_db_open (pt_map (fold (merge_l1 ns) l1s t)) = pm_db_open (pt_map t)" for l1s t
    by (induction l1s arbitrary: t) (simp_all add: o)
  show ?thesis
    unfolding update_unfold by (simp add: d e f evict_cleared_cells_def merge_l1_loop_def pm_begin_update_def)
qed

lemma pm_lookup_db [simp]:
  "pm_lookup (m\<lparr>pm_dirty_cells := d, pm_evicted_keys := e\<rparr>) = pm_lookup m"
  by (rule pm_lookup_cong) simp_all

text \<open>
  C37: whatever an update changes reaches the database with the next flush: for every key whose
  cell the update created or changed and that is not marked evicted, the flushed row is the
  cell now in memory.
\<close>

theorem update_changes_reach_db:
  assumes "pm_ok m" and "sqlite_laws sq rows" and "pm_db_open m"
    and "flush_dirty_to_db sq fns (update_from_traversability ns source m) db = (ok, m', db')"
    and "pm_lookup m' k \<noteq> pm_lookup m k"
    and "k \<notin> set (pm_evicted_keys (update_from_traversability ns source m))"
  shows "\<exists>sc. pm_lookup m' k = Some sc \<and> rows db' k = Some (row_of_cell fns k (sc_cell sc))"
proof -
  let ?m = "update_from_traversability ns source m"
  have core: "pm_core m" and d: "distinct (map fst (pm_dirty_cells m))" using assms(1) by (simp_all add: pm_ok_def)
  have d': "distinct (map fst (pm_dirty_cells ?m))" by (rule update_props(9) [OF core d])
  note p = flush_props [OF assms(2) _ d' assms(4)]
  have m': "pm_lookup m' = pm_lookup ?m" using p(2) assms(3) by simp
  from update_marks [OF core _ assms(6)] assms(5) m'
  have marks: "map_of (pm_dirty_cells ?m) k = map_option sc_cell (pm_lookup ?m k)" "pm_lookup ?m k \<noteq> None" by simp_all
  then obtain sc where "pm_lookup ?m k = Some sc" by blast
  with marks p(3) [of k] assms(3,6) m' show ?thesis by simp
qed

theorem update_changes_reach_db_witness:
  "\<exists>(sc::StoredCell) ok m' db'. flush_dirty_to_db mem_sqlite 9 (update_from_traversability 7 (l1_of [l1_hit]) (pm0\<lparr>pm_db_open := True\<rparr>)) [] = (ok, m', db') \<and>
     mem_rows db' k0 = Some (row_of_cell 9 k0 (sc_cell sc))"
proof -
  let ?a = "pm0\<lparr>pm_db_open := True\<rparr>"
  let ?m = "update_from_traversability 7 (l1_of [l1_hit]) ?a"
  have core: "pm_core ?a" by (rule pm_core_cong [OF pm0_core]) simp_all
  have look0: "pm_lookup ?a = Map.empty" using pm_lookup_cong [of ?a pm0] by simp
  obtain ok m' db' where f: "flush_dirty_to_db mem_sqlite 9 ?m [] = (ok, m', db')"
    by (cases "flush_dirty_to_db mem_sqlite 9 ?m []") blast
  note u = update_props [where ns = 7 and source = "l1_of [l1_hit]", OF core]
  have ev: "pm_evicted_keys ?m = []"
    by (simp add: update_from_traversability_def merge_l1_loop_def merge_l1_def l1_occupied_def
        occupied_hit_def mark_dirty_def pm_begin_update_def Let_def PlanningConfig_default_def
        push_stored_def bucket_insert_def PlanningMap_init_def modify_stored_def split: option.split)
  have some: "pm_lookup ?m k0 \<noteq> None" using one_hit_lookup [OF core _ look0] by simp
  have d: "distinct (map fst (pm_dirty_cells ?m))" using u(9) by simp
  have "pm_lookup m' k0 = pm_lookup ?m k0" using flush_props(2) [OF mem_sqlite_laws _ d f] by simp
  with some have "pm_lookup m' k0 \<noteq> pm_lookup ?a k0" by (simp add: look0)
  moreover have "pm_ok ?a" using core by (simp add: pm_ok_def)
  ultimately have "\<exists>sc. pm_lookup m' k0 = Some sc \<and> mem_rows db' k0 = Some (row_of_cell 9 k0 (sc_cell sc))"
    using update_changes_reach_db [OF _ mem_sqlite_laws _ f, of k0] ev by simp
  with f show ?thesis by blast
qed

section \<open>Evidence lost\<close>

lemma two_cells_tick:
  assumes inv: "tick_ok m0 t" and free: "l1_free f" and occ: "l1_occupied h" "pmc_min_occupied_score (pm_config m0) \<le> tc_occupied_score h"
    and key: "pm_key_for_point (pm_config m0) (tc_center_map f) = k" "pm_key_for_point (pm_config m0) (tc_center_map h) = k"
    and sc: "pm_lookup (pt_map t) k = Some sc"
    and low: "pc_log_odds (clear_cell (pm_config m0) f (sc_cell sc)) < pmc_log_odds_eviction_threshold (pm_config m0)"
  shows "k \<in> set (pt_evicted (merge_l1 ns h (merge_l1 ns f t)))"
proof -
  have cfg: "pm_config (pt_map t) = pm_config m0" using inv by (simp add: tick_ok_def)
  have no: "\<not> l1_occupied f" using free by (simp add: l1_free_def l1_occupied_def)
  have "merge_l1 ns f t = free_hit_l2 f k t" using free no key cfg by (simp add: merge_l1_def Let_def)
  moreover have "k \<in> set (pt_evicted (free_hit_l2 f k t))" using free_hit_evicted(2) [OF sc] low cfg by simp
  moreover have "pm_config (pt_map (merge_l1 ns f t)) = pm_config m0" using merge_l1_ok(1) [OF inv] by (simp add: tick_ok_def)
  ultimately show ?thesis using occ key by (simp add: merge_l1_def Let_def)
qed

text \<open>
  a cell that one level-1 snapshot first clears below the eviction threshold and then hits
  again stays in memory, but its key is scheduled for deletion and its dirty entry dropped: the
  next flush deletes its row, so the cell is missing after the map is reopened.
\<close>

lemma revived_cell_is_deleted_from_db:
  assumes "pm_ok m" and "pm_live m" and "finite_evidence (pm_config m) source" and "sqlite_laws sq rows" and "pm_db_open m"
    and "tmp_cells source = [f, h]" "l1_free f" "l1_occupied h" "pmc_min_occupied_score (pm_config m) \<le> tc_occupied_score h"
    and "pm_key_for_point (pm_config m) (tc_center_map f) = k" "pm_key_for_point (pm_config m) (tc_center_map h) = k"
    and "pm_lookup m k = Some sc"
    and "pc_log_odds (clear_cell (pm_config m) f (sc_cell sc)) < pmc_log_odds_eviction_threshold (pm_config m)"
    and "flush_dirty_to_db sq fns (update_from_traversability ns source m) db = (ok, m', db')"
  shows "pm_lookup m' k \<noteq> None \<and> rows db' k = None"
proof -
  let ?m = "update_from_traversability ns source m"
  have core: "pm_core m" and d: "distinct (map fst (pm_dirty_cells m))" using assms(1) by (simp_all add: pm_ok_def)
  note u = update_props [where ns = ns and source = source, OF core]
  have "k \<in> set (pt_evicted (merge_l1_loop ns source (pm_begin_update source m)))"
    using two_cells_tick [OF begin_tick_ok [OF core, of source], of f h k sc ns] assms
    by (simp add: merge_l1_loop_def)
  then have ev: "k \<in> set (pm_evicted_keys ?m)" using u(8) by simp
  have p: "rows db' k = None" "m' = ?m\<lparr>pm_dirty_cells := [], pm_evicted_keys := []\<rparr>"
    using flush_props(2,3) [OF assms(4) _ u(9) [OF d] assms(14)] assms(5) ev by simp_all
  have fin: "isfinite (pmc_log_odds_occupied_increment (pm_config m))" "isfinite (pmc_log_odds_free_decrement (pm_config m))"
      "isfinite (pmc_log_odds_max (pm_config m))" "isfinite (tc_confidence f)" "isfinite (tc_confidence h)"
    using assms(3,6) by (simp_all add: finite_evidence_def)
  have lo: "isfinite (pc_log_odds (sc_cell sc))" using assms(2,12) by (simp add: pm_live_def)
  have "pm_lookup ?m k \<noteq> None"
    unfolding update_full_scan(1) [OF core assms(2,3)]
    using assms fin lo
    by (simp add: l2_step_def Let_def sweep_def l1_free_def l1_occupied_def live_def reinforce_cell_def
        clear_cell_def sigmoid_pos [simplified])
  with p show ?thesis by simp
qed

lemma revived_cell_is_deleted_from_db_witness:
  "\<exists>ok m' db'. flush_dirty_to_db mem_sqlite 9 (update_from_traversability 8 (l1_of [l1_miss, l1_hit]) (pm1\<lparr>pm_db_open := True\<rparr>)) [] = (ok, m', db') \<and>
     pm_lookup m' k0 \<noteq> None \<and> mem_rows db' k0 = None"
proof -
  let ?a = "pm1\<lparr>pm_db_open := True\<rparr>"
  obtain ok m' db' where f: "flush_dirty_to_db mem_sqlite 9 (update_from_traversability 8 (l1_of [l1_miss, l1_hit]) ?a) [] = (ok, m', db')"
    by (cases "flush_dirty_to_db mem_sqlite 9 (update_from_traversability 8 (l1_of [l1_miss, l1_hit]) ?a) []") blast
  have core: "pm_core ?a" by (rule pm_core_cong [OF pm1_props(1)]) simp_all
  have look: "pm_lookup ?a = pm_lookup pm1" by (rule pm_lookup_cong) simp_all
  have cfg: "pm_config ?a = PlanningConfig_default" using pm1_props(3) by simp
  have ok: "pm_ok ?a" using core update_props(9,10) [OF pm0_core, of 7 "l1_of [l1_hit]"] by (simp add: pm_ok_def)
  have "pm_lookup m' k0 \<noteq> None \<and> mem_rows db' k0 = None"
  proof (rule revived_cell_is_deleted_from_db [OF ok _ _ mem_sqlite_laws _ _ _ _ _ _ _ _ _ f])
    show "pm_live ?a" using pm1_props(2) by (simp add: pm_live_def look)
    show "pm_lookup ?a k0 = Some (new_planning_cell PlanningConfig_default 7 1 k0 l1_hit)" using pm1_props(5) look by simp
    show "pc_log_odds (clear_cell (pm_config ?a) l1_miss (sc_cell (new_planning_cell PlanningConfig_default 7 1 k0 l1_hit)))
        < pmc_log_odds_eviction_threshold (pm_config ?a)" unfolding cfg by (rule pm1_cleared)
    show "finite_evidence (pm_config ?a) (l1_of [l1_miss, l1_hit])" unfolding cfg by (rule finite_evidence_hits)
    show "pmc_min_occupied_score (pm_config ?a) \<le> tc_occupied_score l1_hit"
      unfolding cfg by (simp add: PlanningConfig_default_def)
    show "pm_key_for_point (pm_config ?a) (tc_center_map l1_miss) = k0" "pm_key_for_point (pm_config ?a) (tc_center_map l1_hit) = k0"
      unfolding cfg by (simp_all add: k0_def)
  qed (simp_all add: l1_free_def l1_occupied_def)
  with f show ?thesis by blast
qed

text \<open>
  a key that is evicted by one update and created again by a later one before the flush is
  in both persistence sets; the flush writes its row and then deletes it.
\<close>

lemma recreated_cell_is_deleted_from_db:
  assumes "sqlite_laws sq rows" and "pm_db_open m" and "distinct (map fst (pm_dirty_cells m))"
    and "k \<in> set (pm_evicted_keys m)"
    and "pm_core m" and "pm_lookup (update_from_traversability ns source m) k = Some sc"
    and "flush_dirty_to_db sq fns (update_from_traversability ns source m) db = (ok, m', db')"
  shows "pm_lookup m' k = Some sc \<and> rows db' k = None"
proof -
  note u = update_props [where ns = ns and source = source, OF assms(5)]
  have "k \<in> set (pm_evicted_keys (update_from_traversability ns source m))" using u(8) assms(4) by simp
  with flush_props(2,3) [OF assms(1) _ u(9) [OF assms(3)] assms(7)] assms(2,6) show ?thesis by simp
qed

lemma recreated_cell_is_deleted_from_db_witness:
  "\<exists>ok m' db'. flush_dirty_to_db mem_sqlite 9 (update_from_traversability 7 (l1_of [l1_hit]) (pm0\<lparr>pm_db_open := True, pm_evicted_keys := [k0]\<rparr>)) [] = (ok, m', db') \<and>
     pm_lookup m' k0 \<noteq> None \<and> mem_rows db' k0 = None"
proof -
  let ?a = "pm0\<lparr>pm_db_open := True, pm_evicted_keys := [k0]\<rparr>"
  have core: "pm_core ?a" by (rule pm_core_cong [OF pm0_core]) simp_all
  have look: "pm_lookup ?a = Map.empty" using pm_lookup_cong [of ?a pm0] by simp
  obtain ok m' db' where f: "flush_dirty_to_db mem_sqlite 9 (update_from_traversability 7 (l1_of [l1_hit]) ?a) [] = (ok, m', db')"
    by (cases "flush_dirty_to_db mem_sqlite 9 (update_from_traversability 7 (l1_of [l1_hit]) ?a) []") blast
  obtain sc where "pm_lookup (update_from_traversability 7 (l1_of [l1_hit]) ?a) k0 = Some sc"
    using one_hit_lookup [OF core _ look] by simp
  from recreated_cell_is_deleted_from_db [OF mem_sqlite_laws _ _ _ core this f] f show ?thesis by auto
qed

text \<open>
  C38: a cell written by a flush comes back when the database is reopened: same log-odds,
  confidence and hit count, its score recomputed from the log-odds, provided its stored score
  meets the load threshold and it was not marked evicted.
\<close>

theorem flush_open_roundtrip:
  assumes "sqlite_laws sq rows" and "pm_ok m" "dirty_ok m" "pm_db_open m" "rows_in_range rows db"
    and "map_of (pm_dirty_cells m) k = Some cell" "k \<notin> set (pm_evicted_keys m)"
    and "pmc_min_occupied_score (pm_config m) \<le> pc_occupied_score cell"
    and "close_db sq ns m db = (ok, m', db')" and "open_db sq ns' (\<lambda>db. Some db) m' db' = (ok', m'', db'')"
  shows "\<exists>sc. pm_lookup m'' k = Some sc \<and> pc_log_odds (sc_cell sc) = pc_log_odds cell \<and>
    pc_occupied_score (sc_cell sc) = sigmoid (pc_log_odds cell) \<and> pc_confidence (sc_cell sc) = pc_confidence cell \<and>
    pc_source_cell_count (sc_cell sc) = pc_source_cell_count cell \<and>
    pc_center_map (sc_cell sc) = pc_center_map cell"
proof -
  have inv: "pm_inv rows m db" using assms(2,3,5) by (simp add: pm_inv_def)
  have d: "distinct (map fst (pm_dirty_cells m))" using assms(2) by (simp add: pm_ok_def)
  obtain ok1 m1 db1 where f: "flush_dirty_to_db sq ns m db = (ok1, m1, db1)" by (cases "flush_dirty_to_db sq ns m db") blast
  from f assms(4,9) have m': "m' = m1\<lparr>pm_db_open := False, pm_method_id := -1\<rparr>" "db' = db1" by (auto simp: close_db_def)
  note p = flush_props [OF assms(1,4) d f]
  have closed: "\<not> pm_db_open m'" and rng: "rows_in_range rows db'"
    using close_inv [OF inv assms(1,9)] by (simp_all add: pm_inv_def)
  note o = open_closed_props [OF assms(1) closed _ rng assms(10), simplified]
  have "rows db' k = Some (row_of_cell ns k cell)" using p(3) [of k] assms(6,7) by (simp add: m')
  moreover have "pm_config m' = pm_config m" using p(2) by (simp add: m')
  ultimately have "pm_lookup m'' k = Some (loaded_cell (pm_config m) (row_of_cell ns k cell))"
    using o(6) [of k] assms(8) by (simp add: row_of_cell_def)
  moreover have "pc_center_map cell = pm_center_for_key (pm_config m) k" using assms(3,6) by (simp add: dirty_ok_def)
  ultimately show ?thesis by (simp add: loaded_cell_def row_of_cell_def)
qed

abbreviation "dirty_cell0 \<equiv> sc_cell (new_planning_cell PlanningConfig_default 7 1 k0 l1_hit)"
abbreviation "dirty_map0 \<equiv> pm0\<lparr>pm_db_open := True, pm_dirty_cells := [(k0, dirty_cell0)]\<rparr>"

theorem flush_open_roundtrip_witness:
  "\<exists>ok m' db' ok' m'' db'' sc. close_db mem_sqlite 9 dirty_map0 [] = (ok, m', db') \<and>
     open_db mem_sqlite 10 (\<lambda>db. Some db) m' db' = (ok', m'', db'') \<and>
     pm_lookup m'' k0 = Some sc \<and> pc_log_odds (sc_cell sc) = Fin (8473/10000)"
proof -
  obtain ok m' db' where c: "close_db mem_sqlite 9 dirty_map0 [] = (ok, m', db')" by (cases "close_db mem_sqlite 9 dirty_map0 []") blast
  obtain ok' m'' db'' where o: "open_db mem_sqlite 10 (\<lambda>db. Some db) m' db' = (ok', m'', db'')"
    by (cases "open_db mem_sqlite 10 (\<lambda>db. Some db) m' db'") blast
  have "pm_core dirty_map0" by (rule pm_core_cong [OF pm0_core]) simp_all
  then have "pm_ok dirty_map0" by (simp add: pm_ok_def)
  moreover have "dirty_ok dirty_map0" by (simp add: dirty_ok_def k0_def)
  moreover have cfg: "pm_config dirty_map0 = PlanningConfig_default" by simp
  moreover have "pmc_min_occupied_score (pm_config dirty_map0) \<le> pc_occupied_score dirty_cell0"
    unfolding cfg using sigmoid_ge_half [of "Fin (8473/10000)"]
    by (simp add: new_planning_cell_def Let_def PlanningConfig_default_def dbl_simps)
  ultimately have "\<exists>sc. pm_lookup m'' k0 = Some sc \<and> pc_log_odds (sc_cell sc) = pc_log_odds dirty_cell0 \<and>
    pc_occupied_score (sc_cell sc) = sigmoid (pc_log_odds dirty_cell0) \<and> pc_confidence (sc_cell sc) = pc_confidence dirty_cell0 \<and>
    pc_source_cell_count (sc_cell sc) = pc_source_cell_count dirty_cell0 \<and> pc_center_map (sc_cell sc) = pc_center_map dirty_cell0"
    by (rule_tac flush_open_roundtrip [OF mem_sqlite_laws _ _ _ _ _ _ _ c o]) (simp_all add: rows_in_range_def mem_rows_def)
  then show ?thesis using c o pm1_log_odds by auto
qed

definition near_cell :: "PlanningMap \<Rightarrow> Vec3 \<Rightarrow> CellKey \<Rightarrow> StoredCell option" where
  "near_cell m pos k =
     (case pm_lookup m k of
        Some sc \<Rightarrow> if far_from pos (2 * pmc_horizon_m (pm_config m)) sc then None else Some sc
      | None \<Rightarrow> None)"

text \<open>
  a slide of the window leaves in memory exactly the cells within twice the horizon, plus
  for every other key in the window its row from the database if its score meets the threshold;
  a cell with an unflushed change comes back with that change, not with the stale row.
\<close>

lemma slide_window_contents:
  assumes "pm_ok m" "dirty_ok m" "pm_db_open m" and "sqlite_laws sq rows" "rows_in_range rows db"
    and "\<not> pm_slide_initialized m"
  shows "swr_slid (fst (slide_window sq db pos m)) \<and>
    pm_lookup (snd (slide_window sq db pos m)) k =
      (case near_cell m pos k of Some sc \<Rightarrow> Some sc
       | None \<Rightarrow> (case rows db k of None \<Rightarrow> None
           | Some r \<Rightarrow> if dr_key r = k \<and> in_window (pm_config m) pos k \<and> pmc_min_occupied_score (pm_config m) \<le> dr_score r
               then Some (window_stored (pm_config m) (pm_dirty_cells m) r) else None))"
proof -
  define c where "c = pm_config m"
  define m1 where "m1 = m\<lparr>pm_last_slide_pos := pos, pm_slide_initialized := True\<rparr>"
  define m2 where "m2 = evict_far_cells pos (2 * pmc_horizon_m c) m1"
  have core1: "pm_core m1" by (rule pm_core_cong [of m]) (use assms(1) in \<open>simp_all add: m1_def pm_ok_def\<close>)
  have look1: "pm_lookup m1 = pm_lookup m" by (rule pm_lookup_cong) (simp_all add: m1_def)
  note e = evict_far_props [OF core1, of pos "2 * pmc_horizon_m c", folded m2_def]
  have fr: "pm_config m2 = c" "pm_dirty_cells m2 = pm_dirty_cells m" using e(3,4) by (simp_all add: m1_def c_def)
  have d2: "dirty_ok m2" using assms(2) fr by (simp add: dirty_ok_def c_def)
  have o2: "pm_db_open m2"
  proof -
    have "pm_db_open (fold remove_cell_by_key ks x) = pm_db_open x" for ks x
      by (induction ks arbitrary: x)
        (simp_all add: remove_cell_by_key_def bucket_remove_def Let_def split: option.split)
    then show ?thesis using assms(3) by (simp add: m2_def m1_def evict_far_cells_def Let_def)
  qed
  note l = load_window_props(5) [OF e(1) assms(4,5) d2 o2, of pos k]
  have "slide_window sq db pos m = (\<lparr>swr_slid = True, swr_newly_loaded_positions = fst (load_window_from_db sq db pos m2)\<rparr>,
      snd (load_window_from_db sq db pos m2))"
    using assms(3,6) by (simp add: slide_window_def Let_def m2_def m1_def c_def split_beta)
  then show ?thesis using l unfolding e(2) fr look1 near_cell_def c_def by simp
qed

lemma slide_window_contents_witness:
  "swr_slid (fst (slide_window mem_sqlite [] vec3_zero dirty_map0))"
proof -
  have "pm_core dirty_map0" by (rule pm_core_cong [OF pm0_core]) simp_all
  then have "pm_ok dirty_map0" by (simp add: pm_ok_def)
  moreover have "dirty_ok dirty_map0" by (simp add: dirty_ok_def k0_def)
  moreover have "\<not> pm_slide_initialized dirty_map0" by (simp add: PlanningMap_init_def Let_def)
  ultimately show ?thesis
    using slide_window_contents [of dirty_map0 mem_sqlite mem_rows "[]" vec3_zero k0] mem_sqlite_laws
    by (simp add: rows_in_range_def mem_rows_def)
qed

text \<open>
  a cell that re-enters memory through the sliding window keeps its stored score but loses
  its accumulated log-odds: whatever the row says, the cell's log-odds are zero, so its score is
  no longer the sigmoid of its log-odds.
\<close>

lemma window_load_forgets_log_odds:
  assumes "map_of dirty (dr_key r) = None"
  shows "pc_log_odds (window_cell c dirty r) = 0 \<and> pc_occupied_score (window_cell c dirty r) = dr_score r"
  using assms by (simp add: window_cell_def PlanningCell_default_def Let_def)

lemma window_load_forgets_log_odds_witness:
  "pc_log_odds (window_cell PlanningConfig_default [] (row_of_cell 9 k0 dirty_cell0)) = 0 \<and>
     dr_log_odds (row_of_cell 9 k0 dirty_cell0) = Fin (8473/10000)"
  using window_load_forgets_log_odds [of "[]" "row_of_cell 9 k0 dirty_cell0" PlanningConfig_default] pm1_log_odds
  by (simp add: row_of_cell_def)

lemma load_rows_seq:
  "\<forall>sc \<in> set (pm_cells m). sc_write_seq sc = 0 \<Longrightarrow> \<forall>sc \<in> set (pm_cells (fold load_row rs m)). sc_write_seq sc = 0"
proof (induction rs arbitrary: m)
  case Nil
  then show ?case by simp
next
  case (Cons r rs)
  then have "\<forall>sc \<in> set (pm_cells (load_row r m)). sc_write_seq sc = 0" by (auto simp: load_row_def Let_def)
  from Cons.IH [OF this] show ?case by simp
qed

text \<open>
  the full snapshot (since sequence number zero) holds none of the cells that opening a
  database loaded: their write sequence number is zero and the filter is strict.
\<close>

lemma full_snapshot_omits_loaded_cells:
  assumes "\<not> pm_db_open m" and "open_db sq ns opened m db = (True, m', db')"
  shows "pmp_cells (pm_snapshot 0 m') = [] \<and> \<not> pmp_is_delta (pm_snapshot 0 m')"
proof -
  obtain rs m1 where m': "m' = fold load_row rs (pm_reset m1)"
    using assms by (auto simp: open_db_def Let_def split: option.splits)
  have "\<forall>sc \<in> set (pm_cells m'). sc_write_seq sc = 0"
    unfolding m' by (rule load_rows_seq) (simp add: pm_reset_def)
  then show ?thesis by (simp add: pm_snapshot_def)
qed

lemma full_snapshot_omits_loaded_cells_witness:
  "\<exists>m' db'. open_db mem_sqlite 10 (\<lambda>db. Some db) pm0 [(k0, row_of_cell 9 k0 dirty_cell0)] = (True, m', db') \<and>
     pm_lookup m' k0 \<noteq> None \<and> pmp_cells (pm_snapshot 0 m') = []"
proof -
  let ?db = "[(k0, row_of_cell 9 k0 dirty_cell0)]"
  obtain ok m' db' where o: "open_db mem_sqlite 10 (\<lambda>db. Some db) pm0 ?db = (ok, m', db')"
    by (cases "open_db mem_sqlite 10 (\<lambda>db. Some db) pm0 ?db") blast
  have rng: "rows_in_range mem_rows ?db" by (simp add: rows_in_range_def mem_rows_def k0_def)
  note p = open_closed_props [OF mem_sqlite_laws _ _ rng o, simplified]
  have "pmc_min_occupied_score PlanningConfig_default \<le> dr_score (row_of_cell 9 k0 dirty_cell0)"
    using sigmoid_ge_half [of "Fin (8473/10000)"]
    by (simp add: row_of_cell_def new_planning_cell_def Let_def PlanningConfig_default_def dbl_simps)
  then have "pm_lookup m' k0 \<noteq> None" using p(6) [of k0] by (simp add: mem_rows_def row_of_cell_def)
  moreover have "ok" using p(1) by simp
  ultimately show ?thesis using full_snapshot_omits_loaded_cells [of pm0 mem_sqlite 10 "\<lambda>db. Some db" ?db m' db'] o by simp
qed

end
