(* ===== verification/Traversability_Invariant.thy ===== *)
theory Traversability_Invariant
  imports Traversability_Map
begin

text \<open>
  Facts about the traversability map: what each stage of an update does to the map from keys
  to cells, the invariant every stage keeps, and that an update returns.

  Everything a stage does to the cells goes through two operations on a tick: writing a cell
  that is created when missing (\<open>put_cell\<close>), and a free hit on a cell that exists.
  \<open>tick_inv\<close> is the invariant relative to the map the tick started from, for any predicate
  on cells that those writes keep; each stage is shown to keep it once.
\<close>

abbreviation tm_idx_ok :: "TraversabilityMap \<Rightarrow> bool" where
  "tm_idx_ok m \<equiv> idx_ok fst (tm_cells m) (tm_cell_index m)"

declare cross_check.simps [simp del]

section \<open>Writing cells\<close>

lemma ensure_cell_frame [simp]:
  "tm_config (ensure_cell k m) = tm_config m"
  "tm_touched (ensure_cell k m) = tm_touched m"
  "tm_occupied_indices (ensure_cell k m) = tm_occupied_indices m"
  "tm_sweep_cursor (ensure_cell k m) = tm_sweep_cursor m"
  "tm_cross_check_cursor (ensure_cell k m) = tm_cross_check_cursor m"
  by (simp_all add: ensure_cell_def split: option.split)

lemma modify_cell_frame [simp]:
  "tm_config (modify_cell k f m) = tm_config m"
  "tm_touched (modify_cell k f m) = tm_touched m"
  "tm_occupied_indices (modify_cell k f m) = tm_occupied_indices m"
  "tm_sweep_cursor (modify_cell k f m) = tm_sweep_cursor m"
  "tm_cross_check_cursor (modify_cell k f m) = tm_cross_check_cursor m"
  "tm_cell_index (modify_cell k f m) = tm_cell_index m"
  "tm_summary (modify_cell k f m) = tm_summary m"
  "length (tm_cells (modify_cell k f m)) = length (tm_cells m)"
  by (simp_all add: modify_cell_def split: option.split)

text \<open>The summary does not matter to the cells.\<close>

lemma ensure_cell_summary [simp]:
  "tm_cells (ensure_cell k (m\<lparr>tm_summary := sm\<rparr>)) = tm_cells (ensure_cell k m)"
  "tm_cell_index (ensure_cell k (m\<lparr>tm_summary := sm\<rparr>)) = tm_cell_index (ensure_cell k m)"
  by (simp_all add: ensure_cell_def split: option.split)

lemma modify_cell_cells:
  "tm_cells (modify_cell k f m) = (case tm_cell_index m k of None \<Rightarrow> tm_cells m
     | Some i \<Rightarrow> (tm_cells m)[i := (fst (tm_cells m ! i), f (snd (tm_cells m ! i)))])"
  by (simp add: modify_cell_def split: option.split)

lemma cell_at_key_cong:
  "tm_cells m = tm_cells m' \<Longrightarrow> tm_cell_index m = tm_cell_index m' \<Longrightarrow> cell_at_key m = cell_at_key m'"
  by (simp add: cell_at_key_def [abs_def])

lemma cell_at_key_frame [simp]:
  "cell_at_key (m\<lparr>tm_summary := sm\<rparr>) = cell_at_key m"
  "cell_at_key (m\<lparr>tm_touched := ks\<rparr>) = cell_at_key m"
  "cell_at_key (m\<lparr>tm_cross_check_cursor := i\<rparr>) = cell_at_key m"
  "cell_at_key (m\<lparr>tm_sweep_cursor := i\<rparr>) = cell_at_key m"
  "cell_at_key (m\<lparr>tm_occupied_indices := is\<rparr>) = cell_at_key m"
  by (rule cell_at_key_cong; simp)+

lemma cell_at_key_None: "cell_at_key m k = None \<longleftrightarrow> tm_cell_index m k = None"
  by (simp add: cell_at_key_def)

lemma ensure_cell_idx_ok: "tm_idx_ok m \<Longrightarrow> tm_idx_ok (ensure_cell k m)"
  using idx_ok_push [of fst "tm_cells m" "tm_cell_index m" "(k, _)"]
  by (simp add: ensure_cell_def split: option.split)

lemma ensure_cell_index: "tm_cell_index (ensure_cell k m) k \<noteq> None"
  by (simp add: ensure_cell_def split: option.split)

lemma ensure_cell_extends: "tm_cell_index m \<subseteq>\<^sub>m tm_cell_index (ensure_cell k m)"
  by (auto simp: ensure_cell_def map_le_def split: option.split)

lemma cell_at_ensure:
  assumes "tm_idx_ok m"
  shows "cell_at_key (ensure_cell k m) =
    (cell_at_key m)(k \<mapsto> case cell_at_key m k of None \<Rightarrow> fresh_cell (tm_config m) k | Some c \<Rightarrow> c)"
proof (cases "tm_cell_index m k")
  case None
  then show ?thesis
    using store_get_push [OF assms, of "(k, fresh_cell (tm_config m) k)"]
    by (auto simp: ensure_cell_def cell_at_key_def fun_eq_iff store_get_def)
next
  case (Some i)
  then show ?thesis by (auto simp: ensure_cell_def cell_at_key_def fun_eq_iff store_get_def)
qed

lemma modify_cell_idx_ok: "tm_idx_ok m \<Longrightarrow> tm_idx_ok (modify_cell k f m)"
  by (auto simp: modify_cell_def idx_ok_update split: option.split)

lemma cell_at_modify:
  assumes "tm_idx_ok m"
  shows "cell_at_key (modify_cell k f m) = (cell_at_key m)(k := map_option f (cell_at_key m k))"
proof (cases "tm_cell_index m k")
  case None
  then show ?thesis by (auto simp: modify_cell_def cell_at_key_def fun_eq_iff store_get_def)
next
  case (Some i)
  with assms have i: "i < length (tm_cells m)" "fst (tm_cells m ! i) = k" by (auto dest: idx_okD)
  show ?thesis
    using store_get_update [OF assms i(1), of "(k, f (snd (tm_cells m ! i)))"] i Some
    by (auto simp: modify_cell_def cell_at_key_def fun_eq_iff store_get_def)
qed

section \<open>The invariant of a tick\<close>

definition tick_inv ::
    "(CellKey \<Rightarrow> TraversabilityCell \<Rightarrow> bool) \<Rightarrow> TraversabilityMap \<Rightarrow> Tick \<Rightarrow> bool" where
  "tick_inv P m0 t \<longleftrightarrow>
     (let m = tk_map t in
        tm_idx_ok m \<and> tm_config m = tm_config m0 \<and>
        tm_occupied_indices m = tm_occupied_indices m0 \<and>
        tm_cell_index m0 \<subseteq>\<^sub>m tm_cell_index m \<and>
        set (tk_touched t) \<subseteq> dom (tm_cell_index m) \<and>
        set (tm_touched m) = set (tm_touched m0) \<union> set (tk_touched t) \<and>
        (distinct (tm_touched m0) \<longrightarrow> distinct (tm_touched m)) \<and>
        (\<forall>k. k \<notin> set (tk_touched t) \<longrightarrow> cell_at_key m k = cell_at_key m0 k) \<and>
        (\<forall>k cell. cell_at_key m k = Some cell \<longrightarrow> P k cell))"

definition put_cell :: "CellKey \<Rightarrow> (TraversabilityCell \<Rightarrow> TraversabilityCell) \<Rightarrow> Tick \<Rightarrow> Tick" where
  "put_cell key f t =
     (let t = touch key (t\<lparr>tk_map := ensure_cell key (tk_map t)\<rparr>)
      in t\<lparr>tk_map := modify_cell key f (tk_map t)\<rparr>)"

lemma tick_inv_put:
  assumes inv: "tick_inv P m0 t"
    and fresh: "P key (fresh_cell (tm_config m0) key)"
    and keep: "\<And>cell. P key cell \<Longrightarrow> P key (f cell)"
  shows "tick_inv P m0 (put_cell key f t)"
proof -
  define m where "m = tk_map t"
  define m1 where "m1 = (ensure_cell key m)\<lparr>tm_touched := set_insert key (tm_touched m)\<rparr>"
  have put: "tk_map (put_cell key f t) = modify_cell key f m1"
    "tk_touched (put_cell key f t) = set_insert key (tk_touched t)"
    by (simp_all add: put_cell_def touch_def m1_def m_def Let_def)
  have i: "tm_idx_ok m" "tm_config m = tm_config m0" "tm_cell_index m0 \<subseteq>\<^sub>m tm_cell_index m"
    and P: "\<And>k cell. cell_at_key m k = Some cell \<Longrightarrow> P k cell"
    using inv by (auto simp: tick_inv_def m_def Let_def)
  have idx1: "tm_idx_ok m1" using ensure_cell_idx_ok [OF i(1), of key] by (simp add: m1_def)
  have index: "tm_cell_index m \<subseteq>\<^sub>m tm_cell_index m1" "key \<in> dom (tm_cell_index m1)"
    using ensure_cell_extends [of m key] ensure_cell_index [of key m] by (auto simp: m1_def)
  have cells: "cell_at_key (modify_cell key f m1) = (cell_at_key m)
      (key \<mapsto> f (case cell_at_key m key of None \<Rightarrow> fresh_cell (tm_config m) key | Some c \<Rightarrow> c))"
    by (simp add: cell_at_modify [OF idx1]) (simp add: m1_def cell_at_ensure [OF i(1)])
  have newP: "P key (f (case cell_at_key m key of None \<Rightarrow> fresh_cell (tm_config m) key | Some c \<Rightarrow> c))"
    using fresh P keep i(2) by (auto split: option.split)
  have "\<forall>k cell. cell_at_key (modify_cell key f m1) k = Some cell \<longrightarrow> P k cell"
    unfolding cells using P newP by simp
  moreover have "tm_cell_index m0 \<subseteq>\<^sub>m tm_cell_index m1"
    using i(3) index(1) by (rule map_le_trans)
  moreover have "insert key (set (tk_touched t)) \<subseteq> dom (tm_cell_index m1)"
  proof -
    have "set (tk_touched t) \<subseteq> dom (tm_cell_index m)"
      using inv by (simp add: tick_inv_def m_def Let_def)
    with map_le_implies_dom_le [OF index(1)] index(2) show ?thesis by blast
  qed
  ultimately show ?thesis
    using inv modify_cell_idx_ok [OF idx1, of key f]
    unfolding tick_inv_def put Let_def cells
    by (auto simp: m1_def m_def)
qed

lemma tick_inv_frame:
  assumes "tick_inv P m0 t" and "tm_cells (tk_map t') = tm_cells (tk_map t)"
    and "tm_cell_index (tk_map t') = tm_cell_index (tk_map t)"
    and "tm_config (tk_map t') = tm_config (tk_map t)" "tm_touched (tk_map t') = tm_touched (tk_map t)"
    and "tm_occupied_indices (tk_map t') = tm_occupied_indices (tk_map t)"
    and "tk_touched t' = tk_touched t"
  shows "tick_inv P m0 t'"
  using assms cell_at_key_cong [OF assms(2,3)] by (simp add: tick_inv_def Let_def)

text \<open>A cell of the tick's map that is not touched is a cell of the map the tick began with.\<close>

lemma tick_inv_untouched:
  assumes "tick_inv P m0 t" and "k \<notin> set (tk_touched t)"
  shows "cell_at_key (tk_map t) k = cell_at_key m0 k"
  using assms by (simp add: tick_inv_def Let_def)

section \<open>The stages\<close>

lemma merge_step_skip:
  "source_skipped om (tm_summary (tk_map t)) source \<Longrightarrow> merge_step om ns (ci, source) t = t"
  by (simp add: merge_step_def Let_def)

lemma merge_step_put:
  fixes ns :: u64
  assumes "\<not> source_skipped om (tm_summary (tk_map t)) source"
  defines "key \<equiv> tm_key_for_point (tm_config (tk_map t)) (oc_center_map source)"
  defines "t' \<equiv> put_cell key (merge_source (tm_config (tk_map t)) ns key source) t"
  shows "tm_cells (tk_map (merge_step om ns (ci, source) t)) = tm_cells (tk_map t')"
    "tm_cell_index (tk_map (merge_step om ns (ci, source) t)) = tm_cell_index (tk_map t')"
    "tm_config (tk_map (merge_step om ns (ci, source) t)) = tm_config (tk_map t')"
    "tm_touched (tk_map (merge_step om ns (ci, source) t)) = tm_touched (tk_map t')"
    "tm_occupied_indices (tk_map (merge_step om ns (ci, source) t)) = tm_occupied_indices (tk_map t')"
    "tm_sweep_cursor (tk_map (merge_step om ns (ci, source) t)) = tm_sweep_cursor (tk_map t')"
    "tk_touched (merge_step om ns (ci, source) t) = tk_touched t'"
  using assms(1) unfolding t'_def key_def
  by (simp_all add: merge_step_def put_cell_def touch_def Let_def modify_cell_cells
      cong: option.case_cong)

lemma tick_inv_merge_step:
  assumes "tick_inv P m0 t"
    and "\<And>k. key_in_range k \<Longrightarrow> P k (fresh_cell (tm_config m0) k)"
    and "\<And>k cell. P k cell \<Longrightarrow> P k (merge_source (tm_config m0) ns k source cell)"
  shows "tick_inv P m0 (merge_step om ns (ci, source) t)"
proof (cases "source_skipped om (tm_summary (tk_map t)) source")
  case True
  with assms(1) show ?thesis by (simp add: merge_step_skip)
next
  case False
  let ?c = "tm_config (tk_map t)"
  let ?k = "tm_key_for_point ?c (oc_center_map source)"
  have c: "?c = tm_config m0" using assms(1) by (simp add: tick_inv_def Let_def)
  have "tick_inv P m0 (put_cell ?k (merge_source ?c ns ?k source) t)"
    using assms c by (intro tick_inv_put) (auto simp: tm_key_for_point_def)
  then show ?thesis
    by (rule tick_inv_frame) (simp_all add: merge_step_put [OF False])
qed

lemma spread_loop_put:
  "spread_loop c ns source n s weight (Suc left) t =
     spread_loop c ns source n (Suc s) (weight * tmc_endpoint_spread_decay c) left
       (put_cell (tm_key_for_point c (point_along (oc_center_map source) n (Fin (real s) * tmc_cell_size_m c)))
         (\<lambda>cell. stamp_evidence c ns
            (tc_log_odds cell + oc_confidence source * weight * tmc_log_odds_occupied_increment c) cell) t)"
  by (simp add: put_cell_def Let_def)

lemma tick_inv_spread_loop:
  assumes "tick_inv P m0 t" and "\<And>k. key_in_range k \<Longrightarrow> P k (fresh_cell (tm_config m0) k)"
    and "\<And>k cell lo. P k cell \<Longrightarrow> P k (stamp_evidence c ns lo cell)"
  shows "tick_inv P m0 (spread_loop c ns source n s weight left t)"
  using assms(1)
proof (induction left arbitrary: s weight t)
  case 0
  then show ?case by simp
next
  case (Suc left)
  show ?case
    unfolding spread_loop_put
    by (rule Suc.IH, rule tick_inv_put [OF Suc.prems]) (auto intro: assms simp: tm_key_for_point_def)
qed

lemma tick_inv_spread_source:
  assumes "tick_inv P m0 t" and "\<And>k. key_in_range k \<Longrightarrow> P k (fresh_cell (tm_config m0) k)"
    and "\<And>k cell lo. P k cell \<Longrightarrow> P k (stamp_evidence (tm_config m0) ns lo cell)"
  shows "tick_inv P m0 (spread_source om ns ci t)"
proof -
  have "tm_config (tk_map t) = tm_config m0" using assms(1) by (simp add: tick_inv_def Let_def)
  with assms show ?thesis by (auto simp: spread_source_def Let_def intro!: tick_inv_spread_loop)
qed

lemma free_hit_put:
  "tm_cell_index (tk_map t) key \<noteq> None \<Longrightarrow>
     free_hit c ns conf key t = put_cell key (\<lambda>cell. stamp_evidence c ns
       (tc_log_odds cell - conf * tmc_log_odds_free_decrement c) cell) t"
  by (auto simp: free_hit_def put_cell_def ensure_cell_def Let_def)

lemma free_hit_frame [simp]:
  "tm_cell_index (tk_map (free_hit c ns conf key t)) = tm_cell_index (tk_map t)"
  "tm_config (tk_map (free_hit c ns conf key t)) = tm_config (tk_map t)"
  "length (tm_cells (tk_map (free_hit c ns conf key t))) = length (tm_cells (tk_map t))"
  "tk_new (free_hit c ns conf key t) = tk_new t"
  "tm_cross_check_cursor (tk_map (free_hit c ns conf key t)) = tm_cross_check_cursor (tk_map t)"
  by (simp_all add: free_hit_def touch_def Let_def split: option.split)

lemma tick_inv_free_hit:
  assumes "tick_inv P m0 t"
    and "\<And>k cell lo. P k cell \<Longrightarrow> P k (stamp_evidence c ns lo cell)"
  shows "tick_inv P m0 (free_hit c ns conf key t)"
proof (cases "tm_cell_index (tk_map t) key")
  case None
  with assms(1) show ?thesis by (simp add: free_hit_def)
next
  case (Some i)
  define f where "f = (\<lambda>cell. stamp_evidence c ns (tc_log_odds cell - conf * tmc_log_odds_free_decrement c) cell)"
  define m where "m = tk_map t"
  define m1 where "m1 = m\<lparr>tm_touched := set_insert key (tm_touched m)\<rparr>"
  have h: "tk_map (free_hit c ns conf key t) = modify_cell key f m1"
    "tk_touched (free_hit c ns conf key t) = set_insert key (tk_touched t)"
    using Some by (simp_all add: free_hit_def touch_def Let_def f_def m1_def m_def)
  have idx: "tm_idx_ok m1" using assms(1) by (simp add: tick_inv_def m1_def m_def Let_def)
  have cells: "cell_at_key (modify_cell key f m1) = (cell_at_key m)(key := map_option f (cell_at_key m key))"
    by (simp add: cell_at_modify [OF idx]) (simp add: m1_def)
  have "P k cell \<Longrightarrow> P k (f cell)" for k cell using assms(2) by (simp add: f_def)
  then have "\<forall>k cell. cell_at_key (modify_cell key f m1) k = Some cell \<longrightarrow> P k cell"
    unfolding cells using assms(1) by (auto simp: tick_inv_def m_def Let_def)
  then show ?thesis
    using assms(1) Some modify_cell_idx_ok [OF idx, of key f]
    unfolding tick_inv_def h Let_def cells by (auto simp: m1_def m_def)
qed

text \<open>The invariant rule of the ray march: what every free hit keeps, the whole march keeps.\<close>

lemma cast_ray_invariant:
  assumes ret: "cast_ray c ns conf origin n ek step len t s = Some s'" and I: "I s"
    and keep: "\<And>key s. I s \<Longrightarrow> I (free_hit c ns conf key s)"
  shows "I s'"
proof -
  have "(\<forall>key s. I s \<longrightarrow> I (free_hit c ns conf key s)) \<longrightarrow> I s \<longrightarrow> I s'"
  proof (rule cast_ray.raw_induct [where P =
        "\<lambda>c ns conf origin n ek step len t s s'.
           (\<forall>key s. I s \<longrightarrow> I (free_hit c ns conf key s)) \<longrightarrow> I s \<longrightarrow> I s'", OF _ ret])
    fix f c ns conf origin n ek step len t s s'
    assume IH: "\<And>c ns conf origin n ek step len t s s'.
        f c ns conf origin n ek step len t s = Some s' \<Longrightarrow>
        (\<forall>key s. I s \<longrightarrow> I (free_hit c ns conf key s)) \<longrightarrow> I s \<longrightarrow> I s'"
      and eq: "(if t < len
         then let key = tm_key_for_point c (point_along origin n t)
              in if key = ek then Some s
                 else f c ns conf origin n ek step len (t + step) (free_hit c ns conf key s)
         else Some s) = Some s'"
    show "(\<forall>key s. I s \<longrightarrow> I (free_hit c ns conf key s)) \<longrightarrow> I s \<longrightarrow> I s'"
      using eq IH by (auto simp: Let_def split: if_splits)
  qed
  with I keep show ?thesis by blast
qed

lemma cast_to_invariant:
  assumes "cast_to c ns conf origin endpoint s = Some s'" and "I s"
    and "\<And>key s. I s \<Longrightarrow> I (free_hit c ns conf key s)"
  shows "I s'"
  using assms(1) cast_ray_invariant [of c ns conf origin _ _ _ _ _ s s' I] assms(2,3)
  by (auto simp: cast_to_def Let_def split: if_splits)

lemma ofold_invariant:
  assumes "ofold f xs s = Some s'" and "I s" and "\<And>x s s'. I s \<Longrightarrow> f x s = Some s' \<Longrightarrow> I s'"
  shows "I s'"
  using assms(1,2)
proof (induction xs arbitrary: s)
  case Nil
  then show ?case by simp
next
  case (Cons x xs)
  then show ?case using assms(3) by (auto split: option.splits)
qed

lemma free_cast_source_invariant:
  assumes "free_cast_source om ns ci s = Some s'" and "I s"
    and "\<And>conf key s. I s \<Longrightarrow> I (free_hit (tm_config (tk_map s)) ns conf key s)"
    and "\<And>s. I s \<Longrightarrow> tm_config (tk_map s) = c0"
  shows "I s'"
proof -
  have "I s'" if "cast_to (tm_config (tk_map s)) ns conf origin endpoint s = Some s'" for conf origin endpoint
    using that assms(2)
  proof (rule cast_to_invariant)
    fix key t assume "I t"
    then show "I (free_hit (tm_config (tk_map s)) ns conf key t)"
      using assms(2-4) by (metis (no_types, lifting))
  qed
  with assms(1,2) show ?thesis by (auto simp: free_cast_source_def Let_def split: if_splits)
qed

lemma cross_check_invariant:
  assumes "cross_check ns origin k total_n checked scanned s = Some s'" and "I s"
    and "\<And>conf key s. I s \<Longrightarrow> I (free_hit (tm_config (tk_map s)) ns conf key s)"
    and "\<And>s i. I s \<Longrightarrow> I (s\<lparr>tk_map := (tk_map s)\<lparr>tm_cross_check_cursor := i\<rparr>\<rparr>)"
    and "\<And>s. I s \<Longrightarrow> tm_config (tk_map s) = c0"
  shows "I s'"
  using assms(1,2)
proof (induction "total_n - scanned" arbitrary: checked scanned s rule: less_induct)
  case less
  show ?case
  proof (cases "checked < k \<and> scanned < total_n")
    case False
    with less.prems show ?thesis by (simp add: cross_check.simps [of ns origin k total_n checked scanned s])
  next
    case True
    define m where "m = tk_map s"
    define s1 where "s1 = s\<lparr>tk_map := m\<lparr>tm_cross_check_cursor := next_cursor total_n (tm_cross_check_cursor m)\<rparr>\<rparr>"
    define cell where "cell = snd (tm_cells m ! tm_cross_check_cursor m)"
    have I1: "I s1" using assms(4) less.prems(2) by (simp add: s1_def m_def)
    have less': "total_n - Suc scanned < total_n - scanned" using True by linarith
    have eq: "(if tc_log_odds cell \<le> 0 then cross_check ns origin k total_n checked (Suc scanned) s1
       else (case cast_to (tm_config m) ns (tc_confidence cell) origin (tc_center_map cell) s1 of
           None \<Rightarrow> None
         | Some t' \<Rightarrow> cross_check ns origin k total_n (Suc checked) (Suc scanned) t')) = Some s'"
      using less.prems(1)
      unfolding cross_check.simps [of ns origin k total_n checked scanned s] Let_def if_P [OF True]
        s1_def m_def cell_def .
    show ?thesis
    proof (cases "tc_log_odds cell \<le> 0")
      case True
      with eq less.hyps [OF less' _ I1] show ?thesis by simp
    next
      case False
      with eq obtain t' where t': "cast_to (tm_config m) ns (tc_confidence cell) origin (tc_center_map cell) s1 = Some t'"
        and rest: "cross_check ns origin k total_n (Suc checked) (Suc scanned) t' = Some s'"
        by (auto split: option.splits)
      have "tm_config m = c0" using assms(5) less.prems(2) by (simp add: m_def)
      from t' I1 have "I t'"
        by (rule cast_to_invariant) (metis \<open>tm_config m = c0\<close> assms(3,5))
      from less.hyps [OF less' rest this] show ?thesis .
    qed
  qed
qed

text \<open>The predicate \<open>tick_inv P m0\<close> is kept by stages 2 and 2b.\<close>

lemma tick_inv_stage2:
  assumes "tick_inv P m0 t" and "stage2 om ns t = Some t'"
    and st: "\<And>k cell lo. P k cell \<Longrightarrow> P k (stamp_evidence (tm_config m0) ns lo cell)"
  shows "tick_inv P m0 t'"
proof -
  have cfg: "tick_inv P m0 s \<Longrightarrow> tm_config (tk_map s) = tm_config m0" for s
    by (simp add: tick_inv_def Let_def)
  have fh: "tick_inv P m0 s \<Longrightarrow> tick_inv P m0 (free_hit (tm_config (tk_map s)) ns conf key s)" for conf key s
    using tick_inv_free_hit [of P m0 s "tm_config m0" ns conf key] st cfg by simp
  have "tick_inv P m0 t'" if "ofold (free_cast_source om ns) (tk_new t) t = Some t'"
    using that assms(1)
    by (rule ofold_invariant) (rule free_cast_source_invariant [where I = "tick_inv P m0"], auto intro: fh cfg)
  with assms(1,2) show ?thesis by (auto simp: stage2_def split: if_splits)
qed

lemma tick_inv_stage2b:
  assumes "tick_inv P m0 t" and "stage2b om ns t = Some t'"
    and st: "\<And>k cell lo. P k cell \<Longrightarrow> P k (stamp_evidence (tm_config m0) ns lo cell)"
  shows "tick_inv P m0 t'"
proof -
  have cfg: "tick_inv P m0 s \<Longrightarrow> tm_config (tk_map s) = tm_config m0" for s
    by (simp add: tick_inv_def Let_def)
  have fh: "tick_inv P m0 s \<Longrightarrow> tick_inv P m0 (free_hit (tm_config (tk_map s)) ns conf key s)" for conf key s
    using tick_inv_free_hit [of P m0 s "tm_config m0" ns conf key] st cfg by simp
  have cur: "tick_inv P m0 s \<Longrightarrow> tick_inv P m0 (s\<lparr>tk_map := (tk_map s)\<lparr>tm_cross_check_cursor := i\<rparr>\<rparr>)" for s i
    by (rule tick_inv_frame [of P m0 s]) simp_all
  have "tick_inv P m0 t'" if "cross_check ns origin k total_n 0 0 s = Some t'" "tick_inv P m0 s" for origin k total_n s
    using that by (rule cross_check_invariant) (auto intro: fh cur cfg)
  note cc = this
  show ?thesis
  proof (cases "length (tm_cells (tk_map t)) \<le> tm_cross_check_cursor (tk_map t)")
    case True
    with assms(1,2) cc [OF _ cur [OF assms(1)]] show ?thesis
      by (simp add: stage2b_def Let_def split: if_splits)
  next
    case False
    with assms(1,2) cc [OF _ assms(1)] show ?thesis
      by (simp add: stage2b_def Let_def split: if_splits)
  qed
qed

lemma tick_inv_start:
  assumes "tm_idx_ok m" and "\<And>k cell. cell_at_key m k = Some cell \<Longrightarrow> P k cell"
  shows "tick_inv P m \<lparr>tk_map = tm_begin_update om m, tk_touched = [], tk_new = []\<rparr>"
  using assms cell_at_key_cong [of "tm_begin_update om m" m]
  by (simp add: tick_inv_def tm_begin_update_def Let_def)

lemma tick_inv_evidence:
  assumes "tm_idx_ok m" and "\<And>k cell. cell_at_key m k = Some cell \<Longrightarrow> P k cell"
    and "\<And>k. key_in_range k \<Longrightarrow> P k (fresh_cell (tm_config m) k)"
    and "\<And>k cell source. P k cell \<Longrightarrow> P k (merge_source (tm_config m) ns k source cell)"
    and "\<And>k cell lo. P k cell \<Longrightarrow> P k (stamp_evidence (tm_config m) ns lo cell)"
  shows "tick_inv P m (stage3 om ns (merge_loop om ns (tm_begin_update om m)))"
proof -
  have "tick_inv P m (merge_loop om ns (tm_begin_update om m))"
    unfolding merge_loop_def
    by (rule fold_invariant_step) (auto intro!: tick_inv_start tick_inv_merge_step simp: assms)
  then show ?thesis
    unfolding stage3_def Let_def
    by (auto intro!: fold_invariant_step [where P = "tick_inv P m"] tick_inv_spread_source simp: assms)
qed

end
