(* ===== verification/Traversability_Derived.thy ===== *)
theory Traversability_Derived
  imports Traversability_Invariant
begin

text \<open>
  Termination of an update of the traversability map, the recomputation of derived fields as
  a per-cell function, its independence of the iteration order, and the invariant between
  updates: the incrementally maintained set of occupied cells is exactly the set a full scan
  would compute.
\<close>

section \<open>Ray casting returns\<close>

lemma cast_ray_returns:
  assumes "0 < s"
  shows "\<exists>r. cast_ray c ns conf origin n ek (Fin s) (Fin l) (Fin x) t = Some r"
proof (induction "nat \<lceil>(l - x) / s\<rceil>" arbitrary: x t rule: less_induct)
  case less
  let ?key = "tm_key_for_point c (point_along origin n (Fin x))"
  show ?case
  proof (cases "x < l \<and> ?key \<noteq> ek")
    case True
    have "(l - (x + s)) / s = (l - x) / s - 1"
      using assms by (simp add: field_simps)
    moreover have "0 < (l - x) / s" using True assms by simp
    ultimately have "nat \<lceil>(l - (x + s)) / s\<rceil> < nat \<lceil>(l - x) / s\<rceil>"
      by linarith
    from less [OF this, of "free_hit c ns conf ?key t"] show ?thesis
      using True by (simp add: cast_ray.simps [of c ns conf origin n ek "Fin s" "Fin l" "Fin x" t] Let_def)
  next
    case False
    then show ?thesis
      by (auto simp: cast_ray.simps [of c ns conf origin n ek "Fin s" "Fin l" "Fin x" t] Let_def)
  qed
qed

lemma distance_Fin:
  "finite_point a \<Longrightarrow> finite_point b \<Longrightarrow> \<exists>d. distance a b = Fin d \<and> 0 \<le> d"
proof -
  assume "finite_point a" "finite_point b"
  then obtain x y z u v w where "a = vec3 (Fin x) (Fin y) (Fin z)" "b = vec3 (Fin u) (Fin v) (Fin w)"
    by (cases a; cases b) (auto simp: isfinite_iff)
  moreover have "\<not> (x - u) * (x - u) + (y - v) * (y - v) + (z - w) * (z - w) < 0"
    by (simp add: not_less)
  ultimately show ?thesis by (simp add: distance_def Let_def)
qed

definition grid_ok :: "TraversabilityConfig \<Rightarrow> bool" where
  "grid_ok c \<longleftrightarrow> isfinite (tmc_cell_size_m c) \<and> 0 < tmc_cell_size_m c \<and>
     isfinite (tmc_vertical_cell_size_m c) \<and> 0 < tmc_vertical_cell_size_m c"

lemma cast_to_returns:
  assumes "grid_ok c" "finite_point origin" "finite_point endpoint"
  shows "\<exists>r. cast_to c ns conf origin endpoint t = Some r"
proof -
  from assms(1) obtain x where "tmc_cell_size_m c = Fin x" "0 < x"
    by (cases "tmc_cell_size_m c") (auto simp: grid_ok_def)
  then obtain s where s: "half_cell c = Fin s" "0 < s"
    using that [of "x / 2"] by (simp add: half_cell_def)
  from distance_Fin [OF assms(3,2)] obtain d where "ray_dist origin endpoint = Fin d"
    by (auto simp: ray_dist_def)
  with s cast_ray_returns [OF s(2)] show ?thesis by (simp add: cast_to_def Let_def)
qed

lemma ofold_returns:
  assumes "I s" and "\<And>x s. I s \<Longrightarrow> \<exists>s'. f x s = Some s' \<and> I s'"
  shows "\<exists>s'. ofold f xs s = Some s' \<and> I s'"
  using assms(1)
proof (induction xs arbitrary: s)
  case Nil
  then show ?case by simp
next
  case (Cons x xs)
  from assms(2) [OF Cons.prems, of x] obtain s' where "f x s = Some s'" "I s'" by blast
  with Cons.IH [of s'] show ?case by simp
qed

lemma cross_check_returns:
  assumes "grid_ok c0" "finite_point origin" and "I s" and "scanned \<le> total_n"
    and "\<And>s. I s \<Longrightarrow> tm_config (tk_map s) = c0"
    and "\<And>s. I s \<Longrightarrow> total_n = length (tm_cells (tk_map s)) \<and> tm_cross_check_cursor (tk_map s) < total_n"
    and "\<And>s x. I s \<Longrightarrow> x \<in> set (tm_cells (tk_map s)) \<Longrightarrow> finite_point (tc_center_map (snd x))"
    and "\<And>conf key s. I s \<Longrightarrow> I (free_hit c0 ns conf key s)"
    and "\<And>s. I s \<Longrightarrow> I (s\<lparr>tk_map := (tk_map s)\<lparr>tm_cross_check_cursor :=
            next_cursor total_n (tm_cross_check_cursor (tk_map s))\<rparr>\<rparr>)"
  shows "\<exists>r. cross_check ns origin k total_n checked scanned s = Some r"
  using assms(3,4)
proof (induction "total_n - scanned" arbitrary: checked scanned s)
  case 0
  then have "\<not> scanned < total_n" by simp
  then show ?case by (subst cross_check.simps) simp
next
  case (Suc n)
  let ?m = "tk_map s"
  let ?s1 = "s\<lparr>tk_map := ?m\<lparr>tm_cross_check_cursor := next_cursor total_n (tm_cross_check_cursor ?m)\<rparr>\<rparr>"
  let ?cell = "snd (tm_cells ?m ! tm_cross_check_cursor ?m)"
  have I1: "I ?s1" using assms(9) Suc.prems(1) .
  have n: "n = total_n - Suc scanned" "Suc scanned \<le> total_n" using Suc.hyps(2) Suc.prems(2) by linarith+
  have "tm_cells ?m ! tm_cross_check_cursor ?m \<in> set (tm_cells ?m)"
    using assms(6) [OF Suc.prems(1)] by simp
  then have fin: "finite_point (tc_center_map ?cell)" by (rule assms(7) [OF Suc.prems(1)])
  obtain t' where t': "cast_to c0 ns (tc_confidence ?cell) origin (tc_center_map ?cell) ?s1 = Some t'"
    using cast_to_returns [OF assms(1,2) fin] by blast
  from t' I1 have I2: "I t'" by (rule cast_to_invariant) (rule assms(8))
  from Suc.hyps(1) [OF n(1) I1 n(2)] Suc.hyps(1) [OF n(1) I2 n(2)] t' show ?case
    using assms(5) [OF Suc.prems(1)]
    by (auto simp: cross_check.simps [of ns origin k total_n checked scanned s] Let_def)
qed

section \<open>Derived fields, cell by cell\<close>

text \<open>Rewriting the elements at a list of distinct positions.\<close>

definition update_each :: "('a \<Rightarrow> 'a) \<Rightarrow> nat list \<Rightarrow> 'a list \<Rightarrow> 'a list" where
  "update_each g inds xs = fold (\<lambda>i xs. xs[i := g (xs ! i)]) inds xs"

lemma update_each_simps [simp]:
  "update_each g [] xs = xs"
  "update_each g (i # inds) xs = update_each g inds (xs[i := g (xs ! i)])"
  by (simp_all add: update_each_def)

lemma length_update_each [simp]: "length (update_each g inds xs) = length xs"
  by (induction inds arbitrary: xs) simp_all

lemma nth_update_each:
  "distinct inds \<Longrightarrow> j < length xs \<Longrightarrow>
     update_each g inds xs ! j = (if j \<in> set inds then g (xs ! j) else xs ! j)"
proof (induction inds arbitrary: xs)
  case Nil
  then show ?case by simp
next
  case (Cons i inds)
  then show ?case by (cases "j = i") simp_all
qed

lemma pass1_frame [simp]:
  "tm_config (pass1 c ns i m) = tm_config m" "tm_cell_index (pass1 c ns i m) = tm_cell_index m"
  "tm_touched (pass1 c ns i m) = tm_touched m" "tm_summary (pass1 c ns i m) = tm_summary m"
  "tm_sweep_cursor (pass1 c ns i m) = tm_sweep_cursor m"
  by (simp_all add: pass1_def Let_def split_beta)

lemma pass2_frame [simp]:
  "tm_config (pass2 c b os i m) = tm_config m" "tm_cell_index (pass2 c b os i m) = tm_cell_index m"
  "tm_touched (pass2 c b os i m) = tm_touched m" "tm_summary (pass2 c b os i m) = tm_summary m"
  "tm_sweep_cursor (pass2 c b os i m) = tm_sweep_cursor m"
  "tm_occupied_indices (pass2 c b os i m) = tm_occupied_indices m"
  by (simp_all add: pass2_def Let_def split_beta)

lemma fold_pass1_frame [simp]:
  "tm_config (fold (pass1 c ns) inds m) = tm_config m"
  "tm_cell_index (fold (pass1 c ns) inds m) = tm_cell_index m"
  "tm_touched (fold (pass1 c ns) inds m) = tm_touched m"
  "tm_summary (fold (pass1 c ns) inds m) = tm_summary m"
  "tm_sweep_cursor (fold (pass1 c ns) inds m) = tm_sweep_cursor m"
  by (induction inds arbitrary: m) simp_all

lemma fold_pass2_frame [simp]:
  "tm_config (fold (pass2 c b os) inds m) = tm_config m"
  "tm_cell_index (fold (pass2 c b os) inds m) = tm_cell_index m"
  "tm_touched (fold (pass2 c b os) inds m) = tm_touched m"
  "tm_summary (fold (pass2 c b os) inds m) = tm_summary m"
  "tm_sweep_cursor (fold (pass2 c b os) inds m) = tm_sweep_cursor m"
  "tm_occupied_indices (fold (pass2 c b os) inds m) = tm_occupied_indices m"
  by (induction inds arbitrary: m) simp_all

lemma fold_pass1_cells:
  "tm_cells (fold (pass1 c ns) inds m) =
     update_each (\<lambda>x. (fst x, derive_cell c ns (snd x))) inds (tm_cells m)"
  by (induction inds arbitrary: m) (simp_all add: pass1_def Let_def split_beta)

lemma fold_pass2_cells:
  "tm_cells (fold (pass2 c b os) inds m) =
     update_each (\<lambda>x. (fst x, pass2_cell c b os (fst x) (snd x))) inds (tm_cells m)"
  by (induction inds arbitrary: m) (simp_all add: pass2_def Let_def split_beta)

lemma fold_pass1_occupied:
  assumes "distinct inds"
  shows "set (tm_occupied_indices (fold (pass1 c ns) inds m)) =
     (set (tm_occupied_indices m) - set inds) \<union>
     {i \<in> set inds. 1 \<le> occupied_strength c (derive_cell c ns (snd (tm_cells m ! i)))}"
    and "distinct (tm_occupied_indices m) \<Longrightarrow> distinct (tm_occupied_indices (fold (pass1 c ns) inds m))"
proof -
  have "set (tm_occupied_indices (fold (pass1 c ns) inds m)) =
     (set (tm_occupied_indices m) - set inds) \<union>
     {i \<in> set inds. 1 \<le> occupied_strength c (derive_cell c ns (snd (tm_cells m ! i)))} \<and>
     (distinct (tm_occupied_indices m) \<longrightarrow> distinct (tm_occupied_indices (fold (pass1 c ns) inds m)))"
    using assms
  proof (induction inds arbitrary: m)
    case Nil
    then show ?case by simp
  next
    case (Cons i inds)
    have cells: "tm_cells (pass1 c ns i m) ! j = tm_cells m ! j" if "j \<noteq> i" for j
      using that by (simp add: pass1_def Let_def split_beta)
    have *: "{j \<in> set inds. 1 \<le> occupied_strength c (derive_cell c ns (snd (tm_cells (pass1 c ns i m) ! j)))} =
      {j \<in> set inds. 1 \<le> occupied_strength c (derive_cell c ns (snd (tm_cells m ! j)))}"
      using Cons.prems cells by (intro Collect_cong) (metis distinct.simps(2))
    have occ: "set (tm_occupied_indices (pass1 c ns i m)) = (set (tm_occupied_indices m) - {i}) \<union>
       (if 1 \<le> occupied_strength c (derive_cell c ns (snd (tm_cells m ! i))) then {i} else {})"
      "distinct (tm_occupied_indices m) \<Longrightarrow> distinct (tm_occupied_indices (pass1 c ns i m))"
      by (auto simp: pass1_def Let_def split_beta distinct_removeAll)
    from Cons.IH [of "pass1 c ns i m"] Cons.prems occ show ?case
      unfolding * by auto
  qed
  then show "set (tm_occupied_indices (fold (pass1 c ns) inds m)) =
     (set (tm_occupied_indices m) - set inds) \<union>
     {i \<in> set inds. 1 \<le> occupied_strength c (derive_cell c ns (snd (tm_cells m ! i)))}"
    and "distinct (tm_occupied_indices m) \<Longrightarrow> distinct (tm_occupied_indices (fold (pass1 c ns) inds m))"
    by blast+
qed

text \<open>What the second pass leaves alone.\<close>

lemma clearance_step_frame [simp]:
  "tc_center_map (clearance_step c occ k other cell) = tc_center_map cell"
  "tc_log_odds (clearance_step c occ k other cell) = tc_log_odds cell"
  "tc_occupied_score (clearance_step c occ k other cell) = tc_occupied_score cell"
  "tc_confidence (clearance_step c occ k other cell) = tc_confidence cell"
  "tc_occupied_hits_capped (clearance_step c occ k other cell) = tc_occupied_hits_capped cell"
  "tc_free_rays_capped (clearance_step c occ k other cell) = tc_free_rays_capped cell"
  "tc_conflict_count_capped (clearance_step c occ k other cell) = tc_conflict_count_capped cell"
  "tc_refresh_count_capped (clearance_step c occ k other cell) = tc_refresh_count_capped cell"
  by (simp_all add: clearance_step_def Let_def split_beta)

lemma fold_clearance_frame [simp]:
  "tc_center_map (fold (clearance_step c occ k) os cell) = tc_center_map cell"
  "tc_log_odds (fold (clearance_step c occ k) os cell) = tc_log_odds cell"
  "tc_occupied_score (fold (clearance_step c occ k) os cell) = tc_occupied_score cell"
  "tc_confidence (fold (clearance_step c occ k) os cell) = tc_confidence cell"
  "tc_occupied_hits_capped (fold (clearance_step c occ k) os cell) = tc_occupied_hits_capped cell"
  "tc_free_rays_capped (fold (clearance_step c occ k) os cell) = tc_free_rays_capped cell"
  "tc_conflict_count_capped (fold (clearance_step c occ k) os cell) = tc_conflict_count_capped cell"
  "tc_refresh_count_capped (fold (clearance_step c occ k) os cell) = tc_refresh_count_capped cell"
  by (induction os arbitrary: cell) simp_all

lemma pass2_cell_frame [simp]:
  "tc_center_map (pass2_cell c b os k cell) = tc_center_map cell"
  "tc_log_odds (pass2_cell c b os k cell) = tc_log_odds cell"
  "tc_occupied_score (pass2_cell c b os k cell) = tc_occupied_score cell"
  "tc_confidence (pass2_cell c b os k cell) = tc_confidence cell"
  "tc_occupied_hits_capped (pass2_cell c b os k cell) = tc_occupied_hits_capped cell"
  "tc_free_rays_capped (pass2_cell c b os k cell) = tc_free_rays_capped cell"
  "tc_conflict_count_capped (pass2_cell c b os k cell) = tc_conflict_count_capped cell"
  "tc_refresh_count_capped (pass2_cell c b os k cell) = tc_refresh_count_capped cell"
  by (simp_all add: pass2_cell_def cost_cell_def clearance_cell_def Let_def)

lemma derive_cell_frame [simp]:
  "tc_center_map (derive_cell c ns cell) = tc_center_map cell"
  "tc_log_odds (derive_cell c ns cell) = tc_log_odds cell"
  "tc_confidence (derive_cell c ns cell) = tc_confidence cell"
  "tc_occupied_hits_capped (derive_cell c ns cell) = tc_occupied_hits_capped cell"
  "tc_free_rays_capped (derive_cell c ns cell) = tc_free_rays_capped cell"
  "tc_conflict_count_capped (derive_cell c ns cell) = tc_conflict_count_capped cell"
  "tc_refresh_count_capped (derive_cell c ns cell) = tc_refresh_count_capped cell"
  "tc_occupied_score (derive_cell c ns cell) =
     (if tmc_enable_log_odds c then sigmoid (tc_log_odds cell) else tc_occupied_score cell)"
  by (simp_all add: derive_cell_def Let_def)

lemma pass2_cell_cost: "0 \<le> tc_total_traversability_cost (pass2_cell c b os k cell) \<and>
    tc_total_traversability_cost (pass2_cell c b os k cell) \<le> 1"
  using clamp01_range by (simp add: pass2_cell_def cost_cell_def Let_def)

section \<open>The recompute set\<close>

lemma next_cursor_less: "cursor < total_n \<Longrightarrow> next_cursor total_n cursor < total_n"
  by (auto simp: next_cursor_def)

lemma sweep_loop_props:
  assumes "distinct inds" and "\<forall>i \<in> set inds. i < total_n" and "cursor < total_n"
  shows "distinct (fst (sweep_loop total_n left cursor inds)) \<and>
         (\<forall>i \<in> set (fst (sweep_loop total_n left cursor inds)). i < total_n) \<and>
         set inds \<subseteq> set (fst (sweep_loop total_n left cursor inds)) \<and>
         snd (sweep_loop total_n left cursor inds) < total_n"
  using assms
proof (induction left arbitrary: cursor inds)
  case 0
  then show ?case by simp
next
  case (Suc left)
  have 1: "distinct (set_insert cursor inds)" using Suc.prems by (simp add: set_insert_def)
  have 2: "\<forall>i \<in> set (set_insert cursor inds). i < total_n"
    using Suc.prems by (simp add: set_insert_def)
  have 3: "next_cursor total_n cursor < total_n" using Suc.prems by (simp add: next_cursor_less)
  have "set inds \<subseteq> set (set_insert cursor inds)" by (auto simp: set_insert_def)
  with Suc.IH [OF 1 2 3] show ?case by (simp del: set_set_insert) blast
qed

lemma recompute_indices_props:
  assumes "tm_idx_ok m"
  shows "distinct (fst (recompute_indices touched m))"
    and "i \<in> set (fst (recompute_indices touched m)) \<Longrightarrow> i < length (tm_cells m)"
    and "k \<in> set touched \<Longrightarrow> tm_cell_index m k = Some i \<Longrightarrow> i \<in> set (fst (recompute_indices touched m))"
proof -
  let ?base = "fold set_insert (List.map_filter (tm_cell_index m) touched) []"
  let ?total = "length (tm_cells m)"
  let ?cur = "if ?total \<le> tm_sweep_cursor m then 0 else tm_sweep_cursor m"
  have base: "distinct ?base"
    "\<And>k i. k \<in> set touched \<Longrightarrow> tm_cell_index m k = Some i \<Longrightarrow> i \<in> set ?base"
    by (auto simp: distinct_fold_set_insert set_fold_set_insert set_map_filter)
  have bound: "\<forall>i \<in> set ?base. i < ?total"
    using idx_okD [OF assms] by (simp add: set_fold_set_insert set_map_filter) blast
  have sw: "0 < ?total \<Longrightarrow> distinct (fst (sweep_loop ?total n ?cur ?base)) \<and>
      (\<forall>i \<in> set (fst (sweep_loop ?total n ?cur ?base)). i < ?total) \<and>
      set ?base \<subseteq> set (fst (sweep_loop ?total n ?cur ?base))" for n
    using sweep_loop_props [OF base(1) bound, of ?cur n] by auto
  show "distinct (fst (recompute_indices touched m))"
    using sw base by (simp add: recompute_indices_def Let_def)
  show "i \<in> set (fst (recompute_indices touched m)) \<Longrightarrow> i < length (tm_cells m)"
    using sw bound by (auto simp: recompute_indices_def Let_def split: if_splits)
  have "set ?base \<subseteq> set (fst (recompute_indices touched m))"
    using sw by (simp add: recompute_indices_def Let_def)
  then show "k \<in> set touched \<Longrightarrow> tm_cell_index m k = Some i \<Longrightarrow> i \<in> set (fst (recompute_indices touched m))"
    using base(2) [of k i] by blast
qed

text \<open>The recomputation as a function of each cell.\<close>

definition recompute_cell ::
    "TraversabilityConfig \<Rightarrow> u64 \<Rightarrow> bool \<Rightarrow> (CellKey \<times> Vec3) list \<Rightarrow> CellKey \<times> TraversabilityCell \<Rightarrow> CellKey \<times> TraversabilityCell" where
  "recompute_cell c ns b others x = (fst x, pass2_cell c b others (fst x) (derive_cell c ns (snd x)))"

lemma recompute_cell_simps [simp]:
  "fst (recompute_cell c ns b os x) = fst x"
  "tc_log_odds (snd (recompute_cell c ns b os x)) = tc_log_odds (snd x)"
  "tc_occupied_score (snd (recompute_cell c ns b os x)) = tc_occupied_score (derive_cell c ns (snd x))"
  by (simp_all add: recompute_cell_def)

definition recompute_others :: "u64 \<Rightarrow> bool \<Rightarrow> nat list \<Rightarrow> TraversabilityMap \<Rightarrow> (CellKey \<times> Vec3) list" where
  "recompute_others ns b inds m =
     (if b then occupied_cells (fold (pass1 (tm_config m) ns) inds m) else [])"

lemma recompute_passes_nth:
  assumes "distinct inds" and "j < length (tm_cells m)"
  shows "tm_cells (recompute_passes ns b inds m) ! j =
    (if j \<in> set inds then recompute_cell (tm_config m) ns b (recompute_others ns b inds m) (tm_cells m ! j)
     else tm_cells m ! j)"
  using assms
  by (simp add: recompute_passes_def Let_def fold_pass1_cells fold_pass2_cells nth_update_each
      recompute_cell_def recompute_others_def)

lemma recompute_passes_frame [simp]:
  "tm_config (recompute_passes ns b inds m) = tm_config m"
  "tm_cell_index (recompute_passes ns b inds m) = tm_cell_index m"
  "tm_touched (recompute_passes ns b inds m) = tm_touched m"
  "tm_summary (recompute_passes ns b inds m) = tm_summary m"
  "tm_occupied_indices (recompute_passes ns b inds m) =
     tm_occupied_indices (fold (pass1 (tm_config m) ns) inds m)"
  by (simp_all add: recompute_passes_def Let_def)

lemma length_recompute_passes [simp]:
  "length (tm_cells (recompute_passes ns b inds m)) = length (tm_cells m)"
  by (simp add: recompute_passes_def Let_def fold_pass1_cells fold_pass2_cells)

lemma recompute_passes_idx_ok:
  assumes "distinct inds" and "tm_idx_ok m"
  shows "tm_idx_ok (recompute_passes ns b inds m)"
  using assms unfolding idx_ok_def by (auto simp: recompute_passes_nth)

section \<open>The invariant between updates\<close>

definition tcell_ok :: "TraversabilityConfig \<Rightarrow> CellKey \<Rightarrow> TraversabilityCell \<Rightarrow> bool" where
  "tcell_ok c k cell \<longleftrightarrow>
     tc_center_map cell = tm_center_for_key c k \<and>
     \<not> tc_log_odds cell < - tmc_log_odds_max c \<and> \<not> tmc_log_odds_max c < tc_log_odds cell \<and>
     tc_occupied_hits_capped cell \<le> tmc_max_evidence_count c \<and>
     tc_free_rays_capped cell \<le> tmc_max_evidence_count c \<and>
     tc_conflict_count_capped cell \<le> tmc_max_evidence_count c \<and>
     tc_refresh_count_capped cell \<le> tmc_max_evidence_count c \<and>
     0 \<le> tc_confidence cell \<and> tc_confidence cell \<le> 1 \<and>
     0 \<le> tc_total_traversability_cost cell \<and> tc_total_traversability_cost cell \<le> 1"

text \<open>The derived data a full scan would give.\<close>

definition derived_ok :: "TraversabilityMap \<Rightarrow> bool" where
  "derived_ok m \<longleftrightarrow> distinct (tm_occupied_indices m) \<and>
     set (tm_occupied_indices m) =
       {i. i < length (tm_cells m) \<and> 1 \<le> occupied_strength (tm_config m) (snd (tm_cells m ! i))} \<and>
     (tmc_enable_log_odds (tm_config m) \<longrightarrow>
        (\<forall>x \<in> set (tm_cells m). tc_occupied_score (snd x) = sigmoid (tc_log_odds (snd x))))"

definition tm_ok :: "TraversabilityMap \<Rightarrow> bool" where
  "tm_ok m \<longleftrightarrow> tm_idx_ok m \<and> distinct (tm_touched m) \<and> set (tm_touched m) \<subseteq> dom (tm_cell_index m) \<and>
     (\<forall>k cell. cell_at_key m k = Some cell \<longrightarrow> tcell_ok (tm_config m) k cell) \<and> derived_ok m"

lemma symmetric_range: "0 \<le> (d::double) \<Longrightarrow> - d \<le> d"
  by (cases d) auto

lemma fresh_cell_ok: "0 \<le> tmc_log_odds_max c \<Longrightarrow> tcell_ok c k (fresh_cell c k)"
  by (cases "tmc_log_odds_max c") (auto simp: tcell_ok_def fresh_cell_def TraversabilityCell_default_def)

lemma stamp_evidence_ok:
  "0 \<le> tmc_log_odds_max c \<Longrightarrow> tcell_ok c k cell \<Longrightarrow> tcell_ok c k (stamp_evidence c ns lo cell)"
  using std_clamp_not_outside [OF symmetric_range, of "tmc_log_odds_max c" lo]
  by (simp add: tcell_ok_def stamp_evidence_def)

lemma merge_source_fields [simp]:
  "tc_center_map (merge_source c ns k source cell) = tm_center_for_key c k"
  "tc_log_odds (merge_source c ns k source cell) = (if tmc_enable_log_odds c
     then std_clamp (tc_log_odds cell + oc_confidence source * tmc_log_odds_occupied_increment c)
            (- tmc_log_odds_max c) (tmc_log_odds_max c) else tc_log_odds cell)"
  "tc_confidence (merge_source c ns k source cell) = clamp01 (std_max (tc_confidence cell) (oc_confidence source))"
  "tc_occupied_hits_capped (merge_source c ns k source cell) = capped_max_count
     (tc_occupied_hits_capped cell) (oc_positive_observation_count source) (tmc_max_evidence_count c)"
  "tc_free_rays_capped (merge_source c ns k source cell) = capped_max_count
     (tc_free_rays_capped cell) (oc_negative_observation_count source) (tmc_max_evidence_count c)"
  "tc_conflict_count_capped (merge_source c ns k source cell) = capped_max_count
     (tc_conflict_count_capped cell) (oc_same_update_duplicate_count source) (tmc_max_evidence_count c)"
  "tc_refresh_count_capped (merge_source c ns k source cell) =
     (if tc_refresh_count_capped cell < tmc_max_evidence_count c then tc_refresh_count_capped cell + 1
      else tc_refresh_count_capped cell)"
  "tc_total_traversability_cost (merge_source c ns k source cell) = tc_total_traversability_cost cell"
  by (simp_all add: merge_source_def Let_def)

lemma merge_source_ok:
  assumes "0 \<le> tmc_log_odds_max c" and "tcell_ok c k cell"
  shows "tcell_ok c k (merge_source c ns k source cell)"
  using assms std_clamp_not_outside [OF symmetric_range [OF assms(1)]] clamp01_range
  by (simp add: tcell_ok_def capped_max_count_def inc_le)

lemma recompute_cell_ok:
  "tcell_ok c k (snd x) \<Longrightarrow> tcell_ok c k (snd (recompute_cell c ns b os x))"
  using pass2_cell_cost by (simp add: tcell_ok_def recompute_cell_def)

lemma occupied_strength_cong:
  "tc_occupied_score a = tc_occupied_score b \<Longrightarrow> occupied_strength c a = occupied_strength c b"
  by (simp add: occupied_strength_def)

lemma cell_at_key_nth:
  "tm_idx_ok m \<Longrightarrow> i < length (tm_cells m) \<Longrightarrow> cell_at_key m (fst (tm_cells m ! i)) = Some (snd (tm_cells m ! i))"
  by (simp add: cell_at_key_def store_get_def idx_ok_nth)

text \<open>An untouched position holds the cell it held when the tick began.\<close>

lemma untouched_position:
  assumes inv: "tick_inv P m0 t" and ok0: "tm_idx_ok m0" and i: "i < length (tm_cells (tk_map t))"
    and un: "fst (tm_cells (tk_map t) ! i) \<notin> set (tk_touched t)"
  shows "i < length (tm_cells m0) \<and> tm_cells m0 ! i = tm_cells (tk_map t) ! i"
proof -
  let ?m = "tk_map t" and ?k = "fst (tm_cells (tk_map t) ! i)"
  have idx: "tm_idx_ok ?m" and le: "tm_cell_index m0 \<subseteq>\<^sub>m tm_cell_index ?m"
    using inv by (simp_all add: tick_inv_def Let_def)
  have "cell_at_key m0 ?k = Some (snd (tm_cells ?m ! i))"
    using cell_at_key_nth [OF idx i] tick_inv_untouched [OF inv un] by simp
  then obtain j where j: "tm_cell_index m0 ?k = Some j" "snd (tm_cells m0 ! j) = snd (tm_cells ?m ! i)"
    by (auto simp: cell_at_key_def store_get_def split: option.splits)
  have "tm_cell_index ?m ?k = Some j" using le j(1) by (metis domI map_le_def)
  moreover have "tm_cell_index ?m ?k = Some i" using idx_ok_nth [OF idx i] .
  ultimately have "j = i" by simp
  with j idx_okD [OF ok0 j(1)] show ?thesis by (auto intro: prod_eqI)
qed

lemma finish_derived_ok:
  assumes inv: "tick_inv P m0 t" and ok0: "tm_idx_ok m0" and d0: "derived_ok m0"
  defines "m \<equiv> tk_map t"
  assumes dis: "distinct inds" and bound: "\<And>i. i \<in> set inds \<Longrightarrow> i < length (tm_cells m)"
    and cover: "\<And>k i. k \<in> set (tk_touched t) \<Longrightarrow> tm_cell_index m k = Some i \<Longrightarrow> i \<in> set inds"
  shows "derived_ok (recompute_passes ns b inds m)"
proof -
  let ?m' = "recompute_passes ns b inds m" and ?c = "tm_config m"
  have idx: "tm_idx_ok m" and cfg: "?c = tm_config m0" and occ: "tm_occupied_indices m = tm_occupied_indices m0"
    using inv by (simp_all add: tick_inv_def m_def Let_def)
  have old: "i < length (tm_cells m0) \<and> tm_cells m0 ! i = tm_cells m ! i"
    if "i < length (tm_cells m)" "i \<notin> set inds" for i
  proof (rule untouched_position [OF inv ok0, folded m_def, OF that(1)])
    show "fst (tm_cells m ! i) \<notin> set (tk_touched t)"
      using that cover [OF _ idx_ok_nth [OF idx that(1)]] by blast
  qed
  have ext: "i < length (tm_cells m)" if "i < length (tm_cells m0)" for i
    using inv idx_ok_nth [OF ok0 that] idx_okD [OF idx]
    by (metis (no_types, lifting) domI m_def map_le_def tick_inv_def)
  have str: "occupied_strength ?c (snd (tm_cells ?m' ! i)) =
      (if i \<in> set inds then occupied_strength ?c (derive_cell ?c ns (snd (tm_cells m ! i)))
       else occupied_strength ?c (snd (tm_cells m ! i)))" if "i < length (tm_cells m)" for i
    using that by (simp add: recompute_passes_nth [OF dis] occupied_strength_def)
  have "set (tm_occupied_indices ?m') =
      {i. i < length (tm_cells ?m') \<and> 1 \<le> occupied_strength ?c (snd (tm_cells ?m' ! i))}"
  proof (rule set_eqI)
    fix i
    have m0: "i \<in> set (tm_occupied_indices m0) \<longleftrightarrow>
        i < length (tm_cells m0) \<and> 1 \<le> occupied_strength ?c (snd (tm_cells m0 ! i))"
      using d0 by (simp add: derived_ok_def cfg)
    show "i \<in> set (tm_occupied_indices ?m') \<longleftrightarrow>
        i \<in> {i. i < length (tm_cells ?m') \<and> 1 \<le> occupied_strength ?c (snd (tm_cells ?m' ! i))}"
    proof (cases "i \<in> set inds")
      case True
      then show ?thesis using bound [OF True] str [of i] by (simp add: fold_pass1_occupied [OF dis] dis)
    next
      case False
      then show ?thesis using m0 old [of i] ext [of i] str [of i]
        by (auto simp: fold_pass1_occupied [OF dis] dis occ)
    qed
  qed
  moreover have "distinct (tm_occupied_indices ?m')"
    using d0 fold_pass1_occupied(2) [OF dis] by (simp add: occ derived_ok_def)
  moreover have "tc_occupied_score (snd x) = sigmoid (tc_log_odds (snd x))"
    if "tmc_enable_log_odds ?c" and x: "x \<in> set (tm_cells ?m')" for x
  proof -
    from x dis obtain i where i: "i < length (tm_cells m)" "x = tm_cells ?m' ! i"
      by (auto simp: in_set_conv_nth)
    show ?thesis
    proof (cases "i \<in> set inds")
      case True
      then show ?thesis using that i by (simp add: recompute_passes_nth [OF dis])
    next
      case False
      then have "x = tm_cells m0 ! i" "i < length (tm_cells m0)"
        using i old [OF i(1)] by (simp_all add: recompute_passes_nth [OF dis])
      then have "x \<in> set (tm_cells m0)" by simp
      then show ?thesis using d0 that(1) cfg by (simp add: derived_ok_def)
    qed
  qed
  ultimately show ?thesis by (simp add: derived_ok_def dis)
qed

end
