(* ===== verification/Traversability_Properties.thy ===== *)
theory Traversability_Properties
  imports Traversability_Derived "HOL-Library.Multiset"
begin

text \<open>
  The properties of the traversability map: an update returns, the invariant holds in every
  reachable state, the result does not depend on the order in which the hash containers are
  iterated, and the delta stream loses no change.
\<close>

section \<open>One update\<close>

lemma tm_update_cases:
  assumes "tm_update om now b m = Some m'"
  obtains t2 t3 t4 n where
    "t2 = stage3 om (tm_timestamp_ns now) (merge_loop om (tm_timestamp_ns now) (tm_begin_update om m))"
    "stage2 om (tm_timestamp_ns now) t2 = Some t3"
    "stage2b om (tm_timestamp_ns now) t3 = Some t4"
    "m' = tm_finish_update now b n t4"
  using assms by (auto simp: tm_update_def Let_def split: option.splits)

lemma tm_update_tick:
  assumes "tm_update om now b m = Some m'" and "tm_idx_ok m"
    and "\<And>k cell. cell_at_key m k = Some cell \<Longrightarrow> P k cell"
    and "\<And>k. key_in_range k \<Longrightarrow> P k (fresh_cell (tm_config m) k)"
    and "\<And>k cell source. P k cell \<Longrightarrow> P k (merge_source (tm_config m) (tm_timestamp_ns now) k source cell)"
    and "\<And>k cell lo. P k cell \<Longrightarrow> P k (stamp_evidence (tm_config m) (tm_timestamp_ns now) lo cell)"
  obtains t n where "tick_inv P m t" "m' = tm_finish_update now b n t"
  using assms(1)
proof (rule tm_update_cases)
  fix t2 t3 t4 n
  assume t: "t2 = stage3 om (tm_timestamp_ns now) (merge_loop om (tm_timestamp_ns now) (tm_begin_update om m))"
    "stage2 om (tm_timestamp_ns now) t2 = Some t3" "stage2b om (tm_timestamp_ns now) t3 = Some t4"
    and m': "m' = tm_finish_update now b n t4"
  have "tick_inv P m t2" unfolding t(1) by (rule tick_inv_evidence) (use assms in auto)
  then have "tick_inv P m t3" using t(2) assms(6) by (rule tick_inv_stage2)
  then have "tick_inv P m t4" using t(3) assms(6) by (rule tick_inv_stage2b)
  then show thesis using m' that by blast
qed

lemma tm_refresh_summary_frame [simp]:
  "tm_cells (tm_refresh_summary m) = tm_cells m"
  "tm_cell_index (tm_refresh_summary m) = tm_cell_index m"
  "tm_config (tm_refresh_summary m) = tm_config m"
  "tm_touched (tm_refresh_summary m) = tm_touched m"
  "tm_occupied_indices (tm_refresh_summary m) = tm_occupied_indices m"
  by (simp_all add: tm_refresh_summary_def)

lemma tm_finish_frame:
  fixes t :: Tick and now :: TimePoint and b :: bool
  defines "inds \<equiv> fst (recompute_indices (tk_touched t) (tk_map t))"
  defines "m1 \<equiv> (tk_map t)\<lparr>tm_sweep_cursor := snd (recompute_indices (tk_touched t) (tk_map t))\<rparr>"
  defines "r \<equiv> recompute_passes (tm_timestamp_ns now) b inds m1"
  shows "tm_cells (tm_finish_update now b n t) = tm_cells r"
    "tm_cell_index (tm_finish_update now b n t) = tm_cell_index (tk_map t)"
    "tm_config (tm_finish_update now b n t) = tm_config (tk_map t)"
    "tm_touched (tm_finish_update now b n t) = tm_touched (tk_map t)"
    "tm_occupied_indices (tm_finish_update now b n t) = tm_occupied_indices r"
  by (simp_all add: tm_finish_update_def recompute_derived_fields_def Let_def split_beta
      inds_def m1_def r_def)

text \<open>The lookup after an update: a touched or swept cell is recomputed, no other changes.\<close>

lemma recompute_lookup:
  assumes "tm_idx_ok m" and "distinct inds"
  shows "cell_at_key (recompute_passes ns b inds m) k =
    (case tm_cell_index m k of None \<Rightarrow> None
     | Some i \<Rightarrow> Some (if i \<in> set inds
         then snd (recompute_cell (tm_config m) ns b (recompute_others ns b inds m) (tm_cells m ! i))
         else snd (tm_cells m ! i)))"
  using assms
  by (auto simp: cell_at_key_def store_get_def recompute_passes_nth dest: idx_okD split: option.split)

lemma cell_at_key_Some:
  "tm_idx_ok m \<Longrightarrow> tm_cell_index m k = Some i \<Longrightarrow> cell_at_key m k = Some (snd (tm_cells m ! i))"
  by (simp add: cell_at_key_def store_get_def)

lemma tm_finish_ok:
  assumes inv: "tick_inv (tcell_ok (tm_config m0)) m0 t" and ok: "tm_ok m0"
  shows "tm_ok (tm_finish_update now b n t)"
proof -
  define inds where "inds = fst (recompute_indices (tk_touched t) (tk_map t))"
  define cur where "cur = snd (recompute_indices (tk_touched t) (tk_map t))"
  define t' where "t' = t\<lparr>tk_map := (tk_map t)\<lparr>tm_sweep_cursor := cur\<rparr>\<rparr>"
  define r where "r = recompute_passes (tm_timestamp_ns now) b inds (tk_map t')"
  have inv': "tick_inv (tcell_ok (tm_config m0)) m0 t'"
    using inv by (rule tick_inv_frame) (simp_all add: t'_def)
  have i: "tm_idx_ok (tk_map t)" "tm_config (tk_map t) = tm_config m0"
    using inv by (simp_all add: tick_inv_def Let_def)
  note p = recompute_indices_props [where touched = "tk_touched t", OF i(1), folded inds_def]
  have fr: "tm_cells (tm_finish_update now b n t) = tm_cells r"
    "tm_cell_index (tm_finish_update now b n t) = tm_cell_index r"
    "tm_config (tm_finish_update now b n t) = tm_config r"
    "tm_touched (tm_finish_update now b n t) = tm_touched r"
    "tm_occupied_indices (tm_finish_update now b n t) = tm_occupied_indices r"
    by (simp_all add: tm_finish_frame r_def t'_def inds_def cur_def)
  have idx: "tm_idx_ok (tk_map t')" using i by (simp add: t'_def)
  have "derived_ok r"
    unfolding r_def
    using inv' ok by (rule_tac finish_derived_ok) (auto simp: tm_ok_def t'_def p)
  moreover have "tm_idx_ok r"
    unfolding r_def by (rule recompute_passes_idx_ok [OF p(1) idx])
  moreover have "tcell_ok (tm_config r) k cell" if "cell_at_key r k = Some cell" for k cell
  proof -
    have "\<And>k cell. cell_at_key (tk_map t') k = Some cell \<Longrightarrow> tcell_ok (tm_config m0) k cell"
      using inv' by (simp add: tick_inv_def Let_def)
    with that show ?thesis
      using i(2) idx
      by (auto simp: r_def t'_def recompute_lookup p(1) cell_at_key_Some recompute_cell_ok split: option.splits if_splits)
  qed
  moreover have "distinct (tm_touched r) \<and> set (tm_touched r) \<subseteq> dom (tm_cell_index r)"
  proof -
    have le: "dom (tm_cell_index m0) \<subseteq> dom (tm_cell_index (tk_map t'))"
      using inv' by (intro map_le_implies_dom_le) (simp add: tick_inv_def Let_def)
    have "set (tk_touched t') \<subseteq> dom (tm_cell_index (tk_map t'))"
      "set (tm_touched (tk_map t')) = set (tm_touched m0) \<union> set (tk_touched t')"
      "distinct (tm_touched (tk_map t'))" "set (tm_touched m0) \<subseteq> dom (tm_cell_index m0)"
      using inv' ok by (simp_all add: tick_inv_def tm_ok_def Let_def)
    with le show ?thesis by (simp add: r_def)
  qed
  ultimately show ?thesis
    using cell_at_key_cong [OF fr(1,2)] fr by (simp add: tm_ok_def derived_ok_def)
qed

lemma tm_update_ok:
  assumes "tm_ok m" and "0 \<le> tmc_log_odds_max (tm_config m)" and "tm_update om now b m = Some m'"
  shows "tm_ok m' \<and> tm_config m' = tm_config m"
proof -
  have "tm_idx_ok m" and cells: "\<And>k cell. cell_at_key m k = Some cell \<Longrightarrow> tcell_ok (tm_config m) k cell"
    using assms(1) by (simp_all add: tm_ok_def)
  obtain t n where t: "tick_inv (tcell_ok (tm_config m)) m t" "m' = tm_finish_update now b n t"
    by (rule tm_update_tick [where P = "tcell_ok (tm_config m)", OF assms(3) \<open>tm_idx_ok m\<close> cells])
      (auto intro: fresh_cell_ok merge_source_ok stamp_evidence_ok assms(2))
  with tm_finish_ok [OF t(1) assms(1)] show ?thesis
    by (simp add: tm_finish_frame tick_inv_def Let_def)
qed

section \<open>An update returns\<close>

definition centered :: "TraversabilityConfig \<Rightarrow> CellKey \<Rightarrow> TraversabilityCell \<Rightarrow> bool" where
  "centered c k cell \<longleftrightarrow> tc_center_map cell = tm_center_for_key c k"

lemma centered_keeps:
  "centered c k (fresh_cell c k)"
  "centered c k (merge_source c ns k source cell)"
  "centered c k cell \<Longrightarrow> centered c k (stamp_evidence c ns lo cell)"
  by (simp_all add: centered_def fresh_cell_def stamp_evidence_def)

lemma tm_center_finite: "grid_ok c \<Longrightarrow> finite_point (tm_center_for_key c k)"
  by (cases "tmc_cell_size_m c"; cases "tmc_vertical_cell_size_m c")
    (simp_all add: grid_ok_def tm_center_for_key_def grid_center_def)

lemma tick_centered_finite:
  assumes "tick_inv (centered c) m t" and "grid_ok c" and "x \<in> set (tm_cells (tk_map t))"
  shows "finite_point (tc_center_map (snd x))"
proof -
  have idx: "tm_idx_ok (tk_map t)" using assms(1) by (simp add: tick_inv_def Let_def)
  from assms(3) obtain i where i: "i < length (tm_cells (tk_map t))" "x = tm_cells (tk_map t) ! i"
    by (auto simp: in_set_conv_nth)
  have "centered c (fst x) (snd x)"
    using assms(1) cell_at_key_nth [OF idx i(1)] i(2) by (simp add: tick_inv_def Let_def)
  then show ?thesis using tm_center_finite [OF assms(2)] by (simp add: centered_def)
qed

lemma stage2_returns:
  assumes "grid_ok (tm_config (tk_map t))" and "omp_sensor_origin_valid om \<Longrightarrow> finite_point (omp_sensor_origin_map om)"
  shows "\<exists>t'. stage2 om ns t = Some t'"
proof (cases "omp_sensor_origin_valid om")
  case False
  then show ?thesis by (simp add: stage2_def)
next
  case True
  let ?I = "\<lambda>s. tm_config (tk_map s) = tm_config (tk_map t)"
  have "\<exists>s'. free_cast_source om ns ci s = Some s' \<and> ?I s'" if I: "?I s" for ci s
  proof (cases "oc_observed (omp_cells om ! ci) \<and> finite_point (oc_center_map (omp_cells om ! ci))")
    case False
    with I show ?thesis by (auto simp: free_cast_source_def Let_def)
  next
    case src: True
    then obtain s' where s': "free_cast_source om ns ci s = Some s'"
      using cast_to_returns [OF assms(1) assms(2) [OF True]] I
      by (fastforce simp: free_cast_source_def Let_def)
    then have "?I s'" using I by (rule free_cast_source_invariant [where I = ?I]) simp_all
    with s' show ?thesis by blast
  qed
  then have "\<exists>s'. ofold (free_cast_source om ns) (tk_new t) t = Some s' \<and> ?I s'"
    by (rule ofold_returns [of ?I t, OF refl])
  then show ?thesis by (auto simp: stage2_def)
qed

lemma stage2b_returns:
  assumes inv: "tick_inv (centered (tm_config m)) m t" and g: "grid_ok (tm_config m)"
    and o: "omp_sensor_origin_valid om \<Longrightarrow> finite_point (omp_sensor_origin_map om)"
  shows "\<exists>t'. stage2b om ns t = Some t'"
proof (cases "omp_sensor_origin_valid om \<and> tm_cells (tk_map t) \<noteq> []")
  case False
  then show ?thesis by (auto simp: stage2b_def Let_def)
next
  case True
  let ?n = "length (tm_cells (tk_map t))"
  define I where "I s \<longleftrightarrow> tick_inv (centered (tm_config m)) m s \<and> ?n = length (tm_cells (tk_map s)) \<and>
     tm_cross_check_cursor (tk_map s) < ?n" for s
  have cfg: "I s \<Longrightarrow> tm_config (tk_map s) = tm_config m" for s by (simp add: I_def tick_inv_def Let_def)
  have cur: "tick_inv (centered (tm_config m)) m (s\<lparr>tk_map := (tk_map s)\<lparr>tm_cross_check_cursor := i\<rparr>\<rparr>)"
    if "tick_inv (centered (tm_config m)) m s" for s i
    using that by (rule tick_inv_frame) simp_all
  have start: "I (if ?n \<le> tm_cross_check_cursor (tk_map t)
      then t\<lparr>tk_map := (tk_map t)\<lparr>tm_cross_check_cursor := 0\<rparr>\<rparr> else t)"
    using inv cur [OF inv] True by (simp add: I_def)
  have "\<exists>r. cross_check ns (omp_sensor_origin_map om) k ?n 0 0 s = Some r" if "I s" for s k
    using g o that
  proof (rule_tac cross_check_returns [where I = I and ?c0.0 = "tm_config m"])
    fix s conf key
    assume "I s"
    then show "I (free_hit (tm_config m) ns conf key s)"
      using tick_inv_free_hit [of "centered (tm_config m)" m s "tm_config m" ns conf key] centered_keeps(3)
      by (simp add: I_def)
  next
    fix s
    assume "I s"
    then show "I (s\<lparr>tk_map := (tk_map s)\<lparr>tm_cross_check_cursor :=
            next_cursor ?n (tm_cross_check_cursor (tk_map s))\<rparr>\<rparr>)"
      using cur next_cursor_less by (simp add: I_def)
  qed (use True cfg in \<open>auto simp: I_def intro: tick_centered_finite [OF _ g]\<close>)
  with start show ?thesis by (simp add: stage2b_def Let_def)
qed

lemma tm_update_returns_some:
  assumes "tm_ok m" and g: "grid_ok (tm_config m)"
    and o: "omp_sensor_origin_valid om \<Longrightarrow> finite_point (omp_sensor_origin_map om)"
  shows "\<exists>m'. tm_update om now b m = Some m'"
proof -
  define ns where "ns = tm_timestamp_ns now"
  define t2 where "t2 = stage3 om ns (merge_loop om ns (tm_begin_update om m))"
  let ?P = "centered (tm_config m)"
  have ok: "tm_idx_ok m" "\<And>k cell. cell_at_key m k = Some cell \<Longrightarrow> ?P k cell"
    using assms(1) by (simp_all add: tm_ok_def tcell_ok_def centered_def)
  have inv2: "tick_inv ?P m t2"
    unfolding t2_def using ok by (rule tick_inv_evidence) (auto intro: centered_keeps)
  moreover have "tm_config (tk_map t2) = tm_config m" using inv2 by (simp add: tick_inv_def Let_def)
  ultimately obtain t3 where t3: "stage2 om ns t2 = Some t3"
    using stage2_returns [of t2 om ns] g o by auto
  from inv2 t3 have "tick_inv ?P m t3" by (rule tick_inv_stage2) (rule centered_keeps)
  with g o obtain t4 where "stage2b om ns t3 = Some t4" using stage2b_returns [of m t3 om ns] by blast
  with t3 show ?thesis by (simp add: tm_update_def Let_def ns_def t2_def)
qed

section \<open>Reachable states\<close>

inductive tm_reachable :: "TraversabilityConfig \<Rightarrow> TraversabilityMap \<Rightarrow> bool" for c where
  tm_init: "tm_reachable c (TraversabilityMap_init c)"
| tm_upd: "tm_reachable c m \<Longrightarrow> tm_update om now b m = Some m' \<Longrightarrow> tm_reachable c m'"
| tm_drn: "tm_reachable c m \<Longrightarrow> tm_reachable c (snd (tm_drain_delta m))"
| tm_rst: "tm_reachable c m \<Longrightarrow> tm_reachable c (tm_reset m)"

lemma tm_ok_empty:
  "tm_cells m = [] \<Longrightarrow> tm_cell_index m = Map.empty \<Longrightarrow> tm_touched m = [] \<Longrightarrow> tm_occupied_indices m = [] \<Longrightarrow> tm_ok m"
  by (simp add: tm_ok_def derived_ok_def cell_at_key_def store_get_def)

lemma TraversabilityMap_init_max [simp]:
  "tmc_log_odds_max (tm_config (TraversabilityMap_init c)) = tmc_log_odds_max c"
  by (simp add: TraversabilityMap_init_def Let_def)

lemma tm_reachable_inv:
  assumes "tm_reachable c m" and "0 \<le> tmc_log_odds_max c"
  shows "tm_ok m \<and> tmc_log_odds_max (tm_config m) = tmc_log_odds_max c"
  using assms(1)
proof induction
  case tm_init
  then show ?case by (simp add: tm_ok_empty TraversabilityMap_init_def Let_def)
next
  case (tm_upd m om now b m')
  then show ?case using tm_update_ok [of m om now b m'] assms(2) by simp
next
  case (tm_drn m)
  then show ?case by (simp add: tm_drain_delta_def tm_ok_def derived_ok_def)
next
  case (tm_rst m)
  then show ?case by (simp add: tm_reset_def tm_ok_empty)
qed

section \<open>The order of iteration does not matter\<close>

text \<open>
  The code iterates hash sets in both passes, so the order of the recomputed positions and of
  the occupied cells is unspecified.  The clearances are minima, and a minimum that skips NaN
  does not depend on the order.
\<close>

lemma std_min_swap: "std_min (std_min a b) c = std_min (std_min a c) b"
  by (cases a; cases b; cases c) (auto simp: std_min_def)

lemma std_min_zero: "Fin 0 < a \<Longrightarrow> std_min (Fin 0) a = Fin 0" "a < Fin 0 \<Longrightarrow> std_min (Fin 0) (- a) = Fin 0"
  by (cases a; simp add: std_min_def)+

lemma double_less_asym: "(a::double) < b \<Longrightarrow> \<not> b < a"
  by (cases a; cases b) auto

definition near_after :: "TraversabilityConfig \<Rightarrow> Vec3 \<Rightarrow> CellKey \<times> Vec3 \<Rightarrow> double \<Rightarrow> double" where
  "near_after c p other x =
     (if distance p (snd other) \<le> tmc_clearance_search_radius_m c then std_min x (distance p (snd other)) else x)"

definition vertical_after :: "bool \<Rightarrow> bool \<Rightarrow> double \<Rightarrow> double \<Rightarrow> double" where
  "vertical_after occ up dz x =
     (if 0 < dz then (if up then std_min x dz else x)
      else if dz < 0 then (if up then x else std_min x (- dz))
      else if occ then 0 else x)"

definition column_after :: "bool \<Rightarrow> CellKey \<Rightarrow> CellKey \<Rightarrow> bool \<Rightarrow> double \<Rightarrow> double \<Rightarrow> double" where
  "column_after occ key okey up dz x =
     (if kx okey = kx key \<and> ky okey = ky key then vertical_after occ up dz x else x)"

lemma clearance_step_fields:
  "clearance_step c occ key other cell = cell
     \<lparr>tc_nearest_obstacle_distance_m := near_after c (tc_center_map cell) other (tc_nearest_obstacle_distance_m cell),
      tc_vertical_clearance_up_m := column_after occ key (fst other) True
        (vz (snd other) - vz (tc_center_map cell)) (tc_vertical_clearance_up_m cell),
      tc_vertical_clearance_down_m := column_after occ key (fst other) False
        (vz (snd other) - vz (tc_center_map cell)) (tc_vertical_clearance_down_m cell)\<rparr>"
  by (simp add: clearance_step_def near_after_def column_after_def vertical_after_def Let_def split_beta)

lemma near_after_commute: "near_after c p a (near_after c p b x) = near_after c p b (near_after c p a x)"
  by (simp add: near_after_def std_min_swap)

lemma vertical_after_commute:
  "vertical_after occ up d (vertical_after occ up e x) = vertical_after occ up e (vertical_after occ up d x)"
  by (cases up; simp add: vertical_after_def std_min_zero std_min_swap [of x])

lemma column_after_commute:
  "column_after occ k a up d (column_after occ k b up e x) = column_after occ k b up e (column_after occ k a up d x)"
  by (simp add: column_after_def vertical_after_commute)

lemma clearance_step_commute:
  "clearance_step c occ k a \<circ> clearance_step c occ k b = clearance_step c occ k b \<circ> clearance_step c occ k a"
  by (rule ext) (simp add: clearance_step_fields near_after_commute column_after_commute)

lemma fold_clearance_order:
  "mset xs = mset ys \<Longrightarrow> fold (clearance_step c occ k) xs = fold (clearance_step c occ k) ys"
  by (rule fold_multiset_equiv) (simp_all add: clearance_step_commute)

lemma pass2_cell_order:
  "mset xs = mset ys \<Longrightarrow> pass2_cell c b xs k cell = pass2_cell c b ys k cell"
  using fold_clearance_order [of xs ys] by (simp add: pass2_cell_def clearance_cell_def Let_def)

lemma recompute_passes_order:
  fixes ns :: u64 and b :: bool
  assumes dis: "distinct inds" "distinct inds'" "set inds' = set inds"
    and occ: "distinct (tm_occupied_indices m)" "distinct os" "set os = set (tm_occupied_indices m)"
  defines "r \<equiv> recompute_passes ns b inds m"
    and "r' \<equiv> recompute_passes ns b inds' (m\<lparr>tm_occupied_indices := os\<rparr>)"
  shows "tm_cells r' = tm_cells r \<and> mset (tm_occupied_indices r') = mset (tm_occupied_indices r)"
proof -
  let ?m = "m\<lparr>tm_occupied_indices := os\<rparr>" and ?c = "tm_config m"
  let ?p = "fold (pass1 ?c ns) inds m" and ?p' = "fold (pass1 ?c ns) inds' ?m"
  have ms: "mset (tm_occupied_indices ?p') = mset (tm_occupied_indices ?p)"
    using dis occ fold_pass1_occupied(2) [OF dis(1), of m ?c ns] fold_pass1_occupied(2) [OF dis(2), of ?m ?c ns]
    by (subst set_eq_iff_mset_eq_distinct [symmetric]) (simp_all add: fold_pass1_occupied(1))
  have cells: "tm_cells ?p' = tm_cells ?p"
    by (rule nth_equalityI) (simp_all add: fold_pass1_cells nth_update_each dis)
  have others: "mset (recompute_others ns b inds' ?m) = mset (recompute_others ns b inds m)"
    using ms cells by (simp add: recompute_others_def occupied_cells_def)
  have "tm_cells r' = tm_cells r"
    unfolding r_def r'_def
    by (rule nth_equalityI)
      (simp_all add: recompute_passes_nth dis recompute_cell_def pass2_cell_order [OF others])
  with ms show ?thesis by (simp add: r_def r'_def)
qed

section \<open>The delta stream\<close>

text \<open>The part of a cell that evidence determines: what the sweep never changes.\<close>

definition evidence_view :: "TraversabilityCell \<Rightarrow> Vec3 \<times> double \<times> double \<times> double \<times> u32" where
  "evidence_view cell = (tc_center_map cell, tc_log_odds cell, tc_occupied_score cell,
     tc_confidence cell, tc_occupied_hits_capped cell)"

definition tm_step :: "TraversabilityMap \<Rightarrow> TraversabilityMap \<Rightarrow> bool" where
  "tm_step m m' \<longleftrightarrow> (\<exists>om now b. tm_update om now b m = Some m')"

definition tm_stream_inv :: "TraversabilityMap \<Rightarrow> bool" where
  "tm_stream_inv m \<longleftrightarrow> tm_ok m \<and> 0 \<le> tmc_log_odds_max (tm_config m)"

lemma evidence_view_recompute:
  "(tmc_enable_log_odds c \<Longrightarrow> tc_occupied_score (snd x) = sigmoid (tc_log_odds (snd x))) \<Longrightarrow>
     evidence_view (snd (recompute_cell c ns b os x)) = evidence_view (snd x)"
  by (simp add: evidence_view_def recompute_cell_def)

lemma tm_step_frame:
  assumes ok: "tm_ok m" and step: "tm_update om now b m = Some m'"
  shows "set (tm_touched m) \<subseteq> set (tm_touched m')"
    and "k \<notin> set (tm_touched m') \<Longrightarrow>
      map_option evidence_view (cell_at_key m' k) = map_option evidence_view (cell_at_key m k)"
proof -
  obtain t n where t: "tick_inv (\<lambda>_ _. True) m t" "m' = tm_finish_update now b n t"
    using ok by (rule_tac tm_update_tick [where P = "\<lambda>_ _. True", OF step]) (auto simp: tm_ok_def)
  have i: "tm_idx_ok (tk_map t)" "tm_config (tk_map t) = tm_config m"
    "set (tm_touched m') = set (tm_touched m) \<union> set (tk_touched t)"
    using t by (simp_all add: tick_inv_def Let_def tm_finish_frame)
  then show "set (tm_touched m) \<subseteq> set (tm_touched m')" by blast
  define m1 where "m1 = (tk_map t)\<lparr>tm_sweep_cursor := snd (recompute_indices (tk_touched t) (tk_map t))\<rparr>"
  define inds where "inds = fst (recompute_indices (tk_touched t) (tk_map t))"
  have dis: "distinct inds" using recompute_indices_props(1) [OF i(1)] by (simp add: inds_def)
  have idx: "tm_idx_ok m1" using i(1) by (simp add: m1_def)
  have m': "cell_at_key m' k = cell_at_key (recompute_passes (tm_timestamp_ns now) b inds m1) k"
    using cell_at_key_cong [of m' "recompute_passes (tm_timestamp_ns now) b inds m1"]
    by (simp add: t(2) tm_finish_frame m1_def inds_def)
  assume "k \<notin> set (tm_touched m')"
  then have same: "cell_at_key m1 k = cell_at_key m k"
    using i(3) tick_inv_untouched [OF t(1), of k] by (simp add: m1_def)
  show "map_option evidence_view (cell_at_key m' k) = map_option evidence_view (cell_at_key m k)"
  proof (cases "tm_cell_index m1 k")
    case None
    then have "cell_at_key m1 k = None" by (simp add: cell_at_key_None)
    with None same show ?thesis unfolding m' by (simp add: recompute_lookup [OF idx dis])
  next
    case (Some j)
    have c: "cell_at_key m k = Some (snd (tm_cells m1 ! j))"
      using same cell_at_key_Some [OF idx Some] by simp
    then obtain l where "l < length (tm_cells m)" "snd (tm_cells m ! l) = snd (tm_cells m1 ! j)"
      using ok by (auto simp: cell_at_key_def store_get_def tm_ok_def dest: idx_okD split: option.splits)
    then have "tmc_enable_log_odds (tm_config m1) \<Longrightarrow>
        tc_occupied_score (snd (tm_cells m1 ! j)) = sigmoid (tc_log_odds (snd (tm_cells m1 ! j)))"
      using ok i(2) by (metis (no_types, lifting) derived_ok_def m1_def nth_mem tm_ok_def
          TraversabilityMap.simps TraversabilityMap.surjective)
    then show ?thesis
      unfolding m' using c Some by (simp add: recompute_lookup [OF idx dis] evidence_view_recompute)
  qed
qed

interpretation tm_delta: delta_stream tm_stream_inv cell_at_key tm_touched tm_step
  "\<lambda>m. tmp_cells (fst (tm_drain_delta m))" "\<lambda>m. snd (tm_drain_delta m)" evidence_view
  "\<lambda>c. tc_occupied_hits_capped c \<noteq> 0"
proof unfold_locales
  fix m m' :: TraversabilityMap and k
  assume inv: "tm_stream_inv m" and "tm_step m m'"
  then obtain om now b where u: "tm_update om now b m = Some m'" by (auto simp: tm_step_def)
  have ok: "tm_ok m" and mx: "0 \<le> tmc_log_odds_max (tm_config m)" using inv by (simp_all add: tm_stream_inv_def)
  show "tm_stream_inv m'" using tm_update_ok [OF ok mx u] mx by (simp add: tm_stream_inv_def)
  show "set (tm_touched m) \<subseteq> set (tm_touched m')" by (rule tm_step_frame(1) [OF ok u])
  show "k \<notin> set (tm_touched m') \<Longrightarrow>
      map_option evidence_view (cell_at_key m' k) = map_option evidence_view (cell_at_key m k)"
    by (rule tm_step_frame(2) [OF ok u])
next
  fix m :: TraversabilityMap
  assume "tm_stream_inv m"
  then show "tm_stream_inv (snd (tm_drain_delta m))"
    by (simp add: tm_stream_inv_def tm_ok_def derived_ok_def tm_drain_delta_def)
  show "set (tmp_cells (fst (tm_drain_delta m))) =
      {c. \<exists>k \<in> set (tm_touched m). cell_at_key m k = Some c \<and> tc_occupied_hits_capped c \<noteq> 0}"
    by (auto simp: tm_drain_delta_def set_map_filter)
qed (auto simp: evidence_view_def tm_drain_delta_def)

interpretation tm_grid: voxel_grid tm_key_for_point tm_center_for_key
  "\<lambda>c. \<exists>s v. tmc_cell_size_m c = Fin s \<and> 0 < s \<and> tmc_vertical_cell_size_m c = Fin v \<and> 0 < v"
  by unfold_locales
    (auto simp: tm_key_for_point_def tm_center_for_key_def intro: grid_key_center)

section \<open>A concrete update\<close>

definition one_hit_snapshot :: ObstacleMapSnapshot where
  "one_hit_snapshot = \<lparr>omp_config = ObstacleMapConfig_default, omp_summary = ObstacleMapSummary_default,
     omp_cells = [ObstacleCell_default\<lparr>oc_observed := True, oc_occupied := True, oc_occupied_score := 1,
                    oc_confidence := 1, oc_positive_observation_count := 1\<rparr>],
     omp_sensor_origin_map = vec3 0 0 (Fin 10), omp_sensor_origin_valid = True\<rparr>"

lemma init_default_ok: "tm_ok (TraversabilityMap_init TraversabilityConfig_default)"
  by (rule tm_ok_empty) (simp_all add: TraversabilityMap_init_def Let_def)

lemma init_default_config [simp]:
  "tm_config (TraversabilityMap_init TraversabilityConfig_default) = TraversabilityConfig_default"
  by (simp add: TraversabilityMap_init_def TraversabilityConfig_default_def Let_def)

lemma init_default_grid: "grid_ok (tm_config (TraversabilityMap_init TraversabilityConfig_default))"
  unfolding init_default_config by (simp add: grid_ok_def TraversabilityConfig_default_def)

lemma one_hit_origin: "finite_point (omp_sensor_origin_map one_hit_snapshot)"
  by (simp add: one_hit_snapshot_def)

abbreviation blind_snapshot :: ObstacleMapSnapshot where
  "blind_snapshot \<equiv> one_hit_snapshot\<lparr>omp_sensor_origin_valid := False\<rparr>"

lemma blind_stages:
  assumes "tm_update blind_snapshot now b m = Some m'"
  shows "\<exists>n. m' = tm_finish_update now b n
    (merge_loop blind_snapshot (tm_timestamp_ns now) (tm_begin_update blind_snapshot m))"
  using assms by (auto simp: tm_update_def Let_def stage3_def stage2_def stage2b_def split: option.splits)

lemma finish_lookup:
  assumes "tm_idx_ok (tk_map t)" and "cell_at_key (tk_map t) k = Some cell"
  shows "\<exists>cell'. cell_at_key (tm_finish_update now b n t) k = Some cell' \<and>
           tc_occupied_hits_capped cell' = tc_occupied_hits_capped cell"
proof -
  define m1 where "m1 = (tk_map t)\<lparr>tm_sweep_cursor := snd (recompute_indices (tk_touched t) (tk_map t))\<rparr>"
  define inds where "inds = fst (recompute_indices (tk_touched t) (tk_map t))"
  have "tm_idx_ok m1" "distinct inds"
    using assms(1) recompute_indices_props(1) [OF assms(1)] by (simp_all add: m1_def inds_def)
  moreover from assms(2) obtain i where "tm_cell_index m1 k = Some i" "snd (tm_cells m1 ! i) = cell"
    by (auto simp: cell_at_key_def store_get_def m1_def split: option.splits)
  moreover have "cell_at_key (tm_finish_update now b n t) = cell_at_key (recompute_passes (tm_timestamp_ns now) b inds m1)"
    by (rule cell_at_key_cong) (simp_all add: tm_finish_frame m1_def inds_def)
  ultimately show ?thesis by (simp add: recompute_lookup recompute_cell_def)
qed

lemma one_hit_cell:
  assumes "tm_update blind_snapshot now b (TraversabilityMap_init TraversabilityConfig_default) = Some m'"
  shows "\<exists>k cell. cell_at_key m' k = Some cell \<and> tc_occupied_hits_capped cell \<noteq> 0"
proof -
  let ?m = "TraversabilityMap_init TraversabilityConfig_default"
  define m0 where "m0 = tm_begin_update blind_snapshot ?m"
  define t where "t = merge_loop blind_snapshot (tm_timestamp_ns now) m0"
  from blind_stages [OF assms] obtain n where m': "m' = tm_finish_update now b n t"
    by (auto simp: t_def m0_def)
  define src where "src = hd (omp_cells one_hit_snapshot)"
  let ?t0 = "\<lparr>tk_map = m0, tk_touched = [], tk_new = []\<rparr>"
  have t: "t = merge_step blind_snapshot (tm_timestamp_ns now) (0, src) ?t0"
    by (simp add: t_def merge_loop_def one_hit_snapshot_def src_def)
  have m0: "tm_cells m0 = []" "tm_cell_index m0 = Map.empty" "tm_config m0 = TraversabilityConfig_default"
    using init_default_config by (simp_all add: m0_def tm_begin_update_def TraversabilityMap_init_def Let_def)
  have go: "\<not> source_skipped blind_snapshot (tm_summary (tk_map ?t0)) src"
    by (simp add: source_skipped_def src_def one_hit_snapshot_def ObstacleCell_default_def
        ObstacleMapSummary_default_def frame_empty_def)
  define k where "k = tm_key_for_point (tm_config m0) (oc_center_map src)"
  define f where "f = merge_source (tm_config m0) (tm_timestamp_ns now) k src"
  note step = merge_step_put [OF go, of "tm_timestamp_ns now" 0, folded t, simplified, folded k_def, folded f_def]
  have idx: "tm_idx_ok (ensure_cell k m0)" by (rule ensure_cell_idx_ok) (simp add: m0)
  have "tk_map (put_cell k f ?t0) = modify_cell k f ((ensure_cell k m0)\<lparr>tm_touched := set_insert k (tm_touched m0)\<rparr>)"
    by (simp add: put_cell_def touch_def Let_def)
  then have "cell_at_key (tk_map t) k = Some (f (fresh_cell (tm_config m0) k)) \<and> tm_idx_ok (tk_map t)"
    using idx cell_at_key_cong [OF step(1,2)] step(1,2) m0
      modify_cell_idx_ok [of "(ensure_cell k m0)\<lparr>tm_touched := set_insert k (tm_touched m0)\<rparr>" k f]
    by (simp add: cell_at_modify cell_at_ensure cell_at_key_None)
      (simp add: cell_at_key_def store_get_def)
  moreover have "tc_occupied_hits_capped (f (fresh_cell (tm_config m0) k)) \<noteq> 0"
    by (simp add: f_def capped_max_count_def fresh_cell_def TraversabilityCell_default_def m0(3)
        TraversabilityConfig_default_def src_def one_hit_snapshot_def)
  ultimately show ?thesis using finish_lookup [of t k] unfolding m' by metis
qed

section \<open>Properties\<close>

text \<open>
  C21: in every reachable state of the traversability map the key index and the cell vector
  agree, log-odds never leave the symmetric clamp, evidence counters never exceed their cap,
  confidences and costs are in \<open>[0,1]\<close>, with log-odds enabled every cell's score is the
  sigmoid of its log-odds, and the incrementally maintained set of occupied positions is
  exactly what a full scan would compute.
\<close>

theorem tm_reachable_ok:
  assumes "tm_reachable c m" and "0 \<le> tmc_log_odds_max c"
  shows "tm_ok m"
  using tm_reachable_inv [OF assms] by simp

theorem tm_reachable_ok_witness:
  "\<exists>m'. tm_update one_hit_snapshot \<lparr>timestamp_ns = 5\<rparr> True (TraversabilityMap_init TraversabilityConfig_default) = Some m' \<and> tm_ok m'"
proof -
  let ?m = "TraversabilityMap_init TraversabilityConfig_default"
  obtain m' where m': "tm_update one_hit_snapshot \<lparr>timestamp_ns = 5\<rparr> True ?m = Some m'"
    using tm_update_returns_some [OF init_default_ok init_default_grid] one_hit_origin by blast
  have "tm_reachable TraversabilityConfig_default m'"
    by (rule tm_reachable.tm_upd [OF tm_reachable.tm_init m'])
  then have "tm_ok m'" by (rule tm_reachable_ok) (simp add: TraversabilityConfig_default_def)
  with m' show ?thesis by blast
qed

text \<open>
  In exact arithmetic an update returns, for every snapshot whose sensor origin, when valid, is finite: the ray
  casts of stages 2 and 2b all reach their end.  It says nothing of coordinates so large that the code's squared
  distance overflows.
\<close>

lemma tm_update_returns:
  assumes "tm_ok m" and "grid_ok (tm_config m)"
    and "omp_sensor_origin_valid om \<longrightarrow> finite_point (omp_sensor_origin_map om)"
  shows "\<exists>m'. tm_update om now b m = Some m'"
  using assms tm_update_returns_some by blast

lemma tm_update_returns_witness:
  "\<exists>m'. tm_update one_hit_snapshot \<lparr>timestamp_ns = 5\<rparr> True (TraversabilityMap_init TraversabilityConfig_default) = Some m'"
  by (rule tm_update_returns [OF init_default_ok init_default_grid]) (simp add: one_hit_origin)

text \<open>
  the result of recomputing the derived fields does not depend on the order in which the
  hash sets of recomputed positions and of occupied positions are iterated.
\<close>

lemma tm_recompute_order_irrelevant:
  assumes "distinct inds" "distinct inds'" "set inds' = set inds"
    and "distinct (tm_occupied_indices m)" "distinct os" "set os = set (tm_occupied_indices m)"
  shows "tm_cells (recompute_passes ns b inds' (m\<lparr>tm_occupied_indices := os\<rparr>)) = tm_cells (recompute_passes ns b inds m) \<and>
    mset (tm_occupied_indices (recompute_passes ns b inds' (m\<lparr>tm_occupied_indices := os\<rparr>))) =
    mset (tm_occupied_indices (recompute_passes ns b inds m))"
  using recompute_passes_order [OF assms] .

lemma tm_recompute_order_irrelevant_witness:
  "let c = TraversabilityConfig_default; k = cell_key 0 0 0; l = cell_key 0 0 1;
       m = (TraversabilityMap_init c)\<lparr>tm_cells := [(k, fresh_cell c k), (l, fresh_cell c l)], tm_occupied_indices := [0, 1]\<rparr>
   in tm_cells (recompute_passes 7 True [1, 0] (m\<lparr>tm_occupied_indices := [1, 0]\<rparr>)) = tm_cells (recompute_passes 7 True [0, 1] m)"
  unfolding Let_def by (rule conjunct1 [OF tm_recompute_order_irrelevant]) auto

text \<open>
  no change of evidence is lost by the delta stream of the traversability map: after any
  run of updates since a drain, a cell with an occupied hit whose log-odds, score, confidence
  or hit count differ from what they were at that drain is in the next delta.
\<close>

lemma tm_no_change_lost:
  assumes "tm_ok m" and "0 \<le> tmc_log_odds_max (tm_config m)"
    and "tm_step\<^sup>*\<^sup>* (snd (tm_drain_delta m)) m'"
    and "cell_at_key m' k = Some cell" and "tc_occupied_hits_capped cell \<noteq> 0"
    and "map_option evidence_view (cell_at_key m k) \<noteq> Some (evidence_view cell)"
  shows "cell \<in> set (tmp_cells (fst (tm_drain_delta m')))"
  using assms tm_delta.no_change_lost [of m m' k cell] by (simp add: tm_stream_inv_def)

lemma tm_no_change_lost_witness:
  "\<exists>m' cell. tm_update blind_snapshot \<lparr>timestamp_ns = 5\<rparr> True (TraversabilityMap_init TraversabilityConfig_default) = Some m' \<and>
     cell \<in> set (tmp_cells (fst (tm_drain_delta m')))"
proof -
  let ?m = "TraversabilityMap_init TraversabilityConfig_default"
  obtain m' where m': "tm_update blind_snapshot \<lparr>timestamp_ns = 5\<rparr> True ?m = Some m'"
    using tm_update_returns_some [OF init_default_ok init_default_grid, of blind_snapshot] by auto
  obtain k cell where cell: "cell_at_key m' k = Some cell" "tc_occupied_hits_capped cell \<noteq> 0"
    using one_hit_cell [OF m'] by blast
  have "cell_at_key ?m k = None" by (simp add: cell_at_key_None TraversabilityMap_init_def Let_def)
  moreover have "snd (tm_drain_delta ?m) = ?m"
    by (simp add: tm_drain_delta_def TraversabilityMap_init_def Let_def)
  moreover have "tm_step\<^sup>*\<^sup>* ?m m'" using m' by (intro r_into_rtranclp) (auto simp: tm_step_def)
  ultimately have "cell \<in> set (tmp_cells (fst (tm_drain_delta m')))"
    using tm_no_change_lost [OF init_default_ok _ _ cell] by (simp add: TraversabilityConfig_default_def)
  with m' show ?thesis by blast
qed

text \<open>
  a query of the cell's own grid position: the centre of a cell is quantised to the key the
  cell is stored under, so a query at the centre of a stored cell answers with that cell.
\<close>

lemma query_sphere_finds_cell:
  assumes "tm_ok m" and "grid_ok (tm_config m)" and "key_in_range k" and "cell_at_key m k = Some cell"
    and "0 \<le> radius"
  shows "tq_total_cost (query_sphere m (tc_center_map cell) radius) = tc_total_traversability_cost cell \<and>
         (tq_known (query_sphere m (tc_center_map cell) radius) \<longleftrightarrow> tc_state cell \<noteq> TUnknown)"
proof -
  have ctr: "tc_center_map cell = tm_center_for_key (tm_config m) k"
    using assms(1,4) by (simp add: tm_ok_def tcell_ok_def)
  have g: "\<exists>s v. tmc_cell_size_m (tm_config m) = Fin s \<and> 0 < s \<and> tmc_vertical_cell_size_m (tm_config m) = Fin v \<and> 0 < v"
    using assms(2)
    by (cases "tmc_cell_size_m (tm_config m)"; cases "tmc_vertical_cell_size_m (tm_config m)") (auto simp: grid_ok_def)
  have "tm_key_for_point (tm_config m) (tc_center_map cell) = k"
    using tm_grid.key_center [OF g assms(3)] by (simp add: ctr)
  moreover have "finite_point (tc_center_map cell)" by (simp add: ctr tm_center_finite [OF assms(2)])
  ultimately show ?thesis using assms(4,5) by (simp add: query_sphere_def Let_def)
qed

lemma query_sphere_finds_cell_witness:
  "let c = TraversabilityConfig_default\<lparr>tmc_enable_log_odds := False\<rparr>; k = cell_key 1 2 3;
       m = (TraversabilityMap_init c)\<lparr>tm_cells := [(k, fresh_cell c k)], tm_cell_index := [k \<mapsto> 0]\<rparr>
   in tq_total_cost (query_sphere m (tc_center_map (fresh_cell c k)) 1) = tc_total_traversability_cost (fresh_cell c k)"
proof -
  let ?c = "TraversabilityConfig_default\<lparr>tmc_enable_log_odds := False\<rparr>" and ?k = "cell_key 1 2 3"
  let ?m = "(TraversabilityMap_init ?c)\<lparr>tm_cells := [(?k, fresh_cell ?c ?k)], tm_cell_index := [?k \<mapsto> 0]\<rparr>"
  have cfg: "tm_config ?m = ?c" by (simp add: TraversabilityMap_init_def TraversabilityConfig_default_def Let_def)
  have "cell_at_key ?m ?k = Some (fresh_cell ?c ?k)" by (simp add: cell_at_key_def store_get_def)
  moreover have "tm_ok ?m"
  proof -
    have "tcell_ok ?c ?k (fresh_cell ?c ?k)"
      by (rule fresh_cell_ok) (simp add: TraversabilityConfig_default_def)
    moreover have "\<not> 1 \<le> occupied_strength ?c (fresh_cell ?c ?k)"
      by (simp add: occupied_strength_def normalize_score_def fresh_cell_def TraversabilityCell_default_def
          TraversabilityConfig_default_def clamp01_def dbl_simps)
    moreover have "tm_occupied_indices ?m = []" "tm_touched ?m = []"
      by (simp_all add: TraversabilityMap_init_def Let_def)
    moreover have "tm_idx_ok ?m" by (auto simp: idx_ok_def)
    moreover have "\<not> tmc_enable_log_odds ?c" by simp
    ultimately show ?thesis
      unfolding tm_ok_def derived_ok_def cfg by (simp add: cell_at_key_def store_get_def nth_Cons')
  qed
  moreover have "grid_ok (tm_config ?m)" unfolding cfg by (simp add: grid_ok_def TraversabilityConfig_default_def)
  moreover have "key_in_range ?k" by (simp add: key_in_range_def in_int_range_def int_min_def int_max_def)
  ultimately show ?thesis using query_sphere_finds_cell [of ?m ?k "fresh_cell ?c ?k" 1] by (simp add: Let_def)
qed

text \<open>
  the occupancy state of a recomputed cell with the default thresholds follows the sign of
  its log-odds, except that log-odds of exactly zero already count as occupied.
\<close>

lemma derive_cell_state_by_log_odds:
  assumes "tmc_enable_log_odds c" and "tmc_occupied_threshold c = Fin (1/2)" and "tmc_stale_after_seconds c \<le> 0"
    and "tc_log_odds cell = Fin lo"
  shows "tc_state (derive_cell c ns cell) = (if 0 \<le> lo then TOccupied else ObservedFree)"
proof -
  have ns: "\<not> 0 < tmc_stale_after_seconds c" using assms(3) by (cases "tmc_stale_after_seconds c") auto
  let ?cell = "cell\<lparr>tc_occupied_score := sigmoid (tc_log_odds cell)\<rparr>"
  have "1 \<le> occupied_strength c ?cell \<longleftrightarrow> 0 \<le> lo"
    using assms(2,4) sigmoid_ge_half [of "Fin lo"] sigmoid_Fin [of lo]
    by (auto simp: occupied_strength_def normalize_score_def clamp01_def dbl_simps)
  then show ?thesis
    using assms(1,4) ns by (simp add: derive_cell_def Let_def)
qed

lemma derive_cell_state_by_log_odds_witness:
  "tc_state (derive_cell (TraversabilityConfig_default\<lparr>tmc_stale_after_seconds := 0\<rparr>) 9
      (TraversabilityCell_default\<lparr>tc_log_odds := 0\<rparr>)) = TOccupied"
  using derive_cell_state_by_log_odds [of "TraversabilityConfig_default\<lparr>tmc_stale_after_seconds := 0\<rparr>"
      "TraversabilityCell_default\<lparr>tc_log_odds := 0\<rparr>" 0 9]
  by (simp add: TraversabilityConfig_default_def)

text \<open>
  merging a source cell of the raw obstacle map raises the log-odds of the voxel whatever the
  source says: a source cell seen only as free (its occupied score and positive count zero) turns a
  new voxel's log-odds positive exactly like an occupied one.
\<close>

lemma free_source_raises_log_odds:
  assumes "tmc_enable_log_odds c" and "tmc_log_odds_occupied_increment c = Fin inc" "0 < inc"
    and "tmc_log_odds_max c = Fin mx" "0 < mx"
    and "oc_confidence source = Fin conf" "0 < conf"
    and "oc_free source" "oc_occupied_score source = 0" "oc_positive_observation_count source = 0"
  shows "0 < tc_log_odds (merge_source c ns k source (fresh_cell c k))"
proof -
  have "0 < conf * inc" using assms by simp
  moreover from this assms(5) have "\<not> conf * inc < - mx" by linarith
  ultimately show ?thesis
    using assms by (simp add: fresh_cell_def TraversabilityCell_default_def std_clamp_def)
qed

lemma free_source_raises_log_odds_witness:
  "0 < tc_log_odds (merge_source TraversabilityConfig_default 5 (cell_key 0 0 0)
      (ObstacleCell_default\<lparr>oc_confidence := 1, oc_free := True, oc_free_score := 1, oc_observed := True\<rparr>)
      (fresh_cell TraversabilityConfig_default (cell_key 0 0 0)))"
  by (rule free_source_raises_log_odds [where inc = "8473/10000" and mx = 4 and conf = 1])
    (simp_all add: TraversabilityConfig_default_def ObstacleCell_default_def dbl_simps)

end
