(* ===== verification/Map_Assimilator.thy ===== *)
theory Map_Assimilator
  imports Traversability_Properties
begin

text \<open>
  The mission map assimilator (\<open>avoidance/mission_map_assimilator\<close>): a bounded FIFO of raw
  obstacle-map snapshots between the frame loop, which enqueues, and the traversability map,
  which one background tick, or a flush after landing, updates from the queue.

  \<open>map_consumer\<close> states what the assimilator needs of the map behind the queue.  The theorems
  show that no snapshot is unaccounted for, that the queued snapshots are applied in arrival
  order, and when the flush after landing completes.  A C++ \<open>std::size_t\<close> counter is a
  natural number here.
\<close>

section \<open>The model\<close>

datatype AssimilationState =
  AsIdle | BackgroundAssimilating | PostLandingFinalizing | AsFinalized | AsPartial

record AssimilatorConfig =
  asc_traversability_config :: TraversabilityConfig
  asc_max_pending_snapshots :: nat
  asc_max_snapshots_per_background_tick :: nat
  asc_max_snapshots_per_high_priority_tick :: nat
  asc_max_post_landing_flush_ticks :: nat

definition AssimilatorConfig_default :: AssimilatorConfig where
  "AssimilatorConfig_default =
    \<lparr>asc_traversability_config = TraversabilityConfig_default, asc_max_pending_snapshots = 16,
     asc_max_snapshots_per_background_tick = 1, asc_max_snapshots_per_high_priority_tick = 8,
     asc_max_post_landing_flush_ticks = 64\<rparr>"

record AssimilationStatus =
  as_state :: AssimilationState
  as_pending_snapshot_count :: nat
  as_drained_snapshot_count :: nat
  as_dropped_snapshot_count :: nat
  as_compacted_generation :: u64
  as_last_update_timestamp_ns :: u64
  as_can_forget_raw_evidence :: bool

definition AssimilationStatus_default :: AssimilationStatus where
  "AssimilationStatus_default =
    \<lparr>as_state = AsIdle, as_pending_snapshot_count = 0, as_drained_snapshot_count = 0,
     as_dropped_snapshot_count = 0, as_compacted_generation = 0, as_last_update_timestamp_ns = 0,
     as_can_forget_raw_evidence = False\<rparr>"

record FlushResult =
  fr_completed :: bool
  fr_timed_out :: bool
  fr_can_forget_raw_evidence :: bool
  fr_drained_snapshot_count :: nat
  fr_pending_snapshot_count :: nat
  fr_compacted_generation :: u64

record Assimilator =
  asm_config :: AssimilatorConfig
  asm_map :: TraversabilityMap
  asm_pending :: "ObstacleMapSnapshot list"
  asm_status :: AssimilationStatus

definition asm_timestamp_ns :: "TimePoint \<Rightarrow> u64" where
  "asm_timestamp_ns t = (if 0 < timestamp_ns t then word_of_int (timestamp_ns t) else 0)"

definition Assimilator_init :: "AssimilatorConfig \<Rightarrow> Assimilator" where
  "Assimilator_init config =
     (let c = config;
          m = TraversabilityMap_init (asc_traversability_config c);
          c = (if asc_max_pending_snapshots c = 0 then c\<lparr>asc_max_pending_snapshots := 1\<rparr> else c);
          c = (if asc_max_snapshots_per_background_tick c = 0
               then c\<lparr>asc_max_snapshots_per_background_tick := 1\<rparr> else c);
          c = (if asc_max_snapshots_per_high_priority_tick c = 0
               then c\<lparr>asc_max_snapshots_per_high_priority_tick := asc_max_snapshots_per_background_tick c\<rparr>
               else c);
          c = (if asc_max_post_landing_flush_ticks c = 0
               then c\<lparr>asc_max_post_landing_flush_ticks := 1\<rparr> else c)
      in \<lparr>asm_config = c, asm_map = m, asm_pending = [], asm_status = AssimilationStatus_default\<rparr>)"

text \<open>
  The loop that makes room: \<open>pop_front\<close> while the queue has at least \<open>cap\<close> entries.  With
  \<open>cap = 0\<close> the code would pop from an empty deque; the constructor rules that out.
\<close>

fun make_room :: "nat \<Rightarrow> ObstacleMapSnapshot list \<Rightarrow> AssimilationStatus \<Rightarrow>
    ObstacleMapSnapshot list \<times> AssimilationStatus" where
  "make_room cap [] st = ([], st)"
| "make_room cap (s # q) st =
     (if cap \<le> length (s # q)
      then make_room cap q (st\<lparr>as_dropped_snapshot_count := as_dropped_snapshot_count st + 1\<rparr>)
      else (s # q, st))"

definition enqueue_mission_obstacle_map :: "ObstacleMapSnapshot \<Rightarrow> Assimilator \<Rightarrow> Assimilator" where
  "enqueue_mission_obstacle_map snap a =
     (let (q, st) = make_room (asc_max_pending_snapshots (asm_config a)) (asm_pending a) (asm_status a);
          q = q @ [snap];
          st = st\<lparr>as_pending_snapshot_count := length q, as_can_forget_raw_evidence := False\<rparr>;
          st = (if as_state st = AsFinalized then st\<lparr>as_state := AsIdle\<rparr> else st)
      in a\<lparr>asm_pending := q, asm_status := st\<rparr>)"

text \<open>The body of the drain loop, \<open>limit\<close> times; \<open>None\<close> when an update does not return.\<close>

fun drain_loop :: "nat \<Rightarrow> TimePoint \<Rightarrow> bool \<Rightarrow> Assimilator \<Rightarrow> Assimilator option" where
  "drain_loop 0 now incl a = Some a"
| "drain_loop (Suc n) now incl a =
     (let a1 = a\<lparr>asm_pending := tl (asm_pending a)\<rparr>; st = asm_status a
      in case tm_update (hd (asm_pending a)) now incl (asm_map a) of
           None \<Rightarrow> None
         | Some m \<Rightarrow> drain_loop n now incl
             (a1\<lparr>asm_map := m,
                 asm_status := st\<lparr>as_drained_snapshot_count := as_drained_snapshot_count st + 1,
                                  as_compacted_generation := as_compacted_generation st + 1\<rparr>\<rparr>))"

definition drain_snapshots ::
    "TimePoint \<Rightarrow> nat \<Rightarrow> AssimilationState \<Rightarrow> bool \<Rightarrow> Assimilator \<Rightarrow> Assimilator option" where
  "drain_snapshots now max_snapshots active_state incl a =
     (let a = a\<lparr>asm_status := (asm_status a)
                 \<lparr>as_state := (if asm_pending a = [] then AsIdle else active_state)\<rparr>\<rparr>;
          limit = min max_snapshots (length (asm_pending a))
      in case drain_loop limit now incl a of
           None \<Rightarrow> None
         | Some a \<Rightarrow>
             let st = (asm_status a)
                   \<lparr>as_pending_snapshot_count := length (asm_pending a),
                    as_last_update_timestamp_ns := asm_timestamp_ns now,
                    as_can_forget_raw_evidence := (asm_pending a = [])\<rparr>;
                 st = (if asm_pending a = [] \<and> active_state = PostLandingFinalizing
                       then st\<lparr>as_state := AsFinalized\<rparr>
                       else if asm_pending a = [] then st\<lparr>as_state := AsIdle\<rparr> else st)
             in Some (a\<lparr>asm_status := st\<rparr>))"

definition asm_tick :: "TimePoint \<Rightarrow> Assimilator \<Rightarrow> Assimilator option" where
  "asm_tick now a =
     drain_snapshots now (asc_max_snapshots_per_background_tick (asm_config a)) BackgroundAssimilating False a"

definition tick_high_priority :: "TimePoint \<Rightarrow> Assimilator \<Rightarrow> Assimilator option" where
  "tick_high_priority now a =
     drain_snapshots now (asc_max_snapshots_per_high_priority_tick (asm_config a)) PostLandingFinalizing True a"

text \<open>The flush loop; its first argument is the number of ticks still allowed.\<close>

fun flush_loop :: "nat \<Rightarrow> TimePoint \<Rightarrow> Assimilator \<Rightarrow> Assimilator option" where
  "flush_loop 0 now a = Some a"
| "flush_loop (Suc n) now a =
     (if asm_pending a = [] then Some a
      else case tick_high_priority now a of None \<Rightarrow> None | Some a \<Rightarrow> flush_loop n now a)"

definition flush_after_landing :: "TimePoint \<Rightarrow> Assimilator \<Rightarrow> (FlushResult \<times> Assimilator) option" where
  "flush_after_landing now a =
     (let drained_before = as_drained_snapshot_count (asm_status a)
      in case flush_loop (asc_max_post_landing_flush_ticks (asm_config a)) now
                (a\<lparr>asm_status := (asm_status a)\<lparr>as_state := PostLandingFinalizing\<rparr>\<rparr>) of
           None \<Rightarrow> None
         | Some a \<Rightarrow>
             let completed = (asm_pending a = []);
                 r = \<lparr>fr_completed = completed, fr_timed_out = (\<not> completed),
                      fr_can_forget_raw_evidence = completed,
                      fr_drained_snapshot_count = as_drained_snapshot_count (asm_status a) - drained_before,
                      fr_pending_snapshot_count = length (asm_pending a),
                      fr_compacted_generation = as_compacted_generation (asm_status a)\<rparr>
             in Some (r, a\<lparr>asm_status := (asm_status a)
                    \<lparr>as_pending_snapshot_count := length (asm_pending a),
                     as_can_forget_raw_evidence := fr_can_forget_raw_evidence r,
                     as_state := (if fr_completed r then AsFinalized else AsPartial)\<rparr>\<rparr>))"

definition assimilator_reset :: "Assimilator \<Rightarrow> Assimilator" where
  "assimilator_reset a =
     a\<lparr>asm_pending := [], asm_map := tm_reset (asm_map a), asm_status := AssimilationStatus_default\<rparr>"

section \<open>The map behind the queue\<close>

text \<open>
  What the assimilator relies on: from a state that satisfies \<open>ready\<close>, applying a snapshot that
  satisfies \<open>good\<close> returns, and leaves a state that satisfies \<open>ready\<close>.
\<close>

locale map_consumer =
  fixes apply_snapshot :: "'s \<Rightarrow> 'm \<Rightarrow> 'm option"
    and ready :: "'m \<Rightarrow> bool"
    and good :: "'s \<Rightarrow> bool"
  assumes apply_returns: "ready m \<Longrightarrow> good s \<Longrightarrow> \<exists>m'. apply_snapshot s m = Some m' \<and> ready m'"
begin

lemma apply_all_returns:
  "ready m \<Longrightarrow> list_all good ss \<Longrightarrow> \<exists>m'. ofold apply_snapshot ss m = Some m' \<and> ready m'"
proof (induction ss arbitrary: m)
  case (Cons s ss)
  then obtain m1 where "apply_snapshot s m = Some m1" "ready m1"
    using apply_returns [of m s] by auto
  with Cons show ?case by simp
qed simp

end

definition map_ready :: "TraversabilityMap \<Rightarrow> bool" where
  "map_ready m \<longleftrightarrow> tm_ok m \<and> grid_ok (tm_config m) \<and> 0 \<le> tmc_log_odds_max (tm_config m)"

definition snapshot_good :: "ObstacleMapSnapshot \<Rightarrow> bool" where
  "snapshot_good s \<longleftrightarrow> (omp_sensor_origin_valid s \<longrightarrow> finite_point (omp_sensor_origin_map s))"

definition apply_at :: "TimePoint \<Rightarrow> bool \<Rightarrow> ObstacleMapSnapshot \<Rightarrow> TraversabilityMap \<Rightarrow> TraversabilityMap option" where
  "apply_at now incl s m = tm_update s now incl m"

interpretation tm_consumer: map_consumer "apply_at now incl" map_ready snapshot_good for now incl
proof
  fix m s
  assume "map_ready m" and "snapshot_good s"
  then obtain m' where m': "tm_update s now incl m = Some m'"
    using tm_update_returns_some [of m s now incl] by (auto simp: map_ready_def snapshot_good_def)
  with \<open>map_ready m\<close> show "\<exists>m'. apply_at now incl s m = Some m' \<and> map_ready m'"
    using tm_update_ok [of m s now incl m'] by (simp add: map_ready_def apply_at_def)
qed

section \<open>What the loops compute\<close>

lemma ofold_append: "ofold f (xs @ ys) s = (case ofold f xs s of None \<Rightarrow> None | Some s' \<Rightarrow> ofold f ys s')"
  by (induction xs arbitrary: s) (simp_all split: option.split)

lemma make_room_spec:
  "0 < cap \<Longrightarrow> make_room cap q st =
     (drop (Suc (length q) - cap) q,
      st\<lparr>as_dropped_snapshot_count := as_dropped_snapshot_count st + (Suc (length q) - cap)\<rparr>)"
  by (induction cap q st rule: make_room.induct) (auto simp: Suc_diff_le not_le)

lemma drain_loop_spec:
  "n \<le> length (asm_pending a) \<Longrightarrow> drain_loop n now incl a =
     map_option (\<lambda>m. a\<lparr>asm_map := m, asm_pending := drop n (asm_pending a),
        asm_status := (asm_status a)
          \<lparr>as_drained_snapshot_count := as_drained_snapshot_count (asm_status a) + n,
           as_compacted_generation := as_compacted_generation (asm_status a) + of_nat n\<rparr>\<rparr>)
       (ofold (apply_at now incl) (take n (asm_pending a)) (asm_map a))"
proof (induction n arbitrary: a)
  case 0
  show ?case by simp
next
  case (Suc n)
  then obtain s q where q: "asm_pending a = s # q" by (cases "asm_pending a") auto
  with Suc.prems Suc.IH show ?case
    by (simp add: apply_at_def Let_def option.map_comp comp_def add.assoc split: option.split)
qed

definition drained :: "nat \<Rightarrow> TraversabilityMap \<Rightarrow> Assimilator \<Rightarrow> Assimilator \<Rightarrow> bool" where
  "drained n m a a' \<longleftrightarrow> asm_config a' = asm_config a \<and> asm_map a' = m \<and>
     asm_pending a' = drop n (asm_pending a) \<and>
     as_drained_snapshot_count (asm_status a') =
       as_drained_snapshot_count (asm_status a) + min n (length (asm_pending a)) \<and>
     as_dropped_snapshot_count (asm_status a') = as_dropped_snapshot_count (asm_status a) \<and>
     as_compacted_generation (asm_status a') =
       as_compacted_generation (asm_status a) + of_nat (min n (length (asm_pending a)))"

lemma drain_snapshots_spec:
  assumes "ofold (apply_at now incl) (take n (asm_pending a)) (asm_map a) = Some m"
  shows "\<exists>a'. drain_snapshots now n st incl a = Some a' \<and> drained n m a a' \<and>
     as_pending_snapshot_count (asm_status a') = length (asm_pending a') \<and>
     (as_can_forget_raw_evidence (asm_status a') \<longleftrightarrow> asm_pending a' = []) \<and>
     as_state (asm_status a') = (if asm_pending a' \<noteq> [] then st
        else if st = PostLandingFinalizing then AsFinalized else AsIdle)"
proof -
  let ?b = "a\<lparr>asm_status := (asm_status a)\<lparr>as_state := (if asm_pending a = [] then AsIdle else st)\<rparr>\<rparr>"
  let ?n = "min n (length (asm_pending a))"
  have "take ?n (asm_pending a) = take n (asm_pending a)" "drop ?n (asm_pending a) = drop n (asm_pending a)"
    by (simp_all add: min_def)
  with assms drain_loop_spec [of ?n ?b now incl] show ?thesis
    by (auto simp: drain_snapshots_def Let_def drained_def)
qed

lemma drain_snapshots_returns:
  "map_ready (asm_map a) \<Longrightarrow> list_all snapshot_good (asm_pending a) \<Longrightarrow>
   \<exists>m. ofold (apply_at now incl) (take n (asm_pending a)) (asm_map a) = Some m \<and> map_ready m"
  by (rule tm_consumer.apply_all_returns) (auto simp: list_all_iff dest: in_set_takeD)

lemma drained_trans:
  "drained n m a b \<Longrightarrow> drained k m' b c \<Longrightarrow> drained (n + k) m' a c"
proof -
  assume ab: "drained n m a b" and bc: "drained k m' b c"
  have "min n (length (asm_pending a)) + min k (length (asm_pending a) - n) = min (n + k) (length (asm_pending a))"
    by simp
  moreover from this have "of_nat (min n (length (asm_pending a))) + of_nat (min k (length (asm_pending a) - n)) =
     (of_nat (min (n + k) (length (asm_pending a))) :: u64)"
    by (metis of_nat_add)
  ultimately show ?thesis using ab bc by (simp add: drained_def add.commute add.assoc)
qed

text \<open>The flush loop with \<open>t\<close> ticks left applies the first \<open>t * per_tick\<close> queued snapshots.\<close>

lemma flush_loop_spec:
  assumes "map_ready (asm_map a)" and "list_all snapshot_good (asm_pending a)"
    and "p = asc_max_snapshots_per_high_priority_tick (asm_config a)"
  shows "\<exists>a' m. flush_loop t now a = Some a' \<and> drained (t * p) m a a' \<and>
     ofold (apply_at now True) (take (t * p) (asm_pending a)) (asm_map a) = Some m"
  using assms
proof (induction t arbitrary: a)
  case 0
  then show ?case by (simp add: drained_def)
next
  case (Suc t)
  show ?case
  proof (cases "asm_pending a = []")
    case True
    then show ?thesis by (simp add: drained_def)
  next
    case False
    from drain_snapshots_returns [OF Suc.prems(1,2), of now True p]
    obtain m where m: "ofold (apply_at now True) (take p (asm_pending a)) (asm_map a) = Some m" "map_ready m" by blast
    from drain_snapshots_spec [OF m(1), of PostLandingFinalizing] Suc.prems(3)
    obtain b where b: "tick_high_priority now a = Some b" "drained p m a b"
      by (auto simp: tick_high_priority_def)
    have "list_all snapshot_good (asm_pending b)"
      using Suc.prems(2) b(2) by (auto simp: drained_def list_all_iff dest: in_set_dropD)
    with Suc.IH [of b] Suc.prems(3) m(2) b(2) obtain c m' where
      c: "flush_loop t now b = Some c" "drained (t * p) m' b c"
        "ofold (apply_at now True) (take (t * p) (asm_pending b)) m = Some m'"
      by (auto simp: drained_def)
    have "take (p + t * p) (asm_pending a) = take p (asm_pending a) @ take (t * p) (asm_pending b)"
      using b(2) by (simp add: drained_def take_add)
    with m(1) c(3) have "ofold (apply_at now True) (take (p + t * p) (asm_pending a)) (asm_map a) = Some m'"
      by (simp add: ofold_append)
    with b c(1) False drained_trans [OF b(2) c(2)] show ?thesis by auto
  qed
qed

section \<open>Reachable states\<close>

text \<open>
  \<open>asm_run c n a\<close>: state \<open>a\<close> is reached from the constructor, with \<open>n\<close> snapshots enqueued
  since the construction or the last reset.  \<open>asm_drn\<close> is a client that drains the map's delta
  through \<open>mutable_traversability_map\<close>.
\<close>

inductive asm_run :: "AssimilatorConfig \<Rightarrow> nat \<Rightarrow> Assimilator \<Rightarrow> bool" for c where
  asm_init: "asm_run c 0 (Assimilator_init c)"
| asm_enq: "asm_run c n a \<Longrightarrow> snapshot_good s \<Longrightarrow> asm_run c (Suc n) (enqueue_mission_obstacle_map s a)"
| asm_tck: "asm_run c n a \<Longrightarrow> asm_tick now a = Some a' \<Longrightarrow> asm_run c n a'"
| asm_hip: "asm_run c n a \<Longrightarrow> tick_high_priority now a = Some a' \<Longrightarrow> asm_run c n a'"
| asm_fls: "asm_run c n a \<Longrightarrow> flush_after_landing now a = Some (r, a') \<Longrightarrow> asm_run c n a'"
| asm_drn: "asm_run c n a \<Longrightarrow> asm_run c n (a\<lparr>asm_map := snd (tm_drain_delta (asm_map a))\<rparr>)"
| asm_rst: "asm_run c n a \<Longrightarrow> asm_run c 0 (assimilator_reset a)"

definition asm_accounted :: "nat \<Rightarrow> Assimilator \<Rightarrow> bool" where
  "asm_accounted n a \<longleftrightarrow> (let st = asm_status a in
     length (asm_pending a) \<le> asc_max_pending_snapshots (asm_config a) \<and>
     as_pending_snapshot_count st = length (asm_pending a) \<and>
     n = as_drained_snapshot_count st + as_dropped_snapshot_count st + length (asm_pending a) \<and>
     as_compacted_generation st = of_nat (as_drained_snapshot_count st) \<and>
     (as_can_forget_raw_evidence st \<longrightarrow> asm_pending a = []) \<and>
     (as_state st = AsFinalized \<longrightarrow> asm_pending a = []))"

definition asm_inv :: "AssimilatorConfig \<Rightarrow> nat \<Rightarrow> Assimilator \<Rightarrow> bool" where
  "asm_inv c n a \<longleftrightarrow> asm_accounted n a \<and> asm_config a = asm_config (Assimilator_init c) \<and>
     0 < asc_max_pending_snapshots (asm_config a) \<and>
     list_all snapshot_good (asm_pending a) \<and> map_ready (asm_map a)"

lemma Assimilator_init_limits:
  "0 < asc_max_pending_snapshots (asm_config (Assimilator_init c))"
  "0 < asc_max_snapshots_per_background_tick (asm_config (Assimilator_init c))"
  "0 < asc_max_snapshots_per_high_priority_tick (asm_config (Assimilator_init c))"
  "0 < asc_max_post_landing_flush_ticks (asm_config (Assimilator_init c))"
  by (simp_all add: Assimilator_init_def Let_def)

lemma Assimilator_init_parts:
  "asm_pending (Assimilator_init c) = []" "asm_status (Assimilator_init c) = AssimilationStatus_default"
  "asm_map (Assimilator_init c) = TraversabilityMap_init (asc_traversability_config c)"
  by (simp_all add: Assimilator_init_def Let_def)

lemma asm_accounted_drain:
  assumes "asm_accounted n a" and "drained k m a a'"
    and "as_pending_snapshot_count (asm_status a') = length (asm_pending a')"
    and "as_can_forget_raw_evidence (asm_status a') \<longrightarrow> asm_pending a' = []"
    and "as_state (asm_status a') = AsFinalized \<longrightarrow> asm_pending a' = []"
  shows "asm_accounted n a'"
  using assms by (auto simp: asm_accounted_def drained_def Let_def)

lemma asm_inv_drain:
  assumes "asm_inv c n a" and "drain_snapshots now k st incl a = Some a'" and "st \<noteq> AsFinalized"
  shows "asm_inv c n a'"
proof -
  from assms(1) have a: "map_ready (asm_map a)" "list_all snapshot_good (asm_pending a)" "asm_accounted n a"
    by (simp_all add: asm_inv_def)
  from drain_snapshots_returns [OF a(1,2)] obtain m where
    m: "ofold (apply_at now incl) (take k (asm_pending a)) (asm_map a) = Some m" "map_ready m" by blast
  from drain_snapshots_spec [OF m(1), of st] assms(2,3) have
    d: "drained k m a a'" "as_pending_snapshot_count (asm_status a') = length (asm_pending a')"
      "as_can_forget_raw_evidence (asm_status a') \<longrightarrow> asm_pending a' = []"
      "as_state (asm_status a') = AsFinalized \<longrightarrow> asm_pending a' = []"
    by auto
  with asm_accounted_drain [OF a(3) d] assms(1) m(2) show ?thesis
    by (auto simp: asm_inv_def drained_def list_all_iff dest: in_set_dropD)
qed

text \<open>The flush, in terms of the queue it finds.\<close>

lemma flush_spec:
  fixes a :: Assimilator
  defines "k \<equiv> asc_max_post_landing_flush_ticks (asm_config a) * asc_max_snapshots_per_high_priority_tick (asm_config a)"
  assumes "map_ready (asm_map a)" and "list_all snapshot_good (asm_pending a)"
  obtains r a' m where "flush_after_landing now a = Some (r, a')" "drained k m a a'" "map_ready m"
    "ofold (apply_at now True) (take k (asm_pending a)) (asm_map a) = Some m"
    "fr_completed r \<longleftrightarrow> asm_pending a' = []" "fr_timed_out r \<longleftrightarrow> asm_pending a' \<noteq> []"
    "fr_can_forget_raw_evidence r \<longleftrightarrow> asm_pending a' = []"
    "fr_drained_snapshot_count r = min k (length (asm_pending a))"
    "as_pending_snapshot_count (asm_status a') = length (asm_pending a')"
    "as_can_forget_raw_evidence (asm_status a') \<longleftrightarrow> asm_pending a' = []"
    "as_state (asm_status a') = (if asm_pending a' = [] then AsFinalized else AsPartial)"
proof -
  let ?b = "a\<lparr>asm_status := (asm_status a)\<lparr>as_state := PostLandingFinalizing\<rparr>\<rparr>"
  obtain a' m where a': "flush_loop (asc_max_post_landing_flush_ticks (asm_config a)) now ?b = Some a'"
      "drained k m ?b a'" "ofold (apply_at now True) (take k (asm_pending a)) (asm_map a) = Some m"
    using flush_loop_spec [of ?b _ "asc_max_post_landing_flush_ticks (asm_config a)" now, OF _ _ refl] assms
    unfolding k_def by auto
  moreover have "map_ready m"
    using drain_snapshots_returns [OF assms(2,3), of now True k] a'(3) by auto
  moreover obtain r b where b: "flush_after_landing now a = Some (r, b)"
    using a'(1) by (auto simp: flush_after_landing_def Let_def)
  ultimately show thesis
    by (intro that [OF b, of m]) (auto simp: flush_after_landing_def Let_def drained_def)
qed

lemma asm_inv_flush:
  assumes "asm_inv c n a" and "flush_after_landing now a = Some (r, a')"
  shows "asm_inv c n a'"
proof -
  from assms(1) have a: "map_ready (asm_map a)" "list_all snapshot_good (asm_pending a)" "asm_accounted n a"
    by (simp_all add: asm_inv_def)
  from a(1,2) obtain r' b m k where b: "flush_after_landing now a = Some (r', b)" "drained k m a b" "map_ready m"
    "as_pending_snapshot_count (asm_status b) = length (asm_pending b)"
    "as_can_forget_raw_evidence (asm_status b) \<longleftrightarrow> asm_pending b = []"
    "as_state (asm_status b) = (if asm_pending b = [] then AsFinalized else AsPartial)"
    by (rule flush_spec)
  with assms(2) asm_accounted_drain [OF a(3) b(2,4)] assms(1) show ?thesis
    by (auto simp: asm_inv_def drained_def list_all_iff dest: in_set_dropD split: if_splits)
qed

lemma asm_inv_enqueue:
  assumes "asm_inv c n a" and "snapshot_good s"
  shows "asm_inv c (Suc n) (enqueue_mission_obstacle_map s a)"
proof -
  let ?cap = "asc_max_pending_snapshots (asm_config a)"
  have "0 < ?cap" "length (asm_pending a) \<le> ?cap" using assms(1) by (auto simp: asm_inv_def asm_accounted_def Let_def)
  with assms make_room_spec [of ?cap "asm_pending a" "asm_status a"] show ?thesis
    by (auto simp: asm_inv_def asm_accounted_def enqueue_mission_obstacle_map_def Let_def list_all_iff
        dest: in_set_dropD)
qed

lemma map_ready_keep:
  "map_ready m \<Longrightarrow> map_ready (snd (tm_drain_delta m))" "map_ready m \<Longrightarrow> map_ready (tm_reset m)"
  by (simp_all add: map_ready_def tm_drain_delta_def tm_reset_def tm_ok_empty)
    (simp add: tm_ok_def derived_ok_def)

lemma asm_run_inv:
  assumes "asm_run c n a" and "map_ready (TraversabilityMap_init (asc_traversability_config c))"
  shows "asm_inv c n a"
  using assms(1)
proof induction
  case asm_init
  then show ?case
    using assms(2) by (simp add: asm_inv_def asm_accounted_def Assimilator_init_parts Assimilator_init_limits
        AssimilationStatus_default_def)
next
  case (asm_enq n a s)
  then show ?case by (simp add: asm_inv_enqueue)
next
  case (asm_tck n a now a')
  then show ?case using asm_inv_drain by (fastforce simp: asm_tick_def)
next
  case (asm_hip n a now a')
  then show ?case using asm_inv_drain by (fastforce simp: tick_high_priority_def)
next
  case (asm_fls n a now r a')
  then show ?case using asm_inv_flush by blast
next
  case (asm_drn n a)
  then show ?case by (auto simp: asm_inv_def asm_accounted_def map_ready_keep Let_def)
next
  case (asm_rst n a)
  then show ?case
    by (simp add: asm_inv_def asm_accounted_def assimilator_reset_def AssimilationStatus_default_def map_ready_keep
        Assimilator_init_limits)
qed

section \<open>The properties\<close>

lemma default_map_ready:
  "map_ready (TraversabilityMap_init (asc_traversability_config AssimilatorConfig_default))"
proof -
  have "asc_traversability_config AssimilatorConfig_default = TraversabilityConfig_default"
    by (simp add: AssimilatorConfig_default_def)
  moreover have "0 \<le> tmc_log_odds_max TraversabilityConfig_default"
    by (simp add: TraversabilityConfig_default_def)
  ultimately show ?thesis
    using init_default_ok init_default_grid by (simp add: map_ready_def)
qed

lemma default_limits:
  "asm_config (Assimilator_init AssimilatorConfig_default) = AssimilatorConfig_default"
  by (simp add: Assimilator_init_def AssimilatorConfig_default_def Let_def)

text \<open>
  C40: in every reachable state of the assimilator the queue holds at most
  \<open>max_pending_snapshots\<close> snapshots, the published status agrees with it, every snapshot
  enqueued since the last reset is counted as drained or dropped or is still queued, the
  compacted generation is the number of drained snapshots (modulo \<open>2^64\<close>), and raw evidence is
  reported forgettable, or the state finalized, only when nothing is queued.
\<close>

theorem assimilator_accounts_for_every_snapshot:
  assumes "asm_run c n a" and "map_ready (TraversabilityMap_init (asc_traversability_config c))"
  shows "length (asm_pending a) \<le> asc_max_pending_snapshots (asm_config a) \<and>
     as_pending_snapshot_count (asm_status a) = length (asm_pending a) \<and>
     n = as_drained_snapshot_count (asm_status a) + as_dropped_snapshot_count (asm_status a) + length (asm_pending a) \<and>
     as_compacted_generation (asm_status a) = of_nat (as_drained_snapshot_count (asm_status a)) \<and>
     (as_can_forget_raw_evidence (asm_status a) \<longrightarrow> asm_pending a = []) \<and>
     (as_state (asm_status a) = AsFinalized \<longrightarrow> asm_pending a = []) \<and> tm_ok (asm_map a)"
  using asm_run_inv [OF assms] unfolding asm_inv_def asm_accounted_def map_ready_def Let_def by blast

theorem assimilator_accounts_for_every_snapshot_witness:
  "\<exists>a. asm_run AssimilatorConfig_default 2 a \<and>
     2 = as_drained_snapshot_count (asm_status a) + as_dropped_snapshot_count (asm_status a) + length (asm_pending a)"
proof -
  have "snapshot_good one_hit_snapshot" using one_hit_origin by (simp add: snapshot_good_def)
  then have "asm_run AssimilatorConfig_default (Suc (Suc 0)) (enqueue_mission_obstacle_map one_hit_snapshot
      (enqueue_mission_obstacle_map one_hit_snapshot (Assimilator_init AssimilatorConfig_default)))"
    by (intro asm_run.intros)
  then have "\<exists>a. asm_run AssimilatorConfig_default 2 a" by (auto simp: numeral_2_eq_2)
  then show ?thesis using assimilator_accounts_for_every_snapshot [OF _ default_map_ready] by blast
qed

text \<open>
  the flush after landing returns, and applies the queued snapshots to the traversability map
  in arrival order, at most \<open>max_post_landing_flush_ticks\<close> times
  \<open>max_snapshots_per_high_priority_tick\<close> of them; it reports completion, and raw evidence as
  forgettable, exactly when the queue was not longer than that, and the rest stays queued.
\<close>

lemma flush_applies_backlog:
  fixes a :: Assimilator
  assumes "asm_run c n a" and "map_ready (TraversabilityMap_init (asc_traversability_config c))"
    and "k = asc_max_post_landing_flush_ticks (asm_config a) * asc_max_snapshots_per_high_priority_tick (asm_config a)"
  shows "\<exists>r a'. flush_after_landing now a = Some (r, a') \<and>
     ofold (\<lambda>s m. tm_update s now True m) (take k (asm_pending a)) (asm_map a) = Some (asm_map a') \<and>
     asm_pending a' = drop k (asm_pending a) \<and>
     (fr_completed r \<longleftrightarrow> length (asm_pending a) \<le> k) \<and> (fr_timed_out r \<longleftrightarrow> k < length (asm_pending a)) \<and>
     (fr_can_forget_raw_evidence r \<longleftrightarrow> fr_completed r) \<and>
     fr_drained_snapshot_count r = min k (length (asm_pending a)) \<and>
     as_state (asm_status a') = (if fr_completed r then AsFinalized else AsPartial)"
proof -
  from asm_run_inv [OF assms(1,2)] have "map_ready (asm_map a)" "list_all snapshot_good (asm_pending a)"
    by (simp_all add: asm_inv_def)
  moreover have "apply_at now True = (\<lambda>s m. tm_update s now True m)"
    by (intro ext) (simp add: apply_at_def)
  ultimately show ?thesis
    using assms(3) by (rule_tac flush_spec [of a now]) (auto simp: drained_def not_le intro!: exI)
qed

lemma flush_applies_backlog_witness:
  "\<exists>r a'. flush_after_landing \<lparr>timestamp_ns = 9\<rparr>
       (enqueue_mission_obstacle_map one_hit_snapshot (Assimilator_init AssimilatorConfig_default)) = Some (r, a') \<and>
     fr_completed r \<and> asm_pending a' = []"
proof -
  let ?a = "enqueue_mission_obstacle_map one_hit_snapshot (Assimilator_init AssimilatorConfig_default)"
  have "snapshot_good one_hit_snapshot" using one_hit_origin by (simp add: snapshot_good_def)
  then have "asm_run AssimilatorConfig_default (Suc 0) ?a" by (intro asm_run.intros)
  moreover have "asm_config ?a = AssimilatorConfig_default" "length (asm_pending ?a) = 1"
    by (simp_all add: enqueue_mission_obstacle_map_def default_limits Assimilator_init_parts split_beta Let_def)
  ultimately show ?thesis
    using flush_applies_backlog [OF _ default_map_ready refl, of "Suc 0" ?a "\<lparr>timestamp_ns = 9\<rparr>"]
    by (fastforce simp: AssimilatorConfig_default_def)
qed

text \<open>
  a configuration whose queue is no longer than what a flush may apply never times out: from
  every reachable state the flush completes.  The default configuration (16 queued, 64 ticks of
  8) is such a one.
\<close>

lemma flush_never_times_out:
  assumes "asm_run c n a" and "map_ready (TraversabilityMap_init (asc_traversability_config c))"
    and "asc_max_pending_snapshots (asm_config a) \<le>
      asc_max_post_landing_flush_ticks (asm_config a) * asc_max_snapshots_per_high_priority_tick (asm_config a)"
  shows "\<exists>r a'. flush_after_landing now a = Some (r, a') \<and> fr_completed r \<and> \<not> fr_timed_out r \<and>
     as_can_forget_raw_evidence (asm_status a') \<and> as_state (asm_status a') = AsFinalized"
proof -
  from asm_run_inv [OF assms(1,2)] have a: "map_ready (asm_map a)" "list_all snapshot_good (asm_pending a)"
    "length (asm_pending a) \<le> asc_max_pending_snapshots (asm_config a)"
    unfolding asm_inv_def asm_accounted_def Let_def by blast+
  from a(1,2) show ?thesis
    using a(3) assms(3) by (rule_tac flush_spec [of a now]) (auto simp: drained_def)
qed

lemma flush_never_times_out_witness:
  "\<exists>r a'. flush_after_landing \<lparr>timestamp_ns = 9\<rparr> (Assimilator_init AssimilatorConfig_default) = Some (r, a') \<and>
     fr_completed r"
proof -
  have "asc_max_pending_snapshots AssimilatorConfig_default \<le>
      asc_max_post_landing_flush_ticks AssimilatorConfig_default *
      asc_max_snapshots_per_high_priority_tick AssimilatorConfig_default"
    by (simp add: AssimilatorConfig_default_def)
  then show ?thesis
    using flush_never_times_out [OF asm_run.asm_init default_map_ready, of "\<lparr>timestamp_ns = 9\<rparr>"]
    unfolding default_limits by blast
qed

end
