(* ===== verification/Pose_Transform.thy ===== *)
theory Pose_Transform
  imports Dedalus_Prelude
begin

text \<open>
  Rigid transforms (\<open>geometry/pose_transform\<close>): rotation by roll, pitch and yaw, points between
  a parent and a child frame, inverse and composition of poses.

  The literal \<open>kPi\<close> is \<open>pi\<close> here, as the trigonometric functions are the exact ones.  The two
  loops of \<open>normalize_angle\<close> may run forever (on an infinite angle they do), so they are
  partial functions and \<open>None\<close> stands for a call that does not return.
\<close>

section \<open>The model\<close>

record Pose3 =
  position :: Vec3
  rotation_rpy :: Vec3

fun std_sin :: "double \<Rightarrow> double" where
  "std_sin (Fin x) = Fin (sin x)"
| "std_sin _ = NaN"

fun std_cos :: "double \<Rightarrow> double" where
  "std_cos (Fin x) = Fin (cos x)"
| "std_cos _ = NaN"

text \<open>
  \<open>std::atan2\<close> and \<open>std::hypot\<close> are the exact functions; the sign of a zero argument of \<open>atan2\<close> is
  not modelled (\<open>atan2 0 x\<close> with negative \<open>x\<close> is \<open>pi\<close>).
\<close>

definition real_atan2 :: "real \<Rightarrow> real \<Rightarrow> real" where
  "real_atan2 y x =
     (if 0 < x then arctan (y / x)
      else if x < 0 then (if 0 \<le> y then arctan (y / x) + pi else arctan (y / x) - pi)
      else if 0 < y then pi / 2 else if y < 0 then - pi / 2 else 0)"

fun std_atan2 :: "double \<Rightarrow> double \<Rightarrow> double" where
  "std_atan2 NaN _ = NaN"
| "std_atan2 _ NaN = NaN"
| "std_atan2 (Fin y) (Fin x) = Fin (real_atan2 y x)"
| "std_atan2 (Fin y) PInf = Fin 0"
| "std_atan2 (Fin y) NInf = Fin (if 0 \<le> y then pi else - pi)"
| "std_atan2 PInf (Fin _) = Fin (pi / 2)"
| "std_atan2 PInf PInf = Fin (pi / 4)"
| "std_atan2 PInf NInf = Fin (3 * pi / 4)"
| "std_atan2 NInf (Fin _) = Fin (- pi / 2)"
| "std_atan2 NInf PInf = Fin (- pi / 4)"
| "std_atan2 NInf NInf = Fin (- 3 * pi / 4)"

fun std_hypot :: "double \<Rightarrow> double \<Rightarrow> double" where
  "std_hypot (Fin x) (Fin y) = Fin (sqrt (x * x + y * y))"
| "std_hypot PInf _ = PInf"
| "std_hypot NInf _ = PInf"
| "std_hypot _ PInf = PInf"
| "std_hypot _ NInf = PInf"
| "std_hypot _ _ = NaN"

record Matrix3 =
  m00 :: double
  m01 :: double
  m02 :: double
  m10 :: double
  m11 :: double
  m12 :: double
  m20 :: double
  m21 :: double
  m22 :: double

definition rotation_matrix_from_rpy :: "Vec3 \<Rightarrow> Matrix3" where
  "rotation_matrix_from_rpy rpy =
     (let cr = std_cos (vx rpy); sr = std_sin (vx rpy);
          cp = std_cos (vy rpy); sp = std_sin (vy rpy);
          cy = std_cos (vz rpy); sy = std_sin (vz rpy)
      in \<lparr>m00 = cy * cp, m01 = cy * sp * sr - sy * cr, m02 = cy * sp * cr + sy * sr,
          m10 = sy * cp, m11 = sy * sp * sr + cy * cr, m12 = sy * sp * cr - cy * sr,
          m20 = - sp, m21 = cp * sr, m22 = cp * cr\<rparr>)"

definition multiply :: "Matrix3 \<Rightarrow> Vec3 \<Rightarrow> Vec3" where
  "multiply r v =
     vec3 (m00 r * vx v + m01 r * vy v + m02 r * vz v)
          (m10 r * vx v + m11 r * vy v + m12 r * vz v)
          (m20 r * vx v + m21 r * vy v + m22 r * vz v)"

definition multiply_transpose :: "Matrix3 \<Rightarrow> Vec3 \<Rightarrow> Vec3" where
  "multiply_transpose r v =
     vec3 (m00 r * vx v + m10 r * vy v + m20 r * vz v)
          (m01 r * vx v + m11 r * vy v + m21 r * vz v)
          (m02 r * vx v + m12 r * vy v + m22 r * vz v)"

definition vec_add :: "Vec3 \<Rightarrow> Vec3 \<Rightarrow> Vec3" where
  "vec_add a b = vec3 (vx a + vx b) (vy a + vy b) (vz a + vz b)"

definition vec_subtract :: "Vec3 \<Rightarrow> Vec3 \<Rightarrow> Vec3" where
  "vec_subtract a b = vec3 (vx a - vx b) (vy a - vy b) (vz a - vz b)"

partial_function (option) wrap_down :: "double \<Rightarrow> double option" where
  "wrap_down angle = (if Fin pi < angle then wrap_down (angle - 2 * Fin pi) else Some angle)"

partial_function (option) wrap_up :: "double \<Rightarrow> double option" where
  "wrap_up angle = (if angle < - Fin pi then wrap_up (angle + 2 * Fin pi) else Some angle)"

definition normalize_angle :: "double \<Rightarrow> double option" where
  "normalize_angle angle = (case wrap_down angle of None \<Rightarrow> None | Some a \<Rightarrow> wrap_up a)"

definition rotate_vector :: "Pose3 \<Rightarrow> Vec3 \<Rightarrow> Vec3" where
  "rotate_vector parent_T_child v = multiply (rotation_matrix_from_rpy (rotation_rpy parent_T_child)) v"

definition inverse_rotate_vector :: "Pose3 \<Rightarrow> Vec3 \<Rightarrow> Vec3" where
  "inverse_rotate_vector parent_T_child v =
     multiply_transpose (rotation_matrix_from_rpy (rotation_rpy parent_T_child)) v"

definition transform_point :: "Pose3 \<Rightarrow> Vec3 \<Rightarrow> Vec3" where
  "transform_point parent_T_child p = vec_add (position parent_T_child) (rotate_vector parent_T_child p)"

definition inverse_transform_point :: "Pose3 \<Rightarrow> Vec3 \<Rightarrow> Vec3" where
  "inverse_transform_point parent_T_child p =
     inverse_rotate_vector parent_T_child (vec_subtract p (position parent_T_child))"

definition inverse_pose :: "Pose3 \<Rightarrow> Pose3" where
  "inverse_pose parent_T_child =
     (let r = rotation_rpy parent_T_child; t = position parent_T_child
      in \<lparr>position = inverse_rotate_vector parent_T_child (vec3 (- vx t) (- vy t) (- vz t)),
          rotation_rpy = vec3 (- vx r) (- vy r) (- vz r)\<rparr>)"

definition compose_pose :: "Pose3 \<Rightarrow> Pose3 \<Rightarrow> Pose3 option" where
  "compose_pose parent_T_mid mid_T_child =
     (let p = transform_point parent_T_mid (position mid_T_child);
          a = rotation_rpy parent_T_mid; b = rotation_rpy mid_T_child
      in case normalize_angle (vz a + vz b) of
           None \<Rightarrow> None
         | Some yaw \<Rightarrow> Some \<lparr>position = p, rotation_rpy = vec3 (vx a + vx b) (vy a + vy b) yaw\<rparr>)"

definition yaw_rad :: "Pose3 \<Rightarrow> double" where
  "yaw_rad pose = vz (rotation_rpy pose)"

definition make_yaw_pose :: "Vec3 \<Rightarrow> double \<Rightarrow> Pose3" where
  "make_yaw_pose p yaw = \<lparr>position = p, rotation_rpy = vec3 0 0 yaw\<rparr>"

definition finite_pose :: "Pose3 \<Rightarrow> bool" where
  "finite_pose t \<longleftrightarrow> finite_point (position t) \<and> finite_point (rotation_rpy t)"

section \<open>Rotations are orthogonal\<close>

lemma finite_pointE:
  assumes "finite_point p"
  obtains x y z where "p = vec3 (Fin x) (Fin y) (Fin z)"
  using assms by (cases p) (auto simp: isfinite_iff)

named_theorems pose_defs \<open>definitions of the transforms\<close>

lemmas [pose_defs] = rotation_matrix_from_rpy_def multiply_def multiply_transpose_def vec_add_def
  vec_subtract_def rotate_vector_def inverse_rotate_vector_def transform_point_def
  inverse_transform_point_def

text \<open>The nine products of the columns, and of the rows, of the rotation matrix.\<close>

lemma rotation_orthogonal:
  fixes cr sr cp sp cy sy :: real
  assumes "cr * cr + sr * sr = 1" and "cp * cp + sp * sp = 1" and "cy * cy + sy * sy = 1"
    and "a = cy * cp" "b = cy * sp * sr - sy * cr" "c = cy * sp * cr + sy * sr"
    and "d = sy * cp" "e = sy * sp * sr + cy * cr" "f = sy * sp * cr - cy * sr"
    and "g = - sp" "h = cp * sr" "i = cp * cr"
  shows "a * (a*x + b*y + c*z) + d * (d*x + e*y + f*z) + g * (g*x + h*y + i*z) = x"
    and "b * (a*x + b*y + c*z) + e * (d*x + e*y + f*z) + h * (g*x + h*y + i*z) = y"
    and "c * (a*x + b*y + c*z) + f * (d*x + e*y + f*z) + i * (g*x + h*y + i*z) = z"
    and "a * (a*x + d*y + g*z) + b * (b*x + e*y + h*z) + c * (c*x + f*y + i*z) = x"
    and "d * (a*x + d*y + g*z) + e * (b*x + e*y + h*z) + f * (c*x + f*y + i*z) = y"
    and "g * (a*x + d*y + g*z) + h * (b*x + e*y + h*z) + i * (c*x + f*y + i*z) = z"
  using assms by algebra+

lemma sin_cos_one: "cos x * cos x + sin x * sin x = (1::real)"
  using sin_cos_squared_add [of x] by (simp add: power2_eq_square)

lemma inverse_rotate_rotate:
  assumes "finite_point (rotation_rpy t)" and "finite_point v"
  shows "inverse_rotate_vector t (rotate_vector t v) = v"
    and "rotate_vector t (inverse_rotate_vector t v) = v"
proof -
  obtain r p w where r: "rotation_rpy t = vec3 (Fin r) (Fin p) (Fin w)" using assms(1) by (rule finite_pointE)
  obtain x y z where v: "v = vec3 (Fin x) (Fin y) (Fin z)" using assms(2) by (rule finite_pointE)
  note o = rotation_orthogonal [OF sin_cos_one [of r] sin_cos_one [of p] sin_cos_one [of w]
      refl refl refl refl refl refl refl refl refl, of x y z]
  show "inverse_rotate_vector t (rotate_vector t v) = v"
    using o(1-3) by (simp add: pose_defs Let_def r v)
  show "rotate_vector t (inverse_rotate_vector t v) = v"
    using o(4-6) by (simp add: pose_defs Let_def r v)
qed

lemma finite_rotate:
  assumes "finite_point (rotation_rpy t)" and "finite_point v"
  shows "finite_point (rotate_vector t v)" and "finite_point (inverse_rotate_vector t v)"
proof -
  obtain r p w where r: "rotation_rpy t = vec3 (Fin r) (Fin p) (Fin w)" using assms(1) by (rule finite_pointE)
  obtain x y z where v: "v = vec3 (Fin x) (Fin y) (Fin z)" using assms(2) by (rule finite_pointE)
  show "finite_point (rotate_vector t v)" and "finite_point (inverse_rotate_vector t v)"
    by (simp_all add: pose_defs Let_def r v)
qed

lemma vec_subtract_add:
  assumes "finite_point a" and "finite_point b"
  shows "vec_subtract (vec_add a b) a = b" and "vec_add a (vec_subtract b a) = b"
  using assms by (auto simp: vec_subtract_def vec_add_def elim!: finite_pointE)

section \<open>Angles\<close>

lemma wrap_down_Fin:
  "x \<le> pi + 2 * pi * real n \<Longrightarrow>
   \<exists>y k. wrap_down (Fin x) = Some (Fin y) \<and> y = x - 2 * pi * real k \<and> y \<le> pi \<and> (y = x \<or> - pi < y)"
proof (induction n arbitrary: x)
  case 0
  then show ?case by (subst wrap_down.simps) (auto intro!: exI [of _ 0])
next
  case (Suc n)
  show ?case
  proof (cases "pi < x")
    case False
    then show ?thesis by (subst wrap_down.simps) (auto intro!: exI [of _ 0])
  next
    case True
    have "x - 2 * pi \<le> pi + 2 * pi * real n" using Suc.prems by (simp add: algebra_simps)
    from Suc.IH [OF this] obtain y k where
      y: "wrap_down (Fin (x - 2 * pi)) = Some (Fin y)" "y = x - 2 * pi - 2 * pi * real k" "y \<le> pi"
         "y = x - 2 * pi \<or> - pi < y"
      by blast
    have "wrap_down (Fin x) = Some (Fin y)" using True y(1) by (subst wrap_down.simps) simp
    moreover have "y = x - 2 * pi * real (Suc k)" using y(2) by (simp add: algebra_simps)
    moreover have "- pi < y" using y(4) True by auto
    ultimately show ?thesis using y(3) by blast
  qed
qed

lemma wrap_up_Fin:
  "- pi - 2 * pi * real n \<le> x \<Longrightarrow> x \<le> pi \<Longrightarrow>
   \<exists>y k. wrap_up (Fin x) = Some (Fin y) \<and> y = x + 2 * pi * real k \<and> - pi \<le> y \<and> y \<le> pi"
proof (induction n arbitrary: x)
  case 0
  then show ?case by (subst wrap_up.simps) (auto intro!: exI [of _ 0])
next
  case (Suc n)
  show ?case
  proof (cases "x < - pi")
    case False
    with Suc.prems show ?thesis by (subst wrap_up.simps) (auto intro!: exI [of _ 0])
  next
    case True
    have "- pi - 2 * pi * real n \<le> x + 2 * pi" using Suc.prems by (simp add: algebra_simps)
    moreover have "x + 2 * pi \<le> pi" using True by simp
    ultimately obtain y k where
      y: "wrap_up (Fin (x + 2 * pi)) = Some (Fin y)" "y = x + 2 * pi + 2 * pi * real k" "- pi \<le> y" "y \<le> pi"
      using Suc.IH by blast
    have "wrap_up (Fin x) = Some (Fin y)" using True y(1) by (subst wrap_up.simps) simp
    moreover have "y = x + 2 * pi * real (Suc k)" using y(2) by (simp add: algebra_simps)
    ultimately show ?thesis using y(3,4) by blast
  qed
qed

lemma periods_bound: "\<exists>n. x \<le> pi + 2 * pi * real n"
proof -
  obtain n where "x / (2 * pi) < real n" using reals_Archimedean2 by blast
  then have "x < 2 * pi * real n" by (simp add: field_simps)
  then show ?thesis by (intro exI [of _ n]) (use pi_gt_zero in linarith)
qed

lemma normalize_angle_Fin:
  "\<exists>y k. normalize_angle (Fin x) = Some (Fin y) \<and> y = x + 2 * pi * real_of_int k \<and> - pi \<le> y \<and> y \<le> pi"
proof -
  obtain n where "x \<le> pi + 2 * pi * real n" using periods_bound by blast
  then obtain z j where z: "wrap_down (Fin x) = Some (Fin z)" "z = x - 2 * pi * real j" "z \<le> pi"
    using wrap_down_Fin by blast
  obtain m where "- z \<le> pi + 2 * pi * real m" using periods_bound by blast
  then have "- pi - 2 * pi * real m \<le> z" by linarith
  from wrap_up_Fin [OF this z(3)] obtain y k where
    y: "wrap_up (Fin z) = Some (Fin y)" "y = z + 2 * pi * real k" "- pi \<le> y" "y \<le> pi" by blast
  have "y = x + 2 * pi * real_of_int (int k - int j)" using y(2) z(2) by (simp add: algebra_simps)
  with z(1) y(1,3,4) show ?thesis
    by (intro exI [of _ y] exI [of _ "int k - int j"]) (simp only: normalize_angle_def option.case refl simp_thms)
qed

lemma wrap_sin_cos:
  "sin (x + 2 * pi * real_of_int k) = sin x" "cos (x + 2 * pi * real_of_int k) = cos x"
proof -
  have "sin (2 * pi * real_of_int k) = 0" "cos (2 * pi * real_of_int k) = 1"
    using sin_int_2pin [of k] cos_int_2pin [of k] by simp_all
  then show "sin (x + 2 * pi * real_of_int k) = sin x" "cos (x + 2 * pi * real_of_int k) = cos x"
    by (simp_all add: sin_add cos_add)
qed

section \<open>The properties\<close>

text \<open>
  moving a point from the child frame to the parent frame and back, or the other way round,
  returns the point, for every finite pose, whatever its roll, pitch and yaw.
\<close>

lemma transform_point_roundtrip:
  assumes "finite_pose t" and "finite_point p"
  shows "inverse_transform_point t (transform_point t p) = p \<and> transform_point t (inverse_transform_point t p) = p"
proof -
  have t: "finite_point (position t)" "finite_point (rotation_rpy t)" using assms(1) by (simp_all add: finite_pose_def)
  have "finite_point (vec_subtract p (position t))"
    using t(1) assms(2) by (auto simp: vec_subtract_def finite_point_def)
  then show ?thesis
    using vec_subtract_add t assms(2) finite_rotate inverse_rotate_rotate
    by (simp add: transform_point_def inverse_transform_point_def)
qed

lemma transform_point_roundtrip_witness:
  "let t = \<lparr>position = vec3 1 2 3, rotation_rpy = vec3 (Fin (pi / 2)) 0 (Fin (pi / 2))\<rparr>
   in inverse_transform_point t (transform_point t (vec3 4 5 6)) = vec3 4 5 6"
  using transform_point_roundtrip [of "\<lparr>position = vec3 1 2 3, rotation_rpy = vec3 (Fin (pi / 2)) 0 (Fin (pi / 2))\<rparr>" "vec3 4 5 6"]
  by (simp add: finite_pose_def Let_def)

text \<open>
  composing two poses that only turn about the vertical axis gives, for every such finite
  pair, a pose whose point transform is the composition of theirs.
\<close>

lemma compose_pose_yaw_only:
  assumes "finite_point a" "finite_point b" "finite_point p"
  shows "\<exists>t. compose_pose (make_yaw_pose a (Fin u)) (make_yaw_pose b (Fin v)) = Some t \<and>
     transform_point t p = transform_point (make_yaw_pose a (Fin u)) (transform_point (make_yaw_pose b (Fin v)) p)"
proof -
  obtain y k where y: "normalize_angle (Fin (u + v)) = Some (Fin y)" "y = (u + v) + 2 * pi * real_of_int k"
    using normalize_angle_Fin by blast
  have sc: "sin y = sin u * cos v + cos u * sin v" "cos y = cos u * cos v - sin u * sin v"
    using wrap_sin_cos [of "u + v" k] by (simp_all only: y(2) sin_add [of u v] cos_add [of u v])
  obtain a1 a2 a3 b1 b2 b3 p1 p2 p3 where
    "a = vec3 (Fin a1) (Fin a2) (Fin a3)" "b = vec3 (Fin b1) (Fin b2) (Fin b3)" "p = vec3 (Fin p1) (Fin p2) (Fin p3)"
    using assms by (meson finite_pointE)
  with y(1) show ?thesis
    by (simp add: compose_pose_def make_yaw_pose_def pose_defs Let_def sc) (simp add: algebra_simps)
qed

lemma compose_pose_yaw_only_witness:
  "\<exists>t. compose_pose (make_yaw_pose (vec3 1 0 0) (Fin pi)) (make_yaw_pose (vec3 0 1 0) (Fin pi)) = Some t \<and>
     transform_point t (vec3 1 1 1) = vec3 2 0 1"
  using compose_pose_yaw_only [of "vec3 1 0 0" "vec3 0 1 0" "vec3 1 1 1" pi pi]
  by (simp add: make_yaw_pose_def pose_defs Let_def)

text \<open>
  \<open>inverse_pose\<close> inverts the point transform of a pose with a single non-zero angle.
\<close>

lemma inverse_pose_single_axis:
  assumes "finite_point a" "finite_point p"
    and "rpy \<in> {vec3 (Fin u) 0 0, vec3 0 (Fin u) 0, vec3 0 0 (Fin u)}"
  shows "transform_point (inverse_pose \<lparr>position = a, rotation_rpy = rpy\<rparr>) p =
     inverse_transform_point \<lparr>position = a, rotation_rpy = rpy\<rparr> p"
proof -
  obtain a1 a2 a3 p1 p2 p3 where
    "a = vec3 (Fin a1) (Fin a2) (Fin a3)" "p = vec3 (Fin p1) (Fin p2) (Fin p3)"
    using assms by (meson finite_pointE)
  with assms(3) show ?thesis
    by (auto simp: inverse_pose_def pose_defs Let_def algebra_simps)
qed

text \<open>
  With two non-zero angles negating the three angles is not the inverse rotation: for a quarter
  roll and a quarter yaw at the origin, \<open>inverse_pose\<close> sends the forward axis to another axis than
  the inverse transform does.
\<close>

lemma inverse_pose_wrong_for_two_axes:
  "transform_point (inverse_pose \<lparr>position = vec3_zero, rotation_rpy = vec3 (Fin (pi / 2)) 0 (Fin (pi / 2))\<rparr>) (vec3 1 0 0)
     = vec3 0 (- 1) 0 \<and>
   inverse_transform_point \<lparr>position = vec3_zero, rotation_rpy = vec3 (Fin (pi / 2)) 0 (Fin (pi / 2))\<rparr> (vec3 1 0 0)
     = vec3 0 0 1"
  by (simp add: inverse_pose_def pose_defs Let_def)

end
