(* ===== verification/World_State.thy ===== *)
theory World_State
  imports Pose_Transform Occupancy_Types
begin

text \<open>
  The parts of \<open>core/types.hpp\<close> and \<open>world_model/world_snapshot.hpp\<close> that the modelled
  consumers of a world snapshot read: the ego state, the agents, the flight-control state and the
  obstacle evidence.  The snapshot's other lists (containers, zones, corridors, landmarks, debug
  attachments) are carried by no modelled operation and have no field here.
\<close>

datatype ClassLabel =
    ClassUnknown | Person | Drone | Car | Boat | Animal | House | Building | Tree | Road | River
  | Terrain | Pole | Wall | Fence | Cable | Obstacle

datatype FactionLabel = FactionUnknown | Friendly | Neutral | Hostile

datatype AgentLifecycle = LifeNew | LifeActive | LifeOccluded | LifeContained | LifeStale | LifeRetired

datatype EgoFlightStatus = FlightUnknown | Landed | Airborne

datatype FlightControlArmState =
    ArmUnknown | Disarmed | ArmRequested | ArmedConfirmed | DisarmRequested | DisarmedConfirmed
  | ArmFailed | DisarmFailed

record FlightControlState =
  fc_arm_state :: FlightControlArmState
  fc_updated_at :: TimePoint
  fc_last_arm_request_at :: TimePoint
  fc_last_disarm_request_at :: TimePoint
  fc_status :: string

record EgoState =
  ego_timestamp :: TimePoint
  ego_local_T_body :: Pose3
  ego_velocity_local :: Vec3
  ego_angular_velocity_body :: Vec3
  ego_covariance :: "double list"
  ego_map_frame_id :: MapFrameId
  ego_height_m :: double
  ego_height_valid :: bool
  ego_armed :: bool
  ego_armed_valid :: bool
  ego_flight_status :: EgoFlightStatus
  ego_confidence :: double
  ego_home_T_body :: "Pose3 option"
  ego_home_timestamp :: "TimePoint option"

text \<open>An agent; its image-space evidence (boxes, detection and frame ids) is not read here.\<close>

record AgentState =
  ag_agent_id :: string
  ag_identity_id :: string
  ag_source_track_id :: string
  ag_last_seen :: TimePoint
  ag_position_local :: Vec3
  ag_velocity_local :: Vec3
  ag_map_frame_id :: MapFrameId
  ag_class_label :: ClassLabel
  ag_faction :: FactionLabel
  ag_lifecycle :: AgentLifecycle
  ag_confidence :: double

record WorldSnapshot =
  ws_timestamp :: TimePoint
  ws_ego :: EgoState
  ws_flight_control :: FlightControlState
  ws_agents :: "AgentState list"
  ws_obstacle_evidence :: "ObstacleEvidence list"

end
