(* ===== verification/Local_Flight_Map.thy ===== *)
theory Local_Flight_Map
  imports World_State Obstacle_Map
begin

text \<open>
  The ego-local flight map, L0 (\<open>avoidance/local_flight_map*.cpp\<close>): a bounded grid around the
  vehicle, filled either from raw evidence with decay (\<open>update\<close>) or, in the running stack, as a
  projection of the mission-local obstacle map (\<open>update_from_mission_local_map\<close>), then
  classified, inflated by the vehicle radius and summarised.

  Grid indices and their products are unbounded integers.  The polar risk map and the sensor
  observations of a snapshot are not modelled, and neither are the fields that hold them.
\<close>

section \<open>Data\<close>

record LocalFlightMapConfig =
  lfc_cell_size_m :: double
  lfc_forward_range_m :: double
  lfc_rear_range_m :: double
  lfc_lateral_range_m :: double
  lfc_occupied_score_hit :: double
  lfc_thin_risk_score_hit :: double
  lfc_free_score_hit :: double
  lfc_decay_half_life_s :: double
  lfc_occupied_threshold :: double
  lfc_risk_threshold :: double
  lfc_vehicle_radius_m :: double
  lfc_safety_margin_m :: double
  lfc_max_evidence_range_m :: double
  lfc_max_evidence_per_update :: nat

definition LocalFlightMapConfig_default :: LocalFlightMapConfig where
  "LocalFlightMapConfig_default =
    \<lparr>lfc_cell_size_m = Fin (1/2), lfc_forward_range_m = 30, lfc_rear_range_m = 6,
     lfc_lateral_range_m = 15, lfc_occupied_score_hit = 1, lfc_thin_risk_score_hit = 1,
     lfc_free_score_hit = Fin (1/4), lfc_decay_half_life_s = 1,
     lfc_occupied_threshold = Fin (65/100), lfc_risk_threshold = Fin (65/100),
     lfc_vehicle_radius_m = Fin (45/100), lfc_safety_margin_m = 1,
     lfc_max_evidence_range_m = 35, lfc_max_evidence_per_update = 512\<rparr>"

record LocalFlightMapCell =
  lc_center_local :: Vec3
  lc_occupied_score :: double
  lc_free_score :: double
  lc_risk_score :: double
  lc_nearest_range_m :: double
  lc_min_z_m :: double
  lc_max_z_m :: double
  lc_last_observed_ns :: u64
  lc_occupied :: bool
  lc_inflated_blocked :: bool
  lc_recently_observed :: bool

definition LocalFlightMapCell_default :: LocalFlightMapCell where
  "LocalFlightMapCell_default =
    \<lparr>lc_center_local = vec3_zero, lc_occupied_score = 0, lc_free_score = 0, lc_risk_score = 0,
     lc_nearest_range_m = PInf, lc_min_z_m = 0, lc_max_z_m = 0, lc_last_observed_ns = 0,
     lc_occupied = False, lc_inflated_blocked = False, lc_recently_observed = False\<rparr>"

record LocalFlightMapSnapshot =
  lfs_timestamp :: TimePoint
  lfs_source_frame_id :: string
  lfs_has_source_frame :: bool
  lfs_cell_size_m :: double
  lfs_x_cells :: int
  lfs_y_cells :: int
  lfs_forward_range_m :: double
  lfs_rear_range_m :: double
  lfs_lateral_range_m :: double
  lfs_cells :: "LocalFlightMapCell list"
  lfs_occupied_count :: nat
  lfs_inflated_blocked_count :: nat
  lfs_nearest_obstacle_m :: double
  lfs_source_mission_cell_count :: nat
  lfs_projected_mission_cell_count :: nat
  lfs_projected_local_cell_update_count :: nat
  lfs_exclusion_inflation_radius_m :: double

record LocalFlightMap =
  lfm_config :: LocalFlightMapConfig
  lfm_latest :: LocalFlightMapSnapshot
  lfm_last_update_ns :: u64
  lfm_has_last_update :: bool

text \<open>A \<open>LocalFlightMapIndex\<close> is the pair of its two fields.\<close>

type_synonym GridIndex = "int \<times> int"

section \<open>Helpers\<close>

text \<open>\<open>std::pow(0.5, x)\<close>.\<close>

fun pow_half :: "double \<Rightarrow> double" where
  "pow_half (Fin x) = Fin ((1/2) powr x)"
| "pow_half PInf = 0"
| "pow_half NInf = PInf"
| "pow_half NaN = NaN"

definition lfm_timestamp_ns :: "TimePoint \<Rightarrow> u64" where
  "lfm_timestamp_ns t = word_of_int (timestamp_ns t)"

definition is_finite_positive :: "double \<Rightarrow> bool" where
  "is_finite_positive v \<longleftrightarrow> isfinite v \<and> 0 < v"

definition clamp_non_negative :: "double \<Rightarrow> double" where
  "clamp_non_negative v = (if v < 0 then 0 else v)"

definition lfm_clamp01 :: "double \<Rightarrow> double" where
  "lfm_clamp01 v = (if \<not> isfinite v \<or> v \<le> 0 then 0 else if 1 \<le> v then 1 else v)"

definition local_range_m :: "Vec3 \<Rightarrow> double" where
  "local_range_m l = std_sqrt (vx l * vx l + vy l * vy l + vz l * vz l)"

definition flat_index :: "LocalFlightMapSnapshot \<Rightarrow> int \<Rightarrow> int \<Rightarrow> int" where
  "flat_index s ix iy = iy * lfs_x_cells s + ix"

definition cell_center_local :: "LocalFlightMapConfig \<Rightarrow> int \<Rightarrow> int \<Rightarrow> Vec3" where
  "cell_center_local c ix iy =
     vec3 (- lfc_rear_range_m c + Fin (of_int ix + 1/2) * lfc_cell_size_m c)
          (- lfc_lateral_range_m c + Fin (of_int iy + 1/2) * lfc_cell_size_m c) 0"

definition lfm_local_to_grid :: "LocalFlightMapConfig \<Rightarrow> LocalFlightMapSnapshot \<Rightarrow> Vec3 \<Rightarrow> GridIndex option" where
  "lfm_local_to_grid c s l =
     (if vx l < - lfc_rear_range_m c \<or> lfc_forward_range_m c \<le> vx l then None
      else if vy l < - lfc_lateral_range_m c \<or> lfc_lateral_range_m c \<le> vy l then None
      else let ix = floor_to_int ((vx l + lfc_rear_range_m c) / lfc_cell_size_m c);
               iy = floor_to_int ((vy l + lfc_lateral_range_m c) / lfc_cell_size_m c)
           in if ix < 0 \<or> lfs_x_cells s \<le> ix \<or> iy < 0 \<or> lfs_y_cells s \<le> iy then None
              else Some (ix, iy))"

definition grid_inside :: "LocalFlightMapSnapshot \<Rightarrow> GridIndex \<Rightarrow> bool" where
  "grid_inside s i \<longleftrightarrow> \<not> (fst i < 0 \<or> lfs_x_cells s \<le> fst i \<or> snd i < 0 \<or> lfs_y_cells s \<le> snd i)"

definition lfm_cell_at :: "LocalFlightMapSnapshot \<Rightarrow> GridIndex \<Rightarrow> LocalFlightMapCell option" where
  "lfm_cell_at s i =
     (if grid_inside s i then Some (lfs_cells s ! nat (flat_index s (fst i) (snd i))) else None)"

text \<open>Writing through the pointer that \<open>mutable_cell_at\<close> returns; a null pointer is skipped.\<close>

definition modify_grid_cell ::
    "GridIndex \<Rightarrow> (LocalFlightMapCell \<Rightarrow> LocalFlightMapCell) \<Rightarrow> LocalFlightMapSnapshot \<Rightarrow> LocalFlightMapSnapshot" where
  "modify_grid_cell i f s =
     (if grid_inside s i
      then let n = nat (flat_index s (fst i) (snd i))
           in s\<lparr>lfs_cells := (lfs_cells s)[n := f (lfs_cells s ! n)]\<rparr>
      else s)"

text \<open>The offsets of the nested loops over \<open>dy\<close> and \<open>dx\<close> that pass the disc test, in loop order.\<close>

definition disc_offsets :: "int \<Rightarrow> GridIndex list" where
  "disc_offsets r =
     filter (\<lambda>(dx, dy). \<not> r * r < dx * dx + dy * dy)
       (concat (map (\<lambda>dy. map (\<lambda>dx. (dx, dy)) [- r..r]) [- r..r]))"

definition offset_index :: "GridIndex \<Rightarrow> GridIndex \<Rightarrow> GridIndex" where
  "offset_index i d = (fst i + fst d, snd i + snd d)"

definition grid_indices :: "LocalFlightMapSnapshot \<Rightarrow> GridIndex list" where
  "grid_indices s =
     concat (map (\<lambda>iy. map (\<lambda>ix. (ix, iy)) [0..lfs_x_cells s - 1]) [0..lfs_y_cells s - 1])"

definition footprint_radius_cells :: "LocalFlightMapConfig \<Rightarrow> double \<Rightarrow> int" where
  "footprint_radius_cells c r = (if r \<le> 0 then 0 else max 0 (ceil_to_int (r / lfc_cell_size_m c)))"

definition evidence_footprint_radius_m :: "LocalFlightMapConfig \<Rightarrow> ObstacleEvidence \<Rightarrow> double" where
  "evidence_footprint_radius_m c e =
     (let radius = std_max (lfc_cell_size_m c) (ev_radius_m e);
          footprint_xy_m = std_max (vx (ev_size_m e)) (vy (ev_size_m e));
          radius = std_max radius (Fin (1/2) * footprint_xy_m)
      in if ev_shape e = SurfacePatch then std_max radius (Fin (1/2) * lfc_cell_size_m c) else radius)"

definition evidence_is_usable :: "LocalFlightMapConfig \<Rightarrow> LocalFlightMapSnapshot \<Rightarrow> ObstacleEvidence \<Rightarrow> bool" where
  "evidence_is_usable c s e \<longleftrightarrow>
     (ev_source_kind e = DepthProvider \<or> ev_source_kind e = AirSimGroundTruthVisualEmulation \<or>
      ev_source_kind e = VisualObstacleDetector) \<and>
     \<not> (lfc_max_evidence_range_m c < ev_range_m e \<and> is_finite_positive (ev_range_m e)) \<and>
     ev_state e \<noteq> EvUnknown \<and> lfm_local_to_grid c s (ev_center_local e) \<noteq> None"

section \<open>Operations\<close>

definition count_cell :: "LocalFlightMapCell \<Rightarrow> LocalFlightMapSnapshot \<Rightarrow> LocalFlightMapSnapshot" where
  "count_cell cell s =
     (let s = (if lc_occupied cell
               then s\<lparr>lfs_occupied_count := lfs_occupied_count s + 1,
                      lfs_nearest_obstacle_m := std_min (lfs_nearest_obstacle_m s) (lc_nearest_range_m cell)\<rparr>
               else s)
      in if lc_inflated_blocked cell
         then s\<lparr>lfs_inflated_blocked_count := lfs_inflated_blocked_count s + 1\<rparr> else s)"

definition update_summary :: "LocalFlightMapSnapshot \<Rightarrow> LocalFlightMapSnapshot" where
  "update_summary s =
     fold count_cell (lfs_cells s)
       (s\<lparr>lfs_occupied_count := 0, lfs_inflated_blocked_count := 0, lfs_nearest_obstacle_m := PInf\<rparr>)"

definition reset_cells :: "LocalFlightMapConfig \<Rightarrow> LocalFlightMapSnapshot \<Rightarrow> LocalFlightMapSnapshot" where
  "reset_cells c s =
     update_summary
       (s\<lparr>lfs_cells := map (\<lambda>i. LocalFlightMapCell_default\<lparr>lc_center_local := cell_center_local c (fst i) (snd i)\<rparr>)
                         (grid_indices s)\<rparr>)"

definition LocalFlightMap_init :: "LocalFlightMapConfig \<Rightarrow> LocalFlightMap" where
  "LocalFlightMap_init config =
     (let c = config;
          c = (if lfc_cell_size_m c \<le> 0 then c\<lparr>lfc_cell_size_m := Fin (1/2)\<rparr> else c);
          c = (if lfc_forward_range_m c \<le> 0 then c\<lparr>lfc_forward_range_m := 30\<rparr> else c);
          c = (if lfc_rear_range_m c < 0 then c\<lparr>lfc_rear_range_m := 0\<rparr> else c);
          c = (if lfc_lateral_range_m c \<le> 0 then c\<lparr>lfc_lateral_range_m := 15\<rparr> else c);
          x_cells = ceil_to_int ((lfc_forward_range_m c + lfc_rear_range_m c) / lfc_cell_size_m c);
          y_cells = ceil_to_int ((2 * lfc_lateral_range_m c) / lfc_cell_size_m c);
          s = \<lparr>lfs_timestamp = \<lparr>timestamp_ns = 0\<rparr>, lfs_source_frame_id = [], lfs_has_source_frame = False,
               lfs_cell_size_m = lfc_cell_size_m c, lfs_x_cells = max 1 x_cells, lfs_y_cells = max 1 y_cells,
               lfs_forward_range_m = lfc_forward_range_m c, lfs_rear_range_m = lfc_rear_range_m c,
               lfs_lateral_range_m = lfc_lateral_range_m c, lfs_cells = [], lfs_occupied_count = 0,
               lfs_inflated_blocked_count = 0, lfs_nearest_obstacle_m = PInf,
               lfs_source_mission_cell_count = 0, lfs_projected_mission_cell_count = 0,
               lfs_projected_local_cell_update_count = 0, lfs_exclusion_inflation_radius_m = 0\<rparr>
      in \<lparr>lfm_config = c, lfm_latest = reset_cells c s, lfm_last_update_ns = 0, lfm_has_last_update = False\<rparr>)"

definition floor_score :: "double \<Rightarrow> double" where
  "floor_score v = (if v < Fin (1/1000) then 0 else v)"

definition lfm_decay_cell :: "double \<Rightarrow> LocalFlightMapCell \<Rightarrow> LocalFlightMapCell" where
  "lfm_decay_cell decay cell =
     (let cell = cell\<lparr>lc_occupied_score := floor_score (lc_occupied_score cell * decay),
                      lc_free_score := floor_score (lc_free_score cell * decay),
                      lc_risk_score := floor_score (lc_risk_score cell * decay),
                      lc_recently_observed := False\<rparr>
      in if deq (lc_occupied_score cell) 0 \<and> deq (lc_risk_score cell) 0
         then cell\<lparr>lc_nearest_range_m := PInf\<rparr> else cell)"

definition decay_scores :: "TimePoint \<Rightarrow> LocalFlightMap \<Rightarrow> LocalFlightMap" where
  "decay_scores t m =
     (let now_ns = lfm_timestamp_ns t; c = lfm_config m
      in if \<not> lfm_has_last_update m \<or> now_ns \<le> lfm_last_update_ns m then m
         else let dt_s = Fin (real (unat (now_ns - lfm_last_update_ns m)) / 1000000000)
              in if dt_s \<le> 0 then m
                 else let decay = (if lfc_decay_half_life_s c \<le> 0 then 0
                                   else pow_half (dt_s / lfc_decay_half_life_s c))
                      in m\<lparr>lfm_latest := (lfm_latest m)
                            \<lparr>lfs_cells := map (lfm_decay_cell decay) (lfs_cells (lfm_latest m))\<rparr>\<rparr>)"

definition splat_hit ::
    "LocalFlightMapConfig \<Rightarrow> u64 \<Rightarrow> ObstacleEvidence \<Rightarrow> LocalFlightMapCell \<Rightarrow> LocalFlightMapCell" where
  "splat_hit c now_ns e cell =
     (let confidence = std_clamp (ev_confidence e) (Fin (5/100)) 1;
          occupied_delta = lfc_occupied_score_hit c * confidence;
          risk_delta = (if ev_state e = EvThinStructureRisk \<or> ev_is_thin_structure_hint e
                        then lfc_thin_risk_score_hit c * confidence else 0)
      in cell\<lparr>lc_occupied_score := std_min 1 (lc_occupied_score cell + occupied_delta),
              lc_risk_score := std_min 1 (lc_risk_score cell + risk_delta),
              lc_free_score := std_max 0 (lc_free_score cell - Fin (1/4) * occupied_delta),
              lc_nearest_range_m := (if is_finite_positive (ev_range_m e)
                then std_min (lc_nearest_range_m cell) (ev_range_m e) else lc_nearest_range_m cell),
              lc_min_z_m := vz (ev_center_local e) - Fin (1/2) * vz (ev_size_m e),
              lc_max_z_m := vz (ev_center_local e) + Fin (1/2) * vz (ev_size_m e),
              lc_last_observed_ns := now_ns, lc_recently_observed := True\<rparr>)"

definition splat_occupied_evidence ::
    "LocalFlightMapConfig \<Rightarrow> TimePoint \<Rightarrow> ObstacleEvidence \<Rightarrow> LocalFlightMapSnapshot \<Rightarrow> LocalFlightMapSnapshot" where
  "splat_occupied_evidence c t e s =
     (case lfm_local_to_grid c s (ev_center_local e) of
        None \<Rightarrow> s
      | Some center \<Rightarrow>
          fold (\<lambda>d. modify_grid_cell (offset_index center d) (splat_hit c (lfm_timestamp_ns t) e))
            (disc_offsets (footprint_radius_cells c (evidence_footprint_radius_m c e))) s)"

definition free_observation ::
    "LocalFlightMapConfig \<Rightarrow> u64 \<Rightarrow> ObstacleEvidence \<Rightarrow> LocalFlightMapCell \<Rightarrow> LocalFlightMapCell" where
  "free_observation c now_ns e cell =
     (let confidence = std_clamp (ev_confidence e) (Fin (5/100)) 1;
          free_delta = lfc_free_score_hit c * confidence
      in cell\<lparr>lc_free_score := std_min 1 (lc_free_score cell + free_delta),
              lc_occupied_score := clamp_non_negative (lc_occupied_score cell - Fin (15/100) * free_delta),
              lc_risk_score := clamp_non_negative (lc_risk_score cell - Fin (10/100) * free_delta),
              lc_last_observed_ns := now_ns, lc_recently_observed := True\<rparr>)"

definition splat_free_evidence ::
    "LocalFlightMapConfig \<Rightarrow> TimePoint \<Rightarrow> ObstacleEvidence \<Rightarrow> LocalFlightMapSnapshot \<Rightarrow> LocalFlightMapSnapshot" where
  "splat_free_evidence c t e s =
     (case lfm_local_to_grid c s (ev_center_local e) of
        None \<Rightarrow> s
      | Some center \<Rightarrow> modify_grid_cell center (free_observation c (lfm_timestamp_ns t) e) s)"

definition ingest_single_evidence ::
    "LocalFlightMapConfig \<Rightarrow> TimePoint \<Rightarrow> ObstacleEvidence \<Rightarrow> LocalFlightMapSnapshot \<Rightarrow> LocalFlightMapSnapshot" where
  "ingest_single_evidence c t e s =
     (case ev_state e of
        EvOccupied \<Rightarrow> splat_occupied_evidence c t e s
      | EvThinStructureRisk \<Rightarrow> splat_occupied_evidence c t e s
      | EvFree \<Rightarrow> splat_free_evidence c t e s
      | EvUnknown \<Rightarrow> s)"

fun ingest_obstacle_evidence ::
    "LocalFlightMapConfig \<Rightarrow> TimePoint \<Rightarrow> nat \<Rightarrow> ObstacleEvidence list \<Rightarrow> LocalFlightMapSnapshot \<Rightarrow> LocalFlightMapSnapshot" where
  "ingest_obstacle_evidence c t consumed [] s = s"
| "ingest_obstacle_evidence c t consumed (e # es) s =
     (if lfc_max_evidence_per_update c \<le> consumed then s
      else if \<not> evidence_is_usable c s e then ingest_obstacle_evidence c t consumed es s
      else ingest_obstacle_evidence c t (consumed + 1) es (ingest_single_evidence c t e s))"

definition classify_cell :: "LocalFlightMapConfig \<Rightarrow> LocalFlightMapCell \<Rightarrow> LocalFlightMapCell" where
  "classify_cell c cell =
     cell\<lparr>lc_occupied := (lfc_occupied_threshold c \<le> lc_occupied_score cell \<or>
                          lfc_risk_threshold c \<le> lc_risk_score cell),
          lc_inflated_blocked := False\<rparr>"

definition classify_cells :: "LocalFlightMapConfig \<Rightarrow> LocalFlightMapSnapshot \<Rightarrow> LocalFlightMapSnapshot" where
  "classify_cells c s = s\<lparr>lfs_cells := map (classify_cell c) (lfs_cells s)\<rparr>"

definition inflation_radius_m :: "LocalFlightMapConfig \<Rightarrow> double" where
  "inflation_radius_m c = std_max 0 (lfc_vehicle_radius_m c + lfc_safety_margin_m c)"

definition block_cell :: "LocalFlightMapCell \<Rightarrow> LocalFlightMapCell" where
  "block_cell cell = cell\<lparr>lc_inflated_blocked := True\<rparr>"

definition occupied_grid_indices :: "LocalFlightMapSnapshot \<Rightarrow> GridIndex list" where
  "occupied_grid_indices s =
     filter (\<lambda>i. case lfm_cell_at s i of None \<Rightarrow> False | Some cell \<Rightarrow> lc_occupied cell) (grid_indices s)"

definition inflate_blocked_cells :: "LocalFlightMapConfig \<Rightarrow> LocalFlightMapSnapshot \<Rightarrow> LocalFlightMapSnapshot" where
  "inflate_blocked_cells c s =
     (let inflation_cells = footprint_radius_cells c (inflation_radius_m c)
      in if inflation_cells \<le> 0
         then s\<lparr>lfs_cells := map (\<lambda>cell. cell\<lparr>lc_inflated_blocked := lc_occupied cell\<rparr>) (lfs_cells s)\<rparr>
         else fold (\<lambda>i s. fold (\<lambda>d. modify_grid_cell (offset_index i d) block_cell)
                            (disc_offsets inflation_cells) s)
                (occupied_grid_indices s) s)"

definition lfm_update :: "WorldSnapshot \<Rightarrow> LocalFlightMap \<Rightarrow> LocalFlightMap" where
  "lfm_update w m =
     (let c = lfm_config m; t = ws_timestamp w; es = ws_obstacle_evidence w;
          s = (lfm_latest m)\<lparr>lfs_timestamp := t, lfs_source_frame_id := [], lfs_has_source_frame := False,
                lfs_source_mission_cell_count := 0, lfs_projected_mission_cell_count := 0,
                lfs_projected_local_cell_update_count := 0,
                lfs_exclusion_inflation_radius_m := inflation_radius_m c\<rparr>;
          s = (if es \<noteq> [] \<and> ev_has_source_frame (hd es)
               then s\<lparr>lfs_source_frame_id := ev_source_frame_id (hd es), lfs_has_source_frame := True\<rparr> else s);
          m = decay_scores t (m\<lparr>lfm_latest := s\<rparr>);
          s = update_summary (inflate_blocked_cells c (classify_cells c
                (ingest_obstacle_evidence c t 0 es (lfm_latest m))))
      in m\<lparr>lfm_latest := s, lfm_last_update_ns := lfm_timestamp_ns t, lfm_has_last_update := True\<rparr>)"

definition project_hit ::
    "u64 \<Rightarrow> ObstacleCell \<Rightarrow> Vec3 \<Rightarrow> LocalFlightMapCell \<Rightarrow> LocalFlightMapCell" where
  "project_hit now_ns mission_cell center_local cell =
     cell\<lparr>lc_occupied_score := std_max (lc_occupied_score cell) (lfm_clamp01 (oc_occupied_score mission_cell)),
          lc_free_score := std_max (lc_free_score cell) (lfm_clamp01 (oc_free_score mission_cell)),
          lc_risk_score := std_max (lc_risk_score cell) (lfm_clamp01 (oc_risk_score mission_cell)),
          lc_nearest_range_m := std_min (lc_nearest_range_m cell) (local_range_m center_local),
          lc_min_z_m := vz center_local - Fin (1/2) * vz (oc_size_m mission_cell),
          lc_max_z_m := vz center_local + Fin (1/2) * vz (oc_size_m mission_cell),
          lc_last_observed_ns := max (lc_last_observed_ns cell)
            (if oc_last_observed_timestamp_ns mission_cell \<noteq> 0
             then oc_last_observed_timestamp_ns mission_cell else now_ns),
          lc_recently_observed := True\<rparr>"

definition project_at ::
    "u64 \<Rightarrow> ObstacleCell \<Rightarrow> Vec3 \<Rightarrow> GridIndex \<Rightarrow> bool \<times> LocalFlightMapSnapshot \<Rightarrow> bool \<times> LocalFlightMapSnapshot" where
  "project_at now_ns mission_cell center_local i st =
     (let s = snd st
      in if \<not> grid_inside s i then st
         else (True, (modify_grid_cell i (project_hit now_ns mission_cell center_local) s)
                 \<lparr>lfs_projected_local_cell_update_count := lfs_projected_local_cell_update_count s + 1\<rparr>))"

definition mission_radius_cells :: "LocalFlightMapConfig \<Rightarrow> ObstacleCell \<Rightarrow> int" where
  "mission_radius_cells c mission_cell =
     (let footprint_xy_m = std_max (vx (oc_size_m mission_cell)) (vy (oc_size_m mission_cell));
          footprint_radius_m = std_max (lfc_cell_size_m c) (Fin (1/2) * footprint_xy_m)
      in if oc_occupied mission_cell then footprint_radius_cells c footprint_radius_m else 0)"

definition project_mission_cell ::
    "LocalFlightMapConfig \<Rightarrow> Pose3 \<Rightarrow> u64 \<Rightarrow> ObstacleCell \<Rightarrow> LocalFlightMapSnapshot \<Rightarrow> LocalFlightMapSnapshot" where
  "project_mission_cell c map_T_body now_ns mission_cell s =
     (if \<not> oc_observed mission_cell then s
      else if \<not> oc_occupied mission_cell \<and> \<not> oc_free mission_cell \<and> oc_risk_score mission_cell \<le> 0 then s
      else let center_local = inverse_transform_point map_T_body (oc_center_map mission_cell)
           in case lfm_local_to_grid c s center_local of
                None \<Rightarrow> s
              | Some center \<Rightarrow>
                  let (projected_any, s) =
                        fold (\<lambda>d. project_at now_ns mission_cell center_local (offset_index center d))
                          (disc_offsets (mission_radius_cells c mission_cell)) (False, s)
                  in if projected_any
                     then s\<lparr>lfs_projected_mission_cell_count := lfs_projected_mission_cell_count s + 1\<rparr> else s)"

definition update_from_mission_local_map ::
    "ObstacleMapSnapshot \<Rightarrow> Pose3 \<Rightarrow> TimePoint \<Rightarrow> LocalFlightMap \<Rightarrow> LocalFlightMap" where
  "update_from_mission_local_map mission_map map_T_body t m =
     (let c = lfm_config m; now_ns = lfm_timestamp_ns t;
          s = (lfm_latest m)\<lparr>lfs_timestamp := t, lfs_source_frame_id := [], lfs_has_source_frame := False\<rparr>;
          s = reset_cells c s;
          s = s\<lparr>lfs_source_mission_cell_count := oms_observed_cell_count (omp_summary mission_map),
                lfs_projected_mission_cell_count := 0, lfs_projected_local_cell_update_count := 0,
                lfs_exclusion_inflation_radius_m := inflation_radius_m c\<rparr>;
          s = fold (project_mission_cell c map_T_body now_ns) (omp_cells mission_map) s;
          s = update_summary (inflate_blocked_cells c (classify_cells c s))
      in m\<lparr>lfm_latest := s, lfm_last_update_ns := now_ns, lfm_has_last_update := True\<rparr>)"

end
