(* ===== verification/Local_Flight_Grid.thy ===== *)
theory Local_Flight_Grid
  imports Local_Flight_Map
begin

text \<open>
  The grid of the flight map as a store: what a lookup returns after a cell is modified, after a
  disc of cells is stamped, and after the inflation pass.
\<close>

section \<open>A store of indexed cells\<close>

text \<open>
  The contract between the grid and the passes over it: modifying the cell at an index changes that
  cell, when the index is inside, and no other.
\<close>

locale cell_store =
  fixes get :: "'s \<Rightarrow> 'i \<Rightarrow> 'c option"
    and modify :: "'i \<Rightarrow> ('c \<Rightarrow> 'c) \<Rightarrow> 's \<Rightarrow> 's"
    and wf :: "'s \<Rightarrow> bool"
  assumes get_modify: "wf s \<Longrightarrow> get (modify i f s) j = (if j = i then map_option f (get s j) else get s j)"
    and wf_modify: "wf s \<Longrightarrow> wf (modify i f s)"
begin

lemma wf_stamp: "wf s \<Longrightarrow> wf (fold (\<lambda>i. modify i f) is s)"
  by (induction "is" arbitrary: s) (simp_all add: wf_modify)

lemma get_stamp:
  assumes "wf s" and "distinct is"
  shows "get (fold (\<lambda>i. modify i f) is s) j = (if j \<in> set is then map_option f (get s j) else get s j)"
  using assms by (induction "is" arbitrary: s) (auto simp: get_modify wf_modify)

text \<open>Stamping an idempotent change may visit an index more than once.\<close>

lemma get_stamp_idem:
  assumes "wf s" and "\<And>c. f (f c) = f c"
  shows "get (fold (\<lambda>i. modify i f) is s) j = (if j \<in> set is then map_option f (get s j) else get s j)"
  using assms(1)
proof (induction "is" arbitrary: s)
  case (Cons i "is")
  then show ?case by (cases "get s j") (auto simp: get_modify wf_modify assms(2))
qed simp

lemma stamp_concat: "fold (\<lambda>i. fold (\<lambda>i. modify i f) (g i)) xs s = fold (\<lambda>i. modify i f) (concat (map g xs)) s"
  by (induction xs arbitrary: s) simp_all

end

section \<open>The grid is such a store\<close>

definition grid_wf :: "LocalFlightMapSnapshot \<Rightarrow> bool" where
  "grid_wf s \<longleftrightarrow> 0 < lfs_x_cells s \<and> 0 < lfs_y_cells s \<and>
     length (lfs_cells s) = nat (lfs_x_cells s * lfs_y_cells s)"

lemma grid_inside_iff:
  "grid_inside s (ix, iy) \<longleftrightarrow> 0 \<le> ix \<and> ix < lfs_x_cells s \<and> 0 \<le> iy \<and> iy < lfs_y_cells s"
  by (auto simp: grid_inside_def)

lemma flat_index_bounds:
  assumes "grid_inside s (ix, iy)"
  shows "0 \<le> flat_index s ix iy" and "flat_index s ix iy < lfs_x_cells s * lfs_y_cells s"
proof -
  from assms have b: "0 \<le> ix" "ix < lfs_x_cells s" "0 \<le> iy" "iy + 1 \<le> lfs_y_cells s"
    by (auto simp: grid_inside_iff)
  then show "0 \<le> flat_index s ix iy" by (simp add: flat_index_def)
  have "(iy + 1) * lfs_x_cells s \<le> lfs_y_cells s * lfs_x_cells s"
    using b by (intro mult_right_mono) auto
  then show "flat_index s ix iy < lfs_x_cells s * lfs_y_cells s"
    using b(2) unfolding flat_index_def by (simp add: algebra_simps)
qed

lemma flat_index_inj:
  assumes "grid_inside s (ix, iy)" and "grid_inside s (jx, jy)" and "flat_index s ix iy = flat_index s jx jy"
  shows "ix = jx \<and> iy = jy"
proof -
  from assms have b: "0 \<le> ix" "ix < lfs_x_cells s" "0 \<le> jx" "jx < lfs_x_cells s" by (auto simp: grid_inside_iff)
  from assms(3) have e: "iy * lfs_x_cells s + ix = jy * lfs_x_cells s + jx" by (simp add: flat_index_def)
  have "(iy * lfs_x_cells s + ix) mod lfs_x_cells s = ix" "(jy * lfs_x_cells s + jx) mod lfs_x_cells s = jx"
    using b by simp_all
  with e have "ix = jx" by simp
  with e b show ?thesis by auto
qed

lemma flat_nat_less:
  "grid_wf s \<Longrightarrow> grid_inside s (ix, iy) \<Longrightarrow> nat (flat_index s ix iy) < length (lfs_cells s)"
  using flat_index_bounds [of s ix iy] by (simp add: grid_wf_def)

lemma flat_nat_inj:
  "grid_inside s (ix, iy) \<Longrightarrow> grid_inside s (jx, jy) \<Longrightarrow>
   nat (flat_index s ix iy) = nat (flat_index s jx jy) \<longleftrightarrow> (ix, iy) = (jx, jy)"
  using flat_index_inj [of s ix iy jx jy] flat_index_bounds(1) [of s] by (auto simp: eq_nat_nat_iff)

lemma modify_grid_cell_frame [simp]:
  "lfs_x_cells (modify_grid_cell i f s) = lfs_x_cells s"
  "lfs_y_cells (modify_grid_cell i f s) = lfs_y_cells s"
  "length (lfs_cells (modify_grid_cell i f s)) = length (lfs_cells s)"
  "grid_inside (modify_grid_cell i f s) j = grid_inside s j"
  "flat_index (modify_grid_cell i f s) = flat_index s"
  by (auto simp: modify_grid_cell_def grid_inside_def flat_index_def Let_def fun_eq_iff)

interpretation lfm_grid: cell_store lfm_cell_at modify_grid_cell grid_wf
proof
  fix s i f j
  assume wf: "grid_wf s"
  then show "grid_wf (modify_grid_cell i f s)" by (simp add: grid_wf_def)
  show "lfm_cell_at (modify_grid_cell i f s) j = (if j = i then map_option f (lfm_cell_at s j) else lfm_cell_at s j)"
  proof (cases "grid_inside s i \<and> grid_inside s j")
    case True
    obtain ix iy jx jy where ij: "i = (ix, iy)" "j = (jx, jy)" by (cases i; cases j)
    with True have "nat (flat_index s ix iy) = nat (flat_index s jx jy) \<longleftrightarrow> i = j"
      "nat (flat_index s ix iy) < length (lfs_cells s)"
      using flat_nat_inj flat_nat_less [OF wf] by simp_all
    with True ij show ?thesis
      by (auto simp: lfm_cell_at_def modify_grid_cell_def Let_def grid_inside_def flat_index_def)
  next
    case False
    then show ?thesis
      by (auto simp: lfm_cell_at_def modify_grid_cell_def Let_def grid_inside_def flat_index_def)
  qed
qed

section \<open>Discs\<close>

lemma set_disc_offsets:
  assumes "0 \<le> r"
  shows "set (disc_offsets r) = {(dx, dy). dx * dx + dy * dy \<le> r * r}"
proof -
  have "\<bar>a\<bar> \<le> r" if "a * a + b * b \<le> r * r" for a b :: int
  proof -
    have "a * a \<le> r * r" using that zero_le_square [of b] by linarith
    then show ?thesis using assms abs_le_square_iff [of a r] by (simp add: power2_eq_square)
  qed
  from this this [of b a for a b, unfolded add.commute [of "b * b" "a * a" for a b]]
  show ?thesis unfolding disc_offsets_def by (fastforce simp: abs_le_iff)
qed

lemma disc_offsets_zero: "disc_offsets 0 = [(0, 0)]"
  by (simp add: disc_offsets_def)

lemma distinct_grid:
  "distinct (concat (map (\<lambda>dy. map (\<lambda>dx. (dx, dy)) xs) ys)) \<longleftrightarrow> xs = [] \<or> ys = [] \<or> distinct xs \<and> distinct ys"
proof (induction ys)
  case (Cons y ys)
  then show ?case by (cases xs) (auto simp: distinct_map inj_on_def)
qed simp

lemma distinct_disc_offsets: "distinct (disc_offsets r)"
  unfolding disc_offsets_def by (intro distinct_filter) (simp add: distinct_grid)

lemma set_grid_indices: "set (grid_indices s) = {i. grid_inside s i}"
  by (auto simp: grid_indices_def grid_inside_def image_iff)

definition index_near :: "int \<Rightarrow> GridIndex \<Rightarrow> GridIndex \<Rightarrow> bool" where
  "index_near r i j \<longleftrightarrow> (fst j - fst i) * (fst j - fst i) + (snd j - snd i) * (snd j - snd i) \<le> r * r"

lemma mem_stamped: "0 \<le> r \<Longrightarrow> j \<in> set (map (offset_index i) (disc_offsets r)) \<longleftrightarrow> index_near r i j"
proof -
  assume "0 \<le> r"
  have "j = offset_index i d \<longleftrightarrow> d = (fst j - fst i, snd j - snd i)" for d
    by (auto simp: offset_index_def)
  then show ?thesis
    using \<open>0 \<le> r\<close> by (simp add: image_iff set_disc_offsets index_near_def split_beta)
qed

lemma mem_stamped_all:
  "0 \<le> r \<Longrightarrow> j \<in> set (concat (map (\<lambda>i. map (offset_index i) (disc_offsets r)) is)) \<longleftrightarrow>
     (\<exists>i\<in>set is. index_near r i j)"
proof (induction "is")
  case (Cons i "is")
  have "j \<in> set (concat (map (\<lambda>i. map (offset_index i) (disc_offsets r)) (i # is))) \<longleftrightarrow>
      j \<in> set (map (offset_index i) (disc_offsets r)) \<or>
      j \<in> set (concat (map (\<lambda>i. map (offset_index i) (disc_offsets r)) is))"
    by simp
  then show ?case unfolding Cons.IH [OF Cons.prems] mem_stamped [OF Cons.prems] by simp
qed simp

lemma distinct_stamped: "distinct (map (offset_index i) (disc_offsets r))"
  by (simp add: distinct_map distinct_disc_offsets inj_on_def offset_index_def prod_eq_iff)

section \<open>The passes\<close>

lemma lfm_cell_at_map:
  "grid_wf s \<Longrightarrow> lfm_cell_at (s\<lparr>lfs_cells := map f (lfs_cells s)\<rparr>) j = map_option f (lfm_cell_at s j)"
  using flat_nat_less [of s "fst j" "snd j"] by (auto simp: lfm_cell_at_def grid_inside_def flat_index_def)

lemma grid_wf_map: "grid_wf s \<Longrightarrow> grid_wf (s\<lparr>lfs_cells := map f (lfs_cells s)\<rparr>)"
  by (simp add: grid_wf_def)

lemma mem_occupied_grid_indices:
  "i \<in> set (occupied_grid_indices s) \<longleftrightarrow> (\<exists>cell. lfm_cell_at s i = Some cell \<and> lc_occupied cell)"
  by (auto simp: occupied_grid_indices_def set_grid_indices lfm_cell_at_def split: option.splits if_splits)

lemma footprint_radius_nonneg: "0 \<le> footprint_radius_cells c r"
  by (simp add: footprint_radius_cells_def)

lemma index_near_zero: "index_near 0 i j \<longleftrightarrow> j = i"
proof -
  have "a * a + b * b \<le> 0 \<longleftrightarrow> a = 0 \<and> b = 0" for a b :: int
    using sum_power2_le_zero_iff [of a b] by (simp add: power2_eq_square)
  then show ?thesis by (auto simp: index_near_def prod_eq_iff)
qed

text \<open>
  The inflation pass blocks exactly the cells within the inflation radius of an occupied one.  The
  branch for a zero radius gives the same result as a disc of radius zero.
\<close>

lemma inflate_lookup:
  assumes wf: "grid_wf s" and clear: "\<And>i cell. lfm_cell_at s i = Some cell \<Longrightarrow> \<not> lc_inflated_blocked cell"
  shows "lfm_cell_at (inflate_blocked_cells c s) j =
     map_option (\<lambda>cell. cell\<lparr>lc_inflated_blocked :=
        (\<exists>i cell'. lfm_cell_at s i = Some cell' \<and> lc_occupied cell' \<and>
           index_near (footprint_radius_cells c (inflation_radius_m c)) i j)\<rparr>) (lfm_cell_at s j)"
proof -
  let ?r = "footprint_radius_cells c (inflation_radius_m c)"
  let ?near = "\<exists>i cell'. lfm_cell_at s i = Some cell' \<and> lc_occupied cell' \<and> index_near ?r i j"
  show ?thesis
  proof (cases "?r \<le> 0")
    case True
    then have r0: "?r = 0" using footprint_radius_nonneg [of c] by (simp add: order_antisym)
    moreover have "?near \<longleftrightarrow> (\<exists>cell'. lfm_cell_at s j = Some cell' \<and> lc_occupied cell')"
      unfolding r0 index_near_zero by blast
    ultimately show ?thesis
      using wf by (cases "lfm_cell_at s j") (simp_all add: inflate_blocked_cells_def lfm_cell_at_map)
  next
    case False
    let ?all = "concat (map (\<lambda>i. map (offset_index i) (disc_offsets ?r)) (occupied_grid_indices s))"
    have "inflate_blocked_cells c s = fold (\<lambda>i. modify_grid_cell i block_cell) ?all s"
      using False unfolding lfm_grid.stamp_concat [symmetric]
      by (simp add: inflate_blocked_cells_def Let_def fold_map comp_def)
    then have get: "lfm_cell_at (inflate_blocked_cells c s) j =
        (if j \<in> set ?all then map_option block_cell (lfm_cell_at s j) else lfm_cell_at s j)"
      using lfm_grid.get_stamp_idem [OF wf, of block_cell ?all j] by (simp add: block_cell_def)
    have "j \<in> set ?all \<longleftrightarrow> ?near"
      unfolding mem_stamped_all [OF footprint_radius_nonneg] Bex_def mem_occupied_grid_indices by blast
    then show ?thesis
      unfolding get using clear by (cases "lfm_cell_at s j") (simp_all add: block_cell_def)
  qed
qed

lemma classify_lookup:
  "grid_wf s \<Longrightarrow> lfm_cell_at (classify_cells c s) j = map_option (classify_cell c) (lfm_cell_at s j)"
  by (simp add: classify_cells_def lfm_cell_at_map)

lemma inflate_wf: "grid_wf s \<Longrightarrow> grid_wf (inflate_blocked_cells c s)"
proof -
  assume wf: "grid_wf s"
  have "grid_wf (fold (\<lambda>i s. fold (\<lambda>d. modify_grid_cell (offset_index i d) block_cell) ds s) is s)" for ds "is"
    using wf
    by (intro fold_invariant_step [where P = grid_wf]) (auto intro!: fold_invariant_step [where P = grid_wf] lfm_grid.wf_modify)
  then show ?thesis using wf by (simp add: inflate_blocked_cells_def Let_def grid_wf_map)
qed

text \<open>The summary: counts and minimum over the cells, nothing else changed.\<close>

lemma count_cells:
  "fold count_cell cells s = s\<lparr>lfs_occupied_count := lfs_occupied_count s + length (filter lc_occupied cells),
     lfs_inflated_blocked_count := lfs_inflated_blocked_count s + length (filter lc_inflated_blocked cells),
     lfs_nearest_obstacle_m := fold (\<lambda>cell d. std_min d (lc_nearest_range_m cell)) (filter lc_occupied cells)
       (lfs_nearest_obstacle_m s)\<rparr>"
  by (induction cells arbitrary: s) (simp_all add: count_cell_def Let_def)

lemma update_summary_eq:
  "update_summary s = s\<lparr>lfs_occupied_count := length (filter lc_occupied (lfs_cells s)),
     lfs_inflated_blocked_count := length (filter lc_inflated_blocked (lfs_cells s)),
     lfs_nearest_obstacle_m := fold (\<lambda>cell d. std_min d (lc_nearest_range_m cell)) (filter lc_occupied (lfs_cells s)) PInf\<rparr>"
  by (simp add: update_summary_def count_cells)

lemma update_summary_frame [simp]:
  "lfm_cell_at (update_summary s) j = lfm_cell_at s j" "grid_wf (update_summary s) = grid_wf s"
  "lfs_cells (update_summary s) = lfs_cells s"
  "lfs_x_cells (update_summary s) = lfs_x_cells s" "lfs_y_cells (update_summary s) = lfs_y_cells s"
  by (simp_all add: update_summary_eq lfm_cell_at_def grid_inside_def flat_index_def grid_wf_def)

text \<open>Classification, inflation and summary, as both updates end.\<close>

definition finish_map :: "LocalFlightMapConfig \<Rightarrow> LocalFlightMapSnapshot \<Rightarrow> LocalFlightMapSnapshot" where
  "finish_map c s = update_summary (inflate_blocked_cells c (classify_cells c s))"

lemma finish_wf: "grid_wf s \<Longrightarrow> grid_wf (finish_map c s)"
  by (simp add: finish_map_def inflate_wf classify_cells_def grid_wf_map)

lemma finish_map_lookup:
  assumes "grid_wf s"
  shows "lfm_cell_at (finish_map c s) j =
     map_option (\<lambda>cell. (classify_cell c cell)\<lparr>lc_inflated_blocked :=
        (\<exists>i cell'. lfm_cell_at s i = Some cell' \<and> lc_occupied (classify_cell c cell') \<and>
           index_near (footprint_radius_cells c (inflation_radius_m c)) i j)\<rparr>) (lfm_cell_at s j)"
proof -
  have wf: "grid_wf (classify_cells c s)" using assms by (simp add: classify_cells_def grid_wf_map)
  have "\<not> lc_inflated_blocked cell" if "lfm_cell_at (classify_cells c s) i = Some cell" for i cell
    using that by (auto simp: classify_lookup [OF assms] classify_cell_def)
  from inflate_lookup [OF wf this] have
    "lfm_cell_at (inflate_blocked_cells c (classify_cells c s)) j =
     map_option (\<lambda>cell. cell\<lparr>lc_inflated_blocked :=
        (\<exists>i cell'. lfm_cell_at (classify_cells c s) i = Some cell' \<and> lc_occupied cell' \<and>
           index_near (footprint_radius_cells c (inflation_radius_m c)) i j)\<rparr>) (lfm_cell_at (classify_cells c s) j)" .
  moreover have "(\<exists>i cell'. lfm_cell_at (classify_cells c s) i = Some cell' \<and> lc_occupied cell' \<and> P i) \<longleftrightarrow>
     (\<exists>i cell'. lfm_cell_at s i = Some cell' \<and> lc_occupied (classify_cell c cell') \<and> P i)" for P
    by (auto simp: classify_lookup [OF assms])
  ultimately show ?thesis
    by (simp only: finish_map_def update_summary_frame classify_lookup [OF assms] option.map_comp comp_def)
qed

end
