(* ===== verification/Local_Flight_Invariant.thy ===== *)
theory Local_Flight_Invariant
  imports Local_Flight_Grid
begin

text \<open>
  The invariant of the flight map and that every operation keeps it: the grid has its size, every
  cell its centre, every score stays in \<open>[0,1]\<close>, and the published summary is the one a scan of the
  cells gives.  The projection of the mission map is described cell by cell.
\<close>

section \<open>Properties of all cells\<close>

definition grid_all :: "(GridIndex \<Rightarrow> LocalFlightMapCell \<Rightarrow> bool) \<Rightarrow> LocalFlightMapSnapshot \<Rightarrow> bool" where
  "grid_all P s \<longleftrightarrow> grid_wf s \<and> (\<forall>j cell. lfm_cell_at s j = Some cell \<longrightarrow> P j cell)"

lemma grid_all_modify:
  assumes "grid_all P s" and "\<And>cell. P i cell \<Longrightarrow> P i (f cell)"
  shows "grid_all P (modify_grid_cell i f s)"
  using assms by (auto simp: grid_all_def lfm_grid.get_modify lfm_grid.wf_modify split: if_splits)

lemma grid_all_map:
  assumes "grid_all P s" and "\<And>j cell. P j cell \<Longrightarrow> P j (f cell)"
  shows "grid_all P (s\<lparr>lfs_cells := map f (lfs_cells s)\<rparr>)"
  using assms by (auto simp: grid_all_def lfm_cell_at_map grid_wf_map)

lemma lfm_cell_at_cong:
  "lfs_cells s' = lfs_cells s \<Longrightarrow> lfs_x_cells s' = lfs_x_cells s \<Longrightarrow> lfs_y_cells s' = lfs_y_cells s \<Longrightarrow>
   lfm_cell_at s' = lfm_cell_at s \<and> grid_wf s' = grid_wf s"
  by (auto simp: lfm_cell_at_def grid_inside_def flat_index_def grid_wf_def fun_eq_iff)

lemma grid_all_cong:
  "lfs_cells s' = lfs_cells s \<Longrightarrow> lfs_x_cells s' = lfs_x_cells s \<Longrightarrow> lfs_y_cells s' = lfs_y_cells s \<Longrightarrow>
   grid_all P s' = grid_all P s"
  using lfm_cell_at_cong [of s' s] by (simp add: grid_all_def)

lemma grid_all_inflate:
  assumes "grid_all P s" and "\<And>j cell b. P j cell \<Longrightarrow> P j (cell\<lparr>lc_inflated_blocked := b\<rparr>)"
  shows "grid_all P (inflate_blocked_cells c s)"
proof -
  have "grid_all P (fold (\<lambda>i s. fold (\<lambda>d. modify_grid_cell (offset_index i d) block_cell) ds s) is s)" for ds "is"
    using assms(1)
    by (intro fold_invariant_step [where P = "grid_all P"] grid_all_modify) (simp_all only: block_cell_def assms(2))
  then show ?thesis
    using assms by (auto simp: inflate_blocked_cells_def Let_def intro: grid_all_map)
qed

lemma grid_all_finish:
  assumes "grid_all P s" and "\<And>j cell b d. P j cell \<Longrightarrow> P j (cell\<lparr>lc_occupied := b, lc_inflated_blocked := d\<rparr>)"
    and "\<And>j cell b. P j cell \<Longrightarrow> P j (cell\<lparr>lc_inflated_blocked := b\<rparr>)"
  shows "grid_all P (finish_map c s)"
proof -
  have "grid_all P (classify_cells c s)"
    using assms(1,2) by (simp add: classify_cells_def classify_cell_def grid_all_map)
  then have "grid_all P (inflate_blocked_cells c (classify_cells c s))"
    using assms(3) by (rule grid_all_inflate)
  then show ?thesis unfolding finish_map_def by (subst grid_all_cong) simp_all
qed

section \<open>A reset grid\<close>

lemma length_grid: "length (concat (map (\<lambda>y. map (\<lambda>x. f x y) xs) ys)) = length xs * length ys"
  by (induction ys) simp_all

lemma nth_grid:
  "i < length xs \<Longrightarrow> j < length ys \<Longrightarrow>
   concat (map (\<lambda>y. map (\<lambda>x. f x y) xs) ys) ! (j * length xs + i) = f (xs ! i) (ys ! j)"
proof (induction ys arbitrary: j)
  case (Cons y ys)
  then show ?case by (cases j) (simp_all add: nth_append)
qed simp

lemma grid_indices_nth:
  assumes "grid_inside s (ix, iy)"
  shows "grid_indices s ! nat (flat_index s ix iy) = (ix, iy)"
proof -
  let ?xs = "[0..lfs_x_cells s - 1]" and ?ys = "[0..lfs_y_cells s - 1]"
  from assms have b: "0 \<le> ix" "ix < lfs_x_cells s" "0 \<le> iy" "iy < lfs_y_cells s" by (simp_all add: grid_inside_iff)
  have "nat (flat_index s ix iy) = nat iy * length ?xs + nat ix"
    using b by (simp add: flat_index_def nat_add_distrib nat_mult_distrib)
  then have "grid_indices s ! nat (flat_index s ix iy) = (?xs ! nat ix, ?ys ! nat iy)"
    using b nth_grid [of "nat ix" ?xs "nat iy" ?ys Pair] by (simp add: grid_indices_def)
  then show ?thesis using b by simp
qed

lemma length_grid_indices:
  "0 < lfs_x_cells s \<Longrightarrow> 0 < lfs_y_cells s \<Longrightarrow> length (grid_indices s) = nat (lfs_x_cells s * lfs_y_cells s)"
  using length_grid [of Pair "[0..lfs_x_cells s - 1]" "[0..lfs_y_cells s - 1]"]
  by (simp add: grid_indices_def nat_mult_distrib)

definition fresh_local_cell :: "LocalFlightMapConfig \<Rightarrow> GridIndex \<Rightarrow> LocalFlightMapCell" where
  "fresh_local_cell c i = LocalFlightMapCell_default\<lparr>lc_center_local := cell_center_local c (fst i) (snd i)\<rparr>"

lemma reset_cells_lookup:
  assumes "0 < lfs_x_cells s" and "0 < lfs_y_cells s"
  shows "grid_wf (reset_cells c s)"
    and "lfm_cell_at (reset_cells c s) j = (if grid_inside s j then Some (fresh_local_cell c j) else None)"
proof -
  let ?s = "s\<lparr>lfs_cells := map (fresh_local_cell c) (grid_indices s)\<rparr>"
  have r: "reset_cells c s = update_summary ?s"
    unfolding reset_cells_def fresh_local_cell_def [abs_def] ..
  show "grid_wf (reset_cells c s)"
    using assms length_grid_indices [of s] by (simp add: r) (simp add: grid_wf_def)
  show "lfm_cell_at (reset_cells c s) j = (if grid_inside s j then Some (fresh_local_cell c j) else None)"
  proof (cases "grid_inside s j")
    case True
    obtain ix iy where j: "j = (ix, iy)" by (cases j)
    have "nat (flat_index s ix iy) < length (grid_indices s)"
      using flat_index_bounds [of s ix iy] True assms length_grid_indices [of s] by (simp add: j)
    moreover have "grid_inside ?s j" "flat_index ?s = flat_index s"
      using True by (simp_all add: grid_inside_def flat_index_def fun_eq_iff)
    ultimately show ?thesis
      using True grid_indices_nth [of s ix iy] unfolding r update_summary_frame by (simp add: lfm_cell_at_def j)
  next
    case False
    then show ?thesis by (simp add: r lfm_cell_at_def grid_inside_def)
  qed
qed

section \<open>The projection of the mission map\<close>

lemma project_at_step:
  "project_at ns mc cl i (b, s) =
     (b \<or> grid_inside s i, (modify_grid_cell i (project_hit ns mc cl) s)
        \<lparr>lfs_projected_local_cell_update_count := lfs_projected_local_cell_update_count s +
           (if grid_inside s i then 1 else 0)\<rparr>)"
  by (simp add: project_at_def modify_grid_cell_def)

lemma modify_grid_cell_count:
  "modify_grid_cell i f (t\<lparr>lfs_projected_local_cell_update_count := n\<rparr>) =
     (modify_grid_cell i f t)\<lparr>lfs_projected_local_cell_update_count := n\<rparr>"
  "fold (\<lambda>i. modify_grid_cell i f) is (t\<lparr>lfs_projected_local_cell_update_count := n\<rparr>) =
     (fold (\<lambda>i. modify_grid_cell i f) is t)\<lparr>lfs_projected_local_cell_update_count := n\<rparr>"
proof -
  show one: "modify_grid_cell i f (t\<lparr>lfs_projected_local_cell_update_count := n\<rparr>) =
     (modify_grid_cell i f t)\<lparr>lfs_projected_local_cell_update_count := n\<rparr>" for i f t n
    by (simp add: modify_grid_cell_def Let_def grid_inside_def flat_index_def)
  show "fold (\<lambda>i. modify_grid_cell i f) is (t\<lparr>lfs_projected_local_cell_update_count := n\<rparr>) =
     (fold (\<lambda>i. modify_grid_cell i f) is t)\<lparr>lfs_projected_local_cell_update_count := n\<rparr>"
    by (induction "is" arbitrary: t) (simp_all add: one)
qed

lemma project_fold:
  "fold (\<lambda>d. project_at ns mc cl (offset_index center d)) ds (b, s) =
     (b \<or> (\<exists>d\<in>set ds. grid_inside s (offset_index center d)),
      (fold (\<lambda>i. modify_grid_cell i (project_hit ns mc cl)) (map (offset_index center) ds) s)
        \<lparr>lfs_projected_local_cell_update_count := lfs_projected_local_cell_update_count s +
           length (filter (\<lambda>d. grid_inside s (offset_index center d)) ds)\<rparr>)"
proof (induction ds arbitrary: b s)
  case (Cons d ds)
  have "grid_inside (t\<lparr>lfs_projected_local_cell_update_count := n\<rparr>) i = grid_inside t i" for t n i
    by (simp add: grid_inside_def)
  then show ?case
    unfolding fold_simps list.map project_at_step Cons.IH modify_grid_cell_count
    by (auto simp: comp_def)
qed simp

text \<open>
  The index a mission cell projects to, when it is used at all, and the lookup after its
  projection: the cells within its footprint take its scores, no other cell changes.
\<close>

definition projected_index ::
    "LocalFlightMapConfig \<Rightarrow> LocalFlightMapSnapshot \<Rightarrow> Pose3 \<Rightarrow> ObstacleCell \<Rightarrow> GridIndex option" where
  "projected_index c s pose mc =
     (if \<not> oc_observed mc \<or> (\<not> oc_occupied mc \<and> \<not> oc_free mc \<and> oc_risk_score mc \<le> 0) then None
      else lfm_local_to_grid c s (inverse_transform_point pose (oc_center_map mc)))"

lemma mission_radius_nonneg: "0 \<le> mission_radius_cells c mc"
  by (simp add: mission_radius_cells_def Let_def footprint_radius_nonneg)

lemma project_mission_cell_lookup:
  assumes wf: "grid_wf s"
  shows "grid_wf (project_mission_cell c pose ns mc s)"
    and "lfm_cell_at (project_mission_cell c pose ns mc s) j =
      (case projected_index c s pose mc of
         None \<Rightarrow> lfm_cell_at s j
       | Some i \<Rightarrow> (if index_near (mission_radius_cells c mc) i j
           then map_option (project_hit ns mc (inverse_transform_point pose (oc_center_map mc))) (lfm_cell_at s j)
           else lfm_cell_at s j))"
proof -
  let ?cl = "inverse_transform_point pose (oc_center_map mc)" and ?r = "mission_radius_cells c mc"
  have "grid_wf (project_mission_cell c pose ns mc s) \<and>
      lfm_cell_at (project_mission_cell c pose ns mc s) j =
      (case projected_index c s pose mc of
         None \<Rightarrow> lfm_cell_at s j
       | Some i \<Rightarrow> (if index_near ?r i j then map_option (project_hit ns mc ?cl) (lfm_cell_at s j) else lfm_cell_at s j))"
  proof (cases "projected_index c s pose mc")
    case None
    then show ?thesis
      using wf by (auto simp: projected_index_def project_mission_cell_def Let_def split: if_splits)
  next
    case (Some i)
    let ?t = "fold (\<lambda>i. modify_grid_cell i (project_hit ns mc ?cl)) (map (offset_index i) (disc_offsets ?r)) s"
    have "lfs_cells (project_mission_cell c pose ns mc s) = lfs_cells ?t"
      "lfs_x_cells (project_mission_cell c pose ns mc s) = lfs_x_cells ?t"
      "lfs_y_cells (project_mission_cell c pose ns mc s) = lfs_y_cells ?t"
      using Some by (auto simp: projected_index_def project_mission_cell_def Let_def project_fold split: if_splits)
    from lfm_cell_at_cong [OF this] have "lfm_cell_at (project_mission_cell c pose ns mc s) = lfm_cell_at ?t"
      "grid_wf (project_mission_cell c pose ns mc s) = grid_wf ?t"
      by simp_all
    moreover have "grid_wf ?t" using wf by (rule lfm_grid.wf_stamp)
    moreover have "lfm_cell_at ?t j =
        (if index_near ?r i j then map_option (project_hit ns mc ?cl) (lfm_cell_at s j) else lfm_cell_at s j)"
      unfolding lfm_grid.get_stamp [OF wf distinct_stamped] mem_stamped [OF mission_radius_nonneg] ..
    ultimately show ?thesis using Some by simp
  qed
  then show "grid_wf (project_mission_cell c pose ns mc s)"
    and "lfm_cell_at (project_mission_cell c pose ns mc s) j =
      (case projected_index c s pose mc of
         None \<Rightarrow> lfm_cell_at s j
       | Some i \<Rightarrow> (if index_near ?r i j then map_option (project_hit ns mc ?cl) (lfm_cell_at s j) else lfm_cell_at s j))"
    by blast+
qed

end
