(* ===== verification/Local_Flight_Properties.thy ===== *)
theory Local_Flight_Properties
  imports Local_Flight_Invariant
begin

text \<open>
  The reachable states of the flight map and their properties: the invariant, the exact extent of
  the inflated obstacles, and the radius that the inflation covers.
\<close>

section \<open>Cells stay well formed\<close>

definition score_ok :: "double \<Rightarrow> bool" where
  "score_ok v \<longleftrightarrow> 0 \<le> v \<and> v \<le> 1"

definition local_cell_ok :: "LocalFlightMapConfig \<Rightarrow> GridIndex \<Rightarrow> LocalFlightMapCell \<Rightarrow> bool" where
  "local_cell_ok c j cell \<longleftrightarrow> lc_center_local cell = cell_center_local c (fst j) (snd j) \<and>
     score_ok (lc_occupied_score cell) \<and> score_ok (lc_free_score cell) \<and> score_ok (lc_risk_score cell)"

text \<open>The hit scores of the configuration are finite and not negative, the half life is a number.\<close>

definition hits_ok :: "LocalFlightMapConfig \<Rightarrow> bool" where
  "hits_ok c \<longleftrightarrow> isfinite (lfc_occupied_score_hit c) \<and> 0 \<le> lfc_occupied_score_hit c \<and>
     isfinite (lfc_thin_risk_score_hit c) \<and> 0 \<le> lfc_thin_risk_score_hit c \<and>
     isfinite (lfc_free_score_hit c) \<and> 0 \<le> lfc_free_score_hit c \<and> lfc_decay_half_life_s c \<noteq> NaN"

lemma clamp_confidence:
  assumes "v \<noteq> NaN"
  obtains x where "std_clamp v (Fin (5/100)) 1 = Fin x" "0 < x" "x \<le> 1"
proof -
  have "\<exists>x. std_clamp v (Fin (5/100)) 1 = Fin x \<and> 0 < x \<and> x \<le> 1"
    using assms by (cases v) (auto simp: std_clamp_def intro!: exI [of _ "1/20"])
  then show thesis using that by blast
qed

lemma score_ok_iff: "score_ok v \<longleftrightarrow> (\<exists>x. v = Fin x \<and> 0 \<le> x \<and> x \<le> 1)"
  by (cases v) (auto simp: score_ok_def)

lemma score_raise: "score_ok v \<Longrightarrow> 0 \<le> d \<Longrightarrow> score_ok (std_min 1 (v + Fin d))"
  by (auto simp: score_ok_iff std_min_def)

lemma score_lower:
  "score_ok v \<Longrightarrow> 0 \<le> d \<Longrightarrow> score_ok (std_max 0 (v - Fin d))"
  "score_ok v \<Longrightarrow> 0 \<le> d \<Longrightarrow> score_ok (clamp_non_negative (v - Fin d))"
  by (auto simp: score_ok_iff std_max_def clamp_non_negative_def)

lemma score_max: "score_ok u \<Longrightarrow> score_ok v \<Longrightarrow> score_ok (std_max u v)"
  by (simp add: std_max_def)

lemma score_clamp01: "score_ok (lfm_clamp01 v)"
  by (cases v) (auto simp: score_ok_iff lfm_clamp01_def)

lemma score_decay: "score_ok v \<Longrightarrow> 0 \<le> d \<Longrightarrow> d \<le> 1 \<Longrightarrow> score_ok (floor_score (v * Fin d))"
  by (auto simp: score_ok_iff floor_score_def mult_le_one)

lemma Fin_nonneg: "isfinite v \<Longrightarrow> 0 \<le> v \<Longrightarrow> \<exists>x. v = Fin x \<and> 0 \<le> x"
  by (cases v) simp_all

lemma splat_hit_ok:
  assumes "local_cell_ok c j cell" and "hits_ok c" and "ev_confidence e \<noteq> NaN"
  shows "local_cell_ok c j (splat_hit c ns e cell)"
proof -
  obtain x where x: "std_clamp (ev_confidence e) (Fin (5/100)) 1 = Fin x" "0 < x"
    using assms(3) by (rule clamp_confidence)
  obtain h r where h: "lfc_occupied_score_hit c = Fin h" "0 \<le> h" "lfc_thin_risk_score_hit c = Fin r" "0 \<le> r"
    using assms(2) Fin_nonneg by (metis hits_ok_def)
  have "0 \<le> h * x" "0 \<le> r * x" "0 \<le> h * x / 4" using h x by simp_all
  with assms(1) x h show ?thesis
    using score_raise [of _ "h * x"] score_raise [of _ "r * x"] score_raise [of _ 0] score_lower(1) [of _ "h * x / 4"]
    by (simp add: local_cell_ok_def splat_hit_def Let_def)
qed

lemma free_observation_ok:
  assumes "local_cell_ok c j cell" and "hits_ok c" and "ev_confidence e \<noteq> NaN"
  shows "local_cell_ok c j (free_observation c ns e cell)"
proof -
  obtain x where x: "std_clamp (ev_confidence e) (Fin (5/100)) 1 = Fin x" "0 < x"
    using assms(3) by (rule clamp_confidence)
  obtain h where h: "lfc_free_score_hit c = Fin h" "0 \<le> h"
    using assms(2) Fin_nonneg by (metis hits_ok_def)
  have d: "0 \<le> h * x" "0 \<le> 15 / 100 * (h * x)" "0 \<le> 10 / 100 * (h * x)" using h x by simp_all
  with assms(1) show ?thesis
    using score_raise [of _ "h * x"] score_lower(2) [of _ "15 / 100 * (h * x)"] score_lower(2) [of _ "10 / 100 * (h * x)"]
    unfolding local_cell_ok_def free_observation_def Let_def x(1) h(1) times_double.simps by simp
qed

lemma pow_half_unit:
  assumes "0 < dt" and "\<not> h \<le> 0" and "h \<noteq> NaN"
  shows "\<exists>d. pow_half (Fin dt / h) = Fin d \<and> 0 \<le> d \<and> d \<le> 1"
proof (cases h)
  case (Fin x)
  then have "0 < x" using assms(2) by simp
  then have "(1/2::real) powr (dt / x) \<le> 1" using assms(1) by (intro powr_le1) simp_all
  then show ?thesis using Fin \<open>0 < x\<close> by simp
qed (use assms in simp_all)

lemma lfm_decay_cell_ok:
  "local_cell_ok c j cell \<Longrightarrow> 0 \<le> d \<Longrightarrow> d \<le> 1 \<Longrightarrow> local_cell_ok c j (lfm_decay_cell (Fin d) cell)"
  by (simp add: local_cell_ok_def lfm_decay_cell_def Let_def score_decay)

lemma project_hit_ok: "local_cell_ok c j cell \<Longrightarrow> local_cell_ok c j (project_hit ns mc cl cell)"
  by (simp add: local_cell_ok_def project_hit_def score_max score_clamp01)

lemma fresh_local_cell_ok: "local_cell_ok c j (fresh_local_cell c j)"
  by (simp add: local_cell_ok_def fresh_local_cell_def LocalFlightMapCell_default_def score_ok_def)

section \<open>What the operations leave alone\<close>

definition geometry :: "LocalFlightMapSnapshot \<Rightarrow> double \<times> int \<times> int \<times> double \<times> double \<times> double" where
  "geometry s = (lfs_cell_size_m s, lfs_x_cells s, lfs_y_cells s, lfs_forward_range_m s, lfs_rear_range_m s,
     lfs_lateral_range_m s)"

lemma geometry_modify [simp]: "geometry (modify_grid_cell i f s) = geometry s"
  by (simp add: modify_grid_cell_def geometry_def Let_def)

lemma geometry_fold [simp]: "(\<And>x s. geometry (f x s) = geometry s) \<Longrightarrow> geometry (fold f xs s) = geometry s"
  by (induction xs arbitrary: s) simp_all

lemma geometry_ops [simp]:
  "geometry (update_summary s) = geometry s" "geometry (classify_cells c s) = geometry s"
  "geometry (inflate_blocked_cells c s) = geometry s" "geometry (reset_cells c s) = geometry s"
  "geometry (splat_occupied_evidence c t e s) = geometry s" "geometry (splat_free_evidence c t e s) = geometry s"
proof -
  show sum: "geometry (update_summary s) = geometry s" for s by (simp add: update_summary_eq geometry_def)
  show "geometry (classify_cells c s) = geometry s" by (simp add: classify_cells_def geometry_def)
  show "geometry (inflate_blocked_cells c s) = geometry s"
    by (auto simp: inflate_blocked_cells_def Let_def geometry_def [of "_\<lparr>lfs_cells := _\<rparr>"]) (simp add: geometry_def)
  show "geometry (reset_cells c s) = geometry s" by (simp add: reset_cells_def sum) (simp add: geometry_def)
  show "geometry (splat_occupied_evidence c t e s) = geometry s"
    by (simp add: splat_occupied_evidence_def split: option.split)
  show "geometry (splat_free_evidence c t e s) = geometry s"
    by (simp add: splat_free_evidence_def split: option.split)
qed

lemma geometry_ingest [simp]: "geometry (ingest_obstacle_evidence c t n es s) = geometry s"
proof (induction c t n es s rule: ingest_obstacle_evidence.induct)
  case (2 c t n e es s)
  have "geometry (ingest_single_evidence c t e s) = geometry s"
    by (simp add: ingest_single_evidence_def split: ObstacleEvidenceState.split)
  with 2 show ?case by simp
qed simp

lemma geometry_project [simp]: "geometry (project_mission_cell c pose ns mc s) = geometry s"
proof -
  have "geometry (t\<lparr>lfs_projected_local_cell_update_count := n\<rparr>) = geometry t"
    "geometry (t\<lparr>lfs_projected_mission_cell_count := n\<rparr>) = geometry t" for t n
    by (simp_all add: geometry_def)
  then show ?thesis by (simp add: project_mission_cell_def Let_def project_fold split: option.split)
qed

lemma geometry_finish [simp]: "geometry (finish_map c s) = geometry s"
  by (simp add: finish_map_def)

lemma update_summary_idem: "update_summary (finish_map c s) = finish_map c s"
  by (simp add: finish_map_def update_summary_eq)

section \<open>The invariant\<close>

definition lfm_ok :: "LocalFlightMap \<Rightarrow> bool" where
  "lfm_ok m \<longleftrightarrow> (let s = lfm_latest m; c = lfm_config m in
     grid_all (local_cell_ok c) s \<and> update_summary s = s \<and>
     lfs_cell_size_m s = lfc_cell_size_m c \<and> lfs_forward_range_m s = lfc_forward_range_m c \<and>
     lfs_rear_range_m s = lfc_rear_range_m c \<and> lfs_lateral_range_m s = lfc_lateral_range_m c)"

lemma grid_all_geometry: "grid_all P s \<Longrightarrow> 0 < lfs_x_cells s \<and> 0 < lfs_y_cells s"
  by (simp add: grid_all_def grid_wf_def)

lemma grid_all_reset:
  "0 < lfs_x_cells s \<Longrightarrow> 0 < lfs_y_cells s \<Longrightarrow> grid_all (local_cell_ok c) (reset_cells c s)"
  by (simp add: grid_all_def reset_cells_lookup fresh_local_cell_ok)

lemma grid_all_ingest:
  assumes "grid_all (local_cell_ok c) s" and "hits_ok c" and "\<forall>e\<in>set es. ev_confidence e \<noteq> NaN"
  shows "grid_all (local_cell_ok c) (ingest_obstacle_evidence c t n es s)"
  using assms
proof (induction c t n es s rule: ingest_obstacle_evidence.induct)
  case (2 c t n e es s)
  have "grid_all (local_cell_ok c) (ingest_single_evidence c t e s)"
    using 2(3-5)
    by (auto simp: ingest_single_evidence_def splat_occupied_evidence_def splat_free_evidence_def
        intro!: fold_invariant_step [where P = "grid_all (local_cell_ok c)"] grid_all_modify
        intro: splat_hit_ok free_observation_ok split: ObstacleEvidenceState.split option.split)
  with 2 show ?case by simp
qed simp

lemma decay_scores_cases:
  assumes "lfc_decay_half_life_s (lfm_config m) \<noteq> NaN"
  shows "decay_scores t m = m \<or>
    (\<exists>d. 0 \<le> d \<and> d \<le> 1 \<and> decay_scores t m =
       m\<lparr>lfm_latest := (lfm_latest m)\<lparr>lfs_cells := map (lfm_decay_cell (Fin d)) (lfs_cells (lfm_latest m))\<rparr>\<rparr>)"
proof -
  let ?h = "lfc_decay_half_life_s (lfm_config m)"
  define dt where "dt = real (unat (lfm_timestamp_ns t - lfm_last_update_ns m)) / 1000000000"
  have eq: "decay_scores t m =
      (if \<not> lfm_has_last_update m \<or> lfm_timestamp_ns t \<le> lfm_last_update_ns m then m
       else if Fin dt \<le> 0 then m
       else m\<lparr>lfm_latest := (lfm_latest m)
         \<lparr>lfs_cells := map (lfm_decay_cell (if ?h \<le> 0 then 0 else pow_half (Fin dt / ?h))) (lfs_cells (lfm_latest m))\<rparr>\<rparr>)"
    unfolding decay_scores_def Let_def dt_def ..
  show ?thesis
  proof (cases "0 < dt")
    case True
    then have "\<exists>d. (if ?h \<le> 0 then 0 else pow_half (Fin dt / ?h)) = Fin d \<and> 0 \<le> d \<and> d \<le> 1"
      using pow_half_unit [OF True _ assms] by (cases "?h \<le> 0") auto
    then obtain d where d: "(if ?h \<le> 0 then 0 else pow_half (Fin dt / ?h)) = Fin d" "0 \<le> d" "d \<le> 1" by blast
    have "decay_scores t m = m \<or> decay_scores t m =
       m\<lparr>lfm_latest := (lfm_latest m)\<lparr>lfs_cells := map (lfm_decay_cell (Fin d)) (lfs_cells (lfm_latest m))\<rparr>\<rparr>"
      unfolding eq d(1) by presburger
    with d(2,3) show ?thesis by blast
  qed (simp add: eq)
qed

lemma grid_all_decay:
  assumes "grid_all (local_cell_ok (lfm_config m)) (lfm_latest m)" and "hits_ok (lfm_config m)"
  shows "grid_all (local_cell_ok (lfm_config m)) (lfm_latest (decay_scores t m))"
  using decay_scores_cases [of m t] assms
  by (auto simp: hits_ok_def intro!: grid_all_map intro: lfm_decay_cell_ok)

lemma decay_scores_frame [simp]:
  "lfm_config (decay_scores t m) = lfm_config m" "geometry (lfm_latest (decay_scores t m)) = geometry (lfm_latest m)"
  by (simp_all add: decay_scores_def Let_def geometry_def)

lemma lfm_okI:
  assumes "grid_all (local_cell_ok (lfm_config m)) s" and "geometry s = geometry (lfm_latest m)" and "lfm_ok m"
  shows "lfm_ok (m\<lparr>lfm_latest := finish_map (lfm_config m) s, lfm_last_update_ns := ns, lfm_has_last_update := b\<rparr>)"
proof -
  have "grid_all (local_cell_ok (lfm_config m)) (finish_map (lfm_config m) s)"
    using assms(1) by (rule grid_all_finish) (simp_all add: local_cell_ok_def)
  moreover have "geometry (finish_map (lfm_config m) s) = geometry (lfm_latest m)" using assms(2) by simp
  ultimately show ?thesis
    using assms(3) unfolding lfm_ok_def Let_def geometry_def by (simp add: update_summary_idem)
qed

text \<open>Both updates, as the grid they hand to classification, inflation and summary.\<close>

definition begin_evidence :: "WorldSnapshot \<Rightarrow> LocalFlightMap \<Rightarrow> LocalFlightMapSnapshot" where
  "begin_evidence w m =
     (let c = lfm_config m; t = ws_timestamp w; es = ws_obstacle_evidence w;
          s = (lfm_latest m)\<lparr>lfs_timestamp := t, lfs_source_frame_id := [], lfs_has_source_frame := False,
                lfs_source_mission_cell_count := 0, lfs_projected_mission_cell_count := 0,
                lfs_projected_local_cell_update_count := 0,
                lfs_exclusion_inflation_radius_m := inflation_radius_m c\<rparr>
      in if es \<noteq> [] \<and> ev_has_source_frame (hd es)
         then s\<lparr>lfs_source_frame_id := ev_source_frame_id (hd es), lfs_has_source_frame := True\<rparr> else s)"

definition update_grid :: "WorldSnapshot \<Rightarrow> LocalFlightMap \<Rightarrow> LocalFlightMapSnapshot" where
  "update_grid w m = ingest_obstacle_evidence (lfm_config m) (ws_timestamp w) 0 (ws_obstacle_evidence w)
     (lfm_latest (decay_scores (ws_timestamp w) (m\<lparr>lfm_latest := begin_evidence w m\<rparr>)))"

definition begin_mission :: "ObstacleMapSnapshot \<Rightarrow> TimePoint \<Rightarrow> LocalFlightMap \<Rightarrow> LocalFlightMapSnapshot" where
  "begin_mission mission_map t m =
     (reset_cells (lfm_config m)
        ((lfm_latest m)\<lparr>lfs_timestamp := t, lfs_source_frame_id := [], lfs_has_source_frame := False\<rparr>))
       \<lparr>lfs_source_mission_cell_count := oms_observed_cell_count (omp_summary mission_map),
        lfs_projected_mission_cell_count := 0, lfs_projected_local_cell_update_count := 0,
        lfs_exclusion_inflation_radius_m := inflation_radius_m (lfm_config m)\<rparr>"

definition mission_grid :: "ObstacleMapSnapshot \<Rightarrow> Pose3 \<Rightarrow> TimePoint \<Rightarrow> LocalFlightMap \<Rightarrow> LocalFlightMapSnapshot" where
  "mission_grid mission_map map_T_body t m =
     fold (project_mission_cell (lfm_config m) map_T_body (lfm_timestamp_ns t)) (omp_cells mission_map)
       (begin_mission mission_map t m)"

lemma update_eq:
  "lfm_latest (lfm_update w m) = finish_map (lfm_config m) (update_grid w m)"
  "lfm_latest (update_from_mission_local_map mm pose t m) = finish_map (lfm_config m) (mission_grid mm pose t m)"
  by (simp_all add: lfm_update_def update_from_mission_local_map_def update_grid_def mission_grid_def
      begin_evidence_def begin_mission_def finish_map_def Let_def)

lemma update_grid_ok:
  assumes "lfm_ok m" and "hits_ok (lfm_config m)" and "\<forall>e\<in>set (ws_obstacle_evidence w). ev_confidence e \<noteq> NaN"
  shows "grid_all (local_cell_ok (lfm_config m)) (update_grid w m) \<and> geometry (update_grid w m) = geometry (lfm_latest m)"
proof -
  let ?s = "begin_evidence w m"
  have s: "geometry ?s = geometry (lfm_latest m)" "lfs_cells ?s = lfs_cells (lfm_latest m)"
    by (simp_all add: begin_evidence_def Let_def geometry_def)
  have "grid_all (local_cell_ok (lfm_config m)) ?s"
    using assms(1) grid_all_cong [of ?s "lfm_latest m"] s by (simp add: lfm_ok_def geometry_def Let_def)
  then have "grid_all (local_cell_ok (lfm_config m)) (lfm_latest (decay_scores (ws_timestamp w) (m\<lparr>lfm_latest := ?s\<rparr>)))"
    using grid_all_decay [of "m\<lparr>lfm_latest := ?s\<rparr>"] assms(2) by simp
  then have "grid_all (local_cell_ok (lfm_config m)) (update_grid w m)"
    unfolding update_grid_def using assms(2,3) by (rule grid_all_ingest)
  then show ?thesis by (simp add: s update_grid_def)
qed

lemma project_keeps:
  assumes "grid_all (local_cell_ok c) s"
  shows "grid_all (local_cell_ok c) (project_mission_cell c pose ns mc s)"
proof -
  have "local_cell_ok c j cell" if "lfm_cell_at (project_mission_cell c pose ns mc s) j = Some cell" for j cell
    using that assms unfolding grid_all_def
    by (cases j) (auto simp: project_mission_cell_lookup(2) project_hit_ok split: option.splits if_splits)
  then show ?thesis using assms project_mission_cell_lookup(1) by (simp add: grid_all_def)
qed

lemma mission_grid_ok:
  assumes "lfm_ok m"
  shows "grid_all (local_cell_ok (lfm_config m)) (mission_grid mm pose t m) \<and>
     geometry (mission_grid mm pose t m) = geometry (lfm_latest m)"
proof -
  let ?r = "reset_cells (lfm_config m)
    ((lfm_latest m)\<lparr>lfs_timestamp := t, lfs_source_frame_id := [], lfs_has_source_frame := False\<rparr>)"
  let ?s = "begin_mission mm t m"
  have s: "geometry ?s = geometry ?r" "lfs_cells ?s = lfs_cells ?r"
    by (simp_all add: begin_mission_def geometry_def)
  have "grid_all (local_cell_ok (lfm_config m)) ?r"
    using assms grid_all_geometry by (intro grid_all_reset) (auto simp: lfm_ok_def Let_def)
  then have "grid_all (local_cell_ok (lfm_config m)) ?s"
    using grid_all_cong [of ?s ?r] s unfolding geometry_def by blast
  then have "grid_all (local_cell_ok (lfm_config m)) (mission_grid mm pose t m)"
    unfolding mission_grid_def
    by (intro fold_invariant_step [where P = "grid_all (local_cell_ok (lfm_config m))"] project_keeps)
  moreover have "geometry ?s = geometry (lfm_latest m)" unfolding s(1) by simp (simp add: geometry_def)
  ultimately show ?thesis by (simp add: mission_grid_def)
qed

section \<open>Reachable states\<close>

inductive lfm_reach :: "LocalFlightMapConfig \<Rightarrow> LocalFlightMap \<Rightarrow> bool" for c where
  lfm_start: "lfm_reach c (LocalFlightMap_init c)"
| lfm_evidence: "lfm_reach c m \<Longrightarrow> \<forall>e\<in>set (ws_obstacle_evidence w). ev_confidence e \<noteq> NaN \<Longrightarrow>
    lfm_reach c (lfm_update w m)"
| lfm_mission: "lfm_reach c m \<Longrightarrow> lfm_reach c (update_from_mission_local_map mm pose t m)"

lemma init_ok: "lfm_ok (LocalFlightMap_init c)"
proof -
  have "\<exists>d s. LocalFlightMap_init c = \<lparr>lfm_config = d, lfm_latest = reset_cells d s, lfm_last_update_ns = 0,
      lfm_has_last_update = False\<rparr> \<and> 0 < lfs_x_cells s \<and> 0 < lfs_y_cells s \<and> geometry s =
      (lfc_cell_size_m d, lfs_x_cells s, lfs_y_cells s, lfc_forward_range_m d, lfc_rear_range_m d, lfc_lateral_range_m d)"
    unfolding LocalFlightMap_init_def Let_def by (intro exI conjI, rule refl) (simp_all add: geometry_def)
  then obtain d s where ds: "LocalFlightMap_init c = \<lparr>lfm_config = d, lfm_latest = reset_cells d s, lfm_last_update_ns = 0,
      lfm_has_last_update = False\<rparr>" "0 < lfs_x_cells s" "0 < lfs_y_cells s" "geometry (reset_cells d s) =
      (lfc_cell_size_m d, lfs_x_cells s, lfs_y_cells s, lfc_forward_range_m d, lfc_rear_range_m d, lfc_lateral_range_m d)"
    by auto
  moreover have "update_summary (reset_cells d s) = reset_cells d s"
    by (simp add: reset_cells_def update_summary_eq)
  ultimately show ?thesis using grid_all_reset [of s d] by (simp add: lfm_ok_def Let_def geometry_def)
qed

lemma lfm_config_keeps [simp]:
  "lfm_config (lfm_update w m) = lfm_config m" "lfm_config (update_from_mission_local_map mm pose t m) = lfm_config m"
  by (simp_all add: lfm_update_def update_from_mission_local_map_def Let_def)

lemma lfm_ok_cong:
  "lfm_ok m \<Longrightarrow> lfm_latest m' = lfm_latest m \<Longrightarrow> lfm_config m' = lfm_config m \<Longrightarrow> lfm_ok m'"
  by (simp add: lfm_ok_def)

lemma lfm_update_keeps:
  assumes "lfm_ok m" and "hits_ok (lfm_config m)" and "\<forall>e\<in>set (ws_obstacle_evidence w). ev_confidence e \<noteq> NaN"
  shows "lfm_ok (lfm_update w m)"
  by (rule lfm_ok_cong [OF lfm_okI [of m "update_grid w m"]]) (use assms update_grid_ok in \<open>auto simp: update_eq\<close>)

lemma lfm_mission_keeps:
  assumes "lfm_ok m"
  shows "lfm_ok (update_from_mission_local_map mm pose t m)"
  by (rule lfm_ok_cong [OF lfm_okI [of m "mission_grid mm pose t m"]]) (use assms mission_grid_ok in \<open>auto simp: update_eq\<close>)

lemma init_hits: "hits_ok (lfm_config (LocalFlightMap_init c)) = hits_ok c"
  by (simp add: hits_ok_def LocalFlightMap_init_def Let_def)

lemma lfm_reach_inv:
  assumes "lfm_reach c m" and "hits_ok c"
  shows "lfm_ok m \<and> lfm_config m = lfm_config (LocalFlightMap_init c)"
  using assms(1)
proof induction
  case lfm_start
  then show ?case by (simp add: init_ok)
next
  case (lfm_evidence m w)
  then show ?case using lfm_update_keeps [of m w] assms(2) init_hits [of c] by simp
next
  case (lfm_mission m mm pose t)
  then show ?case using lfm_mission_keeps by simp
qed

text \<open>The blocked cells are the ones within the inflation disc of an occupied cell.\<close>

definition blocked_exact :: "LocalFlightMapConfig \<Rightarrow> LocalFlightMapSnapshot \<Rightarrow> bool" where
  "blocked_exact c s \<longleftrightarrow> (\<forall>j cell. lfm_cell_at s j = Some cell \<longrightarrow>
     (lc_inflated_blocked cell \<longleftrightarrow> (\<exists>i cell'. lfm_cell_at s i = Some cell' \<and> lc_occupied cell' \<and>
        index_near (footprint_radius_cells c (inflation_radius_m c)) i j)))"

lemma finish_exact: "grid_wf s \<Longrightarrow> blocked_exact c (finish_map c s)"
  unfolding blocked_exact_def
proof (intro allI impI)
  fix j cell
  assume wf: "grid_wf s" and get: "lfm_cell_at (finish_map c s) j = Some cell"
  have occ: "(\<exists>cell'. lfm_cell_at (finish_map c s) i = Some cell' \<and> lc_occupied cell') \<longleftrightarrow>
      (\<exists>cell'. lfm_cell_at s i = Some cell' \<and> lc_occupied (classify_cell c cell'))" for i
    by (cases "lfm_cell_at s i") (simp_all add: finish_map_lookup [OF wf])
  let ?near = "index_near (footprint_radius_cells c (inflation_radius_m c))"
  obtain old where "cell = (classify_cell c old)\<lparr>lc_inflated_blocked :=
      (\<exists>i cell'. lfm_cell_at s i = Some cell' \<and> lc_occupied (classify_cell c cell') \<and> ?near i j)\<rparr>"
    using get unfolding finish_map_lookup [OF wf] by blast
  then have "lc_inflated_blocked cell \<longleftrightarrow>
      (\<exists>i. (\<exists>cell'. lfm_cell_at s i = Some cell' \<and> lc_occupied (classify_cell c cell')) \<and> ?near i j)"
    by simp blast
  then show "lc_inflated_blocked cell \<longleftrightarrow>
      (\<exists>i cell'. lfm_cell_at (finish_map c s) i = Some cell' \<and> lc_occupied cell' \<and> ?near i j)"
    unfolding occ [symmetric] by blast
qed

lemma reset_exact:
  "0 < lfs_x_cells s \<Longrightarrow> 0 < lfs_y_cells s \<Longrightarrow> blocked_exact c (reset_cells d s)"
  by (auto simp: blocked_exact_def reset_cells_lookup fresh_local_cell_def LocalFlightMapCell_default_def)

lemma init_exact: "blocked_exact (lfm_config (LocalFlightMap_init c)) (lfm_latest (LocalFlightMap_init c))"
  unfolding LocalFlightMap_init_def Let_def by (simp add: reset_exact)

lemma grid_all_wf: "grid_all P s \<Longrightarrow> grid_wf s"
  by (simp add: grid_all_def)

lemma lfm_ok_wf: "lfm_ok m \<Longrightarrow> grid_wf (lfm_latest m)"
  unfolding lfm_ok_def Let_def by (blast dest: grid_all_wf)

lemma reach_blocked_exact:
  assumes "lfm_reach c m" and "hits_ok c"
  shows "blocked_exact (lfm_config m) (lfm_latest m)"
  using assms(1)
proof cases
  case lfm_start
  then show ?thesis by (simp add: init_exact)
next
  case (lfm_evidence m w)
  then show ?thesis
    using update_grid_ok [of m w] lfm_reach_inv [of c m] init_hits [of c] assms(2)
    by (auto simp: update_eq intro!: finish_exact dest!: grid_all_wf)
next
  case (lfm_mission m mm pose t)
  then show ?thesis
    using mission_grid_ok [of m mm pose t] lfm_reach_inv [of c m] assms(2)
    by (auto simp: update_eq intro!: finish_exact dest!: grid_all_wf)
qed

section \<open>The properties\<close>

text \<open>
  in every reachable state of the local flight map the grid has exactly its rows and columns,
  every cell has the centre of its index, every score is in \<open>[0,1]\<close>, the snapshot's extent is the
  configured one and its counts and nearest range are what a scan of the cells gives.
\<close>

lemma lfm_reach_ok:
  assumes "lfm_reach c m" and "hits_ok c"
  shows "lfm_ok m"
  using lfm_reach_inv [OF assms] by simp

lemma lfm_reach_ok_witness:
  "lfm_ok (lfm_update \<lparr>ws_timestamp = \<lparr>timestamp_ns = 7\<rparr>, ws_ego = undefined, ws_flight_control = undefined,
      ws_agents = [], ws_obstacle_evidence = [ObstacleEvidence_default\<lparr>ev_source_kind := DepthProvider,
        ev_state := EvOccupied, ev_confidence := 1\<rparr>]\<rparr> (LocalFlightMap_init LocalFlightMapConfig_default))"
  by (rule lfm_reach_ok [OF lfm_reach.lfm_evidence [OF lfm_reach.lfm_start [of LocalFlightMapConfig_default]]])
    (simp_all add: hits_ok_def LocalFlightMapConfig_default_def)

text \<open>
  C32: in every reachable state a cell of the local flight map is blocked exactly when some occupied
  cell lies within the inflation disc around it, whatever the order in which the occupied cells were
  inflated.
\<close>

theorem blocked_cells_exact:
  assumes "lfm_reach c m" and "hits_ok c" and "lfm_cell_at (lfm_latest m) j = Some cell"
  shows "lc_inflated_blocked cell \<longleftrightarrow> (\<exists>i cell'. lfm_cell_at (lfm_latest m) i = Some cell' \<and> lc_occupied cell' \<and>
     (fst j - fst i) * (fst j - fst i) + (snd j - snd i) * (snd j - snd i) \<le>
       footprint_radius_cells (lfm_config m) (inflation_radius_m (lfm_config m)) *
       footprint_radius_cells (lfm_config m) (inflation_radius_m (lfm_config m)))"
  using reach_blocked_exact [OF assms(1,2)] assms(3) unfolding blocked_exact_def index_near_def by blast

theorem blocked_cells_exact_witness:
  "\<exists>cell. lfm_cell_at (lfm_latest (LocalFlightMap_init LocalFlightMapConfig_default)) (0, 0) = Some cell \<and>
     \<not> lc_inflated_blocked cell"
proof -
  let ?m = "LocalFlightMap_init LocalFlightMapConfig_default"
  have ok: "hits_ok LocalFlightMapConfig_default" by (simp add: hits_ok_def LocalFlightMapConfig_default_def)
  have "grid_wf (lfm_latest ?m)" using init_ok by (rule lfm_ok_wf)
  then have "\<exists>cell. lfm_cell_at (lfm_latest ?m) (0, 0) = Some cell"
    by (simp add: lfm_cell_at_def grid_inside_def grid_wf_def)
  moreover have "\<not> lc_occupied cell" if "lfm_cell_at (lfm_latest ?m) i = Some cell" for i cell
    using that unfolding LocalFlightMap_init_def Let_def
    by (auto simp: reset_cells_lookup fresh_local_cell_def LocalFlightMapCell_default_def split: if_splits)
  ultimately show ?thesis using blocked_cells_exact [OF lfm_reach.lfm_start ok] by blast
qed

end
