(* ===== verification/Trajectory_Safety.thy ===== *)
theory Trajectory_Safety
  imports Local_Flight_Properties
begin

text \<open>
  The trajectory safety evaluator (\<open>avoidance/trajectory_safety_evaluator\<close>): which samples of a
  local trajectory fall into blocked cells of a flight map, and the clearance along it.  The
  theorems connect it to the flight map and, through the projection, to the mission-local map.
\<close>

section \<open>The model\<close>

record LocalTrajectorySample =
  lts_position_local :: Vec3
  lts_time_s :: double

record TrajectorySafetyResult =
  tsr_clear :: bool
  tsr_blocked :: bool
  tsr_has_valid_query :: bool
  tsr_sample_count :: nat
  tsr_blocked_sample_count :: nat
  tsr_first_blocked_sample_index :: nat
  tsr_first_blocked_position_local :: Vec3
  tsr_minimum_clearance_m :: double
  tsr_nearest_obstacle_m :: double

definition TrajectorySafetyResult_default :: TrajectorySafetyResult where
  "TrajectorySafetyResult_default =
    \<lparr>tsr_clear = True, tsr_blocked = False, tsr_has_valid_query = False, tsr_sample_count = 0,
     tsr_blocked_sample_count = 0, tsr_first_blocked_sample_index = 0,
     tsr_first_blocked_position_local = vec3_zero, tsr_minimum_clearance_m = PInf,
     tsr_nearest_obstacle_m = PInf\<rparr>"

definition tse_local_to_grid :: "LocalFlightMapSnapshot \<Rightarrow> Vec3 \<Rightarrow> GridIndex option" where
  "tse_local_to_grid fm lp =
     (if lfs_cell_size_m fm \<le> 0 \<or> lfs_x_cells fm \<le> 0 \<or> lfs_y_cells fm \<le> 0 then None
      else if vx lp < - lfs_rear_range_m fm \<or> lfs_forward_range_m fm \<le> vx lp then None
      else if vy lp < - lfs_lateral_range_m fm \<or> lfs_lateral_range_m fm \<le> vy lp then None
      else let ix = floor_to_int ((vx lp + lfs_rear_range_m fm) / lfs_cell_size_m fm);
               iy = floor_to_int ((vy lp + lfs_lateral_range_m fm) / lfs_cell_size_m fm)
           in if 0 \<le> ix \<and> ix < lfs_x_cells fm \<and> 0 \<le> iy \<and> iy < lfs_y_cells fm then Some (ix, iy) else None)"

definition tse_cell_at :: "LocalFlightMapSnapshot \<Rightarrow> int \<Rightarrow> int \<Rightarrow> LocalFlightMapCell option" where
  "tse_cell_at fm ix iy =
     (if ix < 0 \<or> lfs_x_cells fm \<le> ix \<or> iy < 0 \<or> lfs_y_cells fm \<le> iy then None
      else let index = nat (iy * lfs_x_cells fm + ix)
           in if length (lfs_cells fm) \<le> index then None else Some (lfs_cells fm ! index))"

definition distance_xy_m :: "Vec3 \<Rightarrow> Vec3 \<Rightarrow> double" where
  "distance_xy_m a b = (let dx = vx a - vx b; dy = vy a - vy b in std_sqrt (dx * dx + dy * dy))"

definition clearance_to_blocked_cells_m :: "LocalFlightMapSnapshot \<Rightarrow> Vec3 \<Rightarrow> double" where
  "clearance_to_blocked_cells_m fm lp =
     (let best = fold (\<lambda>cell best. if \<not> lc_inflated_blocked cell \<and> \<not> lc_occupied cell then best
                        else std_min best (distance_xy_m lp (lc_center_local cell))) (lfs_cells fm) PInf
      in if isfinite best then std_max 0 (best - Fin (1/2) * lfs_cell_size_m fm) else best)"

definition evaluate_sample ::
    "LocalFlightMapSnapshot \<Rightarrow> nat \<times> LocalTrajectorySample \<Rightarrow> TrajectorySafetyResult \<Rightarrow> TrajectorySafetyResult" where
  "evaluate_sample fm entry r =
     (let i = fst entry; p = lts_position_local (snd entry);
          r = r\<lparr>tsr_minimum_clearance_m :=
                  std_min (tsr_minimum_clearance_m r) (clearance_to_blocked_cells_m fm p)\<rparr>
      in case tse_local_to_grid fm p of
           None \<Rightarrow> r
         | Some (ix, iy) \<Rightarrow> (case tse_cell_at fm ix iy of
             None \<Rightarrow> r
           | Some cell \<Rightarrow>
               if \<not> lc_inflated_blocked cell then r
               else let r = r\<lparr>tsr_blocked_sample_count := tsr_blocked_sample_count r + 1\<rparr>
                    in if tsr_blocked r then r
                       else r\<lparr>tsr_blocked := True, tsr_clear := False, tsr_first_blocked_sample_index := i,
                              tsr_first_blocked_position_local := p\<rparr>))"

definition evaluate :: "LocalFlightMapSnapshot \<Rightarrow> LocalTrajectorySample list \<Rightarrow> TrajectorySafetyResult" where
  "evaluate fm trajectory =
     (let r = TrajectorySafetyResult_default\<lparr>tsr_sample_count := length trajectory,
                tsr_nearest_obstacle_m := lfs_nearest_obstacle_m fm,
                tsr_has_valid_query := (trajectory \<noteq> [] \<and> 0 < lfs_cell_size_m fm \<and> lfs_cells fm \<noteq> [])\<rparr>
      in if \<not> tsr_has_valid_query r then r
         else fold (evaluate_sample fm) (enumerate 0 trajectory) r)"

partial_function (option) forward_samples ::
    "double \<Rightarrow> double \<Rightarrow> double \<Rightarrow> double \<Rightarrow> LocalTrajectorySample list \<Rightarrow> LocalTrajectorySample list option" where
  "forward_samples clamped_speed horizon_s step_s t samples =
     (if t \<le> horizon_s + Fin (1 / 1000000000)
      then forward_samples clamped_speed horizon_s step_s (t + step_s)
             (samples @ [\<lparr>lts_position_local = vec3 (clamped_speed * t) 0 0, lts_time_s = t\<rparr>])
      else Some samples)"

definition make_forward_trajectory_samples ::
    "double \<Rightarrow> double \<Rightarrow> double \<Rightarrow> LocalTrajectorySample list option" where
  "make_forward_trajectory_samples speed_mps horizon_s step_s =
     (if horizon_s \<le> 0 \<or> step_s \<le> 0 then Some []
      else forward_samples (std_max 0 speed_mps) horizon_s step_s 0 [])"

section \<open>What the evaluation computes\<close>

definition sample_blocked :: "LocalFlightMapSnapshot \<Rightarrow> LocalTrajectorySample \<Rightarrow> bool" where
  "sample_blocked fm x \<longleftrightarrow> (\<exists>ix iy cell. tse_local_to_grid fm (lts_position_local x) = Some (ix, iy) \<and>
     tse_cell_at fm ix iy = Some cell \<and> lc_inflated_blocked cell)"

lemma evaluate_sample_eq:
  "evaluate_sample fm (i, x) r =
     (let r = r\<lparr>tsr_minimum_clearance_m :=
                  std_min (tsr_minimum_clearance_m r) (clearance_to_blocked_cells_m fm (lts_position_local x))\<rparr>
      in if sample_blocked fm x
         then r\<lparr>tsr_blocked_sample_count := tsr_blocked_sample_count r + 1, tsr_blocked := True,
                tsr_clear := (tsr_clear r \<and> tsr_blocked r),
                tsr_first_blocked_sample_index := (if tsr_blocked r then tsr_first_blocked_sample_index r else i),
                tsr_first_blocked_position_local :=
                  (if tsr_blocked r then tsr_first_blocked_position_local r else lts_position_local x)\<rparr>
         else r)"
  by (auto simp: evaluate_sample_def sample_blocked_def Let_def split: option.splits prod.splits)

definition first_blocked :: "LocalFlightMapSnapshot \<Rightarrow> LocalTrajectorySample list \<Rightarrow> nat" where
  "first_blocked fm xs = length (takeWhile (\<lambda>x. \<not> sample_blocked fm x) xs)"

text \<open>The loop, from a result that has seen no blocked sample and from one that has.\<close>

lemma evaluate_loop_blocked:
  "tsr_blocked r \<Longrightarrow> fold (evaluate_sample fm) (enumerate n xs) r =
     r\<lparr>tsr_blocked_sample_count := tsr_blocked_sample_count r + length (filter (sample_blocked fm) xs),
       tsr_minimum_clearance_m := fold (\<lambda>x d. std_min d (clearance_to_blocked_cells_m fm (lts_position_local x))) xs
         (tsr_minimum_clearance_m r)\<rparr>"
  by (induction xs arbitrary: n r) (simp_all add: evaluate_sample_eq Let_def)

lemma evaluate_loop_clear:
  assumes "\<not> tsr_blocked r"
  shows "fold (evaluate_sample fm) (enumerate n xs) r =
     (let b = first_blocked fm xs;
          r = r\<lparr>tsr_blocked_sample_count := tsr_blocked_sample_count r + length (filter (sample_blocked fm) xs),
                tsr_minimum_clearance_m :=
                  fold (\<lambda>x d. std_min d (clearance_to_blocked_cells_m fm (lts_position_local x))) xs
                    (tsr_minimum_clearance_m r)\<rparr>
      in if list_ex (sample_blocked fm) xs
         then r\<lparr>tsr_blocked := True, tsr_clear := False, tsr_first_blocked_sample_index := n + b,
                tsr_first_blocked_position_local := lts_position_local (xs ! b)\<rparr>
         else r)"
  using assms
proof (induction xs arbitrary: n r)
  case (Cons x xs)
  then show ?case
    by (cases "sample_blocked fm x")
      (simp_all add: evaluate_sample_eq evaluate_loop_blocked first_blocked_def Let_def)
qed (simp add: first_blocked_def)

lemma first_blocked_least:
  assumes "list_ex (sample_blocked fm) xs"
  shows "first_blocked fm xs < length xs" and "sample_blocked fm (xs ! first_blocked fm xs)"
    and "i < first_blocked fm xs \<Longrightarrow> \<not> sample_blocked fm (xs ! i)"
proof -
  have ex: "\<exists>x\<in>set xs. \<not> \<not> sample_blocked fm x" using assms by (auto simp: list_ex_iff)
  show lt: "first_blocked fm xs < length xs"
  proof -
    have "takeWhile (\<lambda>x. \<not> sample_blocked fm x) xs \<noteq> xs" using ex by (auto simp: takeWhile_eq_all_conv)
    then show ?thesis
      unfolding first_blocked_def by (metis length_takeWhile_le le_neq_implies_less takeWhile_eq_take take_all_iff order_refl)
  qed
  show "sample_blocked fm (xs ! first_blocked fm xs)"
    using nth_length_takeWhile [of "\<lambda>x. \<not> sample_blocked fm x" xs] lt by (simp add: first_blocked_def)
  show "\<not> sample_blocked fm (xs ! i)" if "i < first_blocked fm xs"
    using that takeWhile_nth [of i "\<lambda>x. \<not> sample_blocked fm x" xs]
      nth_mem [of i "takeWhile (\<lambda>x. \<not> sample_blocked fm x) xs"] set_takeWhileD
    by (fastforce simp: first_blocked_def)
qed

lemma evaluate_eq:
  assumes "xs \<noteq> []" and "0 < lfs_cell_size_m fm" and "lfs_cells fm \<noteq> []"
  shows "evaluate fm xs = (let b = first_blocked fm xs;
      r = TrajectorySafetyResult_default\<lparr>tsr_sample_count := length xs,
         tsr_nearest_obstacle_m := lfs_nearest_obstacle_m fm, tsr_has_valid_query := True,
         tsr_blocked_sample_count := length (filter (sample_blocked fm) xs),
         tsr_minimum_clearance_m := fold (\<lambda>x d. std_min d (clearance_to_blocked_cells_m fm (lts_position_local x))) xs PInf\<rparr>
      in if list_ex (sample_blocked fm) xs
         then r\<lparr>tsr_blocked := True, tsr_clear := False, tsr_first_blocked_sample_index := b,
                tsr_first_blocked_position_local := lts_position_local (xs ! b)\<rparr> else r)"
proof -
  let ?r = "TrajectorySafetyResult_default\<lparr>tsr_sample_count := length xs,
         tsr_nearest_obstacle_m := lfs_nearest_obstacle_m fm, tsr_has_valid_query := True\<rparr>"
  have "\<not> tsr_blocked ?r" by (simp add: TrajectorySafetyResult_default_def)
  from evaluate_loop_clear [OF this] show ?thesis
    using assms by (simp add: evaluate_def TrajectorySafetyResult_default_def Let_def)
qed

section \<open>Evaluator and flight map use one grid\<close>

lemma tse_grid_agrees:
  assumes "lfm_ok m" and "0 < lfc_cell_size_m (lfm_config m)"
  shows "tse_local_to_grid (lfm_latest m) p = lfm_local_to_grid (lfm_config m) (lfm_latest m) p"
proof -
  have wf: "0 < lfs_x_cells (lfm_latest m)" "0 < lfs_y_cells (lfm_latest m)"
    using lfm_ok_wf [OF assms(1)] by (simp_all add: grid_wf_def)
  have "\<not> lfc_cell_size_m (lfm_config m) \<le> 0" using assms(2) by (cases "lfc_cell_size_m (lfm_config m)") auto
  with wf assms(1) show ?thesis
    unfolding lfm_ok_def tse_local_to_grid_def lfm_local_to_grid_def Let_def by auto
qed

lemma tse_cell_agrees: "grid_wf s \<Longrightarrow> tse_cell_at s ix iy = lfm_cell_at s (ix, iy)"
  using flat_nat_less [of s ix iy]
  by (auto simp: tse_cell_at_def lfm_cell_at_def grid_inside_def flat_index_def Let_def not_le)

lemma lfm_local_to_grid_inside: "lfm_local_to_grid c s p = Some i \<Longrightarrow> grid_inside s i"
  by (auto simp: lfm_local_to_grid_def grid_inside_def Let_def split: if_splits)

lemma grid_wf_nonempty: "grid_wf s \<Longrightarrow> lfs_cells s \<noteq> []"
proof -
  assume "grid_wf s"
  then have "0 < lfs_x_cells s * lfs_y_cells s" "length (lfs_cells s) = nat (lfs_x_cells s * lfs_y_cells s)"
    by (simp_all add: grid_wf_def)
  then show ?thesis by (metis length_greater_0_conv zero_less_nat_eq)
qed

section \<open>From the mission map to the trajectory\<close>

definition occ_ge :: "double \<Rightarrow> GridIndex \<Rightarrow> LocalFlightMapSnapshot \<Rightarrow> bool" where
  "occ_ge v j s \<longleftrightarrow> (\<exists>cell. lfm_cell_at s j = Some cell \<and> v \<le> lc_occupied_score cell)"

lemma std_max_ge:
  "v \<le> a \<Longrightarrow> v \<le> std_max a b" "score_ok a \<Longrightarrow> score_ok b \<Longrightarrow> b \<le> std_max a b"
  by (cases v; cases a; cases b; simp add: std_max_def) (auto simp: score_ok_iff std_max_def)

lemma project_hit_score: "lc_occupied_score (project_hit ns mc cl cell) =
    std_max (lc_occupied_score cell) (lfm_clamp01 (oc_occupied_score mc))"
  by (simp add: project_hit_def)

lemma occ_ge_keep: "grid_wf s \<Longrightarrow> occ_ge v j s \<Longrightarrow> occ_ge v j (project_mission_cell c pose ns mc s)"
  by (auto simp: occ_ge_def project_mission_cell_lookup(2) project_hit_score std_max_ge(1) split: option.split)

lemma occ_ge_project:
  assumes "grid_all (local_cell_ok c) s" and "projected_index c s pose mc = Some i"
  shows "occ_ge (lfm_clamp01 (oc_occupied_score mc)) i (project_mission_cell c pose ns mc s)"
proof -
  have wf: "grid_wf s" using assms(1) by (rule grid_all_wf)
  have "grid_inside s i"
    using assms(2) lfm_local_to_grid_inside by (auto simp: projected_index_def split: if_splits)
  then obtain cell where cell: "lfm_cell_at s i = Some cell" by (simp add: lfm_cell_at_def)
  moreover have "score_ok (lc_occupied_score cell)"
    using assms(1) cell unfolding grid_all_def local_cell_ok_def by blast
  moreover have "index_near (mission_radius_cells c mc) i i" by (simp add: index_near_def)
  ultimately show ?thesis
    using assms(2) std_max_ge(2) [OF _ score_clamp01]
    by (simp add: occ_ge_def project_mission_cell_lookup(2) [OF wf] project_hit_score)
qed

lemma projected_index_cong: "geometry s' = geometry s \<Longrightarrow> projected_index c s' pose mc = projected_index c s pose mc"
  by (simp add: projected_index_def lfm_local_to_grid_def geometry_def)

lemma occ_ge_fold:
  assumes "grid_all (local_cell_ok c) s" and "mc \<in> set mcs" and "projected_index c s pose mc = Some i"
  shows "occ_ge (lfm_clamp01 (oc_occupied_score mc)) i (fold (project_mission_cell c pose ns) mcs s)"
proof -
  from assms(2) obtain xs ys where mcs: "mcs = xs @ mc # ys" by (blast dest: split_list)
  let ?a = "fold (project_mission_cell c pose ns) xs s"
  have a: "grid_all (local_cell_ok c) ?a"
    using assms(1) by (intro fold_invariant_step [where P = "grid_all (local_cell_ok c)"] project_keeps)
  have "projected_index c ?a pose mc = Some i" using assms(3) projected_index_cong [of ?a s] by simp
  then have "occ_ge (lfm_clamp01 (oc_occupied_score mc)) i (project_mission_cell c pose ns mc ?a)"
    by (rule occ_ge_project [OF a])
  moreover have "grid_wf (project_mission_cell c pose ns mc ?a)"
    using project_keeps [OF a] by (rule grid_all_wf)
  ultimately have "grid_wf (fold (project_mission_cell c pose ns) ys (project_mission_cell c pose ns mc ?a)) \<and>
      occ_ge (lfm_clamp01 (oc_occupied_score mc)) i (fold (project_mission_cell c pose ns) ys (project_mission_cell c pose ns mc ?a))"
    by (intro fold_invariant_step [where P = "\<lambda>s. grid_wf s \<and> occ_ge (lfm_clamp01 (oc_occupied_score mc)) i s"])
      (auto intro: occ_ge_keep project_mission_cell_lookup(1))
  then show ?thesis by (simp add: mcs)
qed

text \<open>
  An occupied mission cell inside the grid makes its own cell occupied, and so blocks every cell
  within the inflation disc of that.
\<close>

lemma mission_cell_occupied:
  assumes ok: "lfm_ok m" and c: "c = lfm_config m" and mc: "mc \<in> set (omp_cells mm)" "oc_observed mc" "oc_occupied mc"
    and th: "lfc_occupied_threshold c \<le> lfm_clamp01 (oc_occupied_score mc)"
    and i: "lfm_local_to_grid c (lfm_latest m) (inverse_transform_point pose (oc_center_map mc)) = Some i"
  shows "\<exists>cell. lfm_cell_at (lfm_latest (update_from_mission_local_map mm pose t m)) i = Some cell \<and> lc_occupied cell"
proof -
  let ?g = "mission_grid mm pose t m" and ?b = "begin_mission mm t m"
  have g: "grid_wf ?g" using mission_grid_ok [OF ok] by (blast dest: grid_all_wf)
  have b: "grid_all (local_cell_ok c) ?b" "geometry ?b = geometry (lfm_latest m)"
    using mission_grid_ok [OF ok, of "mm\<lparr>omp_cells := []\<rparr>"] c by (simp_all add: mission_grid_def begin_mission_def)
  have "projected_index c ?b pose mc = Some i"
    unfolding projected_index_cong [OF b(2)] using i mc by (simp add: projected_index_def)
  with b(1) have "occ_ge (lfm_clamp01 (oc_occupied_score mc)) i ?g"
    unfolding mission_grid_def c [symmetric] using mc(1) by (intro occ_ge_fold)
  then obtain a where "lfm_cell_at ?g i = Some a" "lc_occupied (classify_cell c a)"
    using th double_le_trans by (auto simp: occ_ge_def classify_cell_def)
  then show ?thesis unfolding update_eq c [symmetric] finish_map_lookup [OF g] by simp
qed

lemma mission_cell_blocks:
  assumes ok: "lfm_ok m" and c: "c = lfm_config m" and mc: "mc \<in> set (omp_cells mm)" "oc_observed mc" "oc_occupied mc"
    and th: "lfc_occupied_threshold c \<le> lfm_clamp01 (oc_occupied_score mc)"
    and i: "lfm_local_to_grid c (lfm_latest m) (inverse_transform_point pose (oc_center_map mc)) = Some i"
    and j: "grid_inside (lfm_latest m) j" "index_near (footprint_radius_cells c (inflation_radius_m c)) i j"
  shows "\<exists>cell. lfm_cell_at (lfm_latest (update_from_mission_local_map mm pose t m)) j = Some cell \<and> lc_inflated_blocked cell"
proof -
  let ?s = "lfm_latest (update_from_mission_local_map mm pose t m)"
  have g: "grid_wf (mission_grid mm pose t m)" "geometry ?s = geometry (lfm_latest m)"
    using mission_grid_ok [OF ok, of mm pose t] by (auto simp: update_eq dest: grid_all_wf)
  have "grid_inside ?s j" using j(1) g(2) by (simp add: geometry_def grid_inside_def)
  then obtain b where "lfm_cell_at ?s j = Some b" by (simp add: lfm_cell_at_def)
  then show ?thesis
    using finish_exact [OF g(1), of c] mission_cell_occupied [OF ok c mc th i, of t] j(2)
    unfolding blocked_exact_def update_eq c [symmetric] by blast
qed

section \<open>The forward trajectory\<close>

definition forward_sample :: "double \<Rightarrow> double \<Rightarrow> LocalTrajectorySample" where
  "forward_sample v t = \<lparr>lts_position_local = vec3 (v * t) 0 0, lts_time_s = t\<rparr>"

lemma forward_samples_Fin:
  assumes "0 < d" and "h + 1 / 1000000000 - t < real n * d"
  shows "\<exists>k. forward_samples v (Fin h) (Fin d) (Fin t) acc =
      Some (acc @ map (\<lambda>i. forward_sample v (Fin (t + real i * d))) [0..<k]) \<and>
    (\<forall>i<k. t + real i * d \<le> h + 1 / 1000000000) \<and> h + 1 / 1000000000 < t + real k * d"
  using assms(2)
proof (induction n arbitrary: t acc)
  case 0
  then show ?case by (subst forward_samples.simps) (auto intro!: exI [of _ 0])
next
  case (Suc n)
  show ?case
  proof (cases "t \<le> h + 1 / 1000000000")
    case False
    then show ?thesis by (subst forward_samples.simps) (auto intro!: exI [of _ 0])
  next
    case True
    have "h + 1 / 1000000000 - (t + d) < real n * d" using Suc.prems by (simp add: algebra_simps)
    from Suc.IH [OF this, of "acc @ [forward_sample v (Fin t)]"] obtain k where
      k: "forward_samples v (Fin h) (Fin d) (Fin (t + d)) (acc @ [forward_sample v (Fin t)]) =
           Some ((acc @ [forward_sample v (Fin t)]) @ map (\<lambda>i. forward_sample v (Fin (t + d + real i * d))) [0..<k])"
         "\<forall>i<k. t + d + real i * d \<le> h + 1 / 1000000000" "h + 1 / 1000000000 < t + d + real k * d"
      by blast
    have shift: "t + d + real i * d = t + real (Suc i) * d" for i by (simp add: algebra_simps)
    have "forward_samples v (Fin h) (Fin d) (Fin t) acc =
        forward_samples v (Fin h) (Fin d) (Fin (t + d)) (acc @ [forward_sample v (Fin t)])"
      using True by (subst forward_samples.simps) (simp add: forward_sample_def)
    also have "\<dots> = Some (acc @ map (\<lambda>i. forward_sample v (Fin (t + real i * d))) [0..<Suc k])"
      unfolding k(1) shift map_upt_Suc by simp
    finally show ?thesis
      using k(2,3) True unfolding shift by (intro exI [of _ "Suc k"]) (auto simp: less_Suc_eq_0_disj)
  qed
qed

section \<open>The properties\<close>

text \<open>
  the evaluation of a valid query reports a trajectory blocked exactly when one of its samples
  lies in a blocked cell of the map, counts exactly those samples, and names the first of them.
\<close>

lemma evaluate_correct:
  assumes "xs \<noteq> []" and "0 < lfs_cell_size_m fm" and "lfs_cells fm \<noteq> []"
  shows "(tsr_blocked (evaluate fm xs) \<longleftrightarrow> list_ex (sample_blocked fm) xs) \<and>
    tsr_clear (evaluate fm xs) = (\<not> tsr_blocked (evaluate fm xs)) \<and>
    tsr_blocked_sample_count (evaluate fm xs) = length (filter (sample_blocked fm) xs) \<and>
    (tsr_blocked (evaluate fm xs) \<longrightarrow>
      (let k = tsr_first_blocked_sample_index (evaluate fm xs)
       in k < length xs \<and> sample_blocked fm (xs ! k) \<and> (\<forall>i<k. \<not> sample_blocked fm (xs ! i)) \<and>
          tsr_first_blocked_position_local (evaluate fm xs) = lts_position_local (xs ! k)))"
  using first_blocked_least [of fm xs] unfolding evaluate_eq [OF assms]
  by (simp add: TrajectorySafetyResult_default_def Let_def)

definition four_cell_map :: LocalFlightMapSnapshot where
  "four_cell_map = \<lparr>lfs_timestamp = \<lparr>timestamp_ns = 0\<rparr>, lfs_source_frame_id = [], lfs_has_source_frame = False,
     lfs_cell_size_m = 1, lfs_x_cells = 2, lfs_y_cells = 2, lfs_forward_range_m = 2, lfs_rear_range_m = 0,
     lfs_lateral_range_m = 1, lfs_cells = replicate 3 LocalFlightMapCell_default @ [LocalFlightMapCell_default\<lparr>lc_inflated_blocked := True\<rparr>],
     lfs_occupied_count = 0, lfs_inflated_blocked_count = 1, lfs_nearest_obstacle_m = PInf,
     lfs_source_mission_cell_count = 0, lfs_projected_mission_cell_count = 0,
     lfs_projected_local_cell_update_count = 0, lfs_exclusion_inflation_radius_m = 0\<rparr>"

lemma evaluate_correct_witness:
  "tsr_blocked (evaluate four_cell_map [forward_sample 1 0, forward_sample 1 1])"
proof -
  have "sample_blocked four_cell_map (forward_sample 1 1)"
    unfolding sample_blocked_def forward_sample_def
    by (intro exI [of _ 1] exI [of _ 1] exI [of _ "LocalFlightMapCell_default\<lparr>lc_inflated_blocked := True\<rparr>"])
      (simp add: four_cell_map_def numeral_3_eq_3 tse_local_to_grid_def tse_cell_at_def in_int_range_def int_min_def int_max_def)
  then show ?thesis
    using evaluate_correct [of "[forward_sample 1 0, forward_sample 1 1]" four_cell_map]
    by (simp add: four_cell_map_def)
qed

text \<open>
  C6: from obstacle to verdict.  When the flight map is derived from a mission-local map, an observed
  occupied mission cell whose score reaches the flight map's threshold, and whose centre falls inside
  the grid at the current pose, makes every trajectory blocked that has a sample in a cell within the
  inflation disc of that obstacle.
\<close>

theorem mission_obstacle_blocks_trajectory:
  assumes "lfm_reach c0 m" and "hits_ok c0" and "c = lfm_config m" and "0 < lfc_cell_size_m c"
    and "s = lfm_latest (update_from_mission_local_map mm pose t m)"
    and "mc \<in> set (omp_cells mm)" and "oc_observed mc" and "oc_occupied mc"
    and "lfc_occupied_threshold c \<le> lfm_clamp01 (oc_occupied_score mc)"
    and "lfm_local_to_grid c s (inverse_transform_point pose (oc_center_map mc)) = Some (ix, iy)"
    and "x \<in> set xs" and "lfm_local_to_grid c s (lts_position_local x) = Some (jx, jy)"
    and "(jx - ix) * (jx - ix) + (jy - iy) * (jy - iy) \<le>
      footprint_radius_cells c (inflation_radius_m c) * footprint_radius_cells c (inflation_radius_m c)"
  shows "tsr_blocked (evaluate s xs) \<and> \<not> tsr_clear (evaluate s xs)"
proof -
  let ?m = "update_from_mission_local_map mm pose t m"
  have ok: "lfm_ok m" "lfm_ok ?m" using lfm_reach_inv [OF assms(1,2)] lfm_mission_keeps by auto
  have "geometry s = geometry (lfm_latest m)"
    using mission_grid_ok [OF ok(1), of mm pose t] by (simp add: assms(5) update_eq)
  then have g: "lfm_local_to_grid c s = lfm_local_to_grid c (lfm_latest m)" "grid_inside s = grid_inside (lfm_latest m)"
    by (auto simp: geometry_def lfm_local_to_grid_def grid_inside_def fun_eq_iff)
  have "grid_inside (lfm_latest m) (jx, jy)" using lfm_local_to_grid_inside [OF assms(12)] g(2) by simp
  then obtain cell where cell: "lfm_cell_at s (jx, jy) = Some cell" "lc_inflated_blocked cell"
    using mission_cell_blocks [OF ok(1) assms(3,6-9), of pose "(ix, iy)" "(jx, jy)" t] assms(5,10,13) g(1)
    by (auto simp: index_near_def)
  have wf: "grid_wf s" using lfm_ok_wf [OF ok(2)] by (simp add: assms(5))
  have "tse_local_to_grid s (lts_position_local x) = Some (jx, jy)"
    using tse_grid_agrees [OF ok(2)] assms(3,4,5,12) by simp
  with cell have "sample_blocked s x" by (auto simp: sample_blocked_def tse_cell_agrees [OF wf])
  with assms(11) have ex: "list_ex (sample_blocked s) xs" "xs \<noteq> []" by (auto simp: list_ex_iff)
  moreover have "0 < lfs_cell_size_m s" using ok(2) assms(4) by (simp add: lfm_ok_def Let_def assms(3,5))
  moreover have "lfs_cells s \<noteq> []" using wf by (rule grid_wf_nonempty)
  ultimately show ?thesis using evaluate_eq [of xs s] by (simp add: Let_def)
qed

definition wall_cell :: ObstacleCell where
  "wall_cell = ObstacleCell_default\<lparr>oc_center_map := vec3 (Fin (1/4)) (Fin (1/4)) 0, oc_observed := True, oc_occupied := True,
     oc_occupied_score := 1\<rparr>"

definition wall_map :: ObstacleMapSnapshot where
  "wall_map = \<lparr>omp_config = ObstacleMapConfig_default, omp_summary = ObstacleMapSummary_default, omp_cells = [wall_cell],
     omp_sensor_origin_map = vec3_zero, omp_sensor_origin_valid = False\<rparr>"

lemma default_lfm_config: "lfm_config (LocalFlightMap_init LocalFlightMapConfig_default) = LocalFlightMapConfig_default"
  by (simp add: LocalFlightMap_init_def LocalFlightMapConfig_default_def Let_def)

lemma default_lfm_cells:
  "lfs_x_cells (lfm_latest (LocalFlightMap_init LocalFlightMapConfig_default)) = 72"
  "lfs_y_cells (lfm_latest (LocalFlightMap_init LocalFlightMapConfig_default)) = 60"
  by (simp_all add: LocalFlightMap_init_def LocalFlightMapConfig_default_def Let_def reset_cells_def
      in_int_range_def int_min_def int_max_def)

theorem mission_obstacle_blocks_trajectory_witness:
  "tsr_blocked (evaluate (lfm_latest (update_from_mission_local_map wall_map (make_yaw_pose vec3_zero 0) \<lparr>timestamp_ns = 5\<rparr>
      (LocalFlightMap_init LocalFlightMapConfig_default))) [forward_sample 1 1])"
proof -
  let ?m = "LocalFlightMap_init LocalFlightMapConfig_default" and ?pose = "make_yaw_pose vec3_zero 0"
  let ?s = "lfm_latest (update_from_mission_local_map wall_map ?pose \<lparr>timestamp_ns = 5\<rparr> ?m)"
  have cells: "lfs_x_cells ?s = 72" "lfs_y_cells ?s = 60"
    using mission_grid_ok [OF init_ok [of LocalFlightMapConfig_default], of wall_map ?pose "\<lparr>timestamp_ns = 5\<rparr>"]
      geometry_finish [of "lfm_config ?m"] default_lfm_cells
    unfolding update_eq geometry_def by simp_all
  have ok: "hits_ok LocalFlightMapConfig_default" by (simp add: hits_ok_def LocalFlightMapConfig_default_def)
  have c: "inverse_transform_point ?pose (oc_center_map wall_cell) = vec3 (Fin (1/4)) (Fin (1/4)) 0"
    by (simp add: make_yaw_pose_def pose_defs Let_def wall_cell_def)
  have r: "footprint_radius_cells LocalFlightMapConfig_default (inflation_radius_m LocalFlightMapConfig_default) = 3"
    by (simp add: footprint_radius_cells_def inflation_radius_m_def LocalFlightMapConfig_default_def std_max_def
        in_int_range_def int_min_def int_max_def ceiling_eq_iff)
  have d: "lfc_cell_size_m LocalFlightMapConfig_default = Fin (1/2)" "lfc_rear_range_m LocalFlightMapConfig_default = 6"
    "lfc_forward_range_m LocalFlightMapConfig_default = 30" "lfc_lateral_range_m LocalFlightMapConfig_default = 15"
    "lfc_occupied_threshold LocalFlightMapConfig_default = Fin (65/100)"
    by (simp_all add: LocalFlightMapConfig_default_def)
  have w: "oc_observed wall_cell" "oc_occupied wall_cell" "oc_occupied_score wall_cell = 1" "omp_cells wall_map = [wall_cell]"
    by (simp_all add: wall_cell_def wall_map_def)
  show ?thesis
    by (rule conjunct1 [OF mission_obstacle_blocks_trajectory [OF lfm_reach.lfm_start ok default_lfm_config [symmetric] _ refl,
            of wall_cell, where ix = 12 and iy = 30 and jx = 14 and jy = 30 and x = "forward_sample 1 1"]])
      (simp_all add: c [unfolded double_zero] r d w cells [unfolded double_zero] lfm_local_to_grid_def
        forward_sample_def lfm_clamp01_def in_int_range_def int_min_def int_max_def)
qed

text \<open>
  the inflation covers its radius.  In every reachable state a cell whose centre is no farther
  than the vehicle radius plus the safety margin from the centre of an occupied cell is blocked.
\<close>

lemma inflation_covers_radius:
  assumes "lfm_reach c m" and "hits_ok c" and "lfc_cell_size_m (lfm_config m) = Fin w" and "0 < w"
    and "isfinite (lfc_rear_range_m (lfm_config m))" and "isfinite (lfc_lateral_range_m (lfm_config m))"
    and "inflation_radius_m (lfm_config m) = Fin r" and "r / w \<le> 2147483646"
    and "lfm_cell_at (lfm_latest m) i = Some a" and "lc_occupied a"
    and "lfm_cell_at (lfm_latest m) j = Some b" and "distance_xy_m (lc_center_local b) (lc_center_local a) \<le> Fin r"
  shows "lc_inflated_blocked b"
proof -
  let ?c = "lfm_config m"
  obtain x y where xy: "lfc_rear_range_m ?c = Fin x" "lfc_lateral_range_m ?c = Fin y" using assms(5,6) by (auto simp: isfinite_iff)
  have ok: "lfm_ok m" using lfm_reach_inv [OF assms(1,2)] by simp
  then have ctr: "lc_center_local a = cell_center_local ?c (fst i) (snd i)" "lc_center_local b = cell_center_local ?c (fst j) (snd j)"
    using assms(9,11) unfolding lfm_ok_def Let_def grid_all_def local_cell_ok_def by blast+
  define dx dy where "dx = real_of_int (fst j - fst i)" and "dy = real_of_int (snd j - snd i)"
  have r0: "0 \<le> r" using assms(7) by (auto simp: inflation_radius_m_def std_max_def split: if_splits)
  define R where "R = footprint_radius_cells ?c (inflation_radius_m ?c)"
  have R: "r / w \<le> real_of_int R" "0 \<le> R"
  proof -
    have "\<lceil>r / w\<rceil> \<le> 2147483646" using assms(8) by (simp add: ceiling_le_iff)
    moreover have "0 \<le> \<lceil>r / w\<rceil>" using r0 assms(4) by (simp add: zero_le_ceiling) (smt (verit) divide_nonneg_pos)
    ultimately have "in_int_range \<lceil>r / w\<rceil>" by (simp add: in_int_range_def int_min_def int_max_def)
    then show "r / w \<le> real_of_int R" "0 \<le> R"
      using r0 assms(3,4,7) by (auto simp: R_def footprint_radius_cells_def max_def le_of_int_ceiling order_antisym) 
  qed
  have "vx (lc_center_local b) - vx (lc_center_local a) = Fin (dx * w)" "vy (lc_center_local b) - vy (lc_center_local a) = Fin (dy * w)"
    by (simp_all add: ctr cell_center_local_def xy assms(3) dx_def dy_def algebra_simps)
  with assms(12) have "sqrt ((dx * w) * (dx * w) + (dy * w) * (dy * w)) \<le> r"
    unfolding distance_xy_m_def Let_def by (simp split: if_splits)
  then have "(dx * w) * (dx * w) + (dy * w) * (dy * w) \<le> r * r"
    using sqrt_le_D [of _ r] by (simp add: power2_eq_square)
  then have "(dx * dx + dy * dy) * (w * w) \<le> r * r" by (simp add: algebra_simps)
  then have "dx * dx + dy * dy \<le> (r / w) * (r / w)" using assms(4) by (simp add: field_simps)
  also have "\<dots> \<le> real_of_int R * real_of_int R" using R r0 assms(4) by (intro mult_mono) simp_all
  finally have "real_of_int ((fst j - fst i) * (fst j - fst i) + (snd j - snd i) * (snd j - snd i)) \<le> real_of_int (R * R)"
    unfolding dx_def dy_def by simp
  then have "(fst j - fst i) * (fst j - fst i) + (snd j - snd i) * (snd j - snd i) \<le> R * R" by (simp only: of_int_le_iff)
  then show ?thesis using reach_blocked_exact [OF assms(1,2)] assms(9,10,11) unfolding R_def blocked_exact_def index_near_def by blast
qed

lemma inflation_covers_radius_witness:
  "\<exists>b. lfm_cell_at (lfm_latest (update_from_mission_local_map wall_map (make_yaw_pose vec3_zero 0) \<lparr>timestamp_ns = 5\<rparr>
      (LocalFlightMap_init LocalFlightMapConfig_default))) (12, 30) = Some b \<and> lc_inflated_blocked b"
proof -
  let ?c = LocalFlightMapConfig_default
  let ?m = "LocalFlightMap_init ?c" and ?pose = "make_yaw_pose vec3_zero 0"
  let ?u = "update_from_mission_local_map wall_map ?pose \<lparr>timestamp_ns = 5\<rparr> ?m"
  have ok: "hits_ok ?c" by (simp add: hits_ok_def LocalFlightMapConfig_default_def)
  have reach: "lfm_reach ?c ?u" by (intro lfm_reach.intros)
  have d: "lfc_cell_size_m ?c = Fin (1/2)" "lfc_rear_range_m ?c = 6" "lfc_forward_range_m ?c = 30" "lfc_lateral_range_m ?c = 15"
    "lfc_occupied_threshold ?c = Fin (65/100)" "inflation_radius_m ?c = Fin (145/100)"
    by (simp_all add: LocalFlightMapConfig_default_def inflation_radius_m_def std_max_def)
  have w: "wall_cell \<in> set (omp_cells wall_map)" "oc_observed wall_cell" "oc_occupied wall_cell"
    "lfc_occupied_threshold ?c \<le> lfm_clamp01 (oc_occupied_score wall_cell)"
    by (simp_all add: wall_cell_def wall_map_def d lfm_clamp01_def)
  have "inverse_transform_point ?pose (oc_center_map wall_cell) = vec3 (Fin (1/4)) (Fin (1/4)) 0"
    by (simp add: make_yaw_pose_def pose_defs Let_def wall_cell_def)
  then have "lfm_local_to_grid ?c (lfm_latest ?m) (inverse_transform_point ?pose (oc_center_map wall_cell)) = Some (12, 30)"
    by (simp add: lfm_local_to_grid_def d default_lfm_cells in_int_range_def int_min_def int_max_def)
  from mission_cell_occupied [OF init_ok default_lfm_config [symmetric] w this, of "\<lparr>timestamp_ns = 5\<rparr>"]
  obtain a where a: "lfm_cell_at (lfm_latest ?u) (12, 30) = Some a" "lc_occupied a" by blast
  have "lc_center_local a = cell_center_local ?c 12 30"
    using lfm_reach_inv [OF reach ok] a(1) default_lfm_config unfolding lfm_ok_def Let_def grid_all_def local_cell_ok_def by auto
  then have "distance_xy_m (lc_center_local a) (lc_center_local a) \<le> Fin (145/100)"
    by (simp add: distance_xy_m_def Let_def cell_center_local_def d)
  then have "lc_inflated_blocked a"
    by (intro inflation_covers_radius [OF reach ok _ _ _ _ _ _ a a(1), where w = "1/2" and r = "145/100"])
      (simp_all add: default_lfm_config d)
  with a(1) show ?thesis by blast
qed

text \<open>
  the forward trajectory is produced, for every finite speed, horizon and positive step: its
  samples are the multiples of the step up to the horizon (with a tolerance of a nanosecond), each
  at the distance a vehicle that never flies backwards has covered by then, and no later multiple
  fits.
\<close>

lemma forward_trajectory_samples:
  assumes "0 < h" and "0 < d"
  shows "\<exists>k. make_forward_trajectory_samples (Fin v) (Fin h) (Fin d) =
      Some (map (\<lambda>i. \<lparr>lts_position_local = vec3 (Fin (max 0 v * (real i * d))) 0 0, lts_time_s = Fin (real i * d)\<rparr>) [0..<k]) \<and>
    0 < k \<and> (\<forall>i<k. real i * d \<le> h + 1 / 1000000000) \<and> h + 1 / 1000000000 < real k * d"
proof -
  obtain n where n: "(h + 1 / 1000000000) / d < real n" using reals_Archimedean2 by blast
  then have "h + 1 / 1000000000 - 0 < real n * d" using assms(2) by (simp add: field_simps)
  from forward_samples_Fin [OF assms(2) this, of "Fin (max 0 v)" "[]"] obtain k where
    k: "forward_samples (Fin (max 0 v)) (Fin h) (Fin d) (Fin 0) [] =
       Some (map (\<lambda>i. forward_sample (Fin (max 0 v)) (Fin (real i * d))) [0..<k])"
     "\<forall>i<k. real i * d \<le> h + 1 / 1000000000" "h + 1 / 1000000000 < real k * d"
    by auto
  have "std_max 0 (Fin v) = Fin (max 0 v)" by (simp add: std_max_def max_def)
  then have "make_forward_trajectory_samples (Fin v) (Fin h) (Fin d) =
      Some (map (\<lambda>i. forward_sample (Fin (max 0 v)) (Fin (real i * d))) [0..<k])"
    using k(1) assms by (simp add: make_forward_trajectory_samples_def)
  moreover have "0 < k" using k(3) assms(1) by (cases k) auto
  ultimately show ?thesis using k(2,3) unfolding forward_sample_def times_double.simps by blast
qed

lemma forward_trajectory_samples_witness:
  "\<exists>k. make_forward_trajectory_samples (Fin (- 3)) (Fin 2) (Fin 1) =
      Some (map (\<lambda>i. \<lparr>lts_position_local = vec3 0 0 0, lts_time_s = Fin (real i)\<rparr>) [0..<k])"
  using forward_trajectory_samples [of 2 1 "- 3"] by auto

end
