(* ===== verification/Behavior_Spec.thy ===== *)
theory Behavior_Spec
  imports World_State
begin

text \<open>
  The data of a behaviour mission (\<open>behavior/behavior_spec.hpp\<close>), the names of its enumerators
  (\<open>behavior_spec_strings.cpp\<close>) and the functions that read those names back
  (\<open>behavior_spec.cpp\<close>, \<open>core/types.hpp\<close>).  A thrown \<open>std::runtime_error\<close> is the left
  injection of its message.
\<close>

section \<open>Fallible computations\<close>

type_synonym 'a result = "string + 'a"

definition bindE :: "'a result \<Rightarrow> ('a \<Rightarrow> 'b result) \<Rightarrow> 'b result" where
  "bindE m f = (case m of Inl e \<Rightarrow> Inl e | Inr x \<Rightarrow> f x)"

definition throw_if :: "bool \<Rightarrow> string \<Rightarrow> unit result" where
  "throw_if c e = (if c then Inl e else Inr ())"

lemma bindE_simps [simp]: "bindE (Inl e) f = Inl e" "bindE (Inr x) f = f x"
  by (simp_all add: bindE_def)

lemma bindE_Inr_iff: "bindE m f = Inr y \<longleftrightarrow> (\<exists>x. m = Inr x \<and> f x = Inr y)"
  by (cases m) simp_all

lemma bindE_cong [fundef_cong]:
  "m = m' \<Longrightarrow> (\<And>x. m' = Inr x \<Longrightarrow> f x = f' x) \<Longrightarrow> bindE m f = bindE m' f'"
  by (cases m') simp_all

lemma throw_if_Inr_iff [simp]: "throw_if c e = Inr u \<longleftrightarrow> \<not> c"
  by (simp add: throw_if_def)

section \<open>Enumerations and structs\<close>

datatype BehaviorSpecFormat = Auto | Yaml | Json

datatype TargetSelectionPolicy = HighestConfidence | Nearest | PersistentTrack

datatype BehaviorType =
  BtHold | BtSearch | BtFollow | BtApproach | BtCircle | BtGoHome | BtLand | BtGoHomeLand | BtSequence

datatype ReferenceFrame = TargetHeadingFrame | WorldLocalFrame | DroneHeadingFrame | CameraFrame

datatype CircleDirection = Clockwise | CounterClockwise

datatype CompletionAction = CaNone | CaHold | CaGoHome | CaLand | CaGoHomeLand

datatype TargetLostFallback = TlNone | HoldThenGoHome | SearchThenGoHome | TlAbort

record TargetSelectorSpec =
  ts_class_label :: ClassLabel
  ts_track_id :: string
  ts_agent_id :: string
  ts_confidence_min :: double
  ts_policy :: TargetSelectionPolicy
  ts_reacquire_timeout_s :: double

definition TargetSelectorSpec_default :: TargetSelectorSpec where
  "TargetSelectorSpec_default =
    \<lparr>ts_class_label = ClassUnknown, ts_track_id = [], ts_agent_id = [], ts_confidence_min = Fin (1/2),
     ts_policy = HighestConfidence, ts_reacquire_timeout_s = 5\<rparr>"

record CompletionSpec =
  cs_after_s :: double
  cs_then :: CompletionAction

definition CompletionSpec_default :: CompletionSpec where
  "CompletionSpec_default = \<lparr>cs_after_s = 0, cs_then = CaNone\<rparr>"

record FallbackSpec =
  fs_on_target_lost :: TargetLostFallback
  fs_hold_s :: double
  fs_search_s :: double

definition FallbackSpec_default :: FallbackSpec where
  "FallbackSpec_default = \<lparr>fs_on_target_lost = TlNone, fs_hold_s = 5, fs_search_s = 10\<rparr>"

record AltitudeProfileSpec =
  ap_enabled :: bool
  ap_start_height_m :: double
  ap_end_height_m :: double
  ap_duration_s :: double
  ap_easing :: string

definition AltitudeProfileSpec_default :: AltitudeProfileSpec where
  "AltitudeProfileSpec_default =
    \<lparr>ap_enabled = False, ap_start_height_m = 0, ap_end_height_m = 0, ap_duration_s = 0,
     ap_easing = ''smoothstep''\<rparr>"

text \<open>
  \<open>BehaviorSpec\<close> contains a vector of itself: its scalar members are the record
  \<open>BehaviorFields\<close>, its steps the second argument of the datatype.
\<close>

record BehaviorFields =
  b_type :: BehaviorType
  b_target_frame :: ReferenceFrame
  b_relative_offset_m :: Vec3
  b_max_speed_mps :: double
  b_max_vertical_speed_mps :: double
  b_position_tolerance_m :: double
  b_lost_target_timeout_s :: double
  b_yaw_mode :: string
  b_camera_pointing_mode :: string
  b_yaw_offset_rad :: double
  b_radius_m :: double
  b_altitude_offset_m :: double
  b_altitude_profile :: AltitudeProfileSpec
  b_angular_speed_deg_s :: double
  b_direction :: CircleDirection
  b_orbit_count :: double
  b_stop_distance_m :: double
  b_duration_s :: double

datatype BehaviorSpec = BehaviorSpec (bs_fields: BehaviorFields) (bs_steps: "BehaviorSpec list")

definition BehaviorFields_default :: BehaviorFields where
  "BehaviorFields_default =
    \<lparr>b_type = BtHold, b_target_frame = WorldLocalFrame, b_relative_offset_m = vec3_zero,
     b_max_speed_mps = 1, b_max_vertical_speed_mps = 1, b_position_tolerance_m = 1,
     b_lost_target_timeout_s = 5, b_yaw_mode = [], b_camera_pointing_mode = [], b_yaw_offset_rad = 0,
     b_radius_m = 0, b_altitude_offset_m = 0, b_altitude_profile = AltitudeProfileSpec_default,
     b_angular_speed_deg_s = 0, b_direction = Clockwise, b_orbit_count = 0, b_stop_distance_m = 0,
     b_duration_s = 0\<rparr>"

record BehaviorMissionSpec =
  bm_mission_name :: string
  bm_target :: TargetSelectorSpec
  bm_behavior :: BehaviorSpec
  bm_completion :: CompletionSpec
  bm_fallback :: FallbackSpec

section \<open>Names of the enumerators\<close>

fun policy_to_string :: "TargetSelectionPolicy \<Rightarrow> string" where
  "policy_to_string HighestConfidence = ''highest_confidence''"
| "policy_to_string Nearest = ''nearest''"
| "policy_to_string PersistentTrack = ''persistent_track''"

fun behavior_type_to_string :: "BehaviorType \<Rightarrow> string" where
  "behavior_type_to_string BtHold = ''hold''"
| "behavior_type_to_string BtSearch = ''search''"
| "behavior_type_to_string BtFollow = ''follow''"
| "behavior_type_to_string BtApproach = ''approach''"
| "behavior_type_to_string BtCircle = ''circle''"
| "behavior_type_to_string BtGoHome = ''go_home''"
| "behavior_type_to_string BtLand = ''land''"
| "behavior_type_to_string BtGoHomeLand = ''go_home_land''"
| "behavior_type_to_string BtSequence = ''sequence''"

fun frame_to_string :: "ReferenceFrame \<Rightarrow> string" where
  "frame_to_string TargetHeadingFrame = ''target_heading_frame''"
| "frame_to_string WorldLocalFrame = ''world_local_frame''"
| "frame_to_string DroneHeadingFrame = ''drone_heading_frame''"
| "frame_to_string CameraFrame = ''camera_frame''"

fun direction_to_string :: "CircleDirection \<Rightarrow> string" where
  "direction_to_string Clockwise = ''clockwise''"
| "direction_to_string CounterClockwise = ''counter_clockwise''"

fun completion_to_string :: "CompletionAction \<Rightarrow> string" where
  "completion_to_string CaNone = ''none''"
| "completion_to_string CaHold = ''hold''"
| "completion_to_string CaGoHome = ''go_home''"
| "completion_to_string CaLand = ''land''"
| "completion_to_string CaGoHomeLand = ''go_home_land''"

fun fallback_to_string :: "TargetLostFallback \<Rightarrow> string" where
  "fallback_to_string TlNone = ''none''"
| "fallback_to_string HoldThenGoHome = ''hold_then_go_home''"
| "fallback_to_string SearchThenGoHome = ''search_then_go_home''"
| "fallback_to_string TlAbort = ''abort''"

section \<open>Reading the names\<close>

definition parse_policy :: "string \<Rightarrow> TargetSelectionPolicy result" where
  "parse_policy value =
     (if value = ''highest_confidence'' then Inr HighestConfidence
      else if value = ''nearest'' then Inr Nearest
      else if value = ''persistent_track'' then Inr PersistentTrack
      else Inl (''unknown target selector policy: '' @ value))"

definition parse_behavior_type :: "string \<Rightarrow> BehaviorType result" where
  "parse_behavior_type value =
     (if value = ''hold'' then Inr BtHold
      else if value = ''search'' then Inr BtSearch
      else if value = ''follow'' then Inr BtFollow
      else if value = ''approach'' then Inr BtApproach
      else if value = ''circle'' then Inr BtCircle
      else if value = ''go_home'' then Inr BtGoHome
      else if value = ''land'' then Inr BtLand
      else if value = ''go_home_land'' then Inr BtGoHomeLand
      else if value = ''sequence'' then Inr BtSequence
      else Inl (''unknown behavior type: '' @ value))"

definition parse_reference_frame :: "string \<Rightarrow> ReferenceFrame result" where
  "parse_reference_frame value =
     (if value = ''target_heading_frame'' then Inr TargetHeadingFrame
      else if value = ''world_local_frame'' then Inr WorldLocalFrame
      else if value = ''drone_heading_frame'' then Inr DroneHeadingFrame
      else if value = ''camera_frame'' then Inr CameraFrame
      else Inl (''unknown behavior reference frame: '' @ value))"

definition parse_circle_direction :: "string \<Rightarrow> CircleDirection result" where
  "parse_circle_direction value =
     (if value = ''clockwise'' then Inr Clockwise
      else if value = ''counter_clockwise'' \<or> value = ''counterclockwise'' then Inr CounterClockwise
      else Inl (''unknown circle direction: '' @ value))"

definition parse_completion_action :: "string \<Rightarrow> CompletionAction result" where
  "parse_completion_action value =
     (if value = [] \<or> value = ''none'' then Inr CaNone
      else if value = ''hold'' then Inr CaHold
      else if value = ''go_home'' then Inr CaGoHome
      else if value = ''land'' then Inr CaLand
      else if value = ''go_home_land'' then Inr CaGoHomeLand
      else Inl (''unknown completion action: '' @ value))"

definition parse_target_lost_fallback :: "string \<Rightarrow> TargetLostFallback result" where
  "parse_target_lost_fallback value =
     (if value = [] \<or> value = ''none'' then Inr TlNone
      else if value = ''hold_then_go_home'' then Inr HoldThenGoHome
      else if value = ''search_then_go_home'' then Inr SearchThenGoHome
      else if value = ''abort'' then Inr TlAbort
      else Inl (''unknown target-lost fallback: '' @ value))"

text \<open>\<open>std::tolower\<close> in the C locale, and the class labels of \<open>core/types.hpp\<close>.\<close>

definition to_lower :: "char \<Rightarrow> char" where
  "to_lower ch = (let n = of_char ch :: nat in if 65 \<le> n \<and> n \<le> 90 then char_of (n + 32) else ch)"

definition class_label_from_string :: "string \<Rightarrow> ClassLabel" where
  "class_label_from_string value =
     (let lower = map to_lower value
      in if lower = ''person'' then Person
         else if lower = ''drone'' then Drone
         else if lower = ''car'' \<or> lower = ''vehicle'' then Car
         else if lower = ''boat'' then Boat
         else if lower = ''animal'' then Animal
         else if lower = ''house'' then House
         else if lower = ''building'' then Building
         else if lower = ''tree'' then Tree
         else if lower = ''road'' then Road
         else if lower = ''river'' then River
         else if lower = ''terrain'' then Terrain
         else if lower = ''pole'' then Pole
         else if lower = ''wall'' then Wall
         else if lower = ''fence'' then Fence
         else if lower = ''cable'' \<or> lower = ''wire'' then Cable
         else if lower = ''obstacle'' \<or> lower = ''unknown_obstacle'' then Obstacle
         else ClassUnknown)"

section \<open>The names are read back\<close>

lemma parse_policy_print: "parse_policy (policy_to_string p) = Inr p"
  by (cases p) (simp_all add: parse_policy_def)

lemma parse_behavior_type_print: "parse_behavior_type (behavior_type_to_string t) = Inr t"
  by (cases t) (simp_all add: parse_behavior_type_def)

lemma parse_reference_frame_print: "parse_reference_frame (frame_to_string f) = Inr f"
  by (cases f) (simp_all add: parse_reference_frame_def)

lemma parse_circle_direction_print: "parse_circle_direction (direction_to_string d) = Inr d"
  by (cases d) (simp_all add: parse_circle_direction_def)

lemma parse_completion_action_print: "parse_completion_action (completion_to_string a) = Inr a"
  by (cases a) (simp_all add: parse_completion_action_def)

lemma parse_target_lost_fallback_print: "parse_target_lost_fallback (fallback_to_string f) = Inr f"
  by (cases f) (simp_all add: parse_target_lost_fallback_def)

lemmas parse_print [simp] =
  parse_policy_print parse_behavior_type_print parse_reference_frame_print
  parse_circle_direction_print parse_completion_action_print parse_target_lost_fallback_print

end
