(* ===== verification/Behavior_Parser.thy ===== *)
theory Behavior_Parser
  imports Behavior_Spec
begin

text \<open>
  The two readers of a behaviour specification (\<open>behavior_spec.cpp\<close>): a subset of YAML and
  JSON, both into a tree of \<open>ConfigNode\<close>s.

  The YAML reader keeps a stack of pointers into the tree it builds; a pointer is modelled by the
  path from the root to the node it points to.  The JSON reader's position is modelled by the text
  that is left; its mutual recursion is bounded by a fuel argument, \<open>None\<close> is running out of
  it, and \<open>json_parse_terminates\<close> shows that one more than the length of the text is always
  enough, which is what \<open>json_parse\<close> uses.
\<close>

section \<open>Text\<close>

definition is_space :: "char \<Rightarrow> bool" where
  "is_space ch = (let n = of_char ch :: nat in n = 32 \<or> (9 \<le> n \<and> n \<le> 13))"

abbreviation chr_quote :: char where "chr_quote \<equiv> CHR 0x22"
abbreviation chr_apostrophe :: char where "chr_apostrophe \<equiv> CHR 0x27"
abbreviation chr_backslash :: char where "chr_backslash \<equiv> CHR 0x5C"
abbreviation chr_newline :: char where "chr_newline \<equiv> CHR 0x0A"
abbreviation chr_tab :: char where "chr_tab \<equiv> CHR 0x09"

definition trim :: "string \<Rightarrow> string" where
  "trim value = rev (dropWhile is_space (rev (dropWhile is_space value)))"

definition strip_quotes :: "string \<Rightarrow> string" where
  "strip_quotes value =
     (let v = trim value
      in if 2 \<le> length v \<and>
            ((hd v = chr_quote \<and> last v = chr_quote) \<or> (hd v = chr_apostrophe \<and> last v = chr_apostrophe))
         then butlast (tl v) else v)"

fun strip_comment_loop :: "bool \<Rightarrow> bool \<Rightarrow> string \<Rightarrow> string" where
  "strip_comment_loop in_single in_double [] = []"
| "strip_comment_loop in_single in_double (ch # rest) =
     (if ch = chr_apostrophe \<and> \<not> in_double then ch # strip_comment_loop (\<not> in_single) in_double rest
      else if ch = chr_quote \<and> \<not> in_single then ch # strip_comment_loop in_single (\<not> in_double) rest
      else if ch = CHR ''#'' \<and> \<not> in_single \<and> \<not> in_double then []
      else ch # strip_comment_loop in_single in_double rest)"

definition strip_yaml_comment :: "string \<Rightarrow> string" where
  "strip_yaml_comment line = strip_comment_loop False False line"

definition leading_spaces :: "string \<Rightarrow> nat" where
  "leading_spaces line = length (takeWhile (\<lambda>ch. ch = CHR '' '') line)"

text \<open>\<open>std::to_string\<close> of an unsigned number.\<close>

fun nat_to_string :: "nat \<Rightarrow> string" where
  "nat_to_string n =
     (if n < 10 then [char_of (48 + n)] else nat_to_string (n div 10) @ [char_of (48 + n mod 10)])"

declare nat_to_string.simps [simp del]

text \<open>Repeated \<open>std::getline\<close>: a final newline does not start another line.\<close>

fun get_lines :: "string \<Rightarrow> string list" where
  "get_lines [] = []"
| "get_lines (ch # rest) =
     (if ch = chr_newline then [] # get_lines rest
      else case get_lines rest of
             [] \<Rightarrow> [[ch]]
           | l # ls \<Rightarrow> (ch # l) # ls)"

section \<open>The tree\<close>

datatype Kind = Undefined | Scalar | MapKind | SequenceKind

datatype ConfigNode =
  ConfigNode (kind: Kind) (scalar: string) (node_map: "(string \<times> ConfigNode) list")
    (node_sequence: "ConfigNode list")

definition ConfigNode_default :: ConfigNode where
  "ConfigNode_default = ConfigNode Undefined [] [] []"

definition with_kind :: "Kind \<Rightarrow> ConfigNode \<Rightarrow> ConfigNode" where
  "with_kind k n = ConfigNode k (scalar n) (node_map n) (node_sequence n)"

definition set_scalar :: "string \<Rightarrow> ConfigNode" where
  "set_scalar value = ConfigNode Scalar (strip_quotes value) [] []"

fun index_of_key :: "string \<Rightarrow> (string \<times> ConfigNode) list \<Rightarrow> nat option" where
  "index_of_key key [] = None"
| "index_of_key key (e # es) =
     (if fst e = key then Some 0 else map_option Suc (index_of_key key es))"

text \<open>\<open>map_child\<close> returns a reference: here the updated node and the index of the entry.\<close>

definition map_child :: "ConfigNode \<Rightarrow> string \<Rightarrow> (ConfigNode \<times> nat) result" where
  "map_child node key =
     (let n = if kind node = Undefined then with_kind MapKind node else node
      in if kind n \<noteq> MapKind
         then Inl (''behavior spec parser expected a map while assigning key: '' @ key)
         else case index_of_key key (node_map n) of
                Some i \<Rightarrow> Inr (n, i)
              | None \<Rightarrow> Inr (ConfigNode (kind n) (scalar n) (node_map n @ [(key, ConfigNode_default)])
                               (node_sequence n), length (node_map n)))"

definition append_sequence_item :: "ConfigNode \<Rightarrow> (ConfigNode \<times> nat) result" where
  "append_sequence_item node =
     (let n = if kind node = Undefined then with_kind SequenceKind node else node
      in if kind n \<noteq> SequenceKind then Inl ''behavior spec parser expected a sequence item''
         else Inr (ConfigNode (kind n) (scalar n) (node_map n) (node_sequence n @ [ConfigNode_default]),
                   length (node_sequence n)))"

section \<open>The YAML subset\<close>

datatype PathStep = InMap nat | InSeq nat

fun node_at :: "PathStep list \<Rightarrow> ConfigNode \<Rightarrow> ConfigNode" where
  "node_at [] n = n"
| "node_at (InMap i # p) n = node_at p (snd (node_map n ! i))"
| "node_at (InSeq i # p) n = node_at p (node_sequence n ! i)"

fun put_at :: "PathStep list \<Rightarrow> ConfigNode \<Rightarrow> ConfigNode \<Rightarrow> ConfigNode" where
  "put_at [] v n = v"
| "put_at (InMap i # p) v n =
     ConfigNode (kind n) (scalar n)
       ((node_map n)[i := (fst (node_map n ! i), put_at p v (snd (node_map n ! i)))]) (node_sequence n)"
| "put_at (InSeq i # p) v n =
     ConfigNode (kind n) (scalar n) (node_map n) ((node_sequence n)[i := put_at p v (node_sequence n ! i)])"

text \<open>The reader's state: the root and the stack, top first; its bottom entry is never popped.\<close>

record YamlState =
  y_root :: ConfigNode
  y_stack :: "(int \<times> PathStep list) list"

fun pop_stack :: "int \<Rightarrow> (int \<times> PathStep list) list \<Rightarrow> (int \<times> PathStep list) list" where
  "pop_stack indent (e # e' # es) = (if indent \<le> fst e then pop_stack indent (e' # es) else e # e' # es)"
| "pop_stack indent es = es"

definition before_colon :: "string \<Rightarrow> string" where
  "before_colon s = takeWhile (\<lambda>ch. ch \<noteq> CHR '':'') s"

definition after_colon :: "string \<Rightarrow> string" where
  "after_colon s = tl (dropWhile (\<lambda>ch. ch \<noteq> CHR '':'') s)"

definition yaml_sequence_item :: "nat \<Rightarrow> int \<Rightarrow> string \<Rightarrow> YamlState \<Rightarrow> YamlState result" where
  "yaml_sequence_item line_number indent line st =
     (let path = snd (hd (y_stack st)); root = y_root st
      in bindE (append_sequence_item (node_at path root)) (\<lambda>(parent, i).
         let item_path = path @ [InSeq i]; root = put_at path parent root; rest = trim (drop 2 line)
         in if rest = [] then
              Inr \<lparr>y_root = put_at item_path (with_kind MapKind ConfigNode_default) root,
                   y_stack = (indent, item_path) # y_stack st\<rparr>
            else if CHR '':'' \<notin> set rest then
              Inr \<lparr>y_root = put_at item_path (set_scalar rest) root, y_stack = y_stack st\<rparr>
            else let key = trim (before_colon rest); value = trim (after_colon rest)
                 in if key = []
                    then Inl (''empty sequence map key at behavior spec YAML line '' @ nat_to_string line_number)
                    else bindE (map_child (with_kind MapKind ConfigNode_default) key) (\<lambda>(item, j).
                         let root = put_at item_path item root; node_path = item_path @ [InMap j]
                         in if value = [] then
                              Inr \<lparr>y_root = root,
                                   y_stack = (indent + 2, node_path) # (indent, item_path) # y_stack st\<rparr>
                            else
                              Inr \<lparr>y_root = put_at node_path (set_scalar value) root,
                                   y_stack = (indent, item_path) # y_stack st\<rparr>)))"

definition yaml_map_entry :: "nat \<Rightarrow> int \<Rightarrow> string \<Rightarrow> YamlState \<Rightarrow> YamlState result" where
  "yaml_map_entry line_number indent line st =
     (if CHR '':'' \<notin> set line
      then Inl (''invalid behavior spec YAML line '' @ nat_to_string line_number @ '': missing ':'' @ [chr_apostrophe])
      else let key = trim (before_colon line); value = trim (after_colon line)
           in if key = []
              then Inl (''empty behavior spec YAML key at line '' @ nat_to_string line_number)
              else let path = snd (hd (y_stack st)); root = y_root st
                   in bindE (map_child (node_at path root) key) (\<lambda>(parent, i).
                      let node_path = path @ [InMap i]; root = put_at path parent root
                      in if value = [] then Inr \<lparr>y_root = root, y_stack = (indent, node_path) # y_stack st\<rparr>
                         else Inr \<lparr>y_root = put_at node_path (set_scalar value) root, y_stack = y_stack st\<rparr>))"

definition yaml_line :: "nat \<times> string \<Rightarrow> YamlState \<Rightarrow> YamlState result" where
  "yaml_line entry st =
     (let line_number = fst entry; raw_line = snd entry
      in if chr_tab \<in> set raw_line
         then Inl (''tabs are not supported in behavior spec YAML at line '' @ nat_to_string line_number)
         else let uncommented = strip_yaml_comment raw_line;
                  indent = int (leading_spaces uncommented); line = trim uncommented
              in if line = [] then Inr st
                 else let st = st\<lparr>y_stack := pop_stack indent (y_stack st)\<rparr>
                      in if take 2 line = ''- '' then yaml_sequence_item line_number indent line st
                         else yaml_map_entry line_number indent line st)"

fun yaml_lines :: "(nat \<times> string) list \<Rightarrow> YamlState \<Rightarrow> YamlState result" where
  "yaml_lines [] st = Inr st"
| "yaml_lines (e # es) st = bindE (yaml_line e st) (yaml_lines es)"

definition parse_yaml_subset :: "string \<Rightarrow> ConfigNode result" where
  "parse_yaml_subset text =
     bindE (yaml_lines (zip [1..<Suc (length (get_lines text))] (get_lines text))
              \<lparr>y_root = with_kind MapKind ConfigNode_default, y_stack = [(-1, [])]\<rparr>)
           (\<lambda>st. Inr (y_root st))"

section \<open>JSON\<close>

definition skip_ws :: "string \<Rightarrow> string" where
  "skip_ws s = dropWhile is_space s"

definition json_get :: "string \<Rightarrow> (char \<times> string) result" where
  "json_get s = (case skip_ws s of [] \<Rightarrow> Inl ''unexpected end of behavior spec JSON'' | ch # rest \<Rightarrow> Inr (ch, rest))"

fun parse_string_loop :: "string \<Rightarrow> string \<Rightarrow> (string \<times> string) result" where
  "parse_string_loop value [] = Inl ''unterminated JSON string in behavior spec''"
| "parse_string_loop value (ch # rest) =
     (if ch = chr_quote then Inr (value, rest)
      else if ch = chr_backslash then
        (case rest of
           [] \<Rightarrow> Inl ''invalid JSON escape''
         | escaped # rest' \<Rightarrow>
             if escaped = chr_quote \<or> escaped = chr_backslash \<or> escaped = CHR ''/''
             then parse_string_loop (value @ [escaped]) rest'
             else if escaped = CHR ''n'' then parse_string_loop (value @ [chr_newline]) rest'
             else if escaped = CHR ''t'' then parse_string_loop (value @ [chr_tab]) rest'
             else Inl ''unsupported JSON escape in behavior spec'')
      else parse_string_loop (value @ [ch]) rest)"

definition parse_string :: "string \<Rightarrow> (string \<times> string) result" where
  "parse_string s =
     bindE (json_get s) (\<lambda>(ch, rest). if ch \<noteq> chr_quote then Inl ''expected JSON string''
                                      else parse_string_loop [] rest)"

definition literal_end :: "char \<Rightarrow> bool" where
  "literal_end ch \<longleftrightarrow> is_space ch \<or> ch = CHR '','' \<or> ch = CHR ''}'' \<or> ch = CHR '']''"

definition parse_literal :: "string \<Rightarrow> (string \<times> string) result" where
  "parse_literal s =
     (let s = skip_ws s; lit = takeWhile (\<lambda>ch. \<not> literal_end ch) s
      in if lit = [] then Inl ''expected JSON literal in behavior spec''
         else Inr (lit, drop (length lit) s))"

text \<open>
  \<open>parse_value\<close>, \<open>parse_object\<close> and \<open>parse_array\<close> call each other; the last two take the
  reader of the nested values as an argument, and their \<open>while (true)\<close> loops are
  \<open>parse_members\<close> and \<open>parse_elements\<close>, with the entries read so far.
\<close>

type_synonym json_reader = "string \<Rightarrow> (ConfigNode \<times> string) result option"

definition bindO :: "'a result option \<Rightarrow> ('a \<Rightarrow> 'b result option) \<Rightarrow> 'b result option" where
  "bindO m f = (case m of None \<Rightarrow> None | Some (Inl e) \<Rightarrow> Some (Inl e) | Some (Inr x) \<Rightarrow> f x)"

primrec parse_members :: "json_reader \<Rightarrow> nat \<Rightarrow> (string \<times> ConfigNode) list \<Rightarrow> json_reader" where
  "parse_members read_value 0 entries s = None"
| "parse_members read_value (Suc fuel) entries s =
     bindO (Some (parse_string s)) (\<lambda>(key, rest).
     bindO (Some (json_get rest)) (\<lambda>(colon, rest).
       if colon \<noteq> CHR '':'' then Some (Inl ''expected ':' in behavior spec JSON object'')
       else bindO (read_value rest) (\<lambda>(node, rest).
            bindO (Some (json_get rest)) (\<lambda>(ch, rest).
              if ch = CHR ''}'' then Some (Inr (ConfigNode MapKind [] (entries @ [(key, node)]) [], rest))
              else if ch \<noteq> CHR '','' then Some (Inl ''expected ',' or '}' in behavior spec JSON object'')
              else parse_members read_value fuel (entries @ [(key, node)]) rest))))"

definition parse_object :: "json_reader \<Rightarrow> nat \<Rightarrow> json_reader" where
  "parse_object read_value fuel s =
     bindO (Some (json_get s)) (\<lambda>(ch, rest).
       if ch \<noteq> CHR ''{'' then Some (Inl ''expected JSON object'')
       else case skip_ws rest of
              [] \<Rightarrow> parse_members read_value fuel [] []
            | c # cs \<Rightarrow> if c = CHR ''}'' then Some (Inr (ConfigNode MapKind [] [] [], cs))
                       else parse_members read_value fuel [] (c # cs))"

primrec parse_elements :: "json_reader \<Rightarrow> nat \<Rightarrow> ConfigNode list \<Rightarrow> json_reader" where
  "parse_elements read_value 0 entries s = None"
| "parse_elements read_value (Suc fuel) entries s =
     bindO (read_value s) (\<lambda>(node, rest).
     bindO (Some (json_get rest)) (\<lambda>(ch, rest).
       if ch = CHR '']'' then Some (Inr (ConfigNode SequenceKind [] [] (entries @ [node]), rest))
       else if ch \<noteq> CHR '','' then Some (Inl ''expected ',' or ']' in behavior spec JSON array'')
       else parse_elements read_value fuel (entries @ [node]) rest))"

definition parse_array :: "json_reader \<Rightarrow> nat \<Rightarrow> json_reader" where
  "parse_array read_value fuel s =
     bindO (Some (json_get s)) (\<lambda>(ch, rest).
       if ch \<noteq> CHR ''['' then Some (Inl ''expected JSON array'')
       else case skip_ws rest of
              [] \<Rightarrow> parse_elements read_value fuel [] []
            | c # cs \<Rightarrow> if c = CHR '']'' then Some (Inr (ConfigNode SequenceKind [] [] [], cs))
                       else parse_elements read_value fuel [] (c # cs))"

primrec parse_value :: "nat \<Rightarrow> json_reader" where
  "parse_value 0 = (\<lambda>s. None)"
| "parse_value (Suc fuel) = (\<lambda>s.
     bindO (Some (json_get s)) (\<lambda>(ch, _).
       if ch = CHR ''{'' then parse_object (parse_value fuel) fuel s
       else if ch = CHR ''['' then parse_array (parse_value fuel) fuel s
       else if ch = chr_quote then
         Some (bindE (parse_string s) (\<lambda>(v, rest). Inr (set_scalar v, rest)))
       else Some (bindE (parse_literal s) (\<lambda>(v, rest). Inr (set_scalar v, rest)))))"

definition json_fuel :: "string \<Rightarrow> nat" where
  "json_fuel text = length text + 1"

definition json_parse :: "string \<Rightarrow> ConfigNode result option" where
  "json_parse text =
     (case parse_value (json_fuel text) text of
        None \<Rightarrow> None
      | Some r \<Rightarrow> Some (bindE r (\<lambda>(node, rest).
          if skip_ws rest \<noteq> [] then Inl ''unexpected trailing behavior spec JSON content'' else Inr node)))"

section \<open>The JSON reader returns\<close>

lemma bindO_simps [simp]:
  "bindO None f = None" "bindO (Some (Inl e)) f = Some (Inl e)" "bindO (Some (Inr x)) f = f x"
  by (simp_all add: bindO_def)

lemma bindO_Some_iff: "bindO (Some m) f = Some (Inr y) \<longleftrightarrow> (\<exists>x. m = Inr x \<and> f x = Some (Inr y))"
  by (cases m) simp_all

lemma bindO_Inr_iff: "bindO m f = Some (Inr y) \<longleftrightarrow> (\<exists>x. m = Some (Inr x) \<and> f x = Some (Inr y))"
  by (cases m) (auto simp: bindO_Some_iff)

definition returns :: "'a option \<Rightarrow> bool" where
  "returns m \<longleftrightarrow> m \<noteq> None"

lemma returns_Some [simp]: "returns (Some x)"
  by (simp add: returns_def)

lemma bindO_returns:
  "returns m \<Longrightarrow> (\<And>x. m = Some (Inr x) \<Longrightarrow> returns (f x)) \<Longrightarrow> returns (bindO m f)"
  by (auto simp: bindO_def returns_def split: sum.splits)

text \<open>A reader that succeeds has consumed at least one character.\<close>

definition consumes :: "json_reader \<Rightarrow> bool" where
  "consumes r \<longleftrightarrow> (\<forall>s n rest. r s = Some (Inr (n, rest)) \<longrightarrow> length rest < length s)"

lemma length_skip_ws: "length (skip_ws s) \<le> length s"
  by (simp add: skip_ws_def length_dropWhile_le)

lemma json_get_length: "json_get s = Inr (ch, rest) \<Longrightarrow> length rest < length s"
  using length_skip_ws [of s] by (auto simp: json_get_def split: list.splits)

lemma parse_string_loop_length:
  "parse_string_loop v s = Inr (v', rest) \<Longrightarrow> length rest < length s"
proof (induction v s rule: parse_string_loop.induct)
  case (2 v ch s)
  then show ?case
    by (auto split: if_splits list.splits)
qed simp

lemma parse_string_length: "parse_string s = Inr (v, rest) \<Longrightarrow> length rest < length s"
  by (auto simp: parse_string_def bindE_Inr_iff split: if_splits
      dest!: json_get_length parse_string_loop_length)

lemma parse_literal_length: "parse_literal s = Inr (v, rest) \<Longrightarrow> length rest < length s"
  using length_skip_ws [of s]
  by (cases "skip_ws s") (auto simp: parse_literal_def Let_def split: if_splits)

lemma parse_members_length:
  assumes "consumes read_value"
  shows "parse_members read_value fuel entries s = Some (Inr (n, rest)) \<Longrightarrow> length rest < length s"
proof (induction fuel arbitrary: entries s)
  case (Suc fuel)
  then obtain key r1 colon r2 node r3 ch r4
    where "parse_string s = Inr (key, r1)" "json_get r1 = Inr (colon, r2)"
      "read_value r2 = Some (Inr (node, r3))" "json_get r3 = Inr (ch, r4)"
      and last: "r4 = rest \<or> parse_members read_value fuel (entries @ [(key, node)]) r4 = Some (Inr (n, rest))"
    by (auto simp: bindO_Inr_iff split: if_splits)
  then have "length r4 < length s"
    using assms unfolding consumes_def by (fastforce dest!: parse_string_length json_get_length)
  with last Suc.IH show ?case by fastforce
qed simp

lemma parse_elements_length:
  assumes "consumes read_value"
  shows "parse_elements read_value fuel entries s = Some (Inr (n, rest)) \<Longrightarrow> length rest < length s"
proof (induction fuel arbitrary: entries s)
  case (Suc fuel)
  then obtain node r3 ch r4
    where "read_value s = Some (Inr (node, r3))" "json_get r3 = Inr (ch, r4)"
      and last: "r4 = rest \<or> parse_elements read_value fuel (entries @ [node]) r4 = Some (Inr (n, rest))"
    by (auto simp: bindO_Inr_iff split: if_splits)
  then have "length r4 < length s"
    using assms unfolding consumes_def by (fastforce dest!: json_get_length)
  with last Suc.IH show ?case by fastforce
qed simp

lemma parse_object_length:
  assumes "consumes read_value" and "parse_object read_value fuel s = Some (Inr (n, rest))"
  shows "length rest < length s"
proof -
  obtain ch r where "json_get s = Inr (ch, r)"
    and "case skip_ws r of [] \<Rightarrow> parse_members read_value fuel [] [] = Some (Inr (n, rest))
         | c # cs \<Rightarrow> cs = rest \<or> parse_members read_value fuel [] (c # cs) = Some (Inr (n, rest))"
    using assms(2) by (auto simp: parse_object_def bindO_Inr_iff split: if_splits list.splits)
  then show ?thesis
    using json_get_length [of s ch r] length_skip_ws [of r] parse_members_length [OF assms(1), of fuel "[]"]
    by (auto split: list.splits) fastforce+
qed

lemma parse_array_length:
  assumes "consumes read_value" and "parse_array read_value fuel s = Some (Inr (n, rest))"
  shows "length rest < length s"
proof -
  obtain ch r where "json_get s = Inr (ch, r)"
    and "case skip_ws r of [] \<Rightarrow> parse_elements read_value fuel [] [] = Some (Inr (n, rest))
         | c # cs \<Rightarrow> cs = rest \<or> parse_elements read_value fuel [] (c # cs) = Some (Inr (n, rest))"
    using assms(2) by (auto simp: parse_array_def bindO_Inr_iff split: if_splits list.splits)
  then show ?thesis
    using json_get_length [of s ch r] length_skip_ws [of r] parse_elements_length [OF assms(1), of fuel "[]"]
    by (auto split: list.splits) fastforce+
qed

lemma parse_value_consumes: "consumes (parse_value fuel)"
proof (induction fuel)
  case (Suc fuel)
  then show ?case
    unfolding consumes_def [of "parse_value (Suc fuel)"]
    by (auto simp: bindO_Inr_iff bindE_Inr_iff split: if_splits
        dest: parse_object_length parse_array_length parse_string_length parse_literal_length)
qed (simp add: consumes_def)

definition returns_below :: "json_reader \<Rightarrow> nat \<Rightarrow> bool" where
  "returns_below r k \<longleftrightarrow> (\<forall>s. length s < k \<longrightarrow> returns (r s))"

lemma parse_members_returns:
  assumes "consumes read_value" and "returns_below read_value k"
  shows "length s < k \<Longrightarrow> length s < fuel \<Longrightarrow> returns (parse_members read_value fuel entries s)"
proof (induction fuel arbitrary: entries s)
  case (Suc fuel)
  have step: "length r4 < fuel \<and> length r4 < k" if "parse_string s = Inr (key, r1)" "json_get r1 = Inr (colon, r2)"
      "read_value r2 = Some (Inr (node, r3))" "json_get r3 = Inr (ch, r4)" for key r1 colon r2 node r3 ch r4
    using that assms(1) Suc.prems unfolding consumes_def
    by (fastforce dest!: parse_string_length json_get_length)
  have rv: "returns (read_value r2)" if "parse_string s = Inr (key, r1)" "json_get r1 = Inr (colon, r2)" for key r1 colon r2
    using that assms(2) Suc.prems unfolding returns_below_def
    by (fastforce dest!: parse_string_length json_get_length)
  show ?case
    unfolding parse_members.simps
    by (intro bindO_returns) (auto intro!: bindO_returns Suc.IH, (use rv step in blast)+)
qed simp

lemma parse_elements_returns:
  assumes "consumes read_value" and "returns_below read_value k"
  shows "length s < k \<Longrightarrow> length s < fuel \<Longrightarrow> returns (parse_elements read_value fuel entries s)"
proof (induction fuel arbitrary: entries s)
  case (Suc fuel)
  have step: "length r4 < fuel \<and> length r4 < k" if "read_value s = Some (Inr (node, r3))"
      "json_get r3 = Inr (ch, r4)" for node r3 ch r4
    using that assms(1) Suc.prems unfolding consumes_def by (fastforce dest!: json_get_length)
  have rv: "returns (read_value s)"
    using assms(2) Suc.prems unfolding returns_below_def by blast
  show ?case
    unfolding parse_elements.simps
    by (intro bindO_returns rv) (auto intro!: bindO_returns Suc.IH dest: step step [THEN conjunct2])
qed simp

lemma parse_value_returns: "returns_below (parse_value fuel) fuel"
proof (induction fuel)
  case (Suc fuel)
  have obj: "returns (parse_object (parse_value fuel) fuel s)" if "length s < Suc fuel" for s
  proof -
    have "returns (parse_members (parse_value fuel) fuel [] (skip_ws r))" if "json_get s = Inr (ch, r)" for ch r
      using parse_members_returns [OF parse_value_consumes Suc.IH] json_get_length [OF that]
        length_skip_ws [of r] \<open>length s < Suc fuel\<close> by simp
    note members = this
    show ?thesis
      unfolding parse_object_def
      by (intro bindO_returns) (use members in \<open>fastforce split: list.splits\<close>)+
  qed
  have arr: "returns (parse_array (parse_value fuel) fuel s)" if "length s < Suc fuel" for s
  proof -
    have "returns (parse_elements (parse_value fuel) fuel [] (skip_ws r))" if "json_get s = Inr (ch, r)" for ch r
      using parse_elements_returns [OF parse_value_consumes Suc.IH] json_get_length [OF that]
        length_skip_ws [of r] \<open>length s < Suc fuel\<close> by simp
    note members = this
    show ?thesis
      unfolding parse_array_def
      by (intro bindO_returns) (use members in \<open>fastforce split: list.splits\<close>)+
  qed
  show ?case
    unfolding returns_below_def parse_value.simps
    by (intro allI impI bindO_returns) (use obj arr in \<open>auto\<close>)
qed (simp add: returns_below_def)

lemma json_parse_terminates: "json_parse text \<noteq> None"
  using parse_value_returns [of "json_fuel text"]
  by (auto simp: json_parse_def json_fuel_def returns_below_def returns_def split: option.splits)

end
