(* ===== verification/Behavior_Config.thy ===== *)
theory Behavior_Config
  imports Behavior_Parser
begin

text \<open>
  From the configuration tree to a mission: the typed accessors and \<open>parse_behavior_spec_text\<close>
  (\<open>behavior_spec.cpp\<close>).  \<open>std::stod\<close> is the argument \<open>stod\<close>: the parsed value and the
  number of characters consumed, or \<open>None\<close> when it throws.

  The main result is that whatever the function returns is a well-formed mission, at every depth
  of nested sequences.  The checks are comparisons such as \<open>max_speed_mps <= 0\<close>, which NaN
  passes; \<open>not_le_zero\<close> says what they establish.
\<close>

type_synonym stod_fun = "string \<Rightarrow> (double \<times> nat) option"

section \<open>Accessors\<close>

definition child :: "ConfigNode \<Rightarrow> string \<Rightarrow> ConfigNode option" where
  "child node key = (if kind node \<noteq> MapKind then None else map_of (node_map node) key)"

definition required_child :: "ConfigNode \<Rightarrow> string \<Rightarrow> string \<Rightarrow> ConfigNode result" where
  "required_child node key ctx =
     (case child node key of
        None \<Rightarrow> Inl (''missing required behavior spec field: '' @ ctx @ ''.'' @ key)
      | Some c \<Rightarrow> Inr c)"

definition scalar_string :: "ConfigNode \<Rightarrow> string \<Rightarrow> string result" where
  "scalar_string node ctx =
     (if kind node \<noteq> Scalar then Inl (''expected scalar behavior spec field: '' @ ctx) else Inr (scalar node))"

definition optional_string :: "ConfigNode \<Rightarrow> string \<Rightarrow> string \<Rightarrow> string result" where
  "optional_string node key fb = (case child node key of None \<Rightarrow> Inr fb | Some c \<Rightarrow> scalar_string c key)"

definition parse_double_text :: "stod_fun \<Rightarrow> string \<Rightarrow> string \<Rightarrow> double result" where
  "parse_double_text stod value ctx =
     (let err = Inl (''invalid numeric behavior spec field: '' @ ctx @ ''='' @ value)
      in case stod value of
           None \<Rightarrow> err
         | Some (parsed, consumed) \<Rightarrow> if consumed \<noteq> length value then err else Inr parsed)"

definition optional_double :: "stod_fun \<Rightarrow> ConfigNode \<Rightarrow> string \<Rightarrow> double \<Rightarrow> double result" where
  "optional_double stod node key fb =
     (case child node key of
        None \<Rightarrow> Inr fb
      | Some c \<Rightarrow> bindE (scalar_string c key) (\<lambda>s. parse_double_text stod s key))"

definition required_double :: "stod_fun \<Rightarrow> ConfigNode \<Rightarrow> string \<Rightarrow> string \<Rightarrow> double result" where
  "required_double stod node key ctx =
     bindE (required_child node key ctx) (\<lambda>c.
     bindE (scalar_string c (ctx @ ''.'' @ key)) (\<lambda>s. parse_double_text stod s (ctx @ ''.'' @ key)))"

definition parse_vector3 :: "stod_fun \<Rightarrow> ConfigNode \<Rightarrow> string \<Rightarrow> Vec3 result" where
  "parse_vector3 stod node ctx =
     bindE (required_double stod node ''x'' ctx) (\<lambda>x.
     bindE (required_double stod node ''y'' ctx) (\<lambda>y.
     bindE (required_double stod node ''z'' ctx) (\<lambda>z. Inr (vec3 x y z))))"

section \<open>The parts of a mission\<close>

definition parse_target_selector :: "stod_fun \<Rightarrow> ConfigNode \<Rightarrow> TargetSelectorSpec result" where
  "parse_target_selector stod cfg =
     (let spec = TargetSelectorSpec_default in
      bindE (required_child cfg ''target'' ''root'') (\<lambda>target.
      bindE (required_child target ''selector'' ''target'') (\<lambda>selector.
      bindE (required_child selector ''class'' ''target.selector'') (\<lambda>c.
      bindE (scalar_string c ''target.selector.class'') (\<lambda>label.
      bindE (optional_string selector ''track_id'' (ts_track_id spec)) (\<lambda>track.
      bindE (optional_string selector ''agent_id'' (ts_agent_id spec)) (\<lambda>agent.
      bindE (throw_if (class_label_from_string label = ClassUnknown) ''target.selector.class must not be empty'') (\<lambda>_.
      bindE (optional_double stod selector ''confidence_min'' (ts_confidence_min spec)) (\<lambda>conf.
      bindE (optional_string selector ''policy'' (policy_to_string (ts_policy spec))) (\<lambda>pol.
      bindE (parse_policy pol) (\<lambda>policy.
      bindE (optional_double stod selector ''reacquire_timeout_s'' (ts_reacquire_timeout_s spec)) (\<lambda>reacquire.
      bindE (throw_if (conf < 0 \<or> 1 < conf) ''target.selector.confidence_min must be in [0, 1]'') (\<lambda>_.
      bindE (throw_if (reacquire < 0) ''target.selector.reacquire_timeout_s must be non-negative'') (\<lambda>_.
      Inr \<lparr>ts_class_label = class_label_from_string label, ts_track_id = track, ts_agent_id = agent,
           ts_confidence_min = conf, ts_policy = policy, ts_reacquire_timeout_s = reacquire\<rparr>))))))))))))))"

definition parse_profile_heights :: "stod_fun \<Rightarrow> ConfigNode \<Rightarrow> string \<Rightarrow> (double \<times> double) result" where
  "parse_profile_heights stod node ctx =
     (if child node ''hold_height_m'' \<noteq> None then
        bindE (required_double stod node ''hold_height_m'' ctx) (\<lambda>h. Inr (h, h))
      else if child node ''start_height_m'' = None \<or> child node ''end_height_m'' = None then
        Inl (ctx @ '' must define start_height_m and end_height_m, or hold_height_m'')
      else
        bindE (required_double stod node ''start_height_m'' ctx) (\<lambda>s.
        bindE (required_double stod node ''end_height_m'' ctx) (\<lambda>e. Inr (s, e))))"

definition parse_altitude_profile :: "stod_fun \<Rightarrow> ConfigNode \<Rightarrow> string \<Rightarrow> AltitudeProfileSpec result" where
  "parse_altitude_profile stod node ctx =
     (let profile = AltitudeProfileSpec_default in
      bindE (optional_string node ''easing'' (ap_easing profile)) (\<lambda>easing.
      bindE (optional_double stod node ''duration_s'' (ap_duration_s profile)) (\<lambda>duration.
      bindE (parse_profile_heights stod node ctx) (\<lambda>(s, e).
      bindE (throw_if (s < 0) (ctx @ ''.start_height_m must be non-negative'')) (\<lambda>_.
      bindE (throw_if (e < 0) (ctx @ ''.end_height_m must be non-negative'')) (\<lambda>_.
      bindE (throw_if (duration < 0) (ctx @ ''.duration_s must be non-negative'')) (\<lambda>_.
      bindE (throw_if (easing \<noteq> ''smoothstep'' \<and> easing \<noteq> ''linear'')
               (ctx @ ''.easing must be smoothstep or linear'')) (\<lambda>_.
      Inr \<lparr>ap_enabled = True, ap_start_height_m = s, ap_end_height_m = e, ap_duration_s = duration,
           ap_easing = easing\<rparr>))))))))"

text \<open>The scalar members of a behaviour, before any of its checks (first half of \<open>parse_behavior\<close>).\<close>

definition parse_behavior_fields :: "stod_fun \<Rightarrow> ConfigNode \<Rightarrow> string \<Rightarrow> BehaviorFields result" where
  "parse_behavior_fields stod node ctx =
     (let spec = BehaviorFields_default in
      bindE (required_child node ''type'' ctx) (\<lambda>t.
      bindE (scalar_string t (ctx @ ''.type'')) (\<lambda>t.
      bindE (parse_behavior_type t) (\<lambda>btype.
      bindE (optional_string node ''target_frame'' (frame_to_string (b_target_frame spec))) (\<lambda>f.
      bindE (parse_reference_frame f) (\<lambda>frame.
      bindE (case child node ''relative_offset_m'' of
               None \<Rightarrow> Inr (b_relative_offset_m spec)
             | Some offset \<Rightarrow> parse_vector3 stod offset (ctx @ ''.relative_offset_m'')) (\<lambda>offset.
      bindE (optional_double stod node ''max_speed_mps'' (b_max_speed_mps spec)) (\<lambda>speed.
      bindE (optional_double stod node ''max_vertical_speed_mps'' (b_max_vertical_speed_mps spec)) (\<lambda>vspeed.
      bindE (optional_double stod node ''position_tolerance_m'' (b_position_tolerance_m spec)) (\<lambda>tol.
      bindE (optional_double stod node ''lost_target_timeout_s'' (b_lost_target_timeout_s spec)) (\<lambda>lost.
      bindE (optional_string node ''yaw_mode'' (b_yaw_mode spec)) (\<lambda>yaw.
      bindE (optional_string node ''camera_pointing_mode'' (b_camera_pointing_mode spec)) (\<lambda>cam.
      bindE (optional_double stod node ''radius_m'' (b_radius_m spec)) (\<lambda>radius.
      bindE (optional_double stod node ''altitude_offset_m'' (b_altitude_offset_m spec)) (\<lambda>alt.
      bindE (case child node ''altitude_profile'' of
               None \<Rightarrow> Inr (b_altitude_profile spec)
             | Some p \<Rightarrow> parse_altitude_profile stod p (ctx @ ''.altitude_profile'')) (\<lambda>profile.
      bindE (optional_double stod node ''angular_speed_deg_s'' (b_angular_speed_deg_s spec)) (\<lambda>ang.
      bindE (optional_string node ''direction'' (direction_to_string (b_direction spec))) (\<lambda>d.
      bindE (parse_circle_direction d) (\<lambda>dir.
      bindE (optional_double stod node ''orbit_count'' (b_orbit_count spec)) (\<lambda>orbits.
      bindE (if orbits \<le> 0 then optional_double stod node ''orbits'' orbits else Inr orbits) (\<lambda>orbits.
      bindE (optional_double stod node ''stop_distance_m'' (b_stop_distance_m spec)) (\<lambda>stop.
      bindE (optional_double stod node ''duration_s'' (b_duration_s spec)) (\<lambda>duration.
      Inr \<lparr>b_type = btype, b_target_frame = frame, b_relative_offset_m = offset, b_max_speed_mps = speed,
           b_max_vertical_speed_mps = vspeed, b_position_tolerance_m = tol, b_lost_target_timeout_s = lost,
           b_yaw_mode = yaw, b_camera_pointing_mode = cam, b_yaw_offset_rad = b_yaw_offset_rad spec,
           b_radius_m = radius, b_altitude_offset_m = alt, b_altitude_profile = profile,
           b_angular_speed_deg_s = ang, b_direction = dir, b_orbit_count = orbits,
           b_stop_distance_m = stop, b_duration_s = duration\<rparr>)))))))))))))))))))))))"

text \<open>The checks at the end of \<open>parse_behavior\<close>.\<close>

definition check_behavior_type :: "ConfigNode \<Rightarrow> string \<Rightarrow> BehaviorFields \<Rightarrow> BehaviorSpec list \<Rightarrow> unit result" where
  "check_behavior_type node ctx f ss =
     (case b_type f of
        BtFollow \<Rightarrow> throw_if (child node ''relative_offset_m'' = None)
                     (ctx @ ''.relative_offset_m is required for follow behavior'')
      | BtCircle \<Rightarrow>
          bindE (throw_if (b_radius_m f \<le> 0) (ctx @ ''.radius_m must be positive for circle behavior'')) (\<lambda>_.
          throw_if (b_angular_speed_deg_s f \<le> 0) (ctx @ ''.angular_speed_deg_s must be positive for circle behavior''))
      | BtApproach \<Rightarrow> throw_if (b_stop_distance_m f \<le> 0)
                     (ctx @ ''.stop_distance_m must be positive for approach behavior'')
      | BtSequence \<Rightarrow> throw_if (ss = []) (ctx @ ''.steps must contain at least one step for sequence behavior'')
      | _ \<Rightarrow> Inr ())"

definition check_behavior :: "ConfigNode \<Rightarrow> string \<Rightarrow> BehaviorFields \<Rightarrow> BehaviorSpec list \<Rightarrow> unit result" where
  "check_behavior node ctx f ss =
     bindE (throw_if (b_max_speed_mps f \<le> 0) (ctx @ ''.max_speed_mps must be positive'')) (\<lambda>_.
     bindE (throw_if (b_max_vertical_speed_mps f \<le> 0) (ctx @ ''.max_vertical_speed_mps must be positive'')) (\<lambda>_.
     bindE (throw_if (b_position_tolerance_m f < 0) (ctx @ ''.position_tolerance_m must be non-negative'')) (\<lambda>_.
     bindE (throw_if (b_lost_target_timeout_s f < 0) (ctx @ ''.lost_target_timeout_s must be non-negative'')) (\<lambda>_.
     bindE (throw_if (b_orbit_count f < 0) (ctx @ ''.orbit_count must be non-negative'')) (\<lambda>_.
     check_behavior_type node ctx f ss)))))"

lemma map_of_size_less:
  assumes "map_of es key = Some c"
  shows "size c < Suc (size_list (size_prod (\<lambda>_. 0) size) es)"
  using assms
proof (induction es)
  case (Cons e es)
  then show ?case by (cases e) (auto split: if_splits)
qed simp

lemma child_size_less: "child node key = Some c \<Longrightarrow> size c < size node"
  by (cases node) (auto simp: child_def split: if_splits dest: map_of_size_less)

lemma node_sequence_size: "size_list size (node_sequence c) < size c"
  by (cases c) simp

function parse_behavior :: "stod_fun \<Rightarrow> ConfigNode \<Rightarrow> string \<Rightarrow> BehaviorSpec result"
and parse_steps :: "stod_fun \<Rightarrow> ConfigNode list \<Rightarrow> string \<Rightarrow> nat \<Rightarrow> BehaviorSpec list result" where
  "parse_behavior stod node ctx =
     bindE (parse_behavior_fields stod node ctx) (\<lambda>f.
     bindE (case child node ''steps'' of
              None \<Rightarrow> Inr []
            | Some ss \<Rightarrow> if kind ss \<noteq> SequenceKind then Inl (ctx @ ''.steps must be a sequence'')
                        else parse_steps stod (node_sequence ss) ctx 0) (\<lambda>ss.
     bindE (check_behavior node ctx f ss) (\<lambda>_. Inr (BehaviorSpec f ss))))"
| "parse_steps stod [] ctx i = Inr []"
| "parse_steps stod (n # ns) ctx i =
     bindE (parse_behavior stod n (ctx @ ''.steps['' @ nat_to_string i @ '']'')) (\<lambda>s.
     bindE (parse_steps stod ns ctx (Suc i)) (\<lambda>ss. Inr (s # ss)))"
  by pat_completeness auto

termination
proof (relation "measure (\<lambda>x. case x of Inl (_, n, _) \<Rightarrow> size n | Inr (_, ns, _, _) \<Rightarrow> size_list size ns)",
    goal_cases)
  case (2 stod node ctx f c)
  then show ?case
    using child_size_less [of node "''steps''" c] node_sequence_size [of c] by simp
qed simp_all

definition parse_completion :: "stod_fun \<Rightarrow> ConfigNode \<Rightarrow> CompletionSpec result" where
  "parse_completion stod cfg =
     (let spec = CompletionSpec_default in
      case child cfg ''completion'' of
        None \<Rightarrow> Inr spec
      | Some completion \<Rightarrow>
          bindE (optional_double stod completion ''after_s'' (cs_after_s spec)) (\<lambda>after.
          bindE (optional_string completion ''then'' (completion_to_string (cs_then spec))) (\<lambda>t.
          bindE (parse_completion_action t) (\<lambda>action.
          bindE (throw_if (after < 0) ''completion.after_s must be non-negative'') (\<lambda>_.
          Inr \<lparr>cs_after_s = after, cs_then = action\<rparr>)))))"

definition parse_fallback :: "stod_fun \<Rightarrow> ConfigNode \<Rightarrow> FallbackSpec result" where
  "parse_fallback stod cfg =
     (let spec = FallbackSpec_default in
      case child cfg ''fallback'' of
        None \<Rightarrow> Inr spec
      | Some fb \<Rightarrow>
          bindE (optional_string fb ''on_target_lost'' (fallback_to_string (fs_on_target_lost spec))) (\<lambda>t.
          bindE (parse_target_lost_fallback t) (\<lambda>lost.
          bindE (optional_double stod fb ''hold_s'' (fs_hold_s spec)) (\<lambda>hold.
          bindE (optional_double stod fb ''search_s'' (fs_search_s spec)) (\<lambda>search.
          bindE (throw_if (hold < 0 \<or> search < 0) ''fallback hold/search durations must be non-negative'') (\<lambda>_.
          Inr \<lparr>fs_on_target_lost = lost, fs_hold_s = hold, fs_search_s = search\<rparr>))))))"

definition infer_format :: "string \<Rightarrow> BehaviorSpecFormat \<Rightarrow> BehaviorSpecFormat" where
  "infer_format text format =
     (if format \<noteq> Auto then format
      else let stripped = trim text
           in if stripped \<noteq> [] \<and> (hd stripped = CHR ''{'' \<or> hd stripped = CHR ''['') then Json else Yaml)"

text \<open>The mission of a configuration tree: everything after the choice of the reader.\<close>

definition parse_mission :: "stod_fun \<Rightarrow> ConfigNode \<Rightarrow> BehaviorMissionSpec result" where
  "parse_mission stod cfg =
     bindE (throw_if (kind cfg \<noteq> MapKind) ''behavior spec root must be a map/object'') (\<lambda>_.
     bindE (case child cfg ''mission'' of
              None \<Rightarrow> Inr ''object_behavior''
            | Some mission \<Rightarrow> optional_string mission ''name'' ''object_behavior'') (\<lambda>name.
     bindE (parse_target_selector stod cfg) (\<lambda>target.
     bindE (required_child cfg ''behavior'' ''root'') (\<lambda>b.
     bindE (parse_behavior stod b ''behavior'') (\<lambda>behavior.
     bindE (parse_completion stod cfg) (\<lambda>completion.
     bindE (parse_fallback stod cfg) (\<lambda>fb.
     Inr \<lparr>bm_mission_name = name, bm_target = target, bm_behavior = behavior, bm_completion = completion,
          bm_fallback = fb\<rparr>)))))))"

definition parse_behavior_spec_text ::
    "stod_fun \<Rightarrow> string \<Rightarrow> BehaviorSpecFormat \<Rightarrow> BehaviorMissionSpec result option" where
  "parse_behavior_spec_text stod text format =
     bindO (if infer_format text format = Json then json_parse text else Some (parse_yaml_subset text))
       (\<lambda>cfg. Some (parse_mission stod cfg))"

section \<open>What is returned is well-formed\<close>

text \<open>The negations of the comparisons the code throws on.\<close>

definition not_le_zero :: "double \<Rightarrow> bool" where "not_le_zero x \<longleftrightarrow> \<not> x \<le> 0"
definition not_lt_zero :: "double \<Rightarrow> bool" where "not_lt_zero x \<longleftrightarrow> \<not> x < 0"

lemma not_le_zero_iff: "not_le_zero x \<longleftrightarrow> 0 < x \<or> x = NaN"
  by (cases x) (auto simp: not_le_zero_def)

lemma not_lt_zero_iff: "not_lt_zero x \<longleftrightarrow> 0 \<le> x \<or> x = NaN"
  by (cases x) (auto simp: not_lt_zero_def)

definition profile_ok :: "AltitudeProfileSpec \<Rightarrow> bool" where
  "profile_ok p \<longleftrightarrow> not_lt_zero (ap_start_height_m p) \<and> not_lt_zero (ap_end_height_m p) \<and>
     not_lt_zero (ap_duration_s p) \<and> ap_easing p \<in> {''smoothstep'', ''linear''}"

definition fields_ok :: "BehaviorFields \<Rightarrow> bool" where
  "fields_ok f \<longleftrightarrow> not_le_zero (b_max_speed_mps f) \<and> not_le_zero (b_max_vertical_speed_mps f) \<and>
     not_lt_zero (b_position_tolerance_m f) \<and> not_lt_zero (b_lost_target_timeout_s f) \<and>
     not_lt_zero (b_orbit_count f) \<and> profile_ok (b_altitude_profile f) \<and>
     (b_type f = BtCircle \<longrightarrow> not_le_zero (b_radius_m f) \<and> not_le_zero (b_angular_speed_deg_s f)) \<and>
     (b_type f = BtApproach \<longrightarrow> not_le_zero (b_stop_distance_m f))"

fun behavior_ok :: "BehaviorSpec \<Rightarrow> bool" where
  "behavior_ok (BehaviorSpec f ss) \<longleftrightarrow>
     fields_ok f \<and> (b_type f = BtSequence \<longrightarrow> ss \<noteq> []) \<and> (\<forall>s\<in>set ss. behavior_ok s)"

definition target_ok :: "TargetSelectorSpec \<Rightarrow> bool" where
  "target_ok t \<longleftrightarrow> ts_class_label t \<noteq> ClassUnknown \<and> not_lt_zero (ts_confidence_min t) \<and>
     \<not> 1 < ts_confidence_min t \<and> not_lt_zero (ts_reacquire_timeout_s t)"

definition mission_ok :: "BehaviorMissionSpec \<Rightarrow> bool" where
  "mission_ok m \<longleftrightarrow> target_ok (bm_target m) \<and> behavior_ok (bm_behavior m) \<and>
     not_lt_zero (cs_after_s (bm_completion m)) \<and> not_lt_zero (fs_hold_s (bm_fallback m)) \<and>
     not_lt_zero (fs_search_s (bm_fallback m))"

lemma parse_target_selector_ok: "parse_target_selector stod cfg = Inr t \<Longrightarrow> target_ok t"
  by (auto simp: parse_target_selector_def Let_def bindE_Inr_iff target_ok_def not_lt_zero_def)

lemma parse_altitude_profile_ok: "parse_altitude_profile stod n ctx = Inr p \<Longrightarrow> profile_ok p"
  by (auto simp: parse_altitude_profile_def Let_def bindE_Inr_iff profile_ok_def not_lt_zero_def)

lemma parse_behavior_fields_profile:
  "parse_behavior_fields stod n ctx = Inr f \<Longrightarrow> profile_ok (b_altitude_profile f)"
  by (auto simp: parse_behavior_fields_def Let_def bindE_Inr_iff BehaviorFields_default_def
      AltitudeProfileSpec_default_def profile_ok_def not_lt_zero_def
      split: option.splits dest!: parse_altitude_profile_ok)

lemma check_behavior_ok:
  assumes "check_behavior node ctx f ss = Inr u" and "profile_ok (b_altitude_profile f)"
  shows "fields_ok f \<and> (b_type f = BtSequence \<longrightarrow> ss \<noteq> [])"
  using assms by (cases "b_type f")
    (auto simp: check_behavior_def check_behavior_type_def bindE_Inr_iff fields_ok_def not_le_zero_def
      not_lt_zero_def)

lemma parse_behavior_ok:
  "parse_behavior stod node ctx = Inr b \<Longrightarrow> behavior_ok b"
  "parse_steps stod nodes ctx i = Inr ss \<Longrightarrow> \<forall>s\<in>set ss. behavior_ok s"
proof (induction stod node ctx and stod nodes ctx i arbitrary: b and ss rule: parse_behavior_parse_steps.induct)
  case (1 stod node ctx)
  then obtain f ss u where f: "parse_behavior_fields stod node ctx = Inr f"
    and ss: "(case child node ''steps'' of None \<Rightarrow> Inr []
              | Some c \<Rightarrow> if kind c \<noteq> SequenceKind then Inl (ctx @ ''.steps must be a sequence'')
                         else parse_steps stod (node_sequence c) ctx 0) = Inr ss"
    and check: "check_behavior node ctx f ss = Inr u" and b: "b = BehaviorSpec f ss"
    by (auto simp: bindE_Inr_iff simp del: parse_behavior.simps simp: parse_behavior.simps [of stod node])
  have "\<forall>s\<in>set ss. behavior_ok s"
    using ss 1(1) [OF f] by (auto split: option.splits if_splits)
  with check_behavior_ok [OF check parse_behavior_fields_profile [OF f]] b show ?case by simp
next
  case (3 stod n ns ctx i)
  then show ?case by (fastforce simp: bindE_Inr_iff simp del: parse_behavior.simps)
qed simp

lemma parse_completion_ok: "parse_completion stod cfg = Inr c \<Longrightarrow> not_lt_zero (cs_after_s c)"
  by (auto simp: parse_completion_def Let_def bindE_Inr_iff not_lt_zero_def CompletionSpec_default_def
      split: option.splits)

lemma parse_fallback_ok:
  "parse_fallback stod cfg = Inr c \<Longrightarrow> not_lt_zero (fs_hold_s c) \<and> not_lt_zero (fs_search_s c)"
  by (auto simp: parse_fallback_def Let_def bindE_Inr_iff not_lt_zero_def FallbackSpec_default_def
      split: option.splits)

lemma parse_mission_ok: "parse_mission stod cfg = Inr m \<Longrightarrow> mission_ok m"
  by (auto simp: parse_mission_def bindE_Inr_iff mission_ok_def simp del: parse_behavior.simps
      dest: parse_target_selector_ok parse_behavior_ok parse_completion_ok parse_fallback_ok)

end
