(* ===== verification/Target_Selector.thy ===== *)
theory Target_Selector
  imports Behavior_Config
begin

text \<open>
  Choice of the mission target among the agents of a world snapshot
  (\<open>behavior/target_selector.cpp\<close>).
\<close>

section \<open>The model\<close>

datatype TargetSelectionStatus = Selected | Reacquiring | LostTarget | NoCandidates | InvalidSpec

record TargetSelection =
  sel_selected :: bool
  sel_status :: TargetSelectionStatus
  sel_agent_id :: string
  sel_source_track_id :: string
  sel_identity_id :: string
  sel_class_label :: ClassLabel
  sel_confidence :: double
  sel_position_local :: Vec3
  sel_velocity_local :: Vec3
  sel_map_frame_id :: MapFrameId
  sel_target_age_s :: double
  sel_reason :: string

definition TargetSelection_default :: TargetSelection where
  "TargetSelection_default =
    \<lparr>sel_selected = False, sel_status = NoCandidates, sel_agent_id = [], sel_source_track_id = [],
     sel_identity_id = [], sel_class_label = ClassUnknown, sel_confidence = 0, sel_position_local = vec3_zero,
     sel_velocity_local = vec3_zero, sel_map_frame_id = [], sel_target_age_s = 0, sel_reason = []\<rparr>"

fun selection_status_to_string :: "TargetSelectionStatus \<Rightarrow> string" where
  "selection_status_to_string Selected = ''selected''"
| "selection_status_to_string Reacquiring = ''reacquiring''"
| "selection_status_to_string LostTarget = ''lost''"
| "selection_status_to_string NoCandidates = ''no_candidates''"
| "selection_status_to_string InvalidSpec = ''invalid_spec''"

definition is_selectable_lifecycle :: "AgentLifecycle \<Rightarrow> bool" where
  "is_selectable_lifecycle l \<longleftrightarrow> l = LifeNew \<or> l = LifeActive"

definition distance_sq :: "Vec3 \<Rightarrow> Vec3 \<Rightarrow> double" where
  "distance_sq lhs rhs =
     (let dx = vx lhs - vx rhs; dy = vy lhs - vy rhs; dz = vz lhs - vz rhs in dx * dx + dy * dy + dz * dz)"

definition age_seconds :: "TimePoint \<Rightarrow> TimePoint \<Rightarrow> double" where
  "age_seconds now last_seen =
     (let delta_ns = timestamp_ns now - timestamp_ns last_seen
      in if delta_ns \<le> 0 then 0 else Fin (of_int delta_ns) / 1000000000)"

definition make_selection :: "WorldSnapshot \<Rightarrow> AgentState \<Rightarrow> string \<Rightarrow> TargetSelection" where
  "make_selection snapshot agent reason =
    \<lparr>sel_selected = True, sel_status = Selected, sel_agent_id = ag_agent_id agent,
     sel_source_track_id = ag_source_track_id agent, sel_identity_id = ag_identity_id agent,
     sel_class_label = ag_class_label agent, sel_confidence = ag_confidence agent,
     sel_position_local = ag_position_local agent, sel_velocity_local = ag_velocity_local agent,
     sel_map_frame_id = ag_map_frame_id agent,
     sel_target_age_s = age_seconds (ws_timestamp snapshot) (ag_last_seen agent), sel_reason = reason\<rparr>"

definition make_empty :: "TargetSelectionStatus \<Rightarrow> string \<Rightarrow> TargetSelection" where
  "make_empty status reason =
     TargetSelection_default\<lparr>sel_selected := False, sel_status := status, sel_reason := reason\<rparr>"

text \<open>The assignments that carry the previous target's identity into an empty selection.\<close>

definition carry_identity :: "TargetSelection \<Rightarrow> TargetSelection \<Rightarrow> TargetSelection" where
  "carry_identity previous s =
     s\<lparr>sel_agent_id := sel_agent_id previous, sel_source_track_id := sel_source_track_id previous,
       sel_identity_id := sel_identity_id previous, sel_class_label := sel_class_label previous,
       sel_map_frame_id := sel_map_frame_id previous, sel_target_age_s := sel_target_age_s previous\<rparr>"

definition matches_previous :: "AgentState \<Rightarrow> TargetSelection \<Rightarrow> bool" where
  "matches_previous agent previous =
     (if sel_agent_id previous \<noteq> [] \<and> ag_agent_id agent = sel_agent_id previous then True
      else if sel_source_track_id previous \<noteq> [] \<and> ag_source_track_id agent = sel_source_track_id previous then True
      else False)"

definition matches_spec :: "AgentState \<Rightarrow> TargetSelectorSpec \<Rightarrow> ClassLabel \<Rightarrow> bool" where
  "matches_spec agent spec requested_class =
     (if requested_class = ClassUnknown \<or> ag_class_label agent \<noteq> requested_class then False
      else if \<not> is_selectable_lifecycle (ag_lifecycle agent) then False
      else if ag_confidence agent < ts_confidence_min spec then False
      else if \<not> finite_point (ag_position_local agent) then False
      else if ts_track_id spec \<noteq> [] \<and> ag_source_track_id agent \<noteq> ts_track_id spec then False
      else if ts_agent_id spec \<noteq> [] \<and> ag_agent_id agent \<noteq> ts_agent_id spec then False
      else True)"

definition selector_candidates :: "WorldSnapshot \<Rightarrow> TargetSelectorSpec \<Rightarrow> AgentState list" where
  "selector_candidates snapshot spec =
     filter (\<lambda>agent. matches_spec agent spec (ts_class_label spec)) (ws_agents snapshot)"

text \<open>The bodies of the two loops over the candidates.\<close>

definition nearest_step ::
    "Vec3 \<Rightarrow> AgentState \<Rightarrow> AgentState option \<times> double \<Rightarrow> AgentState option \<times> double" where
  "nearest_step ego_position candidate s =
     (let d2 = distance_sq (ag_position_local candidate) ego_position
      in case fst s of
           None \<Rightarrow> (Some candidate, d2)
         | Some best \<Rightarrow>
             if d2 < snd s \<or> (deq d2 (snd s) \<and> ag_confidence best < ag_confidence candidate)
             then (Some candidate, d2) else s)"

definition confidence_step :: "AgentState \<Rightarrow> AgentState option \<Rightarrow> AgentState option" where
  "confidence_step candidate s =
     (case s of
        None \<Rightarrow> Some candidate
      | Some best \<Rightarrow> if ag_confidence best < ag_confidence candidate then Some candidate else s)"

text \<open>The policy switch, on a non-empty list of candidates.\<close>

definition select_best :: "WorldSnapshot \<Rightarrow> TargetSelectionPolicy \<Rightarrow> AgentState list \<Rightarrow> AgentState option \<times> string" where
  "select_best snapshot policy candidates =
     (case policy of
        Nearest \<Rightarrow>
          (fst (fold (nearest_step (position (ego_local_T_body (ws_ego snapshot)))) candidates (None, PInf)),
           ''nearest_candidate'')
      | _ \<Rightarrow> (fold confidence_step candidates None, ''highest_confidence_candidate''))"

text \<open>The guards at the top of \<open>select\<close>.\<close>

definition spec_error :: "TargetSelectorSpec \<Rightarrow> string option" where
  "spec_error spec =
     (if ts_class_label spec = ClassUnknown then Some ''invalid_or_missing_target_class''
      else if ts_confidence_min spec < 0 \<or> 1 < ts_confidence_min spec then Some ''confidence_min_out_of_range''
      else if ts_reacquire_timeout_s spec < 0 then Some ''negative_reacquire_timeout''
      else None)"

text \<open>The block for a persistent track: \<open>None\<close> when it falls through.\<close>

definition select_persistent ::
    "WorldSnapshot \<Rightarrow> TargetSelectorSpec \<Rightarrow> TargetSelection option \<Rightarrow> AgentState list \<Rightarrow> TargetSelection option" where
  "select_persistent snapshot spec previous candidates =
     (case previous of
        None \<Rightarrow> None
      | Some prev \<Rightarrow>
          if ts_policy spec \<noteq> PersistentTrack then None
          else case find (\<lambda>agent. matches_previous agent prev) candidates of
                 Some agent \<Rightarrow> Some (make_selection snapshot agent ''previous_target_still_valid'')
               | None \<Rightarrow>
                   if sel_selected prev \<and> sel_target_age_s prev \<le> ts_reacquire_timeout_s spec
                   then Some (carry_identity prev (make_empty Reacquiring ''previous_target_temporarily_missing''))
                   else None)"

definition select_target ::
    "WorldSnapshot \<Rightarrow> TargetSelectorSpec \<Rightarrow> TargetSelection option \<Rightarrow> TargetSelection" where
  "select_target snapshot spec previous =
     (case spec_error spec of
        Some reason \<Rightarrow> make_empty InvalidSpec reason
      | None \<Rightarrow>
          let candidates = selector_candidates snapshot spec
          in case select_persistent snapshot spec previous candidates of
               Some s \<Rightarrow> s
             | None \<Rightarrow>
                 if candidates = [] then
                   (case previous of
                      Some prev \<Rightarrow> if sel_selected prev
                                   then carry_identity prev (make_empty LostTarget ''previous_target_lost'')
                                   else make_empty NoCandidates ''no_matching_agents''
                    | None \<Rightarrow> make_empty NoCandidates ''no_matching_agents'')
                 else (case select_best snapshot (ts_policy spec) candidates of
                         (Some best, reason) \<Rightarrow> make_selection snapshot best reason
                       | (None, reason) \<Rightarrow> make_empty NoCandidates reason))"

section \<open>Choosing the best of a list\<close>

text \<open>
  Both loops keep a best element and replace it by a strictly better one.  The contract of the
  comparison: it is asymmetric, and what is not better than something not better is not better.
\<close>

definition keep_best :: "('a \<Rightarrow> 'a \<Rightarrow> bool) \<Rightarrow> 'a \<Rightarrow> 'a option \<Rightarrow> 'a option" where
  "keep_best better x s = (case s of None \<Rightarrow> Some x | Some b \<Rightarrow> if better x b then Some x else s)"

lemma keep_best_simps [simp]:
  "keep_best better x None = Some x"
  "keep_best better x (Some b) = Some (if better x b then x else b)"
  by (simp_all add: keep_best_def)

locale preference =
  fixes better :: "'a \<Rightarrow> 'a \<Rightarrow> bool" and comparable :: "'a \<Rightarrow> bool"
  assumes asym: "better x y \<Longrightarrow> \<not> better y x"
    and neg_trans: "comparable x \<Longrightarrow> comparable y \<Longrightarrow> comparable z \<Longrightarrow>
                    \<not> better x y \<Longrightarrow> \<not> better y z \<Longrightarrow> \<not> better x z"
begin

text \<open>The first of the best: better than all before it, at least as good as all after it.\<close>

definition first_best :: "'a list \<Rightarrow> 'a \<Rightarrow> bool" where
  "first_best xs b \<longleftrightarrow> (\<exists>us vs. xs = us @ b # vs \<and> (\<forall>u\<in>set us. better b u) \<and> (\<forall>v\<in>set vs. \<not> better v b))"

lemma better_trans:
  "comparable x \<Longrightarrow> comparable y \<Longrightarrow> comparable z \<Longrightarrow> better x y \<Longrightarrow> better y z \<Longrightarrow> better x z"
  using asym neg_trans by blast

lemma first_best_snoc:
  assumes "\<forall>y\<in>set (xs @ [x]). comparable y" and "first_best xs b"
  shows "first_best (xs @ [x]) (if better x b then x else b)"
proof -
  obtain us vs where xs: "xs = us @ b # vs" and us: "\<forall>u\<in>set us. better b u" and vs: "\<forall>v\<in>set vs. \<not> better v b"
    using assms(2) unfolding first_best_def by blast
  show ?thesis
  proof (cases "better x b")
    case True
    have "better x y" if y: "y \<in> set xs" for y
    proof -
      consider "y \<in> set us" | "y = b" | "y \<in> set vs" using y xs by auto
      then show ?thesis
      proof cases
        case 1
        then show ?thesis using better_trans [of x b y] True us assms(1) xs by auto
      next
        case 3
        then show ?thesis using neg_trans [of x y b] True vs assms(1) xs by auto
      qed (use True in simp)
    qed
    then show ?thesis using True unfolding first_best_def by (intro exI [of _ xs] exI [of _ "[]"]) simp
  next
    case False
    then show ?thesis using xs us vs unfolding first_best_def
      by (intro exI [of _ us] exI [of _ "vs @ [x]"]) auto
  qed
qed

lemma fold_keep_best:
  assumes "\<forall>y\<in>set xs. comparable y" and "xs \<noteq> []"
  shows "\<exists>b. fold (keep_best better) xs None = Some b \<and> first_best xs b"
  using assms
proof (induction xs rule: rev_induct)
  case (snoc x xs)
  show ?case
  proof (cases "xs = []")
    case True
    then show ?thesis
      unfolding first_best_def by (intro exI [of _ x] exI [of _ "[]"] conjI) simp_all
  next
    case False
    with snoc obtain b where "fold (keep_best better) xs None = Some b" and "first_best xs b" by auto
    with first_best_snoc [OF snoc.prems(1)] show ?thesis by auto
  qed
qed simp

lemma first_best_best: "first_best xs b \<Longrightarrow> b \<in> set xs \<and> (\<forall>x\<in>set xs. \<not> better x b)"
  unfolding first_best_def using asym asym [of b b] by auto

end

definition more_confident :: "AgentState \<Rightarrow> AgentState \<Rightarrow> bool" where
  "more_confident a b \<longleftrightarrow> ag_confidence b < ag_confidence a"

definition has_confidence :: "AgentState \<Rightarrow> bool" where
  "has_confidence a \<longleftrightarrow> ag_confidence a \<noteq> NaN"

definition agent_distance_sq :: "Vec3 \<Rightarrow> AgentState \<Rightarrow> double" where
  "agent_distance_sq ego a = distance_sq (ag_position_local a) ego"

definition nearer :: "Vec3 \<Rightarrow> AgentState \<Rightarrow> AgentState \<Rightarrow> bool" where
  "nearer ego a b \<longleftrightarrow> agent_distance_sq ego a < agent_distance_sq ego b \<or>
     (deq (agent_distance_sq ego a) (agent_distance_sq ego b) \<and> more_confident a b)"

definition has_distance :: "Vec3 \<Rightarrow> AgentState \<Rightarrow> bool" where
  "has_distance ego a \<longleftrightarrow> has_confidence a \<and> agent_distance_sq ego a \<noteq> NaN"

lemma double_asym: "(a::double) < b \<Longrightarrow> \<not> b < a"
  by (cases a; cases b) auto

lemma double_not_less_trans:
  "a \<noteq> NaN \<Longrightarrow> b \<noteq> NaN \<Longrightarrow> c \<noteq> NaN \<Longrightarrow> \<not> (a::double) < b \<Longrightarrow> \<not> b < c \<Longrightarrow> \<not> a < c"
  by (cases a; cases b; cases c) auto

lemma double_linear: "a \<noteq> NaN \<Longrightarrow> b \<noteq> NaN \<Longrightarrow> (a::double) < b \<or> a = b \<or> b < a"
  by (cases a; cases b) auto

interpretation confident: preference more_confident has_confidence
proof
  show "\<And>a b. more_confident a b \<Longrightarrow> \<not> more_confident b a"
    by (simp add: more_confident_def double_asym)
  show "\<And>a b c. has_confidence a \<Longrightarrow> has_confidence b \<Longrightarrow> has_confidence c \<Longrightarrow>
          \<not> more_confident a b \<Longrightarrow> \<not> more_confident b c \<Longrightarrow> \<not> more_confident a c"
    unfolding more_confident_def has_confidence_def using double_not_less_trans by blast
qed

interpretation nearest: preference "nearer ego" "has_distance ego" for ego
proof
  show "\<And>a b. nearer ego a b \<Longrightarrow> \<not> nearer ego b a"
    unfolding nearer_def deq_def using confident.asym double_asym double_less_irrefl by metis
  show "\<And>a b c. has_distance ego a \<Longrightarrow> has_distance ego b \<Longrightarrow> has_distance ego c \<Longrightarrow>
          \<not> nearer ego a b \<Longrightarrow> \<not> nearer ego b c \<Longrightarrow> \<not> nearer ego a c"
    unfolding nearer_def has_distance_def deq_def
    using confident.neg_trans double_linear double_not_less_trans by (smt (verit) double_asym)
qed

lemma confidence_step_keep_best: "confidence_step = keep_best more_confident"
  by (auto simp: fun_eq_iff confidence_step_def keep_best_def more_confident_def split: option.splits)

lemma nearest_loop:
  "fold (nearest_step ego) as s = (b, d) \<Longrightarrow> (\<forall>x. fst s = Some x \<longrightarrow> snd s = agent_distance_sq ego x) \<Longrightarrow>
   b = fold (keep_best (nearer ego)) as (fst s)"
proof (induction as arbitrary: s)
  case (Cons a as)
  have "fst (nearest_step ego a s) = keep_best (nearer ego) a (fst s)"
    and "\<forall>x. fst (nearest_step ego a s) = Some x \<longrightarrow> snd (nearest_step ego a s) = agent_distance_sq ego x"
    using Cons.prems(2)
    by (auto simp: nearest_step_def keep_best_def nearer_def more_confident_def agent_distance_sq_def Let_def
        split: option.splits)
  with Cons.IH [of "nearest_step ego a s"] Cons.prems(1) show ?case by simp
qed simp

lemma nearest_loop_best: "fst (fold (nearest_step ego) as (None, PInf)) = fold (keep_best (nearer ego)) as None"
  using nearest_loop [of ego as "(None, PInf)"] by (cases "fold (nearest_step ego) as (None, PInf)") simp

section \<open>What the selector answers\<close>

text \<open>The reference: what it means to be the right target under a policy.\<close>

definition best_target :: "WorldSnapshot \<Rightarrow> TargetSelectionPolicy \<Rightarrow> AgentState list \<Rightarrow> AgentState \<Rightarrow> bool" where
  "best_target snapshot policy as a \<longleftrightarrow> a \<in> set as \<and>
     (let ego = position (ego_local_T_body (ws_ego snapshot)) in
      if policy = Nearest then \<forall>x\<in>set as. \<not> nearer ego x a
      else \<forall>x\<in>set as. \<not> more_confident x a)"

lemma candidate_finite:
  "a \<in> set (selector_candidates snapshot spec) \<Longrightarrow> a \<in> set (ws_agents snapshot) \<and>
     matches_spec a spec (ts_class_label spec) \<and> finite_point (ag_position_local a)"
  by (auto simp: selector_candidates_def matches_spec_def split: if_splits)

lemma distance_sq_finite: "finite_point p \<Longrightarrow> finite_point q \<Longrightarrow> isfinite (distance_sq p q)"
  by (simp add: distance_sq_def Let_def finite_point_def)

lemma select_best_some:
  assumes "as \<noteq> []" and "\<forall>a\<in>set as. has_confidence a \<and> finite_point (ag_position_local a)"
    and "finite_point (position (ego_local_T_body (ws_ego snapshot)))"
  shows "\<exists>a r. select_best snapshot policy as = (Some a, r) \<and> best_target snapshot policy as a"
proof -
  let ?ego = "position (ego_local_T_body (ws_ego snapshot))"
  have conf: "\<exists>a. fold confidence_step as None = Some a \<and> a \<in> set as \<and> (\<forall>x\<in>set as. \<not> more_confident x a)"
    using confident.fold_keep_best [of as] confident.first_best_best assms
    unfolding confidence_step_keep_best by blast
  have "has_distance ?ego a" if "a \<in> set as" for a
    using distance_sq_finite [of "ag_position_local a" ?ego] assms that
    by (auto simp: has_distance_def agent_distance_sq_def)
  then have near: "\<exists>a. fst (fold (nearest_step ?ego) as (None, PInf)) = Some a \<and> a \<in> set as \<and> (\<forall>x\<in>set as. \<not> nearer ?ego x a)"
    using nearest.fold_keep_best [of as ?ego] nearest.first_best_best assms(1)
    unfolding nearest_loop_best by blast
  show ?thesis
    using conf near by (cases policy) (auto simp: select_best_def best_target_def)
qed

lemma select_target_selected:
  assumes "spec_error spec = None" and "candidates = selector_candidates snapshot spec"
  shows "select_target snapshot spec previous =
    (case select_persistent snapshot spec previous candidates of
       Some s \<Rightarrow> s
     | None \<Rightarrow>
         if candidates = [] then
           (case previous of
              Some prev \<Rightarrow> if sel_selected prev
                           then carry_identity prev (make_empty LostTarget ''previous_target_lost'')
                           else make_empty NoCandidates ''no_matching_agents''
            | None \<Rightarrow> make_empty NoCandidates ''no_matching_agents'')
         else (case select_best snapshot (ts_policy spec) candidates of
                 (Some best, reason) \<Rightarrow> make_selection snapshot best reason
               | (None, reason) \<Rightarrow> make_empty NoCandidates reason))"
  unfolding assms(2) select_target_def Let_def by (simp add: assms(1))

lemma make_simps [simp]:
  "sel_selected (make_selection s a r)" "sel_status (make_selection s a r) = Selected"
  "sel_reason (make_selection s a r) = r"
  "\<not> sel_selected (make_empty st r)" "sel_status (make_empty st r) = st"
  "\<not> sel_selected (carry_identity p (make_empty st r))" "sel_status (carry_identity p (make_empty st r)) = st"
  by (simp_all add: make_selection_def make_empty_def carry_identity_def)

text \<open>The persistent block keeps the first candidate with the previous identity, or waits for it.\<close>

lemma select_persistent_cases:
  assumes "select_persistent snapshot spec previous as = Some s"
  obtains (kept) prev a where "previous = Some prev" "ts_policy spec = PersistentTrack" "a \<in> set as"
      "matches_previous a prev" "s = make_selection snapshot a ''previous_target_still_valid''"
  | (waiting) prev where "previous = Some prev" "ts_policy spec = PersistentTrack"
      "\<forall>a\<in>set as. \<not> matches_previous a prev" "sel_selected prev"
      "sel_target_age_s prev \<le> ts_reacquire_timeout_s spec"
      "s = carry_identity prev (make_empty Reacquiring ''previous_target_temporarily_missing'')"
  using assms unfolding select_persistent_def
  by (auto split: option.splits if_splits simp: find_Some_iff find_None_iff) (metis nth_mem)

text \<open>
  C39: With a valid specification, a finite ego position and confidences that are numbers, the
  selector answers correctly.  What it selects is a candidate (an agent of the snapshot with the
  requested class, a selectable life cycle, enough confidence, a finite position and the requested
  ids) copied field by field, and it is the best one of the policy (the nearest, equal
  distances decided by confidence, or the most confident) unless the policy is to keep the
  previous target and it is that one.  It selects nothing only when there is no candidate,
  or while it waits for the previous target of a persistent track.
\<close>
theorem select_target_correct:
  assumes "spec_error spec = None"
    and "finite_point (position (ego_local_T_body (ws_ego snapshot)))"
    and "\<forall>a\<in>set (ws_agents snapshot). ag_confidence a \<noteq> NaN"
    and r_def: "r = select_target snapshot spec previous" and cs_def: "cs = selector_candidates snapshot spec"
  shows "(sel_selected r \<longleftrightarrow> sel_status r = Selected) \<and>
    (if sel_selected r
     then \<exists>a\<in>set cs. r = make_selection snapshot a (sel_reason r) \<and>
            (best_target snapshot (ts_policy spec) cs a \<or>
             (ts_policy spec = PersistentTrack \<and> (\<exists>p. previous = Some p \<and> matches_previous a p)))
     else cs = [] \<or>
            (ts_policy spec = PersistentTrack \<and> sel_status r = Reacquiring \<and>
             (\<exists>p. previous = Some p \<and> sel_selected p \<and> (\<forall>a\<in>set cs. \<not> matches_previous a p))))"
proof -
  note r = select_target_selected [OF assms(1) cs_def, of previous, folded r_def]
  have cands: "\<forall>a\<in>set cs. has_confidence a \<and> finite_point (ag_position_local a)"
    using assms(3) candidate_finite unfolding cs_def has_confidence_def by blast
  have best: "\<exists>a why. select_best snapshot (ts_policy spec) cs = (Some a, why) \<and>
      best_target snapshot (ts_policy spec) cs a" if "cs \<noteq> []"
    using select_best_some [OF that cands assms(2)] by blast
  show ?thesis
  proof (cases "select_persistent snapshot spec previous cs")
    case None
    then show ?thesis
      using r best by (cases "cs = []") (auto split: option.splits simp: best_target_def)
  next
    case (Some s)
    then have "r = s" using r by simp
    with Some show ?thesis by (cases rule: select_persistent_cases) auto
  qed
qed

abbreviation sample_agent :: "string \<Rightarrow> real \<Rightarrow> real \<Rightarrow> AgentState" where
  "sample_agent name x c \<equiv> \<lparr>ag_agent_id = name, ag_identity_id = [], ag_source_track_id = [],
     ag_last_seen = \<lparr>timestamp_ns = 0\<rparr>, ag_position_local = vec3 (Fin x) 0 0, ag_velocity_local = vec3_zero,
     ag_map_frame_id = [], ag_class_label = Car, ag_faction = Neutral, ag_lifecycle = LifeActive,
     ag_confidence = Fin c\<rparr>"

abbreviation sample_ego :: EgoState where
  "sample_ego \<equiv> \<lparr>ego_timestamp = \<lparr>timestamp_ns = 0\<rparr>,
     ego_local_T_body = \<lparr>position = vec3_zero, rotation_rpy = vec3_zero\<rparr>, ego_velocity_local = vec3_zero,
     ego_angular_velocity_body = vec3_zero, ego_covariance = [], ego_map_frame_id = [], ego_height_m = 0,
     ego_height_valid = True, ego_armed = False, ego_armed_valid = True, ego_flight_status = Landed,
     ego_confidence = 1, ego_home_T_body = None, ego_home_timestamp = None\<rparr>"

abbreviation sample_snapshot :: "AgentState list \<Rightarrow> WorldSnapshot" where
  "sample_snapshot as \<equiv> \<lparr>ws_timestamp = \<lparr>timestamp_ns = 0\<rparr>, ws_ego = sample_ego,
     ws_flight_control = \<lparr>fc_arm_state = ArmUnknown, fc_updated_at = \<lparr>timestamp_ns = 0\<rparr>,
       fc_last_arm_request_at = \<lparr>timestamp_ns = 0\<rparr>, fc_last_disarm_request_at = \<lparr>timestamp_ns = 0\<rparr>,
       fc_status = []\<rparr>,
     ws_agents = as, ws_obstacle_evidence = []\<rparr>"

text \<open>Two cars, the nearer one less confident: \<open>Nearest\<close> takes it.\<close>

theorem select_target_correct_witness:
  "\<exists>a\<in>{sample_agent ''far'' 9 1, sample_agent ''near'' 2 (3/4)}.
     select_target (sample_snapshot [sample_agent ''far'' 9 1, sample_agent ''near'' 2 (3/4)])
       (TargetSelectorSpec_default\<lparr>ts_class_label := Car, ts_policy := Nearest\<rparr>) None =
     make_selection (sample_snapshot [sample_agent ''far'' 9 1, sample_agent ''near'' 2 (3/4)]) a ''nearest_candidate'' \<and>
     ag_agent_id a = ''near''"
proof -
  let ?sn = "sample_snapshot [sample_agent ''far'' 9 1, sample_agent ''near'' 2 (3/4)]"
  let ?spec = "TargetSelectorSpec_default\<lparr>ts_class_label := Car, ts_policy := Nearest\<rparr>"
  let ?r = "select_target ?sn ?spec None"
  have cs: "selector_candidates ?sn ?spec = [sample_agent ''far'' 9 1, sample_agent ''near'' 2 (3/4)]"
    by (simp add: selector_candidates_def matches_spec_def is_selectable_lifecycle_def TargetSelectorSpec_default_def)
  have valid: "spec_error ?spec = None" by (simp add: spec_error_def TargetSelectorSpec_default_def)
  have sel: "sel_selected ?r" "sel_reason ?r = ''nearest_candidate''"
    unfolding select_target_selected [OF valid cs [symmetric]]
    by (simp_all add: select_persistent_def select_best_def nearest_step_def distance_sq_def TargetSelectorSpec_default_def)
  have pol: "ts_policy ?spec = Nearest" by simp
  have ego: "finite_point (position (ego_local_T_body (ws_ego ?sn)))"
    and conf: "\<forall>a\<in>set (ws_agents ?sn). ag_confidence a \<noteq> NaN" by simp_all
  have "\<exists>a\<in>set [sample_agent ''far'' 9 1, sample_agent ''near'' 2 (3/4)].
      ?r = make_selection ?sn a ''nearest_candidate'' \<and>
      best_target ?sn Nearest [sample_agent ''far'' 9 1, sample_agent ''near'' 2 (3/4)] a"
    using select_target_correct [OF valid ego conf refl cs [symmetric], of None, THEN conjunct2]
    unfolding if_P [OF sel(1)] sel(2) pol by blast
  then show ?thesis
    by (auto simp: best_target_def nearer_def agent_distance_sq_def distance_sq_def)
qed

text \<open>
  The selector reports an invalid specification exactly when one of its three checks fails,
  with the reason of the first that does, and a specification that came out of the parser is
  never reported invalid.
\<close>
lemma invalid_spec_reported:
  "(sel_status (select_target snapshot spec previous) = InvalidSpec \<longleftrightarrow> spec_error spec \<noteq> None) \<and>
   (\<forall>e. spec_error spec = Some e \<longrightarrow> select_target snapshot spec previous = make_empty InvalidSpec e) \<and>
   (\<forall>stod spec_text fmt m. parse_behavior_spec_text stod spec_text fmt = Some (Inr m) \<longrightarrow>
      sel_status (select_target snapshot (bm_target m) previous) \<noteq> InvalidSpec)"
proof -
  have valid: "sel_status (select_target snapshot spec previous) \<noteq> InvalidSpec" if "spec_error spec = None" for spec
    unfolding select_target_selected [OF that refl]
    by (auto split: option.splits prod.splits elim!: select_persistent_cases)
  have "spec_error (bm_target m) = None" if parsed: "parse_behavior_spec_text stod spec_text fmt = Some (Inr m)" for stod spec_text fmt m
  proof -
    obtain cfg where "parse_mission stod cfg = Inr m"
      using parsed unfolding parse_behavior_spec_text_def by (auto simp: bindO_Inr_iff)
    then show ?thesis
      using parse_mission_ok by (auto simp: mission_ok_def target_ok_def spec_error_def not_lt_zero_def)
  qed
  moreover have "select_target snapshot spec previous = make_empty InvalidSpec e" if "spec_error spec = Some e" for e
    using that by (simp add: select_target_def)
  ultimately show ?thesis
    using valid by (cases "spec_error spec") auto
qed

lemma invalid_spec_reported_witness:
  "sel_status (select_target (sample_snapshot []) (TargetSelectorSpec_default\<lparr>ts_class_label := Car\<rparr>) None) \<noteq> InvalidSpec \<and>
   select_target (sample_snapshot []) TargetSelectorSpec_default None =
     make_empty InvalidSpec ''invalid_or_missing_target_class''"
  using invalid_spec_reported [of "sample_snapshot []" "TargetSelectorSpec_default\<lparr>ts_class_label := Car\<rparr>" None]
    invalid_spec_reported [of "sample_snapshot []" TargetSelectorSpec_default None]
  by (simp add: spec_error_def TargetSelectorSpec_default_def)

section \<open>Waiting for a persistent target\<close>

text \<open>
  The time that counts against \<open>reacquire_timeout_s\<close> is the age stored in the previous
  selection, not the time that has passed since: as long as the caller keeps the same previous
  selection, no later snapshot ends the wait.
\<close>

lemma reacquiring_ignores_elapsed_time:
  assumes "spec_error spec = None" and "ts_policy spec = PersistentTrack"
    and "sel_selected prev" and "sel_target_age_s prev \<le> ts_reacquire_timeout_s spec"
    and "\<forall>a\<in>set (selector_candidates snapshot spec). \<not> matches_previous a prev"
  shows "sel_status (select_target snapshot spec (Some prev)) = Reacquiring"
proof -
  have "find (\<lambda>agent. matches_previous agent prev) (selector_candidates snapshot spec) = None"
    using assms(5) by (simp add: find_None_iff)
  then show ?thesis
    using assms by (simp add: select_target_def Let_def select_persistent_def)
qed

end
