(* ===== verification/Mission_Types.thy ===== *)
theory Mission_Types
  imports Target_Selector
begin

text \<open>
  The vocabulary shared by mission controllers and the mission runtime
  (\<open>behavior/mission_controller.hpp\<close>), the configuration of the object-behaviour controller, and
  the flight-control tracker (\<open>flight_control_state_tracker.hpp\<close>).

  A controller event carries a kind and a JSON payload that is only printed; the model keeps the
  kind and, of the values the payload is formatted from, those that identify the event.
\<close>

section \<open>Commands, results and life-cycle states\<close>

datatype FlightCommandKind = CmdVelocity | CmdArm | CmdTakeoff | CmdLand | CmdDisarm

record VelocityCommand =
  vc_kind :: FlightCommandKind
  vc_timestamp :: TimePoint
  vc_velocity_local_mps :: Vec3
  vc_yaw_rate_radps :: double
  vc_yaw_rad :: double
  vc_yaw_rate_valid :: bool
  vc_yaw_valid :: bool
  vc_yaw_source :: string

record CameraPointingCommand =
  cp_timestamp :: TimePoint
  cp_cameras :: "string list"
  cp_mode :: string
  cp_source_track_id :: string
  cp_agent_id :: string
  cp_identity_id :: string
  cp_pitch_rad :: double
  cp_pitch_unclamped_rad :: double
  cp_pitch_min_rad :: double
  cp_pitch_max_rad :: double
  cp_target_elevation_rad :: double
  cp_target_bearing_rad :: double
  cp_yaw_rad :: double
  cp_range_xy_m :: double
  cp_delta_z_m :: double
  cp_pitch_sign :: double
  cp_pitch_offset_rad :: double
  cp_pitch_valid :: bool
  cp_yaw_valid :: bool
  cp_pitch_clamped :: bool

record CameraPointingResult =
  cpr_success :: bool
  cpr_status :: string

record FlightCommandResult =
  fcr_kind :: FlightCommandKind
  fcr_success :: bool
  fcr_status :: string

datatype MissionLifecycleState = Idle | Prepare | Takeoff | ExecuteMission | GoHome | Land | Complete | Abort

datatype ControllerEventKind =
    TargetSelected | TargetReacquired | TargetLost | BehaviorStart | BehaviorComplete | BehaviorFailed
  | FallbackStart | FallbackComplete | SequenceStepStart | SequenceStepComplete | BehaviorTickSample
  | BehaviorDebug | CameraPointingIntent

datatype ControllerEvent =
    TargetEvent TargetSelection
  | BehaviorEvent ControllerEventKind string "TargetSelection option"
  | SequenceStepEvent ControllerEventKind BehaviorFields nat string
  | TickEvent string
  | DebugEvent int
  | GoHomeSample double double bool double double
  | CameraEvent CameraPointingCommand

fun event_kind :: "ControllerEvent \<Rightarrow> ControllerEventKind" where
  "event_kind (TargetEvent _) = TargetSelected"
| "event_kind (BehaviorEvent k _ _) = k"
| "event_kind (SequenceStepEvent k _ _ _) = k"
| "event_kind (TickEvent _) = BehaviorTickSample"
| "event_kind (DebugEvent _) = BehaviorDebug"
| "event_kind (GoHomeSample _ _ _ _ _) = BehaviorTickSample"
| "event_kind (CameraEvent _) = CameraPointingIntent"

record MissionTickInput =
  ti_now :: TimePoint
  ti_snapshot :: WorldSnapshot
  ti_last_command_result :: "FlightCommandResult option"
  ti_finish_requested :: bool

record MissionTickOutput =
  to_state :: MissionLifecycleState
  to_command :: "VelocityCommand option"
  to_camera_pointing :: "CameraPointingCommand option"
  to_status :: string
  to_events :: "ControllerEvent list"
  to_finished :: bool

definition MissionTickOutput_default :: MissionTickOutput where
  "MissionTickOutput_default =
    \<lparr>to_state = Idle, to_command = None, to_camera_pointing = None, to_status = [], to_events = [],
     to_finished = False\<rparr>"

text \<open>\<open>push_back\<close> on the events of an output.\<close>

definition add_event :: "ControllerEvent \<Rightarrow> MissionTickOutput \<Rightarrow> MissionTickOutput" where
  "add_event e out = out\<lparr>to_events := to_events out @ [e]\<rparr>"

section \<open>Configuration of the object-behaviour controller\<close>

datatype ObjectBehaviorAltitudePolicy = TargetRelative | SafeHeightFloor
datatype ObjectBehaviorYawMode = YawTrajectory | YawTarget | YawHold | YawNone
datatype ObjectBehaviorVerticalStareMode = StareNone | StareDebugOnly | StareGimbal

text \<open>The members that no operation of the controller reads are left out.\<close>

record ObjectBehaviorMissionConfig =
  oc_behavior_spec :: BehaviorMissionSpec
  oc_takeoff_height_m :: double
  oc_behavior_min_height_m :: double
  oc_takeoff_velocity_mps :: double
  oc_go_home_velocity_mps :: double
  oc_yaw_offset_rad :: double
  oc_yaw_min_speed_mps :: double
  oc_yaw_hold_last_when_unstable :: bool
  oc_yaw_mode :: ObjectBehaviorYawMode
  oc_vertical_stare_mode :: ObjectBehaviorVerticalStareMode
  oc_camera_pointing_cameras :: "string list"
  oc_camera_pitch_min_rad :: double
  oc_camera_pitch_max_rad :: double
  oc_camera_pitch_sign :: double
  oc_camera_pitch_offset_rad :: double
  oc_camera_pointing_prepare_mode :: string
  oc_camera_pointing_takeoff_mode :: string
  oc_camera_pointing_go_home_mode :: string
  oc_camera_pointing_land_mode :: string
  oc_camera_pointing_complete_mode :: string
  oc_debug_every_n_ticks :: int
  oc_debug_level :: int
  oc_altitude_policy :: ObjectBehaviorAltitudePolicy
  oc_follow_observation_geometry_enabled :: bool
  oc_zero_target_velocity :: bool
  oc_follow_min_standoff_m :: double
  oc_follow_max_elevation_angle_deg :: double
  oc_follow_arrival_slow_radius_m :: double
  oc_follow_arrival_hold_radius_m :: double
  oc_follow_arrival_kp :: double
  oc_arm_retry_interval_s :: double
  oc_arm_timeout_s :: double
  oc_arm_dispatch_fallback_s :: double
  oc_takeoff_retry_interval_s :: double
  oc_land_timeout_s :: double
  oc_disarm_retry_interval_s :: double
  oc_disarm_timeout_s :: double

text \<open>The default member initialisers, for a given specification.\<close>

definition ObjectBehaviorMissionConfig_default :: "BehaviorMissionSpec \<Rightarrow> ObjectBehaviorMissionConfig" where
  "ObjectBehaviorMissionConfig_default spec =
    \<lparr>oc_behavior_spec = spec, oc_takeoff_height_m = 8, oc_behavior_min_height_m = 8,
     oc_takeoff_velocity_mps = 1, oc_go_home_velocity_mps = 1, oc_yaw_offset_rad = 0,
     oc_yaw_min_speed_mps = Fin (35/100), oc_yaw_hold_last_when_unstable = True, oc_yaw_mode = YawTrajectory,
     oc_vertical_stare_mode = StareNone, oc_camera_pointing_cameras = [],
     oc_camera_pitch_min_rad = Fin (- (80 * pi / 180)), oc_camera_pitch_max_rad = Fin (35 * pi / 180),
     oc_camera_pitch_sign = - 1, oc_camera_pitch_offset_rad = 0,
     oc_camera_pointing_prepare_mode = ''neutral'', oc_camera_pointing_takeoff_mode = ''neutral'',
     oc_camera_pointing_go_home_mode = ''home'', oc_camera_pointing_land_mode = ''landing_area'',
     oc_camera_pointing_complete_mode = ''neutral'', oc_debug_every_n_ticks = 0, oc_debug_level = 1,
     oc_altitude_policy = TargetRelative, oc_follow_observation_geometry_enabled = False,
     oc_zero_target_velocity = False, oc_follow_min_standoff_m = 8, oc_follow_max_elevation_angle_deg = 35,
     oc_follow_arrival_slow_radius_m = 8, oc_follow_arrival_hold_radius_m = 2,
     oc_follow_arrival_kp = Fin (35/100), oc_arm_retry_interval_s = 1, oc_arm_timeout_s = 10,
     oc_arm_dispatch_fallback_s = 0, oc_takeoff_retry_interval_s = 1, oc_land_timeout_s = 60,
     oc_disarm_retry_interval_s = 1, oc_disarm_timeout_s = 10\<rparr>"

section \<open>Time\<close>

definition seconds_between :: "TimePoint \<Rightarrow> TimePoint \<Rightarrow> double" where
  "seconds_between start end = Fin (of_int (timestamp_ns end - timestamp_ns start)) / 1000000000"

definition elapsed_at_least :: "TimePoint \<Rightarrow> TimePoint \<Rightarrow> double \<Rightarrow> bool" where
  "elapsed_at_least start end seconds \<longleftrightarrow> seconds \<le> seconds_between start end"

section \<open>The flight-control tracker\<close>

definition FlightControlState_default :: FlightControlState where
  "FlightControlState_default =
    \<lparr>fc_arm_state = ArmUnknown, fc_updated_at = \<lparr>timestamp_ns = 0\<rparr>, fc_last_arm_request_at = \<lparr>timestamp_ns = 0\<rparr>,
     fc_last_disarm_request_at = \<lparr>timestamp_ns = 0\<rparr>, fc_status = []\<rparr>"

definition on_command_dispatched ::
    "FlightCommandKind \<Rightarrow> TimePoint \<Rightarrow> string \<Rightarrow> FlightControlState \<Rightarrow> FlightControlState" where
  "on_command_dispatched k t status st =
     (let st = st\<lparr>fc_status := status\<rparr>
      in case k of
           CmdArm \<Rightarrow> st\<lparr>fc_arm_state := ArmRequested, fc_last_arm_request_at := t\<rparr>
         | CmdDisarm \<Rightarrow> st\<lparr>fc_arm_state := DisarmRequested, fc_last_disarm_request_at := t\<rparr>
         | _ \<Rightarrow> st)"

definition on_command_failed ::
    "FlightCommandKind \<Rightarrow> TimePoint \<Rightarrow> string \<Rightarrow> FlightControlState \<Rightarrow> FlightControlState" where
  "on_command_failed k t status st =
     (let st = st\<lparr>fc_status := status\<rparr>
      in case k of
           CmdArm \<Rightarrow> st\<lparr>fc_arm_state := ArmFailed\<rparr>
         | CmdDisarm \<Rightarrow> st\<lparr>fc_arm_state := DisarmFailed\<rparr>
         | _ \<Rightarrow> st)"

text \<open>The update of the tracked state from the ego's armed flag; then what the snapshot shows.\<close>

definition confirm_arm_state :: "EgoState \<Rightarrow> FlightControlState \<Rightarrow> FlightControlState" where
  "confirm_arm_state ego st =
     (if ego_armed ego then st\<lparr>fc_arm_state := ArmedConfirmed, fc_status := ''armed_confirmed_by_ego''\<rparr>
      else if fc_arm_state st \<in> {DisarmRequested, ArmedConfirmed, DisarmedConfirmed, ArmUnknown}
      then st\<lparr>fc_arm_state := DisarmedConfirmed, fc_status := ''disarmed_confirmed_by_ego''\<rparr>
      else st)"

definition apply_to_snapshot ::
    "WorldSnapshot \<Rightarrow> FlightControlState \<Rightarrow> WorldSnapshot \<times> FlightControlState" where
  "apply_to_snapshot snapshot st =
     (let shown = st\<lparr>fc_updated_at := ws_timestamp snapshot\<rparr>
      in if \<not> ego_armed_valid (ws_ego snapshot) then (snapshot\<lparr>ws_flight_control := shown\<rparr>, st)
         else let st' = confirm_arm_state (ws_ego snapshot) st
              in (snapshot\<lparr>ws_flight_control := shown\<lparr>fc_arm_state := fc_arm_state st', fc_status := fc_status st'\<rparr>\<rparr>, st'))"

text \<open>
  The arm state the tracker shows never contradicts the ego: with valid telemetry an armed
  ego is shown as confirmed armed, and a state shown as confirmed armed means the ego is
  armed; a disarmed ego is shown as confirmed disarmed unless an arm request is pending or the
  last arm or disarm command failed.  Without valid telemetry the tracked state is unchanged,
  and the snapshot otherwise keeps everything it had.
\<close>
lemma tracker_agrees_with_ego:
  assumes "apply_to_snapshot snapshot st = (snapshot', st')"
  shows "ws_flight_control snapshot' = st'\<lparr>fc_updated_at := ws_timestamp snapshot\<rparr> \<and>
    snapshot'\<lparr>ws_flight_control := ws_flight_control snapshot\<rparr> = snapshot \<and>
    (if ego_armed_valid (ws_ego snapshot)
     then (fc_arm_state st' = ArmedConfirmed \<longleftrightarrow> ego_armed (ws_ego snapshot)) \<and>
          (\<not> ego_armed (ws_ego snapshot) \<longrightarrow>
             fc_arm_state st' = DisarmedConfirmed \<or> fc_arm_state st' \<in> {Disarmed, ArmRequested, ArmFailed, DisarmFailed})
     else st' = st)"
  using assms
  by (cases snapshot; cases st; cases "fc_arm_state st")
    (auto simp: apply_to_snapshot_def confirm_arm_state_def Let_def split: if_splits)

lemma tracker_agrees_with_ego_witness:
  "fc_arm_state (snd (apply_to_snapshot (sample_snapshot [])
     (on_command_dispatched CmdDisarm \<lparr>timestamp_ns = 5\<rparr> ''ok'' FlightControlState_default))) = DisarmedConfirmed"
  using tracker_agrees_with_ego [of "sample_snapshot []"
      "on_command_dispatched CmdDisarm \<lparr>timestamp_ns = 5\<rparr> ''ok'' FlightControlState_default", OF prod.collapse [symmetric]]
  by (simp add: apply_to_snapshot_def confirm_arm_state_def on_command_dispatched_def FlightControlState_default_def)

text \<open>A mission and a configuration for the examples: hold, with a car as the target.\<close>

abbreviation sample_mission :: BehaviorMissionSpec where
  "sample_mission \<equiv> \<lparr>bm_mission_name = ''sample'',
     bm_target = TargetSelectorSpec_default\<lparr>ts_class_label := Car\<rparr>,
     bm_behavior = BehaviorSpec BehaviorFields_default [], bm_completion = CompletionSpec_default,
     bm_fallback = FallbackSpec_default\<rparr>"

abbreviation sample_config :: ObjectBehaviorMissionConfig where
  "sample_config \<equiv> ObjectBehaviorMissionConfig_default sample_mission"

end
