(* ===== verification/Follow_Geometry.thy ===== *)
theory Follow_Geometry
  imports Mission_Types
begin

text \<open>
  The geometry policy (\<open>behavior/follow_geometry_policy*.cpp\<close>): the velocity a follow, approach
  or circle behaviour commands from the ego pose and the selected target, the speed limits, the
  altitude floor and the altitude profile.

  \<open>std::tan\<close> is the exact function.
\<close>

section \<open>Standard functions\<close>

fun std_tan :: "double \<Rightarrow> double" where
  "std_tan (Fin x) = Fin (tan x)"
| "std_tan _ = NaN"

section \<open>Limits\<close>

definition norm_xy :: "Vec3 \<Rightarrow> double" where
  "norm_xy v = std_sqrt (vx v * vx v + vy v * vy v)"

definition deg_to_rad :: "double \<Rightarrow> double" where
  "deg_to_rad d = d * Fin pi / 180"

definition rad_to_deg :: "double \<Rightarrow> double" where
  "rad_to_deg r = r * 180 / Fin pi"

definition clamp_abs :: "double \<Rightarrow> double \<Rightarrow> double" where
  "clamp_abs v limit = (if limit \<le> 0 then 0 else std_clamp v (- limit) limit)"

definition clamp_xy_norm :: "Vec3 \<Rightarrow> double \<Rightarrow> Vec3" where
  "clamp_xy_norm v max_horizontal =
     (let horizontal = norm_xy v
      in if max_horizontal < horizontal \<and> 0 < max_horizontal
         then let scale = max_horizontal / horizontal in v\<lparr>vx := vx v * scale, vy := vy v * scale\<rparr>
         else v)"

definition clamp_velocity :: "Vec3 \<Rightarrow> double \<Rightarrow> double \<Rightarrow> Vec3" where
  "clamp_velocity desired max_horizontal max_vertical =
     (let v = clamp_xy_norm desired max_horizontal in v\<lparr>vz := clamp_abs (vz v) max_vertical\<rparr>)"

definition kSafeHeightCorrectionGain :: double where "kSafeHeightCorrectionGain = Fin (1/2)"
definition kMinSafeHeightClimbMps :: double where "kMinSafeHeightClimbMps = Fin (35/100)"

definition enforce_min_height_floor :: "Vec3 \<Rightarrow> double \<Rightarrow> double \<Rightarrow> double \<Rightarrow> Vec3" where
  "enforce_min_height_floor v height min_height max_vertical =
     (if min_height \<le> 0 \<or> max_vertical \<le> 0 then v
      else if height < min_height then
        let climb = std_clamp ((min_height - height) * kSafeHeightCorrectionGain) kMinSafeHeightClimbMps max_vertical
        in v\<lparr>vz := std_min (vz v) (- climb)\<rparr>
      else if height \<le> min_height \<and> 0 < vz v then v\<lparr>vz := 0\<rparr>
      else v)"

definition apply_altitude_policy :: "Vec3 \<Rightarrow> ObjectBehaviorMissionConfig \<Rightarrow> BehaviorFields \<Rightarrow> double \<Rightarrow> Vec3" where
  "apply_altitude_policy v cfg b height =
     (if oc_altitude_policy cfg = SafeHeightFloor
      then enforce_min_height_floor v height (oc_behavior_min_height_m cfg) (b_max_vertical_speed_mps b)
      else v)"

definition enforce_takeoff_height_floor :: "Vec3 \<Rightarrow> double \<Rightarrow> double \<Rightarrow> double \<Rightarrow> Vec3" where
  "enforce_takeoff_height_floor v height takeoff_height max_vertical =
     enforce_min_height_floor v height takeoff_height max_vertical"

section \<open>Geometry\<close>

record FollowGeometry =
  g_desired_position :: Vec3
  g_closing_velocity :: Vec3
  g_target_velocity :: Vec3
  g_dh_m :: double
  g_required_r_m :: double
  g_actual_r_m :: double
  g_elevation_deg :: double
  g_bearing_x :: double
  g_bearing_y :: double
  g_bearing_source :: string
  g_desired_error_xy_m :: double
  g_closing_speed_mps :: double
  g_target_speed_xy_mps :: double
  g_relative_speed_xy_mps :: double
  g_arrival_mode :: string
  g_circle_phase :: string
  g_behavior_step_complete :: bool
  g_orbit_radius_m :: double
  g_actual_radius_m :: double
  g_radius_error_m :: double
  g_radial_correction_mps :: double
  g_tangent_velocity_mps :: double
  g_desired_velocity_mps :: double
  g_radial_unit :: Vec3
  g_orbit_angle_rad :: double
  g_orbit_count_target :: double
  g_circle_completed_orbits :: double
  g_tangent_blend :: double
  g_orbit_mode_latched :: bool
  g_tangent_velocity :: Vec3
  g_radial_correction_velocity :: Vec3
  g_desired_velocity :: Vec3
  g_altitude_profile_active :: bool
  g_altitude_profile_easing :: string
  g_altitude_profile_t :: double
  g_desired_height_m :: double
  g_current_height_m :: double
  g_height_error_m :: double

definition FollowGeometry_default :: FollowGeometry where
  "FollowGeometry_default =
    \<lparr>g_desired_position = vec3_zero, g_closing_velocity = vec3_zero, g_target_velocity = vec3_zero, g_dh_m = 0,
     g_required_r_m = 0, g_actual_r_m = 0, g_elevation_deg = 0, g_bearing_x = 0, g_bearing_y = 0,
     g_bearing_source = ''disabled'', g_desired_error_xy_m = 0, g_closing_speed_mps = 0,
     g_target_speed_xy_mps = 0, g_relative_speed_xy_mps = 0, g_arrival_mode = ''none'', g_circle_phase = ''none'',
     g_behavior_step_complete = False, g_orbit_radius_m = 0, g_actual_radius_m = 0, g_radius_error_m = 0,
     g_radial_correction_mps = 0, g_tangent_velocity_mps = 0, g_desired_velocity_mps = 0,
     g_radial_unit = vec3 1 0 0, g_orbit_angle_rad = 0, g_orbit_count_target = 0, g_circle_completed_orbits = 0,
     g_tangent_blend = 0, g_orbit_mode_latched = False, g_tangent_velocity = vec3_zero,
     g_radial_correction_velocity = vec3_zero, g_desired_velocity = vec3_zero, g_altitude_profile_active = False,
     g_altitude_profile_easing = ''none'', g_altitude_profile_t = 0, g_desired_height_m = 0,
     g_current_height_m = 0, g_height_error_m = 0\<rparr>"

abbreviation ego_position :: "EgoState \<Rightarrow> Vec3" where
  "ego_position ego \<equiv> position (ego_local_T_body ego)"

definition ego_height :: "EgoState \<Rightarrow> double" where
  "ego_height ego = (if ego_height_valid ego then ego_height_m ego else - vz (ego_position ego))"

definition target_to_ego_xy :: "EgoState \<Rightarrow> TargetSelection \<Rightarrow> Vec3" where
  "target_to_ego_xy ego sel =
     vec3 (vx (ego_position ego) - vx (sel_position_local sel)) (vy (ego_position ego) - vy (sel_position_local sel)) 0"

subsection \<open>Follow\<close>

definition kHeadingEpsilonMps :: double where "kHeadingEpsilonMps = Fin (5/100)"
definition tiny :: double where "tiny = Fin (1/1000000)"

text \<open>An offset in a frame whose forward axis is \<open>(fx, fy)\<close>.\<close>

definition rotate_offset :: "double \<Rightarrow> double \<Rightarrow> Vec3 \<Rightarrow> Vec3" where
  "rotate_offset fx fy off =
     (let rx = - fy; ry = fx in vec3 (fx * vx off + rx * vy off) (fy * vx off + ry * vy off) (- vz off))"

definition target_frame_follow_offset :: "EgoState \<Rightarrow> TargetSelection \<Rightarrow> BehaviorFields \<Rightarrow> Vec3" where
  "target_frame_follow_offset ego sel b =
     (let off = b_relative_offset_m b; speed = norm_xy (sel_velocity_local sel)
      in if b_target_frame b = TargetHeadingFrame \<and> kHeadingEpsilonMps < speed then
           rotate_offset (vx (sel_velocity_local sel) / speed) (vy (sel_velocity_local sel) / speed) off
         else if b_target_frame b = DroneHeadingFrame then
           let yaw = yaw_rad (ego_local_T_body ego) in rotate_offset (std_cos yaw) (std_sin yaw) off
         else vec3 (vx off) (vy off) (- vz off))"

definition desired_follow_position :: "EgoState \<Rightarrow> TargetSelection \<Rightarrow> BehaviorFields \<Rightarrow> Vec3" where
  "desired_follow_position ego sel b = vec_add (sel_position_local sel) (target_frame_follow_offset ego sel b)"

definition choose_follow_bearing ::
    "EgoState \<Rightarrow> TargetSelection \<Rightarrow> BehaviorFields \<Rightarrow> FollowGeometry \<Rightarrow> FollowGeometry" where
  "choose_follow_bearing ego sel b g =
     (let off = target_frame_follow_offset ego sel b; offset_norm = norm_xy off;
          speed = norm_xy (sel_velocity_local sel)
      in if kHeadingEpsilonMps < speed \<and> offset_norm \<le> kHeadingEpsilonMps then
           g\<lparr>g_bearing_x := - vx (sel_velocity_local sel) / speed, g_bearing_y := - vy (sel_velocity_local sel) / speed,
             g_bearing_source := ''target_velocity''\<rparr>
         else if kHeadingEpsilonMps < offset_norm then
           g\<lparr>g_bearing_x := vx off / offset_norm, g_bearing_y := vy off / offset_norm,
             g_bearing_source := ''behavior_offset''\<rparr>
         else g\<lparr>g_bearing_x := - 1, g_bearing_y := 0, g_bearing_source := ''default_fallback''\<rparr>)"

definition follow_observation_geometry ::
    "EgoState \<Rightarrow> TargetSelection \<Rightarrow> BehaviorFields \<Rightarrow> ObjectBehaviorMissionConfig \<Rightarrow> FollowGeometry" where
  "follow_observation_geometry ego sel b cfg =
     (let base = desired_follow_position ego sel b;
          dh = std_abs (vz (ego_position ego) - vz (sel_position_local sel));
          actual_r = norm_xy (target_to_ego_xy ego sel);
          angle_deg = std_clamp (oc_follow_max_elevation_angle_deg cfg) 5 85;
          min_by_angle = dh / std_tan (deg_to_rad angle_deg);
          g = FollowGeometry_default\<lparr>g_desired_position := base, g_target_velocity := sel_velocity_local sel,
                g_target_speed_xy_mps := norm_xy (sel_velocity_local sel), g_actual_r_m := actual_r, g_dh_m := dh,
                g_required_r_m := std_max (oc_follow_min_standoff_m cfg) min_by_angle,
                g_elevation_deg := rad_to_deg (std_atan2 dh (std_max actual_r tiny))\<rparr>
      in if \<not> oc_follow_observation_geometry_enabled cfg \<or> g_required_r_m g \<le> 0
         then g\<lparr>g_bearing_source := ''disabled''\<rparr>
         else let g = choose_follow_bearing ego sel b g
              in g\<lparr>g_desired_position :=
                    vec3 (vx (sel_position_local sel) + g_bearing_x g * g_required_r_m g)
                         (vy (sel_position_local sel) + g_bearing_y g * g_required_r_m g) (vz base)\<rparr>)"

definition closing_speed_for ::
    "BehaviorFields \<Rightarrow> ObjectBehaviorMissionConfig \<Rightarrow> double \<Rightarrow> string \<times> double" where
  "closing_speed_for b cfg err =
     (if err \<le> oc_follow_arrival_hold_radius_m cfg then (''hold'', 0)
      else if err \<le> oc_follow_arrival_slow_radius_m cfg then
        (''slow'', std_min (b_max_speed_mps b) (std_max 0 (oc_follow_arrival_kp cfg * err)))
      else (''cruise'', b_max_speed_mps b))"

definition follow_arrival_velocity ::
    "EgoState \<Rightarrow> TargetSelection \<Rightarrow> BehaviorFields \<Rightarrow> ObjectBehaviorMissionConfig \<Rightarrow> FollowGeometry \<Rightarrow>
     Vec3 \<times> FollowGeometry" where
  "follow_arrival_velocity ego sel b cfg g =
     (let err = vec_subtract (g_desired_position g) (ego_position ego);
          err_xy = norm_xy err;
          mode = closing_speed_for b cfg err_xy;
          closing = snd mode;
          cv = (if 0 < closing \<and> tiny < err_xy
                then (g_closing_velocity g)\<lparr>vx := vx err / err_xy * closing, vy := vy err / err_xy * closing\<rparr>
                else g_closing_velocity g);
          v = clamp_velocity (vec3 (vx (sel_velocity_local sel) + vx cv) (vy (sel_velocity_local sel) + vy cv) (vz err))
                (b_max_speed_mps b) (b_max_vertical_speed_mps b)
      in (v, g\<lparr>g_desired_error_xy_m := err_xy, g_target_velocity := sel_velocity_local sel,
               g_target_speed_xy_mps := norm_xy (sel_velocity_local sel), g_arrival_mode := fst mode,
               g_closing_velocity := cv, g_closing_speed_mps := norm_xy cv,
               g_relative_speed_xy_mps := norm_xy (vec3 (vx v - vx (sel_velocity_local sel))
                                                        (vy v - vy (sel_velocity_local sel)) 0)\<rparr>))"

subsection \<open>Approach\<close>

definition approach_geometry :: "EgoState \<Rightarrow> TargetSelection \<Rightarrow> BehaviorFields \<Rightarrow> FollowGeometry" where
  "approach_geometry ego sel b =
     (let actual_r = norm_xy (target_to_ego_xy ego sel);
          complete = actual_r \<le> b_stop_distance_m b + b_position_tolerance_m b
      in FollowGeometry_default\<lparr>g_target_velocity := sel_velocity_local sel, g_actual_r_m := actual_r,
           g_required_r_m := b_stop_distance_m b, g_behavior_step_complete := complete,
           g_arrival_mode := (if complete then ''hold'' else ''cruise'')\<rparr>)"

definition approach_velocity :: "EgoState \<Rightarrow> TargetSelection \<Rightarrow> BehaviorFields \<Rightarrow> Vec3 \<times> FollowGeometry" where
  "approach_velocity ego sel b =
     (let g = (approach_geometry ego sel b)\<lparr>g_target_speed_xy_mps := norm_xy (sel_velocity_local sel)\<rparr>
      in if g_behavior_step_complete g then
           (vec3_zero, g\<lparr>g_desired_position := ego_position ego, g_desired_error_xy_m := 0, g_desired_velocity := vec3_zero\<rparr>)
         else
           let ex = vx (sel_position_local sel) - vx (ego_position ego);
               ey = vy (sel_position_local sel) - vy (ego_position ego);
               range_xy = std_max (norm_xy (vec3 ex ey 0)) tiny;
               desired = vec3 (vx (sel_position_local sel) - ex / range_xy * b_stop_distance_m b)
                              (vy (sel_position_local sel) - ey / range_xy * b_stop_distance_m b)
                              (vz (sel_position_local sel) - b_altitude_offset_m b);
               err = vec_subtract desired (ego_position ego);
               cv = clamp_velocity err (b_max_speed_mps b) (b_max_vertical_speed_mps b);
               dv = vec3 (vx (sel_velocity_local sel) + vx cv) (vy (sel_velocity_local sel) + vy cv) (vz cv);
               v = clamp_velocity dv (b_max_speed_mps b) (b_max_vertical_speed_mps b)
           in (v, g\<lparr>g_desired_position := desired, g_desired_error_xy_m := norm_xy err, g_closing_velocity := cv,
                    g_desired_velocity := dv, g_desired_velocity_mps := norm_xy dv, g_closing_speed_mps := norm_xy v,
                    g_relative_speed_xy_mps := norm_xy (vec3 (vx v - vx (sel_velocity_local sel))
                                                             (vy v - vy (sel_velocity_local sel)) 0)\<rparr>))"

subsection \<open>Circle\<close>

definition circle_direction_sign :: "CircleDirection \<Rightarrow> double" where
  "circle_direction_sign d = (if d = Clockwise then - 1 else 1)"

definition circle_tangent_velocity :: "Vec3 \<Rightarrow> BehaviorFields \<Rightarrow> Vec3" where
  "circle_tangent_velocity u b =
     (let speed = b_radius_m b * deg_to_rad (b_angular_speed_deg_s b); sgn = circle_direction_sign (b_direction b)
      in vec3 (sgn * - vy u * speed) (sgn * vx u * speed) 0)"

definition radius_capture_tolerance :: "BehaviorFields \<Rightarrow> double" where
  "radius_capture_tolerance b =
     std_max (std_max 1 (b_position_tolerance_m b)) (std_min 3 (std_max 1 (b_radius_m b * Fin (1/4))))"

definition circle_geometry ::
    "EgoState \<Rightarrow> TargetSelection \<Rightarrow> BehaviorFields \<Rightarrow> bool \<Rightarrow> FollowGeometry" where
  "circle_geometry ego sel b orbit_mode_latched =
     (let tv = sel_velocity_local sel;
          t2e = target_to_ego_xy ego sel;
          actual = norm_xy t2e;
          radius_error = actual - b_radius_m b;
          u = (if tiny < actual then vec3 (vx t2e / actual) (vy t2e / actual) 0 else vec3 1 0 0);
          desired = vec3 (vx (sel_position_local sel) + b_radius_m b * vx u)
                         (vy (sel_position_local sel) + b_radius_m b * vy u)
                         (vz (sel_position_local sel) - b_altitude_offset_m b);
          on_entry = orbit_mode_latched \<or> std_abs radius_error \<le> radius_capture_tolerance b;
          phase = (if on_entry then ''circling'' else ''arriving'');
          tangent = circle_tangent_velocity u b;
          correction = std_clamp (- radius_error * Fin (6/10)) (- 2) 2;
          rel = clamp_xy_norm (vec3 (vx tangent + vx u * correction) (vy tangent + vy u * correction) 0)
                  (b_max_speed_mps b);
          dv = vec3 (vx tv + vx rel) (vy tv + vy rel) (vz desired - vz (ego_position ego));
          rcv = vec3 (vx rel - vx tangent) (vy rel - vy tangent) 0;
          v = clamp_velocity dv (b_max_speed_mps b) (b_max_vertical_speed_mps b)
      in FollowGeometry_default\<lparr>g_orbit_radius_m := b_radius_m b, g_target_velocity := tv,
           g_target_speed_xy_mps := norm_xy tv, g_orbit_count_target := b_orbit_count b,
           g_actual_radius_m := actual, g_actual_r_m := actual, g_required_r_m := b_radius_m b,
           g_radius_error_m := radius_error, g_radial_unit := u,
           g_orbit_angle_rad := std_atan2 (vy u) (vx u), g_desired_position := desired,
           g_desired_error_xy_m := norm_xy (vec_subtract desired (ego_position ego)),
           g_orbit_mode_latched := orbit_mode_latched \<or> on_entry, g_circle_phase := phase,
           g_arrival_mode := phase, g_tangent_blend := 1, g_tangent_velocity := tangent,
           g_tangent_velocity_mps := norm_xy tangent, g_radial_correction_mps := correction,
           g_radial_correction_velocity := rcv, g_desired_velocity := dv, g_desired_velocity_mps := norm_xy dv,
           g_closing_velocity := rcv, g_closing_speed_mps := std_abs correction,
           g_relative_speed_xy_mps := norm_xy (vec3 (vx v - vx tv) (vy v - vy tv) 0)\<rparr>)"

subsection \<open>Altitude profile\<close>

definition smoothstep :: "double \<Rightarrow> double" where
  "smoothstep t = (let t = std_clamp t 0 1 in t * t * (3 - 2 * t))"

definition altitude_profile_duration_s :: "BehaviorFields \<Rightarrow> double" where
  "altitude_profile_duration_s b =
     (if 0 < ap_duration_s (b_altitude_profile b) then ap_duration_s (b_altitude_profile b)
      else if 0 < b_duration_s b then b_duration_s b else 8)"

definition altitude_profile_fraction :: "BehaviorFields \<Rightarrow> double \<Rightarrow> double" where
  "altitude_profile_fraction b elapsed_s =
     (let d = altitude_profile_duration_s b in if d \<le> 0 then 1 else std_clamp (elapsed_s / d) 0 1)"

definition altitude_profile_eased_fraction :: "BehaviorFields \<Rightarrow> double \<Rightarrow> double" where
  "altitude_profile_eased_fraction b elapsed_s =
     (let t = altitude_profile_fraction b elapsed_s
      in if ap_easing (b_altitude_profile b) = ''linear'' then t else smoothstep t)"

definition apply_altitude_profile ::
    "Vec3 \<Rightarrow> EgoState \<Rightarrow> BehaviorFields \<Rightarrow> double \<Rightarrow> FollowGeometry \<Rightarrow> Vec3 \<times> FollowGeometry" where
  "apply_altitude_profile v ego b elapsed_s g =
     (let p = b_altitude_profile b
      in if \<not> ap_enabled p then (v, g)
         else let desired = ap_start_height_m p +
                    (ap_end_height_m p - ap_start_height_m p) * altitude_profile_eased_fraction b elapsed_s;
                  current = ego_height ego;
                  err = desired - current
              in (v\<lparr>vz := clamp_abs (- err) (b_max_vertical_speed_mps b)\<rparr>,
                  g\<lparr>g_altitude_profile_active := True, g_altitude_profile_easing := ap_easing p,
                    g_altitude_profile_t := altitude_profile_fraction b elapsed_s, g_desired_height_m := desired,
                    g_current_height_m := current, g_height_error_m := err\<rparr>))"

subsection \<open>The velocity of a behaviour\<close>

text \<open>The caller passes the address of a geometry: its contents are an argument and a result.\<close>

definition behavior_velocity ::
    "EgoState \<Rightarrow> TargetSelection \<Rightarrow> BehaviorFields \<Rightarrow> ObjectBehaviorMissionConfig \<Rightarrow> FollowGeometry \<Rightarrow>
     Vec3 \<times> FollowGeometry" where
  "behavior_velocity ego sel b cfg g =
     (case b_type b of
        BtFollow \<Rightarrow> follow_arrival_velocity ego sel b cfg (follow_observation_geometry ego sel b cfg)
      | BtApproach \<Rightarrow> approach_velocity ego sel b
      | BtCircle \<Rightarrow> (let g = circle_geometry ego sel b False
                      in (clamp_velocity (g_desired_velocity g) (b_max_speed_mps b) (b_max_vertical_speed_mps b), g))
      | _ \<Rightarrow> (vec3_zero, g\<lparr>g_desired_position := ego_position ego\<rparr>))"

end
