(* ===== verification/Follow_Limits.thy ===== *)
theory Follow_Limits
  imports Follow_Geometry
begin

text \<open>
  What the geometry policy guarantees: the speed limits of the behaviour, the altitude floor, and
  the direction of the orbit controller.
\<close>

section \<open>Finite values\<close>

lemma isfinite_divide: "isfinite a \<Longrightarrow> isfinite b \<Longrightarrow> b \<noteq> Fin 0 \<Longrightarrow> isfinite (a / b)"
  by (cases a; cases b) auto

lemma isfinite_std [simp]:
  "isfinite a \<Longrightarrow> isfinite b \<Longrightarrow> isfinite (std_min a b)"
  "isfinite a \<Longrightarrow> isfinite b \<Longrightarrow> isfinite (std_max a b)"
  "isfinite a \<Longrightarrow> isfinite (std_abs a)"
  by (cases a; cases b; simp add: dbl_simps)+

lemma norm_xy_Fin [simp]: "norm_xy (vec3 (Fin x) (Fin y) z) = Fin (sqrt (x * x + y * y))"
  by (simp add: norm_xy_def not_less)

lemma norm_xy_finite: "isfinite (vx v) \<Longrightarrow> isfinite (vy v) \<Longrightarrow> isfinite (norm_xy v)"
  by (cases v; cases "vx v"; cases "vy v") auto

lemma finite_vec [simp]:
  "finite_point p \<Longrightarrow> finite_point q \<Longrightarrow> finite_point (vec_add p q)"
  "finite_point p \<Longrightarrow> finite_point q \<Longrightarrow> finite_point (vec_subtract p q)"
  by (simp_all add: vec_add_def vec_subtract_def finite_point_def)

lemma tiny_less_nonzero: "tiny < d \<Longrightarrow> d \<noteq> Fin 0"
  by (cases d) (auto simp: tiny_def)

lemma eps_less_nonzero: "kHeadingEpsilonMps < d \<Longrightarrow> d \<noteq> Fin 0"
  by (cases d) (auto simp: kHeadingEpsilonMps_def)

section \<open>Speed limits\<close>

definition velocity_within :: "Vec3 \<Rightarrow> double \<Rightarrow> double \<Rightarrow> bool" where
  "velocity_within v max_h max_v \<longleftrightarrow> finite_point v \<and> norm_xy v \<le> max_h \<and> std_abs (vz v) \<le> max_v"

definition positive_limit :: "double \<Rightarrow> bool" where
  "positive_limit m \<longleftrightarrow> isfinite m \<and> 0 < m"

lemma scaled_norm:
  fixes x y :: real
  assumes "0 < H" and "H < sqrt (x * x + y * y)"
  shows "sqrt (x * (H / sqrt (x * x + y * y)) * (x * (H / sqrt (x * x + y * y))) +
               y * (H / sqrt (x * x + y * y)) * (y * (H / sqrt (x * x + y * y)))) = H"
proof -
  define n where "n = sqrt (x * x + y * y)"
  have pos: "0 < n" using assms unfolding n_def by linarith
  have sq: "n * n = x * x + y * y" by (simp add: n_def)
  have "x * (H / n) * (x * (H / n)) + y * (H / n) * (y * (H / n)) = (x * x + y * y) * (H * H) / (n * n)"
    by (simp add: algebra_simps add_divide_distrib)
  also have "\<dots> = H * H" using pos by (simp add: sq [symmetric])
  finally show ?thesis using assms(1) by (simp add: n_def [symmetric])
qed

lemma clamp_xy_norm_scales:
  assumes "positive_limit h"
  shows "\<exists>k H x' y'. h = Fin H \<and> clamp_xy_norm (vec3 (Fin x) (Fin y) z) h = vec3 (Fin x') (Fin y') z \<and>
           0 < k \<and> k \<le> 1 \<and> x' = x * k \<and> y' = y * k \<and> sqrt (x' * x' + y' * y') \<le> H"
proof -
  obtain H where h: "h = Fin H" "0 < H" using assms by (auto simp: positive_limit_def isfinite_iff)
  let ?n = "sqrt (x * x + y * y)"
  show ?thesis
  proof (cases "H < ?n")
    case True
    then have "?n \<noteq> 0" using h by linarith
    with True have "clamp_xy_norm (vec3 (Fin x) (Fin y) z) h = vec3 (Fin (x * (H / ?n))) (Fin (y * (H / ?n))) z"
      using h by (simp add: clamp_xy_norm_def Let_def)
    moreover have "0 < ?n" using True h by linarith
    then have "0 < H / ?n" and "H / ?n \<le> 1" using True h by (simp_all only: divide_pos_pos divide_le_eq_1_pos less_imp_le)
    ultimately show ?thesis using h scaled_norm [OF h(2) True] by (metis order_refl)
  next
    case False
    then have "clamp_xy_norm (vec3 (Fin x) (Fin y) z) h = vec3 (Fin x) (Fin y) z"
      using h by (simp add: clamp_xy_norm_def)
    with h False show ?thesis
      by (intro exI [of _ 1] exI [of _ H] exI [of _ x] exI [of _ y]) simp
  qed
qed

lemma clamp_abs_within: "isfinite z \<Longrightarrow> positive_limit m \<Longrightarrow> isfinite (clamp_abs z m) \<and> std_abs (clamp_abs z m) \<le> m"
  by (cases z; cases m) (auto simp: positive_limit_def clamp_abs_def dbl_simps)

lemma clamp_velocity_within:
  assumes "finite_point v" and "positive_limit h" and "positive_limit w"
  shows "velocity_within (clamp_velocity v h w) h w"
proof -
  obtain x y z where v: "v = vec3 (Fin x) (Fin y) (Fin z)" using assms(1) by (rule finite_pointE)
  obtain H x' y' where "h = Fin H" "clamp_xy_norm v h = vec3 (Fin x') (Fin y') (Fin z)"
    and "sqrt (x' * x' + y' * y') \<le> H"
    using clamp_xy_norm_scales [OF assms(2), of x y "Fin z"] unfolding v by blast
  then show ?thesis
    using clamp_abs_within [of "Fin z" w] assms(3)
    by (simp add: velocity_within_def clamp_velocity_def Let_def)
qed

lemma zero_within: "positive_limit h \<Longrightarrow> positive_limit w \<Longrightarrow> velocity_within vec3_zero h w"
  by (cases h; cases w) (auto simp: velocity_within_def positive_limit_def)

text \<open>Inputs that are numbers.\<close>

definition finite_selection :: "TargetSelection \<Rightarrow> bool" where
  "finite_selection s \<longleftrightarrow> finite_point (sel_position_local s) \<and> finite_point (sel_velocity_local s)"

definition finite_behavior :: "BehaviorFields \<Rightarrow> bool" where
  "finite_behavior b \<longleftrightarrow> positive_limit (b_max_speed_mps b) \<and> positive_limit (b_max_vertical_speed_mps b) \<and>
     finite_point (b_relative_offset_m b) \<and> isfinite (b_radius_m b) \<and> isfinite (b_altitude_offset_m b) \<and>
     isfinite (b_angular_speed_deg_s b) \<and> isfinite (b_stop_distance_m b) \<and> isfinite (b_duration_s b) \<and>
     isfinite (ap_start_height_m (b_altitude_profile b)) \<and> isfinite (ap_end_height_m (b_altitude_profile b)) \<and>
     isfinite (ap_duration_s (b_altitude_profile b))"

definition finite_follow_config :: "ObjectBehaviorMissionConfig \<Rightarrow> bool" where
  "finite_follow_config cfg \<longleftrightarrow> isfinite (oc_follow_min_standoff_m cfg) \<and>
     isfinite (oc_follow_max_elevation_angle_deg cfg) \<and> isfinite (oc_follow_arrival_kp cfg)"

lemma finite_trig [simp]: "isfinite a \<Longrightarrow> isfinite (std_sin a)" "isfinite a \<Longrightarrow> isfinite (std_cos a)"
  by (cases a; simp)+

lemma rotate_offset_finite: "isfinite fx \<Longrightarrow> isfinite fy \<Longrightarrow> finite_point off \<Longrightarrow> finite_point (rotate_offset fx fy off)"
  by (simp add: rotate_offset_def Let_def finite_point_def)

lemma finite_coords [simp]:
  "finite_point p \<Longrightarrow> isfinite (vx p)" "finite_point p \<Longrightarrow> isfinite (vy p)" "finite_point p \<Longrightarrow> isfinite (vz p)"
  by (simp_all add: finite_point_def)

lemma follow_offset_finite:
  assumes "finite_pose (ego_local_T_body ego)" and "finite_selection sel" and "finite_behavior b"
  shows "finite_point (target_frame_follow_offset ego sel b)"
proof -
  have sp: "isfinite (norm_xy (sel_velocity_local sel))"
    using assms(2) by (intro norm_xy_finite) (simp_all add: finite_selection_def)
  then show ?thesis
    using assms unfolding target_frame_follow_offset_def Let_def
    by (auto simp: finite_selection_def finite_behavior_def finite_pose_def yaw_rad_def
        intro!: rotate_offset_finite isfinite_divide dest: eps_less_nonzero)
qed

lemma observation_angle: "isfinite a \<Longrightarrow> \<exists>t. std_tan (deg_to_rad (std_clamp a 5 85)) = Fin t \<and> 0 < t"
proof -
  assume "isfinite a"
  then have "\<exists>d. std_clamp a 5 85 = Fin d \<and> 5 \<le> d \<and> d \<le> 85"
    by (cases a) (auto simp: dbl_simps)
  then obtain d where d: "std_clamp a 5 85 = Fin d" "5 \<le> d" "d \<le> 85" by blast
  have "0 < tan (d * pi / 180)"
    using d by (intro tan_gt_zero) (auto simp: field_simps)
  then show ?thesis using d by (simp add: deg_to_rad_def)
qed

lemma follow_geometry_finite:
  assumes "finite_pose (ego_local_T_body ego)" and "finite_selection sel" and "finite_behavior b"
    and "finite_follow_config cfg"
  shows "finite_point (g_desired_position (follow_observation_geometry ego sel b cfg))"
    and "g_closing_velocity (follow_observation_geometry ego sel b cfg) = vec3_zero"
proof -
  let ?off = "target_frame_follow_offset ego sel b"
  note off = follow_offset_finite [OF assms(1-3)]
  have base: "finite_point (desired_follow_position ego sel b)"
    using off assms(2) by (simp add: desired_follow_position_def finite_selection_def)
  obtain t where t: "std_tan (deg_to_rad (std_clamp (oc_follow_max_elevation_angle_deg cfg) 5 85)) = Fin t" "0 < t"
    using observation_angle assms(4) by (auto simp: finite_follow_config_def)
  have ego: "finite_point (ego_position ego)" and sel: "finite_point (sel_position_local sel)" "finite_point (sel_velocity_local sel)"
    using assms by (simp_all add: finite_pose_def finite_selection_def)
  have req: "isfinite (std_max (oc_follow_min_standoff_m cfg)
      (std_abs (vz (ego_position ego) - vz (sel_position_local sel)) / Fin t))"
    using ego sel t assms(4) by (auto simp: finite_follow_config_def intro!: isfinite_std isfinite_divide)
  have bearing: "isfinite (g_bearing_x (choose_follow_bearing ego sel b g)) \<and>
      isfinite (g_bearing_y (choose_follow_bearing ego sel b g))" for g
    using off sel norm_xy_finite [of "sel_velocity_local sel"] norm_xy_finite [of ?off]
    by (auto simp: choose_follow_bearing_def Let_def intro!: isfinite_divide dest: eps_less_nonzero)
  have keep: "g_required_r_m (choose_follow_bearing ego sel b g) = g_required_r_m g"
    "g_closing_velocity (choose_follow_bearing ego sel b g) = g_closing_velocity g" for g
    by (simp_all add: choose_follow_bearing_def Let_def)
  show "finite_point (g_desired_position (follow_observation_geometry ego sel b cfg))"
    using base bearing req sel unfolding follow_observation_geometry_def Let_def t
    by (simp add: keep)
  show "g_closing_velocity (follow_observation_geometry ego sel b cfg) = vec3_zero"
    by (simp add: follow_observation_geometry_def Let_def keep FollowGeometry_default_def)
qed

lemma closing_speed_finite:
  "finite_behavior b \<Longrightarrow> finite_follow_config cfg \<Longrightarrow> isfinite e \<Longrightarrow> isfinite (snd (closing_speed_for b cfg e))"
  by (auto simp: closing_speed_for_def finite_behavior_def finite_follow_config_def positive_limit_def)

lemma follow_velocity_within:
  assumes "finite_pose (ego_local_T_body ego)" and "finite_selection sel" and "finite_behavior b"
    and "finite_follow_config cfg"
  shows "velocity_within (fst (follow_arrival_velocity ego sel b cfg (follow_observation_geometry ego sel b cfg)))
           (b_max_speed_mps b) (b_max_vertical_speed_mps b)"
proof -
  let ?err = "vec_subtract (g_desired_position (follow_observation_geometry ego sel b cfg)) (ego_position ego)"
  have ego: "finite_point (ego_position ego)" and sel: "finite_point (sel_velocity_local sel)"
    using assms by (simp_all add: finite_pose_def finite_selection_def)
  have err: "finite_point ?err" using follow_geometry_finite(1) [OF assms] ego by simp
  then have exy: "isfinite (norm_xy ?err)" by (intro norm_xy_finite) simp_all
  have "isfinite (snd (closing_speed_for b cfg (norm_xy ?err)))"
    using closing_speed_finite [OF assms(3,4) exy] .
  then show ?thesis
    using err exy sel assms(3) unfolding follow_arrival_velocity_def Let_def fst_conv
    by (intro clamp_velocity_within)
      (auto simp: follow_geometry_finite(2) [OF assms] finite_behavior_def intro!: isfinite_divide isfinite_arith
        dest: tiny_less_nonzero)
qed

lemma approach_velocity_within:
  assumes "finite_pose (ego_local_T_body ego)" and "finite_selection sel" and "finite_behavior b"
  shows "velocity_within (fst (approach_velocity ego sel b)) (b_max_speed_mps b) (b_max_vertical_speed_mps b)"
proof -
  have ego: "finite_point (ego_position ego)" and sel: "finite_point (sel_position_local sel)" "finite_point (sel_velocity_local sel)"
    and lim: "positive_limit (b_max_speed_mps b)" "positive_limit (b_max_vertical_speed_mps b)"
    using assms by (simp_all add: finite_pose_def finite_selection_def finite_behavior_def)
  have clamped: "finite_point (clamp_velocity v (b_max_speed_mps b) (b_max_vertical_speed_mps b))" if "finite_point v" for v
    using clamp_velocity_within [OF that lim] by (simp add: velocity_within_def)
  have range: "isfinite (std_max (norm_xy (vec3 x y 0)) tiny) \<and> std_max (norm_xy (vec3 x y 0)) tiny \<noteq> Fin 0"
    if "isfinite x" "isfinite y" for x y
    using that norm_xy_finite [of "vec3 x y 0"] by (cases "norm_xy (vec3 x y 0)") (auto simp: dbl_simps tiny_def)
  show ?thesis
    using ego sel lim assms(3) unfolding approach_velocity_def Let_def
    by (auto simp: zero_within [unfolded double_zero] vec_subtract_def finite_behavior_def range [unfolded double_zero]
        intro!: clamp_velocity_within isfinite_arith isfinite_divide finite_coords clamped)
qed

text \<open>The orbit controller: unit radial vector, tangent across it, correction along it.\<close>

lemma circle_unit:
  assumes "finite_point (ego_position ego)" and "finite_point (sel_position_local sel)"
  shows "\<exists>ux uy. g_radial_unit (circle_geometry ego sel b l) = vec3 (Fin ux) (Fin uy) 0 \<and> ux * ux + uy * uy = 1"
proof -
  obtain ex ey ez where e: "ego_position ego = vec3 (Fin ex) (Fin ey) (Fin ez)" using assms(1) by (rule finite_pointE)
  obtain sx sy sz where s: "sel_position_local sel = vec3 (Fin sx) (Fin sy) (Fin sz)" using assms(2) by (rule finite_pointE)
  define dx dy where "dx = ex - sx" and "dy = ey - sy"
  define n where "n = sqrt (dx * dx + dy * dy)"
  have t: "target_to_ego_xy ego sel = vec3 (Fin dx) (Fin dy) 0"
    by (simp add: target_to_ego_xy_def e s dx_def dy_def)
  have nn: "n * n = dx * dx + dy * dy" by (simp add: n_def)
  have n: "norm_xy (target_to_ego_xy ego sel) = Fin n" unfolding t by (simp add: n_def)
  show ?thesis
  proof (cases "tiny < Fin n")
    case True
    then have "n \<noteq> 0" by (auto simp: tiny_def)
    then have "dx / n * (dx / n) + dy / n * (dy / n) = 1"
      by (simp add: nn [symmetric] add_divide_distrib [symmetric])
    with \<open>n \<noteq> 0\<close> True n t show ?thesis
      by (intro exI [of _ "dx / n"] exI [of _ "dy / n"]) (simp add: circle_geometry_def Let_def)
  next
    case False
    with n show ?thesis by (intro exI [of _ 1] exI [of _ 0]) (simp add: circle_geometry_def Let_def)
  qed
qed

lemma circle_desired_velocity:
  fixes ego sel b l
  defines "g \<equiv> circle_geometry ego sel b l"
  defines "u \<equiv> g_radial_unit g" and "t \<equiv> circle_tangent_velocity (g_radial_unit g) b"
    and "c \<equiv> std_clamp (- g_radius_error_m g * Fin (6/10)) (- 2) 2"
  defines "rel \<equiv> clamp_xy_norm (vec3 (vx t + vx u * c) (vy t + vy u * c) 0) (b_max_speed_mps b)"
  shows "g_desired_velocity g = vec3 (vx (sel_velocity_local sel) + vx rel) (vy (sel_velocity_local sel) + vy rel)
           (vz (sel_position_local sel) - b_altitude_offset_m b - vz (ego_position ego))"
  unfolding assms by (simp add: circle_geometry_def Let_def)

lemma circle_radius_error:
  assumes "finite_point (ego_position ego)" and "finite_point (sel_position_local sel)" and "isfinite (b_radius_m b)"
  shows "isfinite (g_radius_error_m (circle_geometry ego sel b l))"
  using assms norm_xy_finite [of "target_to_ego_xy ego sel"]
  by (simp add: circle_geometry_def Let_def target_to_ego_xy_def)

text \<open>
  The velocity relative to the target, in coordinates: a positive multiple of tangent plus
  radial correction.
\<close>

lemma circle_relative_velocity:
  assumes "finite_point (ego_position ego)" and "finite_selection sel" and "finite_behavior b"
    and "g = circle_geometry ego sel b l"
  shows "\<exists>ux uy k c w e sgn z rx ry H. g_radial_unit g = vec3 (Fin ux) (Fin uy) 0 \<and> ux * ux + uy * uy = 1 \<and>
     g_radius_error_m g = Fin e \<and> c = max (- 2) (min (- e * (6/10)) 2) \<and>
     b_radius_m b * deg_to_rad (b_angular_speed_deg_s b) = Fin w \<and> circle_direction_sign (b_direction b) = Fin sgn \<and>
     0 < k \<and> k \<le> 1 \<and> rx = (sgn * - uy * w + ux * c) * k \<and> ry = (sgn * ux * w + uy * c) * k \<and>
     b_max_speed_mps b = Fin H \<and> sqrt (rx * rx + ry * ry) \<le> H \<and>
     g_desired_velocity g = vec3 (vx (sel_velocity_local sel) + Fin rx) (vy (sel_velocity_local sel) + Fin ry) (Fin z)"
proof -
  have sel: "finite_point (sel_position_local sel)" using assms(2) by (simp add: finite_selection_def)
  have b: "isfinite (b_radius_m b)" "isfinite (b_angular_speed_deg_s b)" "isfinite (b_altitude_offset_m b)"
    "positive_limit (b_max_speed_mps b)"
    using assms(3) by (simp_all add: finite_behavior_def)
  obtain ux uy where u: "g_radial_unit g = vec3 (Fin ux) (Fin uy) 0" "ux * ux + uy * uy = 1"
    using circle_unit [OF assms(1) sel, of b l] assms(4) by blast
  obtain e where e: "g_radius_error_m g = Fin e"
    using circle_radius_error [OF assms(1) sel b(1), of l] assms(4) by (auto simp: isfinite_iff)
  obtain w where w: "b_radius_m b * deg_to_rad (b_angular_speed_deg_s b) = Fin w"
    using b(1,2) isfinite_divide [of "b_angular_speed_deg_s b * Fin pi" 180] isfinite_arith(3)
    by (metis deg_to_rad_def double.distinct(1) double.inject isfinite.simps(1) isfinite_iff numeral_double zero_neq_numeral)
  obtain sgn where sgn: "circle_direction_sign (b_direction b) = Fin sgn"
    by (simp add: circle_direction_sign_def) (metis uminus_double.simps(1) double_one)
  obtain z where z: "vz (sel_position_local sel) - b_altitude_offset_m b - vz (ego_position ego) = Fin z"
    using assms(1) sel b(3) by (metis finite_coords(3) isfinite_arith(2) isfinite_iff)
  define c where "c = max (- 2) (min (- e * (6/10)) 2)"
  have c: "std_clamp (- Fin e * Fin (6/10)) (- 2) 2 = Fin c"
    by (auto simp: c_def dbl_simps)
  let ?x = "sgn * - uy * w + ux * c" and ?y = "sgn * ux * w + uy * c"
  obtain k H rx ry where k: "b_max_speed_mps b = Fin H" "0 < k" "k \<le> 1" "rx = ?x * k" "ry = ?y * k"
    "sqrt (rx * rx + ry * ry) \<le> H"
    "clamp_xy_norm (vec3 (Fin ?x) (Fin ?y) 0) (b_max_speed_mps b) = vec3 (Fin rx) (Fin ry) 0"
    using clamp_xy_norm_scales [OF b(4), of ?x ?y 0] by metis
  have "circle_tangent_velocity (g_radial_unit g) b = vec3 (Fin (sgn * - uy * w)) (Fin (sgn * ux * w)) 0"
    by (simp add: circle_tangent_velocity_def u w sgn)
  then have "g_desired_velocity g =
      vec3 (vx (sel_velocity_local sel) + Fin rx) (vy (sel_velocity_local sel) + Fin ry) (Fin z)"
    using circle_desired_velocity [of ego sel b l, folded assms(4)] k(7) c z by (simp add: u e)
  with u e w sgn k c_def show ?thesis by blast
qed

lemma circle_velocity_within:
  assumes "finite_point (ego_position ego)" and "finite_selection sel" and "finite_behavior b"
  shows "velocity_within (clamp_velocity (g_desired_velocity (circle_geometry ego sel b l)) (b_max_speed_mps b)
           (b_max_vertical_speed_mps b)) (b_max_speed_mps b) (b_max_vertical_speed_mps b)"
proof (rule clamp_velocity_within)
  have "finite_point (sel_velocity_local sel)" using assms(2) by (simp add: finite_selection_def)
  then show "finite_point (g_desired_velocity (circle_geometry ego sel b l))"
    using circle_relative_velocity [OF assms refl, of l] by auto
qed (use assms(3) in \<open>simp_all add: finite_behavior_def\<close>)

lemma behavior_velocity_within:
  assumes "finite_pose (ego_local_T_body ego)" and "finite_selection sel" and "finite_behavior b"
    and "finite_follow_config cfg"
  shows "velocity_within (fst (behavior_velocity ego sel b cfg g)) (b_max_speed_mps b) (b_max_vertical_speed_mps b)"
proof -
  have "finite_point (ego_position ego)" using assms(1) by (simp add: finite_pose_def)
  then show ?thesis
    using follow_velocity_within [OF assms] approach_velocity_within [OF assms(1-3)]
      circle_velocity_within [OF _ assms(2,3)] zero_within assms(3)
    by (cases "b_type b") (simp_all add: behavior_velocity_def Let_def finite_behavior_def)
qed

section \<open>Altitude\<close>

definition ego_height_finite :: "EgoState \<Rightarrow> bool" where
  "ego_height_finite ego \<longleftrightarrow> isfinite (ego_height ego)"

lemma std_clamp_unit: "\<exists>r. std_clamp x 0 1 = r \<and> (x \<noteq> NaN \<longrightarrow> isfinite r)"
  by (cases x) (auto simp: dbl_simps)

lemma profile_fraction_finite:
  assumes "finite_behavior b" and "isfinite t"
  shows "isfinite (altitude_profile_eased_fraction b t)"
proof -
  have "isfinite (altitude_profile_fraction b t)"
    using assms by (auto simp: altitude_profile_fraction_def altitude_profile_duration_s_def finite_behavior_def Let_def
        intro!: std_clamp_isfinite isfinite_divide)
  moreover have "isfinite (smoothstep x)" if "isfinite x" for x
    using that by (auto simp: smoothstep_def Let_def intro!: isfinite_arith std_clamp_isfinite)
  ultimately show ?thesis by (simp add: altitude_profile_eased_fraction_def Let_def)
qed

lemma velocity_within_vz:
  assumes "velocity_within v h w" and "isfinite z" and "std_abs z \<le> w'"
  shows "velocity_within (v\<lparr>vz := z\<rparr>) h w'"
  using assms by (cases v) (simp add: velocity_within_def norm_xy_def finite_point_def)

lemma altitude_profile_within:
  assumes "velocity_within v (b_max_speed_mps b) (b_max_vertical_speed_mps b)" and "finite_behavior b"
    and "isfinite (ego_height ego)" and "isfinite t"
  shows "velocity_within (fst (apply_altitude_profile v ego b t g)) (b_max_speed_mps b) (b_max_vertical_speed_mps b)"
proof -
  have "isfinite (- (ap_start_height_m (b_altitude_profile b) + (ap_end_height_m (b_altitude_profile b) -
      ap_start_height_m (b_altitude_profile b)) * altitude_profile_eased_fraction b t - ego_height ego))"
    using assms(2,3) profile_fraction_finite [OF assms(2,4)] by (simp add: finite_behavior_def)
  then show ?thesis
    using assms(1,2) by (auto simp: apply_altitude_profile_def Let_def finite_behavior_def
        intro!: velocity_within_vz conjunct1 [OF clamp_abs_within] conjunct2 [OF clamp_abs_within])
qed

text \<open>The floor may command a climb of 0.35 m/s whatever the vertical limit of the behaviour is.\<close>

definition floor_limit :: "double \<Rightarrow> double" where
  "floor_limit w = std_max w kMinSafeHeightClimbMps"

lemma climb_bounds:
  assumes "isfinite d" and "positive_limit w"
  shows "\<exists>c. std_clamp d kMinSafeHeightClimbMps w = Fin c \<and> 0 < c \<and> Fin c \<le> floor_limit w \<and>
     (kMinSafeHeightClimbMps \<le> w \<longrightarrow> kMinSafeHeightClimbMps \<le> Fin c)"
proof -
  obtain D W where "d = Fin D" "w = Fin W" "0 < W"
    using assms by (auto simp: isfinite_iff positive_limit_def)
  then show ?thesis
    by (intro exI [of _ "if D < 35/100 then 35/100 else if W < D then W else D"])
      (auto simp: floor_limit_def dbl_simps kMinSafeHeightClimbMps_def)
qed

lemma floor_within:
  assumes "velocity_within v h w" and "positive_limit w" and "isfinite height" and "isfinite min_height"
  shows "velocity_within (enforce_min_height_floor v height min_height w) h (floor_limit w)"
proof -
  have wide: "velocity_within v h (floor_limit w)"
    using assms(1,2) by (cases "vz v"; cases w)
      (auto simp: velocity_within_def floor_limit_def positive_limit_def dbl_simps kMinSafeHeightClimbMps_def)
  show ?thesis
  proof (cases "min_height \<le> 0 \<or> w \<le> 0 \<or> \<not> height < min_height")
    case True
    then show ?thesis
      using wide velocity_within_vz [OF wide, of 0 "floor_limit w"] assms(2)
      by (cases w) (auto simp: enforce_min_height_floor_def floor_limit_def dbl_simps positive_limit_def
          kMinSafeHeightClimbMps_def)
  next
    case False
    obtain c where c: "std_clamp ((min_height - height) * kSafeHeightCorrectionGain) kMinSafeHeightClimbMps w = Fin c"
      "0 < c" "Fin c \<le> floor_limit w"
      using climb_bounds [OF _ assms(2)] assms(3,4) by (metis isfinite_arith(2,3) isfinite.simps(1) kSafeHeightCorrectionGain_def)
    obtain z where z: "vz v = Fin z" using assms(1) by (auto simp: velocity_within_def finite_point_def isfinite_iff)
    have "std_abs (std_min (Fin z) (- Fin c)) \<le> floor_limit w"
      using wide c(2,3) z by (cases "floor_limit w") (auto simp: velocity_within_def dbl_simps)
    moreover have "isfinite (std_min (Fin z) (- Fin c))" by (simp add: dbl_simps)
    moreover have "enforce_min_height_floor v height min_height w = v\<lparr>vz := std_min (Fin z) (- Fin c)\<rparr>"
      unfolding enforce_min_height_floor_def Let_def c(1) z using False by simp
    ultimately show ?thesis using velocity_within_vz [OF wide] by simp
  qed
qed

lemma altitude_policy_within:
  assumes "velocity_within v (b_max_speed_mps b) (b_max_vertical_speed_mps b)" and "finite_behavior b"
    and "isfinite height" and "isfinite (oc_behavior_min_height_m cfg)"
  shows "velocity_within (apply_altitude_policy v cfg b height) (b_max_speed_mps b) (floor_limit (b_max_vertical_speed_mps b))"
proof -
  have "velocity_within v (b_max_speed_mps b) (floor_limit (b_max_vertical_speed_mps b))"
    using assms(1,2) by (cases "vz v"; cases "b_max_vertical_speed_mps b")
      (auto simp: velocity_within_def floor_limit_def finite_behavior_def positive_limit_def dbl_simps kMinSafeHeightClimbMps_def)
  then show ?thesis
    using floor_within [OF assms(1) _ assms(3,4)] assms(2)
    by (simp add: apply_altitude_policy_def finite_behavior_def)
qed

section \<open>Properties\<close>

text \<open>
  Under the safe-height policy a behaviour never commands a descent at or below the floor, and
  below the floor it commands a climb: at least 0.35 m/s when the vertical limit allows that,
  and never more than the larger of the limit and 0.35 m/s unless the behaviour asked for more
  itself.  Above the floor the requested velocity is unchanged, and x and y always are.
\<close>
lemma altitude_floor_respected:
  assumes "oc_altitude_policy cfg = SafeHeightFloor" and "0 < oc_behavior_min_height_m cfg"
    and "positive_limit (b_max_vertical_speed_mps b)" and "isfinite (oc_behavior_min_height_m cfg)"
    and "isfinite height" and "isfinite (vz v)"
  shows "let v' = apply_altitude_policy v cfg b height; floor = oc_behavior_min_height_m cfg in
    vx v' = vx v \<and> vy v' = vy v \<and>
    (height \<le> floor \<longrightarrow> vz v' \<le> 0) \<and>
    (height < floor \<longrightarrow> vz v' < 0 \<and> (Fin (35/100) \<le> b_max_vertical_speed_mps b \<longrightarrow> vz v' \<le> Fin (- 35/100)) \<and>
        (vz v' = vz v \<or> - floor_limit (b_max_vertical_speed_mps b) \<le> vz v')) \<and>
    (floor < height \<longrightarrow> v' = v)"
proof -
  obtain f h z w where vals: "oc_behavior_min_height_m cfg = Fin f" "height = Fin h" "vz v = Fin z"
    "b_max_vertical_speed_mps b = Fin w" and pos: "0 < f" "0 < w"
    using assms by (auto simp: isfinite_iff positive_limit_def)
  obtain c where c: "std_clamp (Fin ((f - h) * (1/2))) kMinSafeHeightClimbMps (Fin w) = Fin c" "0 < c"
    "Fin c \<le> floor_limit (Fin w)" "kMinSafeHeightClimbMps \<le> Fin w \<longrightarrow> kMinSafeHeightClimbMps \<le> Fin c"
    using climb_bounds [of "Fin ((f - h) * (1/2))" "Fin w"] pos by (auto simp: positive_limit_def)
  show ?thesis
    using c pos unfolding apply_altitude_policy_def enforce_min_height_floor_def vals Let_def
    by (cases "floor_limit (Fin w)") (auto simp: assms(1) kSafeHeightCorrectionGain_def dbl_simps vals kMinSafeHeightClimbMps_def)
qed

lemma altitude_floor_respected_witness:
  "let v' = apply_altitude_policy (vec3 1 0 2) (sample_config\<lparr>oc_altitude_policy := SafeHeightFloor\<rparr>)
              BehaviorFields_default 5
   in vx v' = 1 \<and> vz v' \<le> Fin (- 35/100) \<and> - floor_limit 1 \<le> vz v'"
proof -
  let ?cfg = "sample_config\<lparr>oc_altitude_policy := SafeHeightFloor\<rparr>"
  have h: "oc_altitude_policy ?cfg = SafeHeightFloor" "0 < oc_behavior_min_height_m ?cfg"
    "positive_limit (b_max_vertical_speed_mps BehaviorFields_default)" "isfinite (oc_behavior_min_height_m ?cfg)"
    "isfinite (5::double)" "isfinite (vz (vec3 1 0 2))"
    by (simp_all add: ObjectBehaviorMissionConfig_default_def BehaviorFields_default_def positive_limit_def)
  have "vz (apply_altitude_policy (vec3 1 0 2) ?cfg BehaviorFields_default 5) = Fin (- 1)"
    by (simp add: apply_altitude_policy_def enforce_min_height_floor_def ObjectBehaviorMissionConfig_default_def
        BehaviorFields_default_def kSafeHeightCorrectionGain_def kMinSafeHeightClimbMps_def dbl_simps)
  with altitude_floor_respected [OF h] show ?thesis
    by (simp add: Let_def ObjectBehaviorMissionConfig_default_def BehaviorFields_default_def)
qed

text \<open>
  The orbit controller steers towards the requested radius and in the requested direction: the
  commanded velocity relative to the target has a radial component of the sign opposite to the
  radius error (zero only for no error), a tangential component of the sign of the requested
  direction, and a norm within the behaviour's speed limit.
\<close>
lemma circle_steers_to_orbit:
  assumes "finite_point (ego_position ego)" and "finite_selection sel" and "finite_behavior b"
    and "0 < b_radius_m b" and "0 < b_angular_speed_deg_s b" and "g = circle_geometry ego sel b l"
  shows "\<exists>ux uy rx ry e H. g_radial_unit g = vec3 (Fin ux) (Fin uy) 0 \<and> ux * ux + uy * uy = 1 \<and>
    g_radius_error_m g = Fin e \<and> b_max_speed_mps b = Fin H \<and>
    vx (g_desired_velocity g) = vx (sel_velocity_local sel) + Fin rx \<and>
    vy (g_desired_velocity g) = vy (sel_velocity_local sel) + Fin ry \<and>
    sqrt (rx * rx + ry * ry) \<le> H \<and>
    (e > 0 \<longrightarrow> rx * ux + ry * uy < 0) \<and> (e < 0 \<longrightarrow> rx * ux + ry * uy > 0) \<and> (e = 0 \<longrightarrow> rx * ux + ry * uy = 0) \<and>
    (if b_direction b = Clockwise then ux * ry - uy * rx < 0 else ux * ry - uy * rx > 0)"
proof -
  obtain ux uy k c w e sgn z rx ry H where u: "g_radial_unit g = vec3 (Fin ux) (Fin uy) 0" "ux * ux + uy * uy = 1"
    and e: "g_radius_error_m g = Fin e" "c = max (- 2) (min (- e * (6/10)) 2)"
    and w: "b_radius_m b * deg_to_rad (b_angular_speed_deg_s b) = Fin w"
    and sgn: "circle_direction_sign (b_direction b) = Fin sgn"
    and k: "0 < k" "k \<le> 1" "rx = (sgn * - uy * w + ux * c) * k" "ry = (sgn * ux * w + uy * c) * k"
    and H: "b_max_speed_mps b = Fin H" "sqrt (rx * rx + ry * ry) \<le> H"
    and dv: "g_desired_velocity g = vec3 (vx (sel_velocity_local sel) + Fin rx) (vy (sel_velocity_local sel) + Fin ry) (Fin z)"
    using circle_relative_velocity [OF assms(1-3) assms(6)] by blast
  have "rx * ux + ry * uy = (ux * ux + uy * uy) * c * k" unfolding k by (simp add: algebra_simps)
  then have radial: "rx * ux + ry * uy = c * k" using u(2) by simp
  have "ux * ry - uy * rx = (ux * ux + uy * uy) * (sgn * w) * k" unfolding k by (simp add: algebra_simps)
  then have tangential: "ux * ry - uy * rx = sgn * w * k" using u(2) by simp
  obtain r a where "b_radius_m b = Fin r" "b_angular_speed_deg_s b = Fin a" "0 < r" "0 < a"
    using assms(3-5) by (auto simp: finite_behavior_def isfinite_iff)
  then have "w = (r * a) * (pi / 180)" and "0 < r * a" using w by (auto simp: deg_to_rad_def)
  then have "0 < w" using mult_pos_pos [of "r * a" "pi / 180"] pi_gt_zero by (simp only: zero_less_divide_iff) simp
  moreover have "sgn = (if b_direction b = Clockwise then - 1 else 1)"
    using sgn by (auto simp: circle_direction_sign_def split: if_splits)
  ultimately have dir: "if b_direction b = Clockwise then ux * ry - uy * rx < 0 else ux * ry - uy * rx > 0"
    using k(1) unfolding tangential by (simp add: mult_less_0_iff zero_less_mult_iff)
  have "(e > 0 \<longrightarrow> c * k < 0) \<and> (e < 0 \<longrightarrow> c * k > 0) \<and> (e = 0 \<longrightarrow> c * k = 0)"
    using k(1) e(2) by (auto simp: mult_less_0_iff zero_less_mult_iff min_def max_def)
  then have rad: "(e > 0 \<longrightarrow> rx * ux + ry * uy < 0) \<and> (e < 0 \<longrightarrow> rx * ux + ry * uy > 0) \<and>
      (e = 0 \<longrightarrow> rx * ux + ry * uy = 0)"
    unfolding radial .
  have "vx (g_desired_velocity g) = vx (sel_velocity_local sel) + Fin rx"
    and "vy (g_desired_velocity g) = vy (sel_velocity_local sel) + Fin ry" by (simp_all add: dv)
  with u e(1) H dir rad show ?thesis by blast
qed

text \<open>Three metres outside a two-metre orbit: the commanded velocity points inwards.\<close>

lemma circle_steers_to_orbit_witness:
  "let b = BehaviorFields_default\<lparr>b_type := BtCircle, b_radius_m := 2, b_angular_speed_deg_s := 10\<rparr>;
       g = circle_geometry (sample_ego\<lparr>ego_local_T_body := \<lparr>position = vec3 5 0 0, rotation_rpy = vec3_zero\<rparr>\<rparr>)
             TargetSelection_default b False
   in g_radius_error_m g = 3 \<and> g_radial_unit g = vec3 1 0 0 \<and> vx (g_desired_velocity g) < 0"
proof -
  let ?b = "BehaviorFields_default\<lparr>b_type := BtCircle, b_radius_m := 2, b_angular_speed_deg_s := 10\<rparr>"
  let ?ego = "sample_ego\<lparr>ego_local_T_body := \<lparr>position = vec3 5 0 0, rotation_rpy = vec3_zero\<rparr>\<rparr>"
  let ?g = "circle_geometry ?ego TargetSelection_default ?b False"
  have h: "finite_point (ego_position ?ego)" "finite_selection TargetSelection_default" "finite_behavior ?b"
    "0 < b_radius_m ?b" "0 < b_angular_speed_deg_s ?b"
    by (simp_all add: finite_selection_def TargetSelection_default_def finite_behavior_def BehaviorFields_default_def
        AltitudeProfileSpec_default_def positive_limit_def)
  have err: "g_radius_error_m ?g = 3" and unit: "g_radial_unit ?g = vec3 1 0 0"
    by (simp_all add: circle_geometry_def Let_def target_to_ego_xy_def TargetSelection_default_def tiny_def)
  from circle_steers_to_orbit [OF h refl, of False] obtain rx ry where
    "vx (g_desired_velocity ?g) = vx (sel_velocity_local TargetSelection_default) + Fin rx" and "rx < 0"
    unfolding err unit by auto
  with err unit show ?thesis by (simp add: Let_def TargetSelection_default_def)
qed

end
