(* ===== verification/Object_Controller.thy ===== *)
theory Object_Controller
  imports Follow_Limits
begin

text \<open>
  The object-behaviour mission controller (\<open>behavior/object_behavior_mission_controller*.cpp\<close>):
  the life-cycle state machine that arms, takes off, runs a behaviour or a sequence of
  behaviours on the selected target, flies home, lands and disarms.

  A tick is a function of the configuration, the input and the controller's members.  Its result
  is \<open>None\<close> if one of the two loops that normalise an angle does not end, the left injection
  of a message if \<open>parse_yaw_mode\<close> throws, and otherwise the output and the new members.
  Printing to \<open>stderr\<close> when \<open>DEDALUS_DEBUG_EGO\<close> is set has no counterpart.
\<close>

section \<open>State\<close>

record ObjectController =
  c_state :: MissionLifecycleState
  c_mission_start :: TimePoint
  c_state_start :: TimePoint
  c_last_tick_time :: TimePoint
  c_behavior_start :: TimePoint
  c_arm_last_command_time :: TimePoint
  c_takeoff_last_command_time :: TimePoint
  c_land_last_command_time :: TimePoint
  c_disarm_last_command_time :: TimePoint
  c_home_pose :: Pose3
  c_mission_started :: bool
  c_home_initialized :: bool
  c_target_selected_emitted :: bool
  c_behavior_start_emitted :: bool
  c_behavior_complete_emitted :: bool
  c_behavior_tick_sample_emitted :: bool
  c_arm_command_sent :: bool
  c_takeoff_command_sent :: bool
  c_land_command_sent :: bool
  c_disarm_command_sent :: bool
  c_aborting :: bool
  c_abort_reason :: string
  c_last_behavior_display_detail :: string
  c_circle_in_orbit_mode :: bool
  c_circle_orbit_tracking :: bool
  c_circle_previous_angle_rad :: double
  c_circle_completed_orbits :: double
  c_previous_selection :: "TargetSelection option"
  c_last_stable_yaw_valid :: bool
  c_last_stable_yaw_rad :: double
  c_execute_tick_count :: int
  c_sequence_step_index :: nat
  c_sequence_step_start :: TimePoint
  c_sequence_step_started :: bool
  c_last_ego_ts_go_home :: TimePoint
  c_go_home_estimated_frame_interval_s :: double

abbreviation time_zero :: TimePoint where "time_zero \<equiv> \<lparr>timestamp_ns = 0\<rparr>"

definition ObjectController_init :: ObjectController where
  "ObjectController_init =
    \<lparr>c_state = Idle, c_mission_start = time_zero, c_state_start = time_zero, c_last_tick_time = time_zero,
     c_behavior_start = time_zero, c_arm_last_command_time = time_zero, c_takeoff_last_command_time = time_zero,
     c_land_last_command_time = time_zero, c_disarm_last_command_time = time_zero,
     c_home_pose = \<lparr>position = vec3_zero, rotation_rpy = vec3_zero\<rparr>, c_mission_started = False,
     c_home_initialized = False, c_target_selected_emitted = False, c_behavior_start_emitted = False,
     c_behavior_complete_emitted = False, c_behavior_tick_sample_emitted = False, c_arm_command_sent = False,
     c_takeoff_command_sent = False, c_land_command_sent = False, c_disarm_command_sent = False,
     c_aborting = False, c_abort_reason = [], c_last_behavior_display_detail = [],
     c_circle_in_orbit_mode = False, c_circle_orbit_tracking = False, c_circle_previous_angle_rad = 0,
     c_circle_completed_orbits = 0, c_previous_selection = None, c_last_stable_yaw_valid = False,
     c_last_stable_yaw_rad = 0, c_execute_tick_count = 0, c_sequence_step_index = 0,
     c_sequence_step_start = time_zero, c_sequence_step_started = False, c_last_ego_ts_go_home = time_zero,
     c_go_home_estimated_frame_interval_s = 0\<rparr>"

definition kLandHeightM :: double where "kLandHeightM = Fin (1/4)"
definition kMinArrivedDistanceM :: double where "kMinArrivedDistanceM = Fin (1/2)"
definition kTakeoffVelocityAssistHeightM :: double where "kTakeoffVelocityAssistHeightM = Fin (1/2)"

section \<open>Velocity and yaw commands\<close>

definition velocity_toward_xy :: "Vec3 \<Rightarrow> Vec3 \<Rightarrow> double \<Rightarrow> Vec3" where
  "velocity_toward_xy from to speed =
     (let dx = vx to - vx from; dy = vy to - vy from; distance = norm_xy (vec3 dx dy 0)
      in if distance \<le> kMinArrivedDistanceM \<or> speed \<le> 0 then vec3_zero
         else vec3 (dx / distance * speed) (dy / distance * speed) 0)"

definition plain_velocity_command :: "TimePoint \<Rightarrow> Vec3 \<Rightarrow> VelocityCommand" where
  "plain_velocity_command t v =
    \<lparr>vc_kind = CmdVelocity, vc_timestamp = t, vc_velocity_local_mps = v, vc_yaw_rate_radps = 0, vc_yaw_rad = 0,
     vc_yaw_rate_valid = True, vc_yaw_valid = False, vc_yaw_source = ''disabled''\<rparr>"

definition hold_last_yaw :: "ObjectController \<Rightarrow> VelocityCommand \<Rightarrow> VelocityCommand" where
  "hold_last_yaw st c = c\<lparr>vc_yaw_valid := True, vc_yaw_rad := c_last_stable_yaw_rad st, vc_yaw_source := ''hold_last''\<rparr>"

definition command_from_velocity ::
    "ObjectBehaviorMissionConfig \<Rightarrow> TimePoint \<Rightarrow> Vec3 \<Rightarrow> double \<Rightarrow> ObjectController \<Rightarrow> VelocityCommand \<times> ObjectController" where
  "command_from_velocity cfg t v yaw_offset st =
     (let c = plain_velocity_command t v
      in if oc_yaw_min_speed_mps cfg \<le> norm_xy v then
           let yaw = std_atan2 (vy v) (vx v) + yaw_offset
           in (c\<lparr>vc_yaw_valid := True, vc_yaw_rad := yaw, vc_yaw_source := ''trajectory''\<rparr>,
               st\<lparr>c_last_stable_yaw_valid := True, c_last_stable_yaw_rad := yaw\<rparr>)
         else if oc_yaw_hold_last_when_unstable cfg \<and> c_last_stable_yaw_valid st then (hold_last_yaw st c, st)
         else (c, st))"

definition command_from_behavior_velocity ::
    "ObjectBehaviorMissionConfig \<Rightarrow> TimePoint \<Rightarrow> Vec3 \<Rightarrow> EgoState \<Rightarrow> TargetSelection \<Rightarrow> double \<Rightarrow> ObjectBehaviorYawMode \<Rightarrow>
     ObjectController \<Rightarrow> VelocityCommand \<times> ObjectController" where
  "command_from_behavior_velocity cfg t v ego sel yaw_offset mode st =
     (let c = plain_velocity_command t v
      in case mode of
           YawTrajectory \<Rightarrow> command_from_velocity cfg t v yaw_offset st
         | YawNone \<Rightarrow> (c, st)
         | YawHold \<Rightarrow> (if c_last_stable_yaw_valid st then hold_last_yaw st c else c, st)
         | YawTarget \<Rightarrow>
             let dx = vx (sel_position_local sel) - vx (ego_position ego);
                 dy = vy (sel_position_local sel) - vy (ego_position ego)
             in if tiny < norm_xy (vec3 dx dy 0) then
                  let yaw = std_atan2 dy dx + yaw_offset
                  in (c\<lparr>vc_yaw_valid := True, vc_yaw_rad := yaw, vc_yaw_source := ''target''\<rparr>,
                      st\<lparr>c_last_stable_yaw_valid := True, c_last_stable_yaw_rad := yaw\<rparr>)
                else if oc_yaw_hold_last_when_unstable cfg \<and> c_last_stable_yaw_valid st then (hold_last_yaw st c, st)
                else (c, st))"

definition command_with_kind :: "TimePoint \<Rightarrow> FlightCommandKind \<Rightarrow> VelocityCommand" where
  "command_with_kind t k =
    \<lparr>vc_kind = k, vc_timestamp = t, vc_velocity_local_mps = vec3_zero, vc_yaw_rate_radps = 0, vc_yaw_rad = 0,
     vc_yaw_rate_valid = False, vc_yaw_valid = False, vc_yaw_source = ''disabled''\<rparr>"

section \<open>Camera pointing\<close>

definition camera_names :: "ObjectBehaviorMissionConfig \<Rightarrow> string list" where
  "camera_names cfg =
     (if oc_camera_pointing_cameras cfg = [] then [''front_center''] else oc_camera_pointing_cameras cfg)"

definition camera_off :: "ObjectBehaviorMissionConfig \<Rightarrow> string \<Rightarrow> bool" where
  "camera_off cfg mode \<longleftrightarrow> oc_vertical_stare_mode cfg = StareNone \<or> mode = ''none'' \<or> mode = ''disabled''"

definition neutral_camera_pointing_command ::
    "ObjectBehaviorMissionConfig \<Rightarrow> TimePoint \<Rightarrow> string \<Rightarrow> CameraPointingCommand option" where
  "neutral_camera_pointing_command cfg t mode =
     (if camera_off cfg mode then None
      else Some \<lparr>cp_timestamp = t, cp_cameras = camera_names cfg, cp_mode = mode, cp_source_track_id = [],
             cp_agent_id = [], cp_identity_id = [], cp_pitch_rad = 0, cp_pitch_unclamped_rad = 0,
             cp_pitch_min_rad = oc_camera_pitch_min_rad cfg, cp_pitch_max_rad = oc_camera_pitch_max_rad cfg,
             cp_target_elevation_rad = 0, cp_target_bearing_rad = 0, cp_yaw_rad = 0, cp_range_xy_m = 0,
             cp_delta_z_m = 0, cp_pitch_sign = oc_camera_pitch_sign cfg,
             cp_pitch_offset_rad = oc_camera_pitch_offset_rad cfg, cp_pitch_valid = True, cp_yaw_valid = True,
             cp_pitch_clamped = False\<rparr>)"

definition camera_pointing_command_to_point ::
    "ObjectBehaviorMissionConfig \<Rightarrow> TimePoint \<Rightarrow> EgoState \<Rightarrow> Vec3 \<Rightarrow> string \<Rightarrow> CameraPointingCommand option" where
  "camera_pointing_command_to_point cfg t ego target mode =
     (if camera_off cfg mode then None
      else if mode = ''neutral'' \<or> mode = ''reset'' then neutral_camera_pointing_command cfg t mode
      else let dx = vx target - vx (ego_position ego); dy = vy target - vy (ego_position ego);
               dz = vz target - vz (ego_position ego);
               raw_range_xy = std_hypot dx dy;
               range_xy = std_max raw_range_xy tiny;
               elevation = std_atan2 dz range_xy;
               bearing = (if tiny < raw_range_xy then std_atan2 dy dx else yaw_rad (ego_local_T_body ego));
               unclamped = oc_camera_pitch_sign cfg * elevation + oc_camera_pitch_offset_rad cfg;
               pitch = std_max (oc_camera_pitch_min_rad cfg) (std_min (oc_camera_pitch_max_rad cfg) unclamped)
           in Some \<lparr>cp_timestamp = t, cp_cameras = camera_names cfg, cp_mode = mode, cp_source_track_id = [],
                cp_agent_id = [], cp_identity_id = [], cp_pitch_rad = pitch, cp_pitch_unclamped_rad = unclamped,
                cp_pitch_min_rad = oc_camera_pitch_min_rad cfg, cp_pitch_max_rad = oc_camera_pitch_max_rad cfg,
                cp_target_elevation_rad = elevation, cp_target_bearing_rad = bearing, cp_yaw_rad = bearing,
                cp_range_xy_m = range_xy, cp_delta_z_m = dz, cp_pitch_sign = oc_camera_pitch_sign cfg,
                cp_pitch_offset_rad = oc_camera_pitch_offset_rad cfg, cp_pitch_valid = True, cp_yaw_valid = True,
                cp_pitch_clamped = (Fin (1/1000000000) < std_abs (pitch - unclamped))\<rparr>)"

definition camera_pointing_command ::
    "ObjectBehaviorMissionConfig \<Rightarrow> TimePoint \<Rightarrow> EgoState \<Rightarrow> TargetSelection \<Rightarrow> string \<Rightarrow> ObjectController \<Rightarrow>
     CameraPointingCommand option" where
  "camera_pointing_command cfg t ego sel mode st =
     (let m = if mode = [] then ''target'' else mode
      in if m = ''neutral'' \<or> m = ''reset'' then neutral_camera_pointing_command cfg t m
         else if (m = ''home'' \<or> m = ''landing_area'') \<and> c_home_initialized st
         then camera_pointing_command_to_point cfg t ego (position (c_home_pose st)) m
         else map_option (\<lambda>c. c\<lparr>cp_source_track_id := sel_source_track_id sel, cp_agent_id := sel_agent_id sel,
                                 cp_identity_id := sel_identity_id sel\<rparr>)
                (camera_pointing_command_to_point cfg t ego (sel_position_local sel) m))"

definition camera_pointing_command_for_behavior ::
    "ObjectBehaviorMissionConfig \<Rightarrow> TimePoint \<Rightarrow> EgoState \<Rightarrow> TargetSelection \<Rightarrow> BehaviorFields \<Rightarrow> ObjectController \<Rightarrow>
     CameraPointingCommand option" where
  "camera_pointing_command_for_behavior cfg t ego sel b st =
     camera_pointing_command cfg t ego sel
       (if b_camera_pointing_mode b = [] then ''target'' else b_camera_pointing_mode b) st"

text \<open>\<open>if (auto camera_pointing = ...) emit_camera_pointing(output, *camera_pointing);\<close>\<close>

definition emit_camera_pointing :: "CameraPointingCommand option \<Rightarrow> MissionTickOutput \<Rightarrow> MissionTickOutput" where
  "emit_camera_pointing c out =
     (case c of None \<Rightarrow> out | Some c \<Rightarrow> add_event (CameraEvent c) (out\<lparr>to_camera_pointing := Some c\<rparr>))"

section \<open>Sequences and orbits\<close>

definition parse_yaw_mode :: "string \<Rightarrow> ObjectBehaviorYawMode result" where
  "parse_yaw_mode value =
     (if value = [] \<or> value = ''trajectory'' \<or> value = ''travel_direction'' \<or> value = ''from_heading'' then Inr YawTrajectory
      else if value = ''target'' \<or> value = ''to_target'' \<or> value = ''stare_at_target'' then Inr YawTarget
      else if value = ''hold'' then Inr YawHold
      else if value = ''none'' \<or> value = ''disabled'' then Inr YawNone
      else Inl (''unknown object_behavior_yaw_mode: '' @ value))"

definition update_circle_orbit_progress ::
    "BehaviorFields \<Rightarrow> bool \<Rightarrow> double \<Rightarrow> ObjectController \<Rightarrow> (bool \<times> ObjectController) option" where
  "update_circle_orbit_progress b circling angle st =
     (if b_type b \<noteq> BtCircle \<or> b_orbit_count b \<le> 0 then Some (False, st)
      else if \<not> circling then Some (False, st\<lparr>c_circle_orbit_tracking := False\<rparr>)
      else if \<not> c_circle_orbit_tracking st then
        Some (False, st\<lparr>c_circle_orbit_tracking := True, c_circle_previous_angle_rad := angle, c_circle_completed_orbits := 0\<rparr>)
      else case normalize_angle (angle - c_circle_previous_angle_rad st) of
             None \<Rightarrow> None
           | Some delta \<Rightarrow>
               let directed = circle_direction_sign (b_direction b) * delta;
                   st = (if 0 < directed
                         then st\<lparr>c_circle_completed_orbits := c_circle_completed_orbits st + directed / (2 * Fin pi)\<rparr>
                         else st);
                   st = st\<lparr>c_circle_previous_angle_rad := angle\<rparr>
               in Some (b_orbit_count b \<le> c_circle_completed_orbits st, st))"

abbreviation mission_behavior :: "ObjectBehaviorMissionConfig \<Rightarrow> BehaviorSpec" where
  "mission_behavior cfg \<equiv> bm_behavior (oc_behavior_spec cfg)"

definition sequence_active :: "ObjectBehaviorMissionConfig \<Rightarrow> bool" where
  "sequence_active cfg \<longleftrightarrow> b_type (bs_fields (mission_behavior cfg)) = BtSequence"

definition active_behavior :: "ObjectBehaviorMissionConfig \<Rightarrow> ObjectController \<Rightarrow> BehaviorSpec" where
  "active_behavior cfg st =
     (let ss = bs_steps (mission_behavior cfg)
      in if \<not> sequence_active cfg then mission_behavior cfg
         else if ss = [] then mission_behavior cfg
         else ss ! min (c_sequence_step_index st) (length ss - 1))"

definition active_behavior_is_last_sequence_step :: "ObjectBehaviorMissionConfig \<Rightarrow> ObjectController \<Rightarrow> bool" where
  "active_behavior_is_last_sequence_step cfg st =
     (let ss = bs_steps (mission_behavior cfg)
      in if \<not> sequence_active cfg then True else ss = [] \<or> length ss \<le> c_sequence_step_index st + 1)"

definition yaw_mode_for_behavior ::
    "ObjectBehaviorMissionConfig \<Rightarrow> BehaviorFields \<Rightarrow> ObjectBehaviorYawMode result" where
  "yaw_mode_for_behavior cfg b = (if b_yaw_mode b = [] then Inr (oc_yaw_mode cfg) else parse_yaw_mode (b_yaw_mode b))"

definition reset_sequence_step :: "TimePoint \<Rightarrow> ObjectController \<Rightarrow> ObjectController" where
  "reset_sequence_step now st =
     st\<lparr>c_sequence_step_start := now, c_sequence_step_started := True, c_circle_in_orbit_mode := False,
        c_circle_orbit_tracking := False, c_circle_previous_angle_rad := 0, c_circle_completed_orbits := 0,
        c_last_behavior_display_detail := []\<rparr>"

definition reset_behavior_run :: "TimePoint \<Rightarrow> ObjectController \<Rightarrow> ObjectController" where
  "reset_behavior_run now st =
     reset_sequence_step now
      (st\<lparr>c_behavior_start := now, c_target_selected_emitted := False, c_behavior_start_emitted := False,
          c_behavior_complete_emitted := False, c_behavior_tick_sample_emitted := False, c_execute_tick_count := 0,
          c_last_behavior_display_detail := [], c_previous_selection := None, c_circle_in_orbit_mode := False,
          c_circle_orbit_tracking := False, c_circle_previous_angle_rad := 0, c_circle_completed_orbits := 0,
          c_sequence_step_index := 0, c_sequence_step_started := False\<rparr>)"

definition completion_elapsed :: "ObjectBehaviorMissionConfig \<Rightarrow> TimePoint \<Rightarrow> ObjectController \<Rightarrow> bool" where
  "completion_elapsed cfg now st =
     (let after_s = cs_after_s (bm_completion (oc_behavior_spec cfg))
      in if after_s \<le> 0 then False else after_s \<le> seconds_between (c_behavior_start st) now)"

definition go_home_velocity :: "EgoState \<Rightarrow> double \<Rightarrow> ObjectController \<Rightarrow> Vec3" where
  "go_home_velocity ego speed st =
     (if \<not> c_home_initialized st then vec3_zero
      else velocity_toward_xy (ego_position ego) (position (c_home_pose st)) speed)"

definition begin_abort_recovery :: "TimePoint \<Rightarrow> double \<Rightarrow> string \<Rightarrow> ObjectController \<Rightarrow> ObjectController" where
  "begin_abort_recovery now height reason st =
     (let st = st\<lparr>c_aborting := True, c_abort_reason := reason, c_state_start := now\<rparr>
      in if kLandHeightM < height
         then st\<lparr>c_state := (if c_home_initialized st then GoHome else Land)\<rparr>
         else st\<lparr>c_state := Complete\<rparr>)"

end
