(* ===== verification/Object_Tick.thy ===== *)
theory Object_Tick
  imports Object_Controller
begin

text \<open>
  One tick of the object-behaviour controller: the handlers of the life-cycle states and the
  dispatch over them (\<open>object_behavior_mission_controller_tick.cpp\<close>,
  \<open>object_behavior_mission_controller_tick_execute.cpp\<close>).
\<close>

type_synonym tick_state = "MissionTickOutput \<times> ObjectController"

definition last_result_matches_success :: "FlightCommandResult option \<Rightarrow> FlightCommandKind \<Rightarrow> bool" where
  "last_result_matches_success r k \<longleftrightarrow> (case r of None \<Rightarrow> False | Some r \<Rightarrow> fcr_kind r = k \<and> fcr_success r)"

definition behavior_detail_for_tick :: "BehaviorFields \<Rightarrow> FollowGeometry \<Rightarrow> string" where
  "behavior_detail_for_tick b g =
     (case b_type b of
        BtFollow \<Rightarrow>
          if g_arrival_mode g = ''hold''
          then (if kHeadingEpsilonMps < g_target_speed_xy_mps g then ''following'' else ''positioned'')
          else if g_arrival_mode g = ''slow'' \<or> g_arrival_mode g = ''cruise'' then ''arriving'' else ''following''
      | BtCircle \<Rightarrow> if g_circle_phase g = ''circling'' then ''circling'' else ''arriving''
      | BtHold \<Rightarrow> ''positioned''
      | BtApproach \<Rightarrow> ''arriving''
      | _ \<Rightarrow> ''active'')"

definition object_behavior_status :: "BehaviorFields \<Rightarrow> FollowGeometry \<Rightarrow> string" where
  "object_behavior_status b g = ''object_behavior_'' @ behavior_detail_for_tick b g"

section \<open>Executing the behaviour\<close>

text \<open>Raw velocity, geometry and orbit completion, unless the behaviour is about to end.\<close>

definition execute_geometry ::
    "ObjectBehaviorMissionConfig \<Rightarrow> TimePoint \<Rightarrow> EgoState \<Rightarrow> TargetSelection \<Rightarrow> BehaviorFields \<Rightarrow> bool \<Rightarrow>
     ObjectController \<Rightarrow> (Vec3 \<times> FollowGeometry \<times> bool \<times> ObjectController) option" where
  "execute_geometry cfg now ego sel b ending st =
     (if ending then Some (vec3_zero, FollowGeometry_default, False, st)
      else let (raw, g, st) =
             (if b_type b = BtCircle then
                let g = circle_geometry ego sel b (c_circle_in_orbit_mode st);
                    st = (if g_circle_phase g = ''circling'' then st\<lparr>c_circle_in_orbit_mode := True\<rparr> else st)
                in (clamp_velocity (g_desired_velocity g) (b_max_speed_mps b) (b_max_vertical_speed_mps b), g, st)
              else let (raw, g) = behavior_velocity ego sel b cfg FollowGeometry_default in (raw, g, st))
           in case update_circle_orbit_progress b (g_circle_phase g = ''circling'') (g_orbit_angle_rad g) st of
                None \<Rightarrow> None
              | Some (orbits_complete, st) \<Rightarrow>
                  let g = g\<lparr>g_circle_completed_orbits := c_circle_completed_orbits st, g_orbit_count_target := b_orbit_count b\<rparr>;
                      (raw, g) = apply_altitude_profile raw ego b (seconds_between (c_sequence_step_start st) now) g
                  in Some (raw, g, orbits_complete, st))"

text \<open>The events of the first ticks with a target.\<close>

definition announce_target ::
    "ObjectBehaviorMissionConfig \<Rightarrow> TimePoint \<Rightarrow> TargetSelection \<Rightarrow> tick_state \<Rightarrow> tick_state" where
  "announce_target cfg now sel s =
     (let (out, st) = s;
          st = st\<lparr>c_previous_selection := Some sel\<rparr>;
          (out, st) = (if c_target_selected_emitted st then (out, st)
                       else (add_event (TargetEvent sel) out, st\<lparr>c_target_selected_emitted := True\<rparr>))
      in if c_behavior_start_emitted st then (out, st)
         else let st = st\<lparr>c_behavior_start_emitted := True, c_behavior_start := now\<rparr>;
                  out = (if sequence_active cfg
                         then add_event (SequenceStepEvent SequenceStepStart (bs_fields (active_behavior cfg st))
                                           (c_sequence_step_index st) ''sequence_start'') out
                         else out)
              in (add_event (BehaviorEvent BehaviorStart ''target_selected'' (c_previous_selection st)) out, st))"

text \<open>The last branch of the handler: the behaviour goes on and a velocity is commanded.\<close>

definition command_behavior ::
    "ObjectBehaviorMissionConfig \<Rightarrow> TimePoint \<Rightarrow> EgoState \<Rightarrow> double \<Rightarrow> TargetSelection \<Rightarrow> BehaviorFields \<Rightarrow>
     ObjectBehaviorYawMode \<Rightarrow> Vec3 \<Rightarrow> FollowGeometry \<Rightarrow> tick_state \<Rightarrow> tick_state" where
  "command_behavior cfg now ego height sel b yaw_mode raw g s =
     (let (out, st) = s;
          v = apply_altitude_policy raw cfg b height;
          (cmd, st) = command_from_behavior_velocity cfg now v ego sel (oc_yaw_offset_rad cfg + b_yaw_offset_rad b) yaw_mode st;
          out = out\<lparr>to_command := Some cmd\<rparr>;
          detail = behavior_detail_for_tick b g;
          (out, st) = (if \<not> c_behavior_tick_sample_emitted st \<or> detail \<noteq> c_last_behavior_display_detail st
                       then (add_event (TickEvent detail) out,
                             st\<lparr>c_behavior_tick_sample_emitted := True, c_last_behavior_display_detail := detail\<rparr>)
                       else (out, st));
          out = (if 0 < oc_debug_every_n_ticks cfg \<and> c_execute_tick_count st mod oc_debug_every_n_ticks cfg = 0
                 then add_event (DebugEvent (c_execute_tick_count st)) out else out)
      in (out\<lparr>to_status := object_behavior_status b g\<rparr>, st))"

definition step_end_reason :: "bool \<Rightarrow> bool \<Rightarrow> bool \<Rightarrow> string" where
  "step_end_reason terminal orbits approach =
     (if terminal then ''terminal_step'' else if orbits then ''orbit_count_elapsed''
      else if approach then ''approach_standoff_reached'' else ''duration_elapsed'')"

definition end_reason :: "bool \<Rightarrow> bool \<Rightarrow> bool \<Rightarrow> string" where
  "end_reason finish sequence_complete orbits =
     (if finish then ''finish_requested'' else if sequence_complete then ''sequence_complete''
      else if orbits then ''orbit_count_elapsed'' else ''duration_elapsed'')"

text \<open>The behaviour ends: the next life-cycle state is \<open>GoHome\<close>.\<close>

definition end_behavior :: "TimePoint \<Rightarrow> bool \<Rightarrow> bool \<Rightarrow> bool \<Rightarrow> tick_state \<Rightarrow> tick_state" where
  "end_behavior now finish sequence_complete orbits s =
     (let (out, st) = s;
          (out, st) = (if c_behavior_complete_emitted st then (out, st)
                       else (add_event (BehaviorEvent BehaviorComplete (end_reason finish sequence_complete orbits)
                                          (c_previous_selection st)) out,
                             st\<lparr>c_behavior_complete_emitted := True\<rparr>))
      in (out\<lparr>to_status := (if finish then ''object_behavior_finish_requested'' else ''object_behavior_complete'')\<rparr>,
          st\<lparr>c_state := GoHome, c_state_start := now\<rparr>))"

text \<open>A sequence step ends and the next one starts.\<close>

definition advance_sequence ::
    "ObjectBehaviorMissionConfig \<Rightarrow> TimePoint \<Rightarrow> BehaviorFields \<Rightarrow> string \<Rightarrow> tick_state \<Rightarrow> tick_state" where
  "advance_sequence cfg now b reason s =
     (let (out, st) = s;
          out = add_event (SequenceStepEvent SequenceStepComplete b (c_sequence_step_index st) reason) out;
          st = reset_sequence_step now (st\<lparr>c_sequence_step_index := c_sequence_step_index st + 1\<rparr>);
          out = add_event (SequenceStepEvent SequenceStepStart (bs_fields (active_behavior cfg st))
                  (c_sequence_step_index st) ''previous_step_complete'') out
      in (out\<lparr>to_status := ''object_behavior_sequence_step_complete''\<rparr>, st))"

definition execute_selected ::
    "ObjectBehaviorMissionConfig \<Rightarrow> MissionTickInput \<Rightarrow> double \<Rightarrow> TargetSelection \<Rightarrow> tick_state \<Rightarrow> tick_state result option" where
  "execute_selected cfg input height sel s =
     (let now = ti_now input; ego = ws_ego (ti_snapshot input); finish = ti_finish_requested input;
          (out, st) = announce_target cfg now sel s;
          duration_complete = completion_elapsed cfg now st;
          ctl = (if oc_zero_target_velocity cfg then sel\<lparr>sel_velocity_local := vec3_zero\<rparr> else sel);
          b = bs_fields (active_behavior cfg st);
          out = emit_camera_pointing (camera_pointing_command_for_behavior cfg now ego ctl b st) out
      in case execute_geometry cfg now ego ctl b (finish \<or> duration_complete) st of
           None \<Rightarrow> None
         | Some (raw, g, orbits, st) \<Rightarrow>
             let seq = sequence_active cfg;
                 step_duration = seq \<and> 0 < b_duration_s b \<and> elapsed_at_least (c_sequence_step_start st) now (b_duration_s b);
                 approach = seq \<and> b_type b = BtApproach \<and> g_behavior_step_complete g;
                 terminal = seq \<and> (b_type b = BtGoHome \<or> b_type b = BtGoHomeLand \<or> b_type b = BtLand);
                 step_complete = seq \<and> (step_duration \<or> orbits \<or> approach \<or> terminal)
             in if step_complete \<and> \<not> active_behavior_is_last_sequence_step cfg st then
                  Some (Inr (advance_sequence cfg now b (step_end_reason terminal orbits approach) (out, st)))
                else let sequence_complete = step_complete \<and> active_behavior_is_last_sequence_step cfg st
                     in Some (bindE (yaw_mode_for_behavior cfg b) (\<lambda>yaw_mode.
                          if finish \<or> duration_complete \<or> orbits \<or> sequence_complete
                          then Inr (end_behavior now finish sequence_complete orbits (out, st))
                          else Inr (command_behavior cfg now ego height ctl b yaw_mode raw g (out, st)))))"

definition tick_execute_mission ::
    "ObjectBehaviorMissionConfig \<Rightarrow> MissionTickInput \<Rightarrow> double \<Rightarrow> tick_state \<Rightarrow> tick_state result option" where
  "tick_execute_mission cfg input height s =
     (let (out, st) = s;
          st = st\<lparr>c_execute_tick_count := c_execute_tick_count st + 1\<rparr>;
          sel = select_target (ti_snapshot input) (bm_target (oc_behavior_spec cfg)) (c_previous_selection st)
      in if sel_selected sel then execute_selected cfg input height sel (out, st)
         else if ti_finish_requested input then
           Some (Inr (out\<lparr>to_status := ''object_behavior_finish_requested_no_target''\<rparr>,
                      st\<lparr>c_state := GoHome, c_state_start := ti_now input\<rparr>))
         else let (cmd, st) = command_from_velocity cfg (ti_now input) vec3_zero 0 st
              in Some (Inr (out\<lparr>to_command := Some cmd,
                   to_status := ''object_behavior_waiting_for_target_'' @ selection_status_to_string (sel_status sel)\<rparr>, st)))"

section \<open>Going home\<close>

definition kMinGoHomeSpeedMps :: double where "kMinGoHomeSpeedMps = Fin (5/100)"
definition kArrivalThresholdM :: double where "kArrivalThresholdM = Fin (1/2)"

definition distance_home_xy :: "EgoState \<Rightarrow> ObjectController \<Rightarrow> double" where
  "distance_home_xy ego st =
     (let dx = (if c_home_initialized st then vx (position (c_home_pose st)) - vx (ego_position ego) else 0);
          dy = (if c_home_initialized st then vy (position (c_home_pose st)) - vy (ego_position ego) else 0)
      in std_sqrt (dx * dx + dy * dy))"

text \<open>The estimate of the interval between ego frames.\<close>

definition update_frame_interval :: "EgoState \<Rightarrow> ObjectController \<Rightarrow> ObjectController" where
  "update_frame_interval ego st =
     (let ts = timestamp_ns (ego_timestamp ego); last = timestamp_ns (c_last_ego_ts_go_home st);
          st = (if 0 < ts \<and> 0 < last \<and> ts \<noteq> last then
                  let observed = Fin (of_int (ts - last)) / 1000000000;
                      est = c_go_home_estimated_frame_interval_s st
                  in if 0 < observed \<and> observed < 30
                     then st\<lparr>c_go_home_estimated_frame_interval_s :=
                            (if 0 < est then Fin (3/10) * observed + Fin (7/10) * est else observed)\<rparr>
                     else st
                else st)
      in if 0 < ts then st\<lparr>c_last_ego_ts_go_home := ego_timestamp ego\<rparr> else st)"

definition go_home_safe_speed :: "ObjectBehaviorMissionConfig \<Rightarrow> double \<Rightarrow> ObjectController \<Rightarrow> double" where
  "go_home_safe_speed cfg home_dist st =
     (if 0 < c_go_home_estimated_frame_interval_s st \<and> 0 < home_dist
      then std_min (oc_go_home_velocity_mps cfg)
             (std_max kMinGoHomeSpeedMps (home_dist / c_go_home_estimated_frame_interval_s st))
      else oc_go_home_velocity_mps cfg)"

definition tick_go_home ::
    "ObjectBehaviorMissionConfig \<Rightarrow> MissionTickInput \<Rightarrow> double \<Rightarrow> tick_state \<Rightarrow> tick_state" where
  "tick_go_home cfg input height s =
     (let (out, st) = s; now = ti_now input; ego = ws_ego (ti_snapshot input);
          max_vertical = std_max (Fin (1/10)) (b_max_vertical_speed_mps (bs_fields (mission_behavior cfg)));
          out = emit_camera_pointing
                  (if c_home_initialized st
                   then camera_pointing_command_to_point cfg now ego (position (c_home_pose st)) (oc_camera_pointing_go_home_mode cfg)
                   else neutral_camera_pointing_command cfg now (oc_camera_pointing_complete_mode cfg)) out;
          home_dist = distance_home_xy ego st;
          st = update_frame_interval ego st;
          speed = go_home_safe_speed cfg home_dist st;
          raw = go_home_velocity ego speed st;
          out = add_event (GoHomeSample home_dist height (c_home_initialized st) speed (c_go_home_estimated_frame_interval_s st)) out;
          v = enforce_takeoff_height_floor raw height (oc_takeoff_height_m cfg) max_vertical;
          arrival = (if Fin (1/2) < c_go_home_estimated_frame_interval_s st then 5 else kArrivalThresholdM)
      in if home_dist \<le> arrival \<and> oc_takeoff_height_m cfg \<le> height then
           (out\<lparr>to_status := (if c_aborting st then ''abort_recovery_home_reached'' else ''home_reached'')\<rparr>,
            st\<lparr>c_state := Land, c_state_start := now\<rparr>)
         else let (cmd, st) = command_from_velocity cfg now v (oc_yaw_offset_rad cfg) st
              in (out\<lparr>to_command := Some cmd,
                      to_status := (if c_aborting st then ''abort_recovery_go_home'' else ''go_home'')\<rparr>, st))"

section \<open>The other life-cycle states\<close>

definition tick_prepare ::
    "ObjectBehaviorMissionConfig \<Rightarrow> MissionTickInput \<Rightarrow> double \<Rightarrow> tick_state \<Rightarrow> tick_state" where
  "tick_prepare cfg input height s =
     (let (out, st) = s; now = ti_now input; ego = ws_ego (ti_snapshot input);
          out = emit_camera_pointing (neutral_camera_pointing_command cfg now (oc_camera_pointing_prepare_mode cfg)) out
      in if ti_finish_requested input \<and> ego_armed_valid ego \<and> \<not> ego_armed ego then
           (out\<lparr>to_status := ''finish_requested_before_arm''\<rparr>, st\<lparr>c_state := Complete, c_state_start := now\<rparr>)
         else if ego_armed_valid ego \<and> ego_armed ego then
           (out\<lparr>to_status := ''armed_confirmed_by_ego''\<rparr>, st\<lparr>c_state := Takeoff, c_state_start := now\<rparr>)
         else if 0 < oc_arm_dispatch_fallback_s cfg \<and> last_result_matches_success (ti_last_command_result input) CmdArm \<and>
                 elapsed_at_least (c_arm_last_command_time st) now (oc_arm_dispatch_fallback_s cfg) then
           (out\<lparr>to_status := ''arm_dispatch_ok_waiting_for_takeoff_height''\<rparr>, st\<lparr>c_state := Takeoff, c_state_start := now\<rparr>)
         else if elapsed_at_least (c_state_start st) now (oc_arm_timeout_s cfg) then
           (if ego_armed_valid ego \<and> \<not> ego_armed ego
            then (out\<lparr>to_status := ''abort''\<rparr>, st\<lparr>c_state := Abort\<rparr>)
            else (out\<lparr>to_status := ''abort_recovery_start_arm_timeout''\<rparr>, begin_abort_recovery now height ''arm_timeout'' st))
         else if \<not> c_arm_command_sent st \<or> elapsed_at_least (c_arm_last_command_time st) now (oc_arm_retry_interval_s cfg) then
           (out\<lparr>to_command := Some (command_with_kind now CmdArm), to_status := ''arming''\<rparr>,
            st\<lparr>c_arm_command_sent := True, c_arm_last_command_time := now\<rparr>)
         else (out\<lparr>to_status := (if ego_armed_valid ego then ''waiting_for_armed_state'' else ''waiting_for_armed_telemetry'')\<rparr>, st))"

definition tick_takeoff ::
    "ObjectBehaviorMissionConfig \<Rightarrow> MissionTickInput \<Rightarrow> double \<Rightarrow> tick_state \<Rightarrow> tick_state" where
  "tick_takeoff cfg input height s =
     (let (out, st) = s; now = ti_now input;
          out = emit_camera_pointing (neutral_camera_pointing_command cfg now (oc_camera_pointing_takeoff_mode cfg)) out
      in if ti_finish_requested input then
           (out\<lparr>to_status := (if kLandHeightM < height then ''finish_requested_land'' else ''finish_requested_complete'')\<rparr>,
            st\<lparr>c_state := (if kLandHeightM < height then Land else Complete), c_state_start := now\<rparr>)
         else if oc_takeoff_height_m cfg \<le> height then
           (out\<lparr>to_status := ''takeoff_complete''\<rparr>,
            reset_behavior_run now (st\<lparr>c_state := ExecuteMission, c_state_start := now\<rparr>))
         else if \<not> c_takeoff_command_sent st then
           (out\<lparr>to_command := Some (command_with_kind now CmdTakeoff), to_status := ''takeoff_request''\<rparr>,
            st\<lparr>c_takeoff_command_sent := True, c_takeoff_last_command_time := now\<rparr>)
         else if kTakeoffVelocityAssistHeightM \<le> height then
           let (cmd, st) = command_from_velocity cfg now (vec3 0 0 (- std_abs (oc_takeoff_velocity_mps cfg))) 0 st
           in (out\<lparr>to_command := Some cmd, to_status := ''takeoff_climb''\<rparr>, st)
         else if elapsed_at_least (c_takeoff_last_command_time st) now (oc_takeoff_retry_interval_s cfg) then
           (out\<lparr>to_status := ''waiting_for_takeoff_climb''\<rparr>, st)
         else (out\<lparr>to_status := ''waiting_for_takeoff_command_settle''\<rparr>, st))"

definition tick_land ::
    "ObjectBehaviorMissionConfig \<Rightarrow> MissionTickInput \<Rightarrow> double \<Rightarrow> tick_state \<Rightarrow> tick_state" where
  "tick_land cfg input height s =
     (let (out, st) = s; now = ti_now input; ego = ws_ego (ti_snapshot input);
          out = (if c_home_initialized st
                 then emit_camera_pointing (camera_pointing_command_to_point cfg now ego (position (c_home_pose st))
                        (oc_camera_pointing_land_mode cfg)) out
                 else out)
      in if height \<le> kLandHeightM then
           (out\<lparr>to_status := (if c_aborting st then ''abort_recovery_landed'' else ''landed'')\<rparr>,
            st\<lparr>c_state := Complete, c_state_start := now\<rparr>)
         else if \<not> c_land_command_sent st then
           (out\<lparr>to_command := Some (command_with_kind now CmdLand),
                to_status := (if c_aborting st then ''abort_recovery_landing_command_sent'' else ''landing_command_sent'')\<rparr>,
            st\<lparr>c_land_command_sent := True, c_land_last_command_time := now\<rparr>)
         else if elapsed_at_least (c_land_last_command_time st) now (oc_land_timeout_s cfg) then
           (out\<lparr>to_status := ''abort''\<rparr>, st\<lparr>c_state := Abort\<rparr>)
         else (out\<lparr>to_status := (if c_aborting st then ''abort_recovery_waiting_for_landed_telemetry''
                                 else ''waiting_for_landed_telemetry'')\<rparr>, st))"

definition tick_complete ::
    "ObjectBehaviorMissionConfig \<Rightarrow> MissionTickInput \<Rightarrow> tick_state \<Rightarrow> tick_state" where
  "tick_complete cfg input s =
     (let (out, st) = s; now = ti_now input; ego = ws_ego (ti_snapshot input);
          out = emit_camera_pointing (neutral_camera_pointing_command cfg now (oc_camera_pointing_complete_mode cfg)) out
      in if ego_armed_valid ego \<and> \<not> ego_armed ego then
           (if c_aborting st then (out\<lparr>to_status := ''abort''\<rparr>, st\<lparr>c_state := Abort\<rparr>)
            else (out\<lparr>to_status := ''complete''\<rparr>, st))
         else if elapsed_at_least (c_state_start st) now (oc_disarm_timeout_s cfg) then
           (out\<lparr>to_status := ''abort''\<rparr>, st\<lparr>c_state := Abort\<rparr>)
         else if \<not> c_disarm_command_sent st \<or> elapsed_at_least (c_disarm_last_command_time st) now (oc_disarm_retry_interval_s cfg) then
           (out\<lparr>to_command := Some (command_with_kind now CmdDisarm),
                to_status := (if c_aborting st then ''abort_recovery_disarming'' else ''disarming'')\<rparr>,
            st\<lparr>c_disarm_command_sent := True, c_disarm_last_command_time := now\<rparr>)
         else (out\<lparr>to_status :=
                 (if c_aborting st
                  then (if ego_armed_valid ego then ''abort_recovery_waiting_for_disarmed_state''
                        else ''abort_recovery_waiting_for_disarmed_telemetry'')
                  else (if ego_armed_valid ego then ''waiting_for_disarmed_state''
                        else ''waiting_for_disarmed_telemetry''))\<rparr>, st))"

definition start_mission :: "MissionTickInput \<Rightarrow> ObjectController \<Rightarrow> ObjectController" where
  "start_mission input st =
     (if c_mission_started st then st
      else st\<lparr>c_mission_started := True, c_mission_start := ti_now input, c_state_start := ti_now input,
              c_last_tick_time := ti_now input, c_home_pose := ego_local_T_body (ws_ego (ti_snapshot input)),
              c_home_initialized := True, c_state := Prepare\<rparr>)"

text \<open>The \<open>switch\<close> over the life-cycle state.\<close>

definition tick_state_handler ::
    "ObjectBehaviorMissionConfig \<Rightarrow> MissionTickInput \<Rightarrow> double \<Rightarrow> tick_state \<Rightarrow> tick_state result option" where
  "tick_state_handler cfg input height s =
     (case c_state (snd s) of
        Prepare \<Rightarrow> Some (Inr (tick_prepare cfg input height s))
      | Takeoff \<Rightarrow> Some (Inr (tick_takeoff cfg input height s))
      | ExecuteMission \<Rightarrow> tick_execute_mission cfg input height s
      | GoHome \<Rightarrow> Some (Inr (tick_go_home cfg input height s))
      | Land \<Rightarrow> Some (Inr (tick_land cfg input height s))
      | Complete \<Rightarrow> Some (Inr (tick_complete cfg input s))
      | Abort \<Rightarrow> Some (Inr ((fst s)\<lparr>to_status := ''abort''\<rparr>, snd s))
      | Idle \<Rightarrow> Some (Inr ((fst s)\<lparr>to_status := ''idle''\<rparr>, (snd s)\<lparr>c_state := Prepare, c_state_start := ti_now input\<rparr>)))"

definition obm_tick ::
    "ObjectBehaviorMissionConfig \<Rightarrow> MissionTickInput \<Rightarrow> ObjectController \<Rightarrow> tick_state result option" where
  "obm_tick cfg input st =
     (let out = MissionTickOutput_default\<lparr>to_state := c_state st\<rparr>;
          st = (start_mission input st)\<lparr>c_last_tick_time := ti_now input\<rparr>
      in bindO (tick_state_handler cfg input (ego_height (ws_ego (ti_snapshot input))) (out, st)) (\<lambda>(out, st).
         Some (Inr (out\<lparr>to_state := c_state st\<rparr>, st))))"

end
