(* ===== verification/Object_Properties.thy ===== *)
theory Object_Properties
  imports Object_Tick
begin

text \<open>
  Properties of the object-behaviour controller: the transitions of its life cycle, when it may
  disarm, its time-outs, its errors, and the velocities it commands.
\<close>

section \<open>Runs\<close>

text \<open>
  A run is the list of inputs and outputs of the ticks so far, the last tick first; after a tick
  that throws there is no further one (the runtime stops its loop).
\<close>

inductive obm_run :: "ObjectBehaviorMissionConfig \<Rightarrow> (MissionTickInput \<times> MissionTickOutput) list \<Rightarrow> ObjectController \<Rightarrow> bool"
  for cfg where
  start: "obm_run cfg [] ObjectController_init"
| tick: "obm_run cfg h st \<Longrightarrow> obm_tick cfg input st = Some (Inr (out, st')) \<Longrightarrow> obm_run cfg ((input, out) # h) st'"

inductive_cases obm_run_ConsE: "obm_run cfg (e # h) st"

abbreviation input_height :: "MissionTickInput \<Rightarrow> double" where
  "input_height input \<equiv> ego_height (ws_ego (ti_snapshot input))"

definition airborne :: "MissionTickInput \<Rightarrow> bool" where
  "airborne input \<longleftrightarrow> kLandHeightM < input_height input"

definition confirmed_disarmed :: "MissionTickInput \<Rightarrow> bool" where
  "confirmed_disarmed input \<longleftrightarrow> ego_armed_valid (ws_ego (ti_snapshot input)) \<and> \<not> ego_armed (ws_ego (ti_snapshot input))"

definition confirmed_armed :: "MissionTickInput \<Rightarrow> bool" where
  "confirmed_armed input \<longleftrightarrow> ego_armed_valid (ws_ego (ti_snapshot input)) \<and> ego_armed (ws_ego (ti_snapshot input))"

text \<open>The life cycle as a specification: the transitions and what must hold for each.\<close>

fun lifecycle_step :: "ObjectBehaviorMissionConfig \<Rightarrow> MissionTickInput \<Rightarrow> MissionLifecycleState \<Rightarrow> MissionLifecycleState \<Rightarrow> bool" where
  "lifecycle_step cfg i Prepare Complete \<longleftrightarrow> confirmed_disarmed i \<or> \<not> airborne i"
| "lifecycle_step cfg i Prepare Takeoff \<longleftrightarrow>
     confirmed_armed i \<or> (0 < oc_arm_dispatch_fallback_s cfg \<and> last_result_matches_success (ti_last_command_result i) CmdArm)"
| "lifecycle_step cfg i Prepare Abort \<longleftrightarrow> confirmed_disarmed i"
| "lifecycle_step cfg i Prepare GoHome \<longleftrightarrow> airborne i"
| "lifecycle_step cfg i Takeoff ExecuteMission \<longleftrightarrow> oc_takeoff_height_m cfg \<le> input_height i"
| "lifecycle_step cfg i Takeoff Land \<longleftrightarrow> ti_finish_requested i \<and> airborne i"
| "lifecycle_step cfg i Takeoff Complete \<longleftrightarrow> ti_finish_requested i \<and> \<not> airborne i"
| "lifecycle_step cfg i ExecuteMission GoHome \<longleftrightarrow> True"
| "lifecycle_step cfg i GoHome Land \<longleftrightarrow> oc_takeoff_height_m cfg \<le> input_height i"
| "lifecycle_step cfg i Land Complete \<longleftrightarrow> \<not> airborne i"
| "lifecycle_step cfg i Land Abort \<longleftrightarrow> \<not> input_height i \<le> kLandHeightM"
| "lifecycle_step cfg i Complete Abort \<longleftrightarrow> True"
| "lifecycle_step cfg i s s' \<longleftrightarrow> s = s'"

lemma double_le_not_less: "(a::double) \<le> b \<Longrightarrow> \<not> b < a"
  by (cases a; cases b) auto

section \<open>What the handlers do to the state\<close>

lemma emit_camera_simps [simp]:
  "to_command (emit_camera_pointing c out) = to_command out" "to_status (emit_camera_pointing c out) = to_status out"
  "to_state (emit_camera_pointing c out) = to_state out"
  by (auto simp: emit_camera_pointing_def add_event_def split: option.splits)

lemma add_event_simps [simp]:
  "to_command (add_event e out) = to_command out" "to_status (add_event e out) = to_status out"
  by (simp_all add: add_event_def)

lemma command_from_velocity_state [simp]:
  "c_state (snd (command_from_velocity cfg t v y st)) = c_state st"
  "c_aborting (snd (command_from_velocity cfg t v y st)) = c_aborting st"
  "c_home_initialized (snd (command_from_velocity cfg t v y st)) = c_home_initialized st"
  "c_mission_started (snd (command_from_velocity cfg t v y st)) = c_mission_started st"
  "c_circle_previous_angle_rad (snd (command_from_velocity cfg t v y st)) = c_circle_previous_angle_rad st"
  "vc_kind (fst (command_from_velocity cfg t v y st)) = CmdVelocity"
  "vc_velocity_local_mps (fst (command_from_velocity cfg t v y st)) = v"
  by (auto simp: command_from_velocity_def Let_def plain_velocity_command_def hold_last_yaw_def)

lemma command_from_behavior_velocity_state [simp]:
  "c_state (snd (command_from_behavior_velocity cfg t v ego sel y m st)) = c_state st"
  "c_aborting (snd (command_from_behavior_velocity cfg t v ego sel y m st)) = c_aborting st"
  "c_home_initialized (snd (command_from_behavior_velocity cfg t v ego sel y m st)) = c_home_initialized st"
  "c_mission_started (snd (command_from_behavior_velocity cfg t v ego sel y m st)) = c_mission_started st"
  "c_circle_previous_angle_rad (snd (command_from_behavior_velocity cfg t v ego sel y m st)) = c_circle_previous_angle_rad st"
  "vc_kind (fst (command_from_behavior_velocity cfg t v ego sel y m st)) = CmdVelocity"
  "vc_velocity_local_mps (fst (command_from_behavior_velocity cfg t v ego sel y m st)) = v"
  by (cases m; auto simp: command_from_behavior_velocity_def Let_def plain_velocity_command_def hold_last_yaw_def)+

lemma command_with_kind_simps [simp]: "vc_kind (command_with_kind t k) = k"
  by (simp add: command_with_kind_def)

text \<open>Which kinds of command a life-cycle state may send.\<close>

fun command_kinds :: "MissionLifecycleState \<Rightarrow> FlightCommandKind set" where
  "command_kinds Prepare = {CmdArm}"
| "command_kinds Takeoff = {CmdTakeoff, CmdVelocity}"
| "command_kinds ExecuteMission = {CmdVelocity}"
| "command_kinds GoHome = {CmdVelocity}"
| "command_kinds Land = {CmdLand}"
| "command_kinds Complete = {CmdDisarm}"
| "command_kinds _ = {}"

definition angle_ok :: "double \<Rightarrow> bool" where
  "angle_ok a \<longleftrightarrow> a \<noteq> PInf \<and> a \<noteq> NInf"

definition running :: "ObjectController \<Rightarrow> bool" where
  "running st \<longleftrightarrow> c_mission_started st \<and> c_home_initialized st \<and> angle_ok (c_circle_previous_angle_rad st)"

text \<open>The effect every handler has on the members and the output.\<close>

definition tick_effect ::
    "ObjectBehaviorMissionConfig \<Rightarrow> MissionTickInput \<Rightarrow> ObjectController \<Rightarrow> tick_state \<Rightarrow> bool" where
  "tick_effect cfg input st s \<longleftrightarrow>
     lifecycle_step cfg input (c_state st) (c_state (snd s)) \<and> running (snd s) \<and>
     (c_aborting st \<longrightarrow> c_aborting (snd s)) \<and>
     (\<forall>c. to_command (fst s) = Some c \<longrightarrow> vc_kind c \<in> command_kinds (c_state st) \<and> c_state (snd s) = c_state st) \<and>
     (to_status (fst s) = ''complete'' \<longrightarrow> c_state st = Complete \<and> \<not> c_aborting st \<and> confirmed_disarmed input)"

lemmas effect_defs = tick_effect_def Let_def airborne_def confirmed_armed_def confirmed_disarmed_def

lemma tick_prepare_effect:
  assumes "c_state st = Prepare" "running st" "to_command out = None" "height = input_height input"
  shows "tick_effect cfg input st (tick_prepare cfg input height (out, st))"
  using assms
  by (auto simp: effect_defs tick_prepare_def begin_abort_recovery_def running_def)

lemma tick_takeoff_effect:
  assumes "c_state st = Takeoff" "running st" "to_command out = None" "height = input_height input"
  shows "tick_effect cfg input st (tick_takeoff cfg input height (out, st))"
  using assms
  by (auto simp: effect_defs tick_takeoff_def running_def reset_behavior_run_def reset_sequence_step_def angle_ok_def
      command_from_velocity_def plain_velocity_command_def hold_last_yaw_def)

lemma tick_land_effect:
  assumes "c_state st = Land" "running st" "to_command out = None" "height = input_height input"
  shows "tick_effect cfg input st (tick_land cfg input height (out, st))"
  using assms
  by (auto simp: effect_defs tick_land_def running_def dest: double_le_not_less)

lemma tick_complete_effect:
  assumes "c_state st = Complete" "running st" "to_command out = None"
  shows "tick_effect cfg input st (tick_complete cfg input (out, st))"
  using assms by (auto simp: effect_defs tick_complete_def running_def)

lemma running_command [simp]:
  "running (snd (command_from_velocity cfg t v y st)) = running st"
  "running (snd (command_from_behavior_velocity cfg t v ego sel y m st)) = running st"
  by (cases m; auto simp: running_def command_from_behavior_velocity_def command_from_velocity_def Let_def)+

lemma update_frame_interval_simps [simp]:
  "c_state (update_frame_interval ego st) = c_state st" "c_aborting (update_frame_interval ego st) = c_aborting st"
  "c_home_initialized (update_frame_interval ego st) = c_home_initialized st"
  "c_home_pose (update_frame_interval ego st) = c_home_pose st"
  "running (update_frame_interval ego st) = running st"
  by (auto simp: update_frame_interval_def Let_def running_def)

lemma running_updates [simp]:
  "running (st\<lparr>c_state := s, c_state_start := t\<rparr>) = running st"
  "running (st\<lparr>c_execute_tick_count := n\<rparr>) = running st"
  by (simp_all add: running_def)

lemma tick_go_home_effect:
  assumes "c_state st = GoHome" "running st" "to_command out = None" "height = input_height input"
  shows "tick_effect cfg input st (tick_go_home cfg input height (out, st))"
  using assms by (auto simp: effect_defs tick_go_home_def split_beta)

subsection \<open>Executing\<close>

lemma std_atan2_angle_ok: "angle_ok (std_atan2 y x)"
  by (cases y; cases x) (auto simp: angle_ok_def)

lemma circle_angle_ok: "angle_ok (g_orbit_angle_rad (circle_geometry ego sel b l))"
  by (simp add: circle_geometry_def Let_def std_atan2_angle_ok)

lemma behavior_velocity_angle_ok: "angle_ok (g_orbit_angle_rad (snd (behavior_velocity ego sel b cfg FollowGeometry_default)))"
  by (cases "b_type b")
    (auto simp: behavior_velocity_def Let_def circle_angle_ok [unfolded angle_ok_def] follow_arrival_velocity_def follow_observation_geometry_def
      choose_follow_bearing_def approach_velocity_def approach_geometry_def FollowGeometry_default_def angle_ok_def)

lemma normalize_angle_returns: "angle_ok a \<Longrightarrow> angle_ok b \<Longrightarrow> \<exists>d. normalize_angle (a - b) = Some d"
proof (cases "a - b")
  case (Fin x)
  then show ?thesis using normalize_angle_Fin [of x] by auto
next
  case NaN
  then show ?thesis by (simp add: normalize_angle_def wrap_down.simps wrap_up.simps)
qed (cases a; cases b; simp add: angle_ok_def)+

lemma orbit_progress_returns:
  assumes "running st" and "angle_ok angle"
  shows "\<exists>q st'. update_circle_orbit_progress b circling angle st = Some (q, st') \<and> running st' \<and>
    c_state st' = c_state st \<and> c_aborting st' = c_aborting st \<and> c_sequence_step_index st' = c_sequence_step_index st"
  using normalize_angle_returns [OF assms(2), of "c_circle_previous_angle_rad st"] assms
  by (auto simp: update_circle_orbit_progress_def running_def Let_def)

lemma execute_geometry_returns:
  assumes "running st"
  shows "\<exists>raw g q st'. execute_geometry cfg now ego sel b ending st = Some (raw, g, q, st') \<and> running st' \<and>
    c_state st' = c_state st \<and> c_aborting st' = c_aborting st \<and> c_sequence_step_index st' = c_sequence_step_index st"
proof (cases ending)
  case True
  then show ?thesis using assms by (auto simp: execute_geometry_def)
next
  case False
  have "\<exists>q st'. update_circle_orbit_progress b (g_circle_phase g = ''circling'') (g_orbit_angle_rad g) st1 = Some (q, st') \<and>
      running st' \<and> c_state st' = c_state st \<and> c_aborting st' = c_aborting st \<and>
      c_sequence_step_index st' = c_sequence_step_index st"
    if "angle_ok (g_orbit_angle_rad g)" "st1 = st \<or> st1 = st\<lparr>c_circle_in_orbit_mode := True\<rparr>" for g st1
    using orbit_progress_returns [OF _ that(1), of st1 b] that(2) assms by (fastforce simp: running_def)
  note progress = this
  show ?thesis
  proof (cases "b_type b = BtCircle")
    case True
    then show ?thesis
      using False progress [OF circle_angle_ok [of ego sel b "c_circle_in_orbit_mode st"] disjI1 [OF refl]]
        progress [OF circle_angle_ok [of ego sel b "c_circle_in_orbit_mode st"] disjI2 [OF refl]]
      unfolding execute_geometry_def by (force simp: Let_def split_beta)
  next
    case no_circle: False
    obtain raw g where bv: "behavior_velocity ego sel b cfg FollowGeometry_default = (raw, g)" by fastforce
    then have "angle_ok (g_orbit_angle_rad g)" using behavior_velocity_angle_ok [of ego sel b cfg] by simp
    from progress [OF this disjI1 [OF refl]] show ?thesis
      using False no_circle unfolding execute_geometry_def by (auto simp: bv Let_def split_beta)
  qed
qed

lemma announce_target_state:
  assumes "running st"
  shows "running (snd (announce_target cfg now sel (out, st)))"
    and "c_state (snd (announce_target cfg now sel (out, st))) = c_state st"
    and "c_aborting (snd (announce_target cfg now sel (out, st))) = c_aborting st"
    and "to_command (fst (announce_target cfg now sel (out, st))) = to_command out"
    and "c_sequence_step_index (snd (announce_target cfg now sel (out, st))) = c_sequence_step_index st"
  using assms by (auto simp: announce_target_def Let_def running_def split: if_splits)

lemma advance_sequence_state:
  "c_state (snd (advance_sequence cfg now b r (out, st))) = c_state st"
  "c_aborting (snd (advance_sequence cfg now b r (out, st))) = c_aborting st"
  "running st \<Longrightarrow> running (snd (advance_sequence cfg now b r (out, st)))"
  "to_command (fst (advance_sequence cfg now b r (out, st))) = to_command out"
  "to_status (fst (advance_sequence cfg now b r (out, st))) = ''object_behavior_sequence_step_complete''"
  "c_sequence_step_index (snd (advance_sequence cfg now b r (out, st))) = c_sequence_step_index st + 1"
  by (simp_all add: advance_sequence_def Let_def reset_sequence_step_def running_def angle_ok_def)

lemma end_behavior_state:
  "c_state (snd (end_behavior now f sc q (out, st))) = GoHome"
  "c_aborting (snd (end_behavior now f sc q (out, st))) = c_aborting st"
  "running st \<Longrightarrow> running (snd (end_behavior now f sc q (out, st)))"
  "to_command (fst (end_behavior now f sc q (out, st))) = to_command out"
  "to_status (fst (end_behavior now f sc q (out, st))) \<noteq> ''complete''"
  "c_sequence_step_index (snd (end_behavior now f sc q (out, st))) = c_sequence_step_index st"
  by (auto simp: end_behavior_def Let_def running_def)

lemma command_behavior_state:
  "c_state (snd (command_behavior cfg now ego h sel b m raw g (out, st))) = c_state st"
  "c_aborting (snd (command_behavior cfg now ego h sel b m raw g (out, st))) = c_aborting st"
  "running st \<Longrightarrow> running (snd (command_behavior cfg now ego h sel b m raw g (out, st)))"
  "\<exists>c. to_command (fst (command_behavior cfg now ego h sel b m raw g (out, st))) = Some c \<and> vc_kind c = CmdVelocity \<and>
     vc_velocity_local_mps c = apply_altitude_policy raw cfg b h"
  "to_status (fst (command_behavior cfg now ego h sel b m raw g (out, st))) \<noteq> ''complete''"
  by (auto simp: command_behavior_def Let_def split_beta object_behavior_status_def running_def)

text \<open>
  What the handler answers once a target is selected: it always returns, an error only for a yaw
  mode that is not one, and one of three outcomes otherwise.
\<close>

lemma execute_selected_cases:
  assumes "running st" and "to_command out = None" and "c_state st = ExecuteMission"
  obtains (error) b e where "execute_selected cfg input h sel (out, st) = Some (Inl e)"
      "yaw_mode_for_behavior cfg b = Inl e" "b = bs_fields (active_behavior cfg st)"
  | (advance) b r out1 st1 where "running st1" "c_state st1 = ExecuteMission" "c_aborting st1 = c_aborting st"
      "to_command out1 = None" "c_sequence_step_index st1 = c_sequence_step_index st"
      "\<not> active_behavior_is_last_sequence_step cfg st1"
      "execute_selected cfg input h sel (out, st) = Some (Inr (advance_sequence cfg (ti_now input) b r (out1, st1)))"
  | (end_run) f sc q out1 st1 where "running st1" "c_state st1 = ExecuteMission" "c_aborting st1 = c_aborting st"
      "to_command out1 = None" "c_sequence_step_index st1 = c_sequence_step_index st"
      "execute_selected cfg input h sel (out, st) = Some (Inr (end_behavior (ti_now input) f sc q (out1, st1)))"
  | (command) ctl b m raw g q out1 st0 st1 where "running st1" "c_state st1 = ExecuteMission" "c_aborting st1 = c_aborting st"
      "to_command out1 = None" "c_sequence_step_index st1 = c_sequence_step_index st" "b = bs_fields (active_behavior cfg st)"
      "ctl = (if oc_zero_target_velocity cfg then sel\<lparr>sel_velocity_local := vec3_zero\<rparr> else sel)"
      "execute_geometry cfg (ti_now input) (ws_ego (ti_snapshot input)) ctl b False st0 = Some (raw, g, q, st1)"
      "execute_selected cfg input h sel (out, st) =
         Some (Inr (command_behavior cfg (ti_now input) (ws_ego (ti_snapshot input)) h ctl b m raw g (out1, st1)))"
      "\<not> ti_finish_requested input"
proof -
  define st0 where "st0 = snd (announce_target cfg (ti_now input) sel (out, st))"
  define ctl where "ctl = (if oc_zero_target_velocity cfg then sel\<lparr>sel_velocity_local := vec3_zero\<rparr> else sel)"
  define b where "b = bs_fields (active_behavior cfg st0)"
  define out1 where "out1 = emit_camera_pointing (camera_pointing_command_for_behavior cfg (ti_now input)
     (ws_ego (ti_snapshot input)) ctl b st0) (fst (announce_target cfg (ti_now input) sel (out, st)))"
  define ending where "ending = (ti_finish_requested input \<or> completion_elapsed cfg (ti_now input) st0)"
  have st0: "running st0" "c_state st0 = ExecuteMission" "c_aborting st0 = c_aborting st"
    "c_sequence_step_index st0 = c_sequence_step_index st" and out1: "to_command out1 = None"
    using announce_target_state [OF assms(1)] assms(2,3) by (simp_all add: st0_def out1_def)
  have same_b: "b = bs_fields (active_behavior cfg st)"
    using st0(4) by (simp add: b_def active_behavior_def Let_def)
  obtain raw g q st1 where geo: "execute_geometry cfg (ti_now input) (ws_ego (ti_snapshot input)) ctl b ending st0 = Some (raw, g, q, st1)"
    and st1: "running st1" "c_state st1 = ExecuteMission" "c_aborting st1 = c_aborting st"
      "c_sequence_step_index st1 = c_sequence_step_index st"
    using execute_geometry_returns [OF st0(1), of cfg "ti_now input" "ws_ego (ti_snapshot input)" ctl b ending] st0 by auto
  note run = execute_selected_def [of cfg input h sel "(out, st)", unfolded Let_def split_beta fst_conv snd_conv,
      folded st0_def ctl_def, folded b_def, folded out1_def ending_def, unfolded geo option.case prod.case split_beta fst_conv snd_conv]
  show thesis
  proof (cases "yaw_mode_for_behavior cfg b")
    case (Inl e)
    show ?thesis
      using run advance [OF st1(1-3) out1 st1(4)] error [OF _ Inl same_b] Inl
      by (auto split: if_splits)
  next
    case (Inr m)
    show ?thesis
      using run advance [OF st1(1-3) out1 st1(4)] end_run [OF st1(1-3) out1 st1(4)]
        command [OF st1(1-3) out1 st1(4) same_b ctl_def] Inr geo
      by (auto split: if_splits simp: ending_def)
  qed
qed

lemma command_behavior_effect:
  assumes "running st1" "c_state st1 = ExecuteMission" "c_aborting st1 = c_aborting st" "c_state st = ExecuteMission"
  shows "tick_effect cfg input st (command_behavior cfg now ego h ctl b m raw g (out1, st1))"
proof -
  obtain c where "to_command (fst (command_behavior cfg now ego h ctl b m raw g (out1, st1))) = Some c" "vc_kind c = CmdVelocity"
    using command_behavior_state(4) by blast
  with assms show ?thesis by (simp add: tick_effect_def command_behavior_state(1,2,3,5))
qed

lemma tick_execute_effect:
  assumes "c_state st = ExecuteMission" "running st" "to_command out = None"
  shows "(\<exists>s. tick_execute_mission cfg input h (out, st) = Some (Inr s) \<and> tick_effect cfg input st s) \<or>
    (\<exists>e. tick_execute_mission cfg input h (out, st) = Some (Inl e) \<and>
       yaw_mode_for_behavior cfg (bs_fields (active_behavior cfg st)) = Inl e)"
proof -
  let ?st = "st\<lparr>c_execute_tick_count := c_execute_tick_count st + 1\<rparr>"
  let ?sel = "select_target (ti_snapshot input) (bm_target (oc_behavior_spec cfg)) (c_previous_selection st)"
  have st: "running ?st" "c_state ?st = ExecuteMission" using assms by simp_all
  have act: "active_behavior cfg ?st = active_behavior cfg st" by (simp add: active_behavior_def Let_def)
  show ?thesis
  proof (cases "sel_selected ?sel")
    case True
    then have run: "tick_execute_mission cfg input h (out, st) = execute_selected cfg input h ?sel (out, ?st)"
      by (simp add: tick_execute_mission_def Let_def)
    from st(1) assms(3) st(2) show ?thesis
    proof (cases rule: execute_selected_cases [where cfg = cfg and input = input and h = h and sel = ?sel])
      case (error b e)
      then show ?thesis using run act by simp
    next
      case (advance b r out1 st1)
      then show ?thesis
        unfolding run by (simp add: tick_effect_def advance_sequence_state assms(1))
    next
      case (end_run f sc q out1 st1)
      then show ?thesis
        unfolding run by (simp add: tick_effect_def end_behavior_state assms(1))
    next
      case (command ctl b m raw g q out1 st0 st1)
      show ?thesis
        unfolding run command(9)
        using command_behavior_effect [OF command(1,2) _ assms(1)] command(3) by simp
    qed
  next
    case False
    then show ?thesis
      using assms by (auto simp: tick_execute_mission_def Let_def split_beta tick_effect_def)
  qed
qed

section \<open>One tick\<close>

definition obm_inv :: "ObjectController \<Rightarrow> bool" where
  "obm_inv st \<longleftrightarrow> st = ObjectController_init \<or> (running st \<and> c_state st \<noteq> Idle)"

text \<open>The state whose handler runs: the first tick starts the mission.\<close>

definition handled_state :: "ObjectController \<Rightarrow> MissionLifecycleState" where
  "handled_state st = (if c_mission_started st then c_state st else Prepare)"

lemma lifecycle_step_not_Idle: "lifecycle_step cfg i s Idle \<Longrightarrow> s = Idle"
  by (cases s) auto

lemma start_mission_running:
  assumes "obm_inv st" and "st1 = (start_mission input st)\<lparr>c_last_tick_time := ti_now input\<rparr>"
  shows "running st1 \<and> c_state st1 = handled_state st \<and> handled_state st \<noteq> Idle \<and> c_aborting st1 = c_aborting st \<and>
    active_behavior cfg st1 = active_behavior cfg st"
  using assms
  by (auto simp: obm_inv_def running_def start_mission_def handled_state_def ObjectController_init_def angle_ok_def
      active_behavior_def Let_def)

lemma obm_tick_cases:
  assumes "obm_inv st"
  obtains (returns) out st1 st' s where "obm_tick cfg input st = Some (Inr (out, st'))" "running st1"
      "c_state st1 = handled_state st" "c_aborting st1 = c_aborting st" "tick_effect cfg input st1 s" "st' = snd s"
      "out = (fst s)\<lparr>to_state := c_state st'\<rparr>" "st1 = (start_mission input st)\<lparr>c_last_tick_time := ti_now input\<rparr>"
      "tick_state_handler cfg input (input_height input) (MissionTickOutput_default\<lparr>to_state := c_state st\<rparr>, st1) = Some (Inr s)"
  | (error) e where "obm_tick cfg input st = Some (Inl e)" "c_state st = ExecuteMission"
      "yaw_mode_for_behavior cfg (bs_fields (active_behavior cfg st)) = Inl e"
proof -
  define out0 where "out0 = MissionTickOutput_default\<lparr>to_state := c_state st\<rparr>"
  define st1 where "st1 = (start_mission input st)\<lparr>c_last_tick_time := ti_now input\<rparr>"
  have st1: "running st1" "c_state st1 = handled_state st" "c_state st1 \<noteq> Idle" "c_aborting st1 = c_aborting st"
    "active_behavior cfg st1 = active_behavior cfg st"
    using start_mission_running [OF assms st1_def, of cfg] by simp_all
  have out0: "to_command out0 = None" by (simp add: out0_def MissionTickOutput_default_def)
  have abort: "tick_effect cfg input st1 (out0\<lparr>to_status := ''abort''\<rparr>, st1)" if "c_state st1 = Abort"
    using that st1(1) out0 by (simp add: tick_effect_def)
  have tick: "obm_tick cfg input st = bindO (tick_state_handler cfg input (input_height input) (out0, st1))
      (\<lambda>s. Some (Inr ((fst s)\<lparr>to_state := c_state (snd s)\<rparr>, snd s)))"
    by (simp add: obm_tick_def Let_def out0_def st1_def case_prod_unfold)
  have exec: "c_state st = ExecuteMission" if "c_state st1 = ExecuteMission"
    using assms that st1(2) by (auto simp: handled_state_def split: if_splits)
  consider (ok) s where "tick_state_handler cfg input (input_height input) (out0, st1) = Some (Inr s)"
      "tick_effect cfg input st1 s"
    | (err) e where "tick_state_handler cfg input (input_height input) (out0, st1) = Some (Inl e)"
      "c_state st1 = ExecuteMission" "yaw_mode_for_behavior cfg (bs_fields (active_behavior cfg st1)) = Inl e"
    using st1 out0 abort tick_prepare_effect tick_takeoff_effect tick_land_effect tick_complete_effect tick_go_home_effect
      tick_execute_effect [of st1 out0 cfg input "input_height input"]
    by (cases "c_state st1") (auto simp: tick_state_handler_def)
  then show thesis
  proof cases
    case (ok s)
    then show ?thesis
      using returns [OF _ st1(1,2,4) ok(2) refl refl st1_def] tick out0_def by simp
  next
    case (err e)
    then show ?thesis using error exec tick st1(5) by simp
  qed
qed

lemma obm_run_inv: "obm_run cfg h st \<Longrightarrow> obm_inv st"
proof (induction rule: obm_run.induct)
  case (tick h st input out st')
  from tick.IH show ?case
  proof (cases rule: obm_tick_cases [where cfg = cfg and input = input])
    case (returns out st1 st'' s)
    have "handled_state st \<noteq> Idle" using start_mission_running [OF tick.IH refl] by blast
    then show ?thesis
      using returns tick.hyps(2) lifecycle_step_not_Idle by (auto simp: obm_inv_def tick_effect_def)
  qed (use tick.hyps(2) in simp)
qed (simp add: obm_inv_def)

lemma obm_tick_effect:
  assumes "obm_inv st" and "obm_tick cfg input st = Some (Inr (out, st'))"
  shows "lifecycle_step cfg input (handled_state st) (c_state st')" and "to_state out = c_state st'"
    and "\<And>c. to_command out = Some c \<Longrightarrow> vc_kind c \<in> command_kinds (handled_state st) \<and> c_state st' = handled_state st"
    and "c_aborting st \<Longrightarrow> c_aborting st'"
    and "to_status out = ''complete'' \<Longrightarrow> handled_state st = Complete \<and> \<not> c_aborting st \<and> confirmed_disarmed input"
  using assms(1)
  by (cases rule: obm_tick_cases [where cfg = cfg and input = input]; use assms(2) in \<open>auto simp: tick_effect_def\<close>)+

lemma obm_run_last_state: "obm_run cfg (e # h) st \<Longrightarrow> to_state (snd e) = c_state st"
  by (erule obm_run_ConsE) (auto dest: obm_run_inv obm_tick_effect(2))

lemma handled_state_inv: "obm_inv st \<Longrightarrow> c_state st \<noteq> Idle \<Longrightarrow> handled_state st = c_state st"
  by (auto simp: obm_inv_def handled_state_def running_def ObjectController_init_def)

section \<open>Properties\<close>

text \<open>
  C2: The controller implements its life cycle.  From every state it can reach, a tick moves only
  along the transitions of the specification: take-off only when armed, the mission only at
  take-off height, landing after the mission only at take-off height, completion only on
  the ground or disarmed, never back and never out of \<open>Abort\<close>; the state it reports is the one
  it is in, and it sends only the commands of that state.
\<close>
theorem lifecycle_refined:
  assumes "obm_run cfg h st" and "obm_tick cfg input st = Some (Inr (out, st'))"
  shows "lifecycle_step cfg input (handled_state st) (c_state st') \<and> to_state out = c_state st' \<and>
    (\<forall>c. to_command out = Some c \<longrightarrow> vc_kind c \<in> command_kinds (handled_state st))"
  using obm_tick_effect [OF obm_run_inv [OF assms(1)] assms(2)] by blast

text \<open>The moment at which the life cycle last entered \<open>Complete\<close>.\<close>

definition entered_complete_grounded :: "(MissionTickInput \<times> MissionTickOutput) list \<Rightarrow> bool" where
  "entered_complete_grounded h \<longleftrightarrow> (\<exists>later i out earlier. h = later @ (i, out) # earlier \<and>
     (\<not> airborne i \<or> confirmed_disarmed i) \<and> (\<forall>e\<in>set ((i, out) # later). to_state (snd e) = Complete) \<and>
     (earlier = [] \<or> to_state (snd (hd earlier)) \<noteq> Complete))"

lemma lifecycle_enters_complete:
  "lifecycle_step cfg i s Complete \<Longrightarrow> s \<noteq> Complete \<Longrightarrow> \<not> airborne i \<or> confirmed_disarmed i"
  by (cases s) auto

lemma obm_run_complete: "obm_run cfg h st \<Longrightarrow> c_state st = Complete \<Longrightarrow> entered_complete_grounded h"
proof (induction rule: obm_run.induct)
  case (tick h st input out st')
  note inv = obm_run_inv [OF tick.hyps(1)]
  note eff = obm_tick_effect [OF inv tick.hyps(2)]
  have out: "to_state out = Complete" using eff(2) tick.prems by simp
  show ?case
  proof (cases "handled_state st = Complete")
    case True
    then have "c_state st = Complete" by (simp add: handled_state_def split: if_splits)
    from tick.IH [OF this] obtain later i o' earlier where h: "h = later @ (i, o') # earlier"
      and rest: "\<not> airborne i \<or> confirmed_disarmed i" "\<forall>e\<in>set ((i, o') # later). to_state (snd e) = Complete"
        "earlier = [] \<or> to_state (snd (hd earlier)) \<noteq> Complete"
      unfolding entered_complete_grounded_def by blast
    show ?thesis
      unfolding entered_complete_grounded_def
      by (intro exI [of _ "(input, out) # later"] exI [of _ i] exI [of _ o'] exI [of _ earlier]) (use h rest out in simp)
  next
    case False
    have "\<not> airborne input \<or> confirmed_disarmed input"
      using lifecycle_enters_complete eff(1) tick.prems False by simp
    moreover have "h = [] \<or> to_state (snd (hd h)) \<noteq> Complete"
      using obm_run_last_state tick.hyps(1) False handled_state_inv [OF inv] by (cases h) fastforce+
    ultimately show ?thesis
      unfolding entered_complete_grounded_def
      by (intro exI [of _ "[]"] exI [of _ input] exI [of _ out] exI [of _ h]) (use out in simp)
  qed
qed (simp add: ObjectController_init_def)

text \<open>
  C1: The controller disarms only on the ground.  Whenever a tick sends \<open>Disarm\<close>, the
  controller has been in \<open>Complete\<close> since a tick at which the vehicle was not above the landing
  height of 0.25 m or its telemetry confirmed that it was already disarmed.
\<close>
theorem disarm_only_on_ground:
  assumes "obm_run cfg h st" and "obm_tick cfg input st = Some (Inr (out, st'))"
    and "to_command out = Some c" and "vc_kind c = CmdDisarm"
  shows "c_state st = Complete \<and> entered_complete_grounded h"
proof -
  have "vc_kind c \<in> command_kinds (handled_state st)"
    using obm_tick_effect(3) [OF obm_run_inv [OF assms(1)] assms(2,3)] by blast
  with assms(4) have "handled_state st = Complete" by (cases "handled_state st") auto
  then have "c_state st = Complete" by (simp add: handled_state_def split: if_splits)
  with obm_run_complete [OF assms(1)] show ?thesis by blast
qed

text \<open>
  C20: Every tick returns, from every state the controller can reach and for every input, NaN and
  infinite values included.  The only error is a behaviour whose \<open>yaw_mode\<close> is not a known
  name; it is raised in flight, in \<open>ExecuteMission\<close>, and names the mode.
\<close>
theorem tick_returns:
  assumes "obm_run cfg h st"
  shows "(\<exists>out st'. obm_tick cfg input st = Some (Inr (out, st'))) \<or>
    (c_state st = ExecuteMission \<and>
     (let mode = b_yaw_mode (bs_fields (active_behavior cfg st)) in
      mode \<noteq> [] \<and> obm_tick cfg input st = Some (Inl (''unknown object_behavior_yaw_mode: '' @ mode)) \<and>
      parse_yaw_mode mode = Inl (''unknown object_behavior_yaw_mode: '' @ mode)))"
  using obm_run_inv [OF assms]
proof (cases rule: obm_tick_cases [where cfg = cfg and input = input])
  case (error e)
  then show ?thesis
    by (auto simp: yaw_mode_for_behavior_def parse_yaw_mode_def Let_def split: if_splits)
qed blast

end
