(* ===== verification/Object_Flight.thy ===== *)
theory Object_Flight
  imports Object_Properties
begin

text \<open>
  Time-outs, aborted missions, and the velocities the object-behaviour controller commands while it
  executes a behaviour and while it flies home.
\<close>

section \<open>Time-outs\<close>

lemma obm_tick_handler:
  assumes "obm_run cfg h st" and "obm_tick cfg input st = Some (Inr (out, st'))" and "c_state st \<noteq> Idle"
  shows "\<exists>s. tick_state_handler cfg input (input_height input)
           (MissionTickOutput_default\<lparr>to_state := c_state st\<rparr>, st\<lparr>c_last_tick_time := ti_now input\<rparr>) = Some (Inr s) \<and>
         st' = snd s \<and> out = (fst s)\<lparr>to_state := c_state st'\<rparr>"
  using obm_run_inv [OF assms(1)]
proof (cases rule: obm_tick_cases [where cfg = cfg and input = input])
  case (returns out1 st1 st1' s)
  have "c_mission_started st"
    using obm_run_inv [OF assms(1)] assms(3) by (auto simp: obm_inv_def running_def ObjectController_init_def)
  then show ?thesis using returns assms(2) by (simp add: start_mission_def)
qed (use assms(2) in simp)

text \<open>
  C30: No life-cycle state that waits for telemetry waits forever: once the arm time-out has passed a
  tick leaves \<open>Prepare\<close>; once the landing time-out has passed since the land command a tick
  leaves \<open>Land\<close>, for \<open>Complete\<close> or \<open>Abort\<close>; once the disarm time-out has passed a tick in
  \<open>Complete\<close> either reports the mission complete with the vehicle confirmed disarmed, or aborts.
\<close>
theorem timeouts_end_waiting:
  assumes "obm_run cfg h st" and "obm_tick cfg input st = Some (Inr (out, st'))"
  shows "(c_state st = Prepare \<and> elapsed_at_least (c_state_start st) (ti_now input) (oc_arm_timeout_s cfg) \<longrightarrow>
      c_state st' \<noteq> Prepare) \<and>
    (c_state st = Land \<and> c_land_command_sent st \<and>
        elapsed_at_least (c_land_last_command_time st) (ti_now input) (oc_land_timeout_s cfg) \<longrightarrow>
      c_state st' \<in> {Complete, Abort}) \<and>
    (c_state st = Complete \<and> elapsed_at_least (c_state_start st) (ti_now input) (oc_disarm_timeout_s cfg) \<longrightarrow>
      c_state st' = Abort \<or> (c_state st' = Complete \<and> to_status out = ''complete'' \<and> confirmed_disarmed input))"
proof (cases "c_state st \<in> {Prepare, Land, Complete}")
  case True
  then obtain s where "tick_state_handler cfg input (input_height input)
      (MissionTickOutput_default\<lparr>to_state := c_state st\<rparr>, st\<lparr>c_last_tick_time := ti_now input\<rparr>) = Some (Inr s)"
    and "st' = snd s" and "out = (fst s)\<lparr>to_state := c_state st'\<rparr>"
    using obm_tick_handler [OF assms] by auto
  note tick = this
  consider "c_state st = Prepare" | "c_state st = Land" | "c_state st = Complete" using True by blast
  then show ?thesis
  proof cases
    case 1
    then show ?thesis using tick by (auto simp: tick_state_handler_def tick_prepare_def Let_def begin_abort_recovery_def split: if_splits)
  next
    case 2
    then show ?thesis using tick by (auto simp: tick_state_handler_def tick_land_def Let_def split: if_splits)
  next
    case 3
    then show ?thesis using tick by (auto simp: tick_state_handler_def tick_complete_def Let_def confirmed_disarmed_def split: if_splits)
  qed
qed auto

text \<open>
  A mission that started to abort never reports success, and \<open>Abort\<close> is final: no later tick
  leaves it or sends a command.
\<close>
lemma abort_is_final:
  assumes "obm_run cfg h st" and "obm_tick cfg input st = Some (Inr (out, st'))"
  shows "(c_aborting st \<longrightarrow> c_aborting st' \<and> to_status out \<noteq> ''complete'') \<and>
    (c_state st = Abort \<longrightarrow> c_state st' = Abort \<and> to_command out = None)"
proof -
  note inv = obm_run_inv [OF assms(1)]
  note eff = obm_tick_effect [OF inv assms(2)]
  have "c_state st' = Abort \<and> to_command out = None" if "c_state st = Abort"
  proof -
    have hs: "handled_state st = Abort" using handled_state_inv [OF inv] that by simp
    then have "c_state st' = Abort" using eff(1) by (cases "c_state st'") auto
    moreover have "to_command out = None" using eff(3) hs by (cases "to_command out") auto
    ultimately show ?thesis by blast
  qed
  with eff(4,5) show ?thesis by blast
qed

section \<open>Velocities of a behaviour\<close>

lemma fold_keep_best_mem: "fold (keep_best better) xs None = Some b \<Longrightarrow> b \<in> set xs"
proof -
  have "\<forall>b. fold (keep_best better) ys s = Some b \<longrightarrow> b \<in> set xs"
    if "set ys \<subseteq> set xs" "\<forall>b. s = Some b \<longrightarrow> b \<in> set xs" for ys s
    using that by (induction ys arbitrary: s) (auto simp: keep_best_def split: option.splits if_splits)
  then show "fold (keep_best better) xs None = Some b \<Longrightarrow> b \<in> set xs" by blast
qed

lemma selected_is_candidate:
  assumes "sel_selected (select_target snapshot spec previous)"
  shows "\<exists>a\<in>set (selector_candidates snapshot spec). \<exists>r. select_target snapshot spec previous = make_selection snapshot a r"
proof (cases "spec_error spec")
  case None
  note r = select_target_selected [OF None refl, of snapshot previous]
  show ?thesis
  proof (cases "select_persistent snapshot spec previous (selector_candidates snapshot spec)")
    case (Some s)
    then have "select_target snapshot spec previous = s" using r by simp
    with Some show ?thesis using assms by (cases rule: select_persistent_cases) auto
  next
    case no_previous: None
    then obtain best why where "select_best snapshot (ts_policy spec) (selector_candidates snapshot spec) = (Some best, why)"
      and "select_target snapshot spec previous = make_selection snapshot best why"
      using r assms by (auto split: if_splits option.splits prod.splits)
    moreover from this(1) have "best \<in> set (selector_candidates snapshot spec)"
      by (cases "ts_policy spec") (auto simp: select_best_def confidence_step_keep_best nearest_loop_best dest: fold_keep_best_mem)
    ultimately show ?thesis by blast
  qed
qed (use assms in \<open>simp add: select_target_def\<close>)

lemma selected_finite:
  assumes "sel_selected (select_target snapshot spec previous)"
    and "\<forall>a\<in>set (ws_agents snapshot). finite_point (ag_velocity_local a)"
  shows "finite_selection (select_target snapshot spec previous)"
  using selected_is_candidate [OF assms(1)] candidate_finite assms(2)
  by (fastforce simp: finite_selection_def make_selection_def)

lemma execute_geometry_within:
  assumes "execute_geometry cfg now ego sel b ending st = Some (raw, g, q, st')" and "\<not> ending"
    and "finite_pose (ego_local_T_body ego)" and "isfinite (ego_height ego)" and "finite_selection sel"
    and "finite_behavior b" and "finite_follow_config cfg"
  shows "velocity_within raw (b_max_speed_mps b) (b_max_vertical_speed_mps b)"
proof -
  have ego: "finite_point (ego_position ego)" using assms(3) by (simp add: finite_pose_def)
  have t: "isfinite (seconds_between s t)" for s t by (simp add: seconds_between_def)
  have profile: "velocity_within (fst (apply_altitude_profile v ego b (seconds_between s t) g')) (b_max_speed_mps b) (b_max_vertical_speed_mps b)"
    if "velocity_within v (b_max_speed_mps b) (b_max_vertical_speed_mps b)" for v g' s t
    using altitude_profile_within [OF that assms(6,4) t] .
  show ?thesis
    using assms(1,2) profile [OF circle_velocity_within [OF ego assms(5,6)]]
      profile [OF behavior_velocity_within [OF assms(3,5-7), of FollowGeometry_default]]
    unfolding execute_geometry_def
    by (auto simp: Let_def split_beta split: if_splits option.splits)
qed

lemma execute_command_within:
  assumes "running st" and "c_state st = ExecuteMission" and "to_command out = None"
    and "tick_execute_mission cfg input (input_height input) (out, st) = Some (Inr s)"
    and "to_command (fst s) = Some c" and b: "b = bs_fields (active_behavior cfg st)"
    and ego: "finite_pose (ego_local_T_body (ws_ego (ti_snapshot input)))" "isfinite (input_height input)"
    and agents: "\<forall>a\<in>set (ws_agents (ti_snapshot input)). finite_point (ag_velocity_local a)"
    and fin: "finite_behavior b" "finite_follow_config cfg" "isfinite (oc_behavior_min_height_m cfg)"
  shows "velocity_within (vc_velocity_local_mps c) (b_max_speed_mps b) (floor_limit (b_max_vertical_speed_mps b))"
proof -
  let ?st = "st\<lparr>c_execute_tick_count := c_execute_tick_count st + 1\<rparr>"
  let ?sel = "select_target (ti_snapshot input) (bm_target (oc_behavior_spec cfg)) (c_previous_selection st)"
  have st: "running ?st" "c_state ?st = ExecuteMission" using assms(1,2) by simp_all
  have act: "active_behavior cfg ?st = active_behavior cfg st" by (simp add: active_behavior_def Let_def)
  show ?thesis
  proof (cases "sel_selected ?sel")
    case False
    then have "vc_velocity_local_mps c = vec3_zero"
      using assms(3-5) by (auto simp: tick_execute_mission_def Let_def split_beta split: if_splits)
    moreover have "positive_limit (floor_limit (b_max_vertical_speed_mps b))"
      using fin(1) by (cases "b_max_vertical_speed_mps b")
        (auto simp: finite_behavior_def positive_limit_def floor_limit_def dbl_simps kMinSafeHeightClimbMps_def)
    ultimately show ?thesis using zero_within fin(1) by (simp add: finite_behavior_def)
  next
    case True
    then have run: "execute_selected cfg input (input_height input) ?sel (out, ?st) = Some (Inr s)"
      using assms(4) by (simp add: tick_execute_mission_def Let_def)
    from st(1) assms(3) st(2) show ?thesis
    proof (cases rule: execute_selected_cases [where cfg = cfg and input = input and h = "input_height input" and sel = ?sel])
      case (command ctl b' m raw g q out1 st0 st1)
      have b': "b' = b" using command(6) act b by simp
      have "finite_selection ctl"
        using selected_finite [OF True agents] command(7) by (simp add: finite_selection_def)
      then have "velocity_within raw (b_max_speed_mps b) (b_max_vertical_speed_mps b)"
        using execute_geometry_within [OF command(8) _ ego] fin(1,2) b' by simp
      then have "velocity_within (apply_altitude_policy raw cfg b (input_height input)) (b_max_speed_mps b)
          (floor_limit (b_max_vertical_speed_mps b))"
        using altitude_policy_within fin(1,3) ego(2) by blast
      moreover have "s = command_behavior cfg (ti_now input) (ws_ego (ti_snapshot input)) (input_height input) ctl b m raw g (out1, st1)"
        using command(9) run b' by simp
      then have "vc_velocity_local_mps c = apply_altitude_policy raw cfg b (input_height input)"
        using command_behavior_state(4) [of cfg "ti_now input" "ws_ego (ti_snapshot input)" "input_height input" ctl b m raw g out1 st1]
          assms(5) by auto
      ultimately show ?thesis by simp
    qed (use run assms(5) in \<open>auto simp: advance_sequence_state end_behavior_state\<close>)
  qed
qed

text \<open>
  C7: While a mission executes, every commanded velocity respects the limits of the active
  behaviour: the horizontal speed is at most \<open>max_speed_mps\<close>, the vertical speed at most
  \<open>max_vertical_speed_mps\<close>, or 0.35 m/s if that is more, which is the least climb the
  altitude floor commands.  The ego pose, the agents' velocities and the configuration have to
  be numbers.
\<close>
theorem commanded_velocity_bounded:
  assumes "obm_run cfg h st" and "obm_tick cfg input st = Some (Inr (out, st'))" and "c_state st = ExecuteMission"
    and "to_command out = Some c" and b: "b = bs_fields (active_behavior cfg st)"
    and "finite_pose (ego_local_T_body (ws_ego (ti_snapshot input)))" and "isfinite (input_height input)"
    and "\<forall>a\<in>set (ws_agents (ti_snapshot input)). finite_point (ag_velocity_local a)"
    and "finite_behavior b" and "finite_follow_config cfg" and "isfinite (oc_behavior_min_height_m cfg)"
  shows "velocity_within (vc_velocity_local_mps c) (b_max_speed_mps b) (floor_limit (b_max_vertical_speed_mps b))"
proof -
  let ?st = "st\<lparr>c_last_tick_time := ti_now input\<rparr>" and ?out = "MissionTickOutput_default\<lparr>to_state := c_state st\<rparr>"
  have run: "running ?st" "c_state ?st = ExecuteMission"
    using obm_run_inv [OF assms(1)] assms(3) by (auto simp: obm_inv_def running_def ObjectController_init_def)
  obtain s where "tick_execute_mission cfg input (input_height input) (?out, ?st) = Some (Inr s)" "to_command (fst s) = Some c"
    using obm_tick_handler [OF assms(1,2)] assms(3,4) by (auto simp: tick_state_handler_def)
  moreover have "b = bs_fields (active_behavior cfg ?st)" using b by (simp add: active_behavior_def Let_def)
  moreover have "to_command ?out = None" by (simp add: MissionTickOutput_default_def)
  ultimately show ?thesis
    using execute_command_within [OF run _ _ _ _ assms(6-11)] by blast
qed

section \<open>Flying home\<close>

lemma command_from_velocity_interval [simp]:
  "c_go_home_estimated_frame_interval_s (snd (command_from_velocity cfg t v y st)) = c_go_home_estimated_frame_interval_s st"
  by (auto simp: command_from_velocity_def Let_def)

lemma floor_keeps_xy:
  "vx (enforce_takeoff_height_floor v h m w) = vx v \<and> vy (enforce_takeoff_height_floor v h m w) = vy v"
  by (auto simp: enforce_takeoff_height_floor_def enforce_min_height_floor_def Let_def)

lemma norm_xy_cong: "vx v = vx w \<Longrightarrow> vy v = vy w \<Longrightarrow> norm_xy v = norm_xy w"
  by (simp add: norm_xy_def)

text \<open>The speed towards a point: the full speed outside the arrival radius, zero inside.\<close>

lemma velocity_toward_norm:
  fixes fx fy tx ty s :: real
  defines "d \<equiv> sqrt ((tx - fx) * (tx - fx) + (ty - fy) * (ty - fy))"
  shows "norm_xy (velocity_toward_xy (vec3 (Fin fx) (Fin fy) fz) (vec3 (Fin tx) (Fin ty) tz) (Fin s)) =
         Fin (if d \<le> 1/2 \<or> s \<le> 0 then 0 else s)"
proof (cases "d \<le> 1/2 \<or> s \<le> 0")
  case True
  then have "velocity_toward_xy (vec3 (Fin fx) (Fin fy) fz) (vec3 (Fin tx) (Fin ty) tz) (Fin s) = vec3_zero"
    unfolding velocity_toward_xy_def Let_def by (auto simp: kMinArrivedDistanceM_def d_def)
  with True show ?thesis by simp
next
  case False
  let ?x = "(tx - fx) / d * s" and ?y = "(ty - fy) / d * s"
  have d: "0 < d" using False by linarith
  have "velocity_toward_xy (vec3 (Fin fx) (Fin fy) fz) (vec3 (Fin tx) (Fin ty) tz) (Fin s) = vec3 (Fin ?x) (Fin ?y) 0"
    using False d by (auto simp: velocity_toward_xy_def Let_def kMinArrivedDistanceM_def d_def)
  moreover have "?x * ?x + ?y * ?y = s * s"
  proof -
    have "?x * ?x + ?y * ?y = ((tx - fx) * (tx - fx) + (ty - fy) * (ty - fy)) * (s * s) / (d * d)"
      by (simp add: add_divide_distrib distrib_right mult.assoc mult.left_commute [of s])
    also have "(tx - fx) * (tx - fx) + (ty - fy) * (ty - fy) = d * d" by (simp add: d_def)
    finally show ?thesis using d by simp
  qed
  ultimately show ?thesis using False by simp
qed

lemma safe_speed_cap:
  assumes "0 < D" and "0 < d" and "1/2 < D" and "d \<le> 10" and "c_go_home_estimated_frame_interval_s st = Fin d"
    and "oc_go_home_velocity_mps cfg = Fin V"
  shows "go_home_safe_speed cfg (Fin D) st = Fin (min V (D / d))"
proof -
  have "5/100 < D / d" using assms by (simp add: field_simps)
  with assms show ?thesis
    by (auto simp: go_home_safe_speed_def kMinGoHomeSpeedMps_def dbl_simps min_def)
qed

lemma go_home_velocity_norm:
  assumes "ego_position ego = vec3 (Fin fx) (Fin fy) fz" and "position (c_home_pose st) = vec3 (Fin tx) (Fin ty) tz"
    and "c_home_initialized st" and "D = sqrt ((tx - fx) * (tx - fx) + (ty - fy) * (ty - fy))"
  shows "distance_home_xy ego st = Fin D"
    and "norm_xy (go_home_velocity ego (Fin s) st) = Fin (if D \<le> 1/2 \<or> s \<le> 0 then 0 else s)"
  using velocity_toward_norm [of fx fy fz tx ty tz s] assms
  by (simp_all add: distance_home_xy_def Let_def go_home_velocity_def not_less)

text \<open>
  Flying home, the controller does not overshoot: the distance covered at the commanded
  horizontal speed during one estimated ego frame is at most the distance to home, and the
  speed is at most the configured one, as long as the estimated frame interval is at most ten
  seconds.
\<close>
lemma go_home_no_overshoot:
  assumes "obm_run cfg h st" and "obm_tick cfg input st = Some (Inr (out, st'))" and "c_state st = GoHome"
    and "to_command out = Some c" and ego: "ego = ws_ego (ti_snapshot input)"
    and "finite_point (ego_position ego)" and "finite_point (position (c_home_pose st))"
    and "oc_go_home_velocity_mps cfg = Fin V" and "0 \<le> V"
    and "c_go_home_estimated_frame_interval_s st' = Fin d" and "0 < d" and "d \<le> 10"
  shows "\<exists>v D. norm_xy (vc_velocity_local_mps c) = Fin v \<and> distance_home_xy ego st = Fin D \<and>
    0 \<le> v \<and> v \<le> V \<and> v * d \<le> D"
proof -
  obtain fx fy fz tx ty tz where pos: "ego_position ego = vec3 (Fin fx) (Fin fy) (Fin fz)"
    "position (c_home_pose st) = vec3 (Fin tx) (Fin ty) (Fin tz)"
    using assms(6,7) by (metis finite_pointE)
  let ?st = "st\<lparr>c_last_tick_time := ti_now input\<rparr>"
  let ?st1 = "update_frame_interval ego ?st"
  define D where "D = sqrt ((tx - fx) * (tx - fx) + (ty - fy) * (ty - fy))"
  have home: "c_home_initialized st"
    using obm_run_inv [OF assms(1)] assms(3) by (auto simp: obm_inv_def running_def ObjectController_init_def)
  have D: "distance_home_xy ego ?st = Fin D" "distance_home_xy ego st = Fin D"
    using go_home_velocity_norm(1) [OF pos(1) _ _ D_def, of ?st "Fin tz"] go_home_velocity_norm(1) [OF pos home D_def] pos(2) home
    by simp_all
  have D0: "0 \<le> D" by (simp add: D_def)
  obtain s where "tick_go_home cfg input (input_height input) (MissionTickOutput_default\<lparr>to_state := c_state st\<rparr>, ?st) = s"
    "st' = snd s" "to_command (fst s) = Some c"
    using obm_tick_handler [OF assms(1,2)] assms(3,4) by (auto simp: tick_state_handler_def)
  then have cmd: "vc_velocity_local_mps c = enforce_takeoff_height_floor
      (go_home_velocity ego (go_home_safe_speed cfg (distance_home_xy ego ?st) ?st1) ?st1)
      (input_height input) (oc_takeoff_height_m cfg) (std_max (Fin (1/10)) (b_max_vertical_speed_mps (bs_fields (mission_behavior cfg))))"
    and int: "c_go_home_estimated_frame_interval_s ?st1 = Fin d"
    using assms(10) ego
    by (auto simp: tick_go_home_def Let_def split_beta MissionTickOutput_default_def split: if_splits)
  obtain S where S: "go_home_safe_speed cfg (Fin D) ?st1 = Fin S" "1/2 < D \<Longrightarrow> S = min V (D / d)"
  proof (cases "1/2 < D")
    case True
    then have "0 < D" by linarith
    from safe_speed_cap [OF this assms(11) True assms(12) int assms(8)] show ?thesis using that by blast
  next
    case False
    have "isfinite (go_home_safe_speed cfg (Fin D) ?st1)"
      using assms(8,11) int by (auto simp: go_home_safe_speed_def kMinGoHomeSpeedMps_def)
    then show ?thesis using that False by (auto simp: isfinite_iff)
  qed
  have "norm_xy (vc_velocity_local_mps c) = norm_xy (go_home_velocity ego (Fin S) ?st1)"
    unfolding cmd D S(1) by (rule norm_xy_cong) (simp_all add: floor_keeps_xy)
  also have "\<dots> = Fin (if D \<le> 1/2 \<or> S \<le> 0 then 0 else S)"
    using go_home_velocity_norm(2) [OF pos(1) _ _ D_def, of ?st1 "Fin tz" S] pos(2) home by simp
  finally have v: "norm_xy (vc_velocity_local_mps c) = Fin (if D \<le> 1/2 \<or> S \<le> 0 then 0 else S)" .
  have "S \<le> V \<and> S * d \<le> D" if "1/2 < D"
  proof -
    have "S \<le> V" "S \<le> D / d" using S(2) [OF that] by simp_all
    then show ?thesis using assms(11) by (simp add: field_simps)
  qed
  then show ?thesis
    using v D(2) D0 assms(9) by (intro exI [of _ "if D \<le> 1/2 \<or> S \<le> 0 then 0 else S"] exI [of _ D]) auto
qed

text \<open>
  With a slower frame rate the minimum speed of 0.05 m/s is more than the distance left: at 20 s
  per frame and 0.6 m to go, one frame covers a metre.
\<close>

lemma go_home_overshoots_on_slow_frames:
  assumes "c_go_home_estimated_frame_interval_s st = 20" and "oc_go_home_velocity_mps cfg = 1"
  shows "go_home_safe_speed cfg (Fin (6/10)) st = Fin (5/100) \<and> Fin (6/10) < Fin (5/100) * 20"
  using assms by (simp add: go_home_safe_speed_def kMinGoHomeSpeedMps_def dbl_simps)

end
