(* ===== verification/Object_Samples.thy ===== *)
theory Object_Samples
  imports Object_Flight
begin

text \<open>
  A concrete flight of the object-behaviour controller, from the first tick to the disarm command,
  with the default configuration; the properties of the controller applied to it.
\<close>

section \<open>Flying a list of inputs\<close>

definition next_state :: "ObjectBehaviorMissionConfig \<Rightarrow> MissionTickInput \<Rightarrow> ObjectController \<Rightarrow> ObjectController" where
  "next_state cfg input st = (case obm_tick cfg input st of Some (Inr s) \<Rightarrow> snd s | _ \<Rightarrow> st)"

definition fly :: "ObjectBehaviorMissionConfig \<Rightarrow> MissionTickInput list \<Rightarrow> ObjectController" where
  "fly cfg inputs = fold (next_state cfg) inputs ObjectController_init"

lemma next_state_run: "\<exists>h. obm_run cfg h st \<Longrightarrow> \<exists>h. obm_run cfg h (next_state cfg input st)"
  by (force simp: next_state_def split: option.splits sum.splits dest: obm_run.tick)

lemma fly_run: "\<exists>h. obm_run cfg h (fly cfg inputs)"
proof -
  have "\<exists>h. obm_run cfg h (fold (next_state cfg) inputs st)" if "\<exists>h. obm_run cfg h st" for st
    using that by (induction inputs arbitrary: st) (auto simp: next_state_run)
  then show ?thesis using obm_run.start by (auto simp: fly_def)
qed

text \<open>The vehicle at a height, with a time stamp and an arm state confirmed by telemetry.\<close>

abbreviation flight_input :: "bool \<Rightarrow> real \<Rightarrow> Vec3 \<Rightarrow> int \<Rightarrow> bool \<Rightarrow> MissionTickInput" where
  "flight_input armed height p seconds finish \<equiv>
     \<lparr>ti_now = \<lparr>timestamp_ns = seconds * 1000000000\<rparr>,
      ti_snapshot = (sample_snapshot [])\<lparr>ws_ego := sample_ego\<lparr>ego_timestamp := \<lparr>timestamp_ns = seconds * 1000000000\<rparr>,
        ego_local_T_body := \<lparr>position = p, rotation_rpy = vec3_zero\<rparr>, ego_height_m := Fin height, ego_armed := armed\<rparr>\<rparr>,
      ti_last_command_result = None, ti_finish_requested = finish\<rparr>"

abbreviation "armed_on_ground \<equiv> flight_input True 0 vec3_zero 1 False"
abbreviation "at_takeoff_height \<equiv> flight_input True 8 vec3_zero 2 False"
abbreviation "finishing \<equiv> flight_input True 8 (vec3 3 4 0) 3 True"
abbreviation "coming_home \<equiv> flight_input True 8 (vec3 3 4 0) 4 False"
abbreviation "still_homing \<equiv> flight_input True 8 (vec3 6 8 0) 5 False"
abbreviation "cancelled \<equiv> flight_input True 0 vec3_zero 2 True"
abbreviation "on_ground \<equiv> flight_input True 0 vec3_zero 3 False"
abbreviation "not_armed t \<equiv> flight_input False 0 vec3_zero t False"

lemmas tick_eval = obm_tick_def Let_def start_mission_def ObjectController_init_def tick_state_handler_def ego_height_def
  bindO_def bindE_def ObjectBehaviorMissionConfig_default_def MissionTickOutput_default_def next_state_def

abbreviation "takeoff_flight \<equiv> [armed_on_ground, at_takeoff_height]"
abbreviation "homing_flight \<equiv> takeoff_flight @ [finishing, coming_home]"

lemma no_agents: "ws_agents sn = [] \<Longrightarrow>
  select_target sn (TargetSelectorSpec_default\<lparr>ts_class_label := Car\<rparr>) None = make_empty NoCandidates ''no_matching_agents''"
  by (simp add: select_target_def spec_error_def TargetSelectorSpec_default_def selector_candidates_def select_persistent_def)

lemma sample_roots: "sqrt 25 = 5" "sqrt 100 = 10"
  by (rule real_sqrt_unique; simp)+

lemmas flight_eval = fly_def tick_eval tick_prepare_def tick_takeoff_def reset_behavior_run_def reset_sequence_step_def
  tick_execute_mission_def no_agents make_empty_def TargetSelection_default_def tick_go_home_def update_frame_interval_def
  distance_home_xy_def go_home_safe_speed_def kArrivalThresholdM_def tick_land_def kLandHeightM_def tick_complete_def
  command_from_velocity_def plain_velocity_command_def hold_last_yaw_def camera_pointing_command_to_point_def camera_off_def
  neutral_camera_pointing_command_def emit_camera_pointing_def add_event_def

section \<open>The properties on the flight\<close>

theorem lifecycle_refined_witness:
  "obm_run sample_config [] ObjectController_init \<and>
   (\<exists>out st'. obm_tick sample_config armed_on_ground ObjectController_init = Some (Inr (out, st')) \<and>
      c_state st' = Takeoff \<and> lifecycle_step sample_config armed_on_ground Prepare Takeoff \<and> to_state out = c_state st')"
proof -
  obtain out st' where "obm_tick sample_config armed_on_ground ObjectController_init = Some (Inr (out, st'))" "c_state st' = Takeoff"
    by (simp add: flight_eval)
  moreover have "handled_state ObjectController_init = Prepare" by (simp add: handled_state_def ObjectController_init_def)
  ultimately show ?thesis
    using lifecycle_refined [OF obm_run.start, of sample_config armed_on_ground out st'] obm_run.start [of sample_config] by auto
qed

theorem tick_returns_witness:
  "obm_run sample_config [] ObjectController_init \<and>
   (\<exists>out st'. obm_tick sample_config armed_on_ground ObjectController_init = Some (Inr (out, st')))"
  using tick_returns [OF obm_run.start, of sample_config armed_on_ground] obm_run.start
  by (auto simp: ObjectController_init_def)

theorem disarm_only_on_ground_witness:
  "\<exists>h out st' c. obm_run sample_config h (fly sample_config [armed_on_ground, cancelled]) \<and>
     obm_tick sample_config on_ground (fly sample_config [armed_on_ground, cancelled]) = Some (Inr (out, st')) \<and>
     to_command out = Some c \<and> vc_kind c = CmdDisarm \<and> entered_complete_grounded h"
proof -
  let ?st = "fly sample_config [armed_on_ground, cancelled]"
  obtain h where run: "obm_run sample_config h ?st" using fly_run by blast
  obtain out st' c where "obm_tick sample_config on_ground ?st = Some (Inr (out, st'))"
    "to_command out = Some c" "vc_kind c = CmdDisarm"
    by (simp add: flight_eval command_with_kind_def elapsed_at_least_def seconds_between_def)
  with disarm_only_on_ground [OF run this] run show ?thesis by blast
qed

theorem timeouts_end_waiting_witness:
  "\<exists>h out st'. obm_run sample_config h (fly sample_config [not_armed 1]) \<and>
     obm_tick sample_config (not_armed 12) (fly sample_config [not_armed 1]) = Some (Inr (out, st')) \<and>
     c_state (fly sample_config [not_armed 1]) = Prepare \<and> c_state st' \<noteq> Prepare"
proof -
  let ?st = "fly sample_config [not_armed 1]"
  obtain h where run: "obm_run sample_config h ?st" using fly_run by blast
  have st: "c_state ?st = Prepare" "elapsed_at_least (c_state_start ?st) \<lparr>timestamp_ns = 12 * 1000000000\<rparr> (oc_arm_timeout_s sample_config)"
    by (simp_all add: flight_eval elapsed_at_least_def seconds_between_def)
  obtain out st' where tick: "obm_tick sample_config (not_armed 12) ?st = Some (Inr (out, st'))"
    by (simp add: flight_eval elapsed_at_least_def seconds_between_def)
  show ?thesis using timeouts_end_waiting [OF run tick] run tick st by auto
qed

lemma abort_is_final_witness:
  "\<exists>h out st'. obm_run sample_config h (fly sample_config [not_armed 1, not_armed 12]) \<and>
     obm_tick sample_config (not_armed 13) (fly sample_config [not_armed 1, not_armed 12]) = Some (Inr (out, st')) \<and>
     c_state st' = Abort \<and> to_command out = None"
proof -
  let ?st = "fly sample_config [not_armed 1, not_armed 12]"
  obtain h where run: "obm_run sample_config h ?st" using fly_run by blast
  have st: "c_state ?st = Abort"
    by (simp add: flight_eval elapsed_at_least_def seconds_between_def)
  obtain out st' where tick: "obm_tick sample_config (not_armed 13) ?st = Some (Inr (out, st'))"
    by (simp add: flight_eval elapsed_at_least_def seconds_between_def)
  show ?thesis using abort_is_final [OF run tick] run tick st by auto
qed

theorem commanded_velocity_bounded_witness:
  "\<exists>h out st' c. obm_run sample_config h (fly sample_config takeoff_flight) \<and>
     obm_tick sample_config at_takeoff_height (fly sample_config takeoff_flight) = Some (Inr (out, st')) \<and>
     to_command out = Some c \<and> velocity_within (vc_velocity_local_mps c) (b_max_speed_mps BehaviorFields_default)
       (floor_limit (b_max_vertical_speed_mps BehaviorFields_default))"
proof -
  let ?st = "fly sample_config takeoff_flight"
  obtain h where run: "obm_run sample_config h ?st" using fly_run by blast
  have st: "c_state ?st = ExecuteMission" by (simp add: flight_eval)
  obtain out st' c where tick: "obm_tick sample_config at_takeoff_height ?st = Some (Inr (out, st'))" "to_command out = Some c"
    by (simp add: flight_eval)
  have b: "BehaviorFields_default = bs_fields (active_behavior sample_config ?st)"
    by (simp add: active_behavior_def Let_def sequence_active_def ObjectBehaviorMissionConfig_default_def)
  have fin: "finite_behavior BehaviorFields_default" "finite_follow_config sample_config"
    by (simp_all add: finite_behavior_def BehaviorFields_default_def finite_follow_config_def positive_limit_def AltitudeProfileSpec_default_def
        ObjectBehaviorMissionConfig_default_def)
  have min_height: "isfinite (oc_behavior_min_height_m sample_config)" by (simp add: ObjectBehaviorMissionConfig_default_def)
  have "velocity_within (vc_velocity_local_mps c) (b_max_speed_mps BehaviorFields_default)
       (floor_limit (b_max_vertical_speed_mps BehaviorFields_default))"
    by (rule commanded_velocity_bounded [OF run tick(1) st tick(2) b])
      (simp_all add: fin min_height ego_height_def finite_pose_def)
  with run tick show ?thesis by blast
qed

lemma homing_tick:
  assumes "c_state st = GoHome" "c_home_pose st = \<lparr>position = vec3_zero, rotation_rpy = vec3_zero\<rparr>"
    "c_home_initialized st" "c_mission_started st" "c_last_ego_ts_go_home st = \<lparr>timestamp_ns = 4 * 1000000000\<rparr>"
    "c_go_home_estimated_frame_interval_s st = 0"
  shows "\<exists>out st' c. obm_tick sample_config still_homing st = Some (Inr (out, st')) \<and> to_command out = Some c \<and>
    c_go_home_estimated_frame_interval_s st' = Fin 1"
  using assms
  by (simp add: tick_eval tick_go_home_def update_frame_interval_def distance_home_xy_def sample_roots split_beta)

lemma go_home_no_overshoot_witness:
  "\<exists>h out st' c v D. obm_run sample_config h (fly sample_config homing_flight) \<and>
     obm_tick sample_config still_homing (fly sample_config homing_flight) = Some (Inr (out, st')) \<and>
     to_command out = Some c \<and> norm_xy (vc_velocity_local_mps c) = Fin v \<and>
     distance_home_xy (ws_ego (ti_snapshot still_homing)) (fly sample_config homing_flight) = Fin D \<and> v \<le> 1 \<and> v \<le> D"
proof -
  let ?st = "fly sample_config homing_flight"
  obtain h where run: "obm_run sample_config h ?st" using fly_run by blast
  have st: "c_state ?st = GoHome" "c_home_pose ?st = \<lparr>position = vec3_zero, rotation_rpy = vec3_zero\<rparr>"
    "c_home_initialized ?st" "c_mission_started ?st" "c_last_ego_ts_go_home ?st = \<lparr>timestamp_ns = 4 * 1000000000\<rparr>"
    "c_go_home_estimated_frame_interval_s ?st = 0"
    by (simp_all add: flight_eval sample_roots)
  obtain out st' c where tick: "obm_tick sample_config still_homing ?st = Some (Inr (out, st'))" "to_command out = Some c"
    and int: "c_go_home_estimated_frame_interval_s st' = Fin 1"
    using homing_tick [OF st] by blast
  have pos: "finite_point (position (c_home_pose ?st))" using st(2) by simp
  have "oc_go_home_velocity_mps sample_config = Fin 1" by (simp add: ObjectBehaviorMissionConfig_default_def)
  from go_home_no_overshoot [OF run tick(1) st(1) tick(2) refl _ pos this _ int] run tick show ?thesis by auto
qed

end
