(* ===== verification/Controller_Contract.thy ===== *)
theory Controller_Contract
  imports Object_Properties
begin

text \<open>
  What the mission runtime relies on of a mission controller (\<open>MissionController::tick\<close> of
  \<open>behavior/mission_controller.hpp\<close>), as a locale, and its interpretation on the
  object-behaviour controller.
\<close>

section \<open>The common life cycle\<close>

text \<open>The life cycle only moves forward.\<close>

fun lifecycle_rank :: "MissionLifecycleState \<Rightarrow> nat" where
  "lifecycle_rank Idle = 0"
| "lifecycle_rank Prepare = 1"
| "lifecycle_rank Takeoff = 2"
| "lifecycle_rank ExecuteMission = 3"
| "lifecycle_rank GoHome = 4"
| "lifecycle_rank Land = 5"
| "lifecycle_rank Complete = 6"
| "lifecycle_rank Abort = 7"

definition forward_step :: "MissionTickInput \<Rightarrow> MissionLifecycleState \<Rightarrow> MissionLifecycleState \<Rightarrow> bool" where
  "forward_step i s s' \<longleftrightarrow> s' \<noteq> Idle \<and> lifecycle_rank s \<le> lifecycle_rank s' \<and>
     (s \<noteq> Complete \<and> s' = Complete \<longrightarrow> \<not> airborne i \<or> confirmed_disarmed i)"

lemma forward_step_refl: "s \<noteq> Idle \<Longrightarrow> forward_step i s s"
  by (simp add: forward_step_def)

lemma forward_step_Abort: "forward_step i Abort s \<Longrightarrow> s = Abort"
  by (cases s) (auto simp: forward_step_def)

lemma forward_step_Complete: "forward_step i Complete s \<Longrightarrow> s = Complete \<or> s = Abort"
  by (cases s) (auto simp: forward_step_def)

lemma lifecycle_step_forward: "lifecycle_step cfg i s s' \<Longrightarrow> s \<noteq> Idle \<Longrightarrow> forward_step i s s'"
  by (cases s; cases s') (auto simp: forward_step_def)

section \<open>The contract\<close>

locale mission_controller =
  fixes ctl :: "MissionTickInput \<Rightarrow> 'c \<Rightarrow> (MissionTickOutput \<times> 'c) result option"
    and ctl_init :: 'c and ctl_inv :: "'c \<Rightarrow> bool" and lc :: "'c \<Rightarrow> MissionLifecycleState"
  assumes inv_init: "ctl_inv ctl_init" and lc_init: "lc ctl_init = Idle"
    and ctl_returns: "ctl_inv c \<Longrightarrow> ctl i c \<noteq> None"
    and ctl_step: "ctl_inv c \<Longrightarrow> ctl i c = Some (Inr (out, c')) \<Longrightarrow>
      ctl_inv c' \<and> to_state out = lc c' \<and> forward_step i (lc c) (lc c')"
    and ctl_command: "ctl_inv c \<Longrightarrow> ctl i c = Some (Inr (out, c')) \<Longrightarrow> to_command out = Some cmd \<Longrightarrow>
      vc_kind cmd \<in> command_kinds (lc c') \<and> (lc c' = lc c \<or> lc c = Idle \<and> lc c' = Prepare)"
    and ctl_complete: "ctl_inv c \<Longrightarrow> ctl i c = Some (Inr (out, c')) \<Longrightarrow> to_status out = ''complete'' \<Longrightarrow>
      lc c' = Complete \<and> confirmed_disarmed i"

section \<open>The object-behaviour controller keeps it\<close>

lemma handled_forward:
  assumes "obm_inv st" and "forward_step i (handled_state st) s'"
  shows "forward_step i (c_state st) s'"
  using assms by (cases "c_state st = Idle")
    (auto simp: handled_state_inv obm_inv_def running_def ObjectController_init_def handled_state_def forward_step_def)

interpretation obm: mission_controller "obm_tick cfg" ObjectController_init obm_inv c_state
proof unfold_locales
  fix c i
  assume inv: "obm_inv c"
  show "obm_tick cfg i c \<noteq> None"
    using inv by (cases rule: obm_tick_cases [where cfg = cfg and input = i]) simp_all
  fix out c'
  assume tick: "obm_tick cfg i c = Some (Inr (out, c'))"
  note eff = obm_tick_effect [OF inv tick]
  have h: "handled_state c \<noteq> Idle" using start_mission_running [OF inv refl] by blast
  have s: "c_state c = handled_state c \<or> c_state c = Idle \<and> handled_state c = Prepare"
    using inv by (auto simp: handled_state_def obm_inv_def running_def ObjectController_init_def)
  have run: "running c'" using inv
    by (cases rule: obm_tick_cases [where cfg = cfg and input = i]) (use tick in \<open>auto simp: tick_effect_def\<close>)
  have fwd: "forward_step i (handled_state c) (c_state c')" using lifecycle_step_forward [OF eff(1) h] .
  show "obm_inv c' \<and> to_state out = c_state c' \<and> forward_step i (c_state c) (c_state c')"
    using run fwd handled_forward [OF inv fwd] eff(2) by (auto simp: obm_inv_def forward_step_def)
  show "vc_kind cmd \<in> command_kinds (c_state c') \<and> (c_state c' = c_state c \<or> c_state c = Idle \<and> c_state c' = Prepare)"
    if "to_command out = Some cmd" for cmd
    using eff(3) [OF that] s by auto
  show "c_state c' = Complete \<and> confirmed_disarmed i" if "to_status out = ''complete''"
  proof -
    from eff(5) [OF that] have c: "handled_state c = Complete" "\<not> c_aborting c" "confirmed_disarmed i" by blast+
    have "c_mission_started c" "c_state c = Complete" using c(1) by (auto simp: handled_state_def split: if_splits)
    with c tick show ?thesis
      by (auto simp: obm_tick_def Let_def start_mission_def tick_state_handler_def tick_complete_def bindO_def confirmed_disarmed_def)
  qed
qed (auto simp: obm_inv_def ObjectController_init_def)

end
