(* ===== verification/Mission_Runtime.thy ===== *)
theory Mission_Runtime
  imports Trajectory_Safety Controller_Contract
begin

text \<open>
  The mission runtime (\<open>behavior/mission_runtime.cpp\<close>, \<open>mission_runtime_dispatch.cpp\<close>): the loop that
  hands the latest world snapshot to a mission controller, sends its commands to the vehicle and
  logs what happens.

  The controller is an argument: \<open>ctl\<close> maps the input and the controller's members to the
  output and the new members, to a message when it throws, and to \<open>None\<close> when it does not return.
  What the surroundings contribute to one tick is a record: the latest snapshot, the clock, what
  the two sinks answer (a message when they throw) and how long the tick and the sending took.  The two
  sinks are members of the runtime; each is kept as the calls it has received, with its answers.
  An event is kept with the values its JSON text is formatted from and its two display fields; the
  log file, the publisher, \<open>stderr\<close> and the camera hand-off callback, which sees each pointing command
  before the camera sink, are not modelled; they are taken not to throw.  The counters of ticks do
  not wrap.

  The calls of other threads (\<open>start\<close>, \<open>request_finish\<close>, \<open>stop\<close>) come between two iterations of the
  loop.  When the controller throws, its members are left as they were before the tick; the loop
  ends there, so no later tick reads them.
\<close>

section \<open>Data\<close>

record MissionRuntimeConfig =
  mr_tick_hz :: double
  mr_verbosity :: int
  mr_max_consecutive_inflight_overruns :: int
  mr_stale_snapshot_warn_ticks :: int

definition MissionRuntimeConfig_default :: MissionRuntimeConfig where
  "MissionRuntimeConfig_default =
    \<lparr>mr_tick_hz = 10, mr_verbosity = 0, mr_max_consecutive_inflight_overruns = 5, mr_stale_snapshot_warn_ticks = 3\<rparr>"

text \<open>A world snapshot with the trajectory check the runtime logs.\<close>

record RuntimeSnapshot = WorldSnapshot +
  ws_has_trajectory_safety :: bool
  ws_trajectory_safety :: TrajectorySafetyResult

record TickEnv =
  env_latest :: "RuntimeSnapshot option"
  env_now :: TimePoint
  env_send :: "VelocityCommand \<Rightarrow> FlightCommandResult result"
  env_send_us :: int
  env_camera_send :: "CameraPointingCommand \<Rightarrow> CameraPointingResult result"
  env_tick_us :: int

datatype RuntimeEvent =
    EvRuntimeStart double
  | EvRuntimeStop nat MissionLifecycleState bool
  | EvFinishRequested nat MissionLifecycleState
  | EvRuntimeError nat string
  | EvTickOverrun nat int int int int
  | EvInflightOverrunAbort nat int int int int MissionLifecycleState
  | EvSnapshotStale nat int u64 MissionLifecycleState
  | EvStateTransition nat MissionLifecycleState MissionLifecycleState string TimePoint double bool
  | EvController nat MissionLifecycleState ControllerEvent
  | EvTrajectorySafety TrajectorySafetyResult nat MissionLifecycleState
  | EvCameraDispatch nat MissionLifecycleState CameraPointingCommand
  | EvCameraException nat MissionLifecycleState string string
  | EvCameraResult nat MissionLifecycleState string CameraPointingResult
  | EvCommandDispatch nat MissionLifecycleState VelocityCommand
  | EvCommandException nat MissionLifecycleState FlightCommandKind string
  | EvCommandResult nat MissionLifecycleState FlightCommandResult

type_synonym display = "(string \<times> string) option"

record 'c MissionRuntime =
  rt_controller :: 'c
  rt_running :: bool
  rt_thread_joinable :: bool
  rt_finish_requested :: bool
  rt_terminal_settled :: bool
  rt_loop_exception :: "string option"
  rt_tick_count :: nat
  rt_tick_command_wait_us :: int
  rt_last_state :: MissionLifecycleState
  rt_tracker :: FlightControlState
  rt_last_command_result :: "FlightCommandResult option"
  rt_last_camera_pointing_result :: "CameraPointingResult option"
  rt_consecutive_inflight_overruns :: int
  rt_last_snapshot_ts_ns :: u64
  rt_consecutive_stale_ticks :: int
  rt_events :: "(RuntimeEvent \<times> display) list"
  rt_command_sink :: "(VelocityCommand \<times> FlightCommandResult result) list"
  rt_camera_pointing_sink :: "(CameraPointingCommand \<times> CameraPointingResult result) list"

definition MissionRuntime_init :: "'c \<Rightarrow> 'c MissionRuntime" where
  "MissionRuntime_init c =
    \<lparr>rt_controller = c, rt_running = False, rt_thread_joinable = False, rt_finish_requested = False,
     rt_terminal_settled = False, rt_loop_exception = None, rt_tick_count = 0, rt_tick_command_wait_us = 0,
     rt_last_state = Idle, rt_tracker = FlightControlState_default, rt_last_command_result = None,
     rt_last_camera_pointing_result = None, rt_consecutive_inflight_overruns = 0, rt_last_snapshot_ts_ns = 0,
     rt_consecutive_stale_ticks = 0, rt_events = [], rt_command_sink = [], rt_camera_pointing_sink = []\<rparr>"

text \<open>The constructor: its arguments may be null, and the log may not open.\<close>

definition MissionRuntime_create ::
    "MissionRuntimeConfig \<Rightarrow> bool \<Rightarrow> 'c option \<Rightarrow> bool \<Rightarrow> string \<Rightarrow> bool \<Rightarrow> 'c MissionRuntime result" where
  "MissionRuntime_create cfg has_snapshots controller has_sink log_path log_opens =
     bindE (throw_if (mr_tick_hz cfg \<le> 0) ''MissionRuntime requires positive tick_hz'') (\<lambda>_.
     bindE (throw_if (\<not> has_snapshots) ''MissionRuntime requires a latest snapshot handoff'') (\<lambda>_.
     case controller of
       None \<Rightarrow> Inl ''MissionRuntime requires a mission controller''
     | Some c \<Rightarrow>
         bindE (throw_if (\<not> has_sink) ''MissionRuntime requires a flight command sink'') (\<lambda>_.
         bindE (throw_if (log_path \<noteq> [] \<and> \<not> log_opens) (''failed to open mission event log: '' @ log_path)) (\<lambda>_.
         Inr (MissionRuntime_init c)))))"

text \<open>The sink that is used when no camera sink is given.\<close>

definition null_camera_send :: "CameraPointingCommand \<Rightarrow> CameraPointingResult result" where
  "null_camera_send c =
     (if \<not> cp_pitch_valid c then Inr \<lparr>cpr_success = False, cpr_status = ''camera_pointing_invalid''\<rparr>
      else Inr \<lparr>cpr_success = True, cpr_status = ''camera_pointing_ignored''\<rparr>)"

section \<open>Display texts\<close>

fun display_primary_for_state :: "MissionLifecycleState \<Rightarrow> string" where
  "display_primary_for_state Prepare = ''Arm''"
| "display_primary_for_state Takeoff = ''Takeoff''"
| "display_primary_for_state ExecuteMission = ''Mission''"
| "display_primary_for_state GoHome = ''GoHome''"
| "display_primary_for_state Land = ''Land''"
| "display_primary_for_state Complete = ''Settled''"
| "display_primary_for_state Abort = ''Failed''"
| "display_primary_for_state Idle = ''Unknown''"

fun display_primary_for_command :: "FlightCommandKind \<Rightarrow> string" where
  "display_primary_for_command CmdArm = ''Arm''"
| "display_primary_for_command CmdTakeoff = ''Takeoff''"
| "display_primary_for_command CmdLand = ''Land''"
| "display_primary_for_command CmdDisarm = ''Disarm''"
| "display_primary_for_command CmdVelocity = ''Mission''"

fun contains :: "string \<Rightarrow> string \<Rightarrow> bool" where
  "contains pat [] \<longleftrightarrow> pat = []"
| "contains pat (c # cs) \<longleftrightarrow> take (length pat) (c # cs) = pat \<or> contains pat cs"

definition compact_display_detail :: "string \<Rightarrow> string" where
  "compact_display_detail status =
     (if status = [] then ''-''
      else if list_ex (\<lambda>p. contains p status) [''failed'', ''error'', ''exception'', ''timeout'', ''abort''] then ''failed''
      else if contains ''arm'' status then ''arming''
      else if contains ''takeoff'' status \<or> contains ''climb'' status then ''climbing''
      else if contains ''land'' status then ''landing''
      else if contains ''home'' status then ''returning''
      else if contains ''complete'' status then ''done''
      else if contains ''object_behavior_arriving'' status then ''arriving''
      else if contains ''object_behavior_following'' status then ''following''
      else if contains ''object_behavior_positioned'' status then ''positioned''
      else if contains ''object_behavior_circling'' status then ''circling''
      else if status = ''ok'' then ''ok''
      else if 12 < length status then take 11 status @ ''~'' else status)"

section \<open>One tick\<close>

definition write_event :: "RuntimeEvent \<Rightarrow> display \<Rightarrow> 'c MissionRuntime \<Rightarrow> 'c MissionRuntime" where
  "write_event e d rt = rt\<lparr>rt_events := rt_events rt @ [(e, d)]\<rparr>"

definition output_is_terminal_settled :: "MissionTickOutput \<Rightarrow> bool" where
  "output_is_terminal_settled out \<longleftrightarrow>
     (to_state out = Complete \<and> to_status out = ''complete'') \<or> (to_state out = Abort \<and> to_status out = ''abort'')"

text \<open>The detection of a snapshot that does not change.\<close>

definition detect_stale :: "MissionRuntimeConfig \<Rightarrow> u64 \<Rightarrow> 'c MissionRuntime \<Rightarrow> 'c MissionRuntime" where
  "detect_stale cfg cur_ts rt =
     (if 0 < cur_ts \<and> cur_ts = rt_last_snapshot_ts_ns rt then
        let n = rt_consecutive_stale_ticks rt + 1; w = mr_stale_snapshot_warn_ticks cfg;
            rt = rt\<lparr>rt_consecutive_stale_ticks := n\<rparr>
        in if 0 < w \<and> w \<le> n \<and> n mod w = 0
           then write_event (EvSnapshotStale (rt_tick_count rt) n cur_ts (rt_last_state rt)) None rt else rt
      else rt\<lparr>rt_consecutive_stale_ticks := 0, rt_last_snapshot_ts_ns := cur_ts\<rparr>)"

definition tick_input :: "RuntimeSnapshot \<Rightarrow> TickEnv \<Rightarrow> 'c MissionRuntime \<Rightarrow> MissionTickInput \<times> 'c MissionRuntime" where
  "tick_input snapshot env rt =
     (let (shown, tracker) = apply_to_snapshot (WorldSnapshot.truncate snapshot) (rt_tracker rt)
      in (\<lparr>ti_now = (if 0 < timestamp_ns (ws_timestamp snapshot) then ws_timestamp snapshot else env_now env),
           ti_snapshot = shown, ti_last_command_result = rt_last_command_result rt,
           ti_finish_requested = rt_finish_requested rt\<rparr>, rt\<lparr>rt_tracker := tracker\<rparr>))"

definition log_output ::
    "MissionRuntimeConfig \<Rightarrow> RuntimeSnapshot \<Rightarrow> MissionTickInput \<Rightarrow> MissionTickOutput \<Rightarrow> MissionLifecycleState \<Rightarrow>
     'c MissionRuntime \<Rightarrow> 'c MissionRuntime" where
  "log_output cfg snapshot input out previous rt =
     (let n = rt_tick_count rt; changed = previous \<noteq> to_state out;
          detailed = 3 \<le> mr_verbosity cfg \<and> (n \<le> 3 \<or> to_command out \<noteq> None);
          rt = (if changed
                then write_event (EvStateTransition n previous (to_state out) (to_status out) (ti_now input)
                       (ego_height_m (ws_ego snapshot)) (ti_finish_requested input))
                       (Some (display_primary_for_state (to_state out), compact_display_detail (to_status out))) rt
                else rt);
          rt = fold (\<lambda>e. write_event (EvController n (to_state out) e) None) (to_events out) rt
      in if ws_has_trajectory_safety snapshot \<and> (changed \<or> detailed \<or> tsr_blocked (ws_trajectory_safety snapshot))
         then write_event (EvTrajectorySafety (ws_trajectory_safety snapshot) n (to_state out)) None rt else rt)"

text \<open>A call of a sink: it sees the command and answers.\<close>

definition camera_sink_send :: "TickEnv \<Rightarrow> CameraPointingCommand \<Rightarrow> 'c MissionRuntime \<Rightarrow> CameraPointingResult result \<times> 'c MissionRuntime" where
  "camera_sink_send env c rt =
     (let answer = env_camera_send env c
      in (answer, rt\<lparr>rt_camera_pointing_sink := rt_camera_pointing_sink rt @ [(c, answer)]\<rparr>))"

definition command_sink_send :: "TickEnv \<Rightarrow> VelocityCommand \<Rightarrow> 'c MissionRuntime \<Rightarrow> FlightCommandResult result \<times> 'c MissionRuntime" where
  "command_sink_send env c rt =
     (let answer = env_send env c in (answer, rt\<lparr>rt_command_sink := rt_command_sink rt @ [(c, answer)]\<rparr>))"

definition dispatch_camera_pointing ::
    "TickEnv \<Rightarrow> MissionTickOutput \<Rightarrow> CameraPointingCommand \<Rightarrow> 'c MissionRuntime \<Rightarrow> 'c MissionRuntime" where
  "dispatch_camera_pointing env out c rt =
     (let n = rt_tick_count rt; s = to_state out;
          rt = write_event (EvCameraDispatch n s c)
                 (Some (''Camera'', if cp_mode c = [] then ''pointing'' else cp_mode c)) rt;
          (answer, rt) = camera_sink_send env c rt;
          (res, rt) = (case answer of
                         Inr r \<Rightarrow> (r, rt)
                       | Inl e \<Rightarrow> (\<lparr>cpr_success = False, cpr_status = e\<rparr>,
                                   write_event (EvCameraException n s (cp_mode c) e) (Some (''Failed'', ''camera'')) rt));
          rt = rt\<lparr>rt_last_camera_pointing_result := Some res\<rparr>
      in write_event (EvCameraResult n s (cp_mode c) res)
           (Some (if cpr_success res then (''Camera'', cp_mode c) else (''Failed'', ''camera''))) rt)"

definition send_command ::
    "TickEnv \<Rightarrow> MissionTickInput \<Rightarrow> MissionTickOutput \<Rightarrow> VelocityCommand \<Rightarrow> 'c MissionRuntime \<Rightarrow>
     FlightCommandResult \<times> 'c MissionRuntime" where
  "send_command env input out c rt =
     (let (answer, rt) = command_sink_send env c rt
      in case answer of
        Inr r \<Rightarrow>
          (r, rt\<lparr>rt_last_command_result := Some r,
                 rt_tracker := (if fcr_success r then on_command_dispatched (vc_kind c) (ti_now input) (fcr_status r) (rt_tracker rt)
                                else on_command_failed (vc_kind c) (ti_now input) (fcr_status r) (rt_tracker rt))\<rparr>)
      | Inl e \<Rightarrow>
          let r = \<lparr>fcr_kind = vc_kind c, fcr_success = False, fcr_status = e\<rparr>
          in (r, write_event (EvCommandException (rt_tick_count rt) (to_state out) (vc_kind c) e)
                   (Some (''Failed'', display_primary_for_command (vc_kind c)))
                   (rt\<lparr>rt_last_command_result := Some r,
                       rt_tracker := on_command_failed (vc_kind c) (ti_now input) e (rt_tracker rt)\<rparr>)))"

definition dispatch_command ::
    "TickEnv \<Rightarrow> MissionTickInput \<Rightarrow> MissionTickOutput \<Rightarrow> VelocityCommand \<Rightarrow> 'c MissionRuntime \<Rightarrow> 'c MissionRuntime" where
  "dispatch_command env input out c rt =
     (let n = rt_tick_count rt; s = to_state out;
          rt = write_event (EvCommandDispatch n s c)
                 (Some (display_primary_for_command (vc_kind c),
                        if vc_kind c = CmdVelocity then compact_display_detail (to_status out) else ''send'')) rt;
          (r, rt) = send_command env input out c rt;
          rt = rt\<lparr>rt_tick_command_wait_us := rt_tick_command_wait_us rt + env_send_us env\<rparr>
      in write_event (EvCommandResult n s r)
           (Some (if fcr_success r
                  then (display_primary_for_command (fcr_kind r),
                        if fcr_kind r = CmdVelocity then compact_display_detail (to_status out) else ''ok'')
                  else (''Failed'', display_primary_for_command (fcr_kind r)))) rt)"

definition tick_once ::
    "(MissionTickInput \<Rightarrow> 'c \<Rightarrow> (MissionTickOutput \<times> 'c) result option) \<Rightarrow> MissionRuntimeConfig \<Rightarrow> TickEnv \<Rightarrow> 'c MissionRuntime \<Rightarrow>
     (bool result \<times> 'c MissionRuntime) option" where
  "tick_once ctl cfg env rt =
     (let rt = rt\<lparr>rt_tick_command_wait_us := 0\<rparr>
      in case env_latest env of
           None \<Rightarrow> Some (Inr False, rt)
         | Some snapshot \<Rightarrow>
             let rt = detect_stale cfg (of_int (timestamp_ns (ws_timestamp snapshot))) rt;
                 (input, rt) = tick_input snapshot env rt
             in case ctl input (rt_controller rt) of
                  None \<Rightarrow> None
                | Some (Inl e) \<Rightarrow> Some (Inl e, rt)
                | Some (Inr (out, c)) \<Rightarrow>
                    let previous = rt_last_state rt;
                        rt = rt\<lparr>rt_controller := c, rt_last_state := to_state out,
                                rt_terminal_settled := rt_terminal_settled rt \<or> output_is_terminal_settled out,
                                rt_tick_count := rt_tick_count rt + 1\<rparr>;
                        rt = log_output cfg snapshot input out previous rt;
                        rt = (case to_camera_pointing out of None \<Rightarrow> rt | Some p \<Rightarrow> dispatch_camera_pointing env out p rt);
                        rt = (case to_command out of None \<Rightarrow> rt | Some k \<Rightarrow> dispatch_command env input out k rt)
                    in Some (Inr True, rt))"

section \<open>The loop\<close>

text \<open>
  \<open>static_cast<std::int64_t>(1'000'000.0 / tick_hz)\<close>.  A conversion that does not fit is undefined;
  the model takes what the usual processors give.
\<close>

definition budget_us :: "MissionRuntimeConfig \<Rightarrow> int" where
  "budget_us cfg =
     (case 1000000 / mr_tick_hz cfg of
        Fin x \<Rightarrow> if \<bar>x\<bar> < 2 ^ 63 then (if 0 \<le> x then \<lfloor>x\<rfloor> else \<lceil>x\<rceil>) else - (2 ^ 63)
      | _ \<Rightarrow> - (2 ^ 63))"

definition inflight :: "MissionLifecycleState \<Rightarrow> bool" where
  "inflight s \<longleftrightarrow> s = ExecuteMission \<or> s = GoHome"

definition count_overrun :: "MissionRuntimeConfig \<Rightarrow> int \<Rightarrow> 'c MissionRuntime \<Rightarrow> 'c MissionRuntime" where
  "count_overrun cfg tick_us rt =
     (let budget = budget_us cfg; wait = rt_tick_command_wait_us rt; compute = max 0 (tick_us - wait);
          rt = (if budget \<le> compute
                then write_event (EvTickOverrun (rt_tick_count rt) compute tick_us wait budget) None rt else rt)
      in if budget \<le> compute \<and> inflight (rt_last_state rt) then
           let n = rt_consecutive_inflight_overruns rt + 1; limit = mr_max_consecutive_inflight_overruns cfg;
               rt = rt\<lparr>rt_consecutive_inflight_overruns := n\<rparr>
           in if 0 < limit \<and> limit \<le> n \<and> \<not> rt_finish_requested rt
              then (write_event (EvInflightOverrunAbort (rt_tick_count rt) n compute tick_us budget (rt_last_state rt)) None rt)
                     \<lparr>rt_finish_requested := True\<rparr>
              else rt
         else rt\<lparr>rt_consecutive_inflight_overruns := 0\<rparr>)"

text \<open>The body of the loop up to the sleep.\<close>

definition loop_iteration ::
    "(MissionTickInput \<Rightarrow> 'c \<Rightarrow> (MissionTickOutput \<times> 'c) result option) \<Rightarrow> MissionRuntimeConfig \<Rightarrow> TickEnv \<Rightarrow> 'c MissionRuntime \<Rightarrow>
     'c MissionRuntime option" where
  "loop_iteration ctl cfg env rt =
     (case tick_once ctl cfg env rt of
        None \<Rightarrow> None
      | Some (Inl e, rt) \<Rightarrow>
          Some ((write_event (EvRuntimeError (rt_tick_count rt) e) None (rt\<lparr>rt_loop_exception := Some e\<rparr>))\<lparr>rt_running := False\<rparr>)
      | Some (Inr _, rt) \<Rightarrow> Some (count_overrun cfg (env_tick_us env) rt))"

text \<open>
  \<open>start\<close> assigns a new thread; when the old one is still joinable the assignment calls
  \<open>std::terminate\<close>.
\<close>

definition rt_start :: "MissionRuntimeConfig \<Rightarrow> 'c MissionRuntime \<Rightarrow> 'c MissionRuntime result" where
  "rt_start cfg rt =
     (if rt_running rt then Inr rt
      else let rt = write_event (EvRuntimeStart (mr_tick_hz cfg)) (Some (''Unknown'', ''start'')) (rt\<lparr>rt_running := True\<rparr>)
           in if rt_thread_joinable rt then Inl ''std::terminate'' else Inr (rt\<lparr>rt_thread_joinable := True\<rparr>))"

definition rt_stop :: "'c MissionRuntime \<Rightarrow> 'c MissionRuntime" where
  "rt_stop rt =
     (let was_running = rt_running rt; rt = rt\<lparr>rt_running := False, rt_thread_joinable := False\<rparr>
      in if was_running \<or> 0 < rt_tick_count rt
         then write_event (EvRuntimeStop (rt_tick_count rt) (rt_last_state rt) (rt_terminal_settled rt))
                (Some (if rt_terminal_settled rt then (''Settled'', ''done'') else (''Failed'', ''stopped''))) rt
         else rt)"

definition rt_request_finish :: "'c MissionRuntime \<Rightarrow> 'c MissionRuntime" where
  "rt_request_finish rt =
     write_event (EvFinishRequested (rt_tick_count rt) (rt_last_state rt))
       (Some (display_primary_for_state (rt_last_state rt), ''finish'')) (rt\<lparr>rt_finish_requested := True\<rparr>)"

end
