(* ===== verification/Velocity_Trajectory.thy ===== *)
theory Velocity_Trajectory
  imports Behavior_Config Follow_Geometry
begin

text \<open>
  Scripted velocity trajectories (\<open>behavior/velocity_trajectory.cpp\<close>) and the reader of their JSON
  files (\<open>velocity_trajectory_parse.cpp\<close>), which searches the text for keys instead of parsing it.

  A position in a text is a natural number and \<open>std::string::npos\<close> is \<open>None\<close>.
  \<open>std::stod\<close> is the argument \<open>stod\<close> of the readers, as in the behaviour specification.
  \<open>std::sort\<close> leaves the order of keyframes with equal times open; the model keeps it.
\<close>

section \<open>Trajectories\<close>

record TrajectoryKeyframe =
  kf_t_s :: double
  kf_vx_mps :: double
  kf_vy_mps :: double
  kf_vz_mps :: double

record TrajectorySegment =
  seg_type :: string
  seg_label :: string
  seg_duration_s :: double
  seg_vx_mps :: double
  seg_vy_mps :: double
  seg_vz_mps :: double
  seg_speed_mps :: double
  seg_radius_m :: double
  seg_scale_m :: double
  seg_yaw_offset_rad :: double
  seg_direction :: string
  seg_keyframes :: "TrajectoryKeyframe list"

type_synonym VelocityTrajectory = "TrajectorySegment list"

definition default_hold :: "double \<Rightarrow> VelocityTrajectory" where
  "default_hold duration =
     [\<lparr>seg_type = ''hold'', seg_label = ''default_hold'', seg_duration_s = duration, seg_vx_mps = 0, seg_vy_mps = 0,
       seg_vz_mps = 0, seg_speed_mps = 0, seg_radius_m = 1, seg_scale_m = 1, seg_yaw_offset_rad = 0,
       seg_direction = ''ccw'', seg_keyframes = []\<rparr>]"

definition lerp :: "double \<Rightarrow> double \<Rightarrow> double \<Rightarrow> double" where
  "lerp a b u = a + (b - a) * u"

definition keyframe_velocity :: "TrajectoryKeyframe \<Rightarrow> Vec3" where
  "keyframe_velocity k = vec3 (kf_vx_mps k) (kf_vy_mps k) (kf_vz_mps k)"

definition micro :: double where "micro = Fin (1/1000000)"

text \<open>The loop over adjacent keyframes.\<close>

fun interpolate_between :: "TrajectoryKeyframe list \<Rightarrow> double \<Rightarrow> Vec3" where
  "interpolate_between (a # b # ks) t =
     (if kf_t_s a \<le> t \<and> t \<le> kf_t_s b then
        let u = (t - kf_t_s a) / std_max (kf_t_s b - kf_t_s a) micro
        in vec3 (lerp (kf_vx_mps a) (kf_vx_mps b) u) (lerp (kf_vy_mps a) (kf_vy_mps b) u)
                (lerp (kf_vz_mps a) (kf_vz_mps b) u)
      else interpolate_between (b # ks) t)"
| "interpolate_between [a] t = keyframe_velocity a"
| "interpolate_between [] t = vec3_zero"

definition interpolate_keyframes :: "TrajectoryKeyframe list \<Rightarrow> double \<Rightarrow> Vec3" where
  "interpolate_keyframes ks t =
     (if ks = [] then vec3_zero
      else if t \<le> kf_t_s (hd ks) then keyframe_velocity (hd ks)
      else if kf_t_s (last ks) \<le> t then keyframe_velocity (last ks)
      else interpolate_between ks t)"

definition segment_speed :: "TrajectorySegment \<Rightarrow> double" where
  "segment_speed s = (if 0 < seg_speed_mps s then seg_speed_mps s else 2)"

definition segment_velocity :: "TrajectorySegment \<Rightarrow> double \<Rightarrow> Vec3 result" where
  "segment_velocity s elapsed =
     (if seg_type s = ''hold'' then Inr (vec3 (seg_vx_mps s) (seg_vy_mps s) (seg_vz_mps s))
      else if seg_type s = ''velocity_keyframes'' then Inr (interpolate_keyframes (seg_keyframes s) elapsed)
      else if seg_type s = ''circle_velocity'' then
        let speed = segment_speed s; radius = std_max (seg_radius_m s) micro;
            sign = (if seg_direction s = ''cw'' then - 1 else 1); theta = speed / radius * elapsed
        in Inr (vec3 (speed * std_cos theta) (sign * speed * std_sin theta) (seg_vz_mps s))
      else if seg_type s = ''figure8_velocity'' then
        let duration = std_max (seg_duration_s s) micro; speed = segment_speed s; scale = std_max (seg_scale_m s) micro;
            theta = 2 * Fin pi * elapsed / duration;
            dx = scale * std_cos theta; dy = scale * std_cos (2 * theta);
            norm = std_max (std_hypot dx dy) micro
        in Inr (vec3 (speed * dx / norm) (speed * dy / norm) (seg_vz_mps s))
      else Inl (''unknown trajectory segment type: '' @ seg_type s))"

text \<open>\<open>segments_.at\<close> throws \<open>std::out_of_range\<close>.\<close>

definition velocity_at :: "VelocityTrajectory \<Rightarrow> nat \<Rightarrow> double \<Rightarrow> Vec3 result" where
  "velocity_at segs i elapsed =
     (if i < length segs then segment_velocity (segs ! i) elapsed else Inl ''vector::_M_range_check'')"

section \<open>Searching a text\<close>

fun find_sub :: "string \<Rightarrow> string \<Rightarrow> nat option" where
  "find_sub pat [] = (if pat = [] then Some 0 else None)"
| "find_sub pat (c # cs) = (if take (length pat) (c # cs) = pat then Some 0 else map_option Suc (find_sub pat cs))"

definition find_from :: "string \<Rightarrow> string \<Rightarrow> nat \<Rightarrow> nat option" where
  "find_from text pat pos = (if length text < pos then None else map_option ((+) pos) (find_sub pat (drop pos text)))"

fun find_char :: "(char \<Rightarrow> bool) \<Rightarrow> string \<Rightarrow> nat option" where
  "find_char P [] = None"
| "find_char P (c # cs) = (if P c then Some 0 else map_option Suc (find_char P cs))"

definition find_char_from :: "string \<Rightarrow> (char \<Rightarrow> bool) \<Rightarrow> nat \<Rightarrow> nat option" where
  "find_char_from text P pos = map_option ((+) pos) (find_char P (drop pos text))"

definition sub_string :: "string \<Rightarrow> nat \<Rightarrow> nat \<Rightarrow> string" where
  "sub_string text i j = take (j - i) (drop i text)"

definition key_marker :: "string \<Rightarrow> string" where
  "key_marker key = [chr_quote] @ key @ [chr_quote]"

text \<open>\<open>find_matching_delim\<close> from the characters left, with the depth and the two flags.\<close>

fun matching_loop :: "char \<Rightarrow> char \<Rightarrow> string \<Rightarrow> int \<Rightarrow> bool \<Rightarrow> bool \<Rightarrow> nat option" where
  "matching_loop op cl [] depth in_string escaped = None"
| "matching_loop op cl (ch # cs) depth in_string escaped =
     (if escaped then map_option Suc (matching_loop op cl cs depth in_string False)
      else if ch = chr_backslash then map_option Suc (matching_loop op cl cs depth in_string True)
      else if ch = chr_quote then map_option Suc (matching_loop op cl cs depth (\<not> in_string) False)
      else if in_string then map_option Suc (matching_loop op cl cs depth in_string False)
      else if ch = op then map_option Suc (matching_loop op cl cs (depth + 1) in_string False)
      else if ch = cl then
        (if depth - 1 = 0 then Some 0 else map_option Suc (matching_loop op cl cs (depth - 1) in_string False))
      else map_option Suc (matching_loop op cl cs depth in_string False))"

definition find_matching_delim :: "string \<Rightarrow> nat \<Rightarrow> char \<Rightarrow> char \<Rightarrow> nat result" where
  "find_matching_delim text open_pos op cl =
     (case matching_loop op cl (drop open_pos text) 0 False False of
        None \<Rightarrow> Inl ''trajectory JSON has unmatched delimiter''
      | Some i \<Rightarrow> Inr (open_pos + i))"

definition find_string_or :: "string \<Rightarrow> string \<Rightarrow> string \<Rightarrow> string" where
  "find_string_or body key fallback =
     (case find_from body (key_marker key) 0 of
        None \<Rightarrow> fallback
      | Some key_pos \<Rightarrow>
          (case find_char_from body (\<lambda>c. c = CHR '':'') (key_pos + length (key_marker key)) of
             None \<Rightarrow> fallback
           | Some colon_pos \<Rightarrow>
               (case find_char_from body (\<lambda>c. c = chr_quote) colon_pos of
                  None \<Rightarrow> fallback
                | Some open_pos \<Rightarrow>
                    (case find_char_from body (\<lambda>c. c = chr_quote) (open_pos + 1) of
                       None \<Rightarrow> fallback
                     | Some close_pos \<Rightarrow> sub_string body (open_pos + 1) close_pos))))"

definition value_token :: "string \<Rightarrow> nat \<Rightarrow> string" where
  "value_token body value_start =
     sub_string body value_start
       (case find_char_from body (\<lambda>c. c \<notin> set ''-0123456789.eE+'') value_start of None \<Rightarrow> length body | Some e \<Rightarrow> e)"

definition find_number_or :: "stod_fun \<Rightarrow> string \<Rightarrow> string \<Rightarrow> double \<Rightarrow> double result" where
  "find_number_or stod body key fallback =
     (case find_from body (key_marker key) 0 of
        None \<Rightarrow> Inr fallback
      | Some key_pos \<Rightarrow>
          (case find_char_from body (\<lambda>c. c = CHR '':'') (key_pos + length (key_marker key)) of
             None \<Rightarrow> Inr fallback
           | Some colon_pos \<Rightarrow>
               (case find_char_from body (\<lambda>c. c \<in> set ''-0123456789.'') (colon_pos + 1) of
                  None \<Rightarrow> Inr fallback
                | Some value_start \<Rightarrow>
                    (case stod (value_token body value_start) of
                       None \<Rightarrow> Inl ''stod''
                     | Some (v, _) \<Rightarrow> Inr v))))"

section \<open>Reading a trajectory\<close>

text \<open>
  The loops of \<open>parse_segments\<close> and \<open>parse_keyframes\<close> over the objects of an array have the same
  shape: each object's text is read by \<open>f\<close>, and the first error ends the loop.
\<close>

lemma find_char_from_ge: "find_char_from text P pos = Some i \<Longrightarrow> pos \<le> i \<and> i < length text"
proof -
  have "find_char P cs = Some j \<Longrightarrow> j < length cs" for cs j
    by (induction cs arbitrary: j) (auto split: if_splits)
  then show "find_char_from text P pos = Some i \<Longrightarrow> pos \<le> i \<and> i < length text"
    by (fastforce simp: find_char_from_def)
qed

lemma find_matching_delim_ge: "find_matching_delim text pos op cl = Inr i \<Longrightarrow> pos \<le> i"
  by (auto simp: find_matching_delim_def split: option.splits)

function for_objects :: "(string \<Rightarrow> 'a result) \<Rightarrow> string \<Rightarrow> nat \<Rightarrow> nat \<Rightarrow> 'a list result" where
  "for_objects f text cursor array_close =
     (if array_close \<le> cursor then Inr []
      else case find_char_from text (\<lambda>c. c = CHR 0x7B) cursor of
             None \<Rightarrow> Inr []
           | Some object_open \<Rightarrow>
               if array_close < object_open then Inr []
               else bindE (find_matching_delim text object_open (CHR 0x7B) (CHR 0x7D)) (\<lambda>object_close.
                    bindE (f (sub_string text object_open (object_close + 1))) (\<lambda>x.
                    bindE (for_objects f text (object_close + 1) array_close) (\<lambda>xs. Inr (x # xs)))))"
  by pat_completeness auto
termination
  by (relation "measure (\<lambda>(f, text, cursor, close). close - cursor)")
    (auto dest!: find_char_from_ge find_matching_delim_ge)

declare for_objects.simps [simp del]

definition array_after :: "string \<Rightarrow> nat \<Rightarrow> string \<Rightarrow> (nat \<times> nat) result" where
  "array_after text pos missing =
     (case find_char_from text (\<lambda>c. c = CHR ''['') pos of
        None \<Rightarrow> Inl missing
      | Some array_open \<Rightarrow>
          bindE (find_matching_delim text array_open (CHR ''['') (CHR '']'')) (\<lambda>array_close. Inr (array_open, array_close)))"

definition parse_keyframe :: "stod_fun \<Rightarrow> string \<Rightarrow> TrajectoryKeyframe result" where
  "parse_keyframe stod body =
     bindE (find_number_or stod body ''t'' 0) (\<lambda>t.
     bindE (find_number_or stod body ''vx_mps'' 0) (\<lambda>x.
     bindE (find_number_or stod body ''vy_mps'' 0) (\<lambda>y.
     bindE (find_number_or stod body ''vz_mps'' 0) (\<lambda>z.
     Inr \<lparr>kf_t_s = t, kf_vx_mps = x, kf_vy_mps = y, kf_vz_mps = z\<rparr>))))"

fun insert_keyframe :: "TrajectoryKeyframe \<Rightarrow> TrajectoryKeyframe list \<Rightarrow> TrajectoryKeyframe list" where
  "insert_keyframe k [] = [k]"
| "insert_keyframe k (l # ls) = (if kf_t_s l < kf_t_s k then l # insert_keyframe k ls else k # l # ls)"

definition sort_keyframes :: "TrajectoryKeyframe list \<Rightarrow> TrajectoryKeyframe list" where
  "sort_keyframes ks = foldr insert_keyframe ks []"

definition parse_keyframes :: "stod_fun \<Rightarrow> string \<Rightarrow> TrajectoryKeyframe list result" where
  "parse_keyframes stod body =
     (case find_from body (key_marker ''keyframes'') 0 of
        None \<Rightarrow> Inr []
      | Some pos \<Rightarrow>
          bindE (array_after body pos ''trajectory keyframes field is missing an array'') (\<lambda>(array_open, array_close).
          bindE (for_objects (parse_keyframe stod) body (array_open + 1) array_close) (\<lambda>ks. Inr (sort_keyframes ks))))"

text \<open>The members of a segment in the order the code reads them.\<close>

definition parse_segment_fields :: "stod_fun \<Rightarrow> string \<Rightarrow> TrajectorySegment result" where
  "parse_segment_fields stod body =
     (let ty = find_string_or body ''type'' ''hold'' in
     bindE (find_number_or stod body ''duration'' 0) (\<lambda>fallback.
     bindE (find_number_or stod body ''duration_s'' fallback) (\<lambda>duration.
     bindE (find_number_or stod body ''vx_mps'' 0) (\<lambda>x.
     bindE (find_number_or stod body ''vy_mps'' 0) (\<lambda>y.
     bindE (find_number_or stod body ''vz_mps'' 0) (\<lambda>z.
     bindE (find_number_or stod body ''speed_mps'' 0) (\<lambda>speed.
     bindE (find_number_or stod body ''radius_m'' 1) (\<lambda>radius.
     bindE (find_number_or stod body ''scale_m'' radius) (\<lambda>scale.
     bindE (find_number_or stod body ''yaw_offset_rad'' 0) (\<lambda>yaw.
     bindE (parse_keyframes stod body) (\<lambda>ks.
     Inr \<lparr>seg_type = ty, seg_label = find_string_or body ''label'' ty, seg_duration_s = duration, seg_vx_mps = x,
          seg_vy_mps = y, seg_vz_mps = z, seg_speed_mps = speed, seg_radius_m = radius, seg_scale_m = scale,
          seg_yaw_offset_rad = yaw, seg_direction = map to_lower (find_string_or body ''direction'' ''ccw''),
          seg_keyframes = ks\<rparr>)))))))))))"

text \<open>A segment without a positive duration is skipped: \<open>None\<close>.\<close>

definition parse_segment :: "stod_fun \<Rightarrow> string \<Rightarrow> TrajectorySegment option result" where
  "parse_segment stod body =
     bindE (parse_segment_fields stod body) (\<lambda>s.
     bindE (throw_if (seg_type s = ''velocity_keyframes'' \<and> seg_keyframes s = [])
              ''trajectory velocity_keyframes segment missing keyframes'') (\<lambda>_.
     let s = (if seg_type s = ''velocity_keyframes'' then s\<lparr>seg_duration_s := kf_t_s (last (seg_keyframes s))\<rparr> else s)
     in Inr (if seg_duration_s s \<le> 0 then None else Some s)))"

definition parse_segments :: "stod_fun \<Rightarrow> string \<Rightarrow> TrajectorySegment list result" where
  "parse_segments stod text =
     (case find_from text (key_marker ''segments'') 0 of
        None \<Rightarrow> Inl (''trajectory JSON missing required '' @ [chr_apostrophe] @ ''segments'' @ [chr_apostrophe] @ '' array'')
      | Some pos \<Rightarrow>
          bindE (array_after text pos ''trajectory JSON has invalid segments array'') (\<lambda>(array_open, array_close).
          bindE (for_objects (parse_segment stod) text (array_open + 1) array_close) (\<lambda>ss.
          Inr (map the (filter (\<lambda>s. s \<noteq> None) ss)))))"

definition parse_json :: "stod_fun \<Rightarrow> string \<Rightarrow> VelocityTrajectory result" where
  "parse_json stod text = parse_segments stod text"

end
