(* ===== verification/Trajectory_Controller.thy ===== *)
theory Trajectory_Controller
  imports Velocity_Trajectory Object_Properties
begin

text \<open>
  The trajectory mission controller (\<open>behavior/trajectory_mission_controller*.cpp\<close>): the same life
  cycle as the object-behaviour controller, with a scripted trajectory as the mission.

  The functions of the anonymous namespaces that both controllers define with the same text
  (\<open>seconds_between\<close>, \<open>elapsed_at_least\<close>, \<open>norm_xy\<close>, \<open>velocity_toward_xy\<close>,
  \<open>last_result_matches_success\<close>, the heights and \<open>kHeadingEpsilonMps\<close>) and the member functions with
  the same text (\<open>command_with_kind\<close>, the defaults of a velocity command) are those of the other controller.
  A tick throws when the current segment has an unknown type.
\<close>

section \<open>State\<close>

record TrajectoryMissionConfig =
  tj_safe_height_m :: double
  tj_takeoff_velocity_mps :: double
  tj_go_home_velocity_mps :: double
  tj_yaw_offset_rad :: double
  tj_arm_retry_interval_s :: double
  tj_arm_timeout_s :: double
  tj_arm_dispatch_fallback_s :: double
  tj_takeoff_retry_interval_s :: double
  tj_land_timeout_s :: double
  tj_disarm_retry_interval_s :: double
  tj_disarm_timeout_s :: double
  tj_trajectory :: VelocityTrajectory

definition TrajectoryMissionConfig_default :: TrajectoryMissionConfig where
  "TrajectoryMissionConfig_default =
    \<lparr>tj_safe_height_m = 8, tj_takeoff_velocity_mps = 1, tj_go_home_velocity_mps = 1, tj_yaw_offset_rad = 0,
     tj_arm_retry_interval_s = 1, tj_arm_timeout_s = 10, tj_arm_dispatch_fallback_s = 0,
     tj_takeoff_retry_interval_s = 1, tj_land_timeout_s = 60, tj_disarm_retry_interval_s = 1,
     tj_disarm_timeout_s = 10, tj_trajectory = default_hold 1\<rparr>"

record TrajectoryController =
  t_state :: MissionLifecycleState
  t_mission_start :: TimePoint
  t_state_start :: TimePoint
  t_arm_last_command_time :: TimePoint
  t_takeoff_last_command_time :: TimePoint
  t_land_last_command_time :: TimePoint
  t_disarm_last_command_time :: TimePoint
  t_mission_started :: bool
  t_home_initialized :: bool
  t_arm_command_sent :: bool
  t_takeoff_command_sent :: bool
  t_land_command_sent :: bool
  t_disarm_command_sent :: bool
  t_aborting :: bool
  t_abort_reason :: string
  t_home_pose :: Pose3
  t_segment_index :: nat
  t_segment_elapsed_s :: double
  t_last_tick_time :: TimePoint

definition TrajectoryController_init :: TrajectoryController where
  "TrajectoryController_init =
    \<lparr>t_state = Idle, t_mission_start = time_zero, t_state_start = time_zero, t_arm_last_command_time = time_zero,
     t_takeoff_last_command_time = time_zero, t_land_last_command_time = time_zero,
     t_disarm_last_command_time = time_zero, t_mission_started = False, t_home_initialized = False,
     t_arm_command_sent = False, t_takeoff_command_sent = False, t_land_command_sent = False,
     t_disarm_command_sent = False, t_aborting = False, t_abort_reason = [],
     t_home_pose = \<lparr>position = vec3_zero, rotation_rpy = vec3_zero\<rparr>, t_segment_index = 0, t_segment_elapsed_s = 0,
     t_last_tick_time = time_zero\<rparr>"

text \<open>The constructor's repair of an empty trajectory.\<close>

definition TrajectoryMissionController :: "TrajectoryMissionConfig \<Rightarrow> TrajectoryMissionConfig" where
  "TrajectoryMissionController cfg =
     (if tj_trajectory cfg = [] then cfg\<lparr>tj_trajectory := default_hold 1\<rparr> else cfg)"

section \<open>Commands\<close>

definition tj_command_from_velocity :: "TimePoint \<Rightarrow> Vec3 \<Rightarrow> double \<Rightarrow> VelocityCommand" where
  "tj_command_from_velocity t v yaw_offset =
     (let c = plain_velocity_command t v
      in if kHeadingEpsilonMps < norm_xy v
         then c\<lparr>vc_yaw_valid := True, vc_yaw_rad := std_atan2 (vy v) (vx v) + yaw_offset\<rparr> else c)"

definition trajectory_command :: "TrajectoryMissionConfig \<Rightarrow> TimePoint \<Rightarrow> TrajectoryController \<Rightarrow> VelocityCommand result" where
  "trajectory_command cfg t st =
     bindE (velocity_at (tj_trajectory cfg) (t_segment_index st) (t_segment_elapsed_s st)) (\<lambda>v.
     Inr (tj_command_from_velocity t v (tj_yaw_offset_rad cfg + seg_yaw_offset_rad (tj_trajectory cfg ! t_segment_index st))))"

definition trajectory_complete :: "TrajectoryMissionConfig \<Rightarrow> TrajectoryController \<Rightarrow> bool" where
  "trajectory_complete cfg st \<longleftrightarrow> length (tj_trajectory cfg) \<le> t_segment_index st"

function advance_segment :: "VelocityTrajectory \<Rightarrow> nat \<Rightarrow> double \<Rightarrow> nat \<times> double" where
  "advance_segment segs i elapsed =
     (if i < length segs \<and> seg_duration_s (segs ! i) \<le> elapsed
      then advance_segment segs (i + 1) (elapsed - seg_duration_s (segs ! i))
      else (i, elapsed))"
  by pat_completeness auto
termination by (relation "measure (\<lambda>(segs, i, e). length segs - i)") auto

declare advance_segment.simps [simp del]

definition advance_segment_if_needed :: "TrajectoryMissionConfig \<Rightarrow> TrajectoryController \<Rightarrow> TrajectoryController" where
  "advance_segment_if_needed cfg st =
     (let (i, e) = advance_segment (tj_trajectory cfg) (t_segment_index st) (t_segment_elapsed_s st)
      in st\<lparr>t_segment_index := i, t_segment_elapsed_s := e\<rparr>)"

definition tj_begin_abort_recovery :: "TimePoint \<Rightarrow> double \<Rightarrow> string \<Rightarrow> TrajectoryController \<Rightarrow> TrajectoryController" where
  "tj_begin_abort_recovery now height reason st =
     (let st = st\<lparr>t_aborting := True, t_abort_reason := reason, t_state_start := now\<rparr>
      in if kLandHeightM < height
         then st\<lparr>t_state := (if t_home_initialized st then GoHome else Land)\<rparr>
         else st\<lparr>t_state := Complete\<rparr>)"

section \<open>The tick\<close>

type_synonym traj_state = "MissionTickOutput \<times> TrajectoryController"

definition traj_prepare :: "TrajectoryMissionConfig \<Rightarrow> MissionTickInput \<Rightarrow> double \<Rightarrow> traj_state \<Rightarrow> traj_state" where
  "traj_prepare cfg input height s =
     (let (out, st) = s; now = ti_now input; ego = ws_ego (ti_snapshot input)
      in if ti_finish_requested input \<and> ego_armed_valid ego \<and> \<not> ego_armed ego then
           (out\<lparr>to_status := ''finish_requested_before_arm''\<rparr>, st\<lparr>t_state := Complete, t_state_start := now\<rparr>)
         else if ego_armed_valid ego \<and> ego_armed ego then
           (out\<lparr>to_status := ''armed_confirmed_by_ego''\<rparr>, st\<lparr>t_state := Takeoff, t_state_start := now\<rparr>)
         else if 0 < tj_arm_dispatch_fallback_s cfg \<and> last_result_matches_success (ti_last_command_result input) CmdArm \<and>
                 elapsed_at_least (t_arm_last_command_time st) now (tj_arm_dispatch_fallback_s cfg) then
           (out\<lparr>to_status := ''arm_dispatch_ok_waiting_for_takeoff_height''\<rparr>, st\<lparr>t_state := Takeoff, t_state_start := now\<rparr>)
         else if elapsed_at_least (t_state_start st) now (tj_arm_timeout_s cfg) then
           (if ego_armed_valid ego \<and> \<not> ego_armed ego
            then (out\<lparr>to_status := ''abort''\<rparr>, st\<lparr>t_state := Abort\<rparr>)
            else (out\<lparr>to_status := ''abort_recovery_start_arm_timeout''\<rparr>, tj_begin_abort_recovery now height ''arm_timeout'' st))
         else if \<not> t_arm_command_sent st \<or> elapsed_at_least (t_arm_last_command_time st) now (tj_arm_retry_interval_s cfg) then
           (out\<lparr>to_command := Some (command_with_kind now CmdArm), to_status := ''arming''\<rparr>,
            st\<lparr>t_arm_command_sent := True, t_arm_last_command_time := now\<rparr>)
         else (out\<lparr>to_status := (if ego_armed_valid ego then ''waiting_for_armed_state'' else ''waiting_for_armed_telemetry'')\<rparr>, st))"

definition traj_takeoff :: "TrajectoryMissionConfig \<Rightarrow> MissionTickInput \<Rightarrow> double \<Rightarrow> traj_state \<Rightarrow> traj_state" where
  "traj_takeoff cfg input height s =
     (let (out, st) = s; now = ti_now input
      in if ti_finish_requested input then
           (out\<lparr>to_status := (if kLandHeightM < height then ''finish_requested_land'' else ''finish_requested_complete'')\<rparr>,
            st\<lparr>t_state := (if kLandHeightM < height then Land else Complete), t_state_start := now\<rparr>)
         else if tj_safe_height_m cfg \<le> height then
           (out\<lparr>to_status := ''takeoff_complete''\<rparr>,
            st\<lparr>t_state := ExecuteMission, t_state_start := now, t_segment_index := 0, t_segment_elapsed_s := 0\<rparr>)
         else if \<not> t_takeoff_command_sent st then
           (out\<lparr>to_command := Some (command_with_kind now CmdTakeoff), to_status := ''takeoff_request''\<rparr>,
            st\<lparr>t_takeoff_command_sent := True, t_takeoff_last_command_time := now\<rparr>)
         else if kTakeoffVelocityAssistHeightM \<le> height then
           (out\<lparr>to_command := Some (tj_command_from_velocity now (vec3 0 0 (- std_abs (tj_takeoff_velocity_mps cfg))) 0),
                to_status := ''takeoff_climb''\<rparr>, st)
         else if elapsed_at_least (t_takeoff_last_command_time st) now (tj_takeoff_retry_interval_s cfg) then
           (out\<lparr>to_status := ''waiting_for_takeoff_climb''\<rparr>, st)
         else (out\<lparr>to_status := ''waiting_for_takeoff_command_settle''\<rparr>, st))"

definition traj_execute :: "TrajectoryMissionConfig \<Rightarrow> MissionTickInput \<Rightarrow> double \<Rightarrow> traj_state \<Rightarrow> traj_state result" where
  "traj_execute cfg input dt s =
     (let (out, st) = s; now = ti_now input
      in if ti_finish_requested input then
           Inr (out\<lparr>to_status := ''finish_requested_go_home''\<rparr>, st\<lparr>t_state := GoHome, t_state_start := now\<rparr>)
         else let st = advance_segment_if_needed cfg (st\<lparr>t_segment_elapsed_s := t_segment_elapsed_s st + dt\<rparr>)
              in if trajectory_complete cfg st then
                   Inr (out\<lparr>to_status := ''trajectory_complete''\<rparr>, st\<lparr>t_state := GoHome, t_state_start := now\<rparr>)
                 else bindE (trajectory_command cfg now st) (\<lambda>c.
                      Inr (out\<lparr>to_command := Some c, to_status := ''trajectory_execute''\<rparr>, st)))"

definition traj_go_home :: "TrajectoryMissionConfig \<Rightarrow> MissionTickInput \<Rightarrow> traj_state \<Rightarrow> traj_state" where
  "traj_go_home cfg input s =
     (let (out, st) = s; now = ti_now input; ego = ws_ego (ti_snapshot input);
          v = (if t_home_initialized st
               then velocity_toward_xy (ego_position ego) (position (t_home_pose st)) (tj_go_home_velocity_mps cfg)
               else vec3_zero)
      in if norm_xy v \<le> 0 then
           (out\<lparr>to_status := (if t_aborting st then ''abort_recovery_home_reached'' else ''home_reached'')\<rparr>,
            st\<lparr>t_state := Land, t_state_start := now\<rparr>)
         else (out\<lparr>to_command := Some (tj_command_from_velocity now v (tj_yaw_offset_rad cfg)),
                   to_status := (if t_aborting st then ''abort_recovery_go_home'' else ''go_home'')\<rparr>, st))"

definition traj_land :: "TrajectoryMissionConfig \<Rightarrow> MissionTickInput \<Rightarrow> double \<Rightarrow> traj_state \<Rightarrow> traj_state" where
  "traj_land cfg input height s =
     (let (out, st) = s; now = ti_now input
      in if height \<le> kLandHeightM then
           (out\<lparr>to_status := (if t_aborting st then ''abort_recovery_landed'' else ''landed'')\<rparr>,
            st\<lparr>t_state := Complete, t_state_start := now\<rparr>)
         else if \<not> t_land_command_sent st then
           (out\<lparr>to_command := Some (command_with_kind now CmdLand),
                to_status := (if t_aborting st then ''abort_recovery_landing_command_sent'' else ''landing_command_sent'')\<rparr>,
            st\<lparr>t_land_command_sent := True, t_land_last_command_time := now\<rparr>)
         else if elapsed_at_least (t_land_last_command_time st) now (tj_land_timeout_s cfg) then
           (out\<lparr>to_status := ''abort''\<rparr>, st\<lparr>t_state := Abort\<rparr>)
         else (out\<lparr>to_status := (if t_aborting st then ''abort_recovery_waiting_for_landed_telemetry''
                                 else ''waiting_for_landed_telemetry'')\<rparr>, st))"

definition traj_complete :: "TrajectoryMissionConfig \<Rightarrow> MissionTickInput \<Rightarrow> traj_state \<Rightarrow> traj_state" where
  "traj_complete cfg input s =
     (let (out, st) = s; now = ti_now input; ego = ws_ego (ti_snapshot input)
      in if ego_armed_valid ego \<and> \<not> ego_armed ego then
           (if t_aborting st then (out\<lparr>to_status := ''abort''\<rparr>, st\<lparr>t_state := Abort\<rparr>)
            else (out\<lparr>to_status := ''complete''\<rparr>, st))
         else if elapsed_at_least (t_state_start st) now (tj_disarm_timeout_s cfg) then
           (out\<lparr>to_status := ''abort''\<rparr>, st\<lparr>t_state := Abort\<rparr>)
         else if \<not> t_disarm_command_sent st \<or> elapsed_at_least (t_disarm_last_command_time st) now (tj_disarm_retry_interval_s cfg) then
           (out\<lparr>to_command := Some (command_with_kind now CmdDisarm),
                to_status := (if t_aborting st then ''abort_recovery_disarming'' else ''disarming'')\<rparr>,
            st\<lparr>t_disarm_command_sent := True, t_disarm_last_command_time := now\<rparr>)
         else (out\<lparr>to_status :=
                 (if t_aborting st
                  then (if ego_armed_valid ego then ''abort_recovery_waiting_for_disarmed_state''
                        else ''abort_recovery_waiting_for_disarmed_telemetry'')
                  else (if ego_armed_valid ego then ''waiting_for_disarmed_state''
                        else ''waiting_for_disarmed_telemetry''))\<rparr>, st))"

definition traj_start_mission :: "MissionTickInput \<Rightarrow> TrajectoryController \<Rightarrow> TrajectoryController" where
  "traj_start_mission input st =
     (if t_mission_started st then st
      else st\<lparr>t_mission_started := True, t_mission_start := ti_now input, t_state_start := ti_now input,
              t_last_tick_time := ti_now input, t_home_pose := ego_local_T_body (ws_ego (ti_snapshot input)),
              t_home_initialized := True, t_state := Prepare\<rparr>)"

definition traj_state_handler ::
    "TrajectoryMissionConfig \<Rightarrow> MissionTickInput \<Rightarrow> double \<Rightarrow> double \<Rightarrow> traj_state \<Rightarrow> traj_state result" where
  "traj_state_handler cfg input height dt s =
     (case t_state (snd s) of
        Prepare \<Rightarrow> Inr (traj_prepare cfg input height s)
      | Takeoff \<Rightarrow> Inr (traj_takeoff cfg input height s)
      | ExecuteMission \<Rightarrow> traj_execute cfg input dt s
      | GoHome \<Rightarrow> Inr (traj_go_home cfg input s)
      | Land \<Rightarrow> Inr (traj_land cfg input height s)
      | Complete \<Rightarrow> Inr (traj_complete cfg input s)
      | Abort \<Rightarrow> Inr ((fst s)\<lparr>to_status := ''abort''\<rparr>, snd s)
      | Idle \<Rightarrow> Inr ((fst s)\<lparr>to_status := ''idle''\<rparr>, (snd s)\<lparr>t_state := Prepare, t_state_start := ti_now input\<rparr>))"

definition traj_tick :: "TrajectoryMissionConfig \<Rightarrow> MissionTickInput \<Rightarrow> TrajectoryController \<Rightarrow> traj_state result" where
  "traj_tick cfg input st =
     (let out = MissionTickOutput_default\<lparr>to_state := t_state st\<rparr>;
          st = traj_start_mission input st;
          dt = std_max 0 (seconds_between (t_last_tick_time st) (ti_now input));
          st = st\<lparr>t_last_tick_time := ti_now input\<rparr>
      in bindE (traj_state_handler cfg input (ego_height (ws_ego (ti_snapshot input))) dt (out, st)) (\<lambda>(out, st).
         Inr (out\<lparr>to_state := t_state st\<rparr>, st)))"

end
