(* ===== verification/Trajectory_Properties.thy ===== *)
theory Trajectory_Properties
  imports Trajectory_Controller Controller_Contract
begin

text \<open>
  Properties of the trajectory controller: where in the trajectory a mission is depends on the clock
  alone, not on how the time was cut into ticks; the effect of a tick on the life cycle; the
  velocities of the scripted segments.
\<close>

section \<open>Position in the trajectory\<close>

text \<open>The time at which segment \<open>i\<close> begins.\<close>

definition duration_real :: "TrajectorySegment \<Rightarrow> real" where
  "duration_real s = real_of_double (seg_duration_s s)"

definition segment_start :: "VelocityTrajectory \<Rightarrow> nat \<Rightarrow> real" where
  "segment_start segs i = sum_list (map duration_real (take i segs))"

definition finite_durations :: "VelocityTrajectory \<Rightarrow> bool" where
  "finite_durations segs \<longleftrightarrow> (\<forall>s\<in>set segs. isfinite (seg_duration_s s))"

lemma finite_duration: "finite_durations segs \<Longrightarrow> i < length segs \<Longrightarrow> seg_duration_s (segs ! i) = Fin (duration_real (segs ! i))"
  by (auto simp: finite_durations_def duration_real_def isfinite_iff) (metis nth_mem isfinite_iff real_of_double.simps(1))

lemma segment_start_Suc: "i < length segs \<Longrightarrow> segment_start segs (Suc i) = segment_start segs i + duration_real (segs ! i)"
  by (simp add: segment_start_def take_Suc_conv_app_nth)

lemma segment_start_le: "i \<le> j \<Longrightarrow> \<forall>s\<in>set segs. 0 \<le> duration_real s \<Longrightarrow> segment_start segs i \<le> segment_start segs j"
proof (induction j)
  case (Suc j)
  have "segment_start segs j \<le> segment_start segs (Suc j)"
    using Suc.prems(2) by (cases "j < length segs") (simp_all add: segment_start_Suc, simp add: segment_start_def)
  with Suc show ?case by (auto simp: le_Suc_eq)
qed simp

text \<open>Time that is added later is as good as time that was there from the start.\<close>

lemma advance_segment_add:
  assumes "finite_durations segs" and "0 \<le> dt" and "advance_segment segs k (Fin t) = (i, Fin e)"
  shows "advance_segment segs k (Fin (t + dt)) = advance_segment segs i (Fin (e + dt))"
  using assms(3)
proof (induction "length segs - k" arbitrary: k t)
  case (Suc n)
  show ?case
  proof (cases "seg_duration_s (segs ! k) \<le> Fin t")
    case True
    have k: "k < length segs" using Suc.hyps(2) by simp
    note d = finite_duration [OF assms(1) k]
    have "advance_segment segs (Suc k) (Fin (t - duration_real (segs ! k))) = (i, Fin e)"
      using Suc.prems True k d by (subst (asm) advance_segment.simps) simp
    from Suc.hyps(1) [OF _ this] Suc.hyps(2) have
      "advance_segment segs (Suc k) (Fin (t - duration_real (segs ! k) + dt)) = advance_segment segs i (Fin (e + dt))" by simp
    moreover have "seg_duration_s (segs ! k) \<le> Fin (t + dt)" using True d assms(2) by simp
    ultimately show ?thesis
      using k d by (subst advance_segment.simps) (simp add: algebra_simps)
  next
    case False
    then show ?thesis using Suc.prems by (subst (asm) advance_segment.simps) simp
  qed
next
  case 0
  then show ?case by (subst (asm) advance_segment.simps) simp
qed

lemma advance_segment_locates:
  assumes "finite_durations segs" and "segment_start segs k \<le> t"
  shows "\<exists>i e. advance_segment segs k (Fin (t - segment_start segs k)) = (i, Fin e) \<and> k \<le> i \<and> i \<le> max k (length segs) \<and>
    e = t - segment_start segs i \<and> 0 \<le> e \<and> (i < length segs \<longrightarrow> e < duration_real (segs ! i))"
  using assms(2)
proof (induction "length segs - k" arbitrary: k)
  case (Suc n)
  have k: "k < length segs" using Suc.hyps(2) by simp
  note d = finite_duration [OF assms(1) k]
  show ?case
  proof (cases "duration_real (segs ! k) \<le> t - segment_start segs k")
    case True
    have "n = length segs - Suc k" "segment_start segs (Suc k) \<le> t" using Suc.hyps(2) True segment_start_Suc [OF k] by simp_all
    from Suc.hyps(1) [OF this] obtain i e where
      "advance_segment segs (Suc k) (Fin (t - segment_start segs (Suc k))) = (i, Fin e)" "Suc k \<le> i"
      "i \<le> max (Suc k) (length segs)" "e = t - segment_start segs i" "0 \<le> e" "i < length segs \<longrightarrow> e < duration_real (segs ! i)"
      by blast
    then show ?thesis
      using True k d segment_start_Suc [OF k] by (subst advance_segment.simps) (auto simp: algebra_simps)
  next
    case False
    then show ?thesis
      using k d Suc.prems by (subst advance_segment.simps) auto
  qed
next
  case 0
  then show ?case by (subst advance_segment.simps) auto
qed

section \<open>The life cycle\<close>

definition traj_running :: "TrajectoryController \<Rightarrow> bool" where
  "traj_running st \<longleftrightarrow> t_mission_started st \<and> t_home_initialized st \<and> t_state st \<noteq> Idle"

definition traj_inv :: "TrajectoryController \<Rightarrow> bool" where
  "traj_inv st \<longleftrightarrow> st = TrajectoryController_init \<or> traj_running st"

text \<open>What a handler does to the life cycle, the commands and the status.\<close>

definition traj_effect :: "MissionTickInput \<Rightarrow> TrajectoryController \<Rightarrow> traj_state \<Rightarrow> bool" where
  "traj_effect input st s \<longleftrightarrow> traj_running (snd s) \<and> forward_step input (t_state st) (t_state (snd s)) \<and>
     (\<forall>c. to_command (fst s) = Some c \<longrightarrow> vc_kind c \<in> command_kinds (t_state st) \<and> t_state (snd s) = t_state st) \<and>
     (to_status (fst s) = ''complete'' \<longrightarrow> t_state (snd s) = Complete \<and> confirmed_disarmed input)"

lemmas traj_effect_defs = traj_effect_def traj_running_def forward_step_def Let_def airborne_def confirmed_disarmed_def

lemma tj_command_kind [simp]: "vc_kind (tj_command_from_velocity t v y) = CmdVelocity"
  by (simp add: tj_command_from_velocity_def plain_velocity_command_def Let_def)

lemma traj_prepare_effect:
  assumes "traj_running st" "t_state st = Prepare" "to_command out = None" "to_status out = []"
  shows "traj_effect input st (traj_prepare cfg input (input_height input) (out, st))"
  using assms by (auto simp: traj_effect_defs traj_prepare_def tj_begin_abort_recovery_def)

lemma traj_takeoff_effect:
  assumes "traj_running st" "t_state st = Takeoff" "to_command out = None" "to_status out = []"
  shows "traj_effect input st (traj_takeoff cfg input (input_height input) (out, st))"
  using assms by (auto simp: traj_effect_defs traj_takeoff_def)

lemma traj_execute_effect:
  assumes "traj_running st" "t_state st = ExecuteMission" "to_command out = None" "traj_execute cfg input dt (out, st) = Inr s"
  shows "traj_effect input st s"
  using assms
  by (auto simp: traj_effect_defs traj_execute_def trajectory_command_def advance_segment_if_needed_def split_beta bindE_def
      split: if_splits sum.splits)

lemma traj_go_home_effect:
  assumes "traj_running st" "t_state st = GoHome" "to_command out = None" "to_status out = []"
  shows "traj_effect input st (traj_go_home cfg input (out, st))"
  using assms by (auto simp: traj_effect_defs traj_go_home_def)

lemma traj_land_effect:
  assumes "traj_running st" "t_state st = Land" "to_command out = None" "to_status out = []"
  shows "traj_effect input st (traj_land cfg input (input_height input) (out, st))"
  using assms by (auto simp: traj_effect_defs traj_land_def dest: double_le_not_less)

lemma traj_complete_effect:
  assumes "traj_running st" "t_state st = Complete" "to_command out = None" "to_status out = []"
  shows "traj_effect input st (traj_complete cfg input (out, st))"
  using assms by (auto simp: traj_effect_defs traj_complete_def)

lemma traj_handler_effect:
  assumes "traj_running st" "to_command out = None" "to_status out = []"
    "traj_state_handler cfg input (input_height input) dt (out, st) = Inr s"
  shows "traj_effect input st s"
proof (cases "t_state st = Abort")
  case True
  then show ?thesis using assms by (auto simp: traj_state_handler_def traj_effect_defs)
next
  case False
  then show ?thesis
    using assms traj_prepare_effect traj_takeoff_effect traj_execute_effect traj_go_home_effect traj_land_effect
      traj_complete_effect
    by (cases "t_state st") (auto simp: traj_state_handler_def traj_running_def)
qed

lemma traj_start_running:
  "traj_inv st \<Longrightarrow> traj_running ((traj_start_mission input st)\<lparr>t_last_tick_time := t\<rparr>) \<and>
     (t_state (traj_start_mission input st) = t_state st \<or> t_state st = Idle \<and> t_state (traj_start_mission input st) = Prepare)"
  by (auto simp: traj_inv_def traj_running_def traj_start_mission_def TrajectoryController_init_def)

lemma traj_tick_effect:
  assumes "traj_inv st" and "traj_tick cfg input st = Inr (out, st')"
  shows "\<exists>st1 out1. traj_running st1 \<and> (t_state st1 = t_state st \<or> t_state st = Idle \<and> t_state st1 = Prepare) \<and>
    traj_effect input st1 (out1, st') \<and> out = out1\<lparr>to_state := t_state st'\<rparr>"
proof -
  let ?st = "(traj_start_mission input st)\<lparr>t_last_tick_time := ti_now input\<rparr>"
  obtain dt out1 where h: "traj_state_handler cfg input (input_height input) dt
      (MissionTickOutput_default\<lparr>to_state := t_state st\<rparr>, ?st) = Inr (out1, st')" "out = out1\<lparr>to_state := t_state st'\<rparr>"
    using assms(2) by (auto simp: traj_tick_def Let_def bindE_def split: sum.splits)
  have "traj_effect input ?st (out1, st')"
    by (rule traj_handler_effect [OF _ _ _ h(1)])
      (use traj_start_running [OF assms(1)] in \<open>auto simp: MissionTickOutput_default_def\<close>)
  then show ?thesis using traj_start_running [OF assms(1), where input = input and t = "ti_now input"] h(2) by fastforce
qed

text \<open>The controller keeps the contract; its tick is total, and throws only for an unknown segment type.\<close>

interpretation traj: mission_controller "\<lambda>i st. Some (traj_tick cfg i st)" TrajectoryController_init traj_inv t_state
proof unfold_locales
  fix c i out c'
  assume inv: "traj_inv c" and "Some (traj_tick cfg i c) = Some (Inr (out, c'))"
  then have tick: "traj_tick cfg i c = Inr (out, c')" by simp
  obtain st1 out1 where 1: "traj_running st1" "t_state st1 = t_state c \<or> t_state c = Idle \<and> t_state st1 = Prepare"
    "traj_effect i st1 (out1, c')" "out = out1\<lparr>to_state := t_state c'\<rparr>"
    using traj_tick_effect [OF inv tick] by blast
  show "traj_inv c' \<and> to_state out = t_state c' \<and> forward_step i (t_state c) (t_state c')"
    using 1 by (auto simp: traj_inv_def traj_effect_def forward_step_def)
  show "vc_kind cmd \<in> command_kinds (t_state c') \<and> (t_state c' = t_state c \<or> t_state c = Idle \<and> t_state c' = Prepare)"
    if "to_command out = Some cmd" for cmd
    using 1 that by (auto simp: traj_effect_def)
  show "t_state c' = Complete \<and> confirmed_disarmed i" if "to_status out = ''complete''"
    using 1 that by (auto simp: traj_effect_def)
qed (auto simp: traj_inv_def TrajectoryController_init_def)

section \<open>The clock\<close>

inductive traj_run :: "TrajectoryMissionConfig \<Rightarrow> (MissionTickInput \<times> MissionTickOutput) list \<Rightarrow> TrajectoryController \<Rightarrow> bool"
  for cfg where
  start: "traj_run cfg [] TrajectoryController_init"
| tick: "traj_run cfg h st \<Longrightarrow> traj_tick cfg input st = Inr (out, st') \<Longrightarrow> traj_run cfg ((input, out) # h) st'"

text \<open>The time stamps of the inputs never go back; the latest tick is the first of the list.\<close>

definition monotone_clock :: "(MissionTickInput \<times> MissionTickOutput) list \<Rightarrow> bool" where
  "monotone_clock h \<longleftrightarrow> sorted_wrt (\<lambda>a b. timestamp_ns (ti_now (fst b)) \<le> timestamp_ns (ti_now (fst a))) h"

definition seconds_real :: "TimePoint \<Rightarrow> TimePoint \<Rightarrow> real" where
  "seconds_real s t = of_int (timestamp_ns t - timestamp_ns s) / 1000000000"

lemma seconds_between_Fin: "seconds_between s t = Fin (seconds_real s t)"
  by (simp add: seconds_between_def seconds_real_def)

lemma seconds_real_split: "seconds_real s t + seconds_real t u = seconds_real s u"
  by (simp add: seconds_real_def field_simps)

text \<open>The members agree with the time since the mission began to execute.\<close>

definition on_clock :: "TrajectoryMissionConfig \<Rightarrow> TrajectoryController \<Rightarrow> bool" where
  "on_clock cfg st \<longleftrightarrow> (t_state st = ExecuteMission \<longrightarrow>
     timestamp_ns (t_state_start st) \<le> timestamp_ns (t_last_tick_time st) \<and>
     advance_segment (tj_trajectory cfg) 0 (Fin (seconds_real (t_state_start st) (t_last_tick_time st))) =
       (t_segment_index st, t_segment_elapsed_s st))"

lemma advance_at_start:
  assumes "finite_durations segs" and "\<forall>s\<in>set segs. 0 < seg_duration_s s"
  shows "advance_segment segs 0 0 = (0, 0)"
proof (cases segs)
  case (Cons s ss)
  then show ?thesis
    using assms by (subst advance_segment.simps) (auto simp: dest: double_le_not_less)
qed (subst advance_segment.simps, simp)

text \<open>One tick of an executing mission.\<close>

lemma execute_tick:
  assumes "traj_running st" and "t_state st = ExecuteMission" and "on_clock cfg st"
    and dur: "finite_durations (tj_trajectory cfg)"
    and mono: "timestamp_ns (t_last_tick_time st) \<le> timestamp_ns (ti_now input)"
    and pos: "advance_segment (tj_trajectory cfg) 0 (Fin (seconds_real (t_state_start st) (ti_now input))) = (i, e)"
  shows "traj_tick cfg input st =
    (if ti_finish_requested input then
       Inr (MissionTickOutput_default\<lparr>to_status := ''finish_requested_go_home'', to_state := GoHome\<rparr>,
            st\<lparr>t_last_tick_time := ti_now input, t_state := GoHome, t_state_start := ti_now input\<rparr>)
     else if length (tj_trajectory cfg) \<le> i then
       Inr (MissionTickOutput_default\<lparr>to_status := ''trajectory_complete'', to_state := GoHome\<rparr>,
            st\<lparr>t_last_tick_time := ti_now input, t_segment_index := i, t_segment_elapsed_s := e, t_state := GoHome,
               t_state_start := ti_now input\<rparr>)
     else bindE (velocity_at (tj_trajectory cfg) i e) (\<lambda>v.
       Inr (MissionTickOutput_default\<lparr>to_command := Some (tj_command_from_velocity (ti_now input) v
              (tj_yaw_offset_rad cfg + seg_yaw_offset_rad (tj_trajectory cfg ! i))),
              to_status := ''trajectory_execute'', to_state := ExecuteMission\<rparr>,
            st\<lparr>t_last_tick_time := ti_now input, t_segment_index := i, t_segment_elapsed_s := e\<rparr>)))"
proof -
  let ?dt = "seconds_real (t_last_tick_time st) (ti_now input)"
  have dt: "0 \<le> ?dt" using mono by (simp add: seconds_real_def)
  obtain x where x: "t_segment_elapsed_s st = Fin x" and adv:
    "advance_segment (tj_trajectory cfg) 0 (Fin (seconds_real (t_state_start st) (t_last_tick_time st))) = (t_segment_index st, Fin x)"
  proof -
    have "segment_start (tj_trajectory cfg) 0 = 0" by (simp add: segment_start_def)
    with advance_segment_locates [OF dur, of 0 "seconds_real (t_state_start st) (t_last_tick_time st)"] assms(2,3) that show ?thesis
      by (auto simp: on_clock_def seconds_real_def)
  qed
  have "advance_segment (tj_trajectory cfg) (t_segment_index st) (Fin (x + ?dt)) = (i, e)"
    using advance_segment_add [OF dur dt adv] pos by (simp add: seconds_real_split)
  moreover have "std_max (Fin 0) (Fin ?dt) = Fin ?dt" using dt by (simp add: std_max_def)
  ultimately show ?thesis
    using assms(1,2) x
    by (simp add: traj_tick_def Let_def traj_start_mission_def traj_running_def seconds_between_Fin traj_state_handler_def
        traj_execute_def advance_segment_if_needed_def trajectory_complete_def trajectory_command_def bindE_def
        MissionTickOutput_default_def split: sum.splits)
qed

lemma handler_keeps_time:
  assumes "traj_state_handler cfg input height dt (out, st) = Inr s"
  shows "t_last_tick_time (snd s) = t_last_tick_time st"
  using assms
  by (cases "t_state st")
    (auto simp: traj_state_handler_def traj_prepare_def traj_takeoff_def traj_execute_def traj_go_home_def traj_land_def
      traj_complete_def tj_begin_abort_recovery_def advance_segment_if_needed_def Let_def split_beta bindE_def
      split: if_splits sum.splits)

lemma traj_tick_time: "traj_tick cfg input st = Inr (out, st') \<Longrightarrow> t_last_tick_time st' = ti_now input"
  by (auto simp: traj_tick_def Let_def bindE_def split: sum.splits dest!: handler_keeps_time)

lemma enter_execute:
  assumes "traj_inv st" and "traj_tick cfg input st = Inr (out, st')" and "t_state st' = ExecuteMission" and "t_state st \<noteq> ExecuteMission"
  shows "t_segment_index st' = 0 \<and> t_segment_elapsed_s st' = 0 \<and> t_state_start st' = ti_now input"
proof -
  obtain st1 out1 where 1: "traj_running st1" "t_state st1 = t_state st \<or> t_state st = Idle \<and> t_state st1 = Prepare"
    "traj_effect input st1 (out1, st')" "out = out1\<lparr>to_state := t_state st'\<rparr>"
    using traj_tick_effect [OF assms(1,2)] by blast
  then have "t_state st1 = Prepare \<or> t_state st1 = Takeoff"
    using assms(3,4) by (cases "t_state st1") (auto simp: traj_effect_def forward_step_def traj_running_def)
  then have "t_state st = Takeoff \<or> t_state (traj_start_mission input st) = Prepare"
    using 1(2) assms(1) by (auto simp: traj_start_mission_def traj_inv_def TrajectoryController_init_def traj_running_def)
  with assms show ?thesis
    by (auto simp: traj_tick_def Let_def traj_state_handler_def traj_prepare_def traj_takeoff_def bindE_def traj_start_mission_def
        tj_begin_abort_recovery_def split: if_splits)
qed

definition valid_durations :: "VelocityTrajectory \<Rightarrow> bool" where
  "valid_durations segs \<longleftrightarrow> (\<forall>s\<in>set segs. isfinite (seg_duration_s s) \<and> 0 < seg_duration_s s)"

lemma valid_finite: "valid_durations segs \<Longrightarrow> finite_durations segs"
  by (simp add: valid_durations_def finite_durations_def)

lemma traj_run_on_clock:
  assumes "valid_durations (tj_trajectory cfg)"
  shows "traj_run cfg h st \<Longrightarrow> monotone_clock h \<Longrightarrow> traj_inv st \<and> on_clock cfg st \<and>
    (case h of [] \<Rightarrow> st = TrajectoryController_init | e # _ \<Rightarrow> t_last_tick_time st = ti_now (fst e))"
proof (induction rule: traj_run.induct)
  case start
  then show ?case by (simp add: traj_inv_def on_clock_def TrajectoryController_init_def)
next
  case (tick h st input out st')
  have IH: "traj_inv st" "on_clock cfg st" "case h of [] \<Rightarrow> st = TrajectoryController_init | e # _ \<Rightarrow> t_last_tick_time st = ti_now (fst e)"
    using tick.IH tick.prems by (simp_all add: monotone_clock_def)
  note time = traj_tick_time [OF tick.hyps(2)]
  have inv: "traj_inv st'" using traj.ctl_step [OF IH(1), of cfg input out st'] tick.hyps(2) by simp
  have "on_clock cfg st'"
  proof (cases "t_state st = ExecuteMission")
    case True
    have mono: "timestamp_ns (t_last_tick_time st) \<le> timestamp_ns (ti_now input)"
      using IH(3) tick.prems True by (auto simp: monotone_clock_def TrajectoryController_init_def split: list.splits)
    have run: "traj_running st" using IH(1) True by (auto simp: traj_inv_def TrajectoryController_init_def)
    obtain i e where pos: "advance_segment (tj_trajectory cfg) 0 (Fin (seconds_real (t_state_start st) (ti_now input))) = (i, e)"
      by fastforce
    show ?thesis
      using execute_tick [OF run True IH(2) valid_finite [OF assms] mono pos] tick.hyps(2) IH(2) True mono pos
      by (auto simp: on_clock_def bindE_def split: if_splits sum.splits)
  next
    case False
    then show ?thesis
      using enter_execute [OF IH(1) tick.hyps(2) _ False] time advance_at_start [OF valid_finite [OF assms]] assms
      by (auto simp: on_clock_def seconds_real_def valid_durations_def)
  qed
  with inv time show ?case by simp
qed

lemma segment_start_mono: "valid_durations segs \<Longrightarrow> i \<le> j \<Longrightarrow> segment_start segs i \<le> segment_start segs j"
  by (rule segment_start_le) (fastforce simp: valid_durations_def duration_real_def isfinite_iff)+

lemma tj_command_velocity: "vc_velocity_local_mps (tj_command_from_velocity t v y) = v"
  by (simp add: tj_command_from_velocity_def plain_velocity_command_def Let_def)

section \<open>Properties\<close>

text \<open>
  C18: Where a trajectory mission is depends on the clock alone, for a trajectory of positive finite durations and ticks whose times never go
  back.  At a tick \<open>t\<close> seconds after the mission began to execute, however many ticks there were in between, a tick that does not throw commands
  the velocity of the segment that contains \<open>t\<close>, at the time \<open>t\<close> minus the start of that segment; the controller flies home
  exactly when the trajectory's total duration has passed or a finish is requested.
\<close>
theorem trajectory_follows_clock:
  assumes "traj_run cfg h st" and "t_state st = ExecuteMission" and "monotone_clock ((input, out) # h)"
    and "traj_tick cfg input st = Inr (out, st')" and "valid_durations (tj_trajectory cfg)"
    and t_def: "t = seconds_real (t_state_start st) (ti_now input)" and n_def: "n = length (tj_trajectory cfg)"
  shows "if ti_finish_requested input \<or> segment_start (tj_trajectory cfg) n \<le> t
    then t_state st' = GoHome \<and> to_command out = None
    else \<exists>i<n. \<exists>c. segment_start (tj_trajectory cfg) i \<le> t \<and> t < segment_start (tj_trajectory cfg) (Suc i) \<and>
      t_state st' = ExecuteMission \<and> to_command out = Some c \<and> vc_kind c = CmdVelocity \<and>
      segment_velocity (tj_trajectory cfg ! i) (Fin (t - segment_start (tj_trajectory cfg) i)) = Inr (vc_velocity_local_mps c)"
proof -
  let ?segs = "tj_trajectory cfg"
  note fin = valid_finite [OF assms(5)]
  have h: "monotone_clock h" using assms(3) by (simp add: monotone_clock_def)
  note clock = traj_run_on_clock [OF assms(5,1) h]
  have run: "traj_running st" using clock assms(2) by (auto simp: traj_inv_def TrajectoryController_init_def)
  have mono: "timestamp_ns (t_last_tick_time st) \<le> timestamp_ns (ti_now input)"
    using clock assms(2,3) by (auto simp: monotone_clock_def TrajectoryController_init_def split: list.splits)
  have "0 \<le> t" using clock assms(2) mono by (simp add: t_def seconds_real_def on_clock_def)
  then obtain i e where pos: "advance_segment ?segs 0 (Fin t) = (i, Fin e)" and i: "i \<le> n" "e = t - segment_start ?segs i" "0 \<le> e"
    "i < n \<longrightarrow> e < duration_real (?segs ! i)"
    using advance_segment_locates [OF fin, of 0 t] by (auto simp: segment_start_def n_def)
  note tick = execute_tick [OF run assms(2) conjunct1 [OF conjunct2 [OF clock]] fin mono pos [unfolded t_def], folded n_def]
  have in_segment: "segment_start ?segs i \<le> t" "i < n \<Longrightarrow> t < segment_start ?segs (Suc i)"
    using i segment_start_Suc by (auto simp: n_def)
  have "segment_start ?segs (Suc i) \<le> segment_start ?segs n" if "i < n"
    using segment_start_mono [OF assms(5), of "Suc i" n] that by (simp add: n_def)
  then show ?thesis
    using tick assms(2,4) in_segment i(1,2)
    by (auto simp: velocity_at_def n_def [symmetric] bindE_def tj_command_velocity MissionTickOutput_default_def
        split: sum.splits if_splits intro!: exI [of _ i])
qed

text \<open>A second east, then two seconds north: a second and a half into the mission it flies north.\<close>

abbreviation sample_segment :: "double \<Rightarrow> double \<Rightarrow> double \<Rightarrow> TrajectorySegment" where
  "sample_segment d x y \<equiv> (hd (default_hold d))\<lparr>seg_vx_mps := x, seg_vy_mps := y\<rparr>"

abbreviation sample_trajectory :: TrajectoryMissionConfig where
  "sample_trajectory \<equiv> TrajectoryMissionConfig_default\<lparr>tj_trajectory := [sample_segment 1 1 0, sample_segment 2 0 1]\<rparr>"

abbreviation traj_input :: "real \<Rightarrow> int \<Rightarrow> MissionTickInput" where
  "traj_input height ms \<equiv>
     \<lparr>ti_now = \<lparr>timestamp_ns = ms * 1000000\<rparr>,
      ti_snapshot = (sample_snapshot [])\<lparr>ws_ego := sample_ego\<lparr>ego_height_m := Fin height, ego_armed := True\<rparr>\<rparr>,
      ti_last_command_result = None, ti_finish_requested = False\<rparr>"

lemmas traj_eval = traj_tick_def Let_def traj_start_mission_def TrajectoryController_init_def traj_state_handler_def ego_height_def
  bindE_def TrajectoryMissionConfig_default_def MissionTickOutput_default_def traj_prepare_def traj_takeoff_def

theorem trajectory_follows_clock_witness:
  "\<exists>h st out st' c. traj_run sample_trajectory h st \<and> t_state st = ExecuteMission \<and>
     traj_tick sample_trajectory (traj_input 8 3500) st = Inr (out, st') \<and> to_command out = Some c \<and>
     vc_velocity_local_mps c = vec3 0 1 0"
proof -
  obtain o1 st1 where 1: "traj_tick sample_trajectory (traj_input 0 1000) TrajectoryController_init = Inr (o1, st1)"
    "t_state st1 = Takeoff" "t_mission_started st1"
    by (simp add: traj_eval)
  obtain o2 st2 where 2: "traj_tick sample_trajectory (traj_input 8 2000) st1 = Inr (o2, st2)" "t_state st2 = ExecuteMission"
    "t_state_start st2 = \<lparr>timestamp_ns = 2000 * 1000000\<rparr>"
    using 1(2,3) by (simp add: traj_eval)
  have run: "traj_run sample_trajectory [(traj_input 8 2000, o2), (traj_input 0 1000, o1)] st2"
    using traj_run.tick [OF traj_run.tick [OF traj_run.start 1(1)] 2(1)] .
  have dur: "valid_durations (tj_trajectory sample_trajectory)"
    by (simp add: valid_durations_def default_hold_def)
  have clock: "monotone_clock ((traj_input 8 3500, o3) # [(traj_input 8 2000, o2), (traj_input 0 1000, o1)])" for o3
    by (simp add: monotone_clock_def)
  have starts: "segment_start (tj_trajectory sample_trajectory) (Suc (Suc 0)) = 3" "segment_start (tj_trajectory sample_trajectory) (Suc 0) = 1"
    by (simp_all add: segment_start_def default_hold_def duration_real_def)
  have t: "3 / 2 = seconds_real (t_state_start st2) (ti_now (traj_input 8 3500))" using 2(3) by (simp add: seconds_real_def)
  have tick: "\<exists>o3 st3. traj_tick sample_trajectory (traj_input 8 3500) st2 = Inr (o3, st3)"
  proof -
    have inv: "traj_running st2" "on_clock sample_trajectory st2" "t_last_tick_time st2 = \<lparr>timestamp_ns = 2000 * 1000000\<rparr>"
      using traj_run_on_clock [OF dur run] 2(2) by (auto simp: monotone_clock_def traj_inv_def TrajectoryController_init_def)
    have "advance_segment (tj_trajectory sample_trajectory) 0 (Fin (3 / 2)) = (Suc 0, Fin (1 / 2))"
      by (simp add: advance_segment.simps default_hold_def)
    from execute_tick [OF inv(1) 2(2) inv(2) valid_finite [OF dur] _ this [unfolded t]] inv(3) show ?thesis
      by (simp add: velocity_at_def segment_velocity_def default_hold_def bindE_def)
  qed
  then obtain o3 st3 where 3: "traj_tick sample_trajectory (traj_input 8 3500) st2 = Inr (o3, st3)" by blast
  let ?T = "tj_trajectory sample_trajectory"
  have "\<not> segment_start ?T (length ?T) \<le> 3/2" using starts(1) by simp
  with trajectory_follows_clock [OF run 2(2) clock 3 dur t refl] obtain i c where i: "i < length ?T" "3/2 < segment_start ?T (Suc i)"
    and c: "to_command o3 = Some c" "segment_velocity (?T ! i) (Fin (3/2 - segment_start ?T i)) = Inr (vc_velocity_local_mps c)"
    by (auto simp only: if_False simp_thms MissionTickInput.simps de_Morgan_disj)
  have "i = Suc 0" using i starts(2) by (cases i) simp_all
  then have "vc_velocity_local_mps c = vec3 0 1 0" using c(2) by (auto simp: segment_velocity_def default_hold_def)
  with c(1) run 2(2) 3 show ?thesis by blast
qed

end
