(* ===== verification/Runtime_Properties.thy ===== *)
theory Runtime_Properties
  imports Mission_Runtime Trajectory_Properties Object_Samples
begin

text \<open>
  The mission runtime around a controller that keeps its contract: the state of every reachable
  runtime, the commands it sends, its reaction to overruns, and the two controllers as instances.
\<close>

section \<open>Which members the steps change\<close>

text \<open>The members that only the controller's tick and the loop itself may change.\<close>

definition same_core :: "'c MissionRuntime \<Rightarrow> 'c MissionRuntime \<Rightarrow> bool" where
  "same_core a b \<longleftrightarrow> rt_controller a = rt_controller b \<and> rt_running a = rt_running b \<and>
     rt_thread_joinable a = rt_thread_joinable b \<and> rt_finish_requested a = rt_finish_requested b \<and>
     rt_terminal_settled a = rt_terminal_settled b \<and> rt_loop_exception a = rt_loop_exception b \<and>
     rt_tick_count a = rt_tick_count b \<and> rt_last_state a = rt_last_state b \<and>
     rt_consecutive_inflight_overruns a = rt_consecutive_inflight_overruns b"

lemma same_core_trans: "same_core a b \<Longrightarrow> same_core b c \<Longrightarrow> same_core a c"
  by (simp add: same_core_def)

lemma write_event_core [simp]: "same_core (write_event e d rt) rt"
  by (simp add: same_core_def write_event_def)

lemma fold_write_core: "same_core (fold (\<lambda>e. write_event (f e) d) es rt) rt"
proof (induction es arbitrary: rt)
  case (Cons e es)
  then show ?case using same_core_trans write_event_core by fastforce
qed (simp add: same_core_def)

lemma detect_stale_core: "same_core (detect_stale cfg ts rt) rt"
  by (auto simp: detect_stale_def Let_def same_core_def write_event_def)

lemma log_output_core: "same_core (log_output cfg snapshot input out previous rt) rt"
proof -
  have "same_core (fold (\<lambda>e. write_event (f e) None) es (if b then write_event x d rt else rt)) rt" for f es b x d
    by (rule same_core_trans [OF fold_write_core]) (simp add: same_core_def write_event_def)
  note core = this
  have "same_core (if p then write_event y None (fold (\<lambda>e. write_event (f e) None) es (if b then write_event x d rt else rt))
      else fold (\<lambda>e. write_event (f e) None) es (if b then write_event x d rt else rt)) rt" for p y f es b x d
    using core [of f es b x d] same_core_trans [OF write_event_core core [of f es b x d]] by (cases p) simp_all
  then show ?thesis unfolding log_output_def Let_def .
qed

lemma dispatch_camera_core: "same_core (dispatch_camera_pointing env out c rt) rt"
  by (auto simp: dispatch_camera_pointing_def camera_sink_send_def Let_def same_core_def write_event_def split: sum.splits prod.splits)

lemma dispatch_command_core: "same_core (dispatch_command env input out c rt) rt"
  by (auto simp: dispatch_command_def send_command_def command_sink_send_def Let_def same_core_def write_event_def split: sum.splits prod.splits)

text \<open>The input the controller sees at a tick, when there is a snapshot.\<close>

definition next_input :: "MissionRuntimeConfig \<Rightarrow> TickEnv \<Rightarrow> 'c MissionRuntime \<Rightarrow> MissionTickInput option" where
  "next_input cfg env rt = map_option (\<lambda>snapshot. fst (tick_input snapshot env rt)) (env_latest env)"

lemma tick_input_indep:
  assumes "rt_tracker a = rt_tracker b" "rt_last_command_result a = rt_last_command_result b" "rt_finish_requested a = rt_finish_requested b"
  shows "fst (tick_input s env a) = fst (tick_input s env b)"
  using assms by (simp add: tick_input_def split_beta)

lemma tick_input_core: "same_core (snd (tick_input s env rt)) rt"
  by (simp add: tick_input_def split_beta same_core_def)

lemma detect_stale_input: "fst (tick_input s env ((detect_stale cfg ts rt)\<lparr>rt_tick_command_wait_us := w\<rparr>)) = fst (tick_input s env rt)"
  by (rule tick_input_indep) (auto simp: detect_stale_def Let_def write_event_def)

text \<open>The three outcomes of a tick.\<close>

lemma tick_once_cases:
  obtains (waiting) rt1 where "env_latest env = None" "tick_once ctl cfg env rt = Some (Inr False, rt1)" "same_core rt1 rt"
      "next_input cfg env rt = None"
  | (hangs) input where "next_input cfg env rt = Some input" "ctl input (rt_controller rt) = None" "tick_once ctl cfg env rt = None"
  | (throws) input e rt1 where "next_input cfg env rt = Some input" "ctl input (rt_controller rt) = Some (Inl e)"
      "tick_once ctl cfg env rt = Some (Inl e, rt1)" "same_core rt1 rt"
  | (ticks) input out c rt1 where "next_input cfg env rt = Some input" "ctl input (rt_controller rt) = Some (Inr (out, c))"
      "tick_once ctl cfg env rt = Some (Inr True, rt1)"
      "same_core rt1 (rt\<lparr>rt_controller := c, rt_last_state := to_state out,
         rt_terminal_settled := rt_terminal_settled rt \<or> output_is_terminal_settled out, rt_tick_count := rt_tick_count rt + 1\<rparr>)"
proof (cases "env_latest env")
  case None
  then show thesis by (intro waiting [of "rt\<lparr>rt_tick_command_wait_us := 0\<rparr>"]) (simp_all add: tick_once_def same_core_def next_input_def)
next
  case (Some s)
  define rt1 where "rt1 = detect_stale cfg (of_int (timestamp_ns (ws_timestamp s))) (rt\<lparr>rt_tick_command_wait_us := 0\<rparr>)"
  have core1: "same_core rt1 rt" using detect_stale_core [of cfg _ "rt\<lparr>rt_tick_command_wait_us := 0\<rparr>"]
    by (simp add: rt1_def same_core_def)
  obtain input rt2 where ti: "tick_input s env rt1 = (input, rt2)" by fastforce
  have core2: "same_core rt2 rt" using tick_input_core [of s env rt1] core1 ti by (simp add: same_core_def)
  have input: "next_input cfg env rt = Some input"
  proof -
    have "fst (tick_input s env rt1) = fst (tick_input s env rt)"
      unfolding rt1_def by (rule tick_input_indep) (auto simp: detect_stale_def Let_def write_event_def)
    then show ?thesis using ti Some by (simp add: next_input_def)
  qed
  have c: "rt_controller rt2 = rt_controller rt" using core2 by (simp add: same_core_def)
  note run = tick_once_def [of ctl cfg env rt, unfolded Let_def Some option.case, folded rt1_def, unfolded ti prod.case c]
  show thesis
  proof (cases "ctl input (rt_controller rt)")
    case None
    then show ?thesis using hangs [OF input] run by simp
  next
    case (Some r)
    show ?thesis
    proof (cases r)
      case (Inl e)
      then show ?thesis using throws [OF input] Some run core2 by simp
    next
      case (Inr p)
      obtain out c where p: "p = (out, c)" by fastforce
      let ?rt3 = "rt2\<lparr>rt_controller := c, rt_last_state := to_state out,
         rt_terminal_settled := rt_terminal_settled rt2 \<or> output_is_terminal_settled out, rt_tick_count := rt_tick_count rt2 + 1\<rparr>"
      let ?rt4 = "log_output cfg s input out (rt_last_state rt2) ?rt3"
      let ?rt5 = "case to_camera_pointing out of None \<Rightarrow> ?rt4 | Some q \<Rightarrow> dispatch_camera_pointing env out q ?rt4"
      let ?rt6 = "case to_command out of None \<Rightarrow> ?rt5 | Some k \<Rightarrow> dispatch_command env input out k ?rt5"
      have "same_core ?rt5 ?rt3"
        using dispatch_camera_core log_output_core same_core_trans by (fastforce split: option.splits)
      then have "same_core ?rt6 ?rt3"
        using dispatch_command_core same_core_trans by (fastforce split: option.splits)
      then have "same_core ?rt6 (rt\<lparr>rt_controller := c, rt_last_state := to_state out,
         rt_terminal_settled := rt_terminal_settled rt \<or> output_is_terminal_settled out, rt_tick_count := rt_tick_count rt + 1\<rparr>)"
        using core2 by (simp add: same_core_def)
      then show ?thesis using ticks [OF input, of out c ?rt6] Some Inr p run by simp
    qed
  qed
qed

section \<open>The commands in the log\<close>

definition dispatches :: "(RuntimeEvent \<times> display) list \<Rightarrow> VelocityCommand list" where
  "dispatches es = concat (map (\<lambda>(e, _). case e of EvCommandDispatch _ _ c \<Rightarrow> [c] | _ \<Rightarrow> []) es)"

definition results :: "(RuntimeEvent \<times> display) list \<Rightarrow> FlightCommandResult list" where
  "results es = concat (map (\<lambda>(e, _). case e of EvCommandResult _ _ r \<Rightarrow> [r] | _ \<Rightarrow> []) es)"

text \<open>
  The commands and answers logged, the answer the next tick will see, and the calls the two sinks have received.
\<close>

type_synonym CommandLog = "VelocityCommand list \<times> FlightCommandResult list \<times> FlightCommandResult option \<times>
  (VelocityCommand \<times> FlightCommandResult result) list \<times> (CameraPointingCommand \<times> CameraPointingResult result) list"

definition command_log :: "'c MissionRuntime \<Rightarrow> CommandLog" where
  "command_log rt = (dispatches (rt_events rt), results (rt_events rt), rt_last_command_result rt, rt_command_sink rt, rt_camera_pointing_sink rt)"

fun command_event :: "RuntimeEvent \<Rightarrow> bool" where
  "command_event (EvCommandDispatch _ _ _) = True"
| "command_event (EvCommandResult _ _ _) = True"
| "command_event _ = False"

lemma command_log_write [simp]: "\<not> command_event e \<Longrightarrow> command_log (write_event e d rt) = command_log rt"
  by (cases e) (auto simp: command_log_def write_event_def dispatches_def results_def)

lemma command_log_cong:
  "rt_events a = rt_events b \<Longrightarrow> rt_last_command_result a = rt_last_command_result b \<Longrightarrow> rt_command_sink a = rt_command_sink b \<Longrightarrow>
   rt_camera_pointing_sink a = rt_camera_pointing_sink b \<Longrightarrow> command_log a = command_log b"
  by (simp add: command_log_def)

lemma command_log_fold: "(\<And>e. \<not> command_event (f e)) \<Longrightarrow> command_log (fold (\<lambda>e. write_event (f e) d) es rt) = command_log rt"
  by (induction es arbitrary: rt) simp_all

lemma detect_stale_log: "command_log (detect_stale cfg ts rt) = command_log rt"
  by (auto simp: detect_stale_def Let_def intro: command_log_cong)

lemma log_output_log: "command_log (log_output cfg s input out previous rt) = command_log rt"
  by (simp add: log_output_def Let_def command_log_fold)

text \<open>The answer to a command: what the sink returned, or a failure with the message it threw.\<close>

fun sink_answer :: "VelocityCommand \<times> FlightCommandResult result \<Rightarrow> FlightCommandResult" where
  "sink_answer (c, Inr r) = r"
| "sink_answer (c, Inl e) = \<lparr>fcr_kind = vc_kind c, fcr_success = False, fcr_status = e\<rparr>"

fun add_command :: "TickEnv \<Rightarrow> VelocityCommand \<Rightarrow> CommandLog \<Rightarrow> CommandLog" where
  "add_command env c (ds, rs, l, fs, ps) =
     (let a = sink_answer (c, env_send env c) in (ds @ [c], rs @ [a], Some a, fs @ [(c, env_send env c)], ps))"

fun add_pointing :: "TickEnv \<Rightarrow> CameraPointingCommand \<Rightarrow> CommandLog \<Rightarrow> CommandLog" where
  "add_pointing env p (ds, rs, l, fs, ps) = (ds, rs, l, fs, ps @ [(p, env_camera_send env p)])"

definition log_tick :: "TickEnv \<Rightarrow> MissionTickOutput \<Rightarrow> CommandLog \<Rightarrow> CommandLog" where
  "log_tick env out l =
     (let l = (case to_camera_pointing out of None \<Rightarrow> l | Some p \<Rightarrow> add_pointing env p l)
      in case to_command out of None \<Rightarrow> l | Some c \<Rightarrow> add_command env c l)"

lemma dispatch_camera_log: "command_log (dispatch_camera_pointing env out c rt) = add_pointing env c (command_log rt)"
  by (auto simp: dispatch_camera_pointing_def camera_sink_send_def Let_def command_log_def write_event_def dispatches_def results_def
      split: sum.splits prod.splits)

lemma dispatch_command_log: "command_log (dispatch_command env input out c rt) = add_command env c (command_log rt)"
  by (auto simp: dispatch_command_def send_command_def command_sink_send_def Let_def command_log_def write_event_def dispatches_def results_def
      split: sum.splits prod.splits)

lemma tick_input_log: "command_log (snd (tick_input s env rt)) = command_log rt"
  by (simp add: tick_input_def split_beta command_log_def)

lemma tick_once_log:
  assumes "tick_once ctl cfg env rt = Some (r, rt1)"
  shows "command_log rt1 =
    (case next_input cfg env rt of None \<Rightarrow> command_log rt
     | Some input \<Rightarrow> (case ctl input (rt_controller rt) of
         Some (Inr (out, _)) \<Rightarrow> log_tick env out (command_log rt)
       | _ \<Rightarrow> command_log rt))"
proof (cases "env_latest env")
  case None
  then show ?thesis using assms by (auto simp: tick_once_def next_input_def command_log_def)
next
  case (Some s)
  define rt1' where "rt1' = detect_stale cfg (of_int (timestamp_ns (ws_timestamp s))) (rt\<lparr>rt_tick_command_wait_us := 0\<rparr>)"
  obtain input rt2 where ti: "tick_input s env rt1' = (input, rt2)" by fastforce
  have input: "next_input cfg env rt = Some input"
  proof -
    have "fst (tick_input s env rt1') = fst (tick_input s env rt)"
      unfolding rt1'_def by (rule tick_input_indep) (auto simp: detect_stale_def Let_def write_event_def)
    then show ?thesis using ti Some by (simp add: next_input_def)
  qed
  have log2: "command_log rt2 = command_log rt"
    using tick_input_log [of s env rt1'] ti detect_stale_log [of cfg _ "rt\<lparr>rt_tick_command_wait_us := 0\<rparr>"]
    by (simp add: rt1'_def command_log_def)
  have c: "rt_controller rt2 = rt_controller rt"
    using tick_input_core [of s env rt1'] ti detect_stale_core [of cfg _ "rt\<lparr>rt_tick_command_wait_us := 0\<rparr>"]
    by (simp add: rt1'_def same_core_def)
  note run = tick_once_def [of ctl cfg env rt, unfolded Let_def Some option.case, folded rt1'_def, unfolded ti prod.case c]
  have upd: "command_log (rt2\<lparr>rt_controller := c', rt_last_state := l, rt_terminal_settled := b, rt_tick_count := n\<rparr>) = command_log rt"
    for c' l b n using log2 by (simp add: command_log_def)
  show ?thesis
    using assms run input log2 upd
    by (auto simp: dispatch_command_log log_output_log dispatch_camera_log log_tick_def split: option.splits sum.splits prod.splits)
qed

section \<open>Runs\<close>

lemma entered_complete_extend:
  "entered_complete_grounded h \<Longrightarrow> to_state out = Complete \<Longrightarrow> entered_complete_grounded ((i, out) # h)"
  unfolding entered_complete_grounded_def by (metis append_Cons set_ConsD snd_conv list.set_intros(2) insert_iff list.simps(15))

lemma entered_complete_new:
  "\<not> airborne i \<or> confirmed_disarmed i \<Longrightarrow> h = [] \<or> to_state (snd (hd h)) \<noteq> Complete \<Longrightarrow> to_state out = Complete \<Longrightarrow>
   entered_complete_grounded ((i, out) # h)"
  unfolding entered_complete_grounded_def
  by (intro exI [of _ "[]"] exI [of _ i] exI [of _ out] exI [of _ h]) simp

text \<open>The controller's tick in an iteration, if there is one that returns.\<close>

definition new_ticks ::
    "(MissionTickInput \<Rightarrow> 'c \<Rightarrow> (MissionTickOutput \<times> 'c) result option) \<Rightarrow> MissionRuntimeConfig \<Rightarrow> TickEnv \<Rightarrow> 'c MissionRuntime \<Rightarrow>
     (MissionTickInput \<times> MissionTickOutput) list" where
  "new_ticks ctl cfg env rt =
     (case next_input cfg env rt of None \<Rightarrow> []
      | Some input \<Rightarrow> (case ctl input (rt_controller rt) of Some (Inr (out, _)) \<Rightarrow> [(input, out)] | _ \<Rightarrow> []))"

text \<open>
  The states a runtime can reach, with the controller's ticks so far (the last one first): the
  loop iterates while it is running; other threads start, stop and ask to finish in between.
\<close>

inductive rt_run ::
    "(MissionTickInput \<Rightarrow> 'c \<Rightarrow> (MissionTickOutput \<times> 'c) result option) \<Rightarrow> MissionRuntimeConfig \<Rightarrow> 'c \<Rightarrow>
     (MissionTickInput \<times> MissionTickOutput) list \<Rightarrow> 'c MissionRuntime \<Rightarrow> bool" for ctl cfg c0 where
  create: "rt_run ctl cfg c0 [] (MissionRuntime_init c0)"
| start: "rt_run ctl cfg c0 h rt \<Longrightarrow> rt_start cfg rt = Inr rt' \<Longrightarrow> rt_run ctl cfg c0 h rt'"
| stop: "rt_run ctl cfg c0 h rt \<Longrightarrow> rt_run ctl cfg c0 h (rt_stop rt)"
| finish: "rt_run ctl cfg c0 h rt \<Longrightarrow> rt_run ctl cfg c0 h (rt_request_finish rt)"
| iterate: "rt_run ctl cfg c0 h rt \<Longrightarrow> rt_running rt \<Longrightarrow> loop_iteration ctl cfg env rt = Some rt' \<Longrightarrow>
    rt_run ctl cfg c0 (new_ticks ctl cfg env rt @ h) rt'"

lemma count_overrun_simps [simp]:
  "rt_controller (count_overrun cfg us rt) = rt_controller rt" "rt_last_state (count_overrun cfg us rt) = rt_last_state rt"
  "rt_tick_count (count_overrun cfg us rt) = rt_tick_count rt" "rt_terminal_settled (count_overrun cfg us rt) = rt_terminal_settled rt"
  "rt_running (count_overrun cfg us rt) = rt_running rt" "command_log (count_overrun cfg us rt) = command_log rt"
  by (auto simp: count_overrun_def Let_def write_event_def command_log_def dispatches_def results_def)

lemma other_steps_simps [simp]:
  "rt_controller (rt_stop rt) = rt_controller rt" "rt_last_state (rt_stop rt) = rt_last_state rt"
  "rt_tick_count (rt_stop rt) = rt_tick_count rt" "rt_terminal_settled (rt_stop rt) = rt_terminal_settled rt"
  "command_log (rt_stop rt) = command_log rt" "rt_finish_requested (rt_stop rt) = rt_finish_requested rt"
  "rt_controller (rt_request_finish rt) = rt_controller rt" "rt_last_state (rt_request_finish rt) = rt_last_state rt"
  "rt_tick_count (rt_request_finish rt) = rt_tick_count rt" "rt_terminal_settled (rt_request_finish rt) = rt_terminal_settled rt"
  "command_log (rt_request_finish rt) = command_log rt" "rt_finish_requested (rt_request_finish rt)"
  by (auto simp: rt_stop_def rt_request_finish_def Let_def write_event_def command_log_def dispatches_def results_def)

lemma rt_start_simps:
  assumes "rt_start cfg rt = Inr rt'"
  shows "rt_controller rt' = rt_controller rt" "rt_last_state rt' = rt_last_state rt" "rt_tick_count rt' = rt_tick_count rt"
    "rt_terminal_settled rt' = rt_terminal_settled rt" "command_log rt' = command_log rt"
    "rt_finish_requested rt' = rt_finish_requested rt"
    "rt_consecutive_inflight_overruns rt' = rt_consecutive_inflight_overruns rt"
  using assms by (auto simp: rt_start_def Let_def write_event_def command_log_def dispatches_def results_def split: if_splits)

text \<open>The overrun counter never reaches its limit without the request to finish.\<close>

definition overruns_ok :: "MissionRuntimeConfig \<Rightarrow> 'c MissionRuntime \<Rightarrow> bool" where
  "overruns_ok cfg rt \<longleftrightarrow> 0 \<le> rt_consecutive_inflight_overruns rt \<and>
     (0 < mr_max_consecutive_inflight_overruns cfg \<and>
      mr_max_consecutive_inflight_overruns cfg \<le> rt_consecutive_inflight_overruns rt \<longrightarrow> rt_finish_requested rt)"

lemma count_overrun_ok: "overruns_ok cfg rt \<Longrightarrow> overruns_ok cfg (count_overrun cfg us rt)"
  by (auto simp: overruns_ok_def count_overrun_def Let_def write_event_def)

lemma same_core_overruns: "same_core a b \<Longrightarrow> overruns_ok cfg a = overruns_ok cfg b"
  by (simp add: same_core_def overruns_ok_def)

text \<open>The commands of a list of ticks, in the order they were given.\<close>

definition tick_commands :: "(MissionTickInput \<times> MissionTickOutput) list \<Rightarrow> VelocityCommand list" where
  "tick_commands h = concat (map (\<lambda>(_, out). case to_command out of None \<Rightarrow> [] | Some c \<Rightarrow> [c]) (rev h))"

definition tick_pointings :: "(MissionTickInput \<times> MissionTickOutput) list \<Rightarrow> CameraPointingCommand list" where
  "tick_pointings h = concat (map (\<lambda>(_, out). case to_camera_pointing out of None \<Rightarrow> [] | Some p \<Rightarrow> [p]) (rev h))"

text \<open>What holds of a runtime and the ticks of its controller.\<close>

definition runtime_ok ::
    "('c \<Rightarrow> bool) \<Rightarrow> ('c \<Rightarrow> MissionLifecycleState) \<Rightarrow> MissionRuntimeConfig \<Rightarrow> (MissionTickInput \<times> MissionTickOutput) list \<Rightarrow>
     'c MissionRuntime \<Rightarrow> bool" where
  "runtime_ok ok lc cfg h rt \<longleftrightarrow> ok (rt_controller rt) \<and> rt_last_state rt = lc (rt_controller rt) \<and>
     rt_tick_count rt = length h \<and> overruns_ok cfg rt \<and>
     (case h of [] \<Rightarrow> rt_last_state rt = Idle | e # _ \<Rightarrow> to_state (snd e) = rt_last_state rt) \<and>
     (rt_terminal_settled rt \<longrightarrow> rt_last_state rt \<in> {Complete, Abort}) \<and>
     map fst (rt_command_sink rt) = tick_commands h \<and> map fst (rt_camera_pointing_sink rt) = tick_pointings h \<and>
     dispatches (rt_events rt) = tick_commands h \<and> results (rt_events rt) = map sink_answer (rt_command_sink rt) \<and>
     rt_last_command_result rt = (if rt_command_sink rt = [] then None else Some (sink_answer (last (rt_command_sink rt))))"

lemma runtime_ok_log:
  "runtime_ok ok lc cfg h rt \<Longrightarrow> command_log rt' = command_log rt \<Longrightarrow> rt_controller rt' = rt_controller rt \<Longrightarrow>
   rt_last_state rt' = rt_last_state rt \<Longrightarrow> rt_tick_count rt' = rt_tick_count rt \<Longrightarrow>
   rt_terminal_settled rt' = rt_terminal_settled rt \<Longrightarrow> overruns_ok cfg rt' \<Longrightarrow> runtime_ok ok lc cfg h rt'"
  by (auto simp: runtime_ok_def command_log_def split: list.splits)

lemma runtime_ok_overruns: "runtime_ok ok lc cfg h rt \<Longrightarrow> overruns_ok cfg rt"
  by (simp add: runtime_ok_def)

text \<open>One iteration: at most one tick of the controller, and nothing else changes the life cycle.\<close>

lemma iteration_cases:
  assumes "loop_iteration ctl cfg env rt = Some rt'"
  obtains (no_tick) rt1 where "new_ticks ctl cfg env rt = []" "same_core rt1 rt" "command_log rt' = command_log rt"
      "rt_controller rt' = rt_controller rt" "rt_last_state rt' = rt_last_state rt" "rt_tick_count rt' = rt_tick_count rt"
      "rt_terminal_settled rt' = rt_terminal_settled rt" "overruns_ok cfg rt \<Longrightarrow> overruns_ok cfg rt'"
  | (tick) input out c where "new_ticks ctl cfg env rt = [(input, out)]" "next_input cfg env rt = Some input"
      "ctl input (rt_controller rt) = Some (Inr (out, c))"
      "rt_controller rt' = c" "rt_last_state rt' = to_state out" "rt_tick_count rt' = rt_tick_count rt + 1"
      "rt_terminal_settled rt' \<longleftrightarrow> rt_terminal_settled rt \<or> output_is_terminal_settled out"
      "command_log rt' = log_tick env out (command_log rt)"
      "overruns_ok cfg rt \<Longrightarrow> overruns_ok cfg rt'"
proof (cases rule: tick_once_cases [of env ctl cfg rt])
  case (waiting rt1)
  then have "rt' = count_overrun cfg (env_tick_us env) rt1" using assms by (simp add: loop_iteration_def)
  moreover have "command_log rt1 = command_log rt" using tick_once_log [OF waiting(2)] waiting(4) by simp
  ultimately show thesis
    using no_tick [of rt1] waiting count_overrun_ok [of cfg rt1] same_core_overruns [OF waiting(3), of cfg]
    by (auto simp: new_ticks_def same_core_def)
next
  case (hangs input)
  then show thesis using assms by (simp add: loop_iteration_def)
next
  case (throws input e rt1)
  then have "rt' = (write_event (EvRuntimeError (rt_tick_count rt1) e) None (rt1\<lparr>rt_loop_exception := Some e\<rparr>))\<lparr>rt_running := False\<rparr>"
    using assms by (simp add: loop_iteration_def)
  moreover have "command_log rt1 = command_log rt" using tick_once_log [OF throws(3)] throws(1,2) by simp
  ultimately show thesis
    using no_tick [of rt1] throws
    by (auto simp: new_ticks_def same_core_def write_event_def command_log_def dispatches_def results_def overruns_ok_def)
next
  case (ticks input out c rt1)
  then have rt': "rt' = count_overrun cfg (env_tick_us env) rt1" using assms by (simp add: loop_iteration_def)
  have "overruns_ok cfg rt1 = overruns_ok cfg rt" using ticks(4) by (simp add: same_core_def overruns_ok_def)
  then show thesis
    using tick [of input out c] ticks rt' tick_once_log [OF ticks(3)] count_overrun_ok [of cfg rt1 "env_tick_us env"]
    by (simp add: new_ticks_def same_core_def)
qed

text \<open>The calls the sinks receive in an iteration.\<close>

lemma iteration_calls:
  assumes "loop_iteration ctl cfg env rt = Some rt'"
  shows "rt_command_sink rt' = rt_command_sink rt @ map (\<lambda>c. (c, env_send env c)) (tick_commands (new_ticks ctl cfg env rt)) \<and>
    rt_camera_pointing_sink rt' =
      rt_camera_pointing_sink rt @ map (\<lambda>p. (p, env_camera_send env p)) (tick_pointings (new_ticks ctl cfg env rt))"
  using assms
  by (cases rule: iteration_cases)
    (auto simp: command_log_def log_tick_def Let_def tick_commands_def tick_pointings_def split: option.splits)

lemma rt_run_tick:
  "rt_run ctl cfg c0 h rt \<Longrightarrow> h = later @ (input, out) # earlier \<Longrightarrow>
   \<exists>rt0 c'. rt_run ctl cfg c0 earlier rt0 \<and> ctl input (rt_controller rt0) = Some (Inr (out, c'))"
proof (induction arbitrary: later rule: rt_run.induct)
  case (iterate h rt env rt')
  from iterate.hyps(3) show ?case
  proof (cases rule: iteration_cases)
    case (tick input' out' c)
    then show ?thesis using iterate by (cases later) auto
  qed (use iterate in auto)
qed auto

context mission_controller
begin

lemma runtime_ok_run: "rt_run ctl cfg ctl_init h rt \<Longrightarrow> runtime_ok ctl_inv lc cfg h rt"
proof (induction rule: rt_run.induct)
  case create
  then show ?case
    by (simp add: runtime_ok_def MissionRuntime_init_def inv_init lc_init overruns_ok_def dispatches_def results_def tick_commands_def tick_pointings_def)
next
  case (start h rt rt')
  then show ?case
    using runtime_ok_log [OF start.IH] rt_start_simps [OF start.hyps(2)] runtime_ok_overruns [OF start.IH] by (simp add: overruns_ok_def)
next
  case (stop h rt)
  then show ?case
    by (intro runtime_ok_log [OF stop.IH]) (use runtime_ok_overruns [OF stop.IH] in
      \<open>simp_all add: overruns_ok_def, simp add: rt_stop_def Let_def write_event_def\<close>)
next
  case (finish h rt)
  then show ?case
    by (intro runtime_ok_log [OF finish.IH]) (use runtime_ok_overruns [OF finish.IH] in
      \<open>simp_all add: overruns_ok_def, simp add: rt_request_finish_def write_event_def\<close>)
next
  case (iterate h rt env rt')
  from iterate.hyps(3) show ?case
  proof (cases rule: iteration_cases)
    case (no_tick rt1)
    then show ?thesis using runtime_ok_log [OF iterate.IH] runtime_ok_overruns [OF iterate.IH] by simp
  next
    case (tick input out c)
    have inv: "ctl_inv (rt_controller rt)" "rt_last_state rt = lc (rt_controller rt)"
      using iterate.IH by (auto simp: runtime_ok_def)
    note step = ctl_step [OF inv(1) tick(3)]
    have "rt_last_state rt' \<in> {Complete, Abort}" if "rt_terminal_settled rt'"
    proof (cases "rt_terminal_settled rt")
      case True
      then have "lc (rt_controller rt) = Complete \<or> lc (rt_controller rt) = Abort" using iterate.IH inv by (simp add: runtime_ok_def)
      then show ?thesis using step tick(5) by (auto dest: forward_step_Abort forward_step_Complete)
    next
      case False
      then show ?thesis using that tick(5,7) by (auto simp: output_is_terminal_settled_def)
    qed
    with step tick iterate.IH show ?thesis
      by (auto simp: runtime_ok_def command_log_def log_tick_def Let_def tick_commands_def tick_pointings_def split: option.splits if_splits)
  qed
qed

lemma run_inv: "rt_run ctl cfg ctl_init h rt \<Longrightarrow> ctl_inv (rt_controller rt) \<and> rt_last_state rt = lc (rt_controller rt)"
  using runtime_ok_run by (simp add: runtime_ok_def)

lemma run_last_tick: "rt_run ctl cfg ctl_init (e # h) rt \<Longrightarrow> to_state (snd e) = lc (rt_controller rt)"
  using runtime_ok_run [of cfg "e # h" rt] by (simp add: runtime_ok_def)

lemma iteration_returns:
  assumes "rt_run ctl cfg ctl_init h rt"
  shows "loop_iteration ctl cfg env rt \<noteq> None"
proof (cases rule: tick_once_cases [of env ctl cfg rt])
  case (hangs input)
  then show ?thesis using ctl_returns [OF conjunct1 [OF run_inv [OF assms]], of input] by simp
qed (simp_all add: loop_iteration_def)

text \<open>Whenever the controller is in \<open>Complete\<close>, it entered it on the ground or disarmed.\<close>

lemma complete_grounded: "rt_run ctl cfg ctl_init h rt \<Longrightarrow> lc (rt_controller rt) = Complete \<Longrightarrow> entered_complete_grounded h"
proof (induction rule: rt_run.induct)
  case create
  then show ?case by (simp add: MissionRuntime_init_def lc_init)
next
  case (iterate h rt env rt')
  from iterate.hyps(3) show ?case
  proof (cases rule: iteration_cases)
    case (tick input out c)
    have inv: "ctl_inv (rt_controller rt)" using run_inv [OF iterate.hyps(1)] by blast
    note step = ctl_step [OF inv tick(3)]
    have out: "to_state out = Complete" using step tick(4) iterate.prems by simp
    have "entered_complete_grounded ((input, out) # h)"
    proof (cases "lc (rt_controller rt) = Complete")
      case True
      from iterate.IH [OF this] show ?thesis using out by (rule entered_complete_extend)
    next
      case False
      then have "\<not> airborne input \<or> confirmed_disarmed input" using step tick(4) iterate.prems by (simp add: forward_step_def)
      moreover have "h = [] \<or> to_state (snd (hd h)) \<noteq> Complete"
        using run_last_tick iterate.hyps(1) False by (cases h) auto
      ultimately show ?thesis using out by (intro entered_complete_new)
    qed
    then show ?thesis using tick(1) by simp
  qed (use iterate in auto)
qed (auto simp: rt_start_simps)

lemma disarm_grounded:
  assumes "rt_run ctl cfg ctl_init h rt" and "h = later @ (input, out) # earlier"
    and "to_command out = Some c" and "vc_kind c = CmdDisarm"
  shows "entered_complete_grounded earlier"
proof -
  obtain rt0 c' where 0: "rt_run ctl cfg ctl_init earlier rt0" "ctl input (rt_controller rt0) = Some (Inr (out, c'))"
    using rt_run_tick [OF assms(1,2)] by blast
  note inv = run_inv [OF 0(1), THEN conjunct1]
  have "CmdDisarm \<in> command_kinds (lc c')" "lc c' = lc (rt_controller rt0) \<or> lc c' = Prepare"
    using ctl_command [OF inv 0(2) assms(3)] assms(4) by auto
  then have "lc (rt_controller rt0) = Complete" by (cases "lc c'") auto
  with complete_grounded [OF 0(1)] show ?thesis by blast
qed

end

section \<open>The loop over a sequence of ticks\<close>

fun run_loop ::
    "(MissionTickInput \<Rightarrow> 'c \<Rightarrow> (MissionTickOutput \<times> 'c) result option) \<Rightarrow> MissionRuntimeConfig \<Rightarrow> TickEnv list \<Rightarrow> 'c MissionRuntime \<Rightarrow>
     'c MissionRuntime option" where
  "run_loop ctl cfg [] rt = Some rt"
| "run_loop ctl cfg (env # envs) rt =
     (if \<not> rt_running rt then Some rt
      else case loop_iteration ctl cfg env rt of None \<Rightarrow> None | Some rt' \<Rightarrow> run_loop ctl cfg envs rt')"

context mission_controller
begin

lemma iteration_forward:
  assumes "rt_run ctl cfg ctl_init h rt" and "loop_iteration ctl cfg env rt = Some rt'"
  shows "lifecycle_rank (rt_last_state rt) \<le> lifecycle_rank (rt_last_state rt')"
  using assms(2) run_inv [OF assms(1)]
  by (cases rule: iteration_cases) (auto simp: forward_step_def dest: ctl_step)

lemma run_loop_forward:
  assumes "rt_run ctl cfg ctl_init h rt"
  shows "\<exists>rt' h'. run_loop ctl cfg envs rt = Some rt' \<and> rt_run ctl cfg ctl_init h' rt' \<and>
    lifecycle_rank (rt_last_state rt) \<le> lifecycle_rank (rt_last_state rt')"
  using assms
proof (induction envs arbitrary: rt h)
  case (Cons env envs)
  show ?case
  proof (cases "rt_running rt")
    case True
    obtain rt1 where it: "loop_iteration ctl cfg env rt = Some rt1" using iteration_returns [OF Cons.prems] by blast
    from Cons.IH [OF rt_run.iterate [OF Cons.prems True it]] iteration_forward [OF Cons.prems it] it True show ?thesis
      by (auto intro: order_trans)
  qed (use Cons.prems in auto)
qed auto

end

lemma count_overrun_latches: "rt_finish_requested rt \<Longrightarrow> rt_finish_requested (count_overrun cfg us rt)"
  by (auto simp: count_overrun_def Let_def write_event_def)

lemma iteration_latches:
  assumes "loop_iteration ctl cfg env rt = Some rt'"
  shows "rt_finish_requested rt \<Longrightarrow> rt_finish_requested rt'"
  using assms count_overrun_latches
  by (cases rule: tick_once_cases [of env ctl cfg rt]) (auto simp: loop_iteration_def same_core_def write_event_def)

text \<open>An iteration that overran its budget in flight, seen from the state after it.\<close>

definition overran :: "MissionRuntimeConfig \<Rightarrow> TickEnv \<Rightarrow> 'c MissionRuntime \<Rightarrow> bool" where
  "overran cfg env rt \<longleftrightarrow> rt_running rt \<and> inflight (rt_last_state rt) \<and>
     budget_us cfg \<le> max 0 (env_tick_us env - rt_tick_command_wait_us rt)"

lemma count_overrun_counts:
  "budget_us cfg \<le> max 0 (us - rt_tick_command_wait_us rt) \<Longrightarrow> inflight (rt_last_state rt) \<Longrightarrow>
   rt_consecutive_inflight_overruns (count_overrun cfg us rt) = rt_consecutive_inflight_overruns rt + 1"
  by (auto simp: count_overrun_def Let_def write_event_def)

lemma count_overrun_wait: "rt_tick_command_wait_us (count_overrun cfg us rt) = rt_tick_command_wait_us rt"
  by (auto simp: count_overrun_def Let_def write_event_def)

lemma overrun_counts:
  assumes "loop_iteration ctl cfg env rt = Some rt'" and "overran cfg env rt'"
  shows "rt_consecutive_inflight_overruns rt' = rt_consecutive_inflight_overruns rt + 1"
proof (cases rule: tick_once_cases [of env ctl cfg rt])
  case (throws input e rt1)
  then show ?thesis using assms by (auto simp: loop_iteration_def overran_def)
next
  case (hangs input)
  then show ?thesis using assms by (simp add: loop_iteration_def)
next
  case (waiting rt1)
  then have "rt' = count_overrun cfg (env_tick_us env) rt1" using assms(1) by (simp add: loop_iteration_def)
  with assms(2) count_overrun_counts [of cfg "env_tick_us env" rt1] waiting(3) show ?thesis
    by (simp add: overran_def count_overrun_wait same_core_def)
next
  case (ticks input out c rt1)
  then have "rt' = count_overrun cfg (env_tick_us env) rt1" using assms(1) by (simp add: loop_iteration_def)
  with assms(2) count_overrun_counts [of cfg "env_tick_us env" rt1] ticks(4) show ?thesis
    by (simp add: overran_def count_overrun_wait same_core_def)
qed

fun overrun_sequence ::
    "(MissionTickInput \<Rightarrow> 'c \<Rightarrow> (MissionTickOutput \<times> 'c) result option) \<Rightarrow> MissionRuntimeConfig \<Rightarrow> TickEnv list \<Rightarrow> 'c MissionRuntime \<Rightarrow> bool" where
  "overrun_sequence ctl cfg [] rt \<longleftrightarrow> True"
| "overrun_sequence ctl cfg (env # envs) rt \<longleftrightarrow>
     (case loop_iteration ctl cfg env rt of None \<Rightarrow> False
      | Some rt' \<Rightarrow> overran cfg env rt' \<and> overrun_sequence ctl cfg envs rt')"

lemma overrun_sequence_counts:
  assumes "overrun_sequence ctl cfg envs rt" and "rt_run ctl cfg c0 h rt" and "rt_running rt" and "overruns_ok cfg rt"
  shows "\<exists>rt' h'. run_loop ctl cfg envs rt = Some rt' \<and> rt_run ctl cfg c0 h' rt' \<and> rt_running rt' \<and> overruns_ok cfg rt' \<and>
    rt_consecutive_inflight_overruns rt' = rt_consecutive_inflight_overruns rt + int (length envs)"
  using assms
proof (induction envs arbitrary: rt h)
  case (Cons env envs)
  then obtain rt1 where it: "loop_iteration ctl cfg env rt = Some rt1" "overran cfg env rt1" "overrun_sequence ctl cfg envs rt1"
    by (auto split: option.splits)
  have run1: "rt_run ctl cfg c0 (new_ticks ctl cfg env rt @ h) rt1" using rt_run.iterate [OF Cons.prems(2,3) it(1)] .
  have ok1: "overruns_ok cfg rt1" using it(1) Cons.prems(4) by (cases rule: iteration_cases) auto
  from Cons.IH [OF it(3) run1 _ ok1] it(2) obtain rt' h' where
    "run_loop ctl cfg envs rt1 = Some rt'" "rt_run ctl cfg c0 h' rt'" "rt_running rt'" "overruns_ok cfg rt'"
    "rt_consecutive_inflight_overruns rt' = rt_consecutive_inflight_overruns rt1 + int (length envs)"
    by (auto simp: overran_def)
  then show ?case using it(1) Cons.prems(3) overrun_counts [OF it(1,2)] by auto
qed auto

lemma overrun_sequence_inflight:
  "overrun_sequence ctl cfg envs rt \<Longrightarrow> envs \<noteq> [] \<Longrightarrow> rt_running rt \<Longrightarrow> run_loop ctl cfg envs rt = Some rt' \<Longrightarrow> inflight (rt_last_state rt')"
proof (induction envs arbitrary: rt)
  case (Cons env envs)
  then obtain rt1 where it: "overran cfg env rt1" "overrun_sequence ctl cfg envs rt1" "run_loop ctl cfg envs rt1 = Some rt'"
    by (auto split: option.splits)
  show ?case
  proof (cases "envs = []")
    case True
    then show ?thesis using it by (auto simp: overran_def)
  next
    case False
    then show ?thesis using Cons.IH [OF it(2) _ _ it(3)] it(1) by (auto simp: overran_def)
  qed
qed simp

section \<open>Finishing an object-behaviour mission\<close>

text \<open>A tick that is asked to finish ends the behaviour, or the running step of a sequence.\<close>

lemma obm_finish_step:
  assumes "obm_inv st" and "c_state st = ExecuteMission" and "ti_finish_requested input"
    and "obm_tick cfg input st = Some (Inr (out, st'))"
  shows "c_state st' = GoHome \<or> (c_state st' = ExecuteMission \<and> c_sequence_step_index st' = c_sequence_step_index st + 1 \<and>
    c_sequence_step_index st + 1 < length (bs_steps (mission_behavior cfg)))"
proof -
  let ?st = "st\<lparr>c_last_tick_time := ti_now input, c_execute_tick_count := c_execute_tick_count st + 1\<rparr>"
  let ?out = "MissionTickOutput_default\<lparr>to_state := ExecuteMission\<rparr>"
  let ?sel = "select_target (ti_snapshot input) (bm_target (oc_behavior_spec cfg)) (c_previous_selection st)"
  have run: "running ?st" "c_state ?st = ExecuteMission" "c_mission_started st" and out: "to_command ?out = None"
    using assms(1,2) by (auto simp: obm_inv_def running_def ObjectController_init_def MissionTickOutput_default_def)
  obtain s where s: "tick_execute_mission cfg input (input_height input) (?out, st\<lparr>c_last_tick_time := ti_now input\<rparr>) = Some (Inr s)" "st' = snd s"
    using assms(2,4) run(3) by (auto simp: obm_tick_def Let_def start_mission_def tick_state_handler_def bindO_def split: option.splits sum.splits)
  show ?thesis
  proof (cases "sel_selected ?sel")
    case False
    then show ?thesis using s assms(3) by (auto simp: tick_execute_mission_def Let_def)
  next
    case True
    then have ex: "execute_selected cfg input (input_height input) ?sel (?out, ?st) = Some (Inr s)"
      using s(1) by (simp add: tick_execute_mission_def Let_def)
    from run(1) out run(2) show ?thesis
    proof (cases rule: execute_selected_cases [where cfg = cfg and input = input and h = "input_height input" and sel = ?sel])
      case (error b e)
      then show ?thesis using ex by simp
    next
      case (advance b r out1 st1)
      then have "s = advance_sequence cfg (ti_now input) b r (out1, st1)" using ex by simp
      with advance s(2) show ?thesis
        by (auto simp: advance_sequence_state active_behavior_is_last_sequence_step_def Let_def split: if_splits)
    next
      case (end_run f sc q out1 st1)
      then show ?thesis using ex s(2) by (auto simp: end_behavior_state)
    next
      case (command ctl b m raw g q out1 st0 st1)
      then show ?thesis using assms(3) by blast
    qed
  qed
qed

lemma next_input_finish: "next_input cfg env rt = Some input \<Longrightarrow> ti_finish_requested input = rt_finish_requested rt"
  by (auto simp: next_input_def tick_input_def split_beta)

text \<open>What an iteration does to an executing mission that is asked to finish.\<close>

lemma finish_iteration:
  assumes "rt_run (obm_tick oc) cfg ObjectController_init h rt" and "rt_finish_requested rt" and "rt_last_state rt = ExecuteMission"
    and "env_latest env \<noteq> None" and "loop_iteration (obm_tick oc) cfg env rt = Some rt1" and "rt_running rt1"
  shows "rt_last_state rt1 = GoHome \<or> (rt_last_state rt1 = ExecuteMission \<and>
    c_sequence_step_index (rt_controller rt1) = c_sequence_step_index (rt_controller rt) + 1 \<and>
    c_sequence_step_index (rt_controller rt) + 1 < length (bs_steps (mission_behavior oc)))"
proof (cases rule: tick_once_cases [of env "obm_tick oc" cfg rt])
  case (ticks input out c rt2)
  note inv = obm.run_inv [OF assms(1)]
  have "rt1 = count_overrun cfg (env_tick_us env) rt2" using ticks(3) assms(5) by (simp add: loop_iteration_def)
  then have "rt_controller rt1 = c" "rt_last_state rt1 = c_state c"
    using ticks(4) obm.ctl_step [OF _ ticks(2)] inv by (auto simp: same_core_def)
  with obm_finish_step [OF _ _ _ ticks(2)] inv assms(2,3) next_input_finish [OF ticks(1)] show ?thesis by auto
qed (use assms in \<open>auto simp: loop_iteration_def\<close>)

lemma run_loop_finish:
  fixes rt :: "ObjectController MissionRuntime"
  assumes "rt_run (obm_tick oc) cfg ObjectController_init h rt" and "rt_running rt" and "rt_finish_requested rt"
    and "rt_last_state rt = ExecuteMission" and "\<forall>env\<in>set envs. env_latest env \<noteq> None" and "envs \<noteq> []"
    and "length (bs_steps (mission_behavior oc)) \<le> c_sequence_step_index (rt_controller rt) + length envs"
  shows "\<exists>rt'. run_loop (obm_tick oc) cfg envs rt = Some rt' \<and>
    (\<not> rt_running rt' \<or> lifecycle_rank ExecuteMission < lifecycle_rank (rt_last_state rt'))"
  using assms
proof (induction envs arbitrary: rt h)
  case (Cons env envs)
  obtain rt1 where it: "loop_iteration (obm_tick oc) cfg env rt = Some rt1"
    using obm.iteration_returns [OF Cons.prems(1)] by blast
  have run1: "rt_run (obm_tick oc) cfg ObjectController_init (new_ticks (obm_tick oc) cfg env rt @ h) rt1"
    using rt_run.iterate [OF Cons.prems(1,2) it] .
  have loop: "run_loop (obm_tick oc) cfg (env # envs) rt = run_loop (obm_tick oc) cfg envs rt1"
    using it Cons.prems(2) by simp
  show ?case
  proof (cases "rt_running rt1")
    case False
    then show ?thesis using loop by (cases envs) auto
  next
    case True
    have "env_latest env \<noteq> None" using Cons.prems(5) by simp
    from finish_iteration [OF Cons.prems(1,3,4) this it True] show ?thesis
    proof
      assume "rt_last_state rt1 = GoHome"
      moreover obtain rt' h' where "run_loop (obm_tick oc) cfg envs rt1 = Some rt'"
        "lifecycle_rank (rt_last_state rt1) \<le> lifecycle_rank (rt_last_state rt')"
        using obm.run_loop_forward [OF run1] by blast
      ultimately show ?thesis using loop by auto
    next
      assume idx: "rt_last_state rt1 = ExecuteMission \<and>
        c_sequence_step_index (rt_controller rt1) = c_sequence_step_index (rt_controller rt) + 1 \<and>
        c_sequence_step_index (rt_controller rt) + 1 < length (bs_steps (mission_behavior oc))"
      then have "envs \<noteq> []" using Cons.prems(7) by auto
      from Cons.IH [OF run1 True iteration_latches [OF it Cons.prems(3)] _ _ this] idx Cons.prems(5,7) loop show ?thesis by auto
    qed
  qed
qed simp

lemma run_loop_append:
  "run_loop ctl cfg envs rt = Some rt' \<Longrightarrow> rt_running rt' \<Longrightarrow> run_loop ctl cfg (envs @ envs') rt = run_loop ctl cfg envs' rt'"
  by (induction envs arbitrary: rt) (auto split: option.splits if_splits)

section \<open>A sample runtime\<close>

text \<open>A runtime that gives up at the first overrun, and ticks of an armed vehicle at a height.\<close>

abbreviation sample_runtime :: MissionRuntimeConfig where
  "sample_runtime \<equiv> MissionRuntimeConfig_default\<lparr>mr_max_consecutive_inflight_overruns := 1\<rparr>"

abbreviation sample_env :: "real \<Rightarrow> int \<Rightarrow> int \<Rightarrow> TickEnv" where
  "sample_env height ms us \<equiv>
     \<lparr>env_latest = Some \<lparr>ws_timestamp = \<lparr>timestamp_ns = ms * 1000000\<rparr>,
        ws_ego = sample_ego\<lparr>ego_height_m := Fin height, ego_armed := True\<rparr>,
        ws_flight_control = FlightControlState_default, ws_agents = [], ws_obstacle_evidence = [],
        ws_has_trajectory_safety = False, ws_trajectory_safety = TrajectorySafetyResult_default\<rparr>,
      env_now = \<lparr>timestamp_ns = ms * 1000000\<rparr>,
      env_send = (\<lambda>c. Inr \<lparr>fcr_kind = vc_kind c, fcr_success = True, fcr_status = ''ok''\<rparr>), env_send_us = 10,
      env_camera_send = null_camera_send, env_tick_us = us\<rparr>"

lemmas runtime_eval = loop_iteration_def tick_once_def detect_stale_def tick_input_def apply_to_snapshot_def confirm_arm_state_def
  log_output_def dispatch_command_def send_command_def command_sink_send_def write_event_def count_overrun_def budget_us_def MissionRuntimeConfig_default_def
  inflight_def MissionRuntime_init_def FlightControlState_default_def WorldSnapshot.truncate_def rt_start_def
  on_command_dispatched_def output_is_terminal_settled_def new_ticks_def next_input_def rt_request_finish_def

definition sample_started :: "'c \<Rightarrow> 'c MissionRuntime" where
  "sample_started c0 = (case rt_start sample_runtime (MissionRuntime_init c0) of Inr rt \<Rightarrow> rt | Inl _ \<Rightarrow> MissionRuntime_init c0)"

lemma sample_started_run: "rt_run ctl sample_runtime c0 [] (sample_started c0)" "rt_running (sample_started c0)"
  using rt_run.start [OF rt_run.create, of sample_runtime c0 "sample_started c0" ctl]
  by (simp_all add: sample_started_def rt_start_def MissionRuntime_init_def write_event_def)

section \<open>Properties\<close>

text \<open>
  C14: In every state the runtime around the object-behaviour controller can reach, however start, stop
  and finish requests interleave with the loop, it has counted the controller's ticks, knows the
  controller's state and calls the mission settled only in \<open>Complete\<close> or \<open>Abort\<close>.  The flight sink has received
  exactly the commands the controller gave, each once and in their order, and the camera sink the pointing commands; for each flight command the
  log has the dispatch and the sink's answer (a failure with its message when it threw), and the next tick is handed the last
  answer.  The overrun counter has not reached its limit without a request to finish.  In each further iteration the
  sinks are called with the commands of that iteration's tick and their answers are kept.
\<close>
theorem runtime_reachable_ok:
  assumes "rt_run (obm_tick oc) cfg ObjectController_init h rt"
  shows "runtime_ok obm_inv c_state cfg h rt \<and>
    (\<forall>env rt'. loop_iteration (obm_tick oc) cfg env rt = Some rt' \<longrightarrow>
       rt_command_sink rt' = rt_command_sink rt @ map (\<lambda>c. (c, env_send env c)) (tick_commands (new_ticks (obm_tick oc) cfg env rt)) \<and>
       rt_camera_pointing_sink rt' =
         rt_camera_pointing_sink rt @ map (\<lambda>p. (p, env_camera_send env p)) (tick_pointings (new_ticks (obm_tick oc) cfg env rt)))"
  using obm.runtime_ok_run [OF assms] iteration_calls by blast

theorem runtime_reachable_ok_witness:
  "\<exists>h rt. rt_run (obm_tick sample_config) sample_runtime ObjectController_init h rt \<and> rt_last_state rt = Takeoff \<and>
     runtime_ok obm_inv c_state sample_runtime h rt \<and>
     rt_command_sink rt = map (\<lambda>c. (c, env_send (sample_env 0 1000 50) c)) (tick_commands h)"
proof -
  note rt = sample_started_run(1) [of "obm_tick sample_config" ObjectController_init] sample_started_run(2) [of ObjectController_init]
  obtain rt1 where rt1: "loop_iteration (obm_tick sample_config) sample_runtime (sample_env 0 1000 50) (sample_started ObjectController_init) = Some rt1" "rt_last_state rt1 = Takeoff"
    by (simp add: flight_eval runtime_eval sample_started_def)
  note run1 = rt_run.iterate [OF rt rt1(1)]
  have "rt_command_sink (sample_started ObjectController_init) = []" by (simp add: sample_started_def MissionRuntime_init_def rt_start_def write_event_def)
  then have "rt_command_sink rt1 = map (\<lambda>c. (c, env_send (sample_env 0 1000 50) c))
      (tick_commands (new_ticks (obm_tick sample_config) sample_runtime (sample_env 0 1000 50) (sample_started ObjectController_init)))"
    using runtime_reachable_ok [OF rt(1)] rt1(1) by simp
  then show ?thesis using runtime_reachable_ok [OF run1] run1 rt1(2)
    by (intro exI [of _ "new_ticks (obm_tick sample_config) sample_runtime (sample_env 0 1000 50) (sample_started ObjectController_init)"]
        exI [of _ rt1]) (simp only: append_Nil2)
qed

text \<open>
  C19: Under the runtime a trajectory mission disarms only on the ground: when the tick \<open>(input, out)\<close> of
  the controller gives the disarm command, the controller had been in \<open>Complete\<close> since a tick at which
  the vehicle was not above the landing height or was confirmed disarmed.
\<close>
theorem trajectory_runtime_disarms_grounded:
  assumes "rt_run (\<lambda>i st. Some (traj_tick tc i st)) cfg TrajectoryController_init (later @ (input, out) # earlier) rt"
    and "to_command out = Some c" and "vc_kind c = CmdDisarm"
  shows "entered_complete_grounded earlier"
  using traj.disarm_grounded [OF assms(1) refl assms(2,3)] .

theorem trajectory_runtime_disarms_grounded_witness:
  "\<exists>h rt input out c. rt_run (\<lambda>i st. Some (traj_tick sample_trajectory i st)) sample_runtime TrajectoryController_init ((input, out) # h) rt \<and>
     to_command out = Some c \<and> vc_kind c = CmdDisarm \<and> entered_complete_grounded h"
proof -
  let ?ctl = "\<lambda>i st. Some (traj_tick sample_trajectory i st)" and ?rt = "sample_started TrajectoryController_init"
  let ?e1 = "sample_env 0 1000 50" and ?e2 = "sample_env 0 2000 50" and ?e3 = "sample_env 0 3000 50"
  obtain rt1 rt2 rt3 input out c where
    1: "loop_iteration ?ctl sample_runtime ?e1 ?rt = Some rt1" and
    2: "rt_running (rt_request_finish rt1)" "loop_iteration ?ctl sample_runtime ?e2 (rt_request_finish rt1) = Some rt2" and
    3: "rt_running rt2" "loop_iteration ?ctl sample_runtime ?e3 rt2 = Some rt3" and
    cmd: "new_ticks ?ctl sample_runtime ?e3 rt2 = [(input, out)]" "to_command out = Some c" "vc_kind c = CmdDisarm"
    by (simp add: traj_eval runtime_eval sample_started_def kLandHeightM_def traj_complete_def command_with_kind_def
        elapsed_at_least_def seconds_between_def)
  note run2 = rt_run.iterate [OF rt_run.finish [OF rt_run.iterate [OF sample_started_run 1]] 2]
  note run3 = rt_run.iterate [OF run2 3, unfolded cmd(1) append_Cons append_Nil]
  show ?thesis using trajectory_runtime_disarms_grounded [where later = "[]", unfolded append_Nil, OF run3 cmd(2,3)] run3 cmd(2,3) by blast
qed

text \<open>
  C13: A mission whose loop keeps overrunning its budget in flight comes home.  After as many
  consecutive overruns as the configuration allows, and as many further ticks with a snapshot as the
  behaviour has steps (one at least), the object-behaviour mission has left \<open>ExecuteMission\<close> for going
  home or a later state, unless the controller threw and the loop ended; the loop never hangs.
\<close>
theorem overruns_end_mission:
  fixes rt :: "ObjectController MissionRuntime"
  assumes "rt_run (obm_tick oc) cfg ObjectController_init h rt" and "rt_running rt"
    and "overrun_sequence (obm_tick oc) cfg envs rt" and "int (length envs) = mr_max_consecutive_inflight_overruns cfg" and "envs \<noteq> []"
    and "\<forall>env\<in>set envs'. env_latest env \<noteq> None" and "envs' \<noteq> []"
    and "length (bs_steps (mission_behavior oc)) \<le> length envs'"
  shows "\<exists>rt'. run_loop (obm_tick oc) cfg (envs @ envs') rt = Some rt' \<and>
    (\<not> rt_running rt' \<or> lifecycle_rank ExecuteMission < lifecycle_rank (rt_last_state rt'))"
proof -
  have ok: "overruns_ok cfg rt" using runtime_ok_overruns [OF obm.runtime_ok_run [OF assms(1)]] .
  obtain rt1 h1 where 1: "run_loop (obm_tick oc) cfg envs rt = Some rt1" "rt_run (obm_tick oc) cfg ObjectController_init h1 rt1"
    "rt_running rt1" "overruns_ok cfg rt1"
    "rt_consecutive_inflight_overruns rt1 = rt_consecutive_inflight_overruns rt + int (length envs)"
    using overrun_sequence_counts [OF assms(3,1,2) ok] by blast
  have "0 < mr_max_consecutive_inflight_overruns cfg" using assms(4,5) by (cases envs) auto
  then have fin: "rt_finish_requested rt1" using 1(4,5) ok assms(4) by (auto simp: overruns_ok_def)
  have infl: "inflight (rt_last_state rt1)" using overrun_sequence_inflight [OF assms(3,5,2) 1(1)] .
  note loop = run_loop_append [OF 1(1,3), of envs']
  show ?thesis
  proof (cases "rt_last_state rt1 = ExecuteMission")
    case True
    from run_loop_finish [OF 1(2,3) fin True assms(6,7)] assms(8) loop show ?thesis by auto
  next
    case False
    then have "rt_last_state rt1 = GoHome" using infl by (simp add: inflight_def)
    with obm.run_loop_forward [OF 1(2), of envs'] loop show ?thesis by auto
  qed
qed

theorem overruns_end_mission_witness:
  "\<exists>h rt rt'. rt_run (obm_tick sample_config) sample_runtime ObjectController_init h rt \<and> rt_running rt \<and>
     overrun_sequence (obm_tick sample_config) sample_runtime [sample_env 8 2000 200000] rt \<and>
     run_loop (obm_tick sample_config) sample_runtime [sample_env 8 2000 200000, sample_env 8 3000 50] rt = Some rt' \<and>
     (\<not> rt_running rt' \<or> lifecycle_rank ExecuteMission < lifecycle_rank (rt_last_state rt'))"
proof -
  note rt = sample_started_run(1) [of "obm_tick sample_config" ObjectController_init] sample_started_run(2) [of ObjectController_init]
  obtain rt1 where rt1: "loop_iteration (obm_tick sample_config) sample_runtime (sample_env 0 1000 50) (sample_started ObjectController_init) = Some rt1" "rt_running rt1"
    "overrun_sequence (obm_tick sample_config) sample_runtime [sample_env 8 2000 200000] rt1"
    by (simp add: flight_eval runtime_eval overran_def sample_started_def)
  note run = rt_run.iterate [OF rt rt1(1)]
  have "bs_steps (mission_behavior sample_config) = []" by (simp add: ObjectBehaviorMissionConfig_default_def)
  then show ?thesis
    using overruns_end_mission [OF run rt1(2,3), of "[sample_env 8 3000 50]"] run rt1(2,3)
    by (simp add: MissionRuntimeConfig_default_def del: overrun_sequence.simps run_loop.simps) blast
qed

text \<open>
  Two places where the runtime's own life cycle is fragile: after a controller exception the thread is
  still joinable, so a second \<open>start\<close> terminates the process; and \<open>stop\<close>, which the destructor
  calls again, logs the end of the run each time.
\<close>

lemma restart_after_error_terminates:
  assumes "rt_running rt" "rt_thread_joinable rt" "tick_once ctl cfg env rt = Some (Inl e, rt1)" "same_core rt1 rt"
    and "loop_iteration ctl cfg env rt = Some rt'"
  shows "rt_loop_exception rt' = Some e \<and> \<not> rt_running rt' \<and> rt_start cfg rt' = Inl ''std::terminate''"
  using assms by (auto simp: loop_iteration_def same_core_def rt_start_def Let_def write_event_def)

lemma stop_logged_twice:
  "0 < rt_tick_count rt \<Longrightarrow>
   rt_events (rt_stop (rt_stop rt)) = rt_events (rt_stop rt) @ [last (rt_events (rt_stop rt))]"
  by (simp add: rt_stop_def Let_def write_event_def)

end
