(* ===== verification/Velocity_Properties.thy ===== *)
theory Velocity_Properties
  imports Velocity_Trajectory Follow_Limits
begin

text \<open>
  Properties of scripted trajectories: what the reader guarantees of the segments it returns, and how
  fast a segment can fly.
\<close>

section \<open>Numbers\<close>

text \<open>
  \<open>std::stod\<close> returns a finite number for a token of digits, signs, points and exponents: it throws
  \<open>std::out_of_range\<close> instead of returning an infinity.
\<close>

definition stod_finite :: "stod_fun \<Rightarrow> bool" where
  "stod_finite stod \<longleftrightarrow>
     (\<forall>x v n. set x \<subseteq> set ''-0123456789.eE+'' \<longrightarrow> stod x = Some (v, n) \<longrightarrow> isfinite v)"

lemma find_char_before: "find_char P cs = Some j \<Longrightarrow> c \<in> set (take j cs) \<Longrightarrow> \<not> P c"
  by (induction cs arbitrary: j) (auto split: if_splits)

lemma find_char_none: "find_char P cs = None \<Longrightarrow> c \<in> set cs \<Longrightarrow> \<not> P c"
  by (induction cs) (auto split: if_splits)

text \<open>The token that is handed to \<open>std::stod\<close>.\<close>

lemma value_token_chars: "set (value_token body s) \<subseteq> set ''-0123456789.eE+''"
proof (cases "find_char (\<lambda>c. c \<notin> set ''-0123456789.eE+'') (drop s body)")
  case None
  then show ?thesis
    unfolding value_token_def sub_string_def find_char_from_def using find_char_none [OF None] by (auto simp only: option.map option.case dest!: in_set_takeD)
next
  case (Some j)
  have "set (take j (drop s body)) \<subseteq> set ''-0123456789.eE+''"
    using find_char_before [OF Some] by blast
  with Some show ?thesis unfolding value_token_def sub_string_def find_char_from_def by (simp only: option.map option.case) simp
qed

lemma find_number_finite:
  assumes "stod_finite stod" and "isfinite fallback" and "find_number_or stod body key fallback = Inr v"
  shows "isfinite v"
proof -
  have "v = fallback \<or> (\<exists>s n. stod (value_token body s) = Some (v, n))"
    using assms(3) unfolding find_number_or_def by (auto split: option.splits)
  with assms(1,2) value_token_chars show ?thesis unfolding stod_finite_def by blast
qed

section \<open>What the reader guarantees\<close>

definition finite_keyframe :: "TrajectoryKeyframe \<Rightarrow> bool" where
  "finite_keyframe k \<longleftrightarrow> isfinite (kf_t_s k) \<and> isfinite (kf_vx_mps k) \<and> isfinite (kf_vy_mps k) \<and> isfinite (kf_vz_mps k)"

definition keyframes_ordered :: "TrajectoryKeyframe list \<Rightarrow> bool" where
  "keyframes_ordered ks \<longleftrightarrow> sorted_wrt (\<lambda>a b. kf_t_s a \<le> kf_t_s b) ks"

definition segment_ok :: "TrajectorySegment \<Rightarrow> bool" where
  "segment_ok s \<longleftrightarrow> isfinite (seg_duration_s s) \<and> 0 < seg_duration_s s \<and>
     isfinite (seg_vx_mps s) \<and> isfinite (seg_vy_mps s) \<and> isfinite (seg_vz_mps s) \<and> isfinite (seg_speed_mps s) \<and>
     isfinite (seg_radius_m s) \<and> isfinite (seg_scale_m s) \<and> isfinite (seg_yaw_offset_rad s) \<and>
     (\<forall>k\<in>set (seg_keyframes s). finite_keyframe k) \<and> keyframes_ordered (seg_keyframes s) \<and>
     (seg_type s = ''velocity_keyframes'' \<longrightarrow>
        seg_keyframes s \<noteq> [] \<and> seg_duration_s s = kf_t_s (last (seg_keyframes s)))"

lemma for_objects_all:
  "for_objects f body cursor close = Inr xs \<Longrightarrow> \<forall>b x. f b = Inr x \<longrightarrow> P x \<Longrightarrow> \<forall>x\<in>set xs. P x"
proof (induction f body cursor close arbitrary: xs rule: for_objects.induct)
  case (1 f body cursor close)
  show ?case
    using "1.prems" "1.IH" for_objects.simps [of f body cursor close]
    by (auto simp: bindE_Inr_iff split: if_splits option.splits)
qed

lemma insert_keyframe_set: "set (insert_keyframe k ks) = insert k (set ks)"
  by (induction ks) auto

lemma sort_keyframes_set: "set (sort_keyframes ks) = set ks"
  by (induction ks) (simp_all add: sort_keyframes_def insert_keyframe_set)

lemma insert_keyframe_ordered:
  assumes "keyframes_ordered ks" and "finite_keyframe k" and "\<forall>l\<in>set ks. finite_keyframe l"
  shows "keyframes_ordered (insert_keyframe k ks)"
  using assms
proof (induction ks)
  case (Cons l ls)
  have "kf_t_s k \<le> kf_t_s l \<or> kf_t_s l < kf_t_s k"
    using Cons.prems by (auto simp: finite_keyframe_def isfinite_iff)
  then show ?case
    using Cons by (auto simp: keyframes_ordered_def insert_keyframe_set finite_keyframe_def isfinite_iff)
      (fastforce)+
qed (simp add: keyframes_ordered_def)

lemma sort_keyframes_ordered: "\<forall>k\<in>set ks. finite_keyframe k \<Longrightarrow> keyframes_ordered (sort_keyframes ks)"
proof (induction ks)
  case (Cons k ks)
  then show ?case using insert_keyframe_ordered sort_keyframes_set [of ks] by (simp add: sort_keyframes_def)
qed (simp add: sort_keyframes_def keyframes_ordered_def)

lemma parse_keyframe_finite: "stod_finite stod \<Longrightarrow> parse_keyframe stod body = Inr k \<Longrightarrow> finite_keyframe k"
  by (auto simp: parse_keyframe_def bindE_Inr_iff finite_keyframe_def elim!: find_number_finite [rotated 2])

lemma parse_keyframes_ok:
  assumes "stod_finite stod" and "parse_keyframes stod body = Inr ks"
  shows "(\<forall>k\<in>set ks. finite_keyframe k) \<and> keyframes_ordered ks"
proof (cases "find_from body (key_marker ''keyframes'') 0")
  case None
  then show ?thesis using assms(2) by (simp add: parse_keyframes_def keyframes_ordered_def)
next
  case (Some pos)
  then obtain i j ks0 where "for_objects (parse_keyframe stod) body i j = Inr ks0" "ks = sort_keyframes ks0"
    using assms(2) by (auto simp: parse_keyframes_def bindE_Inr_iff)
  with for_objects_all [OF this(1), of finite_keyframe] parse_keyframe_finite [OF assms(1)] show ?thesis
    by (auto simp: sort_keyframes_set intro: sort_keyframes_ordered)
qed

lemma parse_segment_ok:
  assumes "stod_finite stod" and "parse_segment stod body = Inr (Some s)"
  shows "segment_ok s"
proof -
  obtain s0 where s0: "parse_segment_fields stod body = Inr s0"
    using assms(2) by (auto simp: parse_segment_def bindE_Inr_iff)
  have k0: "seg_keyframes s0 \<noteq> []" if "seg_type s0 = ''velocity_keyframes''"
    using assms(2) s0 that by (auto simp: parse_segment_def throw_if_def)
  have s: "s = (if seg_type s0 = ''velocity_keyframes'' then s0\<lparr>seg_duration_s := kf_t_s (last (seg_keyframes s0))\<rparr> else s0)"
    and dur: "\<not> seg_duration_s s \<le> 0"
    using assms(2) s0 by (auto simp: parse_segment_def bindE_Inr_iff Let_def split: if_splits)
  obtain fb d x y z sp ra sc yaw ks where num: "find_number_or stod body ''duration'' 0 = Inr fb"
    "find_number_or stod body ''duration_s'' fb = Inr d" "find_number_or stod body ''vx_mps'' 0 = Inr x"
    "find_number_or stod body ''vy_mps'' 0 = Inr y" "find_number_or stod body ''vz_mps'' 0 = Inr z"
    "find_number_or stod body ''speed_mps'' 0 = Inr sp" "find_number_or stod body ''radius_m'' 1 = Inr ra"
    "find_number_or stod body ''scale_m'' ra = Inr sc" "find_number_or stod body ''yaw_offset_rad'' 0 = Inr yaw"
    and kf: "parse_keyframes stod body = Inr ks" and mem: "seg_duration_s s0 = d" "seg_vx_mps s0 = x" "seg_vy_mps s0 = y"
    "seg_vz_mps s0 = z" "seg_speed_mps s0 = sp" "seg_radius_m s0 = ra" "seg_scale_m s0 = sc" "seg_yaw_offset_rad s0 = yaw"
    "seg_keyframes s0 = ks"
    using s0 unfolding parse_segment_fields_def Let_def bindE_Inr_iff by fastforce
  note number = find_number_finite [OF assms(1)]
  have fin: "isfinite d" "isfinite x" "isfinite y" "isfinite z" "isfinite sp" "isfinite ra" "isfinite sc" "isfinite yaw"
    using number [OF _ num(1)] number [OF _ num(2)] number [OF _ num(3)] number [OF _ num(4)] number [OF _ num(5)]
      number [OF _ num(6)] number [OF _ num(7)] number [OF _ num(8)] number [OF _ num(9)] by simp_all
  note fin = fin [folded mem] and ks = parse_keyframes_ok [OF assms(1) kf, folded mem]
  have "isfinite (seg_duration_s s)" using s fin(1) ks k0 by (auto simp: finite_keyframe_def)
  with dur have "0 < seg_duration_s s" by (auto simp: isfinite_iff)
  with s fin ks k0 \<open>isfinite (seg_duration_s s)\<close> show ?thesis by (auto simp: segment_ok_def)
qed

section \<open>Speeds\<close>

lemma interpolation_weight:
  assumes "finite_keyframe a" and "finite_keyframe b" and "kf_t_s a \<le> Fin t" and "Fin t \<le> kf_t_s b"
  shows "\<exists>u. (Fin t - kf_t_s a) / std_max (kf_t_s b - kf_t_s a) micro = Fin u \<and> 0 \<le> u \<and> u \<le> 1"
proof -
  obtain x y where xy: "kf_t_s a = Fin x" "kf_t_s b = Fin y" using assms(1,2) by (auto simp: finite_keyframe_def isfinite_iff)
  have "std_max (kf_t_s b - kf_t_s a) micro = Fin (max (y - x) (1/1000000))"
    using xy by (auto simp: std_max_def micro_def max_def)
  with xy assms(3,4) show ?thesis
    by (auto simp: divide_le_eq intro!: divide_nonneg_nonneg)
qed

lemma lerp_between:
  assumes "0 \<le> u" "u \<le> 1" "Fin l \<le> Fin x" "Fin x \<le> Fin h" "Fin l \<le> Fin y" "Fin y \<le> Fin h"
  shows "\<exists>z. lerp (Fin x) (Fin y) (Fin u) = Fin z \<and> l \<le> z \<and> z \<le> h"
proof -
  have "x + (y - x) * u = (1 - u) * x + u * y" by (simp add: algebra_simps)
  moreover have "(1 - u) * l + u * l \<le> (1 - u) * x + u * y" "(1 - u) * x + u * y \<le> (1 - u) * h + u * h"
    using assms by (auto intro!: add_mono mult_left_mono)
  moreover have "(1 - u) * l + u * l = l" "(1 - u) * h + u * h = h" by (simp_all add: algebra_simps)
  ultimately show ?thesis by (auto simp: lerp_def)
qed

text \<open>Every component of an interpolated velocity stays between bounds on the keyframes'.\<close>

definition within_box :: "(real \<times> real) \<Rightarrow> (real \<times> real) \<Rightarrow> (real \<times> real) \<Rightarrow> Vec3 \<Rightarrow> bool" where
  "within_box bx by bz v \<longleftrightarrow> (\<exists>x y z. v = vec3 (Fin x) (Fin y) (Fin z) \<and> fst bx \<le> x \<and> x \<le> snd bx \<and>
     fst by \<le> y \<and> y \<le> snd by \<and> fst bz \<le> z \<and> z \<le> snd bz)"

lemma interpolate_between_within:
  assumes "ks \<noteq> []" and "\<forall>k\<in>set ks. finite_keyframe k \<and> within_box bx bb bz (keyframe_velocity k)"
  shows "within_box bx bb bz (interpolate_between ks (Fin t))"
  using assms
proof (induction ks "Fin t" rule: interpolate_between.induct)
  case (1 a b ks)
  show ?case
  proof (cases "kf_t_s a \<le> Fin t \<and> Fin t \<le> kf_t_s b")
    case True
    then obtain u where u: "(Fin t - kf_t_s a) / std_max (kf_t_s b - kf_t_s a) micro = Fin u" "0 \<le> u" "u \<le> 1"
      using interpolation_weight 1 by (meson list.set_intros)
    from 1 obtain x y z x' y' z' where
      "kf_vx_mps a = Fin x" "kf_vy_mps a = Fin y" "kf_vz_mps a = Fin z" "fst bx \<le> x" "x \<le> snd bx" "fst bb \<le> y" "y \<le> snd bb"
      "fst bz \<le> z" "z \<le> snd bz" "kf_vx_mps b = Fin x'" "kf_vy_mps b = Fin y'" "kf_vz_mps b = Fin z'" "fst bx \<le> x'" "x' \<le> snd bx"
      "fst bb \<le> y'" "y' \<le> snd bb" "fst bz \<le> z'" "z' \<le> snd bz"
      by (auto simp: within_box_def keyframe_velocity_def)
    with True u lerp_between [OF u(2,3), of "fst bx" x "snd bx" x'] lerp_between [OF u(2,3), of "fst bb" y "snd bb" y']
      lerp_between [OF u(2,3), of "fst bz" z "snd bz" z'] show ?thesis
      by (auto simp: Let_def within_box_def)
  next
    case False
    then show ?thesis using 1 by auto
  qed
qed auto

lemma interpolate_within:
  assumes "ks \<noteq> []" and "\<forall>k\<in>set ks. finite_keyframe k \<and> within_box bx bb bz (keyframe_velocity k)"
  shows "within_box bx bb bz (interpolate_keyframes ks (Fin t))"
  using assms interpolate_between_within [OF assms] by (auto simp: interpolate_keyframes_def)

lemma box_mono: "within_box (- m, m) (- m, m) (- m, m) v \<Longrightarrow> m \<le> n \<Longrightarrow> within_box (- n, n) (- n, n) (- n, n) v"
  by (force simp: within_box_def)

lemma max_micro: "isfinite a \<Longrightarrow> \<exists>r. std_max a micro = Fin r \<and> 0 < r"
  by (auto simp: isfinite_iff std_max_def micro_def max_def less_max_iff_disj intro: exI [of _ "max (real_of_double a) (1/1000000)"])

lemma finite_keyframes_boxed:
  "\<forall>k\<in>set ks. finite_keyframe k \<Longrightarrow> \<exists>m. \<forall>k\<in>set ks. within_box (- m, m) (- m, m) (- m, m) (keyframe_velocity k)"
proof (induction ks)
  case (Cons k ks)
  then obtain m where m: "\<forall>k\<in>set ks. within_box (- m, m) (- m, m) (- m, m) (keyframe_velocity k)" by auto
  obtain x y z where k: "keyframe_velocity k = vec3 (Fin x) (Fin y) (Fin z)"
    using Cons.prems by (auto simp: keyframe_velocity_def finite_keyframe_def isfinite_iff)
  let ?m = "max m (max \<bar>x\<bar> (max \<bar>y\<bar> \<bar>z\<bar>))"
  have "within_box (- ?m, ?m) (- ?m, ?m) (- ?m, ?m) (keyframe_velocity k)"
    using k by (auto simp: within_box_def) linarith+
  moreover have "within_box (- ?m, ?m) (- ?m, ?m) (- ?m, ?m) (keyframe_velocity l)" if "l \<in> set ks" for l
    using box_mono m that max.cobounded1 by blast
  ultimately have "\<forall>l\<in>set (k # ks). within_box (- ?m, ?m) (- ?m, ?m) (- ?m, ?m) (keyframe_velocity l)" by simp
  then show ?case by blast
qed simp

lemma segment_speed_positive:
  assumes "isfinite (seg_speed_mps s)"
  shows "\<exists>v. segment_speed s = Fin v \<and> 0 < v"
  using assms by (auto simp: segment_speed_def isfinite_iff)

lemma circle_norm: "sqrt (v * cos x * (v * cos x) + g * v * sin x * (g * v * sin x)) = v" if "0 < (v::real)" "g * g = 1"
proof -
  have "v * cos x * (v * cos x) + g * v * sin x * (g * v * sin x) = v * v * (cos x * cos x + (g * g) * (sin x * sin x))"
    by (simp add: algebra_simps)
  also have "\<dots> = v * v" using that(2) sin_cos_squared_add3 [of x] by simp
  finally show ?thesis using that(1) by simp
qed

lemma velocity_norm_Fin: "norm_xy (vec3 (Fin x) (Fin y) z) = Fin (sqrt (x * x + y * y))"
  by (simp add: norm_xy_def not_less)

lemma figure8_norm:
  assumes "0 < (v::real)" and "sqrt (x * x + y * y) \<le> n" and "0 < n"
  shows "sqrt (v * x / n * (v * x / n) + v * y / n * (v * y / n)) \<le> v"
proof -
  have "v * x / n * (v * x / n) + v * y / n * (v * y / n) = (v / n) * (v / n) * (x * x + y * y)"
    by (simp add: algebra_simps add_divide_distrib)
  then have "sqrt (v * x / n * (v * x / n) + v * y / n * (v * y / n)) = sqrt (v / n * (v / n)) * sqrt (x * x + y * y)"
    by (simp only: real_sqrt_mult)
  also have "sqrt (v / n * (v / n)) = v / n" using assms by (subst real_sqrt_abs2) simp
  also have "v / n * sqrt (x * x + y * y) \<le> v / n * n" using assms by (intro mult_left_mono) auto
  finally show ?thesis using assms(3) by simp
qed

section \<open>Properties\<close>

text \<open>
  C36: Whatever the trajectory reader returns is well formed: every segment has a positive finite duration
  and finite numbers, keyframes are in the order of their times, and a keyframe segment has keyframes
  and lasts until the last one.
\<close>
theorem parsed_trajectory_ok:
  assumes "stod_finite stod" and "parse_json stod body = Inr segs"
  shows "\<forall>s\<in>set segs. segment_ok s"
proof -
  obtain i j ss where ss: "for_objects (parse_segment stod) body i j = Inr ss" "segs = map the (filter (\<lambda>s. s \<noteq> None) ss)"
    using assms(2) by (auto simp: parse_json_def parse_segments_def bindE_Inr_iff split: option.splits)
  have "\<forall>x\<in>set ss. case x of None \<Rightarrow> True | Some s \<Rightarrow> segment_ok s"
    by (rule for_objects_all [OF ss(1)]) (auto split: option.splits intro: parse_segment_ok [OF assms(1)])
  with ss(2) show ?thesis by auto
qed

text \<open>A file with one segment, two seconds of hold; backquotes stand for quotes.\<close>

definition sample_trajectory_text :: string where
  "sample_trajectory_text =
     map (\<lambda>c. if c = CHR 0x60 then chr_quote else c) ''{`segments`:[{`type`:`hold`,`duration`:2}]}''"

definition sample_stod :: stod_fun where
  "sample_stod x = (if x = ''2'' then Some (Fin 2, 1) else None)"

lemma sample_trajectory_parsed: "parse_json sample_stod sample_trajectory_text = Inr (map (seg_label_update (\<lambda>_. ''hold'')) (default_hold 2))"
  by code_simp

theorem parsed_trajectory_ok_witness:
  "stod_finite sample_stod \<and> parse_json sample_stod sample_trajectory_text = Inr (map (seg_label_update (\<lambda>_. ''hold'')) (default_hold 2)) \<and>
   list_all segment_ok (map (seg_label_update (\<lambda>_. ''hold'')) (default_hold 2))"
proof -
  have "stod_finite sample_stod" by (auto simp: stod_finite_def sample_stod_def split: if_splits)
  with parsed_trajectory_ok [OF this sample_trajectory_parsed] sample_trajectory_parsed show ?thesis unfolding list_all_iff by blast
qed

text \<open>
  A segment of a known type always has a velocity, and it is as fast as the script says: a circle
  flies at the segment's speed, a figure eight at most at it, and an interpolated velocity stays
  within every box that holds the velocities of the keyframes.
\<close>
lemma segment_velocity_bounded:
  assumes "segment_ok s" and "seg_type s \<in> {''hold'', ''velocity_keyframes'', ''circle_velocity'', ''figure8_velocity''}"
  shows "\<exists>v. segment_velocity s (Fin t) = Inr v \<and> finite_point v \<and>
    (seg_type s = ''circle_velocity'' \<longrightarrow> norm_xy v = segment_speed s) \<and>
    (seg_type s = ''figure8_velocity'' \<longrightarrow> norm_xy v \<le> segment_speed s) \<and>
    (seg_type s = ''velocity_keyframes'' \<longrightarrow>
      (\<forall>bx bb bz. (\<forall>k\<in>set (seg_keyframes s). within_box bx bb bz (keyframe_velocity k)) \<longrightarrow> within_box bx bb bz v))"
proof -
  obtain vs where vs: "segment_speed s = Fin vs" "0 < vs"
    using segment_speed_positive assms(1) by (auto simp: segment_ok_def)
  consider (hold) "seg_type s = ''hold''" | (keyframes) "seg_type s = ''velocity_keyframes''"
    | (circle) "seg_type s = ''circle_velocity''" | (figure8) "seg_type s = ''figure8_velocity''"
    using assms(2) by blast
  then show ?thesis
  proof cases
    case hold
    then show ?thesis using assms(1) by (simp add: segment_velocity_def segment_ok_def)
  next
    case keyframes
    let ?v = "interpolate_keyframes (seg_keyframes s) (Fin t)"
    have ks: "seg_keyframes s \<noteq> []" "\<forall>k\<in>set (seg_keyframes s). finite_keyframe k"
      using assms(1) keyframes by (auto simp: segment_ok_def)
    have box: "within_box bx bb bz ?v" if "\<forall>k\<in>set (seg_keyframes s). within_box bx bb bz (keyframe_velocity k)" for bx bb bz
      by (rule interpolate_within) (use ks that in auto)
    obtain m where m: "\<forall>k\<in>set (seg_keyframes s). within_box (- m, m) (- m, m) (- m, m) (keyframe_velocity k)"
      using finite_keyframes_boxed [OF ks(2)] by blast
    have "finite_point ?v" using box [OF m] by (auto simp: within_box_def)
    with keyframes box show ?thesis by (simp add: segment_velocity_def)
  next
    case circle
    obtain r where r: "std_max (seg_radius_m s) micro = Fin r" "0 < r" using max_micro assms(1) by (auto simp: segment_ok_def)
    obtain z where z: "seg_vz_mps s = Fin z" using assms(1) by (auto simp: segment_ok_def isfinite_iff)
    define g :: real where "g = (if seg_direction s = ''cw'' then - 1 else 1)"
    have g: "(if seg_direction s = ''cw'' then - 1 else 1) = Fin g" "g * g = 1" by (simp_all add: g_def)
    let ?th = "vs / r * t"
    have v: "segment_velocity s (Fin t) = Inr (vec3 (Fin (vs * cos ?th)) (Fin (g * vs * sin ?th)) (Fin z))"
      using circle vs r z g(1) by (simp add: segment_velocity_def Let_def)
    have "norm_xy (vec3 (Fin (vs * cos ?th)) (Fin (g * vs * sin ?th)) (Fin z)) = Fin vs"
      using circle_norm [OF vs(2) g(2), of ?th] by (simp add: velocity_norm_Fin)
    with v circle vs(1) show ?thesis by simp
  next
    case figure8
    obtain d where d: "std_max (seg_duration_s s) micro = Fin d" "0 < d" using max_micro assms(1) by (auto simp: segment_ok_def)
    obtain sc where sc: "std_max (seg_scale_m s) micro = Fin sc" "0 < sc" using max_micro assms(1) by (auto simp: segment_ok_def)
    obtain z where z: "seg_vz_mps s = Fin z" using assms(1) by (auto simp: segment_ok_def isfinite_iff)
    let ?th = "2 * pi * t / d"
    let ?x = "sc * cos ?th" and ?y = "sc * cos (2 * ?th)"
    obtain n where n: "std_max (Fin (sqrt (?x * ?x + ?y * ?y))) micro = Fin n" "0 < n" "sqrt (?x * ?x + ?y * ?y) \<le> n"
    proof -
      have "std_max (Fin (sqrt (?x * ?x + ?y * ?y))) micro = Fin (max (sqrt (?x * ?x + ?y * ?y)) (1/1000000))"
        by (auto simp: std_max_def micro_def max_def)
      then show ?thesis by (rule that) auto
    qed
    have v: "segment_velocity s (Fin t) = Inr (vec3 (Fin (vs * ?x / n)) (Fin (vs * ?y / n)) (Fin z))"
      using figure8 vs d sc z n(1,2) by (simp add: segment_velocity_def Let_def)
    have "norm_xy (vec3 (Fin (vs * ?x / n)) (Fin (vs * ?y / n)) (Fin z)) \<le> Fin vs"
      using figure8_norm [OF vs(2) n(3,2)] by (simp add: velocity_norm_Fin)
    with v figure8 vs(1) show ?thesis by simp
  qed
qed

lemma segment_velocity_bounded_witness:
  "\<exists>v. segment_velocity ((hd (default_hold 2))\<lparr>seg_type := ''circle_velocity''\<rparr>) (Fin 1) = Inr v \<and> norm_xy v = 2"
proof -
  let ?s = "(hd (default_hold 2))\<lparr>seg_type := ''circle_velocity''\<rparr>"
  have "segment_ok ?s" by (simp add: segment_ok_def default_hold_def keyframes_ordered_def)
  moreover have "seg_type ?s \<in> {''hold'', ''velocity_keyframes'', ''circle_velocity'', ''figure8_velocity''}" by simp
  moreover have "segment_speed ?s = 2" by (simp add: segment_speed_def default_hold_def)
  ultimately show ?thesis using segment_velocity_bounded [of ?s 1] by auto
qed

end
