(* ===== verification/Distance_Transform.thy ===== *)
theory Distance_Transform
  imports Dedalus_Prelude
begin

text \<open>
  The one-dimensional distance transform of \<open>avoidance/compute_esdf.cpp\<close> (\<open>dt1d\<close>): the lower envelope
  of parabolas is built from left to right and then read off.  The work arrays \<open>v_work\<close> and
  \<open>z_work\<close> are used as a stack, kept here as a list with the top first; \<open>z_work[k + 1]\<close> above the
  top is never read.  The theorem is that the sweep computes the minimum over all sources.
\<close>

section \<open>The sweep\<close>

definition kInfSq :: double where "kInfSq = Fin (10 ^ 20)"

definition parabola_cross :: "double list \<Rightarrow> double \<Rightarrow> nat \<Rightarrow> nat \<Rightarrow> double" where
  "parabola_cross f s2 p q =
     Fin (real p + real q) * Fin (1/2) + (f ! q - f ! p) / (Fin 2 * s2 * Fin (real q - real p))"

fun pop_covered :: "double list \<Rightarrow> double \<Rightarrow> nat \<Rightarrow> (nat \<times> double) list \<Rightarrow> (nat \<times> double) list \<times> double" where
  "pop_covered f s2 q [] = ([], - kInfSq)"
| "pop_covered f s2 q ((p, z) # st) =
     (let s_int = parabola_cross f s2 p q
      in if z < s_int then ((p, z) # st, s_int) else pop_covered f s2 q st)"

definition envelope_step :: "double list \<Rightarrow> double \<Rightarrow> nat \<Rightarrow> (nat \<times> double) list \<Rightarrow> (nat \<times> double) list" where
  "envelope_step f s2 q st =
     (if kInfSq \<le> f ! q then st
      else let (st', s_int) = pop_covered f s2 q st in (q, s_int) # st')"

definition envelope :: "double list \<Rightarrow> double \<Rightarrow> (nat \<times> double) list" where
  "envelope f s2 = fold (envelope_step f s2) [0..<length f] []"

text \<open>The reading: the entries from the bottom, of which the first is the current one.\<close>

fun skip_passed :: "(nat \<times> double) list \<Rightarrow> nat \<Rightarrow> (nat \<times> double) list" where
  "skip_passed (a # b # env) q = (if snd b < Fin (real q) then skip_passed (b # env) q else a # b # env)"
| "skip_passed env q = env"

definition parabola_value :: "double list \<Rightarrow> double \<Rightarrow> nat \<Rightarrow> nat \<Rightarrow> double" where
  "parabola_value f s v q = (let diff = Fin (real q - real v) * s in diff * diff + f ! v)"

fun read_envelope :: "double list \<Rightarrow> double \<Rightarrow> (nat \<times> double) list \<Rightarrow> nat list \<Rightarrow> double list" where
  "read_envelope f s env [] = []"
| "read_envelope f s env (q # qs) =
     (let env = skip_passed env q in parabola_value f s (fst (hd env)) q # read_envelope f s env qs)"

definition dt1d :: "double list \<Rightarrow> double \<Rightarrow> double list" where
  "dt1d f s =
     (let st = envelope f (s * s)
      in if st = [] then replicate (length f) kInfSq else read_envelope f s (rev st) [0..<length f])"

section \<open>Parabolas over the reals\<close>

definition par :: "real list \<Rightarrow> real \<Rightarrow> nat \<Rightarrow> real \<Rightarrow> real" where
  "par f s p x = ((x - real p) * s)\<^sup>2 + f ! p"

definition cross :: "real list \<Rightarrow> real \<Rightarrow> nat \<Rightarrow> nat \<Rightarrow> real" where
  "cross f s p q = (real p + real q) / 2 + (f ! q - f ! p) / (2 * (s * s) * (real q - real p))"

lemma par_diff:
  assumes "p < q" "s \<noteq> 0"
  shows "par f s p x - par f s q x = 2 * (s * s) * (real q - real p) * (x - cross f s p q)"
proof -
  define A where "A = (f ! q - f ! p) / (2 * (s * s) * (real q - real p))"
  have "2 * (s * s) * (real q - real p) * A = f ! q - f ! p" using assms by (simp add: A_def)
  then have "2 * (s * s) * (real q - real p) * (x - ((real p + real q) / 2 + A)) =
    2 * (s * s) * (real q - real p) * (x - (real p + real q) / 2) - (f ! q - f ! p)"
    by (simp add: right_diff_distrib distrib_left)
  moreover have "2 * (s * s) * (real q - real p) * (x - (real p + real q) / 2) = ((x - real p) * s)\<^sup>2 - ((x - real q) * s)\<^sup>2"
    by (simp add: power2_eq_square field_simps)
  ultimately show ?thesis unfolding par_def cross_def A_def by simp
qed

lemma par_less: "p < q \<Longrightarrow> s \<noteq> 0 \<Longrightarrow> par f s q x \<le> par f s p x \<longleftrightarrow> cross f s p q \<le> x"
proof -
  assume a: "p < q" "s \<noteq> 0"
  then have "0 < 2 * (s * s) * (real q - real p)" by (simp add: zero_less_mult_iff) (metis not_square_less_zero linorder_neqE_linordered_idom mult_eq_0_iff)
  then show ?thesis using par_diff [OF a, of f x] by (metis diff_ge_0_iff_ge zero_le_mult_iff less_le_not_le linorder_not_le)
qed

lemma par_le: "p < q \<Longrightarrow> s \<noteq> 0 \<Longrightarrow> x \<le> cross f s p q \<Longrightarrow> par f s p x \<le> par f s q x"
  by (cases "x = cross f s p q") (use par_less [of p q s f x] par_diff [of p q s f x] in auto)

text \<open>When the middle parabola is nowhere below both neighbours, the outer two cross before the first two do.\<close>

lemma cross_covered:
  assumes "p < u" "u < q" "s \<noteq> 0" "cross f s u q \<le> cross f s p u"
  shows "cross f s p q \<le> cross f s p u"
proof -
  let ?x = "cross f s p u"
  have "par f s q ?x \<le> par f s u ?x" using par_less [of u q s f ?x] assms by simp
  also have "\<dots> \<le> par f s p ?x" using par_less [of p u s f ?x] assms by simp
  finally show ?thesis using par_less [of p q s f ?x] assms by simp
qed

section \<open>The stack over the reals\<close>

text \<open>The stack's invariant: positions and crossings decrease downwards, each crossing is the one with the entry below.\<close>

definition entry_above :: "real list \<Rightarrow> real \<Rightarrow> nat \<times> real \<Rightarrow> nat \<times> real \<Rightarrow> bool" where
  "entry_above f s a b \<longleftrightarrow> fst b < fst a \<and> snd b < snd a \<and> snd a = cross f s (fst b) (fst a)"

definition bottom_z :: real where "bottom_z = - (10 ^ 20)"

definition envelope_of :: "real list \<Rightarrow> real \<Rightarrow> nat set \<Rightarrow> (nat \<times> real) list \<Rightarrow> bool" where
  "envelope_of f s S st \<longleftrightarrow> successively (entry_above f s) st \<and> fst ` set st \<subseteq> S \<and> (st = [] \<longrightarrow> S = {}) \<and>
     (st \<noteq> [] \<longrightarrow> snd (last st) = bottom_z) \<and>
     (\<forall>x e. 0 \<le> x \<longrightarrow> find (\<lambda>e. snd e < x) st = Some e \<longrightarrow> (\<forall>p\<in>S. par f s (fst e) x \<le> par f s p x))"

fun pop_real :: "real list \<Rightarrow> real \<Rightarrow> nat \<Rightarrow> (nat \<times> real) list \<Rightarrow> (nat \<times> real) list \<times> real" where
  "pop_real f s q [] = ([], bottom_z)"
| "pop_real f s q ((p, z) # st) = (if z < cross f s p q then ((p, z) # st, cross f s p q) else pop_real f s q st)"

lemma pop_real_split:
  "pop_real f s q st = (st', x) \<Longrightarrow>
   \<exists>us. st = us @ st' \<and> (\<forall>u\<in>set us. cross f s (fst u) q \<le> snd u) \<and>
     (if st' = [] then x = bottom_z else x = cross f s (fst (hd st')) q \<and> snd (hd st') < x)"
proof (induction f s q st rule: pop_real.induct)
  case (2 f s q p z st)
  show ?case
  proof (cases "z < cross f s p q")
    case True
    then show ?thesis using 2 by auto
  next
    case False
    then obtain us where "st = us @ st'" "\<forall>u\<in>set us. cross f s (fst u) q \<le> snd u"
      "if st' = [] then x = bottom_z else x = cross f s (fst (hd st')) q \<and> snd (hd st') < x"
      using 2 by auto
    then show ?thesis using False by (intro exI [of _ "(p, z) # us"]) auto
  qed
qed simp

lemma entry_above_sorted:
  assumes "successively (entry_above f s) st"
  shows "sorted_wrt (\<lambda>a b. fst b < fst a \<and> snd b < snd a) st"
proof -
  have "successively (\<lambda>a b. fst b < fst a \<and> snd b < snd a) st"
    using assms by (rule successively_mono) (simp add: entry_above_def)
  then show ?thesis by (subst (asm) successively_conv_sorted_wrt) (auto simp: transp_def)
qed

text \<open>An entry that is popped crosses the new parabola no later than its own start; the part below stays.\<close>

lemma popped_start:
  assumes "successively (entry_above f s) (us @ st')" "st' \<noteq> []" "s \<noteq> 0"
    "\<forall>u\<in>set us. cross f s (fst u) q \<le> snd u" "\<forall>e\<in>set (us @ st'). fst e < q" "u \<in> set us"
  shows "cross f s (fst (hd st')) q \<le> snd u"
proof -
  have ne: "us \<noteq> []" using assms(6) by auto
  have above: "entry_above f s (last us) (hd st')" using assms(1,2) ne by (auto simp: successively_append_iff)
  have "last us \<in> set us" using ne by simp
  then have "cross f s (fst (last us)) q \<le> snd (last us)" "fst (last us) < q" using assms(4,5) by auto
  then have "cross f s (fst (hd st')) q \<le> cross f s (fst (hd st')) (fst (last us))"
    using cross_covered [of "fst (hd st')" "fst (last us)" q s f] above assms(3) by (auto simp: entry_above_def)
  also have "\<dots> = snd (last us)" using above by (simp add: entry_above_def)
  also have "\<dots> \<le> snd u"
  proof (cases "u = last us")
    case False
    have "sorted_wrt (\<lambda>a b. fst b < fst a \<and> snd b < snd a) (butlast us @ [last us])"
      using entry_above_sorted [OF assms(1)] ne by (simp add: sorted_wrt_append)
    moreover have "u \<in> set (butlast us)" using assms(6) False ne by (metis append_butlast_last_id insertE list.simps(15) rotate1.simps(2) set_rotate1)
    ultimately show ?thesis by (auto simp: sorted_wrt_append)
  qed simp
  finally show ?thesis .
qed

lemma find_append: "find P (xs @ ys) = (case find P xs of None \<Rightarrow> find P ys | Some x \<Rightarrow> Some x)"
  by (induction xs) auto

lemma find_SomeD: "find P xs = Some x \<Longrightarrow> x \<in> set xs \<and> P x"
  by (induction xs) (auto split: if_splits)

lemma push_envelope:
  assumes env: "envelope_of f s S st" and pop: "pop_real f s q st = (st', z)" and "s \<noteq> 0" and less: "\<forall>p\<in>S. p < q"
  shows "envelope_of f s (insert q S) ((q, z) # st')"
proof -
  obtain us where us: "st = us @ st'" "\<forall>u\<in>set us. cross f s (fst u) q \<le> snd u"
    and z: "if st' = [] then z = bottom_z else z = cross f s (fst (hd st')) q \<and> snd (hd st') < z"
    using pop_real_split [OF pop] by blast
  have succ: "successively (entry_above f s) (us @ st')" and S: "\<forall>e\<in>set (us @ st'). fst e \<in> S"
    and bot: "us @ st' \<noteq> [] \<Longrightarrow> snd (last (us @ st')) = bottom_z" and none: "us @ st' = [] \<Longrightarrow> S = {}"
    and opt: "\<And>x e p. 0 \<le> x \<Longrightarrow> find (\<lambda>e. snd e < x) (us @ st') = Some e \<Longrightarrow> p \<in> S \<Longrightarrow> par f s (fst e) x \<le> par f s p x"
    using env by (auto simp: envelope_of_def us(1))
  have succ': "successively (entry_above f s) ((q, z) # st')"
    using succ z S less by (cases st') (auto simp: successively_append_iff entry_above_def)
  have "par f s (fst e) x \<le> par f s p x"
    if x: "0 \<le> x" and find: "find (\<lambda>e. snd e < x) ((q, z) # st') = Some e" and p: "p \<in> insert q S" for x e p
  proof (cases "z < x")
    case True
    then have e: "fst e = q" using find by auto
    show ?thesis
    proof (cases "p = q")
      case False
      then have ne: "us @ st' \<noteq> []" using none p by auto
      have "find (\<lambda>e. snd e < x) (us @ st') \<noteq> None"
        using bot [OF ne] ne x unfolding find_None_iff by (metis (no_types, lifting) bottom_z_def last_in_set less_le_trans neg_less_0_iff_less zero_less_numeral zero_less_power)
      then obtain w where w: "find (\<lambda>e. snd e < x) (us @ st') = Some w" by blast
      have "cross f s (fst w) q \<le> x"
      proof (cases "find (\<lambda>e. snd e < x) us")
        case None
        then have "w = hd st' \<and> st' \<noteq> []" using w z True by (cases st') (auto simp: find_append)
        then show ?thesis using z True by simp
      next
        case (Some w')
        then have "find (\<lambda>e. snd e < x) us = Some w" using w by (simp add: find_append)
        then have "w \<in> set us" "snd w < x" using find_SomeD by fastforce+
        then show ?thesis using us(2) by fastforce
      qed
      moreover have "fst w < q" using find_SomeD [OF w] S less by blast
      ultimately have "par f s q x \<le> par f s (fst w) x" using par_less assms(3) by simp
      also have "\<dots> \<le> par f s p x" using opt [OF x w] p False by simp
      finally show ?thesis using e by simp
    qed (simp add: e)
  next
    case False
    then have find': "find (\<lambda>e. snd e < x) st' = Some e" and ne: "st' \<noteq> []" using find by auto
    have zc: "z = cross f s (fst (hd st')) q" using z ne by simp
    have "\<not> snd u < x" if "u \<in> set us" for u
      using popped_start [OF succ ne assms(3) us(2) _ that] S less False zc by fastforce
    then have "find (\<lambda>e. snd e < x) us = None" by (auto simp: find_None_iff)
    with find' have old: "find (\<lambda>e. snd e < x) (us @ st') = Some e" by (simp add: find_append)
    have "hd st' \<in> set (us @ st')" using ne by simp
    then have hd: "fst (hd st') \<in> S" using S by blast
    then have "par f s (fst (hd st')) x \<le> par f s q x" using par_le [of "fst (hd st')" q s x f] less assms(3) False zc by simp
    with opt [OF x old hd] opt [OF x old] p show ?thesis by auto
  qed
  moreover have "snd (last ((q, z) # st')) = bottom_z" using bot z by (cases "st' = []") auto
  ultimately show ?thesis using succ' S by (auto simp: envelope_of_def)
qed

text \<open>The sweep over the reals, and that it is the code's.\<close>

definition sources :: "real list \<Rightarrow> nat \<Rightarrow> nat set" where
  "sources f n = {p. p < n \<and> f ! p < 10 ^ 20}"

definition envelope_real :: "real list \<Rightarrow> real \<Rightarrow> nat \<Rightarrow> (nat \<times> real) list" where
  "envelope_real f s n = fold (\<lambda>q st. if 10 ^ 20 \<le> f ! q then st else let (st', z) = pop_real f s q st in (q, z) # st') [0..<n] []"

lemma sources_Suc: "sources f (Suc n) = (if f ! n < 10 ^ 20 then insert n (sources f n) else sources f n)"
  by (auto simp: sources_def less_Suc_eq)

lemma envelope_real_ok: "s \<noteq> 0 \<Longrightarrow> envelope_of f s (sources f n) (envelope_real f s n)"
proof (induction n)
  case 0
  then show ?case by (simp add: envelope_of_def envelope_real_def sources_def)
next
  case (Suc n)
  obtain st' z where pop: "pop_real f s n (envelope_real f s n) = (st', z)" by fastforce
  have "envelope_real f s (Suc n) = (if 10 ^ 20 \<le> f ! n then envelope_real f s n else (n, z) # st')"
    using pop by (simp add: envelope_real_def)
  moreover have "envelope_of f s (insert n (sources f n)) ((n, z) # st')"
    using push_envelope [OF Suc.IH pop] Suc.prems by (auto simp: sources_def)
  ultimately show ?case using Suc by (simp add: sources_Suc)
qed

definition lift_entries :: "(nat \<times> real) list \<Rightarrow> (nat \<times> double) list" where
  "lift_entries st = map (map_prod id Fin) st"

lemma pop_covered_real:
  assumes "s \<noteq> 0" "q < length f" "\<forall>e\<in>set st. fst e < q"
  shows "pop_covered (map Fin f) (Fin s * Fin s) q (lift_entries st) = map_prod lift_entries Fin (pop_real f s q st)"
  using assms(3)
proof (induction st)
  case Nil
  show ?case by (simp add: lift_entries_def kInfSq_def bottom_z_def)
next
  case (Cons e st)
  obtain p z where e: "e = (p, z)" by fastforce
  have "p < q" using Cons.prems e by simp
  then have "parabola_cross (map Fin f) (Fin s * Fin s) p q = Fin (cross f s p q)"
    using assms(1,2) by (simp add: parabola_cross_def cross_def)
  with Cons e show ?case by (simp add: lift_entries_def Let_def)
qed

lemma envelope_lift:
  assumes "s \<noteq> 0"
  shows "n \<le> length f \<Longrightarrow> fold (envelope_step (map Fin f) (Fin s * Fin s)) [0..<n] [] = lift_entries (envelope_real f s n)"
proof (induction n)
  case 0
  show ?case by (simp add: envelope_real_def lift_entries_def)
next
  case (Suc n)
  obtain st' z where pop: "pop_real f s n (envelope_real f s n) = (st', z)" by fastforce
  have "\<forall>e\<in>set (envelope_real f s n). fst e < n"
    using envelope_real_ok [OF assms, of f n] by (auto simp: envelope_of_def sources_def)
  then have "pop_covered (map Fin f) (Fin s * Fin s) n (lift_entries (envelope_real f s n)) = (lift_entries st', Fin z)"
    using pop_covered_real [OF assms, of n f "envelope_real f s n"] Suc.prems pop by simp
  moreover have "envelope_real f s (Suc n) = (if 10 ^ 20 \<le> f ! n then envelope_real f s n else (n, z) # st')"
    using pop by (simp add: envelope_real_def)
  ultimately show ?case using Suc by (simp add: envelope_step_def kInfSq_def lift_entries_def)
qed

section \<open>Reading the envelope\<close>

lemma skip_passed_twice: "q \<le> q' \<Longrightarrow> skip_passed (skip_passed env q) q' = skip_passed env q'"
proof (induction env q rule: skip_passed.induct)
  case (1 a b env q)
  then show ?case by (cases "snd b") auto
qed auto

lemma read_envelope_map:
  "read_envelope f s env [m..<n] = map (\<lambda>q. parabola_value f s (fst (hd (skip_passed env q))) q) [m..<n]"
proof (induction "n - m" arbitrary: m env)
  case (Suc k)
  then have "m < n" by simp
  then have "[m..<n] = m # [Suc m..<n]" by (simp add: upt_conv_Cons)
  moreover have "read_envelope f s (skip_passed env m) [Suc m..<n] =
      map (\<lambda>q. parabola_value f s (fst (hd (skip_passed (skip_passed env m) q))) q) [Suc m..<n]"
    using Suc by simp
  ultimately show ?case by (simp add: skip_passed_twice Let_def cong: map_cong)
qed simp

text \<open>The entry the reading stands on is the topmost one that starts before the position.\<close>

lemma skip_passed_finds:
  assumes "sorted_wrt (\<lambda>a b. snd a < snd b) env" "env \<noteq> []" "snd (hd env) < real q"
  shows "find (\<lambda>e. snd e < real q) (rev env) = Some e \<Longrightarrow> hd (skip_passed (lift_entries env) q) = (fst e, Fin (snd e))"
  using assms
proof (induction env)
  case (Cons a env)
  show ?case
  proof (cases env)
    case Nil
    then show ?thesis using Cons.prems by (cases a) (auto simp: lift_entries_def split: if_splits)
  next
    case (Cons b env')
    show ?thesis
    proof (cases "snd b < real q")
      case True
      have "find (\<lambda>e. snd e < real q) (rev env) \<noteq> None" using True Cons by (cases b) (auto simp: find_None_iff)
      then have "find (\<lambda>e. snd e < real q) (rev env) = Some e" using Cons.prems(1) by (auto simp: find_append)
      then show ?thesis using Cons.IH Cons.prems(2) Cons True by (simp add: lift_entries_def)
    next
      case False
      then have "find (\<lambda>e. snd e < real q) (rev env) = None" using Cons.prems(2) Cons by (force simp: find_None_iff)
      then have "e = a" using Cons.prems(1,4) by (auto simp: find_append)
      then show ?thesis using False Cons by (cases a) (simp add: lift_entries_def)
    qed
  qed
qed simp

lemma dt1d_length [simp]: "length (dt1d f s) = length f"
  by (simp add: dt1d_def Let_def read_envelope_map)

text \<open>The sweep computes the minimum over the sources, and the largest value when there are none.\<close>

lemma dt1d_correct:
  assumes "s \<noteq> 0" "q < length f"
  shows "dt1d (map Fin f) (Fin s) ! q =
    (if sources f (length f) = {} then kInfSq else Fin (Min ((\<lambda>p. par f s p (real q)) ` sources f (length f))))"
proof -
  let ?S = "sources f (length f)" and ?st = "envelope_real f s (length f)"
  have env: "envelope (map Fin f) (Fin s * Fin s) = lift_entries ?st"
    using envelope_lift [OF assms(1), of "length f" f] by (simp add: envelope_def)
  note ok = envelope_real_ok [OF assms(1), of f "length f"]
  have fin: "finite ?S" by (simp add: sources_def)
  show ?thesis
  proof (cases "?st = []")
    case True
    then show ?thesis using ok env assms(2) by (simp add: dt1d_def envelope_of_def lift_entries_def)
  next
    case False
    have last: "snd (last ?st) < real q" using ok False by (simp add: envelope_of_def bottom_z_def)
    have "find (\<lambda>e. snd e < real q) ?st \<noteq> None" using last False last_in_set unfolding find_None_iff by blast
    then obtain e where e: "find (\<lambda>e. snd e < real q) ?st = Some e" by blast
    have "sorted_wrt (\<lambda>a b. snd a < snd b) (rev ?st)"
      using ok entry_above_sorted by (fastforce simp: envelope_of_def sorted_wrt_rev elim: sorted_wrt_mono_rel [rotated])
    then have hd: "hd (skip_passed (lift_entries (rev ?st)) q) = (fst e, Fin (snd e))"
      using skip_passed_finds [of "rev ?st" q e] e last False by (simp add: hd_rev)
    have mem: "fst e \<in> ?S" using find_SomeD [OF e] ok by (auto simp: envelope_of_def)
    then have val: "dt1d (map Fin f) (Fin s) ! q = Fin (par f s (fst e) (real q))"
      using env False assms(2) hd
      by (simp add: dt1d_def read_envelope_map lift_entries_def rev_map parabola_value_def par_def power2_eq_square sources_def)
    have "par f s (fst e) (real q) = Min ((\<lambda>p. par f s p (real q)) ` ?S)"
      using ok e mem fin unfolding envelope_of_def by (intro Min_eqI [symmetric]) (fastforce simp del: split_paired_All)+
    with val mem show ?thesis by auto
  qed
qed

end
