(* ===== verification/Esdf_Map.thy ===== *)
theory Esdf_Map
  imports "HOL-Library.AList" Distance_Transform Planning_Query
begin

text \<open>
  The distance field (\<open>avoidance/local_esdf_map.cpp\<close>, \<open>compute_esdf.cpp\<close>, \<open>local_esdf_map_incremental.cpp\<close>):
  a window of the planning map is sampled into a dense grid, the three passes of the distance
  transform turn its occupied voxels into squared distances, and the voxels near an obstacle are
  stored under their world keys.

  The dense vectors are lists, written column by column as in the code; the products of the grid's
  dimensions are taken to fit into an \<open>int\<close>.  The hash map of the stored cells is an association list
  with distinct keys; the order of its iteration is the only thing that is chosen.  Single precision
  values are not rounded, like all other floating-point values of the model.
\<close>

section \<open>Data\<close>

record LocalESDFConfig =
  ec_cell_size_m :: double
  ec_vertical_cell_size_m :: double
  ec_d0_m :: double
  ec_sample_spacing_m :: double

record LocalESDFCell =
  el_centre :: Vec3
  el_d :: double
  el_grad :: Vec3
  el_sgrad :: Vec3
  el_last_updated_ns :: int

record LocalESDFQueryResult =
  eq_d :: double
  eq_grad :: Vec3

record LocalESDFMap =
  em_config :: LocalESDFConfig
  em_cells :: "(CellKey \<times> LocalESDFCell) list"

record LocalESDFMapSnapshot =
  es_config :: LocalESDFConfig
  es_cell_count :: nat
  es_cells :: "LocalESDFCell list"
  es_net_repulsion :: Vec3

section \<open>Queries\<close>

definition em_key_for_point :: "LocalESDFConfig \<Rightarrow> Vec3 \<Rightarrow> CellKey" where
  "em_key_for_point c pos = grid_key (ec_cell_size_m c) (ec_vertical_cell_size_m c) pos"

definition esdf_query :: "LocalESDFMap \<Rightarrow> Vec3 \<Rightarrow> LocalESDFQueryResult" where
  "esdf_query m pos =
     (case map_of (em_cells m) (em_key_for_point (em_config m) pos) of
        None \<Rightarrow> \<lparr>eq_d = ec_d0_m (em_config m), eq_grad = vec3_zero\<rparr>
      | Some cell \<Rightarrow> \<lparr>eq_d = el_d cell, eq_grad = el_grad cell\<rparr>)"

definition is_clear :: "LocalESDFMap \<Rightarrow> Vec3 \<Rightarrow> double \<Rightarrow> bool" where
  "is_clear m pos r \<longleftrightarrow> r \<le> eq_d (esdf_query m pos)"

text \<open>One of the eight corners of the interpolation.\<close>

definition repulsion_corner ::
    "LocalESDFMap \<Rightarrow> double \<Rightarrow> double \<Rightarrow> CellKey \<Rightarrow> Vec3 \<Rightarrow> int \<times> int \<times> int \<Rightarrow> Vec3 \<times> double \<Rightarrow> Vec3 \<times> double" where
  "repulsion_corner m d0 k base t corner acc =
     (let (di, dj, dk) = corner; (result, w_found) = acc
      in case map_of (em_cells m) (cell_key (kx base + di) (ky base + dj) (kz base + dk)) of
           None \<Rightarrow> acc
         | Some cell \<Rightarrow>
             if el_d cell \<le> 0 \<or> d0 \<le> el_d cell then acc
             else let d = el_d cell;
                      wx = (if di = 0 then 1 - vx t else vx t);
                      wy = (if dj = 0 then 1 - vy t else vy t);
                      wz = (if dk = 0 then 1 - vz t else vz t);
                      w = wx * wy * wz;
                      scale = k * (1 / d - 1 / d0) / (d * d) * w
                  in (vec3 (vx result + scale * vx (el_sgrad cell)) (vy result + scale * vy (el_sgrad cell))
                        (vz result + scale * vz (el_sgrad cell)), w_found + w))"

definition repulsion :: "LocalESDFMap \<Rightarrow> Vec3 \<Rightarrow> double \<Rightarrow> double \<Rightarrow> Vec3" where
  "repulsion m pos d0 k =
     (let csx = ec_cell_size_m (em_config m); csz = ec_vertical_cell_size_m (em_config m);
          fx = vx pos / csx; fy = vy pos / csx; fz = vz pos / csz;
          base = cell_key (floor_to_int fx) (floor_to_int fy) (floor_to_int fz);
          t = vec3 (fx - Fin (of_int (kx base))) (fy - Fin (of_int (ky base))) (fz - Fin (of_int (kz base)));
          (result, w_found) =
            fold (repulsion_corner m d0 k base t)
              [(0, 0, 0), (0, 0, 1), (0, 1, 0), (0, 1, 1), (1, 0, 0), (1, 0, 1), (1, 1, 0), (1, 1, 1)] (vec3_zero, 0)
      in if Fin (1 / 10 ^ 10) < w_found \<and> w_found < Fin (999/1000)
         then let inv_w = 1 / w_found in vec3 (vx result * inv_w) (vy result * inv_w) (vz result * inv_w)
         else result)"

definition repulsion_smoothed :: "LocalESDFMap \<Rightarrow> Vec3 \<Rightarrow> Vec3 \<Rightarrow> double \<Rightarrow> double \<Rightarrow> double \<Rightarrow> Vec3" where
  "repulsion_smoothed m pos vel d0 k a_max_mps2 = repulsion m pos d0 k"

definition em_snapshot :: "LocalESDFMap \<Rightarrow> Vec3 \<Rightarrow> double \<Rightarrow> LocalESDFMapSnapshot" where
  "em_snapshot m query_pos repulsion_k =
     \<lparr>es_config = em_config m, es_cell_count = length (em_cells m), es_cells = map snd (em_cells m),
      es_net_repulsion = repulsion m query_pos (ec_d0_m (em_config m)) repulsion_k\<rparr>"

section \<open>The window's grid\<close>

record EsdfGrid =
  eg_sx :: double
  eg_sz :: double
  eg_nx :: nat
  eg_ny :: nat
  eg_nz :: nat
  eg_xi :: int
  eg_yi :: int
  eg_zi :: int

definition grid_dim :: "double \<Rightarrow> double \<Rightarrow> nat" where
  "grid_dim half_m s = nat (max 1 (ceil_to_int (2 * half_m / s)))"

definition grid_first :: "double \<Rightarrow> nat \<Rightarrow> double \<Rightarrow> int" where
  "grid_first centre n s = floor_to_int ((centre - Fin (real n) * s * Fin (1/2)) / s)"

definition esdf_grid :: "PlanningConfig \<Rightarrow> Vec3 \<Rightarrow> double \<Rightarrow> double \<Rightarrow> double \<Rightarrow> EsdfGrid" where
  "esdf_grid l2cfg centre_world horiz_half_m vert_half_m sample_spacing_m =
     (let sx = std_max (pmc_cell_size_m l2cfg) sample_spacing_m; sz = pmc_vertical_cell_size_m l2cfg;
          nx = grid_dim horiz_half_m sx; ny = grid_dim horiz_half_m sx; nz = grid_dim vert_half_m sz
      in \<lparr>eg_sx = sx, eg_sz = sz, eg_nx = nx, eg_ny = ny, eg_nz = nz,
          eg_xi = grid_first (vx centre_world) nx sx, eg_yi = grid_first (vy centre_world) ny sx,
          eg_zi = grid_first (vz centre_world) nz sz\<rparr>)"

definition eg_origin :: "EsdfGrid \<Rightarrow> Vec3" where
  "eg_origin g = vec3 (Fin (of_int (eg_xi g)) * eg_sx g) (Fin (of_int (eg_yi g)) * eg_sx g) (Fin (of_int (eg_zi g)) * eg_sz g)"

definition eg_cell_centre :: "EsdfGrid \<Rightarrow> nat \<Rightarrow> nat \<Rightarrow> nat \<Rightarrow> Vec3" where
  "eg_cell_centre g i j k =
     (let origin = eg_origin g
      in vec3 (vx origin + (Fin (real i) + Fin (1/2)) * eg_sx g) (vy origin + (Fin (real j) + Fin (1/2)) * eg_sx g)
           (vz origin + (Fin (real k) + Fin (1/2)) * eg_sz g))"

definition world_to_idx :: "EsdfGrid \<Rightarrow> Vec3 \<Rightarrow> (nat \<times> nat \<times> nat) option" where
  "world_to_idx g p =
     (let origin = eg_origin g;
          gi = floor_to_int ((vx p - vx origin) / eg_sx g);
          gj = floor_to_int ((vy p - vy origin) / eg_sx g);
          gk = floor_to_int ((vz p - vz origin) / eg_sz g)
      in if 0 \<le> gi \<and> gi < int (eg_nx g) \<and> 0 \<le> gj \<and> gj < int (eg_ny g) \<and> 0 \<le> gk \<and> gk < int (eg_nz g)
         then Some (nat gi, nat gj, nat gk) else None)"

definition eg_idx :: "EsdfGrid \<Rightarrow> nat \<Rightarrow> nat \<Rightarrow> nat \<Rightarrow> nat" where
  "eg_idx g i j k = i * (eg_ny g * eg_nz g) + j * eg_nz g + k"

definition eg_cells :: "EsdfGrid \<Rightarrow> nat" where
  "eg_cells g = eg_nx g * (eg_ny g * eg_nz g)"

definition eg_box :: "EsdfGrid \<Rightarrow> Bounds3" where
  "eg_box g =
     (let origin = eg_origin g
      in \<lparr>bmin = origin,
          bmax = vec3 (vx origin + Fin (real (eg_nx g)) * eg_sx g) (vy origin + Fin (real (eg_ny g)) * eg_sx g)
                   (vz origin + Fin (real (eg_nz g)) * eg_sz g)\<rparr>)"

section \<open>The occupancy grid and the three passes\<close>

definition mark_occupied :: "EsdfGrid \<Rightarrow> Vec3 \<times> int \<Rightarrow> bool list \<times> int list \<Rightarrow> bool list \<times> int list" where
  "mark_occupied g c grids =
     (case world_to_idx g (fst c) of
        None \<Rightarrow> grids
      | Some (i, j, k) \<Rightarrow>
          let n = eg_idx g i j k in ((fst grids)[n := True], (snd grids)[n := max (snd grids ! n) (snd c)]))"

definition esdf_occupancy :: "PlanningMap \<Rightarrow> EsdfGrid \<Rightarrow> bool list \<times> int list" where
  "esdf_occupancy l2 g =
     fold (mark_occupied g) (query_occupied_ts_in_box l2 (eg_box g)) (replicate (eg_cells g) False, replicate (eg_cells g) 0)"

text \<open>One pass: \<open>place\<close> gives the index of the \<open>t\<close>-th element of a column.\<close>

definition edt_column :: "nat \<Rightarrow> (nat \<Rightarrow> nat) \<Rightarrow> double \<Rightarrow> double list \<Rightarrow> double list \<Rightarrow> double list" where
  "edt_column n place s src dst =
     (let out = dt1d (map (\<lambda>t. src ! place t) [0..<n]) s in fold (\<lambda>t dst. dst[place t := out ! t]) [0..<n] dst)"

definition edt_pass :: "nat \<Rightarrow> (nat \<times> nat \<Rightarrow> nat \<Rightarrow> nat) \<Rightarrow> double \<Rightarrow> (nat \<times> nat) list \<Rightarrow> double list \<Rightarrow> double list" where
  "edt_pass n place s columns src = fold (\<lambda>c dst. edt_column n (place c) s src dst) columns (replicate (length src) 0)"

definition edt_grid :: "EsdfGrid \<Rightarrow> bool list \<Rightarrow> double list" where
  "edt_grid g occ =
     (let nx = eg_nx g; ny = eg_ny g; nz = eg_nz g;
          g1 = edt_pass nx (\<lambda>(j, k) i. eg_idx g i j k) (eg_sx g) (List.product [0..<ny] [0..<nz])
                 (map (\<lambda>b. if b then 0 else kInfSq) occ);
          g2 = edt_pass ny (\<lambda>(i, k) j. eg_idx g i j k) (eg_sx g) (List.product [0..<nx] [0..<nz]) g1
      in edt_pass nz (\<lambda>(i, j) k. eg_idx g i j k) (eg_sz g) (List.product [0..<nx] [0..<ny]) g2)"

section \<open>The stored cells\<close>

definition clamp_index :: "nat \<Rightarrow> int \<Rightarrow> nat" where
  "clamp_index n i = nat (max 0 (min (int n - 1) i))"

definition g3_at :: "EsdfGrid \<Rightarrow> double list \<Rightarrow> int \<Rightarrow> int \<Rightarrow> int \<Rightarrow> double" where
  "g3_at g g3 i j k = g3 ! eg_idx g (clamp_index (eg_nx g) i) (clamp_index (eg_ny g) j) (clamp_index (eg_nz g) k)"

definition esdf_direction :: "EsdfGrid \<Rightarrow> double list \<Rightarrow> int \<Rightarrow> int \<Rightarrow> int \<Rightarrow> Vec3" where
  "esdf_direction g g3 i j k =
     (let gx = (g3_at g g3 (i + 1) j k - g3_at g g3 (i - 1) j k) / eg_sx g;
          gy = (g3_at g g3 i (j + 1) k - g3_at g g3 i (j - 1) k) / eg_sx g;
          gz = (g3_at g g3 i j (k + 1) - g3_at g g3 i j (k - 1)) / eg_sz g;
          glen = std_sqrt (gx * gx + gy * gy + gz * gz)
      in if Fin (1/1000000) < glen then vec3 (gx / glen) (gy / glen) (gz / glen) else vec3_zero)"

definition nearest_ts :: "EsdfGrid \<Rightarrow> bool list \<Rightarrow> int list \<Rightarrow> int \<Rightarrow> int \<Rightarrow> int \<Rightarrow> int" where
  "nearest_ts g occ ts i j k =
     fold (\<lambda>(di, dj, dk) best.
         let ni = i + di; nj = j + dj; nk = k + dk; n = eg_idx g (nat ni) (nat nj) (nat nk)
         in if 0 \<le> ni \<and> ni < int (eg_nx g) \<and> 0 \<le> nj \<and> nj < int (eg_ny g) \<and> 0 \<le> nk \<and> nk < int (eg_nz g) \<and> occ ! n
            then max best (ts ! n) else best)
       [(di, dj, dk). di \<leftarrow> [-1..1], dj \<leftarrow> [-1..1], dk \<leftarrow> [-1..1]] 0"

definition shell_cell ::
    "EsdfGrid \<Rightarrow> double \<Rightarrow> bool list \<Rightarrow> int list \<Rightarrow> double list \<Rightarrow> nat \<times> nat \<times> nat \<Rightarrow> LocalESDFCell option" where
  "shell_cell g d0_m occ ts g3 v =
     (let (i, j, k) = v; n = eg_idx g i j k; cc = eg_cell_centre g i j k
      in if occ ! n
         then Some \<lparr>el_centre = cc, el_d = Fin (- 1/2), el_grad = vec3_zero, el_sgrad = vec3_zero, el_last_updated_ns = ts ! n\<rparr>
         else let d = std_sqrt (g3 ! n)
              in if d0_m \<le> d then None
                 else let dir = esdf_direction g g3 (int i) (int j) (int k)
                      in Some \<lparr>el_centre = cc, el_d = d, el_grad = dir, el_sgrad = dir,
                               el_last_updated_ns = nearest_ts g occ ts (int i) (int j) (int k)\<rparr>)"

definition voxel_key :: "EsdfGrid \<Rightarrow> nat \<times> nat \<times> nat \<Rightarrow> CellKey" where
  "voxel_key g v = (let (i, j, k) = v in grid_key (eg_sx g) (eg_sz g) (eg_cell_centre g i j k))"

definition store_shell ::
    "EsdfGrid \<Rightarrow> double \<Rightarrow> bool list \<Rightarrow> int list \<Rightarrow> double list \<Rightarrow> nat \<times> nat \<times> nat \<Rightarrow>
     (CellKey \<times> LocalESDFCell) list \<Rightarrow> (CellKey \<times> LocalESDFCell) list" where
  "store_shell g d0_m occ ts g3 v cells =
     (case shell_cell g d0_m occ ts g3 v of None \<Rightarrow> cells | Some cell \<Rightarrow> AList.update (voxel_key g v) cell cells)"

definition grid_voxels :: "EsdfGrid \<Rightarrow> (nat \<times> nat \<times> nat) list" where
  "grid_voxels g = List.product [0..<eg_nx g] (List.product [0..<eg_ny g] [0..<eg_nz g])"

definition compute_esdf :: "PlanningMap \<Rightarrow> Vec3 \<Rightarrow> double \<Rightarrow> double \<Rightarrow> double \<Rightarrow> double \<Rightarrow> LocalESDFMap" where
  "compute_esdf l2 centre_world horiz_half_m vert_half_m d0_m sample_spacing_m =
     (let g = esdf_grid (pm_config l2) centre_world horiz_half_m vert_half_m sample_spacing_m;
          (occ, ts) = esdf_occupancy l2 g; g3 = edt_grid g occ
      in \<lparr>em_config = \<lparr>ec_cell_size_m = eg_sx g, ec_vertical_cell_size_m = eg_sz g, ec_d0_m = d0_m, ec_sample_spacing_m = eg_sx g\<rparr>,
          em_cells = fold (store_shell g d0_m occ ts g3) (grid_voxels g) []\<rparr>)"

section \<open>Incremental updates\<close>

text \<open>The part the two updates share: the window is recomputed, and the stored cells inside its generous bounds replaced.\<close>

definition in_refresh_bounds :: "Vec3 \<Rightarrow> double \<Rightarrow> double \<Rightarrow> double \<Rightarrow> double \<Rightarrow> Vec3 \<Rightarrow> bool" where
  "in_refresh_bounds centre horiz_half vert_half sx sz c \<longleftrightarrow>
     vx centre - horiz_half - sx \<le> vx c \<and> vx c \<le> vx centre + horiz_half + sx \<and>
     vy centre - horiz_half - sx \<le> vy c \<and> vy c \<le> vy centre + horiz_half + sx \<and>
     vz centre - vert_half - sz \<le> vz c \<and> vz c \<le> vz centre + vert_half + sz"

definition replace_window :: "PlanningMap \<Rightarrow> Vec3 \<Rightarrow> double \<Rightarrow> double \<Rightarrow> double \<Rightarrow> LocalESDFMap \<Rightarrow> LocalESDFMap" where
  "replace_window l2 centre horiz_half vert_half d0_m m =
     (let c = em_config m;
          sub = compute_esdf l2 centre horiz_half vert_half d0_m (ec_sample_spacing_m c);
          kept = filter (\<lambda>(_, cell). \<not> in_refresh_bounds centre horiz_half vert_half (ec_cell_size_m c) (ec_vertical_cell_size_m c) (el_centre cell))
                   (em_cells m)
      in m\<lparr>em_cells := fold (\<lambda>(key, cell). AList.update key cell) (em_cells sub) kept\<rparr>)"

definition min_corner :: "Vec3 \<Rightarrow> Vec3 list \<Rightarrow> Vec3" where
  "min_corner p ps = fold (\<lambda>p mn. vec3 (std_min (vx mn) (vx p)) (std_min (vy mn) (vy p)) (std_min (vz mn) (vz p))) ps p"

definition max_corner :: "Vec3 \<Rightarrow> Vec3 list \<Rightarrow> Vec3" where
  "max_corner p ps = fold (\<lambda>p mx. vec3 (std_max (vx mx) (vx p)) (std_max (vy mx) (vy p)) (std_max (vz mx) (vz p))) ps p"

definition box_centre :: "Vec3 \<Rightarrow> Vec3 \<Rightarrow> Vec3" where
  "box_centre mn mx =
     vec3 ((vx mn + vx mx) * Fin (1/2)) ((vy mn + vy mx) * Fin (1/2)) ((vz mn + vz mx) * Fin (1/2))"

definition box_horiz_half :: "Vec3 \<Rightarrow> Vec3 \<Rightarrow> double" where
  "box_horiz_half mn mx = std_max ((vx mx - vx mn) * Fin (1/2)) ((vy mx - vy mn) * Fin (1/2))"

definition update_incremental :: "PlanningMap \<Rightarrow> Vec3 list \<Rightarrow> double \<Rightarrow> LocalESDFMap \<Rightarrow> LocalESDFMap" where
  "update_incremental l2 dirty_world_positions d0_m m =
     (case dirty_world_positions of
        [] \<Rightarrow> m
      | p # _ \<Rightarrow>
          let sx = ec_cell_size_m (em_config m); sz = ec_vertical_cell_size_m (em_config m);
              mn = min_corner p dirty_world_positions; mx = max_corner p dirty_world_positions
          in replace_window l2 (box_centre mn mx) (box_horiz_half mn mx + d0_m + sx) ((vz mx - vz mn) * Fin (1/2) + d0_m + sz) d0_m m)"

definition update_tube :: "PlanningMap \<Rightarrow> Vec3 list \<Rightarrow> double \<Rightarrow> LocalESDFMap \<Rightarrow> LocalESDFMap" where
  "update_tube l2 waypoints tube_radius_m m =
     (case waypoints of
        [] \<Rightarrow> m
      | p # _ \<Rightarrow>
          let sx = ec_cell_size_m (em_config m); sz = ec_vertical_cell_size_m (em_config m); d0 = ec_d0_m (em_config m);
              exp_xy = tube_radius_m + d0 + sx; exp_z = tube_radius_m + d0 + sz;
              mn = min_corner p waypoints; mx = max_corner p waypoints
          in replace_window l2 (box_centre mn mx) (box_horiz_half mn mx + exp_xy) ((vz mx - vz mn) * Fin (1/2) + exp_z) d0 m)"

end
