(* ===== verification/Esdf_Properties.thy ===== *)
theory Esdf_Properties
  imports Esdf_Map
begin

text \<open>
  The distance field is correct: the three passes compute the squared distance to the nearest
  occupied voxel, the stored cells carry that distance, and a point the field calls clear has no
  obstacle of the planning map nearby.
\<close>

section \<open>The linear index\<close>

lemma mixed_radix_inj:
  assumes "j < n" "j' < n" "i * n + j = i' * n + (j'::nat)"
  shows "i = i' \<and> j = j'"
proof -
  have "i = (i * n + j) div n" "j = (i * n + j) mod n" using assms(1) by simp_all
  moreover have "i' = (i' * n + j') div n" "j' = (i' * n + j') mod n" using assms(2) by simp_all
  ultimately show ?thesis using assms(3) by metis
qed

lemma eg_idx_radix: "eg_idx g i j k = (i * eg_ny g + j) * eg_nz g + k"
  by (simp add: eg_idx_def algebra_simps)

lemma eg_idx_inj:
  assumes "j < eg_ny g" "j' < eg_ny g" "k < eg_nz g" "k' < eg_nz g" "eg_idx g i j k = eg_idx g i' j' k'"
  shows "i = i' \<and> j = j' \<and> k = k'"
  using mixed_radix_inj [OF assms(3,4) assms(5) [unfolded eg_idx_radix]] mixed_radix_inj [OF assms(1,2)] by blast

lemma eg_idx_less:
  assumes "i < eg_nx g" "j < eg_ny g" "k < eg_nz g"
  shows "eg_idx g i j k < eg_cells g"
proof -
  have step: "a * n + b < m * n" if "a < m" "b < n" for a b m n :: nat
  proof -
    have "a * n + b < Suc a * n" using that(2) by simp
    also have "\<dots> \<le> m * n" using that(1) by (intro mult_le_mono1) simp
    finally show ?thesis .
  qed
  have "(i * eg_ny g + j) * eg_nz g + k < eg_nx g * eg_ny g * eg_nz g"
    by (intro step assms)
  then show ?thesis by (simp add: eg_idx_radix eg_cells_def mult.assoc)
qed

section \<open>A pass writes every column\<close>

lemma fold_writes_length [simp]: "length (fold (\<lambda>t dst. dst[p t := v t]) ts dst) = length dst"
  by (induction ts arbitrary: dst) auto

lemma fold_writes_other: "n \<notin> p ` set ts \<Longrightarrow> fold (\<lambda>t dst. dst[p t := v t]) ts dst ! n = dst ! n"
  by (induction ts arbitrary: dst) auto

lemma fold_writes:
  assumes "distinct ts" "inj_on p (set ts)" "\<forall>t\<in>set ts. p t < length dst" "t \<in> set ts"
  shows "fold (\<lambda>t dst. dst[p t := v t]) ts dst ! p t = v t"
  using assms
proof (induction ts arbitrary: dst)
  case (Cons a ts)
  show ?case
  proof (cases "t = a")
    case True
    then have "p t \<notin> p ` set ts" using Cons.prems(1,2) by (auto simp: inj_on_def)
    then show ?thesis using True Cons.prems(3) by (simp add: fold_writes_other)
  next
    case False
    then show ?thesis using Cons.IH [of "dst[p a := v a]"] Cons.prems by (auto simp: inj_on_def)
  qed
qed simp

lemma edt_column_length [simp]: "length (edt_column n place s src dst) = length dst"
  by (simp add: edt_column_def Let_def)

lemma edt_pass_length [simp]: "length (edt_pass n place s columns src) = length src"
proof -
  have "length (fold (\<lambda>c dst. edt_column n (place c) s src dst) columns dst) = length dst" for dst
    by (induction columns arbitrary: dst) auto
  then show ?thesis by (simp add: edt_pass_def)
qed

lemma edt_pass_nth:
  assumes "c \<in> set columns" "distinct columns" "t < n"
    and bound: "\<And>c t. c \<in> set columns \<Longrightarrow> t < n \<Longrightarrow> place c t < length src"
    and inj: "\<And>c t c' t'. c \<in> set columns \<Longrightarrow> c' \<in> set columns \<Longrightarrow> t < n \<Longrightarrow> t' < n \<Longrightarrow> place c t = place c' t' \<Longrightarrow> c = c' \<and> t = t'"
  shows "edt_pass n place s columns src ! place c t = dt1d (map (\<lambda>t. src ! place c t) [0..<n]) s ! t"
proof -
  have "fold (\<lambda>c dst. edt_column n (place c) s src dst) cs dst ! place c t = dt1d (map (\<lambda>t. src ! place c t) [0..<n]) s ! t"
    if "set cs \<subseteq> set columns" "distinct cs" "c \<in> set cs" "length dst = length src" for cs dst
    using that
  proof (induction cs arbitrary: dst)
    case (Cons a cs)
    have len: "length (edt_column n (place a) s src dst) = length src" using Cons.prems(4) by simp
    show ?case
    proof (cases "c \<in> set cs")
      case True
      then show ?thesis using Cons.IH [OF _ _ True len] Cons.prems by simp
    next
      case False
      then have c: "c = a" using Cons.prems(3) by simp
      have keep: "fold (\<lambda>c dst. edt_column n (place c) s src dst) ds dst' ! place c t = dst' ! place c t"
        if "set ds \<subseteq> set columns" "c \<notin> set ds" for ds dst'
        using that
      proof (induction ds arbitrary: dst')
        case (Cons d ds)
        have "place c t \<notin> place d ` set [0..<n]"
          using inj [of c d] Cons.prems assms(1,3) by (metis atLeastLessThan_iff imageE list.set_intros(1) set_upt subset_iff)
        then have "edt_column n (place d) s src dst' ! place c t = dst' ! place c t"
          by (simp add: edt_column_def Let_def fold_writes_other)
        then show ?case using Cons by simp
      qed simp
      have "edt_column n (place c) s src dst ! place c t = dt1d (map (\<lambda>t. src ! place c t) [0..<n]) s ! t"
        unfolding edt_column_def Let_def
        by (rule fold_writes) (use assms(1,3) inj bound Cons.prems(4) in \<open>auto simp: inj_on_def\<close>)
      then show ?thesis using keep [of cs] Cons.prems(1) False c by simp
    qed
  qed simp
  then show ?thesis using assms(1,2) by (simp add: edt_pass_def)
qed

section \<open>The three passes\<close>

text \<open>A value is the least element of a set, or the largest value of the code when the set is empty.\<close>

definition least_or_inf :: "real \<Rightarrow> real set \<Rightarrow> bool" where
  "least_or_inf v S \<longleftrightarrow> (if S = {} then v = 10 ^ 20 else v \<in> S \<and> (\<forall>u\<in>S. v \<le> u))"

lemma dt1d_least:
  assumes "s \<noteq> 0" "q < n" "length f = n" "\<And>p. p < n \<Longrightarrow> least_or_inf (f ! p) (S p)"
    and "\<And>p u. p < n \<Longrightarrow> u \<in> S p \<Longrightarrow> u < 10 ^ 20"
  shows "\<exists>v. dt1d (map Fin f) (Fin s) ! q = Fin v \<and> least_or_inf v {((real q - real p) * s)\<^sup>2 + u | p u. p < n \<and> u \<in> S p}"
proof -
  let ?T = "{((real q - real p) * s)\<^sup>2 + u | p u. p < n \<and> u \<in> S p}"
  have src: "p \<in> sources f (length f) \<longleftrightarrow> p < n \<and> S p \<noteq> {}" for p
    using assms(3) assms(4) [of p] assms(5) [of p "f ! p"] by (auto simp: sources_def least_or_inf_def split: if_splits)
  show ?thesis
  proof (cases "sources f (length f) = {}")
    case True
    then have "?T = {}" using src by auto
    then show ?thesis using True dt1d_correct [OF assms(1), of q f] assms(2,3) by (simp add: least_or_inf_def kInfSq_def)
  next
    case False
    let ?P = "(\<lambda>p. par f s p (real q)) ` sources f (length f)"
    have fin: "finite ?P" "?P \<noteq> {}" using False by (auto simp: sources_def)
    obtain p where p: "p \<in> sources f (length f)" "Min ?P = par f s p (real q)" using Min_in [OF fin] by auto
    then have "f ! p \<in> S p" "p < n" using src assms(4) [of p] by (auto simp: least_or_inf_def split: if_splits)
    then have mem: "Min ?P \<in> ?T" using p(2) by (auto simp: par_def)
    moreover have "Min ?P \<le> u" if u: "u \<in> ?T" for u
    proof -
      obtain r w where r: "r < n" "w \<in> S r" "u = ((real q - real r) * s)\<^sup>2 + w" using u by auto
      then have "r \<in> sources f (length f)" "f ! r \<le> w" using src assms(4) [of r] by (auto simp: least_or_inf_def split: if_splits)
      then have "Min ?P \<le> par f s r (real q)" using fin(1) by auto
      also have "\<dots> \<le> u" using r(3) \<open>f ! r \<le> w\<close> by (simp add: par_def)
      finally show ?thesis .
    qed
    ultimately have "least_or_inf (Min ?P) ?T" by (auto simp: least_or_inf_def)
    then show ?thesis using False dt1d_correct [OF assms(1), of q f] assms(2,3) by auto
  qed
qed

lemma edt_pass_least:
  assumes col: "c \<in> set columns" "distinct columns" "q < n"
    and bound: "\<And>c t. c \<in> set columns \<Longrightarrow> t < n \<Longrightarrow> place c t < length src"
    and inj: "\<And>c t c' t'. c \<in> set columns \<Longrightarrow> c' \<in> set columns \<Longrightarrow> t < n \<Longrightarrow> t' < n \<Longrightarrow> place c t = place c' t' \<Longrightarrow> c = c' \<and> t = t'"
    and s: "s \<noteq> 0"
    and src: "\<And>t. t < n \<Longrightarrow> \<exists>v. src ! place c t = Fin v \<and> least_or_inf v (S t)"
    and small: "\<And>t u. t < n \<Longrightarrow> u \<in> S t \<Longrightarrow> u < 10 ^ 20"
  shows "\<exists>v. edt_pass n place (Fin s) columns src ! place c q = Fin v \<and>
    least_or_inf v {((real q - real p) * s)\<^sup>2 + u | p u. p < n \<and> u \<in> S p}"
proof -
  define f where "f = map (\<lambda>t. real_of_double (src ! place c t)) [0..<n]"
  have "\<And>t. t < n \<Longrightarrow> src ! place c t = Fin (f ! t) \<and> least_or_inf (f ! t) (S t)"
    using src by (fastforce simp: f_def)
  then have f: "map (\<lambda>t. src ! place c t) [0..<n] = map Fin f" "\<And>t. t < n \<Longrightarrow> least_or_inf (f ! t) (S t)"
    by (auto simp: f_def intro!: nth_equalityI)
  have "edt_pass n place (Fin s) columns src ! place c q = dt1d (map (\<lambda>t. src ! place c t) [0..<n]) (Fin s) ! q"
    by (rule edt_pass_nth) (use assms in auto)
  then show ?thesis
    using dt1d_least [OF s col(3) _ f(2) small] f(1) by (auto simp: f_def)
qed

text \<open>A grid whose squared extent stays below the code's largest value.\<close>

definition grid_wf :: "EsdfGrid \<Rightarrow> real \<Rightarrow> real \<Rightarrow> bool" where
  "grid_wf g sx sz \<longleftrightarrow> eg_sx g = Fin sx \<and> 0 < sx \<and> eg_sz g = Fin sz \<and> 0 < sz \<and>
     (real (eg_nx g) * sx)\<^sup>2 + (real (eg_ny g) * sx)\<^sup>2 + (real (eg_nz g) * sz)\<^sup>2 < 10 ^ 20"

definition sq_dist :: "real \<Rightarrow> real \<Rightarrow> nat \<times> nat \<times> nat \<Rightarrow> nat \<times> nat \<times> nat \<Rightarrow> real" where
  "sq_dist sx sz v w = (case v of (i, j, k) \<Rightarrow> case w of (a, b, c) \<Rightarrow>
     ((real i - real a) * sx)\<^sup>2 + ((real j - real b) * sx)\<^sup>2 + ((real k - real c) * sz)\<^sup>2)"

definition occupied_voxels :: "EsdfGrid \<Rightarrow> bool list \<Rightarrow> (nat \<times> nat \<times> nat) set" where
  "occupied_voxels g occ = {(a, b, c). a < eg_nx g \<and> b < eg_ny g \<and> c < eg_nz g \<and> occ ! eg_idx g a b c}"

lemma axis_sq_le:
  fixes s :: real
  assumes "i < n" "a < n"
  shows "((real i - real a) * s)\<^sup>2 \<le> (real n * s)\<^sup>2"
proof -
  have "(real i - real a)\<^sup>2 \<le> (real n)\<^sup>2" unfolding abs_le_square_iff [symmetric] using assms by auto
  then show ?thesis by (simp add: power_mult_distrib mult_right_mono)
qed

text \<open>The squared distances along the first one, two and three axes.\<close>

definition dists_x :: "EsdfGrid \<Rightarrow> real \<Rightarrow> bool list \<Rightarrow> nat \<Rightarrow> nat \<Rightarrow> nat \<Rightarrow> real set" where
  "dists_x g sx occ i j k =
     {((real i - real p) * sx)\<^sup>2 + u | p u. p < eg_nx g \<and> u \<in> (if occ ! eg_idx g p j k then {0} else {})}"

definition dists_xy :: "EsdfGrid \<Rightarrow> real \<Rightarrow> bool list \<Rightarrow> nat \<Rightarrow> nat \<Rightarrow> nat \<Rightarrow> real set" where
  "dists_xy g sx occ i j k = {((real j - real p) * sx)\<^sup>2 + u | p u. p < eg_ny g \<and> u \<in> dists_x g sx occ i p k}"

definition dists_xyz :: "EsdfGrid \<Rightarrow> real \<Rightarrow> real \<Rightarrow> bool list \<Rightarrow> nat \<Rightarrow> nat \<Rightarrow> nat \<Rightarrow> real set" where
  "dists_xyz g sx sz occ i j k = {((real k - real p) * sz)\<^sup>2 + u | p u. p < eg_nz g \<and> u \<in> dists_xy g sx occ i j p}"

lemma dists_x_iff: "u \<in> dists_x g sx occ i j k \<longleftrightarrow> (\<exists>a<eg_nx g. occ ! eg_idx g a j k \<and> u = ((real i - real a) * sx)\<^sup>2)"
  by (auto simp: dists_x_def split: if_splits)

lemma dists_xyz_occupied: "dists_xyz g sx sz occ i j k = sq_dist sx sz (i, j, k) ` occupied_voxels g occ" (is "?L = ?R")
proof
  show "?L \<subseteq> ?R"
  proof
    fix u assume "u \<in> ?L"
    then obtain a b c where "a < eg_nx g" "b < eg_ny g" "c < eg_nz g" "occ ! eg_idx g a b c" "u = sq_dist sx sz (i, j, k) (a, b, c)"
      by (auto simp: dists_xyz_def dists_xy_def dists_x_iff sq_dist_def)
    then show "u \<in> ?R" by (auto simp: occupied_voxels_def)
  qed
  show "?R \<subseteq> ?L"
  proof
    fix u assume "u \<in> ?R"
    then obtain a b c where v: "a < eg_nx g" "b < eg_ny g" "c < eg_nz g" "occ ! eg_idx g a b c" "u = sq_dist sx sz (i, j, k) (a, b, c)"
      by (auto simp: occupied_voxels_def)
    have "((real i - real a) * sx)\<^sup>2 \<in> dists_x g sx occ i b c" using v by (auto simp: dists_x_iff)
    then have "((real j - real b) * sx)\<^sup>2 + ((real i - real a) * sx)\<^sup>2 \<in> dists_xy g sx occ i j c" using v by (auto simp: dists_xy_def)
    then have "((real k - real c) * sz)\<^sup>2 + (((real j - real b) * sx)\<^sup>2 + ((real i - real a) * sx)\<^sup>2) \<in> ?L" using v by (auto simp: dists_xyz_def)
    then show "u \<in> ?L" using v(5) by (simp add: sq_dist_def add.commute add.left_commute)
  qed
qed

lemma dists_x_le: "i < eg_nx g \<Longrightarrow> u \<in> dists_x g sx occ i j k \<Longrightarrow> u \<le> (real (eg_nx g) * sx)\<^sup>2"
  by (auto simp: dists_x_iff intro: axis_sq_le)

lemma dists_xy_le:
  assumes "i < eg_nx g" "j < eg_ny g" "u \<in> dists_xy g sx occ i j k"
  shows "u \<le> (real (eg_nx g) * sx)\<^sup>2 + (real (eg_ny g) * sx)\<^sup>2"
proof -
  obtain p w where u: "u = ((real j - real p) * sx)\<^sup>2 + w" "p < eg_ny g" "w \<in> dists_x g sx occ i p k"
    using assms(3) by (auto simp: dists_xy_def)
  show ?thesis using axis_sq_le [OF assms(2) u(2), of sx] dists_x_le [OF assms(1) u(3)] u(1) by simp
qed

lemma grid_wf_small:
  assumes "grid_wf g sx sz" "i < eg_nx g"
  shows "u \<in> dists_x g sx occ i j k \<Longrightarrow> u < 10 ^ 20"
    and "j < eg_ny g \<Longrightarrow> u \<in> dists_xy g sx occ i j k \<Longrightarrow> u < 10 ^ 20"
proof -
  have b: "(real (eg_nx g) * sx)\<^sup>2 + (real (eg_ny g) * sx)\<^sup>2 + (real (eg_nz g) * sz)\<^sup>2 < 10 ^ 20"
    using assms(1) by (simp add: grid_wf_def)
  have "0 \<le> (real (eg_ny g) * sx)\<^sup>2" "0 \<le> (real (eg_nz g) * sz)\<^sup>2" by simp_all
  with b show "u \<in> dists_x g sx occ i j k \<Longrightarrow> u < 10 ^ 20" "j < eg_ny g \<Longrightarrow> u \<in> dists_xy g sx occ i j k \<Longrightarrow> u < 10 ^ 20"
    using dists_x_le [OF assms(2), of u sx occ j k] dists_xy_le [OF assms(2), of j u sx occ k] by linarith+
qed

text \<open>The three passes compute the squared distance to the nearest occupied voxel.\<close>

lemma edt_grid_least:
  assumes wf: "grid_wf g sx sz" and len: "length occ = eg_cells g" and v: "i < eg_nx g" "j < eg_ny g" "k < eg_nz g"
  shows "\<exists>d. edt_grid g occ ! eg_idx g i j k = Fin d \<and> least_or_inf d (sq_dist sx sz (i, j, k) ` occupied_voxels g occ)"
proof -
  have s: "eg_sx g = Fin sx" "eg_sz g = Fin sz" "sx \<noteq> 0" "sz \<noteq> 0" using wf by (auto simp: grid_wf_def)
  define g0 where "g0 = map (\<lambda>b. if b then 0 else kInfSq) occ"
  define g1 where "g1 = edt_pass (eg_nx g) (\<lambda>(j, k) i. eg_idx g i j k) (Fin sx) (List.product [0..<eg_ny g] [0..<eg_nz g]) g0"
  define g2 where "g2 = edt_pass (eg_ny g) (\<lambda>(i, k) j. eg_idx g i j k) (Fin sx) (List.product [0..<eg_nx g] [0..<eg_nz g]) g1"
  have lens: "length g0 = eg_cells g" "length g1 = eg_cells g" "length g2 = eg_cells g" using len by (simp_all add: g0_def g1_def g2_def)
  have 1: "\<exists>d. g1 ! eg_idx g i j k = Fin d \<and> least_or_inf d (dists_x g sx occ i j k)"
    if "i < eg_nx g" "j < eg_ny g" "k < eg_nz g" for i j k
  proof -
    have "\<exists>v. g0 ! eg_idx g t j k = Fin v \<and> least_or_inf v (if occ ! eg_idx g t j k then {0} else {})" if "t < eg_nx g" for t
      using eg_idx_less [of t g j k] that \<open>j < eg_ny g\<close> \<open>k < eg_nz g\<close> len by (auto simp: g0_def least_or_inf_def kInfSq_def)
    then have "\<exists>d. g1 ! ((\<lambda>(j, k) i. eg_idx g i j k) (j, k) i) = Fin d \<and> least_or_inf d (dists_x g sx occ i j k)"
      unfolding g1_def dists_x_def
      by (intro edt_pass_least) (use that s lens in \<open>auto simp: distinct_product eg_idx_less split: if_splits dest: eg_idx_inj\<close>)
    then show ?thesis by simp
  qed
  have 2: "\<exists>d. g2 ! eg_idx g i j k = Fin d \<and> least_or_inf d (dists_xy g sx occ i j k)"
    if "i < eg_nx g" "j < eg_ny g" "k < eg_nz g" for i j k
  proof -
    have "\<exists>d. g2 ! ((\<lambda>(i, k) j. eg_idx g i j k) (i, k) j) = Fin d \<and> least_or_inf d (dists_xy g sx occ i j k)"
      unfolding g2_def dists_xy_def
      by (intro edt_pass_least) (use that s lens 1 grid_wf_small(1) [OF wf] in \<open>auto simp: distinct_product eg_idx_less dest: eg_idx_inj\<close>)
    then show ?thesis by simp
  qed
  have "\<exists>d. edt_pass (eg_nz g) (\<lambda>(i, j) k. eg_idx g i j k) (Fin sz) (List.product [0..<eg_nx g] [0..<eg_ny g]) g2 !
      ((\<lambda>(i, j) k. eg_idx g i j k) (i, j) k) = Fin d \<and> least_or_inf d (dists_xyz g sx sz occ i j k)"
    unfolding dists_xyz_def
    by (intro edt_pass_least) (use v s lens 2 grid_wf_small(2) [OF wf] in \<open>auto simp: distinct_product eg_idx_less dest: eg_idx_inj\<close>)
  then show ?thesis by (simp add: edt_grid_def Let_def s g0_def g1_def g2_def dists_xyz_occupied)
qed

section \<open>The voxels of the window\<close>

definition grid_ok :: "EsdfGrid \<Rightarrow> real \<Rightarrow> real \<Rightarrow> bool" where
  "grid_ok g sx sz \<longleftrightarrow> grid_wf g sx sz \<and>
     in_int_range (eg_xi g) \<and> in_int_range (eg_xi g + int (eg_nx g)) \<and>
     in_int_range (eg_yi g) \<and> in_int_range (eg_yi g + int (eg_ny g)) \<and>
     in_int_range (eg_zi g) \<and> in_int_range (eg_zi g + int (eg_nz g)) \<and>
     in_int_range (int (eg_nx g)) \<and> in_int_range (int (eg_ny g)) \<and> in_int_range (int (eg_nz g))"

lemma shifted_floor: "0 < s \<Longrightarrow> \<lfloor>(x - of_int i * s) / s\<rfloor> = \<lfloor>x / s\<rfloor> - i" for s :: real
  by (simp add: diff_divide_distrib)

text \<open>The index of a coordinate on one axis: it is in the grid exactly when its voxel is.\<close>

lemma axis_index:
  assumes "0 < s" "in_int_range (int n)"
  shows "0 \<le> floor_to_int ((Fin x - Fin (of_int o1) * Fin s) / Fin s) \<and>
     floor_to_int ((Fin x - Fin (of_int o1) * Fin s) / Fin s) < int n \<and>
     nat (floor_to_int ((Fin x - Fin (of_int o1) * Fin s) / Fin s)) = i \<longleftrightarrow> i < n \<and> \<lfloor>x / s\<rfloor> = o1 + int i"
proof -
  have f: "floor_to_int ((Fin x - Fin (of_int o1) * Fin s) / Fin s) =
      (if in_int_range (\<lfloor>x / s\<rfloor> - o1) then \<lfloor>x / s\<rfloor> - o1 else int_min)"
    using assms(1) shifted_floor [of s x o1] by simp
  define F where "F = \<lfloor>x / s\<rfloor>"
  show ?thesis unfolding f F_def [symmetric] using assms(2) by (auto simp: in_int_range_def int_min_def int_max_def)
qed

lemma world_to_idx_iff:
  assumes "grid_ok g sx sz"
  shows "world_to_idx g (vec3 (Fin x) (Fin y) (Fin z)) = Some (i, j, k) \<longleftrightarrow>
    i < eg_nx g \<and> j < eg_ny g \<and> k < eg_nz g \<and>
    \<lfloor>x / sx\<rfloor> = eg_xi g + int i \<and> \<lfloor>y / sx\<rfloor> = eg_yi g + int j \<and> \<lfloor>z / sz\<rfloor> = eg_zi g + int k"
proof -
  have s: "eg_sx g = Fin sx" "0 < sx" "eg_sz g = Fin sz" "0 < sz"
    and r: "in_int_range (int (eg_nx g))" "in_int_range (int (eg_ny g))" "in_int_range (int (eg_nz g))"
    using assms by (auto simp: grid_ok_def grid_wf_def)
  show ?thesis
    using axis_index [OF s(2) r(1), of x "eg_xi g" i] axis_index [OF s(2) r(2), of y "eg_yi g" j] axis_index [OF s(4) r(3), of z "eg_zi g" k]
    by (auto simp: world_to_idx_def eg_origin_def s Let_def simp del: minus_double_simps times_double.simps divide_double.simps)
qed

lemma voxel_key_eq:
  assumes "grid_ok g sx sz" "i < eg_nx g" "j < eg_ny g" "k < eg_nz g"
  shows "voxel_key g (i, j, k) = cell_key (eg_xi g + int i) (eg_yi g + int j) (eg_zi g + int k)"
proof -
  have s: "eg_sx g = Fin sx" "0 < sx" "eg_sz g = Fin sz" "0 < sz" using assms(1) by (auto simp: grid_ok_def grid_wf_def)
  have axis: "floor_to_int ((Fin (of_int o1) * Fin s + (Fin (real t) + Fin (1/2)) * Fin s) / Fin s) = o1 + int t"
    if "0 < s" "t < n" "in_int_range o1" "in_int_range (o1 + int n)" for s o1 t n
  proof -
    have "(of_int o1 * s + (real t + 1/2) * s) / s = of_int (o1 + int t) + 1/2" using that(1) by (simp add: field_simps)
    moreover have "in_int_range (o1 + int t)" using that by (auto simp: in_int_range_def)
    ultimately show ?thesis using that(1) floor_half [of "o1 + int t"] by (simp del: of_int_add)
  qed
  show ?thesis
    using axis [of sx i "eg_nx g" "eg_xi g"] axis [of sx j "eg_ny g" "eg_yi g"] axis [of sz k "eg_nz g" "eg_zi g"] assms s
    by (auto simp: voxel_key_def eg_cell_centre_def eg_origin_def grid_key_def grid_ok_def
        simp del: plus_double.simps times_double.simps divide_double.simps)
qed

text \<open>The key of a point in the window is the key of its voxel.\<close>

lemma point_key:
  assumes "grid_ok g sx sz" "world_to_idx g (vec3 (Fin x) (Fin y) (Fin z)) = Some v"
  shows "grid_key (Fin sx) (Fin sz) (vec3 (Fin x) (Fin y) (Fin z)) = voxel_key g v" and "v \<in> set (grid_voxels g)"
proof -
  obtain i j k where v: "v = (i, j, k)" by (cases v)
  note w = assms(2) [unfolded v world_to_idx_iff [OF assms(1)]]
  have s: "0 < sx" "0 < sz" using assms(1) by (auto simp: grid_ok_def grid_wf_def)
  have r: "in_int_range (eg_xi g + int i)" "in_int_range (eg_yi g + int j)" "in_int_range (eg_zi g + int k)"
    using assms(1) w by (auto simp: grid_ok_def in_int_range_def)
  show "grid_key (Fin sx) (Fin sz) (vec3 (Fin x) (Fin y) (Fin z)) = voxel_key g v"
    using voxel_key_eq [OF assms(1), of i j k] w r s v by (simp add: grid_key_def)
  show "v \<in> set (grid_voxels g)" using w v by (auto simp: grid_voxels_def)
qed

section \<open>The occupancy grid\<close>

lemma mark_occupied_length: "length (fst (mark_occupied g c grids)) = length (fst grids)"
  by (auto simp: mark_occupied_def Let_def split: option.splits prod.splits)

lemma world_to_idx_bound: "world_to_idx g p = Some (i, j, k) \<Longrightarrow> i < eg_nx g \<and> j < eg_ny g \<and> k < eg_nz g"
  by (auto simp: world_to_idx_def Let_def split: if_splits)

lemma mark_occupied_nth:
  assumes "length (fst grids) = eg_cells g" "i < eg_nx g" "j < eg_ny g" "k < eg_nz g"
  shows "fst (mark_occupied g c grids) ! eg_idx g i j k \<longleftrightarrow> fst grids ! eg_idx g i j k \<or> world_to_idx g (fst c) = Some (i, j, k)"
proof (cases "world_to_idx g (fst c)")
  case (Some v)
  obtain a b d where v: "v = (a, b, d)" by (cases v)
  have ab: "a < eg_nx g" "b < eg_ny g" "d < eg_nz g" using world_to_idx_bound [OF Some [unfolded v]] by auto
  have "eg_idx g a b d < length (fst grids)" using eg_idx_less [OF ab] assms(1) by simp
  then show ?thesis using Some v eg_idx_inj [OF ab(2) assms(3) ab(3) assms(4), of a i]
    by (auto simp: mark_occupied_def Let_def nth_list_update)
qed (simp add: mark_occupied_def)

lemma fold_mark_occupied:
  assumes "length (fst grids) = eg_cells g" "i < eg_nx g" "j < eg_ny g" "k < eg_nz g"
  shows "fst (fold (mark_occupied g) cs grids) ! eg_idx g i j k \<longleftrightarrow>
    fst grids ! eg_idx g i j k \<or> (\<exists>c\<in>set cs. world_to_idx g (fst c) = Some (i, j, k))"
  using assms(1)
proof (induction cs arbitrary: grids)
  case (Cons c cs)
  then show ?case using mark_occupied_nth [OF Cons.prems assms(2-4), of c] by (auto simp: mark_occupied_length)
qed simp

text \<open>The voxels of the window that hold an occupied cell of the planning map.\<close>

definition l2_occupied :: "PlanningMap \<Rightarrow> Vec3 \<Rightarrow> bool" where
  "l2_occupied l2 p \<longleftrightarrow> (\<exists>sc\<in>set (pm_cells l2). pc_center_map (sc_cell sc) = p \<and>
     \<not> pc_occupied_score (sc_cell sc) < pmc_min_occupied_score (pm_config l2))"

definition obstacle_voxels :: "PlanningMap \<Rightarrow> EsdfGrid \<Rightarrow> (nat \<times> nat \<times> nat) set" where
  "obstacle_voxels l2 g = {v. \<exists>p. l2_occupied l2 p \<and> world_to_idx g p = Some v}"

lemma esdf_occupancy_length: "length (fst (esdf_occupancy l2 g)) = eg_cells g"
proof -
  have "length (fst (fold (mark_occupied g) cs grids)) = length (fst grids)" for cs grids
    by (induction cs arbitrary: grids) (simp_all add: mark_occupied_length)
  then show ?thesis by (simp add: esdf_occupancy_def)
qed

lemma floor_axis:
  fixes x s :: real
  assumes "0 < s" "\<lfloor>x / s\<rfloor> = i"
  shows "of_int i * s \<le> x" "x < (of_int i + 1) * s"
proof -
  have "of_int i \<le> x / s" "x / s < of_int i + 1" using assms(2) by linarith+
  then show "of_int i * s \<le> x" "x < (of_int i + 1) * s" using assms(1) by (simp_all add: field_simps)
qed

lemma world_to_idx_in_box:
  assumes ok: "grid_ok g sx sz" and p: "p = vec3 (Fin x) (Fin y) (Fin z)" and idx: "world_to_idx g p = Some v"
  shows "in_box (eg_box g) p"
proof -
  obtain i j k where v: "v = (i, j, k)" by (cases v)
  have s: "eg_sx g = Fin sx" "0 < sx" "eg_sz g = Fin sz" "0 < sz" using ok by (auto simp: grid_ok_def grid_wf_def)
  have axis: "of_int o1 * s \<le> x \<and> x \<le> of_int o1 * s + real n * s" if "0 < s" "\<lfloor>x / s\<rfloor> = o1 + int t" "t < n" for s x :: real and o1 t n
  proof -
    have "(of_int (o1 + int t) + 1) * s \<le> (of_int o1 + real n) * s" using that(1,3) by (intro mult_right_mono) auto
    then have "x \<le> of_int o1 * s + real n * s" using floor_axis(2) [OF that(1,2)] unfolding distrib_right by linarith
    moreover have "of_int o1 * s \<le> of_int (o1 + int t) * s" using that(1) by (intro mult_right_mono) auto
    ultimately show ?thesis using floor_axis(1) [OF that(1,2)] by linarith
  qed
  have w: "\<lfloor>x / sx\<rfloor> = eg_xi g + int i" "\<lfloor>y / sx\<rfloor> = eg_yi g + int j" "\<lfloor>z / sz\<rfloor> = eg_zi g + int k"
    "i < eg_nx g" "j < eg_ny g" "k < eg_nz g"
    using idx v p world_to_idx_iff [OF ok] by auto
  show ?thesis
    using axis [OF s(2) w(1,4)] axis [OF s(2) w(2,5)] axis [OF s(4) w(3,6)]
    by (simp add: in_box_def eg_box_def eg_origin_def s p Let_def)
qed

text \<open>What the theorems assume of the planning map and the window: finite positive cell sizes and keys within the range of \<open>int\<close>.\<close>

definition window_ok :: "PlanningMap \<Rightarrow> EsdfGrid \<Rightarrow> real \<Rightarrow> real \<Rightarrow> bool" where
  "window_ok l2 g sx sz \<longleftrightarrow> pm_core l2 \<and> grid_ok g sx sz \<and> box_in_range (pm_config l2) (eg_box g)"

lemma l2_centre_finite:
  assumes "window_ok l2 g sx sz" "sc \<in> set (pm_cells l2)"
  shows "\<exists>x y z. pc_center_map (sc_cell sc) = vec3 (Fin x) (Fin y) (Fin z)"
proof -
  have core: "pm_core l2" and box: "box_in_range (pm_config l2) (eg_box g)" using assms(1) by (auto simp: window_ok_def)
  obtain s v where "pmc_cell_size_m (pm_config l2) = Fin s" "pmc_vertical_cell_size_m (pm_config l2) = Fin v"
    using box by (auto simp: box_in_range_def)
  moreover have idx: "pm_idx_ok l2" using core by (simp add: pm_core_def)
  have "pm_lookup l2 (sc_key sc) = Some sc"
    unfolding pm_lookup_def by (rule store_get_of_set [OF idx assms(2)])
  then have "pc_center_map (sc_cell sc) = pm_center_for_key (pm_config l2) (sc_key sc)" using core by (simp add: pm_core_def)
  ultimately show ?thesis by (simp add: pm_center_for_key_def grid_center_def)
qed

lemma occupied_are_obstacles:
  assumes "window_ok l2 g sx sz"
  shows "occupied_voxels g (fst (esdf_occupancy l2 g)) = obstacle_voxels l2 g"
proof -
  have core: "pm_core l2" and ok: "grid_ok g sx sz" and box: "box_in_range (pm_config l2) (eg_box g)" using assms by (auto simp: window_ok_def)
  have occ: "fst (esdf_occupancy l2 g) ! eg_idx g i j k \<longleftrightarrow> (i, j, k) \<in> obstacle_voxels l2 g"
    if "i < eg_nx g" "j < eg_ny g" "k < eg_nz g" for i j k
  proof -
    have "fst (esdf_occupancy l2 g) ! eg_idx g i j k \<longleftrightarrow>
        (\<exists>sc\<in>set (occupied_cells_in_box l2 (eg_box g)). world_to_idx g (pc_center_map (sc_cell sc)) = Some (i, j, k))"
      using fold_mark_occupied [of "(replicate (eg_cells g) False, replicate (eg_cells g) 0)" g i j k] that eg_idx_less [OF that]
      by (simp add: esdf_occupancy_def query_occupied_ts_in_box_def)
    also have "\<dots> \<longleftrightarrow> (i, j, k) \<in> obstacle_voxels l2 g"
      unfolding box_query_scan(1) [OF core box] obstacle_voxels_def l2_occupied_def
      using world_to_idx_in_box [OF ok] l2_centre_finite [OF assms] by (simp, blast)
    finally show ?thesis .
  qed
  moreover have "v \<in> obstacle_voxels l2 g \<Longrightarrow> \<exists>i j k. v = (i, j, k) \<and> i < eg_nx g \<and> j < eg_ny g \<and> k < eg_nz g" for v
    by (cases v) (auto simp: obstacle_voxels_def dest: world_to_idx_bound)
  ultimately show ?thesis by (fastforce simp: occupied_voxels_def)
qed

section \<open>The stored cells\<close>

lemma fold_store_lookup:
  assumes "inj_on key (set xs)" "distinct xs"
  shows "map_of (fold (\<lambda>x al. case c x of None \<Rightarrow> al | Some v \<Rightarrow> AList.update (key x) v al) xs al) k =
    (case find (\<lambda>x. key x = k) xs of None \<Rightarrow> map_of al k | Some x \<Rightarrow> (case c x of None \<Rightarrow> map_of al k | Some v \<Rightarrow> Some v))"
  using assms
proof (induction xs arbitrary: al)
  case (Cons a xs)
  have "key a \<notin> key ` set xs" using Cons.prems by auto
  then have "find (\<lambda>x. key x = key a) xs = None" unfolding find_None_iff by (metis imageI)
  then show ?case using Cons by (auto simp: update_conv' split: option.splits)
qed simp

lemma fold_store_distinct:
  "distinct (map fst al) \<Longrightarrow>
   distinct (map fst (fold (\<lambda>x al. case c x of None \<Rightarrow> al | Some v \<Rightarrow> AList.update (key x) v al) xs al))"
  by (induction xs arbitrary: al) (auto simp: distinct_update split: option.splits)

lemma grid_voxels_iff: "(i, j, k) \<in> set (grid_voxels g) \<longleftrightarrow> i < eg_nx g \<and> j < eg_ny g \<and> k < eg_nz g"
  by (auto simp: grid_voxels_def)

lemma voxel_key_inj: "grid_ok g sx sz \<Longrightarrow> inj_on (voxel_key g) (set (grid_voxels g))"
  by (rule inj_onI) (auto simp: grid_voxels_iff voxel_key_eq)

lemma find_key: "inj_on key (set xs) \<Longrightarrow> x \<in> set xs \<Longrightarrow> find (\<lambda>y. key y = key x) xs = Some x"
  by (induction xs) (auto simp: inj_on_def)

text \<open>The map from keys to the cells the field stores, read off the grid.\<close>

lemma compute_esdf_lookup:
  assumes "grid_ok g sx sz" and g: "g = esdf_grid (pm_config l2) centre h v spacing"
  shows "x \<in> set (grid_voxels g) \<Longrightarrow> map_of (em_cells (compute_esdf l2 centre h v d0 spacing)) (voxel_key g x) =
      shell_cell g d0 (fst (esdf_occupancy l2 g)) (snd (esdf_occupancy l2 g)) (edt_grid g (fst (esdf_occupancy l2 g))) x"
    and "k \<notin> voxel_key g ` set (grid_voxels g) \<Longrightarrow> map_of (em_cells (compute_esdf l2 centre h v d0 spacing)) k = None"
proof -
  have d: "distinct (grid_voxels g)" by (simp add: grid_voxels_def distinct_product)
  note look = fold_store_lookup [OF voxel_key_inj [OF assms(1)] d, where al = "[]"]
  have cells: "em_cells (compute_esdf l2 centre h v d0 spacing) =
      fold (\<lambda>x al. case shell_cell g d0 (fst (esdf_occupancy l2 g)) (snd (esdf_occupancy l2 g)) (edt_grid g (fst (esdf_occupancy l2 g))) x of
          None \<Rightarrow> al | Some c \<Rightarrow> AList.update (voxel_key g x) c al) (grid_voxels g) []"
    unfolding g by (simp add: compute_esdf_def Let_def store_shell_def [abs_def] split_beta)
  show "x \<in> set (grid_voxels g) \<Longrightarrow> map_of (em_cells (compute_esdf l2 centre h v d0 spacing)) (voxel_key g x) =
      shell_cell g d0 (fst (esdf_occupancy l2 g)) (snd (esdf_occupancy l2 g)) (edt_grid g (fst (esdf_occupancy l2 g))) x"
    using find_key [OF voxel_key_inj [OF assms(1)], of x] by (simp add: cells look split: option.splits)
  show "map_of (em_cells (compute_esdf l2 centre h v d0 spacing)) k = None" if "k \<notin> voxel_key g ` set (grid_voxels g)"
  proof -
    have "find (\<lambda>x. voxel_key g x = k) (grid_voxels g) = None" using that unfolding find_None_iff by blast
    then show ?thesis by (simp add: cells look)
  qed
qed

text \<open>The distance the field should show at a voxel.\<close>

definition field_distance :: "real \<Rightarrow> real \<Rightarrow> real \<Rightarrow> (nat \<times> nat \<times> nat) set \<Rightarrow> nat \<times> nat \<times> nat \<Rightarrow> real" where
  "field_distance sx sz d0 obstacles v =
     (if v \<in> obstacles then - 1/2
      else if obstacles = {} then d0 else min d0 (sqrt (Min (sq_dist sx sz v ` obstacles))))"

lemma obstacle_voxels_finite: "finite (obstacle_voxels l2 g)"
proof (rule finite_subset)
  show "obstacle_voxels l2 g \<subseteq> set (grid_voxels g)"
    by (auto simp: obstacle_voxels_def grid_voxels_iff dest: world_to_idx_bound)
qed simp

lemma shell_cell_distance:
  assumes win: "window_ok l2 g sx sz" and x: "x \<in> set (grid_voxels g)" and d0: "0 < d0" "d0 \<le> 10 ^ 10"
  shows "(case shell_cell g (Fin d0) (fst (esdf_occupancy l2 g)) ts (edt_grid g (fst (esdf_occupancy l2 g))) x of
      None \<Rightarrow> Fin d0 | Some c \<Rightarrow> el_d c) = Fin (field_distance sx sz d0 (obstacle_voxels l2 g) x)"
proof -
  let ?occ = "fst (esdf_occupancy l2 g)" and ?O = "obstacle_voxels l2 g"
  obtain i j k where xe: "x = (i, j, k)" by (cases x)
  have b: "i < eg_nx g" "j < eg_ny g" "k < eg_nz g" using x by (simp_all add: xe grid_voxels_iff)
  have wf: "grid_wf g sx sz" using win by (simp add: window_ok_def grid_ok_def)
  have O: "occupied_voxels g ?occ = ?O" using occupied_are_obstacles [OF win] .
  have occ: "?occ ! eg_idx g i j k \<longleftrightarrow> x \<in> ?O" using b by (simp add: O [symmetric] occupied_voxels_def xe)
  obtain d where d: "edt_grid g ?occ ! eg_idx g i j k = Fin d" "least_or_inf d (sq_dist sx sz x ` ?O)"
    using edt_grid_least [OF wf esdf_occupancy_length b, of l2] O xe by auto
  show ?thesis
  proof (cases "x \<in> ?O")
    case True
    then show ?thesis using occ by (simp add: shell_cell_def xe Let_def field_distance_def)
  next
    case False
    have root: "0 \<le> d \<and> (?O = {} \<longrightarrow> d0 \<le> sqrt d) \<and> (?O \<noteq> {} \<longrightarrow> d = Min (sq_dist sx sz x ` ?O))"
    proof (cases "?O = {}")
      case True
      have "sqrt ((10 ^ 10)\<^sup>2) = (10 ^ 10 :: real)" by (rule real_sqrt_abs [THEN trans]) simp
      then have "sqrt (10 ^ 20) = (10 ^ 10 :: real)" by (simp flip: power_mult)
      then show ?thesis using True d(2) d0 by (simp add: least_or_inf_def)
    next
      case False
      then have mem: "d \<in> sq_dist sx sz x ` ?O" and "\<forall>u\<in>sq_dist sx sz x ` ?O. d \<le> u" using d(2) by (auto simp: least_or_inf_def)
      then have "d = Min (sq_dist sx sz x ` ?O)" using obstacle_voxels_finite by (intro Min_eqI [symmetric]) auto
      moreover have "0 \<le> d" using mem by (auto simp: sq_dist_def split: prod.splits)
      ultimately show ?thesis using False by simp
    qed
    then show ?thesis using False occ d(1)
      by (auto simp: shell_cell_def xe Let_def field_distance_def not_less)
  qed
qed

lemma compute_esdf_config:
  "em_config (compute_esdf l2 centre h v d0 spacing) =
    (let g = esdf_grid (pm_config l2) centre h v spacing
     in \<lparr>ec_cell_size_m = eg_sx g, ec_vertical_cell_size_m = eg_sz g, ec_d0_m = d0, ec_sample_spacing_m = eg_sx g\<rparr>)"
  by (simp add: compute_esdf_def Let_def split_beta)

lemma query_distance:
  assumes g: "g = esdf_grid (pm_config l2) centre h v spacing" and win: "window_ok l2 g sx sz" and d0: "0 < d0" "d0 \<le> 10 ^ 10"
    and x: "world_to_idx g (vec3 (Fin px) (Fin py) (Fin pz)) = Some x"
  shows "eq_d (esdf_query (compute_esdf l2 centre h v (Fin d0) spacing) (vec3 (Fin px) (Fin py) (Fin pz))) =
    Fin (field_distance sx sz d0 (obstacle_voxels l2 g) x)"
proof -
  let ?m = "compute_esdf l2 centre h v (Fin d0) spacing" and ?p = "vec3 (Fin px) (Fin py) (Fin pz)"
  have ok: "grid_ok g sx sz" using win by (simp add: window_ok_def)
  then have s: "eg_sx g = Fin sx" "eg_sz g = Fin sz" by (auto simp: grid_ok_def grid_wf_def)
  have "em_key_for_point (em_config ?m) ?p = voxel_key g x"
    using point_key(1) [OF ok x] s by (simp add: em_key_for_point_def compute_esdf_config Let_def g [symmetric])
  then have "eq_d (esdf_query ?m ?p) = (case map_of (em_cells ?m) (voxel_key g x) of None \<Rightarrow> Fin d0 | Some c \<Rightarrow> el_d c)"
    by (auto simp: esdf_query_def compute_esdf_config Let_def split: option.splits)
  also have "\<dots> = Fin (field_distance sx sz d0 (obstacle_voxels l2 g) x)"
    using compute_esdf_lookup(1) [OF ok g point_key(2) [OF ok x]] shell_cell_distance [OF win point_key(2) [OF ok x] d0] by simp
  finally show ?thesis .
qed

section \<open>What a clear answer guarantees\<close>

lemma norm3_triangle:
  fixes a b c d e f :: real
  shows "sqrt ((a + d)\<^sup>2 + (b + e)\<^sup>2 + (c + f)\<^sup>2) \<le> sqrt (a\<^sup>2 + b\<^sup>2 + c\<^sup>2) + sqrt (d\<^sup>2 + e\<^sup>2 + f\<^sup>2)"
proof -
  let ?u = "sqrt (a\<^sup>2 + b\<^sup>2)" and ?w = "sqrt (d\<^sup>2 + e\<^sup>2)"
  have "(a + d)\<^sup>2 + (b + e)\<^sup>2 \<le> (?u + ?w)\<^sup>2"
    using real_sqrt_sum_squares_triangle_ineq [of a d b e] by (simp add: sqrt_le_D)
  then have "sqrt ((a + d)\<^sup>2 + (b + e)\<^sup>2 + (c + f)\<^sup>2) \<le> sqrt ((?u + ?w)\<^sup>2 + (c + f)\<^sup>2)" by simp
  also have "\<dots> \<le> sqrt (?u\<^sup>2 + c\<^sup>2) + sqrt (?w\<^sup>2 + f\<^sup>2)" by (rule real_sqrt_sum_squares_triangle_ineq)
  finally show ?thesis by simp
qed

text \<open>Two points are at most a voxel's diagonal closer than their voxels' centres.\<close>

lemma voxel_distance_le:
  assumes "grid_ok g sx sz" "world_to_idx g (vec3 (Fin px) (Fin py) (Fin pz)) = Some x" "world_to_idx g (vec3 (Fin qx) (Fin qy) (Fin qz)) = Some y"
  shows "sqrt (sq_dist sx sz x y) \<le> sqrt ((px - qx)\<^sup>2 + (py - qy)\<^sup>2 + (pz - qz)\<^sup>2) + sqrt (sx\<^sup>2 + sx\<^sup>2 + sz\<^sup>2)"
proof -
  obtain i j k a b c where xy: "x = (i, j, k)" "y = (a, b, c)" by (cases x, cases y)
  have s: "0 < sx" "0 < sz" using assms(1) by (auto simp: grid_ok_def grid_wf_def)
  have axis: "((real t - real u) * s - (p - q))\<^sup>2 \<le> s\<^sup>2" if "0 < s" "\<lfloor>p / s\<rfloor> = o1 + int t" "\<lfloor>q / s\<rfloor> = o1 + int u" for s p q :: real and o1 t u
  proof -
    have "\<bar>(real t - real u) * s - (p - q)\<bar> \<le> s"
      using floor_axis [OF that(1,2)] floor_axis [OF that(1,3)] by (simp add: algebra_simps abs_le_iff)
    then show ?thesis using abs_le_square_iff [of "(real t - real u) * s - (p - q)" s] that(1) by simp
  qed
  note w = assms(2,3) [unfolded xy world_to_idx_iff [OF assms(1)]]
  let ?d = "(real i - real a) * sx" and ?e = "(real j - real b) * sx" and ?f = "(real k - real c) * sz"
  have "sqrt (sq_dist sx sz x y) =
      sqrt (((px - qx) + (?d - (px - qx)))\<^sup>2 + ((py - qy) + (?e - (py - qy)))\<^sup>2 + ((pz - qz) + (?f - (pz - qz)))\<^sup>2)"
    by (simp add: xy sq_dist_def)
  also have "\<dots> \<le> sqrt ((px - qx)\<^sup>2 + (py - qy)\<^sup>2 + (pz - qz)\<^sup>2) + sqrt ((?d - (px - qx))\<^sup>2 + (?e - (py - qy))\<^sup>2 + (?f - (pz - qz))\<^sup>2)"
    by (rule norm3_triangle)
  also have "(?d - (px - qx))\<^sup>2 + (?e - (py - qy))\<^sup>2 + (?f - (pz - qz))\<^sup>2 \<le> sx\<^sup>2 + sx\<^sup>2 + sz\<^sup>2"
    using axis [OF s(1), of px "eg_xi g" i qx a] axis [OF s(1), of py "eg_yi g" j qy b] axis [OF s(2), of pz "eg_zi g" k qz c] w by linarith
  finally show ?thesis by simp
qed

section \<open>Incremental updates\<close>

text \<open>The shape of a field: its cell sizes, one cell for a key, and every cell at the centre of its key's voxel.\<close>

definition field_ok :: "LocalESDFMap \<Rightarrow> real \<Rightarrow> real \<Rightarrow> bool" where
  "field_ok m sx sz \<longleftrightarrow> ec_cell_size_m (em_config m) = Fin sx \<and> ec_vertical_cell_size_m (em_config m) = Fin sz \<and>
     ec_sample_spacing_m (em_config m) = Fin sx \<and> distinct (map fst (em_cells m)) \<and>
     (\<forall>(key, cell)\<in>set (em_cells m). el_centre cell = grid_center (Fin sx) (Fin sz) key)"

lemma field_ok_cell: "field_ok m sx sz \<Longrightarrow> map_of (em_cells m) key = Some cell \<Longrightarrow> el_centre cell = grid_center (Fin sx) (Fin sz) key"
  unfolding field_ok_def by (blast dest: map_of_SomeD)

lemma shell_cell_centre: "shell_cell g d0 occ ts g3 (i, j, k) = Some c \<Longrightarrow> el_centre c = eg_cell_centre g i j k"
  by (auto simp: shell_cell_def Let_def split: if_splits)

lemma cell_centre_key:
  assumes "grid_ok g sx sz" "i < eg_nx g" "j < eg_ny g" "k < eg_nz g"
  shows "eg_cell_centre g i j k = grid_center (Fin sx) (Fin sz) (voxel_key g (i, j, k))"
proof -
  have "eg_sx g = Fin sx" "eg_sz g = Fin sz" using assms(1) by (auto simp: grid_ok_def grid_wf_def)
  then show ?thesis by (simp add: voxel_key_eq [OF assms] eg_cell_centre_def eg_origin_def grid_center_def Let_def distrib_right)
qed

lemma compute_esdf_distinct: "distinct (map fst (em_cells (compute_esdf l2 centre h v d0 spacing)))"
  using fold_store_distinct [of "[]"] by (simp add: compute_esdf_def Let_def store_shell_def [abs_def] split_beta)

lemma compute_esdf_ok:
  assumes ok: "grid_ok g sx sz" and g: "g = esdf_grid (pm_config l2) centre h v spacing"
  shows "field_ok (compute_esdf l2 centre h v d0 spacing) sx sz"
proof -
  let ?m = "compute_esdf l2 centre h v d0 spacing"
  have s: "eg_sx g = Fin sx" "eg_sz g = Fin sz" using ok by (auto simp: grid_ok_def grid_wf_def)
  have "el_centre cell = grid_center (Fin sx) (Fin sz) key" if "(key, cell) \<in> set (em_cells ?m)" for key cell
  proof -
    have look: "map_of (em_cells ?m) key = Some cell" using that compute_esdf_distinct by simp
    then obtain i j k where x: "(i, j, k) \<in> set (grid_voxels g)" "key = voxel_key g (i, j, k)"
      using compute_esdf_lookup(2) [OF ok g, of key d0] by fastforce
    then show ?thesis
      using look compute_esdf_lookup(1) [OF ok g x(1), of d0] shell_cell_centre cell_centre_key [OF ok, of i j k] by (auto simp: grid_voxels_iff)
  qed
  then show ?thesis using s compute_esdf_distinct by (auto simp: field_ok_def compute_esdf_config Let_def g [symmetric])
qed

lemma map_of_filter_distinct:
  "distinct (map fst al) \<Longrightarrow> map_of (filter (\<lambda>(k, c). P c) al) k = (case map_of al k of None \<Rightarrow> None | Some c \<Rightarrow> if P c then Some c else None)"
  by (induction al) (auto simp: map_of_eq_None_iff image_iff split: option.splits)

lemma fold_update_lookup:
  "distinct (map fst xs) \<Longrightarrow> map_of (fold (\<lambda>(k, c). AList.update k c) xs al) k = (case map_of xs k of None \<Rightarrow> map_of al k | Some c \<Rightarrow> Some c)"
proof (induction xs arbitrary: al)
  case (Cons x xs)
  then show ?case by (cases x) (auto simp: update_conv' map_of_eq_None_iff image_iff split: option.splits)
qed simp

lemma replace_window_lookup:
  assumes "field_ok m sx sz"
  shows "map_of (em_cells (replace_window l2 centre h v d0 m)) k =
    (case map_of (em_cells (compute_esdf l2 centre h v d0 (Fin sx))) k of
       Some c \<Rightarrow> Some c
     | None \<Rightarrow> (case map_of (em_cells m) k of None \<Rightarrow> None
                | Some c \<Rightarrow> if in_refresh_bounds centre h v (Fin sx) (Fin sz) (el_centre c) then None else Some c))"
  using assms compute_esdf_distinct
  by (auto simp: replace_window_def Let_def field_ok_def fold_update_lookup map_of_filter_distinct
      map_of_filter_distinct [where P = "\<lambda>c. \<not> Q c" for Q] split: option.splits)

lemma replace_window_config [simp]: "em_config (replace_window l2 centre h v d0 m) = em_config m"
  by (simp add: replace_window_def Let_def)

text \<open>Every voxel of the recomputed grid lies in the bounds in which old cells are erased.\<close>

lemma grid_dim_bound:
  assumes "0 < h" "0 < s"
  shows "real (grid_dim (Fin h) (Fin s)) * s < 2 * h + s"
proof -
  have "real (grid_dim (Fin h) (Fin s)) < 2 * h / s + 1"
  proof -
    have pos: "0 < 2 * h / s" using assms by simp
    have "real_of_int (max 1 (ceil_to_int (Fin (2 * h / s)))) < 2 * h / s + 1"
      using pos by (simp add: int_min_def) linarith
    then show ?thesis using assms by (simp add: grid_dim_def)
  qed
  then show ?thesis using assms(2) by (simp add: field_simps)
qed

definition centred :: "real \<Rightarrow> nat \<Rightarrow> real \<Rightarrow> bool" where
  "centred c n s \<longleftrightarrow> in_int_range \<lfloor>(c - real n * s / 2) / s\<rfloor>"

lemma axis_in_window:
  assumes "0 < s" "0 < h" "n = grid_dim (Fin h) (Fin s)" "centred c n s" "t < n"
  shows "c - h - s \<le> (of_int (grid_first (Fin c) n (Fin s)) + real t + 1/2) * s \<and>
    (of_int (grid_first (Fin c) n (Fin s)) + real t + 1/2) * s \<le> c + h + s"
proof -
  let ?i = "grid_first (Fin c) n (Fin s)"
  have i: "?i = \<lfloor>(c - real n * s / 2) / s\<rfloor>" using assms(1,4) by (simp add: grid_first_def centred_def)
  note fl = floor_axis [OF assms(1) i [symmetric]]
  have n: "real n * s < 2 * h + s" using grid_dim_bound [OF assms(2,1)] assms(3) by simp
  have "0 \<le> real t * s" "real t * s \<le> (real n - 1) * s" using assms(1,5) by (auto intro!: mult_right_mono)
  then show ?thesis using fl n unfolding distrib_right left_diff_distrib by linarith
qed

lemma grid_in_window:
  assumes g: "g = esdf_grid cfg (vec3 (Fin cx) (Fin cy) (Fin cz)) (Fin h) (Fin v) spacing" and ok: "grid_ok g sx sz"
    and pos: "0 < h" "0 < v" and c: "centred cx (eg_nx g) sx" "centred cy (eg_ny g) sx" "centred cz (eg_nz g) sz"
    and x: "i < eg_nx g" "j < eg_ny g" "k < eg_nz g"
  shows "in_refresh_bounds (vec3 (Fin cx) (Fin cy) (Fin cz)) (Fin h) (Fin v) (Fin sx) (Fin sz) (grid_center (Fin sx) (Fin sz) (voxel_key g (i, j, k)))"
proof -
  have s: "eg_sx g = Fin sx" "0 < sx" "eg_sz g = Fin sz" "0 < sz" using ok by (auto simp: grid_ok_def grid_wf_def)
  have dims: "eg_nx g = grid_dim (Fin h) (Fin sx)" "eg_ny g = grid_dim (Fin h) (Fin sx)" "eg_nz g = grid_dim (Fin v) (Fin sz)"
    "eg_xi g = grid_first (Fin cx) (eg_nx g) (Fin sx)" "eg_yi g = grid_first (Fin cy) (eg_ny g) (Fin sx)"
    "eg_zi g = grid_first (Fin cz) (eg_nz g) (Fin sz)"
    using s g by (simp_all add: esdf_grid_def Let_def)
  show ?thesis
    using axis_in_window [OF s(2) pos(1) dims(1) c(1) x(1)] axis_in_window [OF s(2) pos(1) dims(2) c(2) x(2)]
      axis_in_window [OF s(4) pos(2) dims(3) c(3) x(3)]
    by (simp add: voxel_key_eq [OF ok x] in_refresh_bounds_def grid_center_def dims(4-6) [symmetric] add.commute add.left_commute)
qed

text \<open>
  After a window was replaced, a point in the recomputed grid sees exactly the field of that
  window, and a point whose voxel lies outside the erased bounds sees what it saw before.
\<close>

lemma replace_window_query:
  assumes fld: "field_ok m sx sz" "ec_d0_m (em_config m) = d0" and ctr: "centre = vec3 (Fin cx) (Fin cy) (Fin cz)"
    and g: "g = esdf_grid (pm_config l2) centre (Fin h) (Fin v) (Fin sx)" and ok: "grid_ok g sx sz" and pos: "0 < h" "0 < v"
    and c: "centred cx (eg_nx g) sx" "centred cy (eg_ny g) sx" "centred cz (eg_nz g) sz"
  shows "world_to_idx g (vec3 (Fin px) (Fin py) (Fin pz)) = Some x \<Longrightarrow>
      esdf_query (replace_window l2 centre (Fin h) (Fin v) d0 m) (vec3 (Fin px) (Fin py) (Fin pz)) =
      esdf_query (compute_esdf l2 centre (Fin h) (Fin v) d0 (Fin sx)) (vec3 (Fin px) (Fin py) (Fin pz))"
    and "\<not> in_refresh_bounds centre (Fin h) (Fin v) (Fin sx) (Fin sz) (grid_center (Fin sx) (Fin sz) (grid_key (Fin sx) (Fin sz) p)) \<Longrightarrow>
      esdf_query (replace_window l2 centre (Fin h) (Fin v) d0 m) p = esdf_query m p"
proof -
  let ?sub = "compute_esdf l2 centre (Fin h) (Fin v) d0 (Fin sx)"
  have s: "eg_sx g = Fin sx" "eg_sz g = Fin sz" using ok by (auto simp: grid_ok_def grid_wf_def)
  have key: "em_key_for_point (em_config m) p = grid_key (Fin sx) (Fin sz) p" "em_key_for_point (em_config ?sub) p = grid_key (Fin sx) (Fin sz) p" for p
    using fld(1) s by (simp_all add: em_key_for_point_def field_ok_def compute_esdf_config Let_def g [symmetric])
  note look = replace_window_lookup [OF fld(1), of l2 centre "Fin h" "Fin v" d0]
  {
    assume x: "world_to_idx g (vec3 (Fin px) (Fin py) (Fin pz)) = Some x"
    obtain i j k where xe: "x = (i, j, k)" by (cases x)
    have k: "grid_key (Fin sx) (Fin sz) (vec3 (Fin px) (Fin py) (Fin pz)) = voxel_key g (i, j, k)" "(i, j, k) \<in> set (grid_voxels g)"
      using point_key [OF ok x] xe by auto
    have "in_refresh_bounds centre (Fin h) (Fin v) (Fin sx) (Fin sz) (grid_center (Fin sx) (Fin sz) (voxel_key g (i, j, k)))"
      unfolding ctr by (rule grid_in_window [OF g [unfolded ctr] ok pos c]) (use k(2) in \<open>auto simp: grid_voxels_iff\<close>)
    then have "map_of (em_cells (replace_window l2 centre (Fin h) (Fin v) d0 m)) (voxel_key g (i, j, k)) = map_of (em_cells ?sub) (voxel_key g (i, j, k))"
      using field_ok_cell [OF fld(1)] by (auto simp: look split: option.splits)
    then show "esdf_query (replace_window l2 centre (Fin h) (Fin v) d0 m) (vec3 (Fin px) (Fin py) (Fin pz)) =
      esdf_query ?sub (vec3 (Fin px) (Fin py) (Fin pz))"
      using key k(1) fld(2) by (auto simp: esdf_query_def compute_esdf_config Let_def split: option.splits)
  }
  assume out: "\<not> in_refresh_bounds centre (Fin h) (Fin v) (Fin sx) (Fin sz) (grid_center (Fin sx) (Fin sz) (grid_key (Fin sx) (Fin sz) p))"
  have "grid_key (Fin sx) (Fin sz) p \<notin> voxel_key g ` set (grid_voxels g)"
    using out grid_in_window [OF g [unfolded ctr] ok pos c] ctr by (auto simp: grid_voxels_iff)
  then have "map_of (em_cells ?sub) (grid_key (Fin sx) (Fin sz) p) = None" using compute_esdf_lookup(2) [OF ok g] by simp
  then have "map_of (em_cells (replace_window l2 centre (Fin h) (Fin v) d0 m)) (grid_key (Fin sx) (Fin sz) p) = map_of (em_cells m) (grid_key (Fin sx) (Fin sz) p)"
    using field_ok_cell [OF fld(1)] out by (auto simp: look split: option.splits)
  then show "esdf_query (replace_window l2 centre (Fin h) (Fin v) d0 m) p = esdf_query m p"
    using key by (auto simp: esdf_query_def split: option.splits)
qed

end
