(* ===== verification/Esdf_Safety.thy ===== *)
theory Esdf_Safety
  imports Esdf_Properties Planning_Properties
begin

text \<open>
  The properties of the distance field, on a planning map that keeps its invariant, and an example.
\<close>

section \<open>Two windows over the same obstacles\<close>

text \<open>The value of the field is the largest that is below every distance and below the truncation.\<close>

lemma field_distance_char:
  assumes "finite obs" "v \<notin> obs"
  shows "field_distance sx sz d0 obs v = d \<longleftrightarrow>
    d \<le> d0 \<and> (\<forall>y\<in>obs. d \<le> sqrt (sq_dist sx sz v y)) \<and> (d = d0 \<or> (\<exists>y\<in>obs. d = sqrt (sq_dist sx sz v y)))"
proof (cases "obs = {}")
  case True
  then show ?thesis using assms by (auto simp: field_distance_def)
next
  case False
  let ?S = "sq_dist sx sz v ` obs"
  have S: "finite ?S" "?S \<noteq> {}" using assms(1) False by auto
  obtain y where y: "y \<in> obs" "Min ?S = sq_dist sx sz v y" using Min_in [OF S] by blast
  have le: "\<And>y'. y' \<in> obs \<Longrightarrow> sqrt (Min ?S) \<le> sqrt (sq_dist sx sz v y')" using S(1) by (simp add: Min_le)
  have fd: "field_distance sx sz d0 obs v = min d0 (sqrt (Min ?S))" using False assms(2) by (simp add: field_distance_def)
  show ?thesis unfolding fd
  proof
    assume "min d0 (sqrt (Min ?S)) = d"
    then show "d \<le> d0 \<and> (\<forall>y\<in>obs. d \<le> sqrt (sq_dist sx sz v y)) \<and> (d = d0 \<or> (\<exists>y\<in>obs. d = sqrt (sq_dist sx sz v y)))"
      using y le by (metis min.cobounded1 min.coboundedI2 min_def)
  next
    assume d: "d \<le> d0 \<and> (\<forall>y\<in>obs. d \<le> sqrt (sq_dist sx sz v y)) \<and> (d = d0 \<or> (\<exists>y\<in>obs. d = sqrt (sq_dist sx sz v y)))"
    then have "d \<le> sqrt (Min ?S)" using y by simp
    moreover have "d = d0 \<or> sqrt (Min ?S) \<le> d" using d le by blast
    ultimately show "min d0 (sqrt (Min ?S)) = d" using d by (auto simp: min_def)
  qed
qed

lemma sq_dist_shift:
  assumes "grid_ok g sx sz" "grid_ok G sx sz"
    and "world_to_idx g (vec3 (Fin px) (Fin py) (Fin pz)) = Some x" "world_to_idx G (vec3 (Fin px) (Fin py) (Fin pz)) = Some x'"
    and "world_to_idx g (vec3 (Fin qx) (Fin qy) (Fin qz)) = Some y" "world_to_idx G (vec3 (Fin qx) (Fin qy) (Fin qz)) = Some y'"
  shows "sq_dist sx sz x y = sq_dist sx sz x' y'" and "x = y \<longleftrightarrow> x' = y'"
proof -
  obtain i j k i' j' k' a b c a' b' c' where e: "x = (i, j, k)" "x' = (i', j', k')" "y = (a, b, c)" "y' = (a', b', c')"
    by (cases x, cases x', cases y, cases y')
  note w = assms(3,5) [unfolded e world_to_idx_iff [OF assms(1)]] assms(4,6) [unfolded e world_to_idx_iff [OF assms(2)]]
  have d: "int i - int a = int i' - int a'" "int j - int b = int j' - int b'" "int k - int c = int k' - int c'" using w by linarith+
  then have "real i - real a = real i' - real a'" "real j - real b = real j' - real b'" "real k - real c = real k' - real c'"
    by (metis of_int_diff of_int_of_nat_eq)+
  then show "sq_dist sx sz x y = sq_dist sx sz x' y'" by (simp add: sq_dist_def e)
  show "x = y \<longleftrightarrow> x' = y'" using d by (auto simp: e)
qed

text \<open>
  When the smaller window holds every obstacle that is nearer than the truncation, both windows give the same value.
\<close>

lemma same_obstacles_same_distance:
  assumes w: "window_ok l2 g sx sz" "window_ok l2 G sx sz" and d0: "0 < d0"
    and x: "world_to_idx g (vec3 (Fin px) (Fin py) (Fin pz)) = Some x" "world_to_idx G (vec3 (Fin px) (Fin py) (Fin pz)) = Some x'"
    and near: "\<And>p y'. l2_occupied l2 p \<Longrightarrow> world_to_idx G p = Some y' \<Longrightarrow> sqrt (sq_dist sx sz x' y') < d0 \<Longrightarrow> world_to_idx g p \<noteq> None"
    and inside: "\<And>p. l2_occupied l2 p \<Longrightarrow> world_to_idx g p \<noteq> None \<Longrightarrow> world_to_idx G p \<noteq> None"
  shows "field_distance sx sz d0 (obstacle_voxels l2 g) x = field_distance sx sz d0 (obstacle_voxels l2 G) x'"
proof -
  have ok: "grid_ok g sx sz" "grid_ok G sx sz" using w by (auto simp: window_ok_def)
  have occ: "\<exists>qx qy qz. p = vec3 (Fin qx) (Fin qy) (Fin qz)" if "l2_occupied l2 p" for p
    using that l2_centre_finite [OF w(1)] by (auto simp: l2_occupied_def)
  have same: "sq_dist sx sz x y = sq_dist sx sz x' y' \<and> (x = y \<longleftrightarrow> x' = y')"
    if o: "l2_occupied l2 p" and yy: "world_to_idx g p = Some y" "world_to_idx G p = Some y'" for p y y'
  proof -
    obtain qx qy qz where "p = vec3 (Fin qx) (Fin qy) (Fin qz)" using occ [OF o] by blast
    then show ?thesis using sq_dist_shift [OF ok x, of qx qy qz y y'] yy by simp
  qed
  have zero: "sq_dist sx sz x' x' = 0" by (cases x') (simp add: sq_dist_def)
  have into: "\<exists>y'\<in>obstacle_voxels l2 G. sq_dist sx sz x y = sq_dist sx sz x' y' \<and> (x = y \<longleftrightarrow> x' = y')" if y: "y \<in> obstacle_voxels l2 g" for y
  proof -
    obtain p where p: "l2_occupied l2 p" "world_to_idx g p = Some y" using y by (auto simp: obstacle_voxels_def)
    then obtain y' where "world_to_idx G p = Some y'" using inside [of p] by auto
    then show ?thesis using same p unfolding obstacle_voxels_def by blast
  qed
  have onto: "\<exists>y\<in>obstacle_voxels l2 g. sq_dist sx sz x y = sq_dist sx sz x' y' \<and> (x = y \<longleftrightarrow> x' = y')"
    if yG: "y' \<in> obstacle_voxels l2 G" and less: "sqrt (sq_dist sx sz x' y') < d0" for y'
  proof -
    obtain p where p: "l2_occupied l2 p" "world_to_idx G p = Some y'" using yG by (auto simp: obstacle_voxels_def)
    then obtain y where "world_to_idx g p = Some y" using near [OF p less] by auto
    then show ?thesis using same p unfolding obstacle_voxels_def by blast
  qed
  have mem: "x \<in> obstacle_voxels l2 g \<longleftrightarrow> x' \<in> obstacle_voxels l2 G" using into [of x] onto [of x'] zero d0 by auto
  show ?thesis
  proof (cases "x \<in> obstacle_voxels l2 g")
    case True
    then show ?thesis using mem by (simp add: field_distance_def)
  next
    case False
    then have notin: "x' \<notin> obstacle_voxels l2 G" using mem by simp
    let ?d = "field_distance sx sz d0 (obstacle_voxels l2 g) x"
    note c = field_distance_char [OF obstacle_voxels_finite False, of sx sz d0 ?d, THEN iffD1, OF refl]
    have "field_distance sx sz d0 (obstacle_voxels l2 G) x' = ?d"
    proof (rule field_distance_char [OF obstacle_voxels_finite notin, THEN iffD2], intro conjI ballI)
      show "?d \<le> d0" using c by blast
      show "?d \<le> sqrt (sq_dist sx sz x' y')" if "y' \<in> obstacle_voxels l2 G" for y'
        using c onto [OF that] by (metis less_le_not_le linear order_trans)
      show "?d = d0 \<or> (\<exists>y'\<in>obstacle_voxels l2 G. ?d = sqrt (sq_dist sx sz x' y'))" using c into by metis
    qed
    then show ?thesis by simp
  qed
qed

section \<open>Properties\<close>

text \<open>
  C8: The distance field is exact.  For every point of the window the answer is \<open>-0.5\<close> when the point's
  voxel holds an occupied cell of the planning map, and otherwise the Euclidean distance between the
  centres of the point's voxel and the nearest such voxel of the window, cut off at the truncation
  radius: the three linear sweeps compute the same as a search over all pairs of voxels.
\<close>
theorem esdf_query_correct:
  assumes "g = esdf_grid (pm_config l2) centre h v spacing" and "window_ok l2 g sx sz" and "0 < d0" "d0 \<le> 10 ^ 10"
    and "world_to_idx g (vec3 (Fin px) (Fin py) (Fin pz)) = Some x"
  shows "eq_d (esdf_query (compute_esdf l2 centre h v (Fin d0) spacing) (vec3 (Fin px) (Fin py) (Fin pz))) =
    Fin (field_distance sx sz d0 (obstacle_voxels l2 g) x)"
  by (rule query_distance [OF assms])

text \<open>
  C9: A sphere the field calls clear is clear, up to the resolution of the field: every occupied cell of
  the planning map in the window is at least the radius, less one voxel's diagonal, away.
\<close>
theorem esdf_clear_safe:
  assumes "g = esdf_grid (pm_config l2) centre h v spacing" and "window_ok l2 g sx sz" and "0 < d0" "d0 \<le> 10 ^ 10"
    and "world_to_idx g (vec3 (Fin px) (Fin py) (Fin pz)) = Some x"
    and "is_clear (compute_esdf l2 centre h v (Fin d0) spacing) (vec3 (Fin px) (Fin py) (Fin pz)) (Fin r)" and "0 < r"
    and "l2_occupied l2 (vec3 (Fin qx) (Fin qy) (Fin qz))" and "world_to_idx g (vec3 (Fin qx) (Fin qy) (Fin qz)) = Some y"
  shows "r - sqrt (sx\<^sup>2 + sx\<^sup>2 + sz\<^sup>2) \<le> sqrt ((px - qx)\<^sup>2 + (py - qy)\<^sup>2 + (pz - qz)\<^sup>2)"
proof -
  have y: "y \<in> obstacle_voxels l2 g" using assms(8,9) by (auto simp: obstacle_voxels_def)
  have r: "r \<le> field_distance sx sz d0 (obstacle_voxels l2 g) x"
    using assms(6) query_distance [OF assms(1-5)] by (simp add: is_clear_def)
  then have "x \<notin> obstacle_voxels l2 g" using assms(7) by (auto simp: field_distance_def)
  from field_distance_char [OF obstacle_voxels_finite this, THEN iffD1, OF refl] y
  have "field_distance sx sz d0 (obstacle_voxels l2 g) x \<le> sqrt (sq_dist sx sz x y)" by blast
  with r voxel_distance_le [OF _ assms(5,9)] assms(2) show ?thesis by (fastforce simp: window_ok_def)
qed

text \<open>
  C34: An incremental update is as good as a full one where its window reaches.  When the recomputed
  window holds every obstacle that is nearer to a point of the window than the truncation radius,
  the updated field and a field computed anew for a larger window give the same distance there.
\<close>
theorem incremental_equals_full:
  assumes fld: "field_ok m sx sz" "ec_d0_m (em_config m) = Fin d0" and dirty: "dirty = p0 # ps"
    and mn: "mn = min_corner p0 dirty" and mx: "mx = max_corner p0 dirty"
    and ctr: "box_centre mn mx = vec3 (Fin cx) (Fin cy) (Fin cz)" and h: "box_horiz_half mn mx + Fin d0 + Fin sx = Fin h" "0 < h"
    and v: "(vz mx - vz mn) * Fin (1/2) + Fin d0 + Fin sz = Fin v" "0 < v"
    and g: "g = esdf_grid (pm_config l2) (box_centre mn mx) (Fin h) (Fin v) (Fin sx)" and G: "G = esdf_grid (pm_config l2) centre H V (Fin sx)"
    and win: "window_ok l2 g sx sz" "window_ok l2 G sx sz" and d0: "0 < d0" "d0 \<le> 10 ^ 10"
    and c: "centred cx (eg_nx g) sx" "centred cy (eg_ny g) sx" "centred cz (eg_nz g) sz"
    and x: "world_to_idx g (vec3 (Fin px) (Fin py) (Fin pz)) = Some x" "world_to_idx G (vec3 (Fin px) (Fin py) (Fin pz)) = Some x'"
    and near: "\<And>p y'. l2_occupied l2 p \<Longrightarrow> world_to_idx G p = Some y' \<Longrightarrow> sqrt (sq_dist sx sz x' y') < d0 \<Longrightarrow> world_to_idx g p \<noteq> None"
    and inside: "\<And>p. l2_occupied l2 p \<Longrightarrow> world_to_idx g p \<noteq> None \<Longrightarrow> world_to_idx G p \<noteq> None"
  shows "eq_d (esdf_query (update_incremental l2 dirty (Fin d0) m) (vec3 (Fin px) (Fin py) (Fin pz))) =
    eq_d (esdf_query (compute_esdf l2 centre H V (Fin d0) (Fin sx)) (vec3 (Fin px) (Fin py) (Fin pz)))"
proof -
  have ok: "grid_ok g sx sz" using win(1) by (simp add: window_ok_def)
  have "update_incremental l2 dirty (Fin d0) m = replace_window l2 (box_centre mn mx) (Fin h) (Fin v) (Fin d0) m"
    using fld(1) dirty h(1) v(1) by (simp add: update_incremental_def Let_def mn mx field_ok_def)
  then have "esdf_query (update_incremental l2 dirty (Fin d0) m) (vec3 (Fin px) (Fin py) (Fin pz)) =
      esdf_query (compute_esdf l2 (box_centre mn mx) (Fin h) (Fin v) (Fin d0) (Fin sx)) (vec3 (Fin px) (Fin py) (Fin pz))"
    using replace_window_query(1) [OF fld ctr g ok h(2) v(2) c x(1)] by simp
  then show ?thesis
    using query_distance [OF g win(1) d0 x(1)] query_distance [OF G win(2) d0 x(2)]
      same_obstacles_same_distance [OF win d0(1) x near inside] by simp
qed

text \<open>
  The erased bounds are wider than the recomputed grid: with the default sizes, a change at the origin
  erases the cells up to nine and a half metres away, of which those beyond six are not computed
  again.  The updated field calls such a point clear whatever the planning map holds there.
\<close>

lemma incremental_update_forgets:
  assumes "pm_config l2 = PlanningConfig_default" and "field_ok m 2 2" and "ec_d0_m (em_config m) = Fin 5"
  shows "is_clear (update_incremental l2 [vec3 (Fin (1/2)) (Fin (1/2)) (Fin 1)] (Fin 5) m) (vec3 (Fin 9) (Fin 1) (Fin 1)) (Fin 5)"
proof -
  let ?c = "vec3 (Fin (1/2)) (Fin (1/2)) (Fin 1)" and ?k = "cell_key 4 0 0"
  define g where "g = esdf_grid (pm_config l2) ?c (Fin 7) (Fin 7) (Fin 2)"
  have "g = \<lparr>eg_sx = Fin 2, eg_sz = Fin 2, eg_nx = 7, eg_ny = 7, eg_nz = 7, eg_xi = -4, eg_yi = -4, eg_zi = -3\<rparr>"
    unfolding g_def assms(1)
    by (simp add: esdf_grid_def PlanningConfig_default_def grid_dim_def grid_first_def dbl_simps in_int_range_def int_min_def int_max_def
        floor_eq_iff Let_def)
  then have ok: "grid_ok g 2 2" and g: "eg_nx g = 7" "eg_ny g = 7" "eg_nz g = 7" "eg_xi g = -4" "eg_yi g = -4" "eg_zi g = -3"
    by (simp_all add: grid_ok_def grid_wf_def in_int_range_def int_min_def int_max_def)
  have "?k \<notin> voxel_key g ` set (grid_voxels g)" using voxel_key_eq [OF ok] g by (auto simp: grid_voxels_iff)
  then have sub: "map_of (em_cells (compute_esdf l2 ?c (Fin 7) (Fin 7) (Fin 5) (Fin 2))) ?k = None"
    using compute_esdf_lookup(2) [OF ok g_def] by simp
  have win: "in_refresh_bounds ?c (Fin 7) (Fin 7) (Fin 2) (Fin 2) (grid_center (Fin 2) (Fin 2) ?k)"
    by (simp add: in_refresh_bounds_def grid_center_def)
  have upd: "update_incremental l2 [?c] (Fin 5) m = replace_window l2 ?c (Fin 7) (Fin 7) (Fin 5) m"
    using assms(2) by (simp add: update_incremental_def field_ok_def min_corner_def max_corner_def box_centre_def box_horiz_half_def dbl_simps Let_def)
  have "map_of (em_cells (replace_window l2 ?c (Fin 7) (Fin 7) (Fin 5) m)) ?k = None"
    using win field_ok_cell [OF assms(2), of ?k] by (auto simp: replace_window_lookup [OF assms(2)] sub split: option.splits)
  moreover have "em_key_for_point (em_config m) (vec3 (Fin 9) (Fin 1) (Fin 1)) = ?k"
    using assms(2) by (simp add: em_key_for_point_def field_ok_def grid_key_def in_int_range_def int_min_def int_max_def floor_eq_iff)
  ultimately show ?thesis using assms(3) by (simp add: upd is_clear_def esdf_query_def)
qed

section \<open>An example: one occupied cell\<close>

lemma pm1_cells: "pm_cells pm1 \<noteq> []" "sc \<in> set (pm_cells pm1) \<Longrightarrow> sc = new_planning_cell PlanningConfig_default 7 1 k0 l1_hit"
proof -
  have fe: "finite_evidence (pm_config pm0) (l1_of [l1_hit])" unfolding pm0_config by (rule finite_evidence_hits)
  have other: "pm_lookup pm1 k = None" if "k \<noteq> k0" for k
    unfolding update_full_scan(1) [OF pm0_core pm0_live fe]
    using that by (simp add: l2_step_def Let_def l1_occupied_def sweep_def k0_def pm0_config split: if_splits)
  show "pm_cells pm1 \<noteq> []" using pm_lookup_iff [OF pm1_props(1)] pm1_props(5) by auto
  assume "sc \<in> set (pm_cells pm1)"
  then have "pm_lookup pm1 (sc_key sc) = Some sc" using pm_lookup_iff [OF pm1_props(1)] by simp
  then show "sc = new_planning_cell PlanningConfig_default 7 1 k0 l1_hit" using other pm1_props(5) by (metis option.distinct(1) option.inject)
qed

lemma k0_eq: "k0 = cell_key 0 0 0"
  by (simp add: k0_def pm_key_for_point_def grid_key_def PlanningConfig_default_def in_int_range_def int_min_def int_max_def)

lemma pm1_occupied: "l2_occupied pm1 p \<longleftrightarrow> p = vec3 (Fin (1/2)) (Fin (1/2)) (Fin 1)"
proof -
  let ?sc = "new_planning_cell PlanningConfig_default 7 1 k0 l1_hit"
  have mem: "?sc \<in> set (pm_cells pm1)" using pm1_cells(1) pm1_cells(2) by (metis list.set_intros(1) neq_Nil_conv)
  have centre: "pc_center_map (sc_cell ?sc) = vec3 (Fin (1/2)) (Fin (1/2)) (Fin 1)"
    by (simp add: new_planning_cell_def Let_def pm_center_for_key_def grid_center_def k0_eq PlanningConfig_default_def)
  have "pc_occupied_score (sc_cell ?sc) = sigmoid (Fin (8473/10000))"
    by (simp add: new_planning_cell_def Let_def PlanningConfig_default_def dbl_simps)
  moreover have "Fin (1/2) \<le> sigmoid (Fin (8473/10000))" using sigmoid_ge_half [of "Fin (8473/10000)"] by simp
  ultimately have "\<not> pc_occupied_score (sc_cell ?sc) < pmc_min_occupied_score (pm_config pm1)"
    unfolding pm1_props(3) by (cases "sigmoid (Fin (8473/10000))") (auto simp: PlanningConfig_default_def)
  with mem centre pm1_cells(2) show ?thesis unfolding l2_occupied_def by metis
qed

abbreviation sample_window :: EsdfGrid where
  "sample_window \<equiv> \<lparr>eg_sx = Fin 2, eg_sz = Fin 2, eg_nx = 10, eg_ny = 10, eg_nz = 10, eg_xi = -5, eg_yi = -5, eg_zi = -5\<rparr>"

lemma sample_window_grid: "esdf_grid (pm_config pm1) vec3_zero (Fin 10) (Fin 10) (Fin 2) = sample_window"
  unfolding pm1_props(3)
  by (simp add: esdf_grid_def PlanningConfig_default_def grid_dim_def grid_first_def dbl_simps in_int_range_def int_min_def int_max_def Let_def)

lemma sample_window_ok: "window_ok pm1 sample_window 2 2" "grid_ok sample_window 2 2"
proof -
  show ok: "grid_ok sample_window 2 2" by (simp add: grid_ok_def grid_wf_def in_int_range_def int_min_def int_max_def)
  have "box_in_range PlanningConfig_default (eg_box sample_window)"
    by (simp add: box_in_range_def eg_box_def eg_origin_def PlanningConfig_default_def in_int_range_def int_min_def int_max_def)
  then show "window_ok pm1 sample_window 2 2" using ok pm1_props(1) unfolding window_ok_def pm1_props(3) by blast
qed

lemma sample_idx: "world_to_idx sample_window (vec3 (Fin (1/2)) (Fin (1/2)) (Fin 1)) = Some (5, 5, 5)"
  "world_to_idx sample_window (vec3 (Fin (-7)) (Fin (1/2)) (Fin 1)) = Some (1, 5, 5)"
  by (simp_all add: world_to_idx_iff [OF sample_window_ok(2)] floor_eq_iff)

lemma sample_obstacles: "obstacle_voxels pm1 sample_window = {(5, 5, 5)}"
  using sample_idx(1) by (auto simp: obstacle_voxels_def pm1_occupied)

theorem esdf_query_correct_witness:
  "eq_d (esdf_query (compute_esdf pm1 vec3_zero (Fin 10) (Fin 10) (Fin 9) (Fin 2)) (vec3 (Fin (-7)) (Fin (1/2)) (Fin 1))) = Fin 8"
proof -
  have "sqrt 64 = (8::real)" by (rule real_sqrt_unique) simp_all
  then have "field_distance 2 2 9 (obstacle_voxels pm1 sample_window) (1, 5, 5) = 8"
    unfolding sample_obstacles by (simp add: field_distance_def sq_dist_def)
  with esdf_query_correct [OF sample_window_grid [symmetric] sample_window_ok(1), of 9] sample_idx(2) show ?thesis by simp
qed

theorem esdf_clear_safe_witness:
  "is_clear (compute_esdf pm1 vec3_zero (Fin 10) (Fin 10) (Fin 5) (Fin 2)) (vec3 (Fin (-7)) (Fin (1/2)) (Fin 1)) (Fin 5) \<and>
   5 - sqrt (2\<^sup>2 + 2\<^sup>2 + 2\<^sup>2) \<le> sqrt ((-7 - 1/2)\<^sup>2 + (1/2 - 1/2)\<^sup>2 + (1 - (1::real))\<^sup>2)"
proof -
  have "sqrt 64 = (8::real)" by (rule real_sqrt_unique) simp_all
  then have "field_distance 2 2 5 (obstacle_voxels pm1 sample_window) (1, 5, 5) = 5"
    unfolding sample_obstacles by (simp add: field_distance_def sq_dist_def)
  then have clear: "is_clear (compute_esdf pm1 vec3_zero (Fin 10) (Fin 10) (Fin 5) (Fin 2)) (vec3 (Fin (-7)) (Fin (1/2)) (Fin 1)) (Fin 5)"
    using query_distance [OF sample_window_grid [symmetric] sample_window_ok(1), of 5] sample_idx(2) by (simp add: is_clear_def)
  from esdf_clear_safe [OF sample_window_grid [symmetric] sample_window_ok(1) _ _ sample_idx(2) clear _ _ sample_idx(1)] pm1_occupied clear
  show ?thesis by simp
qed

abbreviation sample_subwindow :: EsdfGrid where
  "sample_subwindow \<equiv> \<lparr>eg_sx = Fin 2, eg_sz = Fin 2, eg_nx = 7, eg_ny = 7, eg_nz = 7, eg_xi = -4, eg_yi = -4, eg_zi = -3\<rparr>"

lemma sample_subwindow_grid:
  "esdf_grid (pm_config pm1) (vec3 (Fin (1/2)) (Fin (1/2)) (Fin 1)) (Fin 7) (Fin 7) (Fin 2) = sample_subwindow"
  unfolding pm1_props(3)
  by (simp add: esdf_grid_def PlanningConfig_default_def grid_dim_def grid_first_def dbl_simps in_int_range_def int_min_def int_max_def
      floor_eq_iff Let_def)

lemma sample_subwindow_ok: "window_ok pm1 sample_subwindow 2 2" "grid_ok sample_subwindow 2 2"
proof -
  show ok: "grid_ok sample_subwindow 2 2" by (simp add: grid_ok_def grid_wf_def in_int_range_def int_min_def int_max_def)
  have "box_in_range PlanningConfig_default (eg_box sample_subwindow)"
    by (simp add: box_in_range_def eg_box_def eg_origin_def PlanningConfig_default_def in_int_range_def int_min_def int_max_def)
  then show "window_ok pm1 sample_subwindow 2 2" using ok pm1_props(1) unfolding window_ok_def pm1_props(3) by blast
qed

theorem incremental_equals_full_witness:
  "eq_d (esdf_query (update_incremental pm1 [vec3 (Fin (1/2)) (Fin (1/2)) (Fin 1)] (Fin 5)
       (compute_esdf pm1 vec3_zero (Fin 10) (Fin 10) (Fin 5) (Fin 2))) (vec3 (Fin (-3)) (Fin (1/2)) (Fin 1))) =
   eq_d (esdf_query (compute_esdf pm1 vec3_zero (Fin 10) (Fin 10) (Fin 5) (Fin 2)) (vec3 (Fin (-3)) (Fin (1/2)) (Fin 1)))"
proof -
  let ?m = "compute_esdf pm1 vec3_zero (Fin 10) (Fin 10) (Fin 5) (Fin 2)" and ?p = "vec3 (Fin (1/2)) (Fin (1/2)) (Fin 1)"
  have fld: "field_ok ?m 2 2" "ec_d0_m (em_config ?m) = Fin 5"
    using compute_esdf_ok [OF sample_window_ok(2) sample_window_grid [symmetric]] by (simp_all add: compute_esdf_config Let_def)
  have mn: "min_corner ?p [?p] = ?p" "max_corner ?p [?p] = ?p" by (simp_all add: min_corner_def max_corner_def dbl_simps)
  have box: "box_centre ?p ?p = ?p" "box_horiz_half ?p ?p = Fin 0" by (simp_all add: box_centre_def box_horiz_half_def dbl_simps)
  have ctr: "centred (1/2) 7 2" "centred 1 7 2"
    by (simp_all add: centred_def in_int_range_def int_min_def int_max_def floor_eq_iff)
  have idx: "world_to_idx sample_subwindow ?p = Some (4, 4, 3)" "world_to_idx sample_subwindow (vec3 (Fin (-3)) (Fin (1/2)) (Fin 1)) = Some (2, 4, 3)"
    "world_to_idx sample_window (vec3 (Fin (-3)) (Fin (1/2)) (Fin 1)) = Some (3, 5, 5)"
    by (simp_all add: world_to_idx_iff [OF sample_window_ok(2)] world_to_idx_iff [OF sample_subwindow_ok(2)] floor_eq_iff)
  show ?thesis
    by (rule incremental_equals_full [where ?p0.0 = ?p and ps = "[]" and mn = ?p and mx = ?p and h = 7 and v = 7 and g = sample_subwindow and G = sample_window
          and cx = "1/2" and cy = "1/2" and cz = 1 and x = "(2, 4, 3)" and x' = "(3, 5, 5)"])
      (use fld mn box ctr idx sample_idx sample_subwindow_grid sample_window_grid sample_window_ok sample_subwindow_ok in
        \<open>simp_all add: pm1_occupied\<close>)
qed

end
