(* ===== verification/Polar_Risk.thy ===== *)
theory Polar_Risk
  imports Local_Flight_Map
begin

text \<open>
  The polar risk histogram of \<open>avoidance/local_flight_map.cpp\<close>: \<open>compute_l0_polar_risk\<close> sorts the occupied
  cells of the flight map into azimuth sectors and azimuth-elevation bins with the shortest
  time to collision of each, and \<open>collect_l0_sensor_observations\<close> lists the raw observations.
  \<open>M_PI\<close> is the exact number.
\<close>

section \<open>Data\<close>

record L0PolarRiskSector =
  rk_azimuth_deg :: double
  rk_max_closing_speed_mps :: double
  rk_min_ttc_s :: double
  rk_nearest_range_m :: double
  rk_has_obstacle :: bool

definition L0PolarRiskSector_default :: L0PolarRiskSector where
  "L0PolarRiskSector_default =
    \<lparr>rk_azimuth_deg = 0, rk_max_closing_speed_mps = 0, rk_min_ttc_s = PInf, rk_nearest_range_m = PInf, rk_has_obstacle = False\<rparr>"

record L0SphericalRiskBin =
  sb_az_centre_deg :: double
  sb_el_centre_deg :: double
  sb_min_ttc_s :: double
  sb_max_closing_speed_mps :: double
  sb_nearest_range_m :: double
  sb_has_obstacle :: bool
  sb_source_mask :: "8 word"

definition L0SphericalRiskBin_default :: L0SphericalRiskBin where
  "L0SphericalRiskBin_default =
    \<lparr>sb_az_centre_deg = 0, sb_el_centre_deg = 0, sb_min_ttc_s = PInf, sb_max_closing_speed_mps = 0,
     sb_nearest_range_m = PInf, sb_has_obstacle = False, sb_source_mask = 0\<rparr>"

record L0SensorObservation =
  so_az_body_rad :: double
  so_el_body_rad :: double
  so_range_m :: double
  so_closing_speed_mps :: double
  so_ttc_s :: double
  so_source_kind :: OccupancySourceKind

text \<open>The members of the flight map's snapshot that the two functions fill.\<close>

record RiskSnapshot = LocalFlightMapSnapshot +
  rs_ego_speed_mps :: double
  rs_polar_risk_sectors :: "L0PolarRiskSector list"
  rs_global_min_ttc_s :: double
  rs_escape_direction_body :: Vec3
  rs_sensor_observations :: "L0SensorObservation list"
  rs_spherical_risk_bins :: "L0SphericalRiskBin list"
  rs_spherical_num_az :: int
  rs_spherical_num_el :: int

definition kMinDist :: double where "kMinDist = Fin (1/10)"
definition kMinSpeed :: double where "kMinSpeed = Fin (1/20)"
definition kMinRange :: double where "kMinRange = Fin (1/20)"
definition kEpsTTC :: double where "kEpsTTC = Fin (1/1000000)"
definition kElStepDeg :: double where "kElStepDeg = Fin 10"

text \<open>\<open>static_cast<int>\<close> truncates toward zero.\<close>

fun trunc_to_int :: "double \<Rightarrow> int" where
  "trunc_to_int (Fin x) =
     (let t = (if 0 \<le> x then \<lfloor>x\<rfloor> else \<lceil>x\<rceil>) in if in_int_range t then t else int_min)"
| "trunc_to_int _ = int_min"

definition to_degrees :: "double \<Rightarrow> double" where
  "to_degrees a = a * (Fin 180 / Fin pi)"

section \<open>Sectors and bins\<close>

definition az_width :: "int \<Rightarrow> double" where
  "az_width num_az = Fin 360 / Fin (of_int num_az)"

definition el_min :: "int \<Rightarrow> double" where
  "el_min num_el = - (kElStepDeg * Fin (of_int num_el)) * Fin (1/2)"

definition az_index :: "int \<Rightarrow> double \<Rightarrow> int" where
  "az_index num_az az_deg = max 0 (min (num_az - 1) (trunc_to_int ((az_deg + Fin 180) / az_width num_az)))"

definition el_index :: "int \<Rightarrow> double \<Rightarrow> int" where
  "el_index num_el el_deg = max 0 (min (num_el - 1) (trunc_to_int ((el_deg - el_min num_el) / kElStepDeg)))"

definition az_centre :: "int \<Rightarrow> int \<Rightarrow> double" where
  "az_centre num_az s = Fin (-180) + (Fin (of_int s) + Fin (1/2)) * az_width num_az"

definition el_centre :: "int \<Rightarrow> int \<Rightarrow> double" where
  "el_centre num_el e = el_min num_el + (Fin (of_int e) + Fin (1/2)) * kElStepDeg"

definition initial_sectors :: "int \<Rightarrow> L0PolarRiskSector list" where
  "initial_sectors num_az = map (\<lambda>s. L0PolarRiskSector_default\<lparr>rk_azimuth_deg := az_centre num_az s\<rparr>) [0..num_az - 1]"

definition initial_bins :: "int \<Rightarrow> int \<Rightarrow> L0SphericalRiskBin list" where
  "initial_bins num_az num_el =
     concat (map (\<lambda>a. map (\<lambda>e. L0SphericalRiskBin_default\<lparr>sb_az_centre_deg := az_centre num_az a, sb_el_centre_deg := el_centre num_el e\<rparr>)
                        [0..num_el - 1]) [0..num_az - 1])"

text \<open>What one occupied cell adds to its sector and to its bin.\<close>

definition cell_dist_xy :: "LocalFlightMapCell \<Rightarrow> double" where
  "cell_dist_xy cell = std_hypot (vx (lc_center_local cell)) (vy (lc_center_local cell))"

definition cell_dist_3d :: "LocalFlightMapCell \<Rightarrow> double" where
  "cell_dist_3d cell = std_hypot (cell_dist_xy cell) (vz (lc_center_local cell))"

definition cell_az_deg :: "LocalFlightMapCell \<Rightarrow> double" where
  "cell_az_deg cell = to_degrees (std_atan2 (vy (lc_center_local cell)) (vx (lc_center_local cell)))"

definition cell_el_deg :: "LocalFlightMapCell \<Rightarrow> double" where
  "cell_el_deg cell = to_degrees (std_atan2 (- vz (lc_center_local cell)) (cell_dist_xy cell))"

definition closing_speed :: "Vec3 \<Rightarrow> LocalFlightMapCell \<Rightarrow> double" where
  "closing_speed v cell =
     (if kMinSpeed < std_hypot (vx v) (vy v)
      then (vx v * vx (lc_center_local cell) + vy v * vy (lc_center_local cell)) / cell_dist_xy cell else 0)"

definition time_to_collision :: "double \<Rightarrow> double \<Rightarrow> double" where
  "time_to_collision dist_xy v_r = dist_xy / std_max v_r kEpsTTC"

definition lower :: "double \<Rightarrow> double \<Rightarrow> double" where
  "lower x old = (if x < old then x else old)"

definition raise :: "double \<Rightarrow> double \<Rightarrow> double" where
  "raise x old = (if old < x then x else old)"

definition sector_hit :: "double \<Rightarrow> double \<Rightarrow> L0PolarRiskSector \<Rightarrow> L0PolarRiskSector" where
  "sector_hit dist_xy v_r s =
     s\<lparr>rk_has_obstacle := True, rk_nearest_range_m := lower dist_xy (rk_nearest_range_m s),
       rk_max_closing_speed_mps := raise v_r (rk_max_closing_speed_mps s),
       rk_min_ttc_s := (if kMinSpeed < v_r then lower (time_to_collision dist_xy v_r) (rk_min_ttc_s s) else rk_min_ttc_s s)\<rparr>"

definition bin_hit :: "double \<Rightarrow> double \<Rightarrow> double \<Rightarrow> L0SphericalRiskBin \<Rightarrow> L0SphericalRiskBin" where
  "bin_hit dist_xy dist_3d v_r b =
     b\<lparr>sb_has_obstacle := True, sb_nearest_range_m := lower dist_3d (sb_nearest_range_m b),
       sb_max_closing_speed_mps := raise v_r (sb_max_closing_speed_mps b),
       sb_min_ttc_s := (if kMinSpeed < v_r then lower (time_to_collision dist_xy v_r) (sb_min_ttc_s b) else sb_min_ttc_s b)\<rparr>"

section \<open>The histogram\<close>

record RiskAcc =
  ra_sectors :: "L0PolarRiskSector list"
  ra_bins :: "L0SphericalRiskBin list"
  ra_wsum_x :: double
  ra_wsum_y :: double
  ra_wtotal :: double
  ra_global_min_ttc :: double

definition risk_cell :: "int \<Rightarrow> int \<Rightarrow> Vec3 \<Rightarrow> LocalFlightMapCell \<Rightarrow> RiskAcc \<Rightarrow> RiskAcc" where
  "risk_cell num_az num_el v cell a =
     (let dist_xy = cell_dist_xy cell
      in if \<not> lc_occupied cell \<or> dist_xy < kMinDist then a
         else let sidx = nat (az_index num_az (cell_az_deg cell)); eidx = nat (el_index num_el (cell_el_deg cell));
                  n = sidx * nat num_el + eidx; v_r = closing_speed v cell;
                  w = std_max 0 v_r + Fin 1 / std_max (Fin 1) dist_xy
              in a\<lparr>ra_sectors := (ra_sectors a)[sidx := sector_hit dist_xy v_r (ra_sectors a ! sidx)],
                   ra_bins := (ra_bins a)[n := bin_hit dist_xy (cell_dist_3d cell) v_r (ra_bins a ! n)],
                   ra_global_min_ttc := (if kMinSpeed < v_r then lower (time_to_collision dist_xy v_r) (ra_global_min_ttc a)
                                         else ra_global_min_ttc a),
                   ra_wsum_x := ra_wsum_x a + vx (lc_center_local cell) / dist_xy * w,
                   ra_wsum_y := ra_wsum_y a + vy (lc_center_local cell) / dist_xy * w,
                   ra_wtotal := ra_wtotal a + w\<rparr>)"

definition escape_direction :: "RiskAcc \<Rightarrow> Vec3" where
  "escape_direction a =
     (let mag = std_hypot (ra_wsum_x a) (ra_wsum_y a)
      in if Fin (1 / 10 ^ 9) < ra_wtotal a \<and> Fin (1 / 10 ^ 9) < mag
         then vec3 (- (ra_wsum_x a / mag)) (- (ra_wsum_y a / mag)) 0 else vec3_zero)"

definition compute_l0_polar_risk :: "Vec3 \<Rightarrow> int \<Rightarrow> int \<Rightarrow> RiskSnapshot \<Rightarrow> RiskSnapshot" where
  "compute_l0_polar_risk v num_az num_el snap =
     (let num_az = (if num_az < 1 then 36 else num_az); num_el = (if num_el < 1 then 9 else num_el);
          a = fold (risk_cell num_az num_el v) (lfs_cells snap)
                \<lparr>ra_sectors = initial_sectors num_az, ra_bins = initial_bins num_az num_el, ra_wsum_x = 0, ra_wsum_y = 0,
                 ra_wtotal = 0, ra_global_min_ttc = PInf\<rparr>
      in snap\<lparr>rs_ego_speed_mps := std_hypot (vx v) (vy v), rs_polar_risk_sectors := ra_sectors a,
              rs_spherical_num_az := num_az, rs_spherical_num_el := num_el, rs_spherical_risk_bins := ra_bins a,
              rs_global_min_ttc_s := ra_global_min_ttc a, rs_escape_direction_body := escape_direction a\<rparr>)"

section \<open>Sensor observations\<close>

unbundle bit_operations_syntax

fun source_mask_bit :: "OccupancySourceKind \<Rightarrow> 8 word" where
  "source_mask_bit AirSimGroundTruth = 1"
| "source_mask_bit AirSimGroundTruthVisualEmulation = 1"
| "source_mask_bit DepthProvider = 2"
| "source_mask_bit VisualObstacleDetector = 4"
| "source_mask_bit _ = 8"

definition observation_relevant :: "ObstacleEvidence \<Rightarrow> bool" where
  "observation_relevant ev \<longleftrightarrow>
     (ev_state ev = EvOccupied \<or> ev_state ev = EvThinStructureRisk) \<and> isfinite (ev_range_m ev) \<and> \<not> ev_range_m ev < kMinRange"

definition ray_closing_speed :: "Vec3 \<Rightarrow> ObstacleEvidence \<Rightarrow> double" where
  "ray_closing_speed v ev =
     vx v * (std_cos (ev_elevation_rad ev) * std_cos (ev_bearing_rad ev)) +
     vy v * (std_cos (ev_elevation_rad ev) * std_sin (ev_bearing_rad ev))"

definition observation_of :: "Vec3 \<Rightarrow> ObstacleEvidence \<Rightarrow> L0SensorObservation" where
  "observation_of v ev =
     (let moving = kMinSpeed < std_hypot (vx v) (vy v); v_r = ray_closing_speed v ev
      in \<lparr>so_az_body_rad = ev_bearing_rad ev, so_el_body_rad = ev_elevation_rad ev, so_range_m = ev_range_m ev,
          so_closing_speed_mps = (if moving then std_max 0 v_r else 0),
          so_ttc_s = (if moving \<and> kMinSpeed < v_r then ev_range_m ev / std_max v_r kEpsTTC else PInf),
          so_source_kind = ev_source_kind ev\<rparr>)"

definition stamp_source :: "ObstacleEvidence \<Rightarrow> RiskSnapshot \<Rightarrow> RiskSnapshot" where
  "stamp_source ev snap =
     (if rs_spherical_risk_bins snap \<noteq> [] \<and> 0 < rs_spherical_num_az snap \<and> 0 < rs_spherical_num_el snap
      then let aidx = az_index (rs_spherical_num_az snap) (to_degrees (ev_bearing_rad ev));
               eidx = el_index (rs_spherical_num_el snap) (to_degrees (ev_elevation_rad ev));
               n = nat aidx * nat (rs_spherical_num_el snap) + nat eidx; b = rs_spherical_risk_bins snap ! n
           in snap\<lparr>rs_spherical_risk_bins := (rs_spherical_risk_bins snap)
                     [n := b\<lparr>sb_source_mask := sb_source_mask b OR source_mask_bit (ev_source_kind ev)\<rparr>]\<rparr>
      else snap)"

fun collect_loop :: "Vec3 \<Rightarrow> nat \<Rightarrow> ObstacleEvidence list \<Rightarrow> RiskSnapshot \<Rightarrow> RiskSnapshot" where
  "collect_loop v max_obs [] snap = snap"
| "collect_loop v max_obs (ev # evs) snap =
     (if max_obs \<le> length (rs_sensor_observations snap) then snap
      else if \<not> observation_relevant ev then collect_loop v max_obs evs snap
      else let snap = stamp_source ev snap
           in collect_loop v max_obs evs (snap\<lparr>rs_sensor_observations := rs_sensor_observations snap @ [observation_of v ev]\<rparr>))"

definition collect_l0_sensor_observations :: "ObstacleEvidence list \<Rightarrow> Vec3 \<Rightarrow> nat \<Rightarrow> RiskSnapshot \<Rightarrow> RiskSnapshot" where
  "collect_l0_sensor_observations evidence v max_obs snap =
     collect_loop v max_obs evidence (snap\<lparr>rs_sensor_observations := []\<rparr>)"

end
