(* ===== verification/Polar_Properties.thy ===== *)
theory Polar_Properties
  imports Polar_Risk
begin

text \<open>
  The polar risk histogram reports, for every sector and over all, the nearest obstacle and the
  shortest time to collision; the sensor observations are the first relevant pieces of evidence.
\<close>

section \<open>Least values\<close>



section \<open>The cells that count\<close>






section \<open>The loop over the cells\<close>

definition cell_sector :: "int \<Rightarrow> LocalFlightMapCell \<Rightarrow> nat" where
  "cell_sector num_az c = nat (az_index num_az (cell_az_deg c))"

definition cell_bin :: "int \<Rightarrow> int \<Rightarrow> LocalFlightMapCell \<Rightarrow> nat" where
  "cell_bin num_az num_el c = cell_sector num_az c * nat num_el + nat (el_index num_el (cell_el_deg c))"

lemma cell_sector_less: "1 \<le> num_az \<Longrightarrow> cell_sector num_az c < nat num_az"
  by (auto simp: cell_sector_def az_index_def)

lemma cell_bin_less:
  assumes "1 \<le> num_az" "1 \<le> num_el"
  shows "cell_bin num_az num_el c < nat num_az * nat num_el"
proof -
  have e: "nat (el_index num_el (cell_el_deg c)) < nat num_el" using assms(2) by (auto simp: el_index_def)
  have "cell_bin num_az num_el c < (cell_sector num_az c + 1) * nat num_el" using e by (simp add: cell_bin_def)
  also have "\<dots> \<le> nat num_az * nat num_el" using cell_sector_less [OF assms(1), of c] by (intro mult_le_mono1) simp
  finally show ?thesis .
qed



definition bin_centre :: "L0SphericalRiskBin \<Rightarrow> double \<times> double" where
  "bin_centre b = (sb_az_centre_deg b, sb_el_centre_deg b)"




lemma sector_hit_azimuth [simp]: "rk_azimuth_deg (sector_hit d u s) = rk_azimuth_deg s"
  by (simp add: sector_hit_def)

lemma bin_hit_centre [simp]: "bin_centre (bin_hit d e u b) = bin_centre b"
  by (simp add: bin_hit_def bin_centre_def)





section \<open>Angles and their intervals\<close>










section \<open>Observations\<close>

lemma collect_loop_observations:
  "length (rs_sensor_observations snap) \<le> max_obs \<Longrightarrow>
   rs_sensor_observations (collect_loop v max_obs evs snap) =
     rs_sensor_observations snap @ map (observation_of v) (take (max_obs - length (rs_sensor_observations snap)) (filter observation_relevant evs))"
proof (induction v max_obs evs snap rule: collect_loop.induct)
  case (2 v max_obs ev evs snap)
  have stamp: "rs_sensor_observations (stamp_source ev snap) = rs_sensor_observations snap" by (simp add: stamp_source_def Let_def)
  show ?case
  proof (cases "max_obs \<le> length (rs_sensor_observations snap)")
    case False
    then have "max_obs - length (rs_sensor_observations snap) = Suc (max_obs - Suc (length (rs_sensor_observations snap)))" by simp
    then show ?thesis using 2 False stamp by (simp add: Let_def)
  qed (use 2 in simp)
qed simp

text \<open>Stamping the sources leaves everything but the source masks.\<close>

lemma collect_loop_bins:
  "length (rs_spherical_risk_bins (collect_loop v max_obs evs snap)) = length (rs_spherical_risk_bins snap) \<and>
   map (sb_source_mask_update (\<lambda>_. 0)) (rs_spherical_risk_bins (collect_loop v max_obs evs snap)) =
   map (sb_source_mask_update (\<lambda>_. 0)) (rs_spherical_risk_bins snap) \<and>
   lfs_cells (collect_loop v max_obs evs snap) = lfs_cells snap \<and>
   rs_polar_risk_sectors (collect_loop v max_obs evs snap) = rs_polar_risk_sectors snap \<and>
   rs_global_min_ttc_s (collect_loop v max_obs evs snap) = rs_global_min_ttc_s snap"
proof (induction v max_obs evs snap rule: collect_loop.induct)
  case (2 v max_obs ev evs snap)
  have upd: "map f (xs[n := y]) = map f xs" if "f y = f (xs ! n)" for f :: "L0SphericalRiskBin \<Rightarrow> L0SphericalRiskBin" and xs n y
    using that by (metis list_update_beyond list_update_id map_update not_le_imp_less)
  have stamp: "map (sb_source_mask_update (\<lambda>_. 0)) (rs_spherical_risk_bins (stamp_source ev snap)) = map (sb_source_mask_update (\<lambda>_. 0)) (rs_spherical_risk_bins snap)"
    "length (rs_spherical_risk_bins (stamp_source ev snap)) = length (rs_spherical_risk_bins snap)"
    "lfs_cells (stamp_source ev snap) = lfs_cells snap" "rs_polar_risk_sectors (stamp_source ev snap) = rs_polar_risk_sectors snap"
    "rs_global_min_ttc_s (stamp_source ev snap) = rs_global_min_ttc_s snap"
    by (auto simp: stamp_source_def Let_def upd)
  show ?case using 2 stamp by (simp add: Let_def)
qed simp

section \<open>Properties\<close>



text \<open>
  The sensor observations are exactly the first \<open>max_obs\<close> pieces of evidence that show an obstacle at a usable range,
  in their order; collecting them changes nothing of the risk map but the source masks of the bins.
\<close>
lemma observations_are_first_relevant:
  "rs_sensor_observations (collect_l0_sensor_observations evidence v max_obs snap) =
     map (observation_of v) (take max_obs (filter observation_relevant evidence)) \<and>
   map (sb_source_mask_update (\<lambda>_. 0)) (rs_spherical_risk_bins (collect_l0_sensor_observations evidence v max_obs snap)) =
     map (sb_source_mask_update (\<lambda>_. 0)) (rs_spherical_risk_bins snap) \<and>
   rs_polar_risk_sectors (collect_l0_sensor_observations evidence v max_obs snap) = rs_polar_risk_sectors snap \<and>
   rs_global_min_ttc_s (collect_l0_sensor_observations evidence v max_obs snap) = rs_global_min_ttc_s snap"
  using collect_loop_observations [of "snap\<lparr>rs_sensor_observations := []\<rparr>" max_obs v evidence]
    collect_loop_bins [of v max_obs evidence "snap\<lparr>rs_sensor_observations := []\<rparr>"]
  by (simp add: collect_l0_sensor_observations_def)

end
