(* ===== verification/Sensing_Coverage.thy ===== *)
theory Sensing_Coverage
  imports Follow_Geometry
begin

text \<open>
  Where the cameras look: \<open>src/sensing/sensing_coverage.cpp\<close> composes the body's attitude, the mount of a
  camera and its pointing into the volume the camera senses, and tests points against such a volume;
  \<open>src/runtime/camera_pointing_state_store.cpp\<close> keeps the pointing of each camera.  Of a \<open>FramePacket\<close>
  the fields that sensing reads are kept.
\<close>

section \<open>Data\<close>

record CameraIntrinsics =
  ci_fx :: double
  ci_fy :: double
  ci_cx :: double
  ci_cy :: double
  ci_distortion_k1 :: double
  ci_distortion_k2 :: double

record AirSimDepthFrame =
  df_sensor_name :: string
  df_width :: int
  df_height :: int
  df_depth_m :: "double list"

record FramePacket =
  fp_frame_id :: string
  fp_timestamp :: TimePoint
  fp_camera_id :: string
  fp_intrinsics :: CameraIntrinsics
  fp_depth_frame :: "AirSimDepthFrame option"

record CameraSensingConfig =
  csc_camera_id :: string
  csc_camera_name :: string
  csc_role :: string
  csc_horizontal_fov_rad :: double
  csc_vertical_fov_rad :: double
  csc_near_range_m :: double
  csc_far_range_m :: double
  csc_min_reliable_range_m :: double
  csc_max_reliable_range_m :: double
  csc_body_T_camera_xyz_m :: Vec3
  csc_body_T_camera_rpy_rad :: Vec3
  csc_pointing_source :: string

definition CameraSensingConfig_default :: CameraSensingConfig where
  "CameraSensingConfig_default =
     \<lparr>csc_camera_id = ''front_center'', csc_camera_name = ''front_center'', csc_role = ''visual_obstacle_detector'',
      csc_horizontal_fov_rad = Fin (pi / 2), csc_vertical_fov_rad = Fin (pi / 3), csc_near_range_m = Fin (1/2),
      csc_far_range_m = 80, csc_min_reliable_range_m = 1, csc_max_reliable_range_m = 60,
      csc_body_T_camera_xyz_m = vec3_zero, csc_body_T_camera_rpy_rad = vec3_zero,
      csc_pointing_source = ''camera_pointing_intent''\<rparr>"

record CameraPointingState =
  cps_camera_id :: string
  cps_camera_name :: string
  cps_timestamp :: TimePoint
  cps_pitch_rad :: double
  cps_yaw_rad :: double
  cps_roll_rad :: double
  cps_valid :: bool
  cps_measured :: bool
  cps_source :: string

record CameraSensingVolume =
  csv_timestamp :: TimePoint
  csv_frame_id :: string
  csv_has_frame_id :: bool
  csv_camera_id :: string
  csv_camera_name :: string
  csv_role :: string
  csv_map_frame_id :: MapFrameId
  csv_body_T_camera_mount :: Pose3
  csv_body_T_camera_current :: Pose3
  csv_map_T_camera_current :: Pose3
  csv_intrinsics :: CameraIntrinsics
  csv_horizontal_fov_rad :: double
  csv_vertical_fov_rad :: double
  csv_near_range_m :: double
  csv_far_range_m :: double
  csv_min_reliable_range_m :: double
  csv_max_reliable_range_m :: double
  csv_origin_local :: Vec3
  csv_forward_axis_local :: Vec3
  csv_right_axis_local :: Vec3
  csv_up_axis_local :: Vec3
  csv_pointing_state :: CameraPointingState

record SensingCoverageSnapshot =
  scs_timestamp :: TimePoint
  scs_map_frame_id :: MapFrameId
  scs_camera_volumes :: "CameraSensingVolume list"

record EgoSensingFrame =
  esf_frame :: FramePacket
  esf_ego :: EgoState
  esf_sensing_volume :: CameraSensingVolume

record SensingVolumeQueryResult =
  sq_inside :: bool
  sq_range_m :: double
  sq_bearing_rad :: double
  sq_elevation_rad :: double
  sq_forward_m :: double
  sq_right_m :: double
  sq_up_m :: double

text \<open>\<open>ObstacleSensingVolume\<close> of \<open>occupancy_types.hpp\<close>.\<close>

record ObstacleSensingVolume =
  osv_timestamp :: TimePoint
  osv_source_frame_id :: string
  osv_has_source_frame :: bool
  osv_sensor_name :: string
  osv_provider_name :: string
  osv_map_frame_id :: MapFrameId
  osv_origin_local :: Vec3
  osv_forward_axis_local :: Vec3
  osv_right_axis_local :: Vec3
  osv_up_axis_local :: Vec3
  osv_near_range_m :: double
  osv_far_range_m :: double
  osv_horizontal_fov_rad :: double
  osv_vertical_fov_rad :: double
  osv_min_reliable_range_m :: double
  osv_max_reliable_range_m :: double
  osv_min_surface_area_m2 :: double
  osv_min_angular_size_rad :: double
  osv_min_confidence :: double

section \<open>Vectors and rotations of the translation unit\<close>

definition sc_epsilon :: double where "sc_epsilon = Fin (1 / 10 ^ 9)"

definition sc_scale :: "Vec3 \<Rightarrow> double \<Rightarrow> Vec3" where
  "sc_scale a k = vec3 (vx a * k) (vy a * k) (vz a * k)"

definition sc_dot :: "Vec3 \<Rightarrow> Vec3 \<Rightarrow> double" where
  "sc_dot a b = vx a * vx b + vy a * vy b + vz a * vz b"

definition sc_norm :: "Vec3 \<Rightarrow> double" where
  "sc_norm a = std_sqrt (sc_dot a a)"

definition normalize_or :: "Vec3 \<Rightarrow> Vec3 \<Rightarrow> Vec3" where
  "normalize_or a fallback = (if sc_norm a \<le> sc_epsilon then fallback else sc_scale a (1 / sc_norm a))"

definition sc_multiply :: "Matrix3 \<Rightarrow> Matrix3 \<Rightarrow> Matrix3" where
  "sc_multiply l r =
     \<lparr>m00 = m00 l * m00 r + m01 l * m10 r + m02 l * m20 r, m01 = m00 l * m01 r + m01 l * m11 r + m02 l * m21 r,
      m02 = m00 l * m02 r + m01 l * m12 r + m02 l * m22 r,
      m10 = m10 l * m00 r + m11 l * m10 r + m12 l * m20 r, m11 = m10 l * m01 r + m11 l * m11 r + m12 l * m21 r,
      m12 = m10 l * m02 r + m11 l * m12 r + m12 l * m22 r,
      m20 = m20 l * m00 r + m21 l * m10 r + m22 l * m20 r, m21 = m20 l * m01 r + m21 l * m11 r + m22 l * m21 r,
      m22 = m20 l * m02 r + m21 l * m12 r + m22 l * m22 r\<rparr>"

definition sc_transform :: "Matrix3 \<Rightarrow> Vec3 \<Rightarrow> Vec3" where
  "sc_transform m v =
     vec3 (m00 m * vx v + m01 m * vy v + m02 m * vz v)
          (m10 m * vx v + m11 m * vy v + m12 m * vz v)
          (m20 m * vx v + m21 m * vy v + m22 m * vz v)"

definition rotation_x :: "double \<Rightarrow> Matrix3" where
  "rotation_x radians =
     (let c = std_cos radians; s = std_sin radians
      in \<lparr>m00 = 1, m01 = 0, m02 = 0, m10 = 0, m11 = c, m12 = - s, m20 = 0, m21 = s, m22 = c\<rparr>)"

definition rotation_y :: "double \<Rightarrow> Matrix3" where
  "rotation_y radians =
     (let c = std_cos radians; s = std_sin radians
      in \<lparr>m00 = c, m01 = 0, m02 = s, m10 = 0, m11 = 1, m12 = 0, m20 = - s, m21 = 0, m22 = c\<rparr>)"

definition rotation_z :: "double \<Rightarrow> Matrix3" where
  "rotation_z radians =
     (let c = std_cos radians; s = std_sin radians
      in \<lparr>m00 = c, m01 = - s, m02 = 0, m10 = s, m11 = c, m12 = 0, m20 = 0, m21 = 0, m22 = 1\<rparr>)"

definition rotation_from_rpy :: "Vec3 \<Rightarrow> Matrix3" where
  "rotation_from_rpy rpy = sc_multiply (rotation_z (vz rpy)) (sc_multiply (rotation_y (vy rpy)) (rotation_x (vx rpy)))"

section \<open>The volume a camera senses\<close>

definition default_config_for_frame :: "FramePacket \<Rightarrow> CameraSensingConfig" where
  "default_config_for_frame frame =
     (let camera_id = (if fp_camera_id frame = [] then ''front_center'' else fp_camera_id frame)
      in CameraSensingConfig_default\<lparr>csc_camera_id := camera_id,
           csc_camera_name := (if camera_id = [] then ''front_center'' else camera_id)\<rparr>)"

definition camera_matches :: "CameraSensingConfig \<Rightarrow> string \<Rightarrow> bool" where
  "camera_matches config camera_id =
     (if camera_id = [] then csc_camera_id config = [] \<or> csc_camera_name config = ''front_center''
      else csc_camera_id config = camera_id \<or> csc_camera_name config = camera_id)"

definition find_config_or_default :: "CameraSensingConfig list \<Rightarrow> FramePacket \<Rightarrow> CameraSensingConfig" where
  "find_config_or_default configs frame =
     (case find (\<lambda>config. camera_matches config (fp_camera_id frame)) configs of
        Some config \<Rightarrow> config | None \<Rightarrow> default_config_for_frame frame)"

definition find_pointing_state :: "CameraSensingConfig \<Rightarrow> CameraPointingState list \<Rightarrow> CameraPointingState" where
  "find_pointing_state config pointing_states =
     (case find (\<lambda>s. cps_camera_id s = csc_camera_id config \<or> cps_camera_name s = csc_camera_name config) pointing_states of
        Some s \<Rightarrow> s
      | None \<Rightarrow> \<lparr>cps_camera_id = csc_camera_id config, cps_camera_name = csc_camera_name config, cps_timestamp = \<lparr>timestamp_ns = 0\<rparr>,
                 cps_pitch_rad = 0, cps_yaw_rad = 0, cps_roll_rad = 0, cps_valid = False, cps_measured = False, cps_source = ''neutral''\<rparr>)"

definition frame_or_ego_time :: "FramePacket \<Rightarrow> EgoState \<Rightarrow> TimePoint" where
  "frame_or_ego_time frame ego = (if timestamp_ns (fp_timestamp frame) \<noteq> 0 then fp_timestamp frame else ego_timestamp ego)"

text \<open>The rotation from camera to map; the pointing's yaw is left out on purpose.\<close>

definition map_R_camera :: "CameraSensingConfig \<Rightarrow> CameraPointingState \<Rightarrow> EgoState \<Rightarrow> Matrix3" where
  "map_R_camera config ps ego =
     sc_multiply (rotation_from_rpy (rotation_rpy (ego_local_T_body ego)))
       (sc_multiply (rotation_from_rpy (csc_body_T_camera_rpy_rad config))
         (rotation_from_rpy (vec3 (cps_roll_rad ps) (cps_pitch_rad ps) 0)))"

definition volume_for_frame ::
  "CameraSensingConfig list \<Rightarrow> FramePacket \<Rightarrow> EgoState \<Rightarrow> CameraPointingState list \<Rightarrow> CameraSensingVolume" where
  "volume_for_frame configs frame ego pointing_states =
     (let config = find_config_or_default configs frame;
          ps0 = find_pointing_state config pointing_states;
          ps = (if timestamp_ns (cps_timestamp ps0) = 0 then ps0\<lparr>cps_timestamp := frame_or_ego_time frame ego\<rparr> else ps0);
          body = ego_local_T_body ego; mount = csc_body_T_camera_rpy_rad config; R = map_R_camera config ps ego;
          origin = vec_add (position body) (sc_transform (rotation_from_rpy (rotation_rpy body)) (csc_body_T_camera_xyz_m config));
          current = vec3 (vx mount + cps_roll_rad ps) (vy mount + cps_pitch_rad ps) (vz mount)
      in \<lparr>csv_timestamp = frame_or_ego_time frame ego, csv_frame_id = fp_frame_id frame, csv_has_frame_id = (fp_frame_id frame \<noteq> []),
          csv_camera_id = csc_camera_id config, csv_camera_name = csc_camera_name config, csv_role = csc_role config,
          csv_map_frame_id = ego_map_frame_id ego,
          csv_body_T_camera_mount = \<lparr>position = csc_body_T_camera_xyz_m config, rotation_rpy = mount\<rparr>,
          csv_body_T_camera_current = \<lparr>position = csc_body_T_camera_xyz_m config, rotation_rpy = current\<rparr>,
          csv_map_T_camera_current = \<lparr>position = origin, rotation_rpy =
            vec3 (vx (rotation_rpy body) + vx current) (vy (rotation_rpy body) + vy current) (vz (rotation_rpy body) + vz current)\<rparr>,
          csv_intrinsics = fp_intrinsics frame,
          csv_horizontal_fov_rad = csc_horizontal_fov_rad config, csv_vertical_fov_rad = csc_vertical_fov_rad config,
          csv_near_range_m = csc_near_range_m config, csv_far_range_m = csc_far_range_m config,
          csv_min_reliable_range_m = csc_min_reliable_range_m config, csv_max_reliable_range_m = csc_max_reliable_range_m config,
          csv_origin_local = origin,
          csv_forward_axis_local = normalize_or (sc_transform R (vec3 1 0 0)) (vec3 1 0 0),
          csv_right_axis_local = normalize_or (sc_transform R (vec3 0 1 0)) (vec3 0 1 0),
          csv_up_axis_local = normalize_or (sc_transform R (vec3 0 0 (- 1))) (vec3 0 0 (- 1)),
          csv_pointing_state = ps\<rparr>)"

definition coverage_snapshot ::
  "CameraSensingConfig list \<Rightarrow> FramePacket list \<Rightarrow> EgoState \<Rightarrow> CameraPointingState list \<Rightarrow> SensingCoverageSnapshot" where
  "coverage_snapshot configs frames ego pointing_states =
     \<lparr>scs_timestamp = ego_timestamp ego, scs_map_frame_id = ego_map_frame_id ego,
      scs_camera_volumes = map (\<lambda>frame. volume_for_frame configs frame ego pointing_states) frames\<rparr>"

definition query_point_in_camera_sensing_volume :: "CameraSensingVolume \<Rightarrow> Vec3 \<Rightarrow> SensingVolumeQueryResult" where
  "query_point_in_camera_sensing_volume volume point_local =
     (let delta = vec_subtract point_local (csv_origin_local volume);
          forward_m = sc_dot delta (normalize_or (csv_forward_axis_local volume) (vec3 1 0 0));
          right_m = sc_dot delta (normalize_or (csv_right_axis_local volume) (vec3 0 1 0));
          up_m = sc_dot delta (normalize_or (csv_up_axis_local volume) (vec3 0 0 (- 1)));
          range_m = sc_norm delta;
          lateral_norm = std_sqrt (forward_m * forward_m + right_m * right_m);
          outside = (forward_m \<le> sc_epsilon \<or> range_m < csv_near_range_m volume \<or> csv_far_range_m volume < range_m);
          half_width = std_tan (csv_horizontal_fov_rad volume * Fin (1/2)) * forward_m;
          half_height = std_tan (csv_vertical_fov_rad volume * Fin (1/2)) * forward_m
      in \<lparr>sq_inside = (\<not> outside \<and> std_abs right_m \<le> half_width \<and> std_abs up_m \<le> half_height), sq_range_m = range_m,
          sq_bearing_rad = std_atan2 right_m forward_m, sq_elevation_rad = std_atan2 up_m lateral_norm,
          sq_forward_m = forward_m, sq_right_m = right_m, sq_up_m = up_m\<rparr>)"

definition to_obstacle_sensing_volume :: "CameraSensingVolume \<Rightarrow> ObstacleSensingVolume" where
  "to_obstacle_sensing_volume v =
     \<lparr>osv_timestamp = csv_timestamp v, osv_source_frame_id = csv_frame_id v, osv_has_source_frame = csv_has_frame_id v,
      osv_sensor_name = csv_camera_name v,
      osv_provider_name = (if cps_valid (csv_pointing_state v) then cps_source (csv_pointing_state v) else ''configured_camera_coverage''),
      osv_map_frame_id = csv_map_frame_id v, osv_origin_local = csv_origin_local v,
      osv_forward_axis_local = csv_forward_axis_local v, osv_right_axis_local = csv_right_axis_local v,
      osv_up_axis_local = csv_up_axis_local v, osv_near_range_m = csv_near_range_m v, osv_far_range_m = csv_far_range_m v,
      osv_horizontal_fov_rad = csv_horizontal_fov_rad v, osv_vertical_fov_rad = csv_vertical_fov_rad v,
      osv_min_reliable_range_m = csv_min_reliable_range_m v, osv_max_reliable_range_m = csv_max_reliable_range_m v,
      osv_min_surface_area_m2 = 0, osv_min_angular_size_rad = 0, osv_min_confidence = 0\<rparr>"

section \<open>The pointing of each camera\<close>

definition camera_name_matches :: "CameraPointingState \<Rightarrow> string \<Rightarrow> bool" where
  "camera_name_matches state camera_name \<longleftrightarrow> cps_camera_name state = camera_name \<or> cps_camera_id state = camera_name"

definition camera_pointing_state_from_command :: "CameraPointingCommand \<Rightarrow> string \<Rightarrow> CameraPointingState" where
  "camera_pointing_state_from_command command camera_name =
     \<lparr>cps_camera_id = camera_name, cps_camera_name = camera_name, cps_timestamp = cp_timestamp command,
      cps_pitch_rad = cp_pitch_rad command, cps_yaw_rad = cp_yaw_rad command, cps_roll_rad = 0,
      cps_valid = (cp_pitch_valid command \<or> cp_yaw_valid command), cps_measured = False, cps_source = ''camera_pointing_intent''\<rparr>"

fun replace_first :: "('a \<Rightarrow> bool) \<Rightarrow> 'a \<Rightarrow> 'a list \<Rightarrow> 'a list" where
  "replace_first P new [] = [new]"
| "replace_first P new (x # xs) = (if P x then new # xs else x # replace_first P new xs)"

definition apply_camera :: "CameraPointingCommand \<Rightarrow> string \<Rightarrow> CameraPointingState list \<Rightarrow> CameraPointingState list" where
  "apply_camera command camera_name states =
     (if camera_name = [] then states
      else replace_first (\<lambda>s. camera_name_matches s camera_name) (camera_pointing_state_from_command command camera_name) states)"

definition apply_pointing :: "CameraPointingCommand \<Rightarrow> CameraPointingState list \<Rightarrow> CameraPointingState list" where
  "apply_pointing command states = fold (apply_camera command) (cp_cameras command) states"

definition clear_pointing :: "CameraPointingState list \<Rightarrow> CameraPointingState list" where
  "clear_pointing states = []"

definition state_for_camera_name :: "CameraPointingState list \<Rightarrow> string \<Rightarrow> CameraPointingState option" where
  "state_for_camera_name states camera_name = find (\<lambda>s. camera_name_matches s camera_name) states"

end
