(* ===== verification/Depth_Projection.thy ===== *)
theory Depth_Projection
  imports Sensing_Coverage "HOL-Library.Multiset"
begin

text \<open>
  From a depth image to obstacle evidence (\<open>src/sensing/depth_projection_kernel.cpp\<close>, the CPU path): pixels
  are grouped into blocks, each block gives one voxel of evidence, planes and thin structures are searched.
  A pixel \<open>(u, v)\<close> is read at \<open>v * width + u\<close> of the image.  The library leaves open which of several equally
  distant pixels \<open>std::nth_element\<close> selects, so it is an argument with the law \<open>nth_element_laws\<close>; so is the
  random generator behind the plane search, a state with a function that draws an index below a bound.
\<close>

section \<open>Data\<close>

record ProjectionParams =
  pp_fx :: double
  pp_fy :: double
  pp_cx :: double
  pp_cy :: double
  pp_k1 :: double
  pp_k2 :: double
  pp_width :: int
  pp_height :: int
  pp_grid_cols :: int
  pp_grid_rows :: int
  pp_min_depth_m :: double
  pp_max_depth_m :: double
  pp_scale :: double
  pp_voxel_size_m :: double
  pp_origin :: Vec3
  pp_forward :: Vec3
  pp_right :: Vec3
  pp_up :: Vec3
  pp_max_evidence :: nat

record DeviceObstacleEvidence =
  de_center :: Vec3
  de_size :: Vec3
  de_normal :: Vec3
  de_confidence :: double
  de_range_m :: double
  de_state :: "8 word"
  de_shape :: "8 word"
  de_is_thin_structure_hint :: "8 word"
  de_is_surface_hint :: "8 word"

record DepthPipelineInput =
  dpi_inverse_depth :: "double list"
  dpi_width :: int
  dpi_height :: int
  dpi_scale :: double
  dpi_fx :: double
  dpi_fy :: double
  dpi_cx :: double
  dpi_cy :: double
  dpi_k1 :: double
  dpi_k2 :: double
  dpi_source_kind :: OccupancySourceKind
  dpi_sensor_name :: string
  dpi_source_provider :: string

record DepthPipelineConfig =
  dpc_grid_cols :: int
  dpc_grid_rows :: int
  dpc_min_depth_m :: double
  dpc_max_depth_m :: double
  dpc_voxel_size_m :: double
  dpc_max_evidence :: nat
  dpc_detect_surface_patches :: bool
  dpc_detect_thin_structures :: bool

type_synonym image = "double list"

definition pixel_at :: "image \<Rightarrow> int \<Rightarrow> int \<Rightarrow> int \<Rightarrow> double" where
  "pixel_at img width u v = img ! nat (v * width + u)"

section \<open>Pixels to points\<close>

definition undistort_k1k2 :: "double \<Rightarrow> double \<Rightarrow> double \<Rightarrow> double \<Rightarrow> double \<times> double" where
  "undistort_k1k2 xn yn k1 k2 =
     (let r2 = xn * xn + yn * yn; radial = 1 + k1 * r2 + k2 * r2 * r2 in (xn / radial, yn / radial))"

text \<open>The metric depth of a pixel, if it is valid and within the configured range.\<close>

definition metric_depth :: "ProjectionParams \<Rightarrow> double \<Rightarrow> double option" where
  "metric_depth p inverse_depth =
     (if \<not> isfinite inverse_depth \<or> inverse_depth \<le> 0 then None
      else let depth_m = pp_scale p / inverse_depth
           in if depth_m < pp_min_depth_m p \<or> pp_max_depth_m p < depth_m then None else Some depth_m)"

text \<open>The point a pixel shows at a depth.\<close>

definition pixel_ray :: "ProjectionParams \<Rightarrow> int \<Rightarrow> int \<Rightarrow> double \<times> double" where
  "pixel_ray p u v =
     (let xn = (Fin (of_int u) - pp_cx p) * (1 / pp_fx p); yn = (Fin (of_int v) - pp_cy p) * (1 / pp_fy p)
      in if \<not> deq (pp_k1 p) 0 \<or> \<not> deq (pp_k2 p) 0 then undistort_k1k2 xn yn (pp_k1 p) (pp_k2 p) else (xn, yn))"

definition along_axes :: "double \<Rightarrow> double \<Rightarrow> double \<Rightarrow> double \<Rightarrow> double \<Rightarrow> double \<Rightarrow> double \<Rightarrow> double" where
  "along_axes origin forward right up xc yc zc = origin + zc * forward + xc * right - yc * up"

definition point_at :: "ProjectionParams \<Rightarrow> int \<Rightarrow> int \<Rightarrow> double \<Rightarrow> Vec3" where
  "point_at p u v depth_m =
     (let xy = pixel_ray p u v; xc = fst xy * depth_m; yc = snd xy * depth_m
      in vec3 (along_axes (vx (pp_origin p)) (vx (pp_forward p)) (vx (pp_right p)) (vx (pp_up p)) xc yc depth_m)
              (along_axes (vy (pp_origin p)) (vy (pp_forward p)) (vy (pp_right p)) (vy (pp_up p)) xc yc depth_m)
              (along_axes (vz (pp_origin p)) (vz (pp_forward p)) (vz (pp_right p)) (vz (pp_up p)) xc yc depth_m))"

definition unproject :: "ProjectionParams \<Rightarrow> int \<Rightarrow> int \<Rightarrow> double \<Rightarrow> Vec3 option" where
  "unproject p u v inverse_depth = map_option (point_at p u v) (metric_depth p inverse_depth)"

section \<open>One piece of evidence per block\<close>

type_synonym CellPixel = "double \<times> int \<times> int"

definition cell_pixels :: "ProjectionParams \<Rightarrow> image \<Rightarrow> int \<Rightarrow> int \<Rightarrow> int \<Rightarrow> int \<Rightarrow> CellPixel list" where
  "cell_pixels p img u0 u1 v0 v1 =
     filter (\<lambda>(inverse_depth, _). metric_depth p inverse_depth \<noteq> None)
       (concat (map (\<lambda>v. map (\<lambda>u. (pixel_at img (pp_width p) u v, u, v)) [u0..u1 - 1]) [v0..v1 - 1]))"

definition p5_index :: "nat \<Rightarrow> nat" where
  "p5_index n_valid = nat \<lfloor>real n_valid * (1 / 20)\<rfloor>"

text \<open>After \<open>nth_element\<close> no element before position \<open>k\<close> is farther, none behind it closer than the one there.\<close>

definition nth_element_laws :: "(nat \<Rightarrow> CellPixel list \<Rightarrow> CellPixel list) \<Rightarrow> bool" where
  "nth_element_laws nth_element \<longleftrightarrow>
     (\<forall>k xs. k < length xs \<and> (\<forall>x\<in>set xs. isfinite (fst x)) \<longrightarrow> (let ys = nth_element k xs
        in mset ys = mset xs \<and>
           (\<forall>i<k. \<not> fst (ys ! i) < fst (ys ! k)) \<and> (\<forall>j<length ys. k < j \<longrightarrow> \<not> fst (ys ! k) < fst (ys ! j))))"

text \<open>The normal from the neighbours to the right and below, turned towards the camera.\<close>

definition cross3 :: "Vec3 \<Rightarrow> Vec3 \<Rightarrow> Vec3" where
  "cross3 t d = vec3 (vy t * vz d - vz t * vy d) (vz t * vx d - vx t * vz d) (vx t * vy d - vy t * vx d)"

definition norm3 :: "Vec3 \<Rightarrow> double" where
  "norm3 n = std_sqrt (vx n * vx n + vy n * vy n + vz n * vz n)"

definition facing :: "Vec3 \<Rightarrow> Vec3 \<Rightarrow> Vec3 \<Rightarrow> bool" where
  "facing n origin l \<longleftrightarrow>
     \<not> vx n * (vx origin - vx l) + vy n * (vy origin - vy l) + vz n * (vz origin - vz l) < 0"

definition vec_negate :: "Vec3 \<Rightarrow> Vec3" where
  "vec_negate n = vec3 (- vx n) (- vy n) (- vz n)"

definition surface_normal :: "ProjectionParams \<Rightarrow> image \<Rightarrow> int \<Rightarrow> int \<Rightarrow> Vec3 \<Rightarrow> Vec3" where
  "surface_normal p img u v l =
     (let r = (if u + 1 < pp_width p then unproject p (u + 1) v (pixel_at img (pp_width p) (u + 1) v) else None);
          b = (if v + 1 < pp_height p then unproject p u (v + 1) (pixel_at img (pp_width p) u (v + 1)) else None)
      in case (r, b) of
           (Some r, Some b) \<Rightarrow>
             (let n = cross3 (vec_subtract r l) (vec_subtract b l); len = norm3 n
              in if Fin (1 / 1000000) < len
                 then let n = vec3 (vx n / len) (vy n / len) (vz n / len)
                      in if facing n (pp_origin p) l then n else vec_negate n
                 else vec3_zero)
         | _ \<Rightarrow> vec3_zero)"

definition voxel_centre :: "double \<Rightarrow> double \<Rightarrow> double" where
  "voxel_centre s l = (Fin (of_int (floor_to_int (l / s))) + Fin (1/2)) * s"

definition pixel_evidence :: "ProjectionParams \<Rightarrow> image \<Rightarrow> CellPixel \<Rightarrow> DeviceObstacleEvidence" where
  "pixel_evidence p img c =
     (case c of (best_id, best_u, best_v) \<Rightarrow>
        let depth_m = pp_scale p / best_id; l = point_at p best_u best_v depth_m; s = pp_voxel_size_m p;
            edge = Fin (1/2) * s * 2
        in \<lparr>de_center = vec3 (voxel_centre s (vx l)) (voxel_centre s (vy l)) (voxel_centre s (vz l)),
            de_size = vec3 edge edge edge, de_normal = surface_normal p img best_u best_v l,
            de_confidence = Fin (3/4), de_range_m = depth_m, de_state = 2, de_shape = 3,
            de_is_thin_structure_hint = 0, de_is_surface_hint = 1\<rparr>)"

definition best_pixel :: "(nat \<Rightarrow> CellPixel list \<Rightarrow> CellPixel list) \<Rightarrow> CellPixel list \<Rightarrow> CellPixel" where
  "best_pixel nth_element cells = nth_element (p5_index (length cells)) cells ! p5_index (length cells)"

definition block_pixels :: "ProjectionParams \<Rightarrow> image \<Rightarrow> int \<Rightarrow> int \<Rightarrow> CellPixel list" where
  "block_pixels p img gr gc =
     (let BW = pp_width p div pp_grid_cols p; BH = pp_height p div pp_grid_rows p; v0 = gr * BH; u0 = gc * BW
      in cell_pixels p img u0 (min (u0 + BW) (pp_width p)) v0 (min (v0 + BH) (pp_height p)))"

text \<open>The two loops over the blocks stop when the output is full.\<close>

fun project_row :: "(nat \<Rightarrow> CellPixel list \<Rightarrow> CellPixel list) \<Rightarrow> ProjectionParams \<Rightarrow> image \<Rightarrow> int \<Rightarrow> int list \<Rightarrow>
    DeviceObstacleEvidence list \<Rightarrow> DeviceObstacleEvidence list" where
  "project_row ne p img gr [] out = out"
| "project_row ne p img gr (gc # gcs) out =
     (if pp_max_evidence p \<le> length out then out
      else let cells = block_pixels p img gr gc
           in if cells = [] then project_row ne p img gr gcs out
              else project_row ne p img gr gcs (out @ [pixel_evidence p img (best_pixel ne cells)]))"

fun project_rows :: "(nat \<Rightarrow> CellPixel list \<Rightarrow> CellPixel list) \<Rightarrow> ProjectionParams \<Rightarrow> image \<Rightarrow> int list \<Rightarrow>
    DeviceObstacleEvidence list \<Rightarrow> DeviceObstacleEvidence list" where
  "project_rows ne p img [] out = out"
| "project_rows ne p img (gr # grs) out =
     (if pp_max_evidence p \<le> length out then out
      else project_rows ne p img grs (project_row ne p img gr [0..pp_grid_cols p - 1] out))"

definition project_depth_to_device_evidence ::
  "(nat \<Rightarrow> CellPixel list \<Rightarrow> CellPixel list) \<Rightarrow> image \<Rightarrow> ProjectionParams \<Rightarrow> DeviceObstacleEvidence list" where
  "project_depth_to_device_evidence ne img p =
     (if pp_fx p \<le> 0 \<or> pp_fy p \<le> 0 \<or> pp_scale p \<le> 0 then []
      else if pp_grid_cols p \<le> 0 \<or> pp_grid_rows p \<le> 0 then []
      else if pp_width p div pp_grid_cols p \<le> 0 \<or> pp_height p div pp_grid_rows p \<le> 0 then []
      else project_rows ne p img [0..pp_grid_rows p - 1] [])"

end
