(* ===== verification/Depth_Pipeline.thy ===== *)
theory Depth_Pipeline
  imports Depth_Projection
begin

text \<open>
  The rest of \<open>depth_projection_kernel.cpp\<close>: planes by random sampling, thin structures by connected
  components, and the pipeline the depth providers share, with the two providers that only adapt their input
  to it (\<open>airsim_emulation_depth_obstacle_detector.cpp\<close> and \<open>visual_depth_obstacle_detector.cpp\<close>, without their diagnostics;
  the neural engine is an argument).  Redrawing an index may go on forever, so the plane search returns an option.
\<close>

section \<open>Planes\<close>

record Plane =
  pl_nx :: double
  pl_ny :: double
  pl_nz :: double
  pl_d :: double

definition fit_plane_3pts :: "Vec3 \<Rightarrow> Vec3 \<Rightarrow> Vec3 \<Rightarrow> Plane option" where
  "fit_plane_3pts a b c =
     (let n = cross3 (vec_subtract b a) (vec_subtract c a); len = norm3 n
      in if len < Fin (1 / 1000000) then None
         else let nx = vx n / len; ny = vy n / len; nz = vz n / len
              in Some \<lparr>pl_nx = nx, pl_ny = ny, pl_nz = nz, pl_d = - (nx * vx a + ny * vy a + nz * vz a)\<rparr>)"

definition plane_dist :: "Plane \<Rightarrow> Vec3 \<Rightarrow> double" where
  "plane_dist p q = std_abs (pl_nx p * vx q + pl_ny p * vy q + pl_nz p * vz q + pl_d p)"

definition centroid :: "Vec3 list \<Rightarrow> Vec3" where
  "centroid pts =
     (let s = fold (\<lambda>p c. vec3 (vx c + vx p) (vy c + vy p) (vz c + vz p)) pts vec3_zero; n = Fin (real (length pts))
      in vec3 (vx s / n) (vy s / n) (vz s / n))"

record Scatter =
  sxx :: double
  sxy :: double
  sxz :: double
  syy :: double
  syz :: double
  szz :: double

definition scatter_step :: "Vec3 \<Rightarrow> Vec3 \<Rightarrow> Scatter \<Rightarrow> Scatter" where
  "scatter_step c p s =
     (let dx = vx p - vx c; dy = vy p - vy c; dz = vz p - vz c
      in \<lparr>sxx = sxx s + dx * dx, sxy = sxy s + dx * dy, sxz = sxz s + dx * dz,
          syy = syy s + dy * dy, syz = syz s + dy * dz, szz = szz s + dz * dz\<rparr>)"

fun power_iteration :: "nat \<Rightarrow> Scatter \<Rightarrow> Vec3 \<Rightarrow> Vec3" where
  "power_iteration 0 s n = n"
| "power_iteration (Suc k) s n =
     (let t = sxx s + syy s + szz s;
          wx = (t - sxx s) * vx n - sxy s * vy n - sxz s * vz n;
          wy = - sxy s * vx n + (t - syy s) * vy n - syz s * vz n;
          wz = - sxz s * vx n - syz s * vy n + (t - szz s) * vz n;
          wlen = norm3 (vec3 wx wy wz)
      in if wlen < Fin (1 / 100000000) then n else power_iteration k s (vec3 (wx / wlen) (wy / wlen) (wz / wlen)))"

definition fit_plane_ls :: "Vec3 list \<Rightarrow> Plane option" where
  "fit_plane_ls pts =
     (if length pts < 3 then None
      else let c = centroid pts; s = fold (scatter_step c) pts \<lparr>sxx = 0, sxy = 0, sxz = 0, syy = 0, syz = 0, szz = 0\<rparr>;
               start = (if sxx s \<le> syy s \<and> sxx s \<le> szz s then vec3 1 0 0
                        else if syy s \<le> sxx s \<and> syy s \<le> szz s then vec3 0 1 0 else vec3 0 0 1);
               n = power_iteration 16 s start; len = norm3 n
           in if len < Fin (1 / 1000000) then None
              else let nx = vx n / len; ny = vy n / len; nz = vz n / len
                   in Some \<lparr>pl_nx = nx, pl_ny = ny, pl_nz = nz, pl_d = - (nx * vx c + ny * vy c + nz * vz c)\<rparr>)"

partial_function (option) redraw :: "('g \<Rightarrow> nat \<Rightarrow> nat \<times> 'g) \<Rightarrow> nat \<Rightarrow> nat set \<Rightarrow> nat \<Rightarrow> 'g \<Rightarrow> (nat \<times> 'g) option" where
  "redraw dist_rng n taken i g =
     (if i \<in> taken then redraw dist_rng n taken (fst (dist_rng g n)) (snd (dist_rng g n)) else Some (i, g))"

definition draw_three :: "('g \<Rightarrow> nat \<Rightarrow> nat \<times> 'g) \<Rightarrow> nat \<Rightarrow> 'g \<Rightarrow> (nat \<times> nat \<times> nat \<times> 'g) option" where
  "draw_three dist_rng n g =
     (let (ia, g) = dist_rng g n; (ib, g) = dist_rng g n; (ic, g) = dist_rng g n
      in case redraw dist_rng n {ia} ib g of None \<Rightarrow> None
         | Some (ib, g) \<Rightarrow> (case redraw dist_rng n {ia, ib} ic g of None \<Rightarrow> None | Some (ic, g) \<Rightarrow> Some (ia, ib, ic, g)))"

definition count_inliers :: "double \<Rightarrow> Plane \<Rightarrow> Vec3 list \<Rightarrow> nat" where
  "count_inliers threshold p pts = length (filter (\<lambda>q. plane_dist p q < threshold) pts)"

text \<open>The best plane so far with its number of inliers; \<open>None\<close> until one is found.\<close>

definition keep_better :: "double \<Rightarrow> Vec3 list \<Rightarrow> Plane option \<Rightarrow> (Plane \<times> nat) option \<Rightarrow> (Plane \<times> nat) option" where
  "keep_better threshold pts plane best =
     (case plane of None \<Rightarrow> best
      | Some p \<Rightarrow> (let cnt = count_inliers threshold p pts
                   in if (case best of None \<Rightarrow> 0 | Some (_, best_count) \<Rightarrow> best_count) < cnt then Some (p, cnt) else best))"

fun ransac :: "('g \<Rightarrow> nat \<Rightarrow> nat \<times> 'g) \<Rightarrow> double \<Rightarrow> Vec3 list \<Rightarrow> nat \<Rightarrow> (Plane \<times> nat) option \<Rightarrow> 'g \<Rightarrow> ((Plane \<times> nat) option \<times> 'g) option" where
  "ransac dist_rng threshold pts 0 best g = Some (best, g)"
| "ransac dist_rng threshold pts (Suc iters) best g =
     (case draw_three dist_rng (length pts) g of
        None \<Rightarrow> None
      | Some (ia, ib, ic, g) \<Rightarrow>
          ransac dist_rng threshold pts iters (keep_better threshold pts (fit_plane_3pts (pts ! ia) (pts ! ib) (pts ! ic)) best) g)"

definition plane_normal :: "Plane \<Rightarrow> Vec3" where
  "plane_normal p = vec3 (pl_nx p) (pl_ny p) (pl_nz p)"

text \<open>The refined plane of a patch, its normal turned towards the camera; \<open>d\<close> is left as it was.\<close>

definition patch_plane :: "ProjectionParams \<Rightarrow> Plane \<Rightarrow> Vec3 list \<Rightarrow> Plane" where
  "patch_plane params best inliers =
     (let p = (case fit_plane_ls inliers of Some refined \<Rightarrow> refined | None \<Rightarrow> best)
      in if facing (plane_normal p) (pp_origin params) (hd inliers) then p
         else p\<lparr>pl_nx := - pl_nx p, pl_ny := - pl_ny p, pl_nz := - pl_nz p\<rparr>)"

definition patch_evidence :: "ProjectionParams \<Rightarrow> Plane \<Rightarrow> Vec3 list \<Rightarrow> nat \<Rightarrow> DeviceObstacleEvidence" where
  "patch_evidence params p inliers n =
     \<lparr>de_center = centroid inliers, de_size = vec3 (pp_voxel_size_m params) (pp_voxel_size_m params) (pp_voxel_size_m params),
      de_normal = plane_normal p, de_confidence = Fin (real (length inliers)) / Fin (real n), de_range_m = std_abs (pl_d p),
      de_state = 2, de_shape = 3, de_is_thin_structure_hint = 0, de_is_surface_hint = 1\<rparr>"

fun patch_loop :: "('g \<Rightarrow> nat \<Rightarrow> nat \<times> 'g) \<Rightarrow> ProjectionParams \<Rightarrow> nat \<Rightarrow> nat \<Rightarrow> Vec3 list \<Rightarrow> DeviceObstacleEvidence list \<Rightarrow> 'g \<Rightarrow>
    (DeviceObstacleEvidence list \<times> 'g) option" where
  "patch_loop dist_rng params min_inliers 0 pts out g = Some (out, g)"
| "patch_loop dist_rng params min_inliers (Suc patches) pts out g =
     (if length pts < 3 then Some (out, g)
      else case ransac dist_rng (pp_voxel_size_m params) pts 100 None g of
             None \<Rightarrow> None
           | Some (None, g) \<Rightarrow> Some (out, g)
           | Some (Some (best, best_count), g) \<Rightarrow>
               if best_count < min_inliers then Some (out, g)
               else let threshold = pp_voxel_size_m params; inliers = filter (\<lambda>q. plane_dist best q < threshold) pts;
                        p = patch_plane params best inliers
                    in patch_loop dist_rng params min_inliers patches (filter (\<lambda>q. \<not> plane_dist p q < threshold) pts)
                         (out @ [patch_evidence params p inliers (length pts)]) g)"

definition fit_surface_patches_device ::
  "('g \<Rightarrow> nat \<Rightarrow> nat \<times> 'g) \<Rightarrow> 'g \<Rightarrow> DeviceObstacleEvidence list \<Rightarrow> ProjectionParams \<Rightarrow> DeviceObstacleEvidence list option" where
  "fit_surface_patches_device dist_rng rng evidence params =
     (if length evidence < 3 then Some []
      else map_option fst (patch_loop dist_rng params (max 3 (length evidence div 10)) 3 (map de_center evidence) [] rng))"

section \<open>Thin structures\<close>

definition safe_depth_m :: "ProjectionParams \<Rightarrow> double \<Rightarrow> double" where
  "safe_depth_m p dr =
     (if \<not> isfinite dr \<or> dr \<le> 0 then pp_max_depth_m p
      else let d = pp_scale p / dr in if pp_min_depth_m p \<le> d \<and> d \<le> pp_max_depth_m p then d else pp_max_depth_m p)"

definition in_image :: "int \<Rightarrow> int \<Rightarrow> int \<Rightarrow> int \<Rightarrow> bool" where
  "in_image W H u v \<longleftrightarrow> \<not> (u < 0 \<or> W \<le> u \<or> v < 0 \<or> H \<le> v)"

definition neighbourhood :: "(int \<times> int) list" where
  "neighbourhood = filter (\<lambda>(du, dv). \<not> (du = 0 \<and> dv = 0)) (concat (map (\<lambda>dv. map (\<lambda>du. (du, dv)) [-2..2]) [-2..2]))"

definition local_max_depth :: "image \<Rightarrow> int \<Rightarrow> int \<Rightarrow> int \<Rightarrow> int \<Rightarrow> ProjectionParams \<Rightarrow> double" where
  "local_max_depth img W H u v p =
     fold (\<lambda>(du, dv) mx. if in_image W H (u + du) (v + dv)
                         then let d = safe_depth_m p (pixel_at img W (u + du) (v + dv)) in if mx < d then d else mx
                         else mx) neighbourhood 0"

definition thin_candidate :: "image \<Rightarrow> ProjectionParams \<Rightarrow> int \<Rightarrow> int \<Rightarrow> bool" where
  "thin_candidate img p u v =
     (let W = pp_width p; H = pp_height p
      in 2 \<le> v \<and> v < H - 2 \<and> 2 \<le> u \<and> u < W - 2 \<and>
         (case metric_depth p (pixel_at img W u v) of
            None \<Rightarrow> False
          | Some dm \<Rightarrow> (let lmax = local_max_depth img W H u v p
                        in \<not> lmax < dm + 1 \<and> \<not> lmax * Fin (7/10) \<le> dm)))"

definition thin_mask :: "image \<Rightarrow> ProjectionParams \<Rightarrow> bool list" where
  "thin_mask img p =
     map (\<lambda>i. thin_candidate img p (int i mod pp_width p) (int i div pp_width p)) [0..<nat (pp_width p) * nat (pp_height p)]"

text \<open>Breadth-first search over the msk with four neighbours.\<close>

definition bit_at :: "bool list \<Rightarrow> int \<Rightarrow> int \<Rightarrow> int \<Rightarrow> bool" where
  "bit_at m W u v = m ! nat (v * W + u)"

definition bfs_neighbour :: "bool list \<Rightarrow> int \<Rightarrow> int \<Rightarrow> int \<times> int \<Rightarrow> bool list \<times> (int \<times> int) list \<Rightarrow> bool list \<times> (int \<times> int) list" where
  "bfs_neighbour msk W H n s =
     (case (n, s) of ((nu, nv), (visited, q)) \<Rightarrow>
        if \<not> in_image W H nu nv \<or> \<not> bit_at msk W nu nv \<or> bit_at visited W nu nv then (visited, q)
        else (visited[nat (nv * W + nu) := True], q @ [(nu, nv)]))"

definition four_neighbours :: "int \<times> int \<Rightarrow> (int \<times> int) list" where
  "four_neighbours c = (case c of (u, v) \<Rightarrow> [(u + 1, v), (u - 1, v), (u, v + 1), (u, v - 1)])"

partial_function (option) bfs_loop :: "bool list \<Rightarrow> int \<Rightarrow> int \<Rightarrow> bool list \<Rightarrow> (int \<times> int) list \<Rightarrow> (int \<times> int) list \<Rightarrow>
    ((int \<times> int) list \<times> bool list) option" where
  "bfs_loop msk W H visited q component =
     (case q of [] \<Rightarrow> Some (component, visited)
      | c # q' \<Rightarrow> bfs_loop msk W H (fst (fold (bfs_neighbour msk W H) (four_neighbours c) (visited, q')))
                    (snd (fold (bfs_neighbour msk W H) (four_neighbours c) (visited, q'))) (component @ [c]))"

definition bfs_component :: "bool list \<Rightarrow> bool list \<Rightarrow> int \<Rightarrow> int \<Rightarrow> int \<Rightarrow> int \<Rightarrow> ((int \<times> int) list \<times> bool list) option" where
  "bfs_component msk visited W H u0 v0 = bfs_loop msk W H (visited[nat (v0 * W + u0) := True]) [(u0, v0)] []"

text \<open>The depth reading at an end of the structure, or the one of a masked neighbour in its row.\<close>

definition best_dr :: "image \<Rightarrow> bool list \<Rightarrow> int \<Rightarrow> int \<Rightarrow> int \<Rightarrow> double" where
  "best_dr img msk W pu pv =
     (let dr0 = pixel_at img W pu pv
      in if \<not> isfinite dr0 \<or> dr0 \<le> 0
         then (case find (\<lambda>nu. \<not> (nu < 0 \<or> W \<le> nu) \<and> bit_at msk W nu pv) [pu - 1, pu, pu + 1] of
                 Some nu \<Rightarrow> pixel_at img W nu pv | None \<Rightarrow> dr0)
         else dr0)"

record BoundingBox =
  bb_u_min :: int
  bb_u_max :: int
  bb_v_min :: int
  bb_v_max :: int

definition bounding_box :: "int \<Rightarrow> int \<Rightarrow> (int \<times> int) list \<Rightarrow> BoundingBox" where
  "bounding_box W H component =
     fold (\<lambda>(pu, pv) b. \<lparr>bb_u_min = min (bb_u_min b) pu, bb_u_max = max (bb_u_max b) pu,
                           bb_v_min = min (bb_v_min b) pv, bb_v_max = max (bb_v_max b) pv\<rparr>)
       component \<lparr>bb_u_min = W, bb_u_max = 0, bb_v_min = H, bb_v_max = 0\<rparr>"

definition box_width :: "BoundingBox \<Rightarrow> int" where
  "box_width b = bb_u_max b - bb_u_min b + 1"

definition box_height :: "BoundingBox \<Rightarrow> int" where
  "box_height b = bb_v_max b - bb_v_min b + 1"

definition box_aspect :: "BoundingBox \<Rightarrow> double" where
  "box_aspect b = Fin (of_int (max (box_width b) (box_height b))) / Fin (of_int (max 1 (min (box_width b) (box_height b))))"

text \<open>The two end pixels along the longer side of the box.\<close>

definition box_ends :: "BoundingBox \<Rightarrow> (int \<times> int) \<times> (int \<times> int)" where
  "box_ends b =
     (if box_width b \<le> box_height b
      then let ua = (bb_u_min b + bb_u_max b) div 2 in ((ua, bb_v_min b), (ua, bb_v_max b))
      else let va = (bb_v_min b + bb_v_max b) div 2 in ((bb_u_min b, va), (bb_u_max b, va)))"

definition segment_evidence :: "double \<Rightarrow> Vec3 \<Rightarrow> Vec3 \<Rightarrow> DeviceObstacleEvidence option" where
  "segment_evidence aspect a b =
     (let h = vec3 ((vx b - vx a) * Fin (1/2)) ((vy b - vy a) * Fin (1/2)) ((vz b - vz a) * Fin (1/2));
          segment_length = 2 * norm3 h; inv_len = 1 / (segment_length * Fin (1/2))
      in if segment_length < Fin (1/100) then None
         else Some \<lparr>de_center = vec3 ((vx a + vx b) * Fin (1/2)) ((vy a + vy b) * Fin (1/2)) ((vz a + vz b) * Fin (1/2)),
                    de_size = h, de_normal = vec3 (vx h * inv_len) (vy h * inv_len) (vz h * inv_len),
                    de_confidence = std_min 1 (aspect / 10), de_range_m = segment_length, de_state = 3, de_shape = 4,
                    de_is_thin_structure_hint = 1, de_is_surface_hint = 0\<rparr>)"

definition component_evidence :: "image \<Rightarrow> ProjectionParams \<Rightarrow> bool list \<Rightarrow> (int \<times> int) list \<Rightarrow> DeviceObstacleEvidence option" where
  "component_evidence img p msk component =
     (if length component < 4 then None
      else let W = pp_width p; b = bounding_box W (pp_height p) component; aspect = box_aspect b
           in if aspect < Fin (5/2) then None
              else case box_ends b of ((ua, va), (ub, vb)) \<Rightarrow>
                (case (unproject p ua va (best_dr img msk W ua va), unproject p ub vb (best_dr img msk W ub vb)) of
                   (Some a, Some b) \<Rightarrow> segment_evidence aspect a b
                 | _ \<Rightarrow> None))"

fun thin_scan :: "image \<Rightarrow> ProjectionParams \<Rightarrow> bool list \<Rightarrow> (int \<times> int) list \<Rightarrow> bool list \<Rightarrow> DeviceObstacleEvidence list \<Rightarrow>
    DeviceObstacleEvidence list option" where
  "thin_scan img p msk [] visited out = Some out"
| "thin_scan img p msk ((u, v) # pixels) visited out =
     (if 8 \<le> length out then Some out
      else if \<not> bit_at msk (pp_width p) u v \<or> bit_at visited (pp_width p) u v then thin_scan img p msk pixels visited out
      else case bfs_component msk visited (pp_width p) (pp_height p) u v of
             None \<Rightarrow> None
           | Some (component, visited) \<Rightarrow>
               thin_scan img p msk pixels visited
                 (out @ (case component_evidence img p msk component of None \<Rightarrow> [] | Some e \<Rightarrow> [e])))"

definition image_pixels :: "int \<Rightarrow> int \<Rightarrow> (int \<times> int) list" where
  "image_pixels W H = concat (map (\<lambda>v. map (\<lambda>u. (u, v)) [0..W - 1]) [0..H - 1])"

definition detect_thin_structures_device :: "image \<Rightarrow> ProjectionParams \<Rightarrow> DeviceObstacleEvidence list option" where
  "detect_thin_structures_device img p =
     (if pp_width p < 5 \<or> pp_height p < 5 then Some []
      else thin_scan img p (thin_mask img p) (image_pixels (pp_width p) (pp_height p))
             (replicate (nat (pp_width p) * nat (pp_height p)) False) [])"

section \<open>Evidence records\<close>

text \<open>The casts to the enumerations; a number that is no enumerator, which no kernel writes, reads as the first one.\<close>

definition evidence_state_of :: "8 word \<Rightarrow> ObstacleEvidenceState" where
  "evidence_state_of n = (if n = 1 then EvFree else if n = 2 then EvOccupied else if n = 3 then EvThinStructureRisk else EvUnknown)"

definition evidence_shape_of :: "8 word \<Rightarrow> ObstacleEvidenceShape" where
  "evidence_shape_of n = (if n = 1 then FrustumBin else if n = 2 then RaySegment else if n = 3 then SurfacePatch
     else if n = 4 then LineSegment else if n = 5 then Capsule else Voxel)"

definition inflate_one :: "string \<Rightarrow> string \<Rightarrow> OccupancySourceKind \<Rightarrow> MapFrameId \<Rightarrow> TimePoint \<Rightarrow> DeviceObstacleEvidence \<Rightarrow> ObstacleEvidence" where
  "inflate_one sensor_name source_provider source_kind map_frame_id timestamp src =
     (let ev = ObstacleEvidence_default\<lparr>ev_timestamp := timestamp, ev_sensor_name := sensor_name, ev_source_provider := source_provider,
                 ev_source_kind := source_kind, ev_map_frame_id := map_frame_id, ev_state := evidence_state_of (de_state src),
                 ev_shape := evidence_shape_of (de_shape src), ev_center_local := de_center src\<rparr>;
          c = de_center src; s = de_size src;
          ev = (if de_shape src = 4
                then ev\<lparr>ev_endpoint_a_local := vec3 (vx c - vx s) (vy c - vy s) (vz c - vz s),
                        ev_endpoint_b_local := vec3 (vx c + vx s) (vy c + vy s) (vz c + vz s),
                        ev_size_m := vec3 (std_abs (vx s) * 2) (std_abs (vy s) * 2) (std_abs (vz s) * 2)\<rparr>
                else ev\<lparr>ev_size_m := s\<rparr>);
          n = de_normal src; nsq = vx n * vx n + vy n * vy n + vz n * vz n;
          ev = (if Fin (1/2) < nsq
                then ev\<lparr>ev_has_surface_normal := True, ev_surface_normal_local := n, ev_normal_confidence := de_confidence src\<rparr>
                else ev\<lparr>ev_has_surface_normal := False\<rparr>)
      in ev\<lparr>ev_confidence := de_confidence src, ev_occupancy_probability := de_confidence src, ev_range_m := de_range_m src,
            ev_is_thin_structure_hint := (de_is_thin_structure_hint src \<noteq> 0), ev_is_surface_hint := (de_is_surface_hint src \<noteq> 0),
            ev_inside_sensing_volume := True\<rparr>)"

definition inflate :: "DeviceObstacleEvidence list \<Rightarrow> string \<Rightarrow> string \<Rightarrow> OccupancySourceKind \<Rightarrow> MapFrameId \<Rightarrow> TimePoint \<Rightarrow> ObstacleEvidence list" where
  "inflate evidence sensor_name source_provider source_kind map_frame_id timestamp =
     map (inflate_one sensor_name source_provider source_kind map_frame_id timestamp) evidence"

definition metric_to_inverse_depth :: "double list \<Rightarrow> nat \<Rightarrow> double \<Rightarrow> double list" where
  "metric_to_inverse_depth depth_m n k =
     map (\<lambda>dm. if Fin (1 / 1000000) < dm then k / dm else k / Fin (1 / 1000000)) (take n depth_m)"

section \<open>The pipeline\<close>

definition projection_params :: "DepthPipelineInput \<Rightarrow> DepthPipelineConfig \<Rightarrow> CameraSensingVolume \<Rightarrow> ProjectionParams" where
  "projection_params inp cfg sv =
     \<lparr>pp_fx = dpi_fx inp, pp_fy = dpi_fy inp, pp_cx = dpi_cx inp, pp_cy = dpi_cy inp, pp_k1 = dpi_k1 inp, pp_k2 = dpi_k2 inp,
      pp_width = dpi_width inp, pp_height = dpi_height inp, pp_grid_cols = dpc_grid_cols cfg, pp_grid_rows = dpc_grid_rows cfg,
      pp_min_depth_m = dpc_min_depth_m cfg, pp_max_depth_m = dpc_max_depth_m cfg, pp_scale = dpi_scale inp,
      pp_voxel_size_m = dpc_voxel_size_m cfg, pp_origin = csv_origin_local sv, pp_forward = csv_forward_axis_local sv,
      pp_right = csv_right_axis_local sv, pp_up = csv_up_axis_local sv, pp_max_evidence = dpc_max_evidence cfg mod 2 ^ 32\<rparr>"

text \<open>Appends to the buffer while there is room.\<close>

definition append_up_to :: "nat \<Rightarrow> 'a list \<Rightarrow> 'a list \<Rightarrow> 'a list" where
  "append_up_to max_count buf extra = buf @ take (max_count - length buf) extra"

definition stamp_bearing :: "CameraSensingVolume \<Rightarrow> ObstacleEvidence \<Rightarrow> ObstacleEvidence" where
  "stamp_bearing sv ev =
     (let d = vec_subtract (ev_center_local ev) (csv_origin_local sv); fwd = sc_dot d (csv_forward_axis_local sv);
          right = sc_dot d (csv_right_axis_local sv); up = sc_dot d (csv_up_axis_local sv)
      in ev\<lparr>ev_bearing_rad := std_atan2 right fwd, ev_elevation_rad := std_atan2 up (std_hypot fwd right)\<rparr>)"

text \<open>
  The buffer for the evidence is allocated at the configured size; whether that succeeds is for the environment to say, and if
  it does not the constructor throws.  An image shorter than its size is read past its end, which is undefined; it is an error here.
\<close>

definition run_depth_pipeline :: "(nat \<Rightarrow> bool) \<Rightarrow> (nat \<Rightarrow> CellPixel list \<Rightarrow> CellPixel list) \<Rightarrow> ('g \<Rightarrow> nat \<Rightarrow> nat \<times> 'g) \<Rightarrow> 'g \<Rightarrow>
    DepthPipelineInput \<Rightarrow> EgoSensingFrame \<Rightarrow> DepthPipelineConfig \<Rightarrow> ObstacleEvidence list result option" where
  "run_depth_pipeline alloc ne dist_rng rng inp ego_frame cfg =
     (if dpi_inverse_depth inp = [] \<or> dpi_width inp \<le> 0 \<or> dpi_height inp \<le> 0 then Some (Inr [])
      else if dpi_fx inp \<le> 0 \<or> dpi_fy inp \<le> 0 \<or> dpi_scale inp \<le> 0 then Some (Inr [])
      else if \<not> alloc (dpc_max_evidence cfg) then Some (Inl ''bad_alloc'')
      else if int (length (dpi_inverse_depth inp)) < dpi_width inp * dpi_height inp then Some (Inl ''undefined'')
      else let sv = esf_sensing_volume ego_frame; p = projection_params inp cfg sv; img = dpi_inverse_depth inp;
               cap = dpc_max_evidence cfg mod 2 ^ 32; buf = project_depth_to_device_evidence ne img p
           in case (if dpc_detect_surface_patches cfg \<and> 0 < length buf then fit_surface_patches_device dist_rng rng buf p else Some []) of
                None \<Rightarrow> None
              | Some patches \<Rightarrow>
                  (case (if dpc_detect_thin_structures cfg then detect_thin_structures_device img p else Some []) of
                     None \<Rightarrow> None
                   | Some thin \<Rightarrow>
                       Some (Inr (map (stamp_bearing sv)
                         (inflate (append_up_to cap (append_up_to cap buf patches) thin) (dpi_sensor_name inp) (dpi_source_provider inp)
                            (dpi_source_kind inp) (ego_map_frame_id (esf_ego ego_frame)) (fp_timestamp (esf_frame ego_frame)))))))"

section \<open>The providers\<close>

text \<open>The fields the two detector configurations share; the metric scale is a field of the one and a constructor argument of the other.\<close>

record DepthDetectorConfig =
  ddc_depth_grid_cols :: nat
  ddc_depth_grid_rows :: nat
  ddc_min_depth_m :: double
  ddc_max_depth_m :: double
  ddc_voxel_size_m :: double
  ddc_confidence :: double
  ddc_max_evidence :: nat
  ddc_detect_surface_patches :: bool
  ddc_detect_thin_structures :: bool
  ddc_scale :: double

definition pipeline_config :: "DepthDetectorConfig \<Rightarrow> DepthPipelineConfig" where
  "pipeline_config cfg =
     \<lparr>dpc_grid_cols = int (ddc_depth_grid_cols cfg), dpc_grid_rows = int (ddc_depth_grid_rows cfg), dpc_min_depth_m = ddc_min_depth_m cfg,
      dpc_max_depth_m = ddc_max_depth_m cfg, dpc_voxel_size_m = ddc_voxel_size_m cfg, dpc_max_evidence = ddc_max_evidence cfg,
      dpc_detect_surface_patches = ddc_detect_surface_patches cfg, dpc_detect_thin_structures = ddc_detect_thin_structures cfg\<rparr>"

text \<open>Intrinsics from the field of view.\<close>

definition provider_input :: "double list \<Rightarrow> int \<Rightarrow> int \<Rightarrow> double \<Rightarrow> OccupancySourceKind \<Rightarrow> string \<Rightarrow> string \<Rightarrow> EgoSensingFrame \<Rightarrow> DepthPipelineInput" where
  "provider_input inverse_depth width height k source_kind sensor_name provider ego_frame =
     (let sv = esf_sensing_volume ego_frame; cx = (Fin (of_int width) - 1) * Fin (1/2); cy = (Fin (of_int height) - 1) * Fin (1/2)
      in \<lparr>dpi_inverse_depth = inverse_depth, dpi_width = width, dpi_height = height, dpi_scale = k,
          dpi_fx = cx / std_tan (csv_horizontal_fov_rad sv * Fin (1/2)), dpi_fy = cy / std_tan (csv_vertical_fov_rad sv * Fin (1/2)),
          dpi_cx = cx, dpi_cy = cy,
          dpi_k1 = ci_distortion_k1 (fp_intrinsics (esf_frame ego_frame)), dpi_k2 = ci_distortion_k2 (fp_intrinsics (esf_frame ego_frame)),
          dpi_source_kind = source_kind, dpi_sensor_name = sensor_name, dpi_source_provider = provider\<rparr>)"

text \<open>What a detector caches for the debug views: the last input, whether there is one, and the pitch of the camera.\<close>

record DepthDetector =
  dd_last_input :: "DepthPipelineInput option"
  dd_last_pitch_deg :: double
  dd_last_has_result :: bool

definition airsim_depth_detect :: "(nat \<Rightarrow> bool) \<Rightarrow> (nat \<Rightarrow> CellPixel list \<Rightarrow> CellPixel list) \<Rightarrow> ('g \<Rightarrow> nat \<Rightarrow> nat \<times> 'g) \<Rightarrow> 'g \<Rightarrow>
    DepthDetectorConfig \<Rightarrow> EgoSensingFrame \<Rightarrow> DepthDetector \<Rightarrow> (ObstacleEvidence list result \<times> DepthDetector) option" where
  "airsim_depth_detect alloc ne dist_rng rng cfg ego_frame st =
     (case fp_depth_frame (esf_frame ego_frame) of
        None \<Rightarrow> Some (Inr [], st)
      | Some df \<Rightarrow>
          (let sv = esf_sensing_volume ego_frame; n = nat (df_width df) * nat (df_height df)
           in if df_sensor_name df \<noteq> [] \<and> csv_camera_name sv \<noteq> [] \<and> df_sensor_name df \<noteq> csv_camera_name sv
                then Some (Inr [], st\<lparr>dd_last_has_result := False\<rparr>)
              else if n = 0 \<or> length (df_depth_m df) < n then Some (Inr [], st\<lparr>dd_last_has_result := False\<rparr>)
              else let inp = provider_input (metric_to_inverse_depth (df_depth_m df) n (ddc_scale cfg)) (df_width df) (df_height df)
                               (ddc_scale cfg) AirSimGroundTruthVisualEmulation (df_sensor_name df) ''airsim_gt_vd'' ego_frame
                   in map_option (\<lambda>evs. (evs, st\<lparr>dd_last_input := Some inp, dd_last_has_result := True\<rparr>))
                        (run_depth_pipeline alloc ne dist_rng rng inp ego_frame (pipeline_config cfg))))"

record DepthInferenceResult =
  dir_width :: int
  dir_height :: int
  dir_inverse_depth :: "double list"
  dir_valid :: bool

definition visual_input :: "DepthInferenceResult \<Rightarrow> double \<Rightarrow> EgoSensingFrame \<Rightarrow> DepthPipelineInput" where
  "visual_input inferred k ego_frame =
     provider_input (dir_inverse_depth inferred) (dir_width inferred) (dir_height inferred) k
       VisualObstacleDetector (csv_camera_name (esf_sensing_volume ego_frame)) ''visual_depth_obstacle_detector'' ego_frame"

fun std_asin :: "double \<Rightarrow> double" where
  "std_asin (Fin x) = (if - 1 \<le> x \<and> x \<le> 1 then Fin (arcsin x) else NaN)"
| "std_asin _ = NaN"

definition visual_depth_detect :: "(nat \<Rightarrow> bool) \<Rightarrow> (nat \<Rightarrow> CellPixel list \<Rightarrow> CellPixel list) \<Rightarrow> ('g \<Rightarrow> nat \<Rightarrow> nat \<times> 'g) \<Rightarrow> 'g \<Rightarrow>
    (FramePacket \<Rightarrow> DepthInferenceResult) \<Rightarrow> DepthDetectorConfig \<Rightarrow> EgoSensingFrame \<Rightarrow> DepthDetector \<Rightarrow>
    (ObstacleEvidence list result \<times> DepthDetector) option" where
  "visual_depth_detect alloc ne dist_rng rng infer cfg ego_frame st =
     (let inferred = infer (esf_frame ego_frame)
      in if \<not> dir_valid inferred \<or> dir_inverse_depth inferred = [] then Some (Inr [], st\<lparr>dd_last_has_result := False\<rparr>)
         else let inp = visual_input inferred (ddc_scale cfg) ego_frame;
                  pitch = std_asin (std_clamp (vz (csv_forward_axis_local (esf_sensing_volume ego_frame))) (- 1) 1) * (180 / Fin pi)
              in map_option (\<lambda>evs. (evs, st\<lparr>dd_last_input := Some inp, dd_last_pitch_deg := pitch, dd_last_has_result := True\<rparr>))
                   (run_depth_pipeline alloc ne dist_rng rng inp ego_frame (pipeline_config cfg)))"

definition detect_visual_depth_obstacles :: "(nat \<Rightarrow> bool) \<Rightarrow> (nat \<Rightarrow> CellPixel list \<Rightarrow> CellPixel list) \<Rightarrow> ('g \<Rightarrow> nat \<Rightarrow> nat \<times> 'g) \<Rightarrow> 'g \<Rightarrow>
    EgoSensingFrame \<Rightarrow> (FramePacket \<Rightarrow> DepthInferenceResult) \<Rightarrow> DepthDetectorConfig \<Rightarrow> ObstacleEvidence list result option" where
  "detect_visual_depth_obstacles alloc ne dist_rng rng ego_frame infer cfg =
     (let inferred = infer (esf_frame ego_frame)
      in if \<not> dir_valid inferred \<or> dir_inverse_depth inferred = [] then Some (Inr [])
         else run_depth_pipeline alloc ne dist_rng rng (visual_input inferred (ddc_scale cfg) ego_frame) ego_frame (pipeline_config cfg))"

end
