(* ===== verification/Thin_Components.thy ===== *)
theory Thin_Components
  imports Depth_Pipeline
begin

text \<open>
  The breadth-first search of the thin-structure detector visits exactly the connected component of its
  start, so that the scan over the image looks at every component once.
\<close>

section \<open>Pixels and their index\<close>

lemma pixel_index_less:
  assumes "in_image W H u v"
  shows "nat (v * W + u) < nat W * nat H"
proof -
  from assms have b: "0 \<le> u" "u < W" "0 \<le> v" "v < H" by (auto simp: in_image_def)
  have "(v + 1) * W \<le> H * W" using b by (intro mult_right_mono) auto
  then have "v * W + u < W * H" using b by (simp add: algebra_simps)
  then show ?thesis using b by (simp add: nat_mult_distrib [symmetric] zless_nat_eq_int_zless)
qed

lemma pixel_index_inj:
  assumes "in_image W H u v" "in_image W H u' v'" "nat (v * W + u) = nat (v' * W + u')"
  shows "u = u' \<and> v = v'"
proof -
  from assms(1,2) have b: "0 \<le> u" "u < W" "0 \<le> v" "0 \<le> u'" "u' < W" "0 \<le> v'" by (auto simp: in_image_def)
  then have e: "v * W + u = v' * W + u'" using assms(3) by (simp add: nat_eq_iff split: if_splits)
  have "(v * W + u) div W = v" "(v * W + u) mod W = u" "(v' * W + u') div W = v'" "(v' * W + u') mod W = u'"
    using b by simp_all
  with e show ?thesis by simp
qed

abbreviation pixel_in :: "int \<Rightarrow> int \<Rightarrow> int \<times> int \<Rightarrow> bool" where
  "pixel_in W H c \<equiv> in_image W H (fst c) (snd c)"

abbreviation marked :: "bool list \<Rightarrow> int \<Rightarrow> int \<times> int \<Rightarrow> bool" where
  "marked m W c \<equiv> bit_at m W (fst c) (snd c)"

lemma marked_update:
  assumes "pixel_in W H c" "pixel_in W H d" "length m = nat W * nat H"
  shows "marked (m[nat (snd c * W + fst c) := True]) W d \<longleftrightarrow> d = c \<or> marked m W d"
  using pixel_index_less [OF assms(1)] pixel_index_inj [OF assms(1,2)] assms(3)
  by (cases c; cases d) (auto simp: bit_at_def nth_list_update)

lemma finite_pixels: "finite {c. pixel_in W H c}" and card_pixels: "card {c. pixel_in W H c} = nat W * nat H"
proof -
  have e: "{c. pixel_in W H c} = {0..<W} \<times> {0..<H}" by (auto simp: in_image_def)
  show "finite {c. pixel_in W H c}" "card {c. pixel_in W H c} = nat W * nat H" unfolding e by simp_all
qed

section \<open>The search\<close>

text \<open>A step of the component: to one of the four neighbours that is masked and not visited before.\<close>

definition open_pixel :: "bool list \<Rightarrow> bool list \<Rightarrow> int \<Rightarrow> int \<Rightarrow> int \<times> int \<Rightarrow> bool" where
  "open_pixel msk visited W H c \<longleftrightarrow> pixel_in W H c \<and> marked msk W c \<and> \<not> marked visited W c"

definition thin_step :: "bool list \<Rightarrow> bool list \<Rightarrow> int \<Rightarrow> int \<Rightarrow> int \<times> int \<Rightarrow> int \<times> int \<Rightarrow> bool" where
  "thin_step msk visited W H c d \<longleftrightarrow> d \<in> set (four_neighbours c) \<and> open_pixel msk visited W H d"

lemma bfs_neighbours:
  assumes "length visited = nat W * nat H" and "distinct q"
    and "\<And>c. c \<in> set q \<Longrightarrow> pixel_in W H c \<and> marked visited W c"
    and "fold (bfs_neighbour msk W H) ns (visited, q) = (visited', q')"
  shows "length visited' = nat W * nat H \<and> distinct q' \<and> (\<exists>new. q' = q @ new) \<and>
    set q' = set q \<union> {n \<in> set ns. open_pixel msk visited W H n} \<and>
    (\<forall>c. pixel_in W H c \<longrightarrow> (marked visited' W c \<longleftrightarrow> marked visited W c \<or> (c \<in> set ns \<and> open_pixel msk visited W H c)))"
  using assms
proof (induction ns arbitrary: visited q)
  case Nil
  then show ?case by auto
next
  case (Cons n ns)
  show ?case
  proof (cases "open_pixel msk visited W H n")
    case False
    then have "bfs_neighbour msk W H n (visited, q) = (visited, q)"
      by (auto simp: bfs_neighbour_def open_pixel_def split: prod.splits)
    with Cons.prems have f: "fold (bfs_neighbour msk W H) ns (visited, q) = (visited', q')" by simp
    have "{m \<in> set (n # ns). open_pixel msk visited W H m} = {m \<in> set ns. open_pixel msk visited W H m}" using False by auto
    then show ?thesis using Cons.IH [OF Cons.prems(1-3) f] False by auto
  next
    case True
    then have n: "pixel_in W H n" "marked msk W n" "\<not> marked visited W n" by (auto simp: open_pixel_def)
    define v1 where "v1 = visited[nat (snd n * W + fst n) := True]"
    have "bfs_neighbour msk W H n (visited, q) = (v1, q @ [n])"
      using n by (auto simp: bfs_neighbour_def v1_def split: prod.splits)
    with Cons.prems have f: "fold (bfs_neighbour msk W H) ns (v1, q @ [n]) = (visited', q')" by simp
    have m: "marked v1 W c \<longleftrightarrow> c = n \<or> marked visited W c" if "pixel_in W H c" for c
      unfolding v1_def using that n Cons.prems(1) by (intro marked_update) auto
    have "n \<notin> set q" using Cons.prems(3) n by blast
    then have d: "distinct (q @ [n])" using Cons.prems(2) by simp
    have len: "length v1 = nat W * nat H" using Cons.prems(1) by (simp add: v1_def)
    have q: "pixel_in W H c \<and> marked v1 W c" if "c \<in> set (q @ [n])" for c
      using that Cons.prems(3) [of c] n m [of c] by auto
    have o: "open_pixel msk v1 W H c \<longleftrightarrow> c \<noteq> n \<and> open_pixel msk visited W H c" for c
      using m [of c] by (auto simp: open_pixel_def)
    from Cons.IH [OF len d q f] have ih: "length visited' = nat W * nat H" "distinct q'" "\<exists>new. q' = (q @ [n]) @ new"
      "set q' = set (q @ [n]) \<union> {c \<in> set ns. open_pixel msk v1 W H c}"
      "\<And>c. pixel_in W H c \<Longrightarrow> marked visited' W c \<longleftrightarrow> marked v1 W c \<or> (c \<in> set ns \<and> open_pixel msk v1 W H c)" by blast+
    have "set q' = set q \<union> {m \<in> set (n # ns). open_pixel msk visited W H m}" using ih(4) True by (auto simp: o)
    moreover have "marked visited' W c \<longleftrightarrow> marked visited W c \<or> (c \<in> set (n # ns) \<and> open_pixel msk visited W H c)"
      if "pixel_in W H c" for c using ih(5) [OF that] m [OF that] True by (auto simp: o)
    ultimately show ?thesis using ih(1-3) by auto
  qed
qed

definition bfs_inv :: "bool list \<Rightarrow> bool list \<Rightarrow> int \<Rightarrow> int \<Rightarrow> int \<times> int \<Rightarrow> bool list \<Rightarrow> (int \<times> int) list \<Rightarrow> (int \<times> int) list \<Rightarrow> bool" where
  "bfs_inv msk visited0 W H start visited q component \<longleftrightarrow>
     length visited = nat W * nat H \<and> distinct (component @ q) \<and> start \<in> set (component @ q) \<and>
     (\<forall>c\<in>set (component @ q). open_pixel msk visited0 W H c \<and> (thin_step msk visited0 W H)\<^sup>*\<^sup>* start c) \<and>
     (\<forall>c. pixel_in W H c \<longrightarrow> (marked visited W c \<longleftrightarrow> marked visited0 W c \<or> c \<in> set (component @ q))) \<and>
     (\<forall>c\<in>set component. \<forall>d. thin_step msk visited0 W H c d \<longrightarrow> d \<in> set (component @ q))"

lemma bfs_inv_step:
  assumes inv: "bfs_inv msk visited0 W H start visited (c # q) component"
    and f: "fold (bfs_neighbour msk W H) (four_neighbours c) (visited, q) = (visited', q')"
  shows "bfs_inv msk visited0 W H start visited' q' (component @ [c])"
proof -
  from inv have len: "length visited = nat W * nat H" and d: "distinct (component @ c # q)"
    and start: "start \<in> set (component @ c # q)"
    and reach: "\<And>x. x \<in> set (component @ c # q) \<Longrightarrow> open_pixel msk visited0 W H x \<and> (thin_step msk visited0 W H)\<^sup>*\<^sup>* start x"
    and mk: "\<And>x. pixel_in W H x \<Longrightarrow> marked visited W x \<longleftrightarrow> marked visited0 W x \<or> x \<in> set (component @ c # q)"
    and closed: "\<And>x y. x \<in> set component \<Longrightarrow> thin_step msk visited0 W H x y \<Longrightarrow> y \<in> set (component @ c # q)"
    unfolding bfs_inv_def by blast+
  have inq: "pixel_in W H x \<and> marked visited W x" if "x \<in> set q" for x
    using reach [of x] mk [of x] that by (auto simp: open_pixel_def)
  have dq: "distinct q" using d by simp
  from bfs_neighbours [OF len dq inq f] obtain new where
    r: "length visited' = nat W * nat H" "distinct q'" "q' = q @ new"
      "set q' = set q \<union> {n \<in> set (four_neighbours c). open_pixel msk visited W H n}"
      "\<And>x. pixel_in W H x \<Longrightarrow> marked visited' W x \<longleftrightarrow> marked visited W x \<or> (x \<in> set (four_neighbours c) \<and> open_pixel msk visited W H x)"
    by blast
  have op: "open_pixel msk visited W H x \<longleftrightarrow> open_pixel msk visited0 W H x \<and> x \<notin> set (component @ c # q)" for x
    using mk [of x] by (auto simp: open_pixel_def)
  have q': "set q' = set q \<union> {x. thin_step msk visited0 W H c x \<and> x \<notin> set (component @ c # q)}"
    unfolding r(4) using op by (auto simp: thin_step_def)
  have "set q' \<inter> set (component @ [c]) = {}" using d unfolding q' by auto
  then have dist: "distinct ((component @ [c]) @ q')" using d r(2) by auto
  have "open_pixel msk visited0 W H x \<and> (thin_step msk visited0 W H)\<^sup>*\<^sup>* start x" if "x \<in> set ((component @ [c]) @ q')" for x
  proof (cases "x \<in> set (component @ c # q)")
    case False
    with that have s: "thin_step msk visited0 W H c x" by (auto simp: q')
    then show ?thesis using reach [of c] by (auto simp: thin_step_def intro: rtranclp.rtrancl_into_rtrancl)
  qed (use reach in blast)
  moreover have "marked visited' W x \<longleftrightarrow> marked visited0 W x \<or> x \<in> set ((component @ [c]) @ q')" if "pixel_in W H x" for x
    using r(5) [OF that] mk [OF that] op [of x] unfolding q' set_append by (auto simp: thin_step_def)
  moreover have "y \<in> set ((component @ [c]) @ q')" if "x \<in> set (component @ [c])" "thin_step msk visited0 W H x y" for x y
    using that closed [of x y] by (auto simp: q')
  ultimately show ?thesis using r(1) dist start unfolding bfs_inv_def by (auto simp: q')
qed

lemma bfs_inv_bound:
  assumes "bfs_inv msk visited0 W H start visited q component"
  shows "length component + length q \<le> nat W * nat H"
proof -
  have "distinct (component @ q)" "set (component @ q) \<subseteq> {c. pixel_in W H c}"
    using assms by (auto simp: bfs_inv_def open_pixel_def)
  then have "length (component @ q) \<le> card {c. pixel_in W H c}"
    by (metis card_mono distinct_card finite_pixels)
  then show ?thesis by (simp add: card_pixels)
qed

lemma bfs_loop_returns:
  assumes "bfs_inv msk visited0 W H start visited q component"
  shows "\<exists>component' visited'. bfs_loop msk W H visited q component = Some (component', visited') \<and>
    bfs_inv msk visited0 W H start visited' [] component'"
  using assms
proof (induction "nat W * nat H - length component" arbitrary: visited q component rule: less_induct)
  case less
  show ?case
  proof (cases q)
    case Nil
    with less.prems show ?thesis by (subst bfs_loop.simps) simp
  next
    case (Cons c q0)
    obtain visited' q' where f: "fold (bfs_neighbour msk W H) (four_neighbours c) (visited, q0) = (visited', q')" by fastforce
    have inv: "bfs_inv msk visited0 W H start visited' q' (component @ [c])"
      using bfs_inv_step less.prems f unfolding Cons by blast
    have "length component < nat W * nat H" using bfs_inv_bound [OF less.prems] Cons by simp
    then have "nat W * nat H - length (component @ [c]) < nat W * nat H - length component" by simp
    from less.hyps [OF this inv] show ?thesis by (subst bfs_loop.simps) (simp add: Cons f)
  qed
qed

lemma bfs_component_spec:
  assumes "length visited = nat W * nat H" and "open_pixel msk visited W H (u0, v0)"
  shows "\<exists>component visited'. bfs_component msk visited W H u0 v0 = Some (component, visited') \<and> distinct component \<and>
    set component = {c. (thin_step msk visited W H)\<^sup>*\<^sup>* (u0, v0) c} \<and> length visited' = nat W * nat H \<and>
    (\<forall>u v. in_image W H u v \<longrightarrow> bit_at visited' W u v = (bit_at visited W u v \<or> (u, v) \<in> set component))"
proof -
  have p: "pixel_in W H (u0, v0)" using assms(2) by (simp add: open_pixel_def)
  have "bfs_inv msk visited W H (u0, v0) (visited[nat (v0 * W + u0) := True]) [(u0, v0)] []"
    using assms marked_update [OF p _ assms(1)] by (auto simp: bfs_inv_def)
  from bfs_loop_returns [OF this] obtain component visited' where
    b: "bfs_component msk visited W H u0 v0 = Some (component, visited')" and inv: "bfs_inv msk visited W H (u0, v0) visited' [] component"
    unfolding bfs_component_def by blast
  have "c \<in> set component" if "(thin_step msk visited W H)\<^sup>*\<^sup>* (u0, v0) c" for c
    using that inv by (induction rule: rtranclp_induct) (auto simp: bfs_inv_def)
  then have "set component = {c. (thin_step msk visited W H)\<^sup>*\<^sup>* (u0, v0) c}" using inv by (auto simp: bfs_inv_def)
  then show ?thesis using b inv by (auto simp: bfs_inv_def)
qed

text \<open>
  C22: The search of the thin-structure detector always returns, and returns exactly the pixels connected to its
  start by steps to one of four neighbours in the mask that no earlier search visited, each once; afterwards exactly
  these are marked as visited in addition.
\<close>
theorem bfs_component_exact:
  assumes "length visited = nat W * nat H" and "open_pixel msk visited W H (u0, v0)"
  shows "\<exists>component visited'. bfs_component msk visited W H u0 v0 = Some (component, visited') \<and> distinct component \<and>
    set component = {c. (thin_step msk visited W H)\<^sup>*\<^sup>* (u0, v0) c} \<and> length visited' = nat W * nat H \<and>
    (\<forall>u v. in_image W H u v \<longrightarrow> bit_at visited' W u v = (bit_at visited W u v \<or> (u, v) \<in> set component))"
  using assms by (rule bfs_component_spec)

end
