(* ===== verification/Sensing_Properties.thy ===== *)
theory Sensing_Properties
  imports Sensing_Coverage
begin

text \<open>
  The axes of a sensing volume are the body's, turned by mount and pointing: orthonormal and right-handed, the
  same the transforms of \<open>pose_transform.cpp\<close> give.  The pointing store behaves as a map from camera names.
\<close>

section \<open>Rotations\<close>

lemma rotation_from_rpy_eq:
  assumes "finite_point rpy"
  shows "rotation_from_rpy rpy = rotation_matrix_from_rpy rpy"
proof -
  obtain x y z where "rpy = vec3 (Fin x) (Fin y) (Fin z)" using assms by (rule finite_pointE)
  then show ?thesis
    by (simp add: rotation_from_rpy_def rotation_matrix_from_rpy_def sc_multiply_def rotation_x_def rotation_y_def rotation_z_def Let_def)
qed

lemma sc_transform_eq: "sc_transform m v = multiply m v"
  by (simp add: sc_transform_def multiply_def)

definition finite_matrix :: "Matrix3 \<Rightarrow> bool" where
  "finite_matrix m \<longleftrightarrow> (\<exists>a b c d e f g h i. m = \<lparr>m00 = Fin a, m01 = Fin b, m02 = Fin c, m10 = Fin d, m11 = Fin e, m12 = Fin f,
     m20 = Fin g, m21 = Fin h, m22 = Fin i\<rparr>)"

lemma finite_rotation_matrix: "finite_point rpy \<Longrightarrow> finite_matrix (rotation_matrix_from_rpy rpy)"
  by (erule finite_pointE) (simp add: finite_matrix_def rotation_matrix_from_rpy_def Let_def)

lemma finite_sc_multiply: "finite_matrix l \<Longrightarrow> finite_matrix r \<Longrightarrow> finite_matrix (sc_multiply l r)"
  by (clarsimp simp: finite_matrix_def sc_multiply_def)

lemma multiply_sc_multiply:
  assumes "finite_matrix l" "finite_matrix r" "finite_point v"
  shows "multiply (sc_multiply l r) v = multiply l (multiply r v)"
  using assms by (elim finite_pointE) (clarsimp simp: finite_matrix_def sc_multiply_def multiply_def algebra_simps)

text \<open>The rotation by angles, as a function on vectors.\<close>

definition turned :: "Vec3 \<Rightarrow> Vec3 \<Rightarrow> Vec3" where
  "turned rpy v = multiply (rotation_matrix_from_rpy rpy) v"

lemma rotate_vector_turned: "rotate_vector t v = turned (rotation_rpy t) v"
  by (simp add: rotate_vector_def turned_def)

lemma turned_finite [simp]: "finite_point rpy \<Longrightarrow> finite_point v \<Longrightarrow> finite_point (turned rpy v)"
  using finite_rotate(1) [of "\<lparr>position = v, rotation_rpy = rpy\<rparr>" v] by (simp add: rotate_vector_turned)

lemma map_R_camera_turned:
  assumes "finite_point (rotation_rpy (ego_local_T_body ego))" "finite_point (csc_body_T_camera_rpy_rad config)"
    "isfinite (cps_roll_rad ps)" "isfinite (cps_pitch_rad ps)" "finite_point v"
  shows "sc_transform (map_R_camera config ps ego) v =
    turned (rotation_rpy (ego_local_T_body ego)) (turned (csc_body_T_camera_rpy_rad config) (turned (vec3 (cps_roll_rad ps) (cps_pitch_rad ps) 0) v))"
proof -
  let ?p = "vec3 (cps_roll_rad ps) (cps_pitch_rad ps) 0"
  have p: "finite_point ?p" using assms by simp
  have "finite_point (multiply (rotation_matrix_from_rpy ?p) v)" using turned_finite [OF p assms(5)] by (simp add: turned_def)
  then show ?thesis
    using assms p by (simp add: map_R_camera_def rotation_from_rpy_eq sc_transform_eq multiply_sc_multiply finite_sc_multiply
        finite_rotation_matrix turned_def)
qed

subsection \<open>Lengths, angles and handedness\<close>

definition cross :: "Vec3 \<Rightarrow> Vec3 \<Rightarrow> Vec3" where
  "cross a b = vec3 (vy a * vz b - vz a * vy b) (vz a * vx b - vx a * vz b) (vx a * vy b - vy a * vx b)"

lemma rotation_dot:
  fixes cr sr cp sp cy sy :: real
  assumes "cr * cr + sr * sr = 1" and "cp * cp + sp * sp = 1" and "cy * cy + sy * sy = 1"
    and "a = cy * cp" "b = cy * sp * sr - sy * cr" "c = cy * sp * cr + sy * sr"
    and "d = sy * cp" "e = sy * sp * sr + cy * cr" "f = sy * sp * cr - cy * sr"
    and "g = - sp" "h = cp * sr" "i = cp * cr"
  shows "(a*x + b*y + c*z) * (a*u + b*v + c*w) + (d*x + e*y + f*z) * (d*u + e*v + f*w) + (g*x + h*y + i*z) * (g*u + h*v + i*w) =
    x * u + y * v + z * w"
proof -
  note o = rotation_orthogonal [OF assms, of u v w]
  have "(a*x + b*y + c*z) * (a*u + b*v + c*w) + (d*x + e*y + f*z) * (d*u + e*v + f*w) + (g*x + h*y + i*z) * (g*u + h*v + i*w) =
    x * (a * (a*u + b*v + c*w) + d * (d*u + e*v + f*w) + g * (g*u + h*v + i*w)) +
    y * (b * (a*u + b*v + c*w) + e * (d*u + e*v + f*w) + h * (g*u + h*v + i*w)) +
    z * (c * (a*u + b*v + c*w) + f * (d*u + e*v + f*w) + i * (g*u + h*v + i*w))" by (simp add: algebra_simps)
  then show ?thesis by (simp only: o)
qed

lemma turned_dot:
  assumes "finite_point rpy" "finite_point u" "finite_point v"
  shows "sc_dot (turned rpy u) (turned rpy v) = sc_dot u v"
proof -
  obtain r p w where r: "rpy = vec3 (Fin r) (Fin p) (Fin w)" using assms(1) by (rule finite_pointE)
  obtain x y z where u: "u = vec3 (Fin x) (Fin y) (Fin z)" using assms(2) by (rule finite_pointE)
  obtain x' y' z' where v: "v = vec3 (Fin x') (Fin y') (Fin z')" using assms(3) by (rule finite_pointE)
  show ?thesis
    using rotation_dot [OF sin_cos_one [of r] sin_cos_one [of p] sin_cos_one [of w] refl refl refl refl refl refl refl refl refl,
      of x y z x' y' z'] by (simp add: turned_def pose_defs sc_dot_def Let_def r u v)
qed

lemma rotation_minors:
  fixes cr sr cp sp cy sy :: real
  assumes "cr * cr + sr * sr = 1" and "cp * cp + sp * sp = 1" and "cy * cy + sy * sy = 1"
    and "a = cy * cp" "b = cy * sp * sr - sy * cr" "c = cy * sp * cr + sy * sr"
    and "d = sy * cp" "e = sy * sp * sr + cy * cr" "f = sy * sp * cr - cy * sr"
    and "g = - sp" "h = cp * sr" "i = cp * cr"
  shows "d * h - g * e = c" "g * b - a * h = f" "a * e - d * b = i"
    "e * i - h * f = a" "h * c - b * i = d" "b * f - e * c = g"
    "f * g - i * d = b" "i * a - c * g = e" "c * d - f * a = h"
proof -
  show "d * h - g * e = c" using assms(2) unfolding assms(4-) by algebra
  show "g * b - a * h = f" using assms(2) unfolding assms(4-) by algebra
  show "a * e - d * b = i" using assms(3) unfolding assms(4-) by algebra
  show "e * i - h * f = a" using assms(1) unfolding assms(4-) by algebra
  show "h * c - b * i = d" using assms(1) unfolding assms(4-) by algebra
  have "b * f - e * c = - sp * ((cr * cr + sr * sr) * (cy * cy + sy * sy))" unfolding assms(4-) by (simp add: algebra_simps)
  then show "b * f - e * c = g" using assms by simp
  show "f * g - i * d = b" using assms(2) unfolding assms(4-) by algebra
  show "i * a - c * g = e" using assms(2) unfolding assms(4-) by algebra
  show "c * d - f * a = h" using assms(3) unfolding assms(4-) by algebra
qed

lemma turned_cross:
  assumes "finite_point rpy" "finite_point u" "finite_point v"
  shows "cross (turned rpy u) (turned rpy v) = turned rpy (cross u v)"
proof -
  obtain r p w where r: "rpy = vec3 (Fin r) (Fin p) (Fin w)" using assms(1) by (rule finite_pointE)
  obtain x y z where u: "u = vec3 (Fin x) (Fin y) (Fin z)" using assms(2) by (rule finite_pointE)
  obtain x' y' z' where v: "v = vec3 (Fin x') (Fin y') (Fin z')" using assms(3) by (rule finite_pointE)
  define a b c d e f g h i where abbr: "a = cos w * cos p" "b = cos w * sin p * sin r - sin w * cos r" "c = cos w * sin p * cos r + sin w * sin r"
    "d = sin w * cos p" "e = sin w * sin p * sin r + cos w * cos r" "f = sin w * sin p * cos r - cos w * sin r"
    "g = - sin p" "h = cos p * sin r" "i = cos p * cos r"
  note m = rotation_minors [OF sin_cos_one [of r] sin_cos_one [of p] sin_cos_one [of w] abbr]
  have "turned rpy u = vec3 (Fin (a*x + b*y + c*z)) (Fin (d*x + e*y + f*z)) (Fin (g*x + h*y + i*z))"
    "turned rpy v = vec3 (Fin (a*x' + b*y' + c*z')) (Fin (d*x' + e*y' + f*z')) (Fin (g*x' + h*y' + i*z'))"
    by (simp_all add: turned_def pose_defs Let_def r u v abbr)
  moreover have "turned rpy (cross u v) = vec3 (Fin (a*(y*z' - z*y') + b*(z*x' - x*z') + c*(x*y' - y*x')))
     (Fin (d*(y*z' - z*y') + e*(z*x' - x*z') + f*(x*y' - y*x'))) (Fin (g*(y*z' - z*y') + h*(z*x' - x*z') + i*(x*y' - y*x')))"
    by (simp add: turned_def pose_defs Let_def r u v abbr cross_def)
  moreover have
    "(d*x + e*y + f*z) * (g*x' + h*y' + i*z') - (g*x + h*y + i*z) * (d*x' + e*y' + f*z') =
       (e*i - h*f) * (y*z' - z*y') + (f*g - i*d) * (z*x' - x*z') + (d*h - g*e) * (x*y' - y*x')"
    "(g*x + h*y + i*z) * (a*x' + b*y' + c*z') - (a*x + b*y + c*z) * (g*x' + h*y' + i*z') =
       (h*c - b*i) * (y*z' - z*y') + (i*a - c*g) * (z*x' - x*z') + (g*b - a*h) * (x*y' - y*x')"
    "(a*x + b*y + c*z) * (d*x' + e*y' + f*z') - (d*x + e*y + f*z) * (a*x' + b*y' + c*z') =
       (b*f - e*c) * (y*z' - z*y') + (c*d - f*a) * (z*x' - x*z') + (a*e - d*b) * (x*y' - y*x')"
    by (simp_all add: algebra_simps)
  ultimately show ?thesis by (simp add: cross_def m)
qed

lemma turned_scale:
  assumes "finite_point rpy" "finite_point v"
  shows "turned rpy (sc_scale v (Fin k)) = sc_scale (turned rpy v) (Fin k)"
  using assms by (elim finite_pointE) (simp add: turned_def pose_defs Let_def sc_scale_def algebra_simps)

lemma sc_scale_finite [simp]: "finite_point v \<Longrightarrow> finite_point (sc_scale v (Fin k))"
  by (erule finite_pointE) (simp add: sc_scale_def)

lemma normalize_or_unit:
  assumes "finite_point v" "sc_dot v v = Fin 1"
  shows "normalize_or v w = v"
  using assms by (elim finite_pointE) (simp add: normalize_or_def sc_norm_def sc_epsilon_def sc_scale_def)

definition orthonormal_axes :: "Vec3 \<Rightarrow> Vec3 \<Rightarrow> Vec3 \<Rightarrow> bool" where
  "orthonormal_axes f r u \<longleftrightarrow> finite_point f \<and> finite_point r \<and> finite_point u \<and>
     sc_dot f f = Fin 1 \<and> sc_dot r r = Fin 1 \<and> sc_dot u u = Fin 1 \<and> sc_dot f r = Fin 0 \<and> sc_dot f u = Fin 0 \<and> sc_dot r u = Fin 0"

lemma turned_axes:
  assumes rpy: "finite_point rpy" and o: "orthonormal_axes f r u"
  shows "orthonormal_axes (turned rpy f) (turned rpy r) (turned rpy u)"
  using assms by (simp add: orthonormal_axes_def turned_dot)

section \<open>The volume of a camera\<close>

text \<open>
  C23: A camera's sensing volume starts at the camera's mount point on the body, and its axes are the body's forward, right and
  up axes turned by the pointing, the mount and the attitude, as the pose transforms turn them: an
  orthonormal frame in which up is opposite to forward times right, never a mirrored one.
\<close>
theorem camera_volume_axes:
  assumes config: "config = find_config_or_default configs frame" and ps: "ps = find_pointing_state config pointing_states"
    and ego: "finite_pose (ego_local_T_body ego)" and xyz: "finite_point (csc_body_T_camera_xyz_m config)"
    and mount: "finite_point (csc_body_T_camera_rpy_rad config)" and point: "isfinite (cps_roll_rad ps)" "isfinite (cps_pitch_rad ps)"
    and vol: "vol = volume_for_frame configs frame ego pointing_states"
    and turn: "turn = (\<lambda>v. turned (rotation_rpy (ego_local_T_body ego)) (turned (csc_body_T_camera_rpy_rad config)
                (turned (vec3 (cps_roll_rad ps) (cps_pitch_rad ps) 0) v)))"
  shows "csv_origin_local vol = transform_point (ego_local_T_body ego) (csc_body_T_camera_xyz_m config) \<and>
    csv_forward_axis_local vol = turn (vec3 1 0 0) \<and> csv_right_axis_local vol = turn (vec3 0 1 0) \<and> csv_up_axis_local vol = turn (vec3 0 0 (- 1)) \<and>
    orthonormal_axes (csv_forward_axis_local vol) (csv_right_axis_local vol) (csv_up_axis_local vol) \<and>
    cross (csv_forward_axis_local vol) (csv_right_axis_local vol) = sc_scale (csv_up_axis_local vol) (- 1)"
proof -
  let ?p = "vec3 (cps_roll_rad ps) (cps_pitch_rad ps) 0" and ?b = "rotation_rpy (ego_local_T_body ego)"
  define ps' where "ps' = (if timestamp_ns (cps_timestamp ps) = 0 then ps\<lparr>cps_timestamp := frame_or_ego_time frame ego\<rparr> else ps)"
  have same: "cps_roll_rad ps' = cps_roll_rad ps" "cps_pitch_rad ps' = cps_pitch_rad ps" by (simp_all add: ps'_def)
  have fin: "finite_point ?p" "finite_point ?b" using point ego by (simp_all add: finite_pose_def)
  have tf: "finite_point (turn v)" if "finite_point v" for v using fin mount that by (simp add: turn)
  have R: "sc_transform (map_R_camera config ps' ego) v = turn v" if "finite_point v" for v
    using map_R_camera_turned [of ego config ps' v] fin mount point that by (simp add: turn same)
  have dot: "sc_dot (turn v) (turn w) = sc_dot v w" if "finite_point v" "finite_point w" for v w
    using fin mount that by (simp add: turn turned_dot)
  have unit: "normalize_or (turn v) w = turn v" if "finite_point v" "sc_dot v v = Fin 1" for v w
    using that by (simp add: normalize_or_unit tf dot)
  have axes: "csv_forward_axis_local vol = turn (vec3 1 0 0)" "csv_right_axis_local vol = turn (vec3 0 1 0)" "csv_up_axis_local vol = turn (vec3 0 0 (- 1))"
    unfolding vol volume_for_frame_def Let_def config [symmetric] ps [symmetric] ps'_def [symmetric]
    by (simp_all add: R unit sc_dot_def)
  have origin: "csv_origin_local vol = transform_point (ego_local_T_body ego) (csc_body_T_camera_xyz_m config)"
    using fin by (simp add: vol volume_for_frame_def Let_def config [symmetric] rotation_from_rpy_eq sc_transform_eq transform_point_def rotate_vector_turned turned_def)
  have ortho: "orthonormal_axes (turn (vec3 1 0 0)) (turn (vec3 0 1 0)) (turn (vec3 0 0 (- 1)))"
    unfolding turn by (intro turned_axes fin mount) (simp add: orthonormal_axes_def sc_dot_def)
  have "cross (turn (vec3 1 0 0)) (turn (vec3 0 1 0)) = turn (cross (vec3 1 0 0) (vec3 0 1 0))"
    using fin mount by (simp add: turn turned_cross)
  also have "cross (vec3 1 0 0) (vec3 0 1 0) = sc_scale (vec3 0 0 (- 1)) (- 1)" by (simp add: cross_def sc_scale_def)
  also have "turn (sc_scale (vec3 0 0 (- 1)) (- 1)) = sc_scale (turn (vec3 0 0 (- 1))) (- 1)"
    using fin mount by (simp add: turn turned_scale)
  finally show ?thesis using axes origin ortho by simp
qed

theorem camera_volume_axes_witness:
  "\<exists>frame ego. csv_forward_axis_local (volume_for_frame [] frame ego []) = vec3 0 1 0 \<and>
     csv_up_axis_local (volume_for_frame [] frame ego []) = vec3 0 0 (- 1)"
proof -
  obtain frame :: FramePacket where "fp_camera_id frame = []" by (meson FramePacket.select_convs)
  obtain ego :: EgoState where ego: "ego_local_T_body ego = \<lparr>position = vec3 1 2 3, rotation_rpy = vec3 0 0 (Fin (pi / 2))\<rparr>"
    by (meson EgoState.select_convs)
  let ?c = "find_config_or_default [] frame"
  have c: "csc_body_T_camera_xyz_m ?c = vec3 0 0 0" "csc_body_T_camera_rpy_rad ?c = vec3 0 0 0"
    by (simp_all add: find_config_or_default_def default_config_for_frame_def CameraSensingConfig_default_def Let_def)
  have ps: "cps_roll_rad (find_pointing_state ?c []) = 0" "cps_pitch_rad (find_pointing_state ?c []) = 0"
    by (simp_all add: find_pointing_state_def)
  have "csv_forward_axis_local (volume_for_frame [] frame ego []) = vec3 0 1 0 \<and> csv_up_axis_local (volume_for_frame [] frame ego []) = vec3 0 0 (- 1)"
    using camera_volume_axes [OF refl refl _ _ _ _ _ refl refl, of ego "[]" frame "[]"]
    by (simp add: ego c ps finite_pose_def turned_def pose_defs Let_def)
  then show ?thesis by blast
qed

section \<open>The pointing store\<close>

definition store_ok :: "CameraPointingState list \<Rightarrow> bool" where
  "store_ok states \<longleftrightarrow> (\<forall>s\<in>set states. cps_camera_id s = cps_camera_name s)"

lemma state_after_apply_camera:
  assumes "store_ok states"
  shows "state_for_camera_name (apply_camera command camera states) name =
    (if camera \<noteq> [] \<and> name = camera then Some (camera_pointing_state_from_command command camera) else state_for_camera_name states name)"
  using assms
  by (induction states) (auto simp: apply_camera_def state_for_camera_name_def camera_name_matches_def store_ok_def camera_pointing_state_from_command_def)

lemma store_ok_apply_camera: "store_ok states \<Longrightarrow> store_ok (apply_camera command camera states)"
  by (induction states) (auto simp: apply_camera_def store_ok_def camera_pointing_state_from_command_def)

lemma state_after_apply_cameras:
  "store_ok states \<Longrightarrow> store_ok (fold (apply_camera command) cameras states) \<and>
    state_for_camera_name (fold (apply_camera command) cameras states) name =
    (if name \<noteq> [] \<and> name \<in> set cameras then Some (camera_pointing_state_from_command command name) else state_for_camera_name states name)"
  by (induction cameras arbitrary: states) (auto simp: state_after_apply_camera store_ok_apply_camera)

datatype pointing_op = PointingApply CameraPointingCommand | PointingClear

fun pointing_step :: "pointing_op \<Rightarrow> CameraPointingState list \<Rightarrow> CameraPointingState list" where
  "pointing_step (PointingApply command) states = apply_pointing command states"
| "pointing_step PointingClear states = clear_pointing states"

fun pointing_spec :: "pointing_op \<Rightarrow> (string \<rightharpoonup> CameraPointingState) \<Rightarrow> (string \<rightharpoonup> CameraPointingState)" where
  "pointing_spec (PointingApply command) m =
     (\<lambda>name. if name \<noteq> [] \<and> name \<in> set (cp_cameras command) then Some (camera_pointing_state_from_command command name) else m name)"
| "pointing_spec PointingClear m = Map.empty"

lemma pointing_run:
  "store_ok states \<Longrightarrow> store_ok (fold pointing_step ops states) \<and>
    state_for_camera_name (fold pointing_step ops states) = fold pointing_spec ops (state_for_camera_name states)"
proof (induction ops arbitrary: states)
  case (Cons op ops)
  have "store_ok (pointing_step op states) \<and> state_for_camera_name (pointing_step op states) = pointing_spec op (state_for_camera_name states)"
    using Cons.prems state_after_apply_cameras [OF Cons.prems]
    by (cases op) (auto simp: apply_pointing_def clear_pointing_def store_ok_def state_for_camera_name_def fun_eq_iff)
  then show ?case using Cons.IH by simp
qed simp

text \<open>
  Whatever commands are applied and however often the store is cleared, the state looked up for a camera is the one of the last command
  that named it since the last clearing: the list with replacement in place refines a map.
\<close>
lemma pointing_store_refines_map:
  "state_for_camera_name (fold pointing_step ops []) = fold pointing_spec ops Map.empty"
proof -
  have "state_for_camera_name [] = Map.empty" by (simp add: state_for_camera_name_def fun_eq_iff)
  then show ?thesis using pointing_run [of "[]" ops] by (simp add: store_ok_def)
qed

end
