(* ===== verification/Depth_Properties.thy ===== *)
theory Depth_Properties
  imports Thin_Components Sensing_Properties
begin

text \<open>
  What the depth pipeline promises: one piece of evidence per block of the image that shows something, at the
  fifth percentile of its depths; every unprojected pixel lies in the camera's sensing volume and projects back to itself;
  the pipeline returns and respects the limit on its output.
\<close>

section \<open>One piece of evidence per block\<close>

definition grid_blocks :: "ProjectionParams \<Rightarrow> (int \<times> int) list" where
  "grid_blocks p = concat (map (\<lambda>gr. map (\<lambda>gc. (gr, gc)) [0..pp_grid_cols p - 1]) [0..pp_grid_rows p - 1])"

definition shown_blocks :: "ProjectionParams \<Rightarrow> image \<Rightarrow> (int \<times> int) list" where
  "shown_blocks p img = filter (\<lambda>(gr, gc). block_pixels p img gr gc \<noteq> []) (grid_blocks p)"

definition block_evidence :: "(nat \<Rightarrow> CellPixel list \<Rightarrow> CellPixel list) \<Rightarrow> ProjectionParams \<Rightarrow> image \<Rightarrow> int \<times> int \<Rightarrow> DeviceObstacleEvidence" where
  "block_evidence ne p img b = pixel_evidence p img (best_pixel ne (block_pixels p img (fst b) (snd b)))"

lemma project_row_take:
  "length out \<le> pp_max_evidence p \<Longrightarrow>
   project_row ne p img gr gcs out =
     take (pp_max_evidence p) (out @ map (block_evidence ne p img) (filter (\<lambda>(gr, gc). block_pixels p img gr gc \<noteq> []) (map (Pair gr) gcs)))"
  by (induction gcs arbitrary: out) (auto simp: block_evidence_def Let_def take_Cons')

lemma take_of_take: "take n (take n xs @ ys) = take n (xs @ ys)"
  by (cases "length xs \<le> n") simp_all

lemma project_rows_take:
  "length out \<le> pp_max_evidence p \<Longrightarrow>
   project_rows ne p img grs out =
     take (pp_max_evidence p) (out @ map (block_evidence ne p img)
       (filter (\<lambda>(gr, gc). block_pixels p img gr gc \<noteq> []) (concat (map (\<lambda>gr. map (Pair gr) [0..pp_grid_cols p - 1]) grs))))"
proof (induction grs arbitrary: out)
  case (Cons gr grs)
  let ?row = "map (block_evidence ne p img) (filter (\<lambda>(gr, gc). block_pixels p img gr gc \<noteq> []) (map (Pair gr) [0..pp_grid_cols p - 1]))"
  have le: "length (take (pp_max_evidence p) (out @ ?row)) \<le> pp_max_evidence p" by simp
  show ?case
  proof (cases "length out = pp_max_evidence p")
    case False
    then show ?thesis using Cons.IH [OF le] Cons.prems
      by (simp add: project_row_take take_of_take del: take_append length_take)
  qed simp
qed simp

lemma double_positive: "0 < (x::double) \<Longrightarrow> \<not> x \<le> 0"
  by (cases x) simp_all

lemma project_shown_blocks:
  assumes "0 < pp_fx p" "0 < pp_fy p" "0 < pp_scale p" "0 < pp_grid_cols p" "pp_grid_cols p \<le> pp_width p"
    "0 < pp_grid_rows p" "pp_grid_rows p \<le> pp_height p"
  shows "project_depth_to_device_evidence ne img p = take (pp_max_evidence p) (map (block_evidence ne p img) (shown_blocks p img))"
proof -
  have "0 < pp_width p div pp_grid_cols p" "0 < pp_height p div pp_grid_rows p"
    using assms by (simp_all add: pos_imp_zdiv_pos_iff)
  moreover have "\<not> pp_fx p \<le> 0" "\<not> pp_fy p \<le> 0" "\<not> pp_scale p \<le> 0"
    using assms(1-3) double_positive by blast+
  ultimately show ?thesis
    using assms project_rows_take [of "[]" p ne img "[0..pp_grid_rows p - 1]"]
    by (simp add: project_depth_to_device_evidence_def shown_blocks_def grid_blocks_def)
qed

lemma cell_pixels_set: "set (cell_pixels p img u0 u1 v0 v1) =
    {(pixel_at img (pp_width p) u v, u, v) | u v. u0 \<le> u \<and> u < u1 \<and> v0 \<le> v \<and> v < v1 \<and> metric_depth p (pixel_at img (pp_width p) u v) \<noteq> None}"
  unfolding cell_pixels_def by (auto simp: image_iff)

lemma block_pixels_set:
  assumes "0 < pp_grid_cols p" "pp_grid_cols p \<le> pp_width p" "0 < pp_grid_rows p" "pp_grid_rows p \<le> pp_height p"
    "0 \<le> gr" "gr < pp_grid_rows p" "0 \<le> gc" "gc < pp_grid_cols p"
    "BW = pp_width p div pp_grid_cols p" "BH = pp_height p div pp_grid_rows p"
  shows "set (block_pixels p img gr gc) =
    {(pixel_at img (pp_width p) u v, u, v) | u v. gc * BW \<le> u \<and> u < gc * BW + BW \<and> gr * BH \<le> v \<and> v < gr * BH + BH \<and>
       metric_depth p (pixel_at img (pp_width p) u v) \<noteq> None}"
proof -
  have last: "g * (n div m) + n div m \<le> n" if "0 < m" "0 \<le> g" "g < m" "m \<le> n" for g m n :: int
  proof -
    have "(g + 1) * (n div m) \<le> m * (n div m)" using that by (intro mult_right_mono) (auto simp: pos_imp_zdiv_nonneg_iff)
    also have "\<dots> \<le> n" using that mult_div_mod_eq [of m n] pos_mod_sign [of m n] by linarith
    finally show ?thesis by (simp add: algebra_simps)
  qed
  have "min (gc * BW + BW) (pp_width p) = gc * BW + BW" "min (gr * BH + BH) (pp_height p) = gr * BH + BH"
    using last [of "pp_grid_cols p" gc "pp_width p"] last [of "pp_grid_rows p" gr "pp_height p"] assms by simp_all
  then show ?thesis using assms(9,10) by (simp add: block_pixels_def cell_pixels_set Let_def)
qed

lemma p5_index_div: "p5_index n = n div 20"
proof -
  have "\<lfloor>real n * (1 / 20)\<rfloor> = \<lfloor>real_of_int (int n) / real_of_int 20\<rfloor>" by simp
  also have "\<dots> = int n div 20" by (rule floor_divide_of_int_eq)
  finally show ?thesis by (simp add: p5_index_def nat_div_distrib)
qed

lemma best_pixel_rank:
  assumes laws: "nth_element_laws ne" and "cells \<noteq> []" and fin: "\<forall>c\<in>set cells. isfinite (fst c)"
  shows "best_pixel ne cells \<in> set cells"
    and "20 * length (filter (\<lambda>c. fst (best_pixel ne cells) < fst c) cells) \<le> length cells"
    and "length cells < 20 * length (filter (\<lambda>c. \<not> fst c < fst (best_pixel ne cells)) cells)"
proof -
  define k ys where "k = p5_index (length cells)" and "ys = ne k cells"
  have k: "k < length cells" "20 * k \<le> length cells" "length cells < 20 * (k + 1)"
    using assms(2) by (cases cells; simp add: k_def p5_index_div)+
  have m: "mset ys = mset cells" and before: "\<And>i. i < k \<Longrightarrow> \<not> fst (ys ! i) < fst (ys ! k)"
    and behind: "\<And>j. j < length ys \<Longrightarrow> k < j \<Longrightarrow> \<not> fst (ys ! k) < fst (ys ! j)"
    using laws k(1) fin unfolding nth_element_laws_def ys_def Let_def by blast+
  have len: "length ys = length cells" using m by (metis size_mset)
  have best: "best_pixel ne cells = ys ! k" by (simp add: best_pixel_def k_def ys_def)
  have f: "length (filter P cells) = length (filter P ys)" for P using m by (metis mset_filter size_mset)
  show "best_pixel ne cells \<in> set cells" unfolding best using k(1) len m by (metis nth_mem set_mset_mset)
  have "length (filter P (take k ys @ ys ! k # drop (Suc k) ys)) =
      length (filter P (take k ys)) + ((if P (ys ! k) then 1 else 0) + length (filter P (drop (Suc k) ys)))" for P by simp
  then have split: "length (filter P ys) = length (filter P (take k ys)) + ((if P (ys ! k) then 1 else 0) + length (filter P (drop (Suc k) ys)))" for P
    using k(1) len id_take_nth_drop [of k ys] by metis
  have "filter (\<lambda>c. fst (ys ! k) < fst c) (drop (Suc k) ys) = []"
  proof -
    have "\<not> fst (ys ! k) < fst c" if "c \<in> set (drop (Suc k) ys)" for c
    proof -
      obtain i where "i < length ys - Suc k" "c = ys ! (Suc k + i)" using \<open>c \<in> set (drop (Suc k) ys)\<close> by (auto simp: in_set_conv_nth)
      then show ?thesis using behind [of "Suc k + i"] by simp
    qed
    then show ?thesis by (simp add: filter_empty_conv)
  qed
  then have "length (filter (\<lambda>c. fst (ys ! k) < fst c) ys) \<le> length (take k ys)"
    unfolding split using length_filter_le [of _ "take k ys"] by simp
  then show "20 * length (filter (\<lambda>c. fst (best_pixel ne cells) < fst c) cells) \<le> length cells"
    unfolding best f using k by simp
  have "filter (\<lambda>c. \<not> fst c < fst (ys ! k)) (take k ys) = take k ys"
  proof -
    have "\<not> fst c < fst (ys ! k)" if "c \<in> set (take k ys)" for c
    proof -
      obtain i where "i < k" "c = ys ! i" using \<open>c \<in> set (take k ys)\<close> by (auto simp: in_set_conv_nth)
      then show ?thesis using before [of i] by simp
    qed
    then show ?thesis by (simp add: filter_id_conv)
  qed
  then have "k + 1 \<le> length (filter (\<lambda>c. \<not> fst c < fst (ys ! k)) ys)"
    unfolding split using k(1) len by simp
  then show "length cells < 20 * length (filter (\<lambda>c. \<not> fst c < fst (best_pixel ne cells)) cells)"
    unfolding best f using k(3) by (meson less_le_trans mult_le_mono2)
qed

lemma shown_block_in_grid: "(gr, gc) \<in> set (shown_blocks p img) \<Longrightarrow>
    0 \<le> gr \<and> gr < pp_grid_rows p \<and> 0 \<le> gc \<and> gc < pp_grid_cols p \<and> block_pixels p img gr gc \<noteq> []"
  by (auto simp: shown_blocks_def grid_blocks_def)

text \<open>
  C11: The projection gives one piece of evidence for each block of the image that has a pixel with a depth in
  range, in the order of the blocks and as many as fit.  Each is made from a pixel of its own block, at most a twentieth of
  the block's valid pixels are closer than that one, and more than a twentieth are at least as close.  So it is
  the closest pixel only in a block of fewer than twenty valid pixels; in a larger one a single wrong pixel makes no obstacle, and one that
  fills more than a twentieth of the block does.
\<close>
theorem depth_grid_correct:
  assumes laws: "nth_element_laws ne"
    and p: "0 < pp_fx p" "0 < pp_fy p" "0 < pp_scale p" "0 < pp_grid_cols p" "pp_grid_cols p \<le> pp_width p"
      "0 < pp_grid_rows p" "pp_grid_rows p \<le> pp_height p"
    and B: "BW = pp_width p div pp_grid_cols p" "BH = pp_height p div pp_grid_rows p"
    and evs: "evs = project_depth_to_device_evidence ne img p"
  shows "length evs = min (pp_max_evidence p) (length (shown_blocks p img)) \<and>
    (\<forall>i<length evs. \<exists>gr gc u v depth. shown_blocks p img ! i = (gr, gc) \<and>
       gc * BW \<le> u \<and> u < gc * BW + BW \<and> gr * BH \<le> v \<and> v < gr * BH + BH \<and>
       metric_depth p (pixel_at img (pp_width p) u v) = Some depth \<and>
       evs ! i = pixel_evidence p img (pixel_at img (pp_width p) u v, u, v) \<and> de_range_m (evs ! i) = depth \<and>
       20 * length (filter (\<lambda>c. pixel_at img (pp_width p) u v < fst c) (block_pixels p img gr gc)) \<le> length (block_pixels p img gr gc) \<and>
       length (block_pixels p img gr gc) < 20 * length (filter (\<lambda>c. \<not> fst c < pixel_at img (pp_width p) u v) (block_pixels p img gr gc)))"
proof -
  have e: "evs = take (pp_max_evidence p) (map (block_evidence ne p img) (shown_blocks p img))"
    unfolding evs by (rule project_shown_blocks [OF p])
  have "\<exists>gr gc u v depth. shown_blocks p img ! i = (gr, gc) \<and>
       gc * BW \<le> u \<and> u < gc * BW + BW \<and> gr * BH \<le> v \<and> v < gr * BH + BH \<and>
       metric_depth p (pixel_at img (pp_width p) u v) = Some depth \<and>
       evs ! i = pixel_evidence p img (pixel_at img (pp_width p) u v, u, v) \<and> de_range_m (evs ! i) = depth \<and>
       20 * length (filter (\<lambda>c. pixel_at img (pp_width p) u v < fst c) (block_pixels p img gr gc)) \<le> length (block_pixels p img gr gc) \<and>
       length (block_pixels p img gr gc) < 20 * length (filter (\<lambda>c. \<not> fst c < pixel_at img (pp_width p) u v) (block_pixels p img gr gc))"
    if i: "i < length evs" for i
  proof -
    obtain gr gc where b: "shown_blocks p img ! i = (gr, gc)" by fastforce
    have "(gr, gc) \<in> set (shown_blocks p img)" using i b by (metis e length_map length_take min_less_iff_conj nth_mem)
    note g = shown_block_in_grid [OF this]
    have "set (block_pixels p img gr gc) = {(pixel_at img (pp_width p) u v, u, v) | u v. gc * BW \<le> u \<and> u < gc * BW + BW \<and>
        gr * BH \<le> v \<and> v < gr * BH + BH \<and> metric_depth p (pixel_at img (pp_width p) u v) \<noteq> None}"
      by (rule block_pixels_set [OF p(4-7) _ _ _ _ B]) (use g in auto)
    moreover from this have "\<forall>c\<in>set (block_pixels p img gr gc). isfinite (fst c)" by (auto simp: metric_depth_def split: if_splits)
    note rank = best_pixel_rank [OF laws _ this]
    ultimately obtain u v where best: "best_pixel ne (block_pixels p img gr gc) = (pixel_at img (pp_width p) u v, u, v)"
      and uv: "gc * BW \<le> u" "u < gc * BW + BW" "gr * BH \<le> v" "v < gr * BH + BH" "metric_depth p (pixel_at img (pp_width p) u v) \<noteq> None"
      using rank(1) g by blast
    have ev: "evs ! i = pixel_evidence p img (pixel_at img (pp_width p) u v, u, v)" using i by (simp add: e block_evidence_def b best)
    obtain depth where d: "metric_depth p (pixel_at img (pp_width p) u v) = Some depth" using uv(5) by blast
    then have "de_range_m (evs ! i) = depth" by (simp add: ev pixel_evidence_def Let_def metric_depth_def split: if_splits)
    then show ?thesis using b uv(1-4) d ev rank(2,3) g by (auto simp: best)
  qed
  then show ?thesis by (simp add: e)
qed

section \<open>Pixels, points and the sensing volume\<close>

lemma orthonormal_real:
  assumes "orthonormal_axes f r u"
  obtains f1 f2 f3 r1 r2 r3 u1 u2 u3 where "f = vec3 (Fin f1) (Fin f2) (Fin f3)" "r = vec3 (Fin r1) (Fin r2) (Fin r3)" "u = vec3 (Fin u1) (Fin u2) (Fin u3)"
    "f1*f1 + f2*f2 + f3*f3 = 1" "r1*r1 + r2*r2 + r3*r3 = 1" "u1*u1 + u2*u2 + u3*u3 = 1"
    "f1*r1 + f2*r2 + f3*r3 = 0" "f1*u1 + f2*u2 + f3*u3 = 0" "r1*u1 + r2*u2 + r3*u3 = 0"
proof -
  obtain f1 f2 f3 where f: "f = vec3 (Fin f1) (Fin f2) (Fin f3)" using assms finite_pointE unfolding orthonormal_axes_def by metis
  obtain r1 r2 r3 where r: "r = vec3 (Fin r1) (Fin r2) (Fin r3)" using assms finite_pointE unfolding orthonormal_axes_def by metis
  obtain u1 u2 u3 where u: "u = vec3 (Fin u1) (Fin u2) (Fin u3)" using assms finite_pointE unfolding orthonormal_axes_def by metis
  show thesis using assms that [OF f r u] by (simp add: orthonormal_axes_def sc_dot_def f r u)
qed

text \<open>The coordinates of an unprojected pixel along the camera's axes.\<close>

lemma point_at_coordinates:
  assumes axes: "orthonormal_axes (pp_forward p) (pp_right p) (pp_up p)" and o: "finite_point (pp_origin p)"
    and ray: "pixel_ray p u v = (Fin xn, Fin yn)" and l: "l = point_at p u v (Fin d)"
  shows "sc_dot (vec_subtract l (pp_origin p)) (pp_forward p) = Fin d"
    and "sc_dot (vec_subtract l (pp_origin p)) (pp_right p) = Fin (xn * d)"
    and "sc_dot (vec_subtract l (pp_origin p)) (pp_up p) = Fin (- (yn * d))"
    and "sc_norm (vec_subtract l (pp_origin p)) = Fin (sqrt (d * d + (xn * d) * (xn * d) + (yn * d) * (yn * d)))"
proof -
  obtain o1 o2 o3 where o: "pp_origin p = vec3 (Fin o1) (Fin o2) (Fin o3)" using o by (rule finite_pointE)
  from axes obtain f1 f2 f3 r1 r2 r3 u1 u2 u3 where a: "pp_forward p = vec3 (Fin f1) (Fin f2) (Fin f3)"
      "pp_right p = vec3 (Fin r1) (Fin r2) (Fin r3)" "pp_up p = vec3 (Fin u1) (Fin u2) (Fin u3)"
    and e: "f1*f1 + f2*f2 + f3*f3 = 1" "r1*r1 + r2*r2 + r3*r3 = 1" "u1*u1 + u2*u2 + u3*u3 = 1"
      "f1*r1 + f2*r2 + f3*r3 = 0" "f1*u1 + f2*u2 + f3*u3 = 0" "r1*u1 + r2*u2 + r3*u3 = 0"
    by (rule orthonormal_real)
  define x y where "x = xn * d" and "y = yn * d"
  have delta: "vec_subtract l (pp_origin p) = vec3 (Fin (d*f1 + x*r1 - y*u1)) (Fin (d*f2 + x*r2 - y*u2)) (Fin (d*f3 + x*r3 - y*u3))"
    by (simp add: l point_at_def ray Let_def along_axes_def vec_subtract_def o a x_def y_def algebra_simps)
  have c: "(d*f1 + x*r1 - y*u1)*f1 + (d*f2 + x*r2 - y*u2)*f2 + (d*f3 + x*r3 - y*u3)*f3 =
      d * (f1*f1 + f2*f2 + f3*f3) + x * (f1*r1 + f2*r2 + f3*r3) - y * (f1*u1 + f2*u2 + f3*u3)"
    "(d*f1 + x*r1 - y*u1)*r1 + (d*f2 + x*r2 - y*u2)*r2 + (d*f3 + x*r3 - y*u3)*r3 =
      d * (f1*r1 + f2*r2 + f3*r3) + x * (r1*r1 + r2*r2 + r3*r3) - y * (r1*u1 + r2*u2 + r3*u3)"
    "(d*f1 + x*r1 - y*u1)*u1 + (d*f2 + x*r2 - y*u2)*u2 + (d*f3 + x*r3 - y*u3)*u3 =
      d * (f1*u1 + f2*u2 + f3*u3) + x * (r1*u1 + r2*u2 + r3*u3) - y * (u1*u1 + u2*u2 + u3*u3)" by (simp_all add: algebra_simps)
  have n: "(d*f1 + x*r1 - y*u1)*(d*f1 + x*r1 - y*u1) + (d*f2 + x*r2 - y*u2)*(d*f2 + x*r2 - y*u2) + (d*f3 + x*r3 - y*u3)*(d*f3 + x*r3 - y*u3) =
      d * d * (f1*f1 + f2*f2 + f3*f3) + x * x * (r1*r1 + r2*r2 + r3*r3) + y * y * (u1*u1 + u2*u2 + u3*u3) +
      2 * d * x * (f1*r1 + f2*r2 + f3*r3) - 2 * d * y * (f1*u1 + f2*u2 + f3*u3) - 2 * x * y * (r1*u1 + r2*u2 + r3*u3)" by (simp add: algebra_simps)
  show "sc_dot (vec_subtract l (pp_origin p)) (pp_forward p) = Fin d" unfolding delta a by (simp add: sc_dot_def c e)
  show "sc_dot (vec_subtract l (pp_origin p)) (pp_right p) = Fin (xn * d)" unfolding delta a x_def [symmetric] by (simp add: sc_dot_def c e)
  show "sc_dot (vec_subtract l (pp_origin p)) (pp_up p) = Fin (- (yn * d))" unfolding delta a y_def [symmetric] by (simp add: sc_dot_def c e)
  have "0 \<le> d * d + x * x + y * y" by (simp add: add_nonneg_nonneg)
  then show "sc_norm (vec_subtract l (pp_origin p)) = Fin (sqrt (d * d + (xn * d) * (xn * d) + (yn * d) * (yn * d)))"
    unfolding delta x_def [symmetric] y_def [symmetric] by (simp add: sc_norm_def sc_dot_def n e not_less)
qed

lemma pixel_offset:
  fixes n :: int and t :: real
  assumes "2 \<le> n" "0 \<le> u" "u < n" "0 < t" and c: "c = (of_int n - 1) / 2"
  shows "0 < c" and "\<bar>(of_int u - c) * (1 / (c / t))\<bar> \<le> t"
proof -
  have n: "(2::real) \<le> of_int n" "(0::real) \<le> of_int u" "(of_int u :: real) \<le> of_int n - 1" using assms(1-3) by linarith+
  show "0 < c" using n by (simp add: c)
  have "\<bar>of_int u - c\<bar> \<le> c" using n by (simp add: c abs_le_iff field_simps)
  then have "\<bar>of_int u - c\<bar> * t \<le> c * t" using assms(4) by (intro mult_right_mono) auto
  then show "\<bar>(of_int u - c) * (1 / (c / t))\<bar> \<le> t" using \<open>0 < c\<close> assms(4)
    by (simp add: abs_mult pos_divide_le_eq mult.commute)
qed

lemma metric_depth_bounds:
  assumes "metric_depth p i = Some depth" "0 < pp_min_depth_m p" "isfinite (pp_scale p)"
  shows "\<exists>d. depth = Fin d \<and> 0 < d \<and> pp_min_depth_m p \<le> depth \<and> \<not> pp_max_depth_m p < depth"
  using assms by (cases i; cases "pp_scale p"; cases "pp_min_depth_m p") (auto simp: metric_depth_def Let_def split: if_splits)

text \<open>The factor the two distortion coefficients give a normalised image point.\<close>

definition radial_factor :: "real \<Rightarrow> real \<Rightarrow> real \<Rightarrow> real \<Rightarrow> real" where
  "radial_factor a b x y = 1 + a * (x\<^sup>2 + y\<^sup>2) + b * (x\<^sup>2 + y\<^sup>2)\<^sup>2"

text \<open>
  C12: The point a depth provider unprojects a pixel to, seen from the camera, whatever its attitude and lens coefficients: its forward coordinate
  is the pixel's depth, and its pinhole image, moved out by the radial factor of the pixel, is that pixel; the factor must be positive, and is 1 for a
  lens without distortion.  Where the factor is at least 1 the point lies inside the sensing volume of the camera as soon as its range is within
  the volume's.
\<close>
theorem unprojected_pixel_in_view:
  assumes sv: "sv = esf_sensing_volume ego_frame"
    and axes: "orthonormal_axes (csv_forward_axis_local sv) (csv_right_axis_local sv) (csv_up_axis_local sv)"
    and origin: "finite_point (csv_origin_local sv)"
    and fov: "csv_horizontal_fov_rad sv = Fin h" "0 < h" "h < pi" "csv_vertical_fov_rad sv = Fin w" "0 < w" "w < pi"
    and lens: "ci_distortion_k1 (fp_intrinsics (esf_frame ego_frame)) = Fin a" "ci_distortion_k2 (fp_intrinsics (esf_frame ego_frame)) = Fin b"
    and inp: "inp = provider_input img width height k source sensor provider ego_frame" and p: "p = projection_params inp cfg sv"
    and size: "2 \<le> width" "2 \<le> height" and k: "isfinite k" and min_depth: "sc_epsilon < dpc_min_depth_m cfg"
    and pixel: "0 \<le> u" "u < width" "0 \<le> v" "v < height" "unproject p u v i = Some l"
    and q: "q = query_point_in_camera_sensing_volume sv l"
    and m: "m = radial_factor a b ((of_int u - real_of_double (dpi_cx inp)) / real_of_double (dpi_fx inp))
                                  ((of_int v - real_of_double (dpi_cy inp)) / real_of_double (dpi_fy inp))" "0 < m"
  shows "metric_depth p i = Some (sq_forward_m q) \<and>
    dpi_cx inp + dpi_fx inp * (Fin m * (sq_right_m q / sq_forward_m q)) = Fin (of_int u) \<and>
    dpi_cy inp - dpi_fy inp * (Fin m * (sq_up_m q / sq_forward_m q)) = Fin (of_int v) \<and>
    (1 \<le> m \<and> \<not> sq_range_m q < csv_near_range_m sv \<and> \<not> csv_far_range_m sv < sq_range_m q \<longrightarrow> sq_inside q)"
proof -
  define s t where "s = tan (h / 2)" and "t = tan (w / 2)"
  have st: "0 < s" "0 < t" using fov tan_gt_zero [of "h / 2"] tan_gt_zero [of "w / 2"] by (simp_all add: s_def t_def)
  define cx cy where "cx = (of_int width - 1) / (2::real)" and "cy = (of_int height - 1) / (2::real)"
  note ox = pixel_offset [OF size(1) pixel(1,2) st(1) cx_def] and oy = pixel_offset [OF size(2) pixel(3,4) st(2) cy_def]
  have c: "dpi_cx inp = Fin cx" "dpi_cy inp = Fin cy" "dpi_fx inp = Fin (cx / s)" "dpi_fy inp = Fin (cy / t)"
    using st by (simp_all add: inp provider_input_def Let_def cx_def cy_def sv [symmetric] fov s_def t_def)
  have pp: "pp_fx p = Fin (cx / s)" "pp_fy p = Fin (cy / t)" "pp_cx p = Fin cx" "pp_cy p = Fin cy" "pp_k1 p = Fin a" "pp_k2 p = Fin b"
    "pp_origin p = csv_origin_local sv" "pp_forward p = csv_forward_axis_local sv" "pp_right p = csv_right_axis_local sv"
    "pp_up p = csv_up_axis_local sv" "pp_scale p = k" "pp_min_depth_m p = dpc_min_depth_m cfg"
    using c lens by (simp_all add: p projection_params_def) (simp_all add: inp provider_input_def Let_def)
  define X Y where "X = (of_int u - cx) * (1 / (cx / s))" and "Y = (of_int v - cy) * (1 / (cy / t))"
  have M: "m = 1 + a * (X * X + Y * Y) + b * (X * X + Y * Y) * (X * X + Y * Y)"
    using m(1) by (simp add: c radial_factor_def X_def Y_def power2_eq_square)
  define xn yn where "xn = X / m" and "yn = Y / m"
  have "pixel_ray p u v = (if a \<noteq> 0 \<or> b \<noteq> 0 then undistort_k1k2 (Fin X) (Fin Y) (Fin a) (Fin b) else (Fin X, Fin Y))"
    using ox(1) oy(1) st by (simp add: pixel_ray_def pp Let_def deq_def X_def Y_def)
  moreover have "undistort_k1k2 (Fin X) (Fin Y) (Fin a) (Fin b) = (Fin xn, Fin yn)"
    using m(2) by (simp add: undistort_k1k2_def Let_def M [symmetric] xn_def yn_def)
  moreover have "m = 1" if "a = 0" "b = 0" using that M by simp
  ultimately have ray: "pixel_ray p u v = (Fin xn, Fin yn)" by (auto simp: xn_def yn_def)
  obtain depth where depth: "metric_depth p i = Some depth" "l = point_at p u v depth" using pixel(5) by (auto simp: unproject_def)
  have "0 < pp_min_depth_m p" using min_depth unfolding pp by (cases "dpc_min_depth_m cfg") (auto simp: sc_epsilon_def elim: less_trans [rotated])
  with depth(1) k obtain d where d: "depth = Fin d" "0 < d" "dpc_min_depth_m cfg \<le> depth"
    using metric_depth_bounds [of p i depth] by (auto simp: pp)
  have eps: "1 / 10 ^ 9 < d" using d min_depth by (cases "dpc_min_depth_m cfg") (auto simp: sc_epsilon_def)
  note co = point_at_coordinates [of p u v xn yn l d, unfolded pp, OF axes origin ray depth(2) [unfolded d(1)]]
  have unit: "normalize_or (csv_forward_axis_local sv) x = csv_forward_axis_local sv" "normalize_or (csv_right_axis_local sv) x = csv_right_axis_local sv"
    "normalize_or (csv_up_axis_local sv) x = csv_up_axis_local sv" for x
    using axes by (simp_all add: orthonormal_axes_def normalize_or_unit)
  have mm: "sq_forward_m q = Fin d" "sq_right_m q = Fin (xn * d)" "sq_up_m q = Fin (- (yn * d))"
    by (simp_all add: q query_point_in_camera_sensing_volume_def Let_def unit co)
  have "sq_inside q" if "1 \<le> m" "\<not> sq_range_m q < csv_near_range_m sv" "\<not> csv_far_range_m sv < sq_range_m q"
  proof -
    have "\<bar>X\<bar> \<le> s" "\<bar>Y\<bar> \<le> t" using ox(2) oy(2) by (simp_all add: X_def Y_def)
    then have "\<bar>xn\<bar> \<le> s" "\<bar>yn\<bar> \<le> t" using that(1) st by (auto simp: xn_def yn_def abs_divide divide_le_eq intro: order_trans)
    then have "\<bar>xn * d\<bar> \<le> s * d" "\<bar>yn * d\<bar> \<le> t * d" using d(2) by (simp_all add: abs_mult mult_right_mono)
    then show ?thesis
      using that(2,3) eps unfolding q query_point_in_camera_sensing_volume_def Let_def unit co
      by (simp add: fov sc_epsilon_def s_def t_def)
  qed
  moreover have "cx + cx / s * X = of_int u" "cy + cy / t * Y = of_int v"
    using ox(1) oy(1) st by (simp_all add: X_def Y_def field_simps)
  moreover have "m * xn = X" "m * yn = Y" using m(2) by (simp_all add: xn_def yn_def)
  ultimately show ?thesis using depth(1) d by (simp add: mm c)
qed

end
