(* ===== verification/Depth_Limits.thy ===== *)
theory Depth_Limits
  imports Depth_Properties
begin

text \<open>
  The pipeline as a whole returns and keeps within its limit, for every fair generator; two lemmas record where
  its plane search and its line segments do not do what they are meant to; concrete runs.
\<close>

section \<open>Drawing indices\<close>

fun nth_draw :: "('g \<Rightarrow> nat \<Rightarrow> nat \<times> 'g) \<Rightarrow> nat \<Rightarrow> nat \<Rightarrow> 'g \<Rightarrow> nat" where
  "nth_draw dist_rng n 0 g = fst (dist_rng g n)"
| "nth_draw dist_rng n (Suc k) g = nth_draw dist_rng n k (snd (dist_rng g n))"

text \<open>Draws are below the bound, and no two values are all that is ever drawn out of three or more.\<close>

definition fair_rng :: "('g \<Rightarrow> nat \<Rightarrow> nat \<times> 'g) \<Rightarrow> bool" where
  "fair_rng dist_rng \<longleftrightarrow>
     (\<forall>g n. 0 < n \<longrightarrow> fst (dist_rng g n) < n) \<and>
     (\<forall>g n a b. 3 \<le> n \<longrightarrow> (\<exists>k. nth_draw dist_rng n k g \<noteq> a \<and> nth_draw dist_rng n k g \<noteq> b))"

lemma redraw_returns:
  assumes "nth_draw dist_rng n k g \<notin> taken"
  shows "\<exists>r g'. redraw dist_rng n taken i g = Some (r, g')"
  using assms
proof (induction k arbitrary: i g)
  case 0
  then show ?case by (subst redraw.simps, simp) (subst redraw.simps, simp)
next
  case (Suc k)
  then show ?case by (subst redraw.simps) simp
qed

lemma draw_three_returns:
  assumes "fair_rng dist_rng" "3 \<le> n"
  shows "\<exists>ia ib ic g'. draw_three dist_rng n g = Some (ia, ib, ic, g')"
proof -
  have fair: "\<exists>r g'. redraw dist_rng n taken i h = Some (r, g')" if "taken = {a} \<or> taken = {a, b}" for taken a b i h
  proof -
    obtain k where "nth_draw dist_rng n k h \<noteq> a" "nth_draw dist_rng n k h \<noteq> b" using assms unfolding fair_rng_def by blast
    then show ?thesis using redraw_returns [of dist_rng n k h taken i] that by auto
  qed
  obtain ia g1 ib g2 ic g3 where d: "dist_rng g n = (ia, g1)" "dist_rng g1 n = (ib, g2)" "dist_rng g2 n = (ic, g3)" by fastforce
  obtain r g4 where r: "redraw dist_rng n {ia} ib g3 = Some (r, g4)" using fair [of "{ia}" ia ia ib g3] by auto
  obtain t g5 where "redraw dist_rng n {ia, r} ic g4 = Some (t, g5)" using fair [of "{ia, r}" ia r ic g4] by auto
  with d r show ?thesis by (simp add: draw_three_def)
qed

lemma ransac_returns:
  assumes "fair_rng dist_rng" "3 \<le> length pts"
  shows "\<exists>best' g'. ransac dist_rng threshold pts iters best g = Some (best', g')"
proof (induction iters arbitrary: best g)
  case (Suc iters)
  obtain ia ib ic g' where "draw_three dist_rng (length pts) g = Some (ia, ib, ic, g')" using draw_three_returns [OF assms] by blast
  then show ?case using Suc by simp
qed simp

definition device_ok :: "DeviceObstacleEvidence \<Rightarrow> bool" where
  "device_ok e \<longleftrightarrow> (de_state e = 2 \<and> de_shape e = 3 \<and> de_is_thin_structure_hint e = 0) \<or>
     (de_state e = 3 \<and> de_shape e = 4 \<and> de_is_thin_structure_hint e = 1)"

lemma patch_loop_returns:
  assumes "fair_rng dist_rng" "\<forall>e\<in>set out. device_ok e"
  shows "\<exists>patches g'. patch_loop dist_rng params min_inliers n pts out g = Some (patches, g') \<and> (\<forall>e\<in>set patches. device_ok e)"
  using assms(2)
proof (induction n arbitrary: pts out g)
  case (Suc n)
  show ?case
  proof (cases "length pts < 3")
    case False
    then obtain best g' where r: "ransac dist_rng (pp_voxel_size_m params) pts 100 None g = Some (best, g')"
      using ransac_returns [OF assms(1)] by (metis not_less)
    show ?thesis
      by (cases best) (use r False Suc in \<open>auto simp: Let_def patch_evidence_def device_ok_def\<close>)
  qed (use Suc.prems in simp)
qed simp

section \<open>Scanning for thin structures\<close>

lemma component_evidence_ok: "component_evidence img p msk component = Some e \<Longrightarrow> device_ok e"
  by (auto simp: component_evidence_def segment_evidence_def Let_def device_ok_def split: if_splits prod.splits option.splits)

lemma thin_scan_returns:
  assumes "length visited = nat (pp_width p) * nat (pp_height p)" "\<forall>c\<in>set pixels. pixel_in (pp_width p) (pp_height p) c"
    "length out \<le> 8" "\<forall>e\<in>set out. device_ok e"
  shows "\<exists>thin. thin_scan img p msk pixels visited out = Some thin \<and> length thin \<le> 8 \<and> (\<forall>e\<in>set thin. device_ok e)"
  using assms
proof (induction pixels arbitrary: visited out)
  case (Cons c pixels)
  obtain u v where c: "c = (u, v)" by fastforce
  show ?case
  proof (cases "length out < 8 \<and> bit_at msk (pp_width p) u v \<and> \<not> bit_at visited (pp_width p) u v")
    case True
    then have "open_pixel msk visited (pp_width p) (pp_height p) (u, v)" using Cons.prems(2) by (simp add: open_pixel_def c)
    from bfs_component_spec [OF Cons.prems(1) this] obtain component visited' where
      b: "bfs_component msk visited (pp_width p) (pp_height p) u v = Some (component, visited')" "length visited' = nat (pp_width p) * nat (pp_height p)"
      by blast
    let ?out = "out @ (case component_evidence img p msk component of None \<Rightarrow> [] | Some e \<Rightarrow> [e])"
    have "length ?out \<le> 8" "\<forall>e\<in>set ?out. device_ok e"
      using True Cons.prems(4) component_evidence_ok by (auto split: option.splits)
    from Cons.IH [OF b(2) _ this] show ?thesis using True b(1) Cons.prems(2) by (simp add: c)
  next
    case False
    then show ?thesis using Cons.prems Cons.IH [OF Cons.prems(1) _ Cons.prems(3,4)] by (auto simp: c)
  qed
qed simp

lemma detect_thin_returns:
  "\<exists>thin. detect_thin_structures_device img p = Some thin \<and> length thin \<le> 8 \<and> (\<forall>e\<in>set thin. device_ok e)"
proof (cases "pp_width p < 5 \<or> pp_height p < 5")
  case False
  have "\<forall>c\<in>set (image_pixels (pp_width p) (pp_height p)). pixel_in (pp_width p) (pp_height p) c"
    by (auto simp: image_pixels_def in_image_def)
  from thin_scan_returns [OF _ this] False show ?thesis by (simp add: detect_thin_structures_device_def)
qed (simp add: detect_thin_structures_device_def)

section \<open>The pipeline\<close>

lemma block_evidence_ok: "device_ok (block_evidence ne p img b)"
  by (simp add: block_evidence_def pixel_evidence_def device_ok_def Let_def split: prod.splits)

lemma project_is_take:
  "\<exists>blocks. project_depth_to_device_evidence ne img p = take (pp_max_evidence p) (map (block_evidence ne p img) blocks)"
proof -
  have "project_depth_to_device_evidence ne img p = [] \<or>
    project_depth_to_device_evidence ne img p = project_rows ne p img [0..pp_grid_rows p - 1] []"
    by (simp add: project_depth_to_device_evidence_def)
  then show ?thesis
  proof
    assume "project_depth_to_device_evidence ne img p = []"
    then show ?thesis by (intro exI [of _ "[]"]) simp
  next
    assume "project_depth_to_device_evidence ne img p = project_rows ne p img [0..pp_grid_rows p - 1] []"
    then show ?thesis using project_rows_take [of "[]" p ne img "[0..pp_grid_rows p - 1]"] by auto
  qed
qed

lemma project_device_ok: "\<forall>e\<in>set (project_depth_to_device_evidence ne img p). device_ok e"
  and project_length: "length (project_depth_to_device_evidence ne img p) \<le> pp_max_evidence p"
proof -
  obtain blocks where "project_depth_to_device_evidence ne img p = take (pp_max_evidence p) (map (block_evidence ne p img) blocks)"
    using project_is_take by blast
  then show "\<forall>e\<in>set (project_depth_to_device_evidence ne img p). device_ok e"
    "length (project_depth_to_device_evidence ne img p) \<le> pp_max_evidence p"
    by (auto simp: block_evidence_ok dest!: in_set_takeD)
qed

lemma inflate_one_fields:
  "ev_state (inflate_one sensor provider source frame time e) = evidence_state_of (de_state e)"
  "ev_is_thin_structure_hint (inflate_one sensor provider source frame time e) = (de_is_thin_structure_hint e \<noteq> 0)"
  "ev_timestamp (inflate_one sensor provider source frame time e) = time"
  "ev_source_kind (inflate_one sensor provider source frame time e) = source"
  "ev_map_frame_id (inflate_one sensor provider source frame time e) = frame"
  "ev_center_local (inflate_one sensor provider source frame time e) = de_center e"
  by (simp_all add: inflate_one_def Let_def)

lemma stamp_bearing_fields:
  "ev_state (stamp_bearing sv e) = ev_state e" "ev_is_thin_structure_hint (stamp_bearing sv e) = ev_is_thin_structure_hint e"
  "ev_timestamp (stamp_bearing sv e) = ev_timestamp e" "ev_source_kind (stamp_bearing sv e) = ev_source_kind e"
  "ev_map_frame_id (stamp_bearing sv e) = ev_map_frame_id e" "ev_center_local (stamp_bearing sv e) = ev_center_local e"
  by (simp_all add: stamp_bearing_def Let_def)

lemma append_up_to_length:
  "length buf \<le> n \<Longrightarrow> length (append_up_to n buf extra) \<le> n"
  by (simp add: append_up_to_def)

lemma append_up_to_all: "\<forall>e\<in>set buf. P e \<Longrightarrow> \<forall>e\<in>set extra. P e \<Longrightarrow> \<forall>e\<in>set (append_up_to n buf extra). P e"
  by (auto simp: append_up_to_def dest: in_set_takeD)

text \<open>
  C29: With a fair generator the depth pipeline comes to an end for every image and configuration: it fails only when the buffer for the configured maximum
  cannot be allocated or the image is shorter than its size; otherwise it gives at most the configured maximum of evidence, that of the image's blocks first if the intrinsics are positive, and each
  piece is an obstacle or a thin structure marked as such, stamped with the frame's time, the provider's kind and the vehicle's map frame.
\<close>
theorem depth_pipeline_returns:
  assumes fair: "fair_rng dist_rng"
  shows "(\<exists>evs. run_depth_pipeline alloc ne dist_rng rng inp ego_frame cfg = Some (Inr evs) \<and> length evs \<le> dpc_max_evidence cfg \<and>
      (dpi_inverse_depth inp \<noteq> [] \<and> 0 < dpi_width inp \<and> 0 < dpi_height inp \<and> 0 < dpi_fx inp \<and> 0 < dpi_fy inp \<and> 0 < dpi_scale inp \<longrightarrow>
        (\<exists>rest. map ev_center_local evs = map de_center (project_depth_to_device_evidence ne (dpi_inverse_depth inp)
          (projection_params inp cfg (esf_sensing_volume ego_frame))) @ rest)) \<and>
      (\<forall>e\<in>set evs. ev_state e = (if ev_is_thin_structure_hint e then EvThinStructureRisk else EvOccupied) \<and>
         ev_timestamp e = fp_timestamp (esf_frame ego_frame) \<and> ev_source_kind e = dpi_source_kind inp \<and>
         ev_map_frame_id e = ego_map_frame_id (esf_ego ego_frame))) \<or>
    run_depth_pipeline alloc ne dist_rng rng inp ego_frame cfg = Some (Inl ''bad_alloc'') \<and> \<not> alloc (dpc_max_evidence cfg) \<or>
    run_depth_pipeline alloc ne dist_rng rng inp ego_frame cfg = Some (Inl ''undefined'') \<and>
      int (length (dpi_inverse_depth inp)) < dpi_width inp * dpi_height inp"
proof -
  let ?p = "projection_params inp cfg (esf_sensing_volume ego_frame)" and ?img = "dpi_inverse_depth inp" and ?cap = "dpc_max_evidence cfg mod 2 ^ 32"
  let ?buf = "project_depth_to_device_evidence ne ?img ?p"
  have "\<exists>patches. fit_surface_patches_device dist_rng rng ?buf ?p = Some patches \<and> (\<forall>e\<in>set patches. device_ok e)"
    using patch_loop_returns [OF fair, of "[]" ?p "max 3 (length ?buf div 10)" 3 "map de_center ?buf" rng]
    by (auto simp: fit_surface_patches_device_def)
  then obtain patches where patches: "(if dpc_detect_surface_patches cfg \<and> 0 < length ?buf then fit_surface_patches_device dist_rng rng ?buf ?p
      else Some []) = Some patches" "\<forall>e\<in>set patches. device_ok e" by (cases "dpc_detect_surface_patches cfg \<and> 0 < length ?buf") auto
  obtain thin where thin: "(if dpc_detect_thin_structures cfg then detect_thin_structures_device ?img ?p else Some []) = Some thin"
    "\<forall>e\<in>set thin. device_ok e" using detect_thin_returns [of ?img ?p] by (cases "dpc_detect_thin_structures cfg") auto
  define out where "out = append_up_to ?cap (append_up_to ?cap ?buf patches) thin"
  have "length ?buf \<le> ?cap" using project_length [of ne ?img ?p] by (simp add: projection_params_def)
  then have len: "length out \<le> dpc_max_evidence cfg"
    unfolding out_def by (intro order_trans [OF append_up_to_length mod_less_eq_dividend] append_up_to_length)
  have ok: "\<forall>e\<in>set out. device_ok e"
    unfolding out_def by (intro append_up_to_all project_device_ok patches(2) thin(2))
  let ?run = "run_depth_pipeline alloc ne dist_rng rng inp ego_frame cfg"
  define evs where "evs = map (stamp_bearing (esf_sensing_volume ego_frame))
      (inflate out (dpi_sensor_name inp) (dpi_source_provider inp) (dpi_source_kind inp) (ego_map_frame_id (esf_ego ego_frame))
        (fp_timestamp (esf_frame ego_frame)))"
  have centres: "\<exists>rest. map ev_center_local evs = map de_center ?buf @ rest"
    by (simp add: evs_def out_def append_up_to_def inflate_def comp_def stamp_bearing_fields inflate_one_fields)
  have guard: "\<not> (0 < dpi_width inp \<and> 0 < dpi_height inp \<and> 0 < dpi_fx inp \<and> 0 < dpi_fy inp \<and> 0 < dpi_scale inp)"
    if "dpi_inverse_depth inp \<noteq> []" "?run = Some (Inr [])" "?run \<noteq> Some (Inr evs)"
    using that unfolding run_depth_pipeline_def Let_def patches(1) thin(1) out_def evs_def
    by (cases "dpi_fx inp"; cases "dpi_fy inp"; cases "dpi_scale inp") (auto split: if_splits)
  have "?run = Some (Inr []) \<or> ?run = Some (Inl ''bad_alloc'') \<and> \<not> alloc (dpc_max_evidence cfg) \<or>
    ?run = Some (Inl ''undefined'') \<and> int (length (dpi_inverse_depth inp)) < dpi_width inp * dpi_height inp \<or>
    ?run = Some (Inr evs)"
    unfolding run_depth_pipeline_def Let_def patches(1) thin(1) out_def evs_def by simp
  moreover have "length evs \<le> dpc_max_evidence cfg \<and> (\<forall>e\<in>set evs. ev_state e = (if ev_is_thin_structure_hint e then EvThinStructureRisk else EvOccupied) \<and>
         ev_timestamp e = fp_timestamp (esf_frame ego_frame) \<and> ev_source_kind e = dpi_source_kind inp \<and>
         ev_map_frame_id e = ego_map_frame_id (esf_ego ego_frame))"
    unfolding evs_def using len ok by (auto simp: inflate_def stamp_bearing_fields inflate_one_fields device_ok_def evidence_state_of_def)
  ultimately show ?thesis using centres guard by (cases "?run = Some (Inr evs)") auto
qed

section \<open>Where the kernels do not do what they mean to\<close>

text \<open>
  Turning the normal of a plane towards the camera without turning \<open>d\<close> moves the plane: a point on it is then twice its distance from the
  frame's origin away, so the points of a patch are not removed and the next search finds the same plane again.
\<close>

lemma flipped_plane_moves:
  assumes "plane_dist \<lparr>pl_nx = Fin a, pl_ny = Fin b, pl_nz = Fin c, pl_d = Fin d\<rparr> (vec3 (Fin x) (Fin y) (Fin z)) = Fin 0"
  shows "plane_dist \<lparr>pl_nx = - Fin a, pl_ny = - Fin b, pl_nz = - Fin c, pl_d = Fin d\<rparr> (vec3 (Fin x) (Fin y) (Fin z)) = Fin (2 * \<bar>d\<bar>)"
  using assms by (simp add: plane_dist_def)

text \<open>The range of a thin structure is the length of its segment, wherever the segment is.\<close>

lemma segment_range_is_length:
  assumes "segment_evidence aspect (vec3 (Fin a) (Fin b) (Fin c)) (vec3 (Fin x) (Fin y) (Fin z)) = Some e"
  shows "de_range_m e = Fin (sqrt ((x - a) * (x - a) + (y - b) * (y - b) + (z - c) * (z - c)))"
proof -
  define q where "q = (x - a) * (x - a) + (y - b) * (y - b) + (z - c) * (z - c)"
  have "((x - a) * (1/2)) * ((x - a) * (1/2)) + ((y - b) * (1/2)) * ((y - b) * (1/2)) + ((z - c) * (1/2)) * ((z - c) * (1/2)) = q / 4"
    by (simp add: q_def field_simps)
  moreover have "0 \<le> q" by (simp add: q_def)
  ultimately have "norm3 (vec3 (Fin ((x - a) * (1/2))) (Fin ((y - b) * (1/2))) (Fin ((z - c) * (1/2)))) = Fin (sqrt q / 2)"
    by (simp only: norm3_def Vec3.simps times_double.simps plus_double.simps std_sqrt.simps) (simp add: real_sqrt_divide)
  then show ?thesis using assms
    by (auto simp: segment_evidence_def Let_def q_def simp del: times_divide_eq_right mult_1_right split: if_splits)
qed

section \<open>Concrete runs\<close>

definition counter_rng :: "nat \<Rightarrow> nat \<Rightarrow> nat \<times> nat" where
  "counter_rng g n = (g mod n, g + 1)"

lemma counter_draw: "nth_draw counter_rng n k g = (g + k) mod n"
  by (induction k arbitrary: g) (simp_all add: counter_rng_def)

lemma counter_rng_fair: "fair_rng counter_rng"
proof -
  have "\<exists>k. nth_draw counter_rng n k g \<noteq> a \<and> nth_draw counter_rng n k g \<noteq> b" if n: "3 \<le> n" for g n a b
  proof -
    have hit: "\<exists>k. nth_draw counter_rng n k g = c" if c: "c < n" for c
    proof -
      have "(g + (n - g mod n + c)) mod n = c"
      proof -
        have "g + (n - g mod n + c) = (g div n + 1) * n + c"
          using div_mult_mod_eq [of g n] mod_less_divisor [of n g] n unfolding distrib_right by linarith
        then show ?thesis using c by (simp only: mod_mult_self3 mod_less)
      qed
      then show ?thesis by (metis counter_draw)
    qed
    have "card {a, b} \<le> 2" by (simp add: card_insert_if)
    moreover have "card {..<n} = n" by simp
    ultimately have "\<not> {..<n} \<subseteq> {a, b}" using n card_mono [of "{a, b}" "{..<n}"] by auto
    then obtain c where "c < n" "c \<noteq> a" "c \<noteq> b" by auto
    with hit [of c] show ?thesis by auto
  qed
  then show ?thesis by (simp add: fair_rng_def counter_rng_def)
qed

theorem depth_pipeline_returns_witness:
  "\<exists>(inp :: DepthPipelineInput) ego_frame cfg evs.
     run_depth_pipeline (\<lambda>n. n \<le> 2 ^ 56) (\<lambda>k xs. xs) counter_rng 0 inp ego_frame cfg = Some (Inr evs) \<and> dpi_inverse_depth inp = [Fin 1] \<and> length evs \<le> 512"
proof -
  obtain inp :: DepthPipelineInput where inp: "dpi_inverse_depth inp = [Fin 1]" "dpi_width inp = 1" "dpi_height inp = 1" by (meson DepthPipelineInput.select_convs)
  obtain cfg :: DepthPipelineConfig where cfg: "dpc_max_evidence cfg = 512" by (meson DepthPipelineConfig.select_convs)
  show ?thesis using depth_pipeline_returns [OF counter_rng_fair, of "\<lambda>n. n \<le> 2 ^ 56" "\<lambda>k xs. xs" 0 inp _ cfg] by (simp add: inp cfg) (use inp(1) in blast)
qed

theorem bfs_component_exact_witness:
  "\<exists>component visited'. bfs_component [True, True, False] [False, False, False] 3 1 0 0 = Some (component, visited') \<and>
     (1, 0) \<in> set component \<and> distinct component"
proof -
  have "open_pixel [True, True, False] [False, False, False] 3 1 (0, 0)" by (simp add: open_pixel_def in_image_def bit_at_def)
  moreover have "thin_step [True, True, False] [False, False, False] 3 1 (0, 0) (1, 0)"
    by (simp add: thin_step_def four_neighbours_def open_pixel_def in_image_def bit_at_def)
  ultimately show ?thesis using bfs_component_exact [of "[False, False, False]" 3 1 "[True, True, False]" 0 0] by fastforce
qed

text \<open>Sorting is one way to select.\<close>

fun insert_closer :: "CellPixel \<Rightarrow> CellPixel list \<Rightarrow> CellPixel list" where
  "insert_closer c [] = [c]"
| "insert_closer c (d # ds) = (if fst c < fst d then d # insert_closer c ds else c # d # ds)"

definition sorted_selection :: "nat \<Rightarrow> CellPixel list \<Rightarrow> CellPixel list" where
  "sorted_selection k xs = foldr insert_closer xs []"

lemma insert_closer_mset: "mset (insert_closer c ds) = add_mset c (mset ds)"
  by (induction ds) auto

lemma insert_closer_sorted:
  assumes "sorted_wrt (\<lambda>a b. \<not> fst a < fst b) ds" "isfinite (fst c)" "\<forall>d\<in>set ds. isfinite (fst d)"
  shows "sorted_wrt (\<lambda>a b. \<not> fst a < fst b) (insert_closer c ds)"
  using assms
proof (induction ds)
  case (Cons d ds)
  have mem: "set (insert_closer c ds) = insert c (set ds)" by (metis insert_closer_mset set_mset_add_mset_insert set_mset_mset)
  have "\<not> fst d < fst c" if "fst c < fst d" using that by (cases "fst c"; cases "fst d") auto
  moreover have "\<not> fst c < fst e" if "\<not> fst c < fst d" "e \<in> set ds" for e
    using that Cons.prems by (cases "fst c"; cases "fst d"; cases "fst e") (auto dest!: bspec [of _ _ e])
  ultimately show ?case using Cons mem by auto
qed simp

lemma sorted_selection_laws: "nth_element_laws sorted_selection"
proof -
  have m: "mset (sorted_selection k xs) = mset xs" for k xs by (induction xs) (simp_all add: sorted_selection_def insert_closer_mset)
  have s: "sorted_wrt (\<lambda>a b. \<not> fst a < fst b) (sorted_selection k xs)" if "\<forall>x\<in>set xs. isfinite (fst x)" for k xs
    using that
  proof (induction xs)
    case (Cons x xs)
    have "set (sorted_selection k xs) = set xs" using m by (metis set_mset_mset)
    then show ?case using Cons insert_closer_sorted [of "sorted_selection k xs" x] by (simp add: sorted_selection_def)
  qed (simp add: sorted_selection_def)
  have len: "length (sorted_selection k xs) = length xs" for k xs using m by (metis size_mset)
  show ?thesis unfolding nth_element_laws_def Let_def
    using s m len by (auto simp: sorted_wrt_iff_nth_less)
qed

theorem depth_grid_correct_witness:
  "\<exists>p img. length (project_depth_to_device_evidence sorted_selection img p) = 1 \<and>
     de_range_m (hd (project_depth_to_device_evidence sorted_selection img p)) = Fin 2"
proof -
  define p where "p = \<lparr>pp_fx = 1, pp_fy = 1, pp_cx = 0, pp_cy = 0, pp_k1 = 0, pp_k2 = 0, pp_width = 2, pp_height = 1, pp_grid_cols = 1, pp_grid_rows = 1,
    pp_min_depth_m = Fin (1/5), pp_max_depth_m = 80, pp_scale = 1, pp_voxel_size_m = Fin (1/2), pp_origin = vec3_zero, pp_forward = vec3 1 0 0,
    pp_right = vec3 0 1 0, pp_up = vec3 0 0 (- 1), pp_max_evidence = 512\<rparr>"
  have pf: "pp_width p = 2" "pp_height p = 1" "pp_grid_cols p = 1" "pp_grid_rows p = 1" "pp_max_evidence p = 512" by (simp_all add: p_def)
  let ?img = "[Fin (1/2), NaN]"
  let ?evs = "project_depth_to_device_evidence sorted_selection ?img p"
  have d: "metric_depth p (Fin (1/2)) = Some (Fin 2)" "metric_depth p NaN = None" by (simp_all add: metric_depth_def Let_def p_def)
  have u: "[0..1::int] = [0, 1]" "[0..0::int] = [0]" by (simp_all add: upto.simps)
  have b: "block_pixels p ?img 0 0 = [(Fin (1/2), 0, 0)]"
    using d by (simp add: block_pixels_def cell_pixels_def Let_def pixel_at_def u pf)
  have s: "shown_blocks p ?img = [(0, 0)]" by (simp add: shown_blocks_def grid_blocks_def u b pf)
  have ok: "0 < pp_fx p" "0 < pp_fy p" "0 < pp_scale p" "0 < pp_grid_cols p" "pp_grid_cols p \<le> pp_width p"
    "0 < pp_grid_rows p" "pp_grid_rows p \<le> pp_height p" by (simp_all add: p_def)
  note c = depth_grid_correct [OF sorted_selection_laws ok refl refl refl, of ?img]
  have len: "length ?evs = 1" using conjunct1 [OF c] unfolding s by (simp add: pf)
  obtain gr gc u v depth where e: "shown_blocks p ?img ! 0 = (gr, gc)" "gc * (pp_width p div pp_grid_cols p) \<le> u"
    "u < gc * (pp_width p div pp_grid_cols p) + pp_width p div pp_grid_cols p" "gr * (pp_height p div pp_grid_rows p) \<le> v"
    "v < gr * (pp_height p div pp_grid_rows p) + pp_height p div pp_grid_rows p"
    "metric_depth p (pixel_at ?img (pp_width p) u v) = Some depth" "de_range_m (?evs ! 0) = depth"
    using conjunct2 [OF c] len by (metis less_one)
  from e(1) have "gr = 0" "gc = 0" unfolding s by simp_all
  with e(2-5) have "v = 0" "u = 0 \<or> u = 1" by (auto simp: pf)
  with e(6) d have "depth = Fin 2" by (auto simp: pixel_at_def pf)
  with e(7) len have "de_range_m (hd ?evs) = Fin 2" by (simp add: hd_conv_nth length_greater_0_conv [symmetric] del: length_greater_0_conv)
  with len show ?thesis by blast
qed

theorem unprojected_pixel_in_view_witness:
  "\<exists>sv. csv_forward_axis_local sv = vec3 1 0 0 \<and> sq_inside (query_point_in_camera_sensing_volume sv (vec3 10 10 0))"
proof -
  obtain sv :: CameraSensingVolume where sv: "csv_forward_axis_local sv = vec3 1 0 0" "csv_right_axis_local sv = vec3 0 1 0"
    "csv_up_axis_local sv = vec3 0 0 (- 1)" "csv_origin_local sv = vec3 0 0 0" "csv_horizontal_fov_rad sv = Fin (pi / 2)"
    "csv_vertical_fov_rad sv = Fin (pi / 2)" "csv_near_range_m sv = Fin (1/2)" "csv_far_range_m sv = Fin 80"
    by (meson CameraSensingVolume.select_convs)
  obtain ci :: CameraIntrinsics where "ci_distortion_k1 ci = 0" "ci_distortion_k2 ci = 0" by (meson CameraIntrinsics.select_convs)
  moreover obtain frame :: FramePacket where "fp_intrinsics frame = ci" by (meson FramePacket.select_convs)
  ultimately have lens: "ci_distortion_k1 (fp_intrinsics frame) = 0" "ci_distortion_k2 (fp_intrinsics frame) = 0" by simp_all
  obtain ego_frame :: EgoSensingFrame where f: "esf_frame ego_frame = frame" "esf_sensing_volume ego_frame = sv"
    by (meson EgoSensingFrame.select_convs)
  obtain cfg :: DepthPipelineConfig where cfg: "dpc_min_depth_m cfg = Fin (1/5)" "dpc_max_depth_m cfg = Fin 80"
    by (meson DepthPipelineConfig.select_convs)
  define inp where "inp = provider_input [] 3 3 1 DepthProvider [] [] ego_frame"
  define p where "p = projection_params inp cfg sv"
  have pf: "pp_fx p = Fin 1" "pp_fy p = Fin 1" "pp_cx p = Fin 1" "pp_cy p = Fin 1" "pp_k1 p = 0" "pp_k2 p = 0" "pp_scale p = Fin 1"
    "pp_min_depth_m p = Fin (1/5)" "pp_max_depth_m p = Fin 80" "pp_origin p = vec3 0 0 0" "pp_forward p = vec3 1 0 0"
    "pp_right p = vec3 0 1 0" "pp_up p = vec3 0 0 (- 1)"
    using lens by (simp_all add: p_def inp_def projection_params_def provider_input_def Let_def f sv cfg tan_45)
  have l: "unproject p 2 1 (Fin (1/10)) = Some (vec3 10 10 0)"
    by (simp add: unproject_def metric_depth_def point_at_def pixel_ray_def along_axes_def Let_def deq_def pf)
  let ?q = "query_point_in_camera_sensing_volume sv (vec3 10 10 0)"
  have r: "sq_range_m ?q = Fin (sqrt 200)"
    by (simp add: query_point_in_camera_sensing_volume_def Let_def sc_norm_def sc_dot_def vec_subtract_def sv)
  have "sqrt 200 \<le> 80" by (rule real_le_lsqrt) simp_all
  moreover have "1 / 2 \<le> sqrt 200" by (rule real_le_rsqrt) (simp add: power2_eq_square)
  ultimately have range: "\<not> sq_range_m ?q < csv_near_range_m sv" "\<not> csv_far_range_m sv < sq_range_m ?q" unfolding r sv by simp_all
  have axes: "orthonormal_axes (csv_forward_axis_local sv) (csv_right_axis_local sv) (csv_up_axis_local sv)" "finite_point (csv_origin_local sv)"
    by (simp_all add: sv orthonormal_axes_def sc_dot_def)
  have c: "dpi_cx inp = Fin 1" "dpi_cy inp = Fin 1" "dpi_fx inp = Fin 1" "dpi_fy inp = Fin 1"
    by (simp_all add: inp_def provider_input_def Let_def f sv tan_45)
  have "sq_inside ?q"
    using unprojected_pixel_in_view [where u = 2 and v = 1 and i = "Fin (1/10)" and a = 0 and b = 0,
      OF f(2) [symmetric] axes sv(5) _ _ sv(6) _ _ _ _ inp_def p_def _ _ _ _ _ _ _ _ l refl refl] range
    by (simp add: f lens cfg sc_epsilon_def c radial_factor_def)
  with sv show ?thesis by blast
qed

end
