(* ===== verification/Obstacle_Products.thy ===== *)
theory Obstacle_Products
  imports Sensing_Coverage
begin

text \<open>
  \<open>src/world_model/obstacle_products.cpp\<close>: the occupancy around the vehicle, the swept volume ahead of it and the
  obstacle evidence that the world model derives from a fixture or from the ground truth of a simulator.
\<close>

section \<open>Data\<close>

record Vec2 =
  v2x :: double
  v2y :: double

record Rect2 =
  rect_x :: double
  rect_y :: double
  rect_width :: double
  rect_height :: double

text \<open>An observation; its body-frame position and covariance are read by nothing modelled.\<close>

record Observation3D =
  ob_track_id :: string
  ob_source_detection_id :: string
  ob_has_source_detection :: bool
  ob_source_bbox_px :: Rect2
  ob_has_source_bbox :: bool
  ob_source_frame_id :: string
  ob_has_source_frame :: bool
  ob_timestamp :: TimePoint
  ob_position_local :: Vec3
  ob_velocity_local :: Vec3
  ob_map_frame_id :: MapFrameId
  ob_class_label :: ClassLabel
  ob_faction :: FactionLabel
  ob_confidence :: double

record PerceptionPipelineOutput =
  po_observations :: "Observation3D list"
  po_obstacle_evidence :: "ObstacleEvidence list"

datatype OccupancyCellState = CellUnknown | CellFree | CellOccupied

datatype SweptVolumeStatus = SweptUnknown | SweptClear | OccupiedBlocked | UnknownRisk | StaleMap

record OccupancyCellSummary =
  ocs_center_local :: Vec3
  ocs_size_m :: Vec3
  ocs_state :: OccupancyCellState
  ocs_confidence :: double
  ocs_age_s :: double
  ocs_distance_to_nearest_occupied_m :: double
  ocs_source_provider :: string
  ocs_source_object_name :: string

record EgoOccupancyMapSnapshot =
  eo_map_frame_id :: MapFrameId
  eo_timestamp :: TimePoint
  eo_source_kind :: OccupancySourceKind
  eo_source_provider :: string
  eo_resolution_m :: double
  eo_size_m :: Vec3
  eo_occupied_count :: u32
  eo_free_count :: u32
  eo_unknown_count :: u32
  eo_stale_count :: u32
  eo_nearest_obstacle_distance_m :: double
  eo_forward_corridor_clearance_m :: double
  eo_has_valid_occupancy :: bool
  eo_debug_cells :: "OccupancyCellSummary list"

record SweptVolumeDebug =
  sw_map_frame_id :: MapFrameId
  sw_timestamp :: TimePoint
  sw_status :: SweptVolumeStatus
  sw_source_provider :: string
  sw_reason :: string
  sw_start_local :: Vec3
  sw_end_local :: Vec3
  sw_radius_m :: double
  sw_horizon_s :: double
  sw_nominal_speed_mps :: double
  sw_min_clearance_m :: double
  sw_time_to_collision_s :: double
  sw_has_valid_query :: bool
  sw_blocking_cell_centers :: "Vec3 list"

section \<open>Helpers\<close>

text \<open>Unlike its namesakes this \<open>clamp01\<close> turns NaN into one.\<close>

definition op_clamp01 :: "double \<Rightarrow> double" where
  "op_clamp01 v = std_max 0 (std_min 1 v)"

definition op_distance_xy :: "Vec3 \<Rightarrow> Vec3 \<Rightarrow> double" where
  "op_distance_xy a b = (let dx = vx a - vx b; dy = vy a - vy b in std_sqrt (dx * dx + dy * dy))"

definition op_distance_3d :: "Vec3 \<Rightarrow> Vec3 \<Rightarrow> double" where
  "op_distance_3d a b =
     (let dx = vx a - vx b; dy = vy a - vy b; dz = vz a - vz b in std_sqrt (dx * dx + dy * dy + dz * dz))"

definition op_normalize_or :: "Vec3 \<Rightarrow> Vec3 \<Rightarrow> Vec3" where
  "op_normalize_or a fallback =
     (let len = sc_norm a in if len \<le> sc_epsilon then fallback else vec3 (vx a / len) (vy a / len) (vz a / len))"

definition swept_path_lateral_distance_m :: "Vec3 \<Rightarrow> Vec3 \<Rightarrow> Vec3 \<Rightarrow> double" where
  "swept_path_lateral_distance_m point path_start path_end =
     (let ax = vx path_start; ay = vy path_start; px = vx point; py = vy point;
          ux = vx path_end - ax; uy = vy path_end - ay; len2 = ux * ux + uy * uy
      in if len2 \<le> Fin (1 / 1000000) then std_sqrt ((px - ax) * (px - ax) + (py - ay) * (py - ay))
         else let t = std_clamp (((px - ax) * ux + (py - ay) * uy) / len2) 0 1;
                  dx = px - (ax + t * ux); dy = py - (ay + t * uy)
              in std_sqrt (dx * dx + dy * dy))"

definition occupancy_cell :: "Vec3 \<Rightarrow> Vec3 \<Rightarrow> OccupancyCellState \<Rightarrow> double \<Rightarrow> double \<Rightarrow> string \<Rightarrow> string \<Rightarrow> OccupancyCellSummary" where
  "occupancy_cell center extent state confidence nearest provider object_name =
     \<lparr>ocs_center_local = center, ocs_size_m = extent, ocs_state = state, ocs_confidence = confidence, ocs_age_s = 0,
      ocs_distance_to_nearest_occupied_m = nearest, ocs_source_provider = provider, ocs_source_object_name = object_name\<rparr>"

fun class_default_size :: "ClassLabel \<Rightarrow> Vec3" where
  "class_default_size Person = vec3 (Fin (8/10)) (Fin (8/10)) (Fin (18/10))"
| "class_default_size Car = vec3 (Fin (45/10)) 2 (Fin (17/10))"
| "class_default_size Boat = vec3 5 (Fin (22/10)) 2"
| "class_default_size Animal = vec3 (Fin (12/10)) (Fin (8/10)) 1"
| "class_default_size Tree = vec3 (Fin (15/10)) (Fin (15/10)) 6"
| "class_default_size Building = vec3 8 8 6"
| "class_default_size House = vec3 8 8 6"
| "class_default_size _ = vec3 1 1 1"

fun evidence_state_from_occupancy :: "OccupancyCellState \<Rightarrow> ObstacleEvidenceState" where
  "evidence_state_from_occupancy CellFree = EvFree"
| "evidence_state_from_occupancy CellOccupied = EvOccupied"
| "evidence_state_from_occupancy CellUnknown = EvUnknown"

definition build_forward_sensing_volume :: "EgoState \<Rightarrow> TimePoint \<Rightarrow> MapFrameId \<Rightarrow> string \<Rightarrow> ObstacleSensingVolume" where
  "build_forward_sensing_volume ego timestamp map_frame_id provider_name =
     \<lparr>osv_timestamp = timestamp, osv_source_frame_id = [], osv_has_source_frame = False, osv_sensor_name = ''front_center'',
      osv_provider_name = provider_name, osv_map_frame_id = map_frame_id, osv_origin_local = position (ego_local_T_body ego),
      osv_forward_axis_local = vec3 1 0 0, osv_right_axis_local = vec3 0 1 0, osv_up_axis_local = vec3 0 0 (- 1),
      osv_near_range_m = Fin (1/2), osv_far_range_m = 80, osv_horizontal_fov_rad = Fin (pi * (1/2)), osv_vertical_fov_rad = Fin (pi / 3),
      osv_min_reliable_range_m = 1, osv_max_reliable_range_m = 60, osv_min_surface_area_m2 = Fin (1/4),
      osv_min_angular_size_rad = Fin (1/100), osv_min_confidence = Fin (3/10)\<rparr>"

text \<open>The answer, with range, bearing and elevation, which the code writes through pointers.\<close>

definition is_inside_sensing_volume :: "Vec3 \<Rightarrow> ObstacleSensingVolume \<Rightarrow> bool \<times> double \<times> double \<times> double" where
  "is_inside_sensing_volume point volume =
     (let delta = vec_subtract point (osv_origin_local volume);
          forward_m = sc_dot delta (op_normalize_or (osv_forward_axis_local volume) (vec3 1 0 0));
          right_m = sc_dot delta (op_normalize_or (osv_right_axis_local volume) (vec3 0 1 0));
          up_m = sc_dot delta (op_normalize_or (osv_up_axis_local volume) (vec3 0 0 (- 1)));
          rng = sc_norm delta; lateral_norm = std_sqrt (forward_m * forward_m + right_m * right_m);
          inside = (\<not> (forward_m \<le> Fin (1 / 1000000) \<or> rng < osv_near_range_m volume \<or> osv_far_range_m volume < rng) \<and>
                    std_abs right_m \<le> std_tan (osv_horizontal_fov_rad volume * Fin (1/2)) * forward_m \<and>
                    std_abs up_m \<le> std_tan (osv_vertical_fov_rad volume * Fin (1/2)) * forward_m)
      in (inside, rng, std_atan2 right_m forward_m, std_atan2 up_m lateral_norm))"

text \<open>Clearance between a body and the swept path, both inflated.\<close>

definition inflated_clearance :: "SweptVolumeDebug \<Rightarrow> Vec3 \<Rightarrow> Vec3 \<Rightarrow> double" where
  "inflated_clearance swept point size_m =
     swept_path_lateral_distance_m point (sw_start_local swept) (sw_end_local swept) - sw_radius_m swept -
       std_max (vx size_m) (vy size_m) * Fin (1/2)"

definition outside_path :: "SweptVolumeDebug \<Rightarrow> Vec3 \<Rightarrow> bool" where
  "outside_path swept point =
     (let dx = vx point - vx (sw_start_local swept) in dx < 0 \<or> vx (sw_end_local swept) - vx (sw_start_local swept) < dx)"

definition intersects_swept_volume :: "Vec3 \<Rightarrow> Vec3 \<Rightarrow> SweptVolumeDebug \<Rightarrow> bool" where
  "intersects_swept_volume point size_m swept \<longleftrightarrow>
     sw_has_valid_query swept \<and> \<not> outside_path swept point \<and> inflated_clearance swept point size_m \<le> 0"

section \<open>Evidence\<close>

definition max_extent :: "Vec3 \<Rightarrow> double" where
  "max_extent s = std_max (std_max (vx s) (vy s)) (vz s)"

definition evidence_from_cell ::
  "OccupancyCellSummary \<Rightarrow> ObstacleSensingVolume \<Rightarrow> SweptVolumeDebug \<Rightarrow> OccupancySourceKind \<Rightarrow> TimePoint \<Rightarrow> MapFrameId \<Rightarrow> string \<Rightarrow> ObstacleEvidence" where
  "evidence_from_cell cell volume swept source_kind timestamp map_frame_id provider_name =
     (case is_inside_sensing_volume (ocs_center_local cell) volume of (inside, rng, bearing, elevation) \<Rightarrow>
        ObstacleEvidence_default\<lparr>ev_timestamp := timestamp, ev_sensor_name := osv_sensor_name volume, ev_source_provider := provider_name,
          ev_source_kind := source_kind, ev_map_frame_id := map_frame_id, ev_state := evidence_state_from_occupancy (ocs_state cell),
          ev_shape := Voxel, ev_center_local := ocs_center_local cell, ev_size_m := ocs_size_m cell,
          ev_radius_m := max_extent (ocs_size_m cell) * Fin (1/2),
          ev_occupancy_probability := (if ocs_state cell = CellOccupied then op_clamp01 (ocs_confidence cell) else 0),
          ev_free_probability := (if ocs_state cell = CellFree then op_clamp01 (ocs_confidence cell) else 0),
          ev_confidence := op_clamp01 (ocs_confidence cell), ev_range_m := rng, ev_bearing_rad := bearing, ev_elevation_rad := elevation,
          ev_inside_sensing_volume := inside,
          ev_inside_swept_volume := intersects_swept_volume (ocs_center_local cell) (ocs_size_m cell) swept,
          ev_is_static_hint := True, ev_is_thin_structure_hint := False\<rparr>)"

definition evidence_from_observation ::
  "Observation3D \<Rightarrow> ObstacleSensingVolume \<Rightarrow> SweptVolumeDebug \<Rightarrow> TimePoint \<Rightarrow> MapFrameId \<Rightarrow> ObstacleEvidence" where
  "evidence_from_observation ob volume swept timestamp map_frame_id =
     (case is_inside_sensing_volume (ob_position_local ob) volume of (inside, rng, bearing, elevation) \<Rightarrow>
        let extent = class_default_size (ob_class_label ob)
        in ObstacleEvidence_default\<lparr>ev_timestamp := timestamp, ev_source_frame_id := ob_source_frame_id ob,
             ev_has_source_frame := ob_has_source_frame ob, ev_sensor_name := osv_sensor_name volume, ev_source_provider := ''airsim_gt_vd'',
             ev_source_kind := AirSimGroundTruthVisualEmulation, ev_map_frame_id := map_frame_id, ev_state := EvOccupied, ev_shape := Voxel,
             ev_center_local := ob_position_local ob, ev_size_m := extent, ev_radius_m := max_extent extent * Fin (1/2),
             ev_occupancy_probability := op_clamp01 (ob_confidence ob), ev_free_probability := 0,
             ev_confidence := op_clamp01 (ob_confidence ob), ev_range_m := rng, ev_bearing_rad := bearing, ev_elevation_rad := elevation,
             ev_inside_sensing_volume := inside,
             ev_inside_swept_volume := intersects_swept_volume (ob_position_local ob) extent swept,
             ev_is_static_hint := True, ev_is_thin_structure_hint := False\<rparr>)"

section \<open>Occupancy around the vehicle\<close>

definition build_synthetic_ego_occupancy :: "EgoState \<Rightarrow> TimePoint \<Rightarrow> MapFrameId \<Rightarrow> EgoOccupancyMapSnapshot" where
  "build_synthetic_ego_occupancy ego timestamp map_frame_id =
     (let p = position (ego_local_T_body ego); src = ''synthetic_obstacle_fixture''
      in \<lparr>eo_map_frame_id = map_frame_id, eo_timestamp = timestamp, eo_source_kind = SyntheticFixture, eo_source_provider = src,
          eo_resolution_m = 1, eo_size_m = vec3 12 8 4, eo_occupied_count = 1, eo_free_count = 1, eo_unknown_count = 1, eo_stale_count = 0,
          eo_nearest_obstacle_distance_m = 5, eo_forward_corridor_clearance_m = 4, eo_has_valid_occupancy = True,
          eo_debug_cells =
            [occupancy_cell (vec3 (vx p + 5) (vy p) (vz p)) (vec3 1 1 1) CellOccupied (Fin (85/100)) 0 src ''synthetic_forward_obstacle'',
             occupancy_cell (vec3 (vx p + 3) (vy p + 2) (vz p)) (vec3 1 1 1) CellFree (Fin (70/100)) (Fin (28/10)) src [],
             occupancy_cell (vec3 (vx p + 7) (vy p - Fin (25/10)) (vz p)) (vec3 2 2 (Fin (15/10))) CellUnknown (Fin (55/100)) (Fin (25/10)) src
               ''synthetic_unknown_sector'']\<rparr>)"

definition range_step :: "EgoState \<Rightarrow> Observation3D \<Rightarrow> double \<times> double \<Rightarrow> double \<times> double" where
  "range_step ego ob acc =
     (let q = ob_position_local ob; p = position (ego_local_T_body ego); dx = vx q - vx p
      in (std_min (fst acc) (op_distance_3d q p),
          if 0 \<le> dx then std_min (snd acc) (op_distance_xy (vec3 (vx q) (vy q) 0) (vec3 (vx q) (vy p) 0)) else snd acc))"

definition build_airsim_ground_truth_occupancy :: "EgoState \<Rightarrow> PerceptionPipelineOutput \<Rightarrow> TimePoint \<Rightarrow> MapFrameId \<Rightarrow> EgoOccupancyMapSnapshot" where
  "build_airsim_ground_truth_occupancy ego out timestamp map_frame_id =
     (let src = ''airsim_ground_truth_named_objects'';
          (nearest, forward_clearance) = fold (range_step ego) (po_observations out) (PInf, PInf);
          cells = map (\<lambda>ob. occupancy_cell (ob_position_local ob) (class_default_size (ob_class_label ob)) CellOccupied
                              (op_clamp01 (ob_confidence ob)) 0 src (ob_track_id ob)) (po_observations out);
          nearest_m = (if isfinite nearest then nearest else 0)
      in \<lparr>eo_map_frame_id = map_frame_id, eo_timestamp = timestamp, eo_source_kind = AirSimGroundTruth, eo_source_provider = src,
          eo_resolution_m = 1, eo_size_m = vec3 60 60 20, eo_occupied_count = of_nat (length cells), eo_free_count = 0, eo_unknown_count = 0,
          eo_stale_count = 0, eo_nearest_obstacle_distance_m = nearest_m,
          eo_forward_corridor_clearance_m = (if isfinite forward_clearance then forward_clearance else nearest_m),
          eo_has_valid_occupancy = (po_observations out \<noteq> []), eo_debug_cells = cells\<rparr>)"

section \<open>The swept volume\<close>

record SweptAcc =
  sa_swept :: SweptVolumeDebug
  sa_min_clearance :: double
  sa_unknown_risk :: bool
  sa_blocking :: bool

definition swept_step :: "OccupancyCellSummary \<Rightarrow> SweptAcc \<Rightarrow> SweptAcc" where
  "swept_step cell a =
     (let swept = sa_swept a; c = ocs_center_local cell; dx = vx c - vx (sw_start_local swept)
      in if outside_path swept c then a
         else let clearance = inflated_clearance swept c (ocs_size_m cell); a = a\<lparr>sa_min_clearance := std_min (sa_min_clearance a) clearance\<rparr>
              in if ocs_state cell = CellOccupied \<and> clearance \<le> 0
                 then a\<lparr>sa_blocking := True,
                        sa_swept := swept\<lparr>sw_blocking_cell_centers := sw_blocking_cell_centers swept @ [c],
                          sw_time_to_collision_s := std_max 0 (dx / std_max (Fin (1/100)) (sw_nominal_speed_mps swept))\<rparr>\<rparr>
                 else if ocs_state cell = CellUnknown \<and> clearance \<le> Fin (1/2) then a\<lparr>sa_unknown_risk := True\<rparr>
                 else a)"

definition swept_start :: "EgoState \<Rightarrow> EgoOccupancyMapSnapshot \<Rightarrow> TimePoint \<Rightarrow> MapFrameId \<Rightarrow> SweptVolumeDebug" where
  "swept_start ego occupancy timestamp map_frame_id =
     (let p = position (ego_local_T_body ego)
      in \<lparr>sw_map_frame_id = map_frame_id, sw_timestamp = timestamp, sw_status = SweptUnknown,
          sw_source_provider = eo_source_provider occupancy @ ''_swept_volume'', sw_reason = [], sw_start_local = p,
          sw_end_local = vec3 (vx p + 8) (vy p) (vz p), sw_radius_m = 1, sw_horizon_s = 4, sw_nominal_speed_mps = 2, sw_min_clearance_m = 0,
          sw_time_to_collision_s = 0, sw_has_valid_query = eo_has_valid_occupancy occupancy, sw_blocking_cell_centers = []\<rparr>)"

definition build_swept_volume :: "EgoState \<Rightarrow> EgoOccupancyMapSnapshot \<Rightarrow> TimePoint \<Rightarrow> MapFrameId \<Rightarrow> SweptVolumeDebug" where
  "build_swept_volume ego occupancy timestamp map_frame_id =
     (let a = fold swept_step (eo_debug_cells occupancy)
                \<lparr>sa_swept = swept_start ego occupancy timestamp map_frame_id, sa_min_clearance = PInf, sa_unknown_risk = False, sa_blocking = False\<rparr>;
          swept = (sa_swept a)\<lparr>sw_min_clearance_m := (if isfinite (sa_min_clearance a) then sa_min_clearance a
                                                    else eo_forward_corridor_clearance_m occupancy)\<rparr>
      in if \<not> sw_has_valid_query swept then swept\<lparr>sw_status := StaleMap, sw_reason := ''occupancy_not_valid''\<rparr>
         else if sa_blocking a then swept\<lparr>sw_status := OccupiedBlocked, sw_reason := ''occupied_cell_intersects_forward_swept_volume''\<rparr>
         else if sa_unknown_risk a then swept\<lparr>sw_status := UnknownRisk, sw_reason := ''unknown_cell_near_forward_swept_volume''\<rparr>
         else swept\<lparr>sw_status := SweptClear, sw_reason := ''forward_swept_volume_clear'', sw_time_to_collision_s := 0\<rparr>)"

end
