(* ===== verification/World_Model.thy ===== *)
theory World_Model
  imports Obstacle_Products
begin

text \<open>
  \<open>src/world_model/in_memory_world_model.cpp\<close> with \<open>rough_flight_map_builder.cpp\<close> and \<open>tactical_obstacle_mapper.cpp\<close>: the
  snapshot the rest of the system reads, updated by ego states and by the output of perception.  The snapshot here
  extends the one the consumers read; the fields of a snapshot that the world model never writes (provider names, attachments
  of the maps, appearance details) are left out.
\<close>

section \<open>Data\<close>

record AgentViewEvidence =
  ave_source_frame_id :: string
  ave_has_source_frame :: bool
  ave_source_detection_id :: string
  ave_has_source_detection :: bool
  ave_source_bbox_px :: Rect2
  ave_has_source_bbox :: bool
  ave_source_center_px :: Vec2
  ave_has_source_center :: bool
  ave_timestamp :: TimePoint
  ave_camera_name :: string

definition AgentViewEvidence_default :: AgentViewEvidence where
  "AgentViewEvidence_default =
     \<lparr>ave_source_frame_id = [], ave_has_source_frame = False, ave_source_detection_id = [], ave_has_source_detection = False,
      ave_source_bbox_px = \<lparr>rect_x = 0, rect_y = 0, rect_width = 0, rect_height = 0\<rparr>, ave_has_source_bbox = False,
      ave_source_center_px = \<lparr>v2x = 0, v2y = 0\<rparr>, ave_has_source_center = False, ave_timestamp = \<lparr>timestamp_ns = 0\<rparr>, ave_camera_name = []\<rparr>"

record ViewedAgent = AgentState +
  va_source_detection_id :: string
  va_has_source_detection :: bool
  va_source_bbox_px :: Rect2
  va_has_source_bbox :: bool
  va_source_frame_id :: string
  va_has_source_frame :: bool
  va_latest_view_evidence :: AgentViewEvidence
  va_has_latest_view_evidence :: bool

datatype ZoneType = Cone | Cylinder | Box | VoxelCluster

record ExclusionZone =
  ez_zone_id :: string
  ez_timestamp :: TimePoint
  ez_type :: ZoneType
  ez_local_T_zone :: Pose3
  ez_dimensions :: Vec3
  ez_map_frame_id :: MapFrameId
  ez_confidence :: double
  ez_inflation_radius_m :: double
  ez_expires_at :: TimePoint
  ez_reason :: string

record StaticStructure =
  ss_structure_id :: string
  ss_type :: string
  ss_bounds :: Bounds3
  ss_map_frame_id :: MapFrameId
  ss_feature_signature :: "double list"
  ss_confidence :: double
  ss_first_seen :: TimePoint
  ss_last_confirmed :: TimePoint

record FlightCorridor =
  fco_corridor_id :: string
  fco_centerline :: "Vec3 list"
  fco_map_frame_id :: MapFrameId
  fco_radius_m :: double
  fco_min_altitude_m :: double
  fco_max_altitude_m :: double
  fco_confidence :: double

record Landmark =
  lm_landmark_id :: string
  lm_type :: string
  lm_position_local :: Vec3
  lm_map_frame_id :: MapFrameId
  lm_feature_signature :: "double list"
  lm_confidence :: double

record RoughFlightMapUpdate =
  rf_static_structures :: "StaticStructure list"
  rf_flight_corridors :: "FlightCorridor list"
  rf_landmarks :: "Landmark list"

record UncertainRegion =
  ur_region_id :: string
  ur_bounds :: Bounds3
  ur_map_frame_id :: MapFrameId
  ur_uncertainty :: double
  ur_reason :: string

record MapFrame =
  mf_map_frame_id :: MapFrameId
  mf_scale_confidence :: double
  mf_orientation_confidence :: double
  mf_created_at :: TimePoint
  mf_last_used :: TimePoint

datatype ContainerType = ContUnknown | ContCar | ContBoat | ContHouse | ContBuilding | ContGarage | ContRoom

record ContainerState =
  cn_container_id :: string
  cn_type :: ContainerType
  cn_local_T_container :: Pose3
  cn_velocity_local :: Vec3
  cn_map_frame_id :: MapFrameId
  cn_capacity_estimate :: double
  cn_confidence :: double

datatype LightingMode = LightUnknown | Day | Night | Dawn | Dusk | Artificial
datatype WeatherMode = WeatherUnknown | WeatherClear | Rain | Fog | Dust | Snow
datatype SeasonMode = SeasonUnknown | Spring | Summer | Fall | Winter
datatype SensorMode = SensorUnknown | RGB | Thermal | NightVision | SensorSynthetic

record AppearanceCondition =
  ap_timestamp :: TimePoint
  ap_lighting_mode :: LightingMode
  ap_weather_mode :: WeatherMode
  ap_season_mode :: SeasonMode
  ap_sensor_mode :: SensorMode
  ap_confidence :: double

record InMemorySnapshot =
  im_timestamp :: TimePoint
  im_ego :: EgoState
  im_active_map_frame_id :: MapFrameId
  im_appearance :: AppearanceCondition
  im_agents :: "ViewedAgent list"
  im_containers :: "ContainerState list"
  im_zones :: "ExclusionZone list"
  im_corridors :: "FlightCorridor list"
  im_structures :: "StaticStructure list"
  im_landmarks :: "Landmark list"
  im_uncertain_regions :: "UncertainRegion list"
  im_map_frames :: "MapFrame list"
  im_has_ego_occupancy :: bool
  im_ego_occupancy :: EgoOccupancyMapSnapshot
  im_has_latest_swept_volume :: bool
  im_latest_swept_volume :: SweptVolumeDebug
  im_sensing_volumes :: "ObstacleSensingVolume list"
  im_obstacle_evidence :: "ObstacleEvidence list"

record InMemoryWorldModelConfig =
  wmc_map_frame_id :: MapFrameId
  wmc_occupancy_source_kind :: OccupancySourceKind

record InMemoryWorldModel =
  wm_config :: InMemoryWorldModelConfig
  wm_snapshot :: InMemorySnapshot
  wm_configured_volumes :: "ObstacleSensingVolume list"

section \<open>Obstacle products\<close>

definition volume_frame_step :: "Observation3D \<Rightarrow> ObstacleSensingVolume \<Rightarrow> ObstacleSensingVolume" where
  "volume_frame_step ob volume =
     (if ob_has_source_frame ob \<and> \<not> osv_has_source_frame volume
      then volume\<lparr>osv_source_frame_id := ob_source_frame_id ob, osv_has_source_frame := True\<rparr> else volume)"

definition visual_emulation_volumes_for ::
  "InMemorySnapshot \<Rightarrow> PerceptionPipelineOutput \<Rightarrow> ObstacleSensingVolume list \<Rightarrow> ObstacleSensingVolume list" where
  "visual_emulation_volumes_for s out configured_volumes =
     map (\<lambda>volume. fold volume_frame_step (po_observations out)
            (volume\<lparr>osv_timestamp := im_timestamp s, osv_map_frame_id := im_active_map_frame_id s,
               osv_provider_name := (if osv_provider_name volume = [] then ''configured_camera_coverage'' else osv_provider_name volume)\<rparr>))
       configured_volumes"

definition refresh_synthetic_obstacle_products :: "InMemorySnapshot \<Rightarrow> InMemorySnapshot" where
  "refresh_synthetic_obstacle_products s =
     (let t = im_timestamp s; f = im_active_map_frame_id s; occ = build_synthetic_ego_occupancy (im_ego s) t f;
          swept = build_swept_volume (im_ego s) occ t f; src = ''synthetic_obstacle_fixture'';
          volume = build_forward_sensing_volume (im_ego s) t f src
      in s\<lparr>im_has_ego_occupancy := True, im_ego_occupancy := occ, im_has_latest_swept_volume := True, im_latest_swept_volume := swept,
           im_sensing_volumes := [volume],
           im_obstacle_evidence := map (\<lambda>cell. evidence_from_cell cell volume swept SyntheticFixture t f src) (eo_debug_cells occ)\<rparr>)"

definition refresh_ground_truth_obstacle_products ::
  "PerceptionPipelineOutput \<Rightarrow> ObstacleSensingVolume list \<Rightarrow> InMemorySnapshot \<Rightarrow> InMemorySnapshot" where
  "refresh_ground_truth_obstacle_products out configured_volumes s =
     (let t = im_timestamp s; f = im_active_map_frame_id s; occ = build_airsim_ground_truth_occupancy (im_ego s) out t f;
          swept = build_swept_volume (im_ego s) occ t f; volumes = visual_emulation_volumes_for s out configured_volumes
      in s\<lparr>im_has_ego_occupancy := True, im_ego_occupancy := occ, im_has_latest_swept_volume := True, im_latest_swept_volume := swept,
           im_sensing_volumes := volumes,
           im_obstacle_evidence := concat (map (\<lambda>volume.
             filter (\<lambda>e. ev_inside_sensing_volume e \<and> osv_min_confidence volume \<le> ev_confidence e)
               (map (\<lambda>ob. evidence_from_observation ob volume swept t f) (po_observations out))) volumes)\<rparr>)"

section \<open>Agents, zones and the rough flight map\<close>

definition mission_ready_ego :: "EgoState \<Rightarrow> EgoState" where
  "mission_ready_ego ego =
     (let ego = (if ego_height_valid ego then ego
                 else ego\<lparr>ego_height_m := - vz (position (ego_local_T_body ego)), ego_height_valid := True\<rparr>);
          ego = (if ego_confidence ego \<le> 0 then ego\<lparr>ego_confidence := Fin (85/100)\<rparr> else ego)
      in if ego_flight_status ego = FlightUnknown \<and> ego_height_valid ego
         then ego\<lparr>ego_flight_status := (if Fin (1/4) < ego_height_m ego then Airborne else Landed)\<rparr> else ego)"

definition id_char :: "char \<Rightarrow> bool" where
  "id_char ch \<longleftrightarrow> ch \<in> set ''abcdefghijklmnopqrstuvwxyzABCDEFGHIJKLMNOPQRSTUVWXYZ0123456789_-''"

definition sanitized_id_suffix :: "string \<Rightarrow> string" where
  "sanitized_id_suffix s = map (\<lambda>ch. if id_char ch then ch else CHR ''_'') s"

text \<open>\<open>std::setw\<close> with fill zero pads and never cuts off.\<close>

definition zero_padded :: "nat \<Rightarrow> nat \<Rightarrow> string" where
  "zero_padded n width = replicate (width - length (nat_to_string n)) (CHR ''0'') @ nat_to_string n"

definition fallback_observation_suffix :: "nat \<Rightarrow> string" where
  "fallback_observation_suffix index = ''observation_'' @ zero_padded (index + 1) 4"

definition track_suffix_or_fallback :: "string \<Rightarrow> nat \<Rightarrow> string" where
  "track_suffix_or_fallback track_id observation_index =
     (let suffix = sanitized_id_suffix track_id in if suffix \<noteq> [] then suffix else fallback_observation_suffix observation_index)"

definition bbox_center :: "Rect2 \<Rightarrow> Vec2" where
  "bbox_center b = \<lparr>v2x = rect_x b + rect_width b * Fin (1/2), v2y = rect_y b + rect_height b * Fin (1/2)\<rparr>"

definition view_evidence_of :: "Observation3D \<Rightarrow> AgentViewEvidence" where
  "view_evidence_of ob =
     (let e = AgentViewEvidence_default\<lparr>ave_source_frame_id := ob_source_frame_id ob, ave_has_source_frame := ob_has_source_frame ob,
                ave_source_detection_id := ob_source_detection_id ob, ave_has_source_detection := ob_has_source_detection ob,
                ave_source_bbox_px := ob_source_bbox_px ob, ave_has_source_bbox := ob_has_source_bbox ob, ave_timestamp := ob_timestamp ob\<rparr>
      in if ob_has_source_bbox ob
         then e\<lparr>ave_source_center_px := bbox_center (ob_source_bbox_px ob), ave_has_source_center := True\<rparr> else e)"

definition agent_of :: "nat \<Rightarrow> Observation3D \<Rightarrow> ViewedAgent" where
  "agent_of observation_index ob =
     (let suffix = track_suffix_or_fallback (ob_track_id ob) observation_index;
          viewed = (ob_has_source_detection ob \<or> ob_has_source_bbox ob \<or> ob_has_source_frame ob)
      in \<lparr>ag_agent_id = ''agent_'' @ suffix, ag_identity_id = ''identity_'' @ suffix, ag_source_track_id = ob_track_id ob,
          ag_last_seen = ob_timestamp ob, ag_position_local = ob_position_local ob, ag_velocity_local = ob_velocity_local ob,
          ag_map_frame_id = ob_map_frame_id ob, ag_class_label = ob_class_label ob, ag_faction = ob_faction ob,
          ag_lifecycle = LifeActive, ag_confidence = ob_confidence ob,
          va_source_detection_id = ob_source_detection_id ob, va_has_source_detection = ob_has_source_detection ob,
          va_source_bbox_px = ob_source_bbox_px ob, va_has_source_bbox = ob_has_source_bbox ob,
          va_source_frame_id = ob_source_frame_id ob, va_has_source_frame = ob_has_source_frame ob,
          va_latest_view_evidence = (if viewed then view_evidence_of ob else AgentViewEvidence_default),
          va_has_latest_view_evidence = viewed\<rparr>)"

text \<open>
  The zone number is padded to four digits by \<open>std::string(4 - digits, '0')\<close>; with five digits the count
  wraps around and the constructor throws \<open>std::length_error\<close>.
\<close>

definition zone_id_of :: "nat \<Rightarrow> string + string" where
  "zone_id_of n =
     (if 4 < length (nat_to_string n) then Inl ''basic_string::_M_create''
      else Inr (''zone_'' @ replicate (4 - length (nat_to_string n)) (CHR ''0'') @ nat_to_string n))"

fun cone_zones :: "TimePoint \<Rightarrow> MapFrameId \<Rightarrow> nat \<Rightarrow> Observation3D list \<Rightarrow> string + ExclusionZone list" where
  "cone_zones now map_frame_id i [] = Inr []"
| "cone_zones now map_frame_id i (ob # obs) =
     (case zone_id_of (i + 1) of
        Inl e \<Rightarrow> Inl e
      | Inr zone_id \<Rightarrow>
          (case cone_zones now map_frame_id (i + 1) obs of
             Inl e \<Rightarrow> Inl e
           | Inr zones \<Rightarrow>
               Inr (\<lparr>ez_zone_id = zone_id, ez_timestamp = now, ez_type = Cone,
                     ez_local_T_zone = \<lparr>position = ob_position_local ob, rotation_rpy = vec3_zero\<rparr>, ez_dimensions = vec3 6 3 3,
                     ez_map_frame_id = map_frame_id, ez_confidence = ob_confidence ob, ez_inflation_radius_m = Fin (15/10),
                     ez_expires_at = \<lparr>timestamp_ns = timestamp_ns now + 2000000000\<rparr>, ez_reason = ''dynamic_observation_cone''\<rparr> # zones)))"

definition cone_exclusion_map :: "Observation3D list \<Rightarrow> TimePoint \<Rightarrow> MapFrameId \<Rightarrow> string + ExclusionZone list" where
  "cone_exclusion_map observations now map_frame_id = cone_zones now map_frame_id 0 observations"

definition rough_flight_map_build :: "Observation3D list \<Rightarrow> EgoState \<Rightarrow> TimePoint \<Rightarrow> MapFrameId \<Rightarrow> RoughFlightMapUpdate" where
  "rough_flight_map_build observations ego now map_frame_id =
     (let p = position (ego_local_T_body ego)
      in \<lparr>rf_static_structures = [\<lparr>ss_structure_id = ''structure_building_0001'', ss_type = ''building'',
            ss_bounds = \<lparr>bmin = vec3 14 (- 8) (- 14), bmax = vec3 28 (- 5) 2\<rparr>, ss_map_frame_id = map_frame_id,
            ss_feature_signature = [Fin (2/10), Fin (5/10), Fin (9/10)], ss_confidence = Fin (55/100), ss_first_seen = now, ss_last_confirmed = now\<rparr>],
          rf_flight_corridors = [\<lparr>fco_corridor_id = ''corridor_forward_0001'',
            fco_centerline = [p, vec3 (vx p + 40) (vy p) (vz p), vec3 (vx p + 80) (vy p + 4) (vz p)], fco_map_frame_id = map_frame_id,
            fco_radius_m = 6, fco_min_altitude_m = 8, fco_max_altitude_m = 30,
            fco_confidence = (if observations = [] then Fin (25/100) else Fin (45/100))\<rparr>],
          rf_landmarks = [\<lparr>lm_landmark_id = ''landmark_building_corner_0001'', lm_type = ''building_corner'', lm_position_local = vec3 14 (- 5) (- 8),
            lm_map_frame_id = map_frame_id, lm_feature_signature = [Fin (3/10), Fin (1/10), Fin (7/10)], lm_confidence = Fin (5/10)\<rparr>]\<rparr>)"

section \<open>The world model\<close>

definition EgoState_default :: EgoState where
  "EgoState_default =
     \<lparr>ego_timestamp = \<lparr>timestamp_ns = 0\<rparr>, ego_local_T_body = \<lparr>position = vec3_zero, rotation_rpy = vec3_zero\<rparr>, ego_velocity_local = vec3_zero,
      ego_angular_velocity_body = vec3_zero, ego_covariance = replicate 36 0, ego_map_frame_id = ''map_unknown'', ego_height_m = 0,
      ego_height_valid = False, ego_armed = False, ego_armed_valid = False, ego_flight_status = FlightUnknown, ego_confidence = 0,
      ego_home_T_body = None, ego_home_timestamp = None\<rparr>"

text \<open>The snapshot before the first refresh, which overwrites the four occupancy fields.\<close>

definition initial_snapshot :: "MapFrameId \<Rightarrow> InMemorySnapshot" where
  "initial_snapshot f =
     (let t0 = \<lparr>timestamp_ns = 0\<rparr>;
          ego = EgoState_default\<lparr>ego_map_frame_id := f, ego_home_T_body := Some (ego_local_T_body EgoState_default), ego_home_timestamp := Some t0,
                  ego_height_m := 0, ego_height_valid := True, ego_flight_status := Landed\<rparr>
      in \<lparr>im_timestamp = t0, im_ego = ego, im_active_map_frame_id = f,
          im_appearance = \<lparr>ap_timestamp = t0, ap_lighting_mode = LightUnknown, ap_weather_mode = WeatherUnknown, ap_season_mode = SeasonUnknown,
            ap_sensor_mode = SensorUnknown, ap_confidence = 0\<rparr>,
          im_agents = [], im_containers = [], im_zones = [],
          im_corridors = [], im_structures = [], im_landmarks = [], im_uncertain_regions = [],
          im_map_frames = [\<lparr>mf_map_frame_id = f, mf_scale_confidence = Fin (5/10), mf_orientation_confidence = Fin (5/10), mf_created_at = t0, mf_last_used = t0\<rparr>],
          im_has_ego_occupancy = False, im_ego_occupancy = build_synthetic_ego_occupancy ego t0 f,
          im_has_latest_swept_volume = False, im_latest_swept_volume = build_swept_volume ego (build_synthetic_ego_occupancy ego t0 f) t0 f,
          im_sensing_volumes = [], im_obstacle_evidence = []\<rparr>)"

definition InMemoryWorldModel_init :: "InMemoryWorldModelConfig \<Rightarrow> InMemoryWorldModel" where
  "InMemoryWorldModel_init config =
     \<lparr>wm_config = config, wm_snapshot = refresh_synthetic_obstacle_products (initial_snapshot (wmc_map_frame_id config)), wm_configured_volumes = []\<rparr>"

definition with_home :: "EgoState \<Rightarrow> EgoState \<Rightarrow> EgoState" where
  "with_home previous ego =
     (if ego_home_T_body ego \<noteq> None then ego
      else if ego_home_T_body previous \<noteq> None
      then ego\<lparr>ego_home_T_body := ego_home_T_body previous, ego_home_timestamp := ego_home_timestamp previous\<rparr>
      else ego\<lparr>ego_home_T_body := Some (ego_local_T_body ego), ego_home_timestamp := Some (ego_timestamp ego)\<rparr>)"

definition update_ego :: "EgoState \<Rightarrow> InMemoryWorldModel \<Rightarrow> InMemoryWorldModel" where
  "update_ego ego wm =
     (let s = wm_snapshot wm; updated = with_home (im_ego s) (mission_ready_ego ego);
          s = s\<lparr>im_timestamp := ego_timestamp ego, im_ego := updated, im_active_map_frame_id := ego_map_frame_id updated\<rparr>;
          s = (if wmc_occupancy_source_kind (wm_config wm) = SyntheticFixture then refresh_synthetic_obstacle_products s else s);
          s = (case im_map_frames s of [] \<Rightarrow> s
               | frame # frames \<Rightarrow> s\<lparr>im_map_frames := frame\<lparr>mf_map_frame_id := ego_map_frame_id updated, mf_last_used := ego_timestamp updated\<rparr> # frames\<rparr>)
      in wm\<lparr>wm_snapshot := s\<rparr>)"

definition update_appearance :: "AppearanceCondition \<Rightarrow> InMemoryWorldModel \<Rightarrow> InMemoryWorldModel" where
  "update_appearance appearance wm = wm\<lparr>wm_snapshot := (wm_snapshot wm)\<lparr>im_appearance := appearance\<rparr>\<rparr>"

definition update_obstacle_sensing_volumes :: "ObstacleSensingVolume list \<Rightarrow> InMemoryWorldModel \<Rightarrow> InMemoryWorldModel" where
  "update_obstacle_sensing_volumes volumes wm =
     wm\<lparr>wm_configured_volumes := volumes, wm_snapshot := (wm_snapshot wm)\<lparr>im_sensing_volumes := volumes\<rparr>\<rparr>"

definition parked_car :: "MapFrameId \<Rightarrow> ContainerState" where
  "parked_car map_frame_id =
     \<lparr>cn_container_id = ''agent_car_0001'', cn_type = ContCar,
      cn_local_T_container = \<lparr>position = vec3 20 (- 4) (- Fin (105/10)), rotation_rpy = vec3_zero\<rparr>, cn_velocity_local = vec3_zero,
      cn_map_frame_id = map_frame_id, cn_capacity_estimate = 4, cn_confidence = Fin (65/100)\<rparr>"

text \<open>When the zones throw, the agents are already replaced.\<close>

definition ingest :: "PerceptionPipelineOutput \<Rightarrow> InMemoryWorldModel \<Rightarrow> (string \<times> InMemoryWorldModel) + InMemoryWorldModel" where
  "ingest out wm =
     (let s = wm_snapshot wm; obs = po_observations out; f = im_active_map_frame_id s; t = im_timestamp s;
          gt = (wmc_occupancy_source_kind (wm_config wm) = AirSimGroundTruth);
          s = s\<lparr>im_agents := map (\<lambda>(i, ob). agent_of i ob) (enumerate 0 obs)\<rparr>
      in case cone_exclusion_map obs t f of
           Inl e \<Rightarrow> Inl (e, wm\<lparr>wm_snapshot := s\<rparr>)
         | Inr zones \<Rightarrow>
             (let update = rough_flight_map_build obs (im_ego s) t f;
                  s = s\<lparr>im_zones := zones, im_structures := rf_static_structures update, im_corridors := rf_flight_corridors update,
                        im_landmarks := rf_landmarks update\<rparr>;
                  s = (if gt then refresh_ground_truth_obstacle_products out (wm_configured_volumes wm) s
                       else refresh_synthetic_obstacle_products s);
                  s = (if po_obstacle_evidence out \<noteq> [] then s\<lparr>im_obstacle_evidence := po_obstacle_evidence out\<rparr> else s);
                  region = \<lparr>ur_region_id = ''unknown_forward_sector'', ur_bounds = \<lparr>bmin = vec3 8 (- 6) (- 14), bmax = vec3 30 6 (- 4)\<rparr>,
                            ur_map_frame_id = im_active_map_frame_id s, ur_uncertainty = Fin (6/10),
                            ur_reason = (if gt then ''airsim_ground_truth_named_object_coverage_boundary''
                                         else ''synthetic_placeholder_depth_uncertainty'')\<rparr>
              in Inr (wm\<lparr>wm_snapshot := s\<lparr>im_containers := [parked_car (im_active_map_frame_id s)], im_uncertain_regions := [region]\<rparr>\<rparr>)))"

record EffectiveWorldView =
  view_actual :: InMemorySnapshot
  view_uncertain_regions :: "UncertainRegion list"

definition effective_view :: "InMemoryWorldModel \<Rightarrow> EffectiveWorldView" where
  "effective_view wm = \<lparr>view_actual = wm_snapshot wm, view_uncertain_regions = im_uncertain_regions (wm_snapshot wm)\<rparr>"

text \<open>What the controllers read of it.\<close>

definition consumer_snapshot :: "FlightControlState \<Rightarrow> InMemorySnapshot \<Rightarrow> WorldSnapshot" where
  "consumer_snapshot flight_control s =
     \<lparr>ws_timestamp = im_timestamp s, ws_ego = im_ego s, ws_flight_control = flight_control,
      ws_agents = map AgentState.truncate (im_agents s), ws_obstacle_evidence = im_obstacle_evidence s\<rparr>"

end
