(* ===== verification/World_Properties.thy ===== *)
theory World_Properties
  imports World_Model
begin

text \<open>
  The world model keeps a consistent snapshot whatever it is fed, agents follow the observations, and the swept volume
  is blocked exactly by the obstacles beside the path ahead.
\<close>

section \<open>The swept volume\<close>

lemma lateral_distance_straight:
  assumes "0 \<le> x - a" "x - a \<le> 8"
  shows "swept_path_lateral_distance_m (vec3 (Fin x) (Fin y) (Fin z)) (vec3 (Fin a) (Fin b) (Fin c)) (vec3 (Fin (a + 8)) (Fin b) (Fin c)) = Fin \<bar>y - b\<bar>"
proof -
  have t: "std_clamp (Fin ((x - a) * 8 / 64)) 0 1 = Fin ((x - a) / 8)" using assms by (simp add: std_clamp_def)
  have "\<not> (y - b) * (y - b) < 0" by (simp add: not_less)
  moreover have "sqrt ((y - b) * (y - b)) = \<bar>y - b\<bar>" by (simp add: real_sqrt_abs2)
  moreover have "x - (a + (x * 8 - a * 8) / 8) = 0" by (simp add: field_simps)
  ultimately show ?thesis using t assms by (simp add: swept_path_lateral_distance_m_def Let_def)
qed

definition swept_frame :: "SweptVolumeDebug \<Rightarrow> SweptVolumeDebug \<Rightarrow> bool" where
  "swept_frame s s' \<longleftrightarrow> sw_start_local s' = sw_start_local s \<and> sw_end_local s' = sw_end_local s \<and> sw_radius_m s' = sw_radius_m s \<and>
     sw_has_valid_query s' = sw_has_valid_query s"

lemma swept_frame_clearance:
  "swept_frame s s' \<Longrightarrow> inflated_clearance s' p e = inflated_clearance s p e" "swept_frame s s' \<Longrightarrow> outside_path s' p = outside_path s p"
  by (simp_all add: swept_frame_def inflated_clearance_def outside_path_def)

lemma swept_step_frame: "swept_frame (sa_swept a) (sa_swept (swept_step cell a))"
  by (simp add: swept_step_def swept_frame_def Let_def)

lemma swept_frame_trans: "swept_frame a b \<Longrightarrow> swept_frame b c \<Longrightarrow> swept_frame a c"
  by (simp add: swept_frame_def)

definition blocks_path :: "SweptVolumeDebug \<Rightarrow> OccupancyCellSummary \<Rightarrow> bool" where
  "blocks_path s cell \<longleftrightarrow> ocs_state cell = CellOccupied \<and> \<not> outside_path s (ocs_center_local cell) \<and>
     inflated_clearance s (ocs_center_local cell) (ocs_size_m cell) \<le> 0"

definition risks_path :: "SweptVolumeDebug \<Rightarrow> OccupancyCellSummary \<Rightarrow> bool" where
  "risks_path s cell \<longleftrightarrow> ocs_state cell = CellUnknown \<and> \<not> outside_path s (ocs_center_local cell) \<and>
     inflated_clearance s (ocs_center_local cell) (ocs_size_m cell) \<le> Fin (1/2)"

lemma swept_step_flags:
  "sa_blocking (swept_step cell a) = (sa_blocking a \<or> blocks_path (sa_swept a) cell)"
  "sa_unknown_risk (swept_step cell a) = (sa_unknown_risk a \<or> risks_path (sa_swept a) cell)"
  "sw_blocking_cell_centers (sa_swept (swept_step cell a)) =
     sw_blocking_cell_centers (sa_swept a) @ (if blocks_path (sa_swept a) cell then [ocs_center_local cell] else [])"
  by (auto simp: swept_step_def Let_def blocks_path_def risks_path_def)

lemma fold_swept_step:
  "swept_frame (sa_swept a) (sa_swept (fold swept_step cells a)) \<and>
   sa_blocking (fold swept_step cells a) = (sa_blocking a \<or> (\<exists>c\<in>set cells. blocks_path (sa_swept a) c)) \<and>
   sa_unknown_risk (fold swept_step cells a) = (sa_unknown_risk a \<or> (\<exists>c\<in>set cells. risks_path (sa_swept a) c)) \<and>
   sw_blocking_cell_centers (sa_swept (fold swept_step cells a)) =
     sw_blocking_cell_centers (sa_swept a) @ map ocs_center_local (filter (blocks_path (sa_swept a)) cells)"
proof (induction cells arbitrary: a)
  case Nil
  then show ?case by (simp add: swept_frame_def)
next
  case (Cons cell cells)
  note f = swept_step_frame [of a cell]
  have b: "blocks_path (sa_swept (swept_step cell a)) = blocks_path (sa_swept a)" "risks_path (sa_swept (swept_step cell a)) = risks_path (sa_swept a)"
    using swept_frame_clearance [OF f] by (auto simp: blocks_path_def risks_path_def fun_eq_iff)
  show ?case using Cons.IH [of "swept_step cell a"] swept_frame_trans [OF f] by (auto simp: swept_step_flags b)
qed

definition beside_path :: "Vec3 \<Rightarrow> double \<Rightarrow> OccupancyCellSummary \<Rightarrow> bool" where
  "beside_path p margin cell \<longleftrightarrow>
     (\<exists>x y px py sx sy m. ocs_center_local cell = vec3 (Fin x) (Fin y) (vz (ocs_center_local cell)) \<and> vx p = Fin px \<and> vy p = Fin py \<and>
        vx (ocs_size_m cell) = Fin sx \<and> vy (ocs_size_m cell) = Fin sy \<and> margin = Fin m \<and>
        px \<le> x \<and> x \<le> px + 8 \<and> \<bar>y - py\<bar> \<le> 1 + max sx sy / 2 + m)"

lemma clearance_beside:
  assumes p: "finite_point p" and cell: "finite_point (ocs_center_local cell)" "finite_point (ocs_size_m cell)"
    and s: "sw_start_local s = p" "sw_end_local s = vec3 (vx p + 8) (vy p) (vz p)" "sw_radius_m s = 1"
  shows "\<not> outside_path s (ocs_center_local cell) \<and> inflated_clearance s (ocs_center_local cell) (ocs_size_m cell) \<le> Fin m \<longleftrightarrow> beside_path p (Fin m) cell"
proof -
  obtain px py pz where p: "p = vec3 (Fin px) (Fin py) (Fin pz)" using p by (rule finite_pointE)
  obtain x y z where c: "ocs_center_local cell = vec3 (Fin x) (Fin y) (Fin z)" using cell(1) by (rule finite_pointE)
  obtain sx sy sz where e: "ocs_size_m cell = vec3 (Fin sx) (Fin sy) (Fin sz)" using cell(2) by (rule finite_pointE)
  have o: "\<not> outside_path s (ocs_center_local cell) \<longleftrightarrow> px \<le> x \<and> x \<le> px + 8"
    by (auto simp: outside_path_def Let_def s p c)
  have mx: "std_max (Fin sx) (Fin sy) = Fin (max sx sy)" by (simp add: std_max_def max_def)
  have "inflated_clearance s (ocs_center_local cell) (ocs_size_m cell) = Fin (\<bar>y - py\<bar> - 1 - max sx sy * (1/2))" if "px \<le> x" "x \<le> px + 8"
    using lateral_distance_straight [of x px y z py pz] that by (simp add: inflated_clearance_def s p c e mx)
  then show ?thesis unfolding o beside_path_def by (auto simp: c e p)
qed

text \<open>
  The swept volume runs along the eight metres from the vehicle in the direction of the map's x axis, whichever way the vehicle
  flies, and heights are ignored.  It is reported blocked exactly when an occupied cell of a valid occupancy lies beside that
  segment, no farther than a metre plus half the cell's larger side, and the reported cells are exactly those; otherwise an unknown cell up to half a metre farther is reported
  as a risk, and without either the volume is clear.
\<close>
lemma swept_volume_correct:
  assumes p: "p = position (ego_local_T_body ego)" "finite_point p"
    and cells: "\<forall>c\<in>set (eo_debug_cells occupancy). finite_point (ocs_center_local c) \<and> finite_point (ocs_size_m c)"
    and s: "s = build_swept_volume ego occupancy timestamp map_frame_id"
  shows "sw_status s =
      (if \<not> eo_has_valid_occupancy occupancy then StaleMap
       else if \<exists>c\<in>set (eo_debug_cells occupancy). ocs_state c = CellOccupied \<and> beside_path p 0 c then OccupiedBlocked
       else if \<exists>c\<in>set (eo_debug_cells occupancy). ocs_state c = CellUnknown \<and> beside_path p (Fin (1/2)) c then UnknownRisk
       else SweptClear) \<and>
    sw_blocking_cell_centers s =
      map ocs_center_local (filter (\<lambda>c. ocs_state c = CellOccupied \<and> beside_path p 0 c) (eo_debug_cells occupancy))"
proof -
  let ?cells = "eo_debug_cells occupancy" and ?s0 = "swept_start ego occupancy timestamp map_frame_id"
  have s0: "sw_start_local ?s0 = p" "sw_end_local ?s0 = vec3 (vx p + 8) (vy p) (vz p)" "sw_radius_m ?s0 = 1"
    "sw_has_valid_query ?s0 = eo_has_valid_occupancy occupancy" "sw_blocking_cell_centers ?s0 = []"
    by (simp_all add: swept_start_def Let_def p(1))
  have b: "blocks_path ?s0 c \<longleftrightarrow> ocs_state c = CellOccupied \<and> beside_path p 0 c" "risks_path ?s0 c \<longleftrightarrow> ocs_state c = CellUnknown \<and> beside_path p (Fin (1/2)) c"
    if "c \<in> set ?cells" for c
    using clearance_beside [OF p(2) _ _ s0(1-3), of c] cells that by (auto simp: blocks_path_def risks_path_def)
  have f: "filter (blocks_path ?s0) ?cells = filter (\<lambda>c. ocs_state c = CellOccupied \<and> beside_path p 0 c) ?cells"
    using b(1) by (intro filter_cong) auto
  note folded = fold_swept_step [of "\<lparr>sa_swept = ?s0, sa_min_clearance = PInf, sa_unknown_risk = False, sa_blocking = False\<rparr>" ?cells]
  show ?thesis using folded b s0(4,5)
    by (auto simp: s build_swept_volume_def Let_def swept_frame_def f cong: bex_cong)
qed

lemma swept_volume_correct_witness:
  "sw_status (build_swept_volume EgoState_default (build_synthetic_ego_occupancy EgoState_default \<lparr>timestamp_ns = 0\<rparr> ''map'') \<lparr>timestamp_ns = 0\<rparr> ''map'') =
     OccupiedBlocked \<and>
   sw_blocking_cell_centers (build_swept_volume EgoState_default (build_synthetic_ego_occupancy EgoState_default \<lparr>timestamp_ns = 0\<rparr> ''map'')
     \<lparr>timestamp_ns = 0\<rparr> ''map'') = [vec3 (Fin 5) (Fin 0) (Fin 0)]"
proof -
  define occ where "occ = build_synthetic_ego_occupancy EgoState_default \<lparr>timestamp_ns = 0\<rparr> ''map''"
  obtain a b c where cells: "eo_debug_cells occ = [a, b, c]" "ocs_state a = CellOccupied" "ocs_state b = CellFree" "ocs_state c = CellUnknown"
    "ocs_center_local a = vec3 (Fin 5) (Fin 0) (Fin 0)" "ocs_size_m a = vec3 (Fin 1) (Fin 1) (Fin 1)" "eo_has_valid_occupancy occ"
    "finite_point (ocs_center_local b)" "finite_point (ocs_size_m b)" "finite_point (ocs_center_local c)" "finite_point (ocs_size_m c)"
    by (simp add: occ_def build_synthetic_ego_occupancy_def occupancy_cell_def EgoState_default_def Let_def finite_point_def)
  have p: "position (ego_local_T_body EgoState_default) = vec3 (Fin 0) (Fin 0) (Fin 0)" by (simp add: EgoState_default_def)
  have "finite_point (position (ego_local_T_body EgoState_default))" by (simp add: p finite_point_def)
  moreover have "\<forall>x\<in>set (eo_debug_cells occ). finite_point (ocs_center_local x) \<and> finite_point (ocs_size_m x)"
    using cells by (simp add: finite_point_def)
  moreover have "beside_path (vec3 (Fin 0) (Fin 0) (Fin 0)) (Fin 0) a" using cells by (simp add: beside_path_def)
  ultimately show ?thesis unfolding occ_def [symmetric]
    using swept_volume_correct [of _ EgoState_default occ _ "\<lparr>timestamp_ns = 0\<rparr>" "''map''", OF refl _ _ refl] cells by (simp add: p)
qed

text \<open>The time to collision is the last blocking cell's, not the nearest one's.\<close>

lemma collision_time_of_last_cell:
  assumes "blocks_path (sa_swept a) cell"
  shows "sw_time_to_collision_s (sa_swept (swept_step cell a)) =
    std_max 0 ((vx (ocs_center_local cell) - vx (sw_start_local (sa_swept a))) / std_max (Fin (1/100)) (sw_nominal_speed_mps (sa_swept a)))"
  using assms by (simp add: swept_step_def Let_def blocks_path_def)

section \<open>The snapshot\<close>

datatype wm_op = OpEgo EgoState | OpAppearance AppearanceCondition | OpVolumes "ObstacleSensingVolume list" | OpIngest PerceptionPipelineOutput

fun wm_step :: "wm_op \<Rightarrow> InMemoryWorldModel \<Rightarrow> InMemoryWorldModel" where
  "wm_step (OpEgo ego) wm = update_ego ego wm"
| "wm_step (OpAppearance a) wm = update_appearance a wm"
| "wm_step (OpVolumes v) wm = update_obstacle_sensing_volumes v wm"
| "wm_step (OpIngest out) wm = (case ingest out wm of Inl (_, wm') \<Rightarrow> wm' | Inr wm' \<Rightarrow> wm')"

text \<open>Where home is: the pose an ego state brought last, or the one before.\<close>

fun home_after :: "wm_op \<Rightarrow> Pose3 option \<Rightarrow> Pose3 option" where
  "home_after (OpEgo ego) home = (case ego_home_T_body ego of None \<Rightarrow> home | Some h \<Rightarrow> Some h)"
| "home_after _ home = home"

definition wm_ok :: "InMemoryWorldModelConfig \<Rightarrow> Pose3 option \<Rightarrow> InMemoryWorldModel \<Rightarrow> bool" where
  "wm_ok config home wm \<longleftrightarrow>
     wm_config wm = config \<and>
     (let s = wm_snapshot wm; ego = im_ego s
      in home \<noteq> None \<and> ego_home_T_body ego = home \<and> ego_height_valid ego \<and> ego_flight_status ego \<noteq> FlightUnknown \<and>
         im_timestamp s = ego_timestamp ego \<and> im_active_map_frame_id s = ego_map_frame_id ego \<and>
         (\<exists>frame. im_map_frames s = [frame] \<and> mf_map_frame_id frame = ego_map_frame_id ego \<and> mf_last_used frame = ego_timestamp ego) \<and>
         im_has_ego_occupancy s \<and> im_has_latest_swept_volume s \<and>
         (wmc_occupancy_source_kind config = SyntheticFixture \<longrightarrow>
            im_latest_swept_volume s = build_swept_volume ego (build_synthetic_ego_occupancy ego (im_timestamp s) (im_active_map_frame_id s))
              (im_timestamp s) (im_active_map_frame_id s)))"

lemma refresh_synthetic_fields:
  "im_ego (refresh_synthetic_obstacle_products s) = im_ego s" "im_timestamp (refresh_synthetic_obstacle_products s) = im_timestamp s"
  "im_active_map_frame_id (refresh_synthetic_obstacle_products s) = im_active_map_frame_id s"
  "im_map_frames (refresh_synthetic_obstacle_products s) = im_map_frames s" "im_agents (refresh_synthetic_obstacle_products s) = im_agents s"
  "im_has_ego_occupancy (refresh_synthetic_obstacle_products s)" "im_has_latest_swept_volume (refresh_synthetic_obstacle_products s)"
  "im_latest_swept_volume (refresh_synthetic_obstacle_products s) = build_swept_volume (im_ego s)
     (build_synthetic_ego_occupancy (im_ego s) (im_timestamp s) (im_active_map_frame_id s)) (im_timestamp s) (im_active_map_frame_id s)"
  by (simp_all add: refresh_synthetic_obstacle_products_def Let_def)

lemma refresh_ground_truth_fields:
  "im_ego (refresh_ground_truth_obstacle_products out v s) = im_ego s" "im_timestamp (refresh_ground_truth_obstacle_products out v s) = im_timestamp s"
  "im_active_map_frame_id (refresh_ground_truth_obstacle_products out v s) = im_active_map_frame_id s"
  "im_map_frames (refresh_ground_truth_obstacle_products out v s) = im_map_frames s" "im_agents (refresh_ground_truth_obstacle_products out v s) = im_agents s"
  "im_has_ego_occupancy (refresh_ground_truth_obstacle_products out v s)" "im_has_latest_swept_volume (refresh_ground_truth_obstacle_products out v s)"
  by (simp_all add: refresh_ground_truth_obstacle_products_def Let_def)

lemma mission_ready_fields:
  "ego_height_valid (mission_ready_ego ego)" "ego_flight_status (mission_ready_ego ego) \<noteq> FlightUnknown"
  "ego_timestamp (mission_ready_ego ego) = ego_timestamp ego" "ego_home_T_body (mission_ready_ego ego) = ego_home_T_body ego"
  "ego_map_frame_id (mission_ready_ego ego) = ego_map_frame_id ego" "ego_local_T_body (mission_ready_ego ego) = ego_local_T_body ego"
  by (auto simp: mission_ready_ego_def Let_def)

lemma with_home_fields:
  "ego_height_valid (with_home previous ego) = ego_height_valid ego" "ego_flight_status (with_home previous ego) = ego_flight_status ego"
  "ego_timestamp (with_home previous ego) = ego_timestamp ego" "ego_map_frame_id (with_home previous ego) = ego_map_frame_id ego"
  "ego_home_T_body (with_home previous ego) =
     (case ego_home_T_body ego of Some h \<Rightarrow> Some h | None \<Rightarrow> (case ego_home_T_body previous of Some h \<Rightarrow> Some h | None \<Rightarrow> Some (ego_local_T_body ego)))"
  by (auto simp: with_home_def split: option.splits)

lemma wm_init_ok: "wm_ok config (Some \<lparr>position = vec3_zero, rotation_rpy = vec3_zero\<rparr>) (InMemoryWorldModel_init config)"
  by (simp add: wm_ok_def InMemoryWorldModel_init_def refresh_synthetic_fields initial_snapshot_def EgoState_default_def Let_def)

lemma update_ego_ok:
  assumes "wm_ok config home wm"
  shows "wm_ok config (home_after (OpEgo ego) home) (update_ego ego wm)"
proof -
  from assms obtain frame where f: "im_map_frames (wm_snapshot wm) = [frame]" by (auto simp: wm_ok_def Let_def)
  have h: "home \<noteq> None" "ego_home_T_body (im_ego (wm_snapshot wm)) = home" using assms by (auto simp: wm_ok_def Let_def)
  show ?thesis using assms h f
    by (auto simp: wm_ok_def update_ego_def Let_def refresh_synthetic_fields mission_ready_fields with_home_fields split: option.splits)
qed

lemma ingest_ok:
  assumes "wm_ok config home wm"
  shows "wm_ok config home (wm_step (OpIngest out) wm)"
proof (cases "cone_exclusion_map (po_observations out) (im_timestamp (wm_snapshot wm)) (im_active_map_frame_id (wm_snapshot wm))")
  case (Inl e)
  then show ?thesis using assms by (simp add: ingest_def Let_def wm_ok_def)
next
  case (Inr zones)
  then show ?thesis using assms
    by (auto simp: ingest_def Let_def wm_ok_def refresh_synthetic_fields refresh_ground_truth_fields)
qed

text \<open>
  C16: Whatever ego states, appearances, volumes and perception results the world model is fed, also when a result makes it throw, its snapshot stays
  consistent: time and map frame are the ego state's, height and flight status are known, the single map frame is the one in use, occupancy and swept volume are
  present and with the fixture up to date, and home is the pose the last ego state with a home brought, or the starting pose.
\<close>
theorem world_model_consistent:
  "wm_ok config (fold home_after ops (Some \<lparr>position = vec3_zero, rotation_rpy = vec3_zero\<rparr>)) (fold wm_step ops (InMemoryWorldModel_init config))"
proof -
  have "wm_ok config (fold home_after ops home) (fold wm_step ops wm)" if "wm_ok config home wm" for home wm
    using that
  proof (induction ops arbitrary: home wm)
    case (Cons op ops)
    have "wm_ok config (home_after op home) (wm_step op wm)"
    proof (cases op)
      case (OpEgo ego)
      then show ?thesis using update_ego_ok [OF Cons.prems] by simp
    next
      case (OpIngest out)
      then show ?thesis using ingest_ok [OF Cons.prems] by simp
    qed (use Cons.prems in \<open>simp_all add: wm_ok_def update_appearance_def update_obstacle_sensing_volumes_def Let_def\<close>)
    then show ?case using Cons.IH by simp
  qed simp
  then show ?thesis using wm_init_ok by blast
qed

section \<open>Agents\<close>

lemma sanitized_id: "\<forall>ch\<in>set s. id_char ch \<Longrightarrow> sanitized_id_suffix s = s"
  by (induction s) (simp_all add: sanitized_id_suffix_def)

lemma ingest_agents:
  assumes "ingest out wm = Inr wm'"
  shows "im_agents (wm_snapshot wm') = map (\<lambda>(i, ob). agent_of i ob) (enumerate 0 (po_observations out))"
  using assms by (auto simp: ingest_def Let_def refresh_synthetic_fields refresh_ground_truth_fields split: sum.splits)

text \<open>
  After perception results were taken in there is one agent per observation, in their order and with their tracks, and observations with
  different track names made of letters, digits, dashes and underscores have different agent ids.
\<close>
lemma agents_follow_observations:
  assumes "ingest out wm = Inr wm'"
  shows "map ag_source_track_id (im_agents (wm_snapshot wm')) = map ob_track_id (po_observations out) \<and>
    map ag_position_local (im_agents (wm_snapshot wm')) = map ob_position_local (po_observations out) \<and>
    (distinct (map ob_track_id (po_observations out)) \<and> (\<forall>ob\<in>set (po_observations out). ob_track_id ob \<noteq> [] \<and> (\<forall>ch\<in>set (ob_track_id ob). id_char ch)) \<longrightarrow>
       distinct (map ag_agent_id (im_agents (wm_snapshot wm'))))"
proof -
  let ?obs = "po_observations out"
  have a: "im_agents (wm_snapshot wm') = map (\<lambda>(i, ob). agent_of i ob) (enumerate 0 ?obs)" using ingest_agents [OF assms] .
  have t: "map g (map (\<lambda>(i, ob). agent_of i ob) (enumerate n obs)) = map h obs"
    if "\<And>i ob. ob \<in> set obs \<Longrightarrow> g (agent_of i ob) = h ob" for g :: "ViewedAgent \<Rightarrow> 'b" and h obs n
    using that by (induction obs arbitrary: n) auto
  have "map ag_agent_id (im_agents (wm_snapshot wm')) = map (\<lambda>ob. ''agent_'' @ ob_track_id ob) ?obs"
    if "\<forall>ob\<in>set ?obs. ob_track_id ob \<noteq> [] \<and> (\<forall>ch\<in>set (ob_track_id ob). id_char ch)"
    unfolding a by (rule t) (use that in \<open>simp add: agent_of_def Let_def track_suffix_or_fallback_def sanitized_id\<close>)
  moreover have "distinct (map (\<lambda>ob. ''agent_'' @ ob_track_id ob) ?obs) = distinct (map ob_track_id ?obs)"
    by (simp add: distinct_map inj_on_def)
  moreover have "map ag_source_track_id (im_agents (wm_snapshot wm')) = map ob_track_id ?obs"
    unfolding a by (rule t) (simp add: agent_of_def Let_def)
  moreover have "map ag_position_local (im_agents (wm_snapshot wm')) = map ob_position_local ?obs"
    unfolding a by (rule t) (simp add: agent_of_def Let_def)
  ultimately show ?thesis by simp
qed

definition example_observation :: Observation3D where
  "example_observation =
     \<lparr>ob_track_id = ''car_1'', ob_source_detection_id = [], ob_has_source_detection = False,
      ob_source_bbox_px = \<lparr>rect_x = 0, rect_y = 0, rect_width = 0, rect_height = 0\<rparr>, ob_has_source_bbox = False, ob_source_frame_id = [],
      ob_has_source_frame = False, ob_timestamp = \<lparr>timestamp_ns = 0\<rparr>, ob_position_local = vec3 3 4 0, ob_velocity_local = vec3_zero,
      ob_map_frame_id = ''map'', ob_class_label = Car, ob_faction = FactionUnknown, ob_confidence = 1\<rparr>"

lemma agents_follow_observations_witness:
  "map ag_source_track_id (im_agents (wm_snapshot (projr (ingest \<lparr>po_observations = [example_observation], po_obstacle_evidence = []\<rparr>
     (InMemoryWorldModel_init \<lparr>wmc_map_frame_id = ''map'', wmc_occupancy_source_kind = SyntheticFixture\<rparr>))))) = [''car_1'']"
proof -
  let ?out = "\<lparr>po_observations = [example_observation], po_obstacle_evidence = []\<rparr>"
  let ?wm = "InMemoryWorldModel_init \<lparr>wmc_map_frame_id = ''map'', wmc_occupancy_source_kind = SyntheticFixture\<rparr>"
  have "isl (zone_id_of 1) = False" by (simp add: zone_id_of_def nat_to_string.simps)
  then have "\<not> isl (ingest ?out ?wm)"
    by (auto simp: ingest_def Let_def cone_exclusion_map_def split: sum.splits)
  then have "ingest ?out ?wm = Inr (projr (ingest ?out ?wm))" by (cases "ingest ?out ?wm") simp_all
  from agents_follow_observations [OF this] show ?thesis by (simp add: example_observation_def)
qed

text \<open>Replacing characters can make the ids of two tracks equal.\<close>

lemma agent_ids_collide: "track_suffix_or_fallback ''car.1'' i = track_suffix_or_fallback ''car_1'' j"
  by (simp add: track_suffix_or_fallback_def sanitized_id_suffix_def id_char_def Let_def)

text \<open>When the depth provider finds nothing in a frame the fixture's evidence stays: an obstacle five metres ahead that nothing has seen.\<close>

lemma phantom_obstacle_without_evidence:
  assumes "wmc_occupancy_source_kind (wm_config wm) \<noteq> AirSimGroundTruth" "po_obstacle_evidence out = []" "ingest out wm = Inr wm'"
  shows "\<exists>e\<in>set (im_obstacle_evidence (wm_snapshot wm')). ev_state e = EvOccupied \<and>
    vx (ev_center_local e) = vx (position (ego_local_T_body (im_ego (wm_snapshot wm)))) + 5"
  using assms
  by (auto simp: ingest_def Let_def refresh_synthetic_obstacle_products_def build_synthetic_ego_occupancy_def occupancy_cell_def evidence_from_cell_def
      split: sum.splits prod.splits)

end
