(* ===== verification/Mission_Options.thy ===== *)
theory Mission_Options
  imports Sensing_Coverage Object_Controller Trajectory_Controller
begin

text \<open>
  \<open>struct MissionOptions\<close> of \<open>mission_controller.hpp\<close>, the readers of \<open>config_loader.cpp\<close> that fill it from the keys
  of a configuration file, and the two functions that turn it into the configuration of a controller:
  \<open>object_behavior_config.cpp\<close> and \<open>load_trajectory_mission_config\<close>.

  The conversions of text to floating point numbers are arguments: \<open>std::stod\<close>, \<open>std::stof\<close> (value and number of
  characters read, or \<open>None\<close> where they throw) and \<open>operator>>\<close> (value and rest).
\<close>

section \<open>Reading values\<close>

record Readers =
  rd_stod :: stod_fun
  rd_stof :: stod_fun
  rd_extract :: "string \<Rightarrow> (double \<times> string) option"

definition stod_value :: "Readers \<Rightarrow> string \<Rightarrow> double result" where
  "stod_value rd v = (case rd_stod rd v of None \<Rightarrow> Inl ''stod'' | Some (x, _) \<Rightarrow> Inr x)"

definition stod_some :: "Readers \<Rightarrow> string \<Rightarrow> double option result" where
  "stod_some rd v = bindE (stod_value rd v) (\<lambda>x. Inr (Some x))"

definition stof_value :: "Readers \<Rightarrow> string \<Rightarrow> double result" where
  "stof_value rd v = (case rd_stof rd v of None \<Rightarrow> Inl ''stof'' | Some (x, _) \<Rightarrow> Inr x)"

definition is_digit :: "char \<Rightarrow> bool" where
  "is_digit ch \<longleftrightarrow> 48 \<le> (of_char ch :: nat) \<and> (of_char ch :: nat) \<le> 57"

definition digits_value :: "string \<Rightarrow> nat" where
  "digits_value ds = foldl (\<lambda>n ch. 10 * n + (of_char ch - 48)) 0 ds"

text \<open>What \<open>strtol\<close> and its relatives read: the sign, the digits and the number of characters.\<close>

definition integer_prefix :: "string \<Rightarrow> bool \<times> string \<times> nat" where
  "integer_prefix s =
     (let ws = takeWhile is_space s; r = dropWhile is_space s;
          signed = (r \<noteq> [] \<and> (hd r = CHR ''-'' \<or> hd r = CHR ''+''));
          ds = takeWhile is_digit (if signed then tl r else r)
      in (signed \<and> hd r = CHR ''-'', ds, length ws + (if signed then 1 else 0) + length ds))"

definition signed_integer :: "string \<Rightarrow> nat \<Rightarrow> string \<Rightarrow> int result" where
  "signed_integer name width s =
     (case integer_prefix s of (neg, ds, _) \<Rightarrow>
        let v = (if neg then - int (digits_value ds) else int (digits_value ds))
        in if ds = [] \<or> v < - (2 ^ (width - 1)) \<or> 2 ^ (width - 1) \<le> v then Inl name else Inr v)"

definition stoi :: "string \<Rightarrow> int result" where "stoi s = signed_integer ''stoi'' 32 s"
definition stoll :: "string \<Rightarrow> int result" where "stoll s = signed_integer ''stoll'' 64 s"

text \<open>The unsigned readers accept a minus sign and return the negated value, reduced to 64 bits.\<close>

definition unsigned_integer :: "string \<Rightarrow> string \<Rightarrow> (nat \<times> nat) result" where
  "unsigned_integer name s =
     (case integer_prefix s of (neg, ds, consumed) \<Rightarrow>
        let v = digits_value ds
        in if ds = [] \<or> 2 ^ 64 \<le> v then Inl name
           else Inr (if neg then (2 ^ 64 - v) mod 2 ^ 64 else v, consumed))"

definition stoul :: "string \<Rightarrow> nat result" where
  "stoul s = bindE (unsigned_integer ''stoul'' s) (\<lambda>(v, _). Inr v)"

definition stoull :: "string \<Rightarrow> nat result" where
  "stoull s = bindE (unsigned_integer ''stoull'' s) (\<lambda>(v, _). Inr v)"

definition parse_bool :: "string \<Rightarrow> bool result" where
  "parse_bool value =
     (if value = ''true'' \<or> value = ''1'' \<or> value = ''yes'' \<or> value = ''on'' then Inr True
      else if value = ''false'' \<or> value = ''0'' \<or> value = ''no'' \<or> value = ''off'' then Inr False
      else Inl (''invalid boolean config value: '' @ value))"

definition parse_uint8 :: "string \<Rightarrow> string \<Rightarrow> 8 word result" where
  "parse_uint8 ctx value =
     bindE (stoi value) (\<lambda>raw.
     if raw < 0 \<or> 255 < raw then Inl (''value out of uint8 range for '' @ ctx @ '': '' @ value) else Inr (word_of_int raw))"

definition parse_uint32 :: "string \<Rightarrow> string \<Rightarrow> 32 word result" where
  "parse_uint32 ctx value =
     bindE (stoul value) (\<lambda>raw.
     if 4294967295 < raw then Inl (''value out of uint32 range for '' @ ctx @ '': '' @ value) else Inr (of_nat raw))"

definition parse_vec3 :: "Readers \<Rightarrow> string \<Rightarrow> Vec3 result" where
  "parse_vec3 rd value =
     (let normalized = map (\<lambda>ch. if ch = CHR ''['' \<or> ch = CHR '']'' \<or> ch = CHR '','' then CHR '' '' else ch) value;
          bad = Inl (''invalid vec3 config value: '' @ value)
      in case rd_extract rd normalized of None \<Rightarrow> bad
         | Some (x, s) \<Rightarrow>
             (case rd_extract rd s of None \<Rightarrow> bad
              | Some (y, s) \<Rightarrow>
                  (case rd_extract rd s of None \<Rightarrow> bad
                   | Some (z, s) \<Rightarrow>
                       if dropWhile is_space s \<noteq> [] then Inl (''invalid vec3 config value with extra data: '' @ value)
                       else Inr (vec3 x y z))))"

text \<open>\<open>key.rfind(prefix, 0) == 0\<close>.\<close>

definition has_prefix :: "string \<Rightarrow> string \<Rightarrow> bool" where
  "has_prefix pre s \<longleftrightarrow> take (length pre) s = pre"

definition parse_indexed_field :: "string \<Rightarrow> string \<Rightarrow> string \<Rightarrow> (nat \<times> string) result" where
  "parse_indexed_field key pre description =
     (let remainder = drop (length pre) key;
          index_text = takeWhile (\<lambda>ch. ch \<noteq> CHR ''.'') remainder; field = drop (length index_text + 1) remainder
      in if index_text = remainder \<or> index_text = [] \<or> field = [] then Inl (''invalid '' @ description @ '' key: '' @ key)
         else bindE (unsigned_integer ''stoul'' index_text) (\<lambda>(index, parsed_chars).
              if parsed_chars \<noteq> length index_text then Inl (''invalid '' @ description @ '' index: '' @ key)
              else if 1024 \<le> index then Inl (''unreasonable '' @ description @ '' index: '' @ key)
              else Inr (index, field)))"

text \<open>\<open>std::vector::resize\<close> when the vector is too short.\<close>

definition grow :: "'a \<Rightarrow> nat \<Rightarrow> 'a list \<Rightarrow> 'a list" where
  "grow d n xs = xs @ replicate (n - length xs) d"

section \<open>Mission options\<close>

type_synonym 'c setter = "string \<Rightarrow> 'c \<Rightarrow> 'c result"

text \<open>The body of one branch of a chain of key comparisons: read the value and store it.\<close>

definition set_with :: "(string \<Rightarrow> 'v result) \<Rightarrow> (('v \<Rightarrow> 'v) \<Rightarrow> 'c \<Rightarrow> 'c) \<Rightarrow> 'c setter" where
  "set_with parse upd v c = bindE (parse v) (\<lambda>x. Inr (upd (\<lambda>_. x) c))"

record MissionOptions =
  mo_behavior_spec_path :: string
  mo_follow_observation_geometry_enabled :: bool
  mo_zero_target_velocity :: bool
  mo_follow_min_standoff_m :: double
  mo_follow_max_elevation_angle_deg :: double
  mo_follow_arrival_slow_radius_m :: double
  mo_follow_arrival_hold_radius_m :: double
  mo_follow_arrival_kp :: double
  mo_completion_after_s :: "double option"
  mo_hold_velocity_mps :: double
  mo_yaw_mode :: string
  mo_yaw_min_speed_mps :: double
  mo_yaw_hold_last_when_unstable :: bool
  mo_object_behavior_yaw_offset_rad :: "double option"
  mo_vertical_stare_mode :: string
  mo_vertical_stare_warn_if_unavailable :: bool
  mo_debug_every_n_ticks :: int
  mo_debug_level :: int
  mo_altitude_policy :: string
  mo_camera_pointing_cameras :: string
  mo_camera_pitch_min_deg :: "double option"
  mo_camera_pitch_max_deg :: "double option"
  mo_camera_pitch_sign :: double
  mo_camera_pitch_offset_deg :: "double option"
  mo_camera_pointing_prepare_mode :: string
  mo_camera_pointing_takeoff_mode :: string
  mo_camera_pointing_go_home_mode :: string
  mo_camera_pointing_land_mode :: string
  mo_camera_pointing_complete_mode :: string
  mo_camera_pointing_sink :: string
  mo_camera_pointing_mavlink_endpoints :: string
  mo_camera_pointing_mavlink_source_system_id :: "8 word"
  mo_camera_pointing_mavlink_source_component_id :: "8 word"
  mo_camera_pointing_mavlink_target_system_id :: "8 word"
  mo_camera_pointing_mavlink_target_component_id :: "8 word"
  mo_camera_pointing_mavlink_gimbal_device_id :: "8 word"
  mo_camera_pointing_mavlink_flags :: "32 word"
  mo_camera_pointing_deadband_rad :: double
  mo_camera_pointing_resend_s :: double
  mo_obstacle_sensing_cameras :: "CameraSensingConfig list"
  mo_safe_height_m :: double
  mo_takeoff_height_m :: "double option"
  mo_behavior_min_height_m :: "double option"
  mo_takeoff_velocity_mps :: double
  mo_go_home_velocity_mps :: double
  mo_land_velocity_mps :: double
  mo_arm_retry_interval_s :: double
  mo_arm_timeout_s :: double
  mo_arm_dispatch_fallback_s :: double
  mo_takeoff_retry_interval_s :: double
  mo_land_retry_interval_s :: double
  mo_land_timeout_s :: double
  mo_disarm_retry_interval_s :: double
  mo_disarm_timeout_s :: double
  mo_home_policy :: string
  mo_yaw_offset_rad :: double
  mo_max_velocity_mps :: double
  mo_prepare_session_command :: string
  mo_trajectory_path :: string
  mo_flight_control_mode :: string
  mo_px4_command_bridge :: string
  mo_velocity_command_bridge :: string
  mo_mavlink_command_endpoints :: string
  mo_px4_tmux_target :: string
  mo_use_px4_shell_lifecycle :: bool
  mo_mavlink_target_system_id :: "8 word"
  mo_mavlink_target_component_id :: "8 word"
  mo_mavlink_source_system_id :: "8 word"
  mo_mavlink_source_component_id :: "8 word"
  mo_set_offboard_on_velocity :: bool

definition MissionOptions_default :: MissionOptions where
  "MissionOptions_default =
     \<lparr>mo_behavior_spec_path = [], mo_follow_observation_geometry_enabled = False, mo_zero_target_velocity = False,
      mo_follow_min_standoff_m = 8, mo_follow_max_elevation_angle_deg = 35, mo_follow_arrival_slow_radius_m = 8,
      mo_follow_arrival_hold_radius_m = 2, mo_follow_arrival_kp = Fin (7/20), mo_completion_after_s = None,
      mo_hold_velocity_mps = 0, mo_yaw_mode = ''trajectory'', mo_yaw_min_speed_mps = Fin (7/20),
      mo_yaw_hold_last_when_unstable = True, mo_object_behavior_yaw_offset_rad = None, mo_vertical_stare_mode = ''none'',
      mo_vertical_stare_warn_if_unavailable = True, mo_debug_every_n_ticks = 0, mo_debug_level = 1,
      mo_altitude_policy = ''target_relative'', mo_camera_pointing_cameras = [], mo_camera_pitch_min_deg = None,
      mo_camera_pitch_max_deg = None, mo_camera_pitch_sign = - 1, mo_camera_pitch_offset_deg = None,
      mo_camera_pointing_prepare_mode = ''neutral'', mo_camera_pointing_takeoff_mode = ''neutral'', mo_camera_pointing_go_home_mode = ''home'',
      mo_camera_pointing_land_mode = ''landing_area'', mo_camera_pointing_complete_mode = ''neutral'', mo_camera_pointing_sink = ''null'',
      mo_camera_pointing_mavlink_endpoints = [], mo_camera_pointing_mavlink_source_system_id = 255, mo_camera_pointing_mavlink_source_component_id = 191,
      mo_camera_pointing_mavlink_target_system_id = 1, mo_camera_pointing_mavlink_target_component_id = 1, mo_camera_pointing_mavlink_gimbal_device_id = 0,
      mo_camera_pointing_mavlink_flags = 0, mo_camera_pointing_deadband_rad = Fin (136353847812057/31250000000000000), mo_camera_pointing_resend_s = Fin (1/4),
      mo_obstacle_sensing_cameras = [], mo_safe_height_m = 8, mo_takeoff_height_m = None,
      mo_behavior_min_height_m = None, mo_takeoff_velocity_mps = 1, mo_go_home_velocity_mps = 1,
      mo_land_velocity_mps = Fin (1/2), mo_arm_retry_interval_s = 1, mo_arm_timeout_s = 10,
      mo_arm_dispatch_fallback_s = 0, mo_takeoff_retry_interval_s = 1, mo_land_retry_interval_s = 1,
      mo_land_timeout_s = 60, mo_disarm_retry_interval_s = 1, mo_disarm_timeout_s = 10,
      mo_home_policy = ''initial_ego_pose'', mo_yaw_offset_rad = 0, mo_max_velocity_mps = 5,
      mo_prepare_session_command = [], mo_trajectory_path = [], mo_flight_control_mode = [],
      mo_px4_command_bridge = [], mo_velocity_command_bridge = [], mo_mavlink_command_endpoints = [],
      mo_px4_tmux_target = [], mo_use_px4_shell_lifecycle = True, mo_mavlink_target_system_id = 1,
      mo_mavlink_target_component_id = 1, mo_mavlink_source_system_id = 255, mo_mavlink_source_component_id = 190,
      mo_set_offboard_on_velocity = True\<rparr>"


text \<open>Degrees to radians, on a value and on each component.\<close>

definition stod_deg :: "Readers \<Rightarrow> string \<Rightarrow> double result" where
  "stod_deg rd v = bindE (stod_value rd v) (\<lambda>x. Inr (deg_to_rad x))"

definition vec3_deg :: "Readers \<Rightarrow> string \<Rightarrow> Vec3 result" where
  "vec3_deg rd v = bindE (parse_vec3 rd v) (\<lambda>d. Inr (vec3 (deg_to_rad (vx d)) (deg_to_rad (vy d)) (deg_to_rad (vz d))))"

definition set_camera_name :: "CameraSensingConfig setter" where
  "set_camera_name v cam = Inr (cam\<lparr>csc_camera_name := v, csc_camera_id := v\<rparr>)"

definition set_camera_id :: "CameraSensingConfig setter" where
  "set_camera_id v cam =
     Inr (cam\<lparr>csc_camera_id := v,
              csc_camera_name := (if csc_camera_name cam = [] \<or> csc_camera_name cam = ''front_center'' then v else csc_camera_name cam)\<rparr>)"

definition camera_field_table :: "Readers \<Rightarrow> (string \<times> CameraSensingConfig setter) list" where
  "camera_field_table rd =
    [(''name'', set_camera_name), (''camera_name'', set_camera_name), (''camera_id'', set_camera_id),
     (''role'', set_with Inr csc_role_update),
     (''horizontal_fov_deg'', set_with (stod_deg rd) csc_horizontal_fov_rad_update),
     (''vertical_fov_deg'', set_with (stod_deg rd) csc_vertical_fov_rad_update),
     (''horizontal_fov_rad'', set_with (stod_value rd) csc_horizontal_fov_rad_update),
     (''vertical_fov_rad'', set_with (stod_value rd) csc_vertical_fov_rad_update),
     (''near_range_m'', set_with (stod_value rd) csc_near_range_m_update),
     (''far_range_m'', set_with (stod_value rd) csc_far_range_m_update),
     (''min_reliable_range_m'', set_with (stod_value rd) csc_min_reliable_range_m_update),
     (''max_reliable_range_m'', set_with (stod_value rd) csc_max_reliable_range_m_update),
     (''body_T_camera_xyz_m'', set_with (parse_vec3 rd) csc_body_T_camera_xyz_m_update),
     (''body_T_camera_rpy_deg'', set_with (vec3_deg rd) csc_body_T_camera_rpy_rad_update),
     (''body_T_camera_rpy_rad'', set_with (parse_vec3 rd) csc_body_T_camera_rpy_rad_update),
     (''pointing_source'', set_with Inr csc_pointing_source_update)]"

text \<open>
  A key of the form \<open>prefix.index.field\<close>: \<open>None\<close> if the prefix is another one.  The three parsers of such keys differ in
  prefix, description, table, default element and member.
\<close>

definition parse_element_key ::
  "string \<Rightarrow> string \<Rightarrow> (string \<times> 'e setter) list \<Rightarrow> 'e \<Rightarrow> ('c \<Rightarrow> 'e list) \<Rightarrow> (('e list \<Rightarrow> 'e list) \<Rightarrow> 'c \<Rightarrow> 'c) \<Rightarrow>
   string \<Rightarrow> string \<Rightarrow> 'c \<Rightarrow> 'c option result" where
  "parse_element_key pre description table d sel upd key value c =
     (if \<not> has_prefix pre key then Inr None
      else bindE (parse_indexed_field key pre description) (\<lambda>(index, field).
           let xs = grow d (index + 1) (sel c)
           in case map_of table field of
                None \<Rightarrow> Inl (''unknown '' @ description @ '' field: '' @ key)
              | Some f \<Rightarrow> bindE (f value (xs ! index)) (\<lambda>x. Inr (Some (upd (\<lambda>_. xs[index := x]) c)))))"

definition parse_obstacle_sensing_camera_key :: "Readers \<Rightarrow> string \<Rightarrow> string \<Rightarrow> MissionOptions \<Rightarrow> MissionOptions option result" where
  "parse_obstacle_sensing_camera_key rd =
     parse_element_key ''obstacle_sensing.cameras.'' ''obstacle sensing camera'' (camera_field_table rd) CameraSensingConfig_default
       mo_obstacle_sensing_cameras mo_obstacle_sensing_cameras_update"

text \<open>An option that is in no branch is reported on \<open>stderr\<close> and otherwise ignored.\<close>

definition mission_option_table :: "Readers \<Rightarrow> (string \<times> MissionOptions setter) list" where
  "mission_option_table rd =
    [(''behavior_spec_path'', set_with Inr mo_behavior_spec_path_update),
     (''object_behavior_follow_observation_geometry_enabled'', set_with parse_bool mo_follow_observation_geometry_enabled_update),
     (''object_behavior_zero_target_velocity'', set_with parse_bool mo_zero_target_velocity_update),
     (''object_behavior_follow_min_standoff_m'', set_with (stod_value rd) mo_follow_min_standoff_m_update),
     (''object_behavior_follow_max_elevation_angle_deg'', set_with (stod_value rd) mo_follow_max_elevation_angle_deg_update),
     (''object_behavior_follow_arrival_slow_radius_m'', set_with (stod_value rd) mo_follow_arrival_slow_radius_m_update),
     (''object_behavior_follow_arrival_hold_radius_m'', set_with (stod_value rd) mo_follow_arrival_hold_radius_m_update),
     (''object_behavior_follow_arrival_kp'', set_with (stod_value rd) mo_follow_arrival_kp_update),
     (''object_behavior_completion_after_s'', set_with (stod_some rd) mo_completion_after_s_update),
     (''object_behavior_hold_velocity_mps'', set_with (stod_value rd) mo_hold_velocity_mps_update),
     (''object_behavior_yaw_mode'', set_with Inr mo_yaw_mode_update),
     (''object_behavior_yaw_min_speed_mps'', set_with (stod_value rd) mo_yaw_min_speed_mps_update),
     (''object_behavior_yaw_hold_last_when_unstable'', set_with parse_bool mo_yaw_hold_last_when_unstable_update),
     (''object_behavior_yaw_offset_rad'', set_with (stod_some rd) mo_object_behavior_yaw_offset_rad_update),
     (''object_behavior_vertical_stare_mode'', set_with Inr mo_vertical_stare_mode_update),
     (''object_behavior_vertical_stare_warn_if_unavailable'', set_with parse_bool mo_vertical_stare_warn_if_unavailable_update),
     (''object_behavior_debug_every_n_ticks'', set_with stoi mo_debug_every_n_ticks_update),
     (''object_behavior_debug_level'', set_with stoi mo_debug_level_update),
     (''object_behavior_altitude_policy'', set_with Inr mo_altitude_policy_update),
     (''object_behavior_min_height_m'', set_with (stod_some rd) mo_behavior_min_height_m_update),
     (''object_behavior_camera_pointing_cameras'', set_with Inr mo_camera_pointing_cameras_update),
     (''object_behavior_camera_pitch_min_deg'', set_with (stod_some rd) mo_camera_pitch_min_deg_update),
     (''object_behavior_camera_pitch_max_deg'', set_with (stod_some rd) mo_camera_pitch_max_deg_update),
     (''object_behavior_camera_pitch_sign'', set_with (stod_value rd) mo_camera_pitch_sign_update),
     (''object_behavior_camera_pitch_offset_deg'', set_with (stod_some rd) mo_camera_pitch_offset_deg_update),
     (''object_behavior_camera_pointing_prepare_mode'', set_with Inr mo_camera_pointing_prepare_mode_update),
     (''object_behavior_camera_pointing_takeoff_mode'', set_with Inr mo_camera_pointing_takeoff_mode_update),
     (''object_behavior_camera_pointing_go_home_mode'', set_with Inr mo_camera_pointing_go_home_mode_update),
     (''object_behavior_camera_pointing_land_mode'', set_with Inr mo_camera_pointing_land_mode_update),
     (''object_behavior_camera_pointing_complete_mode'', set_with Inr mo_camera_pointing_complete_mode_update),
     (''object_behavior_camera_pointing_sink'', set_with Inr mo_camera_pointing_sink_update),
     (''object_behavior_camera_pointing_mavlink_endpoints'', set_with Inr mo_camera_pointing_mavlink_endpoints_update),
     (''object_behavior_camera_pointing_mavlink_source_system_id'', set_with (parse_uint8 ''object_behavior_camera_pointing_mavlink_source_system_id'') mo_camera_pointing_mavlink_source_system_id_update),
     (''object_behavior_camera_pointing_mavlink_source_component_id'', set_with (parse_uint8 ''object_behavior_camera_pointing_mavlink_source_component_id'') mo_camera_pointing_mavlink_source_component_id_update),
     (''object_behavior_camera_pointing_mavlink_target_system_id'', set_with (parse_uint8 ''object_behavior_camera_pointing_mavlink_target_system_id'') mo_camera_pointing_mavlink_target_system_id_update),
     (''object_behavior_camera_pointing_mavlink_target_component_id'', set_with (parse_uint8 ''object_behavior_camera_pointing_mavlink_target_component_id'') mo_camera_pointing_mavlink_target_component_id_update),
     (''object_behavior_camera_pointing_mavlink_gimbal_device_id'', set_with (parse_uint8 ''object_behavior_camera_pointing_mavlink_gimbal_device_id'') mo_camera_pointing_mavlink_gimbal_device_id_update),
     (''object_behavior_camera_pointing_mavlink_flags'', set_with (parse_uint32 ''object_behavior_camera_pointing_mavlink_flags'') mo_camera_pointing_mavlink_flags_update),
     (''object_behavior_camera_pointing_deadband_rad'', set_with (stod_value rd) mo_camera_pointing_deadband_rad_update),
     (''object_behavior_camera_pointing_resend_s'', set_with (stod_value rd) mo_camera_pointing_resend_s_update),
     (''flight_safe_height_m'', set_with (stod_value rd) mo_safe_height_m_update),
     (''flight_takeoff_height_m'', set_with (stod_some rd) mo_takeoff_height_m_update),
     (''flight_takeoff_velocity_mps'', set_with (stod_value rd) mo_takeoff_velocity_mps_update),
     (''flight_go_home_velocity_mps'', set_with (stod_value rd) mo_go_home_velocity_mps_update),
     (''flight_land_velocity_mps'', set_with (stod_value rd) mo_land_velocity_mps_update),
     (''flight_arm_retry_interval_s'', set_with (stod_value rd) mo_arm_retry_interval_s_update),
     (''flight_arm_timeout_s'', set_with (stod_value rd) mo_arm_timeout_s_update),
     (''flight_arm_dispatch_fallback_s'', set_with (stod_value rd) mo_arm_dispatch_fallback_s_update),
     (''flight_takeoff_retry_interval_s'', set_with (stod_value rd) mo_takeoff_retry_interval_s_update),
     (''flight_land_retry_interval_s'', set_with (stod_value rd) mo_land_retry_interval_s_update),
     (''flight_land_timeout_s'', set_with (stod_value rd) mo_land_timeout_s_update),
     (''flight_disarm_retry_interval_s'', set_with (stod_value rd) mo_disarm_retry_interval_s_update),
     (''flight_disarm_timeout_s'', set_with (stod_value rd) mo_disarm_timeout_s_update),
     (''flight_home_policy'', set_with Inr mo_home_policy_update),
     (''flight_yaw_offset_rad'', set_with (stod_value rd) mo_yaw_offset_rad_update),
     (''flight_max_velocity_mps'', set_with (stod_value rd) mo_max_velocity_mps_update),
     (''flight_prepare_session_command'', set_with Inr mo_prepare_session_command_update),
     (''flight_trajectory_path'', set_with Inr mo_trajectory_path_update),
     (''flight_control_mode'', set_with Inr mo_flight_control_mode_update),
     (''flight_px4_command_bridge'', set_with Inr mo_px4_command_bridge_update),
     (''flight_velocity_command_bridge'', set_with Inr mo_velocity_command_bridge_update),
     (''flight_mavlink_command_endpoints'', set_with Inr mo_mavlink_command_endpoints_update),
     (''flight_px4_tmux_target'', set_with Inr mo_px4_tmux_target_update),
     (''flight_use_px4_shell_lifecycle'', set_with parse_bool mo_use_px4_shell_lifecycle_update),
     (''flight_mavlink_target_system_id'', set_with (parse_uint8 ''flight_mavlink_target_system_id'') mo_mavlink_target_system_id_update),
     (''flight_mavlink_target_component_id'', set_with (parse_uint8 ''flight_mavlink_target_component_id'') mo_mavlink_target_component_id_update),
     (''flight_mavlink_source_system_id'', set_with (parse_uint8 ''flight_mavlink_source_system_id'') mo_mavlink_source_system_id_update),
     (''flight_mavlink_source_component_id'', set_with (parse_uint8 ''flight_mavlink_source_component_id'') mo_mavlink_source_component_id_update),
     (''flight_mavlink_set_offboard_on_velocity'', set_with parse_bool mo_set_offboard_on_velocity_update)]"

definition apply_mission_option :: "Readers \<Rightarrow> string \<Rightarrow> MissionOptions setter" where
  "apply_mission_option rd key value opts =
     bindE (parse_obstacle_sensing_camera_key rd key value opts) (\<lambda>found.
     case found of Some opts' \<Rightarrow> Inr opts'
     | None \<Rightarrow> (case map_of (mission_option_table rd) key of None \<Rightarrow> Inr opts | Some f \<Rightarrow> f value opts))"

section \<open>The object-behaviour configuration\<close>

definition strip_csv_token :: "string \<Rightarrow> string" where
  "strip_csv_token token = filter (\<lambda>ch. ch \<noteq> CHR '' '' \<and> ch \<noteq> chr_tab \<and> ch \<noteq> CHR 0x0D \<and> ch \<noteq> chr_newline) token"

definition push_token :: "string \<Rightarrow> string list \<Rightarrow> string list" where
  "push_token token r = (let t = strip_csv_token token in if t \<noteq> [] then r @ [t] else r)"

fun split_csv_loop :: "string \<Rightarrow> string \<Rightarrow> string list \<Rightarrow> string list" where
  "split_csv_loop [] token r = push_token token r"
| "split_csv_loop (ch # s) token r =
     (if ch = CHR '','' then split_csv_loop s [] (push_token token r) else split_csv_loop s (token @ [ch]) r)"

definition split_csv :: "string \<Rightarrow> string list \<Rightarrow> string list" where
  "split_csv value fallback =
     (if value = [] then fallback else let r = split_csv_loop value [] [] in if r = [] then fallback else r)"

definition parse_altitude_policy :: "string \<Rightarrow> ObjectBehaviorAltitudePolicy result" where
  "parse_altitude_policy value =
     (if value = [] \<or> value = ''target_relative'' then Inr TargetRelative
      else if value = ''safe_height_floor'' then Inr SafeHeightFloor
      else Inl (''unknown object_behavior_altitude_policy: '' @ value))"

definition parse_vertical_stare_mode :: "string \<Rightarrow> ObjectBehaviorVerticalStareMode result" where
  "parse_vertical_stare_mode value =
     (if value = [] \<or> value = ''none'' \<or> value = ''disabled'' then Inr StareNone
      else if value = ''debug'' \<or> value = ''debug_only'' then Inr StareDebugOnly
      else if value = ''gimbal'' then Inr StareGimbal
      else Inl (''unknown object_behavior_vertical_stare_mode: '' @ value))"

text \<open>The members of the configuration that only this file writes and nothing reads.\<close>

record LoadedObjectConfig = ObjectBehaviorMissionConfig +
  oc_hold_velocity_mps :: double
  oc_vertical_stare_warn_if_unavailable :: bool
  oc_land_retry_interval_s :: double
  oc_home_policy :: string

definition value_or :: "'a option \<Rightarrow> 'a \<Rightarrow> 'a" where
  "value_or v d = (case v of None \<Rightarrow> d | Some x \<Rightarrow> x)"

definition parse_camera_pointing_config :: "MissionOptions \<Rightarrow> LoadedObjectConfig \<Rightarrow> LoadedObjectConfig" where
  "parse_camera_pointing_config opts c =
     (let deg = map_option deg_to_rad; lo = value_or (deg (mo_camera_pitch_min_deg opts)) (oc_camera_pitch_min_rad c);
          hi = value_or (deg (mo_camera_pitch_max_deg opts)) (oc_camera_pitch_max_rad c)
      in c\<lparr>oc_camera_pointing_cameras := split_csv (mo_camera_pointing_cameras opts) [],
           oc_camera_pitch_sign := mo_camera_pitch_sign opts,
           oc_camera_pitch_offset_rad := value_or (deg (mo_camera_pitch_offset_deg opts)) (oc_camera_pitch_offset_rad c),
           oc_camera_pointing_prepare_mode := mo_camera_pointing_prepare_mode opts,
           oc_camera_pointing_takeoff_mode := mo_camera_pointing_takeoff_mode opts,
           oc_camera_pointing_go_home_mode := mo_camera_pointing_go_home_mode opts,
           oc_camera_pointing_land_mode := mo_camera_pointing_land_mode opts,
           oc_camera_pointing_complete_mode := mo_camera_pointing_complete_mode opts,
           oc_camera_pitch_min_rad := (if hi < lo then hi else lo), oc_camera_pitch_max_rad := (if hi < lo then lo else hi)\<rparr>)"

definition parse_follow_config :: "MissionOptions \<Rightarrow> LoadedObjectConfig \<Rightarrow> LoadedObjectConfig" where
  "parse_follow_config opts c =
     c\<lparr>oc_follow_observation_geometry_enabled := mo_follow_observation_geometry_enabled opts,
       oc_zero_target_velocity := mo_zero_target_velocity opts, oc_follow_min_standoff_m := mo_follow_min_standoff_m opts,
       oc_follow_max_elevation_angle_deg := mo_follow_max_elevation_angle_deg opts,
       oc_follow_arrival_slow_radius_m := mo_follow_arrival_slow_radius_m opts,
       oc_follow_arrival_hold_radius_m := mo_follow_arrival_hold_radius_m opts, oc_follow_arrival_kp := mo_follow_arrival_kp opts,
       oc_behavior_spec := (case mo_completion_after_s opts of None \<Rightarrow> oc_behavior_spec c
         | Some s \<Rightarrow> (oc_behavior_spec c)\<lparr>bm_completion := (bm_completion (oc_behavior_spec c))\<lparr>cs_after_s := s\<rparr>\<rparr>)\<rparr>"

definition parse_height_config :: "MissionOptions \<Rightarrow> LoadedObjectConfig \<Rightarrow> LoadedObjectConfig" where
  "parse_height_config opts c =
     c\<lparr>oc_takeoff_height_m := value_or (mo_takeoff_height_m opts) (mo_safe_height_m opts),
       oc_behavior_min_height_m := value_or (mo_behavior_min_height_m opts) (mo_safe_height_m opts)\<rparr>"

definition parse_flight_ops_config :: "MissionOptions \<Rightarrow> LoadedObjectConfig \<Rightarrow> LoadedObjectConfig" where
  "parse_flight_ops_config opts c =
     c\<lparr>oc_takeoff_velocity_mps := mo_takeoff_velocity_mps opts, oc_go_home_velocity_mps := mo_go_home_velocity_mps opts,
       oc_arm_retry_interval_s := mo_arm_retry_interval_s opts, oc_arm_timeout_s := mo_arm_timeout_s opts,
       oc_arm_dispatch_fallback_s := mo_arm_dispatch_fallback_s opts, oc_takeoff_retry_interval_s := mo_takeoff_retry_interval_s opts,
       oc_land_retry_interval_s := mo_land_retry_interval_s opts, oc_land_timeout_s := mo_land_timeout_s opts,
       oc_disarm_retry_interval_s := mo_disarm_retry_interval_s opts, oc_disarm_timeout_s := mo_disarm_timeout_s opts,
       oc_home_policy := mo_home_policy opts\<rparr>"

text \<open>Files are a function from paths to contents.  \<open>None\<close> as a result: the reader of the specification does not return.\<close>

definition parse_behavior_spec_file :: "Readers \<Rightarrow> (string \<Rightarrow> string option) \<Rightarrow> string \<Rightarrow> BehaviorMissionSpec result option" where
  "parse_behavior_spec_file rd files path =
     (case files path of None \<Rightarrow> Some (Inl (''failed to open behavior spec: '' @ path))
      | Some s \<Rightarrow> parse_behavior_spec_text (rd_stod rd) s Auto)"

definition load_object_behavior_mission_config ::
  "Readers \<Rightarrow> (string \<Rightarrow> string option) \<Rightarrow> MissionOptions \<Rightarrow> LoadedObjectConfig result option" where
  "load_object_behavior_mission_config rd files opts =
     (if mo_behavior_spec_path opts = []
      then Some (Inl ''object_behavior mission_controller requires mission_options.behavior_spec_path'')
      else bindO (parse_behavior_spec_file rd files (mo_behavior_spec_path opts)) (\<lambda>spec. Some (
        bindE (parse_yaw_mode (mo_yaw_mode opts)) (\<lambda>yaw.
        bindE (parse_vertical_stare_mode (mo_vertical_stare_mode opts)) (\<lambda>stare.
        bindE (parse_altitude_policy (mo_altitude_policy opts)) (\<lambda>altitude.
        let c = ObjectBehaviorMissionConfig.extend (ObjectBehaviorMissionConfig_default spec)
                  (LoadedObjectConfig.fields (mo_hold_velocity_mps opts) (mo_vertical_stare_warn_if_unavailable opts) 1 ''initial_ego_pose'');
            c = c\<lparr>oc_yaw_offset_rad := value_or (mo_object_behavior_yaw_offset_rad opts) (mo_yaw_offset_rad opts),
                  oc_yaw_min_speed_mps := mo_yaw_min_speed_mps opts, oc_yaw_hold_last_when_unstable := mo_yaw_hold_last_when_unstable opts,
                  oc_yaw_mode := yaw, oc_vertical_stare_mode := stare\<rparr>;
            c = parse_camera_pointing_config opts c;
            c = c\<lparr>oc_debug_every_n_ticks := mo_debug_every_n_ticks opts, oc_debug_level := mo_debug_level opts, oc_altitude_policy := altitude\<rparr>
        in Inr (parse_flight_ops_config opts (parse_height_config opts (parse_follow_config opts c)))))))))"

section \<open>The trajectory configuration\<close>

record LoadedTrajectoryConfig = TrajectoryMissionConfig +
  tj_land_velocity_mps :: double
  tj_land_retry_interval_s :: double
  tj_home_policy :: string

definition strip_json_string :: "string \<Rightarrow> string" where
  "strip_json_string value = filter (\<lambda>ch. ch \<noteq> chr_apostrophe) (filter (\<lambda>ch. ch \<noteq> chr_quote) value)"

definition load_trajectory_file :: "Readers \<Rightarrow> (string \<Rightarrow> string option) \<Rightarrow> string \<Rightarrow> VelocityTrajectory result" where
  "load_trajectory_file rd files path =
     (case files path of None \<Rightarrow> Inl (''failed to open trajectory file: '' @ path) | Some s \<Rightarrow> parse_json (rd_stod rd) s)"

definition load_trajectory_mission_config ::
  "Readers \<Rightarrow> (string \<Rightarrow> string option) \<Rightarrow> MissionOptions \<Rightarrow> LoadedTrajectoryConfig result" where
  "load_trajectory_mission_config rd files opts =
     bindE (if mo_trajectory_path opts \<noteq> [] then load_trajectory_file rd files (strip_json_string (mo_trajectory_path opts)) else Inr []) (\<lambda>trajectory.
     Inr \<lparr>tj_safe_height_m = mo_safe_height_m opts, tj_takeoff_velocity_mps = mo_takeoff_velocity_mps opts,
          tj_go_home_velocity_mps = mo_go_home_velocity_mps opts, tj_yaw_offset_rad = mo_yaw_offset_rad opts,
          tj_arm_retry_interval_s = mo_arm_retry_interval_s opts, tj_arm_timeout_s = mo_arm_timeout_s opts,
          tj_arm_dispatch_fallback_s = mo_arm_dispatch_fallback_s opts, tj_takeoff_retry_interval_s = mo_takeoff_retry_interval_s opts,
          tj_land_timeout_s = mo_land_timeout_s opts, tj_disarm_retry_interval_s = mo_disarm_retry_interval_s opts,
          tj_disarm_timeout_s = mo_disarm_timeout_s opts, tj_trajectory = (if trajectory = [] then default_hold 1 else trajectory),
          tj_land_velocity_mps = mo_land_velocity_mps opts, tj_land_retry_interval_s = mo_land_retry_interval_s opts,
          tj_home_policy = mo_home_policy opts\<rparr>)"

end
