(* ===== verification/Stack_Config.thy ===== *)
theory Stack_Config
  imports Mission_Options Map_Assimilator Depth_Pipeline
begin

text \<open>
  \<open>config_loader.cpp\<close> and the name resolution of \<open>provider_registry.cpp\<close>: the configuration of the whole stack, the keys that
  set it, configuration files that include each other, environment overrides, validation, and the depth and reference slots.

  The host is an argument: the files (a list of paths and contents), \<open>std::filesystem::weakly_canonical\<close>, the current
  directory, the environment, and whether the build has the ONNX engines.
\<close>

section \<open>Data\<close>

record VisualONNXDepthConfig =
  vo_model_path :: string
  vo_input_name :: string
  vo_output_name :: string
  vo_model_input_width :: int
  vo_model_input_height :: int
  vo_use_cuda :: bool
  vo_cuda_device_id :: int
  vo_cuda_arena_limit_bytes :: nat
  vo_use_coreml :: bool
  vo_metric_depth :: bool
  vo_scale :: double
  vo_depth_grid_cols :: nat
  vo_depth_grid_rows :: nat
  vo_min_depth_m :: double
  vo_max_depth_m :: double
  vo_voxel_size_m :: double
  vo_confidence :: double
  vo_max_evidence :: nat
  vo_detect_surface_patches :: bool
  vo_detect_thin_structures :: bool
  vo_debug_depth_mp4 :: string

definition VisualONNXDepthConfig_default :: VisualONNXDepthConfig where
  "VisualONNXDepthConfig_default =
     \<lparr>vo_model_path = [], vo_input_name = ''image'', vo_output_name = ''depth'', vo_model_input_width = 518,
      vo_model_input_height = 518, vo_use_cuda = False, vo_cuda_device_id = 0, vo_cuda_arena_limit_bytes = 4294967296,
      vo_use_coreml = False, vo_metric_depth = True, vo_scale = 1, vo_depth_grid_cols = 40,
      vo_depth_grid_rows = 22, vo_min_depth_m = Fin (1/5), vo_max_depth_m = 80, vo_voxel_size_m = Fin (1/2),
      vo_confidence = Fin (3/4), vo_max_evidence = 512, vo_detect_surface_patches = True, vo_detect_thin_structures = True,
      vo_debug_depth_mp4 = []\<rparr>"

record UniDepthV2Config =
  ud_model_path :: string
  ud_inference_width :: int
  ud_inference_height :: int
  ud_native_width :: int
  ud_native_height :: int
  ud_use_camera_rays :: bool
  ud_use_cuda :: bool
  ud_cuda_device_id :: int
  ud_cuda_arena_limit_bytes :: nat
  ud_use_coreml :: bool
  ud_scale :: double
  ud_depth_grid_cols :: nat
  ud_depth_grid_rows :: nat
  ud_min_depth_m :: double
  ud_max_depth_m :: double
  ud_voxel_size_m :: double
  ud_confidence :: double
  ud_max_evidence :: nat
  ud_detect_surface_patches :: bool
  ud_detect_thin_structures :: bool
  ud_debug_depth_mp4 :: string

definition UniDepthV2Config_default :: UniDepthV2Config where
  "UniDepthV2Config_default =
     \<lparr>ud_model_path = [], ud_inference_width = 602, ud_inference_height = 336, ud_native_width = 256,
      ud_native_height = 144, ud_use_camera_rays = False, ud_use_cuda = False, ud_cuda_device_id = 0,
      ud_cuda_arena_limit_bytes = 1073741824, ud_use_coreml = False, ud_scale = 1, ud_depth_grid_cols = 40,
      ud_depth_grid_rows = 22, ud_min_depth_m = Fin (1/5), ud_max_depth_m = 80, ud_voxel_size_m = Fin (1/2),
      ud_confidence = Fin (3/4), ud_max_evidence = 512, ud_detect_surface_patches = True, ud_detect_thin_structures = True,
      ud_debug_depth_mp4 = []\<rparr>"

record AirSimGhostObjectBinding =
  gb_source_track_id :: string
  gb_airsim_object_name :: string
  gb_class_label :: ClassLabel
  gb_confidence :: double
  gb_size_m :: Vec3

definition AirSimGhostObjectBinding_default :: AirSimGhostObjectBinding where
  "AirSimGhostObjectBinding_default =
     \<lparr>gb_source_track_id = [], gb_airsim_object_name = [], gb_class_label = ClassUnknown, gb_confidence = 1,
      gb_size_m = vec3 1 1 1\<rparr>"

record AirSimGhostObjectPatternBinding =
  gp_source_track_prefix :: string
  gp_airsim_object_pattern :: string
  gp_class_label :: ClassLabel
  gp_confidence :: double
  gp_size_m :: Vec3
  gp_max_matches :: int

definition AirSimGhostObjectPatternBinding_default :: AirSimGhostObjectPatternBinding where
  "AirSimGhostObjectPatternBinding_default =
     \<lparr>gp_source_track_prefix = ''gt_obstacle'', gp_airsim_object_pattern = [], gp_class_label = Obstacle, gp_confidence = Fin (7/10),
      gp_size_m = vec3 1 1 1, gp_max_matches = 64\<rparr>"

record CoreStackProviderConfig =
  pc_frame_source :: string
  pc_ego_provider :: string
  pc_detector :: string
  pc_camera_stabilizer :: string
  pc_tracker :: string
  pc_identity_resolver :: string
  pc_projector :: string
  pc_depth :: string
  pc_depth_eval :: string
  pc_detector_eval :: string
  pc_camera_stabilizer_eval :: string
  pc_ego_provider_eval :: string
  pc_tracker_eval :: string
  pc_identity_resolver_eval :: string
  pc_projector_eval :: string
  pc_projector_require_depth :: bool
  pc_ghost_targets_enabled :: bool
  pc_ghost_targets_source :: string
  pc_ghost_targets_scenario :: string
  pc_ghost_targets_scenario_path :: string
  pc_ghost_targets_airsim_objects :: "AirSimGhostObjectBinding list"
  pc_ghost_targets_airsim_patterns :: "AirSimGhostObjectPatternBinding list"
  pc_ghost_targets_airsim_scene_inventory_path :: string
  pc_ghost_targets_airsim_object_pose_stream_rate_hz :: double
  pc_ghost_targets_airsim_object_pose_static_refresh_every_n_frames :: int
  pc_world_model :: string
  pc_occupancy_source :: string
  pc_frame_annotator :: string
  pc_annotation_output_path :: string
  pc_annotation_output_fps :: double
  pc_pipeline_timing_enabled :: bool
  pc_pipeline_timing_output_path :: string
  pc_recorded_manifest_path :: string
  pc_source_host :: string
  pc_source_rpc_port :: int
  pc_vehicle_name :: string
  pc_vehicle_camera_name :: string
  pc_bridge_transport :: string
  pc_bridge_command :: string
  pc_bridge_mode :: string
  pc_ego_bridge_command :: string
  pc_fallback_map_frame_id :: MapFrameId
  pc_mission_controller :: string
  pc_mission_tick_hz :: double
  pc_flight_command_sink :: string
  pc_mission_options :: MissionOptions

definition CoreStackProviderConfig_default :: CoreStackProviderConfig where
  "CoreStackProviderConfig_default =
     \<lparr>pc_frame_source = ''synthetic'', pc_ego_provider = ''frame_hint'', pc_detector = ''scripted'', pc_camera_stabilizer = ''null'',
      pc_tracker = ''simple_centroid'', pc_identity_resolver = ''appearance_only'', pc_projector = ''flat_ground'', pc_depth = [],
      pc_depth_eval = [], pc_detector_eval = [], pc_camera_stabilizer_eval = [], pc_ego_provider_eval = [],
      pc_tracker_eval = [], pc_identity_resolver_eval = [], pc_projector_eval = [], pc_projector_require_depth = False,
      pc_ghost_targets_enabled = False, pc_ghost_targets_source = ''trajectory_scenario'', pc_ghost_targets_scenario = ''person_pair_crossing'', pc_ghost_targets_scenario_path = [],
      pc_ghost_targets_airsim_objects = [], pc_ghost_targets_airsim_patterns = [], pc_ghost_targets_airsim_scene_inventory_path = [], pc_ghost_targets_airsim_object_pose_stream_rate_hz = 30,
      pc_ghost_targets_airsim_object_pose_static_refresh_every_n_frames = 10, pc_world_model = ''in_memory'', pc_occupancy_source = ''synthetic_fixture'', pc_frame_annotator = ''null'',
      pc_annotation_output_path = ''out/annotated.mp4'', pc_annotation_output_fps = 5, pc_pipeline_timing_enabled = False, pc_pipeline_timing_output_path = ''out/profile/pipeline_profile.jsonl'',
      pc_recorded_manifest_path = [], pc_source_host = ''127.0.0.1'', pc_source_rpc_port = 41451, pc_vehicle_name = ''PX4'',
      pc_vehicle_camera_name = ''front_center'', pc_bridge_transport = ''pipe'', pc_bridge_command = ''python3 simulation/airsim/scripts/airsim-capture-frame.py'', pc_bridge_mode = ''one_shot_ppm'',
      pc_ego_bridge_command = ''python3 simulation/airsim/scripts/airsim-capture-ego.py'', pc_fallback_map_frame_id = ''map_local_0001'', pc_mission_controller = ''disabled'', pc_mission_tick_hz = 10,
      pc_flight_command_sink = ''disabled'', pc_mission_options = MissionOptions_default\<rparr>"

text \<open>A depth provider is its detector's configuration and, for a visual one, its engine's.\<close>

datatype DepthProvider =
    GroundTruthDepth DepthDetectorConfig
  | OnnxDepth VisualONNXDepthConfig DepthDetectorConfig
  | UniDepth UniDepthV2Config DepthDetectorConfig

text \<open>The names of the reference providers that are created; \<open>None\<close> for an inactive slot.\<close>

record EvalReferences =
  er_ego_provider :: "string option"
  er_detector :: "string option"
  er_stabilizer :: "string option"
  er_tracker :: "string option"
  er_identity_resolver :: "string option"
  er_projector :: "string option"

record CoreStackRunnerConfig =
  rc_visual_onnx_depth :: VisualONNXDepthConfig
  rc_unidepth_v2_depth :: UniDepthV2Config
  rc_debug_depth_output_path :: string
  rc_depth_slot_a :: "DepthProvider option"
  rc_depth_slot_b :: "DepthProvider option"
  rc_references :: EvalReferences
  rc_mission_map_assimilator :: AssimilatorConfig
  rc_esdf_catchup_budget_us :: int

record CoreStackConfig =
  ck_providers :: CoreStackProviderConfig
  ck_runner :: CoreStackRunnerConfig

definition EvalReferences_default :: EvalReferences where
  "EvalReferences_default =
     \<lparr>er_ego_provider = None, er_detector = None, er_stabilizer = None, er_tracker = None, er_identity_resolver = None, er_projector = None\<rparr>"

definition CoreStackConfig_default :: CoreStackConfig where
  "CoreStackConfig_default =
     \<lparr>ck_providers = CoreStackProviderConfig_default,
      ck_runner = \<lparr>rc_visual_onnx_depth = VisualONNXDepthConfig_default, rc_unidepth_v2_depth = UniDepthV2Config_default,
        rc_debug_depth_output_path = [], rc_depth_slot_a = None, rc_depth_slot_b = None, rc_references = EvalReferences_default,
        rc_mission_map_assimilator = AssimilatorConfig_default, rc_esdf_catchup_budget_us = 20000\<rparr>\<rparr>"

record Host =
  h_files :: "(string \<times> string) list"
  h_canonical :: "string \<Rightarrow> string"
  h_current_path :: string
  h_getenv :: "string \<Rightarrow> string option"
  h_onnx_enabled :: bool

section \<open>Keys\<close>

definition uint32_nat :: "string \<Rightarrow> string \<Rightarrow> nat result" where
  "uint32_nat ctx v = bindE (parse_uint32 ctx v) (\<lambda>w. Inr (unat w))"

definition visual_onnx_table :: "Readers \<Rightarrow> (string \<times> VisualONNXDepthConfig setter) list" where
  "visual_onnx_table rd =
    [(''model_path'', set_with Inr vo_model_path_update),
     (''input_name'', set_with Inr vo_input_name_update),
     (''output_name'', set_with Inr vo_output_name_update),
     (''model_input_width'', set_with stoi vo_model_input_width_update),
     (''model_input_height'', set_with stoi vo_model_input_height_update),
     (''scale'', set_with (stof_value rd) vo_scale_update),
     (''use_cuda'', set_with parse_bool vo_use_cuda_update),
     (''cuda_device_id'', set_with stoi vo_cuda_device_id_update),
     (''cuda_arena_limit_bytes'', set_with stoull vo_cuda_arena_limit_bytes_update),
     (''use_coreml'', set_with parse_bool vo_use_coreml_update),
     (''metric_depth'', set_with parse_bool vo_metric_depth_update),
     (''depth_grid_cols'', set_with stoul vo_depth_grid_cols_update),
     (''depth_grid_rows'', set_with stoul vo_depth_grid_rows_update),
     (''min_depth_m'', set_with (stof_value rd) vo_min_depth_m_update),
     (''max_depth_m'', set_with (stof_value rd) vo_max_depth_m_update),
     (''voxel_size_m'', set_with (stof_value rd) vo_voxel_size_m_update),
     (''confidence'', set_with (stof_value rd) vo_confidence_update),
     (''max_evidence'', set_with stoul vo_max_evidence_update),
     (''detect_surface_patches'', set_with parse_bool vo_detect_surface_patches_update),
     (''detect_thin_structures'', set_with parse_bool vo_detect_thin_structures_update),
     (''debug_depth_mp4'', set_with Inr vo_debug_depth_mp4_update)]"

definition unidepth_table :: "Readers \<Rightarrow> (string \<times> UniDepthV2Config setter) list" where
  "unidepth_table rd =
    [(''model_path'', set_with Inr ud_model_path_update),
     (''inference_width'', set_with stoi ud_inference_width_update),
     (''inference_height'', set_with stoi ud_inference_height_update),
     (''native_width'', set_with stoi ud_native_width_update),
     (''native_height'', set_with stoi ud_native_height_update),
     (''use_camera_rays'', set_with parse_bool ud_use_camera_rays_update),
     (''scale'', set_with (stof_value rd) ud_scale_update),
     (''use_cuda'', set_with parse_bool ud_use_cuda_update),
     (''cuda_device_id'', set_with stoi ud_cuda_device_id_update),
     (''cuda_arena_limit_bytes'', set_with stoull ud_cuda_arena_limit_bytes_update),
     (''use_coreml'', set_with parse_bool ud_use_coreml_update),
     (''depth_grid_cols'', set_with stoul ud_depth_grid_cols_update),
     (''depth_grid_rows'', set_with stoul ud_depth_grid_rows_update),
     (''min_depth_m'', set_with (stof_value rd) ud_min_depth_m_update),
     (''max_depth_m'', set_with (stof_value rd) ud_max_depth_m_update),
     (''voxel_size_m'', set_with (stof_value rd) ud_voxel_size_m_update),
     (''confidence'', set_with (stof_value rd) ud_confidence_update),
     (''max_evidence'', set_with stoul ud_max_evidence_update),
     (''detect_surface_patches'', set_with parse_bool ud_detect_surface_patches_update),
     (''detect_thin_structures'', set_with parse_bool ud_detect_thin_structures_update),
     (''debug_depth_mp4'', set_with Inr ud_debug_depth_mp4_update)]"

definition traversability_table :: "Readers \<Rightarrow> (string \<times> TraversabilityConfig setter) list" where
  "traversability_table rd =
    [(''enable_log_odds'', set_with parse_bool tmc_enable_log_odds_update),
     (''log_odds_occupied_increment'', set_with (stod_value rd) tmc_log_odds_occupied_increment_update),
     (''log_odds_free_decrement'', set_with (stod_value rd) tmc_log_odds_free_decrement_update),
     (''log_odds_max'', set_with (stod_value rd) tmc_log_odds_max_update),
     (''endpoint_spread_voxels'', set_with (uint32_nat ''traversability.endpoint_spread_voxels'') tmc_endpoint_spread_voxels_update),
     (''endpoint_spread_decay'', set_with (stod_value rd) tmc_endpoint_spread_decay_update),
     (''raycast_cross_check_per_frame'', set_with (uint32_nat ''traversability.raycast_cross_check_per_frame'') tmc_raycast_cross_check_per_frame_update)]"

definition object_binding_table :: "Readers \<Rightarrow> (string \<times> AirSimGhostObjectBinding setter) list" where
  "object_binding_table rd =
    [(''source_track_id'', set_with Inr gb_source_track_id_update),
     (''airsim_object_name'', set_with Inr gb_airsim_object_name_update),
     (''class'', set_with (Inr \<circ> class_label_from_string) gb_class_label_update),
     (''confidence'', set_with (stod_value rd) gb_confidence_update),
     (''size_m'', set_with (parse_vec3 rd) gb_size_m_update)]"

definition pattern_binding_table :: "Readers \<Rightarrow> (string \<times> AirSimGhostObjectPatternBinding setter) list" where
  "pattern_binding_table rd =
    [(''source_track_prefix'', set_with Inr gp_source_track_prefix_update),
     (''airsim_object_pattern'', set_with Inr gp_airsim_object_pattern_update),
     (''class'', set_with (Inr \<circ> class_label_from_string) gp_class_label_update),
     (''confidence'', set_with (stod_value rd) gp_confidence_update),
     (''size_m'', set_with (parse_vec3 rd) gp_size_m_update),
     (''max_matches'', set_with stoi gp_max_matches_update)]"

definition provider_table :: "Readers \<Rightarrow> (string \<times> CoreStackProviderConfig setter) list" where
  "provider_table rd =
    [(''frame_source'', set_with Inr pc_frame_source_update),
     (''ego_provider'', set_with Inr pc_ego_provider_update),
     (''ego_provider_eval'', set_with Inr pc_ego_provider_eval_update),
     (''depth'', set_with Inr pc_depth_update),
     (''depth_eval'', set_with Inr pc_depth_eval_update),
     (''detector'', set_with Inr pc_detector_update),
     (''detector_eval'', set_with Inr pc_detector_eval_update),
     (''camera_stabilizer'', set_with Inr pc_camera_stabilizer_update),
     (''camera_stabilizer_eval'', set_with Inr pc_camera_stabilizer_eval_update),
     (''tracker'', set_with Inr pc_tracker_update),
     (''tracker_eval'', set_with Inr pc_tracker_eval_update),
     (''identity_resolver'', set_with Inr pc_identity_resolver_update),
     (''identity_resolver_eval'', set_with Inr pc_identity_resolver_eval_update),
     (''projector'', set_with Inr pc_projector_update),
     (''projector_eval'', set_with Inr pc_projector_eval_update),
     (''projector_require_depth'', set_with parse_bool pc_projector_require_depth_update),
     (''ghost_targets_enabled'', set_with parse_bool pc_ghost_targets_enabled_update),
     (''ghost_targets_source'', set_with Inr pc_ghost_targets_source_update),
     (''ghost_targets_scenario'', set_with Inr pc_ghost_targets_scenario_update),
     (''ghost_targets_scenario_path'', set_with Inr pc_ghost_targets_scenario_path_update),
     (''ghost_targets_airsim_scene_inventory_path'', set_with Inr pc_ghost_targets_airsim_scene_inventory_path_update),
     (''ghost_targets_airsim_object_pose_stream_rate_hz'', set_with (stod_value rd) pc_ghost_targets_airsim_object_pose_stream_rate_hz_update),
     (''ghost_targets_airsim_object_pose_static_refresh_every_n_frames'', set_with stoi pc_ghost_targets_airsim_object_pose_static_refresh_every_n_frames_update),
     (''world_model'', set_with Inr pc_world_model_update),
     (''occupancy_source'', set_with Inr pc_occupancy_source_update),
     (''frame_annotator'', set_with Inr pc_frame_annotator_update),
     (''annotation_output_path'', set_with Inr pc_annotation_output_path_update),
     (''annotation_output_fps'', set_with (stod_value rd) pc_annotation_output_fps_update),
     (''pipeline_timing_enabled'', set_with parse_bool pc_pipeline_timing_enabled_update),
     (''pipeline_timing_output_path'', set_with Inr pc_pipeline_timing_output_path_update),
     (''recorded_manifest_path'', set_with Inr pc_recorded_manifest_path_update),
     (''source_host'', set_with Inr pc_source_host_update),
     (''source_rpc_port'', set_with stoi pc_source_rpc_port_update),
     (''vehicle_name'', set_with Inr pc_vehicle_name_update),
     (''vehicle_camera_name'', set_with Inr pc_vehicle_camera_name_update),
     (''bridge_transport'', set_with Inr pc_bridge_transport_update),
     (''bridge_command'', set_with Inr pc_bridge_command_update),
     (''bridge_mode'', set_with Inr pc_bridge_mode_update),
     (''ego_bridge_command'', set_with Inr pc_ego_bridge_command_update),
     (''fallback_map_frame_id'', set_with Inr pc_fallback_map_frame_id_update),
     (''mission_controller'', set_with Inr pc_mission_controller_update),
     (''mission_tick_hz'', set_with (stod_value rd) pc_mission_tick_hz_update),
     (''flight_command_sink'', set_with Inr pc_flight_command_sink_update)]"

text \<open>A key of the form \<open>prefix.field\<close>, and the order in which the parsers are asked.\<close>

definition parse_struct_key ::
  "string \<Rightarrow> string \<Rightarrow> (string \<times> 'e setter) list \<Rightarrow> ('c \<Rightarrow> 'e) \<Rightarrow> (('e \<Rightarrow> 'e) \<Rightarrow> 'c \<Rightarrow> 'c) \<Rightarrow> string \<Rightarrow> string \<Rightarrow> 'c \<Rightarrow> 'c option result" where
  "parse_struct_key pre description table sel upd key value c =
     (if \<not> has_prefix pre key then Inr None
      else case map_of table (drop (length pre) key) of
             None \<Rightarrow> Inl (''unknown '' @ description @ '' field: '' @ key)
           | Some f \<Rightarrow> bindE (f value (sel c)) (\<lambda>x. Inr (Some (upd (\<lambda>_. x) c))))"

definition or_else :: "'c option result \<Rightarrow> 'c result \<Rightarrow> 'c result" where
  "or_else m otherwise = bindE m (\<lambda>found. case found of Some c \<Rightarrow> Inr c | None \<Rightarrow> otherwise)"

definition parse_visual_onnx_key :: "Readers \<Rightarrow> string \<Rightarrow> string \<Rightarrow> CoreStackConfig \<Rightarrow> CoreStackConfig option result" where
  "parse_visual_onnx_key rd =
     parse_struct_key ''visual_onnx.'' ''visual_onnx'' (visual_onnx_table rd) (\<lambda>c. rc_visual_onnx_depth (ck_runner c))
       (\<lambda>f. ck_runner_update (rc_visual_onnx_depth_update f))"

definition parse_unidepth_key :: "Readers \<Rightarrow> string \<Rightarrow> string \<Rightarrow> CoreStackConfig \<Rightarrow> CoreStackConfig option result" where
  "parse_unidepth_key rd =
     parse_struct_key ''unidepth.'' ''unidepth'' (unidepth_table rd) (\<lambda>c. rc_unidepth_v2_depth (ck_runner c))
       (\<lambda>f. ck_runner_update (rc_unidepth_v2_depth_update f))"

definition parse_traversability_key :: "Readers \<Rightarrow> string \<Rightarrow> string \<Rightarrow> CoreStackConfig \<Rightarrow> CoreStackConfig option result" where
  "parse_traversability_key rd =
     parse_struct_key ''traversability.'' ''traversability'' (traversability_table rd)
       (\<lambda>c. asc_traversability_config (rc_mission_map_assimilator (ck_runner c)))
       (\<lambda>f. ck_runner_update (rc_mission_map_assimilator_update (asc_traversability_config_update f)))"

definition parse_esdf_key :: "Readers \<Rightarrow> string \<Rightarrow> string \<Rightarrow> CoreStackConfig \<Rightarrow> CoreStackConfig option result" where
  "parse_esdf_key rd =
     parse_struct_key ''esdf.'' ''esdf'' [(''catchup_budget_us'', set_with stoll rc_esdf_catchup_budget_us_update)] ck_runner ck_runner_update"

definition parse_airsim_object_binding_key :: "Readers \<Rightarrow> string \<Rightarrow> string \<Rightarrow> CoreStackConfig \<Rightarrow> CoreStackConfig option result" where
  "parse_airsim_object_binding_key rd =
     parse_element_key ''ghost_targets_airsim.objects.'' ''AirSim ghost object binding'' (object_binding_table rd) AirSimGhostObjectBinding_default
       (\<lambda>c. pc_ghost_targets_airsim_objects (ck_providers c)) (\<lambda>f. ck_providers_update (pc_ghost_targets_airsim_objects_update f))"

definition parse_airsim_pattern_binding_key :: "Readers \<Rightarrow> string \<Rightarrow> string \<Rightarrow> CoreStackConfig \<Rightarrow> CoreStackConfig option result" where
  "parse_airsim_pattern_binding_key rd =
     parse_element_key ''ghost_targets_airsim.patterns.'' ''AirSim ghost object pattern binding'' (pattern_binding_table rd)
       AirSimGhostObjectPatternBinding_default
       (\<lambda>c. pc_ghost_targets_airsim_patterns (ck_providers c)) (\<lambda>f. ck_providers_update (pc_ghost_targets_airsim_patterns_update f))"

definition apply_provider_key :: "Readers \<Rightarrow> string \<Rightarrow> CoreStackConfig setter" where
  "apply_provider_key rd key value c =
     (case map_of (provider_table rd) key of
        Some f \<Rightarrow> bindE (f value (ck_providers c)) (\<lambda>p. Inr (c\<lparr>ck_providers := p\<rparr>))
      | None \<Rightarrow>
          if has_prefix ''mission_options.'' key then
            (let option_key = drop (length ''mission_options.'') key
             in if option_key = [] then Inl ''empty mission_options key''
                else bindE (apply_mission_option rd option_key value (pc_mission_options (ck_providers c)))
                       (\<lambda>opts. Inr (c\<lparr>ck_providers := (ck_providers c)\<lparr>pc_mission_options := opts\<rparr>\<rparr>)))
          else Inl (''unknown core-stack config key: '' @ key))"

definition apply_config_value :: "Readers \<Rightarrow> string \<Rightarrow> CoreStackConfig setter" where
  "apply_config_value rd key value c =
     or_else (parse_visual_onnx_key rd key value c)
    (or_else (parse_unidepth_key rd key value c)
    (or_else (parse_traversability_key rd key value c)
    (or_else (parse_esdf_key rd key value c)
    (or_else (parse_airsim_object_binding_key rd key value c)
    (or_else (parse_airsim_pattern_binding_key rd key value c)
      (apply_provider_key rd key value c))))))"

section \<open>Files\<close>

definition cl_strip_quotes :: "string \<Rightarrow> string" where
  "cl_strip_quotes v =
     (if 2 \<le> length v \<and> ((hd v = chr_quote \<and> last v = chr_quote) \<or> (hd v = chr_apostrophe \<and> last v = chr_apostrophe))
      then butlast (tl v) else v)"

definition bad_line :: "string \<Rightarrow> nat \<Rightarrow> string \<Rightarrow> string" where
  "bad_line path line_number what = ''invalid config line '' @ nat_to_string line_number @ '' in '' @ path @ '': '' @ what"

text \<open>One line: nothing, or a key and a value.\<close>

definition config_line :: "string \<Rightarrow> nat \<Rightarrow> string \<Rightarrow> (string \<times> string) option result" where
  "config_line path line_number raw =
     (let line = trim (takeWhile (\<lambda>ch. ch \<noteq> CHR ''#'') raw);
          key_text = takeWhile (\<lambda>ch. ch \<noteq> CHR '':'') line;
          key = trim key_text; value = cl_strip_quotes (trim (drop (length key_text + 1) line))
      in if line = [] then Inr None
         else if key_text = line then Inl (bad_line path line_number (''missing '' @ [chr_apostrophe] @ '':'' @ [chr_apostrophe]))
         else if key = [] \<or> value = [] then Inl (bad_line path line_number ''empty key or value'')
         else Inr (Some (key, value)))"

fun config_lines :: "string \<Rightarrow> nat \<Rightarrow> string list \<Rightarrow> (string \<times> string) list result" where
  "config_lines path n [] = Inr []"
| "config_lines path n (l # ls) =
     bindE (config_line path n l) (\<lambda>entry.
     bindE (config_lines path (n + 1) ls) (\<lambda>rest.
     Inr (case entry of None \<Rightarrow> rest | Some kv \<Rightarrow> kv # rest)))"

text \<open>\<open>operator/\<close> of paths, with the test for an absolute right side.\<close>

definition join_path :: "string \<Rightarrow> string \<Rightarrow> string" where
  "join_path base p =
     (if p \<noteq> [] \<and> hd p = CHR ''/'' then p else if base = [] \<or> last base = CHR ''/'' then base @ p else base @ ''/'' @ p)"

definition cannot_open :: "Host \<Rightarrow> string \<Rightarrow> string" where
  "cannot_open h path =
     [CHR 0xE2, CHR 0x9D, CHR 0x8C] @ '' config load failed: cannot open '' @ [chr_apostrophe] @ path @ [chr_apostrophe, chr_newline] @
     ''   absolute path tried: '' @ join_path (h_current_path h) path @ [chr_newline] @
     ''   base_dir for includes: '' @ h_current_path h @ [chr_newline] @
     ''   Include paths must be relative to repo root (e.g. '' @ [chr_apostrophe] @ ''config/world-env/airsim.yaml'' @ [chr_apostrophe] @ '').''"

text \<open>
  The files of the include directives one after the other, and the own keys of a file.  What is done with a key is an
  argument: \<open>apply_config_value\<close> in the program.
\<close>

fun load_all :: "(string \<Rightarrow> 'c \<Rightarrow> 'c result option) \<Rightarrow> string list \<Rightarrow> 'c \<Rightarrow> 'c result option" where
  "load_all load [] c = Some (Inr c)"
| "load_all load (p # ps) c = bindO (load p c) (\<lambda>c'. load_all load ps c')"

fun apply_own :: "(string \<Rightarrow> 'c setter) \<Rightarrow> string \<Rightarrow> (string \<times> string) list \<Rightarrow> 'c \<Rightarrow> 'c result" where
  "apply_own f path [] c = Inr c"
| "apply_own f path ((key, value) # kvs) c =
     (case f key value c of
        Inl e \<Rightarrow> Inl (''invalid config key '' @ [chr_apostrophe] @ key @ [chr_apostrophe] @ '' in '' @ path @ '': '' @ e)
      | Inr c' \<Rightarrow> apply_own f path kvs c')"

definition is_include :: "string \<times> string \<Rightarrow> bool" where
  "is_include kv \<longleftrightarrow> fst kv = ''include''"

text \<open>The recursion is bounded by fuel; it runs out only if files included each other deeper than there are files.\<close>

fun load_file :: "(string \<Rightarrow> string \<Rightarrow> 'c setter) \<Rightarrow> Host \<Rightarrow> nat \<Rightarrow> string list \<Rightarrow> string \<Rightarrow> 'c \<Rightarrow> 'c result option" where
  "load_file f h 0 loading_stack file_path c = None"
| "load_file f h (Suc fuel) loading_stack file_path c =
     (let canonical = h_canonical h file_path
      in if canonical \<in> set loading_stack then Some (Inl (''circular include detected involving: '' @ canonical))
         else case map_of (h_files h) file_path of
                None \<Rightarrow> Some (Inl (cannot_open h file_path))
              | Some s \<Rightarrow>
                  bindO (Some (config_lines file_path 1 (get_lines s))) (\<lambda>kvs.
                  bindO (load_all (\<lambda>p c. load_file f h fuel (canonical # loading_stack) p c)
                           (map (\<lambda>kv. join_path (h_current_path h) (snd kv)) (filter is_include kvs)) c) (\<lambda>c.
                  Some (apply_own (f file_path) file_path (filter (\<lambda>kv. \<not> is_include kv) kvs) c))))"

definition load_fuel :: "Host \<Rightarrow> nat" where
  "load_fuel h = length (h_files h) + 1"

definition load_file_into_config :: "Readers \<Rightarrow> Host \<Rightarrow> string \<Rightarrow> CoreStackConfig \<Rightarrow> CoreStackConfig result option" where
  "load_file_into_config rd h path c = load_file (\<lambda>_. apply_config_value rd) h (load_fuel h) [] path c"

section \<open>Environment and validation\<close>

definition env_str_or :: "Host \<Rightarrow> string \<Rightarrow> string \<Rightarrow> string" where
  "env_str_or h config_value env_var = (case h_getenv h env_var of None \<Rightarrow> config_value | Some s \<Rightarrow> if s = [] then config_value else s)"

definition apply_eval_env_overrides :: "Host \<Rightarrow> CoreStackProviderConfig \<Rightarrow> CoreStackProviderConfig" where
  "apply_eval_env_overrides h c =
     c\<lparr>pc_ego_provider := env_str_or h (pc_ego_provider c) ''DEDALUS_EGO_PROVIDER'',
       pc_ego_provider_eval := env_str_or h (pc_ego_provider_eval c) ''DEDALUS_EGO_PROVIDER_EVAL'',
       pc_detector_eval := env_str_or h (pc_detector_eval c) ''DEDALUS_DETECTOR_EVAL'',
       pc_camera_stabilizer_eval := env_str_or h (pc_camera_stabilizer_eval c) ''DEDALUS_CAMERA_STABILIZER_EVAL'',
       pc_tracker_eval := env_str_or h (pc_tracker_eval c) ''DEDALUS_TRACKER_EVAL'',
       pc_identity_resolver_eval := env_str_or h (pc_identity_resolver_eval c) ''DEDALUS_IDENTITY_RESOLVER_EVAL'',
       pc_projector_eval := env_str_or h (pc_projector_eval c) ''DEDALUS_PROJECTOR_EVAL''\<rparr>"

fun check_all :: "(bool \<times> string) list \<Rightarrow> unit result" where
  "check_all [] = Inr ()"
| "check_all ((bad, e) # checks) = bindE (throw_if bad e) (\<lambda>_. check_all checks)"

fun check_elements :: "(string \<Rightarrow> 'e \<Rightarrow> (bool \<times> string) list) \<Rightarrow> string \<Rightarrow> nat \<Rightarrow> 'e list \<Rightarrow> unit result" where
  "check_elements checks pre i [] = Inr ()"
| "check_elements checks pre i (x # xs) =
     bindE (check_all (checks (pre @ nat_to_string i) x)) (\<lambda>_. check_elements checks pre (i + 1) xs)"

definition not_positive :: "Vec3 \<Rightarrow> bool" where
  "not_positive s \<longleftrightarrow> vx s \<le> 0 \<or> vy s \<le> 0 \<or> vz s \<le> 0"

definition object_binding_checks :: "string \<Rightarrow> AirSimGhostObjectBinding \<Rightarrow> (bool \<times> string) list" where
  "object_binding_checks pre b =
     [(gb_source_track_id b = [], pre @ ''.source_track_id is required''),
      (gb_airsim_object_name b = [], pre @ ''.airsim_object_name is required''),
      (gb_class_label b = ClassUnknown, pre @ ''.class is required''),
      (gb_confidence b < 0 \<or> 1 < gb_confidence b, pre @ ''.confidence must be in [0, 1]''),
      (not_positive (gb_size_m b), pre @ ''.size_m components must be positive'')]"

definition pattern_binding_checks :: "string \<Rightarrow> AirSimGhostObjectPatternBinding \<Rightarrow> (bool \<times> string) list" where
  "pattern_binding_checks pre b =
     [(gp_source_track_prefix b = [], pre @ ''.source_track_prefix is required''),
      (gp_airsim_object_pattern b = [], pre @ ''.airsim_object_pattern is required''),
      (gp_class_label b = ClassUnknown, pre @ ''.class is required''),
      (gp_confidence b < 0 \<or> 1 < gp_confidence b, pre @ ''.confidence must be in [0, 1]''),
      (gp_max_matches b < 0, pre @ ''.max_matches must be >= 0''),
      (not_positive (gp_size_m b), pre @ ''.size_m components must be positive'')]"

definition validate_airsim_object_bindings :: "CoreStackProviderConfig \<Rightarrow> unit result" where
  "validate_airsim_object_bindings c =
     (if pc_ghost_targets_source c \<noteq> ''airsim_objects'' then Inr ()
      else if pc_ghost_targets_airsim_objects c = [] \<and> pc_ghost_targets_airsim_patterns c = []
      then Inl ''ghost_targets_source=airsim_objects requires exact object or pattern bindings''
      else bindE (check_elements object_binding_checks ''ghost_targets_airsim.objects.'' 0 (pc_ghost_targets_airsim_objects c)) (\<lambda>_.
           check_elements pattern_binding_checks ''ghost_targets_airsim.patterns.'' 0 (pc_ghost_targets_airsim_patterns c)))"

definition camera_checks :: "string \<Rightarrow> CameraSensingConfig \<Rightarrow> (bool \<times> string) list" where
  "camera_checks pre cam =
     [(csc_camera_name cam = [] \<or> csc_camera_id cam = [], pre @ ''.name is required''),
      (csc_role cam = [], pre @ ''.role is required''),
      (csc_horizontal_fov_rad cam \<le> 0 \<or> Fin pi \<le> csc_horizontal_fov_rad cam, pre @ ''.horizontal_fov must be in (0, 180deg)''),
      (csc_vertical_fov_rad cam \<le> 0 \<or> Fin pi \<le> csc_vertical_fov_rad cam, pre @ ''.vertical_fov must be in (0, 180deg)''),
      (csc_near_range_m cam < 0, pre @ ''.near_range_m must be >= 0''),
      (csc_far_range_m cam \<le> csc_near_range_m cam, pre @ ''.far_range_m must be > near_range_m''),
      (csc_min_reliable_range_m cam < 0, pre @ ''.min_reliable_range_m must be >= 0''),
      (csc_max_reliable_range_m cam < csc_min_reliable_range_m cam, pre @ ''.max_reliable_range_m must be >= min_reliable_range_m'')]"

definition validate_obstacle_sensing_cameras :: "MissionOptions \<Rightarrow> unit result" where
  "validate_obstacle_sensing_cameras opts =
     check_elements camera_checks ''mission_options.obstacle_sensing.cameras.'' 0 (mo_obstacle_sensing_cameras opts)"

definition depth_names :: "string list" where
  "depth_names = [''airsim_gt_vd'', ''visual_onnx'', ''unidepth_v2'']"

definition validate_depth_provider_name :: "string \<Rightarrow> string \<Rightarrow> unit result" where
  "validate_depth_provider_name name field =
     throw_if (name \<noteq> [] \<and> name \<notin> set depth_names) (field @ '': unknown depth provider: '' @ name)"

definition validate_config :: "CoreStackProviderConfig \<Rightarrow> unit result" where
  "validate_config c =
     bindE (check_all
       [(pc_ghost_targets_source c \<noteq> ''trajectory_scenario'' \<and> pc_ghost_targets_source c \<noteq> ''airsim_objects'',
         ''unknown ghost_targets_source: '' @ pc_ghost_targets_source c),
        (pc_ghost_targets_source c \<noteq> ''airsim_objects'' \<and> (pc_ghost_targets_airsim_objects c \<noteq> [] \<or> pc_ghost_targets_airsim_patterns c \<noteq> []),
         ''ghost_targets_airsim bindings require ghost_targets_source=airsim_objects''),
        (pc_occupancy_source c \<noteq> ''synthetic_fixture'' \<and> pc_occupancy_source c \<noteq> ''airsim_ground_truth'',
         ''unknown occupancy_source: '' @ pc_occupancy_source c),
        (pc_occupancy_source c = ''airsim_ground_truth'' \<and> pc_ghost_targets_source c \<noteq> ''airsim_objects'',
         ''occupancy_source=airsim_ground_truth requires ghost_targets_source=airsim_objects'')]) (\<lambda>_.
     bindE (validate_airsim_object_bindings c) (\<lambda>_.
     bindE (validate_obstacle_sensing_cameras (pc_mission_options c)) (\<lambda>_.
     bindE (validate_depth_provider_name (pc_depth c) ''depth'') (\<lambda>_.
     validate_depth_provider_name (pc_depth_eval c) ''depth_eval''))))"

section \<open>Depth slots\<close>

record DepthDetectorSharedParams =
  sp_depth_grid_cols :: nat
  sp_depth_grid_rows :: nat
  sp_min_depth_m :: double
  sp_max_depth_m :: double
  sp_voxel_size_m :: double
  sp_confidence :: double
  sp_max_evidence :: nat
  sp_detect_surface_patches :: bool
  sp_detect_thin_structures :: bool

definition shared_params_from_onnx :: "VisualONNXDepthConfig \<Rightarrow> DepthDetectorSharedParams" where
  "shared_params_from_onnx cfg =
     \<lparr>sp_depth_grid_cols = vo_depth_grid_cols cfg, sp_depth_grid_rows = vo_depth_grid_rows cfg, sp_min_depth_m = vo_min_depth_m cfg,
      sp_max_depth_m = vo_max_depth_m cfg, sp_voxel_size_m = vo_voxel_size_m cfg, sp_confidence = vo_confidence cfg,
      sp_max_evidence = vo_max_evidence cfg, sp_detect_surface_patches = vo_detect_surface_patches cfg,
      sp_detect_thin_structures = vo_detect_thin_structures cfg\<rparr>"

definition shared_params_from_unidepth :: "UniDepthV2Config \<Rightarrow> DepthDetectorSharedParams" where
  "shared_params_from_unidepth cfg =
     \<lparr>sp_depth_grid_cols = ud_depth_grid_cols cfg, sp_depth_grid_rows = ud_depth_grid_rows cfg, sp_min_depth_m = ud_min_depth_m cfg,
      sp_max_depth_m = ud_max_depth_m cfg, sp_voxel_size_m = ud_voxel_size_m cfg, sp_confidence = ud_confidence cfg,
      sp_max_evidence = ud_max_evidence cfg, sp_detect_surface_patches = ud_detect_surface_patches cfg,
      sp_detect_thin_structures = ud_detect_thin_structures cfg\<rparr>"

text \<open>The detectors' configurations; the scale of a visual one is the fixed scale estimate it is created with.\<close>

definition ground_truth_detector :: "DepthDetectorSharedParams \<Rightarrow> DepthDetectorConfig" where
  "ground_truth_detector p =
     \<lparr>ddc_depth_grid_cols = sp_depth_grid_cols p, ddc_depth_grid_rows = sp_depth_grid_rows p, ddc_min_depth_m = sp_min_depth_m p,
      ddc_max_depth_m = sp_max_depth_m p, ddc_voxel_size_m = sp_voxel_size_m p, ddc_confidence = Fin (75/100),
      ddc_max_evidence = sp_max_evidence p, ddc_detect_surface_patches = sp_detect_surface_patches p,
      ddc_detect_thin_structures = sp_detect_thin_structures p, ddc_scale = 1\<rparr>"

definition visual_detector :: "DepthDetectorSharedParams \<Rightarrow> double \<Rightarrow> DepthDetectorConfig" where
  "visual_detector p scale_m =
     \<lparr>ddc_depth_grid_cols = sp_depth_grid_cols p, ddc_depth_grid_rows = sp_depth_grid_rows p, ddc_min_depth_m = sp_min_depth_m p,
      ddc_max_depth_m = sp_max_depth_m p, ddc_voxel_size_m = sp_voxel_size_m p, ddc_confidence = sp_confidence p,
      ddc_max_evidence = sp_max_evidence p, ddc_detect_surface_patches = sp_detect_surface_patches p,
      ddc_detect_thin_structures = sp_detect_thin_structures p, ddc_scale = scale_m\<rparr>"

definition make_depth_provider ::
  "Host \<Rightarrow> string \<Rightarrow> DepthDetectorSharedParams \<Rightarrow> VisualONNXDepthConfig \<Rightarrow> UniDepthV2Config \<Rightarrow> DepthProvider option result" where
  "make_depth_provider h name shared onnx uni =
     (if name = [] then Inr None
      else if name = ''airsim_gt_vd'' then Inr (Some (GroundTruthDepth (ground_truth_detector shared)))
      else if name = ''visual_onnx'' then
        (if \<not> h_onnx_enabled h then Inl ''visual_onnx: build requires -DDEDALUS_ENABLE_ONNX_DEPTH=ON''
         else if vo_model_path onnx = [] then Inl ''visual_onnx: visual_onnx.model_path is required''
         else Inr (Some (OnnxDepth onnx (visual_detector (shared_params_from_onnx onnx) (vo_scale onnx)))))
      else if name = ''unidepth_v2'' then
        (if \<not> h_onnx_enabled h then Inl ''unidepth_v2: build requires -DDEDALUS_ENABLE_ONNX_DEPTH=ON''
         else if ud_model_path uni = [] then Inl ''unidepth_v2: unidepth.model_path is required''
         else Inr (Some (UniDepth uni (visual_detector (shared_params_from_unidepth uni) (ud_scale uni)))))
      else Inl (''unknown depth provider: '' @ name))"

definition build_depth_slots :: "Host \<Rightarrow> CoreStackConfig \<Rightarrow> CoreStackConfig result" where
  "build_depth_slots h c =
     (let depth_name = env_str_or h (pc_depth (ck_providers c)) ''DEDALUS_DEPTH'';
          depth_eval_name = env_str_or h (pc_depth_eval (ck_providers c)) ''DEDALUS_DEPTH_EVAL'';
          primary = (if depth_name \<noteq> ''airsim_gt_vd'' \<and> depth_name \<noteq> [] then depth_name else depth_eval_name);
          r = ck_runner c; onnx = rc_visual_onnx_depth r; uni = rc_unidepth_v2_depth r;
          shared = (if primary = ''unidepth_v2'' then shared_params_from_unidepth uni else shared_params_from_onnx onnx);
          active = (if primary = ''unidepth_v2'' then ud_debug_depth_mp4 uni else vo_debug_depth_mp4 onnx);
          fallback = (if primary = ''unidepth_v2'' then vo_debug_depth_mp4 onnx else ud_debug_depth_mp4 uni)
      in bindE (make_depth_provider h depth_name shared onnx uni) (\<lambda>a.
         bindE (make_depth_provider h depth_eval_name shared onnx uni) (\<lambda>b.
         Inr (c\<lparr>ck_runner := r\<lparr>rc_depth_slot_a := a, rc_depth_slot_b := b,
           rc_debug_depth_output_path := (if active \<noteq> [] then active else if fallback \<noteq> [] then fallback else rc_debug_depth_output_path r)\<rparr>\<rparr>))))"

section \<open>Provider names\<close>

definition frame_sources :: "string list" where "frame_sources = [''synthetic'', ''synthetic_mission'', ''video_only'', ''recorded_frames'', ''airsim'']"
definition ego_providers :: "string list" where "ego_providers = [''frame_hint'', ''no_telemetry'', ''airsim'', ''visual_odometry'']"
definition detectors :: "string list" where "detectors = [''null'', ''scripted'', ''airsim_ground_truth'']"
definition camera_stabilizers :: "string list" where "camera_stabilizers = [''null'']"
definition trackers :: "string list" where "trackers = [''simple_centroid'']"
definition identity_resolvers :: "string list" where "identity_resolvers = [''appearance_only'']"
definition projectors :: "string list" where "projectors = [''flat_ground'', ''airsim_depth'']"
definition world_models :: "string list" where "world_models = [''in_memory'']"
definition frame_annotators :: "string list" where "frame_annotators = [''null'', ''ppm_sequence'', ''mp4'']"
definition mission_controllers :: "string list" where "mission_controllers = [''disabled'', ''trajectory_mission'', ''object_behavior'']"
definition flight_command_sinks :: "string list" where "flight_command_sinks = [''disabled'', ''airsim_velocity'', ''px4_bridge'', ''px4_mavlink'']"

definition name_check :: "string \<Rightarrow> string \<Rightarrow> string list \<Rightarrow> bool \<times> string" where
  "name_check field value valid = (value \<notin> set valid, ''unknown '' @ field @ '': '' @ value)"

definition name_check_opt :: "string \<Rightarrow> string \<Rightarrow> string list \<Rightarrow> bool \<times> string" where
  "name_check_opt field value valid = (value \<noteq> [] \<and> value \<notin> set valid, ''unknown '' @ field @ '': '' @ value)"

definition validate_provider_names :: "CoreStackProviderConfig \<Rightarrow> unit result" where
  "validate_provider_names c = check_all
     [name_check ''frame_source'' (pc_frame_source c) frame_sources, name_check ''ego_provider'' (pc_ego_provider c) ego_providers,
      name_check_opt ''ego_provider_eval'' (pc_ego_provider_eval c) ego_providers, name_check ''detector'' (pc_detector c) detectors,
      name_check ''camera_stabilizer'' (pc_camera_stabilizer c) camera_stabilizers, name_check ''tracker'' (pc_tracker c) trackers,
      name_check ''identity_resolver'' (pc_identity_resolver c) identity_resolvers, name_check ''projector'' (pc_projector c) projectors,
      name_check ''world_model'' (pc_world_model c) world_models, name_check ''frame_annotator'' (pc_frame_annotator c) frame_annotators,
      name_check ''mission_controller'' (pc_mission_controller c) mission_controllers,
      name_check ''flight_command_sink'' (pc_flight_command_sink c) flight_command_sinks,
      name_check_opt ''detector_eval'' (pc_detector_eval c) detectors,
      name_check_opt ''camera_stabilizer_eval'' (pc_camera_stabilizer_eval c) camera_stabilizers,
      name_check_opt ''tracker_eval'' (pc_tracker_eval c) trackers,
      name_check_opt ''identity_resolver_eval'' (pc_identity_resolver_eval c) identity_resolvers,
      name_check_opt ''projector_eval'' (pc_projector_eval c) projectors]"

definition unknown_provider :: "string \<Rightarrow> string \<Rightarrow> string" where
  "unknown_provider category name = ''unknown '' @ category @ '' provider: '' @ name"

text \<open>A reference slot: empty names leave it inactive, others must be in the slot's own list of factories.\<close>

definition resolve_opt :: "string \<Rightarrow> string \<Rightarrow> string list \<Rightarrow> string option result" where
  "resolve_opt category name entries =
     (if name = [] then Inr None else if name \<in> set entries then Inr (Some name) else Inl (unknown_provider category name))"

definition populate_runner_eval_slots :: "CoreStackProviderConfig \<Rightarrow> CoreStackRunnerConfig \<Rightarrow> CoreStackRunnerConfig result" where
  "populate_runner_eval_slots c r =
     bindE (resolve_opt ''ego_provider_eval'' (pc_ego_provider_eval c) [''frame_hint'', ''no_telemetry'', ''airsim'']) (\<lambda>ego.
     bindE (resolve_opt ''detector_eval'' (pc_detector_eval c) [''scripted'', ''airsim_ground_truth'']) (\<lambda>det.
     bindE (resolve_opt ''camera_stabilizer_eval'' (pc_camera_stabilizer_eval c) [''null'']) (\<lambda>stab.
     bindE (resolve_opt ''tracker_eval'' (pc_tracker_eval c) [''simple_centroid'']) (\<lambda>track.
     bindE (resolve_opt ''identity_resolver_eval'' (pc_identity_resolver_eval c) [''appearance_only'']) (\<lambda>ident.
     bindE (resolve_opt ''projector_eval'' (pc_projector_eval c) [''flat_ground'', ''airsim_depth'']) (\<lambda>proj.
     Inr (r\<lparr>rc_references := \<lparr>er_ego_provider = ego, er_detector = det, er_stabilizer = stab, er_tracker = track,
        er_identity_resolver = ident, er_projector = proj\<rparr>\<rparr>)))))))"

section \<open>Loading\<close>

definition finish_config :: "Host \<Rightarrow> CoreStackConfig \<Rightarrow> CoreStackConfig result" where
  "finish_config h c =
     (let p = ck_providers c;
          p = p\<lparr>pc_depth := env_str_or h (pc_depth p) ''DEDALUS_DEPTH'', pc_depth_eval := env_str_or h (pc_depth_eval p) ''DEDALUS_DEPTH_EVAL''\<rparr>;
          p = apply_eval_env_overrides h p; c = c\<lparr>ck_providers := p\<rparr>
      in bindE (validate_config p) (\<lambda>_.
         bindE (build_depth_slots h c) (\<lambda>c.
         bindE (populate_runner_eval_slots (ck_providers c) (ck_runner c)) (\<lambda>r.
         Inr (c\<lparr>ck_runner := r\<rparr>)))))"

definition load_core_stack_app_config :: "Readers \<Rightarrow> Host \<Rightarrow> string list \<Rightarrow> CoreStackConfig result option" where
  "load_core_stack_app_config rd h paths =
     (if paths = [] then Some (Inl ''load_core_stack_app_config: no config paths provided'')
      else bindO (load_all (load_file_into_config rd h) paths CoreStackConfig_default) (\<lambda>c. Some (finish_config h c)))"

definition load_core_stack_config :: "Readers \<Rightarrow> Host \<Rightarrow> string \<Rightarrow> CoreStackProviderConfig result option" where
  "load_core_stack_config rd h path = bindO (load_core_stack_app_config rd h [path]) (\<lambda>c. Some (Inr (ck_providers c)))"

end
