(* ===== verification/Config_Loading.thy ===== *)
theory Config_Loading
  imports Stack_Config
begin

text \<open>
  Loading configuration files always ends, and does nothing but apply one flat list of assignments: those of the
  included files in their order, then the own ones.
\<close>

section \<open>Loading ends\<close>

lemma load_all_returns: "(\<And>p c. load p c \<noteq> None) \<Longrightarrow> load_all load ps c \<noteq> None"
  by (induction ps arbitrary: c) (auto simp: bindO_def split: option.splits sum.splits)

definition config_ids :: "Host \<Rightarrow> string set" where
  "config_ids h = h_canonical h ` fst ` set (h_files h)"

lemma load_file_returns:
  assumes "card (config_ids h - set st) < fuel"
  shows "load_file f h fuel st p c \<noteq> None"
  using assms
proof (induction fuel arbitrary: st p c)
  case (Suc fuel)
  show ?case
  proof (cases "h_canonical h p \<in> set st \<or> map_of (h_files h) p = None")
    case False
    then obtain s where s: "h_canonical h p \<notin> set st" "map_of (h_files h) p = Some s" by auto
    then have "h_canonical h p \<in> config_ids h - set st" by (force simp: config_ids_def dest: map_of_SomeD)
    moreover have fin: "finite (config_ids h - set st)" by (simp add: config_ids_def)
    ultimately have "card (config_ids h - set (h_canonical h p # st)) < card (config_ids h - set st)"
      by (intro psubset_card_mono) auto
    then have "load_file f h fuel (h_canonical h p # st) q d \<noteq> None" for q d using Suc.prems by (intro Suc.IH) linarith
    then have r: "load_all (\<lambda>q d. load_file f h fuel (h_canonical h p # st) q d) ps c \<noteq> None" for ps by (rule load_all_returns)
    show ?thesis
    proof (cases "config_lines p 1 (get_lines s)")
      case (Inr kvs)
      then show ?thesis
        using s r [of "map (\<lambda>kv. join_path (h_current_path h) (snd kv)) (filter is_include kvs)"]
        by (auto simp: Let_def bindO_def split: option.splits sum.splits)
    qed (use s in \<open>simp add: Let_def\<close>)
  qed (auto simp: Let_def)
qed simp

lemma load_file_into_config_returns: "load_file_into_config rd h path c \<noteq> None"
proof -
  have "card (config_ids h) \<le> length (h_files h)"
    unfolding config_ids_def by (metis card_image_le card_length finite_imageI finite_set image_image image_set length_map le_trans)
  then show ?thesis unfolding load_file_into_config_def by (intro load_file_returns) (simp add: load_fuel_def)
qed

text \<open>
  C27: Loading a configuration always ends, in a configuration or an error, also for files that include each other or themselves.
\<close>
theorem config_load_returns: "\<exists>r. load_core_stack_app_config rd h paths = Some r"
proof -
  have "load_all (load_file_into_config rd h) paths CoreStackConfig_default \<noteq> None"
    by (rule load_all_returns) (rule load_file_into_config_returns)
  then show ?thesis by (auto simp: load_core_stack_app_config_def bindO_def split: option.splits sum.splits)
qed

section \<open>One list of assignments\<close>

text \<open>What a file stands for: an assignment is the file it is in, its key and its value.\<close>

inductive expands :: "Host \<Rightarrow> string list \<Rightarrow> string \<Rightarrow> (string \<times> string \<times> string) list \<Rightarrow> bool" for h where
  config_file: "\<lbrakk>h_canonical h p \<notin> set st; map_of (h_files h) p = Some s; config_lines p 1 (get_lines s) = Inr kvs;
     list_all2 (expands h (h_canonical h p # st)) (map (\<lambda>kv. join_path (h_current_path h) (snd kv)) (filter is_include kvs)) included\<rbrakk>
    \<Longrightarrow> expands h st p (concat included @ map (\<lambda>(key, value). (p, key, value)) (filter (\<lambda>kv. \<not> is_include kv) kvs))"

fun apply_assignments :: "(string \<Rightarrow> string \<Rightarrow> 'c setter) \<Rightarrow> (string \<times> string \<times> string) list \<Rightarrow> 'c \<Rightarrow> 'c result" where
  "apply_assignments f [] c = Inr c"
| "apply_assignments f ((path, key, value) # rest) c =
     (case f path key value c of
        Inl e \<Rightarrow> Inl (''invalid config key '' @ [chr_apostrophe] @ key @ [chr_apostrophe] @ '' in '' @ path @ '': '' @ e)
      | Inr c' \<Rightarrow> apply_assignments f rest c')"

lemma apply_assignments_append: "apply_assignments f (as @ bs) c = bindE (apply_assignments f as c) (apply_assignments f bs)"
  by (induction f as c rule: apply_assignments.induct) (auto split: sum.splits)

lemma apply_own_assignments: "apply_own (f path) path kvs c = apply_assignments f (map (\<lambda>(key, value). (path, key, value)) kvs) c"
  by (induction kvs arbitrary: c) (auto split: sum.splits)

lemma load_all_assignments:
  assumes "list_all2 (\<lambda>p as. \<forall>c. load p c = None \<or> load p c = Some (apply_assignments f as c)) ps included"
  shows "\<forall>c. load_all load ps c = None \<or> load_all load ps c = Some (apply_assignments f (concat included) c)"
  using assms
proof (induction ps included rule: list_all2_induct)
  case (Cons p ps as included)
  show ?case
  proof
    fix c
    consider "load p c = None" | "load p c = Some (apply_assignments f as c)" using Cons.hyps(1) [rule_format, of c] by fastforce
    then show "load_all load (p # ps) c = None \<or> load_all load (p # ps) c = Some (apply_assignments f (concat (as # included)) c)"
    proof cases
      case 2
      then show ?thesis using Cons.IH by (cases "apply_assignments f as c") (simp_all add: apply_assignments_append)
    qed simp
  qed
qed simp

lemma load_file_assignments:
  assumes "expands h st p as"
  shows "load_file f h fuel st p c = None \<or> load_file f h fuel st p c = Some (apply_assignments f as c)"
  using assms
proof (induction arbitrary: fuel c rule: expands.induct)
  case (config_file p st s kvs included)
  let ?ps = "map (\<lambda>kv. join_path (h_current_path h) (snd kv)) (filter is_include kvs)"
  show ?case
  proof (cases fuel)
    case (Suc n)
    let ?load = "\<lambda>q d. load_file f h n (h_canonical h p # st) q d"
    have "list_all2 (\<lambda>q as. \<forall>d. ?load q d = None \<or> ?load q d = Some (apply_assignments f as d)) ?ps included"
      by (rule list_all2_mono [OF config_file.IH]) auto
    from load_all_assignments [OF this, THEN spec, of c] show ?thesis
      using config_file.hyps Suc by (cases "apply_assignments f (concat included) c") (auto simp: Let_def apply_own_assignments apply_assignments_append)
  qed simp
qed

text \<open>
  C24: A file that includes others is loaded by applying one list of assignments in order: those of the included files, in
  the order of the include lines and wherever these stand, then its own; the first that fails is reported with its file.
\<close>
theorem config_is_assignment_list:
  assumes "expands h [] path as"
  shows "load_file_into_config rd h path c = Some (apply_assignments (\<lambda>_. apply_config_value rd) as c)"
  using load_file_assignments [OF assms, of "\<lambda>_. apply_config_value rd" "load_fuel h" c] load_file_into_config_returns [of rd h path c] by (auto simp: load_file_into_config_def)

definition example_host :: Host where
  "example_host =
     \<lparr>h_files = [(''a'', ''tracker: x'' @ [chr_newline] @ ''include: b''), (''/b'', ''tracker: y'')], h_canonical = (\<lambda>p. p),
      h_current_path = ''/'', h_getenv = (\<lambda>_. None), h_onnx_enabled = False\<rparr>"

lemma example_lines:
  "config_lines ''/b'' 1 (get_lines ''tracker: y'') = Inr [(''tracker'', ''y'')]"
  "config_lines ''a'' 1 (get_lines (''tracker: x'' @ [chr_newline] @ ''include: b'')) = Inr [(''tracker'', ''x''), (''include'', ''b'')]"
  by (simp_all add: config_line_def trim_def is_space_def cl_strip_quotes_def Let_def)

lemma example_expands: "expands example_host [] ''a'' [(''/b'', ''tracker'', ''y''), (''a'', ''tracker'', ''x'')]"
proof -
  have "expands example_host [''a''] ''/b'' (concat [] @
      map (\<lambda>(key, value). (''/b'', key, value)) (filter (\<lambda>kv. \<not> is_include kv) [(''tracker'', ''y'')]))"
    by (rule expands.config_file [OF _ _ example_lines(1)]) (simp_all add: example_host_def is_include_def)
  then have b: "expands example_host [''a''] ''/b'' [(''/b'', ''tracker'', ''y'')]" by (simp add: is_include_def)
  have "expands example_host [] ''a'' (concat [[(''/b'', ''tracker'', ''y'')]] @
      map (\<lambda>(key, value). (''a'', key, value)) (filter (\<lambda>kv. \<not> is_include kv) [(''tracker'', ''x''), (''include'', ''b'')]))"
    by (rule expands.config_file [OF _ _ example_lines(2)])
      (use b in \<open>simp_all add: example_host_def is_include_def join_path_def\<close>)
  then show ?thesis by (simp add: is_include_def)
qed

text \<open>The key above the include line wins over the included file.\<close>

theorem config_is_assignment_list_witness:
  "map_option (map_sum id (\<lambda>c. pc_tracker (ck_providers c)))
     (load_file_into_config \<lparr>rd_stod = \<lambda>_. None, rd_stof = \<lambda>_. None, rd_extract = \<lambda>_. None\<rparr> example_host ''a'' CoreStackConfig_default) =
   Some (Inr ''x'')"
  unfolding config_is_assignment_list [OF example_expands]
  by (simp add: apply_config_value_def or_else_def parse_visual_onnx_key_def parse_unidepth_key_def parse_traversability_key_def parse_esdf_key_def
      parse_airsim_object_binding_key_def parse_airsim_pattern_binding_key_def parse_struct_key_def parse_element_key_def has_prefix_def
      apply_provider_key_def provider_table_def set_with_def)

end
