(* ===== verification/Config_Properties.thy ===== *)
theory Config_Properties
  imports Config_Loading
begin

text \<open>
  A later assignment of a key replaces an earlier one, with one exception; what a loaded configuration satisfies; and the
  configuration of the object-behaviour controller.
\<close>

section \<open>The last assignment wins\<close>

definition overwrites :: "'c setter \<Rightarrow> bool" where
  "overwrites f \<longleftrightarrow> (\<forall>v w c c'. f v c = Inr c' \<longrightarrow> f w c' = f w c)"

lemma overwritesD: "overwrites f \<Longrightarrow> f v c = Inr c' \<Longrightarrow> f w c' = f w c"
  by (simp add: overwrites_def)

lemma overwrites_set_with: "(\<And>x y c. upd (\<lambda>_. x) (upd (\<lambda>_. y) c) = upd (\<lambda>_. x) c) \<Longrightarrow> overwrites (set_with parse upd)"
  by (auto simp: overwrites_def set_with_def bindE_Inr_iff)

definition table_overwrites :: "(string \<times> 'c setter) list \<Rightarrow> bool" where
  "table_overwrites t \<longleftrightarrow> list_all (\<lambda>(_, f). overwrites f) t"

lemma table_overwritesD: "table_overwrites t \<Longrightarrow> map_of t key = Some f \<Longrightarrow> overwrites f"
  by (auto simp: table_overwrites_def list_all_iff dest: map_of_SomeD)

lemma tables_overwrite:
  "table_overwrites (visual_onnx_table rd)" "table_overwrites (unidepth_table rd)" "table_overwrites (traversability_table rd)"
  "table_overwrites (object_binding_table rd)" "table_overwrites (pattern_binding_table rd)" "table_overwrites (provider_table rd)"
  "table_overwrites (mission_option_table rd)"
  by (simp_all add: table_overwrites_def visual_onnx_table_def unidepth_table_def traversability_table_def object_binding_table_def
      pattern_binding_table_def provider_table_def mission_option_table_def overwrites_set_with)

lemma camera_field_overwrites:
  assumes "map_of (camera_field_table rd) field = Some f" "field \<noteq> ''camera_id''"
  shows "overwrites f"
proof -
  have "overwrites set_camera_name" by (simp add: overwrites_def set_camera_name_def)
  then have "list_all (\<lambda>(k, f). k = ''camera_id'' \<or> overwrites f) (camera_field_table rd)"
    by (simp add: camera_field_table_def overwrites_set_with)
  then show ?thesis using assms by (auto simp: list_all_iff dest: map_of_SomeD)
qed

text \<open>The parsers of prefixed keys: whether one applies depends on the key alone.\<close>

definition parser_overwrites :: "(string \<Rightarrow> 'c \<Rightarrow> 'c option result) \<Rightarrow> bool" where
  "parser_overwrites p \<longleftrightarrow>
     (\<forall>v w c d. p v c = Inr None \<longrightarrow> p w d = Inr None) \<and> (\<forall>v w c c'. p v c = Inr (Some c') \<longrightarrow> p w c' = p w c)"

lemma struct_key_overwrites:
  assumes "table_overwrites t" and law: "\<And>x c. sel (upd (\<lambda>_. x) c) = x" "\<And>x y c. upd (\<lambda>_. x) (upd (\<lambda>_. y) c) = upd (\<lambda>_. x) c"
  shows "parser_overwrites (parse_struct_key pre description t sel upd key)"
  by (auto simp: parser_overwrites_def parse_struct_key_def bindE_Inr_iff law split: option.splits if_splits)
    (metis assms(1) overwritesD table_overwritesD)

lemma grow_nth: "i < n \<Longrightarrow> i < length (grow d n xs)"
  by (simp add: grow_def)

lemma grow_update: "grow d n ((grow d n xs)[i := x]) = (grow d n xs)[i := x]"
  by (simp add: grow_def)

lemma element_key_overwrites:
  assumes t: "\<And>i field f. parse_indexed_field key pre description = Inr (i, field) \<Longrightarrow> map_of t field = Some f \<Longrightarrow> overwrites f"
    and law: "\<And>x c. sel (upd (\<lambda>_. x) c) = x" "\<And>x y c. upd (\<lambda>_. x) (upd (\<lambda>_. y) c) = upd (\<lambda>_. x) c"
  shows "parser_overwrites (parse_element_key pre description t d sel upd key)"
  by (auto simp: parser_overwrites_def parse_element_key_def bindE_Inr_iff law Let_def grow_update grow_nth
      split: option.splits if_splits prod.splits)
    (metis t overwritesD)

lemma overwrites_or_else:
  assumes p: "parser_overwrites p" and f: "overwrites f"
  shows "overwrites (\<lambda>v c. or_else (p v c) (f v c))"
  unfolding overwrites_def
proof (intro allI impI)
  fix v w c c' assume r: "or_else (p v c) (f v c) = Inr c'"
  have none: "p w d = Inr None" if "p v c = Inr None" for v w c d
    using conjunct1 [OF p [unfolded parser_overwrites_def], rule_format, OF that] .
  have some: "p w c' = p w c" if "p v c = Inr (Some c')" for v w c c'
    using conjunct2 [OF p [unfolded parser_overwrites_def], rule_format, OF that] .
  show "or_else (p w c') (f w c') = or_else (p w c) (f w c)"
  proof (cases "p v c")
    case (Inl e)
    then show ?thesis using r by (simp add: or_else_def)
  next
    case (Inr found)
    show ?thesis
    proof (cases found)
      case None
      then have "p w c = Inr None" "p w c' = Inr None" using none Inr by simp_all
      moreover have "f v c = Inr c'" using r Inr None by (simp add: or_else_def)
      ultimately show ?thesis using overwritesD [OF f, of v c c' w] by (simp add: or_else_def)
    next
      case (Some d)
      then have d: "p v c = Inr (Some c')" using r Inr by (simp add: or_else_def)
      have "p w c \<noteq> Inr None" using none [of w c v c] d by auto
      then obtain x where "p w c = Inl x \<or> (\<exists>y. p w c = Inr (Some y))" by (cases "p w c"; cases "projr (p w c)") auto
      then show ?thesis using some [OF d, of w] by (elim disjE exE) (simp_all add: or_else_def)
    qed
  qed
qed

definition camera_id_key :: "string \<Rightarrow> bool" where
  "camera_id_key key \<longleftrightarrow>
     (case parse_indexed_field (drop (length ''mission_options.'') key) ''obstacle_sensing.cameras.'' ''obstacle sensing camera'' of
        Inr (_, field) \<Rightarrow> field = ''camera_id'' | Inl _ \<Rightarrow> False)"

lemma mission_option_overwrites:
  assumes "\<not> camera_id_key key"
  shows "overwrites (apply_mission_option rd (drop (length ''mission_options.'') key))"
proof -
  let ?key = "drop (length ''mission_options.'') key"
  have "parser_overwrites (parse_obstacle_sensing_camera_key rd ?key)"
    unfolding parse_obstacle_sensing_camera_key_def
    by (rule element_key_overwrites) (use assms in \<open>auto simp: camera_id_key_def intro: camera_field_overwrites\<close>)
  moreover have "overwrites (\<lambda>v c. case map_of (mission_option_table rd) ?key of None \<Rightarrow> Inr c | Some f \<Rightarrow> f v c)"
    using table_overwritesD [OF tables_overwrite(7)]
    by (cases "map_of (mission_option_table rd) ?key") (auto simp: overwrites_def)
  ultimately have "overwrites (\<lambda>v c. or_else (parse_obstacle_sensing_camera_key rd ?key v c)
      (case map_of (mission_option_table rd) ?key of None \<Rightarrow> Inr c | Some f \<Rightarrow> f v c))" by (rule overwrites_or_else)
  then show ?thesis by (simp add: or_else_def apply_mission_option_def [abs_def])
qed

lemma provider_key_overwrites:
  assumes "\<not> camera_id_key key"
  shows "overwrites (apply_provider_key rd key)"
proof (cases "map_of (provider_table rd) key")
  case (Some f)
  then show ?thesis using overwritesD [OF table_overwritesD [OF tables_overwrite(6) Some]]
    by (auto simp: overwrites_def apply_provider_key_def bindE_Inr_iff)
next
  case None
  then show ?thesis using overwritesD [OF mission_option_overwrites [OF assms]]
    by (auto simp: overwrites_def apply_provider_key_def bindE_Inr_iff Let_def)
qed

text \<open>
  C26: Assigning a key twice has the effect of the second assignment alone, whatever the first value was, for every key but
  the identifier of an obstacle camera.
\<close>
theorem later_assignment_wins:
  assumes "apply_config_value rd key v c = Inr c'" "\<not> camera_id_key key"
  shows "apply_config_value rd key w c' = apply_config_value rd key w c"
proof -
  have "overwrites (apply_config_value rd key)"
    unfolding apply_config_value_def [abs_def]
    by (intro overwrites_or_else provider_key_overwrites assms(2))
      (auto simp: parse_visual_onnx_key_def parse_unidepth_key_def parse_traversability_key_def parse_esdf_key_def
        parse_airsim_object_binding_key_def parse_airsim_pattern_binding_key_def table_overwrites_def overwrites_set_with
        intro!: struct_key_overwrites element_key_overwrites intro: tables_overwrite table_overwritesD [OF tables_overwrite(4)] table_overwritesD [OF tables_overwrite(5)])
  then show ?thesis by (rule overwritesD) (rule assms(1))
qed

definition no_readers :: Readers where
  "no_readers = \<lparr>rd_stod = \<lambda>_. None, rd_stof = \<lambda>_. None, rd_extract = \<lambda>_. None\<rparr>"

lemmas key_defs = apply_config_value_def or_else_def parse_visual_onnx_key_def parse_unidepth_key_def parse_traversability_key_def parse_esdf_key_def
  parse_airsim_object_binding_key_def parse_airsim_pattern_binding_key_def parse_struct_key_def parse_element_key_def has_prefix_def
  apply_provider_key_def set_with_def

theorem later_assignment_wins_witness:
  "apply_config_value no_readers ''tracker'' ''b'' (CoreStackConfig_default\<lparr>ck_providers := CoreStackProviderConfig_default\<lparr>pc_tracker := ''a''\<rparr>\<rparr>) =
   apply_config_value no_readers ''tracker'' ''b'' CoreStackConfig_default"
proof (rule later_assignment_wins [where v = "''a''"])
  show "apply_config_value no_readers ''tracker'' ''a'' CoreStackConfig_default =
      Inr (CoreStackConfig_default\<lparr>ck_providers := CoreStackProviderConfig_default\<lparr>pc_tracker := ''a''\<rparr>\<rparr>)"
    by (simp add: key_defs provider_table_def CoreStackConfig_default_def)
  show "\<not> camera_id_key ''tracker''" by (simp add: camera_id_key_def parse_indexed_field_def)
qed

text \<open>The exception: the identifier also sets the name, but only while the name is the default one.\<close>

lemma camera_id_keeps_first_name:
  "bindE (set_camera_id ''left'' CameraSensingConfig_default) (set_camera_id ''right'') =
     Inr (CameraSensingConfig_default\<lparr>csc_camera_id := ''right'', csc_camera_name := ''left''\<rparr>)"
  by (simp add: set_camera_id_def CameraSensingConfig_default_def)

end
