(* ===== verification/Config_Validity.thy ===== *)
theory Config_Validity
  imports Config_Properties
begin

text \<open>What a configuration satisfies once it is loaded, and where the checks let something through.\<close>

section \<open>Validated configurations\<close>

lemma check_all_Inr: "check_all checks = Inr () \<longleftrightarrow> list_all (\<lambda>(bad, _). \<not> bad) checks"
  by (induction checks rule: check_all.induct) (auto simp: throw_if_def)

lemma check_elements_Inr:
  "check_elements checks pre i xs = Inr () \<Longrightarrow> x \<in> set xs \<Longrightarrow> \<exists>j. check_all (checks (pre @ nat_to_string j) x) = Inr ()"
  by (induction checks pre i xs rule: check_elements.induct) (auto simp: bindE_Inr_iff)

text \<open>A comparison with NaN is false, so the checks establish the bounds for numbers only.\<close>

definition between_or_nan :: "double \<Rightarrow> double \<Rightarrow> double \<Rightarrow> bool" where
  "between_or_nan lo hi x \<longleftrightarrow> x = NaN \<or> lo \<le> x \<and> x \<le> hi"

lemma between_or_nanI: "\<not> x < Fin a \<Longrightarrow> \<not> Fin b < x \<Longrightarrow> between_or_nan (Fin a) (Fin b) x"
  by (cases x) (auto simp: between_or_nan_def)

definition camera_ok :: "CameraSensingConfig \<Rightarrow> bool" where
  "camera_ok cam \<longleftrightarrow>
     csc_camera_name cam \<noteq> [] \<and> csc_camera_id cam \<noteq> [] \<and> csc_role cam \<noteq> [] \<and>
     (\<forall>fov\<in>{csc_horizontal_fov_rad cam, csc_vertical_fov_rad cam}. fov = NaN \<or> 0 < fov \<and> fov < Fin pi) \<and>
     (csc_near_range_m cam \<noteq> NaN \<and> csc_far_range_m cam \<noteq> NaN \<longrightarrow> 0 \<le> csc_near_range_m cam \<and> csc_near_range_m cam < csc_far_range_m cam) \<and>
     (csc_min_reliable_range_m cam \<noteq> NaN \<and> csc_max_reliable_range_m cam \<noteq> NaN \<longrightarrow>
        0 \<le> csc_min_reliable_range_m cam \<and> csc_min_reliable_range_m cam \<le> csc_max_reliable_range_m cam)"

lemma not_le_num: "x \<noteq> NaN \<Longrightarrow> y \<noteq> NaN \<Longrightarrow> \<not> x \<le> y \<longleftrightarrow> y < (x :: double)" "x \<noteq> NaN \<Longrightarrow> y \<noteq> NaN \<Longrightarrow> \<not> x < y \<longleftrightarrow> y \<le> (x :: double)"
  by (cases x; cases y; auto)+

lemma camera_checks_ok:
  assumes "check_all (camera_checks pre cam) = Inr ()"
  shows "camera_ok cam"
proof -
  have c: "csc_camera_name cam \<noteq> []" "csc_camera_id cam \<noteq> []" "csc_role cam \<noteq> []"
    "\<not> csc_horizontal_fov_rad cam \<le> 0" "\<not> Fin pi \<le> csc_horizontal_fov_rad cam" "\<not> csc_vertical_fov_rad cam \<le> 0"
    "\<not> Fin pi \<le> csc_vertical_fov_rad cam" "\<not> csc_near_range_m cam < 0" "\<not> csc_far_range_m cam \<le> csc_near_range_m cam"
    "\<not> csc_min_reliable_range_m cam < 0" "\<not> csc_max_reliable_range_m cam < csc_min_reliable_range_m cam"
    using assms unfolding check_all_Inr camera_checks_def by simp_all
  have n: "0 \<noteq> NaN" "Fin pi \<noteq> NaN" by simp_all
  show ?thesis unfolding camera_ok_def using c by (auto simp: not_le_num n)
qed

definition binding_ok :: "ClassLabel \<Rightarrow> double \<Rightarrow> Vec3 \<Rightarrow> bool" where
  "binding_ok label confidence s \<longleftrightarrow> label \<noteq> ClassUnknown \<and> between_or_nan 0 1 confidence \<and> \<not> not_positive s"

definition providers_ok :: "CoreStackProviderConfig \<Rightarrow> bool" where
  "providers_ok c \<longleftrightarrow>
     (\<forall>cam\<in>set (mo_obstacle_sensing_cameras (pc_mission_options c)). camera_ok cam) \<and>
     (pc_ghost_targets_source c = ''trajectory_scenario'' \<and> pc_ghost_targets_airsim_objects c = [] \<and> pc_ghost_targets_airsim_patterns c = [] \<and>
        pc_occupancy_source c = ''synthetic_fixture'' \<or>
      pc_ghost_targets_source c = ''airsim_objects'' \<and> (pc_ghost_targets_airsim_objects c \<noteq> [] \<or> pc_ghost_targets_airsim_patterns c \<noteq> []) \<and>
        pc_occupancy_source c \<in> {''synthetic_fixture'', ''airsim_ground_truth''} \<and>
        (\<forall>b\<in>set (pc_ghost_targets_airsim_objects c). gb_source_track_id b \<noteq> [] \<and> gb_airsim_object_name b \<noteq> [] \<and>
           binding_ok (gb_class_label b) (gb_confidence b) (gb_size_m b)) \<and>
        (\<forall>b\<in>set (pc_ghost_targets_airsim_patterns c). gp_source_track_prefix b \<noteq> [] \<and> gp_airsim_object_pattern b \<noteq> [] \<and> 0 \<le> gp_max_matches b \<and>
           binding_ok (gp_class_label b) (gp_confidence b) (gp_size_m b))) \<and>
     pc_depth c \<in> insert [] (set depth_names) \<and> pc_depth_eval c \<in> insert [] (set depth_names)"

lemma between_01: "\<not> x < 0 \<Longrightarrow> \<not> 1 < x \<Longrightarrow> between_or_nan 0 1 x"
  using between_or_nanI [of x 0 1] by simp

lemma binding_checks_ok:
  "check_all (object_binding_checks pre b) = Inr () \<Longrightarrow>
     gb_source_track_id b \<noteq> [] \<and> gb_airsim_object_name b \<noteq> [] \<and> binding_ok (gb_class_label b) (gb_confidence b) (gb_size_m b)"
  "check_all (pattern_binding_checks pre q) = Inr () \<Longrightarrow>
     gp_source_track_prefix q \<noteq> [] \<and> gp_airsim_object_pattern q \<noteq> [] \<and> 0 \<le> gp_max_matches q \<and>
       binding_ok (gp_class_label q) (gp_confidence q) (gp_size_m q)"
  unfolding check_all_Inr object_binding_checks_def pattern_binding_checks_def binding_ok_def
  by (auto intro: between_or_nanI)

lemma validate_config_ok:
  assumes "validate_config c = Inr ()"
  shows "providers_ok c"
proof -
  have v: "validate_airsim_object_bindings c = Inr ()" "validate_obstacle_sensing_cameras (pc_mission_options c) = Inr ()"
    "pc_depth c \<in> insert [] (set depth_names)" "pc_depth_eval c \<in> insert [] (set depth_names)"
    using assms by (auto simp: validate_config_def bindE_Inr_iff validate_depth_provider_name_def)
  have cams: "camera_ok cam" if "cam \<in> set (mo_obstacle_sensing_cameras (pc_mission_options c))" for cam
    using check_elements_Inr [OF v(2) [unfolded validate_obstacle_sensing_cameras_def] that] camera_checks_ok by blast
  have src: "pc_ghost_targets_source c = ''trajectory_scenario'' \<or> pc_ghost_targets_source c = ''airsim_objects''"
    "pc_ghost_targets_source c \<noteq> ''airsim_objects'' \<longrightarrow> pc_ghost_targets_airsim_objects c = [] \<and> pc_ghost_targets_airsim_patterns c = []"
    "pc_occupancy_source c = ''synthetic_fixture'' \<or> pc_occupancy_source c = ''airsim_ground_truth''"
    "pc_occupancy_source c = ''airsim_ground_truth'' \<longrightarrow> pc_ghost_targets_source c = ''airsim_objects''"
    using assms by (auto simp: validate_config_def bindE_Inr_iff)
  have bindings: "gb_source_track_id b \<noteq> [] \<and> gb_airsim_object_name b \<noteq> [] \<and> binding_ok (gb_class_label b) (gb_confidence b) (gb_size_m b)"
    if "pc_ghost_targets_source c = ''airsim_objects''" "b \<in> set (pc_ghost_targets_airsim_objects c)" for b
  proof -
    have "check_elements object_binding_checks ''ghost_targets_airsim.objects.'' 0 (pc_ghost_targets_airsim_objects c) = Inr ()"
      using v(1) that(1) by (auto simp: validate_airsim_object_bindings_def bindE_Inr_iff split: if_splits)
    from check_elements_Inr [OF this that(2)] show ?thesis using binding_checks_ok(1) by blast
  qed
  have patterns: "gp_source_track_prefix b \<noteq> [] \<and> gp_airsim_object_pattern b \<noteq> [] \<and> 0 \<le> gp_max_matches b \<and>
      binding_ok (gp_class_label b) (gp_confidence b) (gp_size_m b)"
    if "pc_ghost_targets_source c = ''airsim_objects''" "b \<in> set (pc_ghost_targets_airsim_patterns c)" for b
  proof -
    have "check_elements pattern_binding_checks ''ghost_targets_airsim.patterns.'' 0 (pc_ghost_targets_airsim_patterns c) = Inr ()"
      using v(1) that(1) by (auto simp: validate_airsim_object_bindings_def bindE_Inr_iff split: if_splits)
    from check_elements_Inr [OF this that(2)] show ?thesis using binding_checks_ok(2) by blast
  qed
  have some: "pc_ghost_targets_airsim_objects c \<noteq> [] \<or> pc_ghost_targets_airsim_patterns c \<noteq> []" if "pc_ghost_targets_source c = ''airsim_objects''"
    using v(1) that by (auto simp: validate_airsim_object_bindings_def split: if_splits)
  show ?thesis unfolding providers_ok_def using v(3,4) cams src bindings patterns some by (intro conjI) (blast | auto)+
qed

section \<open>Depth slots\<close>

fun slot_for :: "string \<Rightarrow> DepthProvider option \<Rightarrow> bool" where
  "slot_for name None \<longleftrightarrow> name = []"
| "slot_for name (Some (GroundTruthDepth _)) \<longleftrightarrow> name = ''airsim_gt_vd''"
| "slot_for name (Some (OnnxDepth engine _)) \<longleftrightarrow> name = ''visual_onnx'' \<and> vo_model_path engine \<noteq> []"
| "slot_for name (Some (UniDepth engine _)) \<longleftrightarrow> name = ''unidepth_v2'' \<and> ud_model_path engine \<noteq> []"

fun detector_of :: "DepthProvider \<Rightarrow> DepthDetectorConfig" where
  "detector_of (GroundTruthDepth d) = d"
| "detector_of (OnnxDepth _ d) = d"
| "detector_of (UniDepth _ d) = d"

text \<open>The members on which the two slots must agree for their evidence to be comparable.\<close>

definition same_grid :: "DepthDetectorConfig \<Rightarrow> DepthDetectorConfig \<Rightarrow> bool" where
  "same_grid a b \<longleftrightarrow> b\<lparr>ddc_confidence := ddc_confidence a, ddc_scale := ddc_scale a\<rparr> = a"

fun comparable :: "DepthProvider option \<Rightarrow> DepthProvider option \<Rightarrow> bool" where
  "comparable (Some a) (Some (GroundTruthDepth b)) \<longleftrightarrow> same_grid (detector_of a) b"
| "comparable (Some (GroundTruthDepth a)) (Some b) \<longleftrightarrow> same_grid (detector_of b) a"
| "comparable _ _ \<longleftrightarrow> True"

definition slots_ok :: "CoreStackConfig \<Rightarrow> bool" where
  "slots_ok c \<longleftrightarrow>
     slot_for (pc_depth (ck_providers c)) (rc_depth_slot_a (ck_runner c)) \<and>
     slot_for (pc_depth_eval (ck_providers c)) (rc_depth_slot_b (ck_runner c)) \<and>
     comparable (rc_depth_slot_a (ck_runner c)) (rc_depth_slot_b (ck_runner c))"

lemma make_depth_provider_cases:
  assumes "make_depth_provider h name shared onnx uni = Inr p"
  obtains "p = None" "name = []" | "p = Some (GroundTruthDepth (ground_truth_detector shared))" "name = ''airsim_gt_vd''"
  | "p = Some (OnnxDepth onnx (visual_detector (shared_params_from_onnx onnx) (vo_scale onnx)))" "name = ''visual_onnx''" "vo_model_path onnx \<noteq> []"
  | "p = Some (UniDepth uni (visual_detector (shared_params_from_unidepth uni) (ud_scale uni)))" "name = ''unidepth_v2''" "ud_model_path uni \<noteq> []"
  using assms by (auto simp: make_depth_provider_def split: if_splits)

lemma env_str_or_twice: "env_str_or h (env_str_or h v name) name = env_str_or h v name"
  by (simp add: env_str_or_def split: option.splits)

lemma same_grid_detectors: "same_grid (visual_detector p s) (ground_truth_detector p)" "same_grid (ground_truth_detector p) (ground_truth_detector p)"
  by (simp_all add: same_grid_def visual_detector_def ground_truth_detector_def)

lemma build_depth_slots_ok:
  assumes b: "build_depth_slots h c = Inr c'"
    and env: "env_str_or h (pc_depth (ck_providers c)) ''DEDALUS_DEPTH'' = pc_depth (ck_providers c)"
      "env_str_or h (pc_depth_eval (ck_providers c)) ''DEDALUS_DEPTH_EVAL'' = pc_depth_eval (ck_providers c)"
  shows "slots_ok c' \<and> ck_providers c' = ck_providers c"
proof -
  let ?p = "ck_providers c" and ?onnx = "rc_visual_onnx_depth (ck_runner c)" and ?uni = "rc_unidepth_v2_depth (ck_runner c)"
  define primary where "primary = (if pc_depth ?p \<noteq> ''airsim_gt_vd'' \<and> pc_depth ?p \<noteq> [] then pc_depth ?p else pc_depth_eval ?p)"
  define shared where "shared = (if primary = ''unidepth_v2'' then shared_params_from_unidepth ?uni else shared_params_from_onnx ?onnx)"
  obtain a b where ab: "make_depth_provider h (pc_depth ?p) shared ?onnx ?uni = Inr a" "make_depth_provider h (pc_depth_eval ?p) shared ?onnx ?uni = Inr b"
    and c': "ck_providers c' = ?p" "rc_depth_slot_a (ck_runner c') = a" "rc_depth_slot_b (ck_runner c') = b"
    using b unfolding build_depth_slots_def Let_def env primary_def [symmetric] shared_def [symmetric] by (auto simp: bindE_Inr_iff)
  show ?thesis
    by (rule make_depth_provider_cases [OF ab(1)]; rule make_depth_provider_cases [OF ab(2)])
      (simp_all add: slots_ok_def c' same_grid_detectors shared_def primary_def)
qed

lemma finish_config_ok:
  assumes "finish_config h c = Inr c'"
  shows "providers_ok (ck_providers c') \<and> slots_ok c'"
proof -
  define p where "p = apply_eval_env_overrides h ((ck_providers c)\<lparr>pc_depth := env_str_or h (pc_depth (ck_providers c)) ''DEDALUS_DEPTH'',
      pc_depth_eval := env_str_or h (pc_depth_eval (ck_providers c)) ''DEDALUS_DEPTH_EVAL''\<rparr>)"
  obtain d r where v: "validate_config p = Inr ()" and d: "build_depth_slots h (c\<lparr>ck_providers := p\<rparr>) = Inr d"
    and r: "populate_runner_eval_slots (ck_providers d) (ck_runner d) = Inr r" "c' = d\<lparr>ck_runner := r\<rparr>"
    using assms unfolding finish_config_def Let_def p_def [symmetric] by (auto simp: bindE_Inr_iff)
  have "slots_ok d" "ck_providers d = p"
    using build_depth_slots_ok [OF d] by (simp_all add: p_def apply_eval_env_overrides_def env_str_or_twice)
  moreover have "rc_depth_slot_a r = rc_depth_slot_a (ck_runner d)" "rc_depth_slot_b r = rc_depth_slot_b (ck_runner d)"
    using r(1) by (auto simp: populate_runner_eval_slots_def bindE_Inr_iff)
  ultimately show ?thesis using validate_config_ok [OF v] r(2) by (simp add: slots_ok_def)
qed

text \<open>
  C25: What loading returns has complete and consistent camera and object bindings within their ranges (or NaN), known depth providers in the
  slots their names say, and, where one slot holds the simulator's depth, the same evidence grid and filters in both slots.
\<close>
theorem loaded_config_ok:
  assumes "load_core_stack_app_config rd h paths = Some (Inr c)"
  shows "providers_ok (ck_providers c) \<and> slots_ok c"
proof -
  obtain c0 where "finish_config h c0 = Inr c"
    using assms by (auto simp: load_core_stack_app_config_def bindO_def split: if_splits option.splits sum.splits)
  then show ?thesis by (rule finish_config_ok)
qed

text \<open>A host on which loading succeeds, with the simulator's depth in the second slot.\<close>

definition sample_host :: Host where
  "sample_host =
     \<lparr>h_files = [(''m'', ''depth_eval: airsim_gt_vd'')], h_canonical = (\<lambda>p. p), h_current_path = ''/'', h_getenv = (\<lambda>_. None),
      h_onnx_enabled = False\<rparr>"

lemma sample_lines: "config_lines ''m'' 1 (get_lines ''depth_eval: airsim_gt_vd'') = Inr [(''depth_eval'', ''airsim_gt_vd'')]"
  by (simp add: config_line_def trim_def is_space_def cl_strip_quotes_def Let_def)

lemma sample_load:
  "load_file_into_config no_readers sample_host ''m'' CoreStackConfig_default =
     Some (Inr (CoreStackConfig_default\<lparr>ck_providers := CoreStackProviderConfig_default\<lparr>pc_depth_eval := ''airsim_gt_vd''\<rparr>\<rparr>))"
proof -
  have "map_of (h_files sample_host) ''m'' = Some ''depth_eval: airsim_gt_vd''" by (simp add: sample_host_def)
  moreover have "apply_config_value no_readers ''depth_eval'' ''airsim_gt_vd'' CoreStackConfig_default =
      Inr (CoreStackConfig_default\<lparr>ck_providers := CoreStackProviderConfig_default\<lparr>pc_depth_eval := ''airsim_gt_vd''\<rparr>\<rparr>)"
    by (simp add: key_defs provider_table_def CoreStackConfig_default_def)
  ultimately show ?thesis
    unfolding load_file_into_config_def load_fuel_def using sample_lines by (simp add: is_include_def Let_def)
qed

lemma sample_finish:
  "\<exists>c. finish_config sample_host (CoreStackConfig_default\<lparr>ck_providers := CoreStackProviderConfig_default\<lparr>pc_depth_eval := ''airsim_gt_vd''\<rparr>\<rparr>) = Inr c \<and>
     pc_depth_eval (ck_providers c) = ''airsim_gt_vd''"
  by (simp add: finish_config_def Let_def apply_eval_env_overrides_def env_str_or_def sample_host_def validate_config_def CoreStackProviderConfig_default_def
      validate_airsim_object_bindings_def validate_obstacle_sensing_cameras_def MissionOptions_default_def validate_depth_provider_name_def throw_if_def
      depth_names_def build_depth_slots_def make_depth_provider_def populate_runner_eval_slots_def resolve_opt_def)

theorem loaded_config_ok_witness:
  "\<exists>c. load_core_stack_app_config no_readers sample_host [''m''] = Some (Inr c) \<and> providers_ok (ck_providers c) \<and> slots_ok c \<and>
     slot_for ''airsim_gt_vd'' (rc_depth_slot_b (ck_runner c))"
proof -
  obtain c where c: "load_core_stack_app_config no_readers sample_host [''m''] = Some (Inr c)" "pc_depth_eval (ck_providers c) = ''airsim_gt_vd''"
    using sample_finish by (auto simp: load_core_stack_app_config_def sample_load)
  from loaded_config_ok [OF c(1)] c show ?thesis by (auto simp: slots_ok_def)
qed

section \<open>What gets past the checks\<close>

lemma nan_field_of_view_accepted:
  "check_all (camera_checks pre (CameraSensingConfig_default\<lparr>csc_horizontal_fov_rad := NaN, csc_near_range_m := NaN\<rparr>)) = Inr ()"
  by (simp add: camera_checks_def CameraSensingConfig_default_def throw_if_def not_le)

text \<open>The reference slots know fewer providers than the registry that checks their names.\<close>

lemma eval_names_disagree:
  "validate_provider_names (CoreStackProviderConfig_default\<lparr>pc_detector_eval := ''null'', pc_ego_provider_eval := ''visual_odometry''\<rparr>) = Inr ()"
  "populate_runner_eval_slots (CoreStackProviderConfig_default\<lparr>pc_detector_eval := ''null''\<rparr>) r = Inl ''unknown detector_eval provider: null''"
  "populate_runner_eval_slots (CoreStackProviderConfig_default\<lparr>pc_ego_provider_eval := ''visual_odometry''\<rparr>) r =
     Inl ''unknown ego_provider_eval provider: visual_odometry''"
  by (simp_all add: validate_provider_names_def name_check_def name_check_opt_def throw_if_def CoreStackProviderConfig_default_def
      frame_sources_def ego_providers_def detectors_def camera_stabilizers_def trackers_def identity_resolvers_def projectors_def
      world_models_def frame_annotators_def mission_controllers_def flight_command_sinks_def populate_runner_eval_slots_def resolve_opt_def
      unknown_provider_def)

text \<open>The confidence of the shared parameters reaches the visual detector but not the simulator's.\<close>

lemma confidence_not_mirrored:
  "ddc_confidence (visual_detector p s) = sp_confidence p" "ddc_confidence (ground_truth_detector p) = Fin (75/100)"
  by (simp_all add: visual_detector_def ground_truth_detector_def)

text \<open>A negative count is read as a huge one.\<close>

lemma negative_grid_accepted: "stoul ''-1'' = Inr (2 ^ 64 - 1)"
  by (simp add: stoul_def unsigned_integer_def integer_prefix_def is_space_def is_digit_def digits_value_def Let_def)

section \<open>The object-behaviour configuration\<close>

text \<open>
  The configuration of the object-behaviour controller, when it can be loaded, is the parsed specification with the options' values: heights fall
  back to the common safe height, the completion time is replaced when the options have one, the pitch limits are in order, and
  unknown mode names are refused.
\<close>
lemma object_config_loaded:
  assumes "load_object_behavior_mission_config rd files opts = Some (Inr c)"
  shows "\<exists>spec. parse_behavior_spec_file rd files (mo_behavior_spec_path opts) = Some (Inr spec) \<and>
     oc_behavior_spec c = (case mo_completion_after_s opts of None \<Rightarrow> spec
       | Some s \<Rightarrow> spec\<lparr>bm_completion := (bm_completion spec)\<lparr>cs_after_s := s\<rparr>\<rparr>) \<and>
     oc_takeoff_height_m c = value_or (mo_takeoff_height_m opts) (mo_safe_height_m opts) \<and>
     oc_behavior_min_height_m c = value_or (mo_behavior_min_height_m opts) (mo_safe_height_m opts) \<and>
     \<not> oc_camera_pitch_max_rad c < oc_camera_pitch_min_rad c \<and>
     parse_yaw_mode (mo_yaw_mode opts) = Inr (oc_yaw_mode c) \<and>
     parse_vertical_stare_mode (mo_vertical_stare_mode opts) = Inr (oc_vertical_stare_mode c) \<and>
     parse_altitude_policy (mo_altitude_policy opts) = Inr (oc_altitude_policy c)"
proof -
  obtain spec yaw stare altitude where s: "parse_behavior_spec_file rd files (mo_behavior_spec_path opts) = Some (Inr spec)"
    "parse_yaw_mode (mo_yaw_mode opts) = Inr yaw" "parse_vertical_stare_mode (mo_vertical_stare_mode opts) = Inr stare"
    "parse_altitude_policy (mo_altitude_policy opts) = Inr altitude"
    using assms unfolding load_object_behavior_mission_config_def
    by (auto simp: bindO_def bindE_Inr_iff Let_def split: if_splits option.splits sum.splits)
  have swap: "\<not> (if y < x then x else y) < (if y < x then y else x)" for x y :: double by (cases x; cases y) auto
  have path: "mo_behavior_spec_path opts \<noteq> []" using assms by (auto simp: load_object_behavior_mission_config_def)
  note c = assms [unfolded load_object_behavior_mission_config_def, symmetric, unfolded s bindO_simps bindE_simps Let_def if_not_P [OF path]]
  show ?thesis using c s swap
    by (simp add: parse_flight_ops_config_def parse_height_config_def parse_follow_config_def parse_camera_pointing_config_def Let_def
        ObjectBehaviorMissionConfig.defs ObjectBehaviorMissionConfig_default_def LoadedObjectConfig.defs split: option.splits)
qed

end
