(* ===== verification/Perception.thy ===== *)
theory Perception
  imports World_Properties
begin

text \<open>
  \<open>perception_pipeline.cpp\<close>: the stages from detections to observations and their composition.  The virtual interfaces of the
  stages are a locale with the laws the pipeline relies on, interpreted on the stages of the file.
\<close>

section \<open>Data\<close>

record Detection2D =
  de_detection_id :: string
  de_frame_id :: string
  de_timestamp :: TimePoint
  de_bbox_px :: Rect2
  de_confidence :: double
  de_class_label :: ClassLabel
  de_faction :: FactionLabel
  de_appearance :: "double list"
  de_depth_m :: "double option"

datatype TrackState = TrackTentative | TrackConfirmed | TrackLost

record Track2D =
  tr_track_id :: string
  tr_source_detection_id :: string
  tr_has_source_detection :: bool
  tr_timestamp :: TimePoint
  tr_bbox_px :: Rect2
  tr_class_label :: ClassLabel
  tr_faction :: FactionLabel
  tr_confidence :: double
  tr_state :: TrackState
  tr_age_frames :: int
  tr_missed_frames :: int
  tr_depth_m :: "double option"

record IdentityHypothesis =
  ih_identity_id :: string
  ih_track_id :: string
  ih_timestamp :: TimePoint
  ih_confidence :: double
  ih_evidence :: "string list"

record StabilizedFrame =
  sf_frame :: FramePacket
  sf_detections :: "Detection2D list"
  sf_transform_available :: bool
  sf_dx_px :: double
  sf_dy_px :: double
  sf_rotation_rad :: double
  sf_confidence :: double

text \<open>An observation with the member that the world model does not read.\<close>

record ProjectedObservation = Observation3D +
  po_position_body :: Vec3

record PipelineResult =
  pr_detections :: "Detection2D list"
  pr_stabilized_frame :: StabilizedFrame
  pr_tracks :: "Track2D list"
  pr_identities :: "IdentityHypothesis list"
  pr_observations :: "ProjectedObservation list"

section \<open>Stages\<close>

definition scripted_detect :: "FramePacket \<Rightarrow> Detection2D list" where
  "scripted_detect frame =
     [\<lparr>de_detection_id = ''det_0001'', de_frame_id = fp_frame_id frame, de_timestamp = fp_timestamp frame,
       de_bbox_px = \<lparr>rect_x = 260, rect_y = 160, rect_width = 80, rect_height = 180\<rparr>, de_confidence = Fin (88/100),
       de_class_label = Person, de_faction = FactionUnknown, de_appearance = [Fin (1/10), Fin (4/10), Fin (8/10)], de_depth_m = None\<rparr>]"

definition null_detect :: "FramePacket \<Rightarrow> Detection2D list" where
  "null_detect frame = []"

definition null_stabilize :: "FramePacket \<Rightarrow> Detection2D list \<Rightarrow> StabilizedFrame" where
  "null_stabilize frame detections =
     \<lparr>sf_frame = frame, sf_detections = detections, sf_transform_available = False, sf_dx_px = 0, sf_dy_px = 0, sf_rotation_rad = 0,
      sf_confidence = 0\<rparr>"

text \<open>The number \<open>i + 1\<close> in four digits; with five the padding throws, as in the zone mapper.\<close>

definition padded_id :: "string \<Rightarrow> nat \<Rightarrow> string result" where
  "padded_id pre i =
     (let digits = nat_to_string (i + 1)
      in if 4 < length digits then Inl ''basic_string::_M_create'' else Inr (pre @ replicate (4 - length digits) (CHR ''0'') @ digits))"

definition track_of :: "Detection2D \<Rightarrow> string \<Rightarrow> Track2D" where
  "track_of d track_id =
     \<lparr>tr_track_id = track_id, tr_source_detection_id = de_detection_id d, tr_has_source_detection = True, tr_timestamp = de_timestamp d,
      tr_bbox_px = de_bbox_px d, tr_class_label = de_class_label d, tr_faction = de_faction d, tr_confidence = de_confidence d,
      tr_state = TrackConfirmed, tr_age_frames = 1, tr_missed_frames = 0, tr_depth_m = de_depth_m d\<rparr>"

fun centroid_tracks :: "nat \<Rightarrow> Detection2D list \<Rightarrow> Track2D list result" where
  "centroid_tracks i [] = Inr []"
| "centroid_tracks i (d # ds) =
     bindE (padded_id ''track_'' i) (\<lambda>track_id. bindE (centroid_tracks (i + 1) ds) (\<lambda>ts. Inr (track_of d track_id # ts)))"

definition centroid_update :: "Detection2D list \<Rightarrow> Track2D list result" where
  "centroid_update detections = centroid_tracks 0 detections"

fun appearance_identities :: "nat \<Rightarrow> Track2D list \<Rightarrow> IdentityHypothesis list result" where
  "appearance_identities i [] = Inr []"
| "appearance_identities i (t # ts) =
     bindE (padded_id ''identity_unknown_'' i) (\<lambda>identity_id.
     bindE (appearance_identities (i + 1) ts) (\<lambda>hs.
     Inr (\<lparr>ih_identity_id = identity_id, ih_track_id = tr_track_id t, ih_timestamp = tr_timestamp t, ih_confidence = Fin (55/100),
           ih_evidence = [''appearance_placeholder'', ''single_frame_track'']\<rparr> # hs)))"

definition appearance_resolve :: "Track2D list \<Rightarrow> IdentityHypothesis list result" where
  "appearance_resolve tracks = appearance_identities 0 tracks"

text \<open>The point a pixel box stands for, in the body frame: forward, right, down.\<close>

definition back_project :: "CameraIntrinsics \<Rightarrow> Rect2 \<Rightarrow> double \<Rightarrow> Vec3" where
  "back_project k bbox depth_m =
     (let c = bbox_center bbox; nx = (v2x c - ci_cx k) / ci_fx k; ny = (v2y c - ci_cy k) / ci_fy k
      in vec3 depth_m (nx * depth_m) (ny * depth_m))"

definition project_track :: "bool \<Rightarrow> FramePacket \<Rightarrow> EgoState \<Rightarrow> Track2D \<Rightarrow> ProjectedObservation result" where
  "project_track require_depth frame ego t =
     bindE (throw_if (tr_depth_m t = None \<and> require_depth)
       (''FlatGroundProjector: track '' @ tr_track_id t @ '' has no depth_m but require_depth is set'')) (\<lambda>_.
     let p_body = back_project (fp_intrinsics frame) (tr_bbox_px t) (case tr_depth_m t of None \<Rightarrow> 18 | Some d \<Rightarrow> d)
     in Inr \<lparr>ob_track_id = tr_track_id t, ob_source_detection_id = tr_source_detection_id t, ob_has_source_detection = tr_has_source_detection t,
             ob_source_bbox_px = tr_bbox_px t, ob_has_source_bbox = True, ob_source_frame_id = fp_frame_id frame, ob_has_source_frame = True,
             ob_timestamp = tr_timestamp t, ob_position_local = transform_point (ego_local_T_body ego) p_body, ob_velocity_local = vec3_zero,
             ob_map_frame_id = ego_map_frame_id ego, ob_class_label = tr_class_label t, ob_faction = tr_faction t,
             ob_confidence = tr_confidence t * Fin (7/10), po_position_body = p_body\<rparr>)"

fun project_all :: "bool \<Rightarrow> FramePacket \<Rightarrow> EgoState \<Rightarrow> Track2D list \<Rightarrow> ProjectedObservation list result" where
  "project_all require_depth frame ego [] = Inr []"
| "project_all require_depth frame ego (t # ts) =
     bindE (project_track require_depth frame ego t) (\<lambda>ob. bindE (project_all require_depth frame ego ts) (\<lambda>obs. Inr (ob # obs)))"

definition flat_ground_project :: "bool \<Rightarrow> Track2D list \<Rightarrow> FramePacket \<Rightarrow> EgoState \<Rightarrow> ProjectedObservation list result" where
  "flat_ground_project require_depth tracks frame ego = project_all require_depth frame ego tracks"

section \<open>The pipeline\<close>

definition pipeline_process ::
  "(FramePacket \<Rightarrow> Detection2D list) \<Rightarrow> (FramePacket \<Rightarrow> Detection2D list \<Rightarrow> StabilizedFrame) \<Rightarrow> (Detection2D list \<Rightarrow> Track2D list result) \<Rightarrow>
   (Track2D list \<Rightarrow> IdentityHypothesis list result) \<Rightarrow> (Track2D list \<Rightarrow> FramePacket \<Rightarrow> EgoState \<Rightarrow> ProjectedObservation list result) \<Rightarrow>
   FramePacket \<Rightarrow> EgoState \<Rightarrow> PipelineResult result" where
  "pipeline_process detect stabilize track resolve project frame ego =
     (let detections = detect frame; stabilized = stabilize frame detections
      in bindE (track (sf_detections stabilized)) (\<lambda>tracks.
         bindE (resolve tracks) (\<lambda>identities.
         bindE (project tracks (sf_frame stabilized) ego) (\<lambda>observations.
         Inr \<lparr>pr_detections = detections, pr_stabilized_frame = stabilized, pr_tracks = tracks, pr_identities = identities,
              pr_observations = observations\<rparr>))))"

text \<open>What the world model is given; the evidence comes from the depth provider.\<close>

definition world_input :: "PipelineResult \<Rightarrow> ObstacleEvidence list \<Rightarrow> PerceptionPipelineOutput" where
  "world_input r evidence = \<lparr>po_observations = map Observation3D.truncate (pr_observations r), po_obstacle_evidence = evidence\<rparr>"

section \<open>What the pipeline relies on\<close>

locale perception_stages =
  fixes stabilize :: "FramePacket \<Rightarrow> Detection2D list \<Rightarrow> StabilizedFrame"
    and track :: "Detection2D list \<Rightarrow> Track2D list result"
    and project :: "Track2D list \<Rightarrow> FramePacket \<Rightarrow> EgoState \<Rightarrow> ProjectedObservation list result"
  assumes stabilize_detections: "map de_detection_id (sf_detections (stabilize frame ds)) = map de_detection_id ds"
    and track_detections: "track ds = Inr ts \<Longrightarrow> map tr_source_detection_id ts = map de_detection_id ds"
    and track_distinct: "track ds = Inr ts \<Longrightarrow> distinct (map tr_track_id ts)"
    and project_tracks: "project ts frame ego = Inr obs \<Longrightarrow> map ob_track_id obs = map tr_track_id ts \<and>
      map ob_source_detection_id obs = map tr_source_detection_id ts"
begin

lemma process_observations:
  assumes "pipeline_process detect stabilize track resolve project frame ego = Inr r"
  shows "map ob_source_detection_id (pr_observations r) = map de_detection_id (detect frame)" "distinct (map ob_track_id (pr_observations r))"
proof -
  obtain ts where "track (sf_detections (stabilize frame (detect frame))) = Inr ts"
    "project ts (sf_frame (stabilize frame (detect frame))) ego = Inr (pr_observations r)"
    using assms by (auto simp: pipeline_process_def Let_def bindE_Inr_iff)
  then show "map ob_source_detection_id (pr_observations r) = map de_detection_id (detect frame)" "distinct (map ob_track_id (pr_observations r))"
    using stabilize_detections track_detections track_distinct project_tracks by metis+
qed

end

section \<open>The stages keep it\<close>

definition decimal :: "string \<Rightarrow> nat" where
  "decimal s = foldl (\<lambda>n ch. 10 * n + (of_char ch - 48)) 0 s"

lemma decimal_nat_to_string: "decimal (nat_to_string n) = n"
proof (induction n rule: nat_to_string.induct)
  case (1 n)
  have d: "(of_char (char_of (48 + k) :: char) :: nat) = 48 + k" if "k < 10" for k :: nat
    using that by (simp add: of_char_of take_bit_nat_eq_self)
  show ?case
  proof (cases "n < 10")
    case True
    then show ?thesis using d by (simp add: nat_to_string.simps [of n] decimal_def)
  next
    case False
    then show ?thesis using 1 d [of "n mod 10"] by (simp add: nat_to_string.simps [of n] decimal_def)
  qed
qed

lemma decimal_padded: "decimal (replicate k (CHR ''0'') @ s) = decimal s"
  by (induction k) (simp_all add: decimal_def)

lemma padded_id_inj:
  assumes "padded_id pre i = Inr x" "padded_id pre j = Inr x"
  shows "i = j"
proof -
  let ?pad = "\<lambda>i. replicate (4 - length (nat_to_string (i + 1))) (CHR ''0'') @ nat_to_string (i + 1)"
  have "x = pre @ ?pad i" "x = pre @ ?pad j" using assms by (auto simp: padded_id_def Let_def split: if_splits)
  then have "decimal (?pad i) = decimal (?pad j)" by simp
  then show ?thesis unfolding decimal_padded decimal_nat_to_string by simp
qed

lemma centroid_tracks_ids:
  "centroid_tracks i ds = Inr ts \<Longrightarrow> length ts = length ds \<and> (\<forall>k<length ds. padded_id ''track_'' (i + k) = Inr (tr_track_id (ts ! k)) \<and>
     ts ! k = track_of (ds ! k) (tr_track_id (ts ! k)))"
proof (induction ds arbitrary: i ts)
  case (Cons d ds)
  then obtain x us where us: "padded_id ''track_'' i = Inr x" "centroid_tracks (i + 1) ds = Inr us" "ts = track_of d x # us"
    by (auto simp: bindE_Inr_iff)
  have "padded_id ''track_'' (i + k) = Inr (tr_track_id (ts ! k)) \<and> ts ! k = track_of ((d # ds) ! k) (tr_track_id (ts ! k))"
    if "k < length (d # ds)" for k
    using us Cons.IH [OF us(2)] that by (cases k) (auto simp: track_of_def)
  then show ?case using us Cons.IH [OF us(2)] by simp
qed simp

lemma centroid_detections:
  assumes "centroid_update ds = Inr ts"
  shows "map tr_source_detection_id ts = map de_detection_id ds"
proof -
  note c = centroid_tracks_ids [OF assms [unfolded centroid_update_def]]
  have "tr_source_detection_id (ts ! k) = de_detection_id (ds ! k)" if "k < length ds" for k
  proof -
    have "ts ! k = track_of (ds ! k) (tr_track_id (ts ! k))" using c that by blast
    then have "tr_source_detection_id (ts ! k) = tr_source_detection_id (track_of (ds ! k) (tr_track_id (ts ! k)))" by metis
    then show ?thesis by (simp add: track_of_def)
  qed
  then show ?thesis using c by (intro nth_equalityI) simp_all
qed

lemma centroid_distinct: "centroid_update ds = Inr ts \<Longrightarrow> distinct (map tr_track_id ts)"
  using centroid_tracks_ids [of 0 ds ts] padded_id_inj [of "''track_''"]
  by (auto simp: centroid_update_def distinct_conv_nth)

lemma flat_ground_tracks:
  "flat_ground_project require_depth ts frame ego = Inr obs \<Longrightarrow>
     map ob_track_id obs = map tr_track_id ts \<and> map ob_source_detection_id obs = map tr_source_detection_id ts"
  unfolding flat_ground_project_def
  by (induction ts arbitrary: obs) (auto simp: bindE_Inr_iff project_track_def Let_def)

interpretation flat_stages: perception_stages null_stabilize centroid_update "flat_ground_project require_depth" for require_depth
  by unfold_locales (simp_all add: null_stabilize_def centroid_detections centroid_distinct flat_ground_tracks)

section \<open>From detections to agents\<close>

lemma padded_id_chars: "padded_id ''track_'' i = Inr x \<Longrightarrow> x \<noteq> [] \<and> (\<forall>ch\<in>set x. id_char ch)"
proof -
  have d: "\<forall>ch\<in>set (nat_to_string n). id_char ch" for n
  proof (induction n rule: nat_to_string.induct)
    case (1 n)
    have "list_all (\<lambda>k. id_char (char_of (48 + k :: nat))) [0..<10]" by code_simp
    then have "id_char (char_of (48 + k))" if "k < 10" for k :: nat using that by (simp add: list_all_iff)
    then show ?case using 1 by (cases "n < 10") (simp_all add: nat_to_string.simps [of n])
  qed
  have z: "id_char (CHR ''0'')" "\<forall>ch\<in>set ''track_''. id_char ch" by (simp_all add: id_char_def)
  assume "padded_id ''track_'' i = Inr x"
  then show ?thesis using d z by (auto simp: padded_id_def Let_def split: if_splits)
qed

lemma flat_ground_positions:
  assumes "flat_ground_project require_depth ts frame ego = Inr obs"
  shows "map ob_position_local obs =
    map (\<lambda>t. transform_point (ego_local_T_body ego) (back_project (fp_intrinsics frame) (tr_bbox_px t) (case tr_depth_m t of None \<Rightarrow> 18 | Some d \<Rightarrow> d))) ts"
  using assms unfolding flat_ground_project_def
  by (induction ts arbitrary: obs) (auto simp: bindE_Inr_iff project_track_def Let_def)

text \<open>A body-frame point (forward, right, down) that lies at the given depth and whose pinhole image is the middle of a box.\<close>

definition seen_in_box :: "CameraIntrinsics \<Rightarrow> Rect2 \<Rightarrow> double \<Rightarrow> Vec3 \<Rightarrow> bool" where
  "seen_in_box k box depth p \<longleftrightarrow>
     vx p = depth \<and>
     ci_cx k + ci_fx k * (vy p / vx p) = rect_x box + rect_width box * Fin (1/2) \<and>
     ci_cy k + ci_fy k * (vz p / vx p) = rect_y box + rect_height box * Fin (1/2)"

definition finite_box :: "Rect2 \<Rightarrow> bool" where
  "finite_box box \<longleftrightarrow> isfinite (rect_x box) \<and> isfinite (rect_y box) \<and> isfinite (rect_width box) \<and> isfinite (rect_height box)"

definition usable_intrinsics :: "CameraIntrinsics \<Rightarrow> bool" where
  "usable_intrinsics k \<longleftrightarrow> isfinite (ci_cx k) \<and> isfinite (ci_cy k) \<and> isfinite (ci_fx k) \<and> isfinite (ci_fy k) \<and>
     ci_fx k \<noteq> 0 \<and> ci_fy k \<noteq> 0"

lemma back_project_seen:
  assumes "usable_intrinsics k" "finite_box box" "isfinite depth" "depth \<noteq> 0"
  shows "seen_in_box k box depth (back_project k box depth)"
proof -
  obtain cx cy fx fy where k: "ci_cx k = Fin cx" "ci_cy k = Fin cy" "ci_fx k = Fin fx" "ci_fy k = Fin fy" "fx \<noteq> 0" "fy \<noteq> 0"
    using assms(1) by (auto simp: usable_intrinsics_def isfinite_iff)
  obtain x y w h where b: "rect_x box = Fin x" "rect_y box = Fin y" "rect_width box = Fin w" "rect_height box = Fin h"
    using assms(2) by (auto simp: finite_box_def isfinite_iff)
  obtain d where d: "depth = Fin d" "d \<noteq> 0" using assms(3,4) by (auto simp: isfinite_iff)
  show ?thesis using k(5,6) d(2) by (simp add: seen_in_box_def back_project_def bbox_center_def Let_def k b d(1))
qed

text \<open>
  C17: When neither the pipeline nor the world model throws (they do from ten thousand detections on, and for a track without depth where
  depth is required), whatever detector ran, each detection of the frame becomes one agent of the world model, in order and under an id of its own.  The agent's
  position is the vehicle's pose applied to a body-frame point at the detection's depth (eighteen metres without one), where
  the pinhole image of that point, \<open>y\<close> to the right and \<open>z\<close> down, is the middle of its box.
\<close>
theorem detections_become_agents:
  assumes run: "pipeline_process detect null_stabilize centroid_update appearance_resolve (flat_ground_project require_depth) frame ego = Inr r"
    and ingest: "ingest (world_input r evidence) wm = Inr wm'"
    and k: "usable_intrinsics (fp_intrinsics frame)"
    and boxes: "\<forall>d\<in>set (detect frame). finite_box (de_bbox_px d) \<and> (\<forall>x. de_depth_m d = Some x \<longrightarrow> isfinite x \<and> x \<noteq> 0)"
  shows "distinct (map ag_agent_id (im_agents (wm_snapshot wm'))) \<and>
    list_all2 (\<lambda>a d. \<exists>p. ag_position_local a = transform_point (ego_local_T_body ego) p \<and>
        seen_in_box (fp_intrinsics frame) (de_bbox_px d) (case de_depth_m d of None \<Rightarrow> 18 | Some x \<Rightarrow> x) p)
      (im_agents (wm_snapshot wm')) (detect frame)"
proof -
  obtain ts where ts: "centroid_update (detect frame) = Inr ts" "flat_ground_project require_depth ts frame ego = Inr (pr_observations r)"
    using run by (auto simp: pipeline_process_def Let_def bindE_Inr_iff null_stabilize_def)
  note ids = centroid_tracks_ids [OF ts(1) [unfolded centroid_update_def]]
  have same: "ts ! k = track_of (detect frame ! k) (tr_track_id (ts ! k))" "padded_id ''track_'' k = Inr (tr_track_id (ts ! k))" if "k < length ts" for k
    using ids that by auto
  have fields: "tr_bbox_px t = de_bbox_px d \<and> tr_depth_m t = de_depth_m d" if "t = track_of d x" for t d x using that by (simp add: track_of_def)
  have "map (\<lambda>t. transform_point (ego_local_T_body ego) (back_project (fp_intrinsics frame) (tr_bbox_px t) (case tr_depth_m t of None \<Rightarrow> 18 | Some d \<Rightarrow> d))) ts =
      map (\<lambda>d. transform_point (ego_local_T_body ego)
        (back_project (fp_intrinsics frame) (de_bbox_px d) (case de_depth_m d of None \<Rightarrow> 18 | Some x \<Rightarrow> x))) (detect frame)"
    using ids fields [OF same(1)] by (intro nth_equalityI) simp_all
  moreover have "map ob_track_id (po_observations (world_input r evidence)) = map ob_track_id (pr_observations r)"
    "map ob_position_local (po_observations (world_input r evidence)) = map ob_position_local (pr_observations r)"
    by (simp_all add: world_input_def comp_def Observation3D.defs)
  moreover have "\<forall>ob\<in>set (po_observations (world_input r evidence)). ob_track_id ob \<noteq> [] \<and> (\<forall>ch\<in>set (ob_track_id ob). id_char ch)"
  proof
    fix ob assume "ob \<in> set (po_observations (world_input r evidence))"
    then have "ob_track_id ob \<in> set (map ob_track_id (pr_observations r))" by (auto simp: world_input_def Observation3D.defs)
    then have "ob_track_id ob \<in> set (map tr_track_id ts)" using flat_ground_tracks [OF ts(2)] by metis
    then obtain k where "k < length ts" "ob_track_id ob = tr_track_id (ts ! k)" by (auto simp: in_set_conv_nth)
    then show "ob_track_id ob \<noteq> [] \<and> (\<forall>ch\<in>set (ob_track_id ob). id_char ch)" using padded_id_chars [OF same(2)] by simp
  qed
  ultimately have all: "map ag_position_local (im_agents (wm_snapshot wm')) =
      map (\<lambda>d. transform_point (ego_local_T_body ego)
        (back_project (fp_intrinsics frame) (de_bbox_px d) (case de_depth_m d of None \<Rightarrow> 18 | Some x \<Rightarrow> x))) (detect frame)"
    "distinct (map ag_agent_id (im_agents (wm_snapshot wm')))"
    using agents_follow_observations [OF ingest] flat_stages.process_observations(2) [OF run] flat_ground_positions [OF ts(2)] by simp_all
  have seen: "seen_in_box (fp_intrinsics frame) (de_bbox_px d) (case de_depth_m d of None \<Rightarrow> 18 | Some x \<Rightarrow> x)
      (back_project (fp_intrinsics frame) (de_bbox_px d) (case de_depth_m d of None \<Rightarrow> 18 | Some x \<Rightarrow> x))" if "d \<in> set (detect frame)" for d
    using that boxes by (intro back_project_seen [OF k]) (auto split: option.splits)
  have "length (im_agents (wm_snapshot wm')) = length (detect frame)" using arg_cong [OF all(1), of length] by simp
  moreover have "ag_position_local (im_agents (wm_snapshot wm') ! i) = transform_point (ego_local_T_body ego)
      (back_project (fp_intrinsics frame) (de_bbox_px (detect frame ! i)) (case de_depth_m (detect frame ! i) of None \<Rightarrow> 18 | Some x \<Rightarrow> x))"
    if "i < length (detect frame)" for i
    using arg_cong [OF all(1), of "\<lambda>l. l ! i"] that calculation by simp
  ultimately show ?thesis using all(2) seen by (auto simp: list_all2_conv_all_nth)
qed

definition example_frame :: FramePacket where
  "example_frame =
     \<lparr>fp_frame_id = ''f'', fp_timestamp = \<lparr>timestamp_ns = 0\<rparr>, fp_camera_id = ''front_center'',
      fp_intrinsics = \<lparr>ci_fx = 420, ci_fy = 420, ci_cx = 320, ci_cy = 240, ci_distortion_k1 = 0, ci_distortion_k2 = 0\<rparr>, fp_depth_frame = None\<rparr>"

theorem detections_become_agents_witness:
  "\<exists>a p. im_agents (wm_snapshot (projr (ingest (world_input (projr
       (pipeline_process scripted_detect null_stabilize centroid_update appearance_resolve (flat_ground_project False) example_frame EgoState_default)) [])
     (InMemoryWorldModel_init \<lparr>wmc_map_frame_id = ''map'', wmc_occupancy_source_kind = SyntheticFixture\<rparr>)))) = [a] \<and>
   ag_position_local a = transform_point (ego_local_T_body EgoState_default) p \<and>
   seen_in_box (fp_intrinsics example_frame) \<lparr>rect_x = 260, rect_y = 160, rect_width = 80, rect_height = 180\<rparr> 18 p"
proof -
  let ?run = "pipeline_process scripted_detect null_stabilize centroid_update appearance_resolve (flat_ground_project False) example_frame EgoState_default"
  let ?wm = "InMemoryWorldModel_init \<lparr>wmc_map_frame_id = ''map'', wmc_occupancy_source_kind = SyntheticFixture\<rparr>"
  have "\<not> isl (padded_id ''track_'' 0)" "\<not> isl (padded_id ''identity_unknown_'' 0)" "\<not> isl (zone_id_of 1)"
    by (simp_all add: padded_id_def zone_id_of_def nat_to_string.simps)
  then obtain x y z where ids: "padded_id ''track_'' 0 = Inr x" "padded_id ''identity_unknown_'' 0 = Inr y" "zone_id_of (Suc 0) = Inr z"
    by (metis One_nat_def sum.collapse(2))
  have run: "?run = Inr (projr ?run)" and one: "length (pr_observations (projr ?run)) = 1"
    by (simp_all add: pipeline_process_def Let_def scripted_detect_def null_stabilize_def centroid_update_def appearance_resolve_def
        flat_ground_project_def project_track_def track_of_def throw_if_def ids)
  then obtain ob where "pr_observations (projr ?run) = [ob]" by (auto simp: length_Suc_conv)
  then have "\<not> isl (ingest (world_input (projr ?run) []) ?wm)"
    by (simp add: ingest_def Let_def cone_exclusion_map_def world_input_def ids)
  then have "ingest (world_input (projr ?run) []) ?wm = Inr (projr (ingest (world_input (projr ?run) []) ?wm))" by (simp add: sum.collapse)
  from detections_become_agents [OF run this] show ?thesis
    by (fastforce simp: scripted_detect_def usable_intrinsics_def finite_box_def example_frame_def list_all2_Cons2)
qed

end
