(* ===== verification/Runtime_Services.thy ===== *)
theory Runtime_Services
  imports Perception
begin

text \<open>
  Two templates of the runtime: the agreement metrics between a primary and a reference provider (\<open>evaluation_slot.hpp\<close>),
  and the publisher with weakly held subscribers (\<open>pubsub.hpp\<close>) beside the bus that keeps the latest message
  (\<open>in_process_bus.hpp\<close>).
\<close>

section \<open>Agreement of two providers\<close>

definition eval_slot_iou :: "Rect2 \<Rightarrow> Rect2 \<Rightarrow> double" where
  "eval_slot_iou a b =
     (let ax2 = rect_x a + rect_width a; ay2 = rect_y a + rect_height a; bx2 = rect_x b + rect_width b; by2 = rect_y b + rect_height b;
          ix1 = std_max (rect_x a) (rect_x b); iy1 = std_max (rect_y a) (rect_y b); ix2 = std_min ax2 bx2; iy2 = std_min ay2 by2
      in if ix2 \<le> ix1 \<or> iy2 \<le> iy1 then 0
         else let inter = (ix2 - ix1) * (iy2 - iy1); area_a = rect_width a * rect_height a; area_b = rect_width b * rect_height b;
                  uni = area_a + area_b - inter
              in if 0 < uni then inter / uni else 0)"

text \<open>The fraction of the first list with a partner in the second: the search stops at the first one.\<close>

fun has_match :: "('a \<Rightarrow> 'b \<Rightarrow> bool) \<Rightarrow> 'a \<Rightarrow> 'b list \<Rightarrow> bool" where
  "has_match p x [] = False"
| "has_match p x (y # ys) = (if p x y then True else has_match p x ys)"

fun count_matched :: "('a \<Rightarrow> 'b \<Rightarrow> bool) \<Rightarrow> 'a list \<Rightarrow> 'b list \<Rightarrow> nat \<Rightarrow> nat" where
  "count_matched p [] bs matched = matched"
| "count_matched p (x # xs) bs matched = count_matched p xs bs (if has_match p x bs then matched + 1 else matched)"

definition agreement_fraction :: "('a \<Rightarrow> 'b \<Rightarrow> bool) \<Rightarrow> 'a list \<Rightarrow> 'b list \<Rightarrow> double" where
  "agreement_fraction p a b =
     (if a = [] \<or> b = [] then 0 else Fin (of_nat (count_matched p a b 0)) / Fin (of_nat (length a)))"

definition detection_agreement :: "Detection2D list \<Rightarrow> Detection2D list \<Rightarrow> double \<Rightarrow> double" where
  "detection_agreement a b iou_threshold = agreement_fraction (\<lambda>da db. iou_threshold \<le> eval_slot_iou (de_bbox_px da) (de_bbox_px db)) a b"

record StabilizerOutput =
  so_transform_available :: bool
  so_dx_px :: double
  so_dy_px :: double

definition stabilizer_agreement :: "StabilizerOutput \<Rightarrow> StabilizerOutput \<Rightarrow> double \<Rightarrow> double" where
  "stabilizer_agreement a b max_delta_px =
     (if \<not> so_transform_available a \<or> \<not> so_transform_available b then 0
      else let ddx = so_dx_px a - so_dx_px b; ddy = so_dy_px a - so_dy_px b; clamped = std_min (std_sqrt (ddx * ddx + ddy * ddy)) max_delta_px
           in 1 - clamped / max_delta_px)"

definition same_track :: "double \<Rightarrow> Track2D \<Rightarrow> Track2D \<Rightarrow> bool" where
  "same_track threshold ta tb \<longleftrightarrow> tr_class_label ta = tr_class_label tb \<and>
     (let ca = bbox_center (tr_bbox_px ta); cb = bbox_center (tr_bbox_px tb); dx = v2x ca - v2x cb; dy = v2y ca - v2y cb
      in std_sqrt (dx * dx + dy * dy) < threshold)"

definition tracker_agreement :: "Track2D list \<Rightarrow> Track2D list \<Rightarrow> double \<Rightarrow> double" where
  "tracker_agreement a b threshold = agreement_fraction (same_track threshold) a b"

definition identity_agreement :: "IdentityHypothesis list \<Rightarrow> IdentityHypothesis list \<Rightarrow> double" where
  "identity_agreement a b = agreement_fraction (\<lambda>ia ib. ih_track_id ia = ih_track_id ib \<and> ih_identity_id ia = ih_identity_id ib) a b"

definition distance_between :: "Vec3 \<Rightarrow> Vec3 \<Rightarrow> double" where
  "distance_between p q = (let dx = vx p - vx q; dy = vy p - vy q; dz = vz p - vz q in std_sqrt (dx * dx + dy * dy + dz * dz))"

definition observation_agreement :: "Observation3D list \<Rightarrow> Observation3D list \<Rightarrow> double \<Rightarrow> double" where
  "observation_agreement a b threshold = agreement_fraction (\<lambda>oa ob. distance_between (ob_position_local oa) (ob_position_local ob) < threshold) a b"

definition ego_agreement :: "EgoState option \<Rightarrow> EgoState option \<Rightarrow> double \<Rightarrow> double" where
  "ego_agreement a b max_distance_m =
     (case (a, b) of
        (Some ea, Some eb) \<Rightarrow> std_max 0 (1 - distance_between (position (ego_local_T_body ea)) (position (ego_local_T_body eb)) / max_distance_m)
      | _ \<Rightarrow> 0)"

subsection \<open>Every metric lies in the unit interval\<close>

definition in_unit :: "double \<Rightarrow> bool" where
  "in_unit x \<longleftrightarrow> 0 \<le> x \<and> x \<le> 1"

lemma has_match_iff: "has_match p x bs \<longleftrightarrow> (\<exists>y\<in>set bs. p x y)"
  by (induction bs) auto

lemma count_matched_filter: "count_matched p a b n = n + length (filter (\<lambda>x. \<exists>y\<in>set b. p x y) a)"
  by (induction a arbitrary: n) (auto simp: has_match_iff)

lemma agreement_fraction_eq:
  "a \<noteq> [] \<Longrightarrow> b \<noteq> [] \<Longrightarrow> agreement_fraction p a b = Fin (of_nat (length (filter (\<lambda>x. \<exists>y\<in>set b. p x y) a)) / of_nat (length a))"
  by (simp add: agreement_fraction_def count_matched_filter)

lemma agreement_fraction_unit: "in_unit (agreement_fraction p a b)"
proof (cases "a = [] \<or> b = []")
  case False
  then show ?thesis by (simp add: agreement_fraction_eq in_unit_def divide_le_eq_1)
qed (simp add: agreement_fraction_def in_unit_def)

lemma agreement_fraction_one: "a \<noteq> [] \<Longrightarrow> b \<noteq> [] \<Longrightarrow> agreement_fraction p a b = 1 \<longleftrightarrow> (\<forall>x\<in>set a. \<exists>y\<in>set b. p x y)"
proof -
  assume "a \<noteq> []" "b \<noteq> []"
  moreover have "length a = length (filter q a) \<longleftrightarrow> (\<forall>x\<in>set a. q x)" for q
    by (metis filter_True length_filter_less less_irrefl)
  ultimately show ?thesis by (simp add: agreement_fraction_eq)
qed

lemma stabilizer_agreement_unit:
  assumes "so_dx_px a = Fin p" "so_dy_px a = Fin q" "so_dx_px b = Fin r" "so_dy_px b = Fin s" "0 < m"
  shows "in_unit (stabilizer_agreement a b (Fin m))"
proof -
  define e where "e = sqrt ((p - r) * (p - r) + (q - s) * (q - s))"
  have e: "0 \<le> e" "\<not> (p - r) * (p - r) + (q - s) * (q - s) < 0" by (simp_all add: e_def not_less)
  then have "std_min (std_sqrt (Fin ((p - r) * (p - r) + (q - s) * (q - s)))) (Fin m) = Fin (min e m)"
    by (simp add: std_min_def e_def min_def)
  then show ?thesis using e(1) assms by (auto simp: stabilizer_agreement_def in_unit_def Let_def divide_le_eq_1 min_def)
qed

lemma ego_agreement_unit:
  assumes "finite_point (position (ego_local_T_body a))" "finite_point (position (ego_local_T_body b))" "0 < m"
  shows "in_unit (ego_agreement (Some a) (Some b) (Fin m))"
proof -
  obtain x y z where p: "position (ego_local_T_body a) = vec3 (Fin x) (Fin y) (Fin z)" using assms(1) by (rule finite_pointE)
  obtain u v w where q: "position (ego_local_T_body b) = vec3 (Fin u) (Fin v) (Fin w)" using assms(2) by (rule finite_pointE)
  define d where "d = sqrt ((x - u) * (x - u) + (y - v) * (y - v) + (z - w) * (z - w))"
  have d: "0 \<le> d" "\<not> (x - u) * (x - u) + (y - v) * (y - v) + (z - w) * (z - w) < 0" by (simp_all add: d_def not_less)
  then have "distance_between (position (ego_local_T_body a)) (position (ego_local_T_body b)) = Fin d"
    by (simp add: distance_between_def p q d_def)
  then show ?thesis using d(1) assms(3) by (simp add: ego_agreement_def in_unit_def std_max_def)
qed

subsection \<open>Intersection over union\<close>

definition overlap :: "real \<Rightarrow> real \<Rightarrow> real \<Rightarrow> real \<Rightarrow> real" where
  "overlap x w y v = max 0 (min (x + w) (y + v) - max x y)"

lemma overlap_le: "0 \<le> w \<Longrightarrow> 0 \<le> v \<Longrightarrow> overlap x w y v \<le> w" "0 \<le> w \<Longrightarrow> 0 \<le> v \<Longrightarrow> overlap x w y v \<le> v" "0 \<le> overlap x w y v"
  "overlap x w y v = overlap y v x w"
  by (auto simp: overlap_def max_def min_def)

lemma overlap_full: "0 < w \<Longrightarrow> overlap x w y v = w \<Longrightarrow> w = v \<Longrightarrow> x = y"
  by (auto simp: overlap_def max_def min_def split: if_splits)

definition fin_rect :: "Rect2 \<Rightarrow> real \<Rightarrow> real \<Rightarrow> real \<Rightarrow> real \<Rightarrow> bool" where
  "fin_rect r x y w h \<longleftrightarrow> r = \<lparr>rect_x = Fin x, rect_y = Fin y, rect_width = Fin w, rect_height = Fin h\<rparr> \<and> 0 < w \<and> 0 < h"

lemma iou_value:
  assumes "fin_rect a ax ay aw ah" "fin_rect b bx b2 bw bh"
  defines "isec \<equiv> overlap ax aw bx bw * overlap ay ah b2 bh"
  shows "eval_slot_iou a b = Fin (isec / (aw * ah + bw * bh - isec))" "0 \<le> isec" "isec \<le> aw * ah" "isec \<le> bw * bh" "0 < aw * ah" "0 < bw * bh"
proof -
  have p: "0 < aw" "0 < ah" "0 < bw" "0 < bh" using assms by (auto simp: fin_rect_def)
  show i: "0 \<le> isec" "isec \<le> aw * ah" "isec \<le> bw * bh" "0 < aw * ah" "0 < bw * bh"
    using p by (auto simp: isec_def overlap_le intro!: mult_mono mult_nonneg_nonneg)
  have mx: "std_max (Fin u) (Fin v) = Fin (max u v)" "std_min (Fin u) (Fin v) = Fin (min u v)" for u v
    by (simp_all add: std_max_def std_min_def max_def min_def)
  show "eval_slot_iou a b = Fin (isec / (aw * ah + bw * bh - isec))"
  proof (cases "min (ax + aw) (bx + bw) \<le> max ax bx \<or> min (ay + ah) (b2 + bh) \<le> max ay b2")
    case True
    then have "isec = 0" by (auto simp: isec_def overlap_def)
    then show ?thesis using True assms(1,2) by (simp add: eval_slot_iou_def fin_rect_def mx Let_def)
  next
    case False
    then have "0 < min (ax + aw) (bx + bw) - max ax bx" "0 < min (ay + ah) (b2 + bh) - max ay b2" by auto
    then have "isec = (min (ax + aw) (bx + bw) - max ax bx) * (min (ay + ah) (b2 + bh) - max ay b2)"
      unfolding isec_def overlap_def by (simp only: max_absorb2 less_imp_le)
    then show ?thesis using False assms(1,2) i by (simp add: eval_slot_iou_def fin_rect_def mx Let_def)
  qed
qed

text \<open>The overlap of two boxes with an area is between zero and one, the same both ways, and one only for equal boxes.\<close>

lemma iou_correct:
  assumes "fin_rect a ax ay aw ah" "fin_rect b bx b2 bw bh"
  shows "in_unit (eval_slot_iou a b) \<and> eval_slot_iou a b = eval_slot_iou b a \<and> (eval_slot_iou a b = 1 \<longleftrightarrow> a = b)"
proof -
  define isec where "isec = overlap ax aw bx bw * overlap ay ah b2 bh"
  note v = iou_value [OF assms, folded isec_def]
  have p: "0 < aw" "0 < ah" "0 < bw" "0 < bh" using assms by (auto simp: fin_rect_def)
  have sym: "eval_slot_iou b a = eval_slot_iou a b"
    using iou_value(1) [OF assms(2,1)] v(1) by (simp add: isec_def overlap_le(4) [of ax] overlap_le(4) [of ay] algebra_simps)
  have u: "0 < aw * ah + bw * bh - isec" using v(3,6) by linarith
  have one: "eval_slot_iou a b = 1 \<longleftrightarrow> isec = aw * ah \<and> isec = bw * bh"
    unfolding v(1) using v(3,4) u by (auto simp: divide_eq_1_iff)
  have equal: "isec = aw * ah \<and> isec = bw * bh \<longleftrightarrow> a = b"
  proof
    assume e: "isec = aw * ah \<and> isec = bw * bh"
    have le: "overlap ax aw bx bw \<le> aw" "overlap ay ah b2 bh \<le> ah" "overlap ax aw bx bw \<le> bw" "overlap ay ah b2 bh \<le> bh"
      using p by (simp_all add: overlap_le)
    have eq: "s = w \<and> t = h" if "s * t = w * h" "s \<le> w" "t \<le> h" "0 < w" "0 < h" "0 \<le> s" "0 \<le> t" for s t w h :: real
    proof -
      have "s * t \<le> s * h" by (rule mult_left_mono) (use that in simp_all)
      moreover have "s * h \<le> w * h" by (rule mult_right_mono) (use that in simp_all)
      ultimately have sh: "s * h = w * h" and st: "s * t = s * h" using that(1) by linarith+
      from sh that(5) have "s = w" by simp
      moreover from this st that(4) have "t = h" by simp
      ultimately show ?thesis ..
    qed
    have "overlap ax aw bx bw = aw \<and> overlap ay ah b2 bh = ah"
      by (rule eq) (use e le p overlap_le(3) in \<open>simp_all add: isec_def\<close>)
    moreover have "overlap ax aw bx bw = bw \<and> overlap ay ah b2 bh = bh"
      by (rule eq) (use e le p overlap_le(3) in \<open>simp_all add: isec_def\<close>)
    ultimately have w: "aw = bw" "ah = bh" "overlap ax aw bx bw = aw" "overlap ay ah b2 bh = ah" by simp_all
    then have "ax = bx" "ay = b2" using overlap_full [OF p(1) w(3,1)] overlap_full [OF p(2) w(4,2)] by simp_all
    with w(1,2) show "a = b" using assms by (simp add: fin_rect_def)
  next
    assume "a = b"
    then have "ax = bx" "ay = b2" "aw = bw" "ah = bh" using assms by (simp_all add: fin_rect_def)
    then show "isec = aw * ah \<and> isec = bw * bh" using p by (simp add: isec_def overlap_def)
  qed
  show ?thesis unfolding one equal using v u sym by (simp add: in_unit_def)
qed

section \<open>Publishing\<close>

text \<open>
  The publisher holds its subscribers weakly: \<open>alive\<close> says which still exist when they are locked.  \<open>publish\<close> moves the living ones to
  the front of the vector, cuts off the rest and then delivers in order.
\<close>

definition subscribe :: "'s option \<Rightarrow> 's list \<Rightarrow> 's list result" where
  "subscribe subscriber subscribers =
     (case subscriber of None \<Rightarrow> Inl ''EventPublisher::subscribe requires a subscriber'' | Some s \<Rightarrow> Inr (subscribers @ [s]))"

function compact :: "('s \<Rightarrow> bool) \<Rightarrow> 's list \<Rightarrow> nat \<Rightarrow> nat \<Rightarrow> 's list \<Rightarrow> 's list \<times> 's list" where
  "compact alive buffer inp out locked =
     (if inp < length buffer then
        (let s = buffer ! inp
         in if alive s then compact alive (buffer[out := s]) (inp + 1) (out + 1) (locked @ [s])
            else compact alive buffer (inp + 1) out locked)
      else (take out buffer, locked))"
  by pat_completeness auto
termination by (relation "measure (\<lambda>(_, buffer, inp, _, _). length buffer - inp)") auto

declare compact.simps [simp del]

definition publish :: "('s \<Rightarrow> bool) \<Rightarrow> 's list \<Rightarrow> 's list \<times> 's list" where
  "publish alive subscribers = compact alive subscribers 0 0 []"

definition subscriber_count :: "('s \<Rightarrow> bool) \<Rightarrow> 's list \<Rightarrow> nat" where
  "subscriber_count alive subscribers = length (filter alive subscribers)"

lemma compact_filter:
  assumes "out \<le> inp" "inp \<le> length buffer" "take out buffer = locked"
  shows "compact alive buffer inp out locked = (locked @ filter alive (drop inp buffer), locked @ filter alive (drop inp buffer))"
  using assms
proof (induction alive buffer inp out locked rule: compact.induct)
  case (1 alive buffer inp out locked)
  show ?case
  proof (cases "inp < length buffer")
    case True
    then have d: "drop inp buffer = buffer ! inp # drop (inp + 1) buffer" by (simp add: Cons_nth_drop_Suc)
    show ?thesis
    proof (cases "alive (buffer ! inp)")
      case True
      have "take (out + 1) (buffer[out := buffer ! inp]) = locked @ [buffer ! inp]"
        using "1.prems" \<open>inp < length buffer\<close> by (simp add: take_Suc_conv_app_nth)
      then show ?thesis using 1 True \<open>inp < length buffer\<close> d by (subst compact.simps) (simp add: Let_def)
    qed (use 1 True d in \<open>subst compact.simps, simp add: Let_def\<close>)
  qed (use "1.prems" in \<open>subst compact.simps, simp\<close>)
qed

text \<open>
  An event reaches exactly the subscribers still alive, each once per subscription and in the order they subscribed, and only these stay subscribed.
\<close>
lemma publish_reaches_living: "publish alive subscribers = (filter alive subscribers, filter alive subscribers)"
  by (simp add: publish_def compact_filter)

record 'm InProcessBus =
  bus_latest :: "'m option"

definition bus_publish :: "'m \<Rightarrow> 'm InProcessBus \<Rightarrow> 'm InProcessBus" where "bus_publish m b = b\<lparr>bus_latest := Some m\<rparr>"
definition bus_clear :: "'m InProcessBus \<Rightarrow> 'm InProcessBus" where "bus_clear b = b\<lparr>bus_latest := None\<rparr>"

end
