(* ===== verification/Perch_Evaluator.thy ===== *)
theory Perch_Evaluator
  imports Planning_Query "HOL-Library.Multiset"
begin

text \<open>
  \<open>perch_candidate_evaluator.cpp\<close>: surface patches of the evidence become ranked landing candidates.  \<open>std::sort\<close> leaves the order
  of equal scores open, so it is an argument with the law \<open>sort_laws\<close>.
\<close>

section \<open>Data\<close>

record PerchCandidateEvaluatorConfig =
  pe_min_flatness_dot :: double
  pe_min_area_m2 :: double
  pe_min_confidence :: double
  pe_max_candidates :: nat
  pe_cadence_ticks :: int
  pe_min_clearance_m :: double

definition PerchCandidateEvaluatorConfig_default :: PerchCandidateEvaluatorConfig where
  "PerchCandidateEvaluatorConfig_default =
     \<lparr>pe_min_flatness_dot = Fin (866/1000), pe_min_area_m2 = Fin (4/10), pe_min_confidence = Fin (1/10), pe_max_candidates = 10,
      pe_cadence_ticks = 10, pe_min_clearance_m = 2\<rparr>"

record PerchCandidate =
  pe_position_local :: Vec3
  pe_normal_local :: Vec3
  pe_score :: double

section \<open>Evaluation\<close>

definition perch_flatness :: "ObstacleEvidence \<Rightarrow> double" where
  "perch_flatness e = std_abs (vz (ev_surface_normal_local e))"

definition perch_area :: "ObstacleEvidence \<Rightarrow> double" where
  "perch_area e = vx (ev_size_m e) * vy (ev_size_m e)"

text \<open>The tests that skip a piece of evidence before the map is asked.\<close>

definition perch_skip :: "PerchCandidateEvaluatorConfig \<Rightarrow> ObstacleEvidence \<Rightarrow> bool" where
  "perch_skip c e \<longleftrightarrow> \<not> ev_is_surface_hint e \<or> \<not> ev_has_surface_normal e \<or> ev_confidence e < pe_min_confidence c \<or>
     perch_flatness e < pe_min_flatness_dot c \<or> perch_area e < pe_min_area_m2 c"

definition perch_candidate :: "PerchCandidateEvaluatorConfig \<Rightarrow> ObstacleEvidence \<Rightarrow> PerchCandidate" where
  "perch_candidate c e =
     \<lparr>pe_position_local = ev_center_local e, pe_normal_local = ev_surface_normal_local e,
      pe_score = perch_flatness e * std_min 1 (perch_area e / (pe_min_area_m2 c * 4)) * ev_confidence e\<rparr>"

text \<open>Whether something is above the patch; \<open>None\<close> if the ray march does not end.\<close>

definition perch_covered :: "PerchCandidateEvaluatorConfig \<Rightarrow> PlanningMap option \<Rightarrow> ObstacleEvidence \<Rightarrow> bool option" where
  "perch_covered c l2_map e =
     (case l2_map of None \<Rightarrow> Some False
      | Some m \<Rightarrow>
          if pm_cells m = [] then Some False
          else map_option (\<lambda>hit. hit \<noteq> None) (ray_cast m (ev_center_local e) (vec3 0 0 1) (pe_min_clearance_m c)))"

fun perch_collect :: "PerchCandidateEvaluatorConfig \<Rightarrow> PlanningMap option \<Rightarrow> ObstacleEvidence list \<Rightarrow> PerchCandidate list option" where
  "perch_collect c l2_map [] = Some []"
| "perch_collect c l2_map (e # es) =
     (if perch_skip c e then perch_collect c l2_map es
      else case perch_covered c l2_map e of
             None \<Rightarrow> None
           | Some covered \<Rightarrow>
               map_option (\<lambda>cs. if covered then cs else perch_candidate c e # cs) (perch_collect c l2_map es))"

definition perch_evaluate ::
  "(PerchCandidate list \<Rightarrow> PerchCandidate list) \<Rightarrow> PerchCandidateEvaluatorConfig \<Rightarrow> ObstacleEvidence list \<Rightarrow> PlanningMap option \<Rightarrow> PerchCandidate list option" where
  "perch_evaluate sort_desc c evidence l2_map = map_option (\<lambda>cs. take (pe_max_candidates c) (sort_desc cs)) (perch_collect c l2_map evidence)"

section \<open>What is returned\<close>

text \<open>\<open>std::sort\<close> permutes, and orders by falling score when all scores are numbers.\<close>

definition sort_laws :: "(PerchCandidate list \<Rightarrow> PerchCandidate list) \<Rightarrow> bool" where
  "sort_laws srt \<longleftrightarrow>
     (\<forall>cs. mset (srt cs) = mset cs \<and> ((\<forall>x\<in>set cs. pe_score x \<noteq> NaN) \<longrightarrow> sorted_wrt (\<lambda>a b. pe_score b \<le> pe_score a) (srt cs)))"

definition landable :: "PerchCandidateEvaluatorConfig \<Rightarrow> PlanningMap option \<Rightarrow> ObstacleEvidence \<Rightarrow> bool" where
  "landable c l2_map e \<longleftrightarrow> \<not> perch_skip c e \<and> perch_covered c l2_map e = Some False"

lemma perch_collect_candidates:
  "perch_collect c l2_map es = Some cs \<Longrightarrow> cs = map (perch_candidate c) (filter (landable c l2_map) es)"
  by (induction es arbitrary: cs) (auto simp: landable_def split: if_splits option.splits)

text \<open>
  The candidates returned are the best of the surfaces that are flat, large and certain enough and free above within the clearance: at most
  the configured number, by falling score, and none that is left out scores higher than one that is returned.
\<close>
lemma perch_candidates_best:
  assumes laws: "sort_laws srt" and run: "perch_evaluate srt c evidence l2_map = Some cs"
    and num: "\<forall>e\<in>set evidence. landable c l2_map e \<longrightarrow> pe_score (perch_candidate c e) \<noteq> NaN"
  shows "length cs = min (pe_max_candidates c) (length (filter (landable c l2_map) evidence)) \<and>
    sorted_wrt (\<lambda>a b. pe_score b \<le> pe_score a) cs \<and>
    (\<exists>rest. mset cs + rest = image_mset (perch_candidate c) (mset (filter (landable c l2_map) evidence)) \<and>
       (\<forall>a\<in>set cs. \<forall>b\<in>#rest. pe_score b \<le> pe_score a))"
proof -
  let ?all = "map (perch_candidate c) (filter (landable c l2_map) evidence)"
  obtain ds where "perch_collect c l2_map evidence = Some ds" "cs = take (pe_max_candidates c) (srt ds)"
    using run by (auto simp: perch_evaluate_def)
  then have cs: "cs = take (pe_max_candidates c) (srt ?all)" using perch_collect_candidates by simp
  have s: "mset (srt ?all) = mset ?all" "sorted_wrt (\<lambda>a b. pe_score b \<le> pe_score a) (srt ?all)"
    using laws num unfolding sort_laws_def by auto
  let ?n = "pe_max_candidates c"
  have split: "srt ?all = take ?n (srt ?all) @ drop ?n (srt ?all)" by simp
  have w: "sorted_wrt (\<lambda>a b. pe_score b \<le> pe_score a) cs" "\<forall>a\<in>set cs. \<forall>b\<in>set (drop ?n (srt ?all)). pe_score b \<le> pe_score a"
    using s(2) unfolding cs by (metis (no_types, lifting) split sorted_wrt_append)+
  have "length cs = min ?n (length (filter (landable c l2_map) evidence))"
    using cs mset_eq_length [OF s(1)] by simp
  moreover have "mset cs + mset (drop ?n (srt ?all)) = image_mset (perch_candidate c) (mset (filter (landable c l2_map) evidence))"
    using s(1) unfolding cs by (metis (no_types, lifting) mset_append mset_map split)
  ultimately show ?thesis using w by (metis set_mset_mset)
qed

end
