(* ===== verification/Visual_Features.thy ===== *)
theory Visual_Features
  imports Polar_Risk Sensing_Coverage "HOL-Library.Multiset"
begin

text \<open>
  The image side of the visual odometry (\<open>src/sensors/visual_ego_state_provider.cpp\<close>): the greyscale image,
  bilinear sampling, the FAST-9 corner detector with its non-maximum suppression, and Lucas-Kanade tracking.
  A greyscale image is a list of bytes read at \<open>y * width + x\<close>.  \<open>std::sort\<close> leaves the order of corners with
  equal scores open, so it is an argument with the law \<open>score_sort_laws\<close>.
\<close>

section \<open>Images\<close>

record ImageView =
  iv_width :: int
  iv_height :: int
  iv_channels :: int
  iv_bytes :: "8 word list"

definition gray_of :: "8 word \<Rightarrow> 8 word \<Rightarrow> 8 word \<Rightarrow> 8 word" where
  "gray_of r g b = word_of_int ((77 * uint r + 150 * uint g + 29 * uint b) div 2 ^ 8)"

definition rgb_to_gray :: "8 word list \<Rightarrow> int \<Rightarrow> int \<Rightarrow> 8 word list" where
  "rgb_to_gray rgb width height =
     map (\<lambda>i. gray_of (rgb ! nat (i * 3)) (rgb ! nat (i * 3 + 1)) (rgb ! nat (i * 3 + 2))) [0..width * height - 1]"

text \<open>The conversion at the head of \<open>estimate\<close>: an image of neither one nor three channels gives its first channel.\<close>

definition gray_image :: "ImageView \<Rightarrow> 8 word list" where
  "gray_image view =
     (let w = iv_width view; h = iv_height view
      in if iv_channels view = 3 then rgb_to_gray (iv_bytes view) w h
         else if iv_channels view = 1 then iv_bytes view
         else map (\<lambda>i. iv_bytes view ! nat (i * iv_channels view)) [0..w * h - 1])"

definition gray_at :: "8 word list \<Rightarrow> int \<Rightarrow> int \<Rightarrow> int \<Rightarrow> int" where
  "gray_at img width x y = uint (img ! nat (y * width + x))"

definition interp :: "8 word list \<Rightarrow> int \<Rightarrow> int \<Rightarrow> double \<Rightarrow> double \<Rightarrow> double" where
  "interp img width height x y =
     (let xi = trunc_to_int x; yi = trunc_to_int y
      in if xi < 0 \<or> width - 1 \<le> xi \<or> yi < 0 \<or> height - 1 \<le> yi then 128
         else let fx = x - Fin (of_int xi); fy = y - Fin (of_int yi);
                  px = (\<lambda>dx dy. Fin (of_int (gray_at img width (xi + dx) (yi + dy))))
              in (1 - fx) * (1 - fy) * px 0 0 + fx * (1 - fy) * px 1 0 + (1 - fx) * fy * px 0 1 + fx * fy * px 1 1)"

section \<open>FAST-9 corners\<close>

record TrackedFeature =
  tf_x :: double
  tf_y :: double
  tf_x_prev :: double
  tf_y_prev :: double
  tf_valid :: bool
  tf_age :: int

text \<open>The circle of radius 3, row offset first.\<close>

definition kFastCircle :: "(int \<times> int) list" where
  "kFastCircle =
     [(0, -3), (1, -3), (2, -2), (3, -1), (3, 0), (3, 1), (2, 2), (1, 3),
      (0, 3), (-1, 3), (-2, 2), (-3, 1), (-3, 0), (-3, -1), (-2, -2), (-1, -3)]"

definition circle_px :: "8 word list \<Rightarrow> int \<Rightarrow> int \<Rightarrow> int \<Rightarrow> nat \<Rightarrow> int" where
  "circle_px img width x y i = gray_at img width (x + snd (kFastCircle ! i)) (y + fst (kFastCircle ! i))"

definition fast9_score :: "8 word list \<Rightarrow> int \<Rightarrow> int \<Rightarrow> int \<Rightarrow> int \<Rightarrow> int" where
  "fast9_score img width x y threshold =
     (let centre = gray_at img width x y; hi = centre + threshold; lo = centre - threshold;
          vs = map (circle_px img width x y) [0..<16];
          score_hi = sum_list (map (\<lambda>v. if hi < v then v - hi else 0) vs);
          score_lo = sum_list (map (\<lambda>v. if v < lo then lo - v else 0) vs)
      in max score_hi score_lo)"

definition is_fast9 :: "8 word list \<Rightarrow> int \<Rightarrow> int \<Rightarrow> int \<Rightarrow> int \<Rightarrow> bool" where
  "is_fast9 img width x y t =
     (let c = gray_at img width x y; hi = c + t; lo = c - t; p = circle_px img width x y;
          any_bright = (hi < p 0 \<or> hi < p 4 \<or> hi < p 8 \<or> hi < p 12);
          any_dark = (p 0 < lo \<or> p 4 < lo \<or> p 8 < lo \<or> p 12 < lo)
      in if \<not> any_bright \<and> \<not> any_dark then False
         else list_ex (\<lambda>start.
                let run = map (\<lambda>k. p ((start + k) mod 16)) [0..<9]
                in list_all (\<lambda>v. \<not> v \<le> hi) run \<or> list_all (\<lambda>v. \<not> lo \<le> v) run) [0..<16])"

type_synonym ScoredCorner = "int \<times> int \<times> int"

definition fast_border :: int where "fast_border = 4"

definition fast_candidates :: "8 word list \<Rightarrow> int \<Rightarrow> int \<Rightarrow> int \<Rightarrow> ScoredCorner list" where
  "fast_candidates gray width height threshold =
     concat (map (\<lambda>y. map (\<lambda>x. (fast9_score gray width x y threshold, x, y))
                         (filter (\<lambda>x. is_fast9 gray width x y threshold) [fast_border..width - fast_border - 1]))
              [fast_border..height - fast_border - 1])"

definition kNmsDist :: int where "kNmsDist = 8"

definition nms_near :: "int \<times> int \<Rightarrow> int \<times> int \<Rightarrow> bool" where
  "nms_near p a \<longleftrightarrow> \<bar>fst p - fst a\<bar> < kNmsDist \<and> \<bar>snd p - snd a\<bar> < kNmsDist"

fun suppress :: "int \<Rightarrow> (int \<times> int) list \<Rightarrow> ScoredCorner list \<Rightarrow> (int \<times> int) list" where
  "suppress max_features accepted [] = accepted"
| "suppress max_features accepted ((sc, pt) # scored) =
     (if list_ex (nms_near pt) accepted then suppress max_features accepted scored
      else let accepted' = accepted @ [pt]
           in if max_features \<le> int (length accepted') then accepted'
              else suppress max_features accepted' scored)"

definition fresh_feature :: "int \<times> int \<Rightarrow> TrackedFeature" where
  "fresh_feature p =
     (let x = Fin (of_int (fst p)); y = Fin (of_int (snd p))
      in \<lparr>tf_x = x, tf_y = y, tf_x_prev = x, tf_y_prev = y, tf_valid = True, tf_age = 0\<rparr>)"

definition score_sort_laws :: "(ScoredCorner list \<Rightarrow> ScoredCorner list) \<Rightarrow> bool" where
  "score_sort_laws sorter \<longleftrightarrow> (\<forall>xs. mset (sorter xs) = mset xs \<and> sorted_wrt (\<lambda>a b. fst b \<le> fst a) (sorter xs))"

definition detect_fast9 :: "(ScoredCorner list \<Rightarrow> ScoredCorner list) \<Rightarrow> 8 word list \<Rightarrow> int \<Rightarrow> int \<Rightarrow> int \<Rightarrow> int \<Rightarrow>
    TrackedFeature list \<Rightarrow> TrackedFeature list" where
  "detect_fast9 sorter gray width height threshold max_features features =
     features @ map fresh_feature (suppress max_features [] (sorter (fast_candidates gray width height threshold)))"

section \<open>Lucas-Kanade tracking\<close>

definition patch_offsets :: "int \<Rightarrow> (int \<times> int) list" where
  "patch_offsets r = concat (map (\<lambda>dy. map (\<lambda>dx. (dx, dy)) [- r..r]) [- r..r])"

record PxInfo =
  px_Ix :: double
  px_Iy :: double
  px_Iprev :: double

definition half :: double where "half = Fin (1/2)"

definition patch_px :: "8 word list \<Rightarrow> int \<Rightarrow> int \<Rightarrow> double \<Rightarrow> double \<Rightarrow> int \<times> int \<Rightarrow> PxInfo" where
  "patch_px prev width height px py d =
     (let cx = px + Fin (of_int (fst d)); cy = py + Fin (of_int (snd d))
      in if cx < 1 \<or> Fin (of_int (width - 1)) \<le> cx \<or> cy < 1 \<or> Fin (of_int (height - 1)) \<le> cy
         then \<lparr>px_Ix = 0, px_Iy = 0, px_Iprev = 0\<rparr>
         else \<lparr>px_Ix = (interp prev width height (cx + 1) cy - interp prev width height (cx - 1) cy) * half,
               px_Iy = (interp prev width height cx (cy + 1) - interp prev width height cx (cy - 1)) * half,
               px_Iprev = interp prev width height cx cy\<rparr>)"

definition double_sum :: "double list \<Rightarrow> double" where
  "double_sum xs = foldl (+) 0 xs"

text \<open>The entries a pixel outside the image adds to the gradient sums are zero, as its gradients are.\<close>

definition lk_Axx :: "PxInfo list \<Rightarrow> double" where
  "lk_Axx patch = double_sum (map (\<lambda>p. px_Ix p * px_Ix p) patch)"

definition lk_Axy :: "PxInfo list \<Rightarrow> double" where
  "lk_Axy patch = double_sum (map (\<lambda>p. px_Ix p * px_Iy p) patch)"

definition lk_Ayy :: "PxInfo list \<Rightarrow> double" where
  "lk_Ayy patch = double_sum (map (\<lambda>p. px_Iy p * px_Iy p) patch)"

definition lk_residuals :: "8 word list \<Rightarrow> int \<Rightarrow> int \<Rightarrow> int \<Rightarrow> double \<Rightarrow> double \<Rightarrow> PxInfo list \<Rightarrow> double \<times> double \<Rightarrow> double list" where
  "lk_residuals cur width height r px py patch off =
     map (\<lambda>(d, p). interp cur width height (px + Fin (of_int (fst d)) + fst off) (py + Fin (of_int (snd d)) + snd off) - px_Iprev p)
       (zip (patch_offsets r) patch)"

definition lk_step :: "8 word list \<Rightarrow> int \<Rightarrow> int \<Rightarrow> int \<Rightarrow> double \<Rightarrow> double \<Rightarrow> PxInfo list \<Rightarrow> double \<Rightarrow> double \<times> double \<Rightarrow> double \<times> double" where
  "lk_step cur width height r px py patch inv_det off =
     (let it = lk_residuals cur width height r px py patch off;
          bx = foldl (\<lambda>b (p, i). b - px_Ix p * i) 0 (zip patch it);
          b_y = foldl (\<lambda>b (p, i). b - px_Iy p * i) 0 (zip patch it)
      in (fst off + inv_det * (lk_Ayy patch * bx - lk_Axy patch * b_y),
          snd off + inv_det * (lk_Axx patch * b_y - lk_Axy patch * bx)))"

definition lk_flow :: "8 word list \<Rightarrow> int \<Rightarrow> int \<Rightarrow> int \<Rightarrow> int \<Rightarrow> double \<Rightarrow> double \<Rightarrow> PxInfo list \<Rightarrow> double \<Rightarrow> double \<times> double" where
  "lk_flow cur width height r iterations px py patch inv_det =
     (lk_step cur width height r px py patch inv_det ^^ nat iterations) (0, 0)"

definition min_gradient_det :: double where "min_gradient_det = Fin (1 / 10 ^ 6)"

definition track_feature :: "8 word list \<Rightarrow> 8 word list \<Rightarrow> int \<Rightarrow> int \<Rightarrow> int \<Rightarrow> int \<Rightarrow> TrackedFeature \<Rightarrow> TrackedFeature" where
  "track_feature prev cur width height patch_radius iterations f =
     (if \<not> tf_valid f then f
      else
        let border = patch_radius + 2; px = tf_x f; py = tf_y f;
            patch = map (patch_px prev width height px py) (patch_offsets patch_radius);
            det = lk_Axx patch * lk_Ayy patch - lk_Axy patch * lk_Axy patch
        in if std_abs det < min_gradient_det then f\<lparr>tf_valid := False\<rparr>
           else
             let (ox, oy) = lk_flow cur width height patch_radius iterations px py patch (1 / det);
                 nx = px + ox; ny = py + oy
             in if nx < Fin (of_int border) \<or> Fin (of_int (width - border)) \<le> nx \<or>
                   ny < Fin (of_int border) \<or> Fin (of_int (height - border)) \<le> ny \<or> 900 < ox * ox + oy * oy
                then f\<lparr>tf_valid := False\<rparr>
                else f\<lparr>tf_x_prev := px, tf_y_prev := py, tf_x := nx, tf_y := ny, tf_age := tf_age f + 1\<rparr>)"

definition track_lk :: "8 word list \<Rightarrow> 8 word list \<Rightarrow> int \<Rightarrow> int \<Rightarrow> int \<Rightarrow> int \<Rightarrow> TrackedFeature list \<Rightarrow> TrackedFeature list" where
  "track_lk prev cur width height patch_radius iterations features =
     map (track_feature prev cur width height patch_radius iterations) features"

section \<open>Images: the values stay in their byte\<close>

lemma byte_bounds [simp]: "0 \<le> uint (b :: 8 word)" "uint (b :: 8 word) \<le> 255"
  using uint_bounded [of b] by (simp_all)

text \<open>The weights add up to 256, so the sum never leaves a byte: the result lies between the darkest and the
  brightest channel and a grey pixel keeps its value.\<close>

lemma gray_of_exact: "uint (gray_of r g b) = (77 * uint r + 150 * uint g + 29 * uint b) div 256"
proof -
  have "0 \<le> (77 * uint r + 150 * uint g + 29 * uint b) div 256" by (simp add: pos_imp_zdiv_nonneg_iff)
  moreover have "77 * uint r + 150 * uint g + 29 * uint b \<le> 255 * 256"
    using byte_bounds(2) [of r] byte_bounds(2) [of g] byte_bounds(2) [of b] by linarith
  then have "(77 * uint r + 150 * uint g + 29 * uint b) div 256 < 256" by linarith
  ultimately show ?thesis by (simp add: gray_of_def uint_word_of_int take_bit_eq_mod)
qed

lemma gray_of_between:
  "min (uint r) (min (uint g) (uint b)) \<le> uint (gray_of r g b)" "uint (gray_of r g b) \<le> max (uint r) (max (uint g) (uint b))"
  unfolding gray_of_exact by linarith+

lemma gray_of_grey: "gray_of v v v = v"
  unfolding word_uint_eq_iff gray_of_exact by simp

text \<open>A point of the image proper reads its four neighbours inside the image; between pixels the value is a mean.\<close>

lemma gray_at_bounds [simp]: "0 \<le> gray_at img w x y" "gray_at img w x y \<le> 255"
  by (simp_all add: gray_at_def)

lemma mean_in_range:
  fixes t a b :: real
  assumes "0 \<le> t" "t \<le> 1" "lo \<le> a" "a \<le> hi" "lo \<le> b" "b \<le> hi"
  shows "lo \<le> (1 - t) * a + t * b" "(1 - t) * a + t * b \<le> hi"
proof -
  have "(1 - t) * lo + t * lo \<le> (1 - t) * a + t * b" using assms by (intro add_mono mult_left_mono) auto
  then show "lo \<le> (1 - t) * a + t * b" by (simp add: algebra_simps)
  have "(1 - t) * a + t * b \<le> (1 - t) * hi + t * hi" using assms by (intro add_mono mult_left_mono) auto
  then show "(1 - t) * a + t * b \<le> hi" by (simp add: algebra_simps)
qed

lemma interp_in_range:
  assumes "0 \<le> x" "0 \<le> y"
  shows "\<exists>v. interp img w h (Fin x) (Fin y) = Fin v \<and> 0 \<le> v \<and> v \<le> 255"
proof (cases "\<lfloor>x\<rfloor> \<le> int_max \<and> \<lfloor>y\<rfloor> \<le> int_max \<and> \<lfloor>x\<rfloor> < w - 1 \<and> \<lfloor>y\<rfloor> < h - 1")
  case True
  have [simp]: "trunc_to_int (Fin x) = \<lfloor>x\<rfloor>" "trunc_to_int (Fin y) = \<lfloor>y\<rfloor>"
    using True assms by (simp_all add: in_int_range_def int_min_def int_max_def Let_def)
  define g :: "int \<Rightarrow> int \<Rightarrow> real" where "g dx dy = of_int (gray_at img w (\<lfloor>x\<rfloor> + dx) (\<lfloor>y\<rfloor> + dy))" for dx dy
  define fx fy where "fx = x - of_int \<lfloor>x\<rfloor>" and "fy = y - of_int \<lfloor>y\<rfloor>"
  have f: "0 \<le> fx" "fx \<le> 1" "0 \<le> fy" "fy \<le> 1" unfolding fx_def fy_def by linarith+
  have g: "0 \<le> g dx dy" "g dx dy \<le> 255" for dx dy unfolding g_def using gray_at_bounds by (simp_all del: gray_at_bounds)
  have "interp img w h (Fin x) (Fin y) =
      Fin ((1 - fy) * ((1 - fx) * g 0 0 + fx * g 1 0) + fy * ((1 - fx) * g 0 1 + fx * g 1 1))"
    using True assms by (simp add: interp_def Let_def fx_def fy_def g_def algebra_simps del: trunc_to_int.simps)
  moreover note mean_in_range [OF f(3,4) mean_in_range [OF f(1,2) g [of 0 0] g [of 1 0]] mean_in_range [OF f(1,2) g [of 0 1] g [of 1 1]]]
  ultimately show ?thesis by blast
next
  case False
  have "interp img w h (Fin x) (Fin y) = 128"
    using False assms by (auto simp: interp_def Let_def in_int_range_def int_min_def int_max_def)
  then show ?thesis by simp
qed

text \<open>Left of the image the truncation towards zero goes the wrong way: at \<open>-1/2\<close> the pixels of column 0 and 1 are
  extrapolated, past the range of a byte.\<close>

lemma interp_extrapolates: "interp [0, 255, 0, 255] 2 2 (Fin (- 1/2)) 0 = Fin (- 255/2)"
proof -
  have "\<lceil>- (1/2 :: real)\<rceil> = 0" by (rule ceiling_unique) simp_all
  then show ?thesis by (simp add: interp_def Let_def in_int_range_def int_min_def int_max_def gray_at_def)
qed

section \<open>FAST-9: the quick reject loses nothing\<close>

definition fast9_corner :: "8 word list \<Rightarrow> int \<Rightarrow> int \<Rightarrow> int \<Rightarrow> int \<Rightarrow> bool" where
  "fast9_corner img w x y t \<longleftrightarrow>
     (\<exists>s<16. (\<forall>k<9. gray_at img w x y + t < circle_px img w x y ((s + k) mod 16)) \<or>
             (\<forall>k<9. circle_px img w x y ((s + k) mod 16) < gray_at img w x y - t))"

lemma arc_meets_compass:
  fixes s :: nat
  assumes "s < 16"
  obtains k where "k < 9" "(s + k) mod 16 \<in> {0, 4, 8, 12}"
proof
  show "(4 - s mod 4) mod 4 < 9" by simp
  have "s \<in> {0..<16}" using assms by simp
  then have "s \<in> set [0..<16]" by simp
  then show "(s + (4 - s mod 4) mod 4) mod 16 \<in> {0, 4, 8, 12}" by (simp add: upt_rec) auto
qed

lemma list_all_upt: "list_all P (map f [0..<n]) \<longleftrightarrow> (\<forall>k<n. P (f k))"
  by (auto simp: list_all_iff)

lemma list_ex_upt: "list_ex P [0..<n] \<longleftrightarrow> (\<exists>k<n. P k)"
  by (auto simp: list_ex_iff)

lemma is_fast9_iff: "is_fast9 img w x y t \<longleftrightarrow> fast9_corner img w x y t"
proof -
  let ?p = "circle_px img w x y" and ?c = "gray_at img w x y"
  let ?arc = "\<lambda>s. (\<forall>k<9. ?c + t < ?p ((s + k) mod 16)) \<or> (\<forall>k<9. ?p ((s + k) mod 16) < ?c - t)"
  have loop: "list_ex (\<lambda>s. list_all (\<lambda>v. \<not> v \<le> ?c + t) (map (\<lambda>k. ?p ((s + k) mod 16)) [0..<9]) \<or>
      list_all (\<lambda>v. \<not> ?c - t \<le> v) (map (\<lambda>k. ?p ((s + k) mod 16)) [0..<9])) [0..<16] \<longleftrightarrow> (\<exists>s<16. ?arc s)"
    by (simp only: list_all_upt list_ex_upt not_le)
  have quick: "(\<exists>i\<in>{0, 4, 8, 12}. ?c + t < ?p i) \<or> (\<exists>i\<in>{0, 4, 8, 12}. ?p i < ?c - t)" if "?arc s" "s < 16" for s
    using arc_meets_compass [OF that(2)] that(1) by metis
  have "is_fast9 img w x y t \<longleftrightarrow>
      ((\<exists>i\<in>{0, 4, 8, 12}. ?c + t < ?p i) \<or> (\<exists>i\<in>{0, 4, 8, 12}. ?p i < ?c - t)) \<and> (\<exists>s<16. ?arc s)"
    unfolding is_fast9_def Let_def loop by simp
  then show ?thesis unfolding fast9_corner_def using quick by blast
qed

text \<open>Every pixel the detector reads lies in an image of \<open>w * h\<close> bytes.\<close>

lemma circle_in_image:
  assumes "fast_border \<le> x" "x < w - fast_border" "fast_border \<le> y" "y < h - fast_border" "i < 16"
  shows "nat ((y + fst (kFastCircle ! i)) * w + (x + snd (kFastCircle ! i))) < nat (w * h)"
proof -
  have "kFastCircle ! i \<in> set kFastCircle" using assms(5) by (intro nth_mem) (simp add: kFastCircle_def)
  then have d: "- 3 \<le> fst (kFastCircle ! i)" "fst (kFastCircle ! i) \<le> 3" "- 3 \<le> snd (kFastCircle ! i)" "snd (kFastCircle ! i) \<le> 3"
    by (auto simp: kFastCircle_def simp del: nth_Cons_numeral)
  let ?y = "y + fst (kFastCircle ! i)" and ?x = "x + snd (kFastCircle ! i)"
  have b: "0 \<le> ?x" "?x < w" "0 \<le> ?y" "?y \<le> h - 1" using assms d by (auto simp: fast_border_def)
  have "?y * w \<le> (h - 1) * w" using b by (intro mult_right_mono) auto
  then have "?y * w + ?x < h * w" using b by (simp add: algebra_simps)
  moreover have "0 \<le> ?y * w + ?x" using b by simp
  ultimately show ?thesis by (simp add: mult.commute)
qed

section \<open>Non-maximum suppression\<close>

lemma suppress_keeps: "set acc \<subseteq> set (suppress mx acc xs)"
  by (induction mx acc xs rule: suppress.induct) (auto simp: Let_def)

lemma suppress_from: "set (suppress mx acc xs) \<subseteq> set acc \<union> snd ` set xs"
  by (induction mx acc xs rule: suppress.induct) (auto simp: Let_def split: if_splits)

lemma suppress_apart:
  "sorted_wrt (\<lambda>a p. \<not> nms_near p a) acc \<Longrightarrow> sorted_wrt (\<lambda>a p. \<not> nms_near p a) (suppress mx acc xs)"
proof (induction mx acc xs rule: suppress.induct)
  case (2 mx acc sc pt xs)
  show ?case
  proof (cases "list_ex (nms_near pt) acc")
    case False
    then have "sorted_wrt (\<lambda>a p. \<not> nms_near p a) (acc @ [pt])" using 2(3) by (auto simp: sorted_wrt_append list_ex_iff)
    then show ?thesis using 2(2) [OF False refl] False by (simp add: Let_def)
  qed (use 2 in simp)
qed simp

lemma suppress_length: "int (length acc) < mx \<Longrightarrow> int (length (suppress mx acc xs)) \<le> mx"
  by (induction mx acc xs rule: suppress.induct) (auto simp: Let_def)

text \<open>Below the limit, every corner has a neighbour at least as strong among the accepted ones.\<close>

lemma suppress_covers:
  assumes "sorted_wrt (\<lambda>a b. fst b \<le> fst a) xs" "\<forall>c\<in>set xs. fst c = score (snd c)"
    and "int (length (suppress mx acc xs)) < mx" "c \<in> set xs" "\<forall>a\<in>set acc. \<forall>c\<in>set xs. fst c \<le> score a"
  shows "\<exists>a\<in>set (suppress mx acc xs). nms_near (snd c) a \<and> fst c \<le> score a"
  using assms
proof (induction mx acc xs rule: suppress.induct)
  case (2 mx acc sc pt xs)
  let ?r = "suppress mx acc ((sc, pt) # xs)"
  show ?case
  proof (cases "list_ex (nms_near pt) acc")
    case True
    then obtain a where a: "a \<in> set acc" "nms_near pt a" by (auto simp: list_ex_iff)
    have r: "?r = suppress mx acc xs" using True by simp
    show ?thesis
    proof (cases "c = (sc, pt)")
      case True
      have "a \<in> set ?r" using a(1) suppress_keeps by blast
      moreover have "sc \<le> score a" using 2(7) a(1) by force
      ultimately show ?thesis using True a(2) by auto
    next
      case c: False
      have "\<exists>a\<in>set (suppress mx acc xs). nms_near (snd c) a \<and> fst c \<le> score a"
        by (rule 2(1) [OF True]) (use 2(3-7) c r in auto)
      then show ?thesis by (simp only: r)
    qed
  next
    case False
    then have r: "?r = suppress mx (acc @ [pt]) xs" using 2(5) by (auto simp: Let_def split: if_splits)
    show ?thesis
    proof (cases "c = (sc, pt)")
      case True
      have "pt \<in> set ?r" unfolding r using suppress_keeps [of "acc @ [pt]"] by auto
      moreover have "nms_near pt pt" by (simp add: nms_near_def kNmsDist_def)
      moreover have "sc = score pt" using 2(4) by auto
      ultimately show ?thesis using True by auto
    next
      case c: False
      have lim: "\<not> mx \<le> int (length (acc @ [pt]))" using False 2(5) by (auto simp: Let_def split: if_splits)
      have "\<exists>a\<in>set (suppress mx (acc @ [pt]) xs). nms_near (snd c) a \<and> fst c \<le> score a"
        by (rule 2(2) [OF False refl lim]) (use 2(3-7) c r in auto)
      then show ?thesis by (simp only: r)
    qed
  qed
qed simp

lemma fast_candidates_iff:
  "(s, x, y) \<in> set (fast_candidates img w h t) \<longleftrightarrow>
     fast_border \<le> x \<and> x < w - fast_border \<and> fast_border \<le> y \<and> y < h - fast_border \<and> fast9_corner img w x y t \<and>
     s = fast9_score img w x y t"
  by (auto simp: fast_candidates_def is_fast9_iff)

end
