(* ===== verification/Visual_Odometry.thy ===== *)
theory Visual_Odometry
  imports Visual_Features World_Model Planning_Raycast
begin

text \<open>
  Ego state from telemetry or from the camera alone (\<open>src/sensors/ego_state_provider.cpp\<close>,
  \<open>src/sensors/visual_ego_state_provider.cpp\<close>): the focus of expansion of the tracked corners gives the
  direction of motion, the planning map corrects scale and position, and the reported confidence falls with the
  accumulated drift.  \<open>std::mt19937\<close> with its distribution is a state with a function that draws an index below a
  bound; the fallback provider is an optional function with a state of its own.  A result is \<open>None\<close> when the ray
  march through the planning map does not return.
\<close>

section \<open>Data\<close>

record VisionFrame = FramePacket +
  vf_image :: ImageView
  vf_ego_hint :: "EgoState option"

record EgoStateEstimate =
  ee_ego :: "EgoState option"
  ee_telemetry_available :: bool
  ee_confidence :: double

record VisualOdometryConfig =
  voc_map_frame_id :: MapFrameId
  voc_fast_threshold :: int
  voc_max_features :: int
  voc_min_features :: int
  voc_lk_patch_radius :: int
  voc_lk_iterations :: int
  voc_foe_ransac_iterations :: int
  voc_foe_ransac_threshold :: double
  voc_foe_min_inliers :: int
  voc_initial_scale_m :: double
  voc_scale_update_alpha :: double
  voc_scale_update_min_samples :: int
  voc_relocalization_confidence_threshold :: double
  voc_relocalization_search_radius_m :: double
  voc_translation_noise_per_m :: double
  voc_rotation_noise_per_rad :: double
  voc_fallback_confidence_threshold :: double

definition VisualOdometryConfig_default :: VisualOdometryConfig where
  "VisualOdometryConfig_default =
     \<lparr>voc_map_frame_id = ''map_visual_0001'', voc_fast_threshold = 20, voc_max_features = 200, voc_min_features = 40,
      voc_lk_patch_radius = 3, voc_lk_iterations = 5, voc_foe_ransac_iterations = 80, voc_foe_ransac_threshold = Fin (3/2),
      voc_foe_min_inliers = 6, voc_initial_scale_m = Fin (1/10), voc_scale_update_alpha = Fin (1/10),
      voc_scale_update_min_samples = 5, voc_relocalization_confidence_threshold = Fin (1/2),
      voc_relocalization_search_radius_m = 5, voc_translation_noise_per_m = Fin (1/100),
      voc_rotation_noise_per_rad = Fin (2/100), voc_fallback_confidence_threshold = Fin (3/10)\<rparr>"

record MetricScaleEstimate =
  ms_scale :: double
  ms_confidence :: double
  ms_age_s :: double

record VisualOdometryState =
  vo_position :: Vec3
  vo_rotation :: Matrix3
  vo_scale :: MetricScaleEstimate
  vo_cumulative_drift_m :: double
  vo_translation_sigma :: double
  vo_rotation_sigma :: double
  vo_features :: "TrackedFeature list"
  vo_prev_gray :: "8 word list"
  vo_prev_width :: int
  vo_prev_height :: int
  vo_initialized :: bool

definition identity_rotation :: Matrix3 where
  "identity_rotation = \<lparr>m00 = 1, m01 = 0, m02 = 0, m10 = 0, m11 = 1, m12 = 0, m20 = 0, m21 = 0, m22 = 1\<rparr>"

definition VisualEgoStateProvider_init :: "VisualOdometryConfig \<Rightarrow> VisualOdometryState" where
  "VisualEgoStateProvider_init config =
     \<lparr>vo_position = vec3_zero, vo_rotation = identity_rotation,
      vo_scale = \<lparr>ms_scale = voc_initial_scale_m config, ms_confidence = Fin (1/10), ms_age_s = 0\<rparr>,
      vo_cumulative_drift_m = 0, vo_translation_sigma = 0, vo_rotation_sigma = 0, vo_features = [], vo_prev_gray = [],
      vo_prev_width = 0, vo_prev_height = 0, vo_initialized = False\<rparr>"

section \<open>The providers that read telemetry\<close>

definition frame_hint_estimate :: "MapFrameId \<Rightarrow> VisionFrame \<Rightarrow> EgoStateEstimate" where
  "frame_hint_estimate fallback_map_frame_id frame =
     (case vf_ego_hint frame of
        Some hint \<Rightarrow> \<lparr>ee_ego = Some hint, ee_telemetry_available = True, ee_confidence = Fin (95/100)\<rparr>
      | None \<Rightarrow> \<lparr>ee_ego = Some (EgoState_default\<lparr>ego_timestamp := fp_timestamp frame, ego_map_frame_id := fallback_map_frame_id\<rparr>),
                 ee_telemetry_available = False, ee_confidence = Fin (2/10)\<rparr>)"

definition no_telemetry_estimate :: "MapFrameId \<Rightarrow> VisionFrame \<Rightarrow> EgoStateEstimate" where
  "no_telemetry_estimate fallback_map_frame_id frame =
     \<lparr>ee_ego = Some (EgoState_default\<lparr>ego_timestamp := fp_timestamp frame, ego_map_frame_id := fallback_map_frame_id\<rparr>),
      ee_telemetry_available = False, ee_confidence = Fin (1/10)\<rparr>"

section \<open>The focus of expansion\<close>

type_synonym Point2 = "double \<times> double"
type_synonym Correspondence = "Point2 \<times> Point2"

definition flow_of :: "Correspondence \<Rightarrow> Point2" where
  "flow_of c = (fst (snd c) - fst (fst c), snd (snd c) - snd (fst c))"

definition flow_length :: "Correspondence \<Rightarrow> double" where
  "flow_length c = (let (fx, fy) = flow_of c in std_sqrt (fx * fx + fy * fy))"

record FoeResult =
  foe_valid :: bool
  foe_tx :: double
  foe_ty :: double
  foe_omega :: Vec3
  foe_inliers :: int

definition FoeResult_default :: FoeResult where
  "FoeResult_default = \<lparr>foe_valid = False, foe_tx = 0, foe_ty = 0, foe_omega = vec3_zero, foe_inliers = 0\<rparr>"

text \<open>The point two flow lines meet in.\<close>

definition foe_of_pair :: "Correspondence \<Rightarrow> Correspondence \<Rightarrow> Point2 option" where
  "foe_of_pair ca cb =
     (let (fxa, fya) = flow_of ca; (fxb, fyb) = flow_of cb;
          a0 = fya; a1 = - fxa; a2 = fyb; a3 = - fxb;
          rhs0 = fya * fst (fst ca) - fxa * snd (fst ca);
          rhs1 = fyb * fst (fst cb) - fxb * snd (fst cb);
          det = a0 * a3 - a1 * a2
      in if std_abs det < Fin (1 / 10 ^ 10) then None
         else Some ((rhs0 * a3 - rhs1 * a1) / det, (rhs1 * a0 - rhs0 * a2) / det))"

definition static_flow :: double where "static_flow = Fin (1 / 10 ^ 6)"

definition flow_line_cross :: "Point2 \<Rightarrow> Correspondence \<Rightarrow> double" where
  "flow_line_cross e c =
     (let (fx, fy) = flow_of c in fx * (snd (fst c) - snd e) - fy * (fst (fst c) - fst e))"

definition foe_inlier :: "double \<Rightarrow> Point2 \<Rightarrow> Correspondence \<Rightarrow> bool" where
  "foe_inlier threshold_norm e c =
     (let fl = flow_length c in if fl < static_flow then True else std_abs (flow_line_cross e c) / fl < threshold_norm)"

definition foe_try :: "Correspondence list \<Rightarrow> double \<Rightarrow> int \<Rightarrow> nat \<Rightarrow> nat \<Rightarrow> FoeResult \<Rightarrow> FoeResult" where
  "foe_try cs threshold_norm min_inliers a b best =
     (if a = b then best
      else case foe_of_pair (cs ! a) (cs ! b) of
        None \<Rightarrow> best
      | Some e \<Rightarrow>
          let inliers = int (length (filter (foe_inlier threshold_norm e) cs))
          in if foe_inliers best < inliers
             then best\<lparr>foe_inliers := inliers, foe_tx := fst e, foe_ty := snd e, foe_valid := min_inliers \<le> inliers\<rparr>
             else best)"

fun foe_search :: "('g \<Rightarrow> nat \<Rightarrow> nat \<times> 'g) \<Rightarrow> Correspondence list \<Rightarrow> double \<Rightarrow> int \<Rightarrow> nat \<Rightarrow> FoeResult \<Rightarrow> 'g \<Rightarrow> FoeResult \<times> 'g" where
  "foe_search draw cs threshold_norm min_inliers 0 best g = (best, g)"
| "foe_search draw cs threshold_norm min_inliers (Suc n) best g =
     (let (a, g1) = draw g (length cs); (b, g2) = draw g1 (length cs)
      in foe_search draw cs threshold_norm min_inliers n (foe_try cs threshold_norm min_inliers a b best) g2)"

definition refit_inliers :: "double \<Rightarrow> Point2 \<Rightarrow> Correspondence list \<Rightarrow> Correspondence list" where
  "refit_inliers threshold_norm e cs =
     filter (\<lambda>c. \<not> (static_flow \<le> flow_length c \<and> threshold_norm \<le> std_abs (flow_line_cross e c) / flow_length c)) cs"

definition foe_refit :: "double \<Rightarrow> Correspondence list \<Rightarrow> FoeResult \<Rightarrow> FoeResult" where
  "foe_refit threshold_norm cs best =
     (let ins = refit_inliers threshold_norm (foe_tx best, foe_ty best) cs;
          fx = (\<lambda>c. fst (flow_of c)); fy = (\<lambda>c. snd (flow_of c));
          line = (\<lambda>c. fy c * fst (fst c) - fx c * snd (fst c));
          ata0 = double_sum (map (\<lambda>c. fy c * fy c) ins);
          ata1 = foldl (\<lambda>s c. s - fy c * fx c) 0 ins;
          ata2 = foldl (\<lambda>s c. s - fx c * fy c) 0 ins;
          ata3 = double_sum (map (\<lambda>c. fx c * fx c) ins);
          atb0 = double_sum (map (\<lambda>c. fy c * line c) ins);
          atb1 = foldl (\<lambda>s c. s - fx c * line c) 0 ins;
          det2 = ata0 * ata3 - ata1 * ata2
      in if Fin (1 / 10 ^ 12) < std_abs det2
         then best\<lparr>foe_tx := (atb0 * ata3 - atb1 * ata1) / det2, foe_ty := (atb1 * ata0 - atb0 * ata2) / det2\<rparr>
         else best)"

definition det3 :: "Matrix3 \<Rightarrow> double" where
  "det3 M = m00 M * (m11 M * m22 M - m12 M * m21 M) - m01 M * (m10 M * m22 M - m12 M * m20 M)
          + m02 M * (m10 M * m21 M - m11 M * m20 M)"

definition omega_inliers :: "double \<Rightarrow> FoeResult \<Rightarrow> Correspondence list \<Rightarrow> Correspondence list" where
  "omega_inliers threshold_norm best cs =
     filter (\<lambda>c. \<not> flow_length c < static_flow \<and>
                 \<not> threshold_norm \<le> std_abs (flow_line_cross (foe_tx best, foe_ty best) c) / flow_length c) cs"

text \<open>The normal equations for the angular velocity; the code never adds to the third right-hand side.\<close>

definition omega_matrix :: "Correspondence list \<Rightarrow> Matrix3" where
  "omega_matrix ins =
     (let px = (\<lambda>c. fst (fst c)); py = (\<lambda>c. snd (fst c));
          n = double_sum (map (\<lambda>c. 1) ins);
          spx = double_sum (map px ins); snpy = double_sum (map (\<lambda>c. - py c) ins)
      in \<lparr>m00 = n, m01 = 0, m02 = snpy, m10 = 0, m11 = n, m12 = spx, m20 = snpy, m21 = spx,
          m22 = double_sum (map (\<lambda>c. px c * px c + py c * py c) ins)\<rparr>)"

definition omega_rhs :: "FoeResult \<Rightarrow> Correspondence list \<Rightarrow> Vec3" where
  "omega_rhs best ins =
     (let foe_norm = std_sqrt (foe_tx best * foe_tx best + foe_ty best * foe_ty best + 1);
          txu = foe_tx best / foe_norm; tyu = foe_ty best / foe_norm;
          rfx = (\<lambda>c. fst (flow_of c) - (txu - fst (fst c)) / 1 * flow_length c);
          rfy = (\<lambda>c. snd (flow_of c) - (tyu - snd (fst c)) / 1 * flow_length c)
      in vec3 (double_sum (map (\<lambda>c. - rfx c) ins)) (double_sum (map rfy ins)) 0)"

definition solve_omega :: "Matrix3 \<Rightarrow> Vec3 \<Rightarrow> Vec3 option" where
  "solve_omega Ro Rs =
     (let d = det3 Ro
      in if Fin (1 / 10 ^ 10) < std_abs d
         then Some (vec3 (det3 (Ro\<lparr>m00 := vx Rs, m10 := vy Rs, m20 := vz Rs\<rparr>) / d)
                         (det3 (Ro\<lparr>m01 := vx Rs, m11 := vy Rs, m21 := vz Rs\<rparr>) / d)
                         (det3 (Ro\<lparr>m02 := vx Rs, m12 := vy Rs, m22 := vz Rs\<rparr>) / d))
         else None)"

definition foe_ransac :: "('g \<Rightarrow> nat \<Rightarrow> nat \<times> 'g) \<Rightarrow> Correspondence list \<Rightarrow> int \<Rightarrow> double \<Rightarrow> int \<Rightarrow> 'g \<Rightarrow> FoeResult \<times> 'g" where
  "foe_ransac draw cs iterations threshold_norm min_inliers g =
     (if length cs < 8 then (FoeResult_default, g)
      else
        let (best, g') = foe_search draw cs threshold_norm min_inliers (nat iterations) FoeResult_default g
        in if \<not> foe_valid best then (best, g')
           else
             let best = foe_refit threshold_norm cs best;
                 ins = omega_inliers threshold_norm best cs
             in (case solve_omega (omega_matrix ins) (omega_rhs best ins) of
                   Some w \<Rightarrow> best\<lparr>foe_omega := w\<rparr>
                 | None \<Rightarrow> best, g'))"

section \<open>Rotations\<close>

definition mat3_mul :: "Matrix3 \<Rightarrow> Matrix3 \<Rightarrow> Matrix3" where
  "mat3_mul A B =
     \<lparr>m00 = m00 A * m00 B + m01 A * m10 B + m02 A * m20 B, m01 = m00 A * m01 B + m01 A * m11 B + m02 A * m21 B,
      m02 = m00 A * m02 B + m01 A * m12 B + m02 A * m22 B,
      m10 = m10 A * m00 B + m11 A * m10 B + m12 A * m20 B, m11 = m10 A * m01 B + m11 A * m11 B + m12 A * m21 B,
      m12 = m10 A * m02 B + m11 A * m12 B + m12 A * m22 B,
      m20 = m20 A * m00 B + m21 A * m10 B + m22 A * m20 B, m21 = m20 A * m01 B + m21 A * m11 B + m22 A * m21 B,
      m22 = m20 A * m02 B + m21 A * m12 B + m22 A * m22 B\<rparr>"

definition rot_from_omega :: "Vec3 \<Rightarrow> Matrix3" where
  "rot_from_omega omega =
     (let ax = vx omega; ay = vy omega; az = vz omega; theta2 = ax * ax + ay * ay + az * az
      in if theta2 < Fin (1 / 10 ^ 20) then identity_rotation
         else let theta = std_sqrt theta2; s = std_sin theta / theta; c1 = (1 - std_cos theta) / theta2
              in \<lparr>m00 = 1 - c1 * (ay * ay + az * az), m01 = - s * az + c1 * ax * ay, m02 = s * ay + c1 * ax * az,
                  m10 = s * az + c1 * ax * ay, m11 = 1 - c1 * (ax * ax + az * az), m12 = - s * ax + c1 * ay * az,
                  m20 = - s * ay + c1 * ax * az, m21 = s * ax + c1 * ay * az, m22 = 1 - c1 * (ax * ax + ay * ay)\<rparr>)"

definition rotation_from_yaw :: "double \<Rightarrow> Matrix3" where
  "rotation_from_yaw yaw =
     (let cy = std_cos yaw; sy = std_sin yaw
      in mat3_mul \<lparr>m00 = cy, m01 = - sy, m02 = 0, m10 = sy, m11 = cy, m12 = 0, m20 = 0, m21 = 0, m22 = 1\<rparr>
                  \<lparr>m00 = 0, m01 = 0, m02 = 1, m10 = 1, m11 = 0, m12 = 0, m20 = 0, m21 = 1, m22 = 0\<rparr>)"

section \<open>One frame of odometry\<close>

definition refresh_features :: "(ScoredCorner list \<Rightarrow> ScoredCorner list) \<Rightarrow> VisualOdometryConfig \<Rightarrow> 8 word list \<Rightarrow> int \<Rightarrow> int \<Rightarrow>
    VisualOdometryState \<Rightarrow> TrackedFeature list" where
  "refresh_features sorter config gray width height st =
     (let tracked = (if vo_prev_gray st \<noteq> []
                     then track_lk (vo_prev_gray st) gray width height (voc_lk_patch_radius config) (voc_lk_iterations config) (vo_features st)
                     else vo_features st);
          kept = filter tf_valid tracked
      in if int (length kept) < voc_min_features config
         then detect_fast9 sorter gray width height (voc_fast_threshold config) (voc_max_features config) kept
         else kept)"

definition correspondence :: "CameraIntrinsics \<Rightarrow> TrackedFeature \<Rightarrow> Correspondence" where
  "correspondence K f =
     (((tf_x_prev f - ci_cx K) / ci_fx K, (tf_y_prev f - ci_cy K) / ci_fy K),
      ((tf_x f - ci_cx K) / ci_fx K, (tf_y f - ci_cy K) / ci_fy K))"

definition seen_before :: "int \<Rightarrow> TrackedFeature \<Rightarrow> bool" where
  "seen_before n f \<longleftrightarrow> tf_valid f \<and> \<not> tf_age f < n"

definition correspondences :: "CameraIntrinsics \<Rightarrow> TrackedFeature list \<Rightarrow> Correspondence list" where
  "correspondences K fs = map (correspondence K) (filter (seen_before 1) fs)"

definition rotated :: "Matrix3 \<Rightarrow> double \<Rightarrow> double \<Rightarrow> double \<Rightarrow> Vec3" where
  "rotated R x y z =
     vec3 (m00 R * x + m01 R * y + m02 R * z) (m10 R * x + m11 R * y + m12 R * z) (m20 R * x + m21 R * y + m22 R * z)"

definition move_by :: "Vec3 \<Rightarrow> double \<Rightarrow> Vec3 \<Rightarrow> Vec3" where
  "move_by p s v = vec3 (vx p + s * vx v) (vy p + s * vy v) (vz p + s * vz v)"

definition apply_mean_flow :: "VisualOdometryConfig \<Rightarrow> double \<Rightarrow> Correspondence list \<Rightarrow> VisualOdometryState \<Rightarrow> double \<times> VisualOdometryState" where
  "apply_mean_flow config threshold_norm cs st =
     (let n = Fin (real (length cs));
          mx = double_sum (map (\<lambda>c. fst (flow_of c)) cs) / n;
          my = double_sum (map (\<lambda>c. snd (flow_of c)) cs) / n;
          mfl = std_sqrt (mx * mx + my * my)
      in if mfl < threshold_norm then (0, st)
         else
           let scale = ms_scale (vo_scale st); R = vo_rotation st; tx = mx / mfl; ty = my / mfl
           in (n / Fin (real (max (length (vo_features st)) 1)),
               st\<lparr>vo_position := move_by (vo_position st) scale
                    (vec3 (m00 R * tx + m01 R * ty) (m10 R * tx + m11 R * ty) (m20 R * tx + m21 R * ty)),
                  vo_cumulative_drift_m := vo_cumulative_drift_m st + scale,
                  vo_translation_sigma := vo_translation_sigma st + scale * voc_translation_noise_per_m config\<rparr>))"

definition integrate_foe :: "VisualOdometryConfig \<Rightarrow> FoeResult \<Rightarrow> double \<Rightarrow> VisualOdometryState \<Rightarrow> VisualOdometryState" where
  "integrate_foe config foe inlier_frac st =
     (let R = mat3_mul (rot_from_omega (foe_omega foe)) (vo_rotation st);
          tnorm = std_sqrt (foe_tx foe * foe_tx foe + foe_ty foe * foe_ty foe + 1);
          scale = ms_scale (vo_scale st); w = foe_omega foe;
          omega_mag = std_sqrt (vx w * vx w + vy w * vy w + vz w * vz w)
      in st\<lparr>vo_rotation := R,
            vo_position := move_by (vo_position st) scale (rotated R (foe_tx foe / tnorm) (foe_ty foe / tnorm) (1 / tnorm)),
            vo_cumulative_drift_m := vo_cumulative_drift_m st + (1 - inlier_frac) * scale,
            vo_translation_sigma := vo_translation_sigma st + scale * voc_translation_noise_per_m config,
            vo_rotation_sigma := vo_rotation_sigma st + omega_mag * voc_rotation_noise_per_rad config\<rparr>)"

definition step_vl1 :: "('g \<Rightarrow> nat \<Rightarrow> nat \<times> 'g) \<Rightarrow> (ScoredCorner list \<Rightarrow> ScoredCorner list) \<Rightarrow> VisualOdometryConfig \<Rightarrow>
    8 word list \<Rightarrow> int \<Rightarrow> int \<Rightarrow> CameraIntrinsics \<Rightarrow> VisualOdometryState \<Rightarrow> 'g \<Rightarrow> double \<times> VisualOdometryState \<times> 'g" where
  "step_vl1 draw sorter config gray width height K st g =
     (let st = st\<lparr>vo_features := refresh_features sorter config gray width height st\<rparr>
      in if length (vo_features st) < 8 then (0, st, g)
         else
           let cs = correspondences K (vo_features st)
           in if cs = [] then (0, st, g)
              else
                let threshold_norm = voc_foe_ransac_threshold config / ci_fx K
                in if int (length cs) < voc_foe_min_inliers config
                   then let (frac, st') = apply_mean_flow config threshold_norm cs st in (frac, st', g)
                   else
                     let (foe, g') = foe_ransac draw cs (voc_foe_ransac_iterations config) threshold_norm (voc_foe_min_inliers config) g
                     in if \<not> foe_valid foe
                        then let (frac, st') = apply_mean_flow config threshold_norm cs st in (frac, st', g')
                        else let frac = Fin (of_int (foe_inliers foe)) / Fin (real (length cs))
                             in (frac, integrate_foe config foe frac st, g'))"

section \<open>Scale and position from the planning map\<close>

definition pm_cell_count :: "PlanningMap \<Rightarrow> nat" where
  "pm_cell_count m = length (pm_cells m)"

definition vec_distance :: "Vec3 \<Rightarrow> Vec3 \<Rightarrow> double" where
  "vec_distance a b =
     (let dx = vx a - vx b; dy = vy a - vy b; dz = vz a - vz b in std_sqrt (dx * dx + dy * dy + dz * dz))"

text \<open>The metric depth the depth frame has at a feature, if it is usable.\<close>

definition feature_depth :: "int \<Rightarrow> int \<Rightarrow> AirSimDepthFrame \<Rightarrow> TrackedFeature \<Rightarrow> double option" where
  "feature_depth width height df f =
     (let dw = df_width df; dh = df_height df;
          dxi = trunc_to_int (tf_x f * Fin (of_int dw) / Fin (of_int width));
          dyi = trunc_to_int (tf_y f * Fin (of_int dh) / Fin (of_int height))
      in if dxi < 0 \<or> dw \<le> dxi \<or> dyi < 0 \<or> dh \<le> dyi then None
         else let dm = df_depth_m df ! nat (dyi * dw + dxi)
              in if dm \<le> Fin (5/100) \<or> 80 < dm then None else Some dm)"

definition feature_ray :: "CameraIntrinsics \<Rightarrow> Matrix3 \<Rightarrow> TrackedFeature \<Rightarrow> Vec3" where
  "feature_ray K R f =
     (let ndx = (tf_x f - ci_cx K) / ci_fx K; ndy = (tf_y f - ci_cy K) / ci_fy K;
          rn = std_sqrt (ndx * ndx + ndy * ndy + 1); v = rotated R ndx ndy 1
      in vec3 (vx v / rn) (vy v / rn) (vz v / rn))"

definition implied_scale :: "PlanningMap \<Rightarrow> int \<Rightarrow> int \<Rightarrow> AirSimDepthFrame \<Rightarrow> CameraIntrinsics \<Rightarrow> VisualOdometryState \<Rightarrow>
    TrackedFeature \<Rightarrow> double option option" where
  "implied_scale m width height df K st f =
     (case (if seen_before 1 f then feature_depth width height df f else None) of
        None \<Rightarrow> Some None
      | Some dm \<Rightarrow>
          (case ray_cast m (vo_position st) (feature_ray K (vo_rotation st) f) 50 of
             None \<Rightarrow> None
           | Some None \<Rightarrow> Some None
           | Some (Some hit) \<Rightarrow>
               let l2_dist = vec_distance hit (vo_position st)
               in Some (if l2_dist < Fin (1/10) then None else Some (l2_dist / dm * ms_scale (vo_scale st)))))"

fun collect_scales :: "('a \<Rightarrow> double option option) \<Rightarrow> 'a list \<Rightarrow> double list option" where
  "collect_scales f [] = Some []"
| "collect_scales f (x # xs) =
     (case f x of
        None \<Rightarrow> None
      | Some r \<Rightarrow> map_option (\<lambda>ss. case r of None \<Rightarrow> ss | Some s \<Rightarrow> s # ss) (collect_scales f xs))"

definition update_scale_vl2 :: "PlanningMap \<Rightarrow> VisualOdometryConfig \<Rightarrow> int \<Rightarrow> int \<Rightarrow> AirSimDepthFrame \<Rightarrow> CameraIntrinsics \<Rightarrow>
    VisualOdometryState \<Rightarrow> VisualOdometryState option" where
  "update_scale_vl2 m config width height df K st =
     (if pm_cell_count m = 0 then Some st
      else map_option (\<lambda>scales.
        if int (length scales) < voc_scale_update_min_samples config then st
        else
          let new_scale = double_sum scales / Fin (real (length scales)); alpha = voc_scale_update_alpha config; s = vo_scale st
          in st\<lparr>vo_scale := s\<lparr>ms_scale := (1 - alpha) * ms_scale s + alpha * new_scale,
                              ms_confidence := std_min 1 (ms_confidence s + Fin (5/100))\<rparr>\<rparr>)
        (collect_scales (implied_scale m width height df K st) (vo_features st)))"

definition predicted_feature :: "VisualOdometryState \<Rightarrow> TrackedFeature \<Rightarrow> Vec3" where
  "predicted_feature st f =
     (let depth = ms_scale (vo_scale st) * 5; ndx = (tf_x f - 320) / 525; ndy = (tf_y f - 240) / 525
      in move_by (vo_position st) depth (rotated (vo_rotation st) ndx ndy 1))"

definition squared_distance :: "Vec3 \<Rightarrow> Vec3 \<Rightarrow> double" where
  "squared_distance v p = (vx v - vx p) * (vx v - vx p) + (vy v - vy p) * (vy v - vy p) + (vz v - vz p) * (vz v - vz p)"

definition nearest_voxel :: "Vec3 list \<Rightarrow> double \<Rightarrow> Vec3 \<Rightarrow> Vec3 option \<times> double" where
  "nearest_voxel voxels r p =
     foldl (\<lambda>(near, best_d2) v. let d2 = squared_distance v p in if d2 < best_d2 then (Some v, d2) else (near, best_d2))
       (None, r * r) voxels"

definition voxel_offset :: "Vec3 list \<Rightarrow> double \<Rightarrow> VisualOdometryState \<Rightarrow> TrackedFeature \<Rightarrow> Vec3 option" where
  "voxel_offset voxels r st f =
     (if \<not> seen_before 2 f then None
      else let p = predicted_feature st f
           in case nearest_voxel voxels r p of
                (None, _) \<Rightarrow> None
              | (Some v, d2) \<Rightarrow> if 2 < std_sqrt d2 then None
                                else Some (vec3 (vx v - vx p) (vy v - vy p) (vz v - vz p)))"

text \<open>\<open>std::nth_element\<close> puts the value of rank \<open>n / 2\<close> at position \<open>n / 2\<close>.\<close>

definition rank_median :: "double list \<Rightarrow> double" where
  "rank_median v = sort_key real_of_double v ! (length v div 2)"

definition relocalize_vl2 :: "PlanningMap \<Rightarrow> VisualOdometryConfig \<Rightarrow> VisualOdometryState \<Rightarrow> VisualOdometryState" where
  "relocalize_vl2 m config st =
     (if pm_cell_count m = 0 then st
      else
        let r = voc_relocalization_search_radius_m config; p = vo_position st;
            voxels = query_occupied_in_box m
              \<lparr>bmin = vec3 (vx p - r) (vy p - r) (vz p - r), bmax = vec3 (vx p + r) (vy p + r) (vz p + r)\<rparr>
        in if length voxels < 4 then st
           else
             let offsets = List.map_filter (voxel_offset voxels r st) (vo_features st)
             in if length offsets < 4 then st
                else st\<lparr>vo_position := vec3 (vx p + rank_median (map vx offsets)) (vy p + rank_median (map vy offsets))
                                            (vz p + rank_median (map vz offsets)),
                        vo_cumulative_drift_m := vo_cumulative_drift_m st * half,
                        vo_translation_sigma := vo_translation_sigma st * half\<rparr>)"

section \<open>The estimate of a frame\<close>

definition visual_dt_s :: double where "visual_dt_s = Fin (1/30)"

definition vec_length :: "Vec3 \<Rightarrow> double" where
  "vec_length v = std_sqrt (vx v * vx v + vy v * vy v + vz v * vz v)"

definition moving_speed :: double where "moving_speed = Fin (5/100)"

definition first_frame :: "(ScoredCorner list \<Rightarrow> ScoredCorner list) \<Rightarrow> VisualOdometryConfig \<Rightarrow> VisionFrame \<Rightarrow> 8 word list \<Rightarrow>
    VisualOdometryState \<Rightarrow> EgoStateEstimate \<times> VisualOdometryState" where
  "first_frame sorter config frame gray st =
     (let w = iv_width (vf_image frame); h = iv_height (vf_image frame);
          st = st\<lparr>vo_prev_gray := gray, vo_prev_width := w, vo_prev_height := h, vo_initialized := True,
                  vo_features := detect_fast9 sorter gray w h (voc_fast_threshold config) (voc_max_features config) (vo_features st)\<rparr>;
          st = (case vf_ego_hint frame of
                  None \<Rightarrow> st
                | Some hint \<Rightarrow> st\<lparr>vo_position := position (ego_local_T_body hint),
                                  vo_rotation := rotation_from_yaw (vz (rotation_rpy (ego_local_T_body hint)))\<rparr>);
          st = st\<lparr>vo_scale := (vo_scale st)\<lparr>ms_scale := voc_initial_scale_m config, ms_confidence := Fin (1/10)\<rparr>\<rparr>;
          ego = EgoState_default\<lparr>ego_timestamp := fp_timestamp frame, ego_map_frame_id := voc_map_frame_id config,
                  ego_local_T_body := (ego_local_T_body EgoState_default)\<lparr>position := vo_position st\<rparr>, ego_confidence := Fin (1/10)\<rparr>
      in (\<lparr>ee_ego = Some ego, ee_telemetry_available = False, ee_confidence = Fin (1/10)\<rparr>, st))"

definition scale_from_hint :: "VisionFrame \<Rightarrow> VisualOdometryState \<Rightarrow> VisualOdometryState" where
  "scale_from_hint frame st =
     (case vf_ego_hint frame of
        None \<Rightarrow> st
      | Some hint \<Rightarrow>
          let speed = vec_length (ego_velocity_local hint)
          in if moving_speed < speed
             then st\<lparr>vo_scale := (vo_scale st)\<lparr>ms_scale := speed * visual_dt_s, ms_confidence := Fin (1/2)\<rparr>\<rparr> else st)"

definition frame_intrinsics :: "VisionFrame \<Rightarrow> CameraIntrinsics" where
  "frame_intrinsics frame =
     (if 1 < ci_fx (fp_intrinsics frame) then fp_intrinsics frame
      else \<lparr>ci_fx = 525, ci_fy = 525, ci_cx = Fin (of_int (iv_width (vf_image frame))) / 2,
            ci_cy = Fin (of_int (iv_height (vf_image frame))) / 2, ci_distortion_k1 = 0, ci_distortion_k2 = 0\<rparr>)"

definition dead_reckoning :: "VisualOdometryConfig \<Rightarrow> VisionFrame \<Rightarrow> double \<Rightarrow> VisualOdometryState \<Rightarrow> VisualOdometryState" where
  "dead_reckoning config frame inlier_frac st =
     (case vf_ego_hint frame of
        None \<Rightarrow> st
      | Some hint \<Rightarrow>
          if \<not> deq inlier_frac 0 then st
          else
            let v = ego_velocity_local hint; spd = vec_length v
            in if moving_speed < spd
               then st\<lparr>vo_position := vec3 (vx (vo_position st) + vx v * visual_dt_s) (vy (vo_position st) + vy v * visual_dt_s)
                                           (vz (vo_position st) + vz v * visual_dt_s),
                       vo_cumulative_drift_m := vo_cumulative_drift_m st + spd * visual_dt_s,
                       vo_translation_sigma := vo_translation_sigma st + spd * visual_dt_s * voc_translation_noise_per_m config\<rparr>
               else st)"

definition heading_from_hint :: "VisionFrame \<Rightarrow> VisualOdometryState \<Rightarrow> VisualOdometryState" where
  "heading_from_hint frame st =
     (case vf_ego_hint frame of
        None \<Rightarrow> st
      | Some hint \<Rightarrow> st\<lparr>vo_rotation := rotation_from_yaw (vz (rotation_rpy (ego_local_T_body hint)))\<rparr>)"

definition drift_confidence :: "VisualOdometryState \<Rightarrow> double" where
  "drift_confidence st = 1 / (1 + vo_cumulative_drift_m st)"

definition correct_from_map :: "PlanningMap option \<Rightarrow> VisualOdometryConfig \<Rightarrow> VisionFrame \<Rightarrow> CameraIntrinsics \<Rightarrow>
    VisualOdometryState \<Rightarrow> VisualOdometryState option" where
  "correct_from_map l2_map config frame K st =
     (case l2_map of
        None \<Rightarrow> Some st
      | Some m \<Rightarrow>
          map_option (\<lambda>st. if drift_confidence st < voc_relocalization_confidence_threshold config then relocalize_vl2 m config st else st)
            (case fp_depth_frame frame of
               None \<Rightarrow> Some st
             | Some df \<Rightarrow> update_scale_vl2 m config (iv_width (vf_image frame)) (iv_height (vf_image frame)) df K st))"

definition reported_ego :: "VisualOdometryConfig \<Rightarrow> VisionFrame \<Rightarrow> VisualOdometryState \<Rightarrow> EgoState" where
  "reported_ego config frame st =
     (let R = vo_rotation st;
          ego = EgoState_default\<lparr>ego_timestamp := fp_timestamp frame, ego_map_frame_id := voc_map_frame_id config,
            ego_local_T_body := \<lparr>position = vo_position st,
              rotation_rpy = vec3 (std_atan2 (m21 R) (m22 R))
                                  (std_atan2 (- m20 R) (std_sqrt (m21 R * m21 R + m22 R * m22 R)))
                                  (std_atan2 (m10 R) (m00 R))\<rparr>\<rparr>;
          ego = (case vf_ego_hint frame of
                   None \<Rightarrow> ego
                 | Some hint \<Rightarrow> ego\<lparr>ego_height_m := ego_height_m hint, ego_height_valid := ego_height_valid hint,
                                    ego_velocity_local := ego_velocity_local hint\<rparr>)
      in ego\<lparr>ego_confidence := drift_confidence st\<rparr>)"

text \<open>
  The last step: hand over to the fallback when the confidence is low, otherwise report the pose and keep the
  image.  The handover returns before the image is kept.
\<close>

definition conclude_frame :: "(VisionFrame \<Rightarrow> 'f \<Rightarrow> EgoStateEstimate \<times> 'f) option \<Rightarrow> VisualOdometryConfig \<Rightarrow> VisionFrame \<Rightarrow> 8 word list \<Rightarrow>
    VisualOdometryState \<Rightarrow> 'f \<Rightarrow> EgoStateEstimate \<times> VisualOdometryState \<times> 'f" where
  "conclude_frame fallback config frame gray st fs =
     (case fallback of
        Some fb \<Rightarrow>
          if drift_confidence st < voc_fallback_confidence_threshold config
          then let (est, fs') = fb frame fs
               in (est, (case ee_ego est of
                           None \<Rightarrow> st
                         | Some ego \<Rightarrow> st\<lparr>vo_position := position (ego_local_T_body ego),
                             vo_cumulative_drift_m := vo_cumulative_drift_m st * Fin (3/10),
                             vo_translation_sigma := vo_translation_sigma st * Fin (3/10)\<rparr>), fs')
          else (\<lparr>ee_ego = Some (reported_ego config frame st), ee_telemetry_available = False, ee_confidence = drift_confidence st\<rparr>,
                st\<lparr>vo_prev_gray := gray, vo_prev_width := iv_width (vf_image frame), vo_prev_height := iv_height (vf_image frame)\<rparr>, fs)
      | None \<Rightarrow>
          (\<lparr>ee_ego = Some (reported_ego config frame st), ee_telemetry_available = False, ee_confidence = drift_confidence st\<rparr>,
           st\<lparr>vo_prev_gray := gray, vo_prev_width := iv_width (vf_image frame), vo_prev_height := iv_height (vf_image frame)\<rparr>, fs))"

definition visual_estimate :: "('g \<Rightarrow> nat \<Rightarrow> nat \<times> 'g) \<Rightarrow> (ScoredCorner list \<Rightarrow> ScoredCorner list) \<Rightarrow> PlanningMap option \<Rightarrow>
    (VisionFrame \<Rightarrow> 'f \<Rightarrow> EgoStateEstimate \<times> 'f) option \<Rightarrow> VisualOdometryConfig \<Rightarrow> VisionFrame \<Rightarrow>
    VisualOdometryState \<times> 'g \<times> 'f \<Rightarrow> (EgoStateEstimate \<times> VisualOdometryState \<times> 'g \<times> 'f) option" where
  "visual_estimate draw sorter l2_map fallback config frame s =
     (let (st, g, fs) = s; w = iv_width (vf_image frame); h = iv_height (vf_image frame)
      in if w \<le> 0 \<or> h \<le> 0 \<or> iv_bytes (vf_image frame) = []
         then Some (\<lparr>ee_ego = None, ee_telemetry_available = False, ee_confidence = 0\<rparr>, st, g, fs)
         else
           let gray = gray_image (vf_image frame)
           in if \<not> vo_initialized st
              then let (est, st') = first_frame sorter config frame gray st in Some (est, st', g, fs)
              else
                let K = frame_intrinsics frame;
                    (inlier_frac, st1, g') = step_vl1 draw sorter config gray w h K (scale_from_hint frame st) g;
                    st2 = heading_from_hint frame (dead_reckoning config frame inlier_frac st1)
                in map_option (\<lambda>st3. let (est, st', fs') = conclude_frame fallback config frame gray st3 fs in (est, st', g', fs'))
                     (correct_from_map l2_map config frame K st2))"

end
