(* ===== verification/Odometry_Flow.thy ===== *)
theory Odometry_Flow
  imports Visual_Odometry
begin

text \<open>
  What the search for the focus of expansion finds.  When all flow lines meet in one point, every usable pair of
  correspondences gives that point, all correspondences agree with it and the least-squares refit keeps it: the
  direction of motion is recovered exactly, whatever the random generator draws, as soon as one drawn pair is usable.
\<close>

section \<open>Corners of an image\<close>

text \<open>
  C15: The corner detector appends to the feature list corners that keep 4 pixels from the border and have nine
  contiguous circle pixels brighter, or nine darker, than the centre by the threshold; no two of them are
  closer than 8 pixels in both directions, there are at most \<open>max_features\<close> when that is positive, and if there are fewer, every corner of the image has an
  accepted one in its 8-pixel square whose score is at least its own.  This holds for every order the sort may give equal
  scores.  In an image of \<open>w * h\<close> bytes no pixel outside is read (\<open>circle_in_image\<close>); the corners already in the feature
  list are not looked at.
\<close>

theorem fast_corners_correct:
  assumes "score_sort_laws sorter"
  shows "\<exists>acc. detect_fast9 sorter img w h t mx fs = fs @ map fresh_feature acc \<and>
     (\<forall>(x, y)\<in>set acc. 4 \<le> x \<and> x < w - 4 \<and> 4 \<le> y \<and> y < h - 4 \<and> fast9_corner img w x y t) \<and>
     (\<forall>i j. i < j \<and> j < length acc \<longrightarrow> 8 \<le> \<bar>fst (acc ! j) - fst (acc ! i)\<bar> \<or> 8 \<le> \<bar>snd (acc ! j) - snd (acc ! i)\<bar>) \<and>
     (0 < mx \<longrightarrow> int (length acc) \<le> mx) \<and>
     (int (length acc) < mx \<longrightarrow> (\<forall>x y. 4 \<le> x \<and> x < w - 4 \<and> 4 \<le> y \<and> y < h - 4 \<and> fast9_corner img w x y t \<longrightarrow>
        (\<exists>(x', y')\<in>set acc. \<bar>x - x'\<bar> < 8 \<and> \<bar>y - y'\<bar> < 8 \<and> fast9_score img w x y t \<le> fast9_score img w x' y' t)))"
proof -
  let ?cands = "fast_candidates img w h t"
  define xs where "xs = sorter ?cands"
  have xs: "set xs = set ?cands" "sorted_wrt (\<lambda>a b. fst b \<le> fst a) xs"
  proof -
    have "mset xs = mset ?cands" using assms unfolding score_sort_laws_def xs_def by blast
    then show "set xs = set ?cands" by (rule mset_eq_setD)
    show "sorted_wrt (\<lambda>a b. fst b \<le> fst a) xs" using assms unfolding score_sort_laws_def xs_def by blast
  qed
  define acc where "acc = suppress mx [] xs"
  have "set acc \<subseteq> snd ` set ?cands" using suppress_from [of mx "[]" xs] by (simp add: acc_def xs(1))
  then have corners: "\<forall>(x, y)\<in>set acc. 4 \<le> x \<and> x < w - 4 \<and> 4 \<le> y \<and> y < h - 4 \<and> fast9_corner img w x y t"
    by (force simp: fast_candidates_iff fast_border_def)
  have "sorted_wrt (\<lambda>a p. \<not> nms_near p a) acc" unfolding acc_def by (rule suppress_apart) simp
  then have apart: "\<forall>i j. i < j \<and> j < length acc \<longrightarrow> 8 \<le> \<bar>fst (acc ! j) - fst (acc ! i)\<bar> \<or> 8 \<le> \<bar>snd (acc ! j) - snd (acc ! i)\<bar>"
    by (auto simp: sorted_wrt_iff_nth_less nms_near_def kNmsDist_def not_less)
  have scores: "\<forall>c\<in>set xs. fst c = (\<lambda>(x, y). fast9_score img w x y t) (snd c)"
    unfolding xs(1) by (auto simp: fast_candidates_iff)
  have cover: "\<exists>(x', y')\<in>set acc. \<bar>x - x'\<bar> < 8 \<and> \<bar>y - y'\<bar> < 8 \<and> fast9_score img w x y t \<le> fast9_score img w x' y' t"
    if "int (length acc) < mx" "4 \<le> x \<and> x < w - 4 \<and> 4 \<le> y \<and> y < h - 4 \<and> fast9_corner img w x y t" for x y
  proof -
    have "(fast9_score img w x y t, x, y) \<in> set xs" unfolding xs(1) using that(2) by (simp add: fast_candidates_iff fast_border_def)
    from suppress_covers [OF xs(2) scores that(1) [unfolded acc_def] this] show ?thesis
      by (fastforce simp: acc_def nms_near_def kNmsDist_def)
  qed
  have "detect_fast9 sorter img w h t mx fs = fs @ map fresh_feature acc" by (simp add: detect_fast9_def acc_def xs_def)
  moreover have "0 < mx \<longrightarrow> int (length acc) \<le> mx" using suppress_length [of "[]" mx xs] by (simp add: acc_def)
  ultimately show ?thesis using corners apart cover by (intro exI [of _ acc] conjI) blast+
qed

text \<open>A dark pixel in the middle of a bright image of 9 by 9 pixels is its one corner.\<close>

definition dot_image :: "8 word list" where
  "dot_image = replicate 40 255 @ [0] @ replicate 40 255"

lemma dot_image_nth: "i < 81 \<Longrightarrow> dot_image ! i = (if i = 40 then 0 else 255)"
  by (auto simp: dot_image_def nth_append nth_Cons')

lemma dot_image_circle:
  assumes "i < 16"
  shows "circle_px dot_image 9 4 4 i = 255"
proof -
  have "kFastCircle ! i \<in> set kFastCircle" using assms by (intro nth_mem) (simp add: kFastCircle_def)
  moreover have "\<forall>d\<in>set kFastCircle. nat ((4 + fst d) * 9 + (4 + snd d)) < 81 \<and> nat ((4 + fst d) * 9 + (4 + snd d)) \<noteq> 40"
    by (simp add: kFastCircle_def)
  ultimately show ?thesis by (simp add: circle_px_def gray_at_def dot_image_nth)
qed

lemma dot_image_corner: "fast9_corner dot_image 9 4 4 20"
  unfolding fast9_corner_def
  by (rule exI [of _ 0]) (simp add: dot_image_circle gray_at_def dot_image_nth)

theorem fast_corners_correct_witness:
  "map (\<lambda>f. (tf_x f, tf_y f)) (detect_fast9 (sort_key (\<lambda>c. - fst c)) dot_image 9 9 20 200 []) = [(Fin 4, Fin 4)]"
proof -
  have laws: "score_sort_laws (sort_key (\<lambda>c. - fst c))"
  proof -
    have "sorted (map (\<lambda>c. - fst c) (sort_key (\<lambda>c. - fst c) (xs :: ScoredCorner list)))" for xs by simp
    then show ?thesis unfolding score_sort_laws_def sorted_map by (simp add: mset_sort)
  qed
  obtain acc where acc: "detect_fast9 (sort_key (\<lambda>c. - fst c)) dot_image 9 9 20 200 [] = map fresh_feature acc"
    "\<forall>(x, y)\<in>set acc. 4 \<le> x \<and> x < 9 - 4 \<and> 4 \<le> y \<and> y < (9 :: int) - 4 \<and> fast9_corner dot_image 9 x y 20"
    "\<forall>i j. i < j \<and> j < length acc \<longrightarrow> 8 \<le> \<bar>fst (acc ! j) - fst (acc ! i)\<bar> \<or> 8 \<le> \<bar>snd (acc ! j) - snd (acc ! i)\<bar>"
    "int (length acc) < 200 \<longrightarrow> (\<forall>x y. 4 \<le> x \<and> x < 9 - 4 \<and> 4 \<le> y \<and> y < 9 - 4 \<and> fast9_corner dot_image 9 x y 20 \<longrightarrow>
       (\<exists>(x', y')\<in>set acc. \<bar>x - x'\<bar> < 8 \<and> \<bar>y - y'\<bar> < 8 \<and> fast9_score dot_image 9 x y 20 \<le> fast9_score dot_image 9 x' y' 20))"
    using fast_corners_correct [OF laws, of dot_image 9 9 20 200 "[]"] by (elim exE conjE) (simp only: append_Nil)
  have all4: "p = (4, 4)" if "p \<in> set acc" for p using acc(2) that by force
  have "length acc \<le> 1"
  proof (rule ccontr)
    assume "\<not> length acc \<le> 1"
    then have n: "1 < length acc" by simp
    then have "acc ! 0 \<in> set acc" "acc ! 1 \<in> set acc" by (intro nth_mem; linarith)+
    then have "acc ! 0 = (4, 4)" "acc ! 1 = (4, 4)" using all4 by blast+
    then show False using acc(3) [rule_format, of 0 1] n by simp
  qed
  moreover have "acc \<noteq> []" using acc(4) dot_image_corner by auto
  ultimately have "acc = [(4, 4)]" using all4 by (cases acc) auto
  then show ?thesis using acc(1) by (simp add: fresh_feature_def Let_def)
qed

section \<open>Exact correspondences\<close>

type_synonym RealFlow = "(real \<times> real) \<times> (real \<times> real)"

definition fin_corr :: "RealFlow \<Rightarrow> Correspondence" where
  "fin_corr r = ((Fin (fst (fst r)), Fin (snd (fst r))), (Fin (fst (snd r)), Fin (snd (snd r))))"

definition rfx :: "RealFlow \<Rightarrow> real" where "rfx r = fst (snd r) - fst (fst r)"
definition rfy :: "RealFlow \<Rightarrow> real" where "rfy r = snd (snd r) - snd (fst r)"

text \<open>The flow line of a correspondence passes through a point.\<close>

definition flow_meets :: "real \<times> real \<Rightarrow> RealFlow \<Rightarrow> bool" where
  "flow_meets e r \<longleftrightarrow> rfx r * (snd (fst r) - snd e) = rfy r * (fst (fst r) - fst e)"

definition flow_det :: "RealFlow \<Rightarrow> RealFlow \<Rightarrow> real" where
  "flow_det a b = rfx a * rfy b - rfy a * rfx b"

lemma fin_corr_flow [simp]:
  "flow_of (fin_corr r) = (Fin (rfx r), Fin (rfy r))" "flow_length (fin_corr r) = Fin (sqrt (rfx r * rfx r + rfy r * rfy r))"
  "fst (fin_corr r) = (Fin (fst (fst r)), Fin (snd (fst r)))"
  by (simp_all add: fin_corr_def flow_of_def flow_length_def rfx_def rfy_def not_less)

lemma cross_at_meeting: "flow_meets e r \<Longrightarrow> flow_line_cross (Fin (fst e), Fin (snd e)) (fin_corr r) = Fin 0"
  by (simp add: flow_line_cross_def flow_meets_def)

lemma inlier_at_meeting:
  assumes "flow_meets e r" "0 < thr"
  shows "foe_inlier (Fin thr) (Fin (fst e), Fin (snd e)) (fin_corr r)"
  using assms by (auto simp: foe_inlier_def Let_def cross_at_meeting static_flow_def)

lemma foe_of_pair_meeting:
  assumes "flow_meets e a" "flow_meets e b"
  shows "foe_of_pair (fin_corr a) (fin_corr b) =
    (if \<bar>flow_det a b\<bar> < 1 / 10 ^ 10 then None else Some (Fin (fst e), Fin (snd e)))"
proof -
  have la: "rfy a * fst (fst a) - rfx a * snd (fst a) = rfy a * fst e - rfx a * snd e"
    and lb: "rfy b * fst (fst b) - rfx b * snd (fst b) = rfy b * fst e - rfx b * snd e"
    using assms by (simp_all add: flow_meets_def algebra_simps)
  have d: "rfy a * (- rfx b) - (- rfx a) * rfy b = flow_det a b" by (simp add: flow_det_def)
  show ?thesis
  proof (cases "\<bar>flow_det a b\<bar> < 1 / 10 ^ 10")
    case True
    then show ?thesis using d by (simp add: foe_of_pair_def)
  next
    case False
    then have nz: "flow_det a b \<noteq> 0" by auto
    have x: "((rfy a * fst e - rfx a * snd e) * (- rfx b) - (rfy b * fst e - rfx b * snd e) * (- rfx a)) = flow_det a b * fst e"
      and y: "((rfy b * fst e - rfx b * snd e) * rfy a - (rfy a * fst e - rfx a * snd e) * rfy b) = flow_det a b * snd e"
      by (simp_all add: flow_det_def algebra_simps)
    show ?thesis using False nz d x y by (simp add: foe_of_pair_def la lb)
  qed
qed

section \<open>The search\<close>

definition draw_laws :: "('g \<Rightarrow> nat \<Rightarrow> nat \<times> 'g) \<Rightarrow> bool" where
  "draw_laws draw \<longleftrightarrow> (\<forall>g n. 0 < n \<longrightarrow> fst (draw g n) < n)"

fun drawn_pairs :: "('g \<Rightarrow> nat \<Rightarrow> nat \<times> 'g) \<Rightarrow> nat \<Rightarrow> nat \<Rightarrow> 'g \<Rightarrow> (nat \<times> nat) list" where
  "drawn_pairs draw n 0 g = []"
| "drawn_pairs draw n (Suc k) g = (let (a, g1) = draw g n; (b, g2) = draw g1 n in (a, b) # drawn_pairs draw n k g2)"

definition usable_pair :: "RealFlow list \<Rightarrow> nat \<times> nat \<Rightarrow> bool" where
  "usable_pair rs p \<longleftrightarrow> fst p \<noteq> snd p \<and> 1 / 10 ^ 10 \<le> \<bar>flow_det (rs ! fst p) (rs ! snd p)\<bar>"

text \<open>The only results a search can hold when all flow lines meet in \<open>e\<close>: nothing yet, or the meeting point.\<close>

definition found :: "real \<times> real \<Rightarrow> nat \<Rightarrow> int \<Rightarrow> FoeResult" where
  "found e n min_inliers =
     FoeResult_default\<lparr>foe_inliers := int n, foe_tx := Fin (fst e), foe_ty := Fin (snd e), foe_valid := min_inliers \<le> int n\<rparr>"

lemma foe_try_meeting:
  assumes "\<forall>r\<in>set rs. flow_meets e r" "0 < thr" "a < length rs" "b < length rs" "best = FoeResult_default \<or> best = found e (length rs) mi"
  shows "foe_try (map fin_corr rs) (Fin thr) mi a b best = (if usable_pair rs (a, b) then found e (length rs) mi else best)"
proof -
  have all: "filter (foe_inlier (Fin thr) (Fin (fst e), Fin (snd e))) (map fin_corr rs) = map fin_corr rs"
    using assms(1,2) inlier_at_meeting by (auto simp: filter_id_conv)
  have "0 < length rs" using assms(3) by linarith
  then show ?thesis
    using assms(3-5) foe_of_pair_meeting [of e "rs ! a" "rs ! b"] assms(1)
    by (auto simp: foe_try_def usable_pair_def all Let_def found_def FoeResult_default_def not_le)
qed

lemma foe_search_meeting:
  assumes "draw_laws draw" "\<forall>r\<in>set rs. flow_meets e r" "0 < thr" "rs \<noteq> []" "best = FoeResult_default \<or> best = found e (length rs) mi"
  shows "fst (foe_search draw (map fin_corr rs) (Fin thr) mi n best g) =
    (if \<exists>p\<in>set (drawn_pairs draw (length rs) n g). usable_pair rs p then found e (length rs) mi else best)"
  using assms(5)
proof (induction n arbitrary: best g)
  case (Suc n)
  obtain a g1 b g2 where d: "draw g (length rs) = (a, g1)" "draw g1 (length rs) = (b, g2)" by (meson surj_pair)
  have "a < length rs" "b < length rs" using assms(1,4) d unfolding draw_laws_def by (metis fst_conv length_greater_0_conv)+
  note step = foe_try_meeting [OF assms(2,3) this Suc.prems]
  show ?case
    using Suc.prems by (simp add: d step Suc.IH)
qed simp

section \<open>The refit\<close>

lemma double_sum_Fin: "double_sum (map (\<lambda>x. Fin (f x)) xs) = Fin (sum_list (map f xs))"
proof -
  have "foldl (+) (Fin a) (map (\<lambda>x. Fin (f x)) xs) = Fin (a + sum_list (map f xs))" for a
    by (induction xs arbitrary: a) (simp_all add: add.assoc)
  then show ?thesis by (simp add: double_sum_def)
qed

lemma foldl_minus_Fin: "foldl (\<lambda>s x. s - Fin (f x)) (Fin a) xs = Fin (a - sum_list (map f xs))"
  by (induction xs arbitrary: a) (simp_all add: algebra_simps)

lemma sum_list_linear: "sum_list (map (\<lambda>x. a * f x - b * g x :: real) xs) = a * sum_list (map f xs) - b * sum_list (map g xs)"
  by (induction xs) (simp_all add: algebra_simps)

lemma refit_meeting:
  assumes "\<forall>r\<in>set rs. flow_meets e r" "0 < thr" "foe_tx best = Fin (fst e)" "foe_ty best = Fin (snd e)"
  shows "foe_refit (Fin thr) (map fin_corr rs) best = best"
proof -
  have all: "refit_inliers (Fin thr) (Fin (fst e), Fin (snd e)) (map fin_corr rs) = map fin_corr rs"
    unfolding refit_inliers_def filter_id_conv using assms(1,2) by (auto simp: cross_at_meeting static_flow_def)
  define xx where "xx = sum_list (map (\<lambda>r. rfx r * rfx r) rs)"
  define xy where "xy = sum_list (map (\<lambda>r. rfx r * rfy r) rs)"
  define yy where "yy = sum_list (map (\<lambda>r. rfy r * rfy r) rs)"
  have line: "rfy r * fst (fst r) - rfx r * snd (fst r) = rfy r * fst e - rfx r * snd e" if "r \<in> set rs" for r
    using assms(1) that by (simp add: flow_meets_def algebra_simps)
  have b0: "sum_list (map (\<lambda>r. rfy r * (rfy r * fst (fst r) - rfx r * snd (fst r))) rs) = fst e * yy - snd e * xy"
    unfolding xy_def yy_def sum_list_linear [symmetric] by (intro arg_cong [of _ _ sum_list] map_cong) (simp_all add: line algebra_simps)
  have b1: "sum_list (map (\<lambda>r. rfx r * (rfy r * fst (fst r) - rfx r * snd (fst r))) rs) = fst e * xy - snd e * xx"
    unfolding xy_def xx_def sum_list_linear [symmetric] by (intro arg_cong [of _ _ sum_list] map_cong) (simp_all add: line algebra_simps)
  have yx: "sum_list (map (\<lambda>r. rfy r * rfx r) rs) = xy" by (simp add: xy_def mult.commute)
  have fold: "foldl (\<lambda>s c. s - snd (flow_of c) * fst (flow_of c)) 0 (map fin_corr rs) = Fin (- xy)"
    "foldl (\<lambda>s c. s - fst (flow_of c) * snd (flow_of c)) 0 (map fin_corr rs) = Fin (- xy)"
    "foldl (\<lambda>s c. s - fst (flow_of c) * (snd (flow_of c) * fst (fst c) - fst (flow_of c) * snd (fst c))) 0 (map fin_corr rs) =
       Fin (snd e * xx - fst e * xy)"
    using foldl_minus_Fin [of "\<lambda>r. rfy r * rfx r" 0 rs] foldl_minus_Fin [of "\<lambda>r. rfx r * rfy r" 0 rs] yx
      foldl_minus_Fin [of "\<lambda>r. rfx r * (rfy r * fst (fst r) - rfx r * snd (fst r))" 0 rs] b1
    by (simp_all add: foldl_map xy_def)
  have sums: "double_sum (map (\<lambda>c. snd (flow_of c) * snd (flow_of c)) (map fin_corr rs)) = Fin yy"
    "double_sum (map (\<lambda>c. fst (flow_of c) * fst (flow_of c)) (map fin_corr rs)) = Fin xx"
    "double_sum (map (\<lambda>c. snd (flow_of c) * (snd (flow_of c) * fst (fst c) - fst (flow_of c) * snd (fst c))) (map fin_corr rs)) =
       Fin (fst e * yy - snd e * xy)"
    using double_sum_Fin [of "\<lambda>r. rfy r * rfy r" rs] double_sum_Fin [of "\<lambda>r. rfx r * rfx r" rs]
      double_sum_Fin [of "\<lambda>r. rfy r * (rfy r * fst (fst r) - rfx r * snd (fst r))" rs] b0
    by (simp_all add: comp_def xx_def yy_def)
  let ?d = "yy * xx - (- xy) * (- xy)"
  have tx: "((fst e * yy - snd e * xy) * xx - (snd e * xx - fst e * xy) * (- xy)) = ?d * fst e"
    and ty: "((snd e * xx - fst e * xy) * yy - (fst e * yy - snd e * xy) * (- xy)) = ?d * snd e"
    by (simp_all add: algebra_simps)
  show ?thesis
    unfolding foe_refit_def Let_def assms(3,4) all fold sums using assms(3,4) tx ty
    by (cases "?d = 0") simp_all
qed

text \<open>
  C28: When all correspondences flow along lines through one point (those that do not move included) and the inlier
  threshold is positive, the search for the focus of expansion finds
  exactly that point with every correspondence as an inlier, whatever the generator draws.  It succeeds precisely when there are at least
  eight correspondences and the required number of inliers, and one of the drawn pairs is not degenerate.
\<close>

theorem foe_recovers_direction:
  assumes "draw_laws draw" "\<forall>r\<in>set rs. flow_meets e r" "0 < thr"
  shows "let res = fst (foe_ransac draw (map fin_corr rs) iterations (Fin thr) min_inliers g)
     in (foe_valid res \<longleftrightarrow> 8 \<le> length rs \<and> min_inliers \<le> int (length rs) \<and>
           (\<exists>p\<in>set (drawn_pairs draw (length rs) (nat iterations) g). usable_pair rs p)) \<and>
        (foe_valid res \<longrightarrow> foe_tx res = Fin (fst e) \<and> foe_ty res = Fin (snd e) \<and> foe_inliers res = int (length rs))"
proof (cases "8 \<le> length rs")
  case True
  then have ne: "rs \<noteq> []" by auto
  let ?s = "foe_search draw (map fin_corr rs) (Fin thr) min_inliers (nat iterations) FoeResult_default g"
  note s = foe_search_meeting [OF assms ne, of FoeResult_default min_inliers "nat iterations" g]
  show ?thesis
  proof (cases "\<exists>p\<in>set (drawn_pairs draw (length rs) (nat iterations) g). usable_pair rs p")
    case use: True
    have f: "fst ?s = found e (length rs) min_inliers" using s use by simp
    have r: "foe_refit (Fin thr) (map fin_corr rs) (found e (length rs) min_inliers) = found e (length rs) min_inliers"
      by (rule refit_meeting [OF assms(2,3)]) (simp_all add: found_def)
    show ?thesis using True use f r
      by (simp add: foe_ransac_def case_prod_unfold Let_def split: option.splits) (simp add: found_def FoeResult_default_def)
  next
    case False
    have "fst ?s = FoeResult_default" using s False by simp
    then show ?thesis using True False by (simp add: foe_ransac_def case_prod_unfold Let_def FoeResult_default_def)
  qed
qed (simp add: foe_ransac_def FoeResult_default_def Let_def)

text \<open>Eight corners that flow away from (1, 2), and a generator that counts.\<close>

definition expanding_flow :: "RealFlow list" where
  "expanding_flow = map (\<lambda>(dx, dy). ((1 + dx, 2 + dy), (1 + 3 / 2 * dx, 2 + 3 / 2 * dy)))
     [(1, 0), (0, 1), (1, 1), (2, 1), (1, 2), (- 1, 0), (0, - 1), (- 1, 1)]"

definition counting_draw :: "nat \<Rightarrow> nat \<Rightarrow> nat \<times> nat" where
  "counting_draw g n = (g mod n, Suc g)"

theorem foe_recovers_direction_witness:
  "let res = fst (foe_ransac counting_draw (map fin_corr expanding_flow) 1 (Fin (3 / 1000)) 6 0)
   in foe_valid res \<and> foe_tx res = Fin 1 \<and> foe_ty res = Fin 2 \<and> foe_inliers res = 8"
proof -
  have laws: "draw_laws counting_draw" by (simp add: draw_laws_def counting_draw_def)
  have meets: "\<forall>r\<in>set expanding_flow. flow_meets (1, 2) r"
    by (simp add: expanding_flow_def flow_meets_def rfx_def rfy_def)
  have n: "length expanding_flow = 8" by (simp add: expanding_flow_def)
  have "usable_pair expanding_flow (0, 1)"
    by (simp add: usable_pair_def expanding_flow_def flow_det_def rfx_def rfy_def)
  then have "\<exists>p\<in>set (drawn_pairs counting_draw (length expanding_flow) (nat 1) 0). usable_pair expanding_flow p"
    by (simp add: n counting_draw_def)
  then show ?thesis
    using foe_recovers_direction [OF laws meets, of "3 / 1000" 1 6 0] by (simp add: n Let_def)
qed

end
