(* ===== verification/Odometry_Properties.thy ===== *)
theory Odometry_Properties
  imports Odometry_Flow Follow_Limits
begin

text \<open>
  What every ego state provider promises of its confidence, stated as a locale and shown of the two telemetry providers and of the
  visual provider without a planning map, alone or with telemetry to fall back on; and what the visual provider reports as attitude.
\<close>

section \<open>The interface\<close>

definition confidence_ok :: "double \<Rightarrow> bool" where
  "confidence_ok c \<longleftrightarrow> 0 \<le> c \<and> c \<le> 1"

locale ego_state_provider =
  fixes estimate :: "VisionFrame \<Rightarrow> 's \<Rightarrow> EgoStateEstimate \<times> 's"
    and ok :: "'s \<Rightarrow> bool"
    and good :: "VisionFrame \<Rightarrow> bool"
  assumes ok_step: "ok s \<Longrightarrow> good f \<Longrightarrow> ok (snd (estimate f s))"
    and confident: "ok s \<Longrightarrow> good f \<Longrightarrow> confidence_ok (ee_confidence (fst (estimate f s)))"
begin

fun estimates :: "VisionFrame list \<Rightarrow> 's \<Rightarrow> EgoStateEstimate list" where
  "estimates [] s = []"
| "estimates (f # fs) s = fst (estimate f s) # estimates fs (snd (estimate f s))"

lemma all_confident: "ok s \<Longrightarrow> \<forall>f\<in>set fs. good f \<Longrightarrow> \<forall>e\<in>set (estimates fs s). confidence_ok (ee_confidence e)"
proof (induction fs arbitrary: s)
  case (Cons f fs)
  have "good f" "\<forall>f\<in>set fs. good f" using Cons.prems(2) by simp_all
  then show ?case using Cons.IH [OF ok_step [OF Cons.prems(1)]] confident [OF Cons.prems(1)] by simp
qed simp

end

interpretation hint: ego_state_provider "\<lambda>f s. (frame_hint_estimate m f, s)" "\<lambda>_. True" "\<lambda>_. True" for m
  by unfold_locales (auto simp: frame_hint_estimate_def confidence_ok_def split: option.splits)

interpretation blind: ego_state_provider "\<lambda>f s. (no_telemetry_estimate m f, s)" "\<lambda>_. True" "\<lambda>_. True" for m
  by unfold_locales (auto simp: no_telemetry_estimate_def confidence_ok_def)

section \<open>Drift and scale\<close>

definition nonneg :: "double \<Rightarrow> bool" where
  "nonneg x \<longleftrightarrow> isfinite x \<and> 0 \<le> x"

lemma nonneg_arith [intro]:
  "nonneg a \<Longrightarrow> nonneg b \<Longrightarrow> nonneg (a + b)" "nonneg a \<Longrightarrow> nonneg b \<Longrightarrow> nonneg (a * b)"
  by (cases a; cases b; simp add: nonneg_def)+

definition drift_ok :: "VisualOdometryState \<Rightarrow> bool" where
  "drift_ok st \<longleftrightarrow> nonneg (ms_scale (vo_scale st)) \<and> nonneg (vo_cumulative_drift_m st)"

lemma drift_confidence_ok: "drift_ok st \<Longrightarrow> confidence_ok (drift_confidence st)"
  by (cases "vo_cumulative_drift_m st") (auto simp: drift_ok_def nonneg_def drift_confidence_def confidence_ok_def divide_le_eq)

text \<open>The inlier fraction lies between 0 and 1.\<close>

lemma foe_search_inliers:
  "0 \<le> foe_inliers best \<and> foe_inliers best \<le> int (length cs) \<Longrightarrow>
   0 \<le> foe_inliers (fst (foe_search draw cs thr mi n best g)) \<and> foe_inliers (fst (foe_search draw cs thr mi n best g)) \<le> int (length cs)"
proof (induction n arbitrary: best g)
  case (Suc n)
  have "0 \<le> foe_inliers (foe_try cs thr mi a b best) \<and> foe_inliers (foe_try cs thr mi a b best) \<le> int (length cs)" for a b
    using Suc.prems by (auto simp: foe_try_def Let_def split: option.splits)
  with Suc.IH show ?case by (simp add: Let_def case_prod_unfold)
qed simp

lemma foe_ransac_inliers:
  "0 \<le> foe_inliers (fst (foe_ransac draw cs it thr mi g)) \<and> foe_inliers (fst (foe_ransac draw cs it thr mi g)) \<le> int (length cs)"
proof -
  have refit: "foe_inliers (foe_refit thr cs best) = foe_inliers best" for best by (simp add: foe_refit_def Let_def)
  have d: "foe_inliers FoeResult_default = 0" by (simp add: FoeResult_default_def)
  then have "0 \<le> foe_inliers FoeResult_default \<and> foe_inliers FoeResult_default \<le> int (length cs)" by simp
  note inl = foe_search_inliers [OF this, of draw thr mi "nat it" g]
  show ?thesis
  proof (cases "length cs < 8 \<or> \<not> foe_valid (fst (foe_search draw cs thr mi (nat it) FoeResult_default g))")
    case True
    then show ?thesis using inl d by (auto simp: foe_ransac_def case_prod_unfold)
  next
    case False
    then have "foe_inliers (fst (foe_ransac draw cs it thr mi g)) = foe_inliers (fst (foe_search draw cs thr mi (nat it) FoeResult_default g))"
      unfolding foe_ransac_def Let_def case_prod_unfold by (auto simp: refit split: option.splits)
    then show ?thesis using inl by simp
  qed
qed

lemma mean_flow_drift: "drift_ok st \<Longrightarrow> drift_ok (snd (apply_mean_flow c thr cs st))"
  by (auto simp: apply_mean_flow_def Let_def drift_ok_def)

lemma integrate_drift:
  assumes "drift_ok st" "0 \<le> r" "r \<le> 1"
  shows "drift_ok (integrate_foe c foe (Fin r) st)"
proof -
  have "nonneg (1 - Fin r)" using assms(3) by (simp add: nonneg_def)
  then show ?thesis using assms(1) by (auto simp: integrate_foe_def Let_def drift_ok_def)
qed

lemma step_drift:
  assumes "drift_ok st"
  shows "drift_ok (fst (snd (step_vl1 draw sorter c gray w h K st g)))"
proof -
  define st1 where "st1 = st\<lparr>vo_features := refresh_features sorter c gray w h st\<rparr>"
  have st1: "drift_ok st1" using assms by (simp add: st1_def drift_ok_def)
  define cs where "cs = correspondences K (vo_features st1)"
  define thr where "thr = voc_foe_ransac_threshold c / ci_fx K"
  let ?r = "foe_ransac draw cs (voc_foe_ransac_iterations c) thr (voc_foe_min_inliers c) g"
  have frac: "cs \<noteq> [] \<Longrightarrow> drift_ok (integrate_foe c (fst ?r) (Fin (of_int (foe_inliers (fst ?r))) / Fin (real (length cs))) st1)"
    using foe_ransac_inliers [of draw cs "voc_foe_ransac_iterations c" thr "voc_foe_min_inliers c" g]
    by (simp add: integrate_drift [OF st1] divide_le_eq)
  show ?thesis
    unfolding step_vl1_def Let_def st1_def [symmetric] cs_def [symmetric] thr_def [symmetric]
    using st1 frac mean_flow_drift [OF st1] by (simp add: case_prod_unfold)
qed

section \<open>The visual provider without a planning map\<close>

definition finite_motion :: "VisionFrame \<Rightarrow> bool" where
  "finite_motion f \<longleftrightarrow> (\<forall>hint. vf_ego_hint f = Some hint \<longrightarrow> finite_point (ego_velocity_local hint))"

lemma hint_speed: "finite_motion f \<Longrightarrow> vf_ego_hint f = Some hint \<Longrightarrow> nonneg (vec_length (ego_velocity_local hint) * visual_dt_s)"
proof -
  assume "finite_motion f" "vf_ego_hint f = Some hint"
  then obtain x y z where v: "ego_velocity_local hint = vec3 (Fin x) (Fin y) (Fin z)"
    by (cases "ego_velocity_local hint") (auto simp: finite_motion_def finite_point_def isfinite_iff)
  have "vec_length (ego_velocity_local hint) = Fin (sqrt (x * x + y * y + z * z))" by (simp add: v vec_length_def not_less)
  then show ?thesis by (simp add: nonneg_def visual_dt_s_def)
qed

lemma scale_from_hint_drift: "finite_motion f \<Longrightarrow> drift_ok st \<Longrightarrow> drift_ok (scale_from_hint f st)"
  by (auto simp: scale_from_hint_def Let_def drift_ok_def hint_speed split: option.splits)

lemma dead_reckoning_drift: "finite_motion f \<Longrightarrow> drift_ok st \<Longrightarrow> drift_ok (dead_reckoning c f r st)"
  by (auto simp: dead_reckoning_def Let_def drift_ok_def hint_speed split: option.splits)

lemma heading_drift: "drift_ok (heading_from_hint f st) = drift_ok st"
  by (simp add: heading_from_hint_def drift_ok_def split: option.splits)

lemma first_frame_drift:
  assumes "nonneg (voc_initial_scale_m c)" "drift_ok st"
  shows "drift_ok (snd (first_frame sorter c f gray st)) \<and> confidence_ok (ee_confidence (fst (first_frame sorter c f gray st)))"
  using assms by (simp add: first_frame_def Let_def drift_ok_def confidence_ok_def split: option.splits)

definition fallback_ok :: "(VisionFrame \<Rightarrow> 'f \<Rightarrow> EgoStateEstimate \<times> 'f) option \<Rightarrow> bool" where
  "fallback_ok fallback \<longleftrightarrow> (\<forall>fb. fallback = Some fb \<longrightarrow> (\<forall>f s. confidence_ok (ee_confidence (fst (fb f s)))))"

lemma conclude_drift:
  assumes "drift_ok st" "fallback_ok fallback"
  shows "drift_ok (fst (snd (conclude_frame fallback c f gray st fs))) \<and>
    confidence_ok (ee_confidence (fst (conclude_frame fallback c f gray st fs)))"
proof -
  have third: "nonneg (vo_cumulative_drift_m st * Fin (3/10))" using assms(1) by (intro nonneg_arith) (auto simp: drift_ok_def nonneg_def)
  show ?thesis using assms third drift_confidence_ok [OF assms(1)]
    by (auto simp: conclude_frame_def drift_ok_def fallback_ok_def case_prod_unfold Let_def split: option.splits)
qed

text \<open>Without a planning map an estimate always returns.\<close>

lemma visual_estimate_step:
  assumes "nonneg (voc_initial_scale_m c)" "fallback_ok fallback" "finite_motion f" "drift_ok (fst s)"
  shows "\<exists>e s'. visual_estimate draw sorter None fallback c f s = Some (e, s') \<and> drift_ok (fst s') \<and> confidence_ok (ee_confidence e)"
proof -
  obtain st g fs where s: "s = (st, g, fs)" by (cases s)
  let ?w = "iv_width (vf_image f)" and ?h = "iv_height (vf_image f)" and ?gray = "gray_image (vf_image f)"
  show ?thesis
  proof (cases "?w \<le> 0 \<or> ?h \<le> 0 \<or> iv_bytes (vf_image f) = []")
    case True
    then show ?thesis using assms(4) by (simp add: visual_estimate_def s Let_def confidence_ok_def)
  next
    case image: False
    show ?thesis
    proof (cases "vo_initialized st")
      case False
      then show ?thesis using image first_frame_drift [OF assms(1), of st sorter f ?gray] assms(4)
        by (simp add: visual_estimate_def s Let_def case_prod_unfold)
    next
      case True
      obtain r st1 g' where step: "step_vl1 draw sorter c ?gray ?w ?h (frame_intrinsics f) (scale_from_hint f st) g = (r, st1, g')"
        by (cases "step_vl1 draw sorter c ?gray ?w ?h (frame_intrinsics f) (scale_from_hint f st) g")
      have "drift_ok st1"
        using step_drift [OF scale_from_hint_drift [OF assms(3)], of st draw sorter c ?gray ?w ?h "frame_intrinsics f" g] assms(4)
        by (simp add: s step)
      then have "drift_ok (heading_from_hint f (dead_reckoning c f r st1))"
        by (simp add: heading_drift dead_reckoning_drift assms(3))
      from conclude_drift [OF this assms(2), of c f ?gray fs] show ?thesis
        using image True by (simp add: visual_estimate_def s Let_def step correct_from_map_def case_prod_unfold)
    qed
  qed
qed

definition visual_ok :: "VisualOdometryConfig \<Rightarrow> VisualOdometryState \<times> 'g \<times> 'f \<Rightarrow> bool" where
  "visual_ok c s \<longleftrightarrow> nonneg (voc_initial_scale_m c) \<and> drift_ok (fst s)"

interpretation visual: ego_state_provider "\<lambda>f s. the (visual_estimate draw sorter None (Some (\<lambda>f s. (frame_hint_estimate m f, s))) c f s)"
  "visual_ok c" finite_motion for draw sorter m c
proof
  have fb: "fallback_ok (Some (\<lambda>f s. (frame_hint_estimate m f, s)))" using hint.confident by (simp add: fallback_ok_def)
  show "visual_ok c (snd (the (visual_estimate draw sorter None (Some (\<lambda>f s. (frame_hint_estimate m f, s))) c f s)))"
    "confidence_ok (ee_confidence (fst (the (visual_estimate draw sorter None (Some (\<lambda>f s. (frame_hint_estimate m f, s))) c f s))))"
    if "visual_ok c s" "finite_motion f" for s :: "VisualOdometryState \<times> 'a \<times> 'b" and f
    using visual_estimate_step [OF _ fb that(2), of c s draw sorter] that(1) by (auto simp: visual_ok_def)
qed

section \<open>The reported attitude\<close>

text \<open>
  With a heading from telemetry the rotation kept is that of the camera in the map, but it is reported as the attitude of the
  body: a level vehicle facing north is reported a quarter turn to the right and rolled over by a quarter turn.
\<close>

lemma reported_attitude_is_camera:
  assumes "vo_rotation st = rotation_from_yaw 0"
  shows "rotation_rpy (ego_local_T_body (reported_ego c f st)) = vec3 (Fin (pi / 2)) (Fin 0) (Fin (pi / 2))"
  using assms by (simp add: reported_ego_def rotation_from_yaw_def mat3_mul_def Let_def real_atan2_def split: option.splits)

text \<open>A depth that is NaN passes both range checks.\<close>

lemma nan_depth_is_used:
  "feature_depth 1 1 \<lparr>df_sensor_name = [], df_width = 1, df_height = 1, df_depth_m = [NaN]\<rparr>
     \<lparr>tf_x = 0, tf_y = 0, tf_x_prev = 0, tf_y_prev = 0, tf_valid = True, tf_age = 1\<rparr> = Some NaN"
  by (simp add: feature_depth_def Let_def in_int_range_def int_min_def int_max_def)

text \<open>New corners are added to the tracked ones without regard to the limit or to the distance from them.\<close>

lemma detection_ignores_tracked:
  "length (detect_fast9 sorter img w h t mx fs) = length fs + length (detect_fast9 sorter img w h t mx [])"
  by (simp add: detect_fast9_def)

end
