(* ===== verification/Spec2Isabelle.thy ===== *)
theory Spec2Isabelle
  imports Planning_Database Map_Assimilator Trajectory_Safety Behavior_Properties Object_Samples Runtime_Properties Velocity_Properties Esdf_Safety Polar_Properties Depth_Limits World_Properties Config_Validity Runtime_Services Perch_Evaluator Odometry_Properties
begin

text \<open>
  dedalus is the flight stack of a camera drone.  Obstacle evidence from depth sensing is kept in
  three maps of increasing lifetime, an ego-local flight map is projected from them and candidate
  trajectories are checked against it; a mission controller reads the world snapshot and
  commands the autopilot.  This development models depth sensing and the world model
  (\<open>src/src/sensing\<close>, \<open>src/src/world_model\<close>), the maps (\<open>src/src/avoidance\<close>,
  \<open>src/src/geometry\<close>) and the behaviour layer (\<open>src/src/behavior\<close>), and proves their main properties.

  \<^bold>\<open>The parts and how they interact.\<close>  Evidence of a frame updates the raw obstacle map; its
  snapshots pass through the bounded queue of the assimilator into the traversability map (L1),
  whose updates are merged into the persistent planning map (L2), which evicts, answers box and
  sphere queries, casts rays, slides its window and persists to SQLite.  The flight map is a
  grid around the vehicle into which the cells of the raw map are projected with the pose transforms,
  classified and inflated; the trajectory safety evaluator reads it.  A distance field is computed
  from a window of the planning map and answers clearance and repulsion queries.  The behaviour layer
  parses a mission specification; each tick of the object-behaviour controller selects a target in the
  world snapshot, computes a velocity with the geometry policy and moves its life cycle; a second
  controller flies a scripted velocity trajectory.  The mission runtime is the loop around either:
  it hands it the latest snapshot, sends its commands to the sinks, watches its own timing; the
  flight-control tracker relates the commands to the telemetry.

  \<^bold>\<open>Theories.\<close>
  \<^item> \<open>Dedalus_Prelude\<close>: the model of \<open>double\<close>, the standard functions, time points and vectors
    (\<open>core/types.hpp\<close>), named collections and lemmas shared by all components.
  \<^item> \<open>Voxel_Store\<close>: the vector of cells with its key index that all three maps use, as a locale with
    the laws of lookup, insertion and removal.
  \<^item> \<open>Occupancy_Types\<close>, \<open>World_State\<close>: evidence and snapshot records
    (\<open>occupancy_types.hpp\<close>, \<open>world_snapshot.hpp\<close>).
  \<^item> \<open>Obstacle_Map\<close>: \<open>mission_local_obstacle_map.cpp\<close>.
  \<^item> \<open>Traversability_Map\<close>, \<open>_Invariant\<close>, \<open>_Derived\<close>, \<open>_Properties\<close>:
    \<open>mission_local_traversability_map.cpp\<close>, its invariant, the derived fields, the theorems.
  \<^item> \<open>Planning_Map\<close>, \<open>_Invariant\<close>, \<open>_Update\<close>, \<open>_Query\<close>, \<open>_Raycast\<close>,
    \<open>_Persistence\<close>, \<open>_Properties\<close>, \<open>_Database\<close>: \<open>mission_local_planning_map*.cpp\<close>.
  \<^item> \<open>Map_Assimilator\<close>: \<open>mission_map_assimilator.cpp\<close>, over a locale for the map it feeds,
    interpreted on the traversability map.
  \<^item> \<open>Pose_Transform\<close>: \<open>pose_transform.cpp\<close>.
  \<^item> \<open>Local_Flight_Map\<close>, \<open>_Grid\<close>, \<open>_Invariant\<close>, \<open>_Properties\<close>, \<open>Trajectory_Safety\<close>:
    \<open>local_flight_map*.cpp\<close>, \<open>trajectory_safety_evaluator.cpp\<close>.
  \<^item> \<open>Polar_Risk\<close>, \<open>Polar_Properties\<close>: the polar and spherical risk map and the sensor observations of
    \<open>local_flight_map.cpp\<close>.
  \<^item> \<open>Sensing_Coverage\<close>, \<open>Sensing_Properties\<close>: \<open>sensing_coverage.cpp\<close> and
    \<open>camera_pointing_state_store.cpp\<close>, where the cameras look.
  \<^item> \<open>Depth_Projection\<close>, \<open>Depth_Pipeline\<close>, \<open>Thin_Components\<close>, \<open>Depth_Properties\<close>, \<open>Depth_Limits\<close>:
    \<open>depth_projection_kernel.cpp\<close> and the two depth detectors, from a depth image to obstacle evidence.
  \<^item> \<open>Obstacle_Products\<close>, \<open>World_Model\<close>, \<open>World_Properties\<close>: \<open>obstacle_products.cpp\<close>,
    \<open>in_memory_world_model.cpp\<close>, \<open>rough_flight_map_builder.cpp\<close>, \<open>tactical_obstacle_mapper.cpp\<close>.
  \<^item> \<open>Visual_Features\<close>, \<open>Visual_Odometry\<close>, \<open>Odometry_Flow\<close>, \<open>Odometry_Properties\<close>: \<open>visual_ego_state_provider.cpp\<close> and
    \<open>ego_state_provider.cpp\<close>: corners and their tracking, one frame of odometry, the search for the direction of motion, and
    the contract of an ego state provider as a locale interpreted on the three providers.
  \<^item> \<open>Perception\<close>: \<open>perception_pipeline.cpp\<close>, its stages as a locale interpreted on those of the file.
  \<^item> \<open>Perch_Evaluator\<close>, \<open>Runtime_Services\<close>: \<open>perch_candidate_evaluator.cpp\<close>; \<open>evaluation_slot.hpp\<close>, \<open>pubsub.hpp\<close>,
    \<open>in_process_bus.hpp\<close>.
  \<^item> \<open>Mission_Options\<close>, \<open>Stack_Config\<close>, \<open>Config_Loading\<close>, \<open>Config_Properties\<close>, \<open>Config_Validity\<close>:
    \<open>config_loader.cpp\<close>, \<open>object_behavior_config.cpp\<close> and the names of \<open>provider_registry.cpp\<close>: the keys of a
    configuration, files that include each other, validation, and the controllers' configurations.
  \<^item> \<open>Behavior_Spec\<close>, \<open>Behavior_Parser\<close>, \<open>Behavior_Config\<close>, \<open>Behavior_Properties\<close>:
    \<open>behavior_spec.cpp\<close>, \<open>behavior_spec_strings.cpp\<close>: enumerators, the YAML and JSON readers, the
    mission parser, its theorems.
  \<^item> \<open>Target_Selector\<close>: \<open>target_selector.cpp\<close>, the choice of the best candidate as a locale.
  \<^item> \<open>Mission_Types\<close>: \<open>mission_controller.hpp\<close> and \<open>flight_control_state_tracker.hpp\<close>.
  \<^item> \<open>Follow_Geometry\<close>, \<open>Follow_Limits\<close>: \<open>follow_geometry_policy*.cpp\<close> and its limits.
  \<^item> \<open>Object_Controller\<close>, \<open>Object_Tick\<close>, \<open>Object_Properties\<close>, \<open>Object_Flight\<close>,
    \<open>Object_Samples\<close>: \<open>object_behavior_mission_controller*.cpp\<close>: state and helpers, the
    handlers and the tick, the life cycle, velocities, and a concrete flight.
  \<^item> \<open>Velocity_Trajectory\<close>, \<open>Velocity_Properties\<close>: \<open>velocity_trajectory.cpp\<close>, \<open>velocity_trajectory_parse.cpp\<close>.
  \<^item> \<open>Trajectory_Controller\<close>, \<open>Trajectory_Properties\<close>: \<open>trajectory_mission_controller*.cpp\<close>.
  \<^item> \<open>Controller_Contract\<close>: what the runtime may expect of a controller, as a locale interpreted on both.
  \<^item> \<open>Mission_Runtime\<close>, \<open>Runtime_Properties\<close>: \<open>mission_runtime.cpp\<close>, \<open>mission_runtime_dispatch.cpp\<close>; the
    theorems are proved once over the contract.
  \<^item> \<open>Distance_Transform\<close>, \<open>Esdf_Map\<close>, \<open>Esdf_Properties\<close>, \<open>Esdf_Safety\<close>: \<open>compute_esdf.cpp\<close>,
    \<open>local_esdf_map.cpp\<close>, \<open>local_esdf_map_incremental.cpp\<close>.

  \<^bold>\<open>What is shown.\<close>  For depth sensing: a pixel's point lies on the ray of the pixel, for a lens with radial distortion too, each block of the image yields the
  evidence of its fifth percentile, the component search is exact and the pipeline returns within its limit, or fails when its buffer
  cannot be allocated.  The world model stays consistent whatever it is fed; every detection that does not make the perception throw becomes
  one agent at the point it was seen at.  The corner detector accepts real corners only, apart from each other, and leaves none uncovered; the
  direction of motion is recovered exactly from exact flow; the reported confidence of every ego state provider stays between 0 and 1 on finite input.  Configuration files are applied as one list of assignments in which the last one
  wins, loading ends, and what it returns passes the checks.  For every map: the invariant of all reachable states; updates terminate, in exact
  arithmetic; incremental bookkeeping (touched keys, occupied sets, spatial
  buckets, dirty and evicted keys, summaries) agrees with a full scan; deltas lose no change; ray casting
  reports the first occupied voxel; what reaches the database comes back.  The distance transform
  computes the distance to the nearest obstacle exactly, and what the field calls clear is clear up to
  a voxel.  For the flight map: the
  inflated cells are exactly the discs around obstacles and a trajectory through an obstacle of
  the mission map is reported blocked, and the polar risk map reports in each direction the nearest
  obstacle at 0.1 m or farther and no other.  For the behaviour layer: parsed missions are well formed, trees printed as
  JSON are read back unchanged, the selector picks the best candidate, commanded velocities respect
  the limits, the controller refines its life cycle, always returns, leaves every waiting state
  when its time-out has passed and disarms only on the ground; a trajectory mission follows the clock; under
  the runtime the sinks receive exactly the controller's commands, once each and in order, and a loop that overruns in flight brings the vehicle
  home.  Lemmas beside them record where the code loses
  evidence or contradicts its documentation.

  \<^bold>\<open>Modelling choices.\<close>  A \<open>double\<close> or \<open>float\<close> is an exact real, an infinity or NaN: comparisons and
  \<open>std::min\<close>, \<open>std::max\<close> and \<open>std::clamp\<close> follow IEEE on those, rounding, overflow of finite values
  and the sign of zero are not modelled, and \<open>kPi\<close> is the real number.  Counters the code keeps in
  fixed-width words are words where the wrap-around can be reached by the code and natural numbers for
  \<open>std::size_t\<close> counts; grid indices are unbounded integers.  The wall clock, the files and environment of the host, \<open>std::stod\<close> and SQLite
  are arguments, as are \<open>std::nth_element\<close> and \<open>std::sort\<close> with their laws, the random generator, the allocation of the depth
  pipeline's buffer, the fallback of the odometry and the neural depth engine, SQLite with the laws \<open>sqlite_laws\<close>, satisfied by an in-memory table.  Hash
  containers are lists or maps, and where an iteration order is visible the theorems quantify over
  it.  A mutex makes each member function one step.  Exceptions are the left injection of their message.  Loops
  that may not end return \<open>None\<close>; the JSON reader's fuel is one more than the length of the text, proved
  enough.  Event payloads keep their identifying values, printing to \<open>stderr\<close> is left out.

  \<^bold>\<open>Not modelled.\<close>  Left out: neural inference, ghost targets, frame sources, camera and simulator drivers, MAVLink and sockets, the loop of the core stack runner around them,
  publishers, artifact writers and the viewer, which are input, output or formatting around the parts above.
\<close>

end
